(* ===== verification/Prelude.thy ===== *)
theory Prelude
  imports Main "HOL-Library.Word"
begin

text \<open>
  Shared vocabulary of the development: the fixed-width integers of the C++ code, the
  collections of rewrite rules the component theories extend, and the generic facts on
  words, address ranges and lists that several components use.

  Every \<^verbatim>\<open>uintN_t\<close> is an \<open>N word\<close>, so \<open>+\<close>, \<open>-\<close> and \<open>*\<close> wrap around as in the source.
  Addresses are compared as unsigned numbers; the lemmas of this theory move such
  comparisons to \<open>nat\<close> through \<open>unat\<close>.
\<close>

unbundle bit_operations_syntax

type_synonym u8 = "8 word"
type_synonym u16 = "16 word"
type_synonym u32 = "32 word"
type_synonym u64 = "64 word"

named_theorems mm_defs \<open>definitions of the memory manager's small helpers\<close>
named_theorems cpu_defs \<open>definitions of the CPU context's small helpers\<close>

subsection \<open>Half-open address ranges\<close>

text \<open>
  The range of \<open>n\<close> bytes from \<open>p\<close>, read as natural numbers. A range that wraps around the
  64-bit space is never \<open>in_range\<close> beyond its last byte: the predicates below are stated on
  \<open>unat\<close>, where \<open>p + n\<close> does not wrap.
\<close>

definition in_range :: "u64 \<Rightarrow> u64 \<Rightarrow> u64 \<Rightarrow> bool" where
  "in_range p n a \<longleftrightarrow> unat p \<le> unat a \<and> unat a < unat p + unat n"

definition no_wrap :: "u64 \<Rightarrow> u64 \<Rightarrow> bool" where
  "no_wrap p n \<longleftrightarrow> unat p + unat n < 2 ^ 64"

definition ranges_disjoint :: "u64 \<Rightarrow> u64 \<Rightarrow> u64 \<Rightarrow> u64 \<Rightarrow> bool" where
  "ranges_disjoint p n q k \<longleftrightarrow> unat p + unat n \<le> unat q \<or> unat q + unat k \<le> unat p"

lemma unat64_less: "unat (a :: u64) < 2 ^ 64"
  using unsigned_less [of a, where 'a = nat] by simp

lemma no_wrap_unat_add: "no_wrap p n \<Longrightarrow> unat (p + n) = unat p + unat n"
  by (simp add: no_wrap_def unat_word_ariths)

lemma unat_diff_le: "(b :: 'a :: len word) \<le> a \<Longrightarrow> unat (a - b) = unat a - unat b"
  by (simp add: unat_sub)

lemma in_range_offset:
  assumes "in_range b n a"
  shows "unat (a - b) < unat n"
proof -
  from assms have le: "b \<le> a" by (simp add: in_range_def word_le_nat_alt)
  from assms show ?thesis by (auto simp: unat_diff_le [OF le] in_range_def)
qed

lemma in_range_shift:
  assumes r: "in_range b n a" and w: "unat p + unat n \<le> 2 ^ 64"
  shows "in_range p n (p + (a - b))"
proof -
  have lt: "unat (a - b) < unat n" using r by (rule in_range_offset)
  with w have "unat (p + (a - b)) = unat p + unat (a - b)"
    by (simp add: unat_word_ariths)
  with lt show ?thesis by (simp add: in_range_def)
qed

lemma ranges_disjoint_sym: "ranges_disjoint p n q k \<longleftrightarrow> ranges_disjoint q k p n"
  by (auto simp: ranges_disjoint_def)

lemma ranges_disjointD:
  "ranges_disjoint p n q k \<Longrightarrow> in_range p n a \<Longrightarrow> \<not> in_range q k a"
  by (auto simp: ranges_disjoint_def in_range_def)

subsection \<open>Lists as arrays\<close>

text \<open>Replacing the element at \<open>i\<close> by a list, as the region array does when it splits.\<close>

definition list_splice :: "'a list \<Rightarrow> nat \<Rightarrow> 'a list \<Rightarrow> 'a list" where
  "list_splice xs i ys = take i xs @ ys @ drop (Suc i) xs"

lemma set_list_splice: "set (list_splice xs i ys) \<subseteq> set xs \<union> set ys"
  by (auto simp: list_splice_def dest: in_set_takeD in_set_dropD)

lemma sorted_wrt_list_splice:
  assumes s: "sorted_wrt R xs" and i: "i < length xs"
    and ys: "sorted_wrt R ys"
    and below: "\<And>x y. x \<in> set (take i xs) \<Longrightarrow> R x (xs ! i) \<Longrightarrow> y \<in> set ys \<Longrightarrow> R x y"
    and above: "\<And>x y. x \<in> set (drop (Suc i) xs) \<Longrightarrow> R (xs ! i) x \<Longrightarrow> y \<in> set ys \<Longrightarrow> R y x"
  shows "sorted_wrt R (list_splice xs i ys)"
proof -
  have split: "take i xs @ xs ! i # drop (Suc i) xs = xs"
    using i by (simp add: id_take_nth_drop [symmetric])
  have "sorted_wrt R (take i xs @ xs ! i # drop (Suc i) xs)"
    unfolding split by (rule s)
  then have t: "sorted_wrt R (take i xs)" and d: "sorted_wrt R (drop (Suc i) xs)"
    and lo: "\<forall>x\<in>set (take i xs). R x (xs ! i) \<and> (\<forall>y\<in>set (drop (Suc i) xs). R x y)"
    and hi: "\<forall>x\<in>set (drop (Suc i) xs). R (xs ! i) x"
    by (simp_all add: sorted_wrt_append)
  have "\<forall>x\<in>set (take i xs). \<forall>y\<in>set ys. R x y" using lo below by blast
  moreover have "\<forall>y\<in>set ys. \<forall>x\<in>set (drop (Suc i) xs). R y x" using hi above by blast
  ultimately show ?thesis
    using t d lo ys unfolding list_splice_def sorted_wrt_append set_append by blast
qed

lemma word_less_Suc: "(x :: u64) \<noteq> - 1 \<Longrightarrow> x < x + 1"
proof -
  assume "x \<noteq> - 1"
  then have "1 + x \<noteq> 0" by (metis add.commute add_eq_0_iff minus_equation_iff)
  from unatSuc [OF this] show ?thesis by (simp add: word_less_nat_alt add.commute)
qed

lemma find_append: "find P (xs @ ys) = (case find P xs of None \<Rightarrow> find P ys | Some x \<Rightarrow> Some x)"
  by (induction xs) auto

end
