(* ===== verification/Host.thy ===== *)
theory Host
  imports Prelude
begin

text \<open>
  The platform layer (\<^verbatim>\<open>cpueaxh_platform.hpp\<close>): the memory of the embedding process and its
  allocator. Host pointers are 64-bit addresses, as in the source, where a guest region's
  \<^verbatim>\<open>data\<close> pointer, an external buffer and a passed-through host page all live in one address
  space and may be compared.

  The allocator is the C library's \<^verbatim>\<open>calloc\<close>/\<^verbatim>\<open>free\<close> (or the kernel pool). Which address it
  answers with is not determined by the program, so it is an oracle of the state
  (\<open>horacle\<close>); what the C standard promises of it is part of the definition: a block that is
  handed out is non-null, does not wrap, is disjoint from every live block and is zeroed. An
  oracle answer that breaks the promise is treated as an allocation failure (\<^verbatim>\<open>NULL\<close>), so
  every theorem covers every conforming allocator, one that fails at any call included.
\<close>

record host =
  hmem :: "u64 \<Rightarrow> u8"
  hlive :: "(u64 \<times> u64) list"
  hcalls :: nat
  horacle :: "nat \<Rightarrow> u64 \<Rightarrow> u64"

definition block_fresh :: "host \<Rightarrow> u64 \<Rightarrow> u64 \<Rightarrow> bool" where
  "block_fresh h p n \<longleftrightarrow>
     p \<noteq> 0 \<and> n \<noteq> 0 \<and> no_wrap p n \<and> list_all (\<lambda>(q, k). ranges_disjoint p n q k) (hlive h)"

definition CPUEAXH_ALLOC_ZEROED :: "host \<Rightarrow> u64 \<Rightarrow> u64 \<times> host" where
  "CPUEAXH_ALLOC_ZEROED h n =
     (let p = horacle h (hcalls h) n; h1 = h\<lparr>hcalls := Suc (hcalls h)\<rparr> in
      if block_fresh h p n
      then (p, h1\<lparr>hlive := (p, n) # hlive h,
                  hmem := (\<lambda>a. if in_range p n a then 0 else hmem h a)\<rparr>)
      else (0, h1))"

definition CPUEAXH_FREE :: "host \<Rightarrow> u64 \<Rightarrow> host" where
  "CPUEAXH_FREE h p = h\<lparr>hlive := filter (\<lambda>(q, k). q \<noteq> p) (hlive h)\<rparr>"

definition CPUEAXH_MEMCPY :: "host \<Rightarrow> u64 \<Rightarrow> u64 \<Rightarrow> u64 \<Rightarrow> host" where
  "CPUEAXH_MEMCPY h dst src n =
     h\<lparr>hmem := (\<lambda>a. if in_range dst n a then hmem h (src + (a - dst)) else hmem h a)\<rparr>"

text \<open>\<^verbatim>\<open>memcpy\<close> from a caller's buffer, given by its bytes.\<close>

definition store_bytes :: "host \<Rightarrow> u64 \<Rightarrow> u8 list \<Rightarrow> host" where
  "store_bytes h dst bs =
     h\<lparr>hmem := (\<lambda>a. if unat (a - dst) < length bs then bs ! unat (a - dst) else hmem h a)\<rparr>"

definition store_byte :: "host \<Rightarrow> u64 \<Rightarrow> u8 \<Rightarrow> host" where
  "store_byte h p v = h\<lparr>hmem := (hmem h)(p := v)\<rparr>"

subsection \<open>What the allocator keeps\<close>

text \<open>The live blocks are non-empty, do not wrap and are pairwise disjoint.\<close>

definition live_ok :: "host \<Rightarrow> bool" where
  "live_ok h \<longleftrightarrow>
     list_all (\<lambda>(p, n). p \<noteq> 0 \<and> n \<noteq> 0 \<and> no_wrap p n) (hlive h) \<and>
     sorted_wrt (\<lambda>(p, n) (q, k). ranges_disjoint p n q k) (hlive h)"

lemma alloc_cases:
  assumes "CPUEAXH_ALLOC_ZEROED h n = (p, h')"
  obtains (fail) "p = 0" "hlive h' = hlive h" "hmem h' = hmem h"
  | (ok) "p \<noteq> 0" "block_fresh h p n" "hlive h' = (p, n) # hlive h"
      "hmem h' = (\<lambda>a. if in_range p n a then 0 else hmem h a)"
  using assms that
  by (auto simp: CPUEAXH_ALLOC_ZEROED_def Let_def block_fresh_def split: if_splits)

lemma block_freshD:
  "block_fresh h p n \<Longrightarrow> (q, k) \<in> set (hlive h) \<Longrightarrow> ranges_disjoint p n q k"
  by (auto simp: block_fresh_def list_all_iff)

lemma live_ok_alloc: "live_ok h \<Longrightarrow> CPUEAXH_ALLOC_ZEROED h n = (p, h') \<Longrightarrow> live_ok h'"
  by (auto simp: live_ok_def block_fresh_def list_all_iff elim!: alloc_cases)

lemma live_ok_free: "live_ok h \<Longrightarrow> live_ok (CPUEAXH_FREE h p)"
  by (auto simp: live_ok_def CPUEAXH_FREE_def list_all_iff sorted_wrt_filter)

lemma live_ok_cong: "hlive h' = hlive h \<Longrightarrow> live_ok h' = live_ok h"
  by (simp add: live_ok_def)

lemma host_write_live [simp]:
  "hlive (CPUEAXH_MEMCPY h d s n) = hlive h"
  "hlive (store_bytes h d bs) = hlive h"
  "hlive (store_byte h d v) = hlive h"
  by (simp_all add: CPUEAXH_MEMCPY_def store_bytes_def store_byte_def)

lemma hmem_free [simp]: "hmem (CPUEAXH_FREE h p) = hmem h"
  by (simp add: CPUEAXH_FREE_def)

lemma hmem_store_byte [simp]: "hmem (store_byte h p v) = (hmem h)(p := v)"
  by (simp add: store_byte_def)

lemma set_hlive_free: "set (hlive (CPUEAXH_FREE h p)) = {(q, k) \<in> set (hlive h). q \<noteq> p}"
  by (auto simp: CPUEAXH_FREE_def)

lemma live_disjoint:
  assumes ok: "live_ok h" and a: "(p, n) \<in> set (hlive h)" and b: "(q, k) \<in> set (hlive h)"
    and ne: "(p, n) \<noteq> (q, k)"
  shows "ranges_disjoint p n q k"
proof -
  have s: "sorted_wrt (\<lambda>(p, n) (q, k). ranges_disjoint p n q k) (hlive h)"
    using ok by (simp add: live_ok_def)
  obtain i j where i: "i < length (hlive h)" "hlive h ! i = (p, n)"
    and j: "j < length (hlive h)" "hlive h ! j = (q, k)"
    using a b by (auto simp: in_set_conv_nth)
  then have "i \<noteq> j" using ne by auto
  then consider "i < j" | "j < i" by linarith
  then show ?thesis
  proof cases
    case 1
    with s i j show ?thesis by (fastforce dest: sorted_wrt_nth_less)
  next
    case 2
    with s i j show ?thesis
      by (fastforce dest: sorted_wrt_nth_less simp: ranges_disjoint_sym [of p n])
  qed
qed

text \<open>Two live blocks that start at the same address are the same block.\<close>

lemma live_unique:
  assumes ok: "live_ok h" and a: "(p, n) \<in> set (hlive h)" and b: "(p, k) \<in> set (hlive h)"
  shows "n = k"
proof (rule ccontr)
  assume "n \<noteq> k"
  with live_disjoint [OF ok a b] have "ranges_disjoint p n p k" by simp
  moreover have "n \<noteq> 0" "k \<noteq> 0" using ok a b by (auto simp: live_ok_def list_all_iff)
  ultimately show False by (auto simp: ranges_disjoint_def unat_eq_zero)
qed

subsection \<open>Memory that is in use\<close>

text \<open>
  A host byte is live when a live block holds it. An allocation never changes a live byte; this
  is what lets a copied region keep its contents while others are allocated.
\<close>

definition live_at :: "host \<Rightarrow> u64 \<Rightarrow> bool" where
  "live_at h x \<longleftrightarrow> (\<exists>(q, k) \<in> set (hlive h). in_range q k x)"

definition mem_kept :: "host \<Rightarrow> host \<Rightarrow> bool" where
  "mem_kept h h' \<longleftrightarrow> (\<forall>x. live_at h x \<longrightarrow> hmem h' x = hmem h x)"

lemma mem_kept_refl [simp]: "mem_kept h h"
  by (simp add: mem_kept_def)

lemma mem_keptD: "mem_kept h h' \<Longrightarrow> live_at h x \<Longrightarrow> hmem h' x = hmem h x"
  by (simp add: mem_kept_def)

lemma live_at_mono: "set (hlive h) \<subseteq> set (hlive h') \<Longrightarrow> live_at h x \<Longrightarrow> live_at h' x"
  by (auto simp: live_at_def)

lemma live_atI: "(q, k) \<in> set (hlive h) \<Longrightarrow> in_range q k x \<Longrightarrow> live_at h x"
  by (auto simp: live_at_def)

lemma mem_kept_trans:
  "mem_kept h h1 \<Longrightarrow> mem_kept h1 h2 \<Longrightarrow> set (hlive h) \<subseteq> set (hlive h1) \<Longrightarrow> mem_kept h h2"
  by (simp add: mem_kept_def live_at_mono)

lemma alloc_kept:
  assumes "CPUEAXH_ALLOC_ZEROED h n = (p, h')"
  shows "mem_kept h h'" and "set (hlive h) \<subseteq> set (hlive h')"
proof -
  have fresh: "\<not> in_range p n x" if "block_fresh h p n" "live_at h x" for x
    using that by (auto simp: live_at_def dest!: block_freshD dest: ranges_disjointD)
  show "mem_kept h h'" "set (hlive h) \<subseteq> set (hlive h')"
    using assms by (auto elim!: alloc_cases simp: mem_kept_def fresh)
qed

lemma mem_kept_free [simp]: "mem_kept h (CPUEAXH_FREE h' p) = mem_kept h h'"
  by (simp add: mem_kept_def)

end
