(* ===== verification/Regions.thy ===== *)
theory Regions
  imports Host
begin

text \<open>
  The memory manager's region table (\<^verbatim>\<open>memory/manager.hpp\<close>): its data, the page helpers, the
  two binary searches, insertion and replacement in the sorted region array, and the guest
  mapping operations \<^verbatim>\<open>mm_map_internal\<close>, \<^verbatim>\<open>mm_map_host\<close>, \<^verbatim>\<open>mm_unmap\<close>, \<^verbatim>\<open>mm_protect\<close> and
  \<^verbatim>\<open>mm_set_cpu_attrs\<close>.

  A region array with its count is a list; its capacity and the address of its block are kept,
  so that growing it calls the allocator as the source does. An operation takes the host and the
  manager and returns the C++ result with both updated. The loops over \<^verbatim>\<open>current < end\<close> are total
  functions: the region found at \<open>current\<close> ends after it, so the distance to \<open>end\<close> shrinks.
\<close>

unbundle bit_operations_syntax

subsection \<open>Data\<close>

definition CPUEAXH_PAGE_SIZE :: u64 where [mm_defs]: "CPUEAXH_PAGE_SIZE = 0x1000"
definition CPUEAXH_PAGE_MASK :: u64 where [mm_defs]: "CPUEAXH_PAGE_MASK = NOT (0x1000 - 1)"
definition MM_PAGE_CACHE_SIZE :: u64 where [mm_defs]: "MM_PAGE_CACHE_SIZE = 256"
definition MM_PROT_READ :: u32 where [mm_defs]: "MM_PROT_READ = 1"
definition MM_PROT_WRITE :: u32 where [mm_defs]: "MM_PROT_WRITE = 2"
definition MM_PROT_EXEC :: u32 where [mm_defs]: "MM_PROT_EXEC = 4"
definition MM_CPU_ATTR_USER :: u32 where [mm_defs]: "MM_CPU_ATTR_USER = 1"

datatype MM_ACCESS_STATUS = MM_ACCESS_OK | MM_ACCESS_UNMAPPED | MM_ACCESS_PROT

record MEMORY_REGION =
  rg_base :: u64
  rg_size :: u64
  rg_data :: u64
  rg_perms :: u32
  rg_cpu_attrs :: u32
  rg_external :: bool

record MM_PAGE_CACHE_ENTRY =
  pc_page_base :: u64
  pc_host_page :: u64
  pc_perms :: u32
  pc_cpu_attrs :: u32
  pc_valid :: bool

record MM_PATCH_ENTRY =
  pt_handle :: u64
  pt_address :: u64
  pt_size :: u64
  pt_data :: u64

datatype MM_PATCH_STATUS =
  MM_PATCH_OK | MM_PATCH_ARG | MM_PATCH_NOMEM | MM_PATCH_CONFLICT | MM_PATCH_NOT_FOUND

record MEMORY_MANAGER =
  regions :: "MEMORY_REGION list"
  region_capacity :: nat
  regions_array :: u64
  patches :: "MM_PATCH_ENTRY list"
  patch_capacity :: nat
  patches_array :: u64
  patch_min_address :: u64
  patch_max_address :: u64
  next_patch_handle :: u64
  host_read_passthrough :: bool
  host_write_passthrough :: bool
  host_exec_passthrough :: bool
  page_cache :: "nat \<Rightarrow> MM_PAGE_CACHE_ENTRY"
  code_version :: u64

definition empty_page_cache_entry :: MM_PAGE_CACHE_ENTRY where
  "empty_page_cache_entry =
     \<lparr>pc_page_base = 0, pc_host_page = 0, pc_perms = 0, pc_cpu_attrs = 0, pc_valid = False\<rparr>"

definition empty_memory_region :: MEMORY_REGION where
  "empty_memory_region =
     \<lparr>rg_base = 0, rg_size = 0, rg_data = 0, rg_perms = 0, rg_cpu_attrs = 0, rg_external = False\<rparr>"

subsection \<open>Page helpers\<close>

definition align_up_page :: "u64 \<Rightarrow> u64" where
  "align_up_page sz = (sz + CPUEAXH_PAGE_SIZE - 1) AND CPUEAXH_PAGE_MASK"

definition align_down_page :: "u64 \<Rightarrow> u64" where
  "align_down_page addr = addr AND CPUEAXH_PAGE_MASK"

definition mm_is_page_aligned :: "u64 \<Rightarrow> bool" where
  "mm_is_page_aligned v \<longleftrightarrow> v AND (CPUEAXH_PAGE_SIZE - 1) = 0"

definition mm_is_valid_perms :: "u32 \<Rightarrow> bool" where
  "mm_is_valid_perms perms \<longleftrightarrow> perms AND NOT (MM_PROT_READ OR MM_PROT_WRITE OR MM_PROT_EXEC) = 0"

definition mm_is_valid_cpu_attrs :: "u32 \<Rightarrow> bool" where
  "mm_is_valid_cpu_attrs attrs \<longleftrightarrow> attrs AND NOT MM_CPU_ATTR_USER = 0"

definition mm_range_overflows :: "u64 \<Rightarrow> u64 \<Rightarrow> bool" where
  "mm_range_overflows address sz \<longleftrightarrow> sz \<noteq> 0 \<and> address + sz - 1 < address"

definition mm_init :: MEMORY_MANAGER where
  "mm_init =
     \<lparr>regions = [], region_capacity = 0, regions_array = 0,
      patches = [], patch_capacity = 0, patches_array = 0,
      patch_min_address = 0, patch_max_address = 0, next_patch_handle = 1,
      host_read_passthrough = False, host_write_passthrough = False,
      host_exec_passthrough = False,
      page_cache = (\<lambda>_. empty_page_cache_entry), code_version = 1\<rparr>"

definition mm_bump_code_version :: "MEMORY_MANAGER \<Rightarrow> MEMORY_MANAGER" where
  "mm_bump_code_version m =
     (let v = code_version m + 1 in m\<lparr>code_version := (if v = 0 then 1 else v)\<rparr>)"

definition mm_invalidate_cache :: "MEMORY_MANAGER \<Rightarrow> MEMORY_MANAGER" where
  "mm_invalidate_cache m = mm_bump_code_version (m\<lparr>page_cache := (\<lambda>_. empty_page_cache_entry)\<rparr>)"

definition mm_host_passthrough_perms :: "MEMORY_MANAGER \<Rightarrow> u32" where
  "mm_host_passthrough_perms m =
     (let p = 0;
          p = (if host_read_passthrough m then p OR MM_PROT_READ else p);
          p = (if host_write_passthrough m then p OR MM_PROT_WRITE else p);
          p = (if host_exec_passthrough m then p OR MM_PROT_EXEC else p)
      in p)"

definition mm_has_host_passthrough :: "MEMORY_MANAGER \<Rightarrow> u32 \<Rightarrow> bool" where
  "mm_has_host_passthrough m perm =
     (if perm = MM_PROT_READ then host_read_passthrough m
      else if perm = MM_PROT_WRITE then host_write_passthrough m
      else if perm = MM_PROT_EXEC then host_exec_passthrough m
      else False)"

definition mm_set_host_passthrough :: "MEMORY_MANAGER \<Rightarrow> u32 \<Rightarrow> bool \<Rightarrow> MEMORY_MANAGER" where
  "mm_set_host_passthrough m perms enabled =
     mm_invalidate_cache
       (m\<lparr>host_read_passthrough := enabled \<and> perms AND MM_PROT_READ \<noteq> 0,
          host_write_passthrough := enabled \<and> perms AND MM_PROT_WRITE \<noteq> 0,
          host_exec_passthrough := enabled \<and> perms AND MM_PROT_EXEC \<noteq> 0\<rparr>)"

definition mm_release_region :: "host \<Rightarrow> MEMORY_REGION \<Rightarrow> host" where
  "mm_release_region h r =
     (if \<not> rg_external r \<and> rg_data r \<noteq> 0 then CPUEAXH_FREE h (rg_data r) else h)"

text \<open>
  The doubling loop of the two \<^verbatim>\<open>reserve\<close> functions: \<open>new_capacity\<close> starts at a non-zero value,
  doubles until it reaches the requested one, and takes the requested one when doubling would
  overflow \<^verbatim>\<open>size_t\<close>. (The conjunct \<open>0 < new_capacity\<close> only makes the function total.)
\<close>

function mm_grow_capacity :: "nat \<Rightarrow> nat \<Rightarrow> nat" where
  "mm_grow_capacity new_capacity capacity =
     (if new_capacity < capacity \<and> 0 < new_capacity
      then if new_capacity > (2 ^ 64 - 1) div 2 then capacity
           else mm_grow_capacity (new_capacity * 2) capacity
      else new_capacity)"
  by pat_completeness auto
termination
  by (relation "measure (\<lambda>(new_capacity, capacity). capacity - new_capacity)") auto

declare mm_grow_capacity.simps [simp del]

definition mm_reserve_region_capacity ::
  "host \<Rightarrow> MEMORY_MANAGER \<Rightarrow> nat \<Rightarrow> bool \<times> host \<times> MEMORY_MANAGER" where
  "mm_reserve_region_capacity h m capacity =
     (if capacity \<le> region_capacity m then (True, h, m)
      else
        let new_capacity =
              mm_grow_capacity (if region_capacity m = 0 then 16 else region_capacity m) capacity;
            (new_regions, h1) = CPUEAXH_ALLOC_ZEROED h (of_nat (new_capacity * 40))
        in if new_regions = 0 then (False, h1, m)
           else
             let h2 = (if regions_array m \<noteq> 0 \<and> regions m \<noteq> []
                       then CPUEAXH_FREE h1 (regions_array m) else h1)
             in (True, h2, m\<lparr>regions_array := new_regions, region_capacity := new_capacity\<rparr>))"

subsection \<open>Searching the region array\<close>

abbreviation region_end :: "MEMORY_REGION \<Rightarrow> u64" where
  "region_end r \<equiv> rg_base r + rg_size r"

function mm_find_insertion_loop :: "MEMORY_REGION list \<Rightarrow> u64 \<Rightarrow> nat \<Rightarrow> nat \<Rightarrow> nat" where
  "mm_find_insertion_loop rs b left right =
     (if left < right
      then let mid = left + (right - left) div 2
           in if rg_base (rs ! mid) < b then mm_find_insertion_loop rs b (mid + 1) right
              else mm_find_insertion_loop rs b left mid
      else left)"
  by pat_completeness auto
termination
  by (relation "measure (\<lambda>(rs, b, left, right). right - left)") auto

declare mm_find_insertion_loop.simps [simp del]

definition mm_find_insertion_index :: "MEMORY_MANAGER \<Rightarrow> u64 \<Rightarrow> nat" where
  "mm_find_insertion_index m b = mm_find_insertion_loop (regions m) b 0 (length (regions m))"

text \<open>\<^verbatim>\<open>(size_t)-1\<close>, the result of a failed search, is \<open>None\<close>.\<close>

function mm_find_region_loop :: "MEMORY_REGION list \<Rightarrow> u64 \<Rightarrow> nat \<Rightarrow> nat \<Rightarrow> nat option" where
  "mm_find_region_loop rs address left right =
     (if left < right
      then let mid = left + (right - left) div 2; region = rs ! mid
           in if address < rg_base region then mm_find_region_loop rs address left mid
              else if address \<ge> region_end region then mm_find_region_loop rs address (mid + 1) right
              else Some mid
      else None)"
  by pat_completeness auto
termination
  by (relation "measure (\<lambda>(rs, address, left, right). right - left)") auto

declare mm_find_region_loop.simps [simp del]

definition mm_find_region_index :: "MEMORY_MANAGER \<Rightarrow> u64 \<Rightarrow> nat option" where
  "mm_find_region_index m address = mm_find_region_loop (regions m) address 0 (length (regions m))"

definition mm_find_region :: "MEMORY_MANAGER \<Rightarrow> u64 \<Rightarrow> MEMORY_REGION option" where
  "mm_find_region m address = map_option (\<lambda>i. regions m ! i) (mm_find_region_index m address)"

definition mm_has_overlap :: "MEMORY_MANAGER \<Rightarrow> u64 \<Rightarrow> u64 \<Rightarrow> bool" where
  "mm_has_overlap m b sz =
     (if sz = 0 \<or> mm_range_overflows b sz then True
      else
        let end = b + sz; index = mm_find_insertion_index m b
        in if index > 0 \<and> region_end (regions m ! (index - 1)) > b then True
           else if index < length (regions m) \<and> rg_base (regions m ! index) < end then True
           else False)"

subsection \<open>Updating the region array\<close>

definition mm_insert_region ::
  "host \<Rightarrow> MEMORY_MANAGER \<Rightarrow> nat \<Rightarrow> MEMORY_REGION \<Rightarrow> bool \<times> host \<times> MEMORY_MANAGER" where
  "mm_insert_region h m index region =
     (case mm_reserve_region_capacity h m (length (regions m) + 1) of
        (False, h1, m1) \<Rightarrow> (False, h1, m1)
      | (True, h1, m1) \<Rightarrow>
          (True, h1, m1\<lparr>regions := take index (regions m1) @ region # drop index (regions m1)\<rparr>))"

definition mm_replace_region ::
  "host \<Rightarrow> MEMORY_MANAGER \<Rightarrow> nat \<Rightarrow> MEMORY_REGION list \<Rightarrow> bool \<times> host \<times> MEMORY_MANAGER" where
  "mm_replace_region h m index replacements =
     (if index \<ge> length (regions m) then (False, h, m)
      else
        let new_count = length (regions m) - 1 + length replacements
        in case mm_reserve_region_capacity h m new_count of
             (False, h1, m1) \<Rightarrow> (False, h1, m1)
           | (True, h1, m1) \<Rightarrow>
               let original = regions m1 ! index;
                   m2 = m1\<lparr>regions := list_splice (regions m1) index replacements\<rparr>
               in (True, mm_release_region h1 original, mm_invalidate_cache m2))"

lemma mm_find_region_loop_found:
  "mm_find_region_loop rs address left right = Some i \<Longrightarrow> right \<le> length rs \<Longrightarrow>
   i < length rs \<and> rg_base (rs ! i) \<le> address \<and> address < region_end (rs ! i)"
proof (induction rs address left right rule: mm_find_region_loop.induct)
  case (1 rs address left right)
  let ?mid = "left + (right - left) div 2"
  from "1.prems" have lr: "left < right"
    by (subst (asm) mm_find_region_loop.simps) (simp split: if_splits)
  then have mid: "?mid < right" by simp
  show ?case
    using "1.prems" "1.IH" [OF lr refl refl] lr mid
    by (subst (asm) mm_find_region_loop.simps)
       (auto simp: Let_def not_less not_le split: if_splits)
qed

lemma mm_find_region_index_found:
  "mm_find_region_index m address = Some i \<Longrightarrow>
   i < length (regions m) \<and> rg_base (regions m ! i) \<le> address \<and>
   address < region_end (regions m ! i)"
  unfolding mm_find_region_index_def by (erule mm_find_region_loop_found) simp

definition mm_next_chunk :: "MEMORY_MANAGER \<Rightarrow> nat \<Rightarrow> u64 \<Rightarrow> u64" where
  "mm_next_chunk m index end =
     (let original_end = region_end (regions m ! index)
      in if original_end < end then original_end else end)"

lemma mm_next_chunk_progress:
  "mm_find_region_index m current = Some i \<Longrightarrow> current < end \<Longrightarrow>
   current < mm_next_chunk m i end \<and> mm_next_chunk m i end \<le> end"
  by (drule mm_find_region_index_found) (auto simp: mm_next_chunk_def Let_def)

lemma mm_next_chunk_measure:
  "mm_find_region_index m current = Some i \<Longrightarrow> current < end \<Longrightarrow>
   unat end - unat (mm_next_chunk m i end) < unat end - unat current"
  using mm_next_chunk_progress [of m current i "end"]
  by (auto simp: word_less_nat_alt word_le_nat_alt)

function mm_check_range_loop :: "MEMORY_MANAGER \<Rightarrow> u64 \<Rightarrow> u64 \<Rightarrow> bool" where
  "mm_check_range_loop m current end =
     (if current < end
      then case mm_find_region_index m current of
             None \<Rightarrow> False
           | Some index \<Rightarrow>
               if region_end (regions m ! index) \<le> current then False
               else mm_check_range_loop m (mm_next_chunk m index end) end
      else True)"
  by pat_completeness auto
termination
  by (relation "measure (\<lambda>(m, current, end). unat end - unat current)")
     (auto intro: mm_next_chunk_measure)

declare mm_check_range_loop.simps [simp del]

definition mm_check_range_mapped :: "MEMORY_MANAGER \<Rightarrow> u64 \<Rightarrow> u64 \<Rightarrow> bool" where
  "mm_check_range_mapped m address sz =
     (if sz = 0 then True
      else if mm_range_overflows address sz then False
      else mm_check_range_loop m address (address + sz))"

definition mm_build_region_segment ::
  "host \<Rightarrow> MEMORY_REGION \<Rightarrow> u64 \<Rightarrow> u64 \<Rightarrow> u32 \<Rightarrow> u32 \<Rightarrow> bool \<times> host \<times> MEMORY_REGION" where
  "mm_build_region_segment h source segment_base segment_size perms cpu_attrs =
     (if segment_size = 0 then (False, h, empty_memory_region)
      else
        let out = empty_memory_region\<lparr>rg_base := segment_base, rg_size := segment_size,
                    rg_perms := perms, rg_cpu_attrs := cpu_attrs,
                    rg_external := rg_external source\<rparr>;
            offset = segment_base - rg_base source
        in if rg_external source then (True, h, out\<lparr>rg_data := rg_data source + offset\<rparr>)
           else
             case CPUEAXH_ALLOC_ZEROED h segment_size of
               (p, h1) \<Rightarrow>
                 if p = 0 then (False, h1, out\<lparr>rg_data := 0\<rparr>)
                 else (True, CPUEAXH_MEMCPY h1 p (rg_data source + offset) segment_size,
                       out\<lparr>rg_data := p\<rparr>))"

text \<open>
  The three splitting operations build their replacement regions one after the other; when one
  cannot be built, everything built so far is released and the operation fails. \<open>specs\<close> lists
  the pieces as base, size, permissions and attributes.
\<close>

fun mm_build_replacements ::
  "host \<Rightarrow> MEMORY_REGION \<Rightarrow> (u64 \<times> u64 \<times> u32 \<times> u32) list \<Rightarrow> MEMORY_REGION list \<Rightarrow>
   bool \<times> host \<times> MEMORY_REGION list" where
  "mm_build_replacements h original [] replacements = (True, h, replacements)"
| "mm_build_replacements h original ((b, n, p, a) # specs) replacements =
     (case mm_build_region_segment h original b n p a of
        (False, h1, r) \<Rightarrow> (False, foldl mm_release_region h1 (replacements @ [r]), [])
      | (True, h1, r) \<Rightarrow> mm_build_replacements h1 original specs (replacements @ [r]))"

definition mm_split_region ::
  "host \<Rightarrow> MEMORY_MANAGER \<Rightarrow> nat \<Rightarrow> (u64 \<times> u64 \<times> u32 \<times> u32) list \<Rightarrow>
   bool \<times> host \<times> MEMORY_MANAGER" where
  "mm_split_region h m index specs =
     (case mm_build_replacements h (regions m ! index) specs [] of
        (False, h1, _) \<Rightarrow> (False, h1, m)
      | (True, h1, replacements) \<Rightarrow>
          (case mm_replace_region h1 m index replacements of
             (False, h2, m2) \<Rightarrow> (False, foldl mm_release_region h2 replacements, m2)
           | (True, h2, m2) \<Rightarrow> (True, h2, m2)))"

text \<open>The piece of the region before \<open>current\<close> and the one after \<open>chunk_end\<close>, where not empty.\<close>

definition mm_head_piece :: "MEMORY_REGION \<Rightarrow> u64 \<Rightarrow> (u64 \<times> u64 \<times> u32 \<times> u32) list" where
  "mm_head_piece original current =
     (if rg_base original < current
      then [(rg_base original, current - rg_base original,
             rg_perms original, rg_cpu_attrs original)] else [])"

definition mm_tail_piece :: "MEMORY_REGION \<Rightarrow> u64 \<Rightarrow> (u64 \<times> u64 \<times> u32 \<times> u32) list" where
  "mm_tail_piece original chunk_end =
     (if chunk_end < region_end original
      then [(chunk_end, region_end original - chunk_end,
             rg_perms original, rg_cpu_attrs original)] else [])"

subsection \<open>Mapping operations\<close>

definition mm_map_internal ::
  "host \<Rightarrow> MEMORY_MANAGER \<Rightarrow> u64 \<Rightarrow> u64 \<Rightarrow> u32 \<Rightarrow> bool \<times> host \<times> MEMORY_MANAGER" where
  "mm_map_internal h m address sz perms =
     (if sz = 0 \<or> \<not> mm_is_page_aligned address \<or> \<not> mm_is_page_aligned sz \<or>
         mm_range_overflows address sz then (False, h, m)
      else if \<not> mm_is_valid_perms perms \<or> mm_has_overlap m address sz then (False, h, m)
      else
        case CPUEAXH_ALLOC_ZEROED h sz of
          (p, h1) \<Rightarrow>
            if p = 0 then (False, h1, m)
            else
              let region = \<lparr>rg_base = address, rg_size = sz, rg_data = p, rg_perms = perms,
                            rg_cpu_attrs = MM_CPU_ATTR_USER, rg_external = False\<rparr>
              in case mm_insert_region h1 m (mm_find_insertion_index m address) region of
                   (False, h2, m2) \<Rightarrow> (False, mm_release_region h2 region, m2)
                 | (True, h2, m2) \<Rightarrow> (True, h2, mm_invalidate_cache m2))"

definition mm_map_host ::
  "host \<Rightarrow> MEMORY_MANAGER \<Rightarrow> u64 \<Rightarrow> u64 \<Rightarrow> u32 \<Rightarrow> u64 \<Rightarrow> bool \<times> host \<times> MEMORY_MANAGER" where
  "mm_map_host h m address sz perms host_ptr =
     (if sz = 0 \<or> host_ptr = 0 \<or> \<not> mm_is_page_aligned address \<or> \<not> mm_is_page_aligned sz \<or>
         mm_range_overflows address sz then (False, h, m)
      else if \<not> mm_is_valid_perms perms \<or> mm_has_overlap m address sz then (False, h, m)
      else
        let region = \<lparr>rg_base = address, rg_size = sz, rg_data = host_ptr, rg_perms = perms,
                      rg_cpu_attrs = MM_CPU_ATTR_USER, rg_external = True\<rparr>
        in case mm_insert_region h m (mm_find_insertion_index m address) region of
             (False, h1, m1) \<Rightarrow> (False, h1, m1)
           | (True, h1, m1) \<Rightarrow> (True, h1, mm_invalidate_cache m1))"

definition mm_alloc ::
  "host \<Rightarrow> MEMORY_MANAGER \<Rightarrow> u64 \<Rightarrow> u64 \<Rightarrow> bool \<times> host \<times> MEMORY_MANAGER" where
  "mm_alloc h m address sz =
     mm_map_internal h m address sz (MM_PROT_READ OR MM_PROT_WRITE OR MM_PROT_EXEC)"

function mm_unmap_loop ::
  "host \<Rightarrow> MEMORY_MANAGER \<Rightarrow> u64 \<Rightarrow> u64 \<Rightarrow> bool \<times> host \<times> MEMORY_MANAGER" where
  "mm_unmap_loop h m current end =
     (if current < end
      then case mm_find_region_index m current of
             None \<Rightarrow> (False, h, m)
           | Some index \<Rightarrow>
               let original = regions m ! index; chunk_end = mm_next_chunk m index end
               in case mm_split_region h m index
                         (mm_head_piece original current @ mm_tail_piece original chunk_end) of
                    (False, h1, m1) \<Rightarrow> (False, h1, m1)
                  | (True, h1, m1) \<Rightarrow> mm_unmap_loop h1 m1 chunk_end end
      else (True, h, m))"
  by pat_completeness auto
termination
  by (relation "measure (\<lambda>(h, m, current, end). unat end - unat current)")
     (auto intro: mm_next_chunk_measure)

definition mm_unmap ::
  "host \<Rightarrow> MEMORY_MANAGER \<Rightarrow> u64 \<Rightarrow> u64 \<Rightarrow> bool \<times> host \<times> MEMORY_MANAGER" where
  "mm_unmap h m address sz =
     (if sz = 0 then (True, h, m)
      else if \<not> mm_is_page_aligned address \<or> \<not> mm_is_page_aligned sz \<or>
              mm_range_overflows address sz then (False, h, m)
      else if \<not> mm_check_range_mapped m address sz then (False, h, m)
      else mm_unmap_loop h m address (address + sz))"

function mm_protect_loop ::
  "u32 \<Rightarrow> host \<Rightarrow> MEMORY_MANAGER \<Rightarrow> u64 \<Rightarrow> u64 \<Rightarrow> bool \<times> host \<times> MEMORY_MANAGER" where
  "mm_protect_loop perms h m current end =
     (if current < end
      then case mm_find_region_index m current of
             None \<Rightarrow> (False, h, m)
           | Some index \<Rightarrow>
               let original = regions m ! index; chunk_end = mm_next_chunk m index end
               in case mm_split_region h m index
                         (mm_head_piece original current @
                          [(current, chunk_end - current, perms, rg_cpu_attrs original)] @
                          mm_tail_piece original chunk_end) of
                    (False, h1, m1) \<Rightarrow> (False, h1, m1)
                  | (True, h1, m1) \<Rightarrow> mm_protect_loop perms h1 m1 chunk_end end
      else (True, h, m))"
  by pat_completeness auto
termination
  by (relation "measure (\<lambda>(perms, h, m, current, end). unat end - unat current)")
     (auto intro: mm_next_chunk_measure)

definition mm_protect ::
  "host \<Rightarrow> MEMORY_MANAGER \<Rightarrow> u64 \<Rightarrow> u64 \<Rightarrow> u32 \<Rightarrow> bool \<times> host \<times> MEMORY_MANAGER" where
  "mm_protect h m address sz perms =
     (if sz = 0 then (True, h, m)
      else if \<not> mm_is_page_aligned address \<or> \<not> mm_is_page_aligned sz \<or>
              mm_range_overflows address sz then (False, h, m)
      else if \<not> mm_is_valid_perms perms \<or> \<not> mm_check_range_mapped m address sz
      then (False, h, m)
      else mm_protect_loop perms h m address (address + sz))"

function mm_set_cpu_attrs_loop ::
  "u32 \<Rightarrow> host \<Rightarrow> MEMORY_MANAGER \<Rightarrow> u64 \<Rightarrow> u64 \<Rightarrow> bool \<times> host \<times> MEMORY_MANAGER" where
  "mm_set_cpu_attrs_loop cpu_attrs h m current end =
     (if current < end
      then case mm_find_region_index m current of
             None \<Rightarrow> (False, h, m)
           | Some index \<Rightarrow>
               let original = regions m ! index; chunk_end = mm_next_chunk m index end
               in case mm_split_region h m index
                         (mm_head_piece original current @
                          [(current, chunk_end - current, rg_perms original, cpu_attrs)] @
                          mm_tail_piece original chunk_end) of
                    (False, h1, m1) \<Rightarrow> (False, h1, m1)
                  | (True, h1, m1) \<Rightarrow> mm_set_cpu_attrs_loop cpu_attrs h1 m1 chunk_end end
      else (True, h, m))"
  by pat_completeness auto
termination
  by (relation "measure (\<lambda>(cpu_attrs, h, m, current, end). unat end - unat current)")
     (auto intro: mm_next_chunk_measure)

definition mm_set_cpu_attrs ::
  "host \<Rightarrow> MEMORY_MANAGER \<Rightarrow> u64 \<Rightarrow> u64 \<Rightarrow> u32 \<Rightarrow> bool \<times> host \<times> MEMORY_MANAGER" where
  "mm_set_cpu_attrs h m address sz cpu_attrs =
     (if sz = 0 then (True, h, m)
      else if \<not> mm_is_page_aligned address \<or> \<not> mm_is_page_aligned sz \<or>
              mm_range_overflows address sz then (False, h, m)
      else if \<not> mm_is_valid_cpu_attrs cpu_attrs \<or> \<not> mm_check_range_mapped m address sz
      then (False, h, m)
      else mm_set_cpu_attrs_loop cpu_attrs h m address (address + sz))"

declare mm_unmap_loop.simps [simp del]
declare mm_protect_loop.simps [simp del]
declare mm_set_cpu_attrs_loop.simps [simp del]

end
