(* ===== verification/RegionSpec.thy ===== *)
theory RegionSpec
  imports Regions
begin

text \<open>
  What the region table promises. The reference model of a lookup is the linear search
  \<open>region_at\<close>; the abstract view of a manager is the map \<open>page_map\<close> from guest addresses to
  permissions and CPU attributes. The theory shows that the binary searches agree with the
  linear ones on every well-formed table, that every mapping operation keeps the table well
  formed, and that mapping, unmapping and the two protection changes are exactly the expected
  updates of the abstract map. The three splitting loops are covered once, in the locale
  \<open>region_rewrite\<close>, and interpreted for each of them.
\<close>

unbundle bit_operations_syntax

subsection \<open>Well-formed region tables\<close>

text \<open>
  A range whose last byte is the last one of the address space passes the overflow test of the code,
  but its end, computed as \<^verbatim>\<open>base + size\<close>, wraps to zero. Such a region is in the table and is well
  formed, but it contains no address in the sense of the lookup, which compares with that end.
\<close>

definition region_ok :: "MEMORY_REGION \<Rightarrow> bool" where
  "region_ok r \<longleftrightarrow> rg_size r \<noteq> 0 \<and> \<not> mm_range_overflows (rg_base r) (rg_size r) \<and>
     mm_is_page_aligned (rg_base r) \<and> mm_is_page_aligned (rg_size r)"

definition region_before :: "MEMORY_REGION \<Rightarrow> MEMORY_REGION \<Rightarrow> bool" where
  "region_before r s \<longleftrightarrow> rg_base r \<le> rg_base s \<and> region_end r \<le> rg_base s"

definition regions_ok :: "MEMORY_REGION list \<Rightarrow> bool" where
  "regions_ok rs \<longleftrightarrow> list_all region_ok rs \<and> sorted_wrt region_before rs"

definition region_contains :: "MEMORY_REGION \<Rightarrow> u64 \<Rightarrow> bool" where
  "region_contains r a \<longleftrightarrow> rg_base r \<le> a \<and> a < region_end r"

definition region_at :: "MEMORY_REGION list \<Rightarrow> u64 \<Rightarrow> MEMORY_REGION option" where
  "region_at rs a = find (\<lambda>r. region_contains r a) rs"

definition page_map :: "MEMORY_MANAGER \<Rightarrow> u64 \<Rightarrow> (u32 \<times> u32) option" where
  "page_map m a = map_option (\<lambda>r. (rg_perms r, rg_cpu_attrs r)) (region_at (regions m) a)"

text \<open>The new range begins in the region, or the region begins in the new range.\<close>

definition region_meets :: "u64 \<Rightarrow> u64 \<Rightarrow> MEMORY_REGION \<Rightarrow> bool" where
  "region_meets b sz r \<longleftrightarrow> rg_base r < b \<and> b < region_end r \<or> b \<le> rg_base r \<and> rg_base r < b + sz"

subsection \<open>Lookup\<close>

lemma region_before_trans:
  "region_before r s \<Longrightarrow> region_before s t \<Longrightarrow> region_before r t"
  unfolding region_before_def by (meson order_trans)

lemma regions_ok_nth: "regions_ok rs \<Longrightarrow> i < length rs \<Longrightarrow> region_ok (rs ! i)"
  by (simp add: regions_ok_def list_all_length)

lemma regions_ok_before:
  "regions_ok rs \<Longrightarrow> i < j \<Longrightarrow> j < length rs \<Longrightarrow> region_before (rs ! i) (rs ! j)"
  by (simp add: regions_ok_def sorted_wrt_nth_less)

lemma region_before_disjoint:
  "region_before r s \<Longrightarrow> \<not> (region_contains r a \<and> region_contains s a)"
  unfolding region_before_def region_contains_def by (meson le_less_trans not_le order_trans)

lemma regions_ok_base_mono:
  "regions_ok rs \<Longrightarrow> i \<le> j \<Longrightarrow> j < length rs \<Longrightarrow> rg_base (rs ! i) \<le> rg_base (rs ! j)"
  using regions_ok_before [of rs i j] by (cases "i = j") (auto simp: region_before_def)

lemma region_index_unique:
  assumes ok: "regions_ok rs" and i: "i < length rs" "region_contains (rs ! i) a"
    and j: "j < length rs" "region_contains (rs ! j) a"
  shows "i = j"
proof (rule ccontr)
  assume "i \<noteq> j"
  then consider "i < j" | "j < i" by linarith
  then show False
    using regions_ok_before [OF ok] region_before_disjoint i j by cases blast+
qed

lemma region_at_Some:
  assumes ok: "regions_ok rs"
  shows "region_at rs a = Some r \<longleftrightarrow> r \<in> set rs \<and> region_contains r a"
proof
  assume "region_at rs a = Some r"
  then show "r \<in> set rs \<and> region_contains r a"
    by (auto simp: region_at_def find_Some_iff)
next
  assume r: "r \<in> set rs \<and> region_contains r a"
  then obtain i where i: "i < length rs" "rs ! i = r" by (auto simp: in_set_conv_nth)
  have "\<not> region_contains (rs ! j) a" if "j < i" for j
    using region_index_unique [OF ok, of i a j] i r that by auto
  with i r show "region_at rs a = Some r"
    by (auto simp: region_at_def find_Some_iff)
qed

lemma region_at_None: "region_at rs a = None \<longleftrightarrow> (\<forall>r \<in> set rs. \<not> region_contains r a)"
  by (auto simp: region_at_def find_None_iff)

lemma region_at_Some_set: "region_at rs a = Some r \<Longrightarrow> r \<in> set rs \<and> region_contains r a"
  by (auto simp: region_at_def find_Some_iff)

text \<open>The binary search finds the region that contains the address, wherever it lies.\<close>

lemma mm_find_region_loop_complete:
  "regions_ok rs \<Longrightarrow> right \<le> length rs \<Longrightarrow> left \<le> i \<Longrightarrow> i < right \<Longrightarrow>
   region_contains (rs ! i) a \<Longrightarrow> mm_find_region_loop rs a left right = Some i"
proof (induction rs a left right rule: mm_find_region_loop.induct)
  case (1 rs a left right)
  let ?mid = "left + (right - left) div 2"
  have lr: "left < right" using "1.prems" by simp
  then have mid: "?mid < right" "left \<le> ?mid" by simp_all
  note ok = "1.prems"(1)
  have ci: "rg_base (rs ! i) \<le> a" "a < region_end (rs ! i)"
    using "1.prems"(5) by (simp_all add: region_contains_def)
  have lo: "i < ?mid" if "a < rg_base (rs ! ?mid)"
  proof (rule ccontr)
    assume "\<not> i < ?mid"
    then have "rg_base (rs ! ?mid) \<le> rg_base (rs ! i)"
      using "1.prems" by (intro regions_ok_base_mono [OF ok]) simp_all
    with that ci(1) show False by (meson le_less_trans not_le order_trans)
  qed
  have hi: "?mid < i" if "region_end (rs ! ?mid) \<le> a" and less: "rg_base (rs ! ?mid) \<le> a"
  proof (rule ccontr)
    assume "\<not> ?mid < i"
    moreover have "i \<noteq> ?mid"
      using that ci by auto
    ultimately have "region_before (rs ! i) (rs ! ?mid)"
      using mid "1.prems" by (intro regions_ok_before [OF ok]) simp_all
    with ci less show False
      unfolding region_before_def by (meson le_less_trans not_le order_trans)
  qed
  have found: "i = ?mid" if "\<not> a < rg_base (rs ! ?mid)" "\<not> region_end (rs ! ?mid) \<le> a"
  proof (rule region_index_unique [OF ok])
    show "region_contains (rs ! ?mid) a"
      using that by (simp add: region_contains_def not_less not_le)
  qed (use "1.prems" mid in simp_all)
  show ?case
  proof (cases "a < rg_base (rs ! ?mid)")
    case True
    then show ?thesis
      using lr "1.IH"(1) [OF lr refl refl True] lo "1.prems" mid
      by (subst mm_find_region_loop.simps) simp
  next
    case False
    then show ?thesis
      using lr "1.IH"(2) [OF lr refl refl False] hi [OF _ leI [OF False]] found "1.prems" mid
      by (subst mm_find_region_loop.simps) (auto simp: Let_def)
  qed
qed

text \<open>The reference semantics of the lookup: binary search agrees with linear search.\<close>

lemma mm_find_region_linear:
  assumes ok: "regions_ok (regions m)"
  shows "mm_find_region m a = region_at (regions m) a"
proof (cases "region_at (regions m) a")
  case None
  have "mm_find_region_index m a = None"
  proof (rule ccontr)
    assume "mm_find_region_index m a \<noteq> None"
    then obtain i where i: "mm_find_region_index m a = Some i" by blast
    then have "region_contains (regions m ! i) a" "i < length (regions m)"
      using mm_find_region_index_found [OF i] by (simp_all add: region_contains_def)
    with None show False by (auto simp: region_at_None)
  qed
  with None show ?thesis by (simp add: mm_find_region_def)
next
  case (Some r)
  then obtain i where i: "i < length (regions m)" "regions m ! i = r" "region_contains r a"
    by (auto simp: region_at_def find_Some_iff)
  then have "mm_find_region_index m a = Some i"
    unfolding mm_find_region_index_def by (intro mm_find_region_loop_complete [OF ok]) auto
  with Some i show ?thesis by (simp add: mm_find_region_def)
qed

lemma mm_find_region_index_Some_iff:
  assumes ok: "regions_ok (regions m)"
  shows "mm_find_region_index m a = Some i \<longleftrightarrow>
     i < length (regions m) \<and> region_contains (regions m ! i) a" (is "?L \<longleftrightarrow> ?R")
proof
  assume ?L
  then show ?R
    using mm_find_region_index_found [of m a i] by (simp add: region_contains_def)
next
  assume ?R
  then show ?L
    unfolding mm_find_region_index_def by (intro mm_find_region_loop_complete [OF ok]) simp_all
qed

subsection \<open>Insertion point and overlap test\<close>

lemma mm_range_overflows_unat:
  "sz \<noteq> 0 \<Longrightarrow> mm_range_overflows a sz \<longleftrightarrow> 2 ^ 64 < unat a + unat sz"
proof -
  assume nz: "sz \<noteq> 0"
  then have pos: "0 < unat sz" by (simp add: unat_gt_0)
  have one: "(1 :: u64) \<le> sz" using nz by (simp add: word_le_nat_alt unat_gt_0 Suc_le_eq)
  define k where "k = unat sz - 1"
  have u: "unat (sz - 1) = k" using unat_diff_le [OF one] by (simp add: k_def)
  have eq: "a + sz - 1 = a + (sz - 1)" by simp
  have la: "unat a < 2 ^ 64" and ls: "k < 2 ^ 64" and sz: "unat sz = k + 1"
    using unat64_less [of a] unat64_less [of sz] pos by (simp_all add: k_def)
  have "unat (a + (sz - 1)) = (unat a + k) mod 2 ^ 64"
    by (simp add: unat_word_ariths u)
  also have "\<dots> = (if 2 ^ 64 \<le> unat a + k then unat a + k - 2 ^ 64 else unat a + k)"
    using la ls by (simp add: mod_if)
  finally have "unat (a + (sz - 1)) < unat a \<longleftrightarrow> 2 ^ 64 \<le> unat a + k"
    using la ls by auto
  then show ?thesis
    using nz by (simp add: mm_range_overflows_def eq word_less_nat_alt sz) linarith
qed

text \<open>A range that passes the test ends before the end of the address space or exactly at it.\<close>

lemma range_end_cases:
  assumes "sz \<noteq> 0" "\<not> mm_range_overflows a sz"
  obtains (inside) "no_wrap a sz" | (top) "\<not> no_wrap a sz" "a + sz = 0"
proof (cases "no_wrap a sz")
  case False
  then have e: "unat a + unat sz = 2 ^ 64"
    using assms by (auto simp: mm_range_overflows_unat no_wrap_def)
  have "unat (a + sz) = 0" by (simp add: unat_word_ariths e)
  then show ?thesis using False top by (simp add: unat_eq_zero)
qed (rule inside)

lemma range_word:
  assumes "\<not> mm_range_overflows a n"
  shows "a \<le> x \<and> x < a + n \<longleftrightarrow> no_wrap a n \<and> in_range a n x"
proof (cases "n = 0")
  case False
  from False assms show ?thesis
    by (rule range_end_cases) (simp_all add: in_range_def word_le_nat_alt word_less_nat_alt no_wrap_unat_add)
qed (auto simp: in_range_def)

lemma region_contains_range:
  "region_ok r \<Longrightarrow> region_contains r x \<longleftrightarrow> no_wrap (rg_base r) (rg_size r) \<and> in_range (rg_base r) (rg_size r) x"
  by (simp add: region_ok_def region_contains_def range_word)

lemma region_ok_end:
  "region_ok r \<Longrightarrow> region_contains r x \<Longrightarrow> unat (region_end r) = unat (rg_base r) + unat (rg_size r)"
  by (simp add: region_contains_range no_wrap_unat_add)

lemma mm_find_insertion_loop_spec:
  assumes "regions_ok rs" "left \<le> right" "right \<le> length rs"
    and "\<And>i. i < left \<Longrightarrow> rg_base (rs ! i) < b"
    and "\<And>i. right \<le> i \<Longrightarrow> i < length rs \<Longrightarrow> \<not> rg_base (rs ! i) < b"
  shows "mm_find_insertion_loop rs b left right \<le> length rs \<and>
    (\<forall>i < length rs. i < mm_find_insertion_loop rs b left right \<longleftrightarrow> rg_base (rs ! i) < b)"
  using assms
proof (induction rs b left right rule: mm_find_insertion_loop.induct)
  case (1 rs b left right)
  let ?mid = "left + (right - left) div 2"
  note ok = "1.prems"(1)
  show ?case
  proof (cases "left < right")
    case False
    with "1.prems" have "left = right" by simp
    with False "1.prems" have "mm_find_insertion_loop rs b left right = right"
      by (subst mm_find_insertion_loop.simps) simp
    with "1.prems" \<open>left = right\<close> show ?thesis
      by simp (metis leI)
  next
    case True
    then have mid: "?mid < right" "left \<le> ?mid" by simp_all
    show ?thesis
    proof (cases "rg_base (rs ! ?mid) < b")
      case lt: True
      have "rg_base (rs ! i) < b" if "i < ?mid + 1" for i
        using regions_ok_base_mono [OF ok, of i ?mid] that lt mid "1.prems"(3) by (auto intro: le_less_trans)
      then show ?thesis
        using "1.IH"(1) [OF True refl lt ok] mid "1.prems" True lt
        by (simp add: mm_find_insertion_loop.simps [of rs b left right] Let_def)
    next
      case ge: False
      have "\<not> rg_base (rs ! i) < b" if "?mid \<le> i" "i < length rs" for i
        using regions_ok_base_mono [OF ok, of ?mid i] that ge by (meson le_less_trans)
      then show ?thesis
        using "1.IH"(2) [OF True refl ge ok] mid "1.prems" True ge
        by (simp add: mm_find_insertion_loop.simps [of rs b left right] Let_def)
    qed
  qed
qed

lemma mm_find_insertion_index_spec:
  assumes "regions_ok (regions m)"
  shows "mm_find_insertion_index m b \<le> length (regions m)"
    and "i < length (regions m) \<Longrightarrow> i < mm_find_insertion_index m b \<longleftrightarrow> rg_base (regions m ! i) < b"
  using mm_find_insertion_loop_spec [of "regions m" 0 "length (regions m)" b] assms
  by (simp_all add: mm_find_insertion_index_def)

lemma mm_has_overlap_iff:
  assumes ok: "regions_ok (regions m)" and nz: "sz \<noteq> 0" and ov: "\<not> mm_range_overflows b sz"
  shows "mm_has_overlap m b sz \<longleftrightarrow> (\<exists>r \<in> set (regions m). region_meets b sz r)"
proof -
  let ?rs = "regions m" and ?k = "mm_find_insertion_index m b"
  have k: "?k \<le> length ?rs" by (rule mm_find_insertion_index_spec(1) [OF ok])
  have kspec: "i < ?k \<longleftrightarrow> rg_base (?rs ! i) < b" if "i < length ?rs" for i
    by (rule mm_find_insertion_index_spec(2) [OF ok that])
  have prev: "0 < ?k \<and> region_end (?rs ! (?k - 1)) > b \<longleftrightarrow> (\<exists>i < ?k. b < region_end (?rs ! i))" (is "?P \<longleftrightarrow> ?Q")
  proof
    assume ?Q
    then obtain i where i: "i < ?k" "b < region_end (?rs ! i)" by blast
    have "rg_base (?rs ! (?k - 1)) < b" using i k kspec [of "?k - 1"] by auto
    moreover have "region_end (?rs ! i) \<le> rg_base (?rs ! (?k - 1))" if "i < ?k - 1"
      using regions_ok_before [OF ok that] k i(1) by (simp add: region_before_def)
    ultimately have "\<not> i < ?k - 1" using i(2) by (meson le_less_trans not_le less_asym)
    then have "i = ?k - 1" using i(1) by linarith
    with i show ?P by auto
  next
    assume ?P
    then show ?Q by (intro exI [of _ "?k - 1"]) simp
  qed
  have nxt: "?k < length ?rs \<and> rg_base (?rs ! ?k) < b + sz \<longleftrightarrow>
      (\<exists>i. ?k \<le> i \<and> i < length ?rs \<and> rg_base (?rs ! i) < b + sz)"
    using regions_ok_base_mono [OF ok, of ?k] by (meson le_less_trans order_refl)
  have "(\<exists>r \<in> set ?rs. region_meets b sz r) \<longleftrightarrow>
      (\<exists>i < ?k. b < region_end (?rs ! i)) \<or> (\<exists>i. ?k \<le> i \<and> i < length ?rs \<and> rg_base (?rs ! i) < b + sz)"
  proof -
    have "(\<exists>r \<in> set ?rs. region_meets b sz r) \<longleftrightarrow> (\<exists>i < length ?rs. region_meets b sz (?rs ! i))"
      by (metis in_set_conv_nth)
    moreover have "region_meets b sz (?rs ! i) \<longleftrightarrow>
        i < ?k \<and> b < region_end (?rs ! i) \<or> ?k \<le> i \<and> rg_base (?rs ! i) < b + sz" if "i < length ?rs" for i
      using kspec [OF that] by (auto simp: region_meets_def not_less [symmetric])
    ultimately have "(\<exists>r \<in> set ?rs. region_meets b sz r) \<longleftrightarrow> (\<exists>i < length ?rs.
        i < ?k \<and> b < region_end (?rs ! i) \<or> ?k \<le> i \<and> rg_base (?rs ! i) < b + sz)"
      by (simp cong: conj_cong)
    then show ?thesis using k by (auto dest: less_le_trans)
  qed
  then show ?thesis
    unfolding prev [symmetric] nxt [symmetric] using nz ov by (auto simp: mm_has_overlap_def Let_def)
qed

subsection \<open>Mapping\<close>

lemma mm_reserve_region_shape:
  assumes "mm_reserve_region_capacity h m n = (b, h', m')"
  shows "m' = m \<or> (\<exists>a c. m' = m\<lparr>regions_array := a, region_capacity := c\<rparr>)"
proof (cases "n \<le> region_capacity m")
  case True
  with assms show ?thesis by (simp add: mm_reserve_region_capacity_def)
next
  case False
  define k where "k = mm_grow_capacity (if region_capacity m = 0 then 16 else region_capacity m) n"
  obtain p h1 where "CPUEAXH_ALLOC_ZEROED h (of_nat (k * 40)) = (p, h1)" by force
  with assms False show ?thesis
    by (cases "p = 0") (auto simp: mm_reserve_region_capacity_def k_def)
qed

lemma mm_reserve_frame:
  assumes "mm_reserve_region_capacity h m n = (b, h', m')"
  shows "regions m' = regions m" "patches m' = patches m" "page_cache m' = page_cache m"
    "code_version m' = code_version m" "mm_host_passthrough_perms m' = mm_host_passthrough_perms m"
  using mm_reserve_region_shape [OF assms] by (auto simp: mm_host_passthrough_perms_def)

lemma mm_bump_simps [simp]:
  "regions (mm_bump_code_version m) = regions m"
  "patches (mm_bump_code_version m) = patches m"
  "page_cache (mm_bump_code_version m) = page_cache m"
  by (simp_all add: mm_bump_code_version_def Let_def)

lemma mm_invalidate_simps [simp]:
  "regions (mm_invalidate_cache m) = regions m"
  "patches (mm_invalidate_cache m) = patches m"
  "page_cache (mm_invalidate_cache m) = (\<lambda>_. empty_page_cache_entry)"
  by (simp_all add: mm_invalidate_cache_def)

lemma regions_ok_insert:
  assumes ok: "regions_ok (regions m)" and r: "region_ok r"
    and apart: "\<forall>s \<in> set (regions m). \<not> region_meets (rg_base r) (rg_size r) s"
    and k: "k = mm_find_insertion_index m (rg_base r)"
  shows "regions_ok (take k (regions m) @ r # drop k (regions m))"
proof -
  let ?rs = "regions m"
  have kl: "k \<le> length ?rs" unfolding k by (rule mm_find_insertion_index_spec(1) [OF ok])
  have kspec: "i < k \<longleftrightarrow> rg_base (?rs ! i) < rg_base r" if "i < length ?rs" for i
    unfolding k by (rule mm_find_insertion_index_spec(2) [OF ok that])
  have lo: "region_before s r" if s: "s \<in> set (take k ?rs)" for s
  proof -
    from s obtain i where i: "i < k" "i < length ?rs" "?rs ! i = s"
      by (auto simp: in_set_conv_nth)
    then have "rg_base s < rg_base r" "\<not> region_meets (rg_base r) (rg_size r) s"
      using kspec apart by auto
    then show ?thesis by (auto simp: region_meets_def region_before_def not_less)
  qed
  have hi: "region_before r s" if s: "s \<in> set (drop k ?rs)" for s
  proof -
    from s kl obtain i where i: "k \<le> i" "i < length ?rs" "?rs ! i = s"
      by (auto simp: in_set_conv_nth) (metis add.commute le_add2 less_diff_conv)
    then have "\<not> rg_base s < rg_base r" "\<not> region_meets (rg_base r) (rg_size r) s"
      using kspec [of i] apart by auto
    then show ?thesis by (auto simp: region_meets_def region_before_def not_less)
  qed
  have tr: "region_before s t" if "s \<in> set (take k ?rs)" "t \<in> set (drop k ?rs)" for s t
    using region_before_trans [OF lo hi] that by blast
  have "sorted_wrt region_before (take k ?rs)" "sorted_wrt region_before (drop k ?rs)"
    using ok by (auto simp: regions_ok_def sorted_wrt_take sorted_wrt_drop)
  moreover have "list_all region_ok (take k ?rs)" "list_all region_ok (drop k ?rs)"
    using ok by (auto simp: regions_ok_def list_all_iff dest: in_set_takeD in_set_dropD)
  ultimately show ?thesis
    using r lo hi tr by (simp add: regions_ok_def sorted_wrt_append)
qed

lemma region_at_insert:
  assumes ok: "regions_ok (take k rs @ r # drop k rs)" and rs: "regions_ok rs"
  shows "region_at (take k rs @ r # drop k rs) a =
    (if region_contains r a then Some r else region_at rs a)"
proof -
  have s: "set (take k rs @ r # drop k rs) = insert r (set rs)"
    by simp (metis append_take_drop_id set_append)
  show ?thesis
  proof (cases "region_contains r a")
    case True
    then show ?thesis using region_at_Some [OF ok, of a r] s by simp
  next
    case False
    show ?thesis
    proof (cases "region_at rs a")
      case None
      then have "\<forall>t \<in> set (take k rs @ r # drop k rs). \<not> region_contains t a"
        unfolding s region_at_None using False by simp
      then show ?thesis using None False unfolding region_at_None [symmetric] by simp
    next
      case (Some t)
      then show ?thesis
        using False s region_at_Some [OF ok, of a t] region_at_Some [OF rs, of a t] by simp
    qed
  qed
qed

lemma mm_insert_region_regions:
  assumes "mm_insert_region h m k r = (b, h', m')"
  shows "regions m' = (if b then take k (regions m) @ r # drop k (regions m) else regions m)"
  using assms mm_reserve_frame(1)
  by (fastforce simp: mm_insert_region_def split: prod.splits bool.splits)

text \<open>
  Both mapping operations, when they succeed, put one new region of the requested range into
  the table; when they fail they leave the table as it was.
\<close>

abbreviation mapped_region :: "u64 \<Rightarrow> u64 \<Rightarrow> u64 \<Rightarrow> u32 \<Rightarrow> bool \<Rightarrow> MEMORY_REGION" where
  "mapped_region address sz p perms ext \<equiv>
     \<lparr>rg_base = address, rg_size = sz, rg_data = p, rg_perms = perms,
      rg_cpu_attrs = MM_CPU_ATTR_USER, rg_external = ext\<rparr>"

abbreviation regions_with :: "MEMORY_MANAGER \<Rightarrow> MEMORY_REGION \<Rightarrow> MEMORY_REGION list" where
  "regions_with m r \<equiv> take (mm_find_insertion_index m (rg_base r)) (regions m) @ r #
                      drop (mm_find_insertion_index m (rg_base r)) (regions m)"

definition map_guard :: "MEMORY_MANAGER \<Rightarrow> u64 \<Rightarrow> u64 \<Rightarrow> u32 \<Rightarrow> bool" where
  "map_guard m address sz perms \<longleftrightarrow>
     sz \<noteq> 0 \<and> mm_is_page_aligned address \<and> mm_is_page_aligned sz \<and>
     \<not> mm_range_overflows address sz \<and> mm_is_valid_perms perms \<and> \<not> mm_has_overlap m address sz"

lemma mm_map_internal_result:
  "mm_map_internal h m address sz perms = (b, h', m') \<Longrightarrow>
   if b then map_guard m address sz perms \<and>
          (\<exists>p. p \<noteq> 0 \<and> regions m' = regions_with m (mapped_region address sz p perms False))
   else regions m' = regions m"
  by (auto simp: mm_map_internal_def map_guard_def Let_def split: if_splits prod.splits bool.splits
      dest!: mm_insert_region_regions)

lemma mm_map_host_result:
  "mm_map_host h m address sz perms ptr = (b, h', m') \<Longrightarrow>
   if b then map_guard m address sz perms \<and> ptr \<noteq> 0 \<and>
          regions m' = regions_with m (mapped_region address sz ptr perms True)
   else regions m' = regions m"
  by (auto simp: mm_map_host_def map_guard_def Let_def split: if_splits prod.splits bool.splits
      dest!: mm_insert_region_regions)

lemma regions_insert_new:
  assumes ok: "regions_ok (regions m)" and g: "map_guard m (rg_base r) (rg_size r) perms"
    and m': "regions m' = regions_with m r"
  shows "regions_ok (regions m')"
    and "page_map m' a = (if region_contains r a then Some (rg_perms r, rg_cpu_attrs r)
                          else page_map m a)"
proof -
  have rok: "region_ok r" using g by (simp add: region_ok_def map_guard_def)
  have "\<forall>s \<in> set (regions m). \<not> region_meets (rg_base r) (rg_size r) s"
    using mm_has_overlap_iff [OF ok, of "rg_size r" "rg_base r"] g by (auto simp: map_guard_def)
  then show ok': "regions_ok (regions m')"
    unfolding m' using regions_ok_insert [OF ok rok _ refl] by simp
  show "page_map m' a = (if region_contains r a then Some (rg_perms r, rg_cpu_attrs r)
                         else page_map m a)"
    using region_at_insert [OF ok' [unfolded m'] ok, of a] by (simp add: page_map_def m')
qed

subsection \<open>Page alignment\<close>

lemma mm_is_page_aligned_unat: "mm_is_page_aligned v \<longleftrightarrow> unat v mod 4096 = 0"
proof -
  have m: "CPUEAXH_PAGE_SIZE - 1 = mask 12"
    by (simp add: CPUEAXH_PAGE_SIZE_def mask_eq_exp_minus_1)
  have "unat (take_bit 12 v) = unat v mod 4096"
    by (simp only: unsigned_take_bit_eq) (simp add: take_bit_eq_mod)
  then show ?thesis
    unfolding mm_is_page_aligned_def m take_bit_eq_mask [symmetric]
    by (metis unat_eq_zero)
qed

lemma page_aligned_add:
  "mm_is_page_aligned a \<Longrightarrow> mm_is_page_aligned b \<Longrightarrow> mm_is_page_aligned (a + b)"
proof -
  assume "mm_is_page_aligned a" "mm_is_page_aligned b"
  then have "4096 dvd unat a + unat b"
    by (auto simp: mm_is_page_aligned_unat intro: dvd_add)
  moreover have "(4096 :: nat) dvd 2 ^ 64" by simp
  ultimately have "4096 dvd (unat a + unat b) mod 2 ^ 64" by (rule dvd_mod)
  then show ?thesis by (simp add: mm_is_page_aligned_unat unat_word_ariths dvd_eq_mod_eq_0)
qed

lemma page_aligned_diff:
  "mm_is_page_aligned a \<Longrightarrow> mm_is_page_aligned b \<Longrightarrow> b \<le> a \<Longrightarrow> mm_is_page_aligned (a - b)"
  by (simp add: mm_is_page_aligned_unat unat_diff_le dvd_eq_mod_eq_0 [symmetric] dvd_diff_nat)

subsection \<open>Splitting a region\<close>

definition piece_in :: "MEMORY_REGION \<Rightarrow> u64 \<times> u64 \<times> u32 \<times> u32 \<Rightarrow> bool" where
  "piece_in r = (\<lambda>(b, n, p, a). n \<noteq> 0 \<and> mm_is_page_aligned b \<and> mm_is_page_aligned n \<and>
     unat (rg_base r) \<le> unat b \<and> unat b + unat n \<le> unat (region_end r))"

definition piece_before :: "u64 \<times> u64 \<times> u32 \<times> u32 \<Rightarrow> u64 \<times> u64 \<times> u32 \<times> u32 \<Rightarrow> bool" where
  "piece_before = (\<lambda>(b, n, p, a) (b', n', p', a'). unat b + unat n \<le> unat b')"

definition pieces_ok :: "MEMORY_REGION \<Rightarrow> (u64 \<times> u64 \<times> u32 \<times> u32) list \<Rightarrow> bool" where
  "pieces_ok r ps \<longleftrightarrow> list_all (piece_in r) ps \<and> sorted_wrt piece_before ps"

definition piece_region :: "MEMORY_REGION \<Rightarrow> u64 \<times> u64 \<times> u32 \<times> u32 \<Rightarrow> MEMORY_REGION \<Rightarrow> bool" where
  "piece_region orig = (\<lambda>(b, n, p, a) r. rg_base r = b \<and> rg_size r = n \<and> rg_perms r = p \<and>
     rg_cpu_attrs r = a \<and> rg_external r = rg_external orig)"

definition piece_perms :: "(u64 \<times> u64 \<times> u32 \<times> u32) list \<Rightarrow> u64 \<Rightarrow> (u32 \<times> u32) option" where
  "piece_perms ps x =
     map_option (\<lambda>(b, n, p, a). (p, a)) (find (\<lambda>(b, n, p, a). in_range b n x) ps)"

lemma mm_build_region_segment_ok:
  "mm_build_region_segment h orig b n p a = (True, h', r) \<Longrightarrow> piece_region orig (b, n, p, a) r"
  by (auto simp: mm_build_region_segment_def piece_region_def empty_memory_region_def Let_def
      split: if_splits prod.splits)

lemma mm_build_replacements_ok:
  "mm_build_replacements h orig ps acc = (True, h', rs) \<Longrightarrow>
   \<exists>new. rs = acc @ new \<and> list_all2 (piece_region orig) ps new"
proof (induction h orig ps acc rule: mm_build_replacements.induct)
  case (1 h orig acc)
  then show ?case by simp
next
  case (2 h orig b n p a ps acc)
  from "2.prems" obtain h1 r where
    seg: "mm_build_region_segment h orig b n p a = (True, h1, r)" and
    rest: "mm_build_replacements h1 orig ps (acc @ [r]) = (True, h', rs)"
    by (auto split: prod.splits bool.splits)
  from "2.IH" [OF seg [symmetric] refl refl rest] obtain new where
    "rs = (acc @ [r]) @ new" "list_all2 (piece_region orig) ps new" by blast
  then show ?case using mm_build_region_segment_ok [OF seg] by (intro exI [of _ "r # new"]) simp
qed

lemma mm_replace_region_regions:
  "mm_replace_region h m i rs = (b, h', m') \<Longrightarrow>
   if b then i < length (regions m) \<and> regions m' = list_splice (regions m) i rs
   else regions m' = regions m"
  using mm_reserve_frame(1)
  by (fastforce simp: mm_replace_region_def Let_def split: if_splits prod.splits bool.splits)

lemma mm_split_region_regions:
  assumes "mm_split_region h m i ps = (b, h', m')"
  shows "if b then i < length (regions m) \<and>
           (\<exists>new. list_all2 (piece_region (regions m ! i)) ps new \<and>
                  regions m' = list_splice (regions m) i new)
         else regions m' = regions m"
proof -
  obtain b1 h1 new where bld: "mm_build_replacements h (regions m ! i) ps [] = (b1, h1, new)"
    by (metis prod_cases3)
  obtain b2 h2 m2 where rep: "mm_replace_region h1 m i new = (b2, h2, m2)"
    by (metis prod_cases3)
  show ?thesis
    using assms bld rep mm_replace_region_regions [OF rep] mm_build_replacements_ok [of h _ ps "[]" h1 new]
    by (cases b1; cases b2) (auto simp: mm_split_region_def)
qed

lemma piece_in_range:
  assumes "piece_in o' (b, n, p, a)"
  shows "no_wrap b n" "b \<le> x \<and> x < b + n \<longleftrightarrow> in_range b n x"
    "unat (b + n) = unat b + unat n" "unat (b + n) \<le> unat (region_end o')"
proof -
  show nw: "no_wrap b n"
    using assms unat64_less [of "region_end o'"] by (simp add: piece_in_def no_wrap_def)
  show e: "unat (b + n) = unat b + unat n" using nw by (rule no_wrap_unat_add)
  show "b \<le> x \<and> x < b + n \<longleftrightarrow> in_range b n x"
    by (simp add: in_range_def word_le_nat_alt word_less_nat_alt e)
  show "unat (b + n) \<le> unat (region_end o')" using assms by (simp add: e piece_in_def)
qed

lemma find_pieces:
  "list_all2 (piece_region orig) ps new \<Longrightarrow> list_all (piece_in o') ps \<Longrightarrow>
   map_option (\<lambda>r. (rg_perms r, rg_cpu_attrs r)) (region_at new x) = piece_perms ps x"
  unfolding region_at_def piece_perms_def
proof (induction ps new rule: list_all2_induct)
  case Nil
  then show ?case by simp
next
  case (Cons p ps r new)
  obtain b n q a where p: "p = (b, n, q, a)" by (cases p)
  have "region_contains r x \<longleftrightarrow> in_range b n x"
    using Cons.prems Cons.hyps(1) piece_in_range(2) [of o' b n q a x]
    by (simp add: p piece_region_def region_contains_def)
  then show ?case using Cons by (auto simp: p piece_region_def)
qed

lemma regions_ok_splice:
  assumes ok: "regions_ok rs" and i: "i < length rs" and ps: "pieces_ok (rs ! i) ps"
    and new: "list_all2 (piece_region (rs ! i)) ps new"
  shows "regions_ok (list_splice rs i new)"
proof -
  let ?o = "rs ! i"
  have oko: "region_ok ?o" by (rule regions_ok_nth [OF ok i])
  have piece: "piece_in ?o (rg_base r, rg_size r, rg_perms r, rg_cpu_attrs r)" if "r \<in> set new" for r
  proof -
    from that obtain j where j: "j < length new" "new ! j = r" by (auto simp: in_set_conv_nth)
    then have "piece_region ?o (ps ! j) r" "ps ! j \<in> set ps"
      using list_all2_nthD2 [OF new, of j] list_all2_lengthD [OF new] by auto
    then show ?thesis
      using ps by (cases "ps ! j") (auto simp: pieces_ok_def list_all_iff piece_region_def)
  qed
  have rok: "region_ok r" if "r \<in> set new" for r
    using piece [OF that] piece_in_range(1) [OF piece [OF that]] oko
    by (auto simp: region_ok_def piece_in_def no_wrap_def mm_range_overflows_unat)
  have srt: "sorted_wrt region_before new"
    unfolding sorted_wrt_iff_nth_less
  proof (intro allI impI)
    fix j k assume jk: "j < k" "k < length new"
    then have "piece_before (ps ! j) (ps ! k)"
      using ps list_all2_lengthD [OF new] by (auto simp: pieces_ok_def intro: sorted_wrt_nth_less)
    moreover have "piece_region ?o (ps ! j) (new ! j)" "piece_region ?o (ps ! k) (new ! k)"
      using jk list_all2_nthD2 [OF new] by auto
    ultimately show "region_before (new ! j) (new ! k)"
      by (cases "ps ! j"; cases "ps ! k")
         (use piece_in_range(3) [OF piece [of "new ! j"]] jk in
            \<open>auto simp: piece_before_def piece_region_def region_before_def word_le_nat_alt\<close>)
  qed
  have "sorted_wrt region_before (list_splice rs i new)"
  proof (rule sorted_wrt_list_splice [OF _ i srt])
    show "sorted_wrt region_before rs" using ok by (simp add: regions_ok_def)
  next
    show "region_before x y" if "region_before x (rs ! i)" "y \<in> set new" for x y
      using that(1) piece [OF that(2)]
      by (auto simp: piece_in_def region_before_def word_le_nat_alt)
    show "region_before y x" if "region_before (rs ! i) x" "y \<in> set new" for x y
      using that(1) piece [OF that(2)] piece_in_range(3) [OF piece [OF that(2)]]
      by (auto simp: piece_in_def region_before_def word_le_nat_alt)
  qed
  moreover have "list_all region_ok (list_splice rs i new)"
    using set_list_splice [of rs i new] ok rok by (auto simp: regions_ok_def list_all_iff)
  ultimately show ?thesis by (simp add: regions_ok_def)
qed

lemma in_set_take_or_drop:
  assumes "r \<in> set (take i rs) \<union> set (drop (Suc i) rs)"
  shows "\<exists>j. j < length rs \<and> j \<noteq> i \<and> rs ! j = r"
  using assms
proof
  assume "r \<in> set (take i rs)"
  then show ?thesis by (auto simp: in_set_conv_nth)
next
  assume "r \<in> set (drop (Suc i) rs)"
  then obtain k where "k < length rs - Suc i" "rs ! (Suc i + k) = r"
    by (auto simp: in_set_conv_nth)
  then show ?thesis by (intro exI [of _ "Suc i + k"]) auto
qed

lemma region_at_splice:
  assumes ok: "regions_ok rs" and i: "i < length rs"
    and ok': "regions_ok (list_splice rs i new)"
    and sub: "\<And>r x. r \<in> set new \<Longrightarrow> region_contains r x \<Longrightarrow> region_contains (rs ! i) x"
  shows "region_at (list_splice rs i new) x =
    (if region_contains (rs ! i) x then region_at new x else region_at rs x)"
proof -
  have s: "set (list_splice rs i new) = set (take i rs) \<union> set new \<union> set (drop (Suc i) rs)"
    by (auto simp: list_splice_def)
  have others: "\<not> region_contains r x"
    if "region_contains (rs ! i) x" "r \<in> set (take i rs) \<union> set (drop (Suc i) rs)" for r
  proof
    assume c: "region_contains r x"
    from in_set_take_or_drop [OF that(2)] obtain j where "j < length rs" "j \<noteq> i" "rs ! j = r"
      by blast
    with region_index_unique [OF ok i that(1), of j] c show False by simp
  qed
  have srs: "set rs = set (take i rs) \<union> {rs ! i} \<union> set (drop (Suc i) rs)"
    (is "_ = ?R")
  proof -
    have "set rs = set (take i rs @ rs ! i # drop (Suc i) rs)"
      by (rule arg_cong [OF id_take_nth_drop [OF i]])
    also have "\<dots> = ?R" by simp
    finally show ?thesis .
  qed
  show ?thesis
  proof (cases "region_contains (rs ! i) x")
    case True
    show ?thesis
    proof (cases "region_at new x")
      case None
      then have "region_at (list_splice rs i new) x = None"
        using others [OF True] unfolding region_at_None s by auto
      with None True show ?thesis by simp
    next
      case (Some r)
      then have "region_at (list_splice rs i new) x = Some r"
        using region_at_Some_set [OF Some] unfolding region_at_Some [OF ok'] s by auto
      with Some True show ?thesis by simp
    qed
  next
    case False
    show ?thesis
    proof (cases "region_at rs x")
      case None
      then have "region_at (list_splice rs i new) x = None"
        using False sub unfolding region_at_None s srs by auto
      with None False show ?thesis by simp
    next
      case (Some r)
      then have "region_at (list_splice rs i new) x = Some r"
        using False region_at_Some_set [OF Some] unfolding region_at_Some [OF ok'] s srs by auto
      with Some False show ?thesis by simp
    qed
  qed
qed

lemma piece_region_inside:
  assumes ps: "pieces_ok o' ps" and new: "list_all2 (piece_region o') ps new"
    and r: "r \<in> set new" "region_contains r x"
  shows "region_contains o' x"
proof -
  from r obtain j where j: "j < length new" "new ! j = r" by (auto simp: in_set_conv_nth)
  then have p: "piece_region o' (ps ! j) r" "piece_in o' (ps ! j)"
    using list_all2_nthD2 [OF new, of j] list_all2_lengthD [OF new] ps
    by (auto simp: pieces_ok_def list_all_iff)
  obtain b n q a where pj: "ps ! j = (b, n, q, a)" by (cases "ps ! j")
  show ?thesis
    using p r(2) piece_in_range(4) [of o' b n q a] unfolding pj
    by (simp add: piece_region_def piece_in_def word_le_nat_alt word_less_nat_alt region_contains_def)
qed

lemma mm_split_region_page_map:
  assumes ok: "regions_ok (regions m)" and i: "i < length (regions m)"
    and ps: "pieces_ok (regions m ! i) ps"
    and split: "mm_split_region h m i ps = (b, h', m')"
  shows "regions_ok (regions m')"
    and "b \<Longrightarrow> page_map m' x =
      (if region_contains (regions m ! i) x then piece_perms ps x else page_map m x)"
    and "\<not> b \<Longrightarrow> regions m' = regions m"
proof -
  note res = mm_split_region_regions [OF split]
  show nb: "regions m' = regions m" if "\<not> b" using res that by simp
  have "regions_ok (regions m') \<and> page_map m' x =
      (if region_contains (regions m ! i) x then piece_perms ps x else page_map m x)" if b
  proof -
    from res that obtain new where new: "list_all2 (piece_region (regions m ! i)) ps new"
      and m': "regions m' = list_splice (regions m) i new" by auto
    have ok': "regions_ok (regions m')"
      unfolding m' by (rule regions_ok_splice [OF ok i ps new])
    with region_at_splice [OF ok i ok' [unfolded m'] piece_region_inside [OF ps new], of _ x]
      find_pieces [OF new, of "regions m ! i" x] ps
    show ?thesis by (simp add: page_map_def m' pieces_ok_def)
  qed
  then show "regions_ok (regions m')"
    and "b \<Longrightarrow> page_map m' x =
      (if region_contains (regions m ! i) x then piece_perms ps x else page_map m x)"
    using nb ok by (cases b; simp)+
qed

lemma split_pieces_ok:
  assumes r: "region_ok r" and cur: "region_contains r current" "mm_is_page_aligned current"
    and ce: "current < chunk_end" "chunk_end \<le> region_end r" "mm_is_page_aligned chunk_end"
    and mid: "mid = [] \<or> mid = [(current, chunk_end - current, p, a)]"
  shows "pieces_ok r (mm_head_piece r current @ mid @ mm_tail_piece r chunk_end)"
    and "region_contains r x \<Longrightarrow>
      piece_perms (mm_head_piece r current @ mid @ mm_tail_piece r chunk_end) x =
      (if current \<le> x \<and> x < chunk_end
       then (if mid = [] then None else Some (p, a)) else Some (rg_perms r, rg_cpu_attrs r))"
proof -
  have end_al: "mm_is_page_aligned (region_end r)"
    using r by (simp add: region_ok_def page_aligned_add)
  have bc: "rg_base r \<le> current" using cur(1) by (simp add: region_contains_def)
  note al = page_aligned_diff [OF cur(2) _ bc] page_aligned_diff [OF ce(3) cur(2)]
    page_aligned_diff [OF end_al ce(3) ce(2)]
  have nat: "unat (current - rg_base r) = unat current - unat (rg_base r)"
     "unat (chunk_end - current) = unat chunk_end - unat current"
     "unat (region_end r - chunk_end) = unat (region_end r) - unat chunk_end"
    using bc ce by (simp_all add: unat_diff_le less_imp_le)
  have ne: "current - rg_base r \<noteq> 0" if "rg_base r < current" using that by auto
  have ne2: "chunk_end - current \<noteq> 0" using ce by auto
  have ne3: "region_end r - chunk_end \<noteq> 0" if "chunk_end < region_end r" using that by auto
  note e = region_ok_end [OF r cur(1)]
  have le: "unat (rg_base r) \<le> unat current" "unat current < unat chunk_end"
    "unat chunk_end \<le> unat (rg_base r) + unat (rg_size r)"
    using bc ce e by (simp_all add: word_le_nat_alt word_less_nat_alt)
  show "pieces_ok r (mm_head_piece r current @ mid @ mm_tail_piece r chunk_end)"
    using mid r le nat al ne ne2 ne3 e
    by (auto simp: pieces_ok_def piece_in_def piece_before_def mm_head_piece_def
        mm_tail_piece_def cur ce less_imp_le region_ok_def word_less_nat_alt)
  show "region_contains r x \<Longrightarrow>
      piece_perms (mm_head_piece r current @ mid @ mm_tail_piece r chunk_end) x =
      (if current \<le> x \<and> x < chunk_end
       then (if mid = [] then None else Some (p, a)) else Some (rg_perms r, rg_cpu_attrs r))"
    using mid le nat e
    by (auto simp: piece_perms_def mm_head_piece_def mm_tail_piece_def in_range_def
        region_contains_def word_less_nat_alt word_le_nat_alt)
qed

subsection \<open>The splitting loops\<close>

text \<open>
  The common contract of the three loops: each step finds the region at \<open>current\<close>, replaces it by
  the part before, the changed middle part (absent when \<open>chunk\<close> gives \<open>None\<close>) and the part after,
  and goes on behind it.
\<close>

definition mid_piece :: "(u32 \<times> u32) option \<Rightarrow> u64 \<Rightarrow> u64 \<Rightarrow> (u64 \<times> u64 \<times> u32 \<times> u32) list" where
  "mid_piece v current chunk_end =
     (case v of None \<Rightarrow> [] | Some (p, a) \<Rightarrow> [(current, chunk_end - current, p, a)])"

definition rewrite_pieces ::
  "(u32 \<times> u32 \<Rightarrow> (u32 \<times> u32) option) \<Rightarrow> MEMORY_REGION \<Rightarrow> u64 \<Rightarrow> u64 \<Rightarrow>
   (u64 \<times> u64 \<times> u32 \<times> u32) list" where
  "rewrite_pieces chunk r current chunk_end =
     mm_head_piece r current @ mid_piece (chunk (rg_perms r, rg_cpu_attrs r)) current chunk_end @
     mm_tail_piece r chunk_end"

lemma rewrite_pieces_ok:
  assumes ok: "regions_ok (regions m)" and i: "mm_find_region_index m current = Some i"
    and cur: "mm_is_page_aligned current" "current < end" "mm_is_page_aligned end"
  defines "r \<equiv> regions m ! i" and "ce \<equiv> mm_next_chunk m i end"
  shows "pieces_ok r (rewrite_pieces chunk r current ce)" and "mm_is_page_aligned ce"
    and "current < ce" "ce \<le> end" "ce \<le> region_end r" "i < length (regions m)"
    and "region_contains r x \<Longrightarrow> piece_perms (rewrite_pieces chunk r current ce) x =
      (if current \<le> x \<and> x < ce then chunk (rg_perms r, rg_cpu_attrs r)
       else Some (rg_perms r, rg_cpu_attrs r))"
proof -
  have il: "i < length (regions m)" and c: "region_contains r current"
    using i mm_find_region_index_Some_iff [OF ok] by (simp_all add: r_def)
  have rok: "region_ok r" unfolding r_def by (rule regions_ok_nth [OF ok il])
  have al: "mm_is_page_aligned ce"
    using rok cur(3) by (simp add: ce_def mm_next_chunk_def Let_def r_def region_ok_def page_aligned_add)
  have p: "current < ce" "ce \<le> end" "ce \<le> region_end r"
    using mm_next_chunk_progress [OF i cur(2)] by (auto simp: ce_def mm_next_chunk_def Let_def r_def)
  let ?v = "chunk (rg_perms r, rg_cpu_attrs r)"
  have mid: "mid_piece ?v current ce = [] \<or>
      mid_piece ?v current ce = [(current, ce - current, fst (the ?v), snd (the ?v))]"
    by (auto simp: mid_piece_def split: option.splits)
  note sp = split_pieces_ok [OF rok c cur(1) p(1,3) al mid]
  show "pieces_ok r (rewrite_pieces chunk r current ce)"
    unfolding rewrite_pieces_def by (rule sp(1))
  show "region_contains r x \<Longrightarrow> piece_perms (rewrite_pieces chunk r current ce) x =
      (if current \<le> x \<and> x < ce then ?v else Some (rg_perms r, rg_cpu_attrs r))"
    unfolding rewrite_pieces_def
    by (subst sp(2)) (auto simp: mid_piece_def split: option.splits)
  show "mm_is_page_aligned ce" "current < ce" "ce \<le> end" "ce \<le> region_end r"
    "i < length (regions m)"
    by (fact al p il)+
qed

definition range_guard :: "MEMORY_MANAGER \<Rightarrow> u64 \<Rightarrow> u64 \<Rightarrow> bool" where
  "range_guard m address sz \<longleftrightarrow> mm_is_page_aligned address \<and> mm_is_page_aligned sz \<and>
     \<not> mm_range_overflows address sz \<and> mm_check_range_mapped m address sz"

locale region_rewrite =
  fixes loop :: "host \<Rightarrow> MEMORY_MANAGER \<Rightarrow> u64 \<Rightarrow> u64 \<Rightarrow> bool \<times> host \<times> MEMORY_MANAGER"
    and chunk :: "u32 \<times> u32 \<Rightarrow> (u32 \<times> u32) option"
  assumes loop_eq: "loop h m current end =
    (if current < end
     then case mm_find_region_index m current of
            None \<Rightarrow> (False, h, m)
          | Some i \<Rightarrow>
              (case mm_split_region h m i
                      (rewrite_pieces chunk (regions m ! i) current (mm_next_chunk m i end)) of
                 (False, h1, m1) \<Rightarrow> (False, h1, m1)
               | (True, h1, m1) \<Rightarrow> loop h1 m1 (mm_next_chunk m i end) end)
     else (True, h, m))"
begin

text \<open>Computation induction for the loop, with the region found and the split made.\<close>

lemma loop_induct [consumes 1, case_names finished missing stuck step]:
  assumes "loop h m current end = (b, h', m')"
    and "\<And>h m current. \<not> current < end \<Longrightarrow> P h m current True h m"
    and "\<And>h m current. current < end \<Longrightarrow> mm_find_region_index m current = None \<Longrightarrow>
        P h m current False h m"
    and "\<And>h m current i h1 m1. current < end \<Longrightarrow> mm_find_region_index m current = Some i \<Longrightarrow>
        mm_split_region h m i (rewrite_pieces chunk (regions m ! i) current (mm_next_chunk m i end))
          = (False, h1, m1) \<Longrightarrow> P h m current False h1 m1"
    and "\<And>h m current i h1 m1 b h' m'. current < end \<Longrightarrow>
        mm_find_region_index m current = Some i \<Longrightarrow>
        mm_split_region h m i (rewrite_pieces chunk (regions m ! i) current (mm_next_chunk m i end))
          = (True, h1, m1) \<Longrightarrow>
        loop h1 m1 (mm_next_chunk m i end) end = (b, h', m') \<Longrightarrow>
        P h1 m1 (mm_next_chunk m i end) b h' m' \<Longrightarrow> P h m current b h' m'"
  shows "P h m current b h' m'"
  using assms(1)
proof (induction "unat end - unat current" arbitrary: h m current rule: less_induct)
  case less
  note eq = less.prems [unfolded loop_eq [of h m current "end"]]
  show ?case
  proof (cases "current < end")
    case False
    with eq assms(2) [OF False] show ?thesis by simp
  next
    case True
    show ?thesis
    proof (cases "mm_find_region_index m current")
      case None
      with eq True assms(3) [OF True None] show ?thesis by simp
    next
      case (Some i)
      obtain b1 h1 m1 where sp: "mm_split_region h m i
          (rewrite_pieces chunk (regions m ! i) current (mm_next_chunk m i end)) = (b1, h1, m1)"
        by (metis prod_cases3)
      show ?thesis
      proof (cases b1)
        case False
        with sp eq True Some assms(4) [OF True Some, of h h1 m1] show ?thesis by simp
      next
        case b1: True
        then have sp': "mm_split_region h m i
          (rewrite_pieces chunk (regions m ! i) current (mm_next_chunk m i end)) = (True, h1, m1)"
          using sp by simp
        have rest: "loop h1 m1 (mm_next_chunk m i end) end = (b, h', m')"
          using eq True Some sp' by simp
        show ?thesis
          by (rule assms(5) [OF True Some sp' rest
              less.hyps [OF mm_next_chunk_measure [OF Some True] rest]])
      qed
    qed
  qed
qed

lemma loop_regions_ok:
  assumes "loop h m current end = (b, h', m')" and "regions_ok (regions m)"
    and "mm_is_page_aligned current" "mm_is_page_aligned end"
  shows "regions_ok (regions m')"
  using assms
proof (induction rule: loop_induct)
  case (stuck h m current i h1 m1)
  note rp = rewrite_pieces_ok [OF stuck(4,2,5,1,6)]
  show ?case by (rule mm_split_region_page_map(1) [OF stuck(4) rp(6,1) stuck(3)])
next
  case (step h m current i h1 m1 b h' m')
  note rp = rewrite_pieces_ok [OF step(6,2,7,1,8)]
  show ?case
    by (rule step.IH [OF mm_split_region_page_map(1) [OF step(6) rp(6,1) step(3)] rp(2) step(8)])
qed simp_all

text \<open>One step rewrites exactly the addresses up to the end of its chunk.\<close>

lemma split_page_map:
  assumes lt: "current < end" and i: "mm_find_region_index m current = Some i"
    and sp: "mm_split_region h m i
      (rewrite_pieces chunk (regions m ! i) current (mm_next_chunk m i end)) = (b, h1, m1)" and b
    and ok: "regions_ok (regions m)" and al: "mm_is_page_aligned current" "mm_is_page_aligned end"
  shows "page_map m1 x = (if current \<le> x \<and> x < mm_next_chunk m i end
     then Option.bind (page_map m x) chunk else page_map m x)"
proof -
  let ?ce = "mm_next_chunk m i end" and ?r = "regions m ! i"
  note rp = rewrite_pieces_ok [OF ok i al(1) lt al(2)]
  note pm = mm_split_region_page_map [OF ok rp(6,1) sp]
  have pr: "page_map m x = Some (rg_perms ?r, rg_cpu_attrs ?r)" if "region_contains ?r x"
  proof -
    have "region_at (regions m) x = Some ?r"
      using that rp(6) region_at_Some [OF ok] by simp
    then show ?thesis by (simp add: page_map_def)
  qed
  have "region_contains ?r x" if "current \<le> x" "x < ?ce"
    unfolding region_contains_def
    using order_trans [of "rg_base ?r" current x] less_le_trans [OF that(2) rp(5)] that(1)
      mm_find_region_index_found [OF i] by blast
  then show ?thesis
    using pm(2) [OF \<open>b\<close>, of x] rp(7) [of x] pr
    by (cases "region_contains ?r x"; cases "current \<le> x"; cases "x < ?ce") simp_all
qed

text \<open>A loop that fails half way has changed a prefix of its range and nothing else.\<close>

lemma loop_page_map_prefix:
  assumes "loop h m current end = (b, h', m')" and "regions_ok (regions m)"
    and "mm_is_page_aligned current" "mm_is_page_aligned end"
  shows "\<exists>stop. (current \<le> end \<longrightarrow> current \<le> stop \<and> stop \<le> end) \<and> (b \<longrightarrow> \<not> stop < end) \<and>
    (\<forall>x. page_map m' x = (if current \<le> x \<and> x < stop then Option.bind (page_map m x) chunk
                          else page_map m x))"
  using assms
proof (induction rule: loop_induct)
  case (finished h m current)
  then show ?case by (intro exI [of _ "end"]) (auto simp: not_less)
next
  case (missing h m current)
  then show ?case by (intro exI [of _ current]) auto
next
  case (stuck h m current i h1 m1)
  note rp = rewrite_pieces_ok [OF stuck(4,2,5,1,6)]
  have "regions m1 = regions m"
    by (rule mm_split_region_page_map(3) [OF stuck(4) rp(6,1) stuck(3)]) simp
  then show ?case using stuck(1) by (intro exI [of _ current]) (auto simp: page_map_def)
next
  case (step h m current i h1 m1 b h' m')
  let ?ce = "mm_next_chunk m i end"
  note rp = rewrite_pieces_ok [OF step(6,2,7,1,8)]
  note pm = mm_split_region_page_map(1) [OF step(6) rp(6,1) step(3)]
  from step.IH [OF pm rp(2) step(8)] rp(4) obtain stop where
    stop: "?ce \<le> stop" "stop \<le> end" "b \<longrightarrow> \<not> stop < end" and
    m': "\<And>x. page_map m' x = (if ?ce \<le> x \<and> x < stop then Option.bind (page_map m1 x) chunk
         else page_map m1 x)" by blast
  have m1: "page_map m1 x = (if current \<le> x \<and> x < ?ce then Option.bind (page_map m x) chunk
       else page_map m x)" for x
    by (rule split_page_map [OF step(1,2,3) TrueI step(6-8)])
  have "page_map m' x = (if current \<le> x \<and> x < stop then Option.bind (page_map m x) chunk
       else page_map m x)" for x
  proof (cases "x < ?ce")
    case True
    then have "x < stop" using stop(1) by (rule less_le_trans)
    with True show ?thesis by (simp add: m' m1 not_le [symmetric])
  next
    case False
    then have "?ce \<le> x" by (simp add: not_less)
    then have "current \<le> x" using rp(3) by (simp add: less_le_trans less_imp_le)
    with False \<open>?ce \<le> x\<close> show ?thesis by (simp add: m' m1)
  qed
  moreover have "current \<le> stop" using rp(3) stop(1) by (simp add: less_le_trans less_imp_le)
  ultimately show ?case using stop(2,3) by (intro exI [of _ stop]) blast
qed

lemma loop_range_partial:
  assumes l: "loop h m a (a + n) = (b, h', m')" and ok: "regions_ok (regions m)" and g: "range_guard m a n"
  shows "regions_ok (regions m')"
    and "page_map m' x = page_map m x \<or>
      no_wrap a n \<and> in_range a n x \<and> page_map m' x = Option.bind (page_map m x) chunk"
    and "b \<Longrightarrow> page_map m' x =
      (if no_wrap a n \<and> in_range a n x then Option.bind (page_map m x) chunk else page_map m x)"
proof -
  have al: "mm_is_page_aligned a" "mm_is_page_aligned (a + n)"
    and w: "a \<le> x \<and> x < a + n \<longleftrightarrow> no_wrap a n \<and> in_range a n x" for x
    using g by (simp_all add: range_guard_def page_aligned_add range_word)
  show "regions_ok (regions m')" by (rule loop_regions_ok [OF l ok al])
  have "\<exists>stop. stop \<le> a + n \<and> (b \<longrightarrow> stop = a + n) \<and> (\<forall>x. page_map m' x =
      (if a \<le> x \<and> x < stop then Option.bind (page_map m x) chunk else page_map m x))"
  proof (cases "a \<le> a + n")
    case True
    with loop_page_map_prefix [OF l ok al] show ?thesis by (meson antisym not_less)
  next
    case False
    then have "\<not> a < a + n" by (meson less_imp_le)
    then have "m' = m" "\<not> (a \<le> x \<and> x < a + n)" for x
      using l by (simp_all add: loop_eq [of h m a]) (meson le_less_trans)
    then show ?thesis by (intro exI [of _ "a + n"]) auto
  qed
  then obtain stop where st: "stop \<le> a + n" "b \<longrightarrow> stop = a + n" and
    pm: "\<And>x. page_map m' x = (if a \<le> x \<and> x < stop then Option.bind (page_map m x) chunk
       else page_map m x)" by blast
  have "x < stop \<Longrightarrow> x < a + n" by (erule less_le_trans [OF _ st(1)])
  with pm [of x] show "page_map m' x = page_map m x \<or>
      no_wrap a n \<and> in_range a n x \<and> page_map m' x = Option.bind (page_map m x) chunk"
    using w [of x] by (cases "a \<le> x \<and> x < stop") auto
  show "page_map m' x = (if no_wrap a n \<and> in_range a n x then Option.bind (page_map m x) chunk else page_map m x)" if b
    using pm [of x] st(2) that by (simp add: w)
qed

end

interpretation unmap_rw: region_rewrite mm_unmap_loop "\<lambda>_. None"
  by unfold_locales
     (subst mm_unmap_loop.simps, simp add: rewrite_pieces_def mid_piece_def Let_def cong: option.case_cong)

interpretation protect_rw: region_rewrite "mm_protect_loop perms" "\<lambda>(_, a). Some (perms, a)" for perms
  by unfold_locales
     (subst mm_protect_loop.simps, simp add: rewrite_pieces_def mid_piece_def Let_def cong: option.case_cong)

interpretation attrs_rw: region_rewrite "mm_set_cpu_attrs_loop attrs" "\<lambda>(p, _). Some (p, attrs)" for attrs
  by unfold_locales
     (subst mm_set_cpu_attrs_loop.simps, simp add: rewrite_pieces_def mid_piece_def Let_def cong: option.case_cong)

subsection \<open>The mapped-range test\<close>

lemma page_map_None_iff:
  assumes ok: "regions_ok (regions m)"
  shows "page_map m x = None \<longleftrightarrow> mm_find_region_index m x = None"
  using mm_find_region_linear [OF ok, of x] by (auto simp: page_map_def mm_find_region_def)

lemma mm_find_region_index_mapped:
  assumes ok: "regions_ok (regions m)" and i: "mm_find_region_index m a = Some i"
    and x: "a \<le> x" "x < region_end (regions m ! i)"
  shows "page_map m x \<noteq> None"
proof -
  have il: "i < length (regions m)" using i mm_find_region_index_Some_iff [OF ok] by simp
  have "rg_base (regions m ! i) \<le> x" using mm_find_region_index_found [OF i] x(1) by (meson order_trans)
  then have "region_contains (regions m ! i) x"
    using x(2) by (simp add: region_contains_def)
  then show ?thesis using il by (auto simp: page_map_def region_at_None)
qed

lemma mm_check_range_loop_iff:
  "regions_ok (regions m) \<Longrightarrow> mm_check_range_loop m current end \<longleftrightarrow>
    (\<forall>x. current \<le> x \<and> x < end \<longrightarrow> page_map m x \<noteq> None)"
proof (induction m current "end" rule: mm_check_range_loop.induct)
  case (1 m current "end")
  show ?case
  proof (cases "current < end")
    case False
    then have "\<not> (current \<le> x \<and> x < end)" for x by (meson le_less_trans)
    with False show ?thesis by (subst mm_check_range_loop.simps) auto
  next
    case True
    show ?thesis
    proof (cases "mm_find_region_index m current")
      case None
      with True page_map_None_iff [OF "1.prems"] show ?thesis
        by (subst mm_check_range_loop.simps) auto
    next
      case (Some i)
      let ?ce = "mm_next_chunk m i end"
      have lt: "\<not> region_end (regions m ! i) \<le> current"
        using mm_find_region_index_found [OF Some] by (simp add: not_le)
      have p: "current < ?ce" "?ce \<le> end" "?ce \<le> region_end (regions m ! i)"
        using mm_next_chunk_progress [OF Some True] by (auto simp: mm_next_chunk_def Let_def)
      have "page_map m x \<noteq> None" if "current \<le> x" "x < ?ce" for x
        using mm_find_region_index_mapped [OF "1.prems" Some that(1)] less_le_trans [OF that(2) p(3)]
        by blast
      moreover have "?ce \<le> x \<Longrightarrow> current \<le> x" for x by (rule order_trans [OF less_imp_le [OF p(1)]])
      ultimately have "(\<forall>x. ?ce \<le> x \<and> x < end \<longrightarrow> page_map m x \<noteq> None) \<longleftrightarrow>
          (\<forall>x. current \<le> x \<and> x < end \<longrightarrow> page_map m x \<noteq> None)"
        by (meson not_le)
      with "1.IH" [OF True Some lt "1.prems"] True Some lt show ?thesis
        by (subst mm_check_range_loop.simps) simp
    qed
  qed
qed

text \<open>
  The four range operations refine their abstract counterparts. \<open>in_range\<close> speaks of the addresses
  of the range as natural numbers.
\<close>

lemma mm_check_range_mapped_iff:
  assumes ok: "regions_ok (regions m)" and nw: "no_wrap a n" and nz: "n \<noteq> 0"
  shows "mm_check_range_mapped m a n \<longleftrightarrow> (\<forall>x. in_range a n x \<longrightarrow> page_map m x \<noteq> None)"
proof -
  have "\<not> mm_range_overflows a n"
    using nz nw by (simp add: mm_range_overflows_unat no_wrap_def)
  then show ?thesis
    using nz nw mm_check_range_loop_iff [OF ok, of a "a + n"] range_word [of a n]
    by (simp add: mm_check_range_mapped_def)
qed

lemma mm_unmap_cases:
  "mm_unmap h m a n = (b, h', m') \<Longrightarrow> n \<noteq> 0 \<Longrightarrow>
   (b, h', m') = (False, h, m) \<and> \<not> range_guard m a n \<or>
   range_guard m a n \<and> mm_unmap_loop h m a (a + n) = (b, h', m')"
  by (auto simp: mm_unmap_def range_guard_def split: if_splits)

lemma mm_protect_cases:
  "mm_protect h m a n p = (b, h', m') \<Longrightarrow> n \<noteq> 0 \<Longrightarrow>
   (b, h', m') = (False, h, m) \<and> \<not> (range_guard m a n \<and> mm_is_valid_perms p) \<or>
   range_guard m a n \<and> mm_is_valid_perms p \<and> mm_protect_loop p h m a (a + n) = (b, h', m')"
  by (auto simp: mm_protect_def range_guard_def split: if_splits)

lemma mm_set_cpu_attrs_cases:
  "mm_set_cpu_attrs h m a n p = (b, h', m') \<Longrightarrow> n \<noteq> 0 \<Longrightarrow>
   (b, h', m') = (False, h, m) \<and> \<not> (range_guard m a n \<and> mm_is_valid_cpu_attrs p) \<or>
   range_guard m a n \<and> mm_is_valid_cpu_attrs p \<and>
     mm_set_cpu_attrs_loop p h m a (a + n) = (b, h', m')"
  by (auto simp: mm_set_cpu_attrs_def range_guard_def split: if_splits)

end
