(* ===== verification/Patches.thy ===== *)
theory Patches
  imports RegionSpec
begin

text \<open>
  Byte patches of passed-through host pages (\<^verbatim>\<open>memory/manager.hpp\<close>, \<^verbatim>\<open>mm_*patch*\<close>). A patch
  shadows a range of guest addresses with bytes of its own; the manager keeps the patches in an
  array with the smallest and the largest patched address beside it, which lets a lookup skip the
  search. The theory shows that the patches stay pairwise disjoint with unique handles, that the
  two bounds always enclose them, and so that the bounded lookup finds what a plain search finds.
\<close>

unbundle bit_operations_syntax

subsection \<open>Operations\<close>

definition patch_end :: "MM_PATCH_ENTRY \<Rightarrow> u64" where
  "patch_end patch = pt_address patch + pt_size patch - 1"

definition mm_patch_bounds_may_contain :: "MEMORY_MANAGER \<Rightarrow> u64 \<Rightarrow> bool" where
  "mm_patch_bounds_may_contain m address \<longleftrightarrow>
     patches m \<noteq> [] \<and> patch_min_address m \<le> address \<and> address \<le> patch_max_address m"

fun mm_rebuild_bounds_loop :: "MM_PATCH_ENTRY list \<Rightarrow> u64 \<Rightarrow> u64 \<Rightarrow> u64 \<times> u64" where
  "mm_rebuild_bounds_loop [] min_address max_address = (min_address, max_address)"
| "mm_rebuild_bounds_loop (patch # ps) min_address max_address =
     (if pt_size patch = 0 then mm_rebuild_bounds_loop ps min_address max_address
      else mm_rebuild_bounds_loop ps
             (if pt_address patch < min_address then pt_address patch else min_address)
             (if patch_end patch > max_address then patch_end patch else max_address))"

definition mm_rebuild_patch_bounds :: "MEMORY_MANAGER \<Rightarrow> MEMORY_MANAGER" where
  "mm_rebuild_patch_bounds m =
     (if patches m = [] then m\<lparr>patch_min_address := 0, patch_max_address := 0\<rparr>
      else
        let (min_address, max_address) = mm_rebuild_bounds_loop (patches m) (- 1) 0
        in m\<lparr>patch_min_address := (if min_address = - 1 then 0 else min_address),
             patch_max_address := max_address\<rparr>)"

definition mm_patch_range_overlaps :: "u64 \<Rightarrow> u64 \<Rightarrow> u64 \<Rightarrow> u64 \<Rightarrow> bool" where
  "mm_patch_range_overlaps left_address left_size right_address right_size =
     (if left_size = 0 \<or> right_size = 0 then False
      else \<not> (left_address + left_size - 1 < right_address \<or>
              right_address + right_size - 1 < left_address))"

definition mm_reserve_patch_capacity ::
  "host \<Rightarrow> MEMORY_MANAGER \<Rightarrow> nat \<Rightarrow> bool \<times> host \<times> MEMORY_MANAGER" where
  "mm_reserve_patch_capacity h m capacity =
     (if capacity \<le> patch_capacity m then (True, h, m)
      else
        let new_capacity =
              mm_grow_capacity (if patch_capacity m = 0 then 8 else patch_capacity m) capacity;
            (new_patches, h1) = CPUEAXH_ALLOC_ZEROED h (of_nat (new_capacity * 32))
        in if new_patches = 0 then (False, h1, m)
           else
             let h2 = (if patches_array m \<noteq> 0 \<and> patches m \<noteq> []
                       then CPUEAXH_FREE h1 (patches_array m) else h1)
             in (True, h2, m\<lparr>patches_array := new_patches, patch_capacity := new_capacity\<rparr>))"

definition patch_covers :: "u64 \<Rightarrow> MM_PATCH_ENTRY \<Rightarrow> bool" where
  "patch_covers address patch \<longleftrightarrow>
     pt_size patch \<noteq> 0 \<and> pt_address patch \<le> address \<and> address \<le> patch_end patch"

definition mm_find_patch :: "MEMORY_MANAGER \<Rightarrow> u64 \<Rightarrow> MM_PATCH_ENTRY option" where
  "mm_find_patch m address =
     (if \<not> mm_patch_bounds_may_contain m address then None
      else find (patch_covers address) (patches m))"

text \<open>
  \<open>bytes\<close> is the caller's buffer, \<open>None\<close> for a null pointer; the call reads its first \<open>sz\<close> bytes.
  The third component of the result is what is stored through \<^verbatim>\<open>out_handle\<close>.
\<close>

definition mm_add_patch ::
  "host \<Rightarrow> MEMORY_MANAGER \<Rightarrow> u64 \<Rightarrow> u8 list option \<Rightarrow> u64 \<Rightarrow>
   MM_PATCH_STATUS \<times> u64 option \<times> host \<times> MEMORY_MANAGER" where
  "mm_add_patch h m address bytes sz =
     (case bytes of
        None \<Rightarrow> (MM_PATCH_ARG, None, h, m)
      | Some bs \<Rightarrow>
          if sz = 0 \<or> mm_range_overflows address sz then (MM_PATCH_ARG, None, h, m)
          else if list_ex (\<lambda>p. mm_patch_range_overlaps address sz (pt_address p) (pt_size p))
                    (patches m)
          then (MM_PATCH_CONFLICT, None, h, m)
          else
            case mm_reserve_patch_capacity h m (length (patches m) + 1) of
              (False, h1, m1) \<Rightarrow> (MM_PATCH_NOMEM, None, h1, m1)
            | (True, h1, m1) \<Rightarrow>
                (case CPUEAXH_ALLOC_ZEROED h1 sz of
                   (patch_bytes, h2) \<Rightarrow>
                     if patch_bytes = 0 then (MM_PATCH_NOMEM, None, h2, m1)
                     else
                       let h3 = store_bytes h2 patch_bytes (take (unat sz) bs);
                           patch = \<lparr>pt_handle = next_patch_handle m1, pt_address = address,
                                    pt_size = sz, pt_data = patch_bytes\<rparr>;
                           m2 = m1\<lparr>patches := patches m1 @ [patch],
                                   next_patch_handle := next_patch_handle m1 + 1\<rparr>;
                           m3 = (if length (patches m2) = 1 \<or> address < patch_min_address m2
                                 then m2\<lparr>patch_min_address := address\<rparr> else m2);
                           m4 = (if length (patches m3) = 1 \<or> patch_end patch > patch_max_address m3
                                 then m3\<lparr>patch_max_address := patch_end patch\<rparr> else m3)
                       in (MM_PATCH_OK, Some (pt_handle patch), h3, mm_bump_code_version m4)))"

fun mm_del_patch_search :: "MM_PATCH_ENTRY list \<Rightarrow> u64 \<Rightarrow> (MM_PATCH_ENTRY \<times> MM_PATCH_ENTRY list) option"
where
  "mm_del_patch_search [] handle = None"
| "mm_del_patch_search (patch # ps) handle =
     (if pt_handle patch \<noteq> handle
      then map_option (\<lambda>(q, qs). (q, patch # qs)) (mm_del_patch_search ps handle)
      else Some (patch, ps))"

definition mm_del_patch ::
  "host \<Rightarrow> MEMORY_MANAGER \<Rightarrow> u64 \<Rightarrow> MM_PATCH_STATUS \<times> host \<times> MEMORY_MANAGER" where
  "mm_del_patch h m handle =
     (if handle = 0 then (MM_PATCH_ARG, h, m)
      else
        case mm_del_patch_search (patches m) handle of
          None \<Rightarrow> (MM_PATCH_NOT_FOUND, h, m)
        | Some (patch, rest) \<Rightarrow>
            let h1 = (if pt_data patch \<noteq> 0 then CPUEAXH_FREE h (pt_data patch) else h)
            in (MM_PATCH_OK, h1,
                mm_bump_code_version (mm_rebuild_patch_bounds (m\<lparr>patches := rest\<rparr>))))"

subsection \<open>The patch table invariant\<close>

definition patch_ok :: "MM_PATCH_ENTRY \<Rightarrow> bool" where
  "patch_ok p \<longleftrightarrow> pt_size p \<noteq> 0 \<and> \<not> mm_range_overflows (pt_address p) (pt_size p)"

definition patches_apart :: "MM_PATCH_ENTRY \<Rightarrow> MM_PATCH_ENTRY \<Rightarrow> bool" where
  "patches_apart p q \<longleftrightarrow> patch_end p < pt_address q \<or> patch_end q < pt_address p"

definition patch_bounded :: "MEMORY_MANAGER \<Rightarrow> MM_PATCH_ENTRY \<Rightarrow> bool" where
  "patch_bounded m p \<longleftrightarrow> patch_min_address m \<le> pt_address p \<and> patch_end p \<le> patch_max_address m"

definition patches_ok :: "MEMORY_MANAGER \<Rightarrow> bool" where
  "patches_ok m \<longleftrightarrow>
     list_all patch_ok (patches m) \<and> sorted_wrt patches_apart (patches m) \<and>
     list_all (patch_bounded m) (patches m)"

text \<open>
  Handles are given out in increasing order; they stay unique as long as the 64-bit counter has
  not gone round.
\<close>

definition patch_handles_ok :: "MEMORY_MANAGER \<Rightarrow> bool" where
  "patch_handles_ok m \<longleftrightarrow>
     sorted_wrt (\<lambda>p q. pt_handle p < pt_handle q) (patches m) \<and>
     list_all (\<lambda>p. 0 < pt_handle p \<and> pt_handle p < next_patch_handle m) (patches m) \<and>
     0 < next_patch_handle m"

lemma patch_ok_end: "patch_ok p \<Longrightarrow> pt_address p \<le> patch_end p"
  by (auto simp: patch_ok_def mm_range_overflows_def patch_end_def not_less)

lemma patches_ok_init: "patches_ok mm_init" "patch_handles_ok mm_init"
  by (simp_all add: patches_ok_def patch_handles_ok_def mm_init_def)

text \<open>The bounds never hide a patch: the lookup is a plain search.\<close>

lemma mm_find_patch_linear:
  assumes "patches_ok m"
  shows "mm_find_patch m a = find (patch_covers a) (patches m)"
proof (cases "mm_patch_bounds_may_contain m a")
  case False
  have "\<not> patch_covers a p" if "p \<in> set (patches m)" for p
    using False assms that order_trans
    by (fastforce simp: patches_ok_def list_all_iff patch_bounded_def patch_covers_def
        mm_patch_bounds_may_contain_def)
  then show ?thesis using False by (simp add: mm_find_patch_def find_None_iff [THEN iffD2])
qed (simp add: mm_find_patch_def)

lemma patches_apart_covers: "patches_apart p q \<Longrightarrow> \<not> (patch_covers a p \<and> patch_covers a q)"
  by (auto simp: patches_apart_def patch_covers_def dest: le_less_trans)

lemma mm_patch_range_overlaps_apart:
  "sz \<noteq> 0 \<Longrightarrow> patch_ok q \<Longrightarrow>
   \<not> mm_patch_range_overlaps a sz (pt_address q) (pt_size q) \<longleftrightarrow>
   a + sz - 1 < pt_address q \<or> patch_end q < a"
  by (auto simp: mm_patch_range_overlaps_def patch_ok_def patch_end_def)

lemma mm_rebuild_bounds_loop_spec:
  assumes "mm_rebuild_bounds_loop ps lo hi = (lo', hi')" and "list_all patch_ok ps"
  shows "lo' \<le> lo \<and> hi \<le> hi' \<and> (\<forall>p \<in> set ps. lo' \<le> pt_address p \<and> patch_end p \<le> hi')"
  using assms
proof (induction ps lo hi rule: mm_rebuild_bounds_loop.induct)
  case (2 p ps lo hi)
  then have nz: "pt_size p \<noteq> 0" by (simp add: patch_ok_def)
  let ?lo = "if pt_address p < lo then pt_address p else lo"
  let ?hi = "if patch_end p > hi then patch_end p else hi"
  have "lo' \<le> ?lo \<and> ?hi \<le> hi' \<and> (\<forall>q \<in> set ps. lo' \<le> pt_address q \<and> patch_end q \<le> hi')"
    using "2.IH"(2) [OF nz] "2.prems" nz by simp
  moreover have "?lo \<le> lo" "?lo \<le> pt_address p" "hi \<le> ?hi" "patch_end p \<le> ?hi" by auto
  ultimately show ?case by (auto intro: order_trans simp del: if_split)
qed simp

lemma mm_rebuild_patch_bounds_frame [simp]:
  "patches (mm_rebuild_patch_bounds m) = patches m"
  "next_patch_handle (mm_rebuild_patch_bounds m) = next_patch_handle m"
  "regions (mm_rebuild_patch_bounds m) = regions m"
  "page_cache (mm_rebuild_patch_bounds m) = page_cache m"
  by (simp_all add: mm_rebuild_patch_bounds_def split: prod.splits)

lemma mm_rebuild_patch_bounds_bounded:
  assumes "list_all patch_ok (patches m)"
  shows "list_all (patch_bounded (mm_rebuild_patch_bounds m)) (patches m)"
proof (cases "patches m = []")
  case False
  obtain lo hi where l: "mm_rebuild_bounds_loop (patches m) (- 1) 0 = (lo, hi)" by force
  show ?thesis
    using mm_rebuild_bounds_loop_spec [OF l assms] False l
    by (auto simp: mm_rebuild_patch_bounds_def list_all_iff patch_bounded_def)
qed simp

lemma patch_bounded_bump [simp]: "patch_bounded (mm_bump_code_version m) = patch_bounded m"
  by (rule ext) (simp add: patch_bounded_def mm_bump_code_version_def Let_def)

lemma next_handle_bump [simp]: "next_patch_handle (mm_bump_code_version m) = next_patch_handle m"
  by (simp add: mm_bump_code_version_def Let_def)

lemma mm_del_patch_search_Some:
  "mm_del_patch_search ps k = Some (p, rest) \<Longrightarrow>
   \<exists>xs ys. ps = xs @ p # ys \<and> rest = xs @ ys \<and> pt_handle p = k \<and> (\<forall>q \<in> set xs. pt_handle q \<noteq> k)"
proof (induction ps k arbitrary: rest rule: mm_del_patch_search.induct)
  case (2 q ps k)
  show ?case
  proof (cases "pt_handle q = k")
    case True
    with "2.prems" show ?thesis by (intro exI [of _ "[]"] exI [of _ ps]) auto
  next
    case False
    with "2.prems" obtain qs where qs: "mm_del_patch_search ps k = Some (p, qs)" "rest = q # qs"
      by auto
    from "2.IH" [OF False qs(1)] obtain xs ys where
      "ps = xs @ p # ys" "qs = xs @ ys" "pt_handle p = k" "\<forall>q \<in> set xs. pt_handle q \<noteq> k" by blast
    with False qs show ?thesis by (intro exI [of _ "q # xs"] exI [of _ ys]) simp
  qed
qed simp

lemma mm_del_patch_search_None:
  "mm_del_patch_search ps k = None \<longleftrightarrow> (\<forall>p \<in> set ps. pt_handle p \<noteq> k)"
  by (induction ps k rule: mm_del_patch_search.induct) auto

lemma mm_del_patch_patches_ok:
  assumes ok: "patches_ok m" and d: "mm_del_patch h m k = (st, h', m')"
  shows "patches_ok m'" "patch_handles_ok m \<Longrightarrow> patch_handles_ok m'" "next_patch_handle m' = next_patch_handle m"
proof -
  have "patches_ok m' \<and> (patch_handles_ok m \<longrightarrow> patch_handles_ok m') \<and> next_patch_handle m' = next_patch_handle m"
  proof (cases "k \<noteq> 0 \<and> mm_del_patch_search (patches m) k \<noteq> None")
    case False
    with d ok show ?thesis by (auto simp: mm_del_patch_def split: if_splits option.splits)
  next
    case True
    then obtain p rest where s: "mm_del_patch_search (patches m) k = Some (p, rest)" by auto
    from mm_del_patch_search_Some [OF s] obtain xs ys where
      xs: "patches m = xs @ p # ys" "rest = xs @ ys" by blast
    let ?m = "mm_rebuild_patch_bounds (m\<lparr>patches := rest\<rparr>)"
    have m': "m' = mm_bump_code_version ?m" using d s True by (simp add: mm_del_patch_def Let_def)
    have "list_all patch_ok rest" using ok xs by (simp add: patches_ok_def)
    then have "list_all (patch_bounded ?m) rest"
      using mm_rebuild_patch_bounds_bounded [of "m\<lparr>patches := rest\<rparr>"] by simp
    then show ?thesis using ok xs by (simp add: m' patches_ok_def patch_handles_ok_def sorted_wrt_append)
  qed
  then show "patches_ok m'" "patch_handles_ok m \<Longrightarrow> patch_handles_ok m'" "next_patch_handle m' = next_patch_handle m"
    by simp_all
qed

lemma mm_reserve_patch_shape:
  assumes "mm_reserve_patch_capacity h m n = (b, h', m')"
  shows "m' = m \<or> (\<exists>a c. m' = m\<lparr>patches_array := a, patch_capacity := c\<rparr>)"
proof (cases "n \<le> patch_capacity m")
  case True
  with assms show ?thesis by (simp add: mm_reserve_patch_capacity_def)
next
  case False
  define k where "k = mm_grow_capacity (if patch_capacity m = 0 then 8 else patch_capacity m) n"
  obtain p h1 where "CPUEAXH_ALLOC_ZEROED h (of_nat (k * 32)) = (p, h1)" by force
  with assms False show ?thesis
    by (cases "p = 0") (auto simp: mm_reserve_patch_capacity_def k_def)
qed

lemma mm_reserve_patch_frame:
  assumes "mm_reserve_patch_capacity h m n = (b, h', m')"
  shows "patches m' = patches m" "next_patch_handle m' = next_patch_handle m"
    "patch_min_address m' = patch_min_address m" "patch_max_address m' = patch_max_address m"
    "regions m' = regions m" "page_cache m' = page_cache m" "code_version m' = code_version m"
    "mm_host_passthrough_perms m' = mm_host_passthrough_perms m"
  using mm_reserve_patch_shape [OF assms] by (auto simp: mm_host_passthrough_perms_def)

definition new_patch :: "MEMORY_MANAGER \<Rightarrow> u64 \<Rightarrow> u64 \<Rightarrow> u64 \<Rightarrow> MM_PATCH_ENTRY" where
  "new_patch m a sz p =
     \<lparr>pt_handle = next_patch_handle m, pt_address = a, pt_size = sz, pt_data = p\<rparr>"

text \<open>What a call that succeeds has done, and that one that fails leaves the patches alone.\<close>

lemma mm_add_patch_result:
  assumes "mm_add_patch h m a bytes sz = (st, out, h', m')"
  shows "if st = MM_PATCH_OK
    then \<exists>p. patches m' = patches m @ [new_patch m a sz p] \<and> out = Some (next_patch_handle m) \<and>
      next_patch_handle m' = next_patch_handle m + 1 \<and> p \<noteq> 0 \<and> sz \<noteq> 0 \<and>
      \<not> mm_range_overflows a sz \<and>
      \<not> list_ex (\<lambda>q. mm_patch_range_overlaps a sz (pt_address q) (pt_size q)) (patches m) \<and>
      patch_min_address m' =
        (if patches m = [] \<or> a < patch_min_address m then a else patch_min_address m) \<and>
      patch_max_address m' =
        (if patches m = [] \<or> a + sz - 1 > patch_max_address m then a + sz - 1
         else patch_max_address m)
    else patches m' = patches m \<and> out = None \<and> next_patch_handle m' = next_patch_handle m \<and>
      patch_min_address m' = patch_min_address m \<and> patch_max_address m' = patch_max_address m"
proof -
  obtain b1 h1 m1 where r: "mm_reserve_patch_capacity h m (length (patches m) + 1) = (b1, h1, m1)"
    by (metis prod_cases3)
  obtain p h2 where al: "CPUEAXH_ALLOC_ZEROED h1 sz = (p, h2)" by force
  note f = mm_reserve_patch_frame [OF r]
  show ?thesis
    using assms r al f
    by (cases bytes; cases b1)
       (auto simp: mm_add_patch_def new_patch_def patch_end_def Let_def mm_bump_code_version_def
         split: if_splits)
qed

lemma mm_add_patch_patches_ok:
  assumes ok: "patches_ok m" and add: "mm_add_patch h m a bytes sz = (st, out, h', m')"
  shows "patches_ok m'"
proof (cases "st = MM_PATCH_OK")
  case False
  with mm_add_patch_result [OF add] ok show ?thesis
    by (simp add: patches_ok_def patch_bounded_def [abs_def])
next
  case True
  note res = mm_add_patch_result [OF add, unfolded if_P [OF True]]
  from res obtain p where m': "patches m' = patches m @ [new_patch m a sz p]" by blast
  have np: "patch_ok (new_patch m a sz p)" "patch_bounded m' (new_patch m a sz p)"
    using res by (auto simp: patch_ok_def new_patch_def patch_bounded_def patch_end_def not_less
        intro: less_imp_le)
  have apart: "patches_apart q (new_patch m a sz p)" if "q \<in> set (patches m)" for q
    using res that ok mm_patch_range_overlaps_apart [of sz q a]
    by (auto simp: list_ex_iff patches_ok_def list_all_iff patches_apart_def new_patch_def
        patch_end_def)
  have bounded: "patch_bounded m' q" if "q \<in> set (patches m)" for q
  proof -
    have "patches m \<noteq> []" "patch_min_address m \<le> pt_address q" "patch_end q \<le> patch_max_address m"
      using that ok by (auto simp: patches_ok_def list_all_iff patch_bounded_def)
    moreover have "patch_min_address m' \<le> patch_min_address m" "patch_max_address m \<le> patch_max_address m'"
      using res \<open>patches m \<noteq> []\<close> by (auto intro: less_imp_le)
    ultimately show ?thesis by (meson patch_bounded_def order_trans)
  qed
  show ?thesis
    using ok np apart bounded by (auto simp: patches_ok_def m' sorted_wrt_append list_all_iff)
qed

lemma mm_add_patch_handles_ok:
  assumes ok: "patch_handles_ok m" and add: "mm_add_patch h m a bytes sz = (st, out, h', m')"
    and room: "next_patch_handle m \<noteq> - 1"
  shows "patch_handles_ok m'"
proof (cases "st = MM_PATCH_OK")
  case False
  with mm_add_patch_result [OF add] ok show ?thesis by (simp add: patch_handles_ok_def)
next
  case True
  note res = mm_add_patch_result [OF add, unfolded if_P [OF True]]
  from res obtain p where m': "patches m' = patches m @ [new_patch m a sz p]" by blast
  have lt: "next_patch_handle m < next_patch_handle m + 1" using room by (rule word_less_Suc)
  have m'h: "next_patch_handle m' = next_patch_handle m + 1" using res by blast
  have "0 < next_patch_handle m" using ok by (simp add: patch_handles_ok_def)
  then show ?thesis
    using ok lt
    by (auto simp: patch_handles_ok_def m' m'h sorted_wrt_append list_all_iff new_patch_def intro: less_trans)
qed

lemma mm_add_patch_lookup:
  assumes ok: "patches_ok m" and add: "mm_add_patch h m a bytes sz = (MM_PATCH_OK, out, h', m')"
  shows "\<exists>p. p \<noteq> 0 \<and> (\<forall>x. mm_find_patch m' x =
    (if patch_covers x (new_patch m a sz p) then Some (new_patch m a sz p) else mm_find_patch m x))"
proof -
  note res = mm_add_patch_result [OF add, unfolded if_P [OF refl]]
  from res obtain p where p: "p \<noteq> 0" and m': "patches m' = patches m @ [new_patch m a sz p]" by blast
  have ok': "patches_ok m'" by (rule mm_add_patch_patches_ok [OF ok add])
  have "\<not> patch_covers x q" if "q \<in> set (patches m)" "patch_covers x (new_patch m a sz p)" for q x
    using ok' that patches_apart_covers [of q "new_patch m a sz p" x]
    by (auto simp: patches_ok_def m' sorted_wrt_append)
  then have "find (patch_covers x) (patches m') =
    (if patch_covers x (new_patch m a sz p) then Some (new_patch m a sz p)
     else find (patch_covers x) (patches m))" for x
    unfolding m' find_append by (auto simp: find_None_iff [THEN iffD2] split: option.splits)
  then show ?thesis
    using p by (intro exI [of _ p]) (simp add: mm_find_patch_linear [OF ok] mm_find_patch_linear [OF ok'])
qed

end
