(* ===== verification/PageCache.thy ===== *)
theory PageCache 
  imports Patches
begin


text \<open>
  Guest accesses of the memory manager (\<^verbatim>\<open>memory/manager.hpp\<close>, \<^verbatim>\<open>mm_query\<close> to \<^verbatim>\<open>mm_destroy\<close>):
  the direct-mapped page cache in front of the region search, the permission check and the
  byte accesses. The reference definition of an access is \<open>mm_lookup\<close>, which always searches;
  the theory shows that on a coherent cache \<open>mm_query\<close> returns the same result, that filling the
  cache and every operation on regions, patches and passthrough keep it coherent.
\<close>

unbundle bit_operations_syntax

subsection \<open>Operations\<close>

record MM_ACCESS_INFO =
  ai_ptr :: u64
  ai_perms :: u32
  ai_cpu_attrs :: u32
  ai_mapped :: bool

definition mm_cache_slot :: "u64 \<Rightarrow> nat" where
  "mm_cache_slot address = unat (drop_bit 12 address AND (MM_PAGE_CACHE_SIZE - 1))"

text \<open>The info read from a cache entry for an address of its page.\<close>

definition cache_info :: "MM_PAGE_CACHE_ENTRY \<Rightarrow> u64 \<Rightarrow> MM_ACCESS_INFO" where
  "cache_info e address =
     \<lparr>ai_ptr = pc_host_page e + (address - align_down_page address), ai_perms = pc_perms e,
      ai_cpu_attrs = pc_cpu_attrs e, ai_mapped = True\<rparr>"

definition mm_query :: "MEMORY_MANAGER \<Rightarrow> u64 \<Rightarrow> MM_ACCESS_INFO \<times> MEMORY_MANAGER" where
  "mm_query m address =
     (let page_base = align_down_page address;
          slot = mm_cache_slot address;
          cache_entry = page_cache m slot
      in if pc_valid cache_entry \<and> pc_page_base cache_entry = page_base
         then (cache_info cache_entry address, m)
         else
           case mm_find_region_index m address of
             Some index \<Rightarrow>
               let region = regions m ! index;
                   e = \<lparr>pc_page_base = page_base,
                        pc_host_page = rg_data region + (page_base - rg_base region),
                        pc_perms = rg_perms region, pc_cpu_attrs = rg_cpu_attrs region,
                        pc_valid = True\<rparr>
               in (cache_info e address, m\<lparr>page_cache := (page_cache m)(slot := e)\<rparr>)
           | None \<Rightarrow>
               let host_perms = mm_host_passthrough_perms m
               in if host_perms \<noteq> 0
                  then let e = \<lparr>pc_page_base = page_base, pc_host_page = page_base,
                                pc_perms = host_perms, pc_cpu_attrs = MM_CPU_ATTR_USER,
                                pc_valid = True\<rparr>
                       in (cache_info e address, m\<lparr>page_cache := (page_cache m)(slot := e)\<rparr>)
                  else (\<lparr>ai_ptr = 0, ai_perms = 0, ai_cpu_attrs = 0, ai_mapped = False\<rparr>, m))"

text \<open>Result: the status, the pointer, the CPU attributes and the manager.\<close>

definition mm_get_ptr_checked ::
  "MEMORY_MANAGER \<Rightarrow> u64 \<Rightarrow> u32 \<Rightarrow> MM_ACCESS_STATUS \<times> u64 \<times> u32 \<times> MEMORY_MANAGER" where
  "mm_get_ptr_checked m address perm =
     (case mm_query m address of
        (info, m1) \<Rightarrow>
          if \<not> ai_mapped info then (MM_ACCESS_UNMAPPED, 0, 0, m1)
          else if ai_perms info AND perm = 0 then (MM_ACCESS_PROT, 0, ai_cpu_attrs info, m1)
          else
            let patch = (if patches m1 \<noteq> [] \<and> mm_host_passthrough_perms m1 \<noteq> 0 \<and>
                            mm_patch_bounds_may_contain m1 address
                         then mm_find_patch m1 address else None);
                ptr = (case patch of
                         Some p \<Rightarrow> pt_data p + (address - pt_address p)
                       | None \<Rightarrow> ai_ptr info)
            in (MM_ACCESS_OK, ptr, ai_cpu_attrs info, m1))"

definition mm_read_byte_checked ::
  "host \<Rightarrow> MEMORY_MANAGER \<Rightarrow> u64 \<Rightarrow> u32 \<Rightarrow> MM_ACCESS_STATUS \<times> u8 option \<times> u32 \<times> MEMORY_MANAGER"
where
  "mm_read_byte_checked h m address perm =
     (case mm_get_ptr_checked m address perm of
        (status, ptr, attrs, m1) \<Rightarrow>
          if status \<noteq> MM_ACCESS_OK then (status, None, attrs, m1)
          else (MM_ACCESS_OK, Some (hmem h ptr), attrs, m1))"

definition mm_write_byte_checked ::
  "host \<Rightarrow> MEMORY_MANAGER \<Rightarrow> u64 \<Rightarrow> u8 \<Rightarrow> MM_ACCESS_STATUS \<times> u32 \<times> host \<times> MEMORY_MANAGER" where
  "mm_write_byte_checked h m address v =
     (case mm_get_ptr_checked m address MM_PROT_WRITE of
        (status, ptr, attrs, m1) \<Rightarrow>
          if status \<noteq> MM_ACCESS_OK then (status, attrs, h, m1)
          else (MM_ACCESS_OK, attrs, store_byte h ptr v, m1))"

definition mm_translate :: "MEMORY_MANAGER \<Rightarrow> u64 \<Rightarrow> u64 \<times> MEMORY_MANAGER" where
  "mm_translate m address =
     (case mm_query m address of
        (info, m1) \<Rightarrow> if \<not> ai_mapped info then (0, m1) else (ai_ptr info, m1))"

definition mm_read_byte_with_perm ::
  "host \<Rightarrow> MEMORY_MANAGER \<Rightarrow> u64 \<Rightarrow> u32 \<Rightarrow> bool \<times> u8 option \<times> MEMORY_MANAGER" where
  "mm_read_byte_with_perm h m address perm =
     (case mm_read_byte_checked h m address perm of
        (status, out, _, m1) \<Rightarrow> (status = MM_ACCESS_OK, out, m1))"

definition mm_read_byte ::
  "host \<Rightarrow> MEMORY_MANAGER \<Rightarrow> u64 \<Rightarrow> bool \<times> u8 option \<times> MEMORY_MANAGER" where
  "mm_read_byte h m address = mm_read_byte_with_perm h m address MM_PROT_READ"

definition mm_read_exec_byte ::
  "host \<Rightarrow> MEMORY_MANAGER \<Rightarrow> u64 \<Rightarrow> bool \<times> u8 option \<times> MEMORY_MANAGER" where
  "mm_read_exec_byte h m address = mm_read_byte_with_perm h m address MM_PROT_EXEC"

definition mm_write_byte ::
  "host \<Rightarrow> MEMORY_MANAGER \<Rightarrow> u64 \<Rightarrow> u8 \<Rightarrow> bool \<times> host \<times> MEMORY_MANAGER" where
  "mm_write_byte h m address v =
     (case mm_write_byte_checked h m address v of
        (status, _, h1, m1) \<Rightarrow> (status = MM_ACCESS_OK, h1, m1))"

definition mm_get_ptr_with_perm :: "MEMORY_MANAGER \<Rightarrow> u64 \<Rightarrow> u32 \<Rightarrow> u64 \<times> MEMORY_MANAGER" where
  "mm_get_ptr_with_perm m address perm =
     (case mm_get_ptr_checked m address perm of
        (status, ptr, _, m1) \<Rightarrow> (if status = MM_ACCESS_OK then ptr else 0, m1))"

text \<open>\<^verbatim>\<open>mm_destroy\<close> leaves a manager with every field zero.\<close>

definition mm_zero :: MEMORY_MANAGER where
  "mm_zero = mm_init\<lparr>next_patch_handle := 0, code_version := 0\<rparr>"

definition mm_destroy :: "host \<Rightarrow> MEMORY_MANAGER \<Rightarrow> host \<times> MEMORY_MANAGER" where
  "mm_destroy h m =
     (let h1 = foldl mm_release_region h (regions m);
          h2 = foldl (\<lambda>g p. if pt_data p \<noteq> 0 then CPUEAXH_FREE g (pt_data p) else g) h1 (patches m);
          h3 = (if regions_array m \<noteq> 0 then CPUEAXH_FREE h2 (regions_array m) else h2);
          h4 = (if patches_array m \<noteq> 0 then CPUEAXH_FREE h3 (patches_array m) else h3)
      in (h4, mm_zero))"

subsection \<open>The reference lookup\<close>

definition mm_lookup :: "MEMORY_MANAGER \<Rightarrow> u64 \<Rightarrow> MM_ACCESS_INFO" where
  "mm_lookup m address =
     (case region_at (regions m) address of
        Some r \<Rightarrow> \<lparr>ai_ptr = rg_data r + (address - rg_base r), ai_perms = rg_perms r,
                   ai_cpu_attrs = rg_cpu_attrs r, ai_mapped = True\<rparr>
      | None \<Rightarrow>
          if mm_host_passthrough_perms m \<noteq> 0
          then \<lparr>ai_ptr = address, ai_perms = mm_host_passthrough_perms m,
                ai_cpu_attrs = MM_CPU_ATTR_USER, ai_mapped = True\<rparr>
          else \<lparr>ai_ptr = 0, ai_perms = 0, ai_cpu_attrs = 0, ai_mapped = False\<rparr>)"

definition cache_entry_ok :: "MEMORY_MANAGER \<Rightarrow> MM_PAGE_CACHE_ENTRY \<Rightarrow> bool" where
  "cache_entry_ok m e \<longleftrightarrow> mm_is_page_aligned (pc_page_base e) \<and>
     mm_lookup m (pc_page_base e) =
       \<lparr>ai_ptr = pc_host_page e, ai_perms = pc_perms e, ai_cpu_attrs = pc_cpu_attrs e,
        ai_mapped = True\<rparr>"

definition cache_ok :: "MEMORY_MANAGER \<Rightarrow> bool" where
  "cache_ok m \<longleftrightarrow> (\<forall>slot. pc_valid (page_cache m slot) \<longrightarrow> cache_entry_ok m (page_cache m slot))"

lemma align_down_page_unat: "unat (align_down_page a) = unat a - unat a mod 4096"
proof -
  have m: "CPUEAXH_PAGE_MASK = NOT (mask 12)"
    by (simp add: CPUEAXH_PAGE_MASK_def mask_eq_exp_minus_1)
  have le: "take_bit 12 a \<le> a" by (simp add: word_le_nat_alt unsigned_take_bit_eq take_bit_nat_less_eq_self)
  have "align_down_page a = a AND NOT (mask 12)"
    by (simp only: align_down_page_def m)
  also have "\<dots> = a AND NOT (take_bit 12 a)" by (rule bit_word_eqI) (auto simp: bit_simps)
  also have "\<dots> = a - take_bit 12 a" by (rule disjunctive_diff [symmetric]) (simp add: bit_simps)
  finally have "unat (align_down_page a) = unat a - unat (take_bit 12 a)"
    using unat_diff_le [OF le] by simp
  also have "unat (take_bit 12 a) = unat a mod 4096"
    by (simp only: unsigned_take_bit_eq) (simp add: take_bit_eq_mod)
  finally show ?thesis .
qed

lemma align_down_page_aligned: "mm_is_page_aligned (align_down_page a)"
  by (simp add: mm_is_page_aligned_unat align_down_page_unat)

lemma align_down_page_le: "align_down_page a \<le> a"
  by (simp add: word_le_nat_alt align_down_page_unat)

text \<open>A region of whole pages contains an address exactly when it contains its page.\<close>

lemma region_contains_page:
  assumes r: "region_ok r"
  shows "region_contains r (align_down_page a) \<longleftrightarrow> region_contains r a"
proof -
  let ?p = "unat a - unat a mod 4096" and ?b = "unat (rg_base r)" and ?e = "unat (region_end r)"
  have "mm_is_page_aligned (region_end r)" using r by (simp add: region_ok_def page_aligned_add)
  then obtain i k where i: "?b = 4096 * i" and k: "?e = 4096 * k"
    using r unfolding region_ok_def mm_is_page_aligned_unat dvd_eq_mod_eq_0 [symmetric] by (meson dvdE)
  let ?q = "unat a div 4096"
  have p: "?p = 4096 * ?q" by (simp add: minus_mod_eq_mult_div)
  have "?b \<le> 4096 * ?q \<longleftrightarrow> ?b \<le> unat a"
    unfolding i using less_eq_div_iff_mult_less_eq [of 4096 i "unat a"] by (simp add: mult.commute)
  moreover have "4096 * ?q < ?e \<longleftrightarrow> unat a < ?e"
    unfolding k using div_less_iff_less_mult [of 4096 "unat a" k]
    by (simp only: nat_mult_less_cancel_disj) (simp add: mult.commute)
  ultimately show ?thesis
    by (simp add: region_contains_def word_le_nat_alt word_less_nat_alt align_down_page_unat p)
qed

lemma region_at_page:
  assumes ok: "regions_ok rs"
  shows "region_at rs (align_down_page a) = region_at rs a"
proof -
  have "region_ok r" if "r \<in> set rs" for r using ok that by (auto simp: regions_ok_def list_all_iff)
  then show ?thesis
    unfolding region_at_def
    by (induction rs) (simp_all add: region_contains_page)
qed

lemma mm_lookup_page:
  assumes ok: "regions_ok (regions m)"
  shows "mm_lookup m a =
    (let i = mm_lookup m (align_down_page a)
     in if ai_mapped i then i\<lparr>ai_ptr := ai_ptr i + (a - align_down_page a)\<rparr> else i)"
  by (simp add: mm_lookup_def region_at_page [OF ok] split: option.splits)

lemma cache_entry_ok_info:
  assumes ok: "regions_ok (regions m)" and e: "cache_entry_ok m e"
    and p: "pc_page_base e = align_down_page a"
  shows "cache_info e a = mm_lookup m a"
  using e by (subst mm_lookup_page [OF ok]) (simp add: cache_entry_ok_def cache_info_def p)

lemma mm_lookup_cong:
  "regions m' = regions m \<Longrightarrow> mm_host_passthrough_perms m' = mm_host_passthrough_perms m \<Longrightarrow>
   mm_lookup m' = mm_lookup m"
  by (rule ext) (simp add: mm_lookup_def cong: option.case_cong if_cong)

lemma passthrough_page_cache [simp]:
  "mm_host_passthrough_perms (m\<lparr>page_cache := pc\<rparr>) = mm_host_passthrough_perms m"
  by (simp add: mm_host_passthrough_perms_def)

lemma mm_lookup_page_cache [simp]: "mm_lookup (m\<lparr>page_cache := pc\<rparr>) = mm_lookup m"
  by (rule mm_lookup_cong) simp_all

lemma cache_ok_fill:
  "cache_ok m \<Longrightarrow> cache_entry_ok m e \<Longrightarrow> cache_ok (m\<lparr>page_cache := (page_cache m)(k := e)\<rparr>)"
  by (simp add: cache_ok_def cache_entry_ok_def)

text \<open>The new entry that a miss stores.\<close>

lemma mm_find_region_index_lookup:
  assumes ok: "regions_ok (regions m)"
  shows "map_option (\<lambda>i. regions m ! i) (mm_find_region_index m a) = region_at (regions m) a"
  using mm_find_region_linear [OF ok, of a] by (simp add: mm_find_region_def)

lemma mm_query_lookup:
  assumes ok: "regions_ok (regions m)" and c: "cache_ok m" and q: "mm_query m a = (info, m')"
  shows "info = mm_lookup m a" and "cache_ok m'"
    and "\<exists>pc. m' = m\<lparr>page_cache := pc\<rparr>"
proof -
  let ?slot = "mm_cache_slot a" and ?pb = "align_down_page a"
  let ?e = "page_cache m ?slot"
  have "info = mm_lookup m a \<and> cache_ok m' \<and> (\<exists>pc. m' = m\<lparr>page_cache := pc\<rparr>)"
  proof (cases "pc_valid ?e \<and> pc_page_base ?e = ?pb")
    case True
    then have "cache_info ?e a = mm_lookup m a"
      using c by (intro cache_entry_ok_info [OF ok]) (auto simp: cache_ok_def)
    with True q c show ?thesis by (auto simp: mm_query_def intro: exI [of _ "page_cache m"])
  next
    case miss: False
    show ?thesis
    proof (cases "mm_find_region_index m a")
      case (Some i)
      let ?r = "regions m ! i"
      let ?n = "\<lparr>pc_page_base = ?pb, pc_host_page = rg_data ?r + (?pb - rg_base ?r),
                 pc_perms = rg_perms ?r, pc_cpu_attrs = rg_cpu_attrs ?r, pc_valid = True\<rparr>"
      have "region_at (regions m) ?pb = Some ?r"
        using mm_find_region_index_lookup [OF ok, of a] Some by (simp add: region_at_page [OF ok])
      then have e: "cache_entry_ok m ?n"
        by (simp add: cache_entry_ok_def mm_lookup_def align_down_page_aligned)
      show ?thesis
        using q miss Some cache_entry_ok_info [OF ok e, of a] cache_ok_fill [OF c e, of ?slot]
        by (auto simp: mm_query_def Let_def)
    next
      case None
      then have "region_at (regions m) a = None" "region_at (regions m) ?pb = None"
        using mm_find_region_index_lookup [OF ok, of a] by (simp_all add: region_at_page [OF ok])
      let ?n = "\<lparr>pc_page_base = ?pb, pc_host_page = ?pb,
                 pc_perms = mm_host_passthrough_perms m, pc_cpu_attrs = MM_CPU_ATTR_USER,
                 pc_valid = True\<rparr>"
      show ?thesis
      proof (cases "mm_host_passthrough_perms m = 0")
        case True
        with q miss None c \<open>region_at (regions m) a = None\<close> show ?thesis
          by (auto simp: mm_query_def Let_def mm_lookup_def intro: exI [of _ "page_cache m"])
      next
        case False
        then have e: "cache_entry_ok m ?n"
          using \<open>region_at (regions m) ?pb = None\<close>
          by (simp add: cache_entry_ok_def mm_lookup_def align_down_page_aligned)
        show ?thesis
          using q miss None False cache_entry_ok_info [OF ok e, of a] cache_ok_fill [OF c e, of ?slot]
          by (auto simp: mm_query_def Let_def)
      qed
    qed
  qed
  then show "info = mm_lookup m a" "cache_ok m'" "\<exists>pc. m' = m\<lparr>page_cache := pc\<rparr>" by auto
qed

subsection \<open>Coherence is kept\<close>

lemma cache_ok_empty: "page_cache m = (\<lambda>_. empty_page_cache_entry) \<Longrightarrow> cache_ok m"
  by (simp add: cache_ok_def empty_page_cache_entry_def)

lemma cache_ok_cong:
  "cache_ok m \<Longrightarrow> regions m' = regions m \<Longrightarrow>
   mm_host_passthrough_perms m' = mm_host_passthrough_perms m \<Longrightarrow> page_cache m' = page_cache m \<Longrightarrow>
   cache_ok m'"
  by (simp add: cache_ok_def cache_entry_ok_def mm_lookup_cong [of m' m])

lemma cache_ok_invalidate: "cache_ok (mm_invalidate_cache m)"
  by (rule cache_ok_empty) simp

lemma passthrough_bump [simp]:
  "mm_host_passthrough_perms (mm_bump_code_version m) = mm_host_passthrough_perms m"
  by (simp add: mm_host_passthrough_perms_def mm_bump_code_version_def Let_def)

lemma passthrough_rebuild [simp]:
  "mm_host_passthrough_perms (mm_rebuild_patch_bounds m) = mm_host_passthrough_perms m"
  by (simp add: mm_host_passthrough_perms_def mm_rebuild_patch_bounds_def split: prod.splits)

lemma passthrough_update [simp]:
  "mm_host_passthrough_perms (m\<lparr>regions := rs\<rparr>) = mm_host_passthrough_perms m"
  "mm_host_passthrough_perms (m\<lparr>patches := ps\<rparr>) = mm_host_passthrough_perms m"
  "mm_host_passthrough_perms (m\<lparr>patch_min_address := a\<rparr>) = mm_host_passthrough_perms m"
  "mm_host_passthrough_perms (m\<lparr>patch_max_address := a\<rparr>) = mm_host_passthrough_perms m"
  "mm_host_passthrough_perms (m\<lparr>next_patch_handle := a\<rparr>) = mm_host_passthrough_perms m"
  by (simp_all add: mm_host_passthrough_perms_def)

lemma cache_ok_reserve:
  "cache_ok m \<Longrightarrow> mm_reserve_region_capacity h m n = (b, h', m') \<Longrightarrow> cache_ok m'"
  by (erule cache_ok_cong) (simp_all add: mm_reserve_frame)

lemma cache_ok_insert:
  "cache_ok m \<Longrightarrow> mm_insert_region h m k r = (False, h', m') \<Longrightarrow> cache_ok m'"
  by (auto simp: mm_insert_region_def split: prod.splits bool.splits intro: cache_ok_reserve)

lemma cache_ok_replace:
  "cache_ok m \<Longrightarrow> mm_replace_region h m i rs = (b, h', m') \<Longrightarrow> cache_ok m'"
  by (auto simp: mm_replace_region_def Let_def cache_ok_invalidate
      split: if_splits prod.splits bool.splits intro: cache_ok_reserve)

lemma cache_ok_split:
  "cache_ok m \<Longrightarrow> mm_split_region h m i ps = (b, h', m') \<Longrightarrow> cache_ok m'"
  by (auto simp: mm_split_region_def split: prod.splits bool.splits intro: cache_ok_replace)

lemma cache_ok_map_internal:
  "cache_ok m \<Longrightarrow> mm_map_internal h m a n p = (b, h', m') \<Longrightarrow> cache_ok m'"
  by (auto simp: mm_map_internal_def Let_def cache_ok_invalidate
      split: if_splits prod.splits bool.splits intro: cache_ok_insert)

lemma cache_ok_map_host:
  "cache_ok m \<Longrightarrow> mm_map_host h m a n p ptr = (b, h', m') \<Longrightarrow> cache_ok m'"
  by (auto simp: mm_map_host_def Let_def cache_ok_invalidate
      split: if_splits prod.splits bool.splits intro: cache_ok_insert)

lemma cache_ok_set_host_passthrough: "cache_ok (mm_set_host_passthrough m p e)"
  by (simp add: mm_set_host_passthrough_def cache_ok_invalidate)

lemma cache_ok_del_patch:
  "cache_ok m \<Longrightarrow> mm_del_patch h m k = (st, h', m') \<Longrightarrow> cache_ok m'"
  by (erule cache_ok_cong)
     (auto simp: mm_del_patch_def Let_def split: if_splits option.splits)

lemma cache_ok_add_patch:
  assumes c: "cache_ok m" and add: "mm_add_patch h m a bytes sz = (st, out, h', m')"
  shows "cache_ok m'"
proof -
  obtain b1 h1 m1 where r: "mm_reserve_patch_capacity h m (length (patches m) + 1) = (b1, h1, m1)"
    by (metis prod_cases3)
  obtain p h2 where al: "CPUEAXH_ALLOC_ZEROED h1 sz = (p, h2)" by force
  note f = mm_reserve_patch_frame [OF r]
  have "regions m' = regions m \<and> mm_host_passthrough_perms m' = mm_host_passthrough_perms m \<and>
      page_cache m' = page_cache m"
    using add r al f
    by (cases bytes; cases b1) (auto simp: mm_add_patch_def Let_def split: if_splits)
  then show ?thesis using cache_ok_cong [OF c] by blast
qed

context region_rewrite
begin

lemma loop_cache_ok:
  assumes "loop h m current end = (b, h', m')" and "cache_ok m"
  shows "cache_ok m'"
  using assms by (induction rule: loop_induct) (auto intro: cache_ok_split)

end

lemma cache_ok_unmap: "cache_ok m \<Longrightarrow> mm_unmap h m a n = (b, h', m') \<Longrightarrow> cache_ok m'"
  by (auto simp: mm_unmap_def split: if_splits intro: unmap_rw.loop_cache_ok)

lemma cache_ok_protect: "cache_ok m \<Longrightarrow> mm_protect h m a n p = (b, h', m') \<Longrightarrow> cache_ok m'"
  by (auto simp: mm_protect_def split: if_splits intro: protect_rw.loop_cache_ok)

lemma cache_ok_set_cpu_attrs:
  "cache_ok m \<Longrightarrow> mm_set_cpu_attrs h m a n p = (b, h', m') \<Longrightarrow> cache_ok m'"
  by (auto simp: mm_set_cpu_attrs_def split: if_splits intro: attrs_rw.loop_cache_ok)

subsection \<open>Checked accesses\<close>

text \<open>The manager's invariant, and that an access keeps everything but the cache.\<close>

definition mm_ok :: "MEMORY_MANAGER \<Rightarrow> bool" where
  "mm_ok m \<longleftrightarrow> regions_ok (regions m) \<and> patches_ok m \<and> cache_ok m \<and> code_version m \<noteq> 0"

lemma mm_ok_init: "mm_ok mm_init"
proof -
  have "cache_ok mm_init" by (rule cache_ok_empty) (simp add: mm_init_def)
  then show ?thesis by (simp add: mm_ok_def patches_ok_init) (simp add: mm_init_def regions_ok_def)
qed

text \<open>The address an access with the given permission reaches, without the cache.\<close>

definition mm_access :: "MEMORY_MANAGER \<Rightarrow> u64 \<Rightarrow> u32 \<Rightarrow> MM_ACCESS_STATUS \<times> u64 \<times> u32" where
  "mm_access m a perm =
     (let i = mm_lookup m a
      in if \<not> ai_mapped i then (MM_ACCESS_UNMAPPED, 0, 0)
         else if ai_perms i AND perm = 0 then (MM_ACCESS_PROT, 0, ai_cpu_attrs i)
         else (MM_ACCESS_OK,
               (if mm_host_passthrough_perms m = 0 then ai_ptr i
                else case find (patch_covers a) (patches m) of
                       Some p \<Rightarrow> pt_data p + (a - pt_address p)
                     | None \<Rightarrow> ai_ptr i), ai_cpu_attrs i))"

lemma patches_ok_page_cache [simp]: "patches_ok (m\<lparr>page_cache := pc\<rparr>) = patches_ok m"
  by (simp add: patches_ok_def patch_bounded_def [abs_def])

lemma mm_find_patch_guard:
  "(if patches m \<noteq> [] \<and> mm_host_passthrough_perms m \<noteq> 0 \<and> mm_patch_bounds_may_contain m a
    then mm_find_patch m a else None) =
   (if mm_host_passthrough_perms m \<noteq> 0 then mm_find_patch m a else None)"
  by (auto simp: mm_find_patch_def mm_patch_bounds_may_contain_def)

lemma mm_get_ptr_checked_access:
  assumes ok: "mm_ok m" and g: "mm_get_ptr_checked m a perm = (st, ptr, attrs, m')"
  shows "(st, ptr, attrs) = mm_access m a perm" and "\<exists>pc. m' = m\<lparr>page_cache := pc\<rparr>"
    and "mm_ok m'"
proof -
  have r: "regions_ok (regions m)" and c: "cache_ok m" and p: "patches_ok m"
    using ok by (simp_all add: mm_ok_def)
  obtain info m1 where q: "mm_query m a = (info, m1)" by force
  from mm_query_lookup [OF r c q] obtain pc where
    info: "info = mm_lookup m a" and c1: "cache_ok m1" and m1: "m1 = m\<lparr>page_cache := pc\<rparr>" by blast
  have m': "m' = m1" using g q by (auto simp: mm_get_ptr_checked_def Let_def split: if_splits)
  show "\<exists>pc. m' = m\<lparr>page_cache := pc\<rparr>" using m' m1 by blast
  show "mm_ok m'" using m' m1 c1 ok by (simp add: mm_ok_def)
  have "patches_ok m1" using p by (simp add: m1)
  from mm_find_patch_linear [OF this] have fp: "mm_find_patch m1 a = find (patch_covers a) (patches m)"
    by (simp add: m1)
  show "(st, ptr, attrs) = mm_access m a perm"
    using g q unfolding mm_get_ptr_checked_def mm_access_def mm_find_patch_guard Let_def
    by (auto simp: info fp [unfolded m1] m1 split: if_splits)
qed

lemma mm_access_page_cache [simp]: "mm_access (m\<lparr>page_cache := pc\<rparr>) = mm_access m"
  by (intro ext) (simp add: mm_access_def Let_def)

text \<open>The two byte accesses, in terms of the host byte the access reaches.\<close>

lemma mm_read_byte_checked_access:
  assumes ok: "mm_ok m" and acc: "mm_access m a perm = (st, ptr, attrs)"
  shows "\<exists>m'. mm_read_byte_checked h m a perm =
      (st, if st = MM_ACCESS_OK then Some (hmem h ptr) else None, attrs, m') \<and>
    mm_ok m' \<and> (\<exists>pc. m' = m\<lparr>page_cache := pc\<rparr>)"
proof -
  obtain st' ptr' attrs' m' where g: "mm_get_ptr_checked m a perm = (st', ptr', attrs', m')"
    by (metis prod_cases4)
  note f = mm_get_ptr_checked_access [OF ok g]
  show ?thesis
    using f acc by (intro exI [of _ m']) (simp add: mm_read_byte_checked_def g)
qed

lemma mm_write_byte_checked_access:
  assumes ok: "mm_ok m" and acc: "mm_access m a MM_PROT_WRITE = (st, ptr, attrs)"
  shows "\<exists>m'. mm_write_byte_checked h m a v =
      (st, attrs, if st = MM_ACCESS_OK then store_byte h ptr v else h, m') \<and>
    mm_ok m' \<and> (\<exists>pc. m' = m\<lparr>page_cache := pc\<rparr>)"
proof -
  obtain st' ptr' attrs' m' where g: "mm_get_ptr_checked m a MM_PROT_WRITE = (st', ptr', attrs', m')"
    by (metis prod_cases4)
  note f = mm_get_ptr_checked_access [OF ok g]
  show ?thesis
    using f acc by (intro exI [of _ m']) (simp add: mm_write_byte_checked_def g)
qed

text \<open>Permissions do not change which byte an access reaches.\<close>

lemma mm_access_ptr_perm:
  "mm_access m a p = (MM_ACCESS_OK, ptr, attrs) \<Longrightarrow> mm_access m a q = (MM_ACCESS_OK, ptr', attrs') \<Longrightarrow>
   ptr' = ptr \<and> attrs' = attrs"
  by (auto simp: mm_access_def Let_def split: if_splits)

end
