(* ===== verification/Cpu.thy ===== *)
theory Cpu
  imports PageCache
begin

text \<open>
  The CPU state (\<^verbatim>\<open>cpu/def.h\<close>, \<^verbatim>\<open>cpu/init.hpp\<close>): registers, segments, x87 words, the transient
  decoding fields, the pending exception, and the helpers on them: sticky exceptions, scalar and
  vector snapshots, the mode predicates, canonical addresses and segment bases.

  Register files are functions from the index; the source only indexes them with numbers below
  their size. The three pointers of the struct (\<^verbatim>\<open>mem_mgr\<close>, \<^verbatim>\<open>owner_engine\<close>, \<^verbatim>\<open>inst_cache\<close>) are
  not fields: the context is a component of the engine record, beside the memory manager and
  the instruction cache it points to.
\<close>

unbundle bit_operations_syntax

subsection \<open>Constants\<close>

definition RFLAGS_CF :: u64 where [cpu_defs]: "RFLAGS_CF = push_bit 0 1"
definition RFLAGS_PF :: u64 where [cpu_defs]: "RFLAGS_PF = push_bit 2 1"
definition RFLAGS_AF :: u64 where [cpu_defs]: "RFLAGS_AF = push_bit 4 1"
definition RFLAGS_ZF :: u64 where [cpu_defs]: "RFLAGS_ZF = push_bit 6 1"
definition RFLAGS_SF :: u64 where [cpu_defs]: "RFLAGS_SF = push_bit 7 1"
definition RFLAGS_DF :: u64 where [cpu_defs]: "RFLAGS_DF = push_bit 10 1"
definition RFLAGS_OF :: u64 where [cpu_defs]: "RFLAGS_OF = push_bit 11 1"

definition CPU_EXCEPTION_NONE :: u32 where [cpu_defs]: "CPU_EXCEPTION_NONE = 0"
definition CPU_EXCEPTION_DE :: u32 where [cpu_defs]: "CPU_EXCEPTION_DE = 0xE0000000"
definition CPU_EXCEPTION_GP :: u32 where [cpu_defs]: "CPU_EXCEPTION_GP = 0xE0000001"
definition CPU_EXCEPTION_SS :: u32 where [cpu_defs]: "CPU_EXCEPTION_SS = 0xE0000002"
definition CPU_EXCEPTION_NP :: u32 where [cpu_defs]: "CPU_EXCEPTION_NP = 0xE0000003"
definition CPU_EXCEPTION_UD :: u32 where [cpu_defs]: "CPU_EXCEPTION_UD = 0xE0000004"
definition CPU_EXCEPTION_PF :: u32 where [cpu_defs]: "CPU_EXCEPTION_PF = 0xE0000005"
definition CPU_EXCEPTION_AC :: u32 where [cpu_defs]: "CPU_EXCEPTION_AC = 0xE0000006"
definition CPU_EXCEPTION_BP :: u32 where [cpu_defs]: "CPU_EXCEPTION_BP = 0xE0000007"
definition CPU_EXCEPTION_DB :: u32 where [cpu_defs]: "CPU_EXCEPTION_DB = 0xE0000008"
definition CPU_EXCEPTION_OF :: u32 where [cpu_defs]: "CPU_EXCEPTION_OF = 0xE0000009"
definition CPU_EXCEPTION_NM :: u32 where [cpu_defs]: "CPU_EXCEPTION_NM = 0xE000000A"
definition CPU_EXCEPTION_MF :: u32 where [cpu_defs]: "CPU_EXCEPTION_MF = 0xE000000B"

definition SEG_ES :: int where [cpu_defs]: "SEG_ES = 0"
definition SEG_CS :: int where [cpu_defs]: "SEG_CS = 1"
definition SEG_SS :: int where [cpu_defs]: "SEG_SS = 2"
definition SEG_DS :: int where [cpu_defs]: "SEG_DS = 3"
definition SEG_FS :: int where [cpu_defs]: "SEG_FS = 4"
definition SEG_GS :: int where [cpu_defs]: "SEG_GS = 5"

definition REG_RAX :: nat where [cpu_defs]: "REG_RAX = 0"
definition REG_RCX :: nat where [cpu_defs]: "REG_RCX = 1"
definition REG_RDX :: nat where [cpu_defs]: "REG_RDX = 2"
definition REG_RBX :: nat where [cpu_defs]: "REG_RBX = 3"
definition REG_RSP :: nat where [cpu_defs]: "REG_RSP = 4"
definition REG_RBP :: nat where [cpu_defs]: "REG_RBP = 5"
definition REG_RSI :: nat where [cpu_defs]: "REG_RSI = 6"
definition REG_RDI :: nat where [cpu_defs]: "REG_RDI = 7"
definition REG_CR0 :: nat where [cpu_defs]: "REG_CR0 = 0"
definition REG_CR2 :: nat where [cpu_defs]: "REG_CR2 = 2"
definition REG_CR3 :: nat where [cpu_defs]: "REG_CR3 = 3"
definition REG_CR4 :: nat where [cpu_defs]: "REG_CR4 = 4"
definition REG_CR8 :: nat where [cpu_defs]: "REG_CR8 = 8"

subsection \<open>Data\<close>

record CPU_EXCEPTION_STATE =
  ex_code :: u32
  ex_error_code :: u32

record SegmentDescriptor =
  sd_base :: u64
  sd_limit :: u32
  sd_type :: u8
  sd_dpl :: u8
  sd_present :: bool
  sd_granularity :: bool
  sd_db :: bool
  sd_long_mode :: bool

record SegmentRegister =
  sr_selector :: u16
  sr_descriptor :: SegmentDescriptor

record XMMRegister =
  xmm_low :: u64
  xmm_high :: u64

record ZMMUpperRegister =
  zu_lower :: XMMRegister
  zu_upper :: XMMRegister

record CPU_CONTEXT =
  regs :: "nat \<Rightarrow> u64"
  control_regs :: "nat \<Rightarrow> u64"
  processor_id :: u32
  long_mode_active :: bool
  xmm :: "nat \<Rightarrow> XMMRegister"
  ymm_upper :: "nat \<Rightarrow> XMMRegister"
  zmm_upper :: "nat \<Rightarrow> ZMMUpperRegister"
  opmask :: "nat \<Rightarrow> u64"
  mm_regs :: "nat \<Rightarrow> u64"
  mxcsr :: u32
  x87_control_word :: u16
  x87_status_word :: u16
  x87_tag_word :: u16
  x87_last_opcode :: u16
  x87_instruction_pointer :: u64
  x87_data_pointer :: u64
  x87_pending_exception :: bool
  es :: SegmentRegister
  cs :: SegmentRegister
  ss :: SegmentRegister
  ds :: SegmentRegister
  fs :: SegmentRegister
  gs :: SegmentRegister
  rip :: u64
  rflags :: u64
  cpl :: u8
  gdtr_base :: u64
  gdtr_limit :: u16
  ldtr_base :: u64
  ldtr_limit :: u16
  rex_present :: bool
  rex_w :: bool
  rex_r :: bool
  rex_x :: bool
  rex_b :: bool
  operand_size_override :: bool
  address_size_override :: bool
  segment_override :: int
  last_inst_size :: int
  exception_state :: CPU_EXCEPTION_STATE
  cached_mode_key_bits :: u8
  cached_mode_key_valid :: bool

record DecodedInstruction =
  di_opcode :: u8
  di_mandatory_prefix :: u8
  di_modrm :: u8
  di_sib :: u8
  di_displacement :: int
  di_immediate :: u64
  di_mem_address :: u64
  di_operand_size :: int
  di_address_size :: int
  di_has_modrm :: bool
  di_has_sib :: bool
  di_has_lock_prefix :: bool
  di_disp_size :: int
  di_imm_size :: int
  di_inst_size :: int

record CPU_SCALAR_SNAPSHOT =
  sn_regs :: "nat \<Rightarrow> u64"
  sn_control_regs :: "nat \<Rightarrow> u64"
  sn_long_mode_active :: bool
  sn_es :: SegmentRegister
  sn_cs :: SegmentRegister
  sn_ss :: SegmentRegister
  sn_ds :: SegmentRegister
  sn_fs :: SegmentRegister
  sn_gs :: SegmentRegister
  sn_rip :: u64
  sn_rflags :: u64
  sn_cpl :: u8
  sn_x87_control_word :: u16
  sn_x87_status_word :: u16
  sn_x87_tag_word :: u16
  sn_x87_last_opcode :: u16
  sn_x87_instruction_pointer :: u64
  sn_x87_data_pointer :: u64
  sn_x87_pending_exception :: bool
  sn_gdtr_base :: u64
  sn_gdtr_limit :: u16
  sn_ldtr_base :: u64
  sn_ldtr_limit :: u16
  sn_rex_present :: bool
  sn_rex_w :: bool
  sn_rex_r :: bool
  sn_rex_x :: bool
  sn_rex_b :: bool
  sn_operand_size_override :: bool
  sn_address_size_override :: bool
  sn_segment_override :: int
  sn_last_inst_size :: int

record CPU_VECTOR_SNAPSHOT =
  vn_xmm :: "nat \<Rightarrow> XMMRegister"
  vn_ymm_upper :: "nat \<Rightarrow> XMMRegister"
  vn_zmm_upper :: "nat \<Rightarrow> ZMMUpperRegister"
  vn_opmask :: "nat \<Rightarrow> u64"
  vn_mm_regs :: "nat \<Rightarrow> u64"
  vn_mxcsr :: u32

subsection \<open>Exceptions\<close>

definition cpu_is_exception_code :: "u32 \<Rightarrow> bool" where
  "cpu_is_exception_code code \<longleftrightarrow> CPU_EXCEPTION_DE \<le> code \<and> code \<le> CPU_EXCEPTION_MF"

definition cpu_exception_reset :: CPU_EXCEPTION_STATE where
  "cpu_exception_reset = \<lparr>ex_code = CPU_EXCEPTION_NONE, ex_error_code = 0\<rparr>"

definition cpu_has_exception :: "CPU_CONTEXT \<Rightarrow> bool" where
  "cpu_has_exception ctx \<longleftrightarrow> ex_code (exception_state ctx) \<noteq> CPU_EXCEPTION_NONE"

definition cpu_clear_exception :: "CPU_CONTEXT \<Rightarrow> CPU_CONTEXT" where
  "cpu_clear_exception ctx = ctx\<lparr>exception_state := cpu_exception_reset\<rparr>"

definition cpu_raise_exception :: "CPU_CONTEXT \<Rightarrow> u32 \<Rightarrow> u32 \<Rightarrow> CPU_CONTEXT" where
  "cpu_raise_exception ctx code error_code =
     (if cpu_has_exception ctx then ctx
      else ctx\<lparr>exception_state := \<lparr>ex_code = code, ex_error_code = error_code\<rparr>\<rparr>)"

definition raise_de_ctx :: "CPU_CONTEXT \<Rightarrow> CPU_CONTEXT" where
  "raise_de_ctx ctx = cpu_raise_exception ctx CPU_EXCEPTION_DE 0"
definition raise_gp_ctx :: "CPU_CONTEXT \<Rightarrow> u32 \<Rightarrow> CPU_CONTEXT" where
  "raise_gp_ctx ctx error_code = cpu_raise_exception ctx CPU_EXCEPTION_GP error_code"
definition raise_ss_ctx :: "CPU_CONTEXT \<Rightarrow> u32 \<Rightarrow> CPU_CONTEXT" where
  "raise_ss_ctx ctx error_code = cpu_raise_exception ctx CPU_EXCEPTION_SS error_code"
definition raise_np_ctx :: "CPU_CONTEXT \<Rightarrow> u32 \<Rightarrow> CPU_CONTEXT" where
  "raise_np_ctx ctx error_code = cpu_raise_exception ctx CPU_EXCEPTION_NP error_code"
definition raise_ud_ctx :: "CPU_CONTEXT \<Rightarrow> CPU_CONTEXT" where
  "raise_ud_ctx ctx = cpu_raise_exception ctx CPU_EXCEPTION_UD 0"
definition raise_pf_ctx :: "CPU_CONTEXT \<Rightarrow> u32 \<Rightarrow> CPU_CONTEXT" where
  "raise_pf_ctx ctx error_code = cpu_raise_exception ctx CPU_EXCEPTION_PF error_code"
definition raise_ac_ctx :: "CPU_CONTEXT \<Rightarrow> CPU_CONTEXT" where
  "raise_ac_ctx ctx = cpu_raise_exception ctx CPU_EXCEPTION_AC 0"
definition raise_bp_ctx :: "CPU_CONTEXT \<Rightarrow> CPU_CONTEXT" where
  "raise_bp_ctx ctx = cpu_raise_exception ctx CPU_EXCEPTION_BP 0"
definition raise_db_ctx :: "CPU_CONTEXT \<Rightarrow> CPU_CONTEXT" where
  "raise_db_ctx ctx = cpu_raise_exception ctx CPU_EXCEPTION_DB 0"
definition raise_of_ctx :: "CPU_CONTEXT \<Rightarrow> CPU_CONTEXT" where
  "raise_of_ctx ctx = cpu_raise_exception ctx CPU_EXCEPTION_OF 0"
definition raise_nm_ctx :: "CPU_CONTEXT \<Rightarrow> CPU_CONTEXT" where
  "raise_nm_ctx ctx = cpu_raise_exception ctx CPU_EXCEPTION_NM 0"
definition raise_mf_ctx :: "CPU_CONTEXT \<Rightarrow> CPU_CONTEXT" where
  "raise_mf_ctx ctx = cpu_raise_exception ctx CPU_EXCEPTION_MF 0"

lemmas raise_defs = raise_de_ctx_def raise_gp_ctx_def raise_ss_ctx_def raise_np_ctx_def
  raise_ud_ctx_def raise_pf_ctx_def raise_ac_ctx_def raise_bp_ctx_def raise_db_ctx_def
  raise_of_ctx_def raise_nm_ctx_def raise_mf_ctx_def

subsection \<open>Snapshots\<close>

definition cpu_capture_scalar_snapshot :: "CPU_CONTEXT \<Rightarrow> CPU_SCALAR_SNAPSHOT" where
  "cpu_capture_scalar_snapshot ctx =
     \<lparr>sn_regs = regs ctx,
      sn_control_regs = control_regs ctx,
      sn_long_mode_active = long_mode_active ctx,
      sn_es = es ctx,
      sn_cs = cs ctx,
      sn_ss = ss ctx,
      sn_ds = ds ctx,
      sn_fs = fs ctx,
      sn_gs = gs ctx,
      sn_rip = rip ctx,
      sn_rflags = rflags ctx,
      sn_cpl = cpl ctx,
      sn_x87_control_word = x87_control_word ctx,
      sn_x87_status_word = x87_status_word ctx,
      sn_x87_tag_word = x87_tag_word ctx,
      sn_x87_last_opcode = x87_last_opcode ctx,
      sn_x87_instruction_pointer = x87_instruction_pointer ctx,
      sn_x87_data_pointer = x87_data_pointer ctx,
      sn_x87_pending_exception = x87_pending_exception ctx,
      sn_gdtr_base = gdtr_base ctx,
      sn_gdtr_limit = gdtr_limit ctx,
      sn_ldtr_base = ldtr_base ctx,
      sn_ldtr_limit = ldtr_limit ctx,
      sn_rex_present = rex_present ctx,
      sn_rex_w = rex_w ctx,
      sn_rex_r = rex_r ctx,
      sn_rex_x = rex_x ctx,
      sn_rex_b = rex_b ctx,
      sn_operand_size_override = operand_size_override ctx,
      sn_address_size_override = address_size_override ctx,
      sn_segment_override = segment_override ctx,
      sn_last_inst_size = last_inst_size ctx\<rparr>"

definition cpu_restore_scalar_snapshot :: "CPU_CONTEXT \<Rightarrow> CPU_SCALAR_SNAPSHOT \<Rightarrow> CPU_CONTEXT" where
  "cpu_restore_scalar_snapshot ctx snapshot =
     ctx\<lparr>regs := sn_regs snapshot,
         control_regs := sn_control_regs snapshot,
         long_mode_active := sn_long_mode_active snapshot,
         es := sn_es snapshot,
         cs := sn_cs snapshot,
         ss := sn_ss snapshot,
         ds := sn_ds snapshot,
         fs := sn_fs snapshot,
         gs := sn_gs snapshot,
         rip := sn_rip snapshot,
         rflags := sn_rflags snapshot,
         cpl := sn_cpl snapshot,
         x87_control_word := sn_x87_control_word snapshot,
         x87_status_word := sn_x87_status_word snapshot,
         x87_tag_word := sn_x87_tag_word snapshot,
         x87_last_opcode := sn_x87_last_opcode snapshot,
         x87_instruction_pointer := sn_x87_instruction_pointer snapshot,
         x87_data_pointer := sn_x87_data_pointer snapshot,
         x87_pending_exception := sn_x87_pending_exception snapshot,
         gdtr_base := sn_gdtr_base snapshot,
         gdtr_limit := sn_gdtr_limit snapshot,
         ldtr_base := sn_ldtr_base snapshot,
         ldtr_limit := sn_ldtr_limit snapshot,
         rex_present := sn_rex_present snapshot,
         rex_w := sn_rex_w snapshot,
         rex_r := sn_rex_r snapshot,
         rex_x := sn_rex_x snapshot,
         rex_b := sn_rex_b snapshot,
         operand_size_override := sn_operand_size_override snapshot,
         address_size_override := sn_address_size_override snapshot,
         segment_override := sn_segment_override snapshot,
         last_inst_size := sn_last_inst_size snapshot,
         cached_mode_key_valid := False\<rparr>"

definition cpu_restore_decode_transient_snapshot ::
  "CPU_CONTEXT \<Rightarrow> CPU_SCALAR_SNAPSHOT \<Rightarrow> CPU_CONTEXT" where
  "cpu_restore_decode_transient_snapshot ctx snapshot =
     ctx\<lparr>rex_present := sn_rex_present snapshot,
         rex_w := sn_rex_w snapshot,
         rex_r := sn_rex_r snapshot,
         rex_x := sn_rex_x snapshot,
         rex_b := sn_rex_b snapshot,
         operand_size_override := sn_operand_size_override snapshot,
         address_size_override := sn_address_size_override snapshot,
         segment_override := sn_segment_override snapshot,
         last_inst_size := sn_last_inst_size snapshot\<rparr>"

definition cpu_capture_vector_snapshot :: "CPU_CONTEXT \<Rightarrow> CPU_VECTOR_SNAPSHOT" where
  "cpu_capture_vector_snapshot ctx =
     \<lparr>vn_xmm = xmm ctx,
      vn_ymm_upper = ymm_upper ctx,
      vn_zmm_upper = zmm_upper ctx,
      vn_opmask = opmask ctx,
      vn_mm_regs = mm_regs ctx,
      vn_mxcsr = mxcsr ctx\<rparr>"

definition cpu_restore_vector_snapshot :: "CPU_CONTEXT \<Rightarrow> CPU_VECTOR_SNAPSHOT \<Rightarrow> CPU_CONTEXT" where
  "cpu_restore_vector_snapshot ctx snapshot =
     ctx\<lparr>xmm := vn_xmm snapshot,
         ymm_upper := vn_ymm_upper snapshot,
         zmm_upper := vn_zmm_upper snapshot,
         opmask := vn_opmask snapshot,
         mm_regs := vn_mm_regs snapshot,
         mxcsr := vn_mxcsr snapshot\<rparr>"

subsection \<open>x87 state\<close>

definition cpu_x87_default_control_word :: u16 where "cpu_x87_default_control_word = 0x037F"
definition cpu_x87_default_status_word :: u16 where "cpu_x87_default_status_word = 0"
definition cpu_x87_default_tag_word :: u16 where "cpu_x87_default_tag_word = 0xFFFF"

definition cpu_reset_x87_state :: "CPU_CONTEXT \<Rightarrow> CPU_CONTEXT" where
  "cpu_reset_x87_state ctx =
     ctx\<lparr>x87_control_word := cpu_x87_default_control_word,
         x87_status_word := cpu_x87_default_status_word,
         x87_tag_word := cpu_x87_default_tag_word,
         x87_last_opcode := 0, x87_instruction_pointer := 0, x87_data_pointer := 0,
         x87_pending_exception := False\<rparr>"

definition cpu_x87_device_unavailable :: "CPU_CONTEXT \<Rightarrow> bool" where
  "cpu_x87_device_unavailable ctx \<longleftrightarrow>
     control_regs ctx REG_CR0 AND (push_bit 2 1 OR push_bit 3 1) \<noteq> 0"

definition cpu_x87_has_pending_exception :: "CPU_CONTEXT \<Rightarrow> bool" where
  "cpu_x87_has_pending_exception ctx = x87_pending_exception ctx"

definition cpu_x87_recompute_pending_exception :: "CPU_CONTEXT \<Rightarrow> CPU_CONTEXT" where
  "cpu_x87_recompute_pending_exception ctx =
     (let status_flags = x87_status_word ctx AND 0x003F;
          unmasked_exceptions = status_flags AND NOT (x87_control_word ctx) AND 0x003F
      in ctx\<lparr>x87_pending_exception := (unmasked_exceptions \<noteq> 0)\<rparr>)"

definition cpu_x87_check_device_available :: "CPU_CONTEXT \<Rightarrow> bool \<times> CPU_CONTEXT" where
  "cpu_x87_check_device_available ctx =
     (if cpu_x87_device_unavailable ctx then (False, raise_nm_ctx ctx) else (True, ctx))"

definition cpu_x87_check_wait :: "CPU_CONTEXT \<Rightarrow> bool \<Rightarrow> bool \<times> CPU_CONTEXT" where
  "cpu_x87_check_wait ctx has_wait_prefix =
     (if has_wait_prefix \<and> cpu_x87_has_pending_exception ctx then (False, raise_mf_ctx ctx)
      else (True, ctx))"

subsection \<open>Modes, code offsets and linear addresses\<close>

definition cpu_effective_segment_override_or_default :: "CPU_CONTEXT \<Rightarrow> int \<Rightarrow> int" where
  "cpu_effective_segment_override_or_default ctx default_segment =
     (if SEG_ES \<le> segment_override ctx \<and> segment_override ctx \<le> SEG_GS
      then segment_override ctx else default_segment)"

definition cpu_decode_segment_override :: "u8 \<Rightarrow> int" where
  "cpu_decode_segment_override prefix =
     (if prefix = 0x26 then SEG_ES else if prefix = 0x2E then SEG_CS
      else if prefix = 0x36 then SEG_SS else if prefix = 0x3E then SEG_DS
      else if prefix = 0x64 then SEG_FS else if prefix = 0x65 then SEG_GS else - 1)"

definition cpu_long_mode_active :: "CPU_CONTEXT \<Rightarrow> bool" where
  "cpu_long_mode_active ctx = long_mode_active ctx"

definition cpu_is_64bit_code :: "CPU_CONTEXT \<Rightarrow> bool" where
  "cpu_is_64bit_code ctx \<longleftrightarrow> cpu_long_mode_active ctx \<and> sd_long_mode (sr_descriptor (cs ctx))"

definition cpu_is_compatibility_code :: "CPU_CONTEXT \<Rightarrow> bool" where
  "cpu_is_compatibility_code ctx \<longleftrightarrow>
     cpu_long_mode_active ctx \<and> \<not> sd_long_mode (sr_descriptor (cs ctx))"

definition cpu_is_compat32_code :: "CPU_CONTEXT \<Rightarrow> bool" where
  "cpu_is_compat32_code ctx \<longleftrightarrow> cpu_is_compatibility_code ctx \<and> sd_db (sr_descriptor (cs ctx))"

definition cpu_allows_rex_prefix :: "CPU_CONTEXT \<Rightarrow> bool" where
  "cpu_allows_rex_prefix ctx = cpu_is_64bit_code ctx"

definition cpu_uses_flat_segment_bases :: "CPU_CONTEXT \<Rightarrow> bool" where
  "cpu_uses_flat_segment_bases ctx = cpu_is_64bit_code ctx"

definition cpu_uses_canonical_addresses :: "CPU_CONTEXT \<Rightarrow> bool" where
  "cpu_uses_canonical_addresses ctx = cpu_is_64bit_code ctx"

definition cpu_default_address_size :: "CPU_CONTEXT \<Rightarrow> int" where
  "cpu_default_address_size ctx =
     (if cpu_is_64bit_code ctx then 64 else if sd_db (sr_descriptor (cs ctx)) then 32 else 16)"

definition cpu_default_operand_size :: "CPU_CONTEXT \<Rightarrow> int" where
  "cpu_default_operand_size ctx = (if sd_db (sr_descriptor (cs ctx)) then 32 else 16)"

definition cpu_stack_address_size :: "CPU_CONTEXT \<Rightarrow> int" where
  "cpu_stack_address_size ctx =
     (if cpu_is_64bit_code ctx then 64 else if sd_db (sr_descriptor (ss ctx)) then 32 else 16)"

definition cpu_mask_code_offset :: "u64 \<Rightarrow> int \<Rightarrow> u64" where
  "cpu_mask_code_offset v operand_size =
     (if operand_size = 16 then ucast (ucast v :: u16)
      else if operand_size = 32 then ucast (ucast v :: u32) else v)"

definition cpu_is_canonical_address :: "u64 \<Rightarrow> bool" where
  "cpu_is_canonical_address address =
     (let sign_bit = drop_bit 47 address AND 1; upper_bits = drop_bit 48 address
      in upper_bits = (if sign_bit \<noteq> 0 then 0xFFFF else 0))"

definition cpu_validate_code_offset :: "CPU_CONTEXT \<Rightarrow> u64 \<Rightarrow> int \<Rightarrow> bool \<times> CPU_CONTEXT" where
  "cpu_validate_code_offset ctx v operand_size =
     (let target = cpu_mask_code_offset v operand_size
      in if cpu_uses_canonical_addresses ctx \<and> \<not> cpu_is_canonical_address target
         then (False, raise_gp_ctx ctx 0) else (True, ctx))"

definition cpu_assign_rip_checked :: "CPU_CONTEXT \<Rightarrow> u64 \<Rightarrow> int \<Rightarrow> bool \<times> CPU_CONTEXT" where
  "cpu_assign_rip_checked ctx v operand_size =
     (case cpu_validate_code_offset ctx v operand_size of
        (False, ctx1) \<Rightarrow> (False, ctx1)
      | (True, ctx1) \<Rightarrow> (True, ctx1\<lparr>rip := cpu_mask_code_offset v operand_size\<rparr>))"

definition segment_by_index :: "CPU_CONTEXT \<Rightarrow> int \<Rightarrow> SegmentRegister option" where
  "segment_by_index ctx segment_index =
     (if segment_index = SEG_ES then Some (es ctx) else if segment_index = SEG_CS then Some (cs ctx)
      else if segment_index = SEG_SS then Some (ss ctx)
      else if segment_index = SEG_DS then Some (ds ctx)
      else if segment_index = SEG_FS then Some (fs ctx)
      else if segment_index = SEG_GS then Some (gs ctx) else None)"

definition cpu_segment_base_for_addressing :: "CPU_CONTEXT \<Rightarrow> int \<Rightarrow> u64" where
  "cpu_segment_base_for_addressing ctx segment_index =
     (case segment_by_index ctx segment_index of
        None \<Rightarrow> 0
      | Some seg \<Rightarrow>
          if cpu_uses_flat_segment_bases ctx \<and> segment_index \<noteq> SEG_FS \<and> segment_index \<noteq> SEG_GS
          then 0 else sd_base (sr_descriptor seg))"

definition cpu_raise_noncanonical_address :: "CPU_CONTEXT \<Rightarrow> int \<Rightarrow> CPU_CONTEXT" where
  "cpu_raise_noncanonical_address ctx segment_index =
     (if segment_index = SEG_SS then raise_ss_ctx ctx 0 else raise_gp_ctx ctx 0)"

definition cpu_validate_linear_address :: "CPU_CONTEXT \<Rightarrow> u64 \<Rightarrow> int \<Rightarrow> bool \<times> CPU_CONTEXT" where
  "cpu_validate_linear_address ctx address segment_index =
     (if \<not> cpu_uses_canonical_addresses ctx then (True, ctx)
      else if cpu_is_canonical_address address then (True, ctx)
      else (False, cpu_raise_noncanonical_address ctx segment_index))"

subsection \<open>Initialisation\<close>

definition zero_descriptor :: SegmentDescriptor where
  "zero_descriptor = \<lparr>sd_base = 0, sd_limit = 0, sd_type = 0, sd_dpl = 0, sd_present = False,
     sd_granularity = False, sd_db = False, sd_long_mode = False\<rparr>"

definition zero_segment :: SegmentRegister where
  "zero_segment = \<lparr>sr_selector = 0, sr_descriptor = zero_descriptor\<rparr>"

definition zero_xmm :: XMMRegister where
  "zero_xmm = \<lparr>xmm_low = 0, xmm_high = 0\<rparr>"

definition zero_context :: CPU_CONTEXT where
  "zero_context =
     \<lparr>regs = (\<lambda>_. 0), control_regs = (\<lambda>_. 0), processor_id = 0, long_mode_active = False,
      xmm = (\<lambda>_. zero_xmm), ymm_upper = (\<lambda>_. zero_xmm),
      zmm_upper = (\<lambda>_. \<lparr>zu_lower = zero_xmm, zu_upper = zero_xmm\<rparr>),
      opmask = (\<lambda>_. 0), mm_regs = (\<lambda>_. 0), mxcsr = 0,
      x87_control_word = 0, x87_status_word = 0, x87_tag_word = 0, x87_last_opcode = 0,
      x87_instruction_pointer = 0, x87_data_pointer = 0, x87_pending_exception = False,
      es = zero_segment, cs = zero_segment, ss = zero_segment, ds = zero_segment,
      fs = zero_segment, gs = zero_segment, rip = 0, rflags = 0, cpl = 0,
      gdtr_base = 0, gdtr_limit = 0, ldtr_base = 0, ldtr_limit = 0,
      rex_present = False, rex_w = False, rex_r = False, rex_x = False, rex_b = False,
      operand_size_override = False, address_size_override = False, segment_override = 0,
      last_inst_size = 0, exception_state = \<lparr>ex_code = 0, ex_error_code = 0\<rparr>,
      cached_mode_key_bits = 0, cached_mode_key_valid = False\<rparr>"

definition init_cpu_context :: "bool \<Rightarrow> CPU_CONTEXT" where
  "init_cpu_context start_in_compat32 =
     (let ctx = cpu_reset_x87_state (zero_context\<lparr>long_mode_active := True, cpl := 0, mxcsr := 0x1F80\<rparr>);
          code = \<lparr>sr_selector = 0x08,
                  sr_descriptor = \<lparr>sd_base = 0, sd_limit = 0xFFFFFFFF, sd_type = 0x0B, sd_dpl = 0,
                    sd_present = True, sd_granularity = True, sd_db = start_in_compat32,
                    sd_long_mode = \<not> start_in_compat32\<rparr>\<rparr>;
          data = \<lparr>sr_selector = 0x10,
                  sr_descriptor = \<lparr>sd_base = 0, sd_limit = 0xFFFFFFFF, sd_type = 0x03, sd_dpl = 0,
                    sd_present = True, sd_granularity = True, sd_db = True,
                    sd_long_mode = False\<rparr>\<rparr>
      in ctx\<lparr>segment_override := - 1,
             control_regs := (control_regs ctx)(REG_CR0 := 0x80000011, REG_CR4 := 0x20),
             cs := code, ds := data, es := data, fs := data, gs := data,
             ss := data\<lparr>sr_selector := 0x18\<rparr>, cached_mode_key_valid := False\<rparr>)"

subsection \<open>Properties of the state helpers\<close>

lemma cpu_raise_exception_sticky:
  "cpu_has_exception ctx \<Longrightarrow> cpu_raise_exception ctx code err = ctx"
  by (simp add: cpu_raise_exception_def)

lemma cpu_raise_exception_first:
  "\<not> cpu_has_exception ctx \<Longrightarrow> code \<noteq> CPU_EXCEPTION_NONE \<Longrightarrow>
   cpu_has_exception (cpu_raise_exception ctx code err) \<and>
   exception_state (cpu_raise_exception ctx code err) = \<lparr>ex_code = code, ex_error_code = err\<rparr>"
  by (simp add: cpu_raise_exception_def cpu_has_exception_def)

lemma cpu_raise_exception_has [simp]:
  "code \<noteq> CPU_EXCEPTION_NONE \<Longrightarrow> cpu_has_exception (cpu_raise_exception ctx code err)"
  by (cases "cpu_has_exception ctx") (simp_all add: cpu_raise_exception_sticky cpu_raise_exception_first)

lemma raise_has_exception [simp]:
  "cpu_has_exception (raise_de_ctx ctx)" "cpu_has_exception (raise_gp_ctx ctx e)"
  "cpu_has_exception (raise_ss_ctx ctx e)" "cpu_has_exception (raise_np_ctx ctx e)"
  "cpu_has_exception (raise_ud_ctx ctx)" "cpu_has_exception (raise_pf_ctx ctx e)"
  "cpu_has_exception (raise_ac_ctx ctx)" "cpu_has_exception (raise_nm_ctx ctx)"
  "cpu_has_exception (raise_mf_ctx ctx)"
  by (simp_all add: raise_defs cpu_defs)

lemma cpu_raise_exception_frame:
  "\<exists>e. cpu_raise_exception ctx code err = ctx\<lparr>exception_state := e\<rparr>"
  by (auto simp: cpu_raise_exception_def intro: exI [of _ "exception_state ctx"])

lemma cpu_restore_scalar_capture:
  "cpu_restore_scalar_snapshot ctx (cpu_capture_scalar_snapshot ctx) = ctx\<lparr>cached_mode_key_valid := False\<rparr>"
  by (simp add: cpu_restore_scalar_snapshot_def cpu_capture_scalar_snapshot_def)

lemma cpu_capture_scalar_restore:
  "cpu_capture_scalar_snapshot (cpu_restore_scalar_snapshot ctx sn) = sn"
  by (simp add: cpu_restore_scalar_snapshot_def cpu_capture_scalar_snapshot_def)

lemma cpu_capture_vector_restore:
  "cpu_capture_vector_snapshot (cpu_restore_vector_snapshot ctx sn) = sn"
  by (simp add: cpu_restore_vector_snapshot_def cpu_capture_vector_snapshot_def)

lemma cpu_is_canonical_address_iff:
  "cpu_is_canonical_address a \<longleftrightarrow> scast (ucast a :: 48 word) = a"
proof -
  have sgn: "drop_bit 47 a AND 1 \<noteq> 0 \<longleftrightarrow> bit a 47"
    by (simp add: bit_iff_odd_drop_bit and_one_eq odd_iff_mod_2_eq_one)
  have hi: "drop_bit 48 a = (if b then 0xFFFF else 0) \<longleftrightarrow> (\<forall>n. 48 \<le> n \<and> n < 64 \<longrightarrow> bit a n = b)"
    (is "?L \<longleftrightarrow> ?R") for b
  proof
    assume l: ?L
    show ?R
    proof (intro allI impI)
      fix n :: nat
      assume n: "48 \<le> n \<and> n < 64"
      have "bit (drop_bit 48 a) (n - 48) = bit (if b then mask 16 else 0 :: u64) (n - 48)"
        using l by (simp add: mask_eq_exp_minus_1)
      then show "bit a n = b" using n by (auto simp: bit_simps)
    qed
  next
    assume r: ?R
    have "drop_bit 48 a = (if b then mask 16 else 0)"
    proof (rule bit_word_eqI)
      fix n assume "n < LENGTH(64)"
      then show "bit (drop_bit 48 a) n = bit (if b then mask 16 else 0 :: u64) n"
        using r [rule_format, of "48 + n"] bit_imp_le_length [of a "48 + n"]
        by (cases "n < 16") (auto simp: bit_simps)
    qed
    then show ?L by (simp add: mask_eq_exp_minus_1 split: if_splits)
  qed
  have "scast (ucast a :: 48 word) = a \<longleftrightarrow> (\<forall>n. 48 \<le> n \<and> n < 64 \<longrightarrow> bit a n = bit a 47)"
    (is "?L \<longleftrightarrow> ?R")
  proof
    assume l: ?L
    show ?R
    proof (intro allI impI)
      fix n :: nat
      assume n: "48 \<le> n \<and> n < 64"
      have "bit a n = bit (scast (ucast a :: 48 word) :: u64) n" by (simp only: l)
      also have "\<dots> = bit a 47" using n by (simp add: bit_simps min_def)
      finally show "bit a n = bit a 47" .
    qed
  next
    assume r: ?R
    show ?L
    proof (rule bit_word_eqI)
      fix n assume "n < LENGTH(64)"
      then show "bit (scast (ucast a :: 48 word) :: u64) n = bit a n"
        using r [rule_format, of n] by (cases "n < 47"; cases "n = 47") (auto simp: bit_simps min_def)
    qed
  qed
  then show ?thesis
    by (simp add: cpu_is_canonical_address_def Let_def sgn hi)
qed

end
