(* ===== verification/Calc.thy ===== *)
theory Calc
  imports Cpu
begin

text \<open>
  Flag computation (\<^verbatim>\<open>cpu/calc.hpp\<close>). Every \<^verbatim>\<open>update_flags_*\<close> function is a definition of its own
  at the width of the source; the narrow additions receive the sum in the next wider type, as in
  the source, and the 64-bit ones the wrapped sum. The theory relates the bit tricks to
  arithmetic: the carry flag is the carry out of the unsigned sum, the overflow flag says that the
  signed result does not fit, the auxiliary flag is the carry out of the low nibble, the parity
  flag counts the bits of the low byte. The facts are proved once for words of any length.
\<close>

unbundle bit_operations_syntax

subsection \<open>Definitions\<close>

definition calc_parity :: "u8 \<Rightarrow> bool" where
  "calc_parity v =
     (let v = v XOR drop_bit 4 v; v = v XOR drop_bit 2 v; v = v XOR drop_bit 1 v
      in v AND 1 = 0)"

definition set_flag :: "CPU_CONTEXT \<Rightarrow> u64 \<Rightarrow> bool \<Rightarrow> CPU_CONTEXT" where
  "set_flag ctx flag v =
     (if cpu_has_exception ctx then ctx
      else if v then ctx\<lparr>rflags := rflags ctx OR flag\<rparr>
      else ctx\<lparr>rflags := rflags ctx AND NOT flag\<rparr>)"

text \<open>The six calls of \<^verbatim>\<open>set_flag\<close> of the arithmetic updates, the five of the logical ones.\<close>

definition set_arith_flags ::
  "CPU_CONTEXT \<Rightarrow> bool \<Rightarrow> bool \<Rightarrow> bool \<Rightarrow> bool \<Rightarrow> bool \<Rightarrow> bool \<Rightarrow> CPU_CONTEXT" where
  "set_arith_flags ctx cf vf sf zf af pf =
     (let ctx = set_flag ctx RFLAGS_CF cf; ctx = set_flag ctx RFLAGS_OF vf;
          ctx = set_flag ctx RFLAGS_SF sf; ctx = set_flag ctx RFLAGS_ZF zf;
          ctx = set_flag ctx RFLAGS_AF af
      in set_flag ctx RFLAGS_PF pf)"

definition set_logic_flags ::
  "CPU_CONTEXT \<Rightarrow> bool \<Rightarrow> bool \<Rightarrow> bool \<Rightarrow> bool \<Rightarrow> bool \<Rightarrow> CPU_CONTEXT" where
  "set_logic_flags ctx cf vf sf zf pf =
     (let ctx = set_flag ctx RFLAGS_CF cf; ctx = set_flag ctx RFLAGS_OF vf;
          ctx = set_flag ctx RFLAGS_SF sf; ctx = set_flag ctx RFLAGS_ZF zf
      in set_flag ctx RFLAGS_PF pf)"

definition update_flags_add8 :: "CPU_CONTEXT \<Rightarrow> u8 \<Rightarrow> u8 \<Rightarrow> u16 \<Rightarrow> CPU_CONTEXT" where
  "update_flags_add8 ctx dst src result =
     (let res8 = ucast result :: u8
      in set_arith_flags ctx (result > 0xFF)
        ((dst XOR res8) AND (src XOR res8) AND 0x80 \<noteq> 0)
        (res8 AND 0x80 \<noteq> 0) (res8 = 0)
        ((dst XOR src XOR res8) AND 0x10 \<noteq> 0) (calc_parity res8))"

definition update_flags_add16 :: "CPU_CONTEXT \<Rightarrow> u16 \<Rightarrow> u16 \<Rightarrow> u32 \<Rightarrow> CPU_CONTEXT" where
  "update_flags_add16 ctx dst src result =
     (let res16 = ucast result :: u16
      in set_arith_flags ctx (result > 0xFFFF)
        ((dst XOR res16) AND (src XOR res16) AND 0x8000 \<noteq> 0)
        (res16 AND 0x8000 \<noteq> 0) (res16 = 0)
        ((dst XOR src XOR res16) AND 0x10 \<noteq> 0) (calc_parity (ucast res16)))"

definition update_flags_add32 :: "CPU_CONTEXT \<Rightarrow> u32 \<Rightarrow> u32 \<Rightarrow> u64 \<Rightarrow> CPU_CONTEXT" where
  "update_flags_add32 ctx dst src result =
     (let res32 = ucast result :: u32
      in set_arith_flags ctx (result > 0xFFFFFFFF)
        ((dst XOR res32) AND (src XOR res32) AND 0x80000000 \<noteq> 0)
        (res32 AND 0x80000000 \<noteq> 0) (res32 = 0)
        ((dst XOR src XOR res32) AND 0x10 \<noteq> 0) (calc_parity (ucast res32)))"

definition update_flags_add64 :: "CPU_CONTEXT \<Rightarrow> u64 \<Rightarrow> u64 \<Rightarrow> u64 \<Rightarrow> CPU_CONTEXT" where
  "update_flags_add64 ctx dst src result =
     set_arith_flags ctx (result < dst)
        ((dst XOR result) AND (src XOR result) AND 0x8000000000000000 \<noteq> 0)
        (result AND 0x8000000000000000 \<noteq> 0) (result = 0)
        ((dst XOR src XOR result) AND 0x10 \<noteq> 0) (calc_parity (ucast result))"

definition update_flags_sub8 :: "CPU_CONTEXT \<Rightarrow> u8 \<Rightarrow> u8 \<Rightarrow> u16 \<Rightarrow> CPU_CONTEXT" where
  "update_flags_sub8 ctx dst src result =
     (let res8 = ucast result :: u8
      in set_arith_flags ctx (dst < src)
        ((dst XOR src) AND (dst XOR res8) AND 0x80 \<noteq> 0)
        (res8 AND 0x80 \<noteq> 0) (res8 = 0)
        ((dst XOR src XOR res8) AND 0x10 \<noteq> 0) (calc_parity res8))"

definition update_flags_sub16 :: "CPU_CONTEXT \<Rightarrow> u16 \<Rightarrow> u16 \<Rightarrow> u32 \<Rightarrow> CPU_CONTEXT" where
  "update_flags_sub16 ctx dst src result =
     (let res16 = ucast result :: u16
      in set_arith_flags ctx (dst < src)
        ((dst XOR src) AND (dst XOR res16) AND 0x8000 \<noteq> 0)
        (res16 AND 0x8000 \<noteq> 0) (res16 = 0)
        ((dst XOR src XOR res16) AND 0x10 \<noteq> 0) (calc_parity (ucast res16)))"

definition update_flags_sub32 :: "CPU_CONTEXT \<Rightarrow> u32 \<Rightarrow> u32 \<Rightarrow> u64 \<Rightarrow> CPU_CONTEXT" where
  "update_flags_sub32 ctx dst src result =
     (let res32 = ucast result :: u32
      in set_arith_flags ctx (dst < src)
        ((dst XOR src) AND (dst XOR res32) AND 0x80000000 \<noteq> 0)
        (res32 AND 0x80000000 \<noteq> 0) (res32 = 0)
        ((dst XOR src XOR res32) AND 0x10 \<noteq> 0) (calc_parity (ucast res32)))"

definition update_flags_sub64 :: "CPU_CONTEXT \<Rightarrow> u64 \<Rightarrow> u64 \<Rightarrow> u64 \<Rightarrow> CPU_CONTEXT" where
  "update_flags_sub64 ctx dst src result =
     set_arith_flags ctx (dst < src)
        ((dst XOR src) AND (dst XOR result) AND 0x8000000000000000 \<noteq> 0)
        (result AND 0x8000000000000000 \<noteq> 0) (result = 0)
        ((dst XOR src XOR result) AND 0x10 \<noteq> 0) (calc_parity (ucast result))"

text \<open>The nibble sums of the next eight are computed in \<^verbatim>\<open>int\<close>, or in the operand's type where that is wider.\<close>

definition update_flags_adc8 :: "CPU_CONTEXT \<Rightarrow> u8 \<Rightarrow> u8 \<Rightarrow> u8 \<Rightarrow> u16 \<Rightarrow> CPU_CONTEXT" where
  "update_flags_adc8 ctx dst src carry_in result =
     (let res8 = ucast result :: u8
      in set_arith_flags ctx (result > 0xFF)
        ((dst XOR res8) AND (src XOR res8) AND 0x80 \<noteq> 0)
        (res8 AND 0x80 \<noteq> 0) (res8 = 0)
        ((ucast (dst AND 0x0F) + ucast (src AND 0x0F) + ucast carry_in :: u32) AND 0x10 \<noteq> 0) (calc_parity res8))"

definition update_flags_adc16 :: "CPU_CONTEXT \<Rightarrow> u16 \<Rightarrow> u16 \<Rightarrow> u8 \<Rightarrow> u32 \<Rightarrow> CPU_CONTEXT" where
  "update_flags_adc16 ctx dst src carry_in result =
     (let res16 = ucast result :: u16
      in set_arith_flags ctx (result > 0xFFFF)
        ((dst XOR res16) AND (src XOR res16) AND 0x8000 \<noteq> 0)
        (res16 AND 0x8000 \<noteq> 0) (res16 = 0)
        ((ucast (dst AND 0x0F) + ucast (src AND 0x0F) + ucast carry_in :: u32) AND 0x10 \<noteq> 0) (calc_parity (ucast res16)))"

definition update_flags_adc32 :: "CPU_CONTEXT \<Rightarrow> u32 \<Rightarrow> u32 \<Rightarrow> u8 \<Rightarrow> u64 \<Rightarrow> CPU_CONTEXT" where
  "update_flags_adc32 ctx dst src carry_in result =
     (let res32 = ucast result :: u32
      in set_arith_flags ctx (result > 0xFFFFFFFF)
        ((dst XOR res32) AND (src XOR res32) AND 0x80000000 \<noteq> 0)
        (res32 AND 0x80000000 \<noteq> 0) (res32 = 0)
        (((dst AND 0x0F) + (src AND 0x0F) + ucast carry_in) AND 0x10 \<noteq> 0) (calc_parity (ucast res32)))"

definition update_flags_adc64 :: "CPU_CONTEXT \<Rightarrow> u64 \<Rightarrow> u64 \<Rightarrow> u8 \<Rightarrow> u64 \<Rightarrow> CPU_CONTEXT" where
  "update_flags_adc64 ctx dst src carry_in result =
     set_arith_flags ctx (result < dst \<or> carry_in \<noteq> 0 \<and> result = dst)
        ((dst XOR result) AND (src XOR result) AND 0x8000000000000000 \<noteq> 0)
        (result AND 0x8000000000000000 \<noteq> 0) (result = 0)
        (((dst AND 0x0F) + (src AND 0x0F) + ucast carry_in) AND 0x10 \<noteq> 0) (calc_parity (ucast result))"

definition update_flags_sbb8 :: "CPU_CONTEXT \<Rightarrow> u8 \<Rightarrow> u8 \<Rightarrow> u8 \<Rightarrow> u16 \<Rightarrow> CPU_CONTEXT" where
  "update_flags_sbb8 ctx dst src borrow_in result =
     (let res8 = ucast result :: u8
      in set_arith_flags ctx (dst < src \<or> borrow_in \<noteq> 0 \<and> dst = src)
        ((dst XOR src) AND (dst XOR res8) AND 0x80 \<noteq> 0)
        (res8 AND 0x80 \<noteq> 0) (res8 = 0)
        ((ucast (dst AND 0x0F) :: u32) < ucast (src AND 0x0F) + ucast borrow_in) (calc_parity res8))"

definition update_flags_sbb16 :: "CPU_CONTEXT \<Rightarrow> u16 \<Rightarrow> u16 \<Rightarrow> u8 \<Rightarrow> u32 \<Rightarrow> CPU_CONTEXT" where
  "update_flags_sbb16 ctx dst src borrow_in result =
     (let res16 = ucast result :: u16
      in set_arith_flags ctx (dst < src \<or> borrow_in \<noteq> 0 \<and> dst = src)
        ((dst XOR src) AND (dst XOR res16) AND 0x8000 \<noteq> 0)
        (res16 AND 0x8000 \<noteq> 0) (res16 = 0)
        ((ucast (dst AND 0x0F) :: u32) < ucast (src AND 0x0F) + ucast borrow_in) (calc_parity (ucast res16)))"

definition update_flags_sbb32 :: "CPU_CONTEXT \<Rightarrow> u32 \<Rightarrow> u32 \<Rightarrow> u8 \<Rightarrow> u64 \<Rightarrow> CPU_CONTEXT" where
  "update_flags_sbb32 ctx dst src borrow_in result =
     (let res32 = ucast result :: u32
      in set_arith_flags ctx (dst < src \<or> borrow_in \<noteq> 0 \<and> dst = src)
        ((dst XOR src) AND (dst XOR res32) AND 0x80000000 \<noteq> 0)
        (res32 AND 0x80000000 \<noteq> 0) (res32 = 0)
        (dst AND 0x0F < (src AND 0x0F) + ucast borrow_in) (calc_parity (ucast res32)))"

definition update_flags_sbb64 :: "CPU_CONTEXT \<Rightarrow> u64 \<Rightarrow> u64 \<Rightarrow> u8 \<Rightarrow> u64 \<Rightarrow> CPU_CONTEXT" where
  "update_flags_sbb64 ctx dst src borrow_in result =
     set_arith_flags ctx (dst < src \<or> borrow_in \<noteq> 0 \<and> dst = src)
        ((dst XOR src) AND (dst XOR result) AND 0x8000000000000000 \<noteq> 0)
        (result AND 0x8000000000000000 \<noteq> 0) (result = 0)
        (dst AND 0x0F < (src AND 0x0F) + ucast borrow_in) (calc_parity (ucast result))"

definition update_flags_test8 :: "CPU_CONTEXT \<Rightarrow> u8 \<Rightarrow> CPU_CONTEXT" where
  "update_flags_test8 ctx result =
     set_logic_flags ctx False False (result AND 0x80 \<noteq> 0) (result = 0) (calc_parity result)"

definition update_flags_test16 :: "CPU_CONTEXT \<Rightarrow> u16 \<Rightarrow> CPU_CONTEXT" where
  "update_flags_test16 ctx result =
     set_logic_flags ctx False False (result AND 0x8000 \<noteq> 0) (result = 0) (calc_parity (ucast result))"

definition update_flags_test32 :: "CPU_CONTEXT \<Rightarrow> u32 \<Rightarrow> CPU_CONTEXT" where
  "update_flags_test32 ctx result =
     set_logic_flags ctx False False (result AND 0x80000000 \<noteq> 0) (result = 0) (calc_parity (ucast result))"

definition update_flags_test64 :: "CPU_CONTEXT \<Rightarrow> u64 \<Rightarrow> CPU_CONTEXT" where
  "update_flags_test64 ctx result =
     set_logic_flags ctx False False (result AND 0x8000000000000000 \<noteq> 0) (result = 0) (calc_parity (ucast result))"

definition update_flags_and8 :: "CPU_CONTEXT \<Rightarrow> u8 \<Rightarrow> CPU_CONTEXT" where
  "update_flags_and8 ctx result =
     set_logic_flags ctx False False (result AND 0x80 \<noteq> 0) (result = 0) (calc_parity result)"

definition update_flags_and16 :: "CPU_CONTEXT \<Rightarrow> u16 \<Rightarrow> CPU_CONTEXT" where
  "update_flags_and16 ctx result =
     set_logic_flags ctx False False (result AND 0x8000 \<noteq> 0) (result = 0) (calc_parity (ucast result))"

definition update_flags_and32 :: "CPU_CONTEXT \<Rightarrow> u32 \<Rightarrow> CPU_CONTEXT" where
  "update_flags_and32 ctx result =
     set_logic_flags ctx False False (result AND 0x80000000 \<noteq> 0) (result = 0) (calc_parity (ucast result))"

definition update_flags_and64 :: "CPU_CONTEXT \<Rightarrow> u64 \<Rightarrow> CPU_CONTEXT" where
  "update_flags_and64 ctx result =
     set_logic_flags ctx False False (result AND 0x8000000000000000 \<noteq> 0) (result = 0) (calc_parity (ucast result))"

definition update_flags_or8 :: "CPU_CONTEXT \<Rightarrow> u8 \<Rightarrow> CPU_CONTEXT" where
  "update_flags_or8 ctx result = update_flags_and8 ctx result"

definition update_flags_or16 :: "CPU_CONTEXT \<Rightarrow> u16 \<Rightarrow> CPU_CONTEXT" where
  "update_flags_or16 ctx result = update_flags_and16 ctx result"

definition update_flags_or32 :: "CPU_CONTEXT \<Rightarrow> u32 \<Rightarrow> CPU_CONTEXT" where
  "update_flags_or32 ctx result = update_flags_and32 ctx result"

definition update_flags_or64 :: "CPU_CONTEXT \<Rightarrow> u64 \<Rightarrow> CPU_CONTEXT" where
  "update_flags_or64 ctx result = update_flags_and64 ctx result"

definition update_flags_xor8 :: "CPU_CONTEXT \<Rightarrow> u8 \<Rightarrow> CPU_CONTEXT" where
  "update_flags_xor8 ctx result = update_flags_and8 ctx result"

definition update_flags_xor16 :: "CPU_CONTEXT \<Rightarrow> u16 \<Rightarrow> CPU_CONTEXT" where
  "update_flags_xor16 ctx result = update_flags_and16 ctx result"

definition update_flags_xor32 :: "CPU_CONTEXT \<Rightarrow> u32 \<Rightarrow> CPU_CONTEXT" where
  "update_flags_xor32 ctx result = update_flags_and32 ctx result"

definition update_flags_xor64 :: "CPU_CONTEXT \<Rightarrow> u64 \<Rightarrow> CPU_CONTEXT" where
  "update_flags_xor64 ctx result = update_flags_and64 ctx result"

definition update_flags_inc8 :: "CPU_CONTEXT \<Rightarrow> u8 \<Rightarrow> u8 \<Rightarrow> CPU_CONTEXT" where
  "update_flags_inc8 ctx dst result =
     (let carry = rflags ctx AND RFLAGS_CF \<noteq> 0
      in set_flag (update_flags_add8 ctx dst 1 (ucast result)) RFLAGS_CF carry)"

definition update_flags_inc16 :: "CPU_CONTEXT \<Rightarrow> u16 \<Rightarrow> u16 \<Rightarrow> CPU_CONTEXT" where
  "update_flags_inc16 ctx dst result =
     (let carry = rflags ctx AND RFLAGS_CF \<noteq> 0
      in set_flag (update_flags_add16 ctx dst 1 (ucast result)) RFLAGS_CF carry)"

definition update_flags_inc32 :: "CPU_CONTEXT \<Rightarrow> u32 \<Rightarrow> u32 \<Rightarrow> CPU_CONTEXT" where
  "update_flags_inc32 ctx dst result =
     (let carry = rflags ctx AND RFLAGS_CF \<noteq> 0
      in set_flag (update_flags_add32 ctx dst 1 (ucast result)) RFLAGS_CF carry)"

definition update_flags_inc64 :: "CPU_CONTEXT \<Rightarrow> u64 \<Rightarrow> u64 \<Rightarrow> CPU_CONTEXT" where
  "update_flags_inc64 ctx dst result =
     (let carry = rflags ctx AND RFLAGS_CF \<noteq> 0
      in set_flag (update_flags_add64 ctx dst 1 result) RFLAGS_CF carry)"

definition update_flags_dec8 :: "CPU_CONTEXT \<Rightarrow> u8 \<Rightarrow> u8 \<Rightarrow> CPU_CONTEXT" where
  "update_flags_dec8 ctx dst result =
     (let carry = rflags ctx AND RFLAGS_CF \<noteq> 0
      in set_flag (update_flags_sub8 ctx dst 1 (ucast result)) RFLAGS_CF carry)"

definition update_flags_dec16 :: "CPU_CONTEXT \<Rightarrow> u16 \<Rightarrow> u16 \<Rightarrow> CPU_CONTEXT" where
  "update_flags_dec16 ctx dst result =
     (let carry = rflags ctx AND RFLAGS_CF \<noteq> 0
      in set_flag (update_flags_sub16 ctx dst 1 (ucast result)) RFLAGS_CF carry)"

definition update_flags_dec32 :: "CPU_CONTEXT \<Rightarrow> u32 \<Rightarrow> u32 \<Rightarrow> CPU_CONTEXT" where
  "update_flags_dec32 ctx dst result =
     (let carry = rflags ctx AND RFLAGS_CF \<noteq> 0
      in set_flag (update_flags_sub32 ctx dst 1 (ucast result)) RFLAGS_CF carry)"

definition update_flags_dec64 :: "CPU_CONTEXT \<Rightarrow> u64 \<Rightarrow> u64 \<Rightarrow> CPU_CONTEXT" where
  "update_flags_dec64 ctx dst result =
     (let carry = rflags ctx AND RFLAGS_CF \<noteq> 0
      in set_flag (update_flags_sub64 ctx dst 1 result) RFLAGS_CF carry)"

subsection \<open>Arithmetic of words of any length\<close>

text \<open>The top bit splits the unsigned range in two halves.\<close>

lemma two_power_length: "(2 :: int) ^ LENGTH('a :: len) = 2 * 2 ^ (LENGTH('a) - Suc 0)"
  by (simp flip: power_Suc)

lemma uint_bounds: "0 \<le> uint (x :: 'a :: len word)" "uint x < 2 * 2 ^ (LENGTH('a) - Suc 0)"
  using uint_lt2p [of x] by (simp_all flip: two_power_length)

lemma bit_top_uint: "bit (x :: 'a :: len word) (LENGTH('a) - Suc 0) \<longleftrightarrow> 2 ^ (LENGTH('a) - Suc 0) \<le> uint x"
proof -
  let ?h = "(2 :: int) ^ (LENGTH('a) - Suc 0)"
  have "bit x (LENGTH('a) - Suc 0) \<longleftrightarrow> bit (uint x) (LENGTH('a) - Suc 0)"
    by (simp add: bit_unsigned_iff)
  also have "\<dots> \<longleftrightarrow> odd (uint x div ?h)" by (simp add: bit_iff_odd)
  also have "\<dots> \<longleftrightarrow> ?h \<le> uint x"
  proof (cases "?h \<le> uint x")
    case True
    then have "uint x div ?h = 1 + (uint x - ?h) div ?h" by (simp add: div_pos_geq)
    moreover have "(uint x - ?h) div ?h = 0" using True uint_bounds [of x] by (intro div_pos_pos_trivial) auto
    ultimately show ?thesis using True by simp
  next
    case False
    then show ?thesis using uint_bounds [of x] by (simp add: div_pos_pos_trivial)
  qed
  finally show ?thesis .
qed

lemma sint_uint_top:
  "sint (x :: 'a :: len word) =
   uint x - (if 2 ^ (LENGTH('a) - Suc 0) \<le> uint x then 2 * 2 ^ (LENGTH('a) - Suc 0) else 0)"
proof -
  have "sint x = signed_take_bit (LENGTH('a) - Suc 0) (uint x)" by (simp add: sint_uint)
  also have "\<dots> = take_bit LENGTH('a) (uint x) - 2 ^ LENGTH('a) * of_bool (bit (uint x) (LENGTH('a) - Suc 0))"
    by (simp add: signed_take_bit_eq_take_bit_minus)
  also have "take_bit LENGTH('a) (uint x) = uint x"
    using uint_lt2p [of x] by (simp add: take_bit_int_eq_self)
  also have "bit (uint x) (LENGTH('a) - Suc 0) \<longleftrightarrow> 2 ^ (LENGTH('a) - Suc 0) \<le> uint x"
    by (simp add: bit_unsigned_iff flip: bit_top_uint)
  finally show ?thesis by (simp add: two_power_length)
qed

definition fits_signed :: "nat \<Rightarrow> int \<Rightarrow> bool" where
  "fits_signed n x \<longleftrightarrow> - (2 ^ (n - Suc 0)) \<le> x \<and> x < 2 ^ (n - Suc 0)"

lemma uint_add_carry:
  fixes a b :: "'a :: len word"
  assumes "c \<le> 1"
  shows "uint (a + b + of_nat c) =
    (if uint a + uint b + int c < 2 * 2 ^ (LENGTH('a) - Suc 0) then uint a + uint b + int c
     else uint a + uint b + int c - 2 * 2 ^ (LENGTH('a) - Suc 0))"
proof -
  let ?M = "2 * 2 ^ (LENGTH('a) - Suc 0) :: int" and ?s = "uint a + uint b + int c"
  have "uint (of_nat c :: 'a word) mod ?M = int c mod ?M"
    by (simp add: unsigned_of_nat take_bit_eq_mod of_nat_mod flip: two_power_length)
  then have "uint (a + b + of_nat c) = ?s mod ?M"
    by (simp add: uint_word_ariths two_power_length [where 'a = 'a] mod_simps) (metis mod_add_right_eq)
  moreover have "?s mod ?M = (if ?s < ?M then ?s else ?s - ?M)"
  proof (cases "?s < ?M")
    case True
    then show ?thesis using uint_bounds [of a] uint_bounds [of b] by (simp add: mod_pos_pos_trivial)
  next
    case False
    have "?s mod ?M = (?s - ?M) mod ?M" by simp
    also have "\<dots> = ?s - ?M"
      using False uint_bounds [of a] uint_bounds [of b] assms by (intro mod_pos_pos_trivial) auto
    finally show ?thesis using False by simp
  qed
  ultimately show ?thesis by simp
qed

lemma overflow_add_int:
  fixes x y c H :: int
  assumes "0 \<le> x" "x < 2 * H" "0 \<le> y" "y < 2 * H" "0 \<le> c" "c \<le> 1"
    and z: "z = (if x + y + c < 2 * H then x + y + c else x + y + c - 2 * H)"
  shows "(H \<le> x) \<noteq> (H \<le> z) \<and> (H \<le> y) \<noteq> (H \<le> z) \<longleftrightarrow>
    \<not> (- H \<le> (x - (if H \<le> x then 2 * H else 0)) + (y - (if H \<le> y then 2 * H else 0)) + c \<and>
       (x - (if H \<le> x then 2 * H else 0)) + (y - (if H \<le> y then 2 * H else 0)) + c < H)"
  and "(H \<le> z) \<noteq> (H \<le> y) \<and> (H \<le> z) \<noteq> (H \<le> x) \<longleftrightarrow>
    \<not> (- H \<le> (z - (if H \<le> z then 2 * H else 0)) - (y - (if H \<le> y then 2 * H else 0)) - c \<and>
       (z - (if H \<le> z then 2 * H else 0)) - (y - (if H \<le> y then 2 * H else 0)) - c < H)"
  unfolding z using assms(1-6) by (auto split: if_splits)

lemma overflow_add:
  fixes a b :: "'a :: len word"
  assumes c: "c \<le> 1" and r: "r = a + b + of_nat c"
  shows "bit ((a XOR r) AND (b XOR r)) (LENGTH('a) - Suc 0) \<longleftrightarrow>
    \<not> fits_signed LENGTH('a) (sint a + sint b + int c)"
proof -
  define H where "H = (2 :: int) ^ (LENGTH('a) - Suc 0)"
  have "bit ((a XOR r) AND (b XOR r)) (LENGTH('a) - Suc 0) \<longleftrightarrow>
      (H \<le> uint a) \<noteq> (H \<le> uint r) \<and> (H \<le> uint b) \<noteq> (H \<le> uint r)"
    by (simp add: bit_simps H_def flip: bit_top_uint)
  also have "\<dots> \<longleftrightarrow> \<not> fits_signed LENGTH('a) (sint a + sint b + int c)"
    unfolding fits_signed_def sint_uint_top H_def [symmetric]
    by (rule overflow_add_int(1))
       (use uint_bounds [of a, folded H_def] uint_bounds [of b, folded H_def] c
          uint_add_carry [OF c, of a b, folded H_def] r in simp_all)
  finally show ?thesis .
qed

lemma overflow_sub:
  fixes a b :: "'a :: len word"
  assumes c: "c \<le> 1" and r: "r = a - b - of_nat c"
  shows "bit ((a XOR b) AND (a XOR r)) (LENGTH('a) - Suc 0) \<longleftrightarrow>
    \<not> fits_signed LENGTH('a) (sint a - sint b - int c)"
proof -
  define H where "H = (2 :: int) ^ (LENGTH('a) - Suc 0)"
  have a: "a = r + b + of_nat c" by (simp add: r)
  have "bit ((a XOR b) AND (a XOR r)) (LENGTH('a) - Suc 0) \<longleftrightarrow>
      (H \<le> uint a) \<noteq> (H \<le> uint b) \<and> (H \<le> uint a) \<noteq> (H \<le> uint r)"
    by (simp add: bit_simps H_def flip: bit_top_uint)
  also have "\<dots> \<longleftrightarrow> \<not> fits_signed LENGTH('a) (sint a - sint b - int c)"
    unfolding fits_signed_def sint_uint_top H_def [symmetric]
    by (rule overflow_add_int(2))
       (use uint_bounds [of r, folded H_def] uint_bounds [of b, folded H_def] c
          uint_add_carry [OF c, of r b, folded H_def] a in simp_all)
  finally show ?thesis .
qed
lemma bit_add_4:
  fixes a b :: "'a :: len word"
  assumes "4 < LENGTH('a)"
  shows "bit (a + b) 4 \<longleftrightarrow> odd ((unat a + unat b) div 16)"
proof -
  have "bit (a + b) 4 \<longleftrightarrow> bit (unat (a + b)) 4" by (simp add: bit_unsigned_iff)
  also have "unat (a + b) = take_bit LENGTH('a) (unat a + unat b)"
    by (simp add: unat_word_ariths take_bit_eq_mod)
  finally show ?thesis using assms by (simp add: bit_take_bit_iff) (simp add: bit_iff_odd)
qed

lemma bit_4_unat: "bit (x :: 'a :: len word) 4 \<longleftrightarrow> odd (unat x div 16)"
proof -
  have "bit x 4 \<longleftrightarrow> bit (unat x) 4" by (simp add: bit_unsigned_iff)
  then show ?thesis by (simp add: bit_iff_odd)
qed

lemma nibble_carry: "odd ((x mod 16 + y mod 16) div 16) \<longleftrightarrow> 16 \<le> x mod 16 + y mod (16 :: nat)"
proof (cases "16 \<le> x mod 16 + y mod 16")
  case True
  then have "(x mod 16 + y mod 16) div 16 = 1 + (x mod 16 + y mod 16 - 16) div 16"
    by (simp add: le_div_geq)
  moreover have "x mod 16 + y mod 16 - 16 < 16" using mod_less_divisor [of 16 x] mod_less_divisor [of 16 y] by linarith
  ultimately show ?thesis using True by simp
qed simp

lemma adjust_add:
  fixes a b :: "'a :: len word"
  assumes "4 < LENGTH('a)"
  shows "bit (a XOR b XOR (a + b)) 4 \<longleftrightarrow> 16 \<le> unat a mod 16 + unat b mod 16"
proof -
  have "bit (a XOR b XOR (a + b)) 4 \<longleftrightarrow> (bit a 4 \<noteq> bit b 4) \<noteq> bit (a + b) 4"
    using assms by (simp add: bit_xor_iff) argo
  also have "\<dots> \<longleftrightarrow> odd ((unat a mod 16 + unat b mod 16) div 16)"
    unfolding bit_add_4 [OF assms] unfolding bit_4_unat div_add1_eq [of "unat a" "unat b" 16] by auto
  finally show ?thesis by (simp only: nibble_carry)
qed

lemma nibble_borrow: "16 \<le> x mod 16 + y mod 16 \<longleftrightarrow> (x + y) mod 16 < y mod (16 :: nat)"
proof -
  have lt: "x mod 16 < 16" "y mod 16 < 16" by simp_all
  have "(x + y) mod 16 = (x mod 16 + y mod 16) mod 16" by (simp add: mod_simps)
  also have "\<dots> = (if x mod 16 + y mod 16 < 16 then x mod 16 + y mod 16
      else x mod 16 + y mod 16 - 16)"
    using lt by (simp add: mod_if [of "x mod 16 + y mod 16"] le_mod_geq)
  finally have e: "(x + y) mod 16 = \<dots>" .
  show ?thesis
  proof (cases "x mod 16 + y mod 16 < 16")
    case False
    with e have "(x + y) mod 16 = x mod 16 + y mod 16 - 16" by simp
    then show ?thesis using False lt by linarith
  qed (simp add: e)
qed

lemma unat_add_mod_16:
  "4 < LENGTH('a) \<Longrightarrow> unat (a + b :: 'a :: len word) mod 16 = (unat a + unat b) mod 16"
proof -
  assume "4 < LENGTH('a)"
  then have "(2 :: nat) ^ 4 dvd 2 ^ LENGTH('a)" by (intro le_imp_power_dvd) simp
  then have "(16 :: nat) dvd 2 ^ LENGTH('a)" by simp
  then show ?thesis by (simp add: unat_word_ariths mod_mod_cancel)
qed

lemma adjust_sub:
  fixes a b :: "'a :: len word"
  assumes l: "4 < LENGTH('a)"
  shows "bit (a XOR b XOR (a - b)) 4 \<longleftrightarrow> unat a mod 16 < unat b mod 16"
proof -
  let ?r = "a - b"
  have "bit (a XOR b XOR ?r) 4 \<longleftrightarrow> bit (?r XOR b XOR (?r + b)) 4"
    using l by (auto simp: bit_xor_iff)
  also have "\<dots> \<longleftrightarrow> (unat ?r + unat b) mod 16 < unat b mod 16"
    unfolding adjust_add [OF l] by (rule nibble_borrow)
  also have "(unat ?r + unat b) mod 16 = unat a mod 16"
    using unat_add_mod_16 [OF l, of ?r b] by simp
  finally show ?thesis .
qed

lemma calc_parity_even: "calc_parity v \<longleftrightarrow> even (length (filter (bit v) [0..<8]))"
proof -
  have b0: "x AND 1 = 0 \<longleftrightarrow> \<not> bit x 0" for x :: u8
    by (simp add: and_one_eq bit_0 even_iff_mod_2_eq_zero)
  have "calc_parity v \<longleftrightarrow> \<not> (bit v 0 \<noteq> (bit v 1 \<noteq> (bit v 2 \<noteq> (bit v 3 \<noteq>
      (bit v 4 \<noteq> (bit v 5 \<noteq> (bit v 6 \<noteq> bit v 7)))))))"
    unfolding calc_parity_def Let_def b0
    by (simp add: bit_simps numeral_3_eq_3 del: bit_0) argo
  also have "\<dots> \<longleftrightarrow> even (length (filter (bit v) [0..<8]))"
  proof -
    have l: "[0..<8] = [0, 1, 2, 3, 4, 5, 6, 7 :: nat]" by (simp add: upt_rec)
    show ?thesis unfolding l filter.simps by (simp del: bit_0 One_nat_def split del: if_split) auto
  qed
  finally show ?thesis .
qed

subsection \<open>The flag word\<close>

definition flag_set :: "CPU_CONTEXT \<Rightarrow> u64 \<Rightarrow> bool" where
  "flag_set ctx flag \<longleftrightarrow> rflags ctx AND flag \<noteq> 0"

lemma and_bit_nonzero: "n < 64 \<Longrightarrow> (w :: u64) AND push_bit n 1 \<noteq> 0 \<longleftrightarrow> bit w n"
proof -
  assume n: "n < 64"
  have "w AND push_bit n 1 = 0 \<longleftrightarrow> \<not> bit w n"
  proof
    assume "w AND push_bit n 1 = 0"
    then have "\<not> bit (w AND push_bit n 1) n" by simp
    then show "\<not> bit w n" using n by (simp add: bit_and_iff bit_exp_iff)
  next
    assume "\<not> bit w n"
    then show "w AND push_bit n 1 = 0"
      by (intro bit_word_eqI) (auto simp: bit_and_iff bit_exp_iff)
  qed
  then show ?thesis by simp
qed

lemma flag_set_bit:
  "flag_set ctx RFLAGS_CF = bit (rflags ctx) 0" "flag_set ctx RFLAGS_PF = bit (rflags ctx) 2"
  "flag_set ctx RFLAGS_AF = bit (rflags ctx) 4" "flag_set ctx RFLAGS_ZF = bit (rflags ctx) 6"
  "flag_set ctx RFLAGS_SF = bit (rflags ctx) 7" "flag_set ctx RFLAGS_DF = bit (rflags ctx) 10"
  "flag_set ctx RFLAGS_OF = bit (rflags ctx) 11"
  unfolding flag_set_def RFLAGS_CF_def RFLAGS_PF_def RFLAGS_AF_def RFLAGS_ZF_def RFLAGS_SF_def
    RFLAGS_DF_def RFLAGS_OF_def by (simp_all only: and_bit_nonzero)

lemma set_flag_bit:
  assumes "\<not> cpu_has_exception ctx" "n < 64"
  shows "bit (rflags (set_flag ctx (push_bit n 1) v)) k = (if k = n then v else bit (rflags ctx) k)"
proof -
  have one: "bit (push_bit n (1 :: u64)) k \<longleftrightarrow> k = n" using assms(2)
    by (auto simp: bit_exp_iff)
  have "bit (NOT (push_bit n (1 :: u64))) k \<longleftrightarrow> k < 64 \<and> k \<noteq> n"
    using one by (simp add: bit_not_iff)
  then show ?thesis
    using assms one bit_imp_le_length [of "rflags ctx" k]
    by (auto simp: set_flag_def bit_or_iff bit_and_iff)
qed

lemma set_flag_frame: "\<exists>f. set_flag ctx flag v = ctx\<lparr>rflags := f\<rparr>"
  by (auto simp: set_flag_def intro: exI [of _ "rflags ctx"])

lemma set_flag_exception [simp]: "cpu_has_exception (set_flag ctx flag v) = cpu_has_exception ctx"
  by (simp add: set_flag_def cpu_has_exception_def)

lemma set_flag_frame_step:
  "ctx' = ctx\<lparr>rflags := f\<rparr> \<Longrightarrow> \<exists>g. set_flag ctx' flag v = ctx\<lparr>rflags := g\<rparr>"
  using set_flag_frame [of ctx' flag v] by auto

lemma set_arith_flags_bit:
  assumes "\<not> cpu_has_exception ctx"
  shows "bit (rflags (set_arith_flags ctx cf vf sf zf af pf)) k =
   (if k = 0 then cf else if k = 11 then vf else if k = 7 then sf else if k = 6 then zf
    else if k = 4 then af else if k = 2 then pf else bit (rflags ctx) k)"
  unfolding set_arith_flags_def Let_def RFLAGS_CF_def RFLAGS_PF_def RFLAGS_AF_def RFLAGS_ZF_def
    RFLAGS_SF_def RFLAGS_OF_def using assms
  by (simp add: set_flag_bit set_flag_bit [of ctx 0, simplified] del: push_bit_of_1)

lemma set_logic_flags_bit:
  assumes "\<not> cpu_has_exception ctx"
  shows "bit (rflags (set_logic_flags ctx cf vf sf zf pf)) k =
   (if k = 0 then cf else if k = 11 then vf else if k = 7 then sf else if k = 6 then zf
    else if k = 2 then pf else bit (rflags ctx) k)"
  unfolding set_logic_flags_def Let_def RFLAGS_CF_def RFLAGS_PF_def RFLAGS_ZF_def
    RFLAGS_SF_def RFLAGS_OF_def using assms
  by (simp add: set_flag_bit set_flag_bit [of ctx 0, simplified] del: push_bit_of_1)

lemma set_arith_flags_frame: "\<exists>f. set_arith_flags ctx cf vf sf zf af pf = ctx\<lparr>rflags := f\<rparr>"
proof -
  define c1 where "c1 = set_flag ctx RFLAGS_CF cf"
  define c2 where "c2 = set_flag c1 RFLAGS_OF vf"
  define c3 where "c3 = set_flag c2 RFLAGS_SF sf"
  define c4 where "c4 = set_flag c3 RFLAGS_ZF zf"
  define c5 where "c5 = set_flag c4 RFLAGS_AF af"
  have "\<exists>f. c1 = ctx\<lparr>rflags := f\<rparr>" unfolding c1_def by (rule set_flag_frame)
  then have "\<exists>f. c2 = ctx\<lparr>rflags := f\<rparr>" unfolding c2_def by (blast intro: set_flag_frame_step)
  then have "\<exists>f. c3 = ctx\<lparr>rflags := f\<rparr>" unfolding c3_def by (blast intro: set_flag_frame_step)
  then have "\<exists>f. c4 = ctx\<lparr>rflags := f\<rparr>" unfolding c4_def by (blast intro: set_flag_frame_step)
  then have "\<exists>f. c5 = ctx\<lparr>rflags := f\<rparr>" unfolding c5_def by (blast intro: set_flag_frame_step)
  then show ?thesis
    unfolding set_arith_flags_def Let_def c5_def c4_def c3_def c2_def c1_def
    by (blast intro: set_flag_frame_step)
qed

subsection \<open>Specification of the flags\<close>

text \<open>
  \<open>flags_are ctx ctx' cf vf sf zf af pf\<close>: the state differs only in the flag word, whose six
  arithmetic flags have the given values and whose other bits are kept.
\<close>

definition flags_are ::
  "CPU_CONTEXT \<Rightarrow> CPU_CONTEXT \<Rightarrow> bool \<Rightarrow> bool \<Rightarrow> bool \<Rightarrow> bool \<Rightarrow> bool \<Rightarrow> bool \<Rightarrow> bool" where
  "flags_are ctx ctx' cf vf sf zf af pf \<longleftrightarrow>
     (\<exists>f. ctx' = ctx\<lparr>rflags := f\<rparr>) \<and>
     flag_set ctx' RFLAGS_CF = cf \<and> flag_set ctx' RFLAGS_OF = vf \<and> flag_set ctx' RFLAGS_SF = sf \<and>
     flag_set ctx' RFLAGS_ZF = zf \<and> flag_set ctx' RFLAGS_AF = af \<and> flag_set ctx' RFLAGS_PF = pf \<and>
     (\<forall>k. k \<notin> {0, 2, 4, 6, 7, 11} \<longrightarrow> bit (rflags ctx') k = bit (rflags ctx) k)"

lemma flags_are_arith:
  "\<not> cpu_has_exception ctx \<Longrightarrow>
   flags_are ctx (set_arith_flags ctx cf vf sf zf af pf) cf vf sf zf af pf"
  by (simp add: flags_are_def flag_set_bit set_arith_flags_bit set_arith_flags_frame del: bit_0)

text \<open>The flags of an addition and of a subtraction with a carry of 0 or 1, for any word length.\<close>

definition low_parity :: "'a :: len word \<Rightarrow> bool" where
  "low_parity r \<longleftrightarrow> even (length (filter (bit r) [0..<8]))"

definition add_flags :: "CPU_CONTEXT \<Rightarrow> CPU_CONTEXT \<Rightarrow> 'a :: len word \<Rightarrow> 'a word \<Rightarrow> nat \<Rightarrow> bool" where
  "add_flags ctx ctx' a b c =
     flags_are ctx ctx' (2 ^ LENGTH('a) \<le> unat a + unat b + c)
       (\<not> fits_signed LENGTH('a) (sint a + sint b + int c))
       (sint (a + b + of_nat c) < 0) (a + b + of_nat c = 0)
       (16 \<le> unat a mod 16 + unat b mod 16 + c) (low_parity (a + b + of_nat c))"

definition sub_flags :: "CPU_CONTEXT \<Rightarrow> CPU_CONTEXT \<Rightarrow> 'a :: len word \<Rightarrow> 'a word \<Rightarrow> nat \<Rightarrow> bool" where
  "sub_flags ctx ctx' a b c =
     flags_are ctx ctx' (unat a < unat b + c)
       (\<not> fits_signed LENGTH('a) (sint a - sint b - int c))
       (sint (a - b - of_nat c) < 0) (a - b - of_nat c = 0)
       (unat a mod 16 < unat b mod 16 + c) (low_parity (a - b - of_nat c))"

lemma sint_negative: "sint (x :: 'a :: len word) < 0 \<longleftrightarrow> bit x (LENGTH('a) - Suc 0)"
  unfolding sint_uint_top bit_top_uint using uint_bounds [of x] by auto

lemma low_parity_calc: "calc_parity (ucast (r :: 'a :: len word)) = low_parity r" if "8 \<le> LENGTH('a)"
proof -
  have "filter (bit (ucast r :: u8)) [0..<8] = filter (bit r) [0..<8]"
    using that by (intro filter_cong) (auto simp: bit_ucast_iff)
  then show ?thesis by (simp add: calc_parity_even low_parity_def)
qed

text \<open>A single-bit mask test is a bit.\<close>

lemma and_mask_bit:
  "n < LENGTH('a) \<Longrightarrow> (w :: 'a :: len word) AND 2 ^ n \<noteq> 0 \<longleftrightarrow> bit w n"
proof -
  assume n: "n < LENGTH('a)"
  have "w AND 2 ^ n = 0 \<longleftrightarrow> \<not> bit w n"
  proof
    assume "w AND 2 ^ n = 0"
    then have "\<not> bit (w AND 2 ^ n) n" by simp
    then show "\<not> bit w n" using n by (simp add: bit_and_iff bit_exp_iff)
  next
    assume "\<not> bit w n"
    then show "w AND 2 ^ n = 0"
      by (intro bit_word_eqI) (auto simp: bit_and_iff bit_exp_iff)
  qed
  then show ?thesis by simp
qed

subsection \<open>The flags are right at every width\<close>

lemma arith_flags_add:
  fixes a b :: "'a :: len word"
  assumes "\<not> cpu_has_exception ctx" "c \<le> 1" and r: "r = a + b + of_nat c"
    and cf: "cf = (2 ^ LENGTH('a) \<le> unat a + unat b + c)"
    and vf: "vf = bit ((a XOR r) AND (b XOR r)) (LENGTH('a) - Suc 0)"
    and sf: "sf = bit r (LENGTH('a) - Suc 0)" and zf: "zf = (r = 0)"
    and af: "af = (16 \<le> unat a mod 16 + unat b mod 16 + c)" and pf: "pf = low_parity r"
  shows "add_flags ctx (set_arith_flags ctx cf vf sf zf af pf) a b c"
  using flags_are_arith [OF assms(1), of cf vf sf zf af pf]
  unfolding add_flags_def cf vf sf zf af pf overflow_add [OF assms(2) r] sint_negative
  by (simp add: r)

lemma arith_flags_sub:
  fixes a b :: "'a :: len word"
  assumes "\<not> cpu_has_exception ctx" "c \<le> 1" and r: "r = a - b - of_nat c"
    and cf: "cf = (unat a < unat b + c)"
    and vf: "vf = bit ((a XOR b) AND (a XOR r)) (LENGTH('a) - Suc 0)"
    and sf: "sf = bit r (LENGTH('a) - Suc 0)" and zf: "zf = (r = 0)"
    and af: "af = (unat a mod 16 < unat b mod 16 + c)" and pf: "pf = low_parity r"
  shows "sub_flags ctx (set_arith_flags ctx cf vf sf zf af pf) a b c"
  using flags_are_arith [OF assms(1), of cf vf sf zf af pf]
  unfolding sub_flags_def cf vf sf zf af pf overflow_sub [OF assms(2) r] sint_negative
  by (simp add: r)

lemma wide_add:
  fixes a b :: "'a :: len word"
  assumes l: "LENGTH('a) < LENGTH('b :: len)" and c: "c \<le> 1"
  shows "unat (ucast a + ucast b + of_nat c :: 'b word) = unat a + unat b + c"
    and "ucast (ucast a + ucast b + of_nat c :: 'b word) = a + b + of_nat c"
proof -
  have "(2 :: nat) * 2 ^ LENGTH('a) \<le> 2 ^ LENGTH('b)"
    using l power_increasing [of "Suc LENGTH('a)" "LENGTH('b)" "2 :: nat"] by simp
  moreover have "unat a < 2 ^ LENGTH('a)" "unat b < 2 ^ LENGTH('a)" by (rule unsigned_less)+
  ultimately have s: "unat a + unat b + c < 2 ^ LENGTH('b)" and
    "unat a < 2 ^ LENGTH('b)" "unat b < 2 ^ LENGTH('b)" "c < 2 ^ LENGTH('b)" using c by linarith+
  then show "unat (ucast a + ucast b + of_nat c :: 'b word) = unat a + unat b + c"
    by (simp add: unat_word_ariths unat_of_nat unsigned_ucast_eq take_bit_nat_eq_self mod_simps)
  then show "ucast (ucast a + ucast b + of_nat c :: 'b word) = a + b + of_nat c"
    by (simp add: word_unat_eq_iff unsigned_ucast_eq unat_word_ariths unat_of_nat take_bit_eq_mod mod_simps)
qed

lemma ucast_down_add:
  "LENGTH('a) \<le> LENGTH('b) \<Longrightarrow> ucast (x + y :: 'b :: len word) = (ucast x + ucast y :: 'a :: len word)"
  by (simp add: word_unat_eq_iff unsigned_ucast_eq unat_word_ariths take_bit_eq_mod
      mod_mod_cancel le_imp_power_dvd mod_simps)

lemma wide_sub:
  fixes a b :: "'a :: len word"
  assumes l: "LENGTH('a) \<le> LENGTH('b :: len)"
  shows "ucast (ucast a - ucast b - of_nat c :: 'b word) = a - b - of_nat c"
proof -
  define r :: "'b word" where "r = ucast a - ucast b - of_nat c"
  have "ucast (r + ucast b + of_nat c) = (ucast (ucast a :: 'b word) :: 'a word)"
    by (simp add: r_def)
  moreover have "ucast (of_nat c :: 'b word) = (of_nat c :: 'a word)"
    using l by (simp add: word_unat_eq_iff unsigned_ucast_eq unat_of_nat take_bit_eq_mod
        mod_mod_cancel le_imp_power_dvd)
  ultimately have "ucast r + b + of_nat c = a"
    using l by (simp add: ucast_down_add ucast_up_ucast_id is_up_def source_size target_size)
  then have "ucast r = a - b - of_nat c" by (simp only: eq_diff_eq ac_simps)
  then show ?thesis by (simp only: r_def)
qed

lemma nibble_unat: "unat ((x :: 'a :: len word) AND 0x0F) = unat x mod 16"
proof -
  have "x AND 0x0F = take_bit 4 x" by (simp add: take_bit_eq_mask mask_eq_exp_minus_1)
  then show ?thesis by (simp only: unsigned_take_bit_eq) (simp add: take_bit_eq_mod)
qed
lemma top_bit_mask:
  "(w8 :: u8) AND 0x80 \<noteq> 0 \<longleftrightarrow> bit w8 7" "(w16 :: u16) AND 0x8000 \<noteq> 0 \<longleftrightarrow> bit w16 15"
  "(w32 :: u32) AND 0x80000000 \<noteq> 0 \<longleftrightarrow> bit w32 31"
  "(w64 :: u64) AND 0x8000000000000000 \<noteq> 0 \<longleftrightarrow> bit w64 63"
  using and_mask_bit [of 7 w8] and_mask_bit [of 15 w16] and_mask_bit [of 31 w32] and_mask_bit [of 63 w64]
  by simp_all

lemma adjust_bit_mask:
  "(w8 :: u8) AND 0x10 \<noteq> 0 \<longleftrightarrow> bit w8 4" "(w16 :: u16) AND 0x10 \<noteq> 0 \<longleftrightarrow> bit w16 4"
  "(w32 :: u32) AND 0x10 \<noteq> 0 \<longleftrightarrow> bit w32 4" "(w64 :: u64) AND 0x10 \<noteq> 0 \<longleftrightarrow> bit w64 4"
  using and_mask_bit [of 4 w8] and_mask_bit [of 4 w16] and_mask_bit [of 4 w32] and_mask_bit [of 4 w64]
  by simp_all

lemma low_parity_calc8: "calc_parity r = low_parity r"
  by (simp add: calc_parity_even low_parity_def)

lemma small_bit_4: "unat (x :: 'a :: len word) < 32 \<Longrightarrow> bit x 4 \<longleftrightarrow> 16 \<le> unat x"
proof -
  assume x: "unat x < 32"
  have "unat x div 16 < 2" using x by (simp add: div_less_iff_less_mult)
  then have "odd (unat x div 16) \<longleftrightarrow> 0 < unat x div 16"
    by (cases "unat x div 16") (auto simp: less_2_cases_iff)
  then show ?thesis by (simp add: bit_4_unat div_greater_zero_iff)
qed

lemma carry_64:
  fixes a b :: u64
  assumes "c \<le> 1"
  shows "a + b + of_nat c < a \<or> c \<noteq> 0 \<and> a + b + of_nat c = a \<longleftrightarrow> 2 ^ 64 \<le> unat a + unat b + c"
proof -
  have "unat (of_nat c :: u64) = c" using assms by (cases c) auto
  then have "unat (a + b + of_nat c) = (unat a + unat b + c) mod 2 ^ 64"
    by (simp add: unat_word_ariths mod_simps)
  moreover have "unat a < 2 ^ 64" "unat b < 2 ^ 64" by (rule unat64_less)+
  ultimately show ?thesis
    using assms unfolding word_less_nat_alt word_unat_eq_iff
    by (cases "unat a + unat b + c < 2 ^ 64") (auto simp: le_mod_geq not_less)
qed

lemma carry_le_1: "c = 0 \<or> c = 1 \<Longrightarrow> unat (c :: u8) \<le> 1"
  by auto

lemma update_flags_add8_spec:
  assumes "\<not> cpu_has_exception ctx"
  shows "add_flags ctx (update_flags_add8 ctx dst src (ucast dst + ucast src)) dst src 0"
  unfolding update_flags_add8_def Let_def and.assoc [symmetric] top_bit_mask adjust_bit_mask
  by (rule arith_flags_add [OF assms])
     (use wide_add [of 0 dst src, where 'b = 16] adjust_add [of dst src] in
        \<open>simp_all add: low_parity_calc8 word_less_nat_alt not_less less_eq_Suc_le\<close>)

lemma update_flags_sub8_spec:
  assumes "\<not> cpu_has_exception ctx"
  shows "sub_flags ctx (update_flags_sub8 ctx dst src (ucast dst - ucast src)) dst src 0"
  unfolding update_flags_sub8_def Let_def and.assoc [symmetric] top_bit_mask adjust_bit_mask
  by (rule arith_flags_sub [OF assms])
     (use wide_sub [where 'b = 16 and c = 0, of dst src] adjust_sub [of dst src] in
        \<open>simp_all add: low_parity_calc8 word_less_nat_alt\<close>)

lemma update_flags_add16_spec:
  assumes "\<not> cpu_has_exception ctx"
  shows "add_flags ctx (update_flags_add16 ctx dst src (ucast dst + ucast src)) dst src 0"
  unfolding update_flags_add16_def Let_def and.assoc [symmetric] top_bit_mask adjust_bit_mask
  by (rule arith_flags_add [OF assms])
     (use wide_add [of 0 dst src, where 'b = 32] adjust_add [of dst src] in
        \<open>simp_all add: low_parity_calc word_less_nat_alt not_less less_eq_Suc_le\<close>)

lemma update_flags_sub16_spec:
  assumes "\<not> cpu_has_exception ctx"
  shows "sub_flags ctx (update_flags_sub16 ctx dst src (ucast dst - ucast src)) dst src 0"
  unfolding update_flags_sub16_def Let_def and.assoc [symmetric] top_bit_mask adjust_bit_mask
  by (rule arith_flags_sub [OF assms])
     (use wide_sub [where 'b = 32 and c = 0, of dst src] adjust_sub [of dst src] in
        \<open>simp_all add: low_parity_calc word_less_nat_alt\<close>)

lemma update_flags_add32_spec:
  assumes "\<not> cpu_has_exception ctx"
  shows "add_flags ctx (update_flags_add32 ctx dst src (ucast dst + ucast src)) dst src 0"
  unfolding update_flags_add32_def Let_def and.assoc [symmetric] top_bit_mask adjust_bit_mask
  by (rule arith_flags_add [OF assms])
     (use wide_add [of 0 dst src, where 'b = 64] adjust_add [of dst src] in
        \<open>simp_all add: low_parity_calc word_less_nat_alt not_less less_eq_Suc_le\<close>)

lemma update_flags_sub32_spec:
  assumes "\<not> cpu_has_exception ctx"
  shows "sub_flags ctx (update_flags_sub32 ctx dst src (ucast dst - ucast src)) dst src 0"
  unfolding update_flags_sub32_def Let_def and.assoc [symmetric] top_bit_mask adjust_bit_mask
  by (rule arith_flags_sub [OF assms])
     (use wide_sub [where 'b = 64 and c = 0, of dst src] adjust_sub [of dst src] in
        \<open>simp_all add: low_parity_calc word_less_nat_alt\<close>)

lemma update_flags_add64_spec:
  assumes "\<not> cpu_has_exception ctx"
  shows "add_flags ctx (update_flags_add64 ctx dst src (dst + src)) dst src 0"
  unfolding update_flags_add64_def Let_def and.assoc [symmetric] top_bit_mask adjust_bit_mask
  by (rule arith_flags_add [OF assms])
     (use carry_64 [of 0 dst src] adjust_add [of dst src] in
        \<open>simp_all add: low_parity_calc word_less_nat_alt not_less less_eq_Suc_le\<close>)

lemma update_flags_sub64_spec:
  assumes "\<not> cpu_has_exception ctx"
  shows "sub_flags ctx (update_flags_sub64 ctx dst src (dst - src)) dst src 0"
  unfolding update_flags_sub64_def Let_def and.assoc [symmetric] top_bit_mask adjust_bit_mask
  by (rule arith_flags_sub [OF assms])
     (use adjust_sub [of dst src] in
        \<open>simp_all add: low_parity_calc word_less_nat_alt\<close>)

text \<open>Addition and subtraction with carry; the carry comes from the flag, so it is 0 or 1.\<close>

lemma nibble_sum:
  fixes a b :: "'a :: len word"
  assumes l: "8 \<le> LENGTH('b :: len)" "4 \<le> LENGTH('a)" and c: "unat (c :: u8) \<le> 1"
  shows "unat (ucast (a AND 0x0F) + ucast (b AND 0x0F) + ucast c :: 'b word) =
      unat a mod 16 + unat b mod 16 + unat c"
    and "unat (ucast (b AND 0x0F) + ucast c :: 'b word) = unat b mod 16 + unat c"
    and "unat (ucast (a AND 0x0F) :: 'b word) = unat a mod 16"
proof -
  have b: "(2 :: nat) ^ 8 \<le> 2 ^ LENGTH('b)" using l by (intro power_increasing) auto
  have n: "unat (ucast (x AND 0x0F) :: 'b word) = unat x mod 16" for x :: "'a word"
  proof -
    have "unat (x AND 0x0F) < 2 ^ LENGTH('b)"
      using b nibble_unat [of x] mod_less_divisor [of 16 "unat x"] by simp
    then show ?thesis by (simp add: unsigned_ucast_eq take_bit_nat_eq_self nibble_unat)
  qed
  have uc: "unat (ucast c :: 'b word) = unat c"
    using b c by (simp add: unsigned_ucast_eq take_bit_nat_eq_self)
  have "unat a mod 16 + unat b mod 16 + unat c < 2 ^ LENGTH('b)"
    using b c mod_less_divisor [of 16 "unat a"] mod_less_divisor [of 16 "unat b"] by simp
  then show "unat (ucast (a AND 0x0F) + ucast (b AND 0x0F) + ucast c :: 'b word) =
      unat a mod 16 + unat b mod 16 + unat c"
    "unat (ucast (b AND 0x0F) + ucast c :: 'b word) = unat b mod 16 + unat c"
    "unat (ucast (a AND 0x0F) :: 'b word) = unat a mod 16"
    by (simp_all add: unat_word_ariths n uc)
qed

lemma nibble_sum_bit:
  fixes a b :: "'a :: len word"
  assumes l: "8 \<le> LENGTH('b :: len)" "4 \<le> LENGTH('a)" and c: "unat (c :: u8) \<le> 1"
  shows "bit (ucast (a AND 0x0F) + ucast (b AND 0x0F) + ucast c :: 'b word) 4 \<longleftrightarrow>
    16 \<le> unat a mod 16 + unat b mod 16 + unat c"
  using nibble_sum(1) [OF l c, of a b] c mod_less_divisor [of 16 "unat a"]
    mod_less_divisor [of 16 "unat b"]
  by (subst small_bit_4) simp_all

lemma borrow_less:
  fixes dst src :: "'a :: len word"
  assumes "unat (c :: u8) \<le> 1"
  shows "dst < src \<or> c \<noteq> 0 \<and> dst = src \<longleftrightarrow> unat dst < unat src + unat c"
proof -
  have "c \<noteq> 0 \<longleftrightarrow> unat c \<noteq> 0" by (simp add: unat_eq_zero)
  then show ?thesis
    unfolding word_less_nat_alt word_unat_eq_iff [of dst src] using assms by linarith
qed

lemma update_flags_adc8_spec:
  assumes "\<not> cpu_has_exception ctx" "unat carry_in \<le> 1"
  shows "add_flags ctx (update_flags_adc8 ctx dst src carry_in (ucast dst + ucast src + ucast carry_in)) dst src (unat carry_in)"
  unfolding update_flags_adc8_def Let_def and.assoc [symmetric] top_bit_mask adjust_bit_mask
  by (rule arith_flags_add [OF assms])
     (use wide_add [OF _ assms(2), of dst src, where 'b = 16] nibble_sum_bit [where 'b = 32, OF _ _ assms(2), of dst src] in
        \<open>simp_all add: low_parity_calc8 word_less_nat_alt not_less less_eq_Suc_le unat_eq_zero\<close>)

lemma update_flags_sbb8_spec:
  assumes "\<not> cpu_has_exception ctx" "unat borrow_in \<le> 1"
  shows "sub_flags ctx (update_flags_sbb8 ctx dst src borrow_in (ucast dst - ucast src - ucast borrow_in)) dst src (unat borrow_in)"
  unfolding update_flags_sbb8_def Let_def and.assoc [symmetric] top_bit_mask adjust_bit_mask
    borrow_less [OF assms(2)]
  by (rule arith_flags_sub [OF assms])
     (use wide_sub [where 'b = 16 and c = "unat borrow_in", of dst src] nibble_sum(2) [where 'a = 8 and 'b = 32, OF _ _ assms(2), of src]
          nibble_sum(3) [where 'a = 8 and 'b = 32, OF _ _ assms(2), of dst] in
        \<open>simp_all add: low_parity_calc8 word_less_nat_alt\<close>)

lemma update_flags_adc16_spec:
  assumes "\<not> cpu_has_exception ctx" "unat carry_in \<le> 1"
  shows "add_flags ctx (update_flags_adc16 ctx dst src carry_in (ucast dst + ucast src + ucast carry_in)) dst src (unat carry_in)"
  unfolding update_flags_adc16_def Let_def and.assoc [symmetric] top_bit_mask adjust_bit_mask
  by (rule arith_flags_add [OF assms])
     (use wide_add [OF _ assms(2), of dst src, where 'b = 32] nibble_sum_bit [where 'b = 32, OF _ _ assms(2), of dst src] in
        \<open>simp_all add: low_parity_calc word_less_nat_alt not_less less_eq_Suc_le unat_eq_zero\<close>)

lemma update_flags_sbb16_spec:
  assumes "\<not> cpu_has_exception ctx" "unat borrow_in \<le> 1"
  shows "sub_flags ctx (update_flags_sbb16 ctx dst src borrow_in (ucast dst - ucast src - ucast borrow_in)) dst src (unat borrow_in)"
  unfolding update_flags_sbb16_def Let_def and.assoc [symmetric] top_bit_mask adjust_bit_mask
    borrow_less [OF assms(2)]
  by (rule arith_flags_sub [OF assms])
     (use wide_sub [where 'b = 32 and c = "unat borrow_in", of dst src] nibble_sum(2) [where 'a = 16 and 'b = 32, OF _ _ assms(2), of src]
          nibble_sum(3) [where 'a = 16 and 'b = 32, OF _ _ assms(2), of dst] in
        \<open>simp_all add: low_parity_calc word_less_nat_alt\<close>)

lemma update_flags_adc32_spec:
  assumes "\<not> cpu_has_exception ctx" "unat carry_in \<le> 1"
  shows "add_flags ctx (update_flags_adc32 ctx dst src carry_in (ucast dst + ucast src + ucast carry_in)) dst src (unat carry_in)"
  unfolding update_flags_adc32_def Let_def and.assoc [symmetric] top_bit_mask adjust_bit_mask
  by (rule arith_flags_add [OF assms])
     (use wide_add [OF _ assms(2), of dst src, where 'b = 64] nibble_sum_bit [where 'b = 32, OF _ _ assms(2), of dst src] in
        \<open>simp_all add: low_parity_calc word_less_nat_alt not_less less_eq_Suc_le unat_eq_zero\<close>)

lemma update_flags_sbb32_spec:
  assumes "\<not> cpu_has_exception ctx" "unat borrow_in \<le> 1"
  shows "sub_flags ctx (update_flags_sbb32 ctx dst src borrow_in (ucast dst - ucast src - ucast borrow_in)) dst src (unat borrow_in)"
  unfolding update_flags_sbb32_def Let_def and.assoc [symmetric] top_bit_mask adjust_bit_mask
    borrow_less [OF assms(2)]
  by (rule arith_flags_sub [OF assms])
     (use wide_sub [where 'b = 64 and c = "unat borrow_in", of dst src] nibble_sum(2) [where 'a = 32 and 'b = 32, OF _ _ assms(2), of src]
          nibble_sum(3) [where 'a = 32 and 'b = 32, OF _ _ assms(2), of dst] in
        \<open>simp_all add: low_parity_calc word_less_nat_alt\<close>)

lemma update_flags_adc64_spec:
  assumes "\<not> cpu_has_exception ctx" "unat carry_in \<le> 1"
  shows "add_flags ctx (update_flags_adc64 ctx dst src carry_in (dst + src + ucast carry_in)) dst src (unat carry_in)"
  unfolding update_flags_adc64_def Let_def and.assoc [symmetric] top_bit_mask adjust_bit_mask
  by (rule arith_flags_add [OF assms])
     (use carry_64 [OF assms(2), of dst src] nibble_sum_bit [where 'b = 64, OF _ _ assms(2), of dst src] in
        \<open>simp_all add: low_parity_calc word_less_nat_alt not_less less_eq_Suc_le unat_eq_zero\<close>)

lemma update_flags_sbb64_spec:
  assumes "\<not> cpu_has_exception ctx" "unat borrow_in \<le> 1"
  shows "sub_flags ctx (update_flags_sbb64 ctx dst src borrow_in (dst - src - ucast borrow_in)) dst src (unat borrow_in)"
  unfolding update_flags_sbb64_def Let_def and.assoc [symmetric] top_bit_mask adjust_bit_mask
    borrow_less [OF assms(2)]
  by (rule arith_flags_sub [OF assms])
     (use nibble_sum(2) [where 'a = 64 and 'b = 64, OF _ _ assms(2), of src]
          nibble_sum(3) [where 'a = 64 and 'b = 64, OF _ _ assms(2), of dst] in
        \<open>simp_all add: low_parity_calc word_less_nat_alt\<close>)

text \<open>Increment and decrement keep the carry; the logical operations clear it with the overflow.\<close>

lemma flags_are_keep_carry:
  assumes "\<not> cpu_has_exception ctx"
  shows "flags_are ctx (set_flag (set_arith_flags ctx cf' vf sf zf af pf) RFLAGS_CF cf) cf vf sf zf af pf"
proof -
  let ?c = "set_arith_flags ctx cf' vf sf zf af pf"
  obtain f where f: "?c = ctx\<lparr>rflags := f\<rparr>" using set_arith_flags_frame by blast
  have ne: "\<not> cpu_has_exception ?c" using assms by (simp add: f cpu_has_exception_def)
  have b: "bit (rflags (set_flag ?c RFLAGS_CF cf)) k =
     (if k = 0 then cf else bit (rflags ?c) k)" for k
    using set_flag_bit [OF ne, of 0] by (simp add: RFLAGS_CF_def del: bit_0)
  have "\<exists>g. set_flag ?c RFLAGS_CF cf = ctx\<lparr>rflags := g\<rparr>" by (rule set_flag_frame_step [OF f])
  then show ?thesis
    by (simp add: flags_are_def flag_set_bit b set_arith_flags_bit [OF assms] del: bit_0)
qed

lemma set_logic_flags_frame: "\<exists>f. set_logic_flags ctx cf vf sf zf pf = ctx\<lparr>rflags := f\<rparr>"
proof -
  define c1 where "c1 = set_flag ctx RFLAGS_CF cf"
  define c2 where "c2 = set_flag c1 RFLAGS_OF vf"
  define c3 where "c3 = set_flag c2 RFLAGS_SF sf"
  define c4 where "c4 = set_flag c3 RFLAGS_ZF zf"
  have "\<exists>f. c1 = ctx\<lparr>rflags := f\<rparr>" unfolding c1_def by (rule set_flag_frame)
  then have "\<exists>f. c2 = ctx\<lparr>rflags := f\<rparr>" unfolding c2_def by (blast intro: set_flag_frame_step)
  then have "\<exists>f. c3 = ctx\<lparr>rflags := f\<rparr>" unfolding c3_def by (blast intro: set_flag_frame_step)
  then have "\<exists>f. c4 = ctx\<lparr>rflags := f\<rparr>" unfolding c4_def by (blast intro: set_flag_frame_step)
  then show ?thesis
    unfolding set_logic_flags_def Let_def c4_def c3_def c2_def c1_def
    by (blast intro: set_flag_frame_step)
qed

lemma flags_are_logic:
  assumes "\<not> cpu_has_exception ctx"
  shows "flags_are ctx (set_logic_flags ctx cf vf sf zf pf) cf vf sf zf (flag_set ctx RFLAGS_AF) pf"
  using assms set_logic_flags_frame
  by (simp add: flags_are_def flag_set_bit set_logic_flags_bit del: bit_0)

definition inc_flags :: "CPU_CONTEXT \<Rightarrow> CPU_CONTEXT \<Rightarrow> 'a :: len word \<Rightarrow> bool" where
  "inc_flags ctx ctx' a =
     flags_are ctx ctx' (flag_set ctx RFLAGS_CF) (\<not> fits_signed LENGTH('a) (sint a + 1))
       (sint (a + 1) < 0) (a + 1 = 0) (16 \<le> unat a mod 16 + 1) (low_parity (a + 1))"

definition dec_flags :: "CPU_CONTEXT \<Rightarrow> CPU_CONTEXT \<Rightarrow> 'a :: len word \<Rightarrow> bool" where
  "dec_flags ctx ctx' a =
     flags_are ctx ctx' (flag_set ctx RFLAGS_CF) (\<not> fits_signed LENGTH('a) (sint a - 1))
       (sint (a - 1) < 0) (a - 1 = 0) (unat a mod 16 < 1) (low_parity (a - 1))"

definition logic_flags :: "CPU_CONTEXT \<Rightarrow> CPU_CONTEXT \<Rightarrow> 'a :: len word \<Rightarrow> bool" where
  "logic_flags ctx ctx' r =
     flags_are ctx ctx' False False (sint r < 0) (r = 0) (flag_set ctx RFLAGS_AF) (low_parity r)"

lemma sint_one: "1 < LENGTH('a) \<Longrightarrow> sint (1 :: 'a :: len word) = 1"
proof -
  assume "1 < LENGTH('a)"
  then have "(1 :: int) < 2 ^ (LENGTH('a) - Suc 0)" by (intro one_less_power) auto
  then have "\<not> (2 :: int) ^ (LENGTH('a) - Suc 0) \<le> 1" by linarith
  then show ?thesis by (simp add: sint_uint_top)
qed

lemma ucast_ucast_up:
  "LENGTH('a) \<le> LENGTH('b) \<Longrightarrow> ucast (ucast (x :: 'a :: len word) :: 'b :: len word) = x"
  by (simp add: ucast_up_ucast_id is_up_def source_size target_size)

lemma keep_carry_inc:
  fixes a :: "'a :: len word"
  assumes l: "8 \<le> LENGTH('a)" and ne: "\<not> cpu_has_exception ctx"
    and cf: "cf = flag_set ctx RFLAGS_CF"
    and vf: "vf = bit ((a XOR (a + 1)) AND (1 XOR (a + 1))) (LENGTH('a) - Suc 0)"
    and sf: "sf = bit (a + 1) (LENGTH('a) - Suc 0)" and zf: "zf = (a + 1 = 0)"
    and af: "af = bit (a XOR 1 XOR (a + 1)) 4" and pf: "pf = low_parity (a + 1)"
  shows "inc_flags ctx (set_flag (set_arith_flags ctx cf' vf sf zf af pf) RFLAGS_CF cf) a"
proof -
  have one: "unat (1 :: 'a word) = 1" "sint (1 :: 'a word) = 1" using l sint_one by simp_all
  have "vf = (\<not> fits_signed LENGTH('a) (sint a + 1))"
    unfolding vf using overflow_add [of 0 "a + 1" a 1] one by simp
  moreover have "af = (16 \<le> unat a mod 16 + 1)"
    unfolding af using adjust_add [of a 1] l one by simp
  ultimately show ?thesis
    using flags_are_keep_carry [OF ne, of cf' vf sf zf af pf cf]
    by (simp add: inc_flags_def sint_negative cf sf zf pf)
qed

lemma keep_carry_dec:
  fixes a :: "'a :: len word"
  assumes l: "8 \<le> LENGTH('a)" and ne: "\<not> cpu_has_exception ctx"
    and cf: "cf = flag_set ctx RFLAGS_CF"
    and vf: "vf = bit ((a XOR 1) AND (a XOR (a - 1))) (LENGTH('a) - Suc 0)"
    and sf: "sf = bit (a - 1) (LENGTH('a) - Suc 0)" and zf: "zf = (a - 1 = 0)"
    and af: "af = bit (a XOR 1 XOR (a - 1)) 4" and pf: "pf = low_parity (a - 1)"
  shows "dec_flags ctx (set_flag (set_arith_flags ctx cf' vf sf zf af pf) RFLAGS_CF cf) a"
proof -
  have one: "unat (1 :: 'a word) = 1" "sint (1 :: 'a word) = 1" using l sint_one by simp_all
  have "vf = (\<not> fits_signed LENGTH('a) (sint a - 1))"
    unfolding vf using overflow_sub [of 0 "a - 1" a 1] one by simp
  moreover have "af = (unat a mod 16 < 1)"
    unfolding af using adjust_sub [of a 1] l one by simp
  ultimately show ?thesis
    using flags_are_keep_carry [OF ne, of cf' vf sf zf af pf cf]
    by (simp add: dec_flags_def sint_negative cf sf zf pf)
qed

lemma update_flags_inc8_spec:
  "\<not> cpu_has_exception ctx \<Longrightarrow> inc_flags ctx (update_flags_inc8 ctx dst (dst + 1)) dst"
  unfolding update_flags_inc8_def update_flags_add8_def Let_def and.assoc [symmetric] top_bit_mask
    adjust_bit_mask
  by (rule keep_carry_inc) (simp_all add: flag_set_def ucast_ucast_up low_parity_calc8)

lemma update_flags_dec8_spec:
  "\<not> cpu_has_exception ctx \<Longrightarrow> dec_flags ctx (update_flags_dec8 ctx dst (dst - 1)) dst"
  unfolding update_flags_dec8_def update_flags_sub8_def Let_def and.assoc [symmetric] top_bit_mask
    adjust_bit_mask
  by (rule keep_carry_dec) (simp_all add: flag_set_def ucast_ucast_up low_parity_calc8)

lemma update_flags_inc16_spec:
  "\<not> cpu_has_exception ctx \<Longrightarrow> inc_flags ctx (update_flags_inc16 ctx dst (dst + 1)) dst"
  unfolding update_flags_inc16_def update_flags_add16_def Let_def and.assoc [symmetric] top_bit_mask
    adjust_bit_mask
  by (rule keep_carry_inc) (simp_all add: flag_set_def ucast_ucast_up low_parity_calc)

lemma update_flags_dec16_spec:
  "\<not> cpu_has_exception ctx \<Longrightarrow> dec_flags ctx (update_flags_dec16 ctx dst (dst - 1)) dst"
  unfolding update_flags_dec16_def update_flags_sub16_def Let_def and.assoc [symmetric] top_bit_mask
    adjust_bit_mask
  by (rule keep_carry_dec) (simp_all add: flag_set_def ucast_ucast_up low_parity_calc)

lemma update_flags_inc32_spec:
  "\<not> cpu_has_exception ctx \<Longrightarrow> inc_flags ctx (update_flags_inc32 ctx dst (dst + 1)) dst"
  unfolding update_flags_inc32_def update_flags_add32_def Let_def and.assoc [symmetric] top_bit_mask
    adjust_bit_mask
  by (rule keep_carry_inc) (simp_all add: flag_set_def ucast_ucast_up low_parity_calc)

lemma update_flags_dec32_spec:
  "\<not> cpu_has_exception ctx \<Longrightarrow> dec_flags ctx (update_flags_dec32 ctx dst (dst - 1)) dst"
  unfolding update_flags_dec32_def update_flags_sub32_def Let_def and.assoc [symmetric] top_bit_mask
    adjust_bit_mask
  by (rule keep_carry_dec) (simp_all add: flag_set_def ucast_ucast_up low_parity_calc)

lemma update_flags_inc64_spec:
  "\<not> cpu_has_exception ctx \<Longrightarrow> inc_flags ctx (update_flags_inc64 ctx dst (dst + 1)) dst"
  unfolding update_flags_inc64_def update_flags_add64_def Let_def and.assoc [symmetric] top_bit_mask
    adjust_bit_mask
  by (rule keep_carry_inc) (simp_all add: flag_set_def ucast_ucast_up low_parity_calc)

lemma update_flags_dec64_spec:
  "\<not> cpu_has_exception ctx \<Longrightarrow> dec_flags ctx (update_flags_dec64 ctx dst (dst - 1)) dst"
  unfolding update_flags_dec64_def update_flags_sub64_def Let_def and.assoc [symmetric] top_bit_mask
    adjust_bit_mask
  by (rule keep_carry_dec) (simp_all add: flag_set_def ucast_ucast_up low_parity_calc)

lemma update_flags_test8_spec:
  "\<not> cpu_has_exception ctx \<Longrightarrow> logic_flags ctx (update_flags_test8 ctx result) result"
  by (drule flags_are_logic) (simp add: logic_flags_def sint_negative update_flags_test8_def top_bit_mask low_parity_calc8)

lemma update_flags_and8_spec:
  "\<not> cpu_has_exception ctx \<Longrightarrow> logic_flags ctx (update_flags_and8 ctx result) result"
  by (drule flags_are_logic) (simp add: logic_flags_def sint_negative update_flags_and8_def top_bit_mask low_parity_calc8)

lemma update_flags_or8_spec:
  "\<not> cpu_has_exception ctx \<Longrightarrow> logic_flags ctx (update_flags_or8 ctx result) result"
  by (drule flags_are_logic) (simp add: logic_flags_def sint_negative update_flags_or8_def update_flags_and8_def top_bit_mask low_parity_calc8)

lemma update_flags_xor8_spec:
  "\<not> cpu_has_exception ctx \<Longrightarrow> logic_flags ctx (update_flags_xor8 ctx result) result"
  by (drule flags_are_logic) (simp add: logic_flags_def sint_negative update_flags_xor8_def update_flags_and8_def top_bit_mask low_parity_calc8)

lemma update_flags_test16_spec:
  "\<not> cpu_has_exception ctx \<Longrightarrow> logic_flags ctx (update_flags_test16 ctx result) result"
  by (drule flags_are_logic) (simp add: logic_flags_def sint_negative update_flags_test16_def top_bit_mask low_parity_calc)

lemma update_flags_and16_spec:
  "\<not> cpu_has_exception ctx \<Longrightarrow> logic_flags ctx (update_flags_and16 ctx result) result"
  by (drule flags_are_logic) (simp add: logic_flags_def sint_negative update_flags_and16_def top_bit_mask low_parity_calc)

lemma update_flags_or16_spec:
  "\<not> cpu_has_exception ctx \<Longrightarrow> logic_flags ctx (update_flags_or16 ctx result) result"
  by (drule flags_are_logic) (simp add: logic_flags_def sint_negative update_flags_or16_def update_flags_and16_def top_bit_mask low_parity_calc)

lemma update_flags_xor16_spec:
  "\<not> cpu_has_exception ctx \<Longrightarrow> logic_flags ctx (update_flags_xor16 ctx result) result"
  by (drule flags_are_logic) (simp add: logic_flags_def sint_negative update_flags_xor16_def update_flags_and16_def top_bit_mask low_parity_calc)

lemma update_flags_test32_spec:
  "\<not> cpu_has_exception ctx \<Longrightarrow> logic_flags ctx (update_flags_test32 ctx result) result"
  by (drule flags_are_logic) (simp add: logic_flags_def sint_negative update_flags_test32_def top_bit_mask low_parity_calc)

lemma update_flags_and32_spec:
  "\<not> cpu_has_exception ctx \<Longrightarrow> logic_flags ctx (update_flags_and32 ctx result) result"
  by (drule flags_are_logic) (simp add: logic_flags_def sint_negative update_flags_and32_def top_bit_mask low_parity_calc)

lemma update_flags_or32_spec:
  "\<not> cpu_has_exception ctx \<Longrightarrow> logic_flags ctx (update_flags_or32 ctx result) result"
  by (drule flags_are_logic) (simp add: logic_flags_def sint_negative update_flags_or32_def update_flags_and32_def top_bit_mask low_parity_calc)

lemma update_flags_xor32_spec:
  "\<not> cpu_has_exception ctx \<Longrightarrow> logic_flags ctx (update_flags_xor32 ctx result) result"
  by (drule flags_are_logic) (simp add: logic_flags_def sint_negative update_flags_xor32_def update_flags_and32_def top_bit_mask low_parity_calc)

lemma update_flags_test64_spec:
  "\<not> cpu_has_exception ctx \<Longrightarrow> logic_flags ctx (update_flags_test64 ctx result) result"
  by (drule flags_are_logic) (simp add: logic_flags_def sint_negative update_flags_test64_def top_bit_mask low_parity_calc)

lemma update_flags_and64_spec:
  "\<not> cpu_has_exception ctx \<Longrightarrow> logic_flags ctx (update_flags_and64 ctx result) result"
  by (drule flags_are_logic) (simp add: logic_flags_def sint_negative update_flags_and64_def top_bit_mask low_parity_calc)

lemma update_flags_or64_spec:
  "\<not> cpu_has_exception ctx \<Longrightarrow> logic_flags ctx (update_flags_or64 ctx result) result"
  by (drule flags_are_logic) (simp add: logic_flags_def sint_negative update_flags_or64_def update_flags_and64_def top_bit_mask low_parity_calc)

lemma update_flags_xor64_spec:
  "\<not> cpu_has_exception ctx \<Longrightarrow> logic_flags ctx (update_flags_xor64 ctx result) result"
  by (drule flags_are_logic) (simp add: logic_flags_def sint_negative update_flags_xor64_def update_flags_and64_def top_bit_mask low_parity_calc)

end
