(* ===== verification/InstCache.thy ===== *)
theory InstCache
  imports Calc
begin

text \<open>
  Pre-decoded instructions and their direct-mapped cache (\<^verbatim>\<open>cpu/decoded.hpp\<close>,
  \<^verbatim>\<open>cpu/inst_cache.hpp\<close>). A handler is a function pointer, so a 64-bit number (0 for \<^verbatim>\<open>NULL\<close>).
  The cache is a function from the slot number, absent when its block could not be allocated. A
  hit needs the address, the memory manager's code version and the mode bits of the entry to
  agree; the theory shows that a committed entry is found again exactly as long as the three stay
  as they were, that empty slots never hit, and that the lazily cached mode key is the
  computed one as long as every writer of the mode bits resets it.
\<close>

unbundle bit_operations_syntax

subsection \<open>Decoded instructions\<close>

definition DECODED_INST_MAX_BYTES :: nat where [cpu_defs]: "DECODED_INST_MAX_BYTES = 15"

definition DECODED_FLAG_BRANCH :: u16 where [cpu_defs]: "DECODED_FLAG_BRANCH = push_bit 0 1"
definition DECODED_FLAG_TOUCHES_VECTOR :: u16 where [cpu_defs]: "DECODED_FLAG_TOUCHES_VECTOR = push_bit 1 1"
definition DECODED_FLAG_INLINE_RET :: u16 where [cpu_defs]: "DECODED_FLAG_INLINE_RET = push_bit 2 1"
definition DECODED_FLAG_UD :: u16 where [cpu_defs]: "DECODED_FLAG_UD = push_bit 3 1"
definition DECODED_FLAG_BP :: u16 where [cpu_defs]: "DECODED_FLAG_BP = push_bit 4 1"
definition DECODED_FLAG_NO_FAULT :: u16 where [cpu_defs]: "DECODED_FLAG_NO_FAULT = push_bit 5 1"
definition DECODED_FLAG_KNOWN_NOT_ESCAPE :: u16 where [cpu_defs]: "DECODED_FLAG_KNOWN_NOT_ESCAPE = push_bit 6 1"
definition DECODED_FLAG_PARTIAL_PROGRESS :: u16 where [cpu_defs]: "DECODED_FLAG_PARTIAL_PROGRESS = push_bit 7 1"
definition DECODED_FLAG_DB :: u16 where [cpu_defs]: "DECODED_FLAG_DB = push_bit 8 1"

datatype DecodedInlineKind =
  DECODED_INLINE_NONE | DECODED_INLINE_RET_NEAR_NO_IMM | DECODED_INLINE_RET_NEAR_IMM16 |
  DECODED_INLINE_JCC_SHORT_LONGMODE | DECODED_INLINE_JCC_NEAR_LONGMODE

record DecodedPrefixState =
  px_rex_present :: u8
  px_rex_w :: u8
  px_rex_r :: u8
  px_rex_x :: u8
  px_rex_b :: u8
  px_operand_size_override :: u8
  px_address_size_override :: u8

record DecodedInst =
  dc_handler :: u64
  dc_fast_handler :: u64
  dc_flags :: u16
  dc_length :: u8
  dc_inline_kind :: DecodedInlineKind
  dc_bytes :: "nat \<Rightarrow> u8"
  dc_byte_count :: u8
  dc_inline_imm16 :: u16
  dc_near_ret_prefix_len :: u8
  dc_near_ret_op_size :: u8
  dc_segment_override :: "8 word"
  dc_inline_jcc_disp :: "8 word"
  dc_inline_jcc_cond :: u8
  dc_inline_jcc_disp32 :: "32 word"
  dc_cached :: DecodedInstruction
  dc_prefix :: DecodedPrefixState

definition zero_decoded_instruction :: DecodedInstruction where
  "zero_decoded_instruction =
     \<lparr>di_opcode = 0, di_mandatory_prefix = 0, di_modrm = 0, di_sib = 0, di_displacement = 0,
      di_immediate = 0, di_mem_address = 0, di_operand_size = 0, di_address_size = 0,
      di_has_modrm = False, di_has_sib = False, di_has_lock_prefix = False, di_disp_size = 0,
      di_imm_size = 0, di_inst_size = 0\<rparr>"

definition zero_prefix_state :: DecodedPrefixState where
  "zero_prefix_state =
     \<lparr>px_rex_present = 0, px_rex_w = 0, px_rex_r = 0, px_rex_x = 0, px_rex_b = 0,
      px_operand_size_override = 0, px_address_size_override = 0\<rparr>"

text \<open>\<^verbatim>\<open>decoded_inst_clear\<close> zeroes the whole record.\<close>

definition decoded_inst_clear :: DecodedInst where
  "decoded_inst_clear =
     \<lparr>dc_handler = 0, dc_fast_handler = 0, dc_flags = 0, dc_length = 0,
      dc_inline_kind = DECODED_INLINE_NONE, dc_bytes = (\<lambda>_. 0), dc_byte_count = 0,
      dc_inline_imm16 = 0, dc_near_ret_prefix_len = 0, dc_near_ret_op_size = 0,
      dc_segment_override = 0, dc_inline_jcc_disp = 0, dc_inline_jcc_cond = 0,
      dc_inline_jcc_disp32 = 0, dc_cached = zero_decoded_instruction,
      dc_prefix = zero_prefix_state\<rparr>"

definition decoded_inst_apply_prefix :: "CPU_CONTEXT \<Rightarrow> DecodedInst \<Rightarrow> CPU_CONTEXT" where
  "decoded_inst_apply_prefix ctx dec =
     ctx\<lparr>rex_present := (px_rex_present (dc_prefix dec) \<noteq> 0),
         rex_w := (px_rex_w (dc_prefix dec) \<noteq> 0), rex_r := (px_rex_r (dc_prefix dec) \<noteq> 0),
         rex_x := (px_rex_x (dc_prefix dec) \<noteq> 0), rex_b := (px_rex_b (dc_prefix dec) \<noteq> 0),
         operand_size_override := (px_operand_size_override (dc_prefix dec) \<noteq> 0),
         address_size_override := (px_address_size_override (dc_prefix dec) \<noteq> 0)\<rparr>"

definition decoded_inst_needs_mem_recompute :: "DecodedInstruction \<Rightarrow> bool" where
  "decoded_inst_needs_mem_recompute cached \<longleftrightarrow>
     di_has_modrm cached \<and> drop_bit 6 (di_modrm cached) AND 0x03 \<noteq> 3"

record DecoderCtxScratch =
  sc_rex_present :: bool
  sc_rex_w :: bool
  sc_rex_r :: bool
  sc_rex_x :: bool
  sc_rex_b :: bool
  sc_operand_size_override :: bool
  sc_address_size_override :: bool
  sc_segment_override :: int
  sc_last_inst_size :: int
  sc_exception :: CPU_EXCEPTION_STATE

definition decoder_save_ctx_scratch :: "CPU_CONTEXT \<Rightarrow> DecoderCtxScratch" where
  "decoder_save_ctx_scratch ctx =
     \<lparr>sc_rex_present = rex_present ctx, sc_rex_w = rex_w ctx, sc_rex_r = rex_r ctx,
      sc_rex_x = rex_x ctx, sc_rex_b = rex_b ctx,
      sc_operand_size_override = operand_size_override ctx,
      sc_address_size_override = address_size_override ctx,
      sc_segment_override = segment_override ctx, sc_last_inst_size = last_inst_size ctx,
      sc_exception = exception_state ctx\<rparr>"

definition decoder_restore_ctx_scratch :: "CPU_CONTEXT \<Rightarrow> DecoderCtxScratch \<Rightarrow> CPU_CONTEXT" where
  "decoder_restore_ctx_scratch ctx inp =
     ctx\<lparr>rex_present := sc_rex_present inp, rex_w := sc_rex_w inp, rex_r := sc_rex_r inp,
         rex_x := sc_rex_x inp, rex_b := sc_rex_b inp,
         operand_size_override := sc_operand_size_override inp,
         address_size_override := sc_address_size_override inp,
         segment_override := sc_segment_override inp, last_inst_size := sc_last_inst_size inp,
         exception_state := sc_exception inp\<rparr>"

definition decoded_inst_capture_prefix_from_ctx :: "DecodedInst \<Rightarrow> CPU_CONTEXT \<Rightarrow> DecodedInst" where
  "decoded_inst_capture_prefix_from_ctx dec ctx =
     dec\<lparr>dc_prefix :=
       \<lparr>px_rex_present = (if rex_present ctx then 1 else 0), px_rex_w = (if rex_w ctx then 1 else 0),
        px_rex_r = (if rex_r ctx then 1 else 0), px_rex_x = (if rex_x ctx then 1 else 0),
        px_rex_b = (if rex_b ctx then 1 else 0),
        px_operand_size_override = (if operand_size_override ctx then 1 else 0),
        px_address_size_override = (if address_size_override ctx then 1 else 0)\<rparr>\<rparr>"

subsection \<open>The mode key\<close>

definition INST_CACHE_MODE_LONG_MODE_ACTIVE :: u8 where [cpu_defs]: "INST_CACHE_MODE_LONG_MODE_ACTIVE = 1"
definition INST_CACHE_MODE_CS_LONG_MODE :: u8 where [cpu_defs]: "INST_CACHE_MODE_CS_LONG_MODE = 2"
definition INST_CACHE_MODE_CS_DB :: u8 where [cpu_defs]: "INST_CACHE_MODE_CS_DB = 4"

definition cpu_inst_cache_compute_mode_key_bits :: "CPU_CONTEXT \<Rightarrow> u8" where
  "cpu_inst_cache_compute_mode_key_bits ctx =
     (let bits = 0;
          bits = (if long_mode_active ctx then bits OR INST_CACHE_MODE_LONG_MODE_ACTIVE else bits);
          bits = (if sd_long_mode (sr_descriptor (cs ctx))
                  then bits OR INST_CACHE_MODE_CS_LONG_MODE else bits)
      in if sd_db (sr_descriptor (cs ctx)) then bits OR INST_CACHE_MODE_CS_DB else bits)"

definition cpu_inst_cache_mode_key :: "CPU_CONTEXT \<Rightarrow> u8 \<times> CPU_CONTEXT" where
  "cpu_inst_cache_mode_key ctx =
     (if cached_mode_key_valid ctx then (cached_mode_key_bits ctx, ctx)
      else
        let bits = cpu_inst_cache_compute_mode_key_bits ctx
        in (bits, ctx\<lparr>cached_mode_key_bits := bits, cached_mode_key_valid := True\<rparr>))"

definition cpu_inst_cache_mode_key_const :: "CPU_CONTEXT \<Rightarrow> u8" where
  "cpu_inst_cache_mode_key_const ctx = cpu_inst_cache_compute_mode_key_bits ctx"

definition cpu_invalidate_mode_key_cache :: "CPU_CONTEXT \<Rightarrow> CPU_CONTEXT" where
  "cpu_invalidate_mode_key_cache ctx = ctx\<lparr>cached_mode_key_valid := False\<rparr>"

subsection \<open>The cache\<close>

definition CPU_INST_CACHE_SIZE :: u64 where [cpu_defs]: "CPU_INST_CACHE_SIZE = push_bit 15 1"
definition CPU_INST_CACHE_MASK :: u64 where [cpu_defs]: "CPU_INST_CACHE_MASK = CPU_INST_CACHE_SIZE - 1"

record InstCacheEntry =
  ce_tag :: u64
  ce_version :: u64
  ce_mode :: u8
  ce_decoded :: DecodedInst

text \<open>\<open>ic_block\<close> is the host address of the slots.\<close>

record InstCache =
  ic_block :: u64
  ic_slots :: "(nat \<Rightarrow> InstCacheEntry) option"

definition empty_cache_entry :: InstCacheEntry where
  "empty_cache_entry =
     \<lparr>ce_tag = 0, ce_version = 0, ce_mode = 0, ce_decoded = decoded_inst_clear\<rparr>"

definition cpu_inst_cache_index :: "u64 \<Rightarrow> nat" where
  "cpu_inst_cache_index r =
     (let mixed = r XOR drop_bit 13 r XOR drop_bit 27 r in unat (mixed AND CPU_INST_CACHE_MASK))"

definition sizeof_InstCacheEntry :: u64 where "sizeof_InstCacheEntry = 128"

definition cpu_inst_cache_init :: "host \<Rightarrow> InstCache \<times> host" where
  "cpu_inst_cache_init h =
     (case CPUEAXH_ALLOC_ZEROED h (sizeof_InstCacheEntry * CPU_INST_CACHE_SIZE) of
        (p, h1) \<Rightarrow> (\<lparr>ic_block = p, ic_slots = (if p = 0 then None else Some (\<lambda>_. empty_cache_entry))\<rparr>, h1))"

definition cpu_inst_cache_destroy :: "host \<Rightarrow> InstCache \<Rightarrow> InstCache \<times> host" where
  "cpu_inst_cache_destroy h cache =
     (case ic_slots cache of
        None \<Rightarrow> (cache, h)
      | Some _ \<Rightarrow> (\<lparr>ic_block = 0, ic_slots = None\<rparr>, CPUEAXH_FREE h (ic_block cache)))"

definition cpu_inst_cache_flush :: "InstCache \<Rightarrow> InstCache" where
  "cpu_inst_cache_flush cache =
     (case ic_slots cache of
        None \<Rightarrow> cache
      | Some _ \<Rightarrow> cache\<lparr>ic_slots := Some (\<lambda>_. empty_cache_entry)\<rparr>)"

definition cpu_inst_cache_lookup ::
  "InstCache \<Rightarrow> MEMORY_MANAGER \<Rightarrow> u64 \<Rightarrow> u8 \<Rightarrow> InstCacheEntry option" where
  "cpu_inst_cache_lookup cache mgr r mode =
     (case ic_slots cache of
        None \<Rightarrow> None
      | Some slots \<Rightarrow>
          let slot = slots (cpu_inst_cache_index r)
          in if ce_tag slot \<noteq> r \<or> ce_version slot \<noteq> code_version mgr \<or> ce_mode slot \<noteq> mode
             then None else Some slot)"

text \<open>
  \<^verbatim>\<open>cpu_inst_cache_reserve\<close> returns the slot of the address; the caller fills in its decoded
  instruction and \<^verbatim>\<open>cpu_inst_cache_commit\<close> stamps it. Writing a slot is the update of the
  slot function.
\<close>

definition cpu_inst_cache_reserve :: "InstCache \<Rightarrow> u64 \<Rightarrow> InstCacheEntry option" where
  "cpu_inst_cache_reserve cache r =
     map_option (\<lambda>slots. slots (cpu_inst_cache_index r)) (ic_slots cache)"

definition inst_cache_store :: "InstCache \<Rightarrow> u64 \<Rightarrow> InstCacheEntry \<Rightarrow> InstCache" where
  "inst_cache_store cache r slot =
     cache\<lparr>ic_slots := map_option (\<lambda>slots. slots(cpu_inst_cache_index r := slot)) (ic_slots cache)\<rparr>"

definition cpu_inst_cache_commit ::
  "InstCacheEntry \<Rightarrow> MEMORY_MANAGER \<Rightarrow> u64 \<Rightarrow> u8 \<Rightarrow> InstCacheEntry" where
  "cpu_inst_cache_commit slot mgr r mode =
     slot\<lparr>ce_tag := r, ce_version := code_version mgr, ce_mode := mode\<rparr>"

subsection \<open>Properties\<close>

text \<open>A slot filled in and committed for an address is what the next lookup of that address finds.\<close>

lemma cpu_inst_cache_commit_lookup:
  assumes "ic_slots cache \<noteq> None"
  shows "cpu_inst_cache_lookup (inst_cache_store cache r (cpu_inst_cache_commit slot mgr r mode)) mgr r mode =
    Some (cpu_inst_cache_commit slot mgr r mode)"
  using assms
  by (auto simp: cpu_inst_cache_lookup_def inst_cache_store_def cpu_inst_cache_commit_def Let_def)

text \<open>Bumping the code version is a change, even when the counter goes round.\<close>

lemma mm_bump_changes: "code_version (mm_bump_code_version m) \<noteq> code_version m"
proof -
  have "code_version m + 1 \<noteq> code_version m" by simp
  moreover have "code_version m \<noteq> 1" if "code_version m + 1 = 0"
  proof
    assume "code_version m = 1"
    with that show False by simp
  qed
  ultimately show ?thesis by (auto simp: mm_bump_code_version_def Let_def)
qed

lemma mm_bump_nonzero: "code_version (mm_bump_code_version m) \<noteq> 0"
  by (simp add: mm_bump_code_version_def Let_def)

text \<open>
  All entries of a cache carry a non-zero code version only by commit, so with a manager whose
  version is never zero an empty slot does not hit, not even for address 0.
\<close>

lemma empty_slot_misses:
  assumes "ic_slots cache = Some slots" "slots (cpu_inst_cache_index r) = empty_cache_entry"
    and "code_version mgr \<noteq> 0"
  shows "cpu_inst_cache_lookup cache mgr r mode = None"
  using assms by (simp add: cpu_inst_cache_lookup_def empty_cache_entry_def Let_def)

definition mode_key_ok :: "CPU_CONTEXT \<Rightarrow> bool" where
  "mode_key_ok ctx \<longleftrightarrow>
     (cached_mode_key_valid ctx \<longrightarrow> cached_mode_key_bits ctx = cpu_inst_cache_compute_mode_key_bits ctx)"

lemma cpu_inst_cache_mode_key_computed:
  assumes "mode_key_ok ctx" and "cpu_inst_cache_mode_key ctx = (bits, ctx')"
  shows "bits = cpu_inst_cache_compute_mode_key_bits ctx" and "mode_key_ok ctx'"
    and "ctx' = ctx\<lparr>cached_mode_key_bits := bits, cached_mode_key_valid := True\<rparr>"
  using assms
  by (auto simp: cpu_inst_cache_mode_key_def mode_key_ok_def Let_def
      cpu_inst_cache_compute_mode_key_bits_def split: if_splits)

lemma decoded_prefix_roundtrip:
  "decoded_inst_apply_prefix ctx' (decoded_inst_capture_prefix_from_ctx dec ctx) =
   ctx'\<lparr>rex_present := rex_present ctx, rex_w := rex_w ctx, rex_r := rex_r ctx,
       rex_x := rex_x ctx, rex_b := rex_b ctx,
       operand_size_override := operand_size_override ctx,
       address_size_override := address_size_override ctx\<rparr>"
  by (simp add: decoded_inst_apply_prefix_def decoded_inst_capture_prefix_from_ctx_def)

end
