(* ===== verification/Engine.thy ===== *)
theory Engine
  imports InstCache
begin

text \<open>
  The engine object and its hook and escape tables (\<^verbatim>\<open>cpueaxh.cpp\<close>). The engine owns the memory
  manager, the CPU context, the instruction cache, a fixed table of 64 hooks with a count per hook
  type, and a growing array of escape entries with an index by instruction id. The host process
  it runs in is a field of the record, so that every operation passes one state.

  Callbacks are code of the embedding program: a hook entry stores a function pointer, and the
  record \<open>callbacks\<close>, an argument of every definition that calls one, gives what the pointer
  does to the engine. A callback may change anything in the engine.

  The theory shows that the type counts are the numbers of registered hooks, that adding and
  deleting a hook keep this, that dispatching code hooks with the early exit is the plain loop
  over the table, and that the escape index finds exactly the registered entry.
\<close>

unbundle bit_operations_syntax

subsection \<open>Constants\<close>

definition CPUEAXH_MAX_HOOKS :: nat where [cpu_defs]: "CPUEAXH_MAX_HOOKS = 64"

definition CPUEAXH_HOOK_CODE_PRE :: u32 where [cpu_defs]: "CPUEAXH_HOOK_CODE_PRE = 1"
definition CPUEAXH_HOOK_CODE_POST :: u32 where [cpu_defs]: "CPUEAXH_HOOK_CODE_POST = 2"
definition CPUEAXH_HOOK_MEM_READ :: u32 where [cpu_defs]: "CPUEAXH_HOOK_MEM_READ = 3"
definition CPUEAXH_HOOK_MEM_WRITE :: u32 where [cpu_defs]: "CPUEAXH_HOOK_MEM_WRITE = 4"
definition CPUEAXH_HOOK_MEM_FETCH :: u32 where [cpu_defs]: "CPUEAXH_HOOK_MEM_FETCH = 5"
definition CPUEAXH_HOOK_MEM_READ_UNMAPPED :: u32 where [cpu_defs]: "CPUEAXH_HOOK_MEM_READ_UNMAPPED = 6"
definition CPUEAXH_HOOK_MEM_WRITE_UNMAPPED :: u32 where [cpu_defs]: "CPUEAXH_HOOK_MEM_WRITE_UNMAPPED = 7"
definition CPUEAXH_HOOK_MEM_FETCH_UNMAPPED :: u32 where [cpu_defs]: "CPUEAXH_HOOK_MEM_FETCH_UNMAPPED = 8"
definition CPUEAXH_HOOK_MEM_READ_PROT :: u32 where [cpu_defs]: "CPUEAXH_HOOK_MEM_READ_PROT = 9"
definition CPUEAXH_HOOK_MEM_WRITE_PROT :: u32 where [cpu_defs]: "CPUEAXH_HOOK_MEM_WRITE_PROT = 10"
definition CPUEAXH_HOOK_MEM_FETCH_PROT :: u32 where [cpu_defs]: "CPUEAXH_HOOK_MEM_FETCH_PROT = 11"

definition CPUEAXH_ERR_OK :: int where [cpu_defs]: "CPUEAXH_ERR_OK = 0"
definition CPUEAXH_ERR_NOMEM :: int where [cpu_defs]: "CPUEAXH_ERR_NOMEM = 1"
definition CPUEAXH_ERR_ARG :: int where [cpu_defs]: "CPUEAXH_ERR_ARG = 2"
definition CPUEAXH_ERR_ARCH :: int where [cpu_defs]: "CPUEAXH_ERR_ARCH = 3"
definition CPUEAXH_ERR_MODE :: int where [cpu_defs]: "CPUEAXH_ERR_MODE = 4"
definition CPUEAXH_ERR_MAP :: int where [cpu_defs]: "CPUEAXH_ERR_MAP = 5"
definition CPUEAXH_ERR_READ_UNMAPPED :: int where [cpu_defs]: "CPUEAXH_ERR_READ_UNMAPPED = 6"
definition CPUEAXH_ERR_WRITE_UNMAPPED :: int where [cpu_defs]: "CPUEAXH_ERR_WRITE_UNMAPPED = 7"
definition CPUEAXH_ERR_FETCH_UNMAPPED :: int where [cpu_defs]: "CPUEAXH_ERR_FETCH_UNMAPPED = 8"
definition CPUEAXH_ERR_EXCEPTION :: int where [cpu_defs]: "CPUEAXH_ERR_EXCEPTION = 9"
definition CPUEAXH_ERR_HOOK :: int where [cpu_defs]: "CPUEAXH_ERR_HOOK = 10"
definition CPUEAXH_ERR_READ_PROT :: int where [cpu_defs]: "CPUEAXH_ERR_READ_PROT = 11"
definition CPUEAXH_ERR_WRITE_PROT :: int where [cpu_defs]: "CPUEAXH_ERR_WRITE_PROT = 12"
definition CPUEAXH_ERR_FETCH_PROT :: int where [cpu_defs]: "CPUEAXH_ERR_FETCH_PROT = 13"
definition CPUEAXH_ERR_PATCH :: int where [cpu_defs]: "CPUEAXH_ERR_PATCH = 14"

definition CPUEAXH_ESCAPE_INSN_NONE :: u32 where [cpu_defs]: "CPUEAXH_ESCAPE_INSN_NONE = 0"
definition CPUEAXH_ESCAPE_INSN_SYSCALL :: u32 where [cpu_defs]: "CPUEAXH_ESCAPE_INSN_SYSCALL = 1"
definition CPUEAXH_ESCAPE_INSN_SYSENTER :: u32 where [cpu_defs]: "CPUEAXH_ESCAPE_INSN_SYSENTER = 2"
definition CPUEAXH_ESCAPE_INSN_INT :: u32 where [cpu_defs]: "CPUEAXH_ESCAPE_INSN_INT = 3"
definition CPUEAXH_ESCAPE_INSN_INT3 :: u32 where [cpu_defs]: "CPUEAXH_ESCAPE_INSN_INT3 = 4"
definition CPUEAXH_ESCAPE_INSN_CPUID :: u32 where [cpu_defs]: "CPUEAXH_ESCAPE_INSN_CPUID = 5"
definition CPUEAXH_ESCAPE_INSN_XGETBV :: u32 where [cpu_defs]: "CPUEAXH_ESCAPE_INSN_XGETBV = 6"
definition CPUEAXH_ESCAPE_INSN_RDTSC :: u32 where [cpu_defs]: "CPUEAXH_ESCAPE_INSN_RDTSC = 7"
definition CPUEAXH_ESCAPE_INSN_RDTSCP :: u32 where [cpu_defs]: "CPUEAXH_ESCAPE_INSN_RDTSCP = 8"
definition CPUEAXH_ESCAPE_INSN_RDRAND :: u32 where [cpu_defs]: "CPUEAXH_ESCAPE_INSN_RDRAND = 9"
definition CPUEAXH_ESCAPE_INSN_HLT :: u32 where [cpu_defs]: "CPUEAXH_ESCAPE_INSN_HLT = 10"
definition CPUEAXH_ESCAPE_INSN_IN :: u32 where [cpu_defs]: "CPUEAXH_ESCAPE_INSN_IN = 11"
definition CPUEAXH_ESCAPE_INSN_OUT :: u32 where [cpu_defs]: "CPUEAXH_ESCAPE_INSN_OUT = 12"
definition CPUEAXH_ESCAPE_INSN_WRITECRX :: u32 where [cpu_defs]: "CPUEAXH_ESCAPE_INSN_WRITECRX = 13"
definition CPUEAXH_ESCAPE_INSN_READCRX :: u32 where [cpu_defs]: "CPUEAXH_ESCAPE_INSN_READCRX = 14"
definition CPUEAXH_ESCAPE_INSN_RDSSPD :: u32 where [cpu_defs]: "CPUEAXH_ESCAPE_INSN_RDSSPD = 15"
definition CPUEAXH_ESCAPE_INSN_RDSSPQ :: u32 where [cpu_defs]: "CPUEAXH_ESCAPE_INSN_RDSSPQ = 16"
definition CPUEAXH_ESCAPE_INSN_INS :: u32 where [cpu_defs]: "CPUEAXH_ESCAPE_INSN_INS = 17"
definition CPUEAXH_ESCAPE_INSN_INT1 :: u32 where [cpu_defs]: "CPUEAXH_ESCAPE_INSN_INT1 = 18"
definition CPUEAXH_ESCAPE_INSN_UD2 :: u32 where [cpu_defs]: "CPUEAXH_ESCAPE_INSN_UD2 = 19"
definition CPUEAXH_ESCAPE_INSN_MAX :: u32 where [cpu_defs]: "CPUEAXH_ESCAPE_INSN_MAX = CPUEAXH_ESCAPE_INSN_UD2"

subsection \<open>Data\<close>

record CPUEAXH_HOOK_ENTRY =
  hk_used :: bool
  hk_handle :: u64
  hk_type :: u32
  hk_code_callback :: u64
  hk_mem_callback :: u64
  hk_invalid_mem_callback :: u64
  hk_user_data :: u64
  hk_begin :: u64
  hk_end :: u64

record CPUEAXH_ESCAPE_ENTRY =
  es_handle :: u64
  es_instruction_id :: u32
  es_callback :: u64
  es_user_data :: u64
  es_begin :: u64
  es_end :: u64

record cpueaxh_engine =
  memory_manager :: MEMORY_MANAGER
  cpu_ctx :: CPU_CONTEXT
  inst_cache :: InstCache
  hooks :: "CPUEAXH_HOOK_ENTRY list"
  hook_type_counts :: "nat \<Rightarrow> u16"
  escape_index_by_id :: "nat \<Rightarrow> u8"
  escapes :: "CPUEAXH_ESCAPE_ENTRY list"
  escape_capacity :: nat
  escapes_array :: u64
  next_hook :: u64
  memory_mode :: u32
  stop_requested :: bool
  last_error :: int
  host_state :: host

text \<open>The public form of the CPU state (\<^verbatim>\<open>cpueaxh.hpp\<close>), which escape callbacks receive.\<close>

record cpueaxh_x86_segment =
  xs_selector :: u16
  xs_reserved0 :: u16
  xs_base :: u64
  xs_limit :: u32
  xs_type :: u8
  xs_dpl :: u8
  xs_present :: u8
  xs_granularity :: u8
  xs_db :: u8
  xs_long_mode :: u8

record cpueaxh_x86_context =
  xc_regs :: "nat \<Rightarrow> u64"
  xc_rip :: u64
  xc_rflags :: u64
  xc_xmm :: "nat \<Rightarrow> XMMRegister"
  xc_ymm_upper :: "nat \<Rightarrow> XMMRegister"
  xc_zmm_upper :: "nat \<Rightarrow> ZMMUpperRegister"
  xc_opmask :: "nat \<Rightarrow> u64"
  xc_mm :: "nat \<Rightarrow> u64"
  xc_mxcsr :: u32
  xc_es :: cpueaxh_x86_segment
  xc_cs :: cpueaxh_x86_segment
  xc_ss :: cpueaxh_x86_segment
  xc_ds :: cpueaxh_x86_segment
  xc_fs :: cpueaxh_x86_segment
  xc_gs :: cpueaxh_x86_segment
  xc_gdtr_base :: u64
  xc_gdtr_limit :: u16
  xc_ldtr_base :: u64
  xc_ldtr_limit :: u16
  xc_cpl :: u8
  xc_code_exception :: u32
  xc_error_code_exception :: u32
  xc_internal_bridge_block :: u64
  xc_control_regs :: "nat \<Rightarrow> u64"
  xc_processor_id :: u32

record callbacks =
  cb_code :: "u64 \<Rightarrow> cpueaxh_engine \<Rightarrow> u64 \<Rightarrow> u64 \<Rightarrow> cpueaxh_engine"
  cb_mem :: "u64 \<Rightarrow> cpueaxh_engine \<Rightarrow> u32 \<Rightarrow> u64 \<Rightarrow> u64 \<Rightarrow> u64 \<Rightarrow> u64 \<Rightarrow> cpueaxh_engine"
  cb_invalid_mem ::
    "u64 \<Rightarrow> cpueaxh_engine \<Rightarrow> u32 \<Rightarrow> u64 \<Rightarrow> u64 \<Rightarrow> u64 \<Rightarrow> u64 \<Rightarrow> int \<times> cpueaxh_engine"
  cb_escape ::
    "u64 \<Rightarrow> cpueaxh_engine \<Rightarrow> cpueaxh_x86_context \<Rightarrow> u8 list \<Rightarrow> u64 \<Rightarrow>
     int \<times> cpueaxh_x86_context \<times> cpueaxh_engine"

definition empty_hook :: CPUEAXH_HOOK_ENTRY where
  "empty_hook = \<lparr>hk_used = False, hk_handle = 0, hk_type = 0, hk_code_callback = 0,
     hk_mem_callback = 0, hk_invalid_mem_callback = 0, hk_user_data = 0, hk_begin = 0, hk_end = 0\<rparr>"

subsection \<open>Hook types and ranges\<close>

definition cpueaxh_range_contains :: "u64 \<Rightarrow> u64 \<Rightarrow> u64 \<Rightarrow> bool" where
  "cpueaxh_range_contains begin end address =
     (if begin = 0 \<and> end = 0 then True
      else if end = 0 then address \<ge> begin
      else address \<ge> begin \<and> address \<le> end)"

definition cpueaxh_is_supported_hook_type :: "u32 \<Rightarrow> bool" where
  "cpueaxh_is_supported_hook_type type \<longleftrightarrow>
     type \<in> {CPUEAXH_HOOK_CODE_PRE, CPUEAXH_HOOK_CODE_POST, CPUEAXH_HOOK_MEM_READ,
       CPUEAXH_HOOK_MEM_WRITE, CPUEAXH_HOOK_MEM_FETCH, CPUEAXH_HOOK_MEM_READ_UNMAPPED,
       CPUEAXH_HOOK_MEM_WRITE_UNMAPPED, CPUEAXH_HOOK_MEM_FETCH_UNMAPPED,
       CPUEAXH_HOOK_MEM_READ_PROT, CPUEAXH_HOOK_MEM_WRITE_PROT, CPUEAXH_HOOK_MEM_FETCH_PROT}"

definition cpueaxh_is_code_hook_type :: "u32 \<Rightarrow> bool" where
  "cpueaxh_is_code_hook_type type \<longleftrightarrow> type = CPUEAXH_HOOK_CODE_PRE \<or> type = CPUEAXH_HOOK_CODE_POST"

definition cpueaxh_is_invalid_memory_hook_type :: "u32 \<Rightarrow> bool" where
  "cpueaxh_is_invalid_memory_hook_type type \<longleftrightarrow>
     type \<in> {CPUEAXH_HOOK_MEM_READ_UNMAPPED, CPUEAXH_HOOK_MEM_WRITE_UNMAPPED,
       CPUEAXH_HOOK_MEM_FETCH_UNMAPPED, CPUEAXH_HOOK_MEM_READ_PROT, CPUEAXH_HOOK_MEM_WRITE_PROT,
       CPUEAXH_HOOK_MEM_FETCH_PROT}"

definition cpueaxh_is_hook_type_index_valid :: "u32 \<Rightarrow> bool" where
  "cpueaxh_is_hook_type_index_valid type \<longleftrightarrow> type \<le> CPUEAXH_HOOK_MEM_FETCH_PROT"

definition cpueaxh_is_escape_index_valid :: "u32 \<Rightarrow> bool" where
  "cpueaxh_is_escape_index_valid instruction_id \<longleftrightarrow>
     instruction_id > CPUEAXH_ESCAPE_INSN_NONE \<and> instruction_id \<le> CPUEAXH_ESCAPE_INSN_MAX"

definition cpueaxh_adjust_hook_type_count :: "cpueaxh_engine \<Rightarrow> u32 \<Rightarrow> int \<Rightarrow> cpueaxh_engine" where
  "cpueaxh_adjust_hook_type_count engine type delta =
     (if \<not> cpueaxh_is_hook_type_index_valid type \<or> delta = 0 then engine
      else
        let count = hook_type_counts engine (unat type);
            count' = (if delta > 0 then count + of_int delta
                      else let amount = of_int (- delta)
                           in if count > amount then count - amount else 0)
        in engine\<lparr>hook_type_counts := (hook_type_counts engine)(unat type := count')\<rparr>)"

definition cpu_has_hook_type :: "cpueaxh_engine \<Rightarrow> u32 \<Rightarrow> bool" where
  "cpu_has_hook_type engine type =
     (if \<not> cpueaxh_is_hook_type_index_valid type then False
      else hook_type_counts engine (unat type) \<noteq> 0)"

subsection \<open>Notifying hooks\<close>

definition notify_memory_hook_at ::
  "callbacks \<Rightarrow> u32 \<Rightarrow> u64 \<Rightarrow> u64 \<Rightarrow> u64 \<Rightarrow> nat \<Rightarrow> cpueaxh_engine \<Rightarrow> cpueaxh_engine" where
  "notify_memory_hook_at cb type address sz v index engine =
     (let hook = hooks engine ! index
      in if \<not> hk_used hook \<or> hk_type hook \<noteq> type \<or> hk_mem_callback hook = 0 then engine
         else if \<not> cpueaxh_range_contains (hk_begin hook) (hk_end hook) address then engine
         else cb_mem cb (hk_mem_callback hook) engine type address sz v (hk_user_data hook))"

definition cpu_notify_memory_hook ::
  "callbacks \<Rightarrow> cpueaxh_engine \<Rightarrow> u32 \<Rightarrow> u64 \<Rightarrow> u64 \<Rightarrow> u64 \<Rightarrow> cpueaxh_engine" where
  "cpu_notify_memory_hook cb engine type address sz v =
     (if \<not> cpu_has_hook_type engine type then engine
      else fold (notify_memory_hook_at cb type address sz v) [0..<CPUEAXH_MAX_HOOKS] engine)"

definition notify_invalid_hook_at ::
  "callbacks \<Rightarrow> u32 \<Rightarrow> u64 \<Rightarrow> u64 \<Rightarrow> u64 \<Rightarrow> nat \<Rightarrow> bool \<times> cpueaxh_engine \<Rightarrow> bool \<times> cpueaxh_engine" where
  "notify_invalid_hook_at cb type address sz v index = (\<lambda>(handled, engine).
     (let hook = hooks engine ! index
      in if \<not> hk_used hook \<or> hk_type hook \<noteq> type \<or> hk_invalid_mem_callback hook = 0
         then (handled, engine)
         else if \<not> cpueaxh_range_contains (hk_begin hook) (hk_end hook) address
         then (handled, engine)
         else
           case cb_invalid_mem cb (hk_invalid_mem_callback hook) engine type address sz v
                  (hk_user_data hook) of
             (r, engine1) \<Rightarrow> (handled \<or> r \<noteq> 0, engine1)))"

definition cpu_notify_invalid_memory_hook ::
  "callbacks \<Rightarrow> cpueaxh_engine \<Rightarrow> u32 \<Rightarrow> u64 \<Rightarrow> u64 \<Rightarrow> u64 \<Rightarrow> bool \<times> cpueaxh_engine" where
  "cpu_notify_invalid_memory_hook cb engine type address sz v =
     (if \<not> cpu_has_hook_type engine type then (False, engine)
      else fold (notify_invalid_hook_at cb type address sz v) [0..<CPUEAXH_MAX_HOOKS] (False, engine))"

text \<open>The loop over the table stops once as many entries as the type count says were visited.\<close>

fun dispatch_code_hooks_loop ::
  "callbacks \<Rightarrow> u32 \<Rightarrow> u64 \<Rightarrow> nat list \<Rightarrow> u16 \<Rightarrow> cpueaxh_engine \<Rightarrow> cpueaxh_engine" where
  "dispatch_code_hooks_loop cb type address [] remaining engine = engine"
| "dispatch_code_hooks_loop cb type address (index # rest) remaining engine =
     (if remaining = 0 then engine
      else
        let hook = hooks engine ! index
        in if \<not> hk_used hook \<or> hk_type hook \<noteq> type
           then dispatch_code_hooks_loop cb type address rest remaining engine
           else
             let remaining = remaining - 1
             in if hk_code_callback hook = 0
                then dispatch_code_hooks_loop cb type address rest remaining engine
                else if \<not> cpueaxh_range_contains (hk_begin hook) (hk_end hook) address
                then dispatch_code_hooks_loop cb type address rest remaining engine
                else dispatch_code_hooks_loop cb type address rest remaining
                       (cb_code cb (hk_code_callback hook) engine address (hk_user_data hook)))"

definition cpueaxh_dispatch_code_hooks ::
  "callbacks \<Rightarrow> cpueaxh_engine \<Rightarrow> u32 \<Rightarrow> u64 \<Rightarrow> cpueaxh_engine" where
  "cpueaxh_dispatch_code_hooks cb engine type address =
     (if \<not> cpueaxh_is_hook_type_index_valid type \<or> hook_type_counts engine (unat type) = 0 then engine
      else dispatch_code_hooks_loop cb type address [0..<CPUEAXH_MAX_HOOKS]
             (hook_type_counts engine (unat type)) engine)"

subsection \<open>Adding and deleting hooks\<close>

text \<open>
  \<open>None\<close> is a null engine. The result has the error code, what was stored through the out
  pointer (\<open>out_hook\<close> says whether it was non-null), and the engine.
\<close>

definition first_free_hook :: "CPUEAXH_HOOK_ENTRY list \<Rightarrow> nat option" where
  "first_free_hook hs = find (\<lambda>i. \<not> hk_used (hs ! i)) [0..<CPUEAXH_MAX_HOOKS]"

definition cpueaxh_hook_add ::
  "cpueaxh_engine option \<Rightarrow> bool \<Rightarrow> u32 \<Rightarrow> u64 \<Rightarrow> u64 \<Rightarrow> u64 \<Rightarrow> u64 \<Rightarrow>
   int \<times> u64 option \<times> cpueaxh_engine option" where
  "cpueaxh_hook_add engine out_hook type callback user_data begin end =
     (case engine of
        None \<Rightarrow> (CPUEAXH_ERR_ARG, None, None)
      | Some e \<Rightarrow>
          if \<not> out_hook \<or> callback = 0 then (CPUEAXH_ERR_ARG, None, Some e)
          else if \<not> cpueaxh_is_supported_hook_type type then (CPUEAXH_ERR_HOOK, None, Some e)
          else
            case first_free_hook (hooks e) of
              None \<Rightarrow> (CPUEAXH_ERR_HOOK, None, Some e)
            | Some index \<Rightarrow>
                let hook = \<lparr>hk_used = True, hk_handle = next_hook e, hk_type = type,
                      hk_code_callback = (if cpueaxh_is_code_hook_type type then callback else 0),
                      hk_mem_callback =
                        (if cpueaxh_is_code_hook_type type then 0
                         else if cpueaxh_is_invalid_memory_hook_type type then 0 else callback),
                      hk_invalid_mem_callback =
                        (if cpueaxh_is_code_hook_type type then 0
                         else if cpueaxh_is_invalid_memory_hook_type type then callback else 0),
                      hk_user_data = user_data, hk_begin = begin, hk_end = end\<rparr>;
                    e1 = e\<lparr>hooks := (hooks e)[index := hook], next_hook := next_hook e + 1\<rparr>
                in (CPUEAXH_ERR_OK, Some (hk_handle hook),
                    Some (cpueaxh_adjust_hook_type_count e1 type 1)))"

definition cpueaxh_hook_add_address ::
  "cpueaxh_engine option \<Rightarrow> bool \<Rightarrow> u32 \<Rightarrow> u64 \<Rightarrow> u64 \<Rightarrow> u64 \<Rightarrow>
   int \<times> u64 option \<times> cpueaxh_engine option" where
  "cpueaxh_hook_add_address engine out_hook type callback user_data address =
     cpueaxh_hook_add engine out_hook type callback user_data address address"

fun rebuild_escape_loop ::
  "CPUEAXH_ESCAPE_ENTRY list \<Rightarrow> nat \<Rightarrow> (nat \<Rightarrow> u8) \<Rightarrow> nat \<Rightarrow> u8" where
  "rebuild_escape_loop [] index tab = tab"
| "rebuild_escape_loop (x # xs) index tab =
     rebuild_escape_loop xs (index + 1)
       (if cpueaxh_is_escape_index_valid (es_instruction_id x) \<and> index < 0xFF
        then tab(unat (es_instruction_id x) := of_nat (index + 1)) else tab)"

definition cpueaxh_rebuild_escape_index :: "cpueaxh_engine \<Rightarrow> cpueaxh_engine" where
  "cpueaxh_rebuild_escape_index e =
     e\<lparr>escape_index_by_id := rebuild_escape_loop (escapes e) 0 (\<lambda>_. 0)\<rparr>"

definition cpueaxh_lookup_escape_entry :: "cpueaxh_engine \<Rightarrow> u32 \<Rightarrow> CPUEAXH_ESCAPE_ENTRY option" where
  "cpueaxh_lookup_escape_entry e instruction_id =
     (if \<not> cpueaxh_is_escape_index_valid instruction_id then None
      else
        let encoded_index = escape_index_by_id e (unat instruction_id)
        in if encoded_index = 0 then None
           else
             let index = unat (encoded_index - 1)
             in if index \<ge> length (escapes e) then None
                else
                  let escape = escapes e ! index
                  in if es_instruction_id escape = instruction_id then Some escape else None)"

definition cpueaxh_hook_del :: "cpueaxh_engine option \<Rightarrow> u64 \<Rightarrow> int \<times> cpueaxh_engine option" where
  "cpueaxh_hook_del engine hook =
     (case engine of
        None \<Rightarrow> (CPUEAXH_ERR_ARG, None)
      | Some e \<Rightarrow>
          case find (\<lambda>i. hk_used (hooks e ! i) \<and> hk_handle (hooks e ! i) = hook)
                 [0..<CPUEAXH_MAX_HOOKS] of
            Some index \<Rightarrow>
              let e1 = cpueaxh_adjust_hook_type_count e (hk_type (hooks e ! index)) (- 1)
              in (CPUEAXH_ERR_OK, Some (e1\<lparr>hooks := (hooks e1)[index := empty_hook]\<rparr>))
          | None \<Rightarrow>
              case find (\<lambda>i. es_handle (escapes e ! i) = hook) [0..<length (escapes e)] of
                Some index \<Rightarrow>
                  (CPUEAXH_ERR_OK,
                   Some (cpueaxh_rebuild_escape_index
                     (e\<lparr>escapes := take index (escapes e) @ drop (index + 1) (escapes e)\<rparr>)))
              | None \<Rightarrow> (CPUEAXH_ERR_HOOK, Some e))"

function escape_grow :: "nat \<Rightarrow> nat \<Rightarrow> nat" where
  "escape_grow new_capacity required_count =
     (if new_capacity < required_count \<and> 0 < new_capacity
      then escape_grow (new_capacity * 2) required_count else new_capacity)"
  by pat_completeness auto
termination
  by (relation "measure (\<lambda>(c, r). r - c)") auto

declare escape_grow.simps [simp del]

definition cpueaxh_ensure_escape_capacity :: "cpueaxh_engine \<Rightarrow> nat \<Rightarrow> int \<times> cpueaxh_engine" where
  "cpueaxh_ensure_escape_capacity e required_count =
     (if required_count \<le> escape_capacity e then (CPUEAXH_ERR_OK, e)
      else
        let new_capacity =
              escape_grow (if escape_capacity e = 0 then 8 else escape_capacity e) required_count;
            (new_entries, h1) = CPUEAXH_ALLOC_ZEROED (host_state e) (of_nat (new_capacity * 48))
        in if new_entries = 0 then (CPUEAXH_ERR_NOMEM, e\<lparr>host_state := h1\<rparr>)
           else
             let h2 = (if escapes_array e \<noteq> 0 \<and> escapes e \<noteq> []
                       then CPUEAXH_FREE h1 (escapes_array e) else h1)
             in (CPUEAXH_ERR_OK,
                 e\<lparr>host_state := h2, escapes_array := new_entries, escape_capacity := new_capacity\<rparr>))"

definition cpueaxh_escape_add ::
  "cpueaxh_engine option \<Rightarrow> bool \<Rightarrow> u32 \<Rightarrow> u64 \<Rightarrow> u64 \<Rightarrow> u64 \<Rightarrow> u64 \<Rightarrow>
   int \<times> u64 option \<times> cpueaxh_engine option" where
  "cpueaxh_escape_add engine out_hook instruction_id callback user_data begin end =
     (case engine of
        None \<Rightarrow> (CPUEAXH_ERR_ARG, None, None)
      | Some e \<Rightarrow>
          if \<not> out_hook \<or> callback = 0 \<or> instruction_id = CPUEAXH_ESCAPE_INSN_NONE
          then (CPUEAXH_ERR_ARG, None, Some e)
          else if cpueaxh_lookup_escape_entry e instruction_id \<noteq> None
          then (CPUEAXH_ERR_HOOK, None, Some e)
          else
            case cpueaxh_ensure_escape_capacity e (length (escapes e) + 1) of
              (error, e1) \<Rightarrow>
                if error \<noteq> CPUEAXH_ERR_OK then (error, None, Some e1)
                else
                  let escape = \<lparr>es_handle = next_hook e1, es_instruction_id = instruction_id,
                        es_callback = callback, es_user_data = user_data, es_begin = begin,
                        es_end = end\<rparr>;
                      e2 = e1\<lparr>escapes := escapes e1 @ [escape], next_hook := next_hook e1 + 1\<rparr>
                  in (CPUEAXH_ERR_OK, Some (es_handle escape),
                      Some (cpueaxh_rebuild_escape_index e2)))"

definition cpueaxh_escape_del :: "cpueaxh_engine option \<Rightarrow> u64 \<Rightarrow> int \<times> cpueaxh_engine option" where
  "cpueaxh_escape_del engine hook = cpueaxh_hook_del engine hook"

subsection \<open>The hook table\<close>

lemma length_filter_update:
  "i < length xs \<Longrightarrow> length (filter P (xs[i := x])) + of_bool (P (xs ! i)) =
   length (filter P xs) + of_bool (P x)"
proof (induction xs arbitrary: i)
  case (Cons y ys)
  then show ?case by (cases i) auto
qed simp

definition hook_count :: "CPUEAXH_HOOK_ENTRY list \<Rightarrow> u32 \<Rightarrow> nat" where
  "hook_count hs t = length (filter (\<lambda>h. hk_used h \<and> hk_type h = t) hs)"

text \<open>
  The counts are the numbers of used entries, unused entries are zero, and handles are smaller
  than the next one and unique among the used entries.
\<close>

definition hooks_ok :: "cpueaxh_engine \<Rightarrow> bool" where
  "hooks_ok e \<longleftrightarrow> length (hooks e) = CPUEAXH_MAX_HOOKS \<and>
     (\<forall>t. cpueaxh_is_hook_type_index_valid t \<longrightarrow>
        unat (hook_type_counts e (unat t)) = hook_count (hooks e) t) \<and>
     (\<forall>i < CPUEAXH_MAX_HOOKS. \<not> hk_used (hooks e ! i) \<longrightarrow> hooks e ! i = empty_hook) \<and>
     (\<forall>i < CPUEAXH_MAX_HOOKS. hk_used (hooks e ! i) \<longrightarrow>
        cpueaxh_is_hook_type_index_valid (hk_type (hooks e ! i)) \<and>
        hk_handle (hooks e ! i) < next_hook e) \<and>
     (\<forall>i < CPUEAXH_MAX_HOOKS. \<forall>j < CPUEAXH_MAX_HOOKS.
        hk_used (hooks e ! i) \<and> hk_used (hooks e ! j) \<and>
        hk_handle (hooks e ! i) = hk_handle (hooks e ! j) \<longrightarrow> i = j)"

lemma hook_count_le: "hook_count hs t \<le> length hs"
  by (simp add: hook_count_def)

lemma hook_count_pos: "hook_count hs t \<noteq> 0 \<longleftrightarrow> (\<exists>h \<in> set hs. hk_used h \<and> hk_type h = t)"
  by (auto simp: hook_count_def filter_empty_conv)

lemma cpu_has_hook_type_iff:
  assumes "hooks_ok e" "cpueaxh_is_hook_type_index_valid t"
  shows "cpu_has_hook_type e t \<longleftrightarrow> (\<exists>h \<in> set (hooks e). hk_used h \<and> hk_type h = t)"
proof -
  have "hook_type_counts e (unat t) \<noteq> 0 \<longleftrightarrow> hook_count (hooks e) t \<noteq> 0"
    using assms unat_eq_zero [of "hook_type_counts e (unat t)"] by (auto simp: hooks_ok_def)
  then show ?thesis
    using assms(2) hook_count_pos [of "hooks e" t] by (simp add: cpu_has_hook_type_def)
qed

lemma supported_type_valid:
  "cpueaxh_is_supported_hook_type t \<Longrightarrow> cpueaxh_is_hook_type_index_valid t"
  by (auto simp: cpueaxh_is_supported_hook_type_def cpueaxh_is_hook_type_index_valid_def cpu_defs)

lemma hook_count_update:
  "i < length hs \<Longrightarrow> hook_count (hs[i := h]) t + of_bool (hk_used (hs ! i) \<and> hk_type (hs ! i) = t) =
   hook_count hs t + of_bool (hk_used h \<and> hk_type h = t)"
  unfolding hook_count_def by (rule length_filter_update)

lemma adjust_count_frame [simp]:
  "hooks (cpueaxh_adjust_hook_type_count e t d) = hooks e"
  "next_hook (cpueaxh_adjust_hook_type_count e t d) = next_hook e"
  by (simp_all add: cpueaxh_adjust_hook_type_count_def Let_def)

lemma adjust_count_up:
  assumes "cpueaxh_is_hook_type_index_valid t" "unat (hook_type_counts e (unat t)) < 64"
  shows "unat (hook_type_counts (cpueaxh_adjust_hook_type_count e t 1) (unat s)) =
    unat (hook_type_counts e (unat s)) + of_bool (s = t)"
  using assms
  by (auto simp: cpueaxh_adjust_hook_type_count_def Let_def word_unat_eq_iff unat_word_ariths)

lemma adjust_count_down:
  assumes "cpueaxh_is_hook_type_index_valid t" "0 < unat (hook_type_counts e (unat t))"
  shows "unat (hook_type_counts (cpueaxh_adjust_hook_type_count e t (- 1)) (unat s)) =
    unat (hook_type_counts e (unat s)) - of_bool (s = t)"
proof (cases "s = t")
  case True
  have "hook_type_counts e (unat t) > 1 \<or> hook_type_counts e (unat t) = 1"
    using assms(2) by (auto simp: word_less_nat_alt word_unat_eq_iff)
  then show ?thesis
    using True assms unat_diff_le [of 1 "hook_type_counts e (unat t)"]
    by (auto simp: cpueaxh_adjust_hook_type_count_def Let_def less_imp_le)
next
  case False
  then have "unat s \<noteq> unat t" by (simp add: word_unat_eq_iff)
  then show ?thesis using False assms by (simp add: cpueaxh_adjust_hook_type_count_def Let_def)
qed
lemma first_free_hook_Some:
  "first_free_hook hs = Some i \<Longrightarrow> i < CPUEAXH_MAX_HOOKS \<and> \<not> hk_used (hs ! i)"
  by (auto simp: first_free_hook_def find_Some_iff)

text \<open>The new entry of a successful registration.\<close>

definition hook_entry :: "u64 \<Rightarrow> u32 \<Rightarrow> u64 \<Rightarrow> u64 \<Rightarrow> u64 \<Rightarrow> u64 \<Rightarrow> CPUEAXH_HOOK_ENTRY" where
  "hook_entry handle type callback user_data begin end =
     \<lparr>hk_used = True, hk_handle = handle, hk_type = type,
      hk_code_callback = (if cpueaxh_is_code_hook_type type then callback else 0),
      hk_mem_callback =
        (if cpueaxh_is_code_hook_type type then 0
         else if cpueaxh_is_invalid_memory_hook_type type then 0 else callback),
      hk_invalid_mem_callback =
        (if cpueaxh_is_code_hook_type type then 0
         else if cpueaxh_is_invalid_memory_hook_type type then callback else 0),
      hk_user_data = user_data, hk_begin = begin, hk_end = end\<rparr>"

lemma cpueaxh_hook_add_result:
  assumes "cpueaxh_hook_add (Some e) True type callback user_data b n = (err, out, e')"
  shows "err = CPUEAXH_ERR_OK \<and> callback \<noteq> 0 \<and> cpueaxh_is_supported_hook_type type \<and>
     (\<exists>i < CPUEAXH_MAX_HOOKS. \<not> hk_used (hooks e ! i) \<and> out = Some (next_hook e) \<and>
        e' = Some (cpueaxh_adjust_hook_type_count
          (e\<lparr>hooks := (hooks e)[i := hook_entry (next_hook e) type callback user_data b n],
             next_hook := next_hook e + 1\<rparr>) type 1)) \<or>
   err \<noteq> CPUEAXH_ERR_OK \<and> out = None \<and> e' = Some e"
  using assms
  by (auto simp: cpueaxh_hook_add_def hook_entry_def Let_def cpu_defs
      split: if_splits option.splits dest!: first_free_hook_Some)

lemma hooks_ok_add_at:
  assumes ok: "hooks_ok e" and i: "i < CPUEAXH_MAX_HOOKS" "\<not> hk_used (hooks e ! i)"
    and t: "cpueaxh_is_hook_type_index_valid type" and room: "next_hook e \<noteq> - 1"
  shows "hooks_ok (cpueaxh_adjust_hook_type_count
          (e\<lparr>hooks := (hooks e)[i := hook_entry (next_hook e) type callback user_data b n],
             next_hook := next_hook e + 1\<rparr>) type 1)"
proof -
  let ?h = "hook_entry (next_hook e) type callback user_data b n"
  let ?e1 = "e\<lparr>hooks := (hooks e)[i := ?h], next_hook := next_hook e + 1\<rparr>"
  have l: "length (hooks e) = CPUEAXH_MAX_HOOKS" using ok by (simp add: hooks_ok_def)
  have h: "hk_used ?h" "hk_type ?h = type" "hk_handle ?h = next_hook e"
    by (simp_all add: hook_entry_def)
  have cnt: "unat (hook_type_counts e (unat t)) = hook_count (hooks e) t"
    if "cpueaxh_is_hook_type_index_valid t" for t using ok that by (simp add: hooks_ok_def)
  have up: "hook_count ((hooks e)[i := ?h]) t = hook_count (hooks e) t + of_bool (t = type)" for t
    using hook_count_update [of i "hooks e" ?h t] i l h by auto
  have "hook_count ((hooks e)[i := ?h]) type \<le> 64"
    using hook_count_le [of "(hooks e)[i := ?h]" type] l by (simp add: cpu_defs)
  then have "unat (hook_type_counts ?e1 (unat type)) < 64" using cnt [OF t] up [of type] by simp
  from adjust_count_up [OF t this] have
    c: "unat (hook_type_counts (cpueaxh_adjust_hook_type_count ?e1 type 1) (unat s)) =
      unat (hook_type_counts e (unat s)) + of_bool (s = type)" for s by simp
  have lt: "next_hook e < next_hook e + 1" by (rule word_less_Suc [OF room])
  have old: "hk_handle (hooks e ! j) < next_hook e" if "j < CPUEAXH_MAX_HOOKS" "hk_used (hooks e ! j)" for j
    using ok that by (simp add: hooks_ok_def)
  show ?thesis
    unfolding hooks_ok_def adjust_count_frame
  proof (intro conjI allI impI)
    fix t assume "cpueaxh_is_hook_type_index_valid t"
    then show "unat (hook_type_counts (cpueaxh_adjust_hook_type_count ?e1 type 1) (unat t)) =
        hook_count (hooks ?e1) t" by (simp add: c cnt up)
  next
    fix j assume j: "j < CPUEAXH_MAX_HOOKS" "hk_used (hooks ?e1 ! j)"
    show "hk_handle (hooks ?e1 ! j) < next_hook ?e1"
      using j l h old [of j] lt by (cases "j = i") (auto intro: less_trans)
    show "cpueaxh_is_hook_type_index_valid (hk_type (hooks ?e1 ! j))"
      using j l h t ok by (cases "j = i") (auto simp: hooks_ok_def)
  next
    fix j assume "j < CPUEAXH_MAX_HOOKS" "\<not> hk_used (hooks ?e1 ! j)"
    then show "hooks ?e1 ! j = empty_hook"
      using l h ok by (cases "j = i") (auto simp: hooks_ok_def)
  next
    fix j k assume jk: "j < CPUEAXH_MAX_HOOKS" "k < CPUEAXH_MAX_HOOKS"
      "hk_used (hooks ?e1 ! j) \<and> hk_used (hooks ?e1 ! k) \<and>
       hk_handle (hooks ?e1 ! j) = hk_handle (hooks ?e1 ! k)"
    then show "j = k"
      using l h ok old [of j] old [of k]
      by (cases "j = i"; cases "k = i") (auto simp: hooks_ok_def)
  qed (use l in simp)
qed

lemma hooks_ok_del_at:
  assumes ok: "hooks_ok e" and i: "i < CPUEAXH_MAX_HOOKS" "hk_used (hooks e ! i)"
  defines "e1 \<equiv> cpueaxh_adjust_hook_type_count e (hk_type (hooks e ! i)) (- 1)"
  shows "hooks_ok (e1\<lparr>hooks := (hooks e1)[i := empty_hook]\<rparr>)"
proof -
  let ?t = "hk_type (hooks e ! i)"
  have l: "length (hooks e) = CPUEAXH_MAX_HOOKS" using ok by (simp add: hooks_ok_def)
  have t: "cpueaxh_is_hook_type_index_valid ?t" using ok i by (simp add: hooks_ok_def)
  have cnt: "unat (hook_type_counts e (unat t)) = hook_count (hooks e) t"
    if "cpueaxh_is_hook_type_index_valid t" for t using ok that by (simp add: hooks_ok_def)
  have dn: "hook_count ((hooks e)[i := empty_hook]) t = hook_count (hooks e) t - of_bool (t = ?t)" for t
    using hook_count_update [of i "hooks e" empty_hook t] i l by (auto simp: empty_hook_def)
  have "hook_count (hooks e) ?t \<noteq> 0" unfolding hook_count_pos using i l by force
  with cnt [OF t] have "0 < unat (hook_type_counts e (unat ?t))" by simp
  from adjust_count_down [OF t this] have
    c: "unat (hook_type_counts e1 (unat s)) = unat (hook_type_counts e (unat s)) - of_bool (s = ?t)"
    for s by (simp add: e1_def)
  have e1: "hooks e1 = hooks e" "next_hook e1 = next_hook e" by (simp_all add: e1_def)
  have u: "hk_used (hooks e ! j) \<and> (hooks e)[i := empty_hook] ! j = hooks e ! j"
    if "hk_used ((hooks e)[i := empty_hook] ! j)" for j
    using that i l by (cases "j = i") (auto simp: empty_hook_def)
  show ?thesis
    unfolding hooks_ok_def
  proof (intro conjI allI impI)
    fix t assume "cpueaxh_is_hook_type_index_valid t"
    then show "unat (hook_type_counts (e1\<lparr>hooks := (hooks e1)[i := empty_hook]\<rparr>) (unat t)) =
        hook_count (hooks (e1\<lparr>hooks := (hooks e1)[i := empty_hook]\<rparr>)) t" by (simp add: c cnt dn e1)
  next
    fix j assume j: "j < CPUEAXH_MAX_HOOKS" "hk_used (hooks (e1\<lparr>hooks := (hooks e1)[i := empty_hook]\<rparr>) ! j)"
    then show "cpueaxh_is_hook_type_index_valid (hk_type (hooks (e1\<lparr>hooks := (hooks e1)[i := empty_hook]\<rparr>) ! j))"
      "hk_handle (hooks (e1\<lparr>hooks := (hooks e1)[i := empty_hook]\<rparr>) ! j) <
       next_hook (e1\<lparr>hooks := (hooks e1)[i := empty_hook]\<rparr>)"
      using ok u [of j] by (auto simp: e1 hooks_ok_def)
  next
    fix j assume "j < CPUEAXH_MAX_HOOKS" "\<not> hk_used (hooks (e1\<lparr>hooks := (hooks e1)[i := empty_hook]\<rparr>) ! j)"
    then show "hooks (e1\<lparr>hooks := (hooks e1)[i := empty_hook]\<rparr>) ! j = empty_hook"
      using l ok by (cases "j = i") (auto simp: e1 hooks_ok_def)
  next
    fix j k assume "j < CPUEAXH_MAX_HOOKS" "k < CPUEAXH_MAX_HOOKS"
      "hk_used (hooks (e1\<lparr>hooks := (hooks e1)[i := empty_hook]\<rparr>) ! j) \<and>
       hk_used (hooks (e1\<lparr>hooks := (hooks e1)[i := empty_hook]\<rparr>) ! k) \<and>
       hk_handle (hooks (e1\<lparr>hooks := (hooks e1)[i := empty_hook]\<rparr>) ! j) =
       hk_handle (hooks (e1\<lparr>hooks := (hooks e1)[i := empty_hook]\<rparr>) ! k)"
    then show "j = k" using ok u [of j] u [of k] by (auto simp: e1 hooks_ok_def)
  qed (use l in \<open>simp add: e1\<close>)
qed

text \<open>Dispatching code hooks without the early exit: every entry of the table in order.\<close>

definition code_hook_at ::
  "callbacks \<Rightarrow> u32 \<Rightarrow> u64 \<Rightarrow> nat \<Rightarrow> cpueaxh_engine \<Rightarrow> cpueaxh_engine" where
  "code_hook_at cb type address index engine =
     (let hook = hooks engine ! index
      in if hk_used hook \<and> hk_type hook = type \<and> hk_code_callback hook \<noteq> 0 \<and>
            cpueaxh_range_contains (hk_begin hook) (hk_end hook) address
         then cb_code cb (hk_code_callback hook) engine address (hk_user_data hook) else engine)"

definition code_hooks_keep_table :: "callbacks \<Rightarrow> bool" where
  "code_hooks_keep_table cb \<longleftrightarrow> (\<forall>p e a u. hooks (cb_code cb p e a u) = hooks e)"

lemma code_hook_at_hooks: "code_hooks_keep_table cb \<Longrightarrow> hooks (code_hook_at cb t a i e) = hooks e"
  by (simp add: code_hook_at_def code_hooks_keep_table_def Let_def)

lemma dispatch_none_left:
  assumes "code_hooks_keep_table cb"
    and "filter (\<lambda>i. hk_used (hooks e ! i) \<and> hk_type (hooks e ! i) = t) is = []"
  shows "fold (code_hook_at cb t a) is e = e"
  using assms(2) by (induction "is") (auto simp: code_hook_at_def Let_def split: if_splits)

lemma dispatch_code_hooks_loop_fold:
  assumes k: "code_hooks_keep_table cb"
    and "unat remaining = length (filter (\<lambda>i. hk_used (hooks e ! i) \<and> hk_type (hooks e ! i) = t) is)"
  shows "dispatch_code_hooks_loop cb t a is remaining e = fold (code_hook_at cb t a) is e"
  using assms(2)
proof (induction "is" arbitrary: remaining e)
  case (Cons i js)
  let ?m = "\<lambda>i. hk_used (hooks e ! i) \<and> hk_type (hooks e ! i) = t"
  show ?case
  proof (cases "remaining = 0")
    case True
    with Cons.prems have "filter ?m (i # js) = []" by (metis length_0_conv unat_0)
    from dispatch_none_left [OF k this] show ?thesis using True by simp
  next
    case False
    have dec: "unat (remaining - 1) = unat remaining - 1"
      using False by (intro unat_minus_one)
    have hk: "hooks (code_hook_at cb t a i e) = hooks e" by (rule code_hook_at_hooks [OF k])
    show ?thesis
    proof (cases "?m i")
      case True
      then have "unat (remaining - 1) = length (filter ?m js)" using Cons.prems dec by simp
      then show ?thesis
        using Cons.IH [of "remaining - 1" "code_hook_at cb t a i e"] Cons.IH [of "remaining - 1" e]
          True False hk
        by (auto simp: code_hook_at_def Let_def)
    next
      case no: False
      then have "code_hook_at cb t a i e = e" by (auto simp: code_hook_at_def Let_def)
      then show ?thesis using Cons.IH [of remaining e] Cons.prems no False by (auto simp: Let_def)
    qed
  qed
qed simp

lemma hook_count_indices:
  "length hs = n \<Longrightarrow>
   hook_count hs t = length (filter (\<lambda>i. hk_used (hs ! i) \<and> hk_type (hs ! i) = t) [0..<n])"
proof -
  assume "length hs = n"
  then have "hs = map (\<lambda>i. hs ! i) [0..<n]" by (metis map_nth)
  then have "filter (\<lambda>h. hk_used h \<and> hk_type h = t) hs =
      map (\<lambda>i. hs ! i) (filter ((\<lambda>h. hk_used h \<and> hk_type h = t) \<circ> (\<lambda>i. hs ! i)) [0..<n])"
    by (metis filter_map)
  then show ?thesis by (simp add: hook_count_def comp_def)
qed

lemma cpueaxh_dispatch_code_hooks_fold:
  assumes k: "code_hooks_keep_table cb" and ok: "hooks_ok e" and t: "cpueaxh_is_hook_type_index_valid t"
  shows "cpueaxh_dispatch_code_hooks cb e t a = fold (code_hook_at cb t a) [0..<CPUEAXH_MAX_HOOKS] e"
proof -
  have "unat (hook_type_counts e (unat t)) =
    length (filter (\<lambda>i. hk_used (hooks e ! i) \<and> hk_type (hooks e ! i) = t) [0..<CPUEAXH_MAX_HOOKS])"
    using ok t hook_count_indices [of "hooks e" CPUEAXH_MAX_HOOKS t] by (simp add: hooks_ok_def)
  note l = dispatch_code_hooks_loop_fold [OF k this, of a]
  show ?thesis
  proof (cases "hook_type_counts e (unat t) = 0")
    case True
    with l show ?thesis
      by (simp add: cpueaxh_dispatch_code_hooks_def t CPUEAXH_MAX_HOOKS_def upt_conv_Cons)
  next
    case False
    with l show ?thesis by (simp add: cpueaxh_dispatch_code_hooks_def t)
  qed
qed

subsection \<open>The escape index\<close>

text \<open>Registered entries have valid, pairwise different instruction ids and the index is in order.\<close>

definition escapes_ok :: "cpueaxh_engine \<Rightarrow> bool" where
  "escapes_ok e \<longleftrightarrow> distinct (map es_instruction_id (escapes e)) \<and>
     list_all (\<lambda>x. cpueaxh_is_escape_index_valid (es_instruction_id x)) (escapes e) \<and>
     escape_index_by_id e = rebuild_escape_loop (escapes e) 0 (\<lambda>_. 0)"

lemma rebuild_escape_loop_other:
  "unat k \<notin> unat ` es_instruction_id ` set xs \<Longrightarrow>
   rebuild_escape_loop xs index tab (unat k) = tab (unat k)"
  by (induction xs index tab rule: rebuild_escape_loop.induct) auto

lemma rebuild_escape_loop_nth:
  assumes "distinct (map es_instruction_id xs)"
    and "list_all (\<lambda>x. cpueaxh_is_escape_index_valid (es_instruction_id x)) xs"
    and "j < length xs" "index + length xs \<le> 0xFF"
  shows "rebuild_escape_loop xs index tab (unat (es_instruction_id (xs ! j))) = of_nat (index + j + 1)"
  using assms
proof (induction xs index tab arbitrary: j rule: rebuild_escape_loop.induct)
  case (2 x xs index tab)
  show ?case
  proof (cases j)
    case 0
    have "unat (es_instruction_id x) \<notin> unat ` es_instruction_id ` set xs"
      using "2.prems"(1) by (auto simp: word_unat_eq_iff)
    with rebuild_escape_loop_other [of "es_instruction_id x" xs] 0 "2.prems" show ?thesis by simp
  next
    case (Suc m)
    then show ?thesis using "2.IH" [of m] "2.prems" by (simp add: fun_upd_def)
  qed
qed simp

lemma valid_escape_ids: "{k. cpueaxh_is_escape_index_valid k} = set (map of_nat [1..<20])"
proof -
  have "cpueaxh_is_escape_index_valid k \<longleftrightarrow> 0 < unat k \<and> unat k < 20" for k
    by (auto simp: cpueaxh_is_escape_index_valid_def cpu_defs word_less_nat_alt word_le_nat_alt)
  moreover have "0 < unat k \<and> unat k < 20 \<longleftrightarrow> k \<in> set (map of_nat [1..<20])" for k :: u32
  proof
    assume "0 < unat k \<and> unat k < 20"
    then have "k = of_nat (unat k)" "unat k \<in> {1..<20}" by auto
    then show "k \<in> set (map of_nat [1..<20])" by (metis imageI list.set_map set_upt)
  qed (auto simp: unat_of_nat)
  ultimately show ?thesis by auto
qed

lemma escapes_bounded: "escapes_ok e \<Longrightarrow> length (escapes e) \<le> 19"
proof -
  assume ok: "escapes_ok e"
  have "set (map es_instruction_id (escapes e)) \<subseteq> {k. cpueaxh_is_escape_index_valid k}"
    using ok by (auto simp: escapes_ok_def list_all_iff)
  then have "card (set (map es_instruction_id (escapes e))) \<le> card (set (map (of_nat :: nat \<Rightarrow> u32) [1..<20]))"
    unfolding valid_escape_ids by (rule card_mono [rotated]) simp
  also have "\<dots> \<le> 19" using card_length [of "map (of_nat :: nat \<Rightarrow> u32) [1..<20]"] by simp
  finally show ?thesis using ok distinct_card [of "map es_instruction_id (escapes e)"]
    by (simp add: escapes_ok_def)
qed

lemma cpueaxh_lookup_escape_entry_iff:
  assumes ok: "escapes_ok e"
  shows "cpueaxh_lookup_escape_entry e k = Some x \<longleftrightarrow> x \<in> set (escapes e) \<and> es_instruction_id x = k"
proof
  assume "cpueaxh_lookup_escape_entry e k = Some x"
  then show "x \<in> set (escapes e) \<and> es_instruction_id x = k"
    by (fastforce simp: cpueaxh_lookup_escape_entry_def Let_def not_le in_set_conv_nth
        split: if_splits)
next
  assume x: "x \<in> set (escapes e) \<and> es_instruction_id x = k"
  then obtain j where j: "j < length (escapes e)" "escapes e ! j = x" by (auto simp: in_set_conv_nth)
  have b: "length (escapes e) \<le> 19" by (rule escapes_bounded [OF ok])
  have "escape_index_by_id e (unat k) = of_nat (j + 1)"
    using rebuild_escape_loop_nth [of "escapes e" j 0 "\<lambda>_. 0"] ok j x b by (simp add: escapes_ok_def)
  moreover have u: "unat (of_nat (j + 1) :: u8) = j + 1"
    using j(1) b by (simp add: unat_of_nat del: of_nat_add of_nat_Suc)
  moreover have "unat (of_nat (j + 1) - 1 :: u8) = j"
    using j(1) b by (simp add: unat_of_nat)
  moreover have "(of_nat (j + 1) :: u8) \<noteq> 0" using u by (metis Suc_eq_plus1 nat.distinct(1) unat_0)
  moreover have "cpueaxh_is_escape_index_valid k" using ok x by (auto simp: escapes_ok_def list_all_iff)
  ultimately show "cpueaxh_lookup_escape_entry e k = Some x"
    using j x by (simp add: cpueaxh_lookup_escape_entry_def Let_def)
qed

lemma ensure_escape_capacity_frame:
  assumes "cpueaxh_ensure_escape_capacity e n = (err, e')"
  shows "escapes e' = escapes e" "escape_index_by_id e' = escape_index_by_id e"
    "next_hook e' = next_hook e" "hooks e' = hooks e" "hook_type_counts e' = hook_type_counts e"
    "memory_manager e' = memory_manager e" "cpu_ctx e' = cpu_ctx e"
proof -
  define c where "c = escape_grow (if escape_capacity e = 0 then 8 else escape_capacity e) n"
  obtain p h1 where "CPUEAXH_ALLOC_ZEROED (host_state e) (of_nat (c * 48)) = (p, h1)" by force
  then have "e' = e \<or> (\<exists>h a k. e' = e\<lparr>host_state := h, escapes_array := a, escape_capacity := k\<rparr>) \<or>
      (\<exists>h. e' = e\<lparr>host_state := h\<rparr>)"
    using assms by (auto simp: cpueaxh_ensure_escape_capacity_def c_def split: if_splits)
  then show "escapes e' = escapes e" "escape_index_by_id e' = escape_index_by_id e"
    "next_hook e' = next_hook e" "hooks e' = hooks e" "hook_type_counts e' = hook_type_counts e"
    "memory_manager e' = memory_manager e" "cpu_ctx e' = cpu_ctx e" by auto
qed

text \<open>A registered escape is found, and the other ones stay as they were.\<close>

lemma cpueaxh_escape_add_lookup:
  assumes ok: "escapes_ok e" and v: "cpueaxh_is_escape_index_valid k"
    and add: "cpueaxh_escape_add (Some e) True k callback user_data b n = (err, out, Some e')"
  shows "escapes_ok e'"
    and "err = CPUEAXH_ERR_OK \<Longrightarrow> cpueaxh_lookup_escape_entry e k = None \<and>
      (\<exists>x. cpueaxh_lookup_escape_entry e' k = Some x \<and> es_callback x = callback \<and>
           es_begin x = b \<and> es_end x = n \<and> out = Some (es_handle x)) \<and>
      (\<forall>j. j \<noteq> k \<longrightarrow> cpueaxh_lookup_escape_entry e' j = cpueaxh_lookup_escape_entry e j)"
proof -
  obtain err1 e1 where cap: "cpueaxh_ensure_escape_capacity e (length (escapes e) + 1) = (err1, e1)" by force
  note f = ensure_escape_capacity_frame [OF cap]
  let ?x = "\<lparr>es_handle = next_hook e, es_instruction_id = k, es_callback = callback,
             es_user_data = user_data, es_begin = b, es_end = n\<rparr>"
  have cases: "err \<noteq> CPUEAXH_ERR_OK \<and> (e' = e \<or> e' = e1) \<or>
    err = CPUEAXH_ERR_OK \<and> cpueaxh_lookup_escape_entry e k = None \<and> out = Some (next_hook e) \<and>
      e' = cpueaxh_rebuild_escape_index
        (e1\<lparr>escapes := escapes e @ [?x], next_hook := next_hook e + 1\<rparr>)"
    using add cap f by (auto simp: cpueaxh_escape_add_def Let_def cpu_defs split: if_splits)
  have fail: "escapes_ok e1" using ok f by (simp add: escapes_ok_def)
  have succ: "escapes_ok e'" if "err = CPUEAXH_ERR_OK"
  proof -
    have "k \<notin> es_instruction_id ` set (escapes e)"
      using cases that cpueaxh_lookup_escape_entry_iff [OF ok, of k] by force
    then show ?thesis
      using cases that ok v by (simp add: escapes_ok_def cpueaxh_rebuild_escape_index_def)
  qed
  then show ok': "escapes_ok e'" using cases ok fail by blast
  assume e: "err = CPUEAXH_ERR_OK"
  then have es: "escapes e' = escapes e @ [?x]"
    using cases by (simp add: cpueaxh_rebuild_escape_index_def)
  have "cpueaxh_lookup_escape_entry e' j = cpueaxh_lookup_escape_entry e j" if "j \<noteq> k" for j
  proof -
    have "cpueaxh_lookup_escape_entry e' j = Some y \<longleftrightarrow> cpueaxh_lookup_escape_entry e j = Some y" for y
      unfolding cpueaxh_lookup_escape_entry_iff [OF ok] cpueaxh_lookup_escape_entry_iff [OF ok']
      using that es by auto
    then show ?thesis by (metis not_Some_eq)
  qed
  moreover have "cpueaxh_lookup_escape_entry e' k = Some ?x"
    unfolding cpueaxh_lookup_escape_entry_iff [OF ok'] es by simp
  ultimately show "cpueaxh_lookup_escape_entry e k = None \<and>
      (\<exists>x. cpueaxh_lookup_escape_entry e' k = Some x \<and> es_callback x = callback \<and>
           es_begin x = b \<and> es_end x = n \<and> out = Some (es_handle x)) \<and>
      (\<forall>j. j \<noteq> k \<longrightarrow> cpueaxh_lookup_escape_entry e' j = cpueaxh_lookup_escape_entry e j)"
    using cases e by auto
qed

end
