(* ===== verification/CpuMemory.thy ===== *)
theory CpuMemory
  imports Engine
begin

text \<open>
  The CPU's view of memory (\<^verbatim>\<open>cpu/memory.hpp\<close>): resolving an access with permission and
  privilege checks, page faults and the invalid-access hooks that may repair one, contiguous
  pointers, little-endian reads and writes of 1, 2, 4 and 8 bytes, and the read-modify-write
  operations behind the \<^verbatim>\<open>LOCK\<close> prefix.

  A null pointer is 0. The context's memory manager and owner engine are those of the engine the
  context is part of. \<^verbatim>\<open>cpu_get_contiguous_ptr\<close> calls itself again when a hook claims to have
  repaired a split range, and the read-modify-write loop repeats until the memory is unchanged
  between read and exchange; both may run forever with unhelpful callbacks, so they are partial
  functions whose value \<open>None\<close> means that they do not return. Other threads of the process are
  not modelled: the interlocked exchange is one step of the sequential model.
\<close>

unbundle bit_operations_syntax

subsection \<open>Page faults\<close>

definition cpu_make_page_fault_error :: "CPU_CONTEXT \<Rightarrow> u32 \<Rightarrow> bool \<Rightarrow> u32" where
  "cpu_make_page_fault_error ctx access protection_violation =
     (let error_code = (if protection_violation then 0x1 else 0x0);
          error_code = (if access = MM_PROT_WRITE then error_code OR 0x2 else error_code);
          error_code = (if cpl ctx = 3 then error_code OR 0x4 else error_code);
          error_code = (if access = MM_PROT_EXEC then error_code OR 0x10 else error_code)
      in error_code)"

definition cpu_raise_page_fault :: "CPU_CONTEXT \<Rightarrow> u64 \<Rightarrow> u32 \<Rightarrow> bool \<Rightarrow> CPU_CONTEXT" where
  "cpu_raise_page_fault ctx fault_address access protection_violation =
     (let ctx1 = ctx\<lparr>control_regs := (control_regs ctx)(REG_CR2 := fault_address)\<rparr>
      in cpu_raise_exception ctx1 CPU_EXCEPTION_PF
           (cpu_make_page_fault_error ctx1 access protection_violation))"

definition engine_page_fault :: "cpueaxh_engine \<Rightarrow> u64 \<Rightarrow> u32 \<Rightarrow> bool \<Rightarrow> cpueaxh_engine" where
  "engine_page_fault e a access prot = e\<lparr>cpu_ctx := cpu_raise_page_fault (cpu_ctx e) a access prot\<rparr>"

definition cpu_get_invalid_memory_hook_type :: "u32 \<Rightarrow> bool \<Rightarrow> u32" where
  "cpu_get_invalid_memory_hook_type access protection_violation =
     (if protection_violation
      then if access = MM_PROT_WRITE then CPUEAXH_HOOK_MEM_WRITE_PROT
           else if access = MM_PROT_EXEC then CPUEAXH_HOOK_MEM_FETCH_PROT
           else CPUEAXH_HOOK_MEM_READ_PROT
      else if access = MM_PROT_WRITE then CPUEAXH_HOOK_MEM_WRITE_UNMAPPED
      else if access = MM_PROT_EXEC then CPUEAXH_HOOK_MEM_FETCH_UNMAPPED
      else CPUEAXH_HOOK_MEM_READ_UNMAPPED)"

definition cpu_try_handle_invalid_memory_access ::
  "callbacks \<Rightarrow> cpueaxh_engine \<Rightarrow> u64 \<Rightarrow> u32 \<Rightarrow> bool \<Rightarrow> u64 \<Rightarrow> u64 \<Rightarrow> bool \<times> cpueaxh_engine" where
  "cpu_try_handle_invalid_memory_access cb e address access protection_violation sz v =
     cpu_notify_invalid_memory_hook cb e
       (cpu_get_invalid_memory_hook_type access protection_violation) address sz v"

definition cpu_page_bytes_remaining :: "u64 \<Rightarrow> nat" where
  "cpu_page_bytes_remaining address =
     unat (CPUEAXH_PAGE_SIZE - (address AND (CPUEAXH_PAGE_SIZE - 1)))"

definition cpu_can_use_page_fast_path :: "cpueaxh_engine \<Rightarrow> bool" where
  "cpu_can_use_page_fast_path e \<longleftrightarrow> patches (memory_manager e) = []"

definition cpu_has_invalid_memory_hooks_for_access :: "cpueaxh_engine \<Rightarrow> u32 \<Rightarrow> bool" where
  "cpu_has_invalid_memory_hooks_for_access e access \<longleftrightarrow>
     cpu_has_hook_type e (cpu_get_invalid_memory_hook_type access False) \<or>
     cpu_has_hook_type e (cpu_get_invalid_memory_hook_type access True)"

subsection \<open>Resolving an access\<close>

text \<open>
  One look at the memory manager: \<open>Inl\<close> the host pointer, or \<open>Inr\<close> the status to report with
  whether the fault is a protection violation.
\<close>

definition resolve_once ::
  "cpueaxh_engine \<Rightarrow> u64 \<Rightarrow> u32 \<Rightarrow> (u64 + MM_ACCESS_STATUS \<times> bool) \<times> cpueaxh_engine" where
  "resolve_once e address access =
     (case mm_get_ptr_checked (memory_manager e) address access of
        (status, ptr, cpu_attrs, m1) \<Rightarrow>
          let e1 = e\<lparr>memory_manager := m1\<rparr>
          in case status of
               MM_ACCESS_UNMAPPED \<Rightarrow> (Inr (MM_ACCESS_UNMAPPED, False), e1)
             | MM_ACCESS_PROT \<Rightarrow> (Inr (MM_ACCESS_PROT, True), e1)
             | MM_ACCESS_OK \<Rightarrow>
                 if cpl (cpu_ctx e1) = 3 \<and> cpu_attrs AND MM_CPU_ATTR_USER = 0
                 then (Inr (MM_ACCESS_PROT, True), e1) else (Inl ptr, e1))"

text \<open>The attempts of the source's loop that are left; a handled fault uses one up.\<close>

fun resolve_attempts ::
  "callbacks \<Rightarrow> cpueaxh_engine \<Rightarrow> u64 \<Rightarrow> u32 \<Rightarrow> u64 \<Rightarrow> u64 \<Rightarrow> u64 \<Rightarrow> nat \<Rightarrow>
   MM_ACCESS_STATUS \<times> u64 \<times> cpueaxh_engine" where
  "resolve_attempts cb e address access raddr rsize rvalue 0 =
     (MM_ACCESS_PROT, 0, engine_page_fault e address access True)"
| "resolve_attempts cb e address access raddr rsize rvalue (Suc n) =
     (case resolve_once e address access of
        (Inl ptr, e1) \<Rightarrow> (MM_ACCESS_OK, ptr, e1)
      | (Inr (status, prot), e1) \<Rightarrow>
          (case cpu_try_handle_invalid_memory_access cb e1 raddr access prot rsize rvalue of
             (True, e2) \<Rightarrow> resolve_attempts cb e2 address access raddr rsize rvalue n
           | (False, e2) \<Rightarrow> (status, 0, engine_page_fault e2 address access prot)))"

definition cpu_resolve_memory_access ::
  "callbacks \<Rightarrow> cpueaxh_engine \<Rightarrow> u64 \<Rightarrow> u32 \<Rightarrow> u64 \<Rightarrow> u64 \<Rightarrow> u64 \<Rightarrow>
   MM_ACCESS_STATUS \<times> u64 \<times> cpueaxh_engine" where
  "cpu_resolve_memory_access cb e address access reported_address reported_size reported_value =
     (if cpu_has_exception (cpu_ctx e) then (MM_ACCESS_UNMAPPED, 0, e)
      else
        let raddr = (if reported_address = 0 then address else reported_address)
        in case cpu_validate_linear_address (cpu_ctx e) address SEG_DS of
             (False, ctx1) \<Rightarrow> (MM_ACCESS_PROT, 0, e\<lparr>cpu_ctx := ctx1\<rparr>)
           | (True, _) \<Rightarrow>
               if \<not> cpu_has_invalid_memory_hooks_for_access e access
               then case resolve_once e address access of
                      (Inl ptr, e1) \<Rightarrow> (MM_ACCESS_OK, ptr, e1)
                    | (Inr (status, prot), e1) \<Rightarrow>
                        (status, 0, engine_page_fault e1 address access prot)
               else resolve_attempts cb e address access raddr reported_size reported_value 4)"

subsection \<open>Bytes\<close>

definition notify_if_hooked ::
  "callbacks \<Rightarrow> cpueaxh_engine \<Rightarrow> u32 \<Rightarrow> u64 \<Rightarrow> u64 \<Rightarrow> u64 \<Rightarrow> cpueaxh_engine" where
  "notify_if_hooked cb e type address sz v =
     (if cpu_has_hook_type e type then cpu_notify_memory_hook cb e type address sz v else e)"

definition engine_store :: "cpueaxh_engine \<Rightarrow> u64 \<Rightarrow> u8 \<Rightarrow> cpueaxh_engine" where
  "engine_store e p v = e\<lparr>host_state := store_byte (host_state e) p v\<rparr>"

definition read_memory_byte :: "callbacks \<Rightarrow> cpueaxh_engine \<Rightarrow> u64 \<Rightarrow> u8 \<times> cpueaxh_engine" where
  "read_memory_byte cb e address =
     (case cpu_resolve_memory_access cb e address MM_PROT_READ address 1 0 of
        (status, ptr, e1) \<Rightarrow>
          if status \<noteq> MM_ACCESS_OK then (0, e1)
          else
            let v = hmem (host_state e1) ptr
            in (v, notify_if_hooked cb e1 CPUEAXH_HOOK_MEM_READ address 1 (ucast v)))"

definition write_memory_byte :: "callbacks \<Rightarrow> cpueaxh_engine \<Rightarrow> u64 \<Rightarrow> u8 \<Rightarrow> cpueaxh_engine" where
  "write_memory_byte cb e address v =
     (case cpu_resolve_memory_access cb e address MM_PROT_WRITE address 1 (ucast v) of
        (status, ptr, e1) \<Rightarrow>
          if status \<noteq> MM_ACCESS_OK then e1
          else engine_store (notify_if_hooked cb e1 CPUEAXH_HOOK_MEM_WRITE address 1 (ucast v)) ptr v)"

subsection \<open>Contiguous pointers\<close>

text \<open>
  One pass over the range gives the base pointer (0 when an access faulted) or the first address
  whose host byte does not follow the base.
\<close>

datatype contiguous = Contiguous u64 | Split u64

lemma cpu_page_bytes_remaining_pos: "0 < cpu_page_bytes_remaining a"
proof -
  have "a AND (CPUEAXH_PAGE_SIZE - 1) = take_bit 12 a"
    by (simp add: CPUEAXH_PAGE_SIZE_def take_bit_eq_mask mask_eq_exp_minus_1)
  moreover have "unat (take_bit 12 a) < 4096"
    by (simp only: unsigned_take_bit_eq) (simp add: take_bit_eq_mod)
  ultimately have "a AND (CPUEAXH_PAGE_SIZE - 1) < CPUEAXH_PAGE_SIZE"
    by (simp add: word_less_nat_alt CPUEAXH_PAGE_SIZE_def)
  then show ?thesis
    by (simp add: cpu_page_bytes_remaining_def unat_gt_0)
qed

lemma page_step_less:
  "offset < sz \<Longrightarrow> sz - (offset + min (cpu_page_bytes_remaining a) (sz - offset)) < sz - offset"
  using cpu_page_bytes_remaining_pos [of a] by (simp add: min_def) linarith

function contiguous_pages ::
  "callbacks \<Rightarrow> u64 \<Rightarrow> nat \<Rightarrow> u32 \<Rightarrow> u64 \<Rightarrow> cpueaxh_engine \<Rightarrow> u64 \<Rightarrow> nat \<Rightarrow>
   contiguous \<times> cpueaxh_engine" where
  "contiguous_pages cb address sz access v e base_ptr offset =
     (if offset < sz
      then let current_address = address + of_nat offset
           in case cpu_resolve_memory_access cb e current_address access address (of_nat sz) v of
                (status, page_ptr, e1) \<Rightarrow>
                  if status \<noteq> MM_ACCESS_OK then (Contiguous 0, e1)
                  else if base_ptr \<noteq> 0 \<and> page_ptr \<noteq> base_ptr + of_nat offset
                  then (Split current_address, e1)
                  else contiguous_pages cb address sz access v e1
                         (if base_ptr = 0 then page_ptr else base_ptr)
                         (offset + min (cpu_page_bytes_remaining current_address) (sz - offset))
      else (Contiguous base_ptr, e))"
  by pat_completeness auto
termination
  by (relation "measure (\<lambda>(cb, address, sz, access, v, e, base_ptr, offset). sz - offset)")
     (auto simp: page_step_less)

declare contiguous_pages.simps [simp del]

fun contiguous_bytes ::
  "callbacks \<Rightarrow> u64 \<Rightarrow> nat \<Rightarrow> u32 \<Rightarrow> u64 \<Rightarrow> u64 \<Rightarrow> nat list \<Rightarrow> cpueaxh_engine \<Rightarrow>
   contiguous \<times> cpueaxh_engine" where
  "contiguous_bytes cb address sz access v base_ptr [] e = (Contiguous base_ptr, e)"
| "contiguous_bytes cb address sz access v base_ptr (offset # rest) e =
     (case cpu_resolve_memory_access cb e (address + of_nat offset) access address (of_nat sz) v of
        (status, next_ptr, e1) \<Rightarrow>
          if status \<noteq> MM_ACCESS_OK then (Contiguous 0, e1)
          else if next_ptr \<noteq> base_ptr + of_nat offset then (Split (address + of_nat offset), e1)
          else contiguous_bytes cb address sz access v base_ptr rest e1)"

definition contiguous_once ::
  "callbacks \<Rightarrow> cpueaxh_engine \<Rightarrow> u64 \<Rightarrow> nat \<Rightarrow> u32 \<Rightarrow> u64 \<Rightarrow> contiguous \<times> cpueaxh_engine" where
  "contiguous_once cb e address sz access v =
     (if sz = 0 \<or> cpu_has_exception (cpu_ctx e) then (Contiguous 0, e)
      else if cpu_can_use_page_fast_path e
      then if cpu_page_bytes_remaining address \<ge> sz
           then case cpu_resolve_memory_access cb e address access address (of_nat sz) v of
                  (status, ptr, e1) \<Rightarrow>
                    (Contiguous (if status \<noteq> MM_ACCESS_OK then 0 else ptr), e1)
           else contiguous_pages cb address sz access v e 0 0
      else
        case cpu_resolve_memory_access cb e address access address (of_nat sz) v of
          (status, base_ptr, e1) \<Rightarrow>
            if status \<noteq> MM_ACCESS_OK then (Contiguous 0, e1)
            else contiguous_bytes cb address sz access v base_ptr [1..<sz] e1)"

text \<open>\<^verbatim>\<open>cpu_get_contiguous_ptr_impl\<close> with \<^verbatim>\<open>fault_on_split\<close> false and true.\<close>

definition cpu_try_get_contiguous_ptr ::
  "callbacks \<Rightarrow> cpueaxh_engine \<Rightarrow> u64 \<Rightarrow> nat \<Rightarrow> u32 \<Rightarrow> u64 \<Rightarrow> u64 \<times> cpueaxh_engine" where
  "cpu_try_get_contiguous_ptr cb e address sz access v =
     (case contiguous_once cb e address sz access v of
        (Contiguous ptr, e1) \<Rightarrow> (ptr, e1)
      | (Split _, e1) \<Rightarrow> (0, e1))"

partial_function (option) cpu_get_contiguous_ptr ::
  "callbacks \<Rightarrow> cpueaxh_engine \<Rightarrow> u64 \<Rightarrow> nat \<Rightarrow> u32 \<Rightarrow> u64 \<Rightarrow> (u64 \<times> cpueaxh_engine) option" where
  "cpu_get_contiguous_ptr cb e address sz access v =
     (let r = contiguous_once cb e address sz access v
      in case fst r of
           Contiguous ptr \<Rightarrow> Some (ptr, snd r)
         | Split current_address \<Rightarrow>
             let t = cpu_try_handle_invalid_memory_access cb (snd r) address access True (of_nat sz) v
             in if fst t then cpu_get_contiguous_ptr cb (snd t) address sz access v
                else Some (0, engine_page_fault (snd t) current_address access True))"

definition get_memory_write_ptr ::
  "callbacks \<Rightarrow> cpueaxh_engine \<Rightarrow> u64 \<Rightarrow> nat \<Rightarrow> (u64 \<times> cpueaxh_engine) option" where
  "get_memory_write_ptr cb e address sz = cpu_get_contiguous_ptr cb e address sz MM_PROT_WRITE 0"

definition cpu_is_host_write_passthrough :: "cpueaxh_engine \<Rightarrow> bool" where
  "cpu_is_host_write_passthrough e = mm_has_host_passthrough (memory_manager e) MM_PROT_WRITE"

subsection \<open>Little-endian values\<close>

fun le_load :: "u8 list \<Rightarrow> u64" where
  "le_load [] = 0"
| "le_load (b # bs) = ucast b OR push_bit 8 (le_load bs)"

fun le_store :: "nat \<Rightarrow> u64 \<Rightarrow> u8 list" where
  "le_store 0 v = []"
| "le_store (Suc n) v = ucast (v AND 0xFF) # le_store n (drop_bit 8 v)"

fun resolve_each ::
  "callbacks \<Rightarrow> u64 \<Rightarrow> nat \<Rightarrow> u32 \<Rightarrow> u64 \<Rightarrow> nat list \<Rightarrow> cpueaxh_engine \<Rightarrow>
   u64 list option \<times> cpueaxh_engine" where
  "resolve_each cb address sz access v [] e = (Some [], e)"
| "resolve_each cb address sz access v (offset # rest) e =
     (case cpu_resolve_memory_access cb e (address + of_nat offset) access address (of_nat sz) v of
        (status, ptr, e1) \<Rightarrow>
          if status \<noteq> MM_ACCESS_OK then (None, e1)
          else case resolve_each cb address sz access v rest e1 of
                 (None, e2) \<Rightarrow> (None, e2)
               | (Some ps, e2) \<Rightarrow> (Some (ptr # ps), e2))"

text \<open>The byte-wise read fetches each byte right after its access is resolved.\<close>

fun read_each ::
  "callbacks \<Rightarrow> u64 \<Rightarrow> nat \<Rightarrow> nat list \<Rightarrow> cpueaxh_engine \<Rightarrow> u8 list option \<times> cpueaxh_engine" where
  "read_each cb address sz [] e = (Some [], e)"
| "read_each cb address sz (offset # rest) e =
     (case cpu_resolve_memory_access cb e (address + of_nat offset) MM_PROT_READ address (of_nat sz) 0 of
        (status, ptr, e1) \<Rightarrow>
          if status \<noteq> MM_ACCESS_OK then (None, e1)
          else case read_each cb address sz rest e1 of
                 (None, e2) \<Rightarrow> (None, e2)
               | (Some bs, e2) \<Rightarrow> (Some (hmem (host_state e1) ptr # bs), e2))"

definition host_bytes :: "cpueaxh_engine \<Rightarrow> u64 \<Rightarrow> nat \<Rightarrow> u8 list" where
  "host_bytes e ptr n = map (\<lambda>i. hmem (host_state e) (ptr + of_nat i)) [0..<n]"

text \<open>The common body of \<^verbatim>\<open>read_memory_word\<close>, \<^verbatim>\<open>read_memory_dword\<close> and \<^verbatim>\<open>read_memory_qword\<close>.\<close>

definition read_memory_le :: "callbacks \<Rightarrow> cpueaxh_engine \<Rightarrow> u64 \<Rightarrow> nat \<Rightarrow> u64 \<times> cpueaxh_engine" where
  "read_memory_le cb e address n =
     (if cpu_has_exception (cpu_ctx e) then (0, e)
      else
        case cpu_try_get_contiguous_ptr cb e address n MM_PROT_READ 0 of
          (ptr, e1) \<Rightarrow>
            if ptr \<noteq> 0
            then let v = le_load (host_bytes e1 ptr n)
                 in (v, notify_if_hooked cb e1 CPUEAXH_HOOK_MEM_READ address (of_nat n) v)
            else
              case read_each cb address n [0..<n] e1 of
                (None, e2) \<Rightarrow> (0, e2)
              | (Some bs, e2) \<Rightarrow>
                  let v = le_load bs
                  in (v, notify_if_hooked cb e2 CPUEAXH_HOOK_MEM_READ address (of_nat n) v))"

definition read_memory_word :: "callbacks \<Rightarrow> cpueaxh_engine \<Rightarrow> u64 \<Rightarrow> u16 \<times> cpueaxh_engine" where
  "read_memory_word cb e address = (case read_memory_le cb e address 2 of (v, e1) \<Rightarrow> (ucast v, e1))"

definition read_memory_dword :: "callbacks \<Rightarrow> cpueaxh_engine \<Rightarrow> u64 \<Rightarrow> u32 \<times> cpueaxh_engine" where
  "read_memory_dword cb e address = (case read_memory_le cb e address 4 of (v, e1) \<Rightarrow> (ucast v, e1))"

definition read_memory_qword :: "callbacks \<Rightarrow> cpueaxh_engine \<Rightarrow> u64 \<Rightarrow> u64 \<times> cpueaxh_engine" where
  "read_memory_qword cb e address = read_memory_le cb e address 8"

text \<open>The common body of the three writers: resolve everything, notify, then store.\<close>

definition store_at :: "cpueaxh_engine \<Rightarrow> u64 list \<Rightarrow> u8 list \<Rightarrow> cpueaxh_engine" where
  "store_at e ptrs bs = foldl (\<lambda>e (p, b). engine_store e p b) e (zip ptrs bs)"

definition write_memory_le ::
  "callbacks \<Rightarrow> cpueaxh_engine \<Rightarrow> u64 \<Rightarrow> nat \<Rightarrow> u64 \<Rightarrow> cpueaxh_engine" where
  "write_memory_le cb e address n v =
     (if cpu_has_exception (cpu_ctx e) then e
      else
        case cpu_try_get_contiguous_ptr cb e address n MM_PROT_WRITE v of
          (ptr, e1) \<Rightarrow>
            if ptr \<noteq> 0
            then store_at (notify_if_hooked cb e1 CPUEAXH_HOOK_MEM_WRITE address (of_nat n) v)
                   (map (\<lambda>i. ptr + of_nat i) [0..<n]) (le_store n v)
            else
              case resolve_each cb address n MM_PROT_WRITE v [0..<n] e1 of
                (None, e2) \<Rightarrow> e2
              | (Some ptrs, e2) \<Rightarrow>
                  store_at (notify_if_hooked cb e2 CPUEAXH_HOOK_MEM_WRITE address (of_nat n) v)
                    ptrs (le_store n v))"

definition write_memory_word :: "callbacks \<Rightarrow> cpueaxh_engine \<Rightarrow> u64 \<Rightarrow> u16 \<Rightarrow> cpueaxh_engine" where
  "write_memory_word cb e address v = write_memory_le cb e address 2 (ucast v)"

definition write_memory_dword :: "callbacks \<Rightarrow> cpueaxh_engine \<Rightarrow> u64 \<Rightarrow> u32 \<Rightarrow> cpueaxh_engine" where
  "write_memory_dword cb e address v = write_memory_le cb e address 4 (ucast v)"

definition write_memory_qword :: "callbacks \<Rightarrow> cpueaxh_engine \<Rightarrow> u64 \<Rightarrow> u64 \<Rightarrow> cpueaxh_engine" where
  "write_memory_qword cb e address v = write_memory_le cb e address 8 v"

subsection \<open>Checked reads and operands\<close>

text \<open>The result structs of the checked reads as pairs of \<^verbatim>\<open>ok\<close> and \<^verbatim>\<open>value\<close>.\<close>

definition checked_read ::
  "(cpueaxh_engine \<Rightarrow> 'a :: len word \<times> cpueaxh_engine) \<Rightarrow> cpueaxh_engine \<Rightarrow>
   bool \<times> 'a word \<times> cpueaxh_engine" where
  "checked_read rd e =
     (if cpu_has_exception (cpu_ctx e) then (False, 0, e)
      else case rd e of (v, e1) \<Rightarrow> (\<not> cpu_has_exception (cpu_ctx e1), v, e1))"

definition read_memory_byte_checked ::
  "callbacks \<Rightarrow> cpueaxh_engine \<Rightarrow> u64 \<Rightarrow> bool \<times> u8 \<times> cpueaxh_engine" where
  "read_memory_byte_checked cb e address = checked_read (\<lambda>e. read_memory_byte cb e address) e"

definition read_memory_word_checked ::
  "callbacks \<Rightarrow> cpueaxh_engine \<Rightarrow> u64 \<Rightarrow> bool \<times> u16 \<times> cpueaxh_engine" where
  "read_memory_word_checked cb e address = checked_read (\<lambda>e. read_memory_word cb e address) e"

definition read_memory_dword_checked ::
  "callbacks \<Rightarrow> cpueaxh_engine \<Rightarrow> u64 \<Rightarrow> bool \<times> u32 \<times> cpueaxh_engine" where
  "read_memory_dword_checked cb e address = checked_read (\<lambda>e. read_memory_dword cb e address) e"

definition read_memory_qword_checked ::
  "callbacks \<Rightarrow> cpueaxh_engine \<Rightarrow> u64 \<Rightarrow> bool \<times> u64 \<times> cpueaxh_engine" where
  "read_memory_qword_checked cb e address = checked_read (\<lambda>e. read_memory_qword cb e address) e"

definition engine_ud :: "cpueaxh_engine \<Rightarrow> cpueaxh_engine" where
  "engine_ud e = e\<lparr>cpu_ctx := raise_ud_ctx (cpu_ctx e)\<rparr>"

definition cpu_memory_operand_mask :: "cpueaxh_engine \<Rightarrow> int \<Rightarrow> u64 \<times> cpueaxh_engine" where
  "cpu_memory_operand_mask e operand_size =
     (if operand_size = 8 then (0xFF, e)
      else if operand_size = 16 then (0xFFFF, e)
      else if operand_size = 32 then (0xFFFFFFFF, e)
      else if operand_size = 64 then (0xFFFFFFFFFFFFFFFF, e)
      else (0, engine_ud e))"

definition read_memory_operand ::
  "callbacks \<Rightarrow> cpueaxh_engine \<Rightarrow> u64 \<Rightarrow> int \<Rightarrow> u64 \<times> cpueaxh_engine" where
  "read_memory_operand cb e address operand_size =
     (if operand_size = 8 then (case read_memory_byte cb e address of (v, e1) \<Rightarrow> (ucast v, e1))
      else if operand_size = 16 then (case read_memory_word cb e address of (v, e1) \<Rightarrow> (ucast v, e1))
      else if operand_size = 32 then (case read_memory_dword cb e address of (v, e1) \<Rightarrow> (ucast v, e1))
      else if operand_size = 64 then read_memory_qword cb e address
      else (0, engine_ud e))"

definition read_memory_operand_checked ::
  "callbacks \<Rightarrow> cpueaxh_engine \<Rightarrow> u64 \<Rightarrow> int \<Rightarrow> bool \<times> u64 \<times> cpueaxh_engine" where
  "read_memory_operand_checked cb e address operand_size =
     (if operand_size = 8
      then (case read_memory_byte_checked cb e address of (ok, v, e1) \<Rightarrow> (ok, ucast v, e1))
      else if operand_size = 16
      then (case read_memory_word_checked cb e address of (ok, v, e1) \<Rightarrow> (ok, ucast v, e1))
      else if operand_size = 32
      then (case read_memory_dword_checked cb e address of (ok, v, e1) \<Rightarrow> (ok, ucast v, e1))
      else if operand_size = 64 then read_memory_qword_checked cb e address
      else (False, 0, engine_ud e))"

definition write_memory_operand ::
  "callbacks \<Rightarrow> cpueaxh_engine \<Rightarrow> u64 \<Rightarrow> int \<Rightarrow> u64 \<Rightarrow> cpueaxh_engine" where
  "write_memory_operand cb e address operand_size v =
     (if operand_size = 8 then write_memory_byte cb e address (ucast v)
      else if operand_size = 16 then write_memory_word cb e address (ucast v)
      else if operand_size = 32 then write_memory_dword cb e address (ucast v)
      else if operand_size = 64 then write_memory_qword cb e address v
      else engine_ud e)"

subsection \<open>Read-modify-write\<close>

text \<open>
  The interlocked exchange of \<open>n\<close> bytes at a host address: the old value, and the desired one
  stored where the old one is the expected one.
\<close>

definition interlocked_compare_exchange ::
  "cpueaxh_engine \<Rightarrow> u64 \<Rightarrow> nat \<Rightarrow> u64 \<Rightarrow> u64 \<Rightarrow> u64 \<times> cpueaxh_engine" where
  "interlocked_compare_exchange e ptr n desired expected =
     (let old = le_load (host_bytes e ptr n)
      in (old, if old = le_load (le_store n expected)
               then store_at e (map (\<lambda>i. ptr + of_nat i) [0..<n]) (le_store n desired) else e))"

text \<open>Result: success, the value stored through \<^verbatim>\<open>previous_value\<close> if any, the engine.\<close>

definition cpu_atomic_compare_exchange_memory ::
  "callbacks \<Rightarrow> cpueaxh_engine \<Rightarrow> u64 \<Rightarrow> int \<Rightarrow> u64 \<Rightarrow> u64 \<Rightarrow>
   (bool \<times> u64 option \<times> cpueaxh_engine) option" where
  "cpu_atomic_compare_exchange_memory cb e address operand_size expected_value desired_value =
     (case get_memory_write_ptr cb e address (nat (operand_size div 8)) of
        None \<Rightarrow> None
      | Some (ptr, e1) \<Rightarrow>
          Some (if ptr = 0 then (False, None, e1)
                else if operand_size \<notin> {8, 16, 32, 64} then (False, None, engine_ud e1)
                else
                  case interlocked_compare_exchange e1 ptr (nat (operand_size div 8))
                         desired_value expected_value of
                    (old, e2) \<Rightarrow>
                      let omask = fst (cpu_memory_operand_mask e2 operand_size);
                          old_value = old AND omask
                      in (old_value = expected_value AND omask, Some old_value, e2)))"

partial_function (option) cpu_atomic_rmw_loop ::
  "callbacks \<Rightarrow> u64 \<Rightarrow> int \<Rightarrow> (u64 \<Rightarrow> u64) \<Rightarrow> u64 \<Rightarrow> u64 \<Rightarrow> cpueaxh_engine \<Rightarrow>
   ((u64 \<times> u64) option \<times> cpueaxh_engine) option" where
  "cpu_atomic_rmw_loop cb address operand_size f omask current_value e =
     (let desired_value = f current_value AND omask
      in case cpu_atomic_compare_exchange_memory cb e address operand_size current_value desired_value of
           None \<Rightarrow> None
         | Some r \<Rightarrow>
             let e1 = snd (snd r)
             in if \<not> fst r
                then if cpu_has_exception (cpu_ctx e1) then Some (None, e1)
                     else cpu_atomic_rmw_loop cb address operand_size f omask
                            ((case fst (snd r) of None \<Rightarrow> 0 | Some x \<Rightarrow> x) AND omask) e1
                else Some (Some (current_value, desired_value), e1))"

definition cpu_atomic_rmw_memory ::
  "callbacks \<Rightarrow> cpueaxh_engine \<Rightarrow> u64 \<Rightarrow> int \<Rightarrow> (u64 \<Rightarrow> u64) \<Rightarrow>
   ((u64 \<times> u64) option \<times> cpueaxh_engine) option" where
  "cpu_atomic_rmw_memory cb e address operand_size f =
     (case cpu_memory_operand_mask e operand_size of
        (omask, e1) \<Rightarrow>
          case read_memory_operand_checked cb e1 address operand_size of
            (ok, v, e2) \<Rightarrow>
              if \<not> ok then Some (None, e2)
              else cpu_atomic_rmw_loop cb address operand_size f omask (v AND omask) e2)"

definition cpu_atomic_add_memory where
  "cpu_atomic_add_memory cb e address operand_size operand =
     cpu_atomic_rmw_memory cb e address operand_size (\<lambda>current_value. current_value + operand)"
definition cpu_atomic_sub_memory where
  "cpu_atomic_sub_memory cb e address operand_size operand =
     cpu_atomic_rmw_memory cb e address operand_size (\<lambda>current_value. current_value - operand)"
definition cpu_atomic_and_memory where
  "cpu_atomic_and_memory cb e address operand_size operand =
     cpu_atomic_rmw_memory cb e address operand_size (\<lambda>current_value. current_value AND operand)"
definition cpu_atomic_or_memory where
  "cpu_atomic_or_memory cb e address operand_size operand =
     cpu_atomic_rmw_memory cb e address operand_size (\<lambda>current_value. current_value OR operand)"
definition cpu_atomic_xor_memory where
  "cpu_atomic_xor_memory cb e address operand_size operand =
     cpu_atomic_rmw_memory cb e address operand_size (\<lambda>current_value. current_value XOR operand)"
definition cpu_atomic_exchange_memory where
  "cpu_atomic_exchange_memory cb e address operand_size desired_value =
     cpu_atomic_rmw_memory cb e address operand_size (\<lambda>_. desired_value)"

end
