(* ===== verification/CpuMemorySpec.thy ===== *)
theory CpuMemorySpec
  imports CpuMemory
begin

text \<open>
  What the CPU's memory accesses promise when no hook is registered. The reference semantics of a
  byte access is \<open>grant\<close>: the host address it reaches, or nothing. The theory shows that
  resolving an access gives the granted address or raises the page fault of the right kind,
  that a multi-byte write happens completely or not at all, that a read returns the bytes in
  little-endian order, and that reading back what was written gives the value.
\<close>

unbundle bit_operations_syntax

subsection \<open>Reference semantics of an access\<close>

definition quiet :: "cpueaxh_engine \<Rightarrow> bool" where
  "quiet e \<longleftrightarrow> (\<forall>t. hook_type_counts e t = 0)"

definition linear_ok :: "cpueaxh_engine \<Rightarrow> u64 \<Rightarrow> bool" where
  "linear_ok e a \<longleftrightarrow> \<not> cpu_uses_canonical_addresses (cpu_ctx e) \<or> cpu_is_canonical_address a"

definition access_outcome :: "u8 \<Rightarrow> MM_ACCESS_STATUS \<times> u64 \<times> u32 \<Rightarrow> u64 + MM_ACCESS_STATUS \<times> bool" where
  "access_outcome level = (\<lambda>(st, ptr, attrs).
     case st of
       MM_ACCESS_UNMAPPED \<Rightarrow> Inr (MM_ACCESS_UNMAPPED, False)
     | MM_ACCESS_PROT \<Rightarrow> Inr (MM_ACCESS_PROT, True)
     | MM_ACCESS_OK \<Rightarrow>
         if level = 3 \<and> attrs AND MM_CPU_ATTR_USER = 0
         then Inr (MM_ACCESS_PROT, True) else Inl ptr)"

definition access_result :: "cpueaxh_engine \<Rightarrow> u64 \<Rightarrow> u32 \<Rightarrow> u64 + MM_ACCESS_STATUS \<times> bool" where
  "access_result e a perm =
     access_outcome (cpl (cpu_ctx e)) (mm_access (memory_manager e) a perm)"

definition grant :: "cpueaxh_engine \<Rightarrow> u64 \<Rightarrow> u32 \<Rightarrow> u64 option" where
  "grant e a perm =
     (if linear_ok e a then (case access_result e a perm of Inl p \<Rightarrow> Some p | Inr _ \<Rightarrow> None) else None)"

text \<open>An access may fill the page cache and nothing else.\<close>

definition cache_only :: "cpueaxh_engine \<Rightarrow> cpueaxh_engine \<Rightarrow> bool" where
  "cache_only e e' \<longleftrightarrow>
     (\<exists>pc. e' = e\<lparr>memory_manager := (memory_manager e)\<lparr>page_cache := pc\<rparr>\<rparr>) \<and>
     mm_ok (memory_manager e')"

text \<open>A faulted access has changed, beside the cache, only the pending exception and \<^verbatim>\<open>CR2\<close>.\<close>

definition faulted :: "cpueaxh_engine \<Rightarrow> cpueaxh_engine \<Rightarrow> bool" where
  "faulted e e' \<longleftrightarrow> cpu_has_exception (cpu_ctx e') \<and>
     (\<exists>pc cr ex. e' = e\<lparr>memory_manager := (memory_manager e)\<lparr>page_cache := pc\<rparr>,
                       cpu_ctx := (cpu_ctx e)\<lparr>control_regs := (control_regs (cpu_ctx e))(REG_CR2 := cr),
                                              exception_state := ex\<rparr>\<rparr>)"

lemma quiet_no_hook [simp]: "quiet e \<Longrightarrow> \<not> cpu_has_hook_type e t"
  by (simp add: quiet_def cpu_has_hook_type_def)

lemma cache_only_refl [simp]: "mm_ok (memory_manager e) \<Longrightarrow> cache_only e e"
  unfolding cache_only_def by (intro conjI exI [of _ "page_cache (memory_manager e)"]) simp_all

lemma cache_only_trans [trans]: "cache_only e1 e2 \<Longrightarrow> cache_only e2 e3 \<Longrightarrow> cache_only e1 e3"
  by (auto simp: cache_only_def)

lemma cache_only_faulted:
  assumes c: "cache_only e1 e2" and f: "faulted e2 e3"
  shows "faulted e1 e3"
proof -
  obtain pc where e2: "e2 = e1\<lparr>memory_manager := (memory_manager e1)\<lparr>page_cache := pc\<rparr>\<rparr>"
    using c by (auto simp: cache_only_def)
  obtain pc' cr ex where
    e3: "e3 = e2\<lparr>memory_manager := (memory_manager e2)\<lparr>page_cache := pc'\<rparr>,
                 cpu_ctx := (cpu_ctx e2)\<lparr>control_regs := (control_regs (cpu_ctx e2))(REG_CR2 := cr),
                                         exception_state := ex\<rparr>\<rparr>"
    using f unfolding faulted_def by blast
  have "e3 = e1\<lparr>memory_manager := (memory_manager e1)\<lparr>page_cache := pc'\<rparr>,
                 cpu_ctx := (cpu_ctx e1)\<lparr>control_regs := (control_regs (cpu_ctx e1))(REG_CR2 := cr),
                                         exception_state := ex\<rparr>\<rparr>"
    by (simp add: e3 e2)
  then show ?thesis using f unfolding faulted_def by blast
qed

lemma cache_onlyD:
  assumes "cache_only e e'"
  shows "cpu_ctx e' = cpu_ctx e" "host_state e' = host_state e" "quiet e' = quiet e"
    "mm_ok (memory_manager e')" "grant e' = grant e" "linear_ok e' = linear_ok e"
    "access_result e' = access_result e" "patches (memory_manager e') = patches (memory_manager e)"
  using assms
  by (auto simp: cache_only_def quiet_def grant_def linear_ok_def access_result_def fun_eq_iff)

lemma faultedD:
  assumes "faulted e e'"
  shows "cpu_has_exception (cpu_ctx e')" "host_state e' = host_state e"
  using assms by (auto simp: faulted_def)

lemma resolve_once_access:
  assumes ok: "mm_ok (memory_manager e)"
  shows "\<exists>e'. resolve_once e a perm = (access_result e a perm, e') \<and> cache_only e e'"
proof -
  obtain st ptr attrs m' where g: "mm_get_ptr_checked (memory_manager e) a perm = (st, ptr, attrs, m')"
    by (metis prod_cases4)
  note f = mm_get_ptr_checked_access [OF ok g]
  have "cache_only e (e\<lparr>memory_manager := m'\<rparr>)" using f by (auto simp: cache_only_def)
  then show ?thesis
    unfolding resolve_once_def access_result_def f(1) [symmetric] g
    by (cases st) (simp_all add: Let_def access_outcome_def)
qed

lemma engine_page_fault_faulted:
  assumes "mm_ok (memory_manager e)"
  shows "faulted e (engine_page_fault e a perm prot)"
proof -
  let ?c = "(cpu_ctx e)\<lparr>control_regs := (control_regs (cpu_ctx e))(REG_CR2 := a)\<rparr>"
  obtain ex where ex: "cpu_raise_exception ?c CPU_EXCEPTION_PF (cpu_make_page_fault_error ?c perm prot) =
      ?c\<lparr>exception_state := ex\<rparr>" using cpu_raise_exception_frame by blast
  have "cpu_has_exception (cpu_raise_exception ?c CPU_EXCEPTION_PF (cpu_make_page_fault_error ?c perm prot))"
    by (simp add: CPU_EXCEPTION_PF_def CPU_EXCEPTION_NONE_def)
  then have "cpu_has_exception (cpu_ctx (engine_page_fault e a perm prot))"
    by (simp add: engine_page_fault_def cpu_raise_page_fault_def Let_def)
  moreover have "engine_page_fault e a perm prot =
      e\<lparr>memory_manager := (memory_manager e)\<lparr>page_cache := page_cache (memory_manager e)\<rparr>,
        cpu_ctx := (cpu_ctx e)\<lparr>control_regs := (control_regs (cpu_ctx e))(REG_CR2 := a),
                               exception_state := ex\<rparr>\<rparr>"
    by (simp add: engine_page_fault_def cpu_raise_page_fault_def Let_def ex)
  ultimately show ?thesis unfolding faulted_def by blast
qed

text \<open>The two outcomes of an access.\<close>

lemma resolve_granted:
  assumes "quiet e" "mm_ok (memory_manager e)" "\<not> cpu_has_exception (cpu_ctx e)"
    and "grant e a perm = Some p"
  shows "\<exists>e'. cpu_resolve_memory_access cb e a perm ra rs rv = (MM_ACCESS_OK, p, e') \<and> cache_only e e'"
proof -
  obtain e1 where r: "resolve_once e a perm = (access_result e a perm, e1)" "cache_only e e1"
    using resolve_once_access [OF assms(2)] by blast
  have "linear_ok e a" "access_result e a perm = Inl p"
    using assms(4) by (auto simp: grant_def split: if_splits sum.splits)
  then show ?thesis
    using r assms(1,3)
    by (simp add: cpu_resolve_memory_access_def cpu_validate_linear_address_def linear_ok_def
        cpu_has_invalid_memory_hooks_for_access_def split: if_splits)
qed

lemma resolve_refused:
  assumes "quiet e" "mm_ok (memory_manager e)" "\<not> cpu_has_exception (cpu_ctx e)"
    and "grant e a perm = None"
  shows "\<exists>st e'. cpu_resolve_memory_access cb e a perm ra rs rv = (st, 0, e') \<and>
    st \<noteq> MM_ACCESS_OK \<and> faulted e e'"
proof (cases "linear_ok e a")
  case True
  obtain e1 where r: "resolve_once e a perm = (access_result e a perm, e1)" "cache_only e e1"
    using resolve_once_access [OF assms(2)] by blast
  obtain st prot where "access_result e a perm = Inr (st, prot)" "st \<noteq> MM_ACCESS_OK"
    using assms(4) True
    by (auto simp: grant_def access_result_def access_outcome_def
        split: if_splits sum.splits prod.splits MM_ACCESS_STATUS.splits)
  moreover have "faulted e (engine_page_fault e1 a perm prot)"
    using cache_only_faulted [OF r(2) engine_page_fault_faulted] cache_onlyD(4) [OF r(2)] by blast
  ultimately show ?thesis
    using r True assms(1,3)
    by (auto simp: cpu_resolve_memory_access_def cpu_validate_linear_address_def linear_ok_def
        cpu_has_invalid_memory_hooks_for_access_def)
next
  case False
  obtain ex where gp: "raise_gp_ctx (cpu_ctx e) 0 = (cpu_ctx e)\<lparr>exception_state := ex\<rparr>"
    using cpu_raise_exception_frame by (metis raise_gp_ctx_def)
  have "cpu_has_exception (raise_gp_ctx (cpu_ctx e) 0)" by simp
  then have "faulted e (e\<lparr>cpu_ctx := raise_gp_ctx (cpu_ctx e) 0\<rparr>)"
    unfolding faulted_def
    by (intro conjI exI [of _ "page_cache (memory_manager e)"]
        exI [of _ "control_regs (cpu_ctx e) REG_CR2"] exI [of _ ex]) (simp_all add: gp)
  then show ?thesis
    using False assms(3)
    by (simp add: cpu_resolve_memory_access_def cpu_validate_linear_address_def linear_ok_def
        cpu_raise_noncanonical_address_def cpu_defs)
qed

lemma resolve_pending:
  "cpu_has_exception (cpu_ctx e) \<Longrightarrow>
   cpu_resolve_memory_access cb e a perm ra rs rv = (MM_ACCESS_UNMAPPED, 0, e)"
  by (simp add: cpu_resolve_memory_access_def)

subsection \<open>Accesses within a page\<close>

lemma cpu_page_bytes_remaining_unat:
  "cpu_page_bytes_remaining a = 4096 - unat a mod 4096"
proof -
  have "a AND (CPUEAXH_PAGE_SIZE - 1) = take_bit 12 a"
    by (simp add: CPUEAXH_PAGE_SIZE_def take_bit_eq_mask mask_eq_exp_minus_1)
  moreover have t: "unat (take_bit 12 a) = unat a mod 4096"
    by (simp only: unsigned_take_bit_eq) (simp add: take_bit_eq_mod)
  moreover have "take_bit 12 a \<le> CPUEAXH_PAGE_SIZE"
    by (simp add: word_le_nat_alt t CPUEAXH_PAGE_SIZE_def)
  ultimately show ?thesis
    by (simp add: cpu_page_bytes_remaining_def unat_diff_le CPUEAXH_PAGE_SIZE_def)
qed

lemma page_offset_arith:
  assumes "(j::nat) < 4096 - n mod 4096"
  shows "(n + j) div 4096 = n div 4096" "(n + j) mod 4096 = n mod 4096 + j"
proof -
  have "n + j = n div 4096 * 4096 + (n mod 4096 + j)" "n mod 4096 + j < 4096"
    using assms by simp_all
  then show "(n + j) div 4096 = n div 4096" "(n + j) mod 4096 = n mod 4096 + j"
    by (metis div_mult_self3 div_less add_0 zero_neq_numeral add.right_neutral,
        metis mod_mult_self3 mod_less)
qed

lemma page_offset_unat:
  assumes "j < cpu_page_bytes_remaining a"
  shows "unat (a + of_nat j) = unat a + j"
proof -
  have j: "j < 4096 - unat a mod 4096" using assms by (simp add: cpu_page_bytes_remaining_unat)
  have "unat a div 4096 < 4503599627370496" using unat64_less [of a] by simp
  then have "unat a div 4096 * 4096 + 4096 \<le> 2 ^ 64" by simp
  moreover have "unat a = unat a div 4096 * 4096 + unat a mod 4096" by simp
  ultimately have "unat a + j < 2 ^ 64" using j by linarith
  moreover have "unat (of_nat j :: u64) = j"
    using j by (simp add: unat_of_nat)
  ultimately show ?thesis by (simp add: unat_word_ariths)
qed

lemma page_offset_align:
  assumes "j < cpu_page_bytes_remaining a"
  shows "align_down_page (a + of_nat j) = align_down_page a"
proof -
  have j: "j < 4096 - unat a mod 4096" using assms by (simp add: cpu_page_bytes_remaining_unat)
  show ?thesis
    by (rule word_unat_eq_iff [THEN iffD2])
      (simp add: align_down_page_unat page_offset_unat [OF assms] page_offset_arith [OF j])
qed

lemma canonical_page:
  "drop_bit 12 a = drop_bit 12 b \<Longrightarrow> cpu_is_canonical_address a = cpu_is_canonical_address b"
proof -
  have "drop_bit 47 a = drop_bit 35 (drop_bit 12 a)" "drop_bit 48 a = drop_bit 36 (drop_bit 12 a)"
    for a :: u64 by (simp_all add: drop_bit_drop_bit)
  then show "drop_bit 12 a = drop_bit 12 b \<Longrightarrow> ?thesis"
    by (simp only: cpu_is_canonical_address_def)
qed

lemma page_offset_canonical:
  assumes "j < cpu_page_bytes_remaining a"
  shows "cpu_is_canonical_address (a + of_nat j) = cpu_is_canonical_address a"
proof (rule canonical_page)
  have j: "j < 4096 - unat a mod 4096" using assms by (simp add: cpu_page_bytes_remaining_unat)
  have "take_bit 64 (unat x) = unat x" for x :: u64
    using unat64_less [of x] by (simp add: take_bit_nat_eq_self_iff)
  then have "unat (drop_bit 12 x) = unat x div 4096" for x :: u64
    by (simp only: unsigned_drop_bit_eq) (simp add: drop_bit_eq_div)
  then show "drop_bit 12 (a + of_nat j) = drop_bit 12 a"
    using page_offset_unat [OF assms] page_offset_arith(1) [OF j]
    by (simp add: word_unat_eq_iff)
qed

text \<open>Without patches the bytes of a page are granted together and lie next to each other.\<close>

lemma grant_page:
  assumes ok: "mm_ok (memory_manager e)" and np: "patches (memory_manager e) = []"
    and j: "j < cpu_page_bytes_remaining a"
  shows "grant e (a + of_nat j) perm = map_option (\<lambda>p. p + of_nat j) (grant e a perm)"
proof -
  let ?m = "memory_manager e" and ?p = "align_down_page a"
  have r: "regions_ok (regions ?m)" using ok by (simp add: mm_ok_def)
  have l: "ai_mapped (mm_lookup ?m (a + of_nat j)) = ai_mapped (mm_lookup ?m a)"
      "ai_perms (mm_lookup ?m (a + of_nat j)) = ai_perms (mm_lookup ?m a)"
      "ai_cpu_attrs (mm_lookup ?m (a + of_nat j)) = ai_cpu_attrs (mm_lookup ?m a)"
    and l3: "ai_mapped (mm_lookup ?m a) \<Longrightarrow>
      ai_ptr (mm_lookup ?m (a + of_nat j)) = ai_ptr (mm_lookup ?m a) + of_nat j"
    using mm_lookup_page [OF r, of a] mm_lookup_page [OF r, of "a + of_nat j"]
    by (simp_all add: Let_def page_offset_align [OF j] algebra_simps split: if_splits)
  have c: "linear_ok e (a + of_nat j) = linear_ok e a"
    by (simp add: linear_ok_def page_offset_canonical [OF j])
  show ?thesis
    unfolding grant_def c access_result_def mm_access_def np Let_def l
    by (simp add: l3 access_outcome_def)
qed

subsection \<open>Contiguous ranges\<close>

definition all_granted :: "cpueaxh_engine \<Rightarrow> u64 \<Rightarrow> nat \<Rightarrow> u32 \<Rightarrow> bool" where
  "all_granted e a n perm \<longleftrightarrow> (\<forall>i<n. grant e (a + of_nat i) perm \<noteq> None)"

text \<open>No byte of the range is at the host's null address.\<close>

definition nonnull :: "cpueaxh_engine \<Rightarrow> u64 \<Rightarrow> nat \<Rightarrow> u32 \<Rightarrow> bool" where
  "nonnull e a n perm \<longleftrightarrow> (\<forall>i<n. grant e (a + of_nat i) perm \<noteq> Some 0)"

definition ready :: "cpueaxh_engine \<Rightarrow> bool" where
  "ready e \<longleftrightarrow> quiet e \<and> mm_ok (memory_manager e) \<and> \<not> cpu_has_exception (cpu_ctx e)"

definition contiguous_outcome ::
  "cpueaxh_engine \<Rightarrow> u64 \<Rightarrow> nat \<Rightarrow> u32 \<Rightarrow> contiguous \<times> cpueaxh_engine \<Rightarrow> bool" where
  "contiguous_outcome e a n perm r \<longleftrightarrow>
     (\<exists>p. fst r = Contiguous p \<and> p \<noteq> 0 \<and> cache_only e (snd r) \<and>
        (\<forall>i<n. grant e (a + of_nat i) perm = Some (p + of_nat i))) \<or>
     (\<exists>x. fst r = Split x) \<and> cache_only e (snd r) \<or>
     fst r = Contiguous 0 \<and> faulted e (snd r) \<and> \<not> all_granted e a n perm"

lemma ready_cache_only: "ready e \<Longrightarrow> cache_only e e' \<Longrightarrow> ready e'"
  by (simp add: ready_def cache_onlyD)

lemma resolve_ready:
  assumes "ready e"
  shows "grant e a perm = Some p \<Longrightarrow>
      \<exists>e'. cpu_resolve_memory_access cb e a perm ra rs rv = (MM_ACCESS_OK, p, e') \<and> cache_only e e'"
    and "grant e a perm = None \<Longrightarrow>
      \<exists>st e'. cpu_resolve_memory_access cb e a perm ra rs rv = (st, 0, e') \<and>
        st \<noteq> MM_ACCESS_OK \<and> faulted e e'"
  using assms resolve_granted resolve_refused by (auto simp: ready_def)

lemma contiguous_outcome_trans:
  assumes c: "cache_only e e1" and r: "contiguous_outcome e1 a n perm r"
  shows "contiguous_outcome e a n perm r"
  using r cache_only_trans [OF c] cache_only_faulted [OF c] cache_onlyD(5) [OF c]
  by (auto simp: contiguous_outcome_def all_granted_def)

lemma contiguous_pages_outcome:
  assumes "ready e" "patches (memory_manager e) = []" "nonnull e a n perm" "0 < n"
    and "offset = 0 \<longleftrightarrow> base = 0"
    and "\<forall>i<offset. grant e (a + of_nat i) perm = Some (base + of_nat i)"
  shows "contiguous_outcome e a n perm (contiguous_pages cb a n perm v e base offset)"
  using assms
proof (induction cb a n perm v e base offset rule: contiguous_pages.induct)
  case (1 cb a n perm v e base offset)
  let ?x = "a + of_nat offset :: u64"
  let ?k = "min (cpu_page_bytes_remaining ?x) (n - offset)"
  show ?case
  proof (cases "offset < n")
    case False
    then show ?thesis
      using "1.prems"
      by (subst contiguous_pages.simps) (auto simp: contiguous_outcome_def ready_def)
  next
    case lt: True
    show ?thesis
    proof (cases "grant e ?x perm")
      case None
      then obtain st e1 where
        res: "cpu_resolve_memory_access cb e ?x perm a (of_nat n) v = (st, 0, e1)"
          "st \<noteq> MM_ACCESS_OK" "faulted e e1" using resolve_ready(2) "1.prems"(1) by metis
      show ?thesis
        by (subst contiguous_pages.simps)
           (use lt res None in \<open>auto simp: contiguous_outcome_def all_granted_def\<close>)
    next
      case (Some q)
      then obtain e1 where
        res: "cpu_resolve_memory_access cb e ?x perm a (of_nat n) v = (MM_ACCESS_OK, q, e1)"
          and c: "cache_only e e1" using resolve_ready(1) "1.prems"(1) by metis
      show ?thesis
      proof (cases "base \<noteq> 0 \<and> q \<noteq> base + of_nat offset")
        case True
        then show ?thesis
          by (subst contiguous_pages.simps)
             (use lt res c in \<open>auto simp: contiguous_outcome_def\<close>)
      next
        case False
        define b where "b = (if base = 0 then q else base)"
        have q0: "q \<noteq> 0" using Some lt "1.prems"(3) by (auto simp: nonnull_def)
        have qb: "q = b + of_nat offset" using False "1.prems"(5) by (auto simp: b_def)
        have k: "0 < ?k" using lt cpu_page_bytes_remaining_pos [of ?x] by simp
        have g: "grant e (a + of_nat i) perm = Some (b + of_nat i)" if i: "i < offset + ?k" for i
        proof (cases "i < offset")
          case True
          then show ?thesis using "1.prems"(5,6) by (auto simp: b_def)
        next
          case ge: False
          then obtain j where j: "i = offset + j" by (metis le_add_diff_inverse not_less)
          have "j < cpu_page_bytes_remaining ?x" using i j by simp
          from grant_page [OF _ "1.prems"(2) this, of perm] Some "1.prems"(1)
          have "grant e (?x + of_nat j) perm = Some (q + of_nat j)" by (simp add: ready_def)
          moreover have "?x + of_nat j = a + of_nat i" by (simp add: j)
          moreover have "q + of_nat j = b + of_nat i" unfolding qb by (simp add: j)
          ultimately show ?thesis by simp
        qed
        have "contiguous_outcome e1 a n perm
            (contiguous_pages cb a n perm v e1 b (offset + ?k))"
          unfolding b_def
        proof (rule "1.IH" [OF lt refl])
          show "\<forall>i<offset + ?k. grant e1 (a + of_nat i) perm =
              Some ((if base = 0 then q else base) + of_nat i)"
            using g [unfolded b_def] by (simp add: cache_onlyD [OF c])
          show "(offset + ?k = 0) = ((if base = 0 then q else base) = 0)" using q0 k by simp
        qed (use res False "1.prems" c in
              \<open>auto simp: cache_onlyD nonnull_def intro: ready_cache_only\<close>)
        from contiguous_outcome_trans [OF c this] show ?thesis
          by (subst contiguous_pages.simps) (use lt res False in \<open>auto simp: b_def Let_def split: if_splits\<close>)
      qed
    qed
  qed
qed

lemma contiguous_bytes_outcome:
  assumes "ready e" "base \<noteq> 0"
  shows "\<exists>c e'. contiguous_bytes cb a n perm v base xs e = (c, e') \<and>
    (c = Contiguous base \<and> cache_only e e' \<and>
       (\<forall>i\<in>set xs. grant e (a + of_nat i) perm = Some (base + of_nat i)) \<or>
     (\<exists>x. c = Split x) \<and> cache_only e e' \<or>
     c = Contiguous 0 \<and> faulted e e' \<and> (\<exists>i\<in>set xs. grant e (a + of_nat i) perm = None))"
  using assms
proof (induction xs arbitrary: e)
  case Nil
  then show ?case by (simp add: ready_def)
next
  case (Cons i xs)
  show ?case
  proof (cases "grant e (a + of_nat i) perm")
    case None
    then obtain st e1 where
      "cpu_resolve_memory_access cb e (a + of_nat i) perm a (of_nat n) v = (st, 0, e1)"
      "st \<noteq> MM_ACCESS_OK" "faulted e e1" using resolve_ready(2) Cons.prems(1) by metis
    then show ?thesis using None by simp
  next
    case (Some q)
    then obtain e1 where
      res: "cpu_resolve_memory_access cb e (a + of_nat i) perm a (of_nat n) v = (MM_ACCESS_OK, q, e1)"
      and c: "cache_only e e1" using resolve_ready(1) Cons.prems(1) by metis
    note IH = Cons.IH [OF ready_cache_only [OF Cons.prems(1) c] Cons.prems(2)]
    show ?thesis
    proof (cases "q = base + of_nat i")
      case True
      with IH Some show ?thesis
        by (auto simp: res cache_onlyD [OF c] intro: cache_only_trans [OF c] cache_only_faulted [OF c])
    qed (use c in \<open>simp add: res\<close>)
  qed
qed

lemma contiguous_once_outcome:
  assumes r: "ready e" and nn: "nonnull e a n perm" and n: "0 < n"
  shows "contiguous_outcome e a n perm (contiguous_once cb e a n perm v)"
proof -
  have ne: "\<not> cpu_has_exception (cpu_ctx e)" using r by (simp add: ready_def)
  have n0: "n \<noteq> 0" using n by simp
  show ?thesis
  proof (cases "cpu_can_use_page_fast_path e \<and> \<not> n \<le> cpu_page_bytes_remaining a")
    case True
    then have "contiguous_outcome e a n perm (contiguous_pages cb a n perm v e 0 0)"
      by (intro contiguous_pages_outcome r nn n) (simp_all add: cpu_can_use_page_fast_path_def)
    then show ?thesis using True n0 ne by (simp add: contiguous_once_def)
  next
    case False
    show ?thesis
    proof (cases "grant e a perm")
      case None
      then have "\<not> all_granted e a n perm" using n by (auto simp: all_granted_def intro: exI [of _ 0])
      moreover obtain st e1 where
        "cpu_resolve_memory_access cb e a perm a (of_nat n) v = (st, 0, e1)"
        "st \<noteq> MM_ACCESS_OK" "faulted e e1" using resolve_ready(2) [OF r None] by metis
      ultimately show ?thesis
        using False n0 ne by (auto simp: contiguous_once_def contiguous_outcome_def)
    next
      case (Some q)
      then obtain e1 where
        res: "cpu_resolve_memory_access cb e a perm a (of_nat n) v = (MM_ACCESS_OK, q, e1)"
        and c: "cache_only e e1" using resolve_ready(1) r by metis
      have q0: "q \<noteq> 0" using Some nn n by (auto simp: nonnull_def dest: spec [of _ 0])
      show ?thesis
      proof (cases "cpu_can_use_page_fast_path e")
        case True
        then have le: "n \<le> cpu_page_bytes_remaining a" using False by simp
        have "grant e (a + of_nat i) perm = Some (q + of_nat i)" if "i < n" for i
          using grant_page [of e i a perm] that le True r Some
          by (simp add: cpu_can_use_page_fast_path_def ready_def)
        then show ?thesis
          using True le n0 ne res c q0 by (simp add: contiguous_once_def contiguous_outcome_def)
      next
        case slow: False
        have ex: "contiguous_once cb e a n perm v = contiguous_bytes cb a n perm v q [1..<n] e1"
          using slow n0 ne res by (simp add: contiguous_once_def)
        have "(\<forall>i<n. P i) \<longleftrightarrow> P 0 \<and> (\<forall>i\<in>set [1..<n]. P i)" for P :: "nat \<Rightarrow> bool"
          using n by (auto simp: Suc_le_eq)
        note all = this
        from contiguous_bytes_outcome [OF ready_cache_only [OF r c] q0, of cb a n perm v "[1..<n]"]
        show ?thesis
          unfolding ex contiguous_outcome_def all_granted_def all cache_onlyD(5) [OF c]
          using Some q0 cache_only_trans [OF c] cache_only_faulted [OF c] by auto
      qed
    qed
  qed
qed

subsection \<open>Reads and writes of several bytes\<close>

text \<open>The byte the guest sees at an address.\<close>

definition guest_byte :: "cpueaxh_engine \<Rightarrow> u32 \<Rightarrow> u64 \<Rightarrow> u8" where
  "guest_byte e perm a = hmem (host_state e) (the (grant e a perm))"

lemma read_each_spec:
  assumes "ready e"
  shows "(\<forall>i\<in>set xs. grant e (a + of_nat i) MM_PROT_READ \<noteq> None) \<Longrightarrow>
      \<exists>e'. read_each cb a n xs e =
        (Some (map (\<lambda>i. guest_byte e MM_PROT_READ (a + of_nat i)) xs), e') \<and> cache_only e e'"
    and "\<not> (\<forall>i\<in>set xs. grant e (a + of_nat i) MM_PROT_READ \<noteq> None) \<Longrightarrow>
      \<exists>e'. read_each cb a n xs e = (None, e') \<and> faulted e e'"
  using assms
proof (induction xs arbitrary: e)
  case Nil
  case 1
  then show ?case by (simp add: ready_def)
next
  case Nil
  case 2
  then show ?case by simp
next
  case (Cons i xs)
  {
    case 1
    then obtain q where q: "grant e (a + of_nat i) MM_PROT_READ = Some q" by auto
    from resolve_ready(1) [OF 1(2) q] obtain e1 where
      res: "cpu_resolve_memory_access cb e (a + of_nat i) MM_PROT_READ a (of_nat n) 0 = (MM_ACCESS_OK, q, e1)"
      and c: "cache_only e e1" by metis
    from Cons.IH(1) [OF _ ready_cache_only [OF 1(2) c]] 1 q show ?case
      by (auto simp: res guest_byte_def cache_onlyD [OF c] intro: cache_only_trans [OF c])
  next
    case 2
    show ?case
    proof (cases "grant e (a + of_nat i) MM_PROT_READ")
      case None
      from resolve_ready(2) [OF 2(2) None] obtain st e1 where
        "cpu_resolve_memory_access cb e (a + of_nat i) MM_PROT_READ a (of_nat n) 0 = (st, 0, e1)"
        "st \<noteq> MM_ACCESS_OK" "faulted e e1" by metis
      then show ?thesis by simp
    next
      case (Some q)
      from resolve_ready(1) [OF 2(2) Some] obtain e1 where
        res: "cpu_resolve_memory_access cb e (a + of_nat i) MM_PROT_READ a (of_nat n) 0 = (MM_ACCESS_OK, q, e1)"
        and c: "cache_only e e1" by metis
      from Cons.IH(2) [OF _ ready_cache_only [OF 2(2) c]] 2 Some show ?thesis
        by (auto simp: res cache_onlyD [OF c] intro: cache_only_faulted [OF c])
    qed
  }
qed

lemma resolve_each_spec:
  assumes "ready e"
  shows "(\<forall>i\<in>set xs. grant e (a + of_nat i) perm \<noteq> None) \<Longrightarrow>
      \<exists>e'. resolve_each cb a n perm v xs e =
        (Some (map (\<lambda>i. the (grant e (a + of_nat i) perm)) xs), e') \<and> cache_only e e'"
    and "\<not> (\<forall>i\<in>set xs. grant e (a + of_nat i) perm \<noteq> None) \<Longrightarrow>
      \<exists>e'. resolve_each cb a n perm v xs e = (None, e') \<and> faulted e e'"
  using assms
proof (induction xs arbitrary: e)
  case Nil
  case 1
  then show ?case by (simp add: ready_def)
next
  case Nil
  case 2
  then show ?case by simp
next
  case (Cons i xs)
  {
    case 1
    then obtain q where q: "grant e (a + of_nat i) perm = Some q" by auto
    from resolve_ready(1) [OF 1(2) q] obtain e1 where
      res: "cpu_resolve_memory_access cb e (a + of_nat i) perm a (of_nat n) v = (MM_ACCESS_OK, q, e1)"
      and c: "cache_only e e1" by metis
    from Cons.IH(1) [OF _ ready_cache_only [OF 1(2) c]] 1 q show ?case
      by (auto simp: res cache_onlyD [OF c] intro: cache_only_trans [OF c])
  next
    case 2
    show ?case
    proof (cases "grant e (a + of_nat i) perm")
      case None
      from resolve_ready(2) [OF 2(2) None] obtain st e1 where
        "cpu_resolve_memory_access cb e (a + of_nat i) perm a (of_nat n) v = (st, 0, e1)"
        "st \<noteq> MM_ACCESS_OK" "faulted e e1" by metis
      then show ?thesis by simp
    next
      case (Some q)
      from resolve_ready(1) [OF 2(2) Some] obtain e1 where
        res: "cpu_resolve_memory_access cb e (a + of_nat i) perm a (of_nat n) v = (MM_ACCESS_OK, q, e1)"
        and c: "cache_only e e1" by metis
      from Cons.IH(2) [OF _ ready_cache_only [OF 2(2) c]] 2 Some show ?thesis
        by (auto simp: res cache_onlyD [OF c] intro: cache_only_faulted [OF c])
    qed
  }
qed

lemma try_contiguous_cases:
  assumes "ready e" "nonnull e a n perm" "0 < n"
  obtains (ptr) p e' where "cpu_try_get_contiguous_ptr cb e a n perm v = (p, e')" "p \<noteq> 0"
      "cache_only e e'" "\<forall>i<n. grant e (a + of_nat i) perm = Some (p + of_nat i)"
  | (split) e' where "cpu_try_get_contiguous_ptr cb e a n perm v = (0, e')" "cache_only e e'"
  | (fault) e' where "cpu_try_get_contiguous_ptr cb e a n perm v = (0, e')" "faulted e e'"
      "\<not> all_granted e a n perm"
proof -
  obtain c e' where o: "contiguous_once cb e a n perm v = (c, e')" by force
  show thesis
    using contiguous_once_outcome [OF assms, of cb v] that
    by (auto simp: o contiguous_outcome_def cpu_try_get_contiguous_ptr_def)
qed

lemma read_each_pending:
  "cpu_has_exception (cpu_ctx e) \<Longrightarrow> xs \<noteq> [] \<Longrightarrow> read_each cb a n xs e = (None, e)"
  by (cases xs) (simp_all add: resolve_pending)

lemma resolve_each_pending:
  "cpu_has_exception (cpu_ctx e) \<Longrightarrow> xs \<noteq> [] \<Longrightarrow> resolve_each cb a n perm v xs e = (None, e)"
  by (cases xs) (simp_all add: resolve_pending)

lemma notify_quiet [simp]: "quiet e \<Longrightarrow> notify_if_hooked cb e t a n v = e"
  by (simp add: notify_if_hooked_def)

lemma upt_not_Nil: "0 < n \<Longrightarrow> [0..<n] \<noteq> []"
  by simp

lemma read_memory_le_spec:
  assumes r: "ready e" and nn: "nonnull e a n MM_PROT_READ" and n: "0 < n"
  shows "all_granted e a n MM_PROT_READ \<Longrightarrow>
      \<exists>e'. read_memory_le cb e a n =
        (le_load (map (\<lambda>i. guest_byte e MM_PROT_READ (a + of_nat i)) [0..<n]), e') \<and> cache_only e e'"
    and "\<not> all_granted e a n MM_PROT_READ \<Longrightarrow>
      \<exists>e'. read_memory_le cb e a n = (0, e') \<and> faulted e e'"
proof -
  have ne: "\<not> cpu_has_exception (cpu_ctx e)" using r by (simp add: ready_def)
  have all: "all_granted e a n MM_PROT_READ \<longleftrightarrow>
      (\<forall>i\<in>set [0..<n]. grant e (a + of_nat i) MM_PROT_READ \<noteq> None)"
    by (auto simp: all_granted_def)
  have "(all_granted e a n MM_PROT_READ \<longrightarrow> (\<exists>e'. read_memory_le cb e a n =
        (le_load (map (\<lambda>i. guest_byte e MM_PROT_READ (a + of_nat i)) [0..<n]), e') \<and> cache_only e e')) \<and>
      (\<not> all_granted e a n MM_PROT_READ \<longrightarrow> (\<exists>e'. read_memory_le cb e a n = (0, e') \<and> faulted e e'))"
    using r nn n
  proof (cases rule: try_contiguous_cases [where cb = cb and v = 0])
    case (ptr p e')
    have q: "quiet e'" using ptr(3) r by (simp add: cache_onlyD ready_def)
    have "host_bytes e' p n = map (\<lambda>i. guest_byte e MM_PROT_READ (a + of_nat i)) [0..<n]"
      using ptr(4) by (simp add: host_bytes_def guest_byte_def cache_onlyD [OF ptr(3)])
    moreover have "all_granted e a n MM_PROT_READ" using ptr(4) by (simp add: all_granted_def)
    ultimately show ?thesis using ptr ne q by (simp add: read_memory_le_def)
  next
    case (split e1)
    note r1 = ready_cache_only [OF r split(2)]
    have g: "guest_byte e1 = guest_byte e" by (simp add: guest_byte_def fun_eq_iff cache_onlyD [OF split(2)])
    show ?thesis
    proof (cases "all_granted e a n MM_PROT_READ")
      case True
      with read_each_spec(1) [OF r1, of "[0..<n]" a cb n] obtain e2 where
        "read_each cb a n [0..<n] e1 = (Some (map (\<lambda>i. guest_byte e MM_PROT_READ (a + of_nat i)) [0..<n]), e2)"
        "cache_only e1 e2"
        unfolding all cache_onlyD(5) [OF split(2)] g by blast
      moreover have "quiet e2" using calculation(2) r1 by (simp add: cache_onlyD ready_def)
      ultimately show ?thesis
        using True split ne cache_only_trans by (auto simp: read_memory_le_def)
    next
      case False
      with read_each_spec(2) [OF r1, of "[0..<n]" a cb n] obtain e2 where
        "read_each cb a n [0..<n] e1 = (None, e2)" "faulted e1 e2"
        unfolding all cache_onlyD(5) [OF split(2)] by blast
      then show ?thesis
        using False split ne cache_only_faulted by (auto simp: read_memory_le_def)
    qed
  next
    case (fault e1)
    then have "read_each cb a n [0..<n] e1 = (None, e1)"
      by (intro read_each_pending upt_not_Nil n) (simp add: faultedD)
    then show ?thesis using fault ne by (auto simp: read_memory_le_def)
  qed
  then show "all_granted e a n MM_PROT_READ \<Longrightarrow>
      \<exists>e'. read_memory_le cb e a n =
        (le_load (map (\<lambda>i. guest_byte e MM_PROT_READ (a + of_nat i)) [0..<n]), e') \<and> cache_only e e'"
    and "\<not> all_granted e a n MM_PROT_READ \<Longrightarrow>
      \<exists>e'. read_memory_le cb e a n = (0, e') \<and> faulted e e'"
    by blast+
qed

lemma write_memory_le_spec:
  assumes r: "ready e" and nn: "nonnull e a n MM_PROT_WRITE" and n: "0 < n"
  shows "all_granted e a n MM_PROT_WRITE \<Longrightarrow>
      \<exists>e'. cache_only e e' \<and> write_memory_le cb e a n v =
        store_at e' (map (\<lambda>i. the (grant e (a + of_nat i) MM_PROT_WRITE)) [0..<n]) (le_store n v)"
    and "\<not> all_granted e a n MM_PROT_WRITE \<Longrightarrow> faulted e (write_memory_le cb e a n v)"
proof -
  have ne: "\<not> cpu_has_exception (cpu_ctx e)" using r by (simp add: ready_def)
  have all: "all_granted e a n MM_PROT_WRITE \<longleftrightarrow>
      (\<forall>i\<in>set [0..<n]. grant e (a + of_nat i) MM_PROT_WRITE \<noteq> None)"
    by (auto simp: all_granted_def)
  have "(all_granted e a n MM_PROT_WRITE \<longrightarrow> (\<exists>e'. cache_only e e' \<and> write_memory_le cb e a n v =
        store_at e' (map (\<lambda>i. the (grant e (a + of_nat i) MM_PROT_WRITE)) [0..<n]) (le_store n v))) \<and>
      (\<not> all_granted e a n MM_PROT_WRITE \<longrightarrow> faulted e (write_memory_le cb e a n v))"
    using r nn n
  proof (cases rule: try_contiguous_cases [where cb = cb and v = v])
    case (ptr p e')
    have q: "quiet e'" using ptr(3) r by (simp add: cache_onlyD ready_def)
    have "map (\<lambda>i. p + of_nat i) [0..<n] = map (\<lambda>i. the (grant e (a + of_nat i) MM_PROT_WRITE)) [0..<n]"
      using ptr(4) by simp
    moreover have "all_granted e a n MM_PROT_WRITE" using ptr(4) by (simp add: all_granted_def)
    moreover have "write_memory_le cb e a n v = store_at e' (map (\<lambda>i. p + of_nat i) [0..<n]) (le_store n v)"
      using ptr(1-3) ne q by (simp add: write_memory_le_def)
    ultimately show ?thesis using ptr(3) by metis
  next
    case (split e1)
    note r1 = ready_cache_only [OF r split(2)]
    show ?thesis
    proof (cases "all_granted e a n MM_PROT_WRITE")
      case True
      with resolve_each_spec(1) [OF r1, of "[0..<n]" a MM_PROT_WRITE cb n v] obtain e2 where
        "resolve_each cb a n MM_PROT_WRITE v [0..<n] e1 =
          (Some (map (\<lambda>i. the (grant e (a + of_nat i) MM_PROT_WRITE)) [0..<n]), e2)"
        "cache_only e1 e2"
        unfolding all cache_onlyD(5) [OF split(2)] by blast
      moreover have "quiet e2" using calculation(2) r1 by (simp add: cache_onlyD ready_def)
      ultimately show ?thesis
        using True split ne cache_only_trans [OF split(2)] by (auto simp: write_memory_le_def)
    next
      case False
      with resolve_each_spec(2) [OF r1, of "[0..<n]" a MM_PROT_WRITE cb n v] obtain e2 where
        "resolve_each cb a n MM_PROT_WRITE v [0..<n] e1 = (None, e2)" "faulted e1 e2"
        unfolding all cache_onlyD(5) [OF split(2)] by blast
      then show ?thesis
        using False split ne cache_only_faulted by (auto simp: write_memory_le_def)
    qed
  next
    case (fault e1)
    then have "resolve_each cb a n MM_PROT_WRITE v [0..<n] e1 = (None, e1)"
      by (intro resolve_each_pending upt_not_Nil n) (simp add: faultedD)
    then show ?thesis using fault ne by (auto simp: write_memory_le_def)
  qed
  then show "all_granted e a n MM_PROT_WRITE \<Longrightarrow>
      \<exists>e'. cache_only e e' \<and> write_memory_le cb e a n v =
        store_at e' (map (\<lambda>i. the (grant e (a + of_nat i) MM_PROT_WRITE)) [0..<n]) (le_store n v)"
    and "\<not> all_granted e a n MM_PROT_WRITE \<Longrightarrow> faulted e (write_memory_le cb e a n v)"
    by blast+
qed

subsection \<open>Little-endian round trip\<close>

lemma length_le_store [simp]: "length (le_store n v) = n"
  by (induction n arbitrary: v) simp_all

lemma le_load_store: "le_load (le_store n v) = take_bit (8 * n) v"
proof (induction n arbitrary: v)
  case 0
  then show ?case by simp
next
  case (Suc n)
  have "ucast (ucast (v AND 0xFF) :: u8) = take_bit 8 v"
    by (simp add: take_bit_eq_mask mask_eq_exp_minus_1 unsigned_ucast_eq take_bit_and)
  moreover have "take_bit 8 v OR push_bit 8 (take_bit (8 * n) (drop_bit 8 v)) = take_bit (8 * Suc n) v"
    by (rule bit_word_eqI) (auto simp: bit_or_iff bit_take_bit_iff bit_push_bit_iff bit_drop_bit_eq)
  ultimately show ?case by (simp add: Suc.IH)
qed

lemma engine_store_frame [simp]:
  "cpu_ctx (engine_store e p b) = cpu_ctx e" "memory_manager (engine_store e p b) = memory_manager e"
  "hook_type_counts (engine_store e p b) = hook_type_counts e"
  "hmem (host_state (engine_store e p b)) = (hmem (host_state e))(p := b)"
  by (simp_all add: engine_store_def)

lemma store_at_frame [simp]:
  "cpu_ctx (store_at e ps bs) = cpu_ctx e" "memory_manager (store_at e ps bs) = memory_manager e"
  "hook_type_counts (store_at e ps bs) = hook_type_counts e"
proof -
  have "cpu_ctx (foldl (\<lambda>e (p, b). engine_store e p b) e xs) = cpu_ctx e \<and>
      memory_manager (foldl (\<lambda>e (p, b). engine_store e p b) e xs) = memory_manager e \<and>
      hook_type_counts (foldl (\<lambda>e (p, b). engine_store e p b) e xs) = hook_type_counts e" for xs
    by (induction xs arbitrary: e) auto
  then show "cpu_ctx (store_at e ps bs) = cpu_ctx e"
    "memory_manager (store_at e ps bs) = memory_manager e"
    "hook_type_counts (store_at e ps bs) = hook_type_counts e"
    by (simp_all add: store_at_def)
qed

lemma store_at_other:
  "x \<notin> set ps \<Longrightarrow> hmem (host_state (store_at e ps bs)) x = hmem (host_state e) x"
proof -
  have "x \<notin> fst ` set xs \<Longrightarrow>
      hmem (host_state (foldl (\<lambda>e (p, b). engine_store e p b) e xs)) x = hmem (host_state e) x" for xs
    by (induction xs arbitrary: e) auto
  moreover have "fst ` set (zip ps bs) \<subseteq> set ps" by (auto dest: set_zip_leftD)
  ultimately show "x \<notin> set ps \<Longrightarrow> ?thesis" by (auto simp: store_at_def)
qed

lemma store_at_Cons: "store_at e (p # ps) (b # bs) = store_at (engine_store e p b) ps bs"
  by (simp add: store_at_def)

lemma store_at_bytes:
  "length ps = length bs \<Longrightarrow> distinct ps \<Longrightarrow>
   map (hmem (host_state (store_at e ps bs))) ps = bs"
proof (induction ps arbitrary: e bs)
  case (Cons p ps)
  then obtain b bs' where bs: "bs = b # bs'" by (cases bs) simp_all
  with Cons show ?case by (simp add: store_at_Cons store_at_other)
qed simp

lemma store_at_grant [simp]: "grant (store_at e ps bs) = grant e"
  by (simp add: fun_eq_iff grant_def linear_ok_def access_result_def)

lemma ready_store_at [simp]: "ready (store_at e ps bs) = ready e"
  by (simp add: ready_def quiet_def)

text \<open>What a granted write stored is what a granted read of the same range returns.\<close>

lemma write_read_memory_le:
  assumes r: "ready e" and n: "0 < n"
    and nn: "nonnull e a n MM_PROT_WRITE"
    and w: "all_granted e a n MM_PROT_WRITE" and rd: "all_granted e a n MM_PROT_READ"
    and d: "distinct (map (\<lambda>i. grant e (a + of_nat i) MM_PROT_WRITE) [0..<n])"
  shows "fst (read_memory_le cb (write_memory_le cb' e a n v) a n) = take_bit (8 * n) v"
proof -
  let ?ps = "map (\<lambda>i. the (grant e (a + of_nat i) MM_PROT_WRITE)) [0..<n]"
  have same: "grant e (a + of_nat i) MM_PROT_READ = grant e (a + of_nat i) MM_PROT_WRITE" if i: "i < n" for i
  proof -
    obtain p q where "grant e (a + of_nat i) MM_PROT_READ = Some p" "grant e (a + of_nat i) MM_PROT_WRITE = Some q"
      using w rd i unfolding all_granted_def by (metis not_None_eq)
    then show ?thesis
      by (auto simp: grant_def access_result_def access_outcome_def
          split: if_splits sum.splits prod.splits MM_ACCESS_STATUS.splits dest: mm_access_ptr_perm)
  qed
  from write_memory_le_spec(1) [OF r nn n w] obtain e1 where c: "cache_only e e1"
    and wr: "write_memory_le cb' e a n v = store_at e1 ?ps (le_store n v)" by blast
  let ?e2 = "store_at e1 ?ps (le_store n v)"
  have g: "grant ?e2 = grant e" by (simp add: cache_onlyD [OF c])
  have "ready ?e2" using ready_cache_only [OF r c] by simp
  moreover have "nonnull ?e2 a n MM_PROT_READ" using nn same by (auto simp: nonnull_def cache_onlyD [OF c])
  moreover have "all_granted ?e2 a n MM_PROT_READ" using rd by (simp add: all_granted_def cache_onlyD [OF c])
  ultimately have rdv: "fst (read_memory_le cb ?e2 a n) =
      le_load (map (\<lambda>i. guest_byte ?e2 MM_PROT_READ (a + of_nat i)) [0..<n])"
    using read_memory_le_spec(1) [of ?e2 a n cb] n by auto
  have "distinct ?ps"
    using d w by (auto simp: distinct_map inj_on_def all_granted_def)
       (metis atLeast0LessThan lessThan_iff option.sel)
  then have "map (hmem (host_state ?e2)) ?ps = le_store n v" by (intro store_at_bytes) simp_all
  moreover have "map (\<lambda>i. guest_byte ?e2 MM_PROT_READ (a + of_nat i)) [0..<n] = map (hmem (host_state ?e2)) ?ps"
    unfolding guest_byte_def g using same by simp
  ultimately show ?thesis unfolding wr rdv by (simp add: le_load_store)
qed

subsection \<open>Page faults\<close>

text \<open>The fault of a refused byte: vector 14, the address in \<^verbatim>\<open>CR2\<close>, the bits of the error code.\<close>

definition page_fault_of :: "CPU_CONTEXT \<Rightarrow> u64 \<Rightarrow> u32 \<Rightarrow> bool \<Rightarrow> CPU_CONTEXT" where
  "page_fault_of ctx a perm prot =
     ctx\<lparr>control_regs := (control_regs ctx)(REG_CR2 := a),
         exception_state := \<lparr>ex_code = CPU_EXCEPTION_PF,
           ex_error_code = (if prot then 1 else 0) + (if perm = MM_PROT_WRITE then 2 else 0) +
             (if cpl ctx = 3 then 4 else 0) + (if perm = MM_PROT_EXEC then 16 else 0)\<rparr>\<rparr>"

lemma cpu_raise_page_fault_of:
  assumes "\<not> cpu_has_exception ctx"
  shows "cpu_raise_page_fault ctx a perm prot = page_fault_of ctx a perm prot"
proof -
  have "\<not> cpu_has_exception (ctx\<lparr>control_regs := (control_regs ctx)(REG_CR2 := a)\<rparr>)"
    using assms by (simp add: cpu_has_exception_def)
  then show ?thesis
    by (simp add: cpu_raise_page_fault_def page_fault_of_def cpu_raise_exception_def
        cpu_make_page_fault_error_def Let_def MM_PROT_WRITE_def MM_PROT_EXEC_def)
qed

lemma resolve_page_fault:
  assumes r: "ready e" and l: "linear_ok e a" and f: "access_result e a perm = Inr (st, prot)"
  shows "\<exists>pc. cpu_resolve_memory_access cb e a perm ra rs rv =
    (st, 0, e\<lparr>memory_manager := (memory_manager e)\<lparr>page_cache := pc\<rparr>,
              cpu_ctx := page_fault_of (cpu_ctx e) a perm prot\<rparr>)"
proof -
  have ok: "mm_ok (memory_manager e)" and q: "quiet e" and ne: "\<not> cpu_has_exception (cpu_ctx e)"
    using r by (simp_all add: ready_def)
  obtain e1 where o: "resolve_once e a perm = (access_result e a perm, e1)" and c: "cache_only e e1"
    using resolve_once_access [OF ok] by blast
  obtain pc where e1: "e1 = e\<lparr>memory_manager := (memory_manager e)\<lparr>page_cache := pc\<rparr>\<rparr>"
    using c by (auto simp: cache_only_def)
  show ?thesis
    using l q ne o
    by (auto simp: cpu_resolve_memory_access_def cpu_validate_linear_address_def linear_ok_def f e1
        cpu_has_invalid_memory_hooks_for_access_def engine_page_fault_def cpu_raise_page_fault_of)
qed

subsection \<open>Read-modify-write\<close>

text \<open>
  Without hooks a read-modify-write operation returns: in the first round of its loop the memory
  holds what was read, or the access faults.
\<close>

definition operand_bytes :: "int \<Rightarrow> nat" where
  "operand_bytes operand_size = nat (operand_size div 8)"

definition operand_size_ok :: "int \<Rightarrow> bool" where
  "operand_size_ok s \<longleftrightarrow> s = 8 \<or> s = 16 \<or> s = 32 \<or> s = 64"

lemma take_bit_le_load: "take_bit (8 * length bs) (le_load bs) = le_load bs"
proof (induction bs)
  case (Cons b bs)
  have "take_bit (8 + 8 * length bs) (ucast b OR push_bit 8 (le_load bs)) =
      ucast b OR push_bit 8 (take_bit (8 * length bs) (le_load bs))"
    by (rule bit_word_eqI)
       (auto simp: bit_or_iff bit_take_bit_iff bit_push_bit_iff bit_ucast_iff dest: bit_imp_le_length)
  then show ?case by (simp add: Cons.IH)
qed simp

lemma operand_mask:
  "operand_size_ok s \<Longrightarrow>
   cpu_memory_operand_mask e s = (mask (8 * operand_bytes s), e)"
  by (auto simp: operand_size_ok_def cpu_memory_operand_mask_def operand_bytes_def mask_eq_exp_minus_1)

lemma read_memory_byte_le:
  assumes "ready e" "nonnull e a 1 MM_PROT_READ"
  shows "all_granted e a 1 MM_PROT_READ \<Longrightarrow>
      \<exists>e'. read_memory_byte cb e a = (guest_byte e MM_PROT_READ a, e') \<and> cache_only e e'"
    and "\<not> all_granted e a 1 MM_PROT_READ \<Longrightarrow> \<exists>e'. read_memory_byte cb e a = (0, e') \<and> faulted e e'"
proof -
  have q: "quiet e" using assms by (simp add: ready_def)
  show "\<exists>e'. read_memory_byte cb e a = (guest_byte e MM_PROT_READ a, e') \<and> cache_only e e'"
    if g: "all_granted e a 1 MM_PROT_READ"
  proof -
    obtain p where p: "grant e a MM_PROT_READ = Some p" using g by (auto simp: all_granted_def)
    from resolve_ready(1) [OF assms(1) p] obtain e1 where
      "cpu_resolve_memory_access cb e a MM_PROT_READ a 1 0 = (MM_ACCESS_OK, p, e1)" and c: "cache_only e e1"
      by metis
    then show ?thesis using q
      by (auto simp: read_memory_byte_def guest_byte_def p cache_onlyD [OF c] Let_def)
  qed
  show "\<exists>e'. read_memory_byte cb e a = (0, e') \<and> faulted e e'"
    if "\<not> all_granted e a 1 MM_PROT_READ"
  proof -
    have p: "grant e a MM_PROT_READ = None" using that by (auto simp: all_granted_def)
    from resolve_ready(2) [OF assms(1) p] obtain st e1 where
      "cpu_resolve_memory_access cb e a MM_PROT_READ a 1 0 = (st, 0, e1)" "st \<noteq> MM_ACCESS_OK" "faulted e e1"
      by metis
    then show ?thesis by (auto simp: read_memory_byte_def)
  qed
qed

definition guest_value :: "cpueaxh_engine \<Rightarrow> u32 \<Rightarrow> u64 \<Rightarrow> nat \<Rightarrow> u64" where
  "guest_value e perm a n = le_load (map (\<lambda>i. guest_byte e perm (a + of_nat i)) [0..<n])"

lemma take_bit_guest_value [simp]: "take_bit (8 * n) (guest_value e perm a n) = guest_value e perm a n"
  using take_bit_le_load [of "map (\<lambda>i. guest_byte e perm (a + of_nat i)) [0..<n]"]
  by (simp add: guest_value_def)

lemma read_memory_operand_checked_spec:
  assumes r: "ready e" and s: "operand_size_ok s"
    and nn: "nonnull e a (operand_bytes s) MM_PROT_READ"
  shows "all_granted e a (operand_bytes s) MM_PROT_READ \<Longrightarrow>
      \<exists>e'. read_memory_operand_checked cb e a s =
        (True, guest_value e MM_PROT_READ a (operand_bytes s), e') \<and> cache_only e e'"
    and "\<not> all_granted e a (operand_bytes s) MM_PROT_READ \<Longrightarrow>
      \<exists>e'. read_memory_operand_checked cb e a s = (False, 0, e') \<and> faulted e e'"
proof -
  have ne: "\<not> cpu_has_exception (cpu_ctx e)" using r by (simp add: ready_def)
  have v: "ucast (ucast (guest_value e MM_PROT_READ a 2) :: u16) = guest_value e MM_PROT_READ a 2"
    "ucast (ucast (guest_value e MM_PROT_READ a 4) :: u32) = guest_value e MM_PROT_READ a 4"
    using take_bit_guest_value [of 2 e MM_PROT_READ a] take_bit_guest_value [of 4 e MM_PROT_READ a]
    by (simp_all add: unsigned_ucast_eq)
  note defs = operand_bytes_def read_memory_operand_checked_def read_memory_byte_checked_def
    read_memory_word_checked_def read_memory_dword_checked_def read_memory_qword_checked_def
    read_memory_word_def read_memory_dword_def read_memory_qword_def checked_read_def
  show "\<exists>e'. read_memory_operand_checked cb e a s =
        (True, guest_value e MM_PROT_READ a (operand_bytes s), e') \<and> cache_only e e'"
    if g: "all_granted e a (operand_bytes s) MM_PROT_READ"
  proof (cases "s = 8")
    case True
    then obtain e' where "read_memory_byte cb e a = (guest_byte e MM_PROT_READ a, e')" and c: "cache_only e e'"
      using read_memory_byte_le(1) [OF r, of a cb] nn g by (auto simp: operand_bytes_def)
    then show ?thesis using True ne by (simp add: defs guest_value_def cache_onlyD [OF c])
  next
    case False
    have "0 < operand_bytes s" using s by (auto simp: operand_size_ok_def operand_bytes_def)
    from read_memory_le_spec(1) [OF r nn this g, of cb] obtain e' where
      rd: "read_memory_le cb e a (operand_bytes s) = (guest_value e MM_PROT_READ a (operand_bytes s), e')"
      and c: "cache_only e e'" by (auto simp: guest_value_def)
    consider "s = 16" | "s = 32" | "s = 64" using s False by (auto simp: operand_size_ok_def)
    then show ?thesis using rd c ne v by cases (simp_all add: defs cache_onlyD [OF c])
  qed
  show "\<exists>e'. read_memory_operand_checked cb e a s = (False, 0, e') \<and> faulted e e'"
    if g: "\<not> all_granted e a (operand_bytes s) MM_PROT_READ"
  proof (cases "s = 8")
    case True
    then obtain e' where "read_memory_byte cb e a = (0, e')" and c: "faulted e e'"
      using read_memory_byte_le(2) [OF r, of a cb] nn g by (auto simp: operand_bytes_def)
    then show ?thesis using True ne by (simp add: defs faultedD [OF c])
  next
    case False
    have "0 < operand_bytes s" using s by (auto simp: operand_size_ok_def operand_bytes_def)
    from read_memory_le_spec(2) [OF r nn this g, of cb] obtain e' where
      rd: "read_memory_le cb e a (operand_bytes s) = (0, e')" and c: "faulted e e'" by blast
    consider "s = 16" | "s = 32" | "s = 64" using s False by (auto simp: operand_size_ok_def)
    then show ?thesis using rd c ne by cases (simp_all add: defs faultedD [OF c])
  qed
qed

lemma write_ptr_cases:
  assumes r: "ready e" and nn: "nonnull e a n MM_PROT_WRITE" and n: "0 < n"
  obtains (ptr) p e' where "get_memory_write_ptr cb e a n = Some (p, e')" "p \<noteq> 0" "cache_only e e'"
      "\<forall>i<n. grant e (a + of_nat i) MM_PROT_WRITE = Some (p + of_nat i)"
  | (fault) e' where "get_memory_write_ptr cb e a n = Some (0, e')" "faulted e e'"
proof -
  obtain c e1 where o: "contiguous_once cb e a n MM_PROT_WRITE 0 = (c, e1)" by force
  have no: "fst (cpu_try_handle_invalid_memory_access cb e1 a MM_PROT_WRITE True k v) = False \<and>
      snd (cpu_try_handle_invalid_memory_access cb e1 a MM_PROT_WRITE True k v) = e1"
    if "cache_only e e1" for k v
    using that r
    by (simp add: cpu_try_handle_invalid_memory_access_def cpu_notify_invalid_memory_hook_def
        ready_def cache_onlyD)
  have sp: "faulted e (engine_page_fault e1 x MM_PROT_WRITE True)" if "cache_only e e1" for x
    using cache_only_faulted [OF that engine_page_fault_faulted] cache_onlyD(4) [OF that] by blast
  show thesis
    using contiguous_once_outcome [OF assms, of cb 0] that no sp
    by (auto simp: o contiguous_outcome_def get_memory_write_ptr_def cpu_get_contiguous_ptr.simps Let_def)
qed

lemma grant_perm:
  "grant e a p = Some x \<Longrightarrow> grant e a q = Some y \<Longrightarrow> x = y"
  by (auto simp: grant_def access_result_def access_outcome_def
      split: if_splits sum.splits prod.splits MM_ACCESS_STATUS.splits dest: mm_access_ptr_perm)

lemma guest_value_host_bytes:
  assumes "all_granted e a n MM_PROT_READ"
    and "\<forall>i<n. grant e (a + of_nat i) MM_PROT_WRITE = Some (p + of_nat i)"
  shows "guest_value e MM_PROT_READ a n = le_load (host_bytes e p n)"
proof -
  have "guest_byte e MM_PROT_READ (a + of_nat i) = hmem (host_state e) (p + of_nat i)" if "i < n" for i
  proof -
    obtain x where x: "grant e (a + of_nat i) MM_PROT_READ = Some x"
      using assms(1) \<open>i < n\<close> unfolding all_granted_def by (metis not_None_eq)
    then show ?thesis
      using grant_perm [OF x, of MM_PROT_WRITE "p + of_nat i"] assms(2) \<open>i < n\<close>
      by (simp add: guest_byte_def)
  qed
  then show ?thesis
    unfolding guest_value_def host_bytes_def by (intro arg_cong [of _ _ le_load] map_cong) auto
qed

lemma cpu_atomic_rmw_memory_spec:
  assumes r: "ready e" and s: "operand_size_ok s" and n: "n = operand_bytes s"
    and nr: "nonnull e a n MM_PROT_READ" and nw: "nonnull e a n MM_PROT_WRITE"
  obtains (changed) p e1 where "all_granted e a n MM_PROT_READ" "cache_only e e1"
      "\<forall>i<n. grant e (a + of_nat i) MM_PROT_WRITE = Some (p + of_nat i)"
      "cpu_atomic_rmw_memory cb e a s f =
         Some (Some (guest_value e MM_PROT_READ a n, take_bit (8 * n) (f (guest_value e MM_PROT_READ a n))),
           store_at e1 (map (\<lambda>i. p + of_nat i) [0..<n])
             (le_store n (take_bit (8 * n) (f (guest_value e MM_PROT_READ a n)))))"
  | (refused) e1 where "cpu_atomic_rmw_memory cb e a s f = Some (None, e1)" "faulted e e1"
proof (cases "all_granted e a n MM_PROT_READ")
  case False
  with read_memory_operand_checked_spec(2) [OF r s] nr n obtain e' where
    "read_memory_operand_checked cb e a s = (False, 0, e')" "faulted e e'" by metis
  then show thesis using refused s by (simp add: cpu_atomic_rmw_memory_def operand_mask)
next
  case g: True
  let ?v = "guest_value e MM_PROT_READ a n"
  let ?d = "take_bit (8 * n) (f ?v)"
  from read_memory_operand_checked_spec(1) [OF r s] nr n g obtain e1 where
    rd: "read_memory_operand_checked cb e a s = (True, ?v, e1)" and c: "cache_only e e1" by metis
  have n0: "0 < n" using s by (auto simp: n operand_size_ok_def operand_bytes_def)
  have v: "?v AND mask (8 * n) = ?v" by (simp add: take_bit_eq_mask [symmetric])
  have red: "cpu_atomic_rmw_memory cb e a s f = cpu_atomic_rmw_loop cb a s f (mask (8 * n)) ?v e1"
    using rd s v by (simp add: cpu_atomic_rmw_memory_def operand_mask n [symmetric])
  have r1: "ready e1" by (rule ready_cache_only [OF r c])
  have "nonnull e1 a n MM_PROT_WRITE" using nw by (simp add: nonnull_def cache_onlyD [OF c])
  from r1 this n0 show thesis
  proof (cases rule: write_ptr_cases [where cb = cb])
    case (ptr p e2)
    have c2: "cache_only e e2" by (rule cache_only_trans [OF c ptr(3)])
    have hb: "le_load (host_bytes e2 p n) = ?v"
      using guest_value_host_bytes [OF g, of p] ptr(4)
      by (simp add: cache_onlyD [OF c] host_bytes_def cache_onlyD(2) [OF c2])
    have ps: "\<forall>i<n. grant e (a + of_nat i) MM_PROT_WRITE = Some (p + of_nat i)"
      using ptr(4) by (simp add: cache_onlyD [OF c])
    let ?e3 = "store_at e2 (map (\<lambda>i. p + of_nat i) [0..<n]) (le_store n ?d)"
    have ce: "cpu_atomic_compare_exchange_memory cb e1 a s ?v ?d = Some (True, Some ?v, ?e3)"
      using ptr(1,2) s v
      by (simp add: cpu_atomic_compare_exchange_memory_def interlocked_compare_exchange_def hb
          le_load_store operand_mask Let_def n [unfolded operand_bytes_def, symmetric] n [symmetric])
         (simp add: operand_size_ok_def)
    have "cpu_atomic_rmw_loop cb a s f (mask (8 * n)) ?v e1 = Some (Some (?v, ?d), ?e3)"
      by (subst cpu_atomic_rmw_loop.simps) (simp add: take_bit_eq_mask [symmetric] ce Let_def)
    then show thesis using changed [OF g c2 ps] red by simp
  next
    case (fault e2)
    have f: "faulted e e2" by (rule cache_only_faulted [OF c fault(2)])
    have ce: "cpu_atomic_compare_exchange_memory cb e1 a s ?v ?d = Some (False, None, e2)"
      using fault(1) by (simp add: cpu_atomic_compare_exchange_memory_def n [unfolded operand_bytes_def, symmetric])
    have "cpu_atomic_rmw_loop cb a s f (mask (8 * n)) ?v e1 = Some (None, e2)"
      by (subst cpu_atomic_rmw_loop.simps)
         (simp add: take_bit_eq_mask [symmetric] ce Let_def faultedD(1) [OF fault(2)])
    then show thesis using refused f red by simp
  qed
qed

end
