(* ===== verification/Helper.thy ===== *)
theory Helper
  imports CpuMemorySpec
begin

text \<open>
  The helpers every instruction uses (\<^verbatim>\<open>cpu/helper.hpp\<close>): segment descriptors and selectors, the
  prefix state, effective addresses, the general, vector and mask registers at their widths,
  multi-byte linear transfers for vector operands, and the stack.

  Operations that touch only the context take and return a \<open>CPU_CONTEXT\<close>; those that touch
  memory take and return the engine. The pointers \<^verbatim>\<open>sib\<close> and \<^verbatim>\<open>disp\<close> of the addressing functions
  are the values they point to, with \<open>None\<close> for a null \<^verbatim>\<open>sib\<close>; the source reads \<^verbatim>\<open>*sib\<close> only when
  one was decoded. A displacement is the signed 32-bit number as an \<open>int\<close>. Buffers filled through
  a pointer are returned, and null buffers, which no caller passes, are not modelled.
\<close>

unbundle bit_operations_syntax

definition on_ctx :: "(CPU_CONTEXT \<Rightarrow> CPU_CONTEXT) \<Rightarrow> cpueaxh_engine \<Rightarrow> cpueaxh_engine" where
  "on_ctx f e = e\<lparr>cpu_ctx := f (cpu_ctx e)\<rparr>"

subsection \<open>Segment descriptors and selectors\<close>

definition decode_descriptor :: "u32 \<Rightarrow> u32 \<Rightarrow> SegmentDescriptor" where
  "decode_descriptor low high =
     (let limit = (low AND 0xFFFF) OR (high AND 0x000F0000);
          granularity = drop_bit 23 high AND 1 \<noteq> 0
      in \<lparr>sd_base = ucast (drop_bit 16 low OR push_bit 16 (high AND 0xFF) OR push_bit 24 (drop_bit 24 high)),
          sd_limit = (if granularity then push_bit 12 limit OR 0xFFF else limit),
          sd_type = ucast (drop_bit 8 high AND 0x0F),
          sd_dpl = ucast (drop_bit 13 high AND 0x03),
          sd_present = (drop_bit 15 high AND 1 \<noteq> 0),
          sd_granularity = granularity,
          sd_db = (drop_bit 22 high AND 1 \<noteq> 0),
          sd_long_mode = (drop_bit 21 high AND 1 \<noteq> 0)\<rparr>)"

definition selector_error :: "u16 \<Rightarrow> u32" where
  "selector_error selector = ucast (selector AND 0xFFFC)"

definition load_descriptor_from_table ::
  "callbacks \<Rightarrow> cpueaxh_engine \<Rightarrow> u16 \<Rightarrow> SegmentDescriptor \<times> cpueaxh_engine" where
  "load_descriptor_from_table cb e selector =
     (let index = drop_bit 3 selector;
          ti = drop_bit 2 selector AND 1 \<noteq> 0;
          ctx = cpu_ctx e;
          table_base = (if ti then ldtr_base ctx else gdtr_base ctx);
          table_limit = (if ti then ldtr_limit ctx else gdtr_limit ctx);
          desc_offset = (ucast index :: u64) * 8
      in if desc_offset + 7 > ucast table_limit
         then (zero_descriptor, on_ctx (\<lambda>c. raise_gp_ctx c (selector_error selector)) e)
         else
           let desc_addr = table_base + desc_offset
           in case read_memory_dword cb e desc_addr of
                (low, e1) \<Rightarrow>
                  case read_memory_dword cb e1 (desc_addr + 4) of
                    (high, e2) \<Rightarrow> (decode_descriptor low high, e2))"

definition is_null_selector :: "u16 \<Rightarrow> bool" where
  "is_null_selector selector \<longleftrightarrow> selector AND 0xFFFC = 0"
definition is_data_segment :: "u8 \<Rightarrow> bool" where
  "is_data_segment type \<longleftrightarrow> type AND 0x08 = 0"
definition is_writable_data_segment :: "u8 \<Rightarrow> bool" where
  "is_writable_data_segment type \<longleftrightarrow> is_data_segment type \<and> type AND 0x02 \<noteq> 0"
definition is_code_segment :: "u8 \<Rightarrow> bool" where
  "is_code_segment type \<longleftrightarrow> type AND 0x08 \<noteq> 0"
definition is_readable_code_segment :: "u8 \<Rightarrow> bool" where
  "is_readable_code_segment type \<longleftrightarrow> is_code_segment type \<and> type AND 0x02 \<noteq> 0"
definition is_conforming_code_segment :: "u8 \<Rightarrow> bool" where
  "is_conforming_code_segment type \<longleftrightarrow> is_code_segment type \<and> type AND 0x04 \<noteq> 0"

definition cpu_reset_prefix_state :: "CPU_CONTEXT \<Rightarrow> CPU_CONTEXT" where
  "cpu_reset_prefix_state ctx =
     ctx\<lparr>rex_present := False, rex_w := False, rex_r := False, rex_x := False, rex_b := False,
         operand_size_override := False, address_size_override := False\<rparr>"

definition cpu_try_apply_rex_prefix :: "CPU_CONTEXT \<Rightarrow> u8 \<Rightarrow> bool \<times> CPU_CONTEXT" where
  "cpu_try_apply_rex_prefix ctx prefix =
     (if \<not> cpu_allows_rex_prefix ctx \<or> prefix < 0x40 \<or> prefix > 0x4F then (False, ctx)
      else (True, ctx\<lparr>rex_present := True,
                      rex_w := (drop_bit 3 prefix AND 1 \<noteq> 0),
                      rex_r := (drop_bit 2 prefix AND 1 \<noteq> 0),
                      rex_x := (drop_bit 1 prefix AND 1 \<noteq> 0),
                      rex_b := (prefix AND 1 \<noteq> 0)\<rparr>))"

text \<open>
  The source returns a pointer into the context, or to a static dummy after raising; here the
  register is read with \<open>get_segment_register\<close> and written back with \<open>set_segment_register\<close>,
  which drops a write to the dummy.
\<close>

definition get_segment_register :: "CPU_CONTEXT \<Rightarrow> int \<Rightarrow> SegmentRegister \<times> CPU_CONTEXT" where
  "get_segment_register ctx index =
     (case segment_by_index ctx index of
        Some seg \<Rightarrow> (seg, ctx)
      | None \<Rightarrow> (zero_segment, raise_gp_ctx ctx 0))"

definition set_segment_register :: "CPU_CONTEXT \<Rightarrow> int \<Rightarrow> SegmentRegister \<Rightarrow> CPU_CONTEXT" where
  "set_segment_register ctx index seg =
     (if index = SEG_ES then ctx\<lparr>es := seg\<rparr> else if index = SEG_CS then ctx\<lparr>cs := seg\<rparr>
      else if index = SEG_SS then ctx\<lparr>ss := seg\<rparr> else if index = SEG_DS then ctx\<lparr>ds := seg\<rparr>
      else if index = SEG_FS then ctx\<lparr>fs := seg\<rparr> else if index = SEG_GS then ctx\<lparr>gs := seg\<rparr>
      else ctx)"

definition is_valid_control_register :: "u8 \<Rightarrow> bool" where
  "is_valid_control_register index \<longleftrightarrow>
     unat index = REG_CR0 \<or> unat index = REG_CR2 \<or> unat index = REG_CR3 \<or>
     unat index = REG_CR4 \<or> unat index = REG_CR8"

definition get_control_register :: "CPU_CONTEXT \<Rightarrow> u8 \<Rightarrow> u64 \<times> CPU_CONTEXT" where
  "get_control_register ctx index =
     (if \<not> is_valid_control_register index then (0, raise_ud_ctx ctx)
      else (control_regs ctx (unat index), ctx))"

definition set_control_register :: "CPU_CONTEXT \<Rightarrow> u8 \<Rightarrow> u64 \<Rightarrow> CPU_CONTEXT" where
  "set_control_register ctx index v =
     (if \<not> is_valid_control_register index then raise_ud_ctx ctx
      else ctx\<lparr>control_regs := (control_regs ctx)(unat index := v)\<rparr>)"

definition load_stack_segment ::
  "callbacks \<Rightarrow> cpueaxh_engine \<Rightarrow> u16 \<Rightarrow> cpueaxh_engine" where
  "load_stack_segment cb e selector =
     (if is_null_selector selector then on_ctx (\<lambda>c. raise_gp_ctx c 0) e
      else
        case load_descriptor_from_table cb e selector of
          (desc, e1) \<Rightarrow>
            let gp = on_ctx (\<lambda>c. raise_gp_ctx c (selector_error selector)) e1
            in if cpu_has_exception (cpu_ctx e1) then e1
               else if ucast (selector AND 0x03) \<noteq> cpl (cpu_ctx e1) then gp
               else if \<not> is_writable_data_segment (sd_type desc) then gp
               else if sd_dpl desc \<noteq> cpl (cpu_ctx e1) then gp
               else if \<not> sd_present desc
               then on_ctx (\<lambda>c. raise_ss_ctx c (selector_error selector)) e1
               else on_ctx (\<lambda>c. c\<lparr>ss := \<lparr>sr_selector = selector, sr_descriptor = desc\<rparr>\<rparr>) e1)"

definition load_data_segment ::
  "callbacks \<Rightarrow> cpueaxh_engine \<Rightarrow> int \<Rightarrow> u16 \<Rightarrow> cpueaxh_engine" where
  "load_data_segment cb e seg_index selector =
     (let e0 = on_ctx (\<lambda>c. snd (get_segment_register c seg_index)) e
      in if is_null_selector selector
         then on_ctx (\<lambda>c. set_segment_register c seg_index
                            \<lparr>sr_selector = selector, sr_descriptor = zero_descriptor\<rparr>) e0
         else
           case load_descriptor_from_table cb e0 selector of
             (desc, e1) \<Rightarrow>
               let gp = on_ctx (\<lambda>c. raise_gp_ctx c (selector_error selector)) e1;
                   rpl = (ucast (selector AND 0x03) :: u8)
               in if cpu_has_exception (cpu_ctx e1) then e1
                  else if \<not> is_data_segment (sd_type desc) \<and> \<not> is_readable_code_segment (sd_type desc)
                  then gp
                  else if (is_data_segment (sd_type desc) \<or> \<not> is_conforming_code_segment (sd_type desc)) \<and>
                          (rpl > sd_dpl desc \<or> cpl (cpu_ctx e1) > sd_dpl desc)
                  then gp
                  else if \<not> sd_present desc
                  then on_ctx (\<lambda>c. raise_np_ctx c (selector_error selector)) e1
                  else on_ctx (\<lambda>c. set_segment_register c seg_index
                                     \<lparr>sr_selector = selector, sr_descriptor = desc\<rparr>) e1)"

definition load_segment_register ::
  "callbacks \<Rightarrow> cpueaxh_engine \<Rightarrow> int \<Rightarrow> u16 \<Rightarrow> cpueaxh_engine" where
  "load_segment_register cb e seg_index selector =
     (if seg_index = SEG_CS then on_ctx raise_ud_ctx e
      else if seg_index = SEG_SS then load_stack_segment cb e selector
      else load_data_segment cb e seg_index selector)"

subsection \<open>Effective addresses\<close>

definition cpu_memory_base_register_uses_ss :: "u8 \<Rightarrow> bool" where
  "cpu_memory_base_register_uses_ss reg \<longleftrightarrow> unat reg = REG_RSP \<or> unat reg = REG_RBP \<or> unat reg = 13"

definition modrm_mod :: "u8 \<Rightarrow> u8" where "modrm_mod modrm = drop_bit 6 modrm AND 0x03"
definition modrm_rm :: "u8 \<Rightarrow> u8" where "modrm_rm modrm = modrm AND 0x07"

definition cpu_default_segment_for_memory_operand ::
  "CPU_CONTEXT \<Rightarrow> u8 \<Rightarrow> bool \<Rightarrow> u8 \<Rightarrow> int \<Rightarrow> int" where
  "cpu_default_segment_for_memory_operand ctx modrm has_sib sib addr_size =
     (let md = modrm_mod modrm; rm = modrm_rm modrm; long_mode = cpu_allows_rex_prefix ctx;
          ext = (\<lambda>r. if rex_b ctx \<and> long_mode then r OR 0x08 else r)
      in if md = 3 then SEG_DS
         else if addr_size \<noteq> 16
         then if rm AND 0x07 = 4 \<and> has_sib
              then let base = ext (sib AND 0x07)
                   in if \<not> (base = 5 \<and> md = 0) \<and> cpu_memory_base_register_uses_ss base
                      then SEG_SS else SEG_DS
              else let decoded_rm = ext rm
                   in if \<not> (md = 0 \<and> rm AND 0x07 = 5) \<and> cpu_memory_base_register_uses_ss decoded_rm
                      then SEG_SS else SEG_DS
         else if rm = 2 \<or> rm = 3 \<or> rm = 6 \<and> md \<noteq> 0 then SEG_SS else SEG_DS)"

definition sext8 :: "int \<Rightarrow> u64" where
  "sext8 disp = scast (word_of_int disp :: u8)"

definition sib_address :: "CPU_CONTEXT \<Rightarrow> u8 \<Rightarrow> u8 \<Rightarrow> int \<Rightarrow> u64" where
  "sib_address ctx md sib_byte disp =
     (let long_mode = cpu_allows_rex_prefix ctx;
          scale = drop_bit 6 sib_byte AND 0x03;
          raw_index = drop_bit 3 sib_byte AND 0x07;
          raw_base = sib_byte AND 0x07;
          index = (if rex_x ctx \<and> long_mode then raw_index OR 0x08 else raw_index);
          base = (if rex_b ctx \<and> long_mode then raw_base OR 0x08 else raw_base);
          has_index = (\<not> (raw_index = 4 \<and> \<not> (long_mode \<and> rex_x ctx)));
          no_base = (md = 0 \<and> raw_base = 5);
          addr = (if no_base then ucast (word_of_int disp :: u32) else regs ctx (unat base))
      in if has_index then addr + push_bit (unat scale) (regs ctx (unat index)) else addr)"

definition offset_32_64 ::
  "CPU_CONTEXT \<Rightarrow> u8 \<Rightarrow> u8 \<Rightarrow> u8 option \<Rightarrow> int \<Rightarrow> int \<Rightarrow> int \<Rightarrow> u64" where
  "offset_32_64 ctx md rm sib disp addr_size inst_size =
     (let addr = (if rm AND 0x07 = 4
                  then sib_address ctx md (case sib of Some s \<Rightarrow> s | None \<Rightarrow> 0) disp
                  else if rm AND 0x07 = 5 \<and> md = 0
                  then if addr_size = 64 then rip ctx + word_of_int inst_size + word_of_int disp
                       else ucast (word_of_int disp :: u32)
                  else regs ctx (unat rm));
          addr = (if md = 1 then addr + sext8 disp
                  else if md = 2 then addr + word_of_int disp else addr)
      in if addr_size = 32 then addr AND 0xFFFFFFFF else addr)"

definition offset_16 :: "CPU_CONTEXT \<Rightarrow> u8 \<Rightarrow> u8 \<Rightarrow> int \<Rightarrow> u64" where
  "offset_16 ctx md rm disp =
     (let r = regs ctx;
          addr = (if rm = 0 then (r REG_RBX + r REG_RSI) AND 0xFFFF
                  else if rm = 1 then (r REG_RBX + r REG_RDI) AND 0xFFFF
                  else if rm = 2 then (r REG_RBP + r REG_RSI) AND 0xFFFF
                  else if rm = 3 then (r REG_RBP + r REG_RDI) AND 0xFFFF
                  else if rm = 4 then r REG_RSI AND 0xFFFF
                  else if rm = 5 then r REG_RDI AND 0xFFFF
                  else if rm = 6
                  then if md = 0 then word_of_int disp AND 0xFFFF else r REG_RBP AND 0xFFFF
                  else if rm = 7 then r REG_RBX AND 0xFFFF else 0)
      in if md = 1 then (addr + sext8 disp) AND 0xFFFF
         else if md = 2 then (addr + (word_of_int disp AND 0xFFFF)) AND 0xFFFF else addr)"

definition get_effective_offset ::
  "CPU_CONTEXT \<Rightarrow> u8 \<Rightarrow> u8 option \<Rightarrow> int \<Rightarrow> int \<Rightarrow> int \<Rightarrow> u64" where
  "get_effective_offset ctx modrm sib disp addr_size inst_size =
     (let md = modrm_mod modrm;
          rm = (if rex_b ctx \<and> cpu_allows_rex_prefix ctx then modrm_rm modrm OR 0x08 else modrm_rm modrm)
      in if md = 3 then 0
         else if addr_size = 32 \<or> addr_size = 64
         then offset_32_64 ctx md rm sib disp addr_size inst_size
         else offset_16 ctx md rm disp)"

definition get_effective_address ::
  "CPU_CONTEXT \<Rightarrow> u8 \<Rightarrow> u8 option \<Rightarrow> int \<Rightarrow> int \<Rightarrow> int \<Rightarrow> u64 \<times> CPU_CONTEXT" where
  "get_effective_address ctx modrm sib disp addr_size inst_size =
     (let addr = get_effective_offset ctx modrm sib disp addr_size inst_size
      in if modrm_mod modrm = 3 then (addr, ctx)
         else
           let default_segment = cpu_default_segment_for_memory_operand ctx modrm (sib \<noteq> None)
                                   (case sib of Some s \<Rightarrow> s | None \<Rightarrow> 0) addr_size;
               segment_index = cpu_effective_segment_override_or_default ctx default_segment;
               addr = addr + cpu_segment_base_for_addressing ctx segment_index
           in (addr, snd (cpu_validate_linear_address ctx addr segment_index)))"

definition finalize_rip_relative_address ::
  "CPU_CONTEXT \<Rightarrow> DecodedInstruction \<Rightarrow> int \<Rightarrow> CPU_CONTEXT \<times> DecodedInstruction" where
  "finalize_rip_relative_address ctx inst inst_size =
     (let md = modrm_mod (di_modrm inst);
          rm = (if rex_b ctx then modrm_rm (di_modrm inst) OR 0x08 else modrm_rm (di_modrm inst));
          rip_relative = ((rm AND 0x07 \<noteq> 4 \<or> \<not> di_has_sib inst) \<and> rm AND 0x07 = 5 \<and> md = 0)
      in if \<not> di_has_modrm inst \<or> md = 3 \<or> di_address_size inst \<noteq> 64 \<or> \<not> rip_relative
         then (ctx, inst)
         else case get_effective_address ctx (di_modrm inst) (Some (di_sib inst))
                     (di_displacement inst) (di_address_size inst) inst_size of
                (a, ctx1) \<Rightarrow> (ctx1, inst\<lparr>di_mem_address := a\<rparr>))"

subsection \<open>Registers\<close>

definition get_reg8 :: "CPU_CONTEXT \<Rightarrow> nat \<Rightarrow> u8" where
  "get_reg8 ctx reg =
     (if rex_present ctx then ucast (regs ctx reg AND 0xFF)
      else if reg < 4 then ucast (regs ctx reg AND 0xFF)
      else ucast (drop_bit 8 (regs ctx (reg - 4)) AND 0xFF))"

definition set_reg8 :: "CPU_CONTEXT \<Rightarrow> nat \<Rightarrow> u8 \<Rightarrow> CPU_CONTEXT" where
  "set_reg8 ctx reg v =
     (if rex_present ctx \<or> reg < 4
      then ctx\<lparr>regs := (regs ctx)(reg := (regs ctx reg AND NOT 0xFF) OR ucast v)\<rparr>
      else ctx\<lparr>regs := (regs ctx)(reg - 4 := (regs ctx (reg - 4) AND NOT 0xFF00) OR push_bit 8 (ucast v))\<rparr>)"

definition get_reg16 :: "CPU_CONTEXT \<Rightarrow> nat \<Rightarrow> u16" where
  "get_reg16 ctx reg = ucast (regs ctx reg AND 0xFFFF)"
definition set_reg16 :: "CPU_CONTEXT \<Rightarrow> nat \<Rightarrow> u16 \<Rightarrow> CPU_CONTEXT" where
  "set_reg16 ctx reg v = ctx\<lparr>regs := (regs ctx)(reg := (regs ctx reg AND NOT 0xFFFF) OR ucast v)\<rparr>"
definition get_reg32 :: "CPU_CONTEXT \<Rightarrow> nat \<Rightarrow> u32" where
  "get_reg32 ctx reg = ucast (regs ctx reg AND 0xFFFFFFFF)"
definition set_reg32 :: "CPU_CONTEXT \<Rightarrow> nat \<Rightarrow> u32 \<Rightarrow> CPU_CONTEXT" where
  "set_reg32 ctx reg v = ctx\<lparr>regs := (regs ctx)(reg := ucast v)\<rparr>"
definition get_reg64 :: "CPU_CONTEXT \<Rightarrow> nat \<Rightarrow> u64" where
  "get_reg64 ctx reg = regs ctx reg"
definition set_reg64 :: "CPU_CONTEXT \<Rightarrow> nat \<Rightarrow> u64 \<Rightarrow> CPU_CONTEXT" where
  "set_reg64 ctx reg v = ctx\<lparr>regs := (regs ctx)(reg := v)\<rparr>"

record ZMMRegister =
  zmm_xmm0 :: XMMRegister
  zmm_xmm1 :: XMMRegister
  zmm_xmm2 :: XMMRegister
  zmm_xmm3 :: XMMRegister

definition zero_zmm_upper :: ZMMUpperRegister where
  "zero_zmm_upper = \<lparr>zu_lower = zero_xmm, zu_upper = zero_xmm\<rparr>"

definition get_xmm128 :: "CPU_CONTEXT \<Rightarrow> nat \<Rightarrow> XMMRegister" where
  "get_xmm128 ctx reg = xmm ctx reg"
definition set_xmm128 :: "CPU_CONTEXT \<Rightarrow> nat \<Rightarrow> XMMRegister \<Rightarrow> CPU_CONTEXT" where
  "set_xmm128 ctx reg v = ctx\<lparr>xmm := (xmm ctx)(reg := v)\<rparr>"
definition set_xmm128_parts :: "CPU_CONTEXT \<Rightarrow> nat \<Rightarrow> u64 \<Rightarrow> u64 \<Rightarrow> CPU_CONTEXT" where
  "set_xmm128_parts ctx reg low high = ctx\<lparr>xmm := (xmm ctx)(reg := \<lparr>xmm_low = low, xmm_high = high\<rparr>)\<rparr>"
definition get_ymm_upper128 :: "CPU_CONTEXT \<Rightarrow> nat \<Rightarrow> XMMRegister" where
  "get_ymm_upper128 ctx reg = ymm_upper ctx reg"
definition set_ymm_upper128 :: "CPU_CONTEXT \<Rightarrow> nat \<Rightarrow> XMMRegister \<Rightarrow> CPU_CONTEXT" where
  "set_ymm_upper128 ctx reg v = ctx\<lparr>ymm_upper := (ymm_upper ctx)(reg := v)\<rparr>"
definition set_ymm_upper128_parts :: "CPU_CONTEXT \<Rightarrow> nat \<Rightarrow> u64 \<Rightarrow> u64 \<Rightarrow> CPU_CONTEXT" where
  "set_ymm_upper128_parts ctx reg low high =
     ctx\<lparr>ymm_upper := (ymm_upper ctx)(reg := \<lparr>xmm_low = low, xmm_high = high\<rparr>)\<rparr>"
definition get_zmm_upper256 :: "CPU_CONTEXT \<Rightarrow> nat \<Rightarrow> ZMMUpperRegister" where
  "get_zmm_upper256 ctx reg = zmm_upper ctx reg"
definition set_zmm_upper256 :: "CPU_CONTEXT \<Rightarrow> nat \<Rightarrow> ZMMUpperRegister \<Rightarrow> CPU_CONTEXT" where
  "set_zmm_upper256 ctx reg v = ctx\<lparr>zmm_upper := (zmm_upper ctx)(reg := v)\<rparr>"
definition clear_zmm_upper256 :: "CPU_CONTEXT \<Rightarrow> nat \<Rightarrow> CPU_CONTEXT" where
  "clear_zmm_upper256 ctx reg = ctx\<lparr>zmm_upper := (zmm_upper ctx)(reg := zero_zmm_upper)\<rparr>"
definition clear_all_zmm_upper256 :: "CPU_CONTEXT \<Rightarrow> CPU_CONTEXT" where
  "clear_all_zmm_upper256 ctx = ctx\<lparr>zmm_upper := (\<lambda>_. zero_zmm_upper)\<rparr>"
definition clear_ymm_upper128 :: "CPU_CONTEXT \<Rightarrow> nat \<Rightarrow> CPU_CONTEXT" where
  "clear_ymm_upper128 ctx reg =
     clear_zmm_upper256 (ctx\<lparr>ymm_upper := (ymm_upper ctx)(reg := zero_xmm)\<rparr>) reg"
definition clear_all_ymm_upper128 :: "CPU_CONTEXT \<Rightarrow> CPU_CONTEXT" where
  "clear_all_ymm_upper128 ctx = clear_all_zmm_upper256 (ctx\<lparr>ymm_upper := (\<lambda>_. zero_xmm)\<rparr>)"
definition get_zmm512 :: "CPU_CONTEXT \<Rightarrow> nat \<Rightarrow> ZMMRegister" where
  "get_zmm512 ctx reg =
     \<lparr>zmm_xmm0 = xmm ctx reg, zmm_xmm1 = ymm_upper ctx reg,
      zmm_xmm2 = zu_lower (zmm_upper ctx reg), zmm_xmm3 = zu_upper (zmm_upper ctx reg)\<rparr>"
definition set_zmm512 :: "CPU_CONTEXT \<Rightarrow> nat \<Rightarrow> ZMMRegister \<Rightarrow> CPU_CONTEXT" where
  "set_zmm512 ctx reg v =
     ctx\<lparr>xmm := (xmm ctx)(reg := zmm_xmm0 v), ymm_upper := (ymm_upper ctx)(reg := zmm_xmm1 v),
         zmm_upper := (zmm_upper ctx)(reg := \<lparr>zu_lower = zmm_xmm2 v, zu_upper = zmm_xmm3 v\<rparr>)\<rparr>"
definition clear_zmm_above_128 :: "CPU_CONTEXT \<Rightarrow> nat \<Rightarrow> CPU_CONTEXT" where
  "clear_zmm_above_128 ctx reg = clear_zmm_upper256 (clear_ymm_upper128 ctx reg) reg"
definition clear_zmm_above_256 :: "CPU_CONTEXT \<Rightarrow> nat \<Rightarrow> CPU_CONTEXT" where
  "clear_zmm_above_256 ctx reg = clear_zmm_upper256 ctx reg"
definition get_opmask64 :: "CPU_CONTEXT \<Rightarrow> nat \<Rightarrow> u64" where
  "get_opmask64 ctx reg = opmask ctx (reg mod 8)"
definition set_opmask64 :: "CPU_CONTEXT \<Rightarrow> nat \<Rightarrow> u64 \<Rightarrow> CPU_CONTEXT" where
  "set_opmask64 ctx reg v = ctx\<lparr>opmask := (opmask ctx)(reg mod 8 := v)\<rparr>"
definition get_mm64 :: "CPU_CONTEXT \<Rightarrow> nat \<Rightarrow> u64" where
  "get_mm64 ctx reg = mm_regs ctx (reg mod 8)"
definition set_mm64 :: "CPU_CONTEXT \<Rightarrow> nat \<Rightarrow> u64 \<Rightarrow> CPU_CONTEXT" where
  "set_mm64 ctx reg v = ctx\<lparr>mm_regs := (mm_regs ctx)(reg mod 8 := v)\<rparr>"

subsection \<open>Little-endian buffers and linear transfers\<close>

definition cpu_load_u64_le :: "u8 list \<Rightarrow> u64" where
  "cpu_load_u64_le bytes = le_load (take 8 bytes)"
definition cpu_store_u64_le :: "u64 \<Rightarrow> u8 list" where
  "cpu_store_u64_le v = map (\<lambda>index. ucast (drop_bit (index * 8) v AND 0xFF)) [0..<8]"
definition cpu_load_u16_le :: "u8 list \<Rightarrow> u16" where
  "cpu_load_u16_le bytes = ucast (bytes ! 0) OR push_bit 8 (ucast (bytes ! 1))"
definition cpu_load_u32_le :: "u8 list \<Rightarrow> u32" where
  "cpu_load_u32_le bytes = ucast (bytes ! 0) OR push_bit 8 (ucast (bytes ! 1)) OR
     push_bit 16 (ucast (bytes ! 2)) OR push_bit 24 (ucast (bytes ! 3))"
definition cpu_store_u16_le :: "u16 \<Rightarrow> u8 list" where
  "cpu_store_u16_le v = [ucast (v AND 0xFF), ucast (drop_bit 8 v AND 0xFF)]"
definition cpu_store_u32_le :: "u32 \<Rightarrow> u8 list" where
  "cpu_store_u32_le v = [ucast (v AND 0xFF), ucast (drop_bit 8 v AND 0xFF),
     ucast (drop_bit 16 v AND 0xFF), ucast (drop_bit 24 v AND 0xFF)]"

text \<open>The body the two readers share; they differ in the largest size they accept.\<close>

definition read_linear :: "callbacks \<Rightarrow> cpueaxh_engine \<Rightarrow> u64 \<Rightarrow> nat \<Rightarrow> nat \<Rightarrow> u8 list option \<times> cpueaxh_engine" where
  "read_linear cb e address sz max_size =
     (if sz = 0 \<or> sz > max_size \<or> cpu_has_exception (cpu_ctx e) then (None, e)
      else
        case cpu_try_get_contiguous_ptr cb e address sz MM_PROT_READ 0 of
          (ptr, e1) \<Rightarrow>
            if ptr \<noteq> 0 then (Some (host_bytes e1 ptr sz), e1)
            else if cpu_has_exception (cpu_ctx e1) then (None, e1)
            else
              case resolve_each cb address sz MM_PROT_READ 0 [0..<sz] e1 of
                (None, e2) \<Rightarrow> (None, e2)
              | (Some ptrs, e2) \<Rightarrow> (Some (map (hmem (host_state e2)) ptrs), e2))"

definition cpu_read_linear_bytes ::
  "callbacks \<Rightarrow> cpueaxh_engine \<Rightarrow> u64 \<Rightarrow> nat \<Rightarrow> u8 list option \<times> cpueaxh_engine" where
  "cpu_read_linear_bytes cb e address sz = read_linear cb e address sz 64"

definition cpu_read_linear_bytes_large ::
  "callbacks \<Rightarrow> cpueaxh_engine \<Rightarrow> u64 \<Rightarrow> nat \<Rightarrow> u8 list option \<times> cpueaxh_engine" where
  "cpu_read_linear_bytes_large cb e address sz = read_linear cb e address sz 512"

definition contiguous_ptrs :: "u64 \<Rightarrow> nat \<Rightarrow> u64 list" where
  "contiguous_ptrs ptr n = map (\<lambda>i. ptr + of_nat i) [0..<n]"

definition cpu_write_linear_bytes ::
  "callbacks \<Rightarrow> cpueaxh_engine \<Rightarrow> u64 \<Rightarrow> u8 list \<Rightarrow> u64 \<Rightarrow> bool \<times> cpueaxh_engine" where
  "cpu_write_linear_bytes cb e address bytes reported_value =
     (let sz = length bytes
      in if sz = 0 \<or> sz > 64 \<or> cpu_has_exception (cpu_ctx e) then (False, e)
         else
           case cpu_try_get_contiguous_ptr cb e address sz MM_PROT_WRITE reported_value of
             (ptr, e1) \<Rightarrow>
               if ptr \<noteq> 0 then (True, store_at e1 (contiguous_ptrs ptr sz) bytes)
               else if cpu_has_exception (cpu_ctx e1) then (False, e1)
               else
                 case resolve_each cb address sz MM_PROT_WRITE reported_value [0..<sz] e1 of
                   (None, e2) \<Rightarrow> (False, e2)
                 | (Some ptrs, e2) \<Rightarrow> (True, store_at e2 ptrs bytes))"

definition cpu_resolve_linear_write_byte_ptrs ::
  "callbacks \<Rightarrow> cpueaxh_engine \<Rightarrow> u64 \<Rightarrow> nat \<Rightarrow> u64 \<Rightarrow> u64 list option \<times> cpueaxh_engine" where
  "cpu_resolve_linear_write_byte_ptrs cb e address sz reported_value =
     (if sz = 0 \<or> sz > 512 \<or> cpu_has_exception (cpu_ctx e) then (None, e)
      else resolve_each cb address sz MM_PROT_WRITE reported_value [0..<sz] e)"

definition cpu_commit_linear_write_bytes :: "cpueaxh_engine \<Rightarrow> u8 list \<Rightarrow> u64 list \<Rightarrow> cpueaxh_engine" where
  "cpu_commit_linear_write_bytes e bytes byte_ptrs = store_at e byte_ptrs bytes"

text \<open>
  The masked transfer resolves the bytes of the selected elements only; its result lists the byte
  indices with their pointers, in the order of the loops.
\<close>

fun resolve_masked_elements ::
  "callbacks \<Rightarrow> u64 \<Rightarrow> bool list \<Rightarrow> u64 list \<Rightarrow> nat \<Rightarrow> nat list \<Rightarrow> cpueaxh_engine \<Rightarrow>
   (nat \<times> u64) list option \<times> cpueaxh_engine" where
  "resolve_masked_elements cb address element_mask element_values element_size [] e = (Some [], e)"
| "resolve_masked_elements cb address element_mask element_values element_size (element # rest) e =
     (if \<not> element_mask ! element
      then resolve_masked_elements cb address element_mask element_values element_size rest e
      else
        let element_address = address + of_nat (element * element_size);
            reported_value = (if element_values = [] then 0 else element_values ! element)
        in case resolve_each cb element_address element_size MM_PROT_WRITE reported_value
                  [0..<element_size] e of
             (None, e1) \<Rightarrow> (None, e1)
           | (Some ptrs, e1) \<Rightarrow>
               case resolve_masked_elements cb address element_mask element_values element_size rest e1 of
                 (None, e2) \<Rightarrow> (None, e2)
               | (Some qs, e2) \<Rightarrow>
                   (Some (zip (map (\<lambda>offset. element * element_size + offset) [0..<element_size]) ptrs @ qs), e2))"

definition cpu_resolve_masked_write_element_ptrs ::
  "callbacks \<Rightarrow> cpueaxh_engine \<Rightarrow> u64 \<Rightarrow> bool list \<Rightarrow> u64 list \<Rightarrow> nat \<Rightarrow> nat \<Rightarrow>
   (nat \<times> u64) list option \<times> cpueaxh_engine" where
  "cpu_resolve_masked_write_element_ptrs cb e address element_mask element_values element_count element_size =
     (let total_size = element_count * element_size mod 2 ^ 64
      in if element_count = 0 \<or> element_size = 0 \<or> total_size > 64 \<or>
            total_size div element_size \<noteq> element_count \<or> cpu_has_exception (cpu_ctx e)
         then (None, e)
         else resolve_masked_elements cb address element_mask element_values element_size
                [0..<element_count] e)"

text \<open>The array of pointers is read by byte index; the entries that were not resolved are null.\<close>

definition cpu_commit_masked_write_elements ::
  "cpueaxh_engine \<Rightarrow> u8 list \<Rightarrow> bool list \<Rightarrow> nat \<Rightarrow> nat \<Rightarrow> (nat \<Rightarrow> u64) \<Rightarrow> cpueaxh_engine" where
  "cpu_commit_masked_write_elements e bytes element_mask element_count element_size byte_ptrs =
     fold (\<lambda>element e.
             if \<not> element_mask ! element then e
             else fold (\<lambda>offset e.
                          let byte_index = element * element_size + offset
                          in engine_store e (byte_ptrs byte_index) (bytes ! byte_index))
                    [0..<element_size] e)
       [0..<element_count] e"

definition cpu_notify_qword_memory_hooks ::
  "callbacks \<Rightarrow> cpueaxh_engine \<Rightarrow> u32 \<Rightarrow> u64 \<Rightarrow> u8 list \<Rightarrow> cpueaxh_engine" where
  "cpu_notify_qword_memory_hooks cb e hook_type address bytes =
     (if \<not> cpu_has_hook_type e hook_type then e
      else fold (\<lambda>offset e. cpu_notify_memory_hook cb e hook_type (address + of_nat offset) 8
                              (cpu_load_u64_le (drop offset bytes)))
             (map ((*) 8) [0..<(length bytes + 7) div 8]) e)"

text \<open>The vector transfers, on the quadwords of the operand in ascending order.\<close>

definition qwords_bytes :: "u64 list \<Rightarrow> u8 list" where
  "qwords_bytes qs = concat (map cpu_store_u64_le qs)"

definition read_qwords :: "callbacks \<Rightarrow> cpueaxh_engine \<Rightarrow> u64 \<Rightarrow> nat \<Rightarrow> u64 list \<times> cpueaxh_engine" where
  "read_qwords cb e address count =
     (case cpu_read_linear_bytes cb e address (8 * count) of
        (None, e1) \<Rightarrow> (replicate count 0, e1)
      | (Some bytes, e1) \<Rightarrow>
          (map (\<lambda>i. cpu_load_u64_le (drop (8 * i) bytes)) [0..<count],
           cpu_notify_qword_memory_hooks cb e1 CPUEAXH_HOOK_MEM_READ address bytes))"

definition write_qwords :: "callbacks \<Rightarrow> cpueaxh_engine \<Rightarrow> u64 \<Rightarrow> u64 list \<Rightarrow> cpueaxh_engine" where
  "write_qwords cb e address qs =
     (let bytes = qwords_bytes qs; n = length bytes
      in if cpu_has_exception (cpu_ctx e) then e
         else
           case cpu_try_get_contiguous_ptr cb e address n MM_PROT_WRITE (hd qs) of
             (contiguous, e1) \<Rightarrow>
               if contiguous = 0 \<and> cpu_has_exception (cpu_ctx e1) then e1
               else
                 let e2 = cpu_notify_qword_memory_hooks cb e1 CPUEAXH_HOOK_MEM_WRITE address bytes
                 in if contiguous \<noteq> 0 then store_at e2 (contiguous_ptrs contiguous n) bytes
                    else snd (cpu_write_linear_bytes cb e2 address bytes (hd qs)))"

definition xmm_of :: "u64 list \<Rightarrow> XMMRegister" where
  "xmm_of qs = \<lparr>xmm_low = qs ! 0, xmm_high = qs ! 1\<rparr>"
definition xmm_qwords :: "XMMRegister \<Rightarrow> u64 list" where
  "xmm_qwords x = [xmm_low x, xmm_high x]"

definition read_xmm_memory :: "callbacks \<Rightarrow> cpueaxh_engine \<Rightarrow> u64 \<Rightarrow> XMMRegister \<times> cpueaxh_engine" where
  "read_xmm_memory cb e address = (case read_qwords cb e address 2 of (qs, e1) \<Rightarrow> (xmm_of qs, e1))"
definition write_xmm_memory :: "callbacks \<Rightarrow> cpueaxh_engine \<Rightarrow> u64 \<Rightarrow> XMMRegister \<Rightarrow> cpueaxh_engine" where
  "write_xmm_memory cb e address v = write_qwords cb e address (xmm_qwords v)"
definition read_zmm_upper_memory ::
  "callbacks \<Rightarrow> cpueaxh_engine \<Rightarrow> u64 \<Rightarrow> ZMMUpperRegister \<times> cpueaxh_engine" where
  "read_zmm_upper_memory cb e address =
     (case read_qwords cb e address 4 of
        (qs, e1) \<Rightarrow> (\<lparr>zu_lower = xmm_of qs, zu_upper = xmm_of (drop 2 qs)\<rparr>, e1))"
definition write_zmm_upper_memory ::
  "callbacks \<Rightarrow> cpueaxh_engine \<Rightarrow> u64 \<Rightarrow> ZMMUpperRegister \<Rightarrow> cpueaxh_engine" where
  "write_zmm_upper_memory cb e address v =
     write_qwords cb e address (xmm_qwords (zu_lower v) @ xmm_qwords (zu_upper v))"
definition read_zmm_memory :: "callbacks \<Rightarrow> cpueaxh_engine \<Rightarrow> u64 \<Rightarrow> ZMMRegister \<times> cpueaxh_engine" where
  "read_zmm_memory cb e address =
     (case read_qwords cb e address 8 of
        (qs, e1) \<Rightarrow> (\<lparr>zmm_xmm0 = xmm_of qs, zmm_xmm1 = xmm_of (drop 2 qs),
                      zmm_xmm2 = xmm_of (drop 4 qs), zmm_xmm3 = xmm_of (drop 6 qs)\<rparr>, e1))"
definition write_zmm_memory :: "callbacks \<Rightarrow> cpueaxh_engine \<Rightarrow> u64 \<Rightarrow> ZMMRegister \<Rightarrow> cpueaxh_engine" where
  "write_zmm_memory cb e address v =
     write_qwords cb e address (xmm_qwords (zmm_xmm0 v) @ xmm_qwords (zmm_xmm1 v) @
                                xmm_qwords (zmm_xmm2 v) @ xmm_qwords (zmm_xmm3 v))"

subsection \<open>The stack\<close>

definition get_stack_addr_size :: "CPU_CONTEXT \<Rightarrow> int" where
  "get_stack_addr_size ctx = cpu_stack_address_size ctx"

definition cpu_get_stack_pointer_value :: "CPU_CONTEXT \<Rightarrow> int \<Rightarrow> u64" where
  "cpu_get_stack_pointer_value ctx stack_addr_size =
     (if stack_addr_size = 64 then regs ctx REG_RSP
      else if stack_addr_size = 32 then ucast (ucast (regs ctx REG_RSP AND 0xFFFFFFFF) :: u32)
      else ucast (ucast (regs ctx REG_RSP AND 0xFFFF) :: u16))"

definition cpu_stack_pointer_add :: "int \<Rightarrow> u64 \<Rightarrow> u64 \<Rightarrow> u64" where
  "cpu_stack_pointer_add stack_addr_size v delta =
     (if stack_addr_size = 64 then v + delta
      else if stack_addr_size = 32 then ucast ((ucast v :: u32) + ucast delta)
      else ucast ((ucast v :: u16) + ucast delta))"

definition cpu_stack_pointer_sub :: "int \<Rightarrow> u64 \<Rightarrow> u64 \<Rightarrow> u64" where
  "cpu_stack_pointer_sub stack_addr_size v delta =
     (if stack_addr_size = 64 then v - delta
      else if stack_addr_size = 32 then ucast ((ucast v :: u32) - ucast delta)
      else ucast ((ucast v :: u16) - ucast delta))"

definition cpu_set_stack_pointer_value :: "CPU_CONTEXT \<Rightarrow> int \<Rightarrow> u64 \<Rightarrow> CPU_CONTEXT" where
  "cpu_set_stack_pointer_value ctx stack_addr_size v =
     (let rsp = regs ctx REG_RSP;
          new_rsp = (if stack_addr_size = 64 then v
                     else if stack_addr_size = 32 then (rsp AND NOT 0xFFFFFFFF) OR ucast (ucast v :: u32)
                     else (rsp AND NOT 0xFFFF) OR ucast (ucast v :: u16))
      in ctx\<lparr>regs := (regs ctx)(REG_RSP := new_rsp)\<rparr>)"

text \<open>The body of the pushes: store below the stack pointer, then move it unless the store faulted.\<close>

definition push_store :: "(cpueaxh_engine \<Rightarrow> u64 \<Rightarrow> cpueaxh_engine) \<Rightarrow> u64 \<Rightarrow> cpueaxh_engine \<Rightarrow> cpueaxh_engine" where
  "push_store wr delta e =
     (let s = get_stack_addr_size (cpu_ctx e);
          new_sp = cpu_stack_pointer_sub s (cpu_get_stack_pointer_value (cpu_ctx e) s) delta;
          e1 = wr e new_sp
      in if cpu_has_exception (cpu_ctx e1) then e1
         else on_ctx (\<lambda>c. cpu_set_stack_pointer_value c s new_sp) e1)"

definition push_value16 :: "callbacks \<Rightarrow> cpueaxh_engine \<Rightarrow> u16 \<Rightarrow> cpueaxh_engine" where
  "push_value16 cb e v =
     (if cpu_has_exception (cpu_ctx e) then e
      else push_store (\<lambda>e a. write_memory_word cb e a v) 2 e)"

definition push_value32 :: "callbacks \<Rightarrow> cpueaxh_engine \<Rightarrow> u32 \<Rightarrow> cpueaxh_engine" where
  "push_value32 cb e v =
     (if cpu_has_exception (cpu_ctx e) then e
      else push_store (\<lambda>e a. write_memory_dword cb e a v) 4 e)"

definition push_value64 :: "callbacks \<Rightarrow> cpueaxh_engine \<Rightarrow> u64 \<Rightarrow> cpueaxh_engine" where
  "push_value64 cb e v =
     (if cpu_has_exception (cpu_ctx e) then e
      else if get_stack_addr_size (cpu_ctx e) = 64 \<or> get_stack_addr_size (cpu_ctx e) = 32
      then push_store (\<lambda>e a. write_memory_qword cb e a v) 8 e
      else on_ctx (\<lambda>c. raise_gp_ctx c 0) e)"

definition cpu_store_stack_value_le :: "nat \<Rightarrow> u64 \<Rightarrow> u8 list" where
  "cpu_store_stack_value_le sz v =
     (if sz = 2 then cpu_store_u16_le (ucast v)
      else if sz = 4 then cpu_store_u32_le (ucast v)
      else if sz = 8 then cpu_store_u64_le v else replicate 8 0)"

definition cpu_resolve_stack_slot_write ::
  "callbacks \<Rightarrow> cpueaxh_engine \<Rightarrow> u64 \<Rightarrow> nat \<Rightarrow> u64 \<Rightarrow> u64 list option \<times> cpueaxh_engine" where
  "cpu_resolve_stack_slot_write cb e address sz v =
     resolve_each cb address sz MM_PROT_WRITE v [0..<sz] e"

definition cpu_commit_stack_slot_write ::
  "callbacks \<Rightarrow> cpueaxh_engine \<Rightarrow> u64 \<Rightarrow> u8 list \<Rightarrow> nat \<Rightarrow> u64 \<Rightarrow> u64 list \<Rightarrow> cpueaxh_engine" where
  "cpu_commit_stack_slot_write cb e address bytes sz v byte_ptrs =
     store_at (notify_if_hooked cb e CPUEAXH_HOOK_MEM_WRITE address (of_nat sz) v) byte_ptrs (take sz bytes)"

definition push_two_stack_values ::
  "callbacks \<Rightarrow> cpueaxh_engine \<Rightarrow> u64 \<Rightarrow> u64 \<Rightarrow> nat \<Rightarrow> cpueaxh_engine" where
  "push_two_stack_values cb e first_value second_value value_size =
     (let s = get_stack_addr_size (cpu_ctx e)
      in if cpu_has_exception (cpu_ctx e) then e
         else if value_size \<noteq> 2 \<and> value_size \<noteq> 4 \<and> value_size \<noteq> 8 then on_ctx (\<lambda>c. raise_gp_ctx c 0) e
         else if s = 16 \<and> value_size = 8 then on_ctx (\<lambda>c. raise_gp_ctx c 0) e
         else
           let first_address = cpu_stack_pointer_sub s (cpu_get_stack_pointer_value (cpu_ctx e) s) (of_nat value_size);
               second_address = cpu_stack_pointer_sub s first_address (of_nat value_size);
               first_bytes = cpu_store_stack_value_le value_size first_value;
               second_bytes = cpu_store_stack_value_le value_size second_value
           in case cpu_resolve_stack_slot_write cb e first_address value_size first_value of
                (None, e1) \<Rightarrow> e1
              | (Some first_ptrs, e1) \<Rightarrow>
                  case cpu_resolve_stack_slot_write cb e1 second_address value_size second_value of
                    (None, e2) \<Rightarrow> e2
                  | (Some second_ptrs, e2) \<Rightarrow>
                      let e3 = cpu_commit_stack_slot_write cb e2 first_address first_bytes value_size
                                 first_value first_ptrs;
                          e4 = cpu_commit_stack_slot_write cb e3 second_address second_bytes value_size
                                 second_value second_ptrs
                      in on_ctx (\<lambda>c. cpu_set_stack_pointer_value c s second_address) e4)"

definition read_stack_value :: "callbacks \<Rightarrow> cpueaxh_engine \<Rightarrow> u64 \<Rightarrow> nat \<Rightarrow> u64 \<times> cpueaxh_engine" where
  "read_stack_value cb e address value_size =
     (if value_size = 2 then (case read_memory_word cb e address of (v, e1) \<Rightarrow> (ucast v, e1))
      else if value_size = 4 then (case read_memory_dword cb e address of (v, e1) \<Rightarrow> (ucast v, e1))
      else read_memory_qword cb e address)"

fun peek_loop ::
  "callbacks \<Rightarrow> int \<Rightarrow> u64 \<Rightarrow> nat \<Rightarrow> nat list \<Rightarrow> cpueaxh_engine \<Rightarrow> u64 list option \<times> cpueaxh_engine" where
  "peek_loop cb s base_sp value_size [] e = (Some [], e)"
| "peek_loop cb s base_sp value_size (index # rest) e =
     (case read_stack_value cb e (cpu_stack_pointer_add s base_sp (of_nat (index * value_size))) value_size of
        (v, e1) \<Rightarrow>
          if cpu_has_exception (cpu_ctx e1) then (None, e1)
          else case peek_loop cb s base_sp value_size rest e1 of
                 (None, e2) \<Rightarrow> (None, e2)
               | (Some vs, e2) \<Rightarrow> (Some (v # vs), e2))"

text \<open>Result: the values with the stack pointer after them, or \<open>None\<close> with an exception pending.\<close>

definition peek_stack_values ::
  "callbacks \<Rightarrow> cpueaxh_engine \<Rightarrow> nat \<Rightarrow> nat \<Rightarrow> (u64 list \<times> u64) option \<times> cpueaxh_engine" where
  "peek_stack_values cb e value_size count =
     (let s = get_stack_addr_size (cpu_ctx e)
      in if cpu_has_exception (cpu_ctx e) then (None, e)
         else if value_size \<noteq> 2 \<and> value_size \<noteq> 4 \<and> value_size \<noteq> 8
         then (None, on_ctx (\<lambda>c. raise_gp_ctx c 0) e)
         else if s = 16 \<and> value_size = 8 then (None, on_ctx (\<lambda>c. raise_gp_ctx c 0) e)
         else
           let base_sp = cpu_get_stack_pointer_value (cpu_ctx e) s
           in case peek_loop cb s base_sp value_size [0..<count] e of
                (None, e1) \<Rightarrow> (None, e1)
              | (Some vs, e1) \<Rightarrow>
                  (Some (vs, cpu_stack_pointer_add s base_sp (of_nat (count * value_size))), e1))"

definition pop_load ::
  "(cpueaxh_engine \<Rightarrow> u64 \<Rightarrow> 'v :: zero \<times> cpueaxh_engine) \<Rightarrow> u64 \<Rightarrow> cpueaxh_engine \<Rightarrow> 'v \<times> cpueaxh_engine" where
  "pop_load rd delta e =
     (let s = get_stack_addr_size (cpu_ctx e);
          sp = cpu_get_stack_pointer_value (cpu_ctx e) s
      in case rd e sp of
           (v, e1) \<Rightarrow>
             if cpu_has_exception (cpu_ctx e1) then (0, e1)
             else if s = 64
             then (v, on_ctx (\<lambda>c. c\<lparr>regs := (regs c)(REG_RSP := regs c REG_RSP + delta)\<rparr>) e1)
             else (v, on_ctx (\<lambda>c. cpu_set_stack_pointer_value c s (cpu_stack_pointer_add s sp delta)) e1))"

definition pop_value16 :: "callbacks \<Rightarrow> cpueaxh_engine \<Rightarrow> u16 \<times> cpueaxh_engine" where
  "pop_value16 cb e = pop_load (read_memory_word cb) 2 e"
definition pop_value32 :: "callbacks \<Rightarrow> cpueaxh_engine \<Rightarrow> u32 \<times> cpueaxh_engine" where
  "pop_value32 cb e = pop_load (read_memory_dword cb) 4 e"
definition pop_value64 :: "callbacks \<Rightarrow> cpueaxh_engine \<Rightarrow> u64 \<times> cpueaxh_engine" where
  "pop_value64 cb e =
     (if get_stack_addr_size (cpu_ctx e) = 64 \<or> get_stack_addr_size (cpu_ctx e) = 32
      then pop_load (read_memory_qword cb) 8 e
      else (0, on_ctx (\<lambda>c. raise_gp_ctx c 0) e))"

end
