(* ===== verification/Dispatch.thy ===== *)
theory Dispatch
  imports Helper
begin

text \<open>
  Inspection of instruction bytes (\<^verbatim>\<open>cpu/dispatch_helpers.hpp\<close>), the classifications the decoder
  stores with a cached instruction (\<^verbatim>\<open>cpu/decoder.hpp\<close>), and the classification of escape
  instructions (\<^verbatim>\<open>cpueaxh.cpp\<close>, with the probes of \<^verbatim>\<open>instructions/rdrand.hpp\<close> and
  \<^verbatim>\<open>instructions/rdssp.hpp\<close>). A buffer and its length are one list of bytes; the out-parameters
  are components of the result. A null buffer does not occur: every caller passes a local array.
\<close>

unbundle bit_operations_syntax

subsection \<open>Prefixes and opcodes\<close>

definition is_segment_prefix :: "u8 \<Rightarrow> bool" where
  "is_segment_prefix b \<longleftrightarrow> b = 0x26 \<or> b = 0x2E \<or> b = 0x36 \<or> b = 0x3E \<or> b = 0x64 \<or> b = 0x65"

definition is_legacy_prefix :: "u8 \<Rightarrow> bool" where
  "is_legacy_prefix b \<longleftrightarrow>
     is_segment_prefix b \<or> b = 0x66 \<or> b = 0x67 \<or> b = 0xF0 \<or> b = 0xF2 \<or> b = 0xF3"

definition is_rex_byte :: "u8 \<Rightarrow> bool" where
  "is_rex_byte b \<longleftrightarrow> 0x40 \<le> b \<and> b \<le> 0x4F"

definition peek_prefix_len :: "CPU_CONTEXT \<Rightarrow> u8 list \<Rightarrow> nat" where
  "peek_prefix_len ctx buf =
     length (takeWhile (\<lambda>b. is_legacy_prefix b \<or> cpu_allows_rex_prefix ctx \<and> is_rex_byte b) buf)"

definition peek_opcode :: "CPU_CONTEXT \<Rightarrow> u8 list \<Rightarrow> u16 \<times> nat" where
  "peek_opcode ctx buf =
     (let i = peek_prefix_len ctx buf
      in (if length buf \<le> i then 0xFFFF
          else if buf ! i = 0x0F \<and> i + 1 < length buf then 0x0F00 OR ucast (buf ! (i + 1))
          else ucast (buf ! i), i))"

definition peek_repeat_prefix :: "u8 list \<Rightarrow> nat \<Rightarrow> u8" where
  "peek_repeat_prefix buf prefix_len =
     foldl (\<lambda>r b. if b = 0xF2 \<or> b = 0xF3 then b else r) 0 (take prefix_len buf)"

definition peek_mandatory_prefix :: "u8 list \<Rightarrow> nat \<Rightarrow> u8" where
  "peek_mandatory_prefix buf prefix_len =
     foldl (\<lambda>r b. if b = 0x66 \<or> b = 0xF2 \<or> b = 0xF3 then b else r) 0 (take prefix_len buf)"

record InstructionPrefixPresence =
  pp_has_66 :: bool
  pp_has_f2 :: bool
  pp_has_f3 :: bool
  pp_has_lock :: bool

definition peek_instruction_prefix_presence :: "u8 list \<Rightarrow> nat \<Rightarrow> InstructionPrefixPresence" where
  "peek_instruction_prefix_presence buf prefix_len =
     foldl (\<lambda>p b. \<lparr>pp_has_66 = (pp_has_66 p \<or> b = 0x66), pp_has_f2 = (pp_has_f2 p \<or> b = 0xF2),
                   pp_has_f3 = (pp_has_f3 p \<or> b = 0xF3), pp_has_lock = (pp_has_lock p \<or> b = 0xF0)\<rparr>)
       \<lparr>pp_has_66 = False, pp_has_f2 = False, pp_has_f3 = False, pp_has_lock = False\<rparr>
       (take prefix_len buf)"

record LegacyPrefixState =
  lp_has_66 :: bool
  lp_has_67 :: bool
  lp_has_f2 :: bool
  lp_has_f3 :: bool
  lp_has_lock :: bool

definition no_prefixes :: LegacyPrefixState where
  "no_prefixes = \<lparr>lp_has_66 = False, lp_has_67 = False, lp_has_f2 = False, lp_has_f3 = False,
     lp_has_lock = False\<rparr>"

text \<open>The loop of \<^verbatim>\<open>decode_legacy_prefixes\<close> on the bytes that are left; \<open>offset\<close> counts those consumed.\<close>

fun legacy_prefix_loop ::
  "u8 list \<Rightarrow> nat \<Rightarrow> LegacyPrefixState \<Rightarrow> CPU_CONTEXT \<Rightarrow> LegacyPrefixState \<times> nat \<times> CPU_CONTEXT" where
  "legacy_prefix_loop [] offset prefixes ctx = (prefixes, offset, ctx)"
| "legacy_prefix_loop (prefix # rest) offset prefixes ctx =
     (if prefix = 0x66
      then legacy_prefix_loop rest (offset + 1) (prefixes\<lparr>lp_has_66 := True\<rparr>)
             (ctx\<lparr>operand_size_override := True\<rparr>)
      else if prefix = 0x67
      then legacy_prefix_loop rest (offset + 1) (prefixes\<lparr>lp_has_67 := True\<rparr>)
             (ctx\<lparr>address_size_override := True\<rparr>)
      else if prefix = 0xF2 then legacy_prefix_loop rest (offset + 1) (prefixes\<lparr>lp_has_f2 := True\<rparr>) ctx
      else if prefix = 0xF3 then legacy_prefix_loop rest (offset + 1) (prefixes\<lparr>lp_has_f3 := True\<rparr>) ctx
      else
        case cpu_try_apply_rex_prefix ctx prefix of
          (True, ctx1) \<Rightarrow> legacy_prefix_loop rest (offset + 1) prefixes ctx1
        | (False, ctx1) \<Rightarrow>
            if prefix = 0xF0
            then legacy_prefix_loop rest (offset + 1) (prefixes\<lparr>lp_has_lock := True\<rparr>) ctx1
            else if is_segment_prefix prefix then legacy_prefix_loop rest (offset + 1) prefixes ctx1
            else (prefixes, offset, ctx1))"

definition decode_legacy_prefixes ::
  "CPU_CONTEXT \<Rightarrow> u8 list \<Rightarrow> nat \<Rightarrow> LegacyPrefixState \<times> nat \<times> CPU_CONTEXT" where
  "decode_legacy_prefixes ctx code offset =
     legacy_prefix_loop (drop offset code) offset no_prefixes (cpu_reset_prefix_state ctx)"

definition peek_segment_override :: "u8 list \<Rightarrow> nat \<Rightarrow> int" where
  "peek_segment_override buf prefix_len =
     foldl (\<lambda>s b. if cpu_decode_segment_override b \<ge> 0 then cpu_decode_segment_override b else s)
       (- 1) (take prefix_len buf)"

definition is_branch_opcode :: "u16 \<Rightarrow> bool" where
  "is_branch_opcode opc \<longleftrightarrow>
     0x0F80 \<le> opc \<and> opc \<le> 0x0F8F \<or>
     opc \<le> 0xFF \<and>
       (opc \<in> {0x70, 0x71, 0x72, 0x73, 0x74, 0x75, 0x76, 0x77, 0x78, 0x79, 0x7A, 0x7B, 0x7C, 0x7D,
                0x7E, 0x7F, 0xE0, 0xE1, 0xE2, 0xE3, 0xEB, 0xE9, 0xEA, 0xE8, 0x9A, 0xC2, 0xC3, 0xCA,
                0xCB, 0xCF, 0xFF})"

definition peek_modrm_reg_field :: "u8 list \<Rightarrow> nat \<Rightarrow> nat \<Rightarrow> u8" where
  "peek_modrm_reg_field buf prefix_len opc_offset =
     (let pos = prefix_len + opc_offset
      in if pos < length buf then drop_bit 3 (buf ! pos) AND 0x07 else 0xFF)"

definition peek_modrm_mod_field :: "u8 list \<Rightarrow> nat \<Rightarrow> nat \<Rightarrow> u8" where
  "peek_modrm_mod_field buf prefix_len opc_offset =
     (let pos = prefix_len + opc_offset
      in if pos < length buf then drop_bit 6 (buf ! pos) AND 0x03 else 0xFF)"

text \<open>Its prefix scan is that of \<open>peek_prefix_len\<close>, with the operand-size override noted on the way.\<close>

definition decode_near_ret_operand_size :: "CPU_CONTEXT \<Rightarrow> u8 list \<Rightarrow> int \<times> nat" where
  "decode_near_ret_operand_size ctx buf =
     (let prefix_len = peek_prefix_len ctx buf; override = 0x66 \<in> set (take prefix_len buf)
      in (if override then 16 else if cpu_is_64bit_code ctx then 64 else 32, prefix_len))"

definition cpu_step_may_touch_vector_state :: "u8 list \<Rightarrow> u16 \<Rightarrow> u8 \<Rightarrow> bool" where
  "cpu_step_may_touch_vector_state buf opc mandatory_prefix =
     (if buf = [] then False
      else if hd buf = 0xC5 \<or> hd buf = 0xC4 then True
      else if opc \<le> 0xFF then False
      else if 0x0F40 \<le> opc \<and> opc \<le> 0x0F4F \<or> 0x0F80 \<le> opc \<and> opc \<le> 0x0F8F \<or>
              0x0F90 \<le> opc \<and> opc \<le> 0x0F9F \<or>
              opc \<in> {0x0FA0, 0x0FA1, 0x0FA2, 0x0FA8, 0x0FA9, 0x0FAF, 0x0FB0, 0x0FB1, 0x0FB6, 0x0FB7,
                      0x0FBC, 0x0FBD, 0x0FBE, 0x0FBF, 0x0FA3, 0x0FAB, 0x0FB3, 0x0FBB, 0x0FBA, 0x0FC0,
                      0x0FC1} \<or>
              0x0FC8 \<le> opc \<and> opc \<le> 0x0FCF \<or>
              opc \<in> {0x0F00, 0x0F01, 0x0F05, 0x0F20, 0x0F22, 0x0F31, 0x0F33, 0x0F34, 0x0F1F}
      then False
      else if opc = 0x0FC7 \<or> opc = 0x0F1E then False
      else if opc = 0x0F0D \<or> opc = 0x0F18 \<or> opc = 0x0F2B \<and> mandatory_prefix = 0 then opc = 0x0F2B
      else True)"


subsection \<open>ModRM, SIB and displacement\<close>

text \<open>
  The displacement bytes, read in little-endian order into a 32-bit integer and sign-extended from
  their width, and the size of the displacement. In 16-bit addressing the source asks for a
  displacement when \<open>rm\<close> is 5 and for none when it is 6, as the 32-bit encoding has it.
\<close>

definition modrm_disp_size :: "u8 \<Rightarrow> int \<Rightarrow> bool \<Rightarrow> u8 \<Rightarrow> nat" where
  "modrm_disp_size modrm address_size has_sib sib =
     (let md = modrm_mod modrm; rm = modrm_rm modrm
      in if md = 0 \<and> rm = 5 then (if address_size = 16 then 2 else 4)
         else if md = 0 \<and> has_sib \<and> sib AND 0x07 = 5 then 4
         else if md = 1 then 1
         else if md = 2 then (if address_size = 16 then 2 else 4)
         else 0)"

definition modrm_displacement :: "u8 list \<Rightarrow> int" where
  "modrm_displacement bytes =
     (if length bytes = 1 then sint (ucast (le_load bytes) :: u8)
      else if length bytes = 2 then sint (ucast (le_load bytes) :: u16)
      else sint (ucast (le_load bytes) :: u32))"

text \<open>
  The body that \<^verbatim>\<open>decode_modrm_common\<close> and the \<^verbatim>\<open>decode_modrm_*\<close> functions of the instruction files
  share. The results are the instruction, the offset and the context, and whether the body ran to
  its end; the functions differ in the checks they add before or after it.
\<close>

definition decode_modrm_operand ::
  "CPU_CONTEXT \<Rightarrow> DecodedInstruction \<Rightarrow> u8 list \<Rightarrow> nat \<Rightarrow> DecodedInstruction \<times> nat \<times> CPU_CONTEXT \<times> bool"
where
  "decode_modrm_operand ctx inst code offset =
     (let gp = raise_gp_ctx ctx 0
      in if length code \<le> offset then (inst, offset, gp, False)
         else
           let modrm = code ! offset;
               inst = inst\<lparr>di_has_modrm := True, di_modrm := modrm\<rparr>;
               offset = offset + 1;
               md = modrm_mod modrm;
               wants_sib = (md \<noteq> 3 \<and> modrm_rm modrm = 4 \<and> di_address_size inst \<noteq> 16)
           in if wants_sib \<and> length code \<le> offset then (inst, offset, gp, False)
              else
                let inst = (if wants_sib then inst\<lparr>di_has_sib := True, di_sib := code ! offset\<rparr> else inst);
                    offset = (if wants_sib then offset + 1 else offset);
                    disp = modrm_disp_size modrm (di_address_size inst) (di_has_sib inst) (di_sib inst);
                    inst = (if disp > 0 then inst\<lparr>di_disp_size := int disp\<rparr> else inst)
                in if disp > 0 \<and> length code < offset + disp then (inst, offset, gp, False)
                   else
                     let inst = (if disp > 0
                                 then inst\<lparr>di_displacement :=
                                        modrm_displacement (take disp (drop offset code))\<rparr>
                                 else inst);
                         offset = offset + disp
                     in if md = 3 then (inst, offset, ctx, True)
                        else case get_effective_address ctx modrm (Some (di_sib inst))
                                    (di_displacement inst) (di_address_size inst) 0 of
                               (a, ctx1) \<Rightarrow> (inst\<lparr>di_mem_address := a\<rparr>, offset, ctx1, True))"

definition decode_modrm_common ::
  "CPU_CONTEXT \<Rightarrow> DecodedInstruction \<Rightarrow> u8 list \<Rightarrow> nat \<Rightarrow> bool \<Rightarrow> DecodedInstruction \<times> nat \<times> CPU_CONTEXT"
where
  "decode_modrm_common ctx inst code offset allow_register_form =
     (if offset < length code \<and> modrm_mod (code ! offset) = 3 \<and> \<not> allow_register_form
      then (inst\<lparr>di_has_modrm := True, di_modrm := code ! offset\<rparr>, offset + 1, raise_ud_ctx ctx)
      else case decode_modrm_operand ctx inst code offset of
             (inst1, offset1, ctx1, _) \<Rightarrow> (inst1, offset1, ctx1))"

subsection \<open>Classifications of the decoder\<close>

definition cpu_decoder_classify_no_fault ::
  "u8 list \<Rightarrow> nat \<Rightarrow> u16 \<Rightarrow> u8 \<Rightarrow> u8 \<Rightarrow> u8 \<Rightarrow> u8 \<Rightarrow> u8 \<Rightarrow> bool" where
  "cpu_decoder_classify_no_fault buf prefix_len opc group_reg group3_reg fe_reg ff_reg group2_reg =
     (let prefixes = take prefix_len buf; raw_opc = ucast opc :: u8;
          lo = raw_opc AND 0x07;
          mod1 = peek_modrm_mod_field buf prefix_len 1; mod2 = peek_modrm_mod_field buf prefix_len 2
      in if length buf \<le> prefix_len then False
         else if 0xF0 \<in> set prefixes then False
         else if 0x66 \<in> set prefixes \<and> (opc = 0xE9 \<or> 0x0F80 \<le> opc \<and> opc \<le> 0x0F8F) then False
         else if 0x40 \<le> opc \<and> opc \<le> 0x4F then True
         else if 0xB0 \<le> opc \<and> opc \<le> 0xBF then True
         else if (opc = 0x80 \<or> opc = 0x81 \<or> opc = 0x83) \<and> group_reg \<noteq> 0xFF \<and> mod1 = 3 then True
         else if raw_opc \<le> 0x3F \<and> raw_opc AND 0x06 \<le> 0x05 \<and> (lo = 4 \<or> lo = 5 \<or> lo \<le> 3 \<and> mod1 = 3)
         then True
         else if (raw_opc = 0x88 \<or> raw_opc = 0x89 \<or> raw_opc = 0x8A \<or> raw_opc = 0x8B) \<and> mod1 = 3 then True
         else if raw_opc = 0x8D then True
         else if (raw_opc = 0x84 \<or> raw_opc = 0x85 \<or> raw_opc = 0x86 \<or> raw_opc = 0x87) \<and> mod1 = 3 then True
         else if (raw_opc = 0xC6 \<or> raw_opc = 0xC7) \<and> group_reg = 0 \<and> mod1 = 3 then True
         else if (raw_opc = 0xC0 \<or> raw_opc = 0xC1 \<or> raw_opc = 0xD0 \<or> raw_opc = 0xD1 \<or>
                  raw_opc = 0xD2 \<or> raw_opc = 0xD3) \<and> group2_reg \<noteq> 0xFF \<and> mod1 = 3 then True
         else if (raw_opc = 0xF6 \<or> raw_opc = 0xF7) \<and> group3_reg \<noteq> 0xFF \<and> group3_reg \<le> 5 \<and> mod1 = 3
         then True
         else if raw_opc = 0xFE \<and> fe_reg \<le> 1 \<and> mod1 = 3 then True
         else if raw_opc = 0xFF \<and> (ff_reg = 0 \<or> ff_reg = 1) \<and> mod1 = 3 then True
         else if opc = 0x0F1E \<or> opc = 0x0F1F then True
         else if 0x0F40 \<le> opc \<and> opc \<le> 0x0F4F \<and> mod2 = 3 then True
         else if 0x0F90 \<le> opc \<and> opc \<le> 0x0F9F \<and> mod2 = 3 then True
         else if (opc = 0x0FB6 \<or> opc = 0x0FB7 \<or> opc = 0x0FBE \<or> opc = 0x0FBF) \<and> mod2 = 3 then True
         else if (opc = 0x0FBC \<or> opc = 0x0FBD \<or> opc = 0x0FB8) \<and> mod2 = 3 then True
         else if 0x0FC8 \<le> opc \<and> opc \<le> 0x0FCF then True
         else opc = 0x90 \<or> opc = 0xF5 \<or> opc = 0xF8 \<or> opc = 0xF9 \<or> opc = 0xFC \<or> opc = 0xFD)"

definition cpu_decoder_set_inline_ret ::
  "DecodedInst \<Rightarrow> u8 \<Rightarrow> int \<Rightarrow> u16 \<Rightarrow> bool \<Rightarrow> DecodedInst" where
  "cpu_decoder_set_inline_ret dec prefix_len operand_size imm16 has_imm =
     dec\<lparr>dc_inline_kind := (if has_imm then DECODED_INLINE_RET_NEAR_IMM16 else DECODED_INLINE_RET_NEAR_NO_IMM),
         dc_near_ret_prefix_len := prefix_len, dc_near_ret_op_size := word_of_int operand_size,
         dc_inline_imm16 := imm16, dc_length := prefix_len + (if has_imm then 3 else 1),
         dc_flags := dc_flags dec OR (DECODED_FLAG_BRANCH OR DECODED_FLAG_INLINE_RET)\<rparr>"

definition cpu_decoder_is_escape_owned_ud :: "u16 \<Rightarrow> bool" where
  "cpu_decoder_is_escape_owned_ud opc \<longleftrightarrow>
     opc \<in> {0xCD, 0x0F0B, 0xE4, 0xE5, 0xE6, 0xE7, 0xEC, 0xED, 0xEE, 0xEF, 0x0F05, 0x0F34, 0xF4, 0x0FA2,
             0x0F20, 0x0F22}"

definition cpu_decoder_is_escape_candidate_opc :: "u16 \<Rightarrow> bool" where
  "cpu_decoder_is_escape_candidate_opc opc \<longleftrightarrow>
     opc = 0xCC \<or> opc = 0xCD \<or> opc = 0xF1 \<or> opc = 0xF4 \<or> opc = 0x0F0B \<or>
     opc = 0xE4 \<or> opc = 0xE5 \<or> opc = 0xE6 \<or> opc = 0xE7 \<or> opc = 0xEC \<or> opc = 0xED \<or> opc = 0xEE \<or>
     opc = 0xEF \<or> opc = 0x6C \<or> opc = 0x6D \<or> opc = 0x0F05 \<or> opc = 0x0F34 \<or> opc = 0x0FA2 \<or>
     opc = 0x0F31 \<or> opc = 0x0F01 \<or> opc = 0x0FC7 \<or> opc = 0x0F20 \<or> opc = 0x0F22 \<or> opc = 0x0F1E"

text \<open>Results: whether the encoding is either of the two, then which.\<close>

definition cpu_decoder_classify_xgetbv_rdtscp :: "u8 list \<Rightarrow> nat \<Rightarrow> u16 \<Rightarrow> bool \<times> bool \<times> bool" where
  "cpu_decoder_classify_xgetbv_rdtscp buf prefix_len opc =
     (if opc \<noteq> 0x0F01 \<or> length buf \<le> prefix_len + 2 then (False, False, False)
      else if buf ! (prefix_len + 2) = 0xD0 then (True, True, False)
      else if buf ! (prefix_len + 2) = 0xF9 then (True, False, True)
      else (False, False, False))"

definition cpu_decoder_dec_inst_safe_to_replay :: "DecodedInstruction \<Rightarrow> bool" where
  "cpu_decoder_dec_inst_safe_to_replay d \<longleftrightarrow> \<not> di_has_modrm d \<or> drop_bit 6 (di_modrm d) AND 0x03 = 3"

subsection \<open>Escape instructions\<close>

definition is_rdrand_instruction :: "u8 list \<Rightarrow> bool" where
  "is_rdrand_instruction code =
     (let offset = length (takeWhile (\<lambda>b. is_legacy_prefix b \<or> is_rex_byte b) code);
          modrm = code ! (offset + 2)
      in if length code < offset + 3 then False
         else if code ! offset \<noteq> 0x0F \<or> code ! (offset + 1) \<noteq> 0xC7 then False
         else drop_bit 3 modrm AND 0x07 = 6 \<and> drop_bit 6 modrm AND 0x03 = 3)"

text \<open>Result of the probe: the REX.W bit and the instruction size, if the bytes are RDSSP.\<close>

definition probe_rdssp_instruction :: "u8 list \<Rightarrow> (bool \<times> u32) option" where
  "probe_rdssp_instruction code =
     (let prefixes = takeWhile (\<lambda>b. is_legacy_prefix b \<or> is_rex_byte b) code;
          offset = length prefixes;
          rex_w = foldl (\<lambda>w b. if is_rex_byte b then drop_bit 3 b AND 1 \<noteq> 0 else w) False prefixes;
          modrm = code ! (offset + 2)
      in if length code < offset + 3 then None
         else if 0xF0 \<in> set prefixes \<or> 0xF3 \<notin> set prefixes \<or>
                 code ! offset \<noteq> 0x0F \<or> code ! (offset + 1) \<noteq> 0x1E \<or>
                 drop_bit 3 modrm AND 0x07 \<noteq> 1 \<or> drop_bit 6 modrm \<noteq> 3
         then None else Some (rex_w, of_nat (offset + 3)))"

definition cpueaxh_classify_escape_instruction :: "CPU_CONTEXT \<Rightarrow> u8 list \<Rightarrow> u32 \<times> u32" where
  "cpueaxh_classify_escape_instruction ctx bytes =
     (let (opc, prefix_len) = peek_opcode ctx bytes; none = (CPUEAXH_ESCAPE_INSN_NONE, 0);
          sized = (\<lambda>id n. (id, of_nat (prefix_len + n)))
      in if bytes = [] then none
         else if opc = 0xFFFF then none
         else if opc = 0xCC then sized CPUEAXH_ESCAPE_INSN_INT3 1
         else if opc = 0xF1 then sized CPUEAXH_ESCAPE_INSN_INT1 1
         else if opc = 0xCD \<and> length bytes \<ge> prefix_len + 2 then sized CPUEAXH_ESCAPE_INSN_INT 2
         else if opc = 0x0F0B then sized CPUEAXH_ESCAPE_INSN_UD2 2
         else if opc = 0xF4 then sized CPUEAXH_ESCAPE_INSN_HLT 1
         else if opc = 0xE4 \<or> opc = 0xE5
         then if length bytes \<ge> prefix_len + 2 then sized CPUEAXH_ESCAPE_INSN_IN 2 else none
         else if opc = 0xEC \<or> opc = 0xED then sized CPUEAXH_ESCAPE_INSN_IN 1
         else if opc = 0x6C \<or> opc = 0x6D then sized CPUEAXH_ESCAPE_INSN_INS 1
         else if opc = 0xE6 \<or> opc = 0xE7
         then if length bytes \<ge> prefix_len + 2 then sized CPUEAXH_ESCAPE_INSN_OUT 2 else none
         else if opc = 0xEE \<or> opc = 0xEF then sized CPUEAXH_ESCAPE_INSN_OUT 1
         else if opc = 0x0F05 then sized CPUEAXH_ESCAPE_INSN_SYSCALL 2
         else if opc = 0x0F34 then sized CPUEAXH_ESCAPE_INSN_SYSENTER 2
         else if opc = 0x0FA2 then sized CPUEAXH_ESCAPE_INSN_CPUID 2
         else if opc = 0x0F31 then sized CPUEAXH_ESCAPE_INSN_RDTSC 2
         else if opc = 0x0F01 \<and> prefix_len + 2 < length bytes \<and> bytes ! (prefix_len + 2) = 0xD0
         then sized CPUEAXH_ESCAPE_INSN_XGETBV 3
         else if opc = 0x0F01 \<and> prefix_len + 2 < length bytes \<and> bytes ! (prefix_len + 2) = 0xF9
         then sized CPUEAXH_ESCAPE_INSN_RDTSCP 3
         else if opc = 0x0FC7 \<and> is_rdrand_instruction bytes then sized CPUEAXH_ESCAPE_INSN_RDRAND 3
         else if opc = 0x0F20 \<and> length bytes \<ge> prefix_len + 3 then sized CPUEAXH_ESCAPE_INSN_READCRX 3
         else if opc = 0x0F22 \<and> length bytes \<ge> prefix_len + 3 then sized CPUEAXH_ESCAPE_INSN_WRITECRX 3
         else if opc = 0x0F1E
         then case probe_rdssp_instruction bytes of
                Some (w, n) \<Rightarrow> (if w then CPUEAXH_ESCAPE_INSN_RDSSPQ else CPUEAXH_ESCAPE_INSN_RDSSPD, n)
              | None \<Rightarrow> none
         else none)"

definition cpueaxh_is_optional_escape_instruction :: "u32 \<Rightarrow> bool" where
  "cpueaxh_is_optional_escape_instruction instruction_id \<longleftrightarrow>
     instruction_id = CPUEAXH_ESCAPE_INSN_RDSSPD \<or> instruction_id = CPUEAXH_ESCAPE_INSN_RDSSPQ"

text \<open>
  An instruction the decoder marks as no escape candidate is never classified as an escape, so
  the run loop may skip the classification on a cache hit.
\<close>

lemma not_candidate_not_escape:
  assumes "\<not> cpu_decoder_is_escape_candidate_opc (fst (peek_opcode ctx bytes))"
  shows "cpueaxh_classify_escape_instruction ctx bytes = (CPUEAXH_ESCAPE_INSN_NONE, 0)"
proof (cases "peek_opcode ctx bytes")
  case (Pair opc prefix_len)
  with assms show ?thesis
    unfolding cpu_decoder_is_escape_candidate_opc_def cpueaxh_classify_escape_instruction_def Let_def
    by simp
qed

end
