(* ===== verification/HelperSpec.thy ===== *)
theory HelperSpec
  imports Helper
begin

text \<open>
  Properties of the helpers: partial register writes keep the other bits, effective addresses
  follow the architecture's formula except for one form the code zero-extends, segment loads
  enforce the privilege rules, vector transfers and the stack are all-or-nothing, and a pop
  returns what was pushed.
\<close>

unbundle bit_operations_syntax

subsection \<open>Registers\<close>

lemma and_FF: "x AND 0xFF = take_bit 8 x" and and_FFFF: "x AND 0xFFFF = take_bit 16 x"
  and and_FFFFFFFF: "x AND 0xFFFFFFFF = take_bit 32 x" for x :: u64
  by (simp_all add: take_bit_eq_mask mask_eq_exp_minus_1)

lemma low_merge:
  fixes x :: u64
  shows "take_bit 8 ((x AND NOT 0xFF) OR ucast (v8 :: u8)) = ucast v8"
    "drop_bit 8 ((x AND NOT 0xFF) OR ucast v8) = drop_bit 8 x"
    "take_bit 16 ((x AND NOT 0xFFFF) OR ucast (v16 :: u16)) = ucast v16"
    "drop_bit 16 ((x AND NOT 0xFFFF) OR ucast v16) = drop_bit 16 x"
proof -
  have m: "0xFF = (mask 8 :: u64)" "0xFFFF = (mask 16 :: u64)" by (simp_all add: mask_eq_exp_minus_1)
  show "take_bit 8 ((x AND NOT 0xFF) OR ucast (v8 :: u8)) = ucast v8"
    "drop_bit 8 ((x AND NOT 0xFF) OR ucast v8) = drop_bit 8 x"
    "take_bit 16 ((x AND NOT 0xFFFF) OR ucast (v16 :: u16)) = ucast v16"
    "drop_bit 16 ((x AND NOT 0xFFFF) OR ucast v16) = drop_bit 16 x"
    unfolding m
    by (rule bit_word_eqI, auto simp: bit_simps dest: bit_imp_le_length)+
qed

text \<open>The byte of a register that an 8-bit operand names.\<close>

definition reg8_slot :: "CPU_CONTEXT \<Rightarrow> nat \<Rightarrow> nat \<times> nat" where
  "reg8_slot ctx reg = (if rex_present ctx \<or> reg < 4 then (reg, 0) else (reg - 4, 8))"

lemma set_reg8_bits:
  "bit (regs (set_reg8 ctx reg v) r) n =
     (if r = fst (reg8_slot ctx reg) \<and> snd (reg8_slot ctx reg) \<le> n \<and> n < snd (reg8_slot ctx reg) + 8
      then bit v (n - snd (reg8_slot ctx reg)) else bit (regs ctx r) n)"
proof -
  have m: "0xFF = (mask 8 :: u64)" "0xFF00 = push_bit 8 (mask 8 :: u64)"
    by (simp_all add: mask_eq_exp_minus_1 push_bit_eq_mult)
  show ?thesis
    unfolding set_reg8_def m
    by (auto simp: reg8_slot_def bit_simps dest: bit_imp_le_length)
qed

lemma get_set_reg8: "get_reg8 (set_reg8 ctx reg v) reg = v"
proof -
  have r: "rex_present (set_reg8 ctx reg v) = rex_present ctx" by (simp add: set_reg8_def)
  show ?thesis
    unfolding get_reg8_def r and_FF
    by (rule bit_word_eqI) (auto simp: bit_simps set_reg8_bits reg8_slot_def)
qed

lemma ucast_widen_narrow [simp]:
  "ucast (ucast x8 :: u64) = (x8 :: u8)" "ucast (ucast x16 :: u64) = (x16 :: u16)"
  "ucast (ucast x32 :: u64) = (x32 :: u32)"
  by (rule bit_word_eqI, simp add: bit_simps)+

lemma set_reg16_spec:
  "get_reg16 (set_reg16 ctx reg v) reg = v"
  "drop_bit 16 (regs (set_reg16 ctx reg v) reg) = drop_bit 16 (regs ctx reg)"
proof -
  have r: "regs (set_reg16 ctx reg v) reg = (regs ctx reg AND NOT 0xFFFF) OR ucast v"
    by (simp add: set_reg16_def)
  show "get_reg16 (set_reg16 ctx reg v) reg = v"
    unfolding get_reg16_def and_FFFF r low_merge by simp
  show "drop_bit 16 (regs (set_reg16 ctx reg v) reg) = drop_bit 16 (regs ctx reg)"
    unfolding r low_merge by simp
qed

lemma set_reg32_spec:
  "get_reg32 (set_reg32 ctx reg v) reg = v" "regs (set_reg32 ctx reg v) reg = ucast v"
proof -
  have "take_bit 32 (ucast v) = (ucast v :: u64)" by (rule bit_word_eqI) (auto simp: bit_simps dest: bit_imp_le_length)
  then show "get_reg32 (set_reg32 ctx reg v) reg = v" "regs (set_reg32 ctx reg v) reg = ucast v"
    by (simp_all add: get_reg32_def set_reg32_def and_FFFFFFFF)
qed

lemma set_zmm512_spec: "get_zmm512 (set_zmm512 ctx reg v) r = (if r = reg then v else get_zmm512 ctx r)"
  by (simp add: get_zmm512_def set_zmm512_def)

subsection \<open>Stack pointer arithmetic\<close>

text \<open>The stack pointer is the low part of \<^verbatim>\<open>RSP\<close>, at the width of the stack segment.\<close>

definition stack_width :: "int \<Rightarrow> nat" where
  "stack_width s = (if s = 64 then 64 else if s = 32 then 32 else 16)"

lemma ucast_add_sub_low:
  "ucast ((ucast v :: u32) + ucast d) = (take_bit 32 (v + d) :: u64)"
  "ucast ((ucast v :: u32) - ucast d) = (take_bit 32 (v - d) :: u64)"
  "ucast ((ucast v :: u16) + ucast d) = (take_bit 16 (v + d) :: u64)"
  "ucast ((ucast v :: u16) - ucast d) = (take_bit 16 (v - d) :: u64)"
proof -
  have t: "take_bit n (take_bit 64 a + take_bit 64 b) = take_bit n (a + b)"
    "take_bit n (take_bit 64 a - take_bit 64 b) = take_bit n (a - b)" if "n \<le> 64" for n and a b :: int
  proof -
    have r: "take_bit n x = take_bit n (take_bit 64 x)" for x :: int using that by simp
    show "take_bit n (take_bit 64 a + take_bit 64 b) = take_bit n (a + b)"
      by (subst r) (simp only: take_bit_add, simp only: r [symmetric])
    show "take_bit n (take_bit 64 a - take_bit 64 b) = take_bit n (a - b)"
      by (subst r) (simp only: take_bit_diff, simp only: r [symmetric])
  qed
  show "ucast ((ucast v :: u32) + ucast d) = (take_bit 32 (v + d) :: u64)"
    "ucast ((ucast v :: u16) + ucast d) = (take_bit 16 (v + d) :: u64)"
    by (transfer, simp add: take_bit_add t)+
  show "ucast ((ucast v :: u32) - ucast d) = (take_bit 32 (v - d) :: u64)"
    "ucast ((ucast v :: u16) - ucast d) = (take_bit 16 (v - d) :: u64)"
    by (transfer, simp add: take_bit_diff t)+
qed

lemma stack_pointer_low:
  "cpu_get_stack_pointer_value ctx s = take_bit (stack_width s) (regs ctx REG_RSP)"
  "cpu_stack_pointer_add s v d = take_bit (stack_width s) (v + d)"
  "cpu_stack_pointer_sub s v d = take_bit (stack_width s) (v - d)"
proof -
  have "take_bit 64 x = x" for x :: u64 by (rule bit_word_eqI) (auto simp: bit_simps dest: bit_imp_le_length)
  then show "cpu_get_stack_pointer_value ctx s = take_bit (stack_width s) (regs ctx REG_RSP)"
    "cpu_stack_pointer_add s v d = take_bit (stack_width s) (v + d)"
    "cpu_stack_pointer_sub s v d = take_bit (stack_width s) (v - d)"
    unfolding cpu_get_stack_pointer_value_def cpu_stack_pointer_add_def cpu_stack_pointer_sub_def
      stack_width_def ucast_add_sub_low and_FFFFFFFF and_FFFF
    by (simp_all add: unsigned_ucast_eq)
qed

lemma stack_pointer_set_low:
  "regs (cpu_set_stack_pointer_value ctx s v) =
     (regs ctx)(REG_RSP := (regs ctx REG_RSP AND NOT (mask (stack_width s))) OR take_bit (stack_width s) v)"
proof -
  have "(x AND NOT (mask 64)) OR take_bit 64 v = v" for x v :: u64
    by (rule bit_word_eqI) (auto simp: bit_simps dest: bit_imp_le_length)
  moreover have "0xFFFFFFFF = (mask 32 :: u64)" "0xFFFF = (mask 16 :: u64)" by (simp_all add: mask_eq_exp_minus_1)
  ultimately show ?thesis
    unfolding cpu_set_stack_pointer_value_def Let_def stack_width_def
    by (simp only: unsigned_ucast_eq) simp
qed

lemma stack_pointer_set_frame:
  "cpu_set_stack_pointer_value ctx s v = ctx\<lparr>regs := regs (cpu_set_stack_pointer_value ctx s v)\<rparr>"
  by (simp add: cpu_set_stack_pointer_value_def Let_def)

lemma stack_pointer_get_set:
  "cpu_get_stack_pointer_value (cpu_set_stack_pointer_value ctx s x) s = take_bit (stack_width s) x"
  unfolding stack_pointer_low stack_pointer_set_low
  by (rule bit_word_eqI) (auto simp: bit_simps)

lemma stack_pointer_restore:
  "cpu_set_stack_pointer_value (cpu_set_stack_pointer_value ctx s x) s (cpu_get_stack_pointer_value ctx s) = ctx"
proof -
  have "regs (cpu_set_stack_pointer_value (cpu_set_stack_pointer_value ctx s x) s (cpu_get_stack_pointer_value ctx s)) = regs ctx"
    unfolding stack_pointer_low stack_pointer_set_low
    by (rule ext) (auto intro!: bit_word_eqI simp: bit_simps)
  then show ?thesis
    by (subst stack_pointer_set_frame) (subst stack_pointer_set_frame [of ctx], simp)
qed

lemma stack_pointer_sub_add:
  "cpu_stack_pointer_add s (cpu_stack_pointer_sub s (cpu_get_stack_pointer_value ctx s) d) d =
    cpu_get_stack_pointer_value ctx s"
proof -
  have "take_bit n (take_bit n x + d) = take_bit n (x + d)" if n: "n \<le> 64" for n and x d :: u64
  proof -
    have "(2::nat) ^ n dvd 2 ^ 64" using n by (rule le_imp_power_dvd)
    then have "(a mod 2 ^ n + b) mod 2 ^ 64 mod 2 ^ n = (a + b) mod 2 ^ 64 mod 2 ^ n" for a b :: nat
      by (simp only: mod_mod_cancel mod_add_left_eq)
    then have "unat (take_bit n (take_bit n x + d)) = unat (take_bit n (x + d))"
      by (simp add: unsigned_take_bit_eq unat_word_ariths take_bit_nat_def)
    then show ?thesis by (simp add: word_unat_eq_iff)
  qed
  moreover have "stack_width s \<le> 64" by (simp add: stack_width_def)
  ultimately show ?thesis unfolding stack_pointer_low by simp
qed

subsection \<open>Push and pop\<close>

definition push_le :: "callbacks \<Rightarrow> cpueaxh_engine \<Rightarrow> nat \<Rightarrow> u64 \<Rightarrow> cpueaxh_engine" where
  "push_le cb e n v = push_store (\<lambda>e a. write_memory_le cb e a n v) (of_nat n) e"

definition pop_le :: "callbacks \<Rightarrow> cpueaxh_engine \<Rightarrow> nat \<Rightarrow> u64 \<times> cpueaxh_engine" where
  "pop_le cb e n = pop_load (\<lambda>e a. read_memory_le cb e a n) (of_nat n) e"

lemma push_value_le:
  "\<not> cpu_has_exception (cpu_ctx e) \<Longrightarrow> push_value16 cb e v16 = push_le cb e 2 (ucast v16)"
  "\<not> cpu_has_exception (cpu_ctx e) \<Longrightarrow> push_value32 cb e v32 = push_le cb e 4 (ucast v32)"
  "\<not> cpu_has_exception (cpu_ctx e) \<Longrightarrow> get_stack_addr_size (cpu_ctx e) \<noteq> 16 \<Longrightarrow>
   push_value64 cb e v64 = push_le cb e 8 v64"
  by (auto simp: push_value16_def push_value32_def push_value64_def push_le_def
      write_memory_word_def write_memory_dword_def write_memory_qword_def
      get_stack_addr_size_def cpu_stack_address_size_def)

lemma pop_value_le:
  "pop_value16 cb e = (case pop_le cb e 2 of (v, e1) \<Rightarrow> (ucast v, e1))"
  "pop_value32 cb e = (case pop_le cb e 4 of (v, e1) \<Rightarrow> (ucast v, e1))"
  "get_stack_addr_size (cpu_ctx e) \<noteq> 16 \<Longrightarrow> pop_value64 cb e = pop_le cb e 8"
  by (auto simp: pop_value16_def pop_value32_def pop_value64_def pop_le_def pop_load_def Let_def
      read_memory_word_def read_memory_dword_def read_memory_qword_def [abs_def]
      get_stack_addr_size_def cpu_stack_address_size_def split: prod.splits)

text \<open>The address the next push of \<open>n\<close> bytes stores to.\<close>

definition push_slot :: "cpueaxh_engine \<Rightarrow> nat \<Rightarrow> u64" where
  "push_slot e n =
     (let s = get_stack_addr_size (cpu_ctx e)
      in cpu_stack_pointer_sub s (cpu_get_stack_pointer_value (cpu_ctx e) s) (of_nat n))"

definition slot_ptrs :: "cpueaxh_engine \<Rightarrow> u64 \<Rightarrow> nat \<Rightarrow> u64 list" where
  "slot_ptrs e a n = map (\<lambda>i. the (grant e (a + of_nat i) MM_PROT_WRITE)) [0..<n]"

definition set_sp :: "cpueaxh_engine \<Rightarrow> u64 \<Rightarrow> cpueaxh_engine" where
  "set_sp e a = on_ctx (\<lambda>c. cpu_set_stack_pointer_value c (get_stack_addr_size c) a) e"

lemma set_sp_frame [simp]:
  "memory_manager (set_sp e a) = memory_manager e" "host_state (set_sp e a) = host_state e"
  "hook_type_counts (set_sp e a) = hook_type_counts e"
  "cpl (cpu_ctx (set_sp e a)) = cpl (cpu_ctx e)"
  "cpu_has_exception (cpu_ctx (set_sp e a)) = cpu_has_exception (cpu_ctx e)"
  "get_stack_addr_size (cpu_ctx (set_sp e a)) = get_stack_addr_size (cpu_ctx e)"
  "cpu_uses_canonical_addresses (cpu_ctx (set_sp e a)) = cpu_uses_canonical_addresses (cpu_ctx e)"
  by (simp_all add: set_sp_def on_ctx_def cpu_set_stack_pointer_value_def Let_def cpu_has_exception_def
      get_stack_addr_size_def cpu_stack_address_size_def cpu_is_64bit_code_def cpu_long_mode_active_def
      cpu_uses_canonical_addresses_def)

lemma stack_addr_size_set [simp]:
  "get_stack_addr_size (cpu_set_stack_pointer_value c s a) = get_stack_addr_size c"
  by (simp add: cpu_set_stack_pointer_value_def Let_def get_stack_addr_size_def
      cpu_stack_address_size_def cpu_is_64bit_code_def cpu_long_mode_active_def)

lemma set_sp_grant [simp]: "grant (set_sp e a) = grant e"
  by (simp add: fun_eq_iff grant_def linear_ok_def access_result_def)

lemma set_sp_ready [simp]: "ready (set_sp e a) = ready e"
  by (simp add: ready_def quiet_def)

lemma grant_same:
  assumes "all_granted e a n p" "all_granted e a n q" "i < n"
  shows "grant e (a + of_nat i) q = grant e (a + of_nat i) p"
proof -
  obtain x y where "grant e (a + of_nat i) p = Some x" "grant e (a + of_nat i) q = Some y"
    using assms by (fastforce simp: all_granted_def)
  then show ?thesis using grant_perm by fastforce
qed

lemma push_le_spec:
  assumes r: "ready e" and n: "0 < n" and nn: "nonnull e (push_slot e n) n MM_PROT_WRITE"
  shows "all_granted e (push_slot e n) n MM_PROT_WRITE \<Longrightarrow>
      \<exists>e1. cache_only e e1 \<and> push_le cb e n v =
        set_sp (store_at e1 (slot_ptrs e (push_slot e n) n) (le_store n v)) (push_slot e n)"
    and "\<not> all_granted e (push_slot e n) n MM_PROT_WRITE \<Longrightarrow> faulted e (push_le cb e n v)"
proof -
  let ?a = "push_slot e n"
  have p: "push_le cb e n v =
      (let e1 = write_memory_le cb e ?a n v
       in if cpu_has_exception (cpu_ctx e1) then e1
          else on_ctx (\<lambda>c. cpu_set_stack_pointer_value c (get_stack_addr_size (cpu_ctx e)) ?a) e1)"
    by (simp add: push_le_def push_store_def push_slot_def Let_def)
  show "\<exists>e1. cache_only e e1 \<and> push_le cb e n v =
        set_sp (store_at e1 (slot_ptrs e ?a n) (le_store n v)) ?a"
    if g: "all_granted e ?a n MM_PROT_WRITE"
  proof -
    from write_memory_le_spec(1) [OF r nn n g] obtain e1 where c: "cache_only e e1"
      and w: "write_memory_le cb e ?a n v = store_at e1 (slot_ptrs e ?a n) (le_store n v)"
      unfolding slot_ptrs_def by blast
    have "\<not> cpu_has_exception (cpu_ctx e1)" using r by (simp add: cache_onlyD [OF c] ready_def)
    then show ?thesis
      using c unfolding p w by (intro exI [of _ e1]) (simp add: set_sp_def on_ctx_def cache_onlyD [OF c])
  qed
  show "faulted e (push_le cb e n v)" if "\<not> all_granted e ?a n MM_PROT_WRITE"
    using write_memory_le_spec(2) [OF r nn n that, of cb v] faultedD(1) unfolding p Let_def by auto
qed

lemma pop_le_granted:
  assumes r: "ready e" and n: "0 < n"
    and nn: "nonnull e (cpu_get_stack_pointer_value (cpu_ctx e) (get_stack_addr_size (cpu_ctx e))) n MM_PROT_READ"
    and g: "all_granted e (cpu_get_stack_pointer_value (cpu_ctx e) (get_stack_addr_size (cpu_ctx e))) n MM_PROT_READ"
  shows "\<exists>e1. cache_only e e1 \<and> pop_le cb e n =
    (let s = get_stack_addr_size (cpu_ctx e); sp = cpu_get_stack_pointer_value (cpu_ctx e) s
     in (guest_value e MM_PROT_READ sp n, set_sp e1 (cpu_stack_pointer_add s sp (of_nat n))))"
proof -
  let ?s = "get_stack_addr_size (cpu_ctx e)"
  let ?sp = "cpu_get_stack_pointer_value (cpu_ctx e) ?s"
  from read_memory_le_spec(1) [OF r nn n g] obtain e1 where c: "cache_only e e1"
    and rd: "read_memory_le cb e ?sp n = (guest_value e MM_PROT_READ ?sp n, e1)"
    unfolding guest_value_def by blast
  have ne: "\<not> cpu_has_exception (cpu_ctx e1)" using r by (simp add: cache_onlyD [OF c] ready_def)
  have "?s = 64 \<Longrightarrow> (\<lambda>c. c\<lparr>regs := (regs c)(REG_RSP := regs c REG_RSP + of_nat n)\<rparr>) (cpu_ctx e) =
      cpu_set_stack_pointer_value (cpu_ctx e) ?s (cpu_stack_pointer_add ?s ?sp (of_nat n))"
    by (simp add: cpu_set_stack_pointer_value_def cpu_stack_pointer_add_def cpu_get_stack_pointer_value_def)
  then show ?thesis
    using c ne
    by (intro exI [of _ e1])
       (auto simp: pop_le_def pop_load_def rd Let_def set_sp_def on_ctx_def cache_onlyD [OF c])
qed

text \<open>A push moves the stack pointer down by the size of the value, modulo the width of the stack.\<close>

lemma push_slot_modulo: "uint (cpu_stack_pointer_sub s v d) = (uint v - uint d) mod 2 ^ stack_width s"
proof -
  have "uint (take_bit k (v - d)) = (uint v - uint d) mod 2 ^ k" if "k \<le> 64" for k
    using le_imp_power_dvd [OF that, of "2 :: int"]
    by (simp only: unsigned_take_bit_eq) (simp add: take_bit_eq_mod uint_word_ariths mod_mod_cancel)
  moreover have "stack_width s \<le> 64" by (simp add: stack_width_def)
  ultimately show ?thesis unfolding stack_pointer_low by blast
qed

lemma push_le_context:
  assumes "ready e" "0 < n" "nonnull e (push_slot e n) n MM_PROT_WRITE" "all_granted e (push_slot e n) n MM_PROT_WRITE"
  shows "cpu_ctx (push_le cb e n v) = cpu_set_stack_pointer_value (cpu_ctx e) (get_stack_addr_size (cpu_ctx e)) (push_slot e n)"
proof -
  from push_le_spec(1) [OF assms, of cb v] obtain e1 where c: "cache_only e e1"
    and p: "push_le cb e n v = set_sp (store_at e1 (slot_ptrs e (push_slot e n) n) (le_store n v)) (push_slot e n)" by blast
  show ?thesis unfolding p by (simp add: set_sp_def on_ctx_def cache_onlyD [OF c])
qed

text \<open>A pop returns the pushed value and leaves the context as it was before the push.\<close>

lemma push_pop_le:
  assumes r: "ready e" and n: "0 < n" and a: "a = push_slot e n"
    and nn: "nonnull e a n MM_PROT_WRITE"
    and w: "all_granted e a n MM_PROT_WRITE" and rd: "all_granted e a n MM_PROT_READ"
    and d: "distinct (slot_ptrs e a n)"
  shows "\<exists>e'. pop_le cb' (push_le cb e n v) n = (take_bit (8 * n) v, e') \<and> cpu_ctx e' = cpu_ctx e"
proof -
  from push_le_spec(1) [OF r n, of cb v] nn w obtain e1 where c: "cache_only e e1"
    and p: "push_le cb e n v = set_sp (store_at e1 (slot_ptrs e a n) (le_store n v)) a"
    unfolding a by blast
  let ?e2 = "set_sp (store_at e1 (slot_ptrs e a n) (le_store n v)) a"
  let ?s = "get_stack_addr_size (cpu_ctx e)"
  have s: "get_stack_addr_size (cpu_ctx ?e2) = ?s" by (simp add: cache_onlyD [OF c])
  have sp: "cpu_get_stack_pointer_value (cpu_ctx ?e2) ?s = a"
    by (simp add: set_sp_def on_ctx_def cache_onlyD [OF c] stack_pointer_get_set)
       (simp add: a push_slot_def Let_def stack_pointer_low)
  have same: "grant e (a + of_nat i) MM_PROT_READ = grant e (a + of_nat i) MM_PROT_WRITE" if "i < n" for i
    by (rule grant_same [OF w rd \<open>i < n\<close>])
  have g: "grant ?e2 = grant e" by (simp add: cache_onlyD [OF c])
  have r2: "ready ?e2" using ready_cache_only [OF r c] by simp
  have nn2: "nonnull ?e2 a n MM_PROT_READ" using nn same unfolding nonnull_def g by simp
  have g2: "all_granted ?e2 a n MM_PROT_READ" using rd unfolding all_granted_def g .
  have "map (\<lambda>i. guest_byte ?e2 MM_PROT_READ (a + of_nat i)) [0..<n] =
      map (hmem (host_state ?e2)) (slot_ptrs e a n)"
    unfolding guest_byte_def slot_ptrs_def using same by (simp add: cache_onlyD [OF c])
  also have "\<dots> = le_store n v"
    using store_at_bytes [of "slot_ptrs e a n" "le_store n v" e1] d by (simp add: slot_ptrs_def)
  finally have v: "guest_value ?e2 MM_PROT_READ a n = take_bit (8 * n) v"
    unfolding guest_value_def by (simp add: le_load_store)
  obtain e3 where c3: "cache_only ?e2 e3"
    and po: "pop_le cb' ?e2 n = (take_bit (8 * n) v, set_sp e3 (cpu_stack_pointer_add ?s a (of_nat n)))"
    using pop_le_granted [OF r2 n, of cb'] nn2 g2 unfolding s sp Let_def v by blast
  have "cpu_stack_pointer_add ?s a (of_nat n) = cpu_get_stack_pointer_value (cpu_ctx e) ?s"
    unfolding a push_slot_def Let_def by (rule stack_pointer_sub_add)
  then have "cpu_ctx (set_sp e3 (cpu_stack_pointer_add ?s a (of_nat n))) = cpu_ctx e"
    by (simp add: set_sp_def on_ctx_def cache_onlyD(1) [OF c3] cache_onlyD(1) [OF c] stack_pointer_restore)
  then show ?thesis unfolding p po by simp
qed

text \<open>Two values are pushed together: both slots are written, or neither is and \<^verbatim>\<open>RSP\<close> stays.\<close>

lemma ucast_byte_low:
  "k \<le> 8 \<Longrightarrow> (ucast (drop_bit k (ucast v :: u16) AND 0xFF) :: u8) = ucast (drop_bit k v AND 0xFF)"
  "j \<le> 24 \<Longrightarrow> (ucast (drop_bit j (ucast v :: u32) AND 0xFF) :: u8) = ucast (drop_bit j v AND 0xFF)"
  for v :: u64
proof -
  have m: "x AND 0xFF = take_bit 8 x" "y AND 0xFF = take_bit 8 y" for x :: u16 and y :: u32
    by (simp_all add: take_bit_eq_mask mask_eq_exp_minus_1)
  show "k \<le> 8 \<Longrightarrow> (ucast (drop_bit k (ucast v :: u16) AND 0xFF) :: u8) = ucast (drop_bit k v AND 0xFF)"
    "j \<le> 24 \<Longrightarrow> (ucast (drop_bit j (ucast v :: u32) AND 0xFF) :: u8) = ucast (drop_bit j v AND 0xFF)"
    unfolding m and_FF by (rule bit_word_eqI, auto simp: bit_simps)+
qed

lemma store_stack_value_bytes:
  assumes "value_size = 2 \<or> value_size = 4 \<or> value_size = 8"
  shows "cpu_store_stack_value_le value_size v = le_store value_size v"
proof -
  have n: "le_store 2 v = le_store (Suc (Suc 0)) v" "le_store 4 v = le_store (Suc (Suc (Suc (Suc 0)))) v"
    "le_store 8 v = le_store (Suc (Suc (Suc (Suc (Suc (Suc (Suc (Suc 0)))))))) v"
    by (simp_all add: eval_nat_numeral)
  have u: "[0..<8] = [0, 1, 2, 3, 4, 5, 6, 7::nat]" by (simp add: upt_rec)
  have b16: "(ucast ((ucast v :: u16) AND 0xFF) :: u8) = ucast (v AND 0xFF)"
    and b32: "(ucast ((ucast v :: u32) AND 0xFF) :: u8) = ucast (v AND 0xFF)"
    using ucast_byte_low(1) [of 0 v] ucast_byte_low(2) [of 0 v] by simp_all
  show ?thesis
    using assms
    by (elim disjE)
       (simp_all only: n cpu_store_stack_value_le_def cpu_store_u16_le_def cpu_store_u32_le_def
          cpu_store_u64_le_def u le_store.simps b16 b32 ucast_byte_low, simp_all add: drop_bit_drop_bit ucast_byte_low)
qed

lemma cache_only_notify: "cache_only e e' \<Longrightarrow> quiet e \<Longrightarrow> notify_if_hooked cb e' t a n v = e'"
  by (simp add: cache_onlyD)

lemma quiet_store_at [simp]: "quiet (store_at e ps bs) = quiet e"
  by (simp add: quiet_def)

text \<open>The slots of two pushes, one below the other.\<close>

definition second_slot :: "cpueaxh_engine \<Rightarrow> nat \<Rightarrow> u64" where
  "second_slot e n = cpu_stack_pointer_sub (get_stack_addr_size (cpu_ctx e)) (push_slot e n) (of_nat n)"

lemma resolve_slot:
  assumes r: "ready e"
  shows "all_granted e a n MM_PROT_WRITE \<Longrightarrow>
      \<exists>e'. cpu_resolve_stack_slot_write cb e a n v = (Some (slot_ptrs e a n), e') \<and> cache_only e e'"
    and "\<not> all_granted e a n MM_PROT_WRITE \<Longrightarrow>
      \<exists>e'. cpu_resolve_stack_slot_write cb e a n v = (None, e') \<and> faulted e e'"
proof -
  have all: "all_granted e a n MM_PROT_WRITE \<longleftrightarrow>
      (\<forall>i\<in>set [0..<n]. grant e (a + of_nat i) MM_PROT_WRITE \<noteq> None)"
    by (auto simp: all_granted_def)
  show "all_granted e a n MM_PROT_WRITE \<Longrightarrow>
      \<exists>e'. cpu_resolve_stack_slot_write cb e a n v = (Some (slot_ptrs e a n), e') \<and> cache_only e e'"
    and "\<not> all_granted e a n MM_PROT_WRITE \<Longrightarrow>
      \<exists>e'. cpu_resolve_stack_slot_write cb e a n v = (None, e') \<and> faulted e e'"
    unfolding all cpu_resolve_stack_slot_write_def slot_ptrs_def
    using resolve_each_spec [OF r] by blast+
qed

lemma push_two_stack_values_spec:
  assumes r: "ready e" and sz: "n = 2 \<or> n = 4 \<or> n = 8"
    and s: "\<not> (get_stack_addr_size (cpu_ctx e) = 16 \<and> n = 8)"
  shows "all_granted e (push_slot e n) n MM_PROT_WRITE \<Longrightarrow> all_granted e (second_slot e n) n MM_PROT_WRITE \<Longrightarrow>
      \<exists>e1. cache_only e e1 \<and> push_two_stack_values cb e v1 v2 n =
        set_sp (store_at (store_at e1 (slot_ptrs e (push_slot e n) n) (le_store n v1))
                  (slot_ptrs e (second_slot e n) n) (le_store n v2)) (second_slot e n)"
    and "\<not> (all_granted e (push_slot e n) n MM_PROT_WRITE \<and> all_granted e (second_slot e n) n MM_PROT_WRITE) \<Longrightarrow>
      faulted e (push_two_stack_values cb e v1 v2 n)"
proof -
  let ?a = "push_slot e n" and ?b = "second_slot e n"
  have ne: "\<not> cpu_has_exception (cpu_ctx e)" and q: "quiet e" using r by (simp_all add: ready_def)
  have len: "take n (le_store n v) = le_store n v" for v by simp
  have p: "push_two_stack_values cb e v1 v2 n =
      (case cpu_resolve_stack_slot_write cb e ?a n v1 of
         (None, e1) \<Rightarrow> e1
       | (Some ps, e1) \<Rightarrow>
           case cpu_resolve_stack_slot_write cb e1 ?b n v2 of
             (None, e2) \<Rightarrow> e2
           | (Some qs, e2) \<Rightarrow>
               on_ctx (\<lambda>c. cpu_set_stack_pointer_value c (get_stack_addr_size (cpu_ctx e)) ?b)
                 (cpu_commit_stack_slot_write cb
                    (cpu_commit_stack_slot_write cb e2 ?a (le_store n v1) n v1 ps)
                    ?b (le_store n v2) n v2 qs))"
  proof -
    have "\<not> (n \<noteq> 2 \<and> n \<noteq> 4 \<and> n \<noteq> 8)" using sz by blast
    then show ?thesis
      unfolding push_two_stack_values_def Let_def push_slot_def second_slot_def store_stack_value_bytes [OF sz]
      using ne s by (simp only: if_False simp_thms)
  qed
  show "\<exists>e1. cache_only e e1 \<and> push_two_stack_values cb e v1 v2 n =
        set_sp (store_at (store_at e1 (slot_ptrs e ?a n) (le_store n v1)) (slot_ptrs e ?b n) (le_store n v2)) ?b"
    if g: "all_granted e ?a n MM_PROT_WRITE" and h: "all_granted e ?b n MM_PROT_WRITE"
  proof -
    from resolve_slot(1) [OF r g] obtain e1 where
      r1: "cpu_resolve_stack_slot_write cb e ?a n v1 = (Some (slot_ptrs e ?a n), e1)" and c1: "cache_only e e1"
      by blast
    have "all_granted e1 ?b n MM_PROT_WRITE" using h by (simp add: all_granted_def cache_onlyD [OF c1])
    from resolve_slot(1) [OF ready_cache_only [OF r c1] this] obtain e2 where
      r2: "cpu_resolve_stack_slot_write cb e1 ?b n v2 = (Some (slot_ptrs e ?b n), e2)" and c2: "cache_only e1 e2"
      unfolding slot_ptrs_def cache_onlyD(5) [OF c1] by blast
    have c: "cache_only e e2" by (rule cache_only_trans [OF c1 c2])
    have "quiet e2" using q by (simp add: cache_onlyD [OF c])
    then show ?thesis
      using c
      by (intro exI [of _ e2])
         (simp add: p r1 r2 cpu_commit_stack_slot_write_def len set_sp_def on_ctx_def cache_onlyD [OF c])
  qed
  show "faulted e (push_two_stack_values cb e v1 v2 n)"
    if g: "\<not> (all_granted e ?a n MM_PROT_WRITE \<and> all_granted e ?b n MM_PROT_WRITE)"
  proof (cases "all_granted e ?a n MM_PROT_WRITE")
    case True
    from resolve_slot(1) [OF r True] obtain e1 where
      r1: "cpu_resolve_stack_slot_write cb e ?a n v1 = (Some (slot_ptrs e ?a n), e1)" and c1: "cache_only e e1"
      by blast
    have "\<not> all_granted e1 ?b n MM_PROT_WRITE" using g True by (auto simp: all_granted_def cache_onlyD [OF c1])
    from resolve_slot(2) [OF ready_cache_only [OF r c1] this] obtain e2 where
      "cpu_resolve_stack_slot_write cb e1 ?b n v2 = (None, e2)" "faulted e1 e2" by blast
    then show ?thesis unfolding p r1 using cache_only_faulted [OF c1] by simp
  next
    case False
    from resolve_slot(2) [OF r False] obtain e1 where
      "cpu_resolve_stack_slot_write cb e ?a n v1 = (None, e1)" "faulted e e1" by blast
    then show ?thesis unfolding p by simp
  qed
qed

subsection \<open>Vector operands\<close>

lemma store_u64_le: "cpu_store_u64_le v = le_store 8 v"
  using store_stack_value_bytes [of 8 v] by (simp add: cpu_store_stack_value_le_def)

lemma load_store_u64_le: "cpu_load_u64_le (cpu_store_u64_le v @ rest) = v"
proof -
  have "take_bit 64 v = v" by (rule bit_word_eqI) (auto simp: bit_simps dest: bit_imp_le_length)
  then show ?thesis by (simp add: cpu_load_u64_le_def store_u64_le le_load_store)
qed

lemma length_qwords_bytes [simp]: "length (qwords_bytes qs) = 8 * length qs"
  by (induction qs) (simp_all add: qwords_bytes_def store_u64_le)

lemma drop_qwords_bytes: "drop (8 * i) (qwords_bytes qs) = qwords_bytes (drop i qs)"
proof (induction i arbitrary: qs)
  case (Suc i)
  show ?case
  proof (cases qs)
    case (Cons x xs)
    then have "drop (8 * Suc i) (qwords_bytes qs) = drop (8 * i) (drop 8 (qwords_bytes (x # xs)))"
      by (simp add: add.commute)
    also have "\<dots> = drop (8 * i) (qwords_bytes xs)" by (simp add: qwords_bytes_def store_u64_le)
    finally show ?thesis using Suc Cons by simp
  qed (simp add: qwords_bytes_def)
qed simp

lemma load_qwords_bytes:
  "map (\<lambda>i. cpu_load_u64_le (drop (8 * i) (qwords_bytes qs))) [0..<length qs] = qs"
proof (rule nth_equalityI)
  fix i assume "i < length (map (\<lambda>i. cpu_load_u64_le (drop (8 * i) (qwords_bytes qs))) [0..<length qs])"
  then have i: "i < length qs" by simp
  then have "qwords_bytes (drop i qs) = cpu_store_u64_le (qs ! i) @ qwords_bytes (drop (Suc i) qs)"
    by (simp add: qwords_bytes_def Cons_nth_drop_Suc [symmetric])
  then show "map (\<lambda>i. cpu_load_u64_le (drop (8 * i) (qwords_bytes qs))) [0..<length qs] ! i = qs ! i"
    using i by (simp add: drop_qwords_bytes load_store_u64_le)
qed simp

lemma notify_qwords_quiet [simp]: "quiet e \<Longrightarrow> cpu_notify_qword_memory_hooks cb e t a bs = e"
  by (simp add: cpu_notify_qword_memory_hooks_def)

lemma read_linear_granted:
  assumes r: "ready e" and nn: "nonnull e a n MM_PROT_READ" and n: "0 < n" "n \<le> m"
    and g: "all_granted e a n MM_PROT_READ"
  shows "\<exists>e'. cache_only e e' \<and>
    read_linear cb e a n m = (Some (map (\<lambda>i. guest_byte e MM_PROT_READ (a + of_nat i)) [0..<n]), e')"
proof -
  have ne: "\<not> cpu_has_exception (cpu_ctx e)" using r by (simp add: ready_def)
  from r nn n(1) show ?thesis
  proof (cases rule: try_contiguous_cases [where cb = cb and v = 0])
    case (ptr p e1)
    have "host_bytes e1 p n = map (\<lambda>i. guest_byte e MM_PROT_READ (a + of_nat i)) [0..<n]"
      using ptr(4) by (simp add: host_bytes_def guest_byte_def cache_onlyD [OF ptr(3)])
    then show ?thesis using ptr ne n by (intro exI [of _ e1]) (simp add: read_linear_def)
  next
    case (split e1)
    note r1 = ready_cache_only [OF r split(2)]
    have "\<forall>i\<in>set [0..<n]. grant e1 (a + of_nat i) MM_PROT_READ \<noteq> None"
      using g by (simp add: all_granted_def cache_onlyD [OF split(2)])
    from resolve_each_spec(1) [OF r1 this, of cb n 0] obtain e2 where
      re: "resolve_each cb a n MM_PROT_READ 0 [0..<n] e1 =
        (Some (map (\<lambda>i. the (grant e (a + of_nat i) MM_PROT_READ)) [0..<n]), e2)" and c: "cache_only e1 e2"
      unfolding cache_onlyD(5) [OF split(2)] by blast
    have "host_state e2 = host_state e" using c split(2) by (simp add: cache_onlyD)
    then show ?thesis
      using split re ne n cache_onlyD(1) [OF split(2)] cache_only_trans [OF split(2) c]
      by (intro exI [of _ e2]) (simp add: read_linear_def guest_byte_def)
  next
    case (fault e1)
    then show ?thesis using g by simp
  qed
qed

lemma write_qwords_granted:
  assumes r: "ready e" and n: "n = 8 * length qs" "0 < n" "n \<le> 64" and nn: "nonnull e a n MM_PROT_WRITE"
    and g: "all_granted e a n MM_PROT_WRITE"
  shows "\<exists>e1. cache_only e e1 \<and> write_qwords cb e a qs = store_at e1 (slot_ptrs e a n) (qwords_bytes qs)"
proof -
  have ne: "\<not> cpu_has_exception (cpu_ctx e)" using r by (simp add: ready_def)
  have len: "8 * length qs = n" by (simp add: n(1))
  have ps: "contiguous_ptrs p n = slot_ptrs e a n"
    if "\<forall>i<n. grant e (a + of_nat i) MM_PROT_WRITE = Some (p + of_nat i)" for p
    using that by (simp add: contiguous_ptrs_def slot_ptrs_def)
  have wl: "\<exists>e2. cache_only e e2 \<and>
      cpu_write_linear_bytes cb e1 a (qwords_bytes qs) v = (True, store_at e2 (slot_ptrs e a n) (qwords_bytes qs))"
    if c: "cache_only e e1" for e1 v
  proof -
    note r1 = ready_cache_only [OF r c]
    have nn1: "nonnull e1 a n MM_PROT_WRITE" and g1: "all_granted e1 a n MM_PROT_WRITE"
      using nn g by (simp_all add: nonnull_def all_granted_def cache_onlyD [OF c])
    from r1 nn1 n(2) show ?thesis
    proof (cases rule: try_contiguous_cases [where cb = cb and v = v])
      case (ptr p e2)
      then show ?thesis
        using ps [of p] cache_only_trans [OF c ptr(3)] cache_onlyD(5) [OF c] cache_onlyD(1) [OF c] ne n(2,3)
        by (intro exI [of _ e2]) (simp add: cpu_write_linear_bytes_def len Let_def)
    next
      case (split e2)
      note r2 = ready_cache_only [OF r1 split(2)]
      have c2: "cache_only e e2" by (rule cache_only_trans [OF c split(2)])
      have "\<forall>i\<in>set [0..<n]. grant e2 (a + of_nat i) MM_PROT_WRITE \<noteq> None"
        using g by (simp add: all_granted_def cache_onlyD [OF c2])
      from resolve_each_spec(1) [OF r2 this, of cb n v] obtain e3 where
        "resolve_each cb a n MM_PROT_WRITE v [0..<n] e2 = (Some (slot_ptrs e a n), e3)" "cache_only e2 e3"
        unfolding cache_onlyD(5) [OF c2] slot_ptrs_def by blast
      then show ?thesis
        using split cache_only_trans [OF c2] cache_onlyD(1) [OF c2] cache_onlyD(1) [OF c] ne n(2,3)
        by (intro exI [of _ e3]) (simp add: cpu_write_linear_bytes_def len Let_def)
    qed (use g1 in simp)
  qed
  from r nn n(2) show ?thesis
  proof (cases rule: try_contiguous_cases [where cb = cb and v = "hd qs"])
    case (ptr p e1)
    have "quiet e1" using r by (simp add: ready_def cache_onlyD [OF ptr(3)])
    then show ?thesis
      using ptr ps [OF ptr(4)] ne by (intro exI [of _ e1]) (simp add: write_qwords_def len Let_def)
  next
    case (split e1)
    have "quiet e1" using r by (simp add: ready_def cache_onlyD [OF split(2)])
    then show ?thesis
      using wl [OF split(2), of "hd qs"] split ne
      by (auto simp: write_qwords_def len Let_def cache_onlyD [OF split(2)])
  qed (use g in simp)
qed

text \<open>A vector read returns what a vector write of the same size stored.\<close>

lemma write_read_qwords:
  assumes r: "ready e" and n: "n = 8 * length qs" "0 < n" "n \<le> 64"
    and nn: "nonnull e a n MM_PROT_WRITE"
    and w: "all_granted e a n MM_PROT_WRITE" and rd: "all_granted e a n MM_PROT_READ"
    and d: "distinct (slot_ptrs e a n)"
  shows "fst (read_qwords cb' (write_qwords cb e a qs) a (length qs)) = qs"
proof -
  from write_qwords_granted [OF r n nn w] obtain e1 where c: "cache_only e e1"
    and wr: "write_qwords cb e a qs = store_at e1 (slot_ptrs e a n) (qwords_bytes qs)" by blast
  let ?e2 = "store_at e1 (slot_ptrs e a n) (qwords_bytes qs)"
  have same: "grant e (a + of_nat i) MM_PROT_READ = grant e (a + of_nat i) MM_PROT_WRITE" if "i < n" for i
    by (rule grant_same [OF w rd \<open>i < n\<close>])
  have "nonnull ?e2 a n MM_PROT_READ" "all_granted ?e2 a n MM_PROT_READ"
    using nn rd same by (simp_all add: nonnull_def all_granted_def cache_onlyD [OF c])
  from read_linear_granted [OF _ this(1) n(2,3) this(2), of cb'] ready_cache_only [OF r c] obtain e3 where
    c3: "cache_only ?e2 e3" and
    rl: "read_linear cb' ?e2 a n 64 = (Some (map (\<lambda>i. guest_byte ?e2 MM_PROT_READ (a + of_nat i)) [0..<n]), e3)"
    by auto
  have "map (\<lambda>i. guest_byte ?e2 MM_PROT_READ (a + of_nat i)) [0..<n] = map (hmem (host_state ?e2)) (slot_ptrs e a n)"
    using same by (simp add: guest_byte_def slot_ptrs_def cache_onlyD [OF c])
  also have "\<dots> = qwords_bytes qs"
    by (rule store_at_bytes [OF _ d]) (simp add: slot_ptrs_def n(1))
  finally have "read_linear cb' ?e2 a (8 * length qs) 64 = (Some (qwords_bytes qs), e3)" using rl n(1) by simp
  then show ?thesis
    unfolding wr read_qwords_def cpu_read_linear_bytes_def by (simp add: load_qwords_bytes)
qed

subsection \<open>Segment loads\<close>

text \<open>What the architecture requires of a selector and its descriptor.\<close>

definition stack_segment_ok :: "u8 \<Rightarrow> SegmentRegister \<Rightarrow> bool" where
  "stack_segment_ok level seg \<longleftrightarrow>
     \<not> is_null_selector (sr_selector seg) \<and> ucast (sr_selector seg AND 0x03) = level \<and>
     is_writable_data_segment (sd_type (sr_descriptor seg)) \<and>
     sd_dpl (sr_descriptor seg) = level \<and> sd_present (sr_descriptor seg)"

definition data_segment_ok :: "u8 \<Rightarrow> SegmentRegister \<Rightarrow> bool" where
  "data_segment_ok level seg \<longleftrightarrow>
     (if is_null_selector (sr_selector seg) then sr_descriptor seg = zero_descriptor
      else
        (is_data_segment (sd_type (sr_descriptor seg)) \<or> is_readable_code_segment (sd_type (sr_descriptor seg))) \<and>
        (is_conforming_code_segment (sd_type (sr_descriptor seg)) \<or>
           ucast (sr_selector seg AND 0x03) \<le> sd_dpl (sr_descriptor seg) \<and> level \<le> sd_dpl (sr_descriptor seg)) \<and>
        sd_present (sr_descriptor seg))"

lemma on_ctx_ctx [simp]: "cpu_ctx (on_ctx f e) = f (cpu_ctx e)"
  by (simp add: on_ctx_def)

lemma set_segment_by_index:
  "segment_by_index (set_segment_register ctx i seg) i =
     (if segment_by_index ctx i = None then None else Some seg)"
  by (simp add: segment_by_index_def set_segment_register_def cpu_defs)

lemma set_segment_exception [simp]:
  "cpu_has_exception (set_segment_register ctx i seg) = cpu_has_exception ctx"
  "cpl (set_segment_register ctx i seg) = cpl ctx"
  by (simp_all add: set_segment_register_def cpu_has_exception_def)

lemma load_stack_segment_ok:
  assumes "\<not> cpu_has_exception (cpu_ctx (load_stack_segment cb e selector))"
  shows "sr_selector (ss (cpu_ctx (load_stack_segment cb e selector))) = selector"
    and "stack_segment_ok (cpl (cpu_ctx (load_stack_segment cb e selector)))
      (ss (cpu_ctx (load_stack_segment cb e selector)))"
  using assms
  by (auto simp: load_stack_segment_def Let_def stack_segment_ok_def split: prod.splits if_splits)

lemma load_data_segment_ok:
  assumes "\<not> cpu_has_exception (cpu_ctx (load_data_segment cb e i selector))"
    and "segment_by_index (cpu_ctx e) i \<noteq> None"
  shows "\<exists>seg. segment_by_index (cpu_ctx (load_data_segment cb e i selector)) i = Some seg \<and>
      sr_selector seg = selector \<and>
      data_segment_ok (cpl (cpu_ctx (load_data_segment cb e i selector))) seg"
proof -
  have some: "segment_by_index ctx i \<noteq> None" for ctx
    using assms(2) by (auto simp: segment_by_index_def split: if_splits)
  have cd: "is_conforming_code_segment t \<Longrightarrow> \<not> is_data_segment t" for t
    by (auto simp: is_conforming_code_segment_def is_code_segment_def is_data_segment_def)
  show ?thesis
    using assms(1)
    by (auto simp: load_data_segment_def Let_def data_segment_ok_def set_segment_by_index some
        not_less split: prod.splits if_splits)
qed

subsection \<open>Effective addresses in 64-bit code\<close>

text \<open>
  The architecture's formula: base plus scaled index plus sign-extended displacement, where a
  missing base or index counts as zero and \<^verbatim>\<open>RIP\<close>-relative operands use the address of the next
  instruction as base.
\<close>

definition sib_no_base :: "u8 \<Rightarrow> u8 \<Rightarrow> bool" where
  "sib_no_base modrm sib \<longleftrightarrow> modrm_rm modrm = 4 \<and> modrm_mod modrm = 0 \<and> sib AND 0x07 = 5"

definition rex_ext :: "bool \<Rightarrow> u8 \<Rightarrow> nat" where
  "rex_ext b r = (if b then unat r + 8 else unat r)"

definition x86_base :: "CPU_CONTEXT \<Rightarrow> u8 \<Rightarrow> u8 \<Rightarrow> int \<Rightarrow> u64" where
  "x86_base ctx modrm sib inst_size =
     (if modrm_rm modrm = 4
      then if sib_no_base modrm sib then 0 else regs ctx (rex_ext (rex_b ctx) (sib AND 0x07))
      else if modrm_rm modrm = 5 \<and> modrm_mod modrm = 0 then rip ctx + word_of_int inst_size
      else regs ctx (rex_ext (rex_b ctx) (modrm_rm modrm)))"

definition x86_index :: "CPU_CONTEXT \<Rightarrow> u8 \<Rightarrow> u8 \<Rightarrow> u64" where
  "x86_index ctx modrm sib =
     (let index = rex_ext (rex_x ctx) (drop_bit 3 sib AND 0x07)
      in if modrm_rm modrm = 4 \<and> index \<noteq> 4
         then regs ctx index * 2 ^ unat (drop_bit 6 sib AND 0x03) else 0)"

definition x86_disp :: "u8 \<Rightarrow> u8 \<Rightarrow> int \<Rightarrow> u64" where
  "x86_disp modrm sib disp =
     (if modrm_mod modrm = 1 then sext8 disp
      else if modrm_mod modrm = 2 \<or> sib_no_base modrm sib \<or> (modrm_rm modrm = 5 \<and> modrm_mod modrm = 0)
      then word_of_int disp else 0)"

lemma or_8_unat: "r < 8 \<Longrightarrow> unat (r OR 8 :: u8) = unat r + 8"
proof -
  assume r: "r < 8"
  define k where "k = unat r"
  have "k < 8" using r by (simp add: k_def word_less_nat_alt)
  moreover have "r = of_nat k" by (simp add: k_def)
  ultimately have "r \<in> {0, 1, 2, 3, 4, 5, 6, 7}" by (auto simp: eval_nat_numeral less_Suc_eq)
  then show ?thesis by auto
qed

lemma and_7_less: "(r AND 7 :: u8) < 8"
proof -
  have "r AND 7 = take_bit 3 r" by (simp add: take_bit_eq_mask mask_eq_exp_minus_1)
  moreover have "unat (take_bit 3 r) < 8" by (simp add: unsigned_take_bit_eq take_bit_nat_def)
  ultimately show ?thesis by (simp add: word_less_nat_alt)
qed

lemma rex_ext_or: "unat (if b then (r AND 7) OR 8 else r AND 7 :: u8) = rex_ext b (r AND 7)"
  by (simp add: rex_ext_def or_8_unat and_7_less)

lemma and_7_or_8: "((r AND 7) OR 8) AND 7 = (r AND 7 :: u8)" "r AND 7 AND 7 = (r AND 7 :: u8)"
proof -
  have m: "7 = (mask 3 :: u8)" by (simp add: mask_eq_exp_minus_1)
  have b: "bit (8 :: int) n = (n = 3)" for n using bit_exp_iff [of 3 n, where 'a = int] by auto
  show "((r AND 7) OR 8) AND 7 = (r AND 7 :: u8)" "r AND 7 AND 7 = (r AND 7 :: u8)"
    unfolding m by (rule bit_word_eqI, auto simp: bit_simps b)+
qed

lemma rex_ext_index_4: "rex_ext b (r AND 7) = 4 \<longleftrightarrow> r AND 7 = 4 \<and> \<not> b"
  by (auto simp: rex_ext_def word_unat_eq_iff)

text \<open>The base-less \<^verbatim>\<open>SIB\<close> form zero-extends its displacement; every other form follows the formula.\<close>

lemma get_effective_offset_64:
  assumes l: "cpu_allows_rex_prefix ctx" and m: "modrm_mod modrm \<noteq> 3"
  shows "get_effective_offset ctx modrm (Some sib) disp 64 inst_size =
    x86_base ctx modrm sib inst_size + x86_index ctx modrm sib +
    (if sib_no_base modrm sib then ucast (word_of_int disp :: u32) else x86_disp modrm sib disp)"
proof -
  let ?rm = "if rex_b ctx then modrm_rm modrm OR 8 else modrm_rm modrm"
  have rm7: "?rm AND 7 = modrm_rm modrm" by (simp add: modrm_rm_def and_7_or_8)
  have rmn: "unat ?rm = rex_ext (rex_b ctx) (modrm_rm modrm)"
    unfolding modrm_rm_def by (rule rex_ext_or)
  have base: "unat (if rex_b ctx then (sib AND 7) OR 8 else sib AND 7) = rex_ext (rex_b ctx) (sib AND 7)"
    by (rule rex_ext_or)
  have index: "unat (if rex_x ctx then (drop_bit 3 sib AND 7) OR 8 else drop_bit 3 sib AND 7) =
      rex_ext (rex_x ctx) (drop_bit 3 sib AND 7)"
    by (rule rex_ext_or)
  have sib: "sib_address ctx (modrm_mod modrm) sib disp =
      (if sib_no_base modrm sib then ucast (word_of_int disp :: u32) else regs ctx (rex_ext (rex_b ctx) (sib AND 7))) +
      x86_index ctx modrm sib" if "modrm_rm modrm = 4"
    using that unfolding sib_address_def Let_def
    by (simp add: l base index sib_no_base_def x86_index_def Let_def rex_ext_index_4 push_bit_eq_mult)
  show ?thesis
  proof (cases "modrm_rm modrm = 4")
    case True
    then show ?thesis
      using m sib [OF True] unfolding get_effective_offset_def Let_def offset_32_64_def
      by (auto simp: l rm7 x86_base_def x86_disp_def sib_no_base_def)
  next
    case False
    then show ?thesis
      using m unfolding get_effective_offset_def Let_def offset_32_64_def
      by (simp add: l rm7 rmn x86_base_def x86_disp_def sib_no_base_def x86_index_def)
  qed
qed

text \<open>
  With a 32-bit address the offset is the low half of what the 64-bit form computes, but the form relative
  to the instruction pointer leaves the instruction pointer out.
\<close>

definition rip_relative :: "u8 \<Rightarrow> bool" where
  "rip_relative modrm \<longleftrightarrow> modrm_rm modrm = 5 \<and> modrm_mod modrm = 0"

lemma offset_32_of_64:
  "offset_32_64 ctx md rm sib disp 32 inst_size =
   take_bit 32 (if rm AND 0x07 = 5 \<and> md = 0 then word_of_int disp else offset_32_64 ctx md rm sib disp 64 inst_size)"
proof -
  have m: "x AND 0xFFFFFFFF = take_bit 32 x" for x :: u64 by (simp add: take_bit_eq_mask mask_eq_exp_minus_1)
  have u: "take_bit 32 (ucast (word_of_int disp :: u32) :: u64) = take_bit 32 (word_of_int disp)"
    by (rule bit_word_eqI) (auto simp: bit_simps)
  show ?thesis unfolding offset_32_64_def Let_def m by (simp add: u)
qed

lemma take_bit_32_add:
  fixes a x y :: u64
  assumes "take_bit 32 x = take_bit 32 y"
  shows "take_bit 32 (a + x) = take_bit 32 (a + y)"
proof -
  have t: "uint (take_bit 32 (a + b)) = (uint a mod 2 ^ 32 + uint (take_bit 32 b)) mod 2 ^ 32" for b :: u64
    by (simp only: unsigned_take_bit_eq) (simp add: take_bit_eq_mod uint_word_ariths mod_mod_cancel mod_simps)
  show ?thesis by (simp only: word_uint_eq_iff t assms)
qed

lemma get_effective_offset_32:
  assumes l: "cpu_allows_rex_prefix ctx" and m: "modrm_mod modrm \<noteq> 3"
  shows "get_effective_offset ctx modrm (Some sib) disp 32 inst_size =
    take_bit 32 ((if rip_relative modrm then 0 else x86_base ctx modrm sib inst_size) + x86_index ctx modrm sib +
      x86_disp modrm sib disp)"
proof -
  let ?rm = "if rex_b ctx then modrm_rm modrm OR 8 else modrm_rm modrm"
  have rm7: "?rm AND 7 = modrm_rm modrm" by (simp add: modrm_rm_def and_7_or_8)
  have o32: "get_effective_offset ctx modrm (Some sib) disp 32 inst_size = take_bit 32
      (if rip_relative modrm then word_of_int disp else get_effective_offset ctx modrm (Some sib) disp 64 inst_size)"
    using m l rm7 by (simp add: get_effective_offset_def Let_def offset_32_of_64 rip_relative_def)
  have u: "take_bit 32 (a + ucast (word_of_int disp :: u32)) = take_bit 32 (a + word_of_int disp)" for a :: u64
  proof -
    have "take_bit 32 (ucast (word_of_int disp :: u32) :: u64) = take_bit 32 (word_of_int disp)"
      by (rule bit_word_eqI) (auto simp: bit_simps)
    then show ?thesis by (rule take_bit_32_add)
  qed
  show ?thesis
  proof (cases "rip_relative modrm")
    case True
    then show ?thesis
      unfolding o32 by (simp add: rip_relative_def x86_index_def x86_disp_def Let_def)
  next
    case False
    have "x86_disp modrm sib disp = word_of_int disp" if "sib_no_base modrm sib"
      using that by (auto simp: x86_disp_def sib_no_base_def)
    then show ?thesis unfolding o32 get_effective_offset_64 [OF l m] using False by (auto simp: u)
  qed
qed

end
