(* ===== verification/Executor.thy ===== *)
theory Executor
  imports Dispatch HelperSpec
begin

text \<open>
  The fetch, decode and dispatch loop (\<^verbatim>\<open>cpu/executor.hpp\<close>). The decoder and the instruction
  handlers it selects are the record \<open>instruction_set\<close>, an argument of the definitions: a decoded
  instruction holds two function pointers, and the record gives what calling a pointer does to the
  engine. The theorems of this theory hold for every instruction set, so for the one of the
  program.

  The decoded entry is read when the step starts. A callback that runs the engine recursively could
  overwrite the cache slot during the step; the model does not follow that.
\<close>

unbundle bit_operations_syntax

record instruction_set =
  is_decode :: "CPU_CONTEXT \<Rightarrow> u8 list \<Rightarrow> DecodedInst"
  is_handler :: "u64 \<Rightarrow> callbacks \<Rightarrow> cpueaxh_engine \<Rightarrow> u8 list \<Rightarrow> cpueaxh_engine"
  is_fast_handler :: "u64 \<Rightarrow> callbacks \<Rightarrow> cpueaxh_engine \<Rightarrow> DecodedInst \<Rightarrow> cpueaxh_engine"

definition MAX_INST_FETCH :: nat where [cpu_defs]: "MAX_INST_FETCH = 15"

definition CPU_STEP_OK :: int where [cpu_defs]: "CPU_STEP_OK = 0"
definition CPU_STEP_HALT :: int where [cpu_defs]: "CPU_STEP_HALT = 1"
definition CPU_STEP_FETCH_ERR :: int where [cpu_defs]: "CPU_STEP_FETCH_ERR = 2"
definition CPU_STEP_UD :: int where [cpu_defs]: "CPU_STEP_UD = 3"
definition CPU_STEP_EXCEPTION :: int where [cpu_defs]: "CPU_STEP_EXCEPTION = 4"

subsection \<open>Fetching\<close>

lemma fetch_chunk_less:
  "n < MAX_INST_FETCH \<Longrightarrow>
   MAX_INST_FETCH - (n + min (cpu_page_bytes_remaining a) (MAX_INST_FETCH - n)) < MAX_INST_FETCH - n"
  using cpu_page_bytes_remaining_pos [of a] by linarith

text \<open>The page-wise loop; \<open>buf\<close> holds the bytes fetched so far, whose number is \<open>n\<close>.\<close>

function fetch_pages ::
  "callbacks \<Rightarrow> u64 \<Rightarrow> nat \<Rightarrow> u8 list \<Rightarrow> cpueaxh_engine \<Rightarrow> u8 list \<times> cpueaxh_engine" where
  "fetch_pages cb addr n buf e =
     (if n < MAX_INST_FETCH
      then let current_address = addr + of_nat n
           in case cpu_resolve_memory_access cb e current_address MM_PROT_EXEC current_address 1 0 of
                (status, ptr, e1) \<Rightarrow>
                  if status \<noteq> MM_ACCESS_OK then (buf, e1)
                  else
                    let chunk = min (cpu_page_bytes_remaining current_address) (MAX_INST_FETCH - n)
                    in fetch_pages cb addr (n + chunk) (buf @ host_bytes e1 ptr chunk) e1
      else (buf, e))"
  by pat_completeness auto
termination
  by (relation "measure (\<lambda>(cb, addr, n, buf, e). MAX_INST_FETCH - n)") (auto intro: fetch_chunk_less)

declare fetch_pages.simps [simp del]

fun fetch_bytes ::
  "callbacks \<Rightarrow> u64 \<Rightarrow> nat list \<Rightarrow> cpueaxh_engine \<Rightarrow> u8 list \<times> cpueaxh_engine" where
  "fetch_bytes cb addr [] e = ([], e)"
| "fetch_bytes cb addr (i # rest) e =
     (case cpu_resolve_memory_access cb e (addr + of_nat i) MM_PROT_EXEC (addr + of_nat i) 1 0 of
        (status, ptr, e1) \<Rightarrow>
          if status \<noteq> MM_ACCESS_OK then ([], e1)
          else case fetch_bytes cb addr rest e1 of
                 (bs, e2) \<Rightarrow> (hmem (host_state e1) ptr # bs, e2))"

definition fetch_instruction_bytes ::
  "callbacks \<Rightarrow> cpueaxh_engine \<Rightarrow> u64 \<Rightarrow> u8 list \<times> cpueaxh_engine" where
  "fetch_instruction_bytes cb e addr =
     (if cpu_has_exception (cpu_ctx e) then ([], e)
      else if cpu_can_use_page_fast_path e then fetch_pages cb addr 0 [] e
      else fetch_bytes cb addr [0..<MAX_INST_FETCH] e)"

definition cpu_executor_notify_fetched_bytes ::
  "callbacks \<Rightarrow> cpueaxh_engine \<Rightarrow> u64 \<Rightarrow> DecodedInst \<Rightarrow> cpueaxh_engine" where
  "cpu_executor_notify_fetched_bytes cb e r decoded =
     (if \<not> cpu_has_hook_type e CPUEAXH_HOOK_MEM_FETCH then e
      else if dc_length decoded = 0 then on_ctx raise_ud_ctx e
      else
        let count = min (unat (dc_length decoded)) (unat (dc_byte_count decoded))
        in foldl (\<lambda>e i. cpu_notify_memory_hook cb e CPUEAXH_HOOK_MEM_FETCH (r + of_nat i) 1
                         (ucast (dc_bytes decoded i))) e [0..<count])"

subsection \<open>Inline returns and conditional jumps\<close>

text \<open>
  The return address is popped at the operand size and assigned to RIP. The flag says whether the
  operand-size branches ran without an early return; only the 64-bit branch of the form with an
  immediate returns when the target is refused.
\<close>

definition inline_ret_target ::
  "callbacks \<Rightarrow> cpueaxh_engine \<Rightarrow> u8 \<Rightarrow> bool \<times> bool \<times> cpueaxh_engine" where
  "inline_ret_target cb e operand_size =
     (let assign = (\<lambda>(e1, t, s).
            if cpu_has_exception (cpu_ctx e1) then (False, False, e1)
            else case cpu_assign_rip_checked (cpu_ctx e1) t s of
                   (ok, c) \<Rightarrow> (True, ok, e1\<lparr>cpu_ctx := c\<rparr>))
      in if operand_size = 16 then (case pop_value16 cb e of (t, e1) \<Rightarrow> assign (e1, ucast t, 16))
         else if operand_size = 32 then (case pop_value32 cb e of (t, e1) \<Rightarrow> assign (e1, ucast t, 32))
         else (case pop_value64 cb e of (t, e1) \<Rightarrow> assign (e1, t, 64)))"

definition cpu_executor_inline_ret_no_imm ::
  "callbacks \<Rightarrow> cpueaxh_engine \<Rightarrow> DecodedInst \<Rightarrow> cpueaxh_engine" where
  "cpu_executor_inline_ret_no_imm cb e dec =
     (let e0 = on_ctx (\<lambda>c. c\<lparr>last_inst_size := uint (dc_near_ret_prefix_len dec) + 1\<rparr>) e
      in snd (snd (inline_ret_target cb e0 (dc_near_ret_op_size dec))))"

definition release_stack :: "u16 \<Rightarrow> CPU_CONTEXT \<Rightarrow> CPU_CONTEXT" where
  "release_stack imm16 c =
     (let rsp = regs c REG_RSP
      in c\<lparr>regs := (regs c)(REG_RSP :=
           (if get_stack_addr_size c = 64 then rsp + ucast imm16
            else if get_stack_addr_size c = 32
            then (rsp AND NOT 0xFFFFFFFF) OR ucast ((ucast rsp :: u32) + ucast imm16)
            else (rsp AND NOT 0xFFFF) OR ucast ((ucast rsp :: u16) + imm16)))\<rparr>)"

definition cpu_executor_inline_ret_imm16 ::
  "callbacks \<Rightarrow> cpueaxh_engine \<Rightarrow> DecodedInst \<Rightarrow> cpueaxh_engine" where
  "cpu_executor_inline_ret_imm16 cb e dec =
     (let operand_size = dc_near_ret_op_size dec;
          e0 = on_ctx (\<lambda>c. c\<lparr>last_inst_size := uint (dc_near_ret_prefix_len dec) + 3\<rparr>) e
      in case inline_ret_target cb e0 operand_size of
           (popped, assigned, e1) \<Rightarrow>
             if \<not> popped \<or> operand_size \<noteq> 16 \<and> operand_size \<noteq> 32 \<and> \<not> assigned then e1
             else on_ctx (release_stack (dc_inline_imm16 dec)) e1)"

definition cpu_executor_eval_jcc_condition :: "u64 \<Rightarrow> u8 \<Rightarrow> bool" where
  "cpu_executor_eval_jcc_condition flags cond =
     (let c = flags AND RFLAGS_CF \<noteq> 0; z = flags AND RFLAGS_ZF \<noteq> 0; s = flags AND RFLAGS_SF \<noteq> 0;
          v = flags AND RFLAGS_OF \<noteq> 0; p = flags AND RFLAGS_PF \<noteq> 0
      in if cond = 0x0 then v else if cond = 0x1 then \<not> v
         else if cond = 0x2 then c else if cond = 0x3 then \<not> c
         else if cond = 0x4 then z else if cond = 0x5 then \<not> z
         else if cond = 0x6 then c \<or> z else if cond = 0x7 then \<not> c \<and> \<not> z
         else if cond = 0x8 then s else if cond = 0x9 then \<not> s
         else if cond = 0xA then p else if cond = 0xB then \<not> p
         else if cond = 0xC then s \<noteq> v else if cond = 0xD then s = v
         else if cond = 0xE then z \<or> s \<noteq> v else if cond = 0xF then \<not> z \<and> s = v
         else False)"

definition inline_jcc :: "u64 \<Rightarrow> u64 \<Rightarrow> u8 \<Rightarrow> CPU_CONTEXT \<Rightarrow> CPU_CONTEXT" where
  "inline_jcc inst_size disp cond c =
     (let next_rip = rip c + inst_size;
          target = (if cpu_executor_eval_jcc_condition (rflags c) cond then next_rip + disp else next_rip)
      in (snd (cpu_assign_rip_checked c target 64))\<lparr>last_inst_size := uint inst_size\<rparr>)"

definition cpu_executor_inline_jcc_short_longmode :: "cpueaxh_engine \<Rightarrow> DecodedInst \<Rightarrow> cpueaxh_engine" where
  "cpu_executor_inline_jcc_short_longmode e dec =
     on_ctx (inline_jcc 2 (scast (dc_inline_jcc_disp dec)) (dc_inline_jcc_cond dec)) e"

definition cpu_executor_inline_jcc_near_longmode :: "cpueaxh_engine \<Rightarrow> DecodedInst \<Rightarrow> cpueaxh_engine" where
  "cpu_executor_inline_jcc_near_longmode e dec =
     on_ctx (inline_jcc 6 (scast (dc_inline_jcc_disp32 dec)) (dc_inline_jcc_cond dec)) e"

subsection \<open>One step\<close>

definition decoded_has :: "DecodedInst \<Rightarrow> u16 \<Rightarrow> bool" where
  "decoded_has decoded flag \<longleftrightarrow> dc_flags decoded AND flag \<noteq> 0"

definition decoded_code :: "DecodedInst \<Rightarrow> u8 list" where
  "decoded_code decoded = map (dc_bytes decoded) [0..<unat (dc_byte_count decoded)]"

text \<open>
  The label \<^verbatim>\<open>cpu_step_finish\<close>: a pending exception restores the snapshots that were taken, but keeps
  the exception itself and CR2.
\<close>

definition cpu_step_finish ::
  "DecodedInst \<Rightarrow> CPU_SCALAR_SNAPSHOT option \<Rightarrow> CPU_VECTOR_SNAPSHOT option \<Rightarrow> int \<Rightarrow> cpueaxh_engine \<Rightarrow>
   int \<times> cpueaxh_engine" where
  "cpu_step_finish decoded saved_scalar saved_vector result_code e =
     (let ctx = cpu_ctx e
      in if \<not> cpu_has_exception ctx then (result_code, e\<lparr>cpu_ctx := ctx\<lparr>segment_override := - 1\<rparr>\<rparr>)
         else
           let restored =
                 (case saved_scalar of
                    None \<Rightarrow> ctx
                  | Some scalar \<Rightarrow>
                      if decoded_has decoded DECODED_FLAG_PARTIAL_PROGRESS
                      then cpu_restore_decode_transient_snapshot ctx scalar
                      else
                        case saved_vector of
                          None \<Rightarrow> cpu_restore_scalar_snapshot ctx scalar
                        | Some vector \<Rightarrow>
                            cpu_restore_vector_snapshot (cpu_restore_scalar_snapshot ctx scalar) vector)
           in (CPU_STEP_EXCEPTION,
               e\<lparr>cpu_ctx := restored\<lparr>exception_state := exception_state ctx,
                                 control_regs := (control_regs restored)(REG_CR2 := control_regs ctx REG_CR2),
                                 segment_override := - 1\<rparr>\<rparr>))"

text \<open>
  What runs between the snapshots and the label; the flag says whether control falls through to
  the advance of RIP.
\<close>

definition run_decoded ::
  "instruction_set \<Rightarrow> callbacks \<Rightarrow> DecodedInst \<Rightarrow> cpueaxh_engine \<Rightarrow> bool \<times> cpueaxh_engine" where
  "run_decoded insns cb decoded e =
     (if decoded_has decoded DECODED_FLAG_INLINE_RET
      then (False,
            if dc_inline_kind decoded = DECODED_INLINE_RET_NEAR_NO_IMM
            then cpu_executor_inline_ret_no_imm cb e decoded
            else if dc_inline_kind decoded = DECODED_INLINE_RET_NEAR_IMM16
            then cpu_executor_inline_ret_imm16 cb e decoded else e)
      else if dc_inline_kind decoded = DECODED_INLINE_JCC_SHORT_LONGMODE
      then (False, cpu_executor_inline_jcc_short_longmode e decoded)
      else if dc_inline_kind decoded = DECODED_INLINE_JCC_NEAR_LONGMODE
      then (False, cpu_executor_inline_jcc_near_longmode e decoded)
      else if dc_fast_handler decoded \<noteq> 0
      then (True, is_fast_handler insns (dc_fast_handler decoded) cb e decoded)
      else if dc_handler decoded \<noteq> 0
      then (True, is_handler insns (dc_handler decoded) cb e (decoded_code decoded))
      else (True, e))"

definition cpu_step_dispatch_decoded ::
  "instruction_set \<Rightarrow> callbacks \<Rightarrow> cpueaxh_engine \<Rightarrow> DecodedInst \<Rightarrow> u64 \<Rightarrow> int \<times> cpueaxh_engine" where
  "cpu_step_dispatch_decoded insns cb e decoded rip_pre =
     (let e1 = on_ctx (\<lambda>c. c\<lparr>segment_override := sint (dc_segment_override decoded)\<rparr>)
                 (cpu_executor_notify_fetched_bytes cb e rip_pre decoded)
      in if decoded_has decoded DECODED_FLAG_UD
         then cpu_step_finish decoded None None CPU_STEP_UD (on_ctx raise_ud_ctx e1)
         else if decoded_has decoded DECODED_FLAG_BP
         then cpu_step_finish decoded None None CPU_STEP_EXCEPTION (on_ctx raise_bp_ctx e1)
         else if decoded_has decoded DECODED_FLAG_DB
         then cpu_step_finish decoded None None CPU_STEP_EXCEPTION (on_ctx raise_db_ctx e1)
         else
           let saved_scalar = (if decoded_has decoded DECODED_FLAG_NO_FAULT then None
                               else Some (cpu_capture_scalar_snapshot (cpu_ctx e1)));
               saved_vector = (if decoded_has decoded DECODED_FLAG_TOUCHES_VECTOR
                               then Some (cpu_capture_vector_snapshot (cpu_ctx e1)) else None)
           in case run_decoded insns cb decoded e1 of
                (falls_through, e2) \<Rightarrow>
                  let e3 = (if falls_through \<and> \<not> cpu_has_exception (cpu_ctx e2) \<and>
                               \<not> decoded_has decoded DECODED_FLAG_BRANCH
                            then on_ctx (\<lambda>c. c\<lparr>rip := rip_pre + word_of_int (last_inst_size c)\<rparr>) e2
                            else e2)
                  in cpu_step_finish decoded saved_scalar saved_vector CPU_STEP_OK e3)"


text \<open>
  The cache pointer of the context is null exactly when the slots could not be allocated. The
  entry of a miss is the decoded instruction, promoted into the cache when there is one.
\<close>

definition step_cache_hit :: "cpueaxh_engine \<Rightarrow> u8 \<Rightarrow> u64 \<Rightarrow> DecodedInst option" where
  "step_cache_hit e mode_key rip_pre =
     (case ic_slots (inst_cache e) of
        None \<Rightarrow> None
      | Some slots \<Rightarrow>
          let slot = slots (cpu_inst_cache_index rip_pre)
          in if ce_tag slot = rip_pre \<and> ce_version slot = code_version (memory_manager e) \<and>
                ce_mode slot = mode_key
             then Some (ce_decoded slot) else None)"

definition promote_decoded :: "cpueaxh_engine \<Rightarrow> u8 \<Rightarrow> u64 \<Rightarrow> DecodedInst \<Rightarrow> cpueaxh_engine" where
  "promote_decoded e mode_key rip_pre decoded =
     (case cpu_inst_cache_reserve (inst_cache e) rip_pre of
        None \<Rightarrow> e
      | Some slot \<Rightarrow>
          if dc_byte_count decoded = 0 then e
          else e\<lparr>inst_cache := inst_cache_store (inst_cache e) rip_pre
                  (cpu_inst_cache_commit (slot\<lparr>ce_decoded := decoded\<rparr>) (memory_manager e) rip_pre mode_key)\<rparr>)"

definition fetch_failed :: "cpueaxh_engine \<Rightarrow> int \<times> cpueaxh_engine" where
  "fetch_failed e =
     (if cpu_has_exception (cpu_ctx e) then CPU_STEP_EXCEPTION else CPU_STEP_FETCH_ERR,
      on_ctx (\<lambda>c. c\<lparr>segment_override := - 1\<rparr>) e)"

definition cpu_step_with_prefetch ::
  "instruction_set \<Rightarrow> callbacks \<Rightarrow> cpueaxh_engine \<Rightarrow> u8 list \<Rightarrow> int \<times> cpueaxh_engine" where
  "cpu_step_with_prefetch insns cb e prefetched =
     (if cpu_has_exception (cpu_ctx e) then (CPU_STEP_EXCEPTION, e)
      else
        let rip_pre = rip (cpu_ctx e);
            (mode_key, ctx1) = cpu_inst_cache_mode_key (cpu_ctx e);
            e1 = e\<lparr>cpu_ctx := ctx1\<rparr>
        in case step_cache_hit e1 mode_key rip_pre of
             Some decoded \<Rightarrow>
               if dc_byte_count decoded = 0 then fetch_failed e1
               else cpu_step_dispatch_decoded insns cb e1 decoded rip_pre
           | None \<Rightarrow>
               (case (if prefetched \<noteq> [] then (take MAX_INST_FETCH prefetched, e1)
                      else fetch_instruction_bytes cb e1 rip_pre) of
                  (local_buf, e2) \<Rightarrow>
                    if local_buf = [] then fetch_failed e2
                    else
                      let decoded = is_decode insns (cpu_ctx e2) local_buf;
                          e3 = promote_decoded e2 mode_key rip_pre decoded
                      in if dc_byte_count decoded = 0 then fetch_failed e3
                         else cpu_step_dispatch_decoded insns cb e3 decoded rip_pre))"

definition cpu_step_decoded ::
  "instruction_set \<Rightarrow> callbacks \<Rightarrow> cpueaxh_engine \<Rightarrow> InstCacheEntry \<Rightarrow> int \<times> cpueaxh_engine" where
  "cpu_step_decoded insns cb e slot =
     (if cpu_has_exception (cpu_ctx e) then (CPU_STEP_EXCEPTION, e)
      else cpu_step_dispatch_decoded insns cb e (ce_decoded slot) (rip (cpu_ctx e)))"

definition cpu_step :: "instruction_set \<Rightarrow> callbacks \<Rightarrow> cpueaxh_engine \<Rightarrow> int \<times> cpueaxh_engine" where
  "cpu_step insns cb e = cpu_step_with_prefetch insns cb e []"

text \<open>With \<open>max_steps\<close> 0 the loop is unbounded: not returning is the value \<open>None\<close>.\<close>

partial_function (option) cpu_run_loop ::
  "instruction_set \<Rightarrow> callbacks \<Rightarrow> u64 \<Rightarrow> u64 \<Rightarrow> cpueaxh_engine \<Rightarrow> (u64 \<times> cpueaxh_engine) option" where
  "cpu_run_loop insns cb max_steps count e =
     (if max_steps \<noteq> 0 \<and> count \<ge> max_steps then Some (count, e)
      else
        let r = cpu_step_with_prefetch insns cb e []
        in if fst r = CPU_STEP_HALT then Some (count, snd r)
           else if fst r \<noteq> CPU_STEP_OK then Some (count, snd r)
           else cpu_run_loop insns cb max_steps (count + 1) (snd r))"

definition cpu_run ::
  "instruction_set \<Rightarrow> callbacks \<Rightarrow> cpueaxh_engine \<Rightarrow> u64 \<Rightarrow> (u64 \<times> cpueaxh_engine) option" where
  "cpu_run insns cb e max_steps = cpu_run_loop insns cb max_steps 0 e"

end
