(* ===== verification/ExecutorSpec.thy ===== *)
theory ExecutorSpec
  imports Executor
begin

text \<open>
  Facts about a step: an exception that is pending when an instruction is dispatched stays pending,
  a fetch that runs into a refused page leaves one, and a step that ends with one has restored the
  snapshots.
\<close>

unbundle bit_operations_syntax

subsection \<open>A pending exception stays\<close>

definition keeps_exception :: "(cpueaxh_engine \<Rightarrow> cpueaxh_engine) \<Rightarrow> bool" where
  "keeps_exception f \<longleftrightarrow> (\<forall>e. cpu_has_exception (cpu_ctx e) \<longrightarrow> cpu_has_exception (cpu_ctx (f e)))"

definition handlers_keep_exception :: "instruction_set \<Rightarrow> callbacks \<Rightarrow> bool" where
  "handlers_keep_exception insns cb \<longleftrightarrow>
     (\<forall>p code. keeps_exception (\<lambda>e. is_handler insns p cb e code)) \<and>
     (\<forall>p dec. keeps_exception (\<lambda>e. is_fast_handler insns p cb e dec))"

lemma read_pending:
  assumes "cpu_has_exception (cpu_ctx e)"
  shows "read_memory_word cb e a = (0, e)" "read_memory_dword cb e a = (0, e)" "read_memory_qword cb e a = (0, e)"
  using assms by (simp_all add: read_memory_word_def read_memory_dword_def read_memory_qword_def read_memory_le_def)

lemma pop_pending:
  assumes "cpu_has_exception (cpu_ctx e)"
  shows "cpu_has_exception (cpu_ctx (snd (pop_value16 cb e)))" "cpu_has_exception (cpu_ctx (snd (pop_value32 cb e)))"
    "cpu_has_exception (cpu_ctx (snd (pop_value64 cb e)))"
  using assms
  by (simp_all add: pop_value16_def pop_value32_def pop_value64_def pop_load_def read_pending on_ctx_def Let_def)

lemma assign_rip_pending:
  "cpu_has_exception c \<Longrightarrow> cpu_has_exception (snd (cpu_assign_rip_checked c v s))"
  by (auto simp: cpu_assign_rip_checked_def cpu_validate_code_offset_def cpu_has_exception_def raise_defs
      cpu_raise_exception_def Let_def split: prod.splits bool.splits)

lemma inline_ret_pending:
  assumes "cpu_has_exception (cpu_ctx e)"
  shows "cpu_has_exception (cpu_ctx (snd (snd (inline_ret_target cb e s))))"
  using pop_pending [OF assms, of cb]
  by (auto simp: inline_ret_target_def Let_def split: prod.splits)

lemma on_ctx_pending:
  "(\<And>c. cpu_has_exception c \<Longrightarrow> cpu_has_exception (f c)) \<Longrightarrow> cpu_has_exception (cpu_ctx e) \<Longrightarrow>
   cpu_has_exception (cpu_ctx (on_ctx f e))"
  by (simp add: on_ctx_def)

lemma run_decoded_pending:
  assumes "handlers_keep_exception insns cb" "cpu_has_exception (cpu_ctx e)"
  shows "cpu_has_exception (cpu_ctx (snd (run_decoded insns cb dec e)))"
proof -
  have size: "cpu_has_exception (cpu_ctx (on_ctx (\<lambda>c. c\<lparr>last_inst_size := n\<rparr>) e))" for n
    using assms(2) by (intro on_ctx_pending) (simp_all add: cpu_has_exception_def)
  have "cpu_has_exception (cpu_ctx (cpu_executor_inline_ret_no_imm cb e dec))"
    unfolding cpu_executor_inline_ret_no_imm_def Let_def by (rule inline_ret_pending [OF size])
  moreover have "cpu_has_exception (cpu_ctx (cpu_executor_inline_ret_imm16 cb e dec))"
  proof -
    define e0 where "e0 = on_ctx (\<lambda>c. c\<lparr>last_inst_size := uint (dc_near_ret_prefix_len dec) + 3\<rparr>) e"
    obtain x y e1 where t: "inline_ret_target cb e0 (dc_near_ret_op_size dec) = (x, y, e1)" by (metis prod_cases3)
    have e1: "cpu_has_exception (cpu_ctx e1)"
      using inline_ret_pending [OF size [of "uint (dc_near_ret_prefix_len dec) + 3"],
          where cb = cb and s = "dc_near_ret_op_size dec"] t by (simp add: e0_def)
    then have "cpu_has_exception (cpu_ctx (on_ctx (release_stack (dc_inline_imm16 dec)) e1))"
      by (intro on_ctx_pending) (simp_all add: release_stack_def cpu_has_exception_def Let_def)
    then show ?thesis using e1
      by (simp add: cpu_executor_inline_ret_imm16_def e0_def [symmetric] t Let_def)
  qed
  moreover have "cpu_has_exception (cpu_ctx (on_ctx (inline_jcc n d k) e))" for n d k
    using assms(2) assign_rip_pending
    by (intro on_ctx_pending) (auto simp: inline_jcc_def Let_def cpu_has_exception_def)
  ultimately show ?thesis using assms
    by (simp add: run_decoded_def handlers_keep_exception_def keeps_exception_def
        cpu_executor_inline_jcc_short_longmode_def cpu_executor_inline_jcc_near_longmode_def)
qed

lemma step_finish_pending:
  "cpu_has_exception (cpu_ctx e) \<Longrightarrow> fst (cpu_step_finish dec sc vc r e) = CPU_STEP_EXCEPTION"
  by (simp add: cpu_step_finish_def Let_def)

lemma dispatch_pending:
  assumes "handlers_keep_exception insns cb" "cpu_has_exception (cpu_ctx e)"
    and "\<not> cpu_has_hook_type e CPUEAXH_HOOK_MEM_FETCH"
  shows "fst (cpu_step_dispatch_decoded insns cb e dec r) = CPU_STEP_EXCEPTION"
proof -
  define e1 where "e1 = on_ctx (\<lambda>c. c\<lparr>segment_override := sint (dc_segment_override dec)\<rparr>)
    (cpu_executor_notify_fetched_bytes cb e r dec)"
  have e1: "cpu_has_exception (cpu_ctx e1)"
    using assms(2,3) by (simp add: e1_def cpu_executor_notify_fetched_bytes_def on_ctx_def cpu_has_exception_def)
  have raise: "cpu_has_exception (cpu_ctx (on_ctx raise_ud_ctx e1))" "cpu_has_exception (cpu_ctx (on_ctx raise_bp_ctx e1))"
      "cpu_has_exception (cpu_ctx (on_ctx raise_db_ctx e1))"
    using e1 by (auto simp: on_ctx_def raise_bp_ctx_def raise_db_ctx_def cpu_defs)
  obtain t e2 where e2: "run_decoded insns cb dec e1 = (t, e2)" by force
  have "cpu_has_exception (cpu_ctx e2)" using run_decoded_pending [OF assms(1) e1, of dec] e2 by simp
  then show ?thesis
    by (simp add: cpu_step_dispatch_decoded_def e1_def [symmetric] e2 Let_def step_finish_pending
        step_finish_pending [OF raise(1)] step_finish_pending [OF raise(2)] step_finish_pending [OF raise(3)])
qed

subsection \<open>A fetch that runs into a refused page\<close>

lemma fetch_short_page:
  assumes r: "ready e" and fast: "cpu_can_use_page_fast_path e" and p: "grant e a MM_PROT_EXEC = Some p"
    and n: "cpu_page_bytes_remaining a < MAX_INST_FETCH"
    and refused: "grant e (a + of_nat (cpu_page_bytes_remaining a)) MM_PROT_EXEC = None"
  shows "\<exists>e1 e2. cache_only e e1 \<and> faulted e1 e2 \<and>
    fetch_instruction_bytes cb e a = (host_bytes e1 p (cpu_page_bytes_remaining a), e2)"
proof -
  let ?n = "cpu_page_bytes_remaining a"
  obtain e1 where e1: "cpu_resolve_memory_access cb e a MM_PROT_EXEC a 1 0 = (MM_ACCESS_OK, p, e1)" "cache_only e e1"
    using resolve_ready(1) [OF r p] by blast
  have "grant e1 (a + of_nat ?n) MM_PROT_EXEC = None" using refused by (simp add: cache_onlyD [OF e1(2)])
  then obtain st e2 where e2:
    "cpu_resolve_memory_access cb e1 (a + of_nat ?n) MM_PROT_EXEC (a + of_nat ?n) 1 0 = (st, 0, e2)"
    "st \<noteq> MM_ACCESS_OK" "faulted e1 e2"
    using resolve_ready(2) [OF ready_cache_only [OF r e1(2)]] by blast
  have "fetch_pages cb a ?n bs e1 = (bs, e2)" for bs
    using n e2(1,2) by (subst fetch_pages.simps) (simp add: Let_def)
  moreover have "min ?n MAX_INST_FETCH = ?n" "0 < MAX_INST_FETCH" using n by simp_all
  ultimately have "fetch_pages cb a 0 [] e = (host_bytes e1 p ?n, e2)"
    using e1(1) by (subst fetch_pages.simps) (simp add: Let_def)
  then have "fetch_instruction_bytes cb e a = (host_bytes e1 p ?n, e2)"
    using r fast by (simp add: fetch_instruction_bytes_def ready_def)
  then show ?thesis using e1(2) e2(3) by blast
qed

text \<open>The memory of the mode key in the context plays no part in an access.\<close>

lemma key_fields_irrelevant:
  fixes e b v
  defines "f \<equiv> e\<lparr>cpu_ctx := (cpu_ctx e)\<lparr>cached_mode_key_bits := b, cached_mode_key_valid := v\<rparr>\<rparr>"
  shows "ready f = ready e" "grant f = grant e" "cpu_can_use_page_fast_path f = cpu_can_use_page_fast_path e"
  by (simp_all add: f_def ready_def quiet_def cpu_has_exception_def grant_def linear_ok_def access_result_def
      cpu_uses_canonical_addresses_def cpu_is_64bit_code_def cpu_long_mode_active_def fun_eq_iff
      cpu_can_use_page_fast_path_def)

lemma step_short_page:
  assumes r: "ready e" and fast: "cpu_can_use_page_fast_path e" and a: "rip (cpu_ctx e) = a"
    and p: "grant e a MM_PROT_EXEC = Some p" and n: "cpu_page_bytes_remaining a < MAX_INST_FETCH"
    and refused: "grant e (a + of_nat (cpu_page_bytes_remaining a)) MM_PROT_EXEC = None"
    and miss: "\<And>key ctx. step_cache_hit (e\<lparr>cpu_ctx := ctx\<rparr>) key a = None"
    and keep: "handlers_keep_exception insns cb"
  shows "fst (cpu_step insns cb e) = CPU_STEP_EXCEPTION"
proof -
  obtain key c where k: "cpu_inst_cache_mode_key (cpu_ctx e) = (key, c)" by force
  let ?e = "e\<lparr>cpu_ctx := c\<rparr>"
  obtain b v where c: "c = (cpu_ctx e)\<lparr>cached_mode_key_bits := b, cached_mode_key_valid := v\<rparr>"
  proof
    show "c = (cpu_ctx e)\<lparr>cached_mode_key_bits := cached_mode_key_bits c,
        cached_mode_key_valid := cached_mode_key_valid c\<rparr>"
      using k by (auto simp: cpu_inst_cache_mode_key_def Let_def split: if_splits)
  qed
  obtain e1 e2 where f: "cache_only ?e e1" "faulted e1 e2"
    "fetch_instruction_bytes cb ?e a = (host_bytes e1 p (cpu_page_bytes_remaining a), e2)"
    using fetch_short_page [of ?e a p cb] r fast p n refused unfolding c key_fields_irrelevant by blast
  have ex: "cpu_has_exception (cpu_ctx e2)" using faultedD(1) [OF f(2)] .
  have quiet: "\<not> cpu_has_hook_type x CPUEAXH_HOOK_MEM_FETCH" if "hook_type_counts x = hook_type_counts e" for x
    using r that by (simp add: ready_def quiet_def cpu_has_hook_type_def)
  have counts: "hook_type_counts e2 = hook_type_counts e"
    using f(1,2) by (auto simp: cache_only_def faulted_def)
  have prom: "cpu_has_exception (cpu_ctx (promote_decoded e2 k a d))" "hook_type_counts (promote_decoded e2 k a d) = hook_type_counts e" for k d
    using ex counts by (auto simp: promote_decoded_def split: option.splits)
  have "fst (fetch_failed x) = CPU_STEP_EXCEPTION" if "cpu_has_exception (cpu_ctx x)" for x
    using that by (simp add: fetch_failed_def)
  then show ?thesis
    using r miss prom dispatch_pending [OF keep] quiet ex
    by (simp add: cpu_step_def cpu_step_with_prefetch_def Let_def a k f(3) ready_def)
qed

subsection \<open>Exceptions are precise\<close>

text \<open>What the program sees of a context and an exception gives back.\<close>

lemma restored_snapshot:
  "cpu_capture_scalar_snapshot ((cpu_restore_scalar_snapshot c s)\<lparr>exception_state := x,
     control_regs := g, segment_override := - 1\<rparr>) = s\<lparr>sn_control_regs := g, sn_segment_override := - 1\<rparr>"
  "cpu_capture_scalar_snapshot ((cpu_restore_vector_snapshot (cpu_restore_scalar_snapshot c s) v)
     \<lparr>exception_state := x, control_regs := g, segment_override := - 1\<rparr>) =
   s\<lparr>sn_control_regs := g, sn_segment_override := - 1\<rparr>"
  "cpu_capture_vector_snapshot ((cpu_restore_vector_snapshot c v)\<lparr>exception_state := x,
     control_regs := g, segment_override := - 1\<rparr>) = v"
  by (simp_all add: cpu_restore_scalar_snapshot_def cpu_capture_scalar_snapshot_def
      cpu_restore_vector_snapshot_def cpu_capture_vector_snapshot_def)


definition precise :: "DecodedInst \<Rightarrow> CPU_CONTEXT \<Rightarrow> CPU_CONTEXT \<Rightarrow> bool" where
  "precise dec c d \<longleftrightarrow> cpu_has_exception d \<and>
     cpu_capture_scalar_snapshot d = (cpu_capture_scalar_snapshot c)
       \<lparr>sn_control_regs := (control_regs c)(REG_CR2 := control_regs d REG_CR2), sn_segment_override := - 1\<rparr> \<and>
     (decoded_has dec DECODED_FLAG_TOUCHES_VECTOR \<longrightarrow> cpu_capture_vector_snapshot d = cpu_capture_vector_snapshot c)"

lemma precise_segment: "precise dec (c\<lparr>segment_override := s\<rparr>) d = precise dec c d"
  by (simp add: precise_def cpu_capture_scalar_snapshot_def cpu_capture_vector_snapshot_def)

lemma precise_raised:
  assumes "cpu_step_finish dec None None rc (e\<lparr>cpu_ctx := (cpu_ctx e)\<lparr>exception_state := x\<rparr>\<rparr>) = (CPU_STEP_EXCEPTION, e')"
    and "ex_code x \<noteq> CPU_EXCEPTION_NONE"
  shows "precise dec (cpu_ctx e) (cpu_ctx e')"
  using assms
  by (auto simp: cpu_step_finish_def Let_def precise_def cpu_has_exception_def cpu_capture_scalar_snapshot_def
      cpu_capture_vector_snapshot_def)

lemma precise_restored:
  assumes "cpu_step_finish dec (Some (cpu_capture_scalar_snapshot c))
      (if decoded_has dec DECODED_FLAG_TOUCHES_VECTOR then Some (cpu_capture_vector_snapshot c) else None)
      CPU_STEP_OK e = (CPU_STEP_EXCEPTION, e')"
    and "\<not> decoded_has dec DECODED_FLAG_PARTIAL_PROGRESS"
  shows "precise dec c (cpu_ctx e')"
proof -
  have ok: "CPU_STEP_OK \<noteq> CPU_STEP_EXCEPTION" by (simp add: cpu_defs)
  then have x: "cpu_has_exception (cpu_ctx e)" using assms(1) by (auto simp: cpu_step_finish_def Let_def split: if_splits)
  show ?thesis
    using assms x
    by (cases "decoded_has dec DECODED_FLAG_TOUCHES_VECTOR")
       (auto simp: cpu_step_finish_def Let_def precise_def cpu_has_exception_def restored_snapshot
         cpu_restore_scalar_snapshot_def cpu_capture_scalar_snapshot_def
         cpu_restore_vector_snapshot_def cpu_capture_vector_snapshot_def)
qed

lemma raised_context:
  assumes "\<not> cpu_has_exception c" "code \<noteq> CPU_EXCEPTION_NONE"
  obtains x where "cpu_raise_exception c code err = c\<lparr>exception_state := x\<rparr>" "ex_code x \<noteq> CPU_EXCEPTION_NONE"
  using assms by (auto simp: cpu_raise_exception_def)

lemma precise_raise:
  assumes "\<not> cpu_has_exception (cpu_ctx e)" "code \<noteq> CPU_EXCEPTION_NONE"
    and "cpu_step_finish dec None None rc (on_ctx (\<lambda>c. cpu_raise_exception c code err) e) = (CPU_STEP_EXCEPTION, e')"
  shows "precise dec (cpu_ctx e) (cpu_ctx e')"
  using raised_context [OF assms(1,2)] assms(3) precise_raised by (metis on_ctx_def)

text \<open>The state that is restored is the one the hooks on the fetch of the instruction have left.\<close>

lemma precise_dispatch:
  assumes step: "cpu_step_dispatch_decoded insns cb e dec r = (CPU_STEP_EXCEPTION, e')"
    and quiet: "\<not> cpu_has_exception (cpu_ctx (cpu_executor_notify_fetched_bytes cb e r dec))"
    and flags: "\<not> decoded_has dec DECODED_FLAG_NO_FAULT" "\<not> decoded_has dec DECODED_FLAG_PARTIAL_PROGRESS"
  shows "precise dec (cpu_ctx (cpu_executor_notify_fetched_bytes cb e r dec)) (cpu_ctx e')"
proof -
  define e0 where "e0 = cpu_executor_notify_fetched_bytes cb e r dec"
  define e1 where "e1 = on_ctx (\<lambda>c. c\<lparr>segment_override := sint (dc_segment_override dec)\<rparr>) e0"
  have c1: "cpu_ctx e1 = (cpu_ctx e0)\<lparr>segment_override := sint (dc_segment_override dec)\<rparr>"
    by (simp add: e1_def on_ctx_def)
  have q1: "\<not> cpu_has_exception (cpu_ctx e1)" using quiet by (simp add: c1 e0_def [symmetric] cpu_has_exception_def)
  obtain t e2 where e2: "run_decoded insns cb dec e1 = (t, e2)" by force
  note step1 = step [unfolded cpu_step_dispatch_decoded_def Let_def, folded e0_def, folded e1_def]
  have raise: "raise_ud_ctx = (\<lambda>c. cpu_raise_exception c CPU_EXCEPTION_UD 0)"
      "raise_bp_ctx = (\<lambda>c. cpu_raise_exception c CPU_EXCEPTION_BP 0)"
      "raise_db_ctx = (\<lambda>c. cpu_raise_exception c CPU_EXCEPTION_DB 0)"
    by (simp_all add: fun_eq_iff raise_ud_ctx_def raise_bp_ctx_def raise_db_ctx_def)
  have codes: "CPU_EXCEPTION_UD \<noteq> CPU_EXCEPTION_NONE" "CPU_EXCEPTION_BP \<noteq> CPU_EXCEPTION_NONE"
      "CPU_EXCEPTION_DB \<noteq> CPU_EXCEPTION_NONE" by (simp_all add: cpu_defs)
  have "precise dec (cpu_ctx e1) (cpu_ctx e')"
  proof (cases "decoded_has dec DECODED_FLAG_UD \<or> decoded_has dec DECODED_FLAG_BP \<or> decoded_has dec DECODED_FLAG_DB")
    case True
    then show ?thesis
      using step1 precise_raise [OF q1 codes(1)] precise_raise [OF q1 codes(2)] precise_raise [OF q1 codes(3)]
      unfolding raise by (auto split: if_splits)
  next
    case False
    then show ?thesis using step1 flags precise_restored [OF _ flags(2)] by (simp add: e2)
  qed
  then show ?thesis by (simp add: c1 e0_def [symmetric] precise_segment)
qed

end
