(* ===== verification/MemInvariant.thy ===== *)
theory MemInvariant
  imports PageCache
begin

text \<open>
  The memory manager as a state machine: its operations, in any order and with any answer of the
  allocator, as the steps of an inductive relation, and the invariant \<open>mm_ok\<close> of every state that
  can be reached from initialisation.

  A step of the relation is one call, with any arguments; \<open>mm_reachable n\<close> are the states after \<open>n\<close> calls.
  The number of calls matters for the patch handles only, which a 64-bit counter gives out.
\<close>

unbundle bit_operations_syntax

subsection \<open>What the region operations leave alone\<close>

definition patch_view :: "MEMORY_MANAGER \<Rightarrow> MM_PATCH_ENTRY list \<times> u64 \<times> u64 \<times> u64" where
  "patch_view m = (patches m, patch_min_address m, patch_max_address m, next_patch_handle m)"

definition keeps_patches :: "MEMORY_MANAGER \<Rightarrow> MEMORY_MANAGER \<Rightarrow> bool" where
  "keeps_patches m m' \<longleftrightarrow> patch_view m' = patch_view m \<and> (code_version m \<noteq> 0 \<longrightarrow> code_version m' \<noteq> 0)"

lemma keeps_patches_refl [simp]: "keeps_patches m m"
  by (simp add: keeps_patches_def)

lemma keeps_patches_trans: "keeps_patches m m1 \<Longrightarrow> keeps_patches m1 m2 \<Longrightarrow> keeps_patches m m2"
  by (simp add: keeps_patches_def)

lemma patches_ok_view: "patch_view m' = patch_view m \<Longrightarrow> patches_ok m' = patches_ok m"
proof -
  assume v: "patch_view m' = patch_view m"
  then have "patch_bounded m' = patch_bounded m"
    by (simp add: patch_bounded_def [abs_def] patch_view_def)
  with v show ?thesis by (simp add: patches_ok_def patch_view_def)
qed

lemma keeps_patches_ok: "keeps_patches m m' \<Longrightarrow> patches_ok m \<Longrightarrow> patches_ok m'"
  unfolding keeps_patches_def by (blast dest: patches_ok_view [THEN iffD2])

lemma code_version_bump [simp]: "code_version (mm_bump_code_version m) \<noteq> 0"
  by (simp add: mm_bump_code_version_def Let_def)

lemma keeps_patches_invalidate [simp]: "keeps_patches m (mm_invalidate_cache m') = (patch_view m' = patch_view m)"
  by (simp add: keeps_patches_def mm_invalidate_cache_def)
     (simp add: patch_view_def mm_bump_code_version_def Let_def)

lemma keeps_patches_reserve:
  "mm_reserve_region_capacity h m n = (b, h', m') \<Longrightarrow> keeps_patches m m'"
  by (drule mm_reserve_region_shape) (auto simp: keeps_patches_def patch_view_def)

lemma keeps_patches_insert:
  "mm_insert_region h m i r = (b, h', m') \<Longrightarrow> keeps_patches m m'"
  by (auto simp: mm_insert_region_def split: prod.splits bool.splits dest!: keeps_patches_reserve)
     (simp add: keeps_patches_def patch_view_def)

lemma keeps_patches_replace:
  "mm_replace_region h m i rs = (b, h', m') \<Longrightarrow> keeps_patches m m'"
  by (auto simp: mm_replace_region_def Let_def split: prod.splits bool.splits if_splits
      dest!: keeps_patches_reserve)
     (simp add: keeps_patches_def patch_view_def)

lemma keeps_patches_split:
  "mm_split_region h m i ps = (b, h', m') \<Longrightarrow> keeps_patches m m'"
  by (auto simp: mm_split_region_def split: prod.splits bool.splits dest: keeps_patches_replace)

context region_rewrite
begin

lemma loop_keeps_patches:
  assumes "loop h m current end = (b, h', m')"
  shows "keeps_patches m m'"
  using assms
  by (induction rule: loop_induct) (auto dest: keeps_patches_split intro: keeps_patches_trans)

end

lemma keeps_patches_map:
  "mm_map_internal h m a n p = (b, h', m') \<Longrightarrow> keeps_patches m m'"
  "mm_map_host h m a n p ptr = (b, h', m') \<Longrightarrow> keeps_patches m m'"
  by (auto simp: mm_map_internal_def mm_map_host_def Let_def split: prod.splits bool.splits if_splits
      dest!: keeps_patches_insert)
     (simp_all add: keeps_patches_def)

lemma keeps_patches_range_ops:
  "mm_unmap h m a n = (b, h', m') \<Longrightarrow> keeps_patches m m'"
  "mm_protect h m a n p = (b, h', m') \<Longrightarrow> keeps_patches m m'"
  "mm_set_cpu_attrs h m a n p = (b, h', m') \<Longrightarrow> keeps_patches m m'"
  by (auto simp: mm_unmap_def mm_protect_def mm_set_cpu_attrs_def split: if_splits
      dest: unmap_rw.loop_keeps_patches protect_rw.loop_keeps_patches attrs_rw.loop_keeps_patches)

lemma regions_bounds [simp]: "regions (mm_rebuild_patch_bounds m) = regions m"
  by (simp add: mm_rebuild_patch_bounds_def split: prod.splits)

lemma reserve_patch_regions:
  "mm_reserve_patch_capacity h m n = (b, h', m') \<Longrightarrow> regions m' = regions m \<and> code_version m' = code_version m"
  by (auto simp: mm_reserve_patch_capacity_def Let_def split: if_splits prod.splits)

lemma regions_bump [simp]: "regions (mm_bump_code_version m) = regions m"
  by (simp add: mm_bump_code_version_def Let_def)

lemma add_patch_regions:
  assumes "mm_add_patch h m a bytes sz = (st, out, h', m')"
  shows "regions m' = regions m \<and> (code_version m \<noteq> 0 \<longrightarrow> code_version m' \<noteq> 0)"
proof -
  obtain b1 h1 m1 where r: "mm_reserve_patch_capacity h m (length (patches m) + 1) = (b1, h1, m1)"
    by (metis prod_cases3)
  obtain p h2 where al: "CPUEAXH_ALLOC_ZEROED h1 sz = (p, h2)" by force
  show ?thesis
    using assms r al reserve_patch_regions [OF r]
    by (cases bytes; cases b1) (auto simp: mm_add_patch_def Let_def split: if_splits)
qed

lemma del_patch_regions:
  "mm_del_patch h m k = (st, h', m') \<Longrightarrow>
     regions m' = regions m \<and> (code_version m \<noteq> 0 \<longrightarrow> code_version m' \<noteq> 0)"
  by (auto simp: mm_del_patch_def Let_def split: if_splits option.splits)

lemma query_frame:
  "mm_query m a = (info, m') \<Longrightarrow> regions m' = regions m \<and> keeps_patches m m'"
  by (auto simp: mm_query_def Let_def keeps_patches_def patch_view_def split: if_splits option.splits)

subsection \<open>Steps\<close>

inductive mm_step :: "MEMORY_MANAGER \<Rightarrow> MEMORY_MANAGER \<Rightarrow> bool" where
  map_step: "mm_map_internal h m a n p = (b, h', m') \<Longrightarrow> mm_step m m'"
| map_host_step: "mm_map_host h m a n p ptr = (b, h', m') \<Longrightarrow> mm_step m m'"
| unmap_step: "mm_unmap h m a n = (b, h', m') \<Longrightarrow> mm_step m m'"
| protect_step: "mm_protect h m a n p = (b, h', m') \<Longrightarrow> mm_step m m'"
| attrs_step: "mm_set_cpu_attrs h m a n p = (b, h', m') \<Longrightarrow> mm_step m m'"
| passthrough_step: "mm_step m (mm_set_host_passthrough m p enabled)"
| add_patch_step: "mm_add_patch h m a bytes n = (st, out, h', m') \<Longrightarrow> mm_step m m'"
| del_patch_step: "mm_del_patch h m k = (st, h', m') \<Longrightarrow> mm_step m m'"
| query_step: "mm_query m a = (info, m') \<Longrightarrow> mm_step m m'"

inductive mm_reachable :: "nat \<Rightarrow> MEMORY_MANAGER \<Rightarrow> bool" where
  reach_init: "mm_reachable 0 mm_init"
| reach_step: "mm_reachable n m \<Longrightarrow> mm_step m m' \<Longrightarrow> mm_reachable (Suc n) m'"

inductive_cases mm_stepE: "mm_step m m'"

lemma map_regions_ok:
  assumes ok: "regions_ok (regions m)"
  shows "mm_map_internal h m a n p = (b, h', m') \<Longrightarrow> regions_ok (regions m')"
    and "mm_map_host h m a n p ptr = (b, h', m') \<Longrightarrow> regions_ok (regions m')"
proof -
  have ins: "regions_ok (regions m')"
    if "map_guard m a n p" "regions m' = regions_with m (mapped_region a n q p ext)" for q ext
    using regions_insert_new(1) [OF ok _ that(2)] that(1) by simp
  show "regions_ok (regions m')" if "mm_map_internal h m a n p = (b, h', m')"
    using mm_map_internal_result [OF that] ok ins by (cases b) auto
  show "regions_ok (regions m')" if "mm_map_host h m a n p ptr = (b, h', m')"
    using mm_map_host_result [OF that] ok ins by (cases b) auto
qed

lemma range_ops_regions_ok:
  assumes ok: "regions_ok (regions m)"
  shows "mm_unmap h m a n = (b, h', m') \<Longrightarrow> regions_ok (regions m')"
    and "mm_protect h m a n p = (b, h', m') \<Longrightarrow> regions_ok (regions m')"
    and "mm_set_cpu_attrs h m a n p = (b, h', m') \<Longrightarrow> regions_ok (regions m')"
proof -
  show "regions_ok (regions m')" if "mm_unmap h m a n = (b, h', m')"
    using that ok mm_unmap_cases [OF that] unmap_rw.loop_range_partial(1) [OF _ ok]
    by (cases "n = 0") (auto simp: mm_unmap_def)
  show "regions_ok (regions m')" if "mm_protect h m a n p = (b, h', m')"
    using that ok mm_protect_cases [OF that] protect_rw.loop_range_partial(1) [OF _ ok]
    by (cases "n = 0") (auto simp: mm_protect_def)
  show "regions_ok (regions m')" if "mm_set_cpu_attrs h m a n p = (b, h', m')"
    using that ok mm_set_cpu_attrs_cases [OF that] attrs_rw.loop_range_partial(1) [OF _ ok]
    by (cases "n = 0") (auto simp: mm_set_cpu_attrs_def)
qed

lemma mm_okI:
  "mm_ok m \<Longrightarrow> regions_ok (regions m') \<Longrightarrow> keeps_patches m m' \<Longrightarrow> cache_ok m' \<Longrightarrow> mm_ok m'"
  unfolding mm_ok_def using keeps_patches_ok by (auto simp: keeps_patches_def)

lemma passthrough_frame:
  "regions (mm_set_host_passthrough m p en) = regions m" "keeps_patches m (mm_set_host_passthrough m p en)"
  by (simp_all add: mm_set_host_passthrough_def mm_invalidate_cache_def keeps_patches_def patch_view_def)
     (simp add: mm_bump_code_version_def Let_def)

lemma mm_step_ok:
  assumes "mm_step m m'" and ok: "mm_ok m"
  shows "mm_ok m'"
proof -
  have r: "regions_ok (regions m)" and p: "patches_ok m" and c: "cache_ok m" and v: "code_version m \<noteq> 0"
    using ok by (simp_all add: mm_ok_def)
  from assms(1) show ?thesis
  proof cases
    case map_step
    show ?thesis
      using mm_okI [OF ok map_regions_ok(1) [OF r map_step] keeps_patches_map(1) [OF map_step]
          cache_ok_map_internal [OF c map_step]] .
  next
    case map_host_step
    show ?thesis
      using mm_okI [OF ok map_regions_ok(2) [OF r map_host_step] keeps_patches_map(2) [OF map_host_step]
          cache_ok_map_host [OF c map_host_step]] .
  next
    case unmap_step
    show ?thesis
      using mm_okI [OF ok range_ops_regions_ok(1) [OF r unmap_step]
          keeps_patches_range_ops(1) [OF unmap_step] cache_ok_unmap [OF c unmap_step]] .
  next
    case protect_step
    show ?thesis
      using mm_okI [OF ok range_ops_regions_ok(2) [OF r protect_step]
          keeps_patches_range_ops(2) [OF protect_step] cache_ok_protect [OF c protect_step]] .
  next
    case attrs_step
    show ?thesis
      using mm_okI [OF ok range_ops_regions_ok(3) [OF r attrs_step]
          keeps_patches_range_ops(3) [OF attrs_step] cache_ok_set_cpu_attrs [OF c attrs_step]] .
  next
    case passthrough_step
    show ?thesis
      unfolding passthrough_step
      by (rule mm_okI [OF ok]) (simp_all add: passthrough_frame r cache_ok_set_host_passthrough)
  next
    case add_patch_step
    show ?thesis
      using r v add_patch_regions [OF add_patch_step] cache_ok_add_patch [OF c add_patch_step]
        mm_add_patch_patches_ok [OF p add_patch_step]
      by (simp add: mm_ok_def)
  next
    case del_patch_step
    show ?thesis
      using r v del_patch_regions [OF del_patch_step] cache_ok_del_patch [OF c del_patch_step]
        mm_del_patch_patches_ok(1) [OF p del_patch_step]
      by (simp add: mm_ok_def)
  next
    case query_step
    show ?thesis
      using mm_okI [OF ok _ _ mm_query_lookup(2) [OF r c query_step]] query_frame [OF query_step] r by simp
  qed
qed

lemma mm_reachable_mm_ok: "mm_reachable n m \<Longrightarrow> mm_ok m"
  by (induction rule: mm_reachable.induct) (auto intro: mm_ok_init mm_step_ok)

lemma patch_view_handles:
  "patch_view m' = patch_view m \<Longrightarrow> patch_handles_ok m' = patch_handles_ok m \<and> next_patch_handle m' = next_patch_handle m"
  by (simp add: patch_view_def patch_handles_ok_def)

text \<open>Each call uses at most one handle.\<close>

lemma mm_step_handles:
  assumes "mm_step m m'" "patches_ok m" "patch_handles_ok m" "next_patch_handle m \<noteq> - 1"
  shows "patch_handles_ok m' \<and> unat (next_patch_handle m') \<le> Suc (unat (next_patch_handle m))"
proof -
  have v: ?thesis if "keeps_patches m m'"
    using that patch_view_handles [of m' m] assms(3) by (simp add: keeps_patches_def)
  from assms(1) show ?thesis
  proof cases
    case add_patch_step
    have "unat (next_patch_handle m + 1) \<le> Suc (unat (next_patch_handle m))"
      by (simp add: unat_word_ariths)
    with mm_add_patch_result [OF add_patch_step] mm_add_patch_handles_ok [OF assms(3) add_patch_step assms(4)]
    show ?thesis by (auto split: if_splits)
  next
    case del_patch_step
    then show ?thesis using mm_del_patch_patches_ok(2,3) [OF assms(2) del_patch_step] assms(3) by simp
  next
    case query_step
    show ?thesis by (rule v) (use query_frame [OF query_step] in simp)
  qed (rule v, simp add: passthrough_frame keeps_patches_map keeps_patches_range_ops)+
qed

lemma mm_reachable_handles_ok:
  "mm_reachable n m \<Longrightarrow> n < 2 ^ 64 - 1 \<Longrightarrow> patch_handles_ok m \<and> unat (next_patch_handle m) \<le> Suc n"
proof (induction rule: mm_reachable.induct)
  case reach_init
  then show ?case by (simp add: patches_ok_init) (simp add: mm_init_def)
next
  case (reach_step n m m')
  then have "unat (next_patch_handle m) < 2 ^ 64 - 1" by simp
  then have "next_patch_handle m \<noteq> - 1" by (auto simp: unsigned_minus_1_eq_mask mask_eq_exp_minus_1)
  with reach_step mm_step_handles [OF reach_step(2)] mm_reachable_mm_ok [OF reach_step(1)] show ?case
    by (auto simp: mm_ok_def)
qed
end
