(* ===== verification/PropsMemory.thy ===== *)
theory PropsMemory
  imports MemInvariant
begin

text \<open>
  The properties of the memory manager, each with an application to a concrete manager. They
  rest on the lemmas of \<open>RegionSpec\<close>, \<open>Patches\<close> and \<open>PageCache\<close>. The abstract view of the region
  table is \<open>page_map\<close>, the partial function from guest addresses to permissions and attributes.
\<close>

unbundle bit_operations_syntax

subsection \<open>A concrete manager\<close>

text \<open>Two external regions, the second executable, and an allocator that always succeeds.\<close>

definition demo_host :: host where
  "demo_host = \<lparr>hmem = (\<lambda>_. 0), hlive = [], hcalls = 0,
     horacle = (\<lambda>n sz. 0x40000000 + of_nat n * 0x100000)\<rparr>"

definition demo_region :: "u64 \<Rightarrow> u64 \<Rightarrow> u64 \<Rightarrow> u32 \<Rightarrow> MEMORY_REGION" where
  "demo_region b n p perms = \<lparr>rg_base = b, rg_size = n, rg_data = p, rg_perms = perms,
     rg_cpu_attrs = MM_CPU_ATTR_USER, rg_external = True\<rparr>"

definition demo_mm :: MEMORY_MANAGER where
  "demo_mm = mm_init\<lparr>regions := [demo_region 0x1000 0x3000 0x700000 3, demo_region 0x8000 0x1000 0x710000 5],
     region_capacity := 16, regions_array := 0x600000\<rparr>"

lemma demo_regions_ok: "regions_ok (regions demo_mm)"
  by (simp add: demo_mm_def demo_region_def mm_init_def regions_ok_def region_ok_def region_before_def
     mm_range_overflows_def mm_is_page_aligned_def CPUEAXH_PAGE_SIZE_def)

lemma demo_cache_ok: "cache_ok demo_mm" "patches_ok demo_mm"
  by (simp_all add: cache_ok_empty demo_mm_def mm_init_def patches_ok_def)

lemma demo_ok: "mm_ok demo_mm"
  by (simp add: mm_ok_def demo_regions_ok demo_cache_ok) (simp add: demo_mm_def mm_init_def)

lemma demo_no_wrap: "no_wrap 0x2000 0x1000" "no_wrap 0x4000 0x1000"
  by (simp_all add: no_wrap_def)

lemma triple_collapse: "x = (fst x, fst (snd x), snd (snd x))"
  by simp

subsection \<open>Lookup and overlap\<close>

text \<open>
  C7: on every well-formed region table, in particular in every reachable state (C12), the binary search
  over the region array finds, for every address, the region a linear search finds: the first one with the
  address between its base and its end, or none. A region whose last byte is the last one of the address
  space may be in the table; its end is computed as zero, so neither search ever finds it.
\<close>

theorem region_lookup_is_linear_search:
  assumes "regions_ok (regions m)"
  shows "mm_find_region m a = region_at (regions m) a"
  by (rule mm_find_region_linear [OF assms])

theorem region_lookup_is_linear_search_witness:
  "mm_find_region demo_mm 0x3FFF = Some (demo_region 0x1000 0x3000 0x700000 3) \<and>
   mm_find_region demo_mm 0x4000 = None"
proof -
  have "region_at (regions demo_mm) 0x3FFF = Some (demo_region 0x1000 0x3000 0x700000 3)"
    "region_at (regions demo_mm) 0x4000 = None"
    by (simp_all add: demo_mm_def demo_region_def region_at_def region_contains_def)
  then show ?thesis
    using region_lookup_is_linear_search [OF demo_regions_ok, of "0x3FFF"]
      region_lookup_is_linear_search [OF demo_regions_ok, of "0x4000"] by simp
qed

lemma mm_has_overlap_exact:
  assumes "regions_ok (regions m)" "sz \<noteq> 0" "\<not> mm_range_overflows b sz"
  shows "mm_has_overlap m b sz \<longleftrightarrow>
    (if no_wrap b sz
     then \<exists>r \<in> set (regions m). \<exists>x. in_range b sz x \<and> (region_contains r x \<or> region_end r = 0 \<and> x = rg_base r)
     else \<exists>r \<in> set (regions m). rg_base r < b \<and> region_contains r b)"
proof -
  have pos: "rg_base r < region_end r \<or> region_end r = 0" if r: "r \<in> set (regions m)" for r
  proof -
    have "region_ok r" using assms(1) r by (auto simp: regions_ok_def list_all_iff)
    then have n: "rg_size r \<noteq> 0" "\<not> mm_range_overflows (rg_base r) (rg_size r)" by (simp_all add: region_ok_def)
    then show ?thesis
      by (rule range_end_cases) (use n(1) in \<open>simp_all add: word_less_nat_alt no_wrap_unat_add unat_gt_0\<close>)
  qed
  have w: "in_range b sz x \<longleftrightarrow> b \<le> x \<and> x < b + sz" if "no_wrap b sz" for x
    using range_word [OF assms(3)] that by simp
  have meets: "region_meets b sz r \<longleftrightarrow>
      (\<exists>x. b \<le> x \<and> x < b + sz \<and> (region_contains r x \<or> region_end r = 0 \<and> x = rg_base r))"
    if r: "r \<in> set (regions m)" and nw: "no_wrap b sz" for r
  proof
    assume mt: "region_meets b sz r"
    have "b < b + sz" using nw assms(2) by (simp add: word_less_nat_alt no_wrap_unat_add unat_gt_0)
    then show "\<exists>x. b \<le> x \<and> x < b + sz \<and> (region_contains r x \<or> region_end r = 0 \<and> x = rg_base r)"
      using mt pos [OF r] unfolding region_meets_def region_contains_def
      by (metis less_imp_le order_refl)
  next
    assume "\<exists>x. b \<le> x \<and> x < b + sz \<and> (region_contains r x \<or> region_end r = 0 \<and> x = rg_base r)"
    then show "region_meets b sz r"
      unfolding region_meets_def region_contains_def by (meson le_less_trans not_le)
  qed
  have top: "region_meets b sz r \<longleftrightarrow> rg_base r < b \<and> region_contains r b" if "\<not> no_wrap b sz" for r
  proof -
    have "b + sz = 0" by (rule range_end_cases [OF assms(2,3)]) (use that in simp_all)
    then show ?thesis by (auto simp: region_meets_def region_contains_def)
  qed
  show ?thesis
  proof (cases "no_wrap b sz")
    case True
    then show ?thesis using mm_has_overlap_iff [OF assms] meets w by simp
  qed (simp add: mm_has_overlap_iff [OF assms] top)
qed

text \<open>
  C8: what the overlap test that guards every mapping answers on a well-formed table, although it looks at two
  neighbours of the insertion point only. For a range that ends before the end of the address space it is
  true exactly when a byte of the range lies in some region, or is the first byte of one of the regions up to
  the end of the address space, which contain no address for the lookup. For a range up to the
  end of the address space it is true exactly when a region that begins before the range contains its first
  byte: regions that begin inside such a range are not noticed.
\<close>

theorem overlap_test_exact:
  assumes "regions_ok (regions m)" "sz \<noteq> 0" "\<not> mm_range_overflows b sz"
  shows "mm_has_overlap m b sz \<longleftrightarrow>
    (if no_wrap b sz
     then \<exists>r \<in> set (regions m). \<exists>x. in_range b sz x \<and> (region_contains r x \<or> region_end r = 0 \<and> x = rg_base r)
     else \<exists>r \<in> set (regions m). rg_base r < b \<and> region_contains r b)"
  by (rule mm_has_overlap_exact [OF assms])

theorem overlap_test_exact_witness: "\<not> mm_has_overlap demo_mm 0x4000 0x1000 \<and> mm_has_overlap demo_mm 0x2000 0x1000"
proof -
  have e: "region_end r \<noteq> 0" if "r \<in> set (regions demo_mm)" for r
    using that by (auto simp: demo_mm_def demo_region_def)
  have "\<not> (\<exists>r \<in> set (regions demo_mm). \<exists>x. in_range 0x4000 0x1000 x \<and> region_contains r x)"
    by (auto simp: demo_mm_def demo_region_def region_contains_def in_range_def word_less_nat_alt word_le_nat_alt)
  moreover have "in_range 0x2000 0x1000 (0x2000 :: u64)"
      "region_contains (demo_region 0x1000 0x3000 0x700000 3) 0x2000"
    by (simp_all add: in_range_def region_contains_def demo_region_def)
  then have "\<exists>r \<in> set (regions demo_mm). \<exists>x. in_range 0x2000 0x1000 x \<and> region_contains r x"
    by (auto simp: demo_mm_def)
  ultimately show ?thesis
    using overlap_test_exact [OF demo_regions_ok, of "0x1000" "0x4000"]
      overlap_test_exact [OF demo_regions_ok, of "0x1000" "0x2000"] demo_no_wrap e
    by (auto simp: mm_range_overflows_def)
qed

subsection \<open>Mapping operations refine the page map\<close>

text \<open>
  C9: mapping guest memory keeps the table well formed. When it succeeds for a range that ends before the end
  of the address space, exactly the addresses of the range become mapped, with the requested permissions
  and user access, and they were free before. When it succeeds for a range up to the end of the address space,
  which the code accepts, no address becomes mapped: the region is in the table but is never found. When it
  fails, for a bad argument, an overlap or an allocation, nothing is mapped.
\<close>

theorem map_refines_page_map:
  assumes "regions_ok (regions m)" "mm_map_internal h m address sz perms = (b, h', m')"
  shows "regions_ok (regions m') \<and>
    (if b \<and> no_wrap address sz then (\<forall>x. in_range address sz x \<longrightarrow> page_map m x = None) \<and>
       (\<forall>x. page_map m' x = (if in_range address sz x then Some (perms, MM_CPU_ATTR_USER) else page_map m x))
     else (b \<longrightarrow> length (regions m') = Suc (length (regions m))) \<and> (\<forall>x. page_map m' x = page_map m x))"
proof (cases b)
  case False
  then show ?thesis using mm_map_internal_result [OF assms(2)] assms(1) by (simp add: page_map_def)
next
  case True
  then obtain p where g: "map_guard m address sz perms"
    and rs: "regions m' = regions_with m (mapped_region address sz p perms False)"
    using mm_map_internal_result [OF assms(2)] by auto
  have sz: "sz \<noteq> 0" "\<not> mm_range_overflows address sz" "\<not> mm_has_overlap m address sz"
    using g by (simp_all add: map_guard_def)
  have w: "address \<le> x \<and> x < address + sz \<longleftrightarrow> no_wrap address sz \<and> in_range address sz x" for x
    by (rule range_word [OF sz(2)])
  have free: "page_map m x = None" if "no_wrap address sz" "in_range address sz x" for x
    using mm_has_overlap_exact [OF assms(1) sz(1,2)] sz(3) that by (auto simp: page_map_def region_at_None)
  have len: "length (regions m') = Suc (length (regions m))"
    unfolding rs using mm_find_insertion_index_spec(1) [OF assms(1), of address] by simp
  show ?thesis
    using regions_insert_new [OF assms(1) _ rs] g free len True w by (simp add: region_contains_def)
qed

theorem map_refines_page_map_witness:
  "let m' = snd (snd (mm_map_internal demo_host demo_mm 0x4000 0x1000 7))
   in regions_ok (regions m') \<and> (fst (mm_map_internal demo_host demo_mm 0x4000 0x1000 7) \<longrightarrow>
        page_map m' 0x4FFF = Some (7, MM_CPU_ATTR_USER))"
  using map_refines_page_map [OF demo_regions_ok triple_collapse, of demo_host "0x4000" "0x1000" 7] demo_no_wrap(2)
  by (auto simp: Let_def in_range_def dest: spec [of _ "0x4FFF :: u64"] split: if_splits)





text \<open>
  Setting the CPU attributes keeps the table well formed; on success the attributes of exactly
  the range become the requested ones and the permissions stay; on failure each address has its
  old entry or the new one.
\<close>

theorem set_cpu_attrs_refines_page_map:
  assumes "regions_ok (regions m)" "mm_set_cpu_attrs h m address sz attrs = (b, h', m')"
  shows "regions_ok (regions m') \<and>
    (if b then \<forall>x. page_map m' x =
       (if no_wrap address sz \<and> in_range address sz x then map_option (\<lambda>(perms, _). (perms, attrs)) (page_map m x) else page_map m x)
     else \<forall>x. page_map m' x = page_map m x \<or> no_wrap address sz \<and> in_range address sz x \<and>
       page_map m' x = map_option (\<lambda>(perms, _). (perms, attrs)) (page_map m x))"
proof (cases "sz = 0")
  case True
  then show ?thesis using assms by (auto simp: mm_set_cpu_attrs_def in_range_def)
next
  case False
  have mo: "Option.bind v (\<lambda>(p, _). Some (p, attrs)) = map_option (\<lambda>(perms, _). (perms, attrs)) v"
    for v :: "(u32 \<times> u32) option" by (cases v) auto
  from mm_set_cpu_attrs_cases [OF assms(2) False] consider "(b, h', m') = (False, h, m)"
    | (run) "range_guard m address sz" "mm_set_cpu_attrs_loop attrs h m address (address + sz) = (b, h', m')" by blast
  then show ?thesis
  proof cases
    case run
    show ?thesis
      using attrs_rw.loop_range_partial [OF run(2) assms(1) run(1)] unfolding mo by (cases b) simp_all
  qed (use assms(1) in simp)
qed

theorem set_cpu_attrs_refines_page_map_witness:
  "let r = mm_set_cpu_attrs demo_host demo_mm 0x2000 0x1000 0; m' = snd (snd r)
   in fst r \<and> regions_ok (regions m') \<and> page_map m' 0x2800 = Some (3, 0)"
proof -
  have "fst (mm_set_cpu_attrs demo_host demo_mm 0x2000 0x1000 0)" by code_simp
  moreover have "page_map demo_mm 0x2800 = Some (3, MM_CPU_ATTR_USER)"
    by (simp add: page_map_def demo_mm_def demo_region_def region_at_def region_contains_def)
  ultimately show ?thesis
    using set_cpu_attrs_refines_page_map [OF demo_regions_ok triple_collapse, of demo_host "0x2000" "0x1000" 0] demo_no_wrap(1)
    by (simp add: Let_def in_range_def)
qed

text \<open>
  The test that guards unmapping and protecting answers exactly whether every address of the
  range is mapped, in whatever way the range is split over regions.
\<close>

theorem range_mapped_test_exact:
  assumes "regions_ok (regions m)" "no_wrap address sz" "sz \<noteq> 0"
  shows "mm_check_range_mapped m address sz \<longleftrightarrow> (\<forall>x. in_range address sz x \<longrightarrow> page_map m x \<noteq> None)"
  by (rule mm_check_range_mapped_iff [OF assms])

theorem range_mapped_test_exact_witness: "\<not> mm_check_range_mapped demo_mm 0x4000 0x1000"
proof -
  have "in_range 0x4000 0x1000 (0x4000 :: u64)" "page_map demo_mm 0x4000 = None"
    by (simp_all add: in_range_def page_map_def demo_mm_def demo_region_def region_at_def region_contains_def)
  then show ?thesis
    using range_mapped_test_exact [OF demo_regions_ok demo_no_wrap(2)] by auto
qed

subsection \<open>The page that ends at the top of the address space\<close>

text \<open>
  A range whose end is \<open>2 ^ 64\<close> passes the overflow test, so its last page can be mapped, but
  the end of the region wraps to zero and no address of it is ever found: the mapping succeeds
  and the memory stays unreachable, and the same range can be mapped again.
\<close>

theorem map_last_page_unreachable:
  "\<not> mm_range_overflows 0xFFFFFFFFFFFFF000 0x1000 \<and>
   (let r = mm_map_host demo_host mm_init 0xFFFFFFFFFFFFF000 0x1000 7 0x700000; m' = snd (snd r)
    in fst r \<and> length (regions m') = 1 \<and> (\<forall>a. mm_find_region m' a = None) \<and>
       \<not> mm_has_overlap m' 0xFFFFFFFFFFFFF000 0x1000)"
proof -
  let ?r = "\<lparr>rg_base = 0xFFFFFFFFFFFFF000, rg_size = 0x1000, rg_data = 0x700000, rg_perms = 7,
      rg_cpu_attrs = MM_CPU_ATTR_USER, rg_external = True\<rparr>"
  have i0: "mm_find_insertion_index mm_init 0xFFFFFFFFFFFFF000 = 0"
    by (simp add: mm_find_insertion_index_def mm_find_insertion_loop.simps mm_init_def)
  have fst: "fst (mm_map_host demo_host mm_init 0xFFFFFFFFFFFFF000 0x1000 7 0x700000)"
  proof -
    have "region_capacity mm_init = 0" "regions mm_init = []" by (simp_all add: mm_init_def)
    then show ?thesis
      by (simp add: mm_map_host_def mm_is_page_aligned_def CPUEAXH_PAGE_SIZE_def mm_range_overflows_def
          mm_is_valid_perms_def MM_PROT_READ_def MM_PROT_WRITE_def MM_PROT_EXEC_def mm_has_overlap_def i0
          mm_insert_region_def mm_reserve_region_capacity_def mm_grow_capacity.simps [of 16 "Suc 0"]
          CPUEAXH_ALLOC_ZEROED_def demo_host_def block_fresh_def no_wrap_def Let_def)
  qed
  obtain b h' m' where r: "mm_map_host demo_host mm_init 0xFFFFFFFFFFFFF000 0x1000 7 0x700000 = (b, h', m')"
    by (metis prod_cases3)
  have rs: "regions m' = [?r]"
    using mm_map_host_result [OF r] fst r i0 by (simp add: mm_init_def)
  have "mm_find_region_loop rs a k k = None" for rs a k by (subst mm_find_region_loop.simps) simp
  moreover have "(18446744073709551616 :: u64) \<le> a" for a
  proof -
    have "(18446744073709551616 :: u64) = 0" by transfer simp
    then show ?thesis by (simp only: word_zero_le)
  qed
  ultimately have "mm_find_region_loop [?r] a 0 (Suc 0) = None" for a
    by (subst mm_find_region_loop.simps) (simp add: Let_def)
  then have "mm_find_region m' a = None" for a
    by (simp add: mm_find_region_def mm_find_region_index_def rs)
  moreover have "\<not> mm_has_overlap m' 0xFFFFFFFFFFFFF000 0x1000"
    by (simp add: mm_has_overlap_def mm_find_insertion_index_def rs Let_def mm_range_overflows_def
        mm_find_insertion_loop.simps)
  ultimately show ?thesis using r fst rs by (simp add: Let_def mm_range_overflows_def)
qed

subsection \<open>The invariant and the optimised paths\<close>

text \<open>
  C12: in every state that any sequence of manager calls can reach, with any arguments and whatever the
  allocator answers, the region table is sorted, aligned and without overlap, the patch table is
  disjoint and within its bounds, every valid cache entry agrees with the tables, and the code version is
  never zero. As long as there were fewer than \<open>2 ^ 64 - 1\<close> calls the patches have ascending, hence
  different, handles too. Overlap is meant as the lookup sees it: a region up to the end of the address
  space contains no address, so mapping the last page twice is in this sense no overlap.
\<close>

theorem reachable_manager_ok:
  "mm_reachable n m \<Longrightarrow> mm_ok m \<and> (n < 2 ^ 64 - 1 \<longrightarrow> patch_handles_ok m)"
  using mm_reachable_mm_ok mm_reachable_handles_ok by blast

theorem reachable_manager_ok_witness:
  "mm_ok (snd (mm_query (snd (snd (mm_map_internal demo_host mm_init 0xFFFFFFFFFFFFF000 0x1000 3))) 0x4010))"
proof -
  have "mm_step mm_init (snd (snd (mm_map_internal demo_host mm_init 0xFFFFFFFFFFFFF000 0x1000 3)))"
    by (rule map_step [OF triple_collapse])
  moreover have "mm_step m (snd (mm_query m a))" for m a
    by (rule query_step [of _ a "fst (mm_query m a)"]) simp
  ultimately show ?thesis
    using reachable_manager_ok reach_step reach_init by blast
qed

text \<open>
  C13: a checked access, which goes through the page cache and asks for a patch only within the
  cached patch bounds, gives the status, the host pointer and the attributes of the reference
  access that searches both tables, and it changes nothing but the cache.
\<close>

theorem checked_access_is_reference_access:
  assumes "mm_ok m" "mm_get_ptr_checked m a perm = (status, ptr, attrs, m')"
  shows "(status, ptr, attrs) = mm_access m a perm \<and> mm_ok m' \<and> (\<exists>pc. m' = m\<lparr>page_cache := pc\<rparr>)"
  using mm_get_ptr_checked_access [OF assms] by blast

theorem checked_access_is_reference_access_witness:
  "let r = mm_get_ptr_checked demo_mm 0x2010 MM_PROT_READ
   in (fst r, fst (snd r), fst (snd (snd r))) = (MM_ACCESS_OK, 0x701010, MM_CPU_ATTR_USER)"
proof -
  have "mm_access demo_mm 0x2010 MM_PROT_READ = (MM_ACCESS_OK, 0x701010, MM_CPU_ATTR_USER)"
    by (simp add: mm_access_def mm_lookup_def demo_mm_def demo_region_def region_at_def region_contains_def
        MM_PROT_READ_def mm_init_def mm_host_passthrough_perms_def)
  moreover have "x = (fst x, fst (snd x), fst (snd (snd x)), snd (snd (snd x)))" for x :: "'a \<times> 'b \<times> 'c \<times> 'd"
    by simp
  ultimately show ?thesis
    using checked_access_is_reference_access [OF demo_ok, of "0x2010" MM_PROT_READ] by (metis (lifting))
qed

text \<open>
  A patch that is added becomes visible at exactly the addresses of its range, under the
  handle that is returned, every other address resolves as before, and the table stays well formed.
\<close>

theorem added_patch_is_found:
  assumes "patches_ok m"
    and "mm_add_patch h m a bytes sz = (MM_PATCH_OK, out, h', m')"
  shows "patches_ok m' \<and> out = Some (next_patch_handle m) \<and>
    (\<exists>p. p \<noteq> 0 \<and> (\<forall>x. mm_find_patch m' x =
       (if a \<le> x \<and> x \<le> a + sz - 1
        then Some \<lparr>pt_handle = next_patch_handle m, pt_address = a, pt_size = sz, pt_data = p\<rparr>
        else mm_find_patch m x)))"
proof -
  note res = mm_add_patch_result [OF assms(2), unfolded if_P [OF refl]]
  have "patch_covers x (new_patch m a sz p) \<longleftrightarrow> a \<le> x \<and> x \<le> a + sz - 1" for x p
    using res by (auto simp: patch_covers_def new_patch_def patch_end_def)
  with mm_add_patch_lookup [OF assms(1,2)] obtain p where
    "p \<noteq> 0" "\<forall>x. mm_find_patch m' x =
       (if a \<le> x \<and> x \<le> a + sz - 1 then Some (new_patch m a sz p) else mm_find_patch m x)" by auto
  then show ?thesis
    using mm_add_patch_patches_ok [OF assms(1,2)] res unfolding new_patch_def by blast
qed

theorem added_patch_is_found_witness:
  "let r = mm_add_patch demo_host demo_mm 0x2000 (Some [0x90, 0xC3]) 2; m' = snd (snd (snd r))
   in fst r = MM_PATCH_OK \<and> map_option pt_handle (mm_find_patch m' 0x2001) = Some 1 \<and> mm_find_patch m' 0x2002 = None"
proof -
  have "fst (mm_add_patch demo_host demo_mm 0x2000 (Some [0x90, 0xC3]) 2) = MM_PATCH_OK"
    by (simp add: mm_add_patch_def demo_mm_def mm_init_def mm_range_overflows_def mm_reserve_patch_capacity_def
        CPUEAXH_ALLOC_ZEROED_def demo_host_def block_fresh_def no_wrap_def ranges_disjoint_def
        mm_grow_capacity.simps Let_def)
  moreover have "mm_find_patch demo_mm x = None" for x
    by (simp add: mm_find_patch_def mm_patch_bounds_may_contain_def demo_mm_def mm_init_def)
  moreover have "next_patch_handle demo_mm = 1" by (simp add: demo_mm_def mm_init_def)
  moreover have "mm_add_patch demo_host demo_mm 0x2000 (Some [0x90, 0xC3]) 2 = (st, out, h', m') \<Longrightarrow>
      st = MM_PATCH_OK \<Longrightarrow> map_option pt_handle (mm_find_patch m' 0x2001) = Some 1 \<and> mm_find_patch m' 0x2002 = None"
    for st out h' m'
    using added_patch_is_found [OF demo_cache_ok(2), of demo_host "0x2000" "Some [0x90, 0xC3]" 2 out h' m'] calculation(2,3)
    by auto
  ultimately show ?thesis
    by (cases "mm_add_patch demo_host demo_mm 0x2000 (Some [0x90, 0xC3]) 2") (auto simp: Let_def)
qed
end
