(* ===== verification/PropsCpu.thy ===== *)
theory PropsCpu
  imports HelperSpec PropsMemory
begin

text \<open>
  The properties of the CPU core below the instructions: flags, snapshots, canonical addresses,
  memory accesses with their faults, read-modify-write, the stack, segment loads and effective
  addresses. The concrete engine of the applications has the two regions of \<open>demo_mm\<close>, no hooks,
  and the initial 64-bit context with its stack pointer in the first region.
\<close>

unbundle bit_operations_syntax

subsection \<open>A concrete engine\<close>

definition demo_ctx :: CPU_CONTEXT where
  "demo_ctx = (init_cpu_context False)\<lparr>regs := (\<lambda>_. 0)(REG_RSP := 0x3000)\<rparr>"

definition demo_engine :: cpueaxh_engine where
  "demo_engine =
     \<lparr>memory_manager = demo_mm, cpu_ctx = demo_ctx, inst_cache = \<lparr>ic_block = 0, ic_slots = None\<rparr>,
      hooks = replicate CPUEAXH_MAX_HOOKS empty_hook, hook_type_counts = (\<lambda>_. 0),
      escape_index_by_id = (\<lambda>_. 0), escapes = [], escape_capacity = 0, escapes_array = 0,
      next_hook = 1, memory_mode = 0, stop_requested = False, last_error = 0,
      host_state = demo_host\<rparr>"

definition demo_callbacks :: callbacks where
  "demo_callbacks = \<lparr>cb_code = (\<lambda>_ e _ _. e), cb_mem = (\<lambda>_ e _ _ _ _ _. e),
     cb_invalid_mem = (\<lambda>_ e _ _ _ _ _. (0, e)), cb_escape = (\<lambda>_ e c _ _. (0, c, e))\<rparr>"

lemma demo_ctx_simps [simp]:
  "\<not> cpu_has_exception demo_ctx" "cpl demo_ctx = 0" "cpu_is_64bit_code demo_ctx"
  "regs demo_ctx REG_RSP = 0x3000"
  by (simp_all add: demo_ctx_def init_cpu_context_def Let_def cpu_has_exception_def CPU_EXCEPTION_NONE_def
      cpu_reset_x87_state_def zero_context_def cpu_is_64bit_code_def cpu_long_mode_active_def)

lemma demo_engine_simps [simp]:
  "cpu_ctx demo_engine = demo_ctx" "memory_manager demo_engine = demo_mm" "host_state demo_engine = demo_host"
  by (simp_all add: demo_engine_def)

lemma demo_ready: "ready demo_engine"
  by (simp add: ready_def demo_ok quiet_def) (simp add: demo_engine_def)

lemma demo_grant:
  assumes "unat a < 0x4000" "0x1000 \<le> unat a" "perm = 1 \<or> perm = 2"
  shows "grant demo_engine a perm = Some (a + 0x6FF000)"
proof -
  have "unat (drop_bit n a) = 0" if "14 \<le> n" for n
  proof -
    have "(0x4000 :: nat) \<le> 2 ^ n" using power_increasing [OF that, of "2 :: nat"] by simp
    then have "unat a div 2 ^ n = 0" using assms(1) by simp
    moreover have "take_bit 64 (unat a) = unat a" using unat64_less [of a] by (simp add: take_bit_nat_eq_self_iff)
    ultimately show ?thesis by (simp only: unsigned_drop_bit_eq) (simp add: drop_bit_eq_div)
  qed
  then have "drop_bit 47 a = 0" "drop_bit 48 a = 0" by (simp_all add: word_unat_eq_iff)
  then have lin: "linear_ok demo_engine a"
    by (simp add: linear_ok_def cpu_is_canonical_address_def)
  have "region_at (regions demo_mm) a = Some (demo_region 0x1000 0x3000 0x700000 3)"
    using assms(1,2)
    by (simp add: demo_mm_def region_at_def region_contains_def demo_region_def word_le_nat_alt word_less_nat_alt)
  then have lk: "mm_lookup demo_mm a =
      \<lparr>ai_ptr = 0x700000 + (a - 0x1000), ai_perms = 3, ai_cpu_attrs = MM_CPU_ATTR_USER, ai_mapped = True\<rparr>"
    by (simp add: mm_lookup_def demo_region_def)
  have "(3 :: u32) AND perm \<noteq> 0" using assms(3) by auto
  then have "mm_access demo_mm a perm = (MM_ACCESS_OK, 0x700000 + (a - 0x1000), MM_CPU_ATTR_USER)"
    by (simp add: mm_access_def lk Let_def) (simp add: demo_mm_def mm_init_def mm_host_passthrough_perms_def)
  moreover have "0x700000 + (a - 0x1000) = a + 0x6FF000" by (simp add: algebra_simps)
  ultimately show ?thesis
    by (simp add: grant_def lin access_result_def access_outcome_def)
qed

lemma demo_granted:
  assumes "unat a + n \<le> 0x4000" "0x1000 \<le> unat a" "perm = 1 \<or> perm = 2"
  shows "all_granted demo_engine a n perm" "nonnull demo_engine a n perm"
    "i < n \<Longrightarrow> grant demo_engine (a + of_nat i) perm = Some (a + 0x6FF000 + of_nat i)"
proof -
  have g: "grant demo_engine (a + of_nat i) perm = Some (a + 0x6FF000 + of_nat i)"
    "a + 0x6FF000 + of_nat i \<noteq> 0" if "i < n" for i
  proof -
    have "unat (of_nat i :: u64) = i" using that assms(1) by (simp add: unat_of_nat)
    then have "unat (a + of_nat i) = unat a + i"
      using that assms(1) by (simp add: unat_word_ariths)
    then show "grant demo_engine (a + of_nat i) perm = Some (a + 0x6FF000 + of_nat i)"
      using that assms by (subst demo_grant) (auto simp: algebra_simps)
    have "unat (a + of_nat i + 0x6FF000) \<noteq> 0"
      using \<open>unat (a + of_nat i) = unat a + i\<close> that assms(1) by (subst unat_word_ariths) simp
    moreover have "a + of_nat i + 0x6FF000 = a + 0x6FF000 + of_nat i" by (simp add: add_ac)
    ultimately show "a + 0x6FF000 + of_nat i \<noteq> 0" by auto
  qed
  show "all_granted demo_engine a n perm" "nonnull demo_engine a n perm"
    "i < n \<Longrightarrow> grant demo_engine (a + of_nat i) perm = Some (a + 0x6FF000 + of_nat i)"
    using g by (auto simp: all_granted_def nonnull_def)
qed

subsection \<open>Flags\<close>

text \<open>
  C14: the flag updates of \<^verbatim>\<open>ADD\<close> and \<^verbatim>\<open>ADC\<close> at every width: carry is the unsigned overflow, overflow
  the signed one, adjust the carry out of the low nibble, parity that of the low byte, sign and
  zero those of the result, with the carry-in counted; no other bit of \<^verbatim>\<open>RFLAGS\<close> changes.
\<close>

theorem add_flags_correct:
  assumes "\<not> cpu_has_exception ctx" "unat c \<le> 1"
  shows "add_flags ctx (update_flags_add8 ctx a8 b8 (ucast a8 + ucast b8)) a8 b8 0 \<and>
    add_flags ctx (update_flags_add16 ctx a16 b16 (ucast a16 + ucast b16)) a16 b16 0 \<and>
    add_flags ctx (update_flags_add32 ctx a32 b32 (ucast a32 + ucast b32)) a32 b32 0 \<and>
    add_flags ctx (update_flags_add64 ctx a64 b64 (a64 + b64)) a64 b64 0 \<and>
    add_flags ctx (update_flags_adc8 ctx a8 b8 c (ucast a8 + ucast b8 + ucast c)) a8 b8 (unat c) \<and>
    add_flags ctx (update_flags_adc16 ctx a16 b16 c (ucast a16 + ucast b16 + ucast c)) a16 b16 (unat c) \<and>
    add_flags ctx (update_flags_adc32 ctx a32 b32 c (ucast a32 + ucast b32 + ucast c)) a32 b32 (unat c) \<and>
    add_flags ctx (update_flags_adc64 ctx a64 b64 c (a64 + b64 + ucast c)) a64 b64 (unat c)"
  by (intro conjI update_flags_add8_spec update_flags_add16_spec update_flags_add32_spec
      update_flags_add64_spec update_flags_adc8_spec update_flags_adc16_spec update_flags_adc32_spec
      update_flags_adc64_spec assms)

theorem add_flags_correct_witness:
  "flag_set (update_flags_add8 demo_ctx 0x80 0x80 (ucast (0x80 :: u8) + ucast (0x80 :: u8))) RFLAGS_OF"
  using add_flags_correct [of demo_ctx 0 "0x80" "0x80"]
  by (simp add: add_flags_def flags_are_def fits_signed_def)

text \<open>
  C15: the flag updates of \<^verbatim>\<open>SUB\<close>, \<^verbatim>\<open>CMP\<close> and \<^verbatim>\<open>SBB\<close> at every width: carry is the unsigned borrow,
  overflow the signed overflow of the difference, adjust the borrow of the low nibble.
\<close>

theorem sub_flags_correct:
  assumes "\<not> cpu_has_exception ctx" "unat c \<le> 1"
  shows "sub_flags ctx (update_flags_sub8 ctx a8 b8 (ucast a8 - ucast b8)) a8 b8 0 \<and>
    sub_flags ctx (update_flags_sub16 ctx a16 b16 (ucast a16 - ucast b16)) a16 b16 0 \<and>
    sub_flags ctx (update_flags_sub32 ctx a32 b32 (ucast a32 - ucast b32)) a32 b32 0 \<and>
    sub_flags ctx (update_flags_sub64 ctx a64 b64 (a64 - b64)) a64 b64 0 \<and>
    sub_flags ctx (update_flags_sbb8 ctx a8 b8 c (ucast a8 - ucast b8 - ucast c)) a8 b8 (unat c) \<and>
    sub_flags ctx (update_flags_sbb16 ctx a16 b16 c (ucast a16 - ucast b16 - ucast c)) a16 b16 (unat c) \<and>
    sub_flags ctx (update_flags_sbb32 ctx a32 b32 c (ucast a32 - ucast b32 - ucast c)) a32 b32 (unat c) \<and>
    sub_flags ctx (update_flags_sbb64 ctx a64 b64 c (a64 - b64 - ucast c)) a64 b64 (unat c)"
  by (intro conjI update_flags_sub8_spec update_flags_sub16_spec update_flags_sub32_spec
      update_flags_sub64_spec update_flags_sbb8_spec update_flags_sbb16_spec update_flags_sbb32_spec
      update_flags_sbb64_spec assms)

theorem sub_flags_correct_witness:
  "flag_set (update_flags_sub64 demo_ctx 1 2 (1 - 2)) RFLAGS_CF"
  using sub_flags_correct [of demo_ctx 0 0 0 0 0 0 0 1 2]
  by (simp add: sub_flags_def flags_are_def)

text \<open>
  \<^verbatim>\<open>INC\<close> and \<^verbatim>\<open>DEC\<close> at every width set the arithmetic flags of adding and subtracting one but
  keep the carry flag.
\<close>

theorem inc_dec_flags_correct:
  assumes "\<not> cpu_has_exception ctx"
  shows "inc_flags ctx (update_flags_inc8 ctx a8 (a8 + 1)) a8 \<and> dec_flags ctx (update_flags_dec8 ctx a8 (a8 - 1)) a8 \<and>
    inc_flags ctx (update_flags_inc16 ctx a16 (a16 + 1)) a16 \<and> dec_flags ctx (update_flags_dec16 ctx a16 (a16 - 1)) a16 \<and>
    inc_flags ctx (update_flags_inc32 ctx a32 (a32 + 1)) a32 \<and> dec_flags ctx (update_flags_dec32 ctx a32 (a32 - 1)) a32 \<and>
    inc_flags ctx (update_flags_inc64 ctx a64 (a64 + 1)) a64 \<and> dec_flags ctx (update_flags_dec64 ctx a64 (a64 - 1)) a64"
  by (intro conjI update_flags_inc8_spec update_flags_dec8_spec update_flags_inc16_spec update_flags_dec16_spec
      update_flags_inc32_spec update_flags_dec32_spec update_flags_inc64_spec update_flags_dec64_spec assms)

theorem inc_dec_flags_correct_witness: "flag_set (update_flags_inc8 demo_ctx 0xFF (0xFF + 1)) RFLAGS_ZF"
  using inc_dec_flags_correct [of demo_ctx "0xFF"]
  by (simp add: inc_flags_def flags_are_def)

text \<open>
  The flags of \<^verbatim>\<open>TEST\<close>, \<^verbatim>\<open>AND\<close>, \<^verbatim>\<open>OR\<close> and \<^verbatim>\<open>XOR\<close> at every width: carry and overflow are cleared, sign,
  zero and parity are those of the result, and the adjust flag, which the architecture leaves
  undefined, keeps its value.
\<close>

theorem logic_flags_correct:
  assumes "\<not> cpu_has_exception ctx"
  shows "logic_flags ctx (update_flags_test8 ctx r8) r8 \<and> logic_flags ctx (update_flags_and8 ctx r8) r8 \<and>
    logic_flags ctx (update_flags_or8 ctx r8) r8 \<and> logic_flags ctx (update_flags_xor8 ctx r8) r8 \<and>
    logic_flags ctx (update_flags_test16 ctx r16) r16 \<and> logic_flags ctx (update_flags_and16 ctx r16) r16 \<and>
    logic_flags ctx (update_flags_or16 ctx r16) r16 \<and> logic_flags ctx (update_flags_xor16 ctx r16) r16 \<and>
    logic_flags ctx (update_flags_test32 ctx r32) r32 \<and> logic_flags ctx (update_flags_and32 ctx r32) r32 \<and>
    logic_flags ctx (update_flags_or32 ctx r32) r32 \<and> logic_flags ctx (update_flags_xor32 ctx r32) r32 \<and>
    logic_flags ctx (update_flags_test64 ctx r64) r64 \<and> logic_flags ctx (update_flags_and64 ctx r64) r64 \<and>
    logic_flags ctx (update_flags_or64 ctx r64) r64 \<and> logic_flags ctx (update_flags_xor64 ctx r64) r64"
  using assms
  by (simp add: update_flags_test8_spec update_flags_and8_spec update_flags_or8_spec update_flags_xor8_spec
      update_flags_test16_spec update_flags_and16_spec update_flags_or16_spec update_flags_xor16_spec
      update_flags_test32_spec update_flags_and32_spec update_flags_or32_spec update_flags_xor32_spec
      update_flags_test64_spec update_flags_and64_spec update_flags_or64_spec update_flags_xor64_spec)

theorem logic_flags_correct_witness: "flag_set (update_flags_xor64 demo_ctx 0) RFLAGS_ZF"
  using logic_flags_correct [of demo_ctx] by (simp add: logic_flags_def flags_are_def)

subsection \<open>The CPU state\<close>

text \<open>
  Restoring the scalar and the vector snapshot undoes every change made since they were
  captured, except to the processor id, the pending exception and the cached mode key, whose
  valid flag is cleared. This is what makes exceptions precise.
\<close>

theorem snapshot_restore_undoes:
  "cpu_restore_vector_snapshot (cpu_restore_scalar_snapshot ctx' (cpu_capture_scalar_snapshot ctx))
     (cpu_capture_vector_snapshot ctx) =
   ctx\<lparr>processor_id := processor_id ctx', exception_state := exception_state ctx',
       cached_mode_key_bits := cached_mode_key_bits ctx', cached_mode_key_valid := False\<rparr>"
  by (cases ctx, cases ctx')
     (simp add: cpu_restore_vector_snapshot_def cpu_restore_scalar_snapshot_def
        cpu_capture_scalar_snapshot_def cpu_capture_vector_snapshot_def)

text \<open>
  An address is canonical exactly when it is the sign extension of its low 48 bits.
\<close>

theorem canonical_is_sign_extension:
  "cpu_is_canonical_address a \<longleftrightarrow> scast (ucast a :: 48 word) = a"
  by (rule cpu_is_canonical_address_iff)

subsection \<open>Memory accesses\<close>

text \<open>
  C16: with no hook registered, an access that the tables refuse raises the page fault of the
  architecture: vector \<^verbatim>\<open>PF\<close>, the address in \<^verbatim>\<open>CR2\<close>, and an error code whose bits say whether the page was
  present, whether it was a write, whether it came from user level and whether it was a fetch;
  a non-canonical address in 64-bit code raises \<^verbatim>\<open>GP\<close> and leaves \<^verbatim>\<open>CR2\<close> alone. Nothing else of the
  engine changes, beside the page cache.
\<close>

theorem refused_access_faults:
  assumes "ready e"
  shows "(linear_ok e a \<and> access_result e a perm = Inr (st, prot) \<longrightarrow>
      (\<exists>pc. cpu_resolve_memory_access cb e a perm ra rs rv =
        (st, 0, e\<lparr>memory_manager := (memory_manager e)\<lparr>page_cache := pc\<rparr>,
                  cpu_ctx := page_fault_of (cpu_ctx e) a perm prot\<rparr>))) \<and>
    (\<not> linear_ok e a \<longrightarrow> cpu_resolve_memory_access cb e a perm ra rs rv =
        (MM_ACCESS_PROT, 0,
         e\<lparr>cpu_ctx := (cpu_ctx e)\<lparr>exception_state := \<lparr>ex_code = CPU_EXCEPTION_GP, ex_error_code = 0\<rparr>\<rparr>\<rparr>))"
proof (intro conjI impI)
  assume "linear_ok e a \<and> access_result e a perm = Inr (st, prot)"
  then show "\<exists>pc. cpu_resolve_memory_access cb e a perm ra rs rv =
        (st, 0, e\<lparr>memory_manager := (memory_manager e)\<lparr>page_cache := pc\<rparr>,
                  cpu_ctx := page_fault_of (cpu_ctx e) a perm prot\<rparr>)"
    using resolve_page_fault [OF assms] by blast
next
  assume "\<not> linear_ok e a"
  then show "cpu_resolve_memory_access cb e a perm ra rs rv =
        (MM_ACCESS_PROT, 0,
         e\<lparr>cpu_ctx := (cpu_ctx e)\<lparr>exception_state := \<lparr>ex_code = CPU_EXCEPTION_GP, ex_error_code = 0\<rparr>\<rparr>\<rparr>)"
    using assms
    by (simp add: ready_def linear_ok_def cpu_resolve_memory_access_def cpu_validate_linear_address_def
        cpu_raise_noncanonical_address_def raise_gp_ctx_def cpu_raise_exception_def cpu_defs Let_def)
qed

theorem refused_access_faults_witness:
  "fst (cpu_resolve_memory_access demo_callbacks demo_engine 0x5000 MM_PROT_WRITE 0 1 0) = MM_ACCESS_UNMAPPED \<and>
   fst (cpu_resolve_memory_access demo_callbacks demo_engine 0x800000000000 MM_PROT_WRITE 0 1 0) = MM_ACCESS_PROT"
proof -
  have "linear_ok demo_engine 0x5000" "\<not> linear_ok demo_engine 0x800000000000"
    by (simp_all add: linear_ok_def cpu_is_canonical_address_def cpu_uses_canonical_addresses_def)
  moreover have "access_result demo_engine 0x5000 MM_PROT_WRITE = Inr (MM_ACCESS_UNMAPPED, False)"
    by (simp add: access_result_def mm_access_def mm_lookup_def demo_mm_def demo_region_def region_at_def
        region_contains_def mm_init_def mm_host_passthrough_perms_def access_outcome_def)
  ultimately show ?thesis
    using refused_access_faults [OF demo_ready, of "0x5000" MM_PROT_WRITE MM_ACCESS_UNMAPPED False demo_callbacks 0 1 0]
      refused_access_faults [OF demo_ready, of "0x800000000000" MM_PROT_WRITE _ _ demo_callbacks 0 1 0]
    by auto
qed

text \<open>
  C17: with no hook registered, no exception pending and no byte of the range at host address zero, a multi-byte
  write happens completely or not at all. When every byte of the range may be written, the value's bytes
  are stored at the host addresses of the range in little-endian order and nothing else changes beside
  the page cache, also when the range crosses regions, patches or pages; when one byte is refused, an
  exception is pending, and host memory, the registers other than \<^verbatim>\<open>CR2\<close> and the tables are as before.
\<close>

theorem write_all_or_nothing:
  assumes "ready e" "nonnull e a n MM_PROT_WRITE" "0 < n"
  shows "if all_granted e a n MM_PROT_WRITE
    then \<exists>e'. cache_only e e' \<and> write_memory_le cb e a n v =
        store_at e' (map (\<lambda>i. the (grant e (a + of_nat i) MM_PROT_WRITE)) [0..<n]) (le_store n v)
    else faulted e (write_memory_le cb e a n v)"
  using write_memory_le_spec [OF assms] by auto

theorem write_all_or_nothing_witness:
  "\<not> cpu_has_exception (cpu_ctx (write_memory_le demo_callbacks demo_engine 0x1FFC 8 0x1122334455667788)) \<and>
   cpu_has_exception (cpu_ctx (write_memory_le demo_callbacks demo_engine 0x3FFC 8 0x1122334455667788))"
proof -
  have "grant demo_engine 0x4000 MM_PROT_WRITE = None"
    by (simp add: grant_def access_result_def mm_access_def mm_lookup_def demo_mm_def demo_region_def region_at_def
        region_contains_def mm_init_def mm_host_passthrough_perms_def access_outcome_def)
  then have "\<not> all_granted demo_engine 0x3FFC 8 MM_PROT_WRITE"
    unfolding all_granted_def by (auto intro!: exI [of _ 4])
  moreover have "nonnull demo_engine 0x3FFC 8 MM_PROT_WRITE"
  proof -
    have "grant demo_engine (0x3FFC + of_nat i) MM_PROT_WRITE \<noteq> Some 0" if "i < 8" for i
    proof (cases "i < 4")
      case True
      then show ?thesis
        using demo_granted(2) [of "0x3FFC" 4 MM_PROT_WRITE] by (simp add: nonnull_def MM_PROT_WRITE_def)
    next
      case False
      then have "i \<in> {4, 5, 6, 7}" using that by auto
      then show ?thesis
        by (auto simp: grant_def access_result_def mm_access_def mm_lookup_def demo_mm_def demo_region_def region_at_def
          region_contains_def mm_init_def mm_host_passthrough_perms_def access_outcome_def)
    qed
    then show ?thesis by (simp add: nonnull_def)
  qed
  ultimately have "faulted demo_engine (write_memory_le demo_callbacks demo_engine 0x3FFC 8 0x1122334455667788)"
    using write_all_or_nothing [OF demo_ready, of "0x3FFC" 8] by simp
  moreover have "\<not> cpu_has_exception (cpu_ctx (write_memory_le demo_callbacks demo_engine 0x1FFC 8 0x1122334455667788))"
    using write_all_or_nothing [OF demo_ready, of "0x1FFC" 8 demo_callbacks "0x1122334455667788"]
      demo_granted [of "0x1FFC" 8 MM_PROT_WRITE]
    by (auto simp: MM_PROT_WRITE_def cache_onlyD)
  ultimately show ?thesis by (simp add: faultedD)
qed

text \<open>
  C18: with no hook registered and no exception pending, and where every byte of the range may be both written and
  read and the bytes lie at different non-zero host addresses, reading the range back returns the value
  that was written to it, truncated to the width.
\<close>

theorem read_after_write:
  assumes "ready e" "0 < n" "nonnull e a n MM_PROT_WRITE"
    and "all_granted e a n MM_PROT_WRITE" "all_granted e a n MM_PROT_READ"
    and "distinct (map (\<lambda>i. grant e (a + of_nat i) MM_PROT_WRITE) [0..<n])"
  shows "fst (read_memory_le cb (write_memory_le cb' e a n v) a n) = take_bit (8 * n) v"
  by (rule write_read_memory_le [OF assms])

lemma demo_distinct:
  assumes "unat a + n \<le> 0x4000" "0x1000 \<le> unat a"
  shows "distinct (map (\<lambda>i. grant demo_engine (a + of_nat i) MM_PROT_WRITE) [0..<n])"
    "distinct (slot_ptrs demo_engine a n)"
proof -
  have w: "MM_PROT_WRITE = 1 \<or> MM_PROT_WRITE = 2" by (simp add: MM_PROT_WRITE_def)
  have u: "(of_nat i :: u64) = of_nat j \<longleftrightarrow> i = j" if "i < n" "j < n" for i j
  proof -
    have "unat (of_nat i :: u64) = i" "unat (of_nat j :: u64) = j"
      using that assms(1) by (simp_all add: unat_of_nat)
    then show ?thesis by metis
  qed
  have g: "grant demo_engine (a + of_nat i) MM_PROT_WRITE = Some (a + 0x6FF000 + of_nat i)" if "i < n" for i
    using demo_granted(3) [OF assms w that] .
  show "distinct (map (\<lambda>i. grant demo_engine (a + of_nat i) MM_PROT_WRITE) [0..<n])"
    "distinct (slot_ptrs demo_engine a n)"
    by (auto simp: distinct_map inj_on_def slot_ptrs_def g u)
qed

theorem read_after_write_witness:
  "fst (read_memory_le demo_callbacks (write_memory_le demo_callbacks demo_engine 0x1FFC 8 0x1122334455667788) 0x1FFC 8) =
   0x1122334455667788"
  using read_after_write [OF demo_ready, of 8 "0x1FFC" demo_callbacks demo_callbacks "0x1122334455667788"]
    demo_granted [of "0x1FFC" 8 MM_PROT_WRITE] demo_granted [of "0x1FFC" 8 MM_PROT_READ] demo_distinct(1) [of "0x1FFC" 8]
  by (simp add: MM_PROT_WRITE_def MM_PROT_READ_def take_bit_eq_mask mask_eq_exp_minus_1)

text \<open>
  C19: without hooks the read-modify-write operations return, although their loop has no bound:
  either the first exchange succeeds, returning the old value and storing the truncated new one
  at the range's host addresses, or an exception is pending and memory is unchanged.
\<close>

theorem atomic_rmw_returns:
  assumes "ready e" "operand_size_ok s"
    and "nonnull e a (operand_bytes s) MM_PROT_READ" "nonnull e a (operand_bytes s) MM_PROT_WRITE"
  shows "(\<exists>p e1. let n = operand_bytes s; old = guest_value e MM_PROT_READ a n; new = take_bit (8 * n) (f old)
      in cache_only e e1 \<and> (\<forall>i<n. grant e (a + of_nat i) MM_PROT_WRITE = Some (p + of_nat i)) \<and>
         cpu_atomic_rmw_memory cb e a s f =
           Some (Some (old, new), store_at e1 (map (\<lambda>i. p + of_nat i) [0..<n]) (le_store n new))) \<or>
    (\<exists>e1. cpu_atomic_rmw_memory cb e a s f = Some (None, e1) \<and> faulted e e1)"
  by (rule cpu_atomic_rmw_memory_spec [OF assms(1,2) refl assms(3,4), of cb f]) (auto simp: Let_def)

theorem atomic_rmw_returns_witness:
  "cpu_atomic_rmw_memory demo_callbacks demo_engine 0x2000 64 (\<lambda>v. v + 1) \<noteq> None"
  using atomic_rmw_returns [OF demo_ready, of 64 "0x2000" "\<lambda>v. v + 1" demo_callbacks]
    demo_granted [of "0x2000" 8 MM_PROT_WRITE] demo_granted [of "0x2000" 8 MM_PROT_READ]
  by (auto simp: operand_size_ok_def operand_bytes_def MM_PROT_WRITE_def MM_PROT_READ_def Let_def)

subsection \<open>The stack\<close>

text \<open>
  C20: with no hook registered and no exception pending, and where every byte of the slot below the stack pointer may
  be both written and read and the bytes lie at different non-zero host addresses, a push at each of the
  three widths changes nothing in the context but the stack pointer, which moves down by the size of the
  value modulo the width of the stack, and popping then returns the value and leaves the context as it was
  before the push. A 64-bit push on a 16-bit stack raises \<^verbatim>\<open>GP\<close> and does nothing else.
\<close>

theorem pop_returns_pushed:
  assumes "ready e" "nonnull e (push_slot e n) n MM_PROT_WRITE"
    and "all_granted e (push_slot e n) n MM_PROT_WRITE" "all_granted e (push_slot e n) n MM_PROT_READ"
    and "distinct (slot_ptrs e (push_slot e n) n)" "n \<in> {2, 4, 8}"
  defines "s \<equiv> get_stack_addr_size (cpu_ctx e)"
  defines "pushed \<equiv> cpu_set_stack_pointer_value (cpu_ctx e) s (push_slot e n)"
  shows "uint (push_slot e n) = (uint (cpu_get_stack_pointer_value (cpu_ctx e) s) - int n) mod 2 ^ stack_width s \<and>
    (n = 2 \<longrightarrow> cpu_ctx (push_value16 cb e v16) = pushed \<and>
      (\<exists>e'. pop_value16 cb' (push_value16 cb e v16) = (v16, e') \<and> cpu_ctx e' = cpu_ctx e)) \<and>
    (n = 4 \<longrightarrow> cpu_ctx (push_value32 cb e v32) = pushed \<and>
      (\<exists>e'. pop_value32 cb' (push_value32 cb e v32) = (v32, e') \<and> cpu_ctx e' = cpu_ctx e)) \<and>
    (n = 8 \<and> s \<noteq> 16 \<longrightarrow> cpu_ctx (push_value64 cb e v64) = pushed \<and>
      (\<exists>e'. pop_value64 cb' (push_value64 cb e v64) = (v64, e') \<and> cpu_ctx e' = cpu_ctx e)) \<and>
    (s = 16 \<longrightarrow> push_value64 cb e v64 = on_ctx (\<lambda>c. raise_gp_ctx c 0) e)"
proof -
  have ne: "\<not> cpu_has_exception (cpu_ctx e)" using assms(1) by (simp add: ready_def)
  have n0: "0 < n" using assms(6) by auto
  have rt: "\<exists>e'. pop_le cb' (push_le cb e n v) n = (take_bit (8 * n) v, e') \<and> cpu_ctx e' = cpu_ctx e" for v
    by (rule push_pop_le [OF assms(1) n0 refl assms(2-5)])
  have ctx: "cpu_ctx (push_le cb e n v) = pushed" for v
    unfolding pushed_def s_def by (rule push_le_context [OF assms(1) n0 assms(2,3)])
  have st: "get_stack_addr_size (cpu_ctx (push_le cb e n v)) = s" for v unfolding ctx pushed_def by (simp add: s_def)
  have t: "ucast (take_bit 16 (ucast v16 :: u64)) = v16" "ucast (take_bit 32 (ucast v32 :: u64)) = v32"
    "take_bit 64 v64 = v64"
    by (rule bit_word_eqI, auto simp: bit_simps dest: bit_imp_le_length)+
  have "(of_nat n :: u64) = word_of_int (int n)" by simp
  then have un: "uint (of_nat n :: u64) = int n" using assms(6) by auto
  have "uint (push_slot e n) = (uint (cpu_get_stack_pointer_value (cpu_ctx e) s) - int n) mod 2 ^ stack_width s"
    unfolding push_slot_def Let_def push_slot_modulo un s_def ..
  moreover have "push_value64 cb e v64 = on_ctx (\<lambda>c. raise_gp_ctx c 0) e" if "s = 16"
    using ne that by (simp add: push_value64_def s_def)
  moreover have "n = 2 \<longrightarrow> cpu_ctx (push_value16 cb e v16) = pushed \<and>
      (\<exists>e'. pop_value16 cb' (push_value16 cb e v16) = (v16, e') \<and> cpu_ctx e' = cpu_ctx e)"
    using rt [of "ucast v16"] ctx [of "ucast v16"] by (auto simp: push_value_le [OF ne] pop_value_le t)
  moreover have "n = 4 \<longrightarrow> cpu_ctx (push_value32 cb e v32) = pushed \<and>
      (\<exists>e'. pop_value32 cb' (push_value32 cb e v32) = (v32, e') \<and> cpu_ctx e' = cpu_ctx e)"
    using rt [of "ucast v32"] ctx [of "ucast v32"] by (auto simp: push_value_le [OF ne] pop_value_le t)
  moreover have "n = 8 \<and> s \<noteq> 16 \<longrightarrow> cpu_ctx (push_value64 cb e v64) = pushed \<and>
      (\<exists>e'. pop_value64 cb' (push_value64 cb e v64) = (v64, e') \<and> cpu_ctx e' = cpu_ctx e)"
    using rt [of v64] ctx [of v64] st [of v64]
    by (auto simp: push_value_le(3) [OF ne] pop_value_le t s_def)
  ultimately show ?thesis by blast
qed

theorem pop_returns_pushed_witness:
  "\<exists>e'. pop_value64 demo_callbacks (push_value64 demo_callbacks demo_engine 0xDEADBEEF) = (0xDEADBEEF, e') \<and>
     cpu_ctx e' = demo_ctx"
proof -
  have s: "get_stack_addr_size demo_ctx = 64"
    by (simp add: get_stack_addr_size_def cpu_stack_address_size_def)
  have "push_slot demo_engine 8 = 0x2FF8"
    by (simp add: push_slot_def s cpu_stack_pointer_sub_def cpu_get_stack_pointer_value_def)
  then show ?thesis
    using pop_returns_pushed [OF demo_ready, where n = 8 and cb = demo_callbacks and cb' = demo_callbacks
        and ?v16.0 = 0 and ?v32.0 = 0 and ?v64.0 = "0xDEADBEEF"]
      demo_granted [of "0x2FF8" 8 MM_PROT_WRITE] demo_granted [of "0x2FF8" 8 MM_PROT_READ] demo_distinct(2) [of "0x2FF8" 8]
    by (simp add: MM_PROT_WRITE_def MM_PROT_READ_def s)
qed

text \<open>
  C21: with no hook registered and no exception pending, pushing two values of 2, 4 or 8 bytes, as far calls do,
  is atomic: both slots are stored and the stack pointer moves below the second, or, when a byte of either
  slot is refused, memory and the stack pointer are as before and an exception is pending. Two 8-byte values on
  a 16-bit stack raise \<^verbatim>\<open>GP\<close> and nothing else happens.
\<close>

theorem push_two_all_or_nothing:
  assumes "ready e" "n = 2 \<or> n = 4 \<or> n = 8"
  shows "if get_stack_addr_size (cpu_ctx e) = 16 \<and> n = 8
    then push_two_stack_values cb e v1 v2 n = on_ctx (\<lambda>c. raise_gp_ctx c 0) e
    else if all_granted e (push_slot e n) n MM_PROT_WRITE \<and> all_granted e (second_slot e n) n MM_PROT_WRITE
    then \<exists>e1. cache_only e e1 \<and> push_two_stack_values cb e v1 v2 n =
        set_sp (store_at (store_at e1 (slot_ptrs e (push_slot e n) n) (le_store n v1))
                  (slot_ptrs e (second_slot e n) n) (le_store n v2)) (second_slot e n)
    else faulted e (push_two_stack_values cb e v1 v2 n)"
proof (cases "get_stack_addr_size (cpu_ctx e) = 16 \<and> n = 8")
  case True
  then show ?thesis using assms(1) by (simp add: push_two_stack_values_def ready_def)
next
  case False
  show ?thesis using push_two_stack_values_spec [OF assms False] unfolding if_not_P [OF False] by auto
qed

theorem push_two_all_or_nothing_witness:
  "\<not> cpu_has_exception (cpu_ctx (push_two_stack_values demo_callbacks demo_engine 0x33 0x401000 8))"
proof -
  have s: "get_stack_addr_size demo_ctx = 64"
    by (simp add: get_stack_addr_size_def cpu_stack_address_size_def)
  have p: "push_slot demo_engine 8 = 0x2FF8" "second_slot demo_engine 8 = 0x2FF0"
    by (simp_all add: second_slot_def push_slot_def s cpu_stack_pointer_sub_def cpu_get_stack_pointer_value_def)
  then show ?thesis
    using push_two_all_or_nothing [OF demo_ready, of 8 demo_callbacks "0x33" "0x401000"]
      demo_granted [of "0x2FF8" 8 MM_PROT_WRITE] demo_granted [of "0x2FF0" 8 MM_PROT_WRITE] s
    by (auto simp: MM_PROT_WRITE_def cache_onlyD)
qed

subsection \<open>Segments, addresses and registers\<close>

text \<open>
  C22: a segment load that completes without an exception has enforced the privilege rules: the
  stack segment is a present, writable data segment with requested and descriptor privilege equal
  to the current level; another segment is null with an empty descriptor, or a present data or
  readable code segment that neither level exceeds unless it is conforming.
\<close>

theorem segment_load_checked:
  assumes "\<not> cpu_has_exception (cpu_ctx (load_segment_register cb e i selector))"
    and "segment_by_index (cpu_ctx e) i \<noteq> None"
  shows "i \<noteq> SEG_CS \<and>
    (\<exists>seg. segment_by_index (cpu_ctx (load_segment_register cb e i selector)) i = Some seg \<and>
       sr_selector seg = selector \<and>
       (if i = SEG_SS then stack_segment_ok else data_segment_ok)
         (cpl (cpu_ctx (load_segment_register cb e i selector))) seg)"
proof -
  have "i \<noteq> SEG_CS" using assms(1) by (auto simp: load_segment_register_def raise_ud_ctx_def cpu_defs)
  moreover have "segment_by_index ctx SEG_SS = Some (ss ctx)" for ctx
    by (simp add: segment_by_index_def cpu_defs)
  ultimately show ?thesis
    using assms load_stack_segment_ok [of cb e selector] load_data_segment_ok [of cb e i selector]
    by (cases "i = SEG_SS") (auto simp: load_segment_register_def)
qed

theorem segment_load_checked_witness:
  "data_segment_ok 0 (ds (cpu_ctx (load_segment_register demo_callbacks demo_engine SEG_DS 0)))"
proof -
  have "cpu_ctx (load_segment_register demo_callbacks demo_engine SEG_DS 0) =
      demo_ctx\<lparr>ds := \<lparr>sr_selector = 0, sr_descriptor = zero_descriptor\<rparr>\<rparr>"
    by (simp add: load_segment_register_def load_data_segment_def is_null_selector_def get_segment_register_def
        segment_by_index_def set_segment_register_def cpu_defs Let_def)
  moreover have "ex_code (exception_state demo_ctx) = CPU_EXCEPTION_NONE"
    using demo_ctx_simps(1) unfolding cpu_has_exception_def by blast
  ultimately show ?thesis
    using segment_load_checked [of demo_callbacks demo_engine SEG_DS 0]
    by (simp add: segment_by_index_def cpu_defs cpu_has_exception_def)
qed

lemma disp32_extension:
  assumes "- (2 ^ 31) \<le> disp" "disp < 2 ^ 31"
  shows "(ucast (word_of_int disp :: u32) :: u64) = word_of_int disp \<longleftrightarrow> 0 \<le> disp"
proof -
  have l: "uint (ucast (word_of_int disp :: u32) :: u64) = disp mod 2 ^ 32"
    by (simp add: unsigned_ucast_eq uint_word_of_int take_bit_eq_mod)
  have r: "uint (word_of_int disp :: u64) = disp mod 2 ^ 64"
    by (simp add: uint_word_of_int take_bit_eq_mod)
  show ?thesis
  proof (cases "0 \<le> disp")
    case True
    then show ?thesis using assms l r by (simp add: word_uint_eq_iff)
  next
    case False
    have "disp mod 2 ^ 32 = disp + 2 ^ 32"
      using False assms by (subst mod_add_self2 [symmetric], intro mod_pos_pos_trivial) auto
    moreover have "disp mod 2 ^ 64 = disp + 2 ^ 64"
      using False assms by (subst mod_add_self2 [symmetric], intro mod_pos_pos_trivial) auto
    ultimately show ?thesis using False l r by (simp add: word_uint_eq_iff)
  qed
qed

lemma take_bit_32_cancel:
  fixes r s x :: u64
  shows "take_bit 32 (r + x) = take_bit 32 (s + x) \<longleftrightarrow> take_bit 32 r = take_bit 32 s"
  using take_bit_32_add [of "r + x" "s + x" "- x"] take_bit_32_add [of r s x] by (auto simp: add_ac)

text \<open>
  C23: in 64-bit code the effective offset of every form of a memory operand is base plus scaled index plus
  sign-extended displacement, taken modulo \<open>2 ^ 32\<close> when the address size is 32, with two exceptions. With
  64-bit addresses the \<^verbatim>\<open>SIB\<close> form without base register zero-extends its displacement, so a negative one is
  wrong; with 32-bit addresses the form relative to the instruction pointer leaves the instruction
  pointer out, so it is wrong unless the low half of the next address is zero.
\<close>

theorem effective_offset_formula:
  fixes sib :: u8 and inst_size :: int
  assumes "cpu_allows_rex_prefix ctx" "modrm_mod modrm \<noteq> 3" "- (2 ^ 31) \<le> disp" "disp < 2 ^ 31"
  defines "formula \<equiv> x86_base ctx modrm sib inst_size + x86_index ctx modrm sib + x86_disp modrm sib disp"
  shows "(get_effective_offset ctx modrm (Some sib) disp 64 inst_size = formula \<longleftrightarrow>
      \<not> (sib_no_base modrm sib \<and> disp < 0)) \<and>
    (get_effective_offset ctx modrm (Some sib) disp 32 inst_size = take_bit 32 formula \<longleftrightarrow>
      \<not> (rip_relative modrm \<and> take_bit 32 (rip ctx + word_of_int inst_size) \<noteq> 0))"
proof
  have "x86_disp modrm sib disp = word_of_int disp" if "sib_no_base modrm sib"
    using that by (auto simp: x86_disp_def sib_no_base_def)
  then show "get_effective_offset ctx modrm (Some sib) disp 64 inst_size = formula \<longleftrightarrow>
      \<not> (sib_no_base modrm sib \<and> disp < 0)"
    using get_effective_offset_64 [OF assms(1,2), of sib disp inst_size] disp32_extension [OF assms(3,4)]
    unfolding formula_def by auto
  have "take_bit 32 (r + x + d) = take_bit 32 (x + d) \<longleftrightarrow> take_bit 32 r = 0" for x d r :: u64
    using take_bit_32_cancel [where r = r and s = 0 and x = "x + d"] by (simp add: add.assoc)
  then have "take_bit 32 (x + d) = take_bit 32 (r + x + d) \<longleftrightarrow> take_bit 32 r = 0" for x d r :: u64 by metis
  from this [of 0 _ "rip ctx + word_of_int inst_size"]
  show "get_effective_offset ctx modrm (Some sib) disp 32 inst_size = take_bit 32 formula \<longleftrightarrow>
      \<not> (rip_relative modrm \<and> take_bit 32 (rip ctx + word_of_int inst_size) \<noteq> 0)"
    unfolding get_effective_offset_32 [OF assms(1,2)] formula_def
    by (auto simp: rip_relative_def x86_base_def x86_index_def)
qed

theorem effective_offset_formula_witness:
  "get_effective_offset demo_ctx 0x04 (Some 0x25) (- 8) 64 7 \<noteq>
     x86_base demo_ctx 0x04 0x25 7 + x86_index demo_ctx 0x04 0x25 + x86_disp 0x04 0x25 (- 8) \<and>
   get_effective_offset demo_ctx 0x04 (Some 0x25) (- 8) 32 7 =
     take_bit 32 (x86_base demo_ctx 0x04 0x25 7 + x86_index demo_ctx 0x04 0x25 + x86_disp 0x04 0x25 (- 8))"
  using effective_offset_formula [of demo_ctx "0x04" "- 8" "0x25" 7]
  by (simp add: cpu_allows_rex_prefix_def modrm_mod_def sib_no_base_def modrm_rm_def rip_relative_def)

text \<open>
  A vector operand of 16, 32 or 64 bytes that is written to memory and read back gives the
  same register value, when the range may be written and read and its bytes lie at different
  host addresses.
\<close>

theorem vector_memory_roundtrip:
  assumes "ready e" "nonnull e a n MM_PROT_WRITE" "all_granted e a n MM_PROT_WRITE"
    "all_granted e a n MM_PROT_READ" "distinct (slot_ptrs e a n)"
  shows "(n = 16 \<longrightarrow> fst (read_xmm_memory cb' (write_xmm_memory cb e a x) a) = x) \<and>
    (n = 32 \<longrightarrow> fst (read_zmm_upper_memory cb' (write_zmm_upper_memory cb e a u) a) = u) \<and>
    (n = 64 \<longrightarrow> fst (read_zmm_memory cb' (write_zmm_memory cb e a z) a) = z)"
proof -
  have rt: "fst (read_qwords cb' (write_qwords cb e a qs) a (length qs)) = qs" if "n = 8 * length qs" "0 < n" "n \<le> 64" for qs
    by (rule write_read_qwords [OF assms(1) that assms(2-5)])
  have x: "xmm_of (xmm_qwords y) = y" "xmm_of (xmm_qwords y @ qs) = y" "drop 2 (xmm_qwords y @ qs) = qs"
      "length (xmm_qwords y) = 2" for y qs
    by (simp_all add: xmm_of_def xmm_qwords_def)
  have d: "drop 4 (xmm_qwords y @ qs) = drop 2 qs" "drop 6 (xmm_qwords y @ qs) = drop 4 qs"
      "drop 2 (xmm_qwords y) = []" for y qs
    by (simp_all add: xmm_qwords_def)
  have f: "fst (case p of (qs, e1) \<Rightarrow> (g qs, e1)) = g (fst p)" for p :: "u64 list \<times> cpueaxh_engine" and g :: "u64 list \<Rightarrow> 'b"
    by (cases p) simp
  show ?thesis
    using rt [of "xmm_qwords x"] rt [of "xmm_qwords (zu_lower u) @ xmm_qwords (zu_upper u)"]
      rt [of "xmm_qwords (zmm_xmm0 z) @ xmm_qwords (zmm_xmm1 z) @ xmm_qwords (zmm_xmm2 z) @ xmm_qwords (zmm_xmm3 z)"]
    by (simp add: read_xmm_memory_def write_xmm_memory_def read_zmm_upper_memory_def write_zmm_upper_memory_def
        read_zmm_memory_def write_zmm_memory_def f x d)
qed

theorem vector_memory_roundtrip_witness:
  "fst (read_xmm_memory demo_callbacks
     (write_xmm_memory demo_callbacks demo_engine 0x1FF8 \<lparr>xmm_low = 1, xmm_high = 2\<rparr>) 0x1FF8) =
   \<lparr>xmm_low = 1, xmm_high = 2\<rparr>"
  using vector_memory_roundtrip [OF demo_ready, of "0x1FF8" 16 demo_callbacks demo_callbacks "\<lparr>xmm_low = 1, xmm_high = 2\<rparr>"]
    demo_granted [of "0x1FF8" 16 MM_PROT_WRITE] demo_granted [of "0x1FF8" 16 MM_PROT_READ] demo_distinct(2) [of "0x1FF8" 16]
  by (simp add: MM_PROT_WRITE_def MM_PROT_READ_def)

text \<open>
  An 8-bit register write changes exactly the named byte, the low one or, without \<^verbatim>\<open>REX\<close> and for
  the numbers 4 to 7, the second byte of the register four below; a 16-bit write keeps the upper
  48 bits and a 32-bit write clears the upper 32, and each read returns what was written.
\<close>

theorem partial_register_writes:
  "bit (regs (set_reg8 ctx r v8) k) n =
     (if k = fst (reg8_slot ctx r) \<and> snd (reg8_slot ctx r) \<le> n \<and> n < snd (reg8_slot ctx r) + 8
      then bit v8 (n - snd (reg8_slot ctx r)) else bit (regs ctx k) n) \<and>
   get_reg8 (set_reg8 ctx r v8) r = v8 \<and> get_reg16 (set_reg16 ctx r v16) r = v16 \<and>
   drop_bit 16 (regs (set_reg16 ctx r v16) r) = drop_bit 16 (regs ctx r) \<and>
   get_reg32 (set_reg32 ctx r v32) r = v32 \<and> regs (set_reg32 ctx r v32) r = ucast v32"
  using set_reg8_bits get_set_reg8 set_reg16_spec set_reg32_spec by simp

end
