(* ===== verification/PropsEngine.thy ===== *)
theory PropsEngine
  imports PropsCpu
begin

text \<open>
  The properties of the engine's tables (hooks, escapes) and of the instruction cache.
\<close>

unbundle bit_operations_syntax

lemma demo_hooks_ok: "hooks_ok demo_engine" "next_hook demo_engine = 1"
proof -
  have "hook_count (replicate n empty_hook) t = 0" for n t
    by (simp add: hook_count_def empty_hook_def)
  moreover have "\<not> hk_used empty_hook" by (simp add: empty_hook_def)
  ultimately show "hooks_ok demo_engine" "next_hook demo_engine = 1"
    by (auto simp: hooks_ok_def demo_engine_def)
qed

lemma demo_escapes_ok: "escapes_ok demo_engine"
  by (simp add: escapes_ok_def demo_engine_def)

subsection \<open>Hooks\<close>

text \<open>
  A hook that is added is registered under the returned handle in a free entry, a failed call
  changes nothing, and the table stays consistent: the per-type counts are the numbers of
  registered hooks, free entries are cleared and handles are unique.
\<close>

theorem hook_add_keeps_table:
  assumes "hooks_ok e" "next_hook e \<noteq> - 1"
    and "cpueaxh_hook_add (Some e) True type callback user_data b n = (err, out, Some e')"
  shows "hooks_ok e' \<and>
    (if err = CPUEAXH_ERR_OK
     then out = Some (next_hook e) \<and> (\<exists>i < CPUEAXH_MAX_HOOKS. \<not> hk_used (hooks e ! i) \<and>
            hooks e' = (hooks e)[i := hook_entry (next_hook e) type callback user_data b n])
     else out = None \<and> e' = e)"
proof -
  have adj: "hooks (cpueaxh_adjust_hook_type_count x t d) = hooks x" for x t d
    by (simp add: cpueaxh_adjust_hook_type_count_def Let_def)
  have v: "cpueaxh_is_supported_hook_type type \<Longrightarrow> cpueaxh_is_hook_type_index_valid type"
    by (auto simp: cpueaxh_is_supported_hook_type_def cpueaxh_is_hook_type_index_valid_def cpu_defs)
  from cpueaxh_hook_add_result [OF assms(3)] show ?thesis
    using assms(1,2) hooks_ok_add_at [OF assms(1)] v by (auto simp: adj)
qed

theorem hook_add_keeps_table_witness:
  "\<exists>e'. cpueaxh_hook_add (Some demo_engine) True CPUEAXH_HOOK_CODE_PRE 0x1234 0 0x1000 0x1FFF = (CPUEAXH_ERR_OK, Some 1, Some e') \<and>
     hooks_ok e'"
proof -
  obtain err out e1 where c: "cpueaxh_hook_add (Some demo_engine) True CPUEAXH_HOOK_CODE_PRE 0x1234 0 0x1000 0x1FFF = (err, out, e1)"
    by (metis prod_cases3)
  have "first_free_hook (hooks demo_engine) = Some 0"
    by (simp add: first_free_hook_def demo_engine_def CPUEAXH_MAX_HOOKS_def upt_rec empty_hook_def)
  then have "err = CPUEAXH_ERR_OK" "e1 \<noteq> None"
    using c by (auto simp: cpueaxh_hook_add_def cpueaxh_is_supported_hook_type_def Let_def)
  then show ?thesis
    using c hook_add_keeps_table [OF demo_hooks_ok(1)] demo_hooks_ok(2) by fastforce
qed

text \<open>
  Deleting by handle removes the hook with that handle and nothing else, and the table stays
  consistent; an unknown handle is reported and changes nothing.
\<close>

theorem hook_del_keeps_table:
  assumes "hooks_ok e" "cpueaxh_hook_del (Some e) hook = (err, Some e')"
  shows "hooks_ok e' \<and> (\<forall>x \<in> set (hooks e'). hk_used x \<longrightarrow> hk_handle x \<noteq> hook) \<and>
    (\<forall>x. hk_used x \<and> hk_handle x \<noteq> hook \<longrightarrow> (x \<in> set (hooks e') \<longleftrightarrow> x \<in> set (hooks e))) \<and>
    (err \<noteq> CPUEAXH_ERR_OK \<longrightarrow> e' = e)"
proof -
  have len: "length (hooks e) = CPUEAXH_MAX_HOOKS" using assms(1) by (simp add: hooks_ok_def)
  have adj: "hooks (cpueaxh_adjust_hook_type_count x t d) = hooks x" for x t d
    by (simp add: cpueaxh_adjust_hook_type_count_def Let_def)
  show ?thesis
  proof (cases "find (\<lambda>i. hk_used (hooks e ! i) \<and> hk_handle (hooks e ! i) = hook) [0..<CPUEAXH_MAX_HOOKS]")
    case (Some i)
    then have i: "i < CPUEAXH_MAX_HOOKS" "hk_used (hooks e ! i)" "hk_handle (hooks e ! i) = hook"
      by (auto simp: find_Some_iff)
    have e': "e' = (cpueaxh_adjust_hook_type_count e (hk_type (hooks e ! i)) (- 1))
        \<lparr>hooks := (hooks e)[i := empty_hook]\<rparr>" and err: "err = CPUEAXH_ERR_OK"
      using assms(2) Some by (auto simp: cpueaxh_hook_del_def Let_def adj)
    have ok: "hooks_ok e'" using hooks_ok_del_at [OF assms(1) i(1,2)] by (simp add: e' adj)
    have other: "j = i" if "j < CPUEAXH_MAX_HOOKS" "hk_used (hooks e ! j)" "hk_handle (hooks e ! j) = hook" for j
      using assms(1) that i by (auto simp: hooks_ok_def)
    have un: "\<not> hk_used empty_hook" by (simp add: empty_hook_def)
    have h: "hooks e' = (hooks e)[i := empty_hook]" by (simp add: e')
    have kept: "hk_handle (hooks e' ! j) \<noteq> hook" if j: "j < CPUEAXH_MAX_HOOKS" "hk_used (hooks e' ! j)" for j
    proof (cases "j = i")
      case True
      then have "hooks e' ! j = empty_hook" using len i(1) by (simp add: h)
      then show ?thesis using j(2) un by simp
    next
      case False
      then have "hooks e' ! j = hooks e ! j" by (simp add: h)
      then show ?thesis using other [OF j(1)] j(2) False by metis
    qed
    have "length (hooks e') = CPUEAXH_MAX_HOOKS" using len by (simp only: h length_list_update)
    then have "\<forall>x \<in> set (hooks e'). hk_used x \<longrightarrow> hk_handle x \<noteq> hook"
      using kept by (metis in_set_conv_nth)
    moreover have "x \<in> set (hooks e') \<longleftrightarrow> x \<in> set (hooks e)" if "hk_used x" "hk_handle x \<noteq> hook" for x
      using that i len un
      unfolding h by (auto simp: in_set_conv_nth nth_list_update)
    ultimately show ?thesis using ok err by simp
  next
    case None
    then have nf: "\<not> (hk_used (hooks e ! i) \<and> hk_handle (hooks e ! i) = hook)" if "i < CPUEAXH_MAX_HOOKS" for i
      using that by (auto simp: find_None_iff)
    have h: "hooks e' = hooks e" "hook_type_counts e' = hook_type_counts e" "next_hook e' = next_hook e"
        "err \<noteq> CPUEAXH_ERR_OK \<longrightarrow> e' = e"
      using assms(2) None
      by (auto simp: cpueaxh_hook_del_def Let_def cpueaxh_rebuild_escape_index_def split: option.splits)
    have "hooks_ok e'" using assms(1) h by (simp add: hooks_ok_def)
    moreover have "\<forall>x \<in> set (hooks e'). hk_used x \<longrightarrow> hk_handle x \<noteq> hook"
      using nf len by (auto simp: h set_conv_nth)
    ultimately show ?thesis using h by simp
  qed
qed

theorem hook_del_keeps_table_witness: "\<exists>err e'. cpueaxh_hook_del (Some demo_engine) 7 = (err, Some e') \<and> hooks_ok e'"
proof -
  obtain err e1 where c: "cpueaxh_hook_del (Some demo_engine) 7 = (err, e1)" by force
  then obtain e' where "e1 = Some e'"
    by (auto simp: cpueaxh_hook_del_def Let_def split: option.splits)
  then show ?thesis using c hook_del_keeps_table [OF demo_hooks_ok(1)] by blast
qed

text \<open>
  C24: the code-hook dispatch, which stops after as many hooks of the type as are counted, calls
  exactly the hooks that walking the whole table would call, in the same order, as long as the
  callbacks do not change the hook table.
\<close>

theorem code_hook_dispatch_complete:
  assumes "code_hooks_keep_table cb" "hooks_ok e" "cpueaxh_is_hook_type_index_valid t"
  shows "cpueaxh_dispatch_code_hooks cb e t a = fold (code_hook_at cb t a) [0..<CPUEAXH_MAX_HOOKS] e"
  by (rule cpueaxh_dispatch_code_hooks_fold [OF assms])

theorem code_hook_dispatch_complete_witness:
  "cpueaxh_dispatch_code_hooks demo_callbacks demo_engine CPUEAXH_HOOK_CODE_PRE 0x1000 =
   fold (code_hook_at demo_callbacks CPUEAXH_HOOK_CODE_PRE 0x1000) [0..<CPUEAXH_MAX_HOOKS] demo_engine"
  by (rule code_hook_dispatch_complete)
     (simp_all add: code_hooks_keep_table_def demo_callbacks_def demo_hooks_ok
        cpueaxh_is_hook_type_index_valid_def cpu_defs)

text \<open>
  Registering an escape for a dispatchable instruction makes lookup by that instruction find
  the new entry and leaves every other lookup as it was; the instruction had none before, and the
  index table stays consistent with the entries.
\<close>

theorem escape_add_found_by_lookup:
  assumes "escapes_ok e" "cpueaxh_is_escape_index_valid k"
    and "cpueaxh_escape_add (Some e) True k callback user_data b n = (err, out, Some e')"
  shows "escapes_ok e' \<and> (err = CPUEAXH_ERR_OK \<longrightarrow>
      cpueaxh_lookup_escape_entry e k = None \<and>
      (\<exists>x. cpueaxh_lookup_escape_entry e' k = Some x \<and> es_callback x = callback \<and>
           es_begin x = b \<and> es_end x = n \<and> out = Some (es_handle x)) \<and>
      (\<forall>j. j \<noteq> k \<longrightarrow> cpueaxh_lookup_escape_entry e' j = cpueaxh_lookup_escape_entry e j))"
  using cpueaxh_escape_add_lookup [OF assms] by blast

theorem escape_add_found_by_lookup_witness:
  "\<exists>err out e'. cpueaxh_escape_add (Some demo_engine) True CPUEAXH_ESCAPE_INSN_CPUID 0x1234 0 0 0 = (err, out, Some e') \<and>
     escapes_ok e'"
proof -
  obtain err out e1 where c: "cpueaxh_escape_add (Some demo_engine) True CPUEAXH_ESCAPE_INSN_CPUID 0x1234 0 0 0 = (err, out, e1)"
    by (metis prod_cases3)
  then obtain e' where "e1 = Some e'"
    by (auto simp: cpueaxh_escape_add_def Let_def split: if_splits prod.splits)
  moreover have "cpueaxh_is_escape_index_valid CPUEAXH_ESCAPE_INSN_CPUID"
    by (simp add: cpueaxh_is_escape_index_valid_def cpu_defs)
  ultimately show ?thesis using c escape_add_found_by_lookup [OF demo_escapes_ok] by blast
qed

text \<open>
  An instruction id beyond the last dispatchable one is accepted by the registration, but the
  entry is never found: the same id can be registered again without a conflict.
\<close>

theorem escape_add_accepts_unknown_instruction:
  assumes "cpueaxh_escape_add (Some demo_engine) True 0x1000 callback user_data 0 0 = (err, out, Some e')" "callback \<noteq> 0"
  shows "err = CPUEAXH_ERR_OK \<and> cpueaxh_lookup_escape_entry e' 0x1000 = None"
proof -
  have "\<not> cpueaxh_is_escape_index_valid 0x1000" by (simp add: cpueaxh_is_escape_index_valid_def cpu_defs)
  then have l: "cpueaxh_lookup_escape_entry x 0x1000 = None" for x
    by (simp add: cpueaxh_lookup_escape_entry_def)
  have "escape_grow 8 (Suc 0) = 8" by (subst escape_grow.simps) simp
  then have "fst (cpueaxh_ensure_escape_capacity demo_engine 1) = CPUEAXH_ERR_OK"
    by (simp add: cpueaxh_ensure_escape_capacity_def demo_engine_def CPUEAXH_ALLOC_ZEROED_def demo_host_def
        block_fresh_def no_wrap_def Let_def)
  then show ?thesis
    using assms l
    by (auto simp: cpueaxh_escape_add_def Let_def cpu_defs split: prod.splits if_splits) (simp_all add: demo_engine_def)
qed

theorem escape_add_accepts_unknown_instruction_witness:
  "\<exists>out e'. cpueaxh_escape_add (Some demo_engine) True 0x1000 1 0 0 0 = (CPUEAXH_ERR_OK, out, Some e') \<and>
     cpueaxh_lookup_escape_entry e' 0x1000 = None"
proof -
  obtain err out e1 where c: "cpueaxh_escape_add (Some demo_engine) True 0x1000 1 0 0 0 = (err, out, e1)"
    by (metis prod_cases3)
  then obtain e' where "e1 = Some e'"
    by (auto simp: cpueaxh_escape_add_def Let_def split: if_splits prod.splits)
  then show ?thesis using c escape_add_accepts_unknown_instruction by force
qed

subsection \<open>The instruction cache\<close>







text \<open>
  Where the cached mode key is used only while it is current, the key read for a context is
  the one computed from its mode bits, and reading it keeps the cache current.
\<close>

theorem mode_key_is_computed_key:
  assumes "mode_key_ok ctx" "cpu_inst_cache_mode_key ctx = (bits, ctx')"
  shows "bits = cpu_inst_cache_compute_mode_key_bits ctx \<and> mode_key_ok ctx' \<and>
    ctx' = ctx\<lparr>cached_mode_key_bits := bits, cached_mode_key_valid := True\<rparr>"
  using cpu_inst_cache_mode_key_computed [OF assms] by blast

theorem mode_key_is_computed_key_witness: "fst (cpu_inst_cache_mode_key demo_ctx) = 3"
proof -
  have v: "mode_key_ok demo_ctx"
    by (simp add: mode_key_ok_def demo_ctx_def init_cpu_context_def Let_def)
  have "cpu_inst_cache_compute_mode_key_bits demo_ctx = 3"
    by (simp add: cpu_inst_cache_compute_mode_key_bits_def demo_ctx_def init_cpu_context_def Let_def
        cpu_reset_x87_state_def zero_context_def cpu_defs)
  then show ?thesis
    using mode_key_is_computed_key [OF v, of "fst (cpu_inst_cache_mode_key demo_ctx)" "snd (cpu_inst_cache_mode_key demo_ctx)"]
    by simp
qed
end
