(* ===== verification/ApiRegs.thy ===== *)
theory ApiRegs
  imports HelperSpec
begin

text \<open>
  Register access of the public interface (\<^verbatim>\<open>cpueaxh.cpp\<close>): copying the whole state to and from
  the public context, and reading and writing one register by its id. The object a \<^verbatim>\<open>void*\<close> value
  points to is the list of its bytes in the order of memory, \<open>None\<close> for a null pointer; the source
  reinterprets it at the type of the register, so the bytes are loaded little-endian at its width.
\<close>

unbundle bit_operations_syntax

named_theorems reg_ids \<open>numbers of the registers of the public interface\<close>

subsection \<open>Register numbers\<close>

definition CPUEAXH_X86_REG_RAX :: int where [reg_ids]: "CPUEAXH_X86_REG_RAX = 0"
definition CPUEAXH_X86_REG_R15 :: int where [reg_ids]: "CPUEAXH_X86_REG_R15 = 15"
definition CPUEAXH_X86_REG_RIP :: int where [reg_ids]: "CPUEAXH_X86_REG_RIP = 16"
definition CPUEAXH_X86_REG_EFLAGS :: int where [reg_ids]: "CPUEAXH_X86_REG_EFLAGS = 17"
definition CPUEAXH_X86_REG_CPL :: int where [reg_ids]: "CPUEAXH_X86_REG_CPL = 20"
definition CPUEAXH_X86_REG_XMM0 :: int where [reg_ids]: "CPUEAXH_X86_REG_XMM0 = 26"
definition CPUEAXH_X86_REG_XMM15 :: int where [reg_ids]: "CPUEAXH_X86_REG_XMM15 = 41"
definition CPUEAXH_X86_REG_YMM0 :: int where [reg_ids]: "CPUEAXH_X86_REG_YMM0 = 42"
definition CPUEAXH_X86_REG_YMM15 :: int where [reg_ids]: "CPUEAXH_X86_REG_YMM15 = 57"
definition CPUEAXH_X86_REG_ZMM0 :: int where [reg_ids]: "CPUEAXH_X86_REG_ZMM0 = 58"
definition CPUEAXH_X86_REG_ZMM15 :: int where [reg_ids]: "CPUEAXH_X86_REG_ZMM15 = 73"
definition CPUEAXH_X86_REG_K0 :: int where [reg_ids]: "CPUEAXH_X86_REG_K0 = 74"
definition CPUEAXH_X86_REG_K7 :: int where [reg_ids]: "CPUEAXH_X86_REG_K7 = 81"
definition CPUEAXH_X86_REG_MM0 :: int where [reg_ids]: "CPUEAXH_X86_REG_MM0 = 82"
definition CPUEAXH_X86_REG_MM7 :: int where [reg_ids]: "CPUEAXH_X86_REG_MM7 = 89"
definition CPUEAXH_X86_REG_MXCSR :: int where [reg_ids]: "CPUEAXH_X86_REG_MXCSR = 90"
definition CPUEAXH_X86_REG_GDTR_BASE :: int where [reg_ids]: "CPUEAXH_X86_REG_GDTR_BASE = 101"
definition CPUEAXH_X86_REG_GDTR_LIMIT :: int where [reg_ids]: "CPUEAXH_X86_REG_GDTR_LIMIT = 102"
definition CPUEAXH_X86_REG_LDTR_BASE :: int where [reg_ids]: "CPUEAXH_X86_REG_LDTR_BASE = 103"
definition CPUEAXH_X86_REG_LDTR_LIMIT :: int where [reg_ids]: "CPUEAXH_X86_REG_LDTR_LIMIT = 104"
definition CPUEAXH_X86_REG_EXCEPTION_CODE :: int where [reg_ids]: "CPUEAXH_X86_REG_EXCEPTION_CODE = 105"
definition CPUEAXH_X86_REG_EXCEPTION_ERROR_CODE :: int where [reg_ids]: "CPUEAXH_X86_REG_EXCEPTION_ERROR_CODE = 106"
definition CPUEAXH_X86_REG_PROCESSOR_ID :: int where [reg_ids]: "CPUEAXH_X86_REG_PROCESSOR_ID = 118"
definition CPUEAXH_X86_REG_CR0 :: int where [reg_ids]: "CPUEAXH_X86_REG_CR0 = 21"
definition CPUEAXH_X86_REG_CR1 :: int where [reg_ids]: "CPUEAXH_X86_REG_CR1 = 107"
definition CPUEAXH_X86_REG_CR2 :: int where [reg_ids]: "CPUEAXH_X86_REG_CR2 = 22"
definition CPUEAXH_X86_REG_CR3 :: int where [reg_ids]: "CPUEAXH_X86_REG_CR3 = 23"
definition CPUEAXH_X86_REG_CR4 :: int where [reg_ids]: "CPUEAXH_X86_REG_CR4 = 24"
definition CPUEAXH_X86_REG_CR5 :: int where [reg_ids]: "CPUEAXH_X86_REG_CR5 = 108"
definition CPUEAXH_X86_REG_CR6 :: int where [reg_ids]: "CPUEAXH_X86_REG_CR6 = 109"
definition CPUEAXH_X86_REG_CR7 :: int where [reg_ids]: "CPUEAXH_X86_REG_CR7 = 110"
definition CPUEAXH_X86_REG_CR8 :: int where [reg_ids]: "CPUEAXH_X86_REG_CR8 = 25"
definition CPUEAXH_X86_REG_CR9 :: int where [reg_ids]: "CPUEAXH_X86_REG_CR9 = 111"
definition CPUEAXH_X86_REG_CR10 :: int where [reg_ids]: "CPUEAXH_X86_REG_CR10 = 112"
definition CPUEAXH_X86_REG_CR11 :: int where [reg_ids]: "CPUEAXH_X86_REG_CR11 = 113"
definition CPUEAXH_X86_REG_CR12 :: int where [reg_ids]: "CPUEAXH_X86_REG_CR12 = 114"
definition CPUEAXH_X86_REG_CR13 :: int where [reg_ids]: "CPUEAXH_X86_REG_CR13 = 115"
definition CPUEAXH_X86_REG_CR14 :: int where [reg_ids]: "CPUEAXH_X86_REG_CR14 = 116"
definition CPUEAXH_X86_REG_CR15 :: int where [reg_ids]: "CPUEAXH_X86_REG_CR15 = 117"
definition CPUEAXH_X86_REG_ES_SELECTOR :: int where [reg_ids]: "CPUEAXH_X86_REG_ES_SELECTOR = 91"
definition CPUEAXH_X86_REG_ES_BASE :: int where [reg_ids]: "CPUEAXH_X86_REG_ES_BASE = 96"
definition CPUEAXH_X86_REG_ES_LIMIT :: int where [reg_ids]: "CPUEAXH_X86_REG_ES_LIMIT = 119"
definition CPUEAXH_X86_REG_ES_TYPE :: int where [reg_ids]: "CPUEAXH_X86_REG_ES_TYPE = 120"
definition CPUEAXH_X86_REG_ES_DPL :: int where [reg_ids]: "CPUEAXH_X86_REG_ES_DPL = 121"
definition CPUEAXH_X86_REG_ES_PRESENT :: int where [reg_ids]: "CPUEAXH_X86_REG_ES_PRESENT = 122"
definition CPUEAXH_X86_REG_ES_GRANULARITY :: int where [reg_ids]: "CPUEAXH_X86_REG_ES_GRANULARITY = 123"
definition CPUEAXH_X86_REG_ES_DB :: int where [reg_ids]: "CPUEAXH_X86_REG_ES_DB = 124"
definition CPUEAXH_X86_REG_ES_LONG_MODE :: int where [reg_ids]: "CPUEAXH_X86_REG_ES_LONG_MODE = 125"
definition CPUEAXH_X86_REG_CS_SELECTOR :: int where [reg_ids]: "CPUEAXH_X86_REG_CS_SELECTOR = 92"
definition CPUEAXH_X86_REG_CS_BASE :: int where [reg_ids]: "CPUEAXH_X86_REG_CS_BASE = 97"
definition CPUEAXH_X86_REG_CS_LIMIT :: int where [reg_ids]: "CPUEAXH_X86_REG_CS_LIMIT = 126"
definition CPUEAXH_X86_REG_CS_TYPE :: int where [reg_ids]: "CPUEAXH_X86_REG_CS_TYPE = 127"
definition CPUEAXH_X86_REG_CS_DPL :: int where [reg_ids]: "CPUEAXH_X86_REG_CS_DPL = 128"
definition CPUEAXH_X86_REG_CS_PRESENT :: int where [reg_ids]: "CPUEAXH_X86_REG_CS_PRESENT = 129"
definition CPUEAXH_X86_REG_CS_GRANULARITY :: int where [reg_ids]: "CPUEAXH_X86_REG_CS_GRANULARITY = 130"
definition CPUEAXH_X86_REG_CS_DB :: int where [reg_ids]: "CPUEAXH_X86_REG_CS_DB = 131"
definition CPUEAXH_X86_REG_CS_LONG_MODE :: int where [reg_ids]: "CPUEAXH_X86_REG_CS_LONG_MODE = 132"
definition CPUEAXH_X86_REG_SS_SELECTOR :: int where [reg_ids]: "CPUEAXH_X86_REG_SS_SELECTOR = 93"
definition CPUEAXH_X86_REG_SS_BASE :: int where [reg_ids]: "CPUEAXH_X86_REG_SS_BASE = 98"
definition CPUEAXH_X86_REG_SS_LIMIT :: int where [reg_ids]: "CPUEAXH_X86_REG_SS_LIMIT = 133"
definition CPUEAXH_X86_REG_SS_TYPE :: int where [reg_ids]: "CPUEAXH_X86_REG_SS_TYPE = 134"
definition CPUEAXH_X86_REG_SS_DPL :: int where [reg_ids]: "CPUEAXH_X86_REG_SS_DPL = 135"
definition CPUEAXH_X86_REG_SS_PRESENT :: int where [reg_ids]: "CPUEAXH_X86_REG_SS_PRESENT = 136"
definition CPUEAXH_X86_REG_SS_GRANULARITY :: int where [reg_ids]: "CPUEAXH_X86_REG_SS_GRANULARITY = 137"
definition CPUEAXH_X86_REG_SS_DB :: int where [reg_ids]: "CPUEAXH_X86_REG_SS_DB = 138"
definition CPUEAXH_X86_REG_SS_LONG_MODE :: int where [reg_ids]: "CPUEAXH_X86_REG_SS_LONG_MODE = 139"
definition CPUEAXH_X86_REG_DS_SELECTOR :: int where [reg_ids]: "CPUEAXH_X86_REG_DS_SELECTOR = 94"
definition CPUEAXH_X86_REG_DS_BASE :: int where [reg_ids]: "CPUEAXH_X86_REG_DS_BASE = 99"
definition CPUEAXH_X86_REG_DS_LIMIT :: int where [reg_ids]: "CPUEAXH_X86_REG_DS_LIMIT = 140"
definition CPUEAXH_X86_REG_DS_TYPE :: int where [reg_ids]: "CPUEAXH_X86_REG_DS_TYPE = 141"
definition CPUEAXH_X86_REG_DS_DPL :: int where [reg_ids]: "CPUEAXH_X86_REG_DS_DPL = 142"
definition CPUEAXH_X86_REG_DS_PRESENT :: int where [reg_ids]: "CPUEAXH_X86_REG_DS_PRESENT = 143"
definition CPUEAXH_X86_REG_DS_GRANULARITY :: int where [reg_ids]: "CPUEAXH_X86_REG_DS_GRANULARITY = 144"
definition CPUEAXH_X86_REG_DS_DB :: int where [reg_ids]: "CPUEAXH_X86_REG_DS_DB = 145"
definition CPUEAXH_X86_REG_DS_LONG_MODE :: int where [reg_ids]: "CPUEAXH_X86_REG_DS_LONG_MODE = 146"
definition CPUEAXH_X86_REG_FS_SELECTOR :: int where [reg_ids]: "CPUEAXH_X86_REG_FS_SELECTOR = 95"
definition CPUEAXH_X86_REG_FS_BASE :: int where [reg_ids]: "CPUEAXH_X86_REG_FS_BASE = 100"
definition CPUEAXH_X86_REG_FS_LIMIT :: int where [reg_ids]: "CPUEAXH_X86_REG_FS_LIMIT = 147"
definition CPUEAXH_X86_REG_FS_TYPE :: int where [reg_ids]: "CPUEAXH_X86_REG_FS_TYPE = 148"
definition CPUEAXH_X86_REG_FS_DPL :: int where [reg_ids]: "CPUEAXH_X86_REG_FS_DPL = 149"
definition CPUEAXH_X86_REG_FS_PRESENT :: int where [reg_ids]: "CPUEAXH_X86_REG_FS_PRESENT = 150"
definition CPUEAXH_X86_REG_FS_GRANULARITY :: int where [reg_ids]: "CPUEAXH_X86_REG_FS_GRANULARITY = 151"
definition CPUEAXH_X86_REG_FS_DB :: int where [reg_ids]: "CPUEAXH_X86_REG_FS_DB = 152"
definition CPUEAXH_X86_REG_FS_LONG_MODE :: int where [reg_ids]: "CPUEAXH_X86_REG_FS_LONG_MODE = 153"
definition CPUEAXH_X86_REG_GS_SELECTOR :: int where [reg_ids]: "CPUEAXH_X86_REG_GS_SELECTOR = 18"
definition CPUEAXH_X86_REG_GS_BASE :: int where [reg_ids]: "CPUEAXH_X86_REG_GS_BASE = 19"
definition CPUEAXH_X86_REG_GS_LIMIT :: int where [reg_ids]: "CPUEAXH_X86_REG_GS_LIMIT = 154"
definition CPUEAXH_X86_REG_GS_TYPE :: int where [reg_ids]: "CPUEAXH_X86_REG_GS_TYPE = 155"
definition CPUEAXH_X86_REG_GS_DPL :: int where [reg_ids]: "CPUEAXH_X86_REG_GS_DPL = 156"
definition CPUEAXH_X86_REG_GS_PRESENT :: int where [reg_ids]: "CPUEAXH_X86_REG_GS_PRESENT = 157"
definition CPUEAXH_X86_REG_GS_GRANULARITY :: int where [reg_ids]: "CPUEAXH_X86_REG_GS_GRANULARITY = 158"
definition CPUEAXH_X86_REG_GS_DB :: int where [reg_ids]: "CPUEAXH_X86_REG_GS_DB = 159"
definition CPUEAXH_X86_REG_GS_LONG_MODE :: int where [reg_ids]: "CPUEAXH_X86_REG_GS_LONG_MODE = 160"

subsection \<open>Segments and control registers by register number\<close>

datatype CPUEAXH_SEGMENT_FIELD_KIND =
  CPUEAXH_SEGMENT_FIELD_SELECTOR | CPUEAXH_SEGMENT_FIELD_BASE | CPUEAXH_SEGMENT_FIELD_LIMIT |
  CPUEAXH_SEGMENT_FIELD_TYPE | CPUEAXH_SEGMENT_FIELD_DPL | CPUEAXH_SEGMENT_FIELD_PRESENT |
  CPUEAXH_SEGMENT_FIELD_GRANULARITY | CPUEAXH_SEGMENT_FIELD_DB | CPUEAXH_SEGMENT_FIELD_LONG_MODE |
  CPUEAXH_SEGMENT_FIELD_NONE

text \<open>The segment a register number belongs to, by the number of the segment register.\<close>

definition cpueaxh_select_segment :: "int \<Rightarrow> int option" where
  "cpueaxh_select_segment regid =
     (if regid \<in> {CPUEAXH_X86_REG_ES_SELECTOR, CPUEAXH_X86_REG_ES_BASE, CPUEAXH_X86_REG_ES_LIMIT,
        CPUEAXH_X86_REG_ES_TYPE, CPUEAXH_X86_REG_ES_DPL, CPUEAXH_X86_REG_ES_PRESENT,
        CPUEAXH_X86_REG_ES_GRANULARITY, CPUEAXH_X86_REG_ES_DB, CPUEAXH_X86_REG_ES_LONG_MODE}
      then Some SEG_ES
      else if regid \<in> {CPUEAXH_X86_REG_CS_SELECTOR, CPUEAXH_X86_REG_CS_BASE, CPUEAXH_X86_REG_CS_LIMIT,
        CPUEAXH_X86_REG_CS_TYPE, CPUEAXH_X86_REG_CS_DPL, CPUEAXH_X86_REG_CS_PRESENT,
        CPUEAXH_X86_REG_CS_GRANULARITY, CPUEAXH_X86_REG_CS_DB, CPUEAXH_X86_REG_CS_LONG_MODE}
      then Some SEG_CS
      else if regid \<in> {CPUEAXH_X86_REG_SS_SELECTOR, CPUEAXH_X86_REG_SS_BASE, CPUEAXH_X86_REG_SS_LIMIT,
        CPUEAXH_X86_REG_SS_TYPE, CPUEAXH_X86_REG_SS_DPL, CPUEAXH_X86_REG_SS_PRESENT,
        CPUEAXH_X86_REG_SS_GRANULARITY, CPUEAXH_X86_REG_SS_DB, CPUEAXH_X86_REG_SS_LONG_MODE}
      then Some SEG_SS
      else if regid \<in> {CPUEAXH_X86_REG_DS_SELECTOR, CPUEAXH_X86_REG_DS_BASE, CPUEAXH_X86_REG_DS_LIMIT,
        CPUEAXH_X86_REG_DS_TYPE, CPUEAXH_X86_REG_DS_DPL, CPUEAXH_X86_REG_DS_PRESENT,
        CPUEAXH_X86_REG_DS_GRANULARITY, CPUEAXH_X86_REG_DS_DB, CPUEAXH_X86_REG_DS_LONG_MODE}
      then Some SEG_DS
      else if regid \<in> {CPUEAXH_X86_REG_FS_SELECTOR, CPUEAXH_X86_REG_FS_BASE, CPUEAXH_X86_REG_FS_LIMIT,
        CPUEAXH_X86_REG_FS_TYPE, CPUEAXH_X86_REG_FS_DPL, CPUEAXH_X86_REG_FS_PRESENT,
        CPUEAXH_X86_REG_FS_GRANULARITY, CPUEAXH_X86_REG_FS_DB, CPUEAXH_X86_REG_FS_LONG_MODE}
      then Some SEG_FS
      else if regid \<in> {CPUEAXH_X86_REG_GS_SELECTOR, CPUEAXH_X86_REG_GS_BASE, CPUEAXH_X86_REG_GS_LIMIT,
        CPUEAXH_X86_REG_GS_TYPE, CPUEAXH_X86_REG_GS_DPL, CPUEAXH_X86_REG_GS_PRESENT,
        CPUEAXH_X86_REG_GS_GRANULARITY, CPUEAXH_X86_REG_GS_DB, CPUEAXH_X86_REG_GS_LONG_MODE}
      then Some SEG_GS
      else None)"

definition cpueaxh_segment_field_kind_from_regid :: "int \<Rightarrow> CPUEAXH_SEGMENT_FIELD_KIND" where
  "cpueaxh_segment_field_kind_from_regid regid =
     (if regid \<in> {CPUEAXH_X86_REG_ES_SELECTOR, CPUEAXH_X86_REG_CS_SELECTOR,
        CPUEAXH_X86_REG_SS_SELECTOR, CPUEAXH_X86_REG_DS_SELECTOR, CPUEAXH_X86_REG_FS_SELECTOR,
        CPUEAXH_X86_REG_GS_SELECTOR}
      then CPUEAXH_SEGMENT_FIELD_SELECTOR
      else if regid \<in> {CPUEAXH_X86_REG_ES_BASE, CPUEAXH_X86_REG_CS_BASE, CPUEAXH_X86_REG_SS_BASE,
        CPUEAXH_X86_REG_DS_BASE, CPUEAXH_X86_REG_FS_BASE, CPUEAXH_X86_REG_GS_BASE}
      then CPUEAXH_SEGMENT_FIELD_BASE
      else if regid \<in> {CPUEAXH_X86_REG_ES_LIMIT, CPUEAXH_X86_REG_CS_LIMIT, CPUEAXH_X86_REG_SS_LIMIT,
        CPUEAXH_X86_REG_DS_LIMIT, CPUEAXH_X86_REG_FS_LIMIT, CPUEAXH_X86_REG_GS_LIMIT}
      then CPUEAXH_SEGMENT_FIELD_LIMIT
      else if regid \<in> {CPUEAXH_X86_REG_ES_TYPE, CPUEAXH_X86_REG_CS_TYPE, CPUEAXH_X86_REG_SS_TYPE,
        CPUEAXH_X86_REG_DS_TYPE, CPUEAXH_X86_REG_FS_TYPE, CPUEAXH_X86_REG_GS_TYPE}
      then CPUEAXH_SEGMENT_FIELD_TYPE
      else if regid \<in> {CPUEAXH_X86_REG_ES_DPL, CPUEAXH_X86_REG_CS_DPL, CPUEAXH_X86_REG_SS_DPL,
        CPUEAXH_X86_REG_DS_DPL, CPUEAXH_X86_REG_FS_DPL, CPUEAXH_X86_REG_GS_DPL}
      then CPUEAXH_SEGMENT_FIELD_DPL
      else if regid \<in> {CPUEAXH_X86_REG_ES_PRESENT, CPUEAXH_X86_REG_CS_PRESENT,
        CPUEAXH_X86_REG_SS_PRESENT, CPUEAXH_X86_REG_DS_PRESENT, CPUEAXH_X86_REG_FS_PRESENT,
        CPUEAXH_X86_REG_GS_PRESENT}
      then CPUEAXH_SEGMENT_FIELD_PRESENT
      else if regid \<in> {CPUEAXH_X86_REG_ES_GRANULARITY, CPUEAXH_X86_REG_CS_GRANULARITY,
        CPUEAXH_X86_REG_SS_GRANULARITY, CPUEAXH_X86_REG_DS_GRANULARITY,
        CPUEAXH_X86_REG_FS_GRANULARITY, CPUEAXH_X86_REG_GS_GRANULARITY}
      then CPUEAXH_SEGMENT_FIELD_GRANULARITY
      else if regid \<in> {CPUEAXH_X86_REG_ES_DB, CPUEAXH_X86_REG_CS_DB, CPUEAXH_X86_REG_SS_DB,
        CPUEAXH_X86_REG_DS_DB, CPUEAXH_X86_REG_FS_DB, CPUEAXH_X86_REG_GS_DB}
      then CPUEAXH_SEGMENT_FIELD_DB
      else if regid \<in> {CPUEAXH_X86_REG_ES_LONG_MODE, CPUEAXH_X86_REG_CS_LONG_MODE,
        CPUEAXH_X86_REG_SS_LONG_MODE, CPUEAXH_X86_REG_DS_LONG_MODE,
        CPUEAXH_X86_REG_FS_LONG_MODE, CPUEAXH_X86_REG_GS_LONG_MODE}
      then CPUEAXH_SEGMENT_FIELD_LONG_MODE
      else CPUEAXH_SEGMENT_FIELD_NONE)"

definition cpueaxh_control_reg_index_from_regid :: "int \<Rightarrow> int" where
  "cpueaxh_control_reg_index_from_regid regid =
     (if regid = CPUEAXH_X86_REG_CR0 then 0
      else if regid = CPUEAXH_X86_REG_CR1 then 1
      else if regid = CPUEAXH_X86_REG_CR2 then 2
      else if regid = CPUEAXH_X86_REG_CR3 then 3
      else if regid = CPUEAXH_X86_REG_CR4 then 4
      else if regid = CPUEAXH_X86_REG_CR5 then 5
      else if regid = CPUEAXH_X86_REG_CR6 then 6
      else if regid = CPUEAXH_X86_REG_CR7 then 7
      else if regid = CPUEAXH_X86_REG_CR8 then 8
      else if regid = CPUEAXH_X86_REG_CR9 then 9
      else if regid = CPUEAXH_X86_REG_CR10 then 10
      else if regid = CPUEAXH_X86_REG_CR11 then 11
      else if regid = CPUEAXH_X86_REG_CR12 then 12
      else if regid = CPUEAXH_X86_REG_CR13 then 13
      else if regid = CPUEAXH_X86_REG_CR14 then 14
      else if regid = CPUEAXH_X86_REG_CR15 then 15
      else - 1)"


subsection \<open>Copying the context\<close>

definition cpueaxh_copy_segment_out :: "SegmentRegister \<Rightarrow> cpueaxh_x86_segment" where
  "cpueaxh_copy_segment_out seg =
     (let d = sr_descriptor seg; bit_of = (\<lambda>b. if b then 1 else 0)
      in \<lparr>xs_selector = sr_selector seg, xs_reserved0 = 0, xs_base = sd_base d, xs_limit = sd_limit d,
          xs_type = sd_type d, xs_dpl = sd_dpl d, xs_present = bit_of (sd_present d),
          xs_granularity = bit_of (sd_granularity d), xs_db = bit_of (sd_db d),
          xs_long_mode = bit_of (sd_long_mode d)\<rparr>)"

definition cpueaxh_copy_segment_in :: "cpueaxh_x86_segment \<Rightarrow> SegmentRegister" where
  "cpueaxh_copy_segment_in seg =
     \<lparr>sr_selector = xs_selector seg,
      sr_descriptor = \<lparr>sd_base = xs_base seg, sd_limit = xs_limit seg, sd_type = xs_type seg,
        sd_dpl = xs_dpl seg, sd_present = (xs_present seg \<noteq> 0),
        sd_granularity = (xs_granularity seg \<noteq> 0), sd_db = (xs_db seg \<noteq> 0),
        sd_long_mode = (xs_long_mode seg \<noteq> 0)\<rparr>\<rparr>"

definition cpueaxh_context_out :: "CPU_CONTEXT \<Rightarrow> cpueaxh_x86_context" where
  "cpueaxh_context_out c =
     \<lparr>xc_regs = regs c, xc_rip = rip c, xc_rflags = rflags c, xc_xmm = xmm c,
      xc_ymm_upper = ymm_upper c, xc_zmm_upper = zmm_upper c, xc_opmask = opmask c, xc_mm = mm_regs c,
      xc_mxcsr = mxcsr c, xc_es = cpueaxh_copy_segment_out (es c), xc_cs = cpueaxh_copy_segment_out (cs c),
      xc_ss = cpueaxh_copy_segment_out (ss c), xc_ds = cpueaxh_copy_segment_out (ds c),
      xc_fs = cpueaxh_copy_segment_out (fs c), xc_gs = cpueaxh_copy_segment_out (gs c),
      xc_gdtr_base = gdtr_base c, xc_gdtr_limit = gdtr_limit c, xc_ldtr_base = ldtr_base c,
      xc_ldtr_limit = ldtr_limit c, xc_cpl = cpl c, xc_code_exception = ex_code (exception_state c),
      xc_error_code_exception = ex_error_code (exception_state c), xc_internal_bridge_block = 0,
      xc_control_regs = control_regs c, xc_processor_id = processor_id c\<rparr>"

definition cpueaxh_context_in :: "CPU_CONTEXT \<Rightarrow> cpueaxh_x86_context \<Rightarrow> CPU_CONTEXT" where
  "cpueaxh_context_in c x =
     c\<lparr>regs := xc_regs x, xmm := xc_xmm x, ymm_upper := xc_ymm_upper x, zmm_upper := xc_zmm_upper x,
       opmask := xc_opmask x, mm_regs := xc_mm x, rip := xc_rip x, rflags := xc_rflags x,
       mxcsr := xc_mxcsr x, es := cpueaxh_copy_segment_in (xc_es x), cs := cpueaxh_copy_segment_in (xc_cs x),
       ss := cpueaxh_copy_segment_in (xc_ss x), ds := cpueaxh_copy_segment_in (xc_ds x),
       fs := cpueaxh_copy_segment_in (xc_fs x), gs := cpueaxh_copy_segment_in (xc_gs x),
       long_mode_active := True, cached_mode_key_valid := False,
       gdtr_base := xc_gdtr_base x, gdtr_limit := xc_gdtr_limit x, ldtr_base := xc_ldtr_base x,
       ldtr_limit := xc_ldtr_limit x, cpl := xc_cpl x,
       exception_state := \<lparr>ex_code = xc_code_exception x, ex_error_code = xc_error_code_exception x\<rparr>,
       control_regs := xc_control_regs x, processor_id := xc_processor_id x\<rparr>"

subsection \<open>One register\<close>

definition reg_in :: "int \<Rightarrow> int \<Rightarrow> int \<Rightarrow> bool" where
  "reg_in regid first_id last_id \<longleftrightarrow> first_id \<le> regid \<and> regid \<le> last_id"

definition reg_offset :: "int \<Rightarrow> int \<Rightarrow> nat" where
  "reg_offset regid first_id = nat (regid - first_id)"

definition xmm_bytes :: "XMMRegister \<Rightarrow> u8 list" where
  "xmm_bytes x = le_store 8 (xmm_low x) @ le_store 8 (xmm_high x)"

definition bytes_xmm :: "u8 list \<Rightarrow> XMMRegister" where
  "bytes_xmm bs = \<lparr>xmm_low = le_load (take 8 bs), xmm_high = le_load (take 8 (drop 8 bs))\<rparr>"

text \<open>The field of a segment register as it is stored through the value pointer.\<close>

definition segment_field_bytes :: "SegmentRegister \<Rightarrow> CPUEAXH_SEGMENT_FIELD_KIND \<Rightarrow> u8 list option" where
  "segment_field_bytes seg kind =
     (let d = sr_descriptor seg; flag = (\<lambda>b. Some (le_store 4 (if b then 1 else 0)))
      in case kind of
           CPUEAXH_SEGMENT_FIELD_SELECTOR \<Rightarrow> Some (le_store 2 (ucast (sr_selector seg)))
         | CPUEAXH_SEGMENT_FIELD_BASE \<Rightarrow> Some (le_store 8 (sd_base d))
         | CPUEAXH_SEGMENT_FIELD_LIMIT \<Rightarrow> Some (le_store 4 (ucast (sd_limit d)))
         | CPUEAXH_SEGMENT_FIELD_TYPE \<Rightarrow> Some (le_store 4 (ucast (sd_type d)))
         | CPUEAXH_SEGMENT_FIELD_DPL \<Rightarrow> Some (le_store 4 (ucast (sd_dpl d)))
         | CPUEAXH_SEGMENT_FIELD_PRESENT \<Rightarrow> flag (sd_present d)
         | CPUEAXH_SEGMENT_FIELD_GRANULARITY \<Rightarrow> flag (sd_granularity d)
         | CPUEAXH_SEGMENT_FIELD_DB \<Rightarrow> flag (sd_db d)
         | CPUEAXH_SEGMENT_FIELD_LONG_MODE \<Rightarrow> flag (sd_long_mode d)
         | CPUEAXH_SEGMENT_FIELD_NONE \<Rightarrow> None)"

definition segment_field_update ::
  "SegmentRegister \<Rightarrow> CPUEAXH_SEGMENT_FIELD_KIND \<Rightarrow> u8 list \<Rightarrow> SegmentRegister option" where
  "segment_field_update seg kind bs =
     (let d = sr_descriptor seg; w32 = le_load (take 4 bs);
          descriptor = (\<lambda>d. Some (seg\<lparr>sr_descriptor := d\<rparr>))
      in case kind of
           CPUEAXH_SEGMENT_FIELD_SELECTOR \<Rightarrow> Some (seg\<lparr>sr_selector := ucast (le_load (take 2 bs))\<rparr>)
         | CPUEAXH_SEGMENT_FIELD_BASE \<Rightarrow> descriptor (d\<lparr>sd_base := le_load (take 8 bs)\<rparr>)
         | CPUEAXH_SEGMENT_FIELD_LIMIT \<Rightarrow> descriptor (d\<lparr>sd_limit := ucast w32\<rparr>)
         | CPUEAXH_SEGMENT_FIELD_TYPE \<Rightarrow> descriptor (d\<lparr>sd_type := ucast (w32 AND 0x1F)\<rparr>)
         | CPUEAXH_SEGMENT_FIELD_DPL \<Rightarrow> descriptor (d\<lparr>sd_dpl := ucast (w32 AND 0x3)\<rparr>)
         | CPUEAXH_SEGMENT_FIELD_PRESENT \<Rightarrow> descriptor (d\<lparr>sd_present := (w32 AND 1 \<noteq> 0)\<rparr>)
         | CPUEAXH_SEGMENT_FIELD_GRANULARITY \<Rightarrow> descriptor (d\<lparr>sd_granularity := (w32 AND 1 \<noteq> 0)\<rparr>)
         | CPUEAXH_SEGMENT_FIELD_DB \<Rightarrow> descriptor (d\<lparr>sd_db := (w32 AND 1 \<noteq> 0)\<rparr>)
         | CPUEAXH_SEGMENT_FIELD_LONG_MODE \<Rightarrow> descriptor (d\<lparr>sd_long_mode := (w32 AND 1 \<noteq> 0)\<rparr>)
         | CPUEAXH_SEGMENT_FIELD_NONE \<Rightarrow> None)"

text \<open>The bytes a read stores, or \<open>None\<close> where it returns \<^verbatim>\<open>CPUEAXH_ERR_ARG\<close>.\<close>

definition reg_bytes :: "CPU_CONTEXT \<Rightarrow> int \<Rightarrow> u8 list option" where
  "reg_bytes c regid =
     (if reg_in regid CPUEAXH_X86_REG_RAX CPUEAXH_X86_REG_R15 then Some (le_store 8 (regs c (nat regid)))
      else if reg_in regid CPUEAXH_X86_REG_XMM0 CPUEAXH_X86_REG_XMM15
      then Some (xmm_bytes (xmm c (reg_offset regid CPUEAXH_X86_REG_XMM0)))
      else if reg_in regid CPUEAXH_X86_REG_YMM0 CPUEAXH_X86_REG_YMM15
      then let i = reg_offset regid CPUEAXH_X86_REG_YMM0
           in Some (xmm_bytes (xmm c i) @ xmm_bytes (ymm_upper c i))
      else if reg_in regid CPUEAXH_X86_REG_ZMM0 CPUEAXH_X86_REG_ZMM15
      then let i = reg_offset regid CPUEAXH_X86_REG_ZMM0
           in Some (xmm_bytes (xmm c i) @ xmm_bytes (ymm_upper c i) @
                    xmm_bytes (zu_lower (zmm_upper c i)) @ xmm_bytes (zu_upper (zmm_upper c i)))
      else if reg_in regid CPUEAXH_X86_REG_K0 CPUEAXH_X86_REG_K7
      then Some (le_store 8 (opmask c (reg_offset regid CPUEAXH_X86_REG_K0)))
      else if reg_in regid CPUEAXH_X86_REG_MM0 CPUEAXH_X86_REG_MM7
      then Some (le_store 8 (mm_regs c (reg_offset regid CPUEAXH_X86_REG_MM0)))
      else if cpueaxh_control_reg_index_from_regid regid \<ge> 0
      then Some (le_store 8 (control_regs c (nat (cpueaxh_control_reg_index_from_regid regid))))
      else if regid = CPUEAXH_X86_REG_RIP then Some (le_store 8 (rip c))
      else if regid = CPUEAXH_X86_REG_EFLAGS then Some (le_store 8 (rflags c))
      else if regid = CPUEAXH_X86_REG_CPL then Some (le_store 8 (ucast (cpl c)))
      else if regid = CPUEAXH_X86_REG_MXCSR then Some (le_store 4 (ucast (mxcsr c)))
      else if regid = CPUEAXH_X86_REG_GDTR_BASE then Some (le_store 8 (gdtr_base c))
      else if regid = CPUEAXH_X86_REG_GDTR_LIMIT then Some (le_store 2 (ucast (gdtr_limit c)))
      else if regid = CPUEAXH_X86_REG_LDTR_BASE then Some (le_store 8 (ldtr_base c))
      else if regid = CPUEAXH_X86_REG_LDTR_LIMIT then Some (le_store 2 (ucast (ldtr_limit c)))
      else if regid = CPUEAXH_X86_REG_EXCEPTION_CODE
      then Some (le_store 4 (ucast (ex_code (exception_state c))))
      else if regid = CPUEAXH_X86_REG_EXCEPTION_ERROR_CODE
      then Some (le_store 4 (ucast (ex_error_code (exception_state c))))
      else if regid = CPUEAXH_X86_REG_PROCESSOR_ID then Some (le_store 4 (ucast (processor_id c)))
      else Option.bind (Option.bind (cpueaxh_select_segment regid) (segment_by_index c))
             (\<lambda>seg. segment_field_bytes seg (cpueaxh_segment_field_kind_from_regid regid)))"

text \<open>\<open>out\<close> says whether the value pointer is non-null.\<close>

definition cpueaxh_reg_read_raw :: "CPU_CONTEXT \<Rightarrow> int \<Rightarrow> bool \<Rightarrow> int \<times> u8 list option" where
  "cpueaxh_reg_read_raw c regid out =
     (if \<not> out then (CPUEAXH_ERR_ARG, None)
      else case reg_bytes c regid of
             None \<Rightarrow> (CPUEAXH_ERR_ARG, None)
           | Some bs \<Rightarrow> (CPUEAXH_ERR_OK, Some bs))"

definition reg_update :: "CPU_CONTEXT \<Rightarrow> int \<Rightarrow> u8 list \<Rightarrow> CPU_CONTEXT option" where
  "reg_update c regid bs =
     (let w64 = le_load (take 8 bs); w32 = ucast (le_load (take 4 bs)) :: u32;
          w16 = ucast (le_load (take 2 bs)) :: u16
      in if reg_in regid CPUEAXH_X86_REG_RAX CPUEAXH_X86_REG_R15
         then Some (c\<lparr>regs := (regs c)(nat regid := w64)\<rparr>)
         else if reg_in regid CPUEAXH_X86_REG_XMM0 CPUEAXH_X86_REG_XMM15
         then Some (c\<lparr>xmm := (xmm c)(reg_offset regid CPUEAXH_X86_REG_XMM0 := bytes_xmm bs)\<rparr>)
         else if reg_in regid CPUEAXH_X86_REG_YMM0 CPUEAXH_X86_REG_YMM15
         then let i = reg_offset regid CPUEAXH_X86_REG_YMM0
              in Some (c\<lparr>xmm := (xmm c)(i := bytes_xmm bs),
                         ymm_upper := (ymm_upper c)(i := bytes_xmm (drop 16 bs))\<rparr>)
         else if reg_in regid CPUEAXH_X86_REG_ZMM0 CPUEAXH_X86_REG_ZMM15
         then let i = reg_offset regid CPUEAXH_X86_REG_ZMM0
              in Some (c\<lparr>xmm := (xmm c)(i := bytes_xmm bs),
                         ymm_upper := (ymm_upper c)(i := bytes_xmm (drop 16 bs)),
                         zmm_upper := (zmm_upper c)(i := \<lparr>zu_lower = bytes_xmm (drop 32 bs),
                                                          zu_upper = bytes_xmm (drop 48 bs)\<rparr>)\<rparr>)
         else if reg_in regid CPUEAXH_X86_REG_K0 CPUEAXH_X86_REG_K7
         then Some (c\<lparr>opmask := (opmask c)(reg_offset regid CPUEAXH_X86_REG_K0 := w64)\<rparr>)
         else if reg_in regid CPUEAXH_X86_REG_MM0 CPUEAXH_X86_REG_MM7
         then Some (c\<lparr>mm_regs := (mm_regs c)(reg_offset regid CPUEAXH_X86_REG_MM0 := w64)\<rparr>)
         else if cpueaxh_control_reg_index_from_regid regid \<ge> 0
         then Some (c\<lparr>control_regs :=
                (control_regs c)(nat (cpueaxh_control_reg_index_from_regid regid) := w64)\<rparr>)
         else if regid = CPUEAXH_X86_REG_RIP then Some (c\<lparr>rip := w64\<rparr>)
         else if regid = CPUEAXH_X86_REG_EFLAGS then Some (c\<lparr>rflags := w64\<rparr>)
         else if regid = CPUEAXH_X86_REG_CPL then Some (c\<lparr>cpl := ucast (w64 AND 0x3)\<rparr>)
         else if regid = CPUEAXH_X86_REG_MXCSR then Some (c\<lparr>mxcsr := w32\<rparr>)
         else if regid = CPUEAXH_X86_REG_GDTR_BASE then Some (c\<lparr>gdtr_base := w64\<rparr>)
         else if regid = CPUEAXH_X86_REG_GDTR_LIMIT then Some (c\<lparr>gdtr_limit := w16\<rparr>)
         else if regid = CPUEAXH_X86_REG_LDTR_BASE then Some (c\<lparr>ldtr_base := w64\<rparr>)
         else if regid = CPUEAXH_X86_REG_LDTR_LIMIT then Some (c\<lparr>ldtr_limit := w16\<rparr>)
         else if regid = CPUEAXH_X86_REG_EXCEPTION_CODE
         then Some (c\<lparr>exception_state := (exception_state c)\<lparr>ex_code := w32\<rparr>\<rparr>)
         else if regid = CPUEAXH_X86_REG_EXCEPTION_ERROR_CODE
         then Some (c\<lparr>exception_state := (exception_state c)\<lparr>ex_error_code := w32\<rparr>\<rparr>)
         else if regid = CPUEAXH_X86_REG_PROCESSOR_ID then Some (c\<lparr>processor_id := w32\<rparr>)
         else
           case cpueaxh_select_segment regid of
             None \<Rightarrow> None
           | Some s \<Rightarrow>
               map_option (set_segment_register c s)
                 (Option.bind (segment_by_index c s)
                    (\<lambda>seg. segment_field_update seg (cpueaxh_segment_field_kind_from_regid regid) bs)))"

definition cpueaxh_reg_write_raw :: "CPU_CONTEXT \<Rightarrow> int \<Rightarrow> u8 list option \<Rightarrow> int \<times> CPU_CONTEXT" where
  "cpueaxh_reg_write_raw c regid v =
     (case Option.bind v (reg_update c regid) of
        None \<Rightarrow> (CPUEAXH_ERR_ARG, c)
      | Some c1 \<Rightarrow> (CPUEAXH_ERR_OK, c1))"


subsection \<open>Reading back what was written\<close>

text \<open>The width of a register in bytes and the bits of a written value that it keeps.\<close>

definition segment_field_width :: "CPUEAXH_SEGMENT_FIELD_KIND \<Rightarrow> nat" where
  "segment_field_width kind =
     (case kind of CPUEAXH_SEGMENT_FIELD_SELECTOR \<Rightarrow> 2 | CPUEAXH_SEGMENT_FIELD_BASE \<Rightarrow> 8 | _ \<Rightarrow> 4)"

definition segment_field_mask :: "CPUEAXH_SEGMENT_FIELD_KIND \<Rightarrow> u64" where
  "segment_field_mask kind =
     (case kind of
        CPUEAXH_SEGMENT_FIELD_SELECTOR \<Rightarrow> - 1 | CPUEAXH_SEGMENT_FIELD_BASE \<Rightarrow> - 1
      | CPUEAXH_SEGMENT_FIELD_LIMIT \<Rightarrow> - 1 | CPUEAXH_SEGMENT_FIELD_TYPE \<Rightarrow> 0x1F
      | CPUEAXH_SEGMENT_FIELD_DPL \<Rightarrow> 0x3 | _ \<Rightarrow> 1)"

definition reg_width :: "int \<Rightarrow> nat" where
  "reg_width regid =
     (if reg_in regid CPUEAXH_X86_REG_XMM0 CPUEAXH_X86_REG_XMM15 then 16
      else if reg_in regid CPUEAXH_X86_REG_YMM0 CPUEAXH_X86_REG_YMM15 then 32
      else if reg_in regid CPUEAXH_X86_REG_ZMM0 CPUEAXH_X86_REG_ZMM15 then 64
      else if regid \<in> {CPUEAXH_X86_REG_GDTR_LIMIT, CPUEAXH_X86_REG_LDTR_LIMIT} then 2
      else if regid \<in> {CPUEAXH_X86_REG_MXCSR, CPUEAXH_X86_REG_EXCEPTION_CODE,
                         CPUEAXH_X86_REG_EXCEPTION_ERROR_CODE, CPUEAXH_X86_REG_PROCESSOR_ID} then 4
      else if cpueaxh_select_segment regid \<noteq> None
      then segment_field_width (cpueaxh_segment_field_kind_from_regid regid) else 8)"

definition reg_kept :: "int \<Rightarrow> u8 list \<Rightarrow> u8 list" where
  "reg_kept regid bs =
     (if regid = CPUEAXH_X86_REG_CPL then le_store 8 (le_load bs AND 0x3)
      else if cpueaxh_select_segment regid \<noteq> None
      then le_store (length bs)
             (le_load bs AND segment_field_mask (cpueaxh_segment_field_kind_from_regid regid))
      else bs)"

lemma ucast_and_byte: "ucast ((v :: u64) AND 0xFF) = (ucast v :: u8)"
  unfolding and_FF by (rule bit_word_eqI) (auto simp: bit_simps)

lemma le_store_load: "le_store (length bs) (le_load bs) = bs" if "length bs \<le> 8"
  using that
proof (induction bs)
  case (Cons b bs)
  have lt: "le_load bs = take_bit 56 (le_load bs)"
  proof -
    have "take_bit (8 * length bs) (le_load bs) = le_load bs" by (rule take_bit_le_load)
    moreover have "8 * length bs \<le> 56" using Cons.prems by simp
    ultimately show ?thesis by (metis take_bit_take_bit min.absorb2)
  qed
  have "ucast (ucast b OR push_bit 8 (le_load bs) :: u64) = b"
    by (rule bit_word_eqI) (auto simp: bit_simps)
  moreover have "drop_bit 8 (ucast b OR push_bit 8 (le_load bs)) = le_load bs"
  proof (rule bit_word_eqI)
    fix n assume n: "n < LENGTH(64)"
    have "bit (le_load bs) n \<Longrightarrow> n < 56" using lt by (metis bit_take_bit_iff)
    then show "bit (drop_bit 8 (ucast b OR push_bit 8 (le_load bs))) n = bit (le_load bs) n"
      using n bit_imp_le_length [of b "8 + n"] by (auto simp: bit_simps)
  qed
  ultimately show ?case using Cons by (simp add: ucast_and_byte)
qed simp


lemma le_store_take: "le_store n (le_load (take n bs)) = bs" if "length bs = n" "n \<le> 8"
  using that le_store_load [of bs] by simp

lemma xmm_bytes_roundtrip: "xmm_bytes (bytes_xmm bs) = bs" if "length bs = 16"
proof -
  have "bs = take 8 bs @ drop 8 bs" by simp
  moreover have "length (take 8 bs) = 8" "length (drop 8 bs) = 8" using that by simp_all
  ultimately show ?thesis
    using le_store_load [of "take 8 bs"] le_store_load [of "drop 8 bs"]
    by (simp add: xmm_bytes_def bytes_xmm_def)
qed

lemma xmm_bytes_prefix: "xmm_bytes (bytes_xmm bs) = take 16 bs" if "16 \<le> length bs"
proof -
  have "bytes_xmm bs = bytes_xmm (take 16 bs)" by (simp add: bytes_xmm_def min_def drop_take)
  then show ?thesis using xmm_bytes_roundtrip [of "take 16 bs"] that by simp
qed

lemma le_store_low: "le_store n (take_bit (8 * n) v) = le_store n v" if "n \<le> 8"
  using le_store_load [of "le_store n v"] le_load_store [of n v] that by simp

lemma le_store_ucast:
  "le_store 4 (ucast (ucast v :: u32)) = le_store 4 v" "le_store 2 (ucast (ucast v :: u16)) = le_store 2 v"
  for v :: u64
proof -
  have "(ucast (ucast v :: u32) :: u64) = take_bit (8 * 4) v" "(ucast (ucast v :: u16) :: u64) = take_bit (8 * 2) v"
    by (rule bit_word_eqI, auto simp: bit_simps)+
  then show "le_store 4 (ucast (ucast v :: u32)) = le_store 4 v" "le_store 2 (ucast (ucast v :: u16)) = le_store 2 v"
    by (simp_all only: le_store_low)
qed

lemma segment_field_roundtrip:
  assumes "segment_field_update seg kind bs = Some seg'" "length bs = segment_field_width kind"
  shows "segment_field_bytes seg' kind = Some (le_store (length bs) (le_load bs AND segment_field_mask kind))"
proof -
  have m: "x AND 0x1F = take_bit 5 x" "x AND 3 = take_bit 2 x" "x AND 1 = take_bit 1 x" for x :: u64
    by (simp_all add: take_bit_eq_mask mask_eq_exp_minus_1)
  have t: "(ucast (ucast (take_bit 5 x) :: u8) :: u64) = take_bit 5 x"
    "(ucast (ucast (take_bit 2 x) :: u8) :: u64) = take_bit 2 x" for x :: u64
    by (rule bit_word_eqI, auto simp: bit_simps)+
  have o: "take_bit (Suc 0) x \<noteq> 0 \<Longrightarrow> take_bit (Suc 0) x = 1" for x :: u64
    by (cases "odd x") (simp_all add: take_bit_Suc)
  show ?thesis
    using assms
    by (cases kind)
       (auto simp: segment_field_update_def segment_field_bytes_def segment_field_width_def
          segment_field_mask_def Let_def le_store_ucast m t o simp del: take_bit_Suc_0)
qed

text \<open>The ranges of register numbers exclude each other.\<close>

lemma select_segment_range:
  "cpueaxh_select_segment regid = None"
  if "reg_in regid 0 17 \<or> reg_in regid 20 90 \<or> reg_in regid 101 118"
  using that by (auto simp: reg_in_def cpueaxh_select_segment_def reg_ids)

lemma control_reg_range:
  "cpueaxh_control_reg_index_from_regid regid = - 1"
  if "reg_in regid 0 20 \<or> reg_in regid 26 106 \<or> 117 < regid"
  using that by (auto simp: reg_in_def cpueaxh_control_reg_index_from_regid_def reg_ids)

lemma control_reg_numbers:
  "regid \<in> {21, 22, 23, 24, 25} \<or> reg_in regid 107 117" if "0 \<le> cpueaxh_control_reg_index_from_regid regid"
  using that
  by (auto simp: reg_in_def cpueaxh_control_reg_index_from_regid_def reg_ids split: if_splits)

lemma select_segment_valid: "segment_by_index c s \<noteq> None"
  if "cpueaxh_select_segment regid = Some s"
  using that by (auto simp: cpueaxh_select_segment_def segment_by_index_def split: if_splits)

lemma segment_by_index_set:
  "segment_by_index (set_segment_register c s seg) s = Some seg" if "segment_by_index c s \<noteq> None"
  using that by (auto simp: segment_by_index_def set_segment_register_def cpu_defs split: if_splits)

lemmas reg_chain = reg_update_def reg_bytes_def reg_width_def reg_kept_def reg_ids Let_def

lemma reg_roundtrip_vector:
  assumes "reg_update c regid bs = Some c1" "length bs = reg_width regid"
    "reg_in regid CPUEAXH_X86_REG_XMM0 CPUEAXH_X86_REG_ZMM15"
  shows "reg_bytes c1 regid = Some (reg_kept regid bs)"
proof -
  have n: "cpueaxh_select_segment regid = None"
    using assms by (auto intro: select_segment_range simp: reg_in_def reg_ids)
  consider "reg_in regid 26 41" | "reg_in regid 42 57" | "reg_in regid 58 73"
    using assms(3) by (simp add: reg_in_def reg_ids) linarith
  then show ?thesis
  proof cases
    case 1 then show ?thesis using assms n by (auto simp: reg_chain reg_in_def xmm_bytes_roundtrip)
  next
    case 2
    then have l: "length bs = 32" using assms n by (auto simp: reg_chain reg_in_def)
    have "take 16 bs @ drop 16 bs = bs" by simp
    then show ?thesis using 2 assms n l
      by (auto simp: reg_chain reg_in_def xmm_bytes_prefix)
  next
    case 3
    then have l: "length bs = 64" using assms n by (auto simp: reg_chain reg_in_def)
    have "take 16 bs @ take 16 (drop 16 bs) @ take 16 (drop 32 bs) @ take 16 (drop 48 bs) = bs"
      using l by (simp add: append_eq_conv_conj take_drop)
    then show ?thesis using 3 assms n l
      by (auto simp: reg_chain reg_in_def xmm_bytes_prefix)
  qed
qed

lemma reg_roundtrip_scalar:
  assumes "reg_update c regid bs = Some c1" "length bs = reg_width regid"
    "reg_in regid 0 17 \<or> regid = 20 \<or> reg_in regid 74 90 \<or> reg_in regid 101 118 \<or>
     0 \<le> cpueaxh_control_reg_index_from_regid regid"
  shows "reg_bytes c1 regid = Some (reg_kept regid bs)"
proof -
  have n: "cpueaxh_select_segment regid = None"
    using assms(3) control_reg_numbers by (fastforce intro: select_segment_range simp: reg_in_def)
  show ?thesis
  proof (cases "0 \<le> cpueaxh_control_reg_index_from_regid regid")
    case True
    have "\<not> reg_in regid 0 15" "\<not> reg_in regid 26 41" "\<not> reg_in regid 42 57" "\<not> reg_in regid 58 73"
      "\<not> reg_in regid 74 81" "\<not> reg_in regid 82 89" "regid \<noteq> 20" "regid \<noteq> 90" "regid \<noteq> 102" "regid \<noteq> 104"
      "regid \<noteq> 105" "regid \<noteq> 106" "regid \<noteq> 118"
      using control_reg_numbers [OF True] by (auto simp: reg_in_def)
    then show ?thesis using assms(1,2) n True
      using le_store_load [of bs] by (auto simp: reg_chain)
  next
    case False
    have t: "(ucast (ucast (x AND 3) :: u8) :: u64) = x AND 3" for x :: u64
    proof -
      have "x AND 3 = take_bit 2 x" by (simp add: take_bit_eq_mask mask_eq_exp_minus_1)
      moreover have "(ucast (ucast (take_bit 2 x) :: u8) :: u64) = take_bit 2 x"
        by (rule bit_word_eqI) (auto simp: bit_simps)
      ultimately show ?thesis by simp
    qed
    have nc: "\<not> reg_in regid 107 117"
      using False
      by (simp add: reg_in_def cpueaxh_control_reg_index_from_regid_def reg_ids split: if_splits) presburger
    have "reg_in regid 0 15 \<or> reg_in regid 74 81 \<or> reg_in regid 82 89 \<or>
        regid \<in> {16, 17, 20, 90, 101, 102, 103, 104, 105, 106, 118}"
    proof -
      have "reg_in regid 0 17 \<or> regid = 20 \<or> reg_in regid 74 90 \<or> reg_in regid 101 118"
        using assms(3) False by simp
      then show ?thesis using nc unfolding reg_in_def insert_iff empty_iff by presburger
    qed
    moreover have st: "length bs = n \<Longrightarrow> n \<le> 8 \<Longrightarrow> le_store n (le_load bs) = bs" for n
      using le_store_load [of bs] by simp
    ultimately consider "reg_in regid 0 15" | "reg_in regid 74 81" | "reg_in regid 82 89" | "regid = 16" | "regid = 17"
      | "regid = 20" | "regid = 90" | "regid = 101" | "regid = 102" | "regid = 103" | "regid = 104"
      | "regid = 105" | "regid = 106" | "regid = 118"
      by auto
    then show ?thesis using assms n False
      by cases (auto simp: reg_chain reg_in_def le_store_ucast t st)
  qed
qed

lemma reg_roundtrip_segment:
  assumes "reg_update c regid bs = Some c1" "length bs = reg_width regid"
    "cpueaxh_select_segment regid = Some s"
  shows "reg_bytes c1 regid = Some (reg_kept regid bs)"
proof -
  let ?kind = "cpueaxh_segment_field_kind_from_regid regid"
  have out: "\<not> reg_in regid 0 17" "regid \<noteq> 20" "\<not> reg_in regid 26 41" "\<not> reg_in regid 42 57"
    "\<not> reg_in regid 58 73" "\<not> reg_in regid 74 81" "\<not> reg_in regid 82 89" "regid \<noteq> 90"
    "\<not> reg_in regid 101 118" and nc: "\<not> 0 \<le> cpueaxh_control_reg_index_from_regid regid"
  proof -
    have r: "\<not> (reg_in regid 0 17 \<or> reg_in regid 20 90 \<or> reg_in regid 101 118)"
      using assms(3) select_segment_range [of regid] by auto
    then show "\<not> reg_in regid 0 17" "regid \<noteq> 20" "\<not> reg_in regid 26 41" "\<not> reg_in regid 42 57"
      "\<not> reg_in regid 58 73" "\<not> reg_in regid 74 81" "\<not> reg_in regid 82 89" "regid \<noteq> 90"
      "\<not> reg_in regid 101 118" by (auto simp: reg_in_def)
    from r show "\<not> 0 \<le> cpueaxh_control_reg_index_from_regid regid"
      using control_reg_numbers [of regid] by (auto simp: reg_in_def)
  qed
  have out2: "\<not> reg_in regid 0 15" "regid \<notin> {16, 17, 101, 102, 103, 104, 105, 106, 118}"
    using out(1,9) by (auto simp: reg_in_def)
  obtain seg seg1 where seg: "segment_by_index c s = Some seg" "segment_field_update seg ?kind bs = Some seg1"
    "c1 = set_segment_register c s seg1"
    using assms out out2 nc by (auto simp: reg_update_def reg_ids Let_def Option.bind_eq_Some_conv)
  then have "segment_by_index c1 s = Some seg1" by (simp add: segment_by_index_set)
  moreover have "length bs = segment_field_width ?kind" using assms out out2 by (simp add: reg_width_def reg_ids)
  ultimately show ?thesis
    using assms(3) seg segment_field_roundtrip [OF seg(2)] out out2 nc
    by (simp add: reg_bytes_def reg_kept_def reg_ids)
qed

lemma reg_roundtrip:
  assumes "reg_update c regid bs = Some c1" "length bs = reg_width regid"
  shows "reg_bytes c1 regid = Some (reg_kept regid bs)"
proof (cases "cpueaxh_select_segment regid")
  case None
  have "reg_in regid 0 17 \<or> regid = 20 \<or> reg_in regid 74 90 \<or> reg_in regid 101 118 \<or>
     0 \<le> cpueaxh_control_reg_index_from_regid regid \<or> reg_in regid CPUEAXH_X86_REG_XMM0 CPUEAXH_X86_REG_ZMM15"
    using assms(1) None by (auto simp: reg_update_def reg_ids Let_def reg_in_def split: if_splits)
  then show ?thesis using reg_roundtrip_scalar [OF assms] reg_roundtrip_vector [OF assms] by blast
next
  case (Some s) then show ?thesis by (rule reg_roundtrip_segment [OF assms])
qed

end
