(* ===== verification/Api.thy ===== *)
theory Api
  imports ApiRegs Executor
begin

text \<open>
  The public interface of the library (\<^verbatim>\<open>cpueaxh.cpp\<close>): opening and closing an engine, the memory,
  register and exception calls, and the run loops. A null engine is \<open>None\<close>; the error code comes
  first in every result, then what was stored through an out pointer, then the engine.

  An engine lives in a block of the host allocator: \<open>cpueaxh_open\<close> returns the address of the block
  with the engine, and \<open>cpueaxh_close\<close> frees it. \<open>engine_size\<close> is the size of the C++ object.
\<close>

unbundle bit_operations_syntax

definition CPUEAXH_ARCH_X86 :: u32 where [cpu_defs]: "CPUEAXH_ARCH_X86 = 1"
definition CPUEAXH_MODE_COMPAT32 :: u32 where [cpu_defs]: "CPUEAXH_MODE_COMPAT32 = 4"
definition CPUEAXH_MODE_64 :: u32 where [cpu_defs]: "CPUEAXH_MODE_64 = 8"
definition CPUEAXH_MEMORY_MODE_GUEST :: u32 where [cpu_defs]: "CPUEAXH_MEMORY_MODE_GUEST = 0"
definition CPUEAXH_MEMORY_MODE_HOST :: u32 where [cpu_defs]: "CPUEAXH_MEMORY_MODE_HOST = 1"
definition CPUEAXH_EMU_RETURN_MAGIC :: u64 where [cpu_defs]: "CPUEAXH_EMU_RETURN_MAGIC = 0x41485841"

definition cpueaxh_validate_engine :: "cpueaxh_engine option \<Rightarrow> int" where
  "cpueaxh_validate_engine engine = (case engine of None \<Rightarrow> CPUEAXH_ERR_ARG | Some _ \<Rightarrow> CPUEAXH_ERR_OK)"

text \<open>The common opening of the calls: a null engine ends them with its error.\<close>

definition with_engine ::
  "cpueaxh_engine option \<Rightarrow> (cpueaxh_engine \<Rightarrow> int \<times> cpueaxh_engine) \<Rightarrow> int \<times> cpueaxh_engine option" where
  "with_engine engine f =
     (case engine of
        None \<Rightarrow> (cpueaxh_validate_engine engine, None)
      | Some e \<Rightarrow> (case f e of (error, e1) \<Rightarrow> (error, Some e1)))"

subsection \<open>Opening and closing\<close>

definition cpueaxh_apply_memory_mode :: "cpueaxh_engine \<Rightarrow> u32 \<Rightarrow> int \<times> cpueaxh_engine" where
  "cpueaxh_apply_memory_mode e mode =
     (if mode \<noteq> CPUEAXH_MEMORY_MODE_GUEST \<and> mode \<noteq> CPUEAXH_MEMORY_MODE_HOST then (CPUEAXH_ERR_MODE, e)
      else (CPUEAXH_ERR_OK,
            e\<lparr>memory_mode := mode,
              memory_manager := mm_set_host_passthrough (memory_manager e)
                (MM_PROT_READ OR MM_PROT_WRITE OR MM_PROT_EXEC) (mode = CPUEAXH_MEMORY_MODE_HOST)\<rparr>))"

text \<open>
  \<open>out_engine\<close> says whether the out pointer is non-null. The pointers of the context to its manager,
  its cache and its engine are implicit: they are the fields of the engine that owns the context.
\<close>

definition cpueaxh_open ::
  "host \<Rightarrow> u64 \<Rightarrow> u32 \<Rightarrow> u32 \<Rightarrow> bool \<Rightarrow> int \<times> (u64 \<times> cpueaxh_engine) option \<times> host" where
  "cpueaxh_open h engine_size arch mode out_engine =
     (if \<not> out_engine then (CPUEAXH_ERR_ARG, None, h)
      else if arch \<noteq> CPUEAXH_ARCH_X86 then (CPUEAXH_ERR_ARCH, None, h)
      else if mode \<noteq> CPUEAXH_MODE_64 \<and> mode \<noteq> CPUEAXH_MODE_COMPAT32 then (CPUEAXH_ERR_MODE, None, h)
      else
        case CPUEAXH_ALLOC_ZEROED h engine_size of
          (block, h1) \<Rightarrow>
            if block = 0 then (CPUEAXH_ERR_NOMEM, None, h1)
            else
              case cpu_inst_cache_init h1 of
                (cache, h2) \<Rightarrow>
                  let e = \<lparr>memory_manager = mm_init,
                        cpu_ctx = init_cpu_context (mode = CPUEAXH_MODE_COMPAT32),
                        inst_cache = cache, hooks = replicate CPUEAXH_MAX_HOOKS empty_hook,
                        hook_type_counts = (\<lambda>_. 0), escape_index_by_id = (\<lambda>_. 0), escapes = [],
                        escape_capacity = 0, escapes_array = 0, next_hook = 1,
                        memory_mode = CPUEAXH_MEMORY_MODE_GUEST, stop_requested = False,
                        last_error = CPUEAXH_ERR_OK, host_state = h2\<rparr>;
                      e1 = snd (cpueaxh_apply_memory_mode e CPUEAXH_MEMORY_MODE_GUEST)
                  in (CPUEAXH_ERR_OK, Some (block, e1\<lparr>last_error := CPUEAXH_ERR_OK\<rparr>), h2))"

definition cpueaxh_free :: "host \<Rightarrow> u64 \<Rightarrow> host" where
  "cpueaxh_free h ptr = (if ptr = 0 then h else CPUEAXH_FREE h ptr)"

text \<open>\<^verbatim>\<open>free\<close> of a null pointer does nothing, so a null array of escapes is released as it is.\<close>

definition cpueaxh_close :: "host \<Rightarrow> (u64 \<times> cpueaxh_engine) option \<Rightarrow> host" where
  "cpueaxh_close h engine =
     (case engine of
        None \<Rightarrow> h
      | Some (block, e) \<Rightarrow>
          let h1 = snd (cpu_inst_cache_destroy (host_state e) (inst_cache e));
              h2 = fst (mm_destroy h1 (memory_manager e));
              h3 = cpueaxh_free h2 (escapes_array e)
          in CPUEAXH_FREE h3 block)"

definition cpueaxh_set_memory_mode ::
  "cpueaxh_engine option \<Rightarrow> u32 \<Rightarrow> int \<times> cpueaxh_engine option" where
  "cpueaxh_set_memory_mode engine mode = with_engine engine (\<lambda>e. cpueaxh_apply_memory_mode e mode)"

subsection \<open>Mapping\<close>

text \<open>Running an operation of the manager on the engine's host and manager.\<close>

definition manager_call ::
  "(host \<Rightarrow> MEMORY_MANAGER \<Rightarrow> bool \<times> host \<times> MEMORY_MANAGER) \<Rightarrow> cpueaxh_engine \<Rightarrow> int \<times> cpueaxh_engine" where
  "manager_call f e =
     (case f (host_state e) (memory_manager e) of
        (ok, h, m) \<Rightarrow>
          (if ok then CPUEAXH_ERR_OK else CPUEAXH_ERR_MAP, e\<lparr>host_state := h, memory_manager := m\<rparr>))"

definition cpueaxh_mem_map ::
  "cpueaxh_engine option \<Rightarrow> u64 \<Rightarrow> u64 \<Rightarrow> u32 \<Rightarrow> int \<times> cpueaxh_engine option" where
  "cpueaxh_mem_map engine address sz perms =
     with_engine engine (\<lambda>e.
       if sz = 0 then (CPUEAXH_ERR_ARG, e)
       else if \<not> mm_is_page_aligned address \<or> \<not> mm_is_page_aligned sz \<or> mm_range_overflows address sz \<or>
               \<not> mm_is_valid_perms perms then (CPUEAXH_ERR_ARG, e)
       else manager_call (\<lambda>h m. mm_map_internal h m address sz perms) e)"

definition cpueaxh_mem_map_ptr ::
  "cpueaxh_engine option \<Rightarrow> u64 \<Rightarrow> u64 \<Rightarrow> u32 \<Rightarrow> u64 \<Rightarrow> int \<times> cpueaxh_engine option" where
  "cpueaxh_mem_map_ptr engine address sz perms host_ptr =
     with_engine engine (\<lambda>e.
       if sz = 0 \<or> host_ptr = 0 then (CPUEAXH_ERR_ARG, e)
       else if \<not> mm_is_page_aligned address \<or> \<not> mm_is_page_aligned sz \<or> mm_range_overflows address sz \<or>
               \<not> mm_is_valid_perms perms then (CPUEAXH_ERR_ARG, e)
       else manager_call (\<lambda>h m. mm_map_host h m address sz perms host_ptr) e)"

definition cpueaxh_mem_unmap ::
  "cpueaxh_engine option \<Rightarrow> u64 \<Rightarrow> u64 \<Rightarrow> int \<times> cpueaxh_engine option" where
  "cpueaxh_mem_unmap engine address sz =
     with_engine engine (\<lambda>e.
       if sz = 0 then (CPUEAXH_ERR_OK, e)
       else if \<not> mm_is_page_aligned address \<or> \<not> mm_is_page_aligned sz \<or> mm_range_overflows address sz
       then (CPUEAXH_ERR_ARG, e)
       else if \<not> mm_check_range_mapped (memory_manager e) address sz then (CPUEAXH_ERR_MAP, e)
       else manager_call (\<lambda>h m. mm_unmap h m address sz) e)"

definition cpueaxh_mem_protect ::
  "cpueaxh_engine option \<Rightarrow> u64 \<Rightarrow> u64 \<Rightarrow> u32 \<Rightarrow> int \<times> cpueaxh_engine option" where
  "cpueaxh_mem_protect engine address sz perms =
     with_engine engine (\<lambda>e.
       if sz = 0 then (CPUEAXH_ERR_OK, e)
       else if \<not> mm_is_page_aligned address \<or> \<not> mm_is_page_aligned sz \<or> mm_range_overflows address sz \<or>
               \<not> mm_is_valid_perms perms then (CPUEAXH_ERR_ARG, e)
       else if \<not> mm_check_range_mapped (memory_manager e) address sz then (CPUEAXH_ERR_MAP, e)
       else manager_call (\<lambda>h m. mm_protect h m address sz perms) e)"

definition cpueaxh_mem_set_cpu_attrs ::
  "cpueaxh_engine option \<Rightarrow> u64 \<Rightarrow> u64 \<Rightarrow> u32 \<Rightarrow> int \<times> cpueaxh_engine option" where
  "cpueaxh_mem_set_cpu_attrs engine address sz attrs =
     with_engine engine (\<lambda>e.
       if sz = 0 then (CPUEAXH_ERR_OK, e)
       else if \<not> mm_is_page_aligned address \<or> \<not> mm_is_page_aligned sz \<or> mm_range_overflows address sz \<or>
               \<not> mm_is_valid_cpu_attrs attrs then (CPUEAXH_ERR_ARG, e)
       else if \<not> mm_check_range_mapped (memory_manager e) address sz then (CPUEAXH_ERR_MAP, e)
       else manager_call (\<lambda>h m. mm_set_cpu_attrs h m address sz attrs) e)"

record cpueaxh_mem_region =
  mr_begin :: u64
  mr_end :: u64
  mr_perms :: u32
  mr_cpu_attrs :: u32

definition public_region :: "MEMORY_REGION \<Rightarrow> cpueaxh_mem_region" where
  "public_region r =
     \<lparr>mr_begin = rg_base r, mr_end = rg_base r + rg_size r - 1, mr_perms = rg_perms r,
      mr_cpu_attrs = rg_cpu_attrs r\<rparr>"

text \<open>
  \<open>outs\<close> says whether both out pointers are non-null. On success they receive the address of the
  allocated array (0 when there is no region), its contents and the count.
\<close>

definition cpueaxh_mem_regions ::
  "cpueaxh_engine option \<Rightarrow> bool \<Rightarrow>
   int \<times> (u64 \<times> cpueaxh_mem_region list \<times> u32) option \<times> cpueaxh_engine option" where
  "cpueaxh_mem_regions engine outs =
     (if \<not> outs then (CPUEAXH_ERR_ARG, None, engine)
      else
        case engine of
          None \<Rightarrow> (CPUEAXH_ERR_ARG, Some (0, [], 0), None)
        | Some e \<Rightarrow>
            let region_count = length (regions (memory_manager e))
            in if region_count = 0 then (CPUEAXH_ERR_OK, Some (0, [], 0), Some e)
               else if region_count > 0xFFFFFFFF then (CPUEAXH_ERR_NOMEM, Some (0, [], 0), Some e)
               else
                 case CPUEAXH_ALLOC_ZEROED (host_state e) (of_nat region_count * 24) of
                   (block, h) \<Rightarrow>
                     if block = 0 then (CPUEAXH_ERR_NOMEM, Some (0, [], 0), Some (e\<lparr>host_state := h\<rparr>))
                     else (CPUEAXH_ERR_OK,
                           Some (block, map public_region (regions (memory_manager e)), of_nat region_count),
                           Some (e\<lparr>host_state := h\<rparr>)))"

subsection \<open>Reading and writing memory\<close>

definition cpueaxh_translate_access_error :: "MM_ACCESS_STATUS \<Rightarrow> u32 \<Rightarrow> int" where
  "cpueaxh_translate_access_error status perm =
     (if status = MM_ACCESS_PROT
      then if perm = MM_PROT_WRITE then CPUEAXH_ERR_WRITE_PROT
           else if perm = MM_PROT_EXEC then CPUEAXH_ERR_FETCH_PROT else CPUEAXH_ERR_READ_PROT
      else if perm = MM_PROT_WRITE then CPUEAXH_ERR_WRITE_UNMAPPED
      else if perm = MM_PROT_EXEC then CPUEAXH_ERR_FETCH_UNMAPPED else CPUEAXH_ERR_READ_UNMAPPED)"

text \<open>The loop over the bytes; \<open>address\<close> is the address of the next one.\<close>

fun cpueaxh_mem_write_raw :: "cpueaxh_engine \<Rightarrow> u64 \<Rightarrow> u8 list \<Rightarrow> int \<times> cpueaxh_engine" where
  "cpueaxh_mem_write_raw e address [] = (CPUEAXH_ERR_OK, e)"
| "cpueaxh_mem_write_raw e address (b # bs) =
     (case mm_write_byte_checked (host_state e) (memory_manager e) address b of
        (status, attrs, h, m) \<Rightarrow>
          let e1 = e\<lparr>host_state := h, memory_manager := m\<rparr>
          in if status \<noteq> MM_ACCESS_OK then (cpueaxh_translate_access_error status MM_PROT_WRITE, e1)
             else cpueaxh_mem_write_raw e1 (address + 1) bs)"

fun cpueaxh_mem_read_raw :: "cpueaxh_engine \<Rightarrow> u64 \<Rightarrow> nat \<Rightarrow> int \<times> u8 list \<times> cpueaxh_engine" where
  "cpueaxh_mem_read_raw e address 0 = (CPUEAXH_ERR_OK, [], e)"
| "cpueaxh_mem_read_raw e address (Suc n) =
     (case mm_read_byte_checked (host_state e) (memory_manager e) address MM_PROT_READ of
        (status, v, attrs, m) \<Rightarrow>
          let e1 = e\<lparr>memory_manager := m\<rparr>
          in if status \<noteq> MM_ACCESS_OK then (cpueaxh_translate_access_error status MM_PROT_READ, [], e1)
             else case cpueaxh_mem_read_raw e1 (address + 1) n of
                    (error, bs, e2) \<Rightarrow> (error, the v # bs, e2))"

text \<open>The caller's buffer holds at least \<open>sz\<close> bytes; \<open>None\<close> is a null pointer.\<close>

definition cpueaxh_mem_write ::
  "cpueaxh_engine option \<Rightarrow> u64 \<Rightarrow> u8 list option \<Rightarrow> nat \<Rightarrow> int \<times> cpueaxh_engine option" where
  "cpueaxh_mem_write engine address bytes sz =
     with_engine engine (\<lambda>e.
       if bytes = None \<and> sz \<noteq> 0 then (CPUEAXH_ERR_ARG, e)
       else case cpueaxh_mem_write_raw e address (case bytes of None \<Rightarrow> [] | Some bs \<Rightarrow> take sz bs) of
              (result, e1) \<Rightarrow>
                (result, if sz \<noteq> 0 then e1\<lparr>memory_manager := mm_bump_code_version (memory_manager e1)\<rparr>
                         else e1))"

definition cpueaxh_mem_read ::
  "cpueaxh_engine option \<Rightarrow> u64 \<Rightarrow> bool \<Rightarrow> nat \<Rightarrow> int \<times> u8 list \<times> cpueaxh_engine option" where
  "cpueaxh_mem_read engine address out sz =
     (case engine of
        None \<Rightarrow> (cpueaxh_validate_engine engine, [], None)
      | Some e \<Rightarrow>
          if \<not> out \<and> sz \<noteq> 0 then (CPUEAXH_ERR_ARG, [], Some e)
          else case cpueaxh_mem_read_raw e address sz of (error, bs, e1) \<Rightarrow> (error, bs, Some e1))"

definition cpueaxh_translate_patch_error :: "MM_PATCH_STATUS \<Rightarrow> int" where
  "cpueaxh_translate_patch_error status =
     (case status of
        MM_PATCH_OK \<Rightarrow> CPUEAXH_ERR_OK
      | MM_PATCH_ARG \<Rightarrow> CPUEAXH_ERR_ARG
      | MM_PATCH_NOMEM \<Rightarrow> CPUEAXH_ERR_NOMEM
      | _ \<Rightarrow> CPUEAXH_ERR_PATCH)"

definition cpueaxh_mem_patch_add ::
  "cpueaxh_engine option \<Rightarrow> bool \<Rightarrow> u64 \<Rightarrow> u8 list option \<Rightarrow> u64 \<Rightarrow>
   int \<times> u64 option \<times> cpueaxh_engine option" where
  "cpueaxh_mem_patch_add engine out_patch address bytes sz =
     (case engine of
        None \<Rightarrow> (cpueaxh_validate_engine engine, None, None)
      | Some e \<Rightarrow>
          if \<not> out_patch \<or> bytes = None \<and> sz \<noteq> 0 then (CPUEAXH_ERR_ARG, None, Some e)
          else if memory_mode e \<noteq> CPUEAXH_MEMORY_MODE_HOST then (CPUEAXH_ERR_MODE, None, Some e)
          else case mm_add_patch (host_state e) (memory_manager e) address bytes sz of
                 (status, handle, h, m) \<Rightarrow>
                   (cpueaxh_translate_patch_error status, handle,
                    Some (e\<lparr>host_state := h, memory_manager := m\<rparr>)))"

definition cpueaxh_mem_patch_del :: "cpueaxh_engine option \<Rightarrow> u64 \<Rightarrow> int \<times> cpueaxh_engine option" where
  "cpueaxh_mem_patch_del engine patch =
     with_engine engine (\<lambda>e.
       case mm_del_patch (host_state e) (memory_manager e) patch of
         (status, h, m) \<Rightarrow>
           (cpueaxh_translate_patch_error status, e\<lparr>host_state := h, memory_manager := m\<rparr>))"

subsection \<open>Registers and exceptions\<close>

definition cpueaxh_reg_write ::
  "cpueaxh_engine option \<Rightarrow> int \<Rightarrow> u8 list option \<Rightarrow> int \<times> cpueaxh_engine option" where
  "cpueaxh_reg_write engine regid v =
     with_engine engine (\<lambda>e.
       case cpueaxh_reg_write_raw (cpu_ctx e) regid v of (error, c) \<Rightarrow> (error, e\<lparr>cpu_ctx := c\<rparr>))"

definition cpueaxh_reg_read ::
  "cpueaxh_engine option \<Rightarrow> int \<Rightarrow> bool \<Rightarrow> int \<times> u8 list option" where
  "cpueaxh_reg_read engine regid out =
     (case engine of
        None \<Rightarrow> (cpueaxh_validate_engine engine, None)
      | Some e \<Rightarrow> cpueaxh_reg_read_raw (cpu_ctx e) regid out)"

definition cpueaxh_context_write ::
  "cpueaxh_engine option \<Rightarrow> cpueaxh_x86_context option \<Rightarrow> int \<times> cpueaxh_engine option" where
  "cpueaxh_context_write engine ctx =
     with_engine engine (\<lambda>e.
       case ctx of
         None \<Rightarrow> (CPUEAXH_ERR_ARG, e)
       | Some x \<Rightarrow> (CPUEAXH_ERR_OK, on_ctx (\<lambda>c. cpueaxh_context_in c x) e))"

definition cpueaxh_context_read ::
  "cpueaxh_engine option \<Rightarrow> bool \<Rightarrow> int \<times> cpueaxh_x86_context option" where
  "cpueaxh_context_read engine out =
     (case engine of
        None \<Rightarrow> (cpueaxh_validate_engine engine, None)
      | Some e \<Rightarrow> if \<not> out then (CPUEAXH_ERR_ARG, None)
                  else (CPUEAXH_ERR_OK, Some (cpueaxh_context_out (cpu_ctx e))))"

definition cpueaxh_set_processor_id ::
  "cpueaxh_engine option \<Rightarrow> u32 \<Rightarrow> int \<times> cpueaxh_engine option" where
  "cpueaxh_set_processor_id engine i =
     with_engine engine (\<lambda>e. (CPUEAXH_ERR_OK, on_ctx (\<lambda>c. c\<lparr>processor_id := i\<rparr>) e))"

definition cpueaxh_exception_raise ::
  "cpueaxh_engine option \<Rightarrow> u32 \<Rightarrow> u32 \<Rightarrow> int \<times> cpueaxh_engine option" where
  "cpueaxh_exception_raise engine code error_code =
     with_engine engine (\<lambda>e.
       if \<not> cpu_is_exception_code code then (CPUEAXH_ERR_ARG, e)
       else (CPUEAXH_ERR_OK, on_ctx (\<lambda>c. cpu_raise_exception c code error_code) e))"

definition cpueaxh_exception_clear :: "cpueaxh_engine option \<Rightarrow> int \<times> cpueaxh_engine option" where
  "cpueaxh_exception_clear engine =
     with_engine engine (\<lambda>e. (CPUEAXH_ERR_OK, on_ctx cpu_clear_exception e))"

definition cpueaxh_code_exception :: "cpueaxh_engine option \<Rightarrow> u32" where
  "cpueaxh_code_exception engine =
     (case engine of None \<Rightarrow> CPU_EXCEPTION_NONE | Some e \<Rightarrow> ex_code (exception_state (cpu_ctx e)))"

definition cpueaxh_error_code_exception :: "cpueaxh_engine option \<Rightarrow> u32" where
  "cpueaxh_error_code_exception engine =
     (case engine of None \<Rightarrow> 0 | Some e \<Rightarrow> ex_error_code (exception_state (cpu_ctx e)))"

definition cpueaxh_emu_stop :: "cpueaxh_engine option \<Rightarrow> cpueaxh_engine option" where
  "cpueaxh_emu_stop engine = map_option (\<lambda>e. e\<lparr>stop_requested := True\<rparr>) engine"

subsection \<open>Escapes during a run\<close>

text \<open>
  \<open>bridge_block\<close> is the address of the run's host bridge block, which the escape callback receives
  in its context. The result says whether the instruction was handled here, with the error.
\<close>

definition cpueaxh_try_dispatch_escape ::
  "callbacks \<Rightarrow> u64 \<Rightarrow> cpueaxh_engine \<Rightarrow> u64 \<Rightarrow> u8 list \<Rightarrow> bool \<times> int \<times> cpueaxh_engine" where
  "cpueaxh_try_dispatch_escape cb bridge_block e address bytes =
     (if bytes = [] then (False, CPUEAXH_ERR_OK, e)
      else
        let (instruction_id, instruction_size) = cpueaxh_classify_escape_instruction (cpu_ctx e) bytes
        in if instruction_id = CPUEAXH_ESCAPE_INSN_NONE \<or> instruction_size = 0
           then (False, CPUEAXH_ERR_OK, e)
           else
             let unhandled =
                   (if cpueaxh_is_optional_escape_instruction instruction_id
                    then (False, CPUEAXH_ERR_OK, e)
                    else
                      let code = (if instruction_id = CPUEAXH_ESCAPE_INSN_INT3 then CPU_EXCEPTION_BP
                                  else if instruction_id = CPUEAXH_ESCAPE_INSN_INT1 then CPU_EXCEPTION_DB
                                  else CPU_EXCEPTION_UD)
                      in (True, CPUEAXH_ERR_EXCEPTION, on_ctx (\<lambda>c. cpu_raise_exception c code 0) e))
             in case cpueaxh_lookup_escape_entry e instruction_id of
                  None \<Rightarrow> unhandled
                | Some escape \<Rightarrow>
                    if es_callback escape \<noteq> 0 \<and>
                       cpueaxh_range_contains (es_begin escape) (es_end escape) address
                    then
                      let rip_before = rip (cpu_ctx e);
                          ctx = (cpueaxh_context_out (cpu_ctx e))\<lparr>xc_internal_bridge_block := bridge_block\<rparr>
                      in case cb_escape cb (es_callback escape) e ctx bytes (es_user_data escape) of
                           (error, ctx1, e1) \<Rightarrow>
                             if error \<noteq> CPUEAXH_ERR_OK then (True, error, e1)
                             else
                               let c1 = cpueaxh_context_in (cpu_ctx e1) ctx1;
                                   c2 = (if rip c1 = rip_before
                                         then c1\<lparr>rip := rip_before + ucast instruction_size\<rparr> else c1);
                                   c3 = c2\<lparr>last_inst_size := sint instruction_size\<rparr>
                               in (True,
                                   if cpu_has_exception c3 then CPUEAXH_ERR_EXCEPTION else CPUEAXH_ERR_OK,
                                   e1\<lparr>cpu_ctx := c3\<rparr>)
                    else unhandled)"

definition cpueaxh_translate_step_error :: "cpueaxh_engine \<Rightarrow> int \<Rightarrow> int" where
  "cpueaxh_translate_step_error e status =
     (if status = CPU_STEP_OK \<or> status = CPU_STEP_HALT then CPUEAXH_ERR_OK
      else if status = CPU_STEP_FETCH_ERR then CPUEAXH_ERR_FETCH_UNMAPPED
      else if status = CPU_STEP_UD then CPUEAXH_ERR_EXCEPTION
      else if status = CPU_STEP_EXCEPTION \<and> ex_code (exception_state (cpu_ctx e)) = CPU_EXCEPTION_PF
      then
        let error_code = ex_error_code (exception_state (cpu_ctx e));
            protection_violation = error_code AND 0x1 \<noteq> 0
        in if error_code AND 0x10 \<noteq> 0
           then if protection_violation then CPUEAXH_ERR_FETCH_PROT else CPUEAXH_ERR_FETCH_UNMAPPED
           else if error_code AND 0x2 \<noteq> 0
           then if protection_violation then CPUEAXH_ERR_WRITE_PROT else CPUEAXH_ERR_WRITE_UNMAPPED
           else if protection_violation then CPUEAXH_ERR_READ_PROT else CPUEAXH_ERR_READ_UNMAPPED
      else CPUEAXH_ERR_EXCEPTION)"

subsection \<open>The run loops\<close>

text \<open>
  Every way out of a run stores the error it returns. An iteration ends the run with \<open>Inl\<close> or has
  executed one instruction and continues with \<open>Inr\<close>.
\<close>

definition emu_finish :: "int \<Rightarrow> cpueaxh_engine \<Rightarrow> int \<times> cpueaxh_engine" where
  "emu_finish error e = (error, e\<lparr>last_error := error\<rparr>)"

definition emu_after_step ::
  "callbacks \<Rightarrow> bool \<Rightarrow> u64 \<Rightarrow> int \<times> cpueaxh_engine \<Rightarrow> (int \<times> cpueaxh_engine) + cpueaxh_engine" where
  "emu_after_step cb need_post_hook address r =
     (let (status, e) = r;
          post = (if need_post_hook then cpueaxh_dispatch_code_hooks cb e CPUEAXH_HOOK_CODE_POST address
                  else e)
      in if status = CPU_STEP_OK then Inr post
         else if status = CPU_STEP_HALT then Inl (emu_finish CPUEAXH_ERR_OK post)
         else Inl (emu_finish (cpueaxh_translate_step_error e status) e))"

definition emu_plain_iteration ::
  "instruction_set \<Rightarrow> callbacks \<Rightarrow> cpueaxh_engine \<Rightarrow> (int \<times> cpueaxh_engine) + cpueaxh_engine" where
  "emu_plain_iteration insns cb e = emu_after_step cb False 0 (cpu_step insns cb e)"

text \<open>The resolved cache slot of the fast path, with the engine after the mode key was computed.\<close>

definition emu_fast_slot :: "cpueaxh_engine \<Rightarrow> u64 \<Rightarrow> InstCacheEntry option \<times> cpueaxh_engine" where
  "emu_fast_slot e address =
     (case ic_slots (inst_cache e) of
        None \<Rightarrow> (None, e)
      | Some slots \<Rightarrow>
          let (fast_mode, c) = cpu_inst_cache_mode_key (cpu_ctx e);
              e1 = e\<lparr>cpu_ctx := c\<rparr>; slot = slots (cpu_inst_cache_index address)
          in (if ce_tag slot = address \<and> ce_version slot = code_version (memory_manager e1) \<and>
                 ce_mode slot = fast_mode \<and> decoded_has (ce_decoded slot) DECODED_FLAG_KNOWN_NOT_ESCAPE
              then Some slot else None, e1))"

definition emu_hook_iteration ::
  "instruction_set \<Rightarrow> callbacks \<Rightarrow> u64 \<Rightarrow> bool \<Rightarrow> bool \<Rightarrow> cpueaxh_engine \<Rightarrow>
   (int \<times> cpueaxh_engine) + cpueaxh_engine" where
  "emu_hook_iteration insns cb bridge_block need_pre_hook need_post_hook e =
     (let address = rip (cpu_ctx e);
          e0 = (if need_pre_hook then cpueaxh_dispatch_code_hooks cb e CPUEAXH_HOOK_CODE_PRE address else e)
      in if stop_requested e0 then Inl (emu_finish CPUEAXH_ERR_OK e0)
         else
           case emu_fast_slot e0 address of
             (Some slot, e1) \<Rightarrow>
               emu_after_step cb need_post_hook address (cpu_step_decoded insns cb e1 slot)
           | (None, e1) \<Rightarrow>
               (case fetch_instruction_bytes cb e1 address of
                  (bytes, e2) \<Rightarrow>
                    case cpueaxh_try_dispatch_escape cb bridge_block e2 address bytes of
                      (True, error, e3) \<Rightarrow>
                        if error \<noteq> CPUEAXH_ERR_OK then Inl (emu_finish error e3)
                        else Inr (if need_post_hook
                                  then cpueaxh_dispatch_code_hooks cb e3 CPUEAXH_HOOK_CODE_POST address
                                  else e3)
                    | (False, _, e3) \<Rightarrow>
                        emu_after_step cb need_post_hook address
                          (cpu_step_with_prefetch insns cb e3 bytes)))"

partial_function (option) emu_loop ::
  "(cpueaxh_engine \<Rightarrow> (int \<times> cpueaxh_engine) + cpueaxh_engine) \<Rightarrow> u64 \<Rightarrow> u64 \<Rightarrow> u64 \<Rightarrow> cpueaxh_engine \<Rightarrow>
   (int \<times> cpueaxh_engine) option" where
  "emu_loop iteration until count executed e =
     (if count \<noteq> 0 \<and> executed \<ge> count then Some (emu_finish CPUEAXH_ERR_OK e)
      else if until \<noteq> 0 \<and> rip (cpu_ctx e) = until then Some (emu_finish CPUEAXH_ERR_OK e)
      else if stop_requested e then Some (emu_finish CPUEAXH_ERR_OK e)
      else case iteration e of
             Inl r \<Rightarrow> Some r
           | Inr e1 \<Rightarrow> emu_loop iteration until count (executed + 1) e1)"

text \<open>
  A run; \<open>None\<close> when it does not return. \<open>count\<close> 0 is no limit and \<open>until\<close> 0 no end address. The kind of iteration
  is chosen once, from the hooks and escapes the engine has at the start.
\<close>

definition emu_begin :: "u64 \<Rightarrow> cpueaxh_engine \<Rightarrow> cpueaxh_engine" where
  "emu_begin begin e =
     (let e0 = (if begin \<noteq> 0 then on_ctx (\<lambda>c. c\<lparr>rip := begin\<rparr>) e else e)
      in on_ctx cpu_clear_exception (e0\<lparr>stop_requested := False\<rparr>))"

definition emu_iteration ::
  "instruction_set \<Rightarrow> callbacks \<Rightarrow> u64 \<Rightarrow> cpueaxh_engine \<Rightarrow> cpueaxh_engine \<Rightarrow> (int \<times> cpueaxh_engine) + cpueaxh_engine" where
  "emu_iteration insns cb bridge_block start =
     (let counts = hook_type_counts start;
          has_any_hook = (\<exists>t \<in> {unat CPUEAXH_HOOK_CODE_PRE..unat CPUEAXH_HOOK_MEM_FETCH_PROT}. counts t \<noteq> 0)
      in if \<not> has_any_hook \<and> escapes start = [] then emu_plain_iteration insns cb
         else emu_hook_iteration insns cb bridge_block (counts (unat CPUEAXH_HOOK_CODE_PRE) \<noteq> 0)
                (counts (unat CPUEAXH_HOOK_CODE_POST) \<noteq> 0))"

definition cpueaxh_emu_start ::
  "instruction_set \<Rightarrow> callbacks \<Rightarrow> u64 \<Rightarrow> cpueaxh_engine option \<Rightarrow> u64 \<Rightarrow> u64 \<Rightarrow> u64 \<Rightarrow>
   (int \<times> cpueaxh_engine option) option" where
  "cpueaxh_emu_start insns cb bridge_block engine begin until count =
     (case engine of
        None \<Rightarrow> Some (cpueaxh_validate_engine engine, None)
      | Some e \<Rightarrow>
          let e1 = emu_begin begin e
          in map_option (\<lambda>(error, e2). (error, Some e2))
               (emu_loop (emu_iteration insns cb bridge_block e1) until count 0 e1))"

text \<open>
  Running a function until it returns: the return address on the stack is replaced by a magic
  value for the time of the run.
\<close>

definition cpueaxh_emu_start_function ::
  "instruction_set \<Rightarrow> callbacks \<Rightarrow> u64 \<Rightarrow> cpueaxh_engine option \<Rightarrow> u64 \<Rightarrow> u64 \<Rightarrow>
   (int \<times> cpueaxh_engine option) option" where
  "cpueaxh_emu_start_function insns cb bridge_block engine begin count =
     (case engine of
        None \<Rightarrow> Some (cpueaxh_validate_engine engine, None)
      | Some e \<Rightarrow>
          let stack_address = regs (cpu_ctx e) REG_RSP
          in case cpueaxh_mem_read_raw e stack_address 8 of
               (error, original_return, e1) \<Rightarrow>
                 if error \<noteq> CPUEAXH_ERR_OK then Some (error, Some e1)
                 else
                   case cpueaxh_mem_write_raw e1 stack_address (le_store 8 CPUEAXH_EMU_RETURN_MAGIC) of
                     (error, e2) \<Rightarrow>
                       if error \<noteq> CPUEAXH_ERR_OK then Some (error, Some e2)
                       else
                         map_option
                           (\<lambda>(run_error, after).
                             case after of
                               None \<Rightarrow> (run_error, None)
                             | Some e3 \<Rightarrow>
                                 (case cpueaxh_mem_write_raw e3 stack_address original_return of
                                    (restore_error, e4) \<Rightarrow>
                                      (if run_error \<noteq> CPUEAXH_ERR_OK then run_error else restore_error,
                                       Some e4)))
                           (cpueaxh_emu_start insns cb bridge_block (Some e2) begin
                              CPUEAXH_EMU_RETURN_MAGIC count))"

subsection \<open>A limited run returns\<close>

lemma steps_left: "unat (n - k) = Suc (unat (n - (k + 1)))" if "k < n" for k n :: u64
proof -
  have "n - k \<noteq> 0" using that by auto
  then have "unat (n - k - 1) = unat (n - k) - 1" "0 < unat (n - k)" by (simp_all add: unat_minus_one unat_gt_0)
  then show ?thesis by (simp add: diff_diff_eq)
qed

lemma steps_left_less: "unat (n - (k + 1)) < unat (n - k)" if "k < n" for k n :: u64
  using steps_left [OF that] by simp

text \<open>
  What a run of at most \<open>n\<close> steps may do: \<open>k\<close> iterations go through, with no reason to stop before any of them.
  Then the limit is reached, or the end address or a request to stop, and the run succeeds; or another
  iteration ends it.
\<close>

fun emu_steps ::
  "(cpueaxh_engine \<Rightarrow> (int \<times> cpueaxh_engine) + cpueaxh_engine) \<Rightarrow> nat \<Rightarrow> cpueaxh_engine \<Rightarrow> cpueaxh_engine option" where
  "emu_steps iteration 0 e = Some e"
| "emu_steps iteration (Suc k) e = (case iteration e of Inl _ \<Rightarrow> None | Inr e1 \<Rightarrow> emu_steps iteration k e1)"

definition emu_stops :: "u64 \<Rightarrow> cpueaxh_engine \<Rightarrow> bool" where
  "emu_stops until e \<longleftrightarrow> until \<noteq> 0 \<and> rip (cpu_ctx e) = until \<or> stop_requested e"

definition limited_run ::
  "(cpueaxh_engine \<Rightarrow> (int \<times> cpueaxh_engine) + cpueaxh_engine) \<Rightarrow> u64 \<Rightarrow> nat \<Rightarrow> cpueaxh_engine \<Rightarrow>
   int \<times> cpueaxh_engine \<Rightarrow> bool" where
  "limited_run iteration until n e r \<longleftrightarrow>
     (\<exists>k e1. k \<le> n \<and> emu_steps iteration k e = Some e1 \<and>
        (\<forall>j<k. \<exists>x. emu_steps iteration j e = Some x \<and> \<not> emu_stops until x) \<and>
        (if k = n \<or> emu_stops until e1 then r = emu_finish CPUEAXH_ERR_OK e1 else iteration e1 = Inl r))"

lemma limited_run_step:
  assumes "\<not> emu_stops until e" "iteration e = Inr e1" "limited_run iteration until n e1 r"
  shows "limited_run iteration until (Suc n) e r"
proof -
  from assms(3) obtain k x where k: "k \<le> n" "emu_steps iteration k e1 = Some x"
    "\<forall>j<k. \<exists>x. emu_steps iteration j e1 = Some x \<and> \<not> emu_stops until x"
    "if k = n \<or> emu_stops until x then r = emu_finish CPUEAXH_ERR_OK x else iteration x = Inl r"
    unfolding limited_run_def by blast
  have "\<exists>x. emu_steps iteration j e = Some x \<and> \<not> emu_stops until x" if "j < Suc k" for j
    using that assms(1,2) k(3) by (cases j) auto
  then show ?thesis unfolding limited_run_def
    using k(1,2,4) assms(2) by (intro exI [of _ "Suc k"] exI [of _ x]) simp
qed

lemma emu_loop_returns:
  assumes "count \<noteq> 0"
  shows "executed \<le> count \<Longrightarrow>
    \<exists>r. emu_loop iteration until count executed e = Some r \<and> limited_run iteration until (unat (count - executed)) e r"
proof (induction "unat (count - executed)" arbitrary: executed e rule: less_induct)
  case less
  have now: "limited_run iteration until n e r"
    if "if n = 0 \<or> emu_stops until e then r = emu_finish CPUEAXH_ERR_OK e else iteration e = Inl r" for n r
    using that unfolding limited_run_def by (intro exI [of _ 0] exI [of _ e]) auto
  show ?case
  proof (cases "executed = count \<or> emu_stops until e")
    case True
    then have "emu_loop iteration until count executed e = Some (emu_finish CPUEAXH_ERR_OK e)"
      by (subst emu_loop.simps) (auto simp: assms emu_stops_def)
    moreover have "limited_run iteration until (unat (count - executed)) e (emu_finish CPUEAXH_ERR_OK e)"
      by (rule now) (use True in auto)
    ultimately show ?thesis by blast
  next
    case False
    then have lt: "executed < count" using less.prems by auto
    have eq: "emu_loop iteration until count executed e =
        (case iteration e of Inl r \<Rightarrow> Some r | Inr e1 \<Rightarrow> emu_loop iteration until count (executed + 1) e1)"
      using False lt by (subst emu_loop.simps) (auto simp: emu_stops_def not_le)
    have nz: "unat (count - executed) \<noteq> 0" using lt by (auto simp: unat_eq_zero)
    show ?thesis
    proof (cases "iteration e")
      case (Inl r)
      then show ?thesis using eq now [of "unat (count - executed)" r] False nz by simp
    next
      case (Inr e1)
      have "executed + 1 \<le> count" using lt by (rule inc_le)
      from less.hyps [OF steps_left_less [OF lt] this, of e1] obtain r where
        r: "emu_loop iteration until count (executed + 1) e1 = Some r"
          "limited_run iteration until (unat (count - (executed + 1))) e1 r" by blast
      have "unat (count - executed) = Suc (unat (count - (executed + 1)))"
        by (rule steps_left [OF lt])
      then show ?thesis using limited_run_step [of until e iteration e1, OF _ Inr r(2)] False eq Inr r(1) by simp
    qed
  qed
qed

text \<open>The same for the plain loop, which returns the number of steps.\<close>

fun cpu_steps :: "instruction_set \<Rightarrow> callbacks \<Rightarrow> nat \<Rightarrow> cpueaxh_engine \<Rightarrow> cpueaxh_engine option" where
  "cpu_steps insns cb 0 e = Some e"
| "cpu_steps insns cb (Suc k) e =
     (let r = cpu_step_with_prefetch insns cb e []
      in if fst r = CPU_STEP_OK then cpu_steps insns cb k (snd r) else None)"

definition limited_cpu_run :: "instruction_set \<Rightarrow> callbacks \<Rightarrow> nat \<Rightarrow> cpueaxh_engine \<Rightarrow> nat \<times> cpueaxh_engine \<Rightarrow> bool" where
  "limited_cpu_run insns cb n e r \<longleftrightarrow>
     fst r \<le> n \<and> (\<exists>e1. cpu_steps insns cb (fst r) e = Some e1 \<and>
       (if fst r = n then snd r = e1
        else fst (cpu_step_with_prefetch insns cb e1 []) \<noteq> CPU_STEP_OK \<and> snd r = snd (cpu_step_with_prefetch insns cb e1 [])))"

lemma limited_cpu_run_step:
  assumes "fst (cpu_step_with_prefetch insns cb e []) = CPU_STEP_OK"
    and "limited_cpu_run insns cb n (snd (cpu_step_with_prefetch insns cb e [])) (k, e1)"
  shows "limited_cpu_run insns cb (Suc n) e (Suc k, e1)"
proof -
  have "cpu_steps insns cb (Suc k) e = cpu_steps insns cb k (snd (cpu_step_with_prefetch insns cb e []))"
    using assms(1) by (simp add: Let_def)
  with assms(2) show ?thesis unfolding limited_cpu_run_def fst_conv snd_conv Suc_le_mono nat.inject by metis
qed

lemma cpu_run_loop_returns:
  assumes "max_steps \<noteq> 0"
  shows "executed \<le> max_steps \<Longrightarrow> \<exists>k e1. cpu_run_loop insns cb max_steps executed e = Some (executed + of_nat k, e1) \<and>
    limited_cpu_run insns cb (unat (max_steps - executed)) e (k, e1)"
proof (induction "unat (max_steps - executed)" arbitrary: executed e rule: less_induct)
  case less
  let ?r = "cpu_step_with_prefetch insns cb e []"
  show ?case
  proof (cases "executed = max_steps")
    case True
    then have "cpu_run_loop insns cb max_steps executed e = Some (executed, e)"
      by (subst cpu_run_loop.simps) (simp add: assms)
    then show ?thesis using True by (intro exI [of _ 0] exI [of _ e]) (simp add: limited_cpu_run_def)
  next
    case False
    then have lt: "executed < max_steps" using less.prems by auto
    have nz: "unat (max_steps - executed) \<noteq> 0" using lt by (auto simp: unat_eq_zero)
    have halt: "CPU_STEP_HALT \<noteq> CPU_STEP_OK" by (simp add: cpu_defs)
    have eq: "cpu_run_loop insns cb max_steps executed e =
        (if fst ?r = CPU_STEP_OK then cpu_run_loop insns cb max_steps (executed + 1) (snd ?r) else Some (executed, snd ?r))"
      using lt halt by (subst cpu_run_loop.simps) (auto simp: Let_def not_le)
    show ?thesis
    proof (cases "fst ?r = CPU_STEP_OK")
      case ok: False
      then show ?thesis using eq nz
        by (intro exI [of _ 0] exI [of _ "snd ?r"]) (simp add: limited_cpu_run_def)
    next
      case ok: True
      have "executed + 1 \<le> max_steps" using lt by (rule inc_le)
      from less.hyps [OF steps_left_less [OF lt] this, of "snd ?r"] obtain k e1 where
        k: "cpu_run_loop insns cb max_steps (executed + 1) (snd ?r) = Some (executed + 1 + of_nat k, e1)"
          "limited_cpu_run insns cb (unat (max_steps - (executed + 1))) (snd ?r) (k, e1)" by blast
      have n: "unat (max_steps - executed) = Suc (unat (max_steps - (executed + 1)))"
        by (rule steps_left [OF lt])
      show ?thesis
        using eq ok k(1) limited_cpu_run_step [OF ok k(2)] unfolding n
        by (intro exI [of _ "Suc k"] exI [of _ e1]) (simp add: add_ac)
    qed
  qed
qed

end
