(* ===== verification/Operand.thy ===== *)
theory Operand
  imports Executor
begin

text \<open>
  What the instruction files share. Every file of \<^verbatim>\<open>instructions/\<close> has its own copy of the prefix
  loop, of the ModRM decoding and of the operand access; the copies are the same up to the name and
  to a few variations, which are the parameters here. The definitions of the instruction theories
  keep the names of the source and are instances of these.

  A decoder takes the context and the bytes and returns the decoded instruction and the context. It
  may return early: \<open>Inl\<close> is the result of an early return, \<open>Inr\<close> the instruction, the offset and the
  context with which decoding goes on.
\<close>

unbundle bit_operations_syntax

named_theorems insn_defs \<open>definitions of the instruction handlers\<close>
named_theorems operand_defs \<open>operand access of the instruction handlers\<close>

type_synonym dstate = "DecodedInstruction \<times> nat \<times> CPU_CONTEXT"
type_synonym dresult = "(DecodedInstruction \<times> CPU_CONTEXT) + dstate"

subsection \<open>Register numbers and fields\<close>

definition rm_index :: "CPU_CONTEXT \<Rightarrow> u8 \<Rightarrow> nat" where
  "rm_index ctx modrm = unat (if rex_b ctx then modrm AND 0x07 OR 0x08 else modrm AND 0x07)"

definition reg_index :: "CPU_CONTEXT \<Rightarrow> u8 \<Rightarrow> nat" where
  "reg_index ctx modrm =
     unat (if rex_r ctx then drop_bit 3 modrm AND 0x07 OR 0x08 else drop_bit 3 modrm AND 0x07)"

definition modrm_reg :: "u8 \<Rightarrow> u8" where "modrm_reg modrm = drop_bit 3 modrm AND 0x07"

subsection \<open>Prefixes\<close>

text \<open>A REX byte by its range alone, whatever the mode.\<close>

definition apply_rex_byte :: "CPU_CONTEXT \<Rightarrow> u8 \<Rightarrow> bool \<times> CPU_CONTEXT" where
  "apply_rex_byte ctx prefix =
     (if prefix < 0x40 \<or> prefix > 0x4F then (False, ctx)
      else (True, ctx\<lparr>rex_present := True, rex_w := (drop_bit 3 prefix AND 1 \<noteq> 0),
                      rex_r := (drop_bit 2 prefix AND 1 \<noteq> 0), rex_x := (drop_bit 1 prefix AND 1 \<noteq> 0),
                      rex_b := (prefix AND 1 \<noteq> 0)\<rparr>))"

text \<open>
  The prefix loop on the bytes that are left; \<open>offset\<close> counts those consumed and \<open>lock\<close> says whether
  0xF0 was among them. \<open>rex\<close> is how a REX byte is recognised and \<open>on_lock\<close> what 0xF0 does at once.
\<close>

fun prefix_loop ::
  "(CPU_CONTEXT \<Rightarrow> u8 \<Rightarrow> bool \<times> CPU_CONTEXT) \<Rightarrow> (CPU_CONTEXT \<Rightarrow> CPU_CONTEXT) \<Rightarrow> u8 list \<Rightarrow> nat \<Rightarrow> bool \<Rightarrow>
   CPU_CONTEXT \<Rightarrow> bool \<times> nat \<times> CPU_CONTEXT" where
  "prefix_loop rex on_lock [] offset lock ctx = (lock, offset, ctx)"
| "prefix_loop rex on_lock (prefix # rest) offset lock ctx =
     (if prefix = 0x66
      then prefix_loop rex on_lock rest (offset + 1) lock (ctx\<lparr>operand_size_override := True\<rparr>)
      else if prefix = 0x67
      then prefix_loop rex on_lock rest (offset + 1) lock (ctx\<lparr>address_size_override := True\<rparr>)
      else
        case rex ctx prefix of
          (True, ctx1) \<Rightarrow> prefix_loop rex on_lock rest (offset + 1) lock ctx1
        | (False, ctx1) \<Rightarrow>
            if prefix = 0xF0 then prefix_loop rex on_lock rest (offset + 1) True (on_lock ctx1)
            else if prefix \<in> {0x26, 0x2E, 0x36, 0x3E, 0x64, 0x65, 0xF2, 0xF3}
            then prefix_loop rex on_lock rest (offset + 1) lock ctx1
            else (lock, offset, ctx1))"

definition decode_prefixes ::
  "(CPU_CONTEXT \<Rightarrow> u8 \<Rightarrow> bool \<times> CPU_CONTEXT) \<Rightarrow> (CPU_CONTEXT \<Rightarrow> CPU_CONTEXT) \<Rightarrow> CPU_CONTEXT \<Rightarrow> u8 list \<Rightarrow>
   bool \<times> nat \<times> CPU_CONTEXT" where
  "decode_prefixes rex on_lock ctx code =
     prefix_loop rex on_lock code 0 False (cpu_reset_prefix_state ctx)"

definition default_operand_size :: "CPU_CONTEXT \<Rightarrow> int" where
  "default_operand_size ctx = (if rex_w ctx then 64 else if operand_size_override ctx then 16 else 32)"

definition default_address_size :: "CPU_CONTEXT \<Rightarrow> int" where
  "default_address_size ctx =
     (if sd_long_mode (sr_descriptor (cs ctx)) then (if address_size_override ctx then 32 else 64)
      else if address_size_override ctx then 16 else 32)"

text \<open>The opening that most decoders share: the prefixes, the opcode byte and the two sizes.\<close>

definition decode_opening ::
  "(CPU_CONTEXT \<Rightarrow> u8 \<Rightarrow> bool \<times> CPU_CONTEXT) \<Rightarrow> (CPU_CONTEXT \<Rightarrow> CPU_CONTEXT) \<Rightarrow> CPU_CONTEXT \<Rightarrow> u8 list \<Rightarrow>
   bool \<times> dresult" where
  "decode_opening rex on_lock ctx code =
     (case decode_prefixes rex on_lock ctx code of
        (lock, offset, ctx1) \<Rightarrow>
          (lock,
           if length code \<le> offset then Inl (zero_decoded_instruction, raise_gp_ctx ctx1 0)
           else Inr (zero_decoded_instruction\<lparr>di_opcode := code ! offset,
                       di_operand_size := default_operand_size ctx1,
                       di_address_size := default_address_size ctx1\<rparr>, offset + 1, ctx1)))"

subsection \<open>The parts of a decoder\<close>

definition decode_then :: "dresult \<Rightarrow> (dstate \<Rightarrow> dresult) \<Rightarrow> dresult" where
  "decode_then r f = (case r of Inl x \<Rightarrow> Inl x | Inr s \<Rightarrow> f s)"

definition with_inst :: "(DecodedInstruction \<Rightarrow> DecodedInstruction) \<Rightarrow> dstate \<Rightarrow> dresult" where
  "with_inst f s = (case s of (inst, offset, ctx) \<Rightarrow> Inr (f inst, offset, ctx))"

definition ud_if :: "bool \<Rightarrow> dstate \<Rightarrow> dresult" where
  "ud_if b s = (case s of (inst, offset, ctx) \<Rightarrow> Inr (inst, offset, if b then raise_ud_ctx ctx else ctx))"

definition ud_unless_group :: "u8 \<Rightarrow> dstate \<Rightarrow> dresult" where
  "ud_unless_group g s =
     (case s of (inst, offset, ctx) \<Rightarrow>
        Inr (inst, offset, if modrm_reg (di_modrm inst) \<noteq> g then raise_ud_ctx ctx else ctx))"

text \<open>
  The ModRM byte with its SIB byte and displacement. The three forms of the source: one that accepts
  a LOCK prefix on a memory operand only, one that accepts none, and one that does not look at it.
  The checks are at the end of the functions, so they are skipped when the bytes run out.
\<close>

definition decode_modrm_plain :: "u8 list \<Rightarrow> dstate \<Rightarrow> dresult" where
  "decode_modrm_plain code s =
     (case s of (inst, offset, ctx) \<Rightarrow>
        case decode_modrm_operand ctx inst code offset of
          (inst1, offset1, ctx1, done) \<Rightarrow> Inr (inst1, offset1, ctx1))"

definition decode_modrm_lockable :: "bool \<Rightarrow> u8 list \<Rightarrow> dstate \<Rightarrow> dresult" where
  "decode_modrm_lockable lock code s =
     (case s of (inst, offset, ctx) \<Rightarrow>
        case decode_modrm_operand ctx inst code offset of
          (inst1, offset1, ctx1, done) \<Rightarrow>
            Inr (inst1, offset1,
                 if done \<and> lock \<and> modrm_mod (di_modrm inst1) = 3 then raise_ud_ctx ctx1 else ctx1))"

definition decode_modrm_unlocked :: "bool \<Rightarrow> u8 list \<Rightarrow> dstate \<Rightarrow> dresult" where
  "decode_modrm_unlocked lock code s =
     (case s of (inst, offset, ctx) \<Rightarrow>
        case decode_modrm_operand ctx inst code offset of
          (inst1, offset1, ctx1, done) \<Rightarrow>
            Inr (inst1, offset1, if done \<and> lock then raise_ud_ctx ctx1 else ctx1))"

text \<open>An immediate of \<open>n\<close> bytes, little-endian.\<close>

definition decode_imm :: "nat \<Rightarrow> u8 list \<Rightarrow> dstate \<Rightarrow> dresult" where
  "decode_imm n code s =
     (case s of (inst, offset, ctx) \<Rightarrow>
        let inst1 = inst\<lparr>di_imm_size := int n\<rparr>
        in if length code < offset + n then Inl (inst1, raise_gp_ctx ctx 0)
           else Inr (inst1\<lparr>di_immediate := le_load (take n (drop offset code))\<rparr>, offset + n, ctx))"

definition full_imm_size :: "CPU_CONTEXT \<Rightarrow> nat" where
  "full_imm_size ctx = (if rex_w ctx then 4 else if operand_size_override ctx then 2 else 4)"

definition decode_full_imm :: "u8 list \<Rightarrow> dstate \<Rightarrow> dresult" where
  "decode_full_imm code s = (case s of (inst, offset, ctx) \<Rightarrow> decode_imm (full_imm_size ctx) code s)"

text \<open>
  The parts the later files compose in other orders: the next opcode byte, the sizes, a check that
  raises #UD and goes on, and the size of the instruction. \<open>decode_seq\<close> runs parts one after the other and
  \<open>by_opcode\<close> selects by the opcode.
\<close>

definition next_opcode :: "u8 list \<Rightarrow> dstate \<Rightarrow> dresult" where
  "next_opcode code s =
     (case s of (inst, offset, ctx) \<Rightarrow>
        if length code \<le> offset then Inl (inst, raise_gp_ctx ctx 0)
        else Inr (inst\<lparr>di_opcode := code ! offset\<rparr>, offset + 1, ctx))"

definition set_sizes :: "(CPU_CONTEXT \<Rightarrow> int) \<Rightarrow> (CPU_CONTEXT \<Rightarrow> int) \<Rightarrow> dstate \<Rightarrow> dresult" where
  "set_sizes os as s =
     (case s of (inst, offset, ctx) \<Rightarrow>
        Inr (inst\<lparr>di_operand_size := os ctx, di_address_size := as ctx\<rparr>, offset, ctx))"

definition ud_when :: "(DecodedInstruction \<Rightarrow> CPU_CONTEXT \<Rightarrow> bool) \<Rightarrow> dstate \<Rightarrow> dresult" where
  "ud_when P s =
     (case s of (inst, offset, ctx) \<Rightarrow> Inr (inst, offset, if P inst ctx then raise_ud_ctx ctx else ctx))"

definition note_inst_size :: "dstate \<Rightarrow> dresult" where
  "note_inst_size s = (case s of (inst, offset, ctx) \<Rightarrow> Inr (inst\<lparr>di_inst_size := int offset\<rparr>, offset, ctx))"

fun decode_seq :: "(dstate \<Rightarrow> dresult) list \<Rightarrow> dstate \<Rightarrow> dresult" where
  "decode_seq [] s = Inr s"
| "decode_seq (f # parts) s = decode_then (f s) (decode_seq parts)"

definition by_opcode :: "(u8 \<Rightarrow> bool) \<Rightarrow> (dstate \<Rightarrow> dresult) \<Rightarrow> (dstate \<Rightarrow> dresult) \<Rightarrow> dstate \<Rightarrow> dresult" where
  "by_opcode P f g s = (if P (di_opcode (fst s)) then f s else g s)"

text \<open>A part that runs only if the context satisfies a condition.\<close>

definition when_ctx :: "(CPU_CONTEXT \<Rightarrow> bool) \<Rightarrow> (dstate \<Rightarrow> dresult) \<Rightarrow> (dstate \<Rightarrow> dresult) \<Rightarrow> dstate \<Rightarrow> dresult" where
  "when_ctx P f g s = (if P (snd (snd s)) then f s else g s)"

text \<open>An early return with #UD.\<close>

definition quit_ud :: "dstate \<Rightarrow> dresult" where
  "quit_ud s = (case s of (inst, offset, ctx) \<Rightarrow> Inl (inst, raise_ud_ctx ctx))"

definition decode_finish :: "dresult \<Rightarrow> DecodedInstruction \<times> CPU_CONTEXT" where
  "decode_finish r =
     (case r of
        Inl x \<Rightarrow> x
      | Inr (inst, offset, ctx) \<Rightarrow>
          (case finalize_rip_relative_address ctx inst (int offset) of
             (ctx1, inst1) \<Rightarrow> (inst1, ctx1\<lparr>last_inst_size := int offset\<rparr>)))"

text \<open>A decoder: the prefixes, a body on the empty instruction, and the end.\<close>

definition decode_with ::
  "(CPU_CONTEXT \<Rightarrow> u8 \<Rightarrow> bool \<times> CPU_CONTEXT) \<Rightarrow> (CPU_CONTEXT \<Rightarrow> CPU_CONTEXT) \<Rightarrow>
   (bool \<Rightarrow> u8 list \<Rightarrow> dstate \<Rightarrow> dresult) \<Rightarrow> CPU_CONTEXT \<Rightarrow> u8 list \<Rightarrow> DecodedInstruction \<times> CPU_CONTEXT" where
  "decode_with rex on_lock f ctx code =
     (case decode_prefixes rex on_lock ctx code of
        (lock, offset, ctx1) \<Rightarrow> decode_finish (f lock code (zero_decoded_instruction, offset, ctx1)))"

subsection \<open>Operands\<close>

text \<open>
  A register or memory operand at each width; \<open>rm\<close> is the register number, read when the source
  reads it.
\<close>

definition read_rm8 :: "callbacks \<Rightarrow> u8 \<Rightarrow> nat \<Rightarrow> u64 \<Rightarrow> cpueaxh_engine \<Rightarrow> u8 \<times> cpueaxh_engine" where
  [operand_defs]: "read_rm8 cb modrm rm mem_addr e =
     (if modrm_mod modrm = 3 then (get_reg8 (cpu_ctx e) rm, e) else read_memory_byte cb e mem_addr)"
definition read_rm16 :: "callbacks \<Rightarrow> u8 \<Rightarrow> nat \<Rightarrow> u64 \<Rightarrow> cpueaxh_engine \<Rightarrow> u16 \<times> cpueaxh_engine" where
  [operand_defs]: "read_rm16 cb modrm rm mem_addr e =
     (if modrm_mod modrm = 3 then (get_reg16 (cpu_ctx e) rm, e) else read_memory_word cb e mem_addr)"
definition read_rm32 :: "callbacks \<Rightarrow> u8 \<Rightarrow> nat \<Rightarrow> u64 \<Rightarrow> cpueaxh_engine \<Rightarrow> u32 \<times> cpueaxh_engine" where
  [operand_defs]: "read_rm32 cb modrm rm mem_addr e =
     (if modrm_mod modrm = 3 then (get_reg32 (cpu_ctx e) rm, e) else read_memory_dword cb e mem_addr)"
definition read_rm64 :: "callbacks \<Rightarrow> u8 \<Rightarrow> nat \<Rightarrow> u64 \<Rightarrow> cpueaxh_engine \<Rightarrow> u64 \<times> cpueaxh_engine" where
  [operand_defs]: "read_rm64 cb modrm rm mem_addr e =
     (if modrm_mod modrm = 3 then (get_reg64 (cpu_ctx e) rm, e) else read_memory_qword cb e mem_addr)"

definition write_rm8 :: "callbacks \<Rightarrow> u8 \<Rightarrow> nat \<Rightarrow> u64 \<Rightarrow> u8 \<Rightarrow> cpueaxh_engine \<Rightarrow> cpueaxh_engine" where
  [operand_defs]: "write_rm8 cb modrm rm mem_addr v e =
     (if modrm_mod modrm = 3 then on_ctx (\<lambda>c. set_reg8 c rm v) e else write_memory_byte cb e mem_addr v)"
definition write_rm16 :: "callbacks \<Rightarrow> u8 \<Rightarrow> nat \<Rightarrow> u64 \<Rightarrow> u16 \<Rightarrow> cpueaxh_engine \<Rightarrow> cpueaxh_engine" where
  [operand_defs]: "write_rm16 cb modrm rm mem_addr v e =
     (if modrm_mod modrm = 3 then on_ctx (\<lambda>c. set_reg16 c rm v) e else write_memory_word cb e mem_addr v)"
definition write_rm32 :: "callbacks \<Rightarrow> u8 \<Rightarrow> nat \<Rightarrow> u64 \<Rightarrow> u32 \<Rightarrow> cpueaxh_engine \<Rightarrow> cpueaxh_engine" where
  [operand_defs]: "write_rm32 cb modrm rm mem_addr v e =
     (if modrm_mod modrm = 3 then on_ctx (\<lambda>c. set_reg32 c rm v) e else write_memory_dword cb e mem_addr v)"
definition write_rm64 :: "callbacks \<Rightarrow> u8 \<Rightarrow> nat \<Rightarrow> u64 \<Rightarrow> u64 \<Rightarrow> cpueaxh_engine \<Rightarrow> cpueaxh_engine" where
  [operand_defs]: "write_rm64 cb modrm rm mem_addr v e =
     (if modrm_mod modrm = 3 then on_ctx (\<lambda>c. set_reg64 c rm v) e else write_memory_qword cb e mem_addr v)"

text \<open>The same by operand size, with the value in 64 bits, as the later files have it.\<close>

definition read_reg_sized :: "nat \<Rightarrow> int \<Rightarrow> cpueaxh_engine \<Rightarrow> u64 \<times> cpueaxh_engine" where
  [operand_defs]: "read_reg_sized r operand_size e =
     (let c = cpu_ctx e
      in if operand_size = 8 then (ucast (get_reg8 c r), e)
         else if operand_size = 16 then (ucast (get_reg16 c r), e)
         else if operand_size = 32 then (ucast (get_reg32 c r), e)
         else if operand_size = 64 then (get_reg64 c r, e) else (0, on_ctx raise_ud_ctx e))"

definition write_reg_sized :: "nat \<Rightarrow> int \<Rightarrow> u64 \<Rightarrow> cpueaxh_engine \<Rightarrow> cpueaxh_engine" where
  [operand_defs]: "write_reg_sized r operand_size v e =
     on_ctx (\<lambda>c. if operand_size = 8 then set_reg8 c r (ucast v)
                 else if operand_size = 16 then set_reg16 c r (ucast v)
                 else if operand_size = 32 then set_reg32 c r (ucast v)
                 else if operand_size = 64 then set_reg64 c r v else raise_ud_ctx c) e"

definition read_mem_sized :: "callbacks \<Rightarrow> u64 \<Rightarrow> int \<Rightarrow> cpueaxh_engine \<Rightarrow> u64 \<times> cpueaxh_engine" where
  [operand_defs]: "read_mem_sized cb mem_addr operand_size e =
     (if operand_size = 8 then map_prod ucast id (read_memory_byte cb e mem_addr)
      else if operand_size = 16 then map_prod ucast id (read_memory_word cb e mem_addr)
      else if operand_size = 32 then map_prod ucast id (read_memory_dword cb e mem_addr)
      else if operand_size = 64 then read_memory_qword cb e mem_addr else (0, on_ctx raise_ud_ctx e))"

definition write_mem_sized :: "callbacks \<Rightarrow> u64 \<Rightarrow> int \<Rightarrow> u64 \<Rightarrow> cpueaxh_engine \<Rightarrow> cpueaxh_engine" where
  [operand_defs]: "write_mem_sized cb mem_addr operand_size v e =
     (if operand_size = 8 then write_memory_byte cb e mem_addr (ucast v)
      else if operand_size = 16 then write_memory_word cb e mem_addr (ucast v)
      else if operand_size = 32 then write_memory_dword cb e mem_addr (ucast v)
      else if operand_size = 64 then write_memory_qword cb e mem_addr v else on_ctx raise_ud_ctx e)"

definition read_rm_sized ::
  "callbacks \<Rightarrow> u8 \<Rightarrow> u64 \<Rightarrow> int \<Rightarrow> cpueaxh_engine \<Rightarrow> u64 \<times> cpueaxh_engine" where
  [operand_defs]: "read_rm_sized cb modrm mem_addr operand_size e =
     (if modrm_mod modrm = 3 then read_reg_sized (rm_index (cpu_ctx e) modrm) operand_size e
      else read_mem_sized cb mem_addr operand_size e)"

definition write_rm_sized ::
  "callbacks \<Rightarrow> u8 \<Rightarrow> u64 \<Rightarrow> int \<Rightarrow> u64 \<Rightarrow> cpueaxh_engine \<Rightarrow> cpueaxh_engine" where
  [operand_defs]: "write_rm_sized cb modrm mem_addr operand_size v e =
     (if modrm_mod modrm = 3 then write_reg_sized (rm_index (cpu_ctx e) modrm) operand_size v e
      else write_mem_sized cb mem_addr operand_size v e)"

text \<open>
  Read, compute, write. \<open>f\<close> gives the result and the context with the flags updated; the write
  comes after the flags, as in the source.
\<close>

definition rmw ::
  "(cpueaxh_engine \<Rightarrow> 'v \<times> cpueaxh_engine) \<Rightarrow> ('v \<Rightarrow> cpueaxh_engine \<Rightarrow> cpueaxh_engine) \<Rightarrow>
   (CPU_CONTEXT \<Rightarrow> 'v \<Rightarrow> 'v \<times> CPU_CONTEXT) \<Rightarrow> cpueaxh_engine \<Rightarrow> cpueaxh_engine" where
  [operand_defs]: "rmw rd wr f e =
     (case rd e of
        (dst, e1) \<Rightarrow> (case f (cpu_ctx e1) dst of (r, c) \<Rightarrow> wr r (e1\<lparr>cpu_ctx := c\<rparr>)))"

subsection \<open>Handlers\<close>

text \<open>
  \<^verbatim>\<open>execute_*\<close> decodes the bytes and, unless that raised an exception, runs the decoded instruction.
  The fast handlers run the cached instruction; one form computes the effective address again,
  the other uses the cached one.
\<close>

definition execute_decoding ::
  "(CPU_CONTEXT \<Rightarrow> u8 list \<Rightarrow> DecodedInstruction \<times> CPU_CONTEXT) \<Rightarrow>
   (callbacks \<Rightarrow> cpueaxh_engine \<Rightarrow> DecodedInstruction \<Rightarrow> cpueaxh_engine) \<Rightarrow>
   callbacks \<Rightarrow> cpueaxh_engine \<Rightarrow> u8 list \<Rightarrow> cpueaxh_engine" where
  "execute_decoding decode run cb e code =
     (case decode (cpu_ctx e) code of
        (inst, c) \<Rightarrow> if cpu_has_exception c then e\<lparr>cpu_ctx := c\<rparr> else run cb (e\<lparr>cpu_ctx := c\<rparr>) inst)"

text \<open>The same for handlers that may not return.\<close>

definition execute_decoding_opt ::
  "(CPU_CONTEXT \<Rightarrow> u8 list \<Rightarrow> DecodedInstruction \<times> CPU_CONTEXT) \<Rightarrow>
   (callbacks \<Rightarrow> cpueaxh_engine \<Rightarrow> DecodedInstruction \<Rightarrow> cpueaxh_engine option) \<Rightarrow>
   callbacks \<Rightarrow> cpueaxh_engine \<Rightarrow> u8 list \<Rightarrow> cpueaxh_engine option" where
  "execute_decoding_opt decode run cb e code =
     (case decode (cpu_ctx e) code of
        (inst, c) \<Rightarrow>
          if cpu_has_exception c then Some (e\<lparr>cpu_ctx := c\<rparr>) else run cb (e\<lparr>cpu_ctx := c\<rparr>) inst)"

definition fast_prefix :: "DecodedInst \<Rightarrow> CPU_CONTEXT \<Rightarrow> CPU_CONTEXT" where
  "fast_prefix dec c = (decoded_inst_apply_prefix c dec)\<lparr>last_inst_size := uint (dc_length dec)\<rparr>"

definition execute_cached ::
  "(callbacks \<Rightarrow> cpueaxh_engine \<Rightarrow> DecodedInstruction \<Rightarrow> 'r) \<Rightarrow>
   callbacks \<Rightarrow> cpueaxh_engine \<Rightarrow> DecodedInst \<Rightarrow> 'r" where
  "execute_cached run cb e dec = run cb (on_ctx (fast_prefix dec) e) (dc_cached dec)"

definition execute_cached_recompute ::
  "(callbacks \<Rightarrow> cpueaxh_engine \<Rightarrow> DecodedInstruction \<Rightarrow> 'r) \<Rightarrow>
   callbacks \<Rightarrow> cpueaxh_engine \<Rightarrow> DecodedInst \<Rightarrow> 'r" where
  "execute_cached_recompute run cb e dec =
     (let e1 = on_ctx (fast_prefix dec) e; live = dc_cached dec
      in if \<not> decoded_inst_needs_mem_recompute live then run cb e1 live
         else case get_effective_address (cpu_ctx e1) (di_modrm live) (Some (di_sib live))
                     (di_displacement live) (di_address_size live) (uint (dc_length dec)) of
                (a, c) \<Rightarrow> run cb (e1\<lparr>cpu_ctx := c\<rparr>) (live\<lparr>di_mem_address := a\<rparr>))"

end
