(* ===== verification/Replay.thy ===== *)
theory Replay
  imports Operand
begin

text \<open>
  Replaying a decoded instruction. The decoder of \<^verbatim>\<open>cpu/decoder.hpp\<close> runs the \<^verbatim>\<open>decode_*\<close> function of a
  handler once, stores what it returns in the instruction cache and lets a fast handler run the
  stored instruction on later visits. This is right when the function depends on nothing but the
  bytes and the mode, apart from the effective address.

  \<open>decode_step\<close> is the contract of one part of such a function and \<open>replayable\<close> that of the whole;
  the parts of \<^verbatim>\<open>Operand\<close> satisfy the first, so a decoder built from them satisfies the second. Each
  instruction theory interprets \<open>replayable\<close> with its own decoder and handler.
\<close>

unbundle bit_operations_syntax

named_theorems decode_steps \<open>parts of decoders that meet the contract\<close>

subsection \<open>Probing and attaching\<close>

definition cpu_decoder_probe_with_helper ::
  "CPU_CONTEXT \<Rightarrow> u8 list \<Rightarrow> (CPU_CONTEXT \<Rightarrow> u8 list \<Rightarrow> DecodedInstruction \<times> CPU_CONTEXT) \<Rightarrow>
   (DecodedInstruction \<times> CPU_CONTEXT \<times> u8) option \<times> CPU_CONTEXT" where
  "cpu_decoder_probe_with_helper ctx code decoder =
     (let saved = decoder_save_ctx_scratch ctx
      in case decoder ctx code of
           (probe, c) \<Rightarrow>
             (if \<not> cpu_has_exception c
              then Some (probe, c,
                     if last_inst_size c > 0 \<and> last_inst_size c \<le> int DECODED_INST_MAX_BYTES
                     then word_of_int (last_inst_size c) else 0)
              else None, decoder_restore_ctx_scratch c saved))"

definition cpu_decoder_dec_inst_safe_to_replay_recompute_addr :: "DecodedInstruction \<Rightarrow> bool" where
  "cpu_decoder_dec_inst_safe_to_replay_recompute_addr d = True"

text \<open>
  The two local functions of \<^verbatim>\<open>cpu_decoder_try_attach_fast_handler\<close>; \<open>safe\<close> is the filter that tells
  them apart.
\<close>

definition attach_probed ::
  "(DecodedInstruction \<Rightarrow> bool) \<Rightarrow> CPU_CONTEXT \<Rightarrow> DecodedInst \<Rightarrow>
   (CPU_CONTEXT \<Rightarrow> u8 list \<Rightarrow> DecodedInstruction \<times> CPU_CONTEXT) \<Rightarrow> u64 \<Rightarrow> DecodedInst \<times> CPU_CONTEXT" where
  "attach_probed safe ctx dec decode_fn fast_fn =
     (case cpu_decoder_probe_with_helper ctx (decoded_code dec) decode_fn of
        (None, c) \<Rightarrow> (dec, c)
      | (Some (probe, probed, len), c) \<Rightarrow>
          (if len > 0 \<and> safe probe
           then (decoded_inst_capture_prefix_from_ctx dec probed)
                  \<lparr>dc_cached := probe, dc_length := len, dc_fast_handler := fast_fn\<rparr>
           else dec, c))"

definition attach_one ::
  "CPU_CONTEXT \<Rightarrow> DecodedInst \<Rightarrow> (CPU_CONTEXT \<Rightarrow> u8 list \<Rightarrow> DecodedInstruction \<times> CPU_CONTEXT) \<Rightarrow> u64 \<Rightarrow>
   DecodedInst \<times> CPU_CONTEXT" where
  "attach_one = attach_probed cpu_decoder_dec_inst_safe_to_replay"

definition attach_one_recompute_addr ::
  "CPU_CONTEXT \<Rightarrow> DecodedInst \<Rightarrow> (CPU_CONTEXT \<Rightarrow> u8 list \<Rightarrow> DecodedInstruction \<times> CPU_CONTEXT) \<Rightarrow> u64 \<Rightarrow>
   DecodedInst \<times> CPU_CONTEXT" where
  "attach_one_recompute_addr = attach_probed cpu_decoder_dec_inst_safe_to_replay_recompute_addr"

subsection \<open>What a part of a decoder depends on\<close>

text \<open>Two contexts agree when they have the same prefix bits and the same mode.\<close>

definition agrees :: "CPU_CONTEXT \<Rightarrow> CPU_CONTEXT \<Rightarrow> bool" where
  "agrees c d \<longleftrightarrow>
     rex_present c = rex_present d \<and> rex_w c = rex_w d \<and> rex_r c = rex_r d \<and> rex_x c = rex_x d \<and>
     rex_b c = rex_b d \<and> operand_size_override c = operand_size_override d \<and>
     address_size_override c = address_size_override d \<and>
     long_mode_active c = long_mode_active d \<and>
     sd_long_mode (sr_descriptor (cs c)) = sd_long_mode (sr_descriptor (cs d)) \<and>
     sd_db (sr_descriptor (cs c)) = sd_db (sr_descriptor (cs d))"

definition same_mode :: "CPU_CONTEXT \<Rightarrow> CPU_CONTEXT \<Rightarrow> bool" where
  "same_mode c d \<longleftrightarrow> cpu_inst_cache_compute_mode_key_bits c = cpu_inst_cache_compute_mode_key_bits d"

lemma same_mode_iff:
  "same_mode c d \<longleftrightarrow> long_mode_active c = long_mode_active d \<and>
     sd_long_mode (sr_descriptor (cs c)) = sd_long_mode (sr_descriptor (cs d)) \<and>
     sd_db (sr_descriptor (cs c)) = sd_db (sr_descriptor (cs d))"
  by (simp add: same_mode_def cpu_inst_cache_compute_mode_key_bits_def cpu_defs Let_def)

definition same_static :: "DecodedInstruction \<Rightarrow> DecodedInstruction \<Rightarrow> bool" where
  "same_static i j \<longleftrightarrow> i\<lparr>di_mem_address := 0\<rparr> = j\<lparr>di_mem_address := 0\<rparr>"

definition effective_address :: "CPU_CONTEXT \<Rightarrow> DecodedInstruction \<Rightarrow> int \<Rightarrow> u64 \<times> CPU_CONTEXT" where
  "effective_address c i n =
     get_effective_address c (di_modrm i) (Some (di_sib i)) (di_displacement i) (di_address_size i) n"

definition memory_form :: "DecodedInstruction \<Rightarrow> bool" where
  "memory_form i \<longleftrightarrow> di_has_modrm i \<and> modrm_mod (di_modrm i) \<noteq> 3"

definition addressed :: "CPU_CONTEXT \<Rightarrow> DecodedInstruction \<Rightarrow> int \<Rightarrow> bool" where
  "addressed c i n \<longleftrightarrow>
     (memory_form i \<longrightarrow> effective_address c i n = (di_mem_address i, c)) \<and>
     (\<not> memory_form i \<longrightarrow> di_mem_address i = 0)"

text \<open>A context that differs by a raised exception at most.\<close>

definition fault_only :: "CPU_CONTEXT \<Rightarrow> CPU_CONTEXT \<Rightarrow> bool" where
  "fault_only c d \<longleftrightarrow> d = c \<or> cpu_has_exception d \<and> (\<exists>x. d = c\<lparr>exception_state := x\<rparr>)"

lemma fault_only_refl [simp]: "fault_only c c" by (simp add: fault_only_def)

lemma fault_only_trans: "fault_only c d \<Longrightarrow> fault_only d f \<Longrightarrow> fault_only c f"
  by (auto simp: fault_only_def)

lemma fault_only_quiet: "fault_only c d \<Longrightarrow> \<not> cpu_has_exception d \<Longrightarrow> d = c"
  by (auto simp: fault_only_def)

lemma cpu_raise_exception_fault_only: "code \<noteq> CPU_EXCEPTION_NONE \<Longrightarrow> fault_only c (cpu_raise_exception c code err)"
  by (auto simp: fault_only_def cpu_raise_exception_def cpu_has_exception_def)

lemma raise_fault_only [simp]: "fault_only c (raise_gp_ctx c n)" "fault_only c (raise_ud_ctx c)"
  by (auto simp: raise_defs cpu_defs intro!: cpu_raise_exception_fault_only)

lemma validate_fault_only: "fault_only c (snd (cpu_validate_linear_address c a s))"
  by (auto simp: cpu_validate_linear_address_def cpu_raise_noncanonical_address_def raise_defs cpu_defs
      intro!: cpu_raise_exception_fault_only)

lemma gea_fault_only: "fault_only c (snd (get_effective_address c m s d z n))"
  using validate_fault_only by (simp add: get_effective_address_def Let_def)


lemma agrees_modes:
  assumes "agrees c d"
  shows "cpu_allows_rex_prefix c = cpu_allows_rex_prefix d" "cpu_is_64bit_code c = cpu_is_64bit_code d"
    "default_operand_size c = default_operand_size d" "default_address_size c = default_address_size d"
    "full_imm_size c = full_imm_size d"
  using assms
  by (simp_all add: agrees_def cpu_allows_rex_prefix_def cpu_is_64bit_code_def cpu_long_mode_active_def
      default_operand_size_def default_address_size_def full_imm_size_def)

lemma agrees_refl [simp]: "agrees c c" by (simp add: agrees_def)

lemma agrees_exception [simp]:
  "agrees (c\<lparr>exception_state := x\<rparr>) d = agrees c d" "agrees c (d\<lparr>exception_state := x\<rparr>) = agrees c d"
  by (simp_all add: agrees_def)

lemma same_static_refl [simp]: "same_static i i" by (simp add: same_static_def)

lemma same_staticD:
  assumes "same_static i j"
  shows "di_opcode i = di_opcode j" "di_has_modrm i = di_has_modrm j" "di_modrm i = di_modrm j"
    "di_has_sib i = di_has_sib j" "di_sib i = di_sib j" "di_displacement i = di_displacement j"
    "di_address_size i = di_address_size j" "j = i\<lparr>di_mem_address := di_mem_address j\<rparr>"
proof -
  have e: "i\<lparr>di_mem_address := 0\<rparr> = j\<lparr>di_mem_address := 0\<rparr>" using assms by (simp add: same_static_def)
  show "di_opcode i = di_opcode j" using arg_cong [OF e, of di_opcode] by simp
  show "di_has_modrm i = di_has_modrm j" using arg_cong [OF e, of di_has_modrm] by simp
  show "di_modrm i = di_modrm j" using arg_cong [OF e, of di_modrm] by simp
  show "di_has_sib i = di_has_sib j" using arg_cong [OF e, of di_has_sib] by simp
  show "di_sib i = di_sib j" using arg_cong [OF e, of di_sib] by simp
  show "di_displacement i = di_displacement j" using arg_cong [OF e, of di_displacement] by simp
  show "di_address_size i = di_address_size j" using arg_cong [OF e, of di_address_size] by simp
  have "(i\<lparr>di_mem_address := 0\<rparr>)\<lparr>di_mem_address := di_mem_address j\<rparr> =
      (j\<lparr>di_mem_address := 0\<rparr>)\<lparr>di_mem_address := di_mem_address j\<rparr>" by (simp only: e)
  then show "j = i\<lparr>di_mem_address := di_mem_address j\<rparr>" by simp
qed

subsection \<open>The contract of a part\<close>

text \<open>
  \<open>faults\<close>: the part changes nothing of the context but the exception, and an early return has one.
  \<open>stable\<close>: two runs on agreeing contexts take the same path and give the same instruction up to the
  address. \<open>keeps_address\<close>: the recorded address is the one of the recorded operand. \<open>b\<close> says whether
  the part may decode a ModRM byte, which it does at most once.
\<close>

locale decode_step =
  fixes f :: "dstate \<Rightarrow> dresult" and b :: bool
  assumes returns: "f (i, n, c) = Inl (j, d) \<Longrightarrow> fault_only c d \<and> cpu_has_exception d"
    and faults: "f (i, n, c) = Inr (j, m, d) \<Longrightarrow> fault_only c d"
    and stable: "f (i, n, c) = Inr (j, m, c) \<Longrightarrow> f (i', n, c') = Inr (j', m', c') \<Longrightarrow>
      same_static i i' \<Longrightarrow> agrees c c' \<Longrightarrow> \<not> cpu_has_exception c \<Longrightarrow> \<not> cpu_has_exception c' \<Longrightarrow>
      same_static j j' \<and> m = m'"
    and keeps_address: "f (i, n, c) = Inr (j, m, c) \<Longrightarrow> \<not> cpu_has_exception c \<Longrightarrow>
      (b \<longrightarrow> \<not> di_has_modrm i) \<Longrightarrow> addressed c i 0 \<Longrightarrow> addressed c j 0"
    and keeps_modrm: "f (i, n, c) = Inr (j, m, d) \<Longrightarrow> \<not> b \<Longrightarrow> di_has_modrm j = di_has_modrm i"

lemma decode_step_weaken: "decode_step f b \<Longrightarrow> decode_step f True"
  unfolding decode_step_def by (cases b) simp_all

lemma decode_step_Inr [decode_steps]: "decode_step Inr False"
  by unfold_locales auto

text \<open>An update of the instruction that leaves the operand alone and does not read its address.\<close>

definition static_update :: "(DecodedInstruction \<Rightarrow> DecodedInstruction) \<Rightarrow> bool" where
  "static_update g \<longleftrightarrow>
     (\<forall>i. di_mem_address (g i) = di_mem_address i \<and> di_modrm (g i) = di_modrm i \<and>
          di_has_modrm (g i) = di_has_modrm i \<and> di_sib (g i) = di_sib i \<and>
          di_displacement (g i) = di_displacement i \<and> di_address_size (g i) = di_address_size i \<and>
          g (i\<lparr>di_mem_address := 0\<rparr>) = (g i)\<lparr>di_mem_address := 0\<rparr>)"

lemma static_update_same: "static_update g \<Longrightarrow> same_static i j \<Longrightarrow> same_static (g i) (g j)"
  by (simp add: static_update_def same_static_def) metis

lemma static_update_addressed: "static_update g \<Longrightarrow> addressed c (g i) n = addressed c i n"
  by (simp add: static_update_def addressed_def memory_form_def effective_address_def)

lemma static_update_modrm: "static_update g \<Longrightarrow> di_has_modrm (g i) = di_has_modrm i"
  by (simp add: static_update_def)

lemma static_updates [simp]:
  "static_update (\<lambda>i. i\<lparr>di_operand_size := z\<rparr>)" "static_update (\<lambda>i. i\<lparr>di_has_lock_prefix := l\<rparr>)"
  "static_update (\<lambda>i. i\<lparr>di_imm_size := k\<rparr>)" "static_update (\<lambda>i. i\<lparr>di_imm_size := k, di_immediate := v\<rparr>)"
  by (simp_all add: static_update_def)

lemma decode_step_with_inst [decode_steps]: "static_update g \<Longrightarrow> decode_step (with_inst g) False"
  by unfold_locales
     (auto simp: with_inst_def static_update_same static_update_addressed static_update_modrm)

lemma decode_step_ud_if [decode_steps]: "decode_step (ud_if b) False"
  by unfold_locales (auto simp: ud_if_def split: if_splits)

lemma decode_step_ud_unless_group [decode_steps]: "decode_step (ud_unless_group g) False"
  by unfold_locales (auto simp: ud_unless_group_def split: if_splits dest: same_staticD)

lemma decode_then_Inr:
  "decode_then r g = Inr t \<longleftrightarrow> (\<exists>s. r = Inr s \<and> g s = Inr t)"
  by (auto simp: decode_then_def split: sum.splits)

lemma decode_step_then [decode_steps]:
  assumes f: "decode_step f a" and g: "decode_step g b" and once: "\<not> (a \<and> b)"
  shows "decode_step (\<lambda>s. decode_then (f s) g) (a \<or> b)"
proof
  fix i n c j d assume "decode_then (f (i, n, c)) g = Inl (j, d)"
  then show "fault_only c d \<and> cpu_has_exception d"
  proof (cases "f (i, n, c)")
    case (Inl x)
    with \<open>decode_then (f (i, n, c)) g = Inl (j, d)\<close> show ?thesis
      using decode_step.returns [OF f, of i n c] by (simp add: decode_then_def)
  next
    case (Inr t)
    then obtain k p e where t: "f (i, n, c) = Inr (k, p, e)" by (cases t) auto
    with \<open>decode_then (f (i, n, c)) g = Inl (j, d)\<close> have "g (k, p, e) = Inl (j, d)"
      by (simp add: decode_then_def)
    then show ?thesis
      using decode_step.returns [OF g] decode_step.faults [OF f t] fault_only_trans by blast
  qed
next
  fix i n c j m d assume "decode_then (f (i, n, c)) g = Inr (j, m, d)"
  then show "fault_only c d"
    using decode_step.faults [OF f] decode_step.faults [OF g] fault_only_trans
    by (auto simp: decode_then_Inr split_paired_Ex) blast
next
  fix i n c j m i' c' j' m'
  assume "decode_then (f (i, n, c)) g = Inr (j, m, c)" "decode_then (f (i', n, c')) g = Inr (j', m', c')"
    and s: "same_static i i'" "agrees c c'" "\<not> cpu_has_exception c" "\<not> cpu_has_exception c'"
  then obtain k p d k' p' d' where 1: "f (i, n, c) = Inr (k, p, d)" "g (k, p, d) = Inr (j, m, c)"
    and 2: "f (i', n, c') = Inr (k', p', d')" "g (k', p', d') = Inr (j', m', c')"
    by (auto simp: decode_then_Inr)
  have d: "d = c" "d' = c'"
    using fault_only_quiet [OF decode_step.faults [OF g 1(2)] s(3)]
      fault_only_quiet [OF decode_step.faults [OF g 2(2)] s(4)] by simp_all
  have "same_static k k' \<and> p = p'"
    using decode_step.stable [OF f _ _ s] 1(1) 2(1) d by blast
  then show "same_static j j' \<and> m = m'"
    using decode_step.stable [OF g _ _ _ s(2-4)] 1(2) 2(2) d by blast
next
  fix i n c j m
  assume "decode_then (f (i, n, c)) g = Inr (j, m, c)" and q: "\<not> cpu_has_exception c" "a \<or> b \<longrightarrow> \<not> di_has_modrm i" "addressed c i 0"
  then obtain k p d where 1: "f (i, n, c) = Inr (k, p, d)" "g (k, p, d) = Inr (j, m, c)"
    by (auto simp: decode_then_Inr)
  have "d = c" using fault_only_quiet [OF decode_step.faults [OF g 1(2)] q(1)] by simp
  then show "addressed c j 0"
    using decode_step.keeps_address [OF f _ q(1)] decode_step.keeps_address [OF g _ q(1)] 1 q(2,3) once
      decode_step.keeps_modrm [OF f 1(1)] by (cases a) auto
next
  fix i n c j m d
  assume "decode_then (f (i, n, c)) g = Inr (j, m, d)" "\<not> (a \<or> b)"
  then show "di_has_modrm j = di_has_modrm i"
    using decode_step.keeps_modrm [OF f] decode_step.keeps_modrm [OF g]
    by (auto simp: decode_then_Inr split_paired_Ex)
qed

text \<open>A choice by something the two runs agree on.\<close>

lemma decode_step_if:
  assumes "decode_step f a" "decode_step g b" "\<And>i j. same_static i j \<Longrightarrow> P i = P j"
  shows "decode_step (\<lambda>s. if P (fst s) then f s else g s) (a \<or> b)"
  using assms unfolding decode_step_def by (auto split: if_splits)


lemma decode_step_opcode [decode_steps]:
  assumes "decode_step f a" "decode_step g b"
  shows "decode_step (\<lambda>s. if di_opcode (fst s) = k then f s else g s) (a \<or> b)"
  by (rule decode_step_if [OF assms]) (auto dest: same_staticD)

subsection \<open>The ModRM byte and immediates\<close>

text \<open>The ModRM byte without the effective address.\<close>

definition modrm_parse :: "u8 list \<Rightarrow> DecodedInstruction \<Rightarrow> nat \<Rightarrow> DecodedInstruction \<times> nat \<times> bool" where
  "modrm_parse code inst n =
     (if length code \<le> n then (inst, n, False)
      else
        let i1 = inst\<lparr>di_has_modrm := True, di_modrm := code ! n\<rparr>;
            sib = (modrm_mod (code ! n) \<noteq> 3 \<and> modrm_rm (code ! n) = 4 \<and> di_address_size inst \<noteq> 16)
        in if sib \<and> length code \<le> n + 1 then (i1, n + 1, False)
           else
             let i2 = (if sib then i1\<lparr>di_has_sib := True, di_sib := code ! (n + 1)\<rparr> else i1);
                 n2 = (if sib then n + 2 else n + 1);
                 k = modrm_disp_size (code ! n) (di_address_size inst) (di_has_sib i2) (di_sib i2);
                 i3 = (if k > 0 then i2\<lparr>di_disp_size := int k\<rparr> else i2)
             in if k > 0 \<and> length code < n2 + k then (i3, n2, False)
                else (if k > 0 then i3\<lparr>di_displacement := modrm_displacement (take k (drop n2 code))\<rparr> else i3,
                      n2 + k, True))"

lemma decode_modrm_operand_parse:
  "decode_modrm_operand c i code n =
     (case modrm_parse code i n of
        (j, m, ok) \<Rightarrow>
          if \<not> ok then (j, m, raise_gp_ctx c 0, False)
          else if modrm_mod (di_modrm j) = 3 then (j, m, c, True)
          else (j\<lparr>di_mem_address := fst (effective_address c j 0)\<rparr>, m, snd (effective_address c j 0), True))"
proof (cases "length code \<le> n")
  case True
  then show ?thesis by (simp add: decode_modrm_operand_def modrm_parse_def)
next
  case n: False
  define sib where "sib \<longleftrightarrow> modrm_mod (code ! n) \<noteq> 3 \<and> modrm_rm (code ! n) = 4 \<and> di_address_size i \<noteq> 16"
  define k where "k = modrm_disp_size (code ! n) (di_address_size i) (if sib then True else di_has_sib i)
    (if sib then code ! (n + 1) else di_sib i)"
  note defs = decode_modrm_operand_def modrm_parse_def effective_address_def Let_def case_prod_beta
  show ?thesis
  proof (cases sib)
    case s: True
    then have k: "modrm_disp_size (code ! n) (di_address_size i) True (code ! Suc n) = k" "modrm_mod (code ! n) \<noteq> 3"
        "modrm_rm (code ! n) = 4" "di_address_size i \<noteq> 16"
      by (simp_all add: k_def sib_def)
    show ?thesis
      by (cases "length code \<le> n + 1"; cases "0 < k"; cases "length code < n + 2 + k")
         (simp_all add: defs n k split del: if_split)
  next
    case s: False
    then have k: "modrm_disp_size (code ! n) (di_address_size i) (di_has_sib i) (di_sib i) = k"
      by (simp add: k_def)
    from s have "modrm_mod (code ! n) = 3 \<or> modrm_mod (code ! n) \<noteq> 3 \<and> modrm_rm (code ! n) \<noteq> 4 \<or>
        modrm_mod (code ! n) \<noteq> 3 \<and> di_address_size i = 16" by (auto simp: sib_def)
    then show ?thesis
      by (elim disjE conjE; insert k; cases "0 < k"; cases "length code < n + 1 + k")
         (simp_all add: defs n split del: if_split)
  qed
qed


lemma modrm_parse_address:
  "modrm_parse code (i\<lparr>di_mem_address := a\<rparr>) n =
     (case modrm_parse code i n of (j, m, ok) \<Rightarrow> (j\<lparr>di_mem_address := a\<rparr>, m, ok))"
  by (simp add: modrm_parse_def Let_def)

lemma modrm_parse_static:
  assumes "same_static i i'" "modrm_parse code i n = (j, m, ok)" "modrm_parse code i' n = (j', m', ok')"
  shows "same_static j j' \<and> m = m' \<and> ok = ok'"
  using assms modrm_parse_address [where i = i and a = 0 and code = code and n = n]
    modrm_parse_address [where i = i' and a = 0 and code = code and n = n]
  by (simp add: same_static_def)

lemma modrm_parse_fields:
  assumes "modrm_parse code i n = (j, m, ok)"
  shows "ok \<Longrightarrow> di_has_modrm j" "di_mem_address j = di_mem_address i"
  using assms by (auto simp: modrm_parse_def Let_def split: if_splits)

text \<open>A check after the ModRM byte can only raise an exception.\<close>

lemma decode_step_modrm:
  assumes g: "\<And>i n c. g (i, n, c) =
      (case decode_modrm_operand c i code n of
         (j, m, d, ok) \<Rightarrow> Inr (j, m, if ok \<and> P (di_modrm j) then raise_ud_ctx d else d))"
  shows "decode_step g True"
proof
  fix i n c j d assume "g (i, n, c) = Inl (j, d)"
  then show "fault_only c d \<and> cpu_has_exception d" by (simp add: g split: prod.splits)
next
  have gea: "fault_only c (snd (effective_address c j 0))" for c j
    by (simp add: effective_address_def gea_fault_only)
  fix i n c j m d assume "g (i, n, c) = Inr (j, m, d)"
  then show "fault_only c d" using gea [of c]
    by (auto simp: g decode_modrm_operand_parse split: prod.splits if_splits
        intro: fault_only_trans [OF gea raise_fault_only(2)])
next
  fix i n c j m i' c' j' m'
  assume r: "g (i, n, c) = Inr (j, m, c)" "g (i', n, c') = Inr (j', m', c')" and "same_static i i'"
    "\<not> cpu_has_exception c" "\<not> cpu_has_exception c'"
  moreover obtain k p ok k' p' ok' where 1: "modrm_parse code i n = (k, p, ok)" "modrm_parse code i' n = (k', p', ok')"
    by (metis prod_cases3)
  ultimately have "same_static k k' \<and> p = p' \<and> ok = ok'" using modrm_parse_static by blast
  moreover have "same_static j k" "m = p" using r(1) 1
    by (auto simp: g decode_modrm_operand_parse same_static_def split: if_splits)
  moreover have "same_static j' k'" "m' = p'" using r(2) 1
    by (auto simp: g decode_modrm_operand_parse same_static_def split: if_splits)
  ultimately show "same_static j j' \<and> m = m'" by (simp add: same_static_def)
next
  fix i n c j m
  assume r: "g (i, n, c) = Inr (j, m, c)" and q: "\<not> cpu_has_exception c" "True \<longrightarrow> \<not> di_has_modrm i" "addressed c i 0"
  obtain k p ok where 1: "modrm_parse code i n = (k, p, ok)" by (metis prod_cases3)
  have k: "di_mem_address k = 0" "ok \<Longrightarrow> di_has_modrm k"
    using modrm_parse_fields [OF 1] q by (auto simp: addressed_def memory_form_def)
  have e: "effective_address c (k\<lparr>di_mem_address := a\<rparr>) 0 = effective_address c k 0" for a
    by (simp add: effective_address_def)
  have f: "raise_ud_ctx x \<noteq> c" "raise_gp_ctx x 0 \<noteq> c" for x
    using q(1) raise_has_exception by metis+
  show "addressed c j 0" using r k e
    by (auto simp: g decode_modrm_operand_parse 1 f addressed_def memory_form_def intro: prod_eqI split: if_splits)
next
  fix i n c j m d assume "\<not> True"
  then show "di_has_modrm j = di_has_modrm i" by simp
qed

lemma decode_step_modrms [decode_steps]:
  "decode_step (decode_modrm_plain code) True" "decode_step (decode_modrm_lockable lock code) True"
  "decode_step (decode_modrm_unlocked lock code) True"
  by (rule decode_step_modrm [where code = code and P = "\<lambda>_. False"], simp add: decode_modrm_plain_def)
     (rule decode_step_modrm [where code = code and P = "\<lambda>m. lock \<and> modrm_mod m = 3"], simp add: decode_modrm_lockable_def,
      rule decode_step_modrm [where code = code and P = "\<lambda>m. lock"], simp add: decode_modrm_unlocked_def)

lemma decode_step_imm [decode_steps]: "decode_step (decode_imm k code) False"
proof -
  have s: "static_update (\<lambda>i. i\<lparr>di_imm_size := int k, di_immediate := v\<rparr>)" for v :: u64 by simp
  show ?thesis
    by unfold_locales
       (auto simp: decode_imm_def Let_def static_update_addressed [OF s] static_update_modrm [OF s]
         static_update_same [OF s] split: if_splits)
qed

lemma decode_step_full_imm [decode_steps]: "decode_step (decode_full_imm code) False"
  using decode_step_imm [of _ code] unfolding decode_step_def decode_full_imm_def
  by (simp add: agrees_modes(5))

subsection \<open>Sequences and choices\<close>

text \<open>
  A part that sets the sizes may change what a recorded address means, so it comes before the ModRM
  byte; unlike the ModRM byte it leaves the field \<open>has_modrm\<close> alone, so the two compose.
\<close>

locale decode_head = decode_step f True for f +
  assumes head_modrm: "f (i, n, c) = Inr (j, m, d) \<Longrightarrow> di_has_modrm j = di_has_modrm i"

lemma decode_step_next_opcode [decode_steps]: "decode_step (next_opcode code) False"
proof -
  have s: "static_update (\<lambda>i. i\<lparr>di_opcode := v\<rparr>)" for v :: u8 by (simp add: static_update_def)
  show ?thesis
    by unfold_locales
       (auto simp: next_opcode_def static_update_addressed [OF s] static_update_modrm [OF s]
         static_update_same [OF s] split: if_splits)
qed

lemma decode_head_set_sizes:
  assumes "\<And>c d. agrees c d \<Longrightarrow> os c = os d" "\<And>c d. agrees c d \<Longrightarrow> as c = as d"
  shows "decode_head (set_sizes os as)"
proof (unfold_locales, goal_cases)
  case (3 i n c j m i' c' j' m')
  then have "same_static (i\<lparr>di_operand_size := os c, di_address_size := as c\<rparr>)
      (i'\<lparr>di_operand_size := os c, di_address_size := as c\<rparr>)"
    by (cases i; cases i') (simp add: same_static_def)
  then show ?case using 3 assms by (auto simp: set_sizes_def)
qed (auto simp: set_sizes_def addressed_def memory_form_def)

lemma decode_step_ud_when [decode_steps]:
  assumes "\<And>i j c d. P i c = P j d \<or> \<not> same_static i j \<or> \<not> agrees c d"
  shows "decode_step (ud_when P) False"
  by unfold_locales (auto simp: ud_when_def split: if_splits)

lemma decode_step_note_inst_size [decode_steps]: "decode_step note_inst_size False"
proof -
  have s: "static_update (\<lambda>i. i\<lparr>di_inst_size := v\<rparr>)" for v :: int by (simp add: static_update_def)
  show ?thesis
    by unfold_locales
       (auto simp: note_inst_size_def static_update_addressed [OF s] static_update_modrm [OF s]
         static_update_same [OF s])
qed

lemma decode_step_quit_ud [decode_steps]: "decode_step quit_ud False"
  by unfold_locales (auto simp: quit_ud_def)

lemma decode_step_by_opcode [decode_steps]:
  assumes "decode_step f a" "decode_step g b"
  shows "decode_step (by_opcode P f g) (a \<or> b)"
  using decode_step_if [OF assms, of "\<lambda>i. P (di_opcode i)"] unfolding by_opcode_def [abs_def] by (simp add: same_staticD(1))

lemma decode_step_when_ctx:
  assumes f: "decode_step f a" and g: "decode_step g b" and P: "\<And>c d. agrees c d \<Longrightarrow> P c = P d"
  shows "decode_step (when_ctx P f g) (a \<or> b)"
  using f g unfolding decode_step_def when_ctx_def by (auto split: if_splits dest: P)

lemma decode_seq_Nil [decode_steps]: "decode_step (decode_seq []) False"
  by unfold_locales auto

lemma decode_seq_Cons [decode_steps]:
  assumes "decode_step f a" "decode_step (decode_seq parts) b" "\<not> (a \<and> b)"
  shows "decode_step (decode_seq (f # parts)) (a \<or> b)"
proof -
  have "decode_seq (f # parts) = (\<lambda>s. decode_then (f s) (decode_seq parts))" by (simp add: fun_eq_iff)
  then show ?thesis using decode_step_then [OF assms] by simp
qed

text \<open>A head in front of a sequence.\<close>

lemma decode_seq_head [decode_steps]:
  assumes f: "decode_head f" and g: "decode_step (decode_seq parts) b"
  shows "decode_step (decode_seq (f # parts)) True"
proof (unfold_locales, goal_cases)
  case (1 i n c j d)
  show ?case
  proof (cases "f (i, n, c)")
    case (Inl x)
    then show ?thesis using 1 decode_step.returns [OF decode_head.axioms(1) [OF f]]
      by (simp add: decode_then_def)
  next
    case (Inr t)
    then obtain k p e where t: "f (i, n, c) = Inr (k, p, e)" by (cases t) auto
    then show ?thesis
      using 1 decode_step.returns [OF g] decode_step.faults [OF decode_head.axioms(1) [OF f] t] fault_only_trans
      by (auto simp: decode_then_def)
  qed
next
  case (2 i n c j m d)
  then show ?case
    using decode_step.faults [OF decode_head.axioms(1) [OF f]] decode_step.faults [OF g] fault_only_trans
    by (auto simp: decode_then_Inr split_paired_Ex) blast
next
  case (3 i n c j m i' c' j' m')
  then obtain k p d k' p' d' where 1: "f (i, n, c) = Inr (k, p, d)" "decode_seq parts (k, p, d) = Inr (j, m, c)"
    and 2: "f (i', n, c') = Inr (k', p', d')" "decode_seq parts (k', p', d') = Inr (j', m', c')"
    by (auto simp: decode_then_Inr)
  have d: "d = c" "d' = c'"
    using fault_only_quiet [OF decode_step.faults [OF g 1(2)] 3(5)]
      fault_only_quiet [OF decode_step.faults [OF g 2(2)] 3(6)] by simp_all
  then show ?case
    using decode_step.stable [OF decode_head.axioms(1) [OF f] _ _ 3(3-6)] 1 2
      decode_step.stable [OF g _ _ _ 3(4-6)] by blast
next
  case (4 i n c j m)
  then obtain k p d where 1: "f (i, n, c) = Inr (k, p, d)" "decode_seq parts (k, p, d) = Inr (j, m, c)"
    by (auto simp: decode_then_Inr)
  have "d = c" using fault_only_quiet [OF decode_step.faults [OF g 1(2)] 4(2)] by simp
  then show ?case
    using 1 4 decode_step.keeps_address [OF decode_head.axioms(1) [OF f] _ 4(2)] decode_step.keeps_address [OF g _ 4(2)]
      decode_head.head_modrm [OF f] by blast
qed simp

subsection \<open>Prefixes and the whole decoder\<close>

text \<open>A context that differs in the fields that the decoder's probe saves, and keeps an exception.\<close>

definition strip_scratch :: "CPU_CONTEXT \<Rightarrow> CPU_CONTEXT" where
  "strip_scratch c =
     c\<lparr>rex_present := False, rex_w := False, rex_r := False, rex_x := False, rex_b := False,
       operand_size_override := False, address_size_override := False, last_inst_size := 0,
       exception_state := \<lparr>ex_code = 0, ex_error_code = 0\<rparr>\<rparr>"

definition scratch_only :: "CPU_CONTEXT \<Rightarrow> CPU_CONTEXT \<Rightarrow> bool" where
  "scratch_only c d \<longleftrightarrow> strip_scratch d = strip_scratch c \<and> (cpu_has_exception d \<or> exception_state d = exception_state c)"

lemma scratch_only_refl [simp]: "scratch_only c c" by (simp add: scratch_only_def)

lemma scratch_only_trans: "scratch_only c d \<Longrightarrow> scratch_only d f \<Longrightarrow> scratch_only c f"
  by (auto simp: scratch_only_def cpu_has_exception_def)

lemma scratch_only_sticky: "scratch_only c d \<Longrightarrow> cpu_has_exception c \<Longrightarrow> cpu_has_exception d"
  by (auto simp: scratch_only_def cpu_has_exception_def)

lemma scratch_only_fault: "fault_only c d \<Longrightarrow> scratch_only c d"
  by (auto simp: fault_only_def scratch_only_def strip_scratch_def)

lemma scratch_only_updates:
  "scratch_only c (c\<lparr>last_inst_size := n\<rparr>)" "scratch_only c (c\<lparr>operand_size_override := b\<rparr>)"
  "scratch_only c (c\<lparr>address_size_override := b\<rparr>)" "scratch_only c (cpu_reset_prefix_state c)"
  "scratch_only c (c\<lparr>rex_present := b0, rex_w := b1, rex_r := b2, rex_x := b3, rex_b := b4\<rparr>)"
  by (simp_all add: scratch_only_def strip_scratch_def cpu_has_exception_def cpu_reset_prefix_state_def)

lemma same_but_scratch:
  assumes "strip_scratch c = strip_scratch d" "agrees c d" "last_inst_size c = last_inst_size d"
    "exception_state c = exception_state d"
  shows "c = d"
proof -
  define refill where "refill x = x\<lparr>rex_present := rex_present d, rex_w := rex_w d, rex_r := rex_r d, rex_x := rex_x d,
    rex_b := rex_b d, operand_size_override := operand_size_override d,
    address_size_override := address_size_override d, last_inst_size := last_inst_size d,
    exception_state := exception_state d\<rparr>" for x :: CPU_CONTEXT
  have "refill (strip_scratch c) = refill (strip_scratch d)" using assms(1) by simp
  moreover have "refill (strip_scratch d) = d" by (simp add: refill_def strip_scratch_def)
  moreover have "refill (strip_scratch c) = c\<lparr>rex_present := rex_present c, rex_w := rex_w c, rex_r := rex_r c,
    rex_x := rex_x c, rex_b := rex_b c, operand_size_override := operand_size_override c,
    address_size_override := address_size_override c, last_inst_size := last_inst_size c,
    exception_state := exception_state c\<rparr>"
    using assms(2-4) by (simp add: refill_def strip_scratch_def agrees_def)
  ultimately show ?thesis by simp
qed

lemma strip_scratch_mode:
  assumes "strip_scratch c = strip_scratch d"
  shows "long_mode_active c = long_mode_active d" "cs c = cs d"
  using arg_cong [OF assms, of long_mode_active] arg_cong [OF assms, of cs] by (simp_all add: strip_scratch_def)

text \<open>Reading prefixes: how a REX byte and a LOCK byte are taken.\<close>

locale prefix_reader =
  fixes rex :: "CPU_CONTEXT \<Rightarrow> u8 \<Rightarrow> bool \<times> CPU_CONTEXT" and on_lock :: "CPU_CONTEXT \<Rightarrow> CPU_CONTEXT"
  assumes rex_scratch: "rex c p = (t, d) \<Longrightarrow> scratch_only c d \<and> exception_state d = exception_state c"
    and rex_stable: "agrees c c' \<Longrightarrow> rex c p = (t, d) \<Longrightarrow> rex c' p = (t', d') \<Longrightarrow> t = t' \<and> agrees d d'"
    and lock_fault: "fault_only c (on_lock c)"
begin

lemma loop_scratch:
  "scratch_only c (snd (snd (prefix_loop rex on_lock code n lock c)))"
proof (induction code arbitrary: n lock c)
  case (Cons p code)
  obtain t d where r: "rex c p = (t, d)" by force
  note s = scratch_only_trans [OF scratch_only_updates(2) Cons] scratch_only_trans [OF scratch_only_updates(3) Cons]
    scratch_only_trans [OF conjunct1 [OF rex_scratch [OF r]] Cons]
    scratch_only_trans [OF scratch_only_trans [OF conjunct1 [OF rex_scratch [OF r]]
      scratch_only_fault [OF lock_fault]] Cons]
  show ?case using s conjunct1 [OF rex_scratch [OF r]] by (cases t) (simp_all add: r)
qed simp

lemma loop_stable:
  assumes "agrees c c'"
    and "prefix_loop rex on_lock code n lock c = (l, m, d)" "prefix_loop rex on_lock code n lock c' = (l', m', d')"
    and "\<not> cpu_has_exception d" "\<not> cpu_has_exception d'"
  shows "l = l' \<and> m = m' \<and> agrees d d'"
  using assms
proof (induction code arbitrary: n lock c c')
  case (Cons p code)
  obtain t e t' e' where r: "rex c p = (t, e)" "rex c' p = (t', e')" by force
  have t: "t' = t" "agrees e e'" using rex_stable [OF Cons.prems(1) r] by simp_all
  have o: "agrees (c\<lparr>operand_size_override := True\<rparr>) (c'\<lparr>operand_size_override := True\<rparr>)"
      "agrees (c\<lparr>address_size_override := True\<rparr>) (c'\<lparr>address_size_override := True\<rparr>)"
    using Cons.prems(1) by (simp_all add: agrees_def)
  have k: "\<not> cpu_has_exception (on_lock x)" if "prefix_loop rex on_lock code (n + 1) True (on_lock x) = (a, b, f)"
      "\<not> cpu_has_exception f" for x a b f
    using loop_scratch [of "on_lock x" code "n + 1" True] that by (auto dest: scratch_only_sticky)
  have q: "on_lock x = x" if "\<not> cpu_has_exception (on_lock x)" for x
    using fault_only_quiet [OF lock_fault that] .
  consider "p = 0x66" | "p = 0x67" | "p \<noteq> 0x66" "p \<noteq> 0x67" t
    | "p \<noteq> 0x66" "p \<noteq> 0x67" "\<not> t" "p = 0xF0" | "p \<noteq> 0x66" "p \<noteq> 0x67" "\<not> t" "p \<noteq> 0xF0"
    by blast
  then show ?case
  proof cases
    case 1 then show ?thesis using Cons.prems(2-5) Cons.IH [OF o(1)] by simp
  next
    case 2 then show ?thesis using Cons.prems(2-5) Cons.IH [OF o(2)] by simp
  next
    case 3 then show ?thesis using Cons.prems(2-5) Cons.IH [OF t(2)] by (simp add: r t)
  next
    case 4
    then have l: "prefix_loop rex on_lock code (n + 1) True (on_lock e) = (l, m, d)"
        "prefix_loop rex on_lock code (n + 1) True (on_lock e') = (l', m', d')"
      using Cons.prems(2,3) r t(1) by simp_all
    have "on_lock e = e" "on_lock e' = e'"
      using q k l Cons.prems(4,5) by blast+
    then show ?thesis using l Cons.prems(4,5) Cons.IH [OF t(2)] by simp
  next
    case 5
    then show ?thesis using Cons.prems(2-5) Cons.IH [OF t(2)] t(2) by (auto simp: r t(1) split: if_splits)
  qed
qed simp
end

text \<open>The two ways to take a REX byte, by its range or in 64-bit code only, share the update.\<close>

definition with_rex :: "u8 \<Rightarrow> CPU_CONTEXT \<Rightarrow> CPU_CONTEXT" where
  "with_rex p c =
     c\<lparr>rex_present := True, rex_w := (drop_bit 3 p AND 1 \<noteq> 0), rex_r := (drop_bit 2 p AND 1 \<noteq> 0),
       rex_x := (drop_bit 1 p AND 1 \<noteq> 0), rex_b := (p AND 1 \<noteq> 0)\<rparr>"

lemma with_rex_laws:
  "scratch_only c (with_rex p c)" "exception_state (with_rex p c) = exception_state c"
  "agrees c c' \<Longrightarrow> agrees (with_rex p c) (with_rex p c')"
  by (simp_all only: with_rex_def scratch_only_updates) (simp_all add: agrees_def)

lemma rex_readers:
  "apply_rex_byte c p = (let t = (\<not> (p < 0x40 \<or> p > 0x4F)) in (t, if t then with_rex p c else c))"
  "cpu_try_apply_rex_prefix c p =
     (let t = (cpu_allows_rex_prefix c \<and> \<not> (p < 0x40 \<or> p > 0x4F)) in (t, if t then with_rex p c else c))"
  by (auto simp: apply_rex_byte_def cpu_try_apply_rex_prefix_def with_rex_def)

interpretation raw_prefixes: prefix_reader apply_rex_byte id
  by unfold_locales (simp_all only: rex_readers Let_def, auto simp: with_rex_laws split: if_splits)

interpretation raw_prefixes_ud: prefix_reader apply_rex_byte raise_ud_ctx
  by unfold_locales (simp_all only: rex_readers Let_def, auto simp: with_rex_laws split: if_splits)

interpretation checked_prefixes: prefix_reader cpu_try_apply_rex_prefix id
  by unfold_locales (simp_all only: rex_readers Let_def, auto simp: with_rex_laws agrees_modes(1) split: if_splits)

interpretation checked_prefixes_ud: prefix_reader cpu_try_apply_rex_prefix raise_ud_ctx
  by unfold_locales (simp_all only: rex_readers Let_def, auto simp: with_rex_laws agrees_modes(1) split: if_splits)


text \<open>
  The contract of a whole decoder: it writes only what the probe saves, it keeps a pending exception,
  and two runs on the same bytes in the same mode give the same instruction up to the address, the
  same prefix bits and the same length; the address is that of the recorded operand.
\<close>

lemma unchanged_address: "i\<lparr>di_mem_address := di_mem_address i\<rparr> = (i :: DecodedInstruction)" by simp

locale replayable =
  fixes decode :: "CPU_CONTEXT \<Rightarrow> u8 list \<Rightarrow> DecodedInstruction \<times> CPU_CONTEXT"
  assumes scratch: "decode c code = (i, d) \<Longrightarrow> scratch_only c d"
    and stable: "decode c code = (i, d) \<Longrightarrow> decode c' code = (i', d') \<Longrightarrow> same_mode c c' \<Longrightarrow>
      \<not> cpu_has_exception d \<Longrightarrow> \<not> cpu_has_exception d' \<Longrightarrow>
      same_static i i' \<and> agrees d d' \<and> last_inst_size d = last_inst_size d'"
    and address: "decode c code = (i, d) \<Longrightarrow> \<not> cpu_has_exception d \<Longrightarrow> addressed d i (last_inst_size d)"
begin

lemma probe_leaves_state: "snd (cpu_decoder_probe_with_helper c code decode) = c"
proof -
  obtain i d where r: "decode c code = (i, d)" by force
  have "strip_scratch d = strip_scratch c" using scratch [OF r] by (simp add: scratch_only_def)
  then have "decoder_restore_ctx_scratch (strip_scratch d) (decoder_save_ctx_scratch c) =
      decoder_restore_ctx_scratch (strip_scratch c) (decoder_save_ctx_scratch c)" by simp
  moreover have "decoder_restore_ctx_scratch (strip_scratch x) (decoder_save_ctx_scratch c) =
      decoder_restore_ctx_scratch x (decoder_save_ctx_scratch c)" for x
    by (simp add: decoder_restore_ctx_scratch_def strip_scratch_def)
  ultimately have "decoder_restore_ctx_scratch d (decoder_save_ctx_scratch c) = c"
    by (simp add: decoder_restore_ctx_scratch_def decoder_save_ctx_scratch_def)
  then show ?thesis by (simp add: cpu_decoder_probe_with_helper_def r)
qed

text \<open>The context a fast handler restores from the cached prefix bits is the one decoding gives.\<close>

lemma replayed_context:
  assumes "decode c code = (i, d)" "decode c' code = (i', d')" "same_mode c c'"
    "\<not> cpu_has_exception d" "\<not> cpu_has_exception d'" "0 < last_inst_size d" "last_inst_size d \<le> 15"
  shows "fast_prefix ((decoded_inst_capture_prefix_from_ctx dec d)
      \<lparr>dc_cached := i, dc_length := word_of_int (last_inst_size d), dc_fast_handler := fn\<rparr>) c' = d'"
    (is "?f = d'")
proof -
  have len: "uint (word_of_int (last_inst_size d) :: u8) = last_inst_size d"
    using assms(6,7) by (simp add: uint_word_of_int)
  have s: "same_static i i'" "agrees d d'" "last_inst_size d = last_inst_size d'"
    using stable [OF assms(1-5)] by simp_all
  have d': "strip_scratch d' = strip_scratch c'" "exception_state d' = exception_state c'"
    using scratch [OF assms(2)] assms(5) by (simp_all add: scratch_only_def)
  note defs = fast_prefix_def decoded_inst_apply_prefix_def decoded_inst_capture_prefix_from_ctx_def
  have f: "strip_scratch ?f = strip_scratch d'" "exception_state ?f = exception_state d'"
      "last_inst_size ?f = last_inst_size d'"
    using s(3) len unfolding d' by (simp_all add: defs strip_scratch_def)
  have "agrees ?f d'" using s(2) strip_scratch_mode [OF d'(1)] by (simp add: agrees_def defs)
  then show ?thesis by (rule same_but_scratch [OF f(1) _ f(3,2)])
qed

lemma keeps_exception: "cpu_has_exception c \<Longrightarrow> cpu_has_exception (snd (decode c code))"
  using scratch scratch_only_sticky by (metis prod.collapse)

lemma attached:
  assumes "attach_probed safe c dec decode fn = (dec', c')" "dc_fast_handler dec = 0" "dc_fast_handler dec' \<noteq> 0"
  obtains i d where "decode c (decoded_code dec) = (i, d)" "\<not> cpu_has_exception d"
    "0 < last_inst_size d" "last_inst_size d \<le> 15" "safe i"
    "dec' = (decoded_inst_capture_prefix_from_ctx dec d)
      \<lparr>dc_cached := i, dc_length := word_of_int (last_inst_size d), dc_fast_handler := fn\<rparr>"
proof -
  obtain i d where r: "decode c (decoded_code dec) = (i, d)" by force
  have "\<not> cpu_has_exception d \<and> 0 < last_inst_size d \<and> last_inst_size d \<le> 15 \<and> safe i \<and>
      dec' = (decoded_inst_capture_prefix_from_ctx dec d)
        \<lparr>dc_cached := i, dc_length := word_of_int (last_inst_size d), dc_fast_handler := fn\<rparr>"
    using assms
    by (auto simp: attach_probed_def cpu_decoder_probe_with_helper_def r Let_def DECODED_INST_MAX_BYTES_def
        split: if_splits)
  then show thesis using that r by blast
qed

text \<open>
  Running the cached instruction, with the address computed again or for an instruction without a
  memory operand, is running the instruction that decoding the bytes gives.
\<close>

lemma replay_recompute:
  assumes att: "attach_probed safe c dec decode fn = (dec', c')" "dc_fast_handler dec = 0" "dc_fast_handler dec' \<noteq> 0"
    and now: "same_mode c (cpu_ctx e)" "decode (cpu_ctx e) (decoded_code dec) = (i', d')" "\<not> cpu_has_exception d'"
  shows "execute_cached_recompute run cb e dec' = run cb (e\<lparr>cpu_ctx := d'\<rparr>) i'"
proof -
  obtain i d where a: "decode c (decoded_code dec) = (i, d)" "\<not> cpu_has_exception d"
    "0 < last_inst_size d" "last_inst_size d \<le> 15"
    and dec': "dec' = (decoded_inst_capture_prefix_from_ctx dec d)
      \<lparr>dc_cached := i, dc_length := word_of_int (last_inst_size d), dc_fast_handler := fn\<rparr>"
    using attached [OF att] by blast
  have f: "fast_prefix dec' (cpu_ctx e) = d'"
    unfolding dec' by (rule replayed_context [OF a(1) now(2,1) a(2) now(3) a(3,4)])
  have s: "same_static i i'" "last_inst_size d = last_inst_size d'"
    using stable [OF a(1) now(2,1) a(2) now(3)] by simp_all
  have len: "uint (dc_length dec') = last_inst_size d'"
    using a(3,4) s(2) by (simp add: dec' uint_word_of_int)
  have m: "memory_form i' = memory_form i" using same_staticD(2,3) [OF s(1)] by (simp add: memory_form_def)
  have addr: "addressed d' i' (last_inst_size d')" by (rule address [OF now(2,3)])
  have addr0: "addressed d i (last_inst_size d)" by (rule address [OF a(1,2)])
  have live: "dc_cached dec' = i" by (simp add: dec')
  have ctx: "cpu_ctx (on_ctx (fast_prefix dec') e) = d'" "(on_ctx (fast_prefix dec') e)\<lparr>cpu_ctx := d'\<rparr> = e\<lparr>cpu_ctx := d'\<rparr>"
      "on_ctx (fast_prefix dec') e = e\<lparr>cpu_ctx := d'\<rparr>"
    using f by (simp_all add: on_ctx_def)
  have need: "decoded_inst_needs_mem_recompute i = memory_form i"
    by (simp add: decoded_inst_needs_mem_recompute_def memory_form_def modrm_mod_def)
  show ?thesis
  proof (cases "memory_form i")
    case True
    define x where "x = di_mem_address i'"
    have g: "get_effective_address d' (di_modrm i) (Some (di_sib i)) (di_displacement i) (di_address_size i)
        (last_inst_size d') = (x, d')"
      using True addr m same_staticD(1-7) [OF s(1)] by (simp add: addressed_def effective_address_def x_def)
    have i': "i' = i\<lparr>di_mem_address := x\<rparr>" unfolding x_def by (rule same_staticD(8) [OF s(1)])
    have "decoded_inst_needs_mem_recompute i" using True need by simp
    then show ?thesis
      unfolding execute_cached_recompute_def Let_def live len ctx i' by (simp add: ctx g)
  next
    case False
    then have "di_mem_address i' = di_mem_address i" using addr addr0 m by (simp add: addressed_def)
    then have "i' = i" using same_staticD(8) [OF s(1)] 
      unchanged_address [of i] by metis
    then show ?thesis using False by (simp add: execute_cached_recompute_def Let_def live ctx need)
  qed
qed

lemma replay_plain:
  assumes att: "attach_one c dec decode fn = (dec', c')" "dc_fast_handler dec = 0" "dc_fast_handler dec' \<noteq> 0"
    and now: "same_mode c (cpu_ctx e)" "decode (cpu_ctx e) (decoded_code dec) = (i', d')" "\<not> cpu_has_exception d'"
  shows "execute_cached run cb e dec' = run cb (e\<lparr>cpu_ctx := d'\<rparr>) i'"
proof -
  note att' = att(1) [unfolded attach_one_def]
  obtain i d where "cpu_decoder_dec_inst_safe_to_replay i"
    and dec': "dec' = (decoded_inst_capture_prefix_from_ctx dec d)
      \<lparr>dc_cached := i, dc_length := word_of_int (last_inst_size d), dc_fast_handler := fn\<rparr>"
    using attached [OF att' att(2,3)] by blast
  moreover have "dc_cached dec' = i" by (simp add: dec')
  ultimately have "\<not> decoded_inst_needs_mem_recompute (dc_cached dec')"
    by (auto simp: cpu_decoder_dec_inst_safe_to_replay_def decoded_inst_needs_mem_recompute_def modrm_mod_def)
  then have "execute_cached run cb e dec' = execute_cached_recompute run cb e dec'"
    by (simp add: execute_cached_def execute_cached_recompute_def Let_def)
  then show ?thesis using replay_recompute [OF att' att(2,3) now] by simp
qed

end


text \<open>
  What the decoder relies on when it attaches a fast handler: probing leaves the context as it was, and
  from then on, in the same mode and unless decoding the bytes raises an exception, the fast handler
  on the cached instruction does what the handler does on the bytes.
\<close>

definition replays ::
  "(CPU_CONTEXT \<Rightarrow> DecodedInst \<Rightarrow> (CPU_CONTEXT \<Rightarrow> u8 list \<Rightarrow> DecodedInstruction \<times> CPU_CONTEXT) \<Rightarrow> u64 \<Rightarrow>
     DecodedInst \<times> CPU_CONTEXT) \<Rightarrow>
   (CPU_CONTEXT \<Rightarrow> u8 list \<Rightarrow> DecodedInstruction \<times> CPU_CONTEXT) \<Rightarrow>
   (callbacks \<Rightarrow> cpueaxh_engine \<Rightarrow> u8 list \<Rightarrow> 'r) \<Rightarrow> (callbacks \<Rightarrow> cpueaxh_engine \<Rightarrow> DecodedInst \<Rightarrow> 'r) \<Rightarrow> bool" where
  "replays attach decode slow fast \<longleftrightarrow>
     (\<forall>c dec fn dec' c'. attach c dec decode fn = (dec', c') \<longrightarrow> c' = c \<and>
        (dc_fast_handler dec = 0 \<and> dc_fast_handler dec' \<noteq> 0 \<longrightarrow>
          (\<forall>cb e. same_mode c (cpu_ctx e) \<and> \<not> cpu_has_exception (snd (decode (cpu_ctx e) (decoded_code dec))) \<longrightarrow>
             fast cb e dec' = slow cb e (decoded_code dec))))"

text \<open>The same against the function that decodes and runs.\<close>

context replayable
begin

lemma fast_is_slow:
  assumes "attach_one_recompute_addr c dec decode fn = (dec', c')" "dc_fast_handler dec = 0" "dc_fast_handler dec' \<noteq> 0"
    and "same_mode c (cpu_ctx e)" "\<not> cpu_has_exception (snd (decode (cpu_ctx e) (decoded_code dec)))"
  shows "execute_cached_recompute run cb e dec' = execute_decoding decode run cb e (decoded_code dec)"
    and "execute_cached_recompute run_opt cb e dec' = execute_decoding_opt decode run_opt cb e (decoded_code dec)"
proof -
  obtain i d where r: "decode (cpu_ctx e) (decoded_code dec) = (i, d)" by force
  with assms(5) have q: "\<not> cpu_has_exception d" by simp
  note rep = replay_recompute [OF assms(1) [unfolded attach_one_recompute_addr_def] assms(2-4) r q]
  show "execute_cached_recompute run cb e dec' = execute_decoding decode run cb e (decoded_code dec)"
    "execute_cached_recompute run_opt cb e dec' = execute_decoding_opt decode run_opt cb e (decoded_code dec)"
    using q by (simp_all add: rep execute_decoding_def execute_decoding_opt_def r)
qed

lemma fast_is_slow_plain:
  assumes "attach_one c dec decode fn = (dec', c')" "dc_fast_handler dec = 0" "dc_fast_handler dec' \<noteq> 0"
    and "same_mode c (cpu_ctx e)" "\<not> cpu_has_exception (snd (decode (cpu_ctx e) (decoded_code dec)))"
  shows "execute_cached run cb e dec' = execute_decoding decode run cb e (decoded_code dec)"
    and "execute_cached run_opt cb e dec' = execute_decoding_opt decode run_opt cb e (decoded_code dec)"
proof -
  obtain i d where r: "decode (cpu_ctx e) (decoded_code dec) = (i, d)" by force
  with assms(5) have q: "\<not> cpu_has_exception d" by simp
  note rep = replay_plain [OF assms(1-4) r q]
  show "execute_cached run cb e dec' = execute_decoding decode run cb e (decoded_code dec)"
    "execute_cached run_opt cb e dec' = execute_decoding_opt decode run_opt cb e (decoded_code dec)"
    using q by (simp_all add: rep execute_decoding_def execute_decoding_opt_def r)
qed

lemma attach_leaves_state: "attach_probed safe c dec decode fn = (dec', c') \<Longrightarrow> c' = c"
  using probe_leaves_state [of c "decoded_code dec"] by (auto simp: attach_probed_def split: prod.splits option.splits if_splits)

lemma replays_recompute:
  "replays attach_one_recompute_addr decode (execute_decoding decode run) (execute_cached_recompute run)"
  "replays attach_one_recompute_addr decode (execute_decoding_opt decode run_opt) (execute_cached_recompute run_opt)"
  unfolding replays_def using attach_leaves_state fast_is_slow
  by (metis attach_one_recompute_addr_def)+

lemma replays_plain:
  "replays attach_one decode (execute_decoding decode run) (execute_cached run)"
  "replays attach_one decode (execute_decoding_opt decode run_opt) (execute_cached run_opt)"
  unfolding replays_def using attach_leaves_state fast_is_slow_plain
  by (metis attach_one_def)+

text \<open>A handler does nothing but keep an exception that is pending when it is called.\<close>

lemma slow_keeps_exception:
  assumes "cpu_has_exception (cpu_ctx e)"
  shows "cpu_has_exception (cpu_ctx (execute_decoding decode run cb e code))"
    and "\<exists>e'. execute_decoding_opt decode run_opt cb e code = Some e' \<and> cpu_has_exception (cpu_ctx e')"
  using keeps_exception [OF assms, of code]
  by (auto simp: execute_decoding_def execute_decoding_opt_def split: prod.splits)

end

text \<open>The instruction length matters for the address of a RIP-relative operand only.\<close>

lemma gea_length:
  assumes "\<not> (z = 64 \<and> modrm_mod m = 0 \<and> modrm_rm m = 5)"
  shows "get_effective_address c m s d z n = get_effective_address c m s d z 0"
proof -
  have "(modrm_rm m OR 8) AND 7 = 5 \<longleftrightarrow> modrm_rm m = 5" "modrm_rm m AND 7 = 5 \<longleftrightarrow> modrm_rm m = 5"
    unfolding modrm_rm_def by (simp_all add: bit.conj_disj_distrib2 and.assoc)
  then have "get_effective_offset c m s d z n = get_effective_offset c m s d z 0"
    using assms by (auto simp: get_effective_offset_def offset_32_64_def Let_def)
  then show ?thesis by (simp add: get_effective_address_def)
qed

lemma gea_size:
  "get_effective_address (c\<lparr>last_inst_size := k\<rparr>) m s d z n =
     (case get_effective_address c m s d z n of (a, e) \<Rightarrow> (a, e\<lparr>last_inst_size := k\<rparr>))"
proof -
  let ?c = "c\<lparr>last_inst_size := k\<rparr>"
  have 64: "cpu_is_64bit_code ?c = cpu_is_64bit_code c" "cpu_allows_rex_prefix ?c = cpu_allows_rex_prefix c"
      "cpu_uses_canonical_addresses ?c = cpu_uses_canonical_addresses c"
    by (simp_all add: cpu_is_64bit_code_def cpu_allows_rex_prefix_def cpu_long_mode_active_def
        cpu_uses_canonical_addresses_def)
  have off: "get_effective_offset ?c m s d z n = get_effective_offset c m s d z n"
    by (simp add: get_effective_offset_def offset_32_64_def offset_16_def sib_address_def 64 Let_def cong: if_cong)
  have seg: "cpu_default_segment_for_memory_operand ?c m b t z = cpu_default_segment_for_memory_operand c m b t z"
      "cpu_effective_segment_override_or_default ?c g = cpu_effective_segment_override_or_default c g"
      "cpu_segment_base_for_addressing ?c g = cpu_segment_base_for_addressing c g" for b t g
    by (simp_all add: cpu_default_segment_for_memory_operand_def cpu_effective_segment_override_or_default_def
        cpu_segment_base_for_addressing_def cpu_uses_flat_segment_bases_def segment_by_index_def 64 Let_def cong: if_cong)
  have val: "snd (cpu_validate_linear_address ?c a g) = (snd (cpu_validate_linear_address c a g))\<lparr>last_inst_size := k\<rparr>" for a g
    by (simp add: cpu_validate_linear_address_def 64 cpu_raise_noncanonical_address_def raise_defs
        cpu_raise_exception_def cpu_has_exception_def)
  show ?thesis by (simp add: get_effective_address_def off seg val Let_def)
qed

lemma finalize_rip:
  assumes "finalize_rip_relative_address c i n = (d, j)"
  shows "fault_only c d" "same_static i j"
    "addressed c i 0 \<Longrightarrow> d = c \<Longrightarrow> addressed c j n"
proof -
  let ?rip = "di_address_size i = 64 \<and> memory_form i \<and> modrm_mod (di_modrm i) = 0 \<and> modrm_rm (di_modrm i) = 5"
  have "(modrm_rm m OR 8) AND 7 = modrm_rm m" "modrm_rm m AND 7 = modrm_rm m" for m
    unfolding modrm_rm_def by (simp_all add: bit.conj_disj_distrib2 and.assoc)
  then have r: "finalize_rip_relative_address c i n =
      (if ?rip then (snd (effective_address c i n), i\<lparr>di_mem_address := fst (effective_address c i n)\<rparr>) else (c, i))"
    by (auto simp: finalize_rip_relative_address_def Let_def memory_form_def effective_address_def split: prod.splits)
  show "fault_only c d" "same_static i j"
    using assms r gea_fault_only by (auto simp: effective_address_def same_static_def split: if_splits)
  assume a: "addressed c i 0" "d = c"
  show "addressed c j n"
  proof (cases ?rip)
    case True
    then have "j = i\<lparr>di_mem_address := fst (effective_address c i n)\<rparr>" "snd (effective_address c i n) = c"
      using assms r a(2) by simp_all
    then show ?thesis using True by (simp add: addressed_def memory_form_def effective_address_def prod_eq_iff)
  next
    case False
    then have "j = i" using assms unfolding r by (subst (asm) if_not_P) simp_all
    moreover have "memory_form i \<Longrightarrow> effective_address c i n = effective_address c i 0"
      using False unfolding effective_address_def by (intro gea_length) auto
    ultimately show ?thesis using a by (simp add: addressed_def)
  qed
qed

lemma addressed_size: "addressed c i n \<Longrightarrow> addressed (c\<lparr>last_inst_size := k\<rparr>) i n"
  by (simp add: addressed_def effective_address_def gea_size)

text \<open>A decoder that reads the prefixes and goes on with a part is replayable.\<close>

lemma zero_laws: "addressed c zero_decoded_instruction 0" "\<not> di_has_modrm zero_decoded_instruction"
  by (simp_all add: addressed_def memory_form_def zero_decoded_instruction_def)

locale prefix_decoder = prefix_reader rex on_lock for rex on_lock +
  fixes f :: "bool \<Rightarrow> u8 list \<Rightarrow> dstate \<Rightarrow> dresult" and b :: bool
    and decode :: "CPU_CONTEXT \<Rightarrow> u8 list \<Rightarrow> DecodedInstruction \<times> CPU_CONTEXT"
  assumes step: "decode_step (f lock code) b"
    and decode_def: "decode c code = decode_with rex on_lock f c code"
begin

lemma decode_prefixed:
  assumes "decode c code = (i, d)"
  obtains lock n c1 where "prefix_loop rex on_lock code 0 False (cpu_reset_prefix_state c) = (lock, n, c1)"
    "decode_finish (f lock code (zero_decoded_instruction, n, c1)) = (i, d)"
  using assms by (auto simp: decode_def decode_with_def decode_prefixes_def split: prod.splits)

lemma decode_scratch:
  assumes "decode c code = (i, d)"
  shows "scratch_only c d"
proof -
  obtain lock n c1 where p: "prefix_loop rex on_lock code 0 False (cpu_reset_prefix_state c) = (lock, n, c1)"
    and r: "decode_finish (f lock code (zero_decoded_instruction, n, c1)) = (i, d)"
    using decode_prefixed [OF assms] .
  have c1: "scratch_only c c1"
    using loop_scratch [of "cpu_reset_prefix_state c" code 0 False] scratch_only_trans [OF scratch_only_updates(4)] p
    by simp
  have "scratch_only c1 d"
  proof (cases "f lock code (zero_decoded_instruction, n, c1)")
    case (Inl x)
    then show ?thesis using r decode_step.returns [OF step, of lock code zero_decoded_instruction n c1 i d]
      by (simp add: decode_finish_def scratch_only_fault)
  next
    case (Inr t)
    then obtain j m e where t: "f lock code (zero_decoded_instruction, n, c1) = Inr (j, m, e)" by (cases t) auto
    obtain g k where fin: "finalize_rip_relative_address e j (int m) = (g, k)" by force
    have "d = g\<lparr>last_inst_size := int m\<rparr>" using r unfolding t by (simp add: decode_finish_def fin)
    then show ?thesis
      using scratch_only_fault [OF decode_step.faults [OF step t]] scratch_only_fault [OF finalize_rip(1) [OF fin]]
        scratch_only_updates(1) [of g] scratch_only_trans by metis
  qed
  then show ?thesis using c1 scratch_only_trans by blast
qed

lemma decode_quiet:
  assumes "decode c code = (i, d)" "\<not> cpu_has_exception d"
  obtains lock n c1 j m where
    "prefix_loop rex on_lock code 0 False (cpu_reset_prefix_state c) = (lock, n, c1)" "\<not> cpu_has_exception c1"
    "f lock code (zero_decoded_instruction, n, c1) = Inr (j, m, c1)"
    "finalize_rip_relative_address c1 j (int m) = (c1, i)" "d = c1\<lparr>last_inst_size := int m\<rparr>"
proof -
  obtain lock n c1 where p: "prefix_loop rex on_lock code 0 False (cpu_reset_prefix_state c) = (lock, n, c1)"
    and r: "decode_finish (f lock code (zero_decoded_instruction, n, c1)) = (i, d)"
    using decode_prefixed [OF assms(1)] .
  obtain j m e where t: "f lock code (zero_decoded_instruction, n, c1) = Inr (j, m, e)"
    using r assms(2) decode_step.returns [OF step, of lock code zero_decoded_instruction n c1 i d]
    by (cases "f lock code (zero_decoded_instruction, n, c1)") (auto simp: decode_finish_def)
  obtain g k where fin: "finalize_rip_relative_address e j (int m) = (g, k)" by force
  have d: "d = g\<lparr>last_inst_size := int m\<rparr>" "i = k" using r unfolding t by (simp_all add: decode_finish_def fin)
  then have "\<not> cpu_has_exception g" using assms(2) by (simp add: cpu_has_exception_def)
  then have "g = e" using fault_only_quiet [OF finalize_rip(1) [OF fin]] by simp
  have e: "e = c1"
    using fault_only_quiet [OF decode_step.faults [OF step t]] \<open>\<not> cpu_has_exception g\<close> \<open>g = e\<close> by simp
  with \<open>g = e\<close> have g: "g = c1" by simp
  have "\<not> cpu_has_exception c1" using \<open>\<not> cpu_has_exception g\<close> g by simp
  then show thesis
    by (rule that [OF p _ t [unfolded e] fin [unfolded e g, folded d(2)] d(1) [unfolded g]])
qed

end

sublocale prefix_decoder \<subseteq> replayable decode
proof
  show "scratch_only c d" if "decode c code = (i, d)" for c code i d using that by (rule decode_scratch)
next
  fix c code i d c' i' d'
  assume r: "decode c code = (i, d)" "decode c' code = (i', d')" and m: "same_mode c c'"
    and q: "\<not> cpu_has_exception d" "\<not> cpu_has_exception d'"
  obtain lock n c1 j m where 1:
    "prefix_loop rex on_lock code 0 False (cpu_reset_prefix_state c) = (lock, n, c1)" "\<not> cpu_has_exception c1"
    "f lock code (zero_decoded_instruction, n, c1) = Inr (j, m, c1)"
    "finalize_rip_relative_address c1 j (int m) = (c1, i)" "d = c1\<lparr>last_inst_size := int m\<rparr>"
    using decode_quiet [OF r(1) q(1)] by blast
  obtain lock' n' c1' j' m' where 2:
    "prefix_loop rex on_lock code 0 False (cpu_reset_prefix_state c') = (lock', n', c1')" "\<not> cpu_has_exception c1'"
    "f lock' code (zero_decoded_instruction, n', c1') = Inr (j', m', c1')"
    "finalize_rip_relative_address c1' j' (int m') = (c1', i')" "d' = c1'\<lparr>last_inst_size := int m'\<rparr>"
    using decode_quiet [OF r(2) q(2)] by blast
  have "agrees (cpu_reset_prefix_state c) (cpu_reset_prefix_state c')"
    using m by (simp add: same_mode_iff agrees_def cpu_reset_prefix_state_def)
  from loop_stable [OF this 1(1) 2(1) 1(2) 2(2)] have a: "lock' = lock" "n' = n" "agrees c1 c1'" by simp_all
  have "same_static j j' \<and> m = m'"
    using decode_step.stable [OF step 1(3) _ same_static_refl a(3) 1(2) 2(2)] 2(3) a by simp
  moreover have "same_static i i'" if "same_static j j'"
    using that finalize_rip(2) [OF 1(4)] finalize_rip(2) [OF 2(4)] by (simp add: same_static_def)
  ultimately show "same_static i i' \<and> agrees d d' \<and> last_inst_size d = last_inst_size d'"
    using a(3) by (simp add: 1(5) 2(5) agrees_def)
next
  fix c code i d
  assume r: "decode c code = (i, d)" and q: "\<not> cpu_has_exception d"
  obtain lock n c1 j m where 1:
    "prefix_loop rex on_lock code 0 False (cpu_reset_prefix_state c) = (lock, n, c1)" "\<not> cpu_has_exception c1"
    "f lock code (zero_decoded_instruction, n, c1) = Inr (j, m, c1)"
    "finalize_rip_relative_address c1 j (int m) = (c1, i)" "d = c1\<lparr>last_inst_size := int m\<rparr>"
    using decode_quiet [OF r q] by blast
  have "addressed c1 j 0"
    using decode_step.keeps_address [OF step 1(3,2)] zero_laws by blast
  then have "addressed c1 i (int m)" using finalize_rip(3) [OF 1(4)] by simp
  then show "addressed d i (last_inst_size d)" using addressed_size by (simp add: 1(5))
qed

text \<open>The opening that most decoders share is a part too.\<close>

lemmas default_sizes_head =
  decode_head_set_sizes [of default_operand_size default_address_size, OF agrees_modes(3) agrees_modes(4)]

definition opened_body :: "(bool \<Rightarrow> u8 list \<Rightarrow> dstate \<Rightarrow> dresult) \<Rightarrow> bool \<Rightarrow> u8 list \<Rightarrow> dstate \<Rightarrow> dresult" where
  "opened_body f lock code =
     decode_seq [next_opcode code, set_sizes default_operand_size default_address_size, f lock code]"

lemma decode_opening_with:
  "(case decode_opening rex on_lock c code of (lock, r) \<Rightarrow> decode_finish (decode_then r (f lock code))) =
     decode_with rex on_lock (opened_body f) c code"
proof -
  have "decode_then r Inr = r" for r by (cases r) (simp_all add: decode_then_def)
  moreover have "(\<lambda>s. decode_seq [] s) = Inr" by (simp add: fun_eq_iff)
  ultimately show ?thesis
    by (simp add: decode_opening_def decode_with_def opened_body_def decode_then_def next_opcode_def set_sizes_def
        split: prod.splits sum.splits)
qed

locale opened_decoder = prefix_reader rex on_lock for rex on_lock +
  fixes f :: "bool \<Rightarrow> u8 list \<Rightarrow> dstate \<Rightarrow> dresult" and b :: bool
    and decode :: "CPU_CONTEXT \<Rightarrow> u8 list \<Rightarrow> DecodedInstruction \<times> CPU_CONTEXT"
  assumes rest: "decode_step (f lock code) b"
    and decode_opened: "decode c code =
      (case decode_opening rex on_lock c code of (lock, r) \<Rightarrow> decode_finish (decode_then r (f lock code)))"

sublocale opened_decoder \<subseteq> prefix_decoder rex on_lock "opened_body f" True decode
proof (intro prefix_decoder.intro prefix_decoder_axioms.intro prefix_reader_axioms)
  fix lock code
  show "decode_step (opened_body f lock code) True"
    unfolding opened_body_def
    using decode_seq_Cons [OF decode_step_next_opcode
      decode_seq_head [OF default_sizes_head decode_seq_Cons [OF rest decode_seq_Nil]]] by simp
next
  fix c code
  show "decode c code = decode_with rex on_lock (opened_body f) c code"
    by (simp only: decode_opened decode_opening_with)
qed

end
