(* ===== verification/Alu.thy ===== *)
theory Alu
  imports Replay
begin

text \<open>
  ADD, SUB and AND (\<^verbatim>\<open>instructions/add.hpp\<close>, \<^verbatim>\<open>sub.hpp\<close>, \<^verbatim>\<open>and.hpp\<close>). The three files have the same
  functions, one per operand form and width; they differ in the operation, in the opcodes and in the
  group number of the immediate forms. The operation is the record \<open>alu_ops\<close>: at each width, the
  result and the context with the flags updated. An immediate comes in 64 bits from the decoded
  instruction and is truncated by the caller, as the casts of the source do.
\<close>

unbundle bit_operations_syntax

record alu_ops =
  op8 :: "CPU_CONTEXT \<Rightarrow> u8 \<Rightarrow> u8 \<Rightarrow> u8 \<times> CPU_CONTEXT"
  op16 :: "CPU_CONTEXT \<Rightarrow> u16 \<Rightarrow> u16 \<Rightarrow> u16 \<times> CPU_CONTEXT"
  op32 :: "CPU_CONTEXT \<Rightarrow> u32 \<Rightarrow> u32 \<Rightarrow> u32 \<times> CPU_CONTEXT"
  op64 :: "CPU_CONTEXT \<Rightarrow> u64 \<Rightarrow> u64 \<Rightarrow> u64 \<times> CPU_CONTEXT"

subsection \<open>The operand forms\<close>

definition alu_al_imm8 :: "alu_ops \<Rightarrow> CPU_CONTEXT \<Rightarrow> u8 \<Rightarrow> CPU_CONTEXT" where
  [insn_defs]: "alu_al_imm8 A ctx imm =
     (case op8 A ctx (ucast (regs ctx REG_RAX AND 0xFF)) imm of
        (r, c) \<Rightarrow> c\<lparr>regs := (regs c)(REG_RAX := (regs c REG_RAX AND NOT 0xFF) OR ucast r)\<rparr>)"
definition alu_ax_imm16 :: "alu_ops \<Rightarrow> CPU_CONTEXT \<Rightarrow> u16 \<Rightarrow> CPU_CONTEXT" where
  [insn_defs]: "alu_ax_imm16 A ctx imm =
     (case op16 A ctx (ucast (regs ctx REG_RAX AND 0xFFFF)) imm of
        (r, c) \<Rightarrow> c\<lparr>regs := (regs c)(REG_RAX := (regs c REG_RAX AND NOT 0xFFFF) OR ucast r)\<rparr>)"
definition alu_eax_imm32 :: "alu_ops \<Rightarrow> CPU_CONTEXT \<Rightarrow> u32 \<Rightarrow> CPU_CONTEXT" where
  [insn_defs]: "alu_eax_imm32 A ctx imm =
     (case op32 A ctx (ucast (regs ctx REG_RAX AND 0xFFFFFFFF)) imm of
        (r, c) \<Rightarrow> c\<lparr>regs := (regs c)(REG_RAX := ucast r)\<rparr>)"
definition alu_rax_imm32 :: "alu_ops \<Rightarrow> CPU_CONTEXT \<Rightarrow> u32 \<Rightarrow> CPU_CONTEXT" where
  [insn_defs]: "alu_rax_imm32 A ctx imm =
     (case op64 A ctx (regs ctx REG_RAX) (scast imm) of
        (r, c) \<Rightarrow> c\<lparr>regs := (regs c)(REG_RAX := r)\<rparr>)"

definition alu_rm8_imm8 :: "alu_ops \<Rightarrow> callbacks \<Rightarrow> cpueaxh_engine \<Rightarrow> u8 \<Rightarrow> u64 \<Rightarrow> u8 \<Rightarrow> cpueaxh_engine" where
  [insn_defs]: "alu_rm8_imm8 A cb e modrm mem_addr imm =
     (let rm = rm_index (cpu_ctx e) modrm
      in rmw (read_rm8 cb modrm rm mem_addr) (write_rm8 cb modrm rm mem_addr)
           (\<lambda>c dst. op8 A c dst imm) e)"
definition alu_rm16_imm16 :: "alu_ops \<Rightarrow> callbacks \<Rightarrow> cpueaxh_engine \<Rightarrow> u8 \<Rightarrow> u64 \<Rightarrow> u16 \<Rightarrow> cpueaxh_engine" where
  [insn_defs]: "alu_rm16_imm16 A cb e modrm mem_addr imm =
     (let rm = rm_index (cpu_ctx e) modrm
      in rmw (read_rm16 cb modrm rm mem_addr) (write_rm16 cb modrm rm mem_addr)
           (\<lambda>c dst. op16 A c dst imm) e)"
definition alu_rm32_imm32 :: "alu_ops \<Rightarrow> callbacks \<Rightarrow> cpueaxh_engine \<Rightarrow> u8 \<Rightarrow> u64 \<Rightarrow> u32 \<Rightarrow> cpueaxh_engine" where
  [insn_defs]: "alu_rm32_imm32 A cb e modrm mem_addr imm =
     (let rm = rm_index (cpu_ctx e) modrm
      in rmw (read_rm32 cb modrm rm mem_addr) (write_rm32 cb modrm rm mem_addr)
           (\<lambda>c dst. op32 A c dst imm) e)"
definition alu_rm64_imm32 :: "alu_ops \<Rightarrow> callbacks \<Rightarrow> cpueaxh_engine \<Rightarrow> u8 \<Rightarrow> u64 \<Rightarrow> u32 \<Rightarrow> cpueaxh_engine" where
  [insn_defs]: "alu_rm64_imm32 A cb e modrm mem_addr imm =
     (let rm = rm_index (cpu_ctx e) modrm
      in rmw (read_rm64 cb modrm rm mem_addr) (write_rm64 cb modrm rm mem_addr)
           (\<lambda>c dst. op64 A c dst (scast imm)) e)"
definition alu_rm16_imm8 :: "alu_ops \<Rightarrow> callbacks \<Rightarrow> cpueaxh_engine \<Rightarrow> u8 \<Rightarrow> u64 \<Rightarrow> u8 \<Rightarrow> cpueaxh_engine" where
  [insn_defs]: "alu_rm16_imm8 A cb e modrm mem_addr imm =
     (let rm = rm_index (cpu_ctx e) modrm
      in rmw (read_rm16 cb modrm rm mem_addr) (write_rm16 cb modrm rm mem_addr)
           (\<lambda>c dst. op16 A c dst (scast imm)) e)"
definition alu_rm32_imm8 :: "alu_ops \<Rightarrow> callbacks \<Rightarrow> cpueaxh_engine \<Rightarrow> u8 \<Rightarrow> u64 \<Rightarrow> u8 \<Rightarrow> cpueaxh_engine" where
  [insn_defs]: "alu_rm32_imm8 A cb e modrm mem_addr imm =
     (let rm = rm_index (cpu_ctx e) modrm
      in rmw (read_rm32 cb modrm rm mem_addr) (write_rm32 cb modrm rm mem_addr)
           (\<lambda>c dst. op32 A c dst (scast imm)) e)"
definition alu_rm64_imm8 :: "alu_ops \<Rightarrow> callbacks \<Rightarrow> cpueaxh_engine \<Rightarrow> u8 \<Rightarrow> u64 \<Rightarrow> u8 \<Rightarrow> cpueaxh_engine" where
  [insn_defs]: "alu_rm64_imm8 A cb e modrm mem_addr imm =
     (let rm = rm_index (cpu_ctx e) modrm
      in rmw (read_rm64 cb modrm rm mem_addr) (write_rm64 cb modrm rm mem_addr)
           (\<lambda>c dst. op64 A c dst (scast imm)) e)"

definition alu_rm8_r8 :: "alu_ops \<Rightarrow> callbacks \<Rightarrow> cpueaxh_engine \<Rightarrow> u8 \<Rightarrow> u64 \<Rightarrow> cpueaxh_engine" where
  [insn_defs]: "alu_rm8_r8 A cb e modrm mem_addr =
     (let rm = rm_index (cpu_ctx e) modrm; src = get_reg8 (cpu_ctx e) (reg_index (cpu_ctx e) modrm)
      in rmw (read_rm8 cb modrm rm mem_addr) (write_rm8 cb modrm rm mem_addr)
           (\<lambda>c dst. op8 A c dst src) e)"
definition alu_rm16_r16 :: "alu_ops \<Rightarrow> callbacks \<Rightarrow> cpueaxh_engine \<Rightarrow> u8 \<Rightarrow> u64 \<Rightarrow> cpueaxh_engine" where
  [insn_defs]: "alu_rm16_r16 A cb e modrm mem_addr =
     (let rm = rm_index (cpu_ctx e) modrm; src = get_reg16 (cpu_ctx e) (reg_index (cpu_ctx e) modrm)
      in rmw (read_rm16 cb modrm rm mem_addr) (write_rm16 cb modrm rm mem_addr)
           (\<lambda>c dst. op16 A c dst src) e)"
definition alu_rm32_r32 :: "alu_ops \<Rightarrow> callbacks \<Rightarrow> cpueaxh_engine \<Rightarrow> u8 \<Rightarrow> u64 \<Rightarrow> cpueaxh_engine" where
  [insn_defs]: "alu_rm32_r32 A cb e modrm mem_addr =
     (let rm = rm_index (cpu_ctx e) modrm; src = get_reg32 (cpu_ctx e) (reg_index (cpu_ctx e) modrm)
      in rmw (read_rm32 cb modrm rm mem_addr) (write_rm32 cb modrm rm mem_addr)
           (\<lambda>c dst. op32 A c dst src) e)"
definition alu_rm64_r64 :: "alu_ops \<Rightarrow> callbacks \<Rightarrow> cpueaxh_engine \<Rightarrow> u8 \<Rightarrow> u64 \<Rightarrow> cpueaxh_engine" where
  [insn_defs]: "alu_rm64_r64 A cb e modrm mem_addr =
     (let rm = rm_index (cpu_ctx e) modrm; src = get_reg64 (cpu_ctx e) (reg_index (cpu_ctx e) modrm)
      in rmw (read_rm64 cb modrm rm mem_addr) (write_rm64 cb modrm rm mem_addr)
           (\<lambda>c dst. op64 A c dst src) e)"

definition alu_r8_rm8 :: "alu_ops \<Rightarrow> callbacks \<Rightarrow> cpueaxh_engine \<Rightarrow> u8 \<Rightarrow> u64 \<Rightarrow> cpueaxh_engine" where
  [insn_defs]: "alu_r8_rm8 A cb e modrm mem_addr =
     (let reg = reg_index (cpu_ctx e) modrm; rm = rm_index (cpu_ctx e) modrm;
          dst = get_reg8 (cpu_ctx e) reg
      in rmw (read_rm8 cb modrm rm mem_addr) (\<lambda>r. on_ctx (\<lambda>c. set_reg8 c reg r))
           (\<lambda>c src. op8 A c dst src) e)"
definition alu_r16_rm16 :: "alu_ops \<Rightarrow> callbacks \<Rightarrow> cpueaxh_engine \<Rightarrow> u8 \<Rightarrow> u64 \<Rightarrow> cpueaxh_engine" where
  [insn_defs]: "alu_r16_rm16 A cb e modrm mem_addr =
     (let reg = reg_index (cpu_ctx e) modrm; rm = rm_index (cpu_ctx e) modrm;
          dst = get_reg16 (cpu_ctx e) reg
      in rmw (read_rm16 cb modrm rm mem_addr) (\<lambda>r. on_ctx (\<lambda>c. set_reg16 c reg r))
           (\<lambda>c src. op16 A c dst src) e)"
definition alu_r32_rm32 :: "alu_ops \<Rightarrow> callbacks \<Rightarrow> cpueaxh_engine \<Rightarrow> u8 \<Rightarrow> u64 \<Rightarrow> cpueaxh_engine" where
  [insn_defs]: "alu_r32_rm32 A cb e modrm mem_addr =
     (let reg = reg_index (cpu_ctx e) modrm; rm = rm_index (cpu_ctx e) modrm;
          dst = get_reg32 (cpu_ctx e) reg
      in rmw (read_rm32 cb modrm rm mem_addr) (\<lambda>r. on_ctx (\<lambda>c. set_reg32 c reg r))
           (\<lambda>c src. op32 A c dst src) e)"
definition alu_r64_rm64 :: "alu_ops \<Rightarrow> callbacks \<Rightarrow> cpueaxh_engine \<Rightarrow> u8 \<Rightarrow> u64 \<Rightarrow> cpueaxh_engine" where
  [insn_defs]: "alu_r64_rm64 A cb e modrm mem_addr =
     (let reg = reg_index (cpu_ctx e) modrm; rm = rm_index (cpu_ctx e) modrm;
          dst = get_reg64 (cpu_ctx e) reg
      in rmw (read_rm64 cb modrm rm mem_addr) (\<lambda>r. on_ctx (\<lambda>c. set_reg64 c reg r))
           (\<lambda>c src. op64 A c dst src) e)"

subsection \<open>Decoding and dispatch\<close>

text \<open>
  The opcodes are \<open>b\<close> to \<open>b + 5\<close> and the immediate groups 0x80, 0x81 and 0x83 with the number \<open>g\<close>.
\<close>

definition decode_alu_opcode :: "u8 \<Rightarrow> u8 \<Rightarrow> bool \<Rightarrow> u8 list \<Rightarrow> dstate \<Rightarrow> dresult" where
  "decode_alu_opcode b g lock code s =
     (let opc = di_opcode (fst s); size8 = with_inst (\<lambda>i. i\<lparr>di_operand_size := 8\<rparr>) s;
          modrm = (\<lambda>r. decode_then r (decode_modrm_lockable lock code));
          group = (\<lambda>r. decode_then (modrm r) (ud_unless_group g))
      in if opc = b + 4 then decode_then (decode_then size8 (ud_if lock)) (decode_imm 1 code)
         else if opc = b + 5 then decode_then (ud_if lock s) (decode_full_imm code)
         else if opc = 0x80 then decode_then (group size8) (decode_imm 1 code)
         else if opc = 0x81 then decode_then (group (Inr s)) (decode_full_imm code)
         else if opc = 0x83 then decode_then (group (Inr s)) (decode_imm 1 code)
         else if opc = b then modrm size8
         else if opc = b + 1 then modrm (Inr s)
         else if opc = b + 2 then modrm (decode_then size8 (ud_if lock))
         else if opc = b + 3 then modrm (ud_if lock s)
         else ud_if True s)"

definition decode_alu_instruction ::
  "u8 \<Rightarrow> u8 \<Rightarrow> CPU_CONTEXT \<Rightarrow> u8 list \<Rightarrow> DecodedInstruction \<times> CPU_CONTEXT" where
  "decode_alu_instruction b g ctx code =
     (case decode_opening apply_rex_byte id ctx code of
        (lock, r) \<Rightarrow> decode_finish (decode_then r (decode_alu_opcode b g lock code)))"

text \<open>The choice between the 64-, 16- and 32-bit forms.\<close>

definition by_size :: "bool \<Rightarrow> bool \<Rightarrow> 'x \<Rightarrow> 'x \<Rightarrow> 'x \<Rightarrow> 'x" where
  "by_size w64 w16 f64 f16 f32 = (if w64 then f64 else if w16 then f16 else f32)"

definition execute_alu_with_decoded ::
  "alu_ops \<Rightarrow> u8 \<Rightarrow> callbacks \<Rightarrow> cpueaxh_engine \<Rightarrow> DecodedInstruction \<Rightarrow> cpueaxh_engine" where
  "execute_alu_with_decoded A b cb e inst =
     (let opc = di_opcode inst; m = di_modrm inst; a = di_mem_address inst; i = di_immediate inst;
          sized = by_size (rex_w (cpu_ctx e)) (operand_size_override (cpu_ctx e))
      in if opc = b + 4 then on_ctx (\<lambda>c. alu_al_imm8 A c (ucast i)) e
         else if opc = b + 5
         then sized (on_ctx (\<lambda>c. alu_rax_imm32 A c (ucast i)) e) (on_ctx (\<lambda>c. alu_ax_imm16 A c (ucast i)) e)
                (on_ctx (\<lambda>c. alu_eax_imm32 A c (ucast i)) e)
         else if opc = 0x80 then alu_rm8_imm8 A cb e m a (ucast i)
         else if opc = 0x81
         then sized (alu_rm64_imm32 A cb e m a (ucast i)) (alu_rm16_imm16 A cb e m a (ucast i))
                (alu_rm32_imm32 A cb e m a (ucast i))
         else if opc = 0x83
         then sized (alu_rm64_imm8 A cb e m a (ucast i)) (alu_rm16_imm8 A cb e m a (ucast i))
                (alu_rm32_imm8 A cb e m a (ucast i))
         else if opc = b then alu_rm8_r8 A cb e m a
         else if opc = b + 1
         then sized (alu_rm64_r64 A cb e m a) (alu_rm16_r16 A cb e m a) (alu_rm32_r32 A cb e m a)
         else if opc = b + 2 then alu_r8_rm8 A cb e m a
         else if opc = b + 3
         then sized (alu_r64_rm64 A cb e m a) (alu_r16_rm16 A cb e m a) (alu_r32_rm32 A cb e m a)
         else e)"

subsection \<open>ADD\<close>

definition add_ops :: alu_ops where
  "add_ops =
     \<lparr>op8 = (\<lambda>c d s. let r = ucast d + ucast s :: u16 in (ucast r, update_flags_add8 c d s r)),
      op16 = (\<lambda>c d s. let r = ucast d + ucast s :: u32 in (ucast r, update_flags_add16 c d s r)),
      op32 = (\<lambda>c d s. let r = ucast d + ucast s :: u64 in (ucast r, update_flags_add32 c d s r)),
      op64 = (\<lambda>c d s. (d + s, update_flags_add64 c d s (d + s)))\<rparr>"

definition add_al_imm8 :: "CPU_CONTEXT \<Rightarrow> u8 \<Rightarrow> CPU_CONTEXT" where [insn_defs]: "add_al_imm8 = alu_al_imm8 add_ops"
definition add_ax_imm16 :: "CPU_CONTEXT \<Rightarrow> u16 \<Rightarrow> CPU_CONTEXT" where [insn_defs]: "add_ax_imm16 = alu_ax_imm16 add_ops"
definition add_eax_imm32 :: "CPU_CONTEXT \<Rightarrow> u32 \<Rightarrow> CPU_CONTEXT" where [insn_defs]: "add_eax_imm32 = alu_eax_imm32 add_ops"
definition add_rax_imm32 :: "CPU_CONTEXT \<Rightarrow> u32 \<Rightarrow> CPU_CONTEXT" where [insn_defs]: "add_rax_imm32 = alu_rax_imm32 add_ops"
definition add_rm8_imm8 :: "callbacks \<Rightarrow> cpueaxh_engine \<Rightarrow> u8 \<Rightarrow> u64 \<Rightarrow> u8 \<Rightarrow> cpueaxh_engine" where
  [insn_defs]: "add_rm8_imm8 = alu_rm8_imm8 add_ops"
definition add_rm16_imm16 :: "callbacks \<Rightarrow> cpueaxh_engine \<Rightarrow> u8 \<Rightarrow> u64 \<Rightarrow> u16 \<Rightarrow> cpueaxh_engine" where
  [insn_defs]: "add_rm16_imm16 = alu_rm16_imm16 add_ops"
definition add_rm32_imm32 :: "callbacks \<Rightarrow> cpueaxh_engine \<Rightarrow> u8 \<Rightarrow> u64 \<Rightarrow> u32 \<Rightarrow> cpueaxh_engine" where
  [insn_defs]: "add_rm32_imm32 = alu_rm32_imm32 add_ops"
definition add_rm64_imm32 :: "callbacks \<Rightarrow> cpueaxh_engine \<Rightarrow> u8 \<Rightarrow> u64 \<Rightarrow> u32 \<Rightarrow> cpueaxh_engine" where
  [insn_defs]: "add_rm64_imm32 = alu_rm64_imm32 add_ops"
definition add_rm16_imm8 :: "callbacks \<Rightarrow> cpueaxh_engine \<Rightarrow> u8 \<Rightarrow> u64 \<Rightarrow> u8 \<Rightarrow> cpueaxh_engine" where
  [insn_defs]: "add_rm16_imm8 = alu_rm16_imm8 add_ops"
definition add_rm32_imm8 :: "callbacks \<Rightarrow> cpueaxh_engine \<Rightarrow> u8 \<Rightarrow> u64 \<Rightarrow> u8 \<Rightarrow> cpueaxh_engine" where
  [insn_defs]: "add_rm32_imm8 = alu_rm32_imm8 add_ops"
definition add_rm64_imm8 :: "callbacks \<Rightarrow> cpueaxh_engine \<Rightarrow> u8 \<Rightarrow> u64 \<Rightarrow> u8 \<Rightarrow> cpueaxh_engine" where
  [insn_defs]: "add_rm64_imm8 = alu_rm64_imm8 add_ops"
definition add_rm8_r8 :: "callbacks \<Rightarrow> cpueaxh_engine \<Rightarrow> u8 \<Rightarrow> u64 \<Rightarrow> cpueaxh_engine" where
  [insn_defs]: "add_rm8_r8 = alu_rm8_r8 add_ops"
definition add_rm16_r16 :: "callbacks \<Rightarrow> cpueaxh_engine \<Rightarrow> u8 \<Rightarrow> u64 \<Rightarrow> cpueaxh_engine" where
  [insn_defs]: "add_rm16_r16 = alu_rm16_r16 add_ops"
definition add_rm32_r32 :: "callbacks \<Rightarrow> cpueaxh_engine \<Rightarrow> u8 \<Rightarrow> u64 \<Rightarrow> cpueaxh_engine" where
  [insn_defs]: "add_rm32_r32 = alu_rm32_r32 add_ops"
definition add_rm64_r64 :: "callbacks \<Rightarrow> cpueaxh_engine \<Rightarrow> u8 \<Rightarrow> u64 \<Rightarrow> cpueaxh_engine" where
  [insn_defs]: "add_rm64_r64 = alu_rm64_r64 add_ops"
definition add_r8_rm8 :: "callbacks \<Rightarrow> cpueaxh_engine \<Rightarrow> u8 \<Rightarrow> u64 \<Rightarrow> cpueaxh_engine" where
  [insn_defs]: "add_r8_rm8 = alu_r8_rm8 add_ops"
definition add_r16_rm16 :: "callbacks \<Rightarrow> cpueaxh_engine \<Rightarrow> u8 \<Rightarrow> u64 \<Rightarrow> cpueaxh_engine" where
  [insn_defs]: "add_r16_rm16 = alu_r16_rm16 add_ops"
definition add_r32_rm32 :: "callbacks \<Rightarrow> cpueaxh_engine \<Rightarrow> u8 \<Rightarrow> u64 \<Rightarrow> cpueaxh_engine" where
  [insn_defs]: "add_r32_rm32 = alu_r32_rm32 add_ops"
definition add_r64_rm64 :: "callbacks \<Rightarrow> cpueaxh_engine \<Rightarrow> u8 \<Rightarrow> u64 \<Rightarrow> cpueaxh_engine" where
  [insn_defs]: "add_r64_rm64 = alu_r64_rm64 add_ops"

definition decode_modrm_add :: "bool \<Rightarrow> u8 list \<Rightarrow> dstate \<Rightarrow> dresult" where
  "decode_modrm_add = decode_modrm_lockable"
definition decode_add_instruction :: "CPU_CONTEXT \<Rightarrow> u8 list \<Rightarrow> DecodedInstruction \<times> CPU_CONTEXT" where
  "decode_add_instruction = decode_alu_instruction 0x00 0"
definition execute_add_with_decoded ::
  "callbacks \<Rightarrow> cpueaxh_engine \<Rightarrow> DecodedInstruction \<Rightarrow> cpueaxh_engine" where
  "execute_add_with_decoded = execute_alu_with_decoded add_ops 0x00"
definition execute_add :: "callbacks \<Rightarrow> cpueaxh_engine \<Rightarrow> u8 list \<Rightarrow> cpueaxh_engine" where
  "execute_add = execute_decoding decode_add_instruction execute_add_with_decoded"
definition execute_add_fast :: "callbacks \<Rightarrow> cpueaxh_engine \<Rightarrow> DecodedInst \<Rightarrow> cpueaxh_engine" where
  "execute_add_fast = execute_cached_recompute execute_add_with_decoded"

subsection \<open>SUB\<close>

definition sub_ops :: alu_ops where
  "sub_ops =
     \<lparr>op8 = (\<lambda>c d s. let r = ucast d - ucast s :: u16 in (ucast r, update_flags_sub8 c d s r)),
      op16 = (\<lambda>c d s. let r = ucast d - ucast s :: u32 in (ucast r, update_flags_sub16 c d s r)),
      op32 = (\<lambda>c d s. let r = ucast d - ucast s :: u64 in (ucast r, update_flags_sub32 c d s r)),
      op64 = (\<lambda>c d s. (d - s, update_flags_sub64 c d s (d - s)))\<rparr>"

definition sub_al_imm8 :: "CPU_CONTEXT \<Rightarrow> u8 \<Rightarrow> CPU_CONTEXT" where [insn_defs]: "sub_al_imm8 = alu_al_imm8 sub_ops"
definition sub_ax_imm16 :: "CPU_CONTEXT \<Rightarrow> u16 \<Rightarrow> CPU_CONTEXT" where [insn_defs]: "sub_ax_imm16 = alu_ax_imm16 sub_ops"
definition sub_eax_imm32 :: "CPU_CONTEXT \<Rightarrow> u32 \<Rightarrow> CPU_CONTEXT" where [insn_defs]: "sub_eax_imm32 = alu_eax_imm32 sub_ops"
definition sub_rax_imm32 :: "CPU_CONTEXT \<Rightarrow> u32 \<Rightarrow> CPU_CONTEXT" where [insn_defs]: "sub_rax_imm32 = alu_rax_imm32 sub_ops"
definition sub_rm8_imm8 :: "callbacks \<Rightarrow> cpueaxh_engine \<Rightarrow> u8 \<Rightarrow> u64 \<Rightarrow> u8 \<Rightarrow> cpueaxh_engine" where
  [insn_defs]: "sub_rm8_imm8 = alu_rm8_imm8 sub_ops"
definition sub_rm16_imm16 :: "callbacks \<Rightarrow> cpueaxh_engine \<Rightarrow> u8 \<Rightarrow> u64 \<Rightarrow> u16 \<Rightarrow> cpueaxh_engine" where
  [insn_defs]: "sub_rm16_imm16 = alu_rm16_imm16 sub_ops"
definition sub_rm32_imm32 :: "callbacks \<Rightarrow> cpueaxh_engine \<Rightarrow> u8 \<Rightarrow> u64 \<Rightarrow> u32 \<Rightarrow> cpueaxh_engine" where
  [insn_defs]: "sub_rm32_imm32 = alu_rm32_imm32 sub_ops"
definition sub_rm64_imm32 :: "callbacks \<Rightarrow> cpueaxh_engine \<Rightarrow> u8 \<Rightarrow> u64 \<Rightarrow> u32 \<Rightarrow> cpueaxh_engine" where
  [insn_defs]: "sub_rm64_imm32 = alu_rm64_imm32 sub_ops"
definition sub_rm16_imm8 :: "callbacks \<Rightarrow> cpueaxh_engine \<Rightarrow> u8 \<Rightarrow> u64 \<Rightarrow> u8 \<Rightarrow> cpueaxh_engine" where
  [insn_defs]: "sub_rm16_imm8 = alu_rm16_imm8 sub_ops"
definition sub_rm32_imm8 :: "callbacks \<Rightarrow> cpueaxh_engine \<Rightarrow> u8 \<Rightarrow> u64 \<Rightarrow> u8 \<Rightarrow> cpueaxh_engine" where
  [insn_defs]: "sub_rm32_imm8 = alu_rm32_imm8 sub_ops"
definition sub_rm64_imm8 :: "callbacks \<Rightarrow> cpueaxh_engine \<Rightarrow> u8 \<Rightarrow> u64 \<Rightarrow> u8 \<Rightarrow> cpueaxh_engine" where
  [insn_defs]: "sub_rm64_imm8 = alu_rm64_imm8 sub_ops"
definition sub_rm8_r8 :: "callbacks \<Rightarrow> cpueaxh_engine \<Rightarrow> u8 \<Rightarrow> u64 \<Rightarrow> cpueaxh_engine" where
  [insn_defs]: "sub_rm8_r8 = alu_rm8_r8 sub_ops"
definition sub_rm16_r16 :: "callbacks \<Rightarrow> cpueaxh_engine \<Rightarrow> u8 \<Rightarrow> u64 \<Rightarrow> cpueaxh_engine" where
  [insn_defs]: "sub_rm16_r16 = alu_rm16_r16 sub_ops"
definition sub_rm32_r32 :: "callbacks \<Rightarrow> cpueaxh_engine \<Rightarrow> u8 \<Rightarrow> u64 \<Rightarrow> cpueaxh_engine" where
  [insn_defs]: "sub_rm32_r32 = alu_rm32_r32 sub_ops"
definition sub_rm64_r64 :: "callbacks \<Rightarrow> cpueaxh_engine \<Rightarrow> u8 \<Rightarrow> u64 \<Rightarrow> cpueaxh_engine" where
  [insn_defs]: "sub_rm64_r64 = alu_rm64_r64 sub_ops"
definition sub_r8_rm8 :: "callbacks \<Rightarrow> cpueaxh_engine \<Rightarrow> u8 \<Rightarrow> u64 \<Rightarrow> cpueaxh_engine" where
  [insn_defs]: "sub_r8_rm8 = alu_r8_rm8 sub_ops"
definition sub_r16_rm16 :: "callbacks \<Rightarrow> cpueaxh_engine \<Rightarrow> u8 \<Rightarrow> u64 \<Rightarrow> cpueaxh_engine" where
  [insn_defs]: "sub_r16_rm16 = alu_r16_rm16 sub_ops"
definition sub_r32_rm32 :: "callbacks \<Rightarrow> cpueaxh_engine \<Rightarrow> u8 \<Rightarrow> u64 \<Rightarrow> cpueaxh_engine" where
  [insn_defs]: "sub_r32_rm32 = alu_r32_rm32 sub_ops"
definition sub_r64_rm64 :: "callbacks \<Rightarrow> cpueaxh_engine \<Rightarrow> u8 \<Rightarrow> u64 \<Rightarrow> cpueaxh_engine" where
  [insn_defs]: "sub_r64_rm64 = alu_r64_rm64 sub_ops"

definition decode_modrm_sub :: "bool \<Rightarrow> u8 list \<Rightarrow> dstate \<Rightarrow> dresult" where
  "decode_modrm_sub = decode_modrm_lockable"
definition decode_sub_instruction :: "CPU_CONTEXT \<Rightarrow> u8 list \<Rightarrow> DecodedInstruction \<times> CPU_CONTEXT" where
  "decode_sub_instruction = decode_alu_instruction 0x28 5"
definition execute_sub_with_decoded ::
  "callbacks \<Rightarrow> cpueaxh_engine \<Rightarrow> DecodedInstruction \<Rightarrow> cpueaxh_engine" where
  "execute_sub_with_decoded = execute_alu_with_decoded sub_ops 0x28"
definition execute_sub :: "callbacks \<Rightarrow> cpueaxh_engine \<Rightarrow> u8 list \<Rightarrow> cpueaxh_engine" where
  "execute_sub = execute_decoding decode_sub_instruction execute_sub_with_decoded"
definition execute_sub_fast :: "callbacks \<Rightarrow> cpueaxh_engine \<Rightarrow> DecodedInst \<Rightarrow> cpueaxh_engine" where
  "execute_sub_fast = execute_cached_recompute execute_sub_with_decoded"

subsection \<open>AND\<close>

definition and_ops :: alu_ops where
  "and_ops =
     \<lparr>op8 = (\<lambda>c d s. (d AND s, update_flags_and8 c (d AND s))),
      op16 = (\<lambda>c d s. (d AND s, update_flags_and16 c (d AND s))),
      op32 = (\<lambda>c d s. (d AND s, update_flags_and32 c (d AND s))),
      op64 = (\<lambda>c d s. (d AND s, update_flags_and64 c (d AND s)))\<rparr>"

definition and_al_imm8 :: "CPU_CONTEXT \<Rightarrow> u8 \<Rightarrow> CPU_CONTEXT" where [insn_defs]: "and_al_imm8 = alu_al_imm8 and_ops"
definition and_ax_imm16 :: "CPU_CONTEXT \<Rightarrow> u16 \<Rightarrow> CPU_CONTEXT" where [insn_defs]: "and_ax_imm16 = alu_ax_imm16 and_ops"
definition and_eax_imm32 :: "CPU_CONTEXT \<Rightarrow> u32 \<Rightarrow> CPU_CONTEXT" where [insn_defs]: "and_eax_imm32 = alu_eax_imm32 and_ops"
definition and_rax_imm32 :: "CPU_CONTEXT \<Rightarrow> u32 \<Rightarrow> CPU_CONTEXT" where [insn_defs]: "and_rax_imm32 = alu_rax_imm32 and_ops"
definition and_rm8_imm8 :: "callbacks \<Rightarrow> cpueaxh_engine \<Rightarrow> u8 \<Rightarrow> u64 \<Rightarrow> u8 \<Rightarrow> cpueaxh_engine" where
  [insn_defs]: "and_rm8_imm8 = alu_rm8_imm8 and_ops"
definition and_rm16_imm16 :: "callbacks \<Rightarrow> cpueaxh_engine \<Rightarrow> u8 \<Rightarrow> u64 \<Rightarrow> u16 \<Rightarrow> cpueaxh_engine" where
  [insn_defs]: "and_rm16_imm16 = alu_rm16_imm16 and_ops"
definition and_rm32_imm32 :: "callbacks \<Rightarrow> cpueaxh_engine \<Rightarrow> u8 \<Rightarrow> u64 \<Rightarrow> u32 \<Rightarrow> cpueaxh_engine" where
  [insn_defs]: "and_rm32_imm32 = alu_rm32_imm32 and_ops"
definition and_rm64_imm32 :: "callbacks \<Rightarrow> cpueaxh_engine \<Rightarrow> u8 \<Rightarrow> u64 \<Rightarrow> u32 \<Rightarrow> cpueaxh_engine" where
  [insn_defs]: "and_rm64_imm32 = alu_rm64_imm32 and_ops"
definition and_rm16_imm8 :: "callbacks \<Rightarrow> cpueaxh_engine \<Rightarrow> u8 \<Rightarrow> u64 \<Rightarrow> u8 \<Rightarrow> cpueaxh_engine" where
  [insn_defs]: "and_rm16_imm8 = alu_rm16_imm8 and_ops"
definition and_rm32_imm8 :: "callbacks \<Rightarrow> cpueaxh_engine \<Rightarrow> u8 \<Rightarrow> u64 \<Rightarrow> u8 \<Rightarrow> cpueaxh_engine" where
  [insn_defs]: "and_rm32_imm8 = alu_rm32_imm8 and_ops"
definition and_rm64_imm8 :: "callbacks \<Rightarrow> cpueaxh_engine \<Rightarrow> u8 \<Rightarrow> u64 \<Rightarrow> u8 \<Rightarrow> cpueaxh_engine" where
  [insn_defs]: "and_rm64_imm8 = alu_rm64_imm8 and_ops"
definition and_rm8_r8 :: "callbacks \<Rightarrow> cpueaxh_engine \<Rightarrow> u8 \<Rightarrow> u64 \<Rightarrow> cpueaxh_engine" where
  [insn_defs]: "and_rm8_r8 = alu_rm8_r8 and_ops"
definition and_rm16_r16 :: "callbacks \<Rightarrow> cpueaxh_engine \<Rightarrow> u8 \<Rightarrow> u64 \<Rightarrow> cpueaxh_engine" where
  [insn_defs]: "and_rm16_r16 = alu_rm16_r16 and_ops"
definition and_rm32_r32 :: "callbacks \<Rightarrow> cpueaxh_engine \<Rightarrow> u8 \<Rightarrow> u64 \<Rightarrow> cpueaxh_engine" where
  [insn_defs]: "and_rm32_r32 = alu_rm32_r32 and_ops"
definition and_rm64_r64 :: "callbacks \<Rightarrow> cpueaxh_engine \<Rightarrow> u8 \<Rightarrow> u64 \<Rightarrow> cpueaxh_engine" where
  [insn_defs]: "and_rm64_r64 = alu_rm64_r64 and_ops"
definition and_r8_rm8 :: "callbacks \<Rightarrow> cpueaxh_engine \<Rightarrow> u8 \<Rightarrow> u64 \<Rightarrow> cpueaxh_engine" where
  [insn_defs]: "and_r8_rm8 = alu_r8_rm8 and_ops"
definition and_r16_rm16 :: "callbacks \<Rightarrow> cpueaxh_engine \<Rightarrow> u8 \<Rightarrow> u64 \<Rightarrow> cpueaxh_engine" where
  [insn_defs]: "and_r16_rm16 = alu_r16_rm16 and_ops"
definition and_r32_rm32 :: "callbacks \<Rightarrow> cpueaxh_engine \<Rightarrow> u8 \<Rightarrow> u64 \<Rightarrow> cpueaxh_engine" where
  [insn_defs]: "and_r32_rm32 = alu_r32_rm32 and_ops"
definition and_r64_rm64 :: "callbacks \<Rightarrow> cpueaxh_engine \<Rightarrow> u8 \<Rightarrow> u64 \<Rightarrow> cpueaxh_engine" where
  [insn_defs]: "and_r64_rm64 = alu_r64_rm64 and_ops"

definition decode_modrm_and :: "bool \<Rightarrow> u8 list \<Rightarrow> dstate \<Rightarrow> dresult" where
  "decode_modrm_and = decode_modrm_lockable"
definition decode_and_instruction :: "CPU_CONTEXT \<Rightarrow> u8 list \<Rightarrow> DecodedInstruction \<times> CPU_CONTEXT" where
  "decode_and_instruction = decode_alu_instruction 0x20 4"
definition execute_and_with_decoded ::
  "callbacks \<Rightarrow> cpueaxh_engine \<Rightarrow> DecodedInstruction \<Rightarrow> cpueaxh_engine" where
  "execute_and_with_decoded = execute_alu_with_decoded and_ops 0x20"
definition execute_and :: "callbacks \<Rightarrow> cpueaxh_engine \<Rightarrow> u8 list \<Rightarrow> cpueaxh_engine" where
  "execute_and = execute_decoding decode_and_instruction execute_and_with_decoded"
definition execute_and_fast :: "callbacks \<Rightarrow> cpueaxh_engine \<Rightarrow> DecodedInst \<Rightarrow> cpueaxh_engine" where
  "execute_and_fast = execute_cached_recompute execute_and_with_decoded"

subsection \<open>Replaying\<close>

lemma decode_alu_opcode_step: "decode_step (decode_alu_opcode b g lock code) True"
  unfolding decode_alu_opcode_def Let_def
  by (rule decode_step_weaken, (rule decode_steps static_updates | (simp; fail))+)

lemma decode_alu_opened:
  "opened_decoder apply_rex_byte id (decode_alu_opcode b g) True (decode_alu_instruction b g)"
  by (intro opened_decoder.intro raw_prefixes.prefix_reader_axioms opened_decoder_axioms.intro)
     (simp_all add: decode_alu_opcode_step decode_alu_instruction_def)

interpretation add_decoder: opened_decoder apply_rex_byte id "decode_alu_opcode 0x00 0" True decode_add_instruction
  unfolding decode_add_instruction_def by (rule decode_alu_opened)
interpretation sub_decoder: opened_decoder apply_rex_byte id "decode_alu_opcode 0x28 5" True decode_sub_instruction
  unfolding decode_sub_instruction_def by (rule decode_alu_opened)
interpretation and_decoder: opened_decoder apply_rex_byte id "decode_alu_opcode 0x20 4" True decode_and_instruction
  unfolding decode_and_instruction_def by (rule decode_alu_opened)

end
