(* ===== verification/PropsExecutor.thy ===== *)
theory PropsExecutor
  imports ExecutorSpec PropsEngine Api Alu
begin

text \<open>
  The properties of the executor, of the run loop and register transfer of the public interface, and
  of the replay of decoded instructions.
\<close>

unbundle bit_operations_syntax

subsection \<open>Steps\<close>

text \<open>
  C26: exceptions are precise. A dispatched instruction that ends with an exception has put back the
  general and control registers (all but \<^verbatim>\<open>CR2\<close>), the segments, RIP, the flags, the x87 and descriptor
  table registers and the decode state as they were before the instruction, and the vector registers
  as well when the decoder marked the instruction as touching them; only the segment override is
  reset. Hooks on instruction fetches run before the state is saved: where such hooks are registered, it is
  the state they have left that comes back, and they must not have raised an exception themselves. This holds
  for every instruction set and every callback, unless the decoder marked the instruction as one that
  cannot fault or that keeps partial progress.
\<close>

theorem exceptions_are_precise:
  assumes "cpu_step_dispatch_decoded insns cb e dec r = (CPU_STEP_EXCEPTION, e')"
    and "before = cpu_executor_notify_fetched_bytes cb e r dec" "\<not> cpu_has_exception (cpu_ctx before)"
    and "\<not> decoded_has dec DECODED_FLAG_NO_FAULT" "\<not> decoded_has dec DECODED_FLAG_PARTIAL_PROGRESS"
  shows "(\<not> cpu_has_hook_type e CPUEAXH_HOOK_MEM_FETCH \<longrightarrow> before = e) \<and>
    cpu_has_exception (cpu_ctx e') \<and>
    cpu_capture_scalar_snapshot (cpu_ctx e') = (cpu_capture_scalar_snapshot (cpu_ctx before))
      \<lparr>sn_control_regs := (control_regs (cpu_ctx before))(REG_CR2 := control_regs (cpu_ctx e') REG_CR2),
       sn_segment_override := - 1\<rparr> \<and>
    (decoded_has dec DECODED_FLAG_TOUCHES_VECTOR \<longrightarrow>
      cpu_capture_vector_snapshot (cpu_ctx e') = cpu_capture_vector_snapshot (cpu_ctx before))"
  using precise_dispatch [OF assms(1) assms(3) [unfolded assms(2)] assms(4,5)]
  by (simp add: precise_def assms(2) cpu_executor_notify_fetched_bytes_def)

text \<open>An instruction set whose handlers clear a register and then raise \<^verbatim>\<open>GP\<close>.\<close>

definition faulting_insns :: instruction_set where
  "faulting_insns = \<lparr>is_decode = (\<lambda>_ _. decoded_inst_clear),
     is_handler = (\<lambda>_ _ e _. on_ctx (\<lambda>c. raise_gp_ctx (c\<lparr>regs := (regs c)(REG_RSP := 0)\<rparr>) 0) e),
     is_fast_handler = (\<lambda>_ _ e _. e)\<rparr>"

theorem exceptions_are_precise_witness:
  "regs (cpu_ctx (snd (cpu_step_dispatch_decoded faulting_insns demo_callbacks demo_engine
     (decoded_inst_clear\<lparr>dc_handler := 1\<rparr>) 0))) REG_RSP = 0x3000"
proof -
  let ?d = "decoded_inst_clear\<lparr>dc_handler := 1\<rparr>"
  let ?r = "cpu_step_dispatch_decoded faulting_insns demo_callbacks demo_engine ?d 0"
  have h: "\<not> cpu_has_hook_type demo_engine CPUEAXH_HOOK_MEM_FETCH"
    by (simp add: demo_engine_def cpu_has_hook_type_def)
  have f: "\<not> decoded_has ?d k" for k by (simp add: decoded_has_def decoded_inst_clear_def)
  have g: "\<not> cpu_has_exception demo_ctx" by simp
  then have "fst ?r = CPU_STEP_EXCEPTION"
    using h f
    by (simp add: cpu_step_dispatch_decoded_def Let_def run_decoded_def cpu_executor_notify_fetched_bytes_def
        faulting_insns_def cpu_step_finish_def on_ctx_def decoded_inst_clear_def cpu_defs)
  then have "cpu_step_dispatch_decoded faulting_insns demo_callbacks demo_engine ?d 0 = (CPU_STEP_EXCEPTION, snd ?r)"
    by (metis prod.collapse)
  from exceptions_are_precise [OF this _ _ f f, of demo_engine] g h
  have "sn_regs (cpu_capture_scalar_snapshot (cpu_ctx (snd ?r))) = regs demo_ctx"
    by (simp add: cpu_capture_scalar_snapshot_def cpu_executor_notify_fetched_bytes_def)
  then show ?thesis by (simp add: cpu_capture_scalar_snapshot_def)
qed


text \<open>All handlers are those of \<^verbatim>\<open>ADD\<close>; the engine is about to execute the last byte of a page.\<close>

definition add_insns :: instruction_set where
  "add_insns = \<lparr>is_decode = (\<lambda>_ bs. decoded_inst_clear\<lparr>dc_handler := 1, dc_byte_count := of_nat (length bs)\<rparr>),
     is_handler = (\<lambda>_. execute_add), is_fast_handler = (\<lambda>_ _ e _. e)\<rparr>"



subsection \<open>The public interface\<close>

text \<open>
  C28: a run with a non-zero step limit \<^verbatim>\<open>count\<close> returns, whatever the program, the hooks and the escapes do, as long as
  each handler and callback returns. \<^verbatim>\<open>cpueaxh_emu_start\<close> makes exactly \<^verbatim>\<open>count\<close> iterations and succeeds, or
  fewer, when before one of them the end address is reached or a stop is requested, where it succeeds as well,
  or when an iteration itself ends the run. \<^verbatim>\<open>cpu_run\<close> makes exactly \<^verbatim>\<open>count\<close> steps and returns that number, or
  returns the number of the steps before the first one that was not successful. \<^verbatim>\<open>cpueaxh_emu_start_function\<close>, which
  makes one run of the first kind, returns too.
\<close>

theorem limited_run_returns:
  assumes "count \<noteq> 0"
  shows "(\<exists>error e'. cpueaxh_emu_start insns cb blk (Some e) begin until count = Some (error, Some e') \<and>
      limited_run (emu_iteration insns cb blk (emu_begin begin e)) until (unat count) (emu_begin begin e) (error, e')) \<and>
    (\<exists>k e'. cpu_run insns cb e count = Some (of_nat k, e') \<and> limited_cpu_run insns cb (unat count) e (k, e')) \<and>
    (\<exists>r. cpueaxh_emu_start_function insns cb blk engine begin count = Some r)"
proof -
  have run: "\<exists>error e'. cpueaxh_emu_start insns cb blk (Some g) begin u count = Some (error, Some e') \<and>
      limited_run (emu_iteration insns cb blk (emu_begin begin g)) u (unat count) (emu_begin begin g) (error, e')" for g u
    using emu_loop_returns [OF assms, of 0 "emu_iteration insns cb blk (emu_begin begin g)" u "emu_begin begin g"]
    by (auto simp: cpueaxh_emu_start_def Let_def)
  have "cpueaxh_emu_start insns cb blk g begin u count \<noteq> None" for g u
    using run by (cases g) (fastforce simp: cpueaxh_emu_start_def)+
  then have "cpueaxh_emu_start_function insns cb blk engine begin count \<noteq> None"
    by (simp add: cpueaxh_emu_start_function_def Let_def case_prod_beta split: option.split del: not_None_eq)
  then have "\<exists>r. cpueaxh_emu_start_function insns cb blk engine begin count = Some r" by simp
  then show ?thesis
    using run cpu_run_loop_returns [OF assms, of 0 insns cb e] by (simp add: cpu_run_def)
qed

theorem limited_run_returns_witness:
  "\<exists>k e'. k \<le> 5 \<and> cpu_run add_insns demo_callbacks demo_engine 5 = Some (of_nat k, e')"
  using limited_run_returns [of 5 add_insns demo_callbacks 0 demo_engine 0 0 None]
  by (auto simp: limited_cpu_run_def)

text \<open>
  An instruction whose opcode the decoder does not mark as an escape candidate is never
  classified as an escape, so skipping the classification on a cache hit loses no escape.
\<close>

theorem skipped_classification_is_sound:
  assumes "\<not> cpu_decoder_is_escape_candidate_opc (fst (peek_opcode ctx bytes))"
  shows "cpueaxh_classify_escape_instruction ctx bytes = (CPUEAXH_ESCAPE_INSN_NONE, 0)"
  using not_candidate_not_escape [OF assms] .

theorem skipped_classification_is_sound_witness:
  "cpueaxh_classify_escape_instruction demo_ctx [0x48, 0x01, 0xC8] = (CPUEAXH_ESCAPE_INSN_NONE, 0)"
proof -
  have "\<not> cpu_decoder_is_escape_candidate_opc (fst (peek_opcode demo_ctx [0x48, 0x01, 0xC8]))"
    by code_simp
  then show ?thesis by (rule skipped_classification_is_sound)
qed

text \<open>
  C29: a register written through the interface reads back as written, for every register number that
  accepts a write: all its bytes, or for the segment fields and the privilege level the bits the
  register has. A successful write changes nothing but the CPU context.
\<close>

theorem register_reads_back:
  assumes "cpueaxh_reg_write (Some e) regid (Some bs) = (CPUEAXH_ERR_OK, Some e')" "length bs = reg_width regid"
  shows "cpueaxh_reg_read (Some e') regid True = (CPUEAXH_ERR_OK, Some (reg_kept regid bs)) \<and>
    e' = e\<lparr>cpu_ctx := cpu_ctx e'\<rparr>"
proof -
  have "CPUEAXH_ERR_ARG \<noteq> CPUEAXH_ERR_OK" by (simp add: CPUEAXH_ERR_ARG_def CPUEAXH_ERR_OK_def)
  with assms(1) obtain c where "reg_update (cpu_ctx e) regid bs = Some c" "e' = e\<lparr>cpu_ctx := c\<rparr>"
    by (auto simp: cpueaxh_reg_write_def with_engine_def cpueaxh_reg_write_raw_def split: option.splits)
  then show ?thesis
    using reg_roundtrip [OF _ assms(2)] by (simp add: cpueaxh_reg_read_def cpueaxh_reg_read_raw_def)
qed

theorem register_reads_back_witness:
  "\<exists>e'. cpueaxh_reg_write (Some demo_engine) CPUEAXH_X86_REG_RAX (Some [1, 2, 3, 4, 5, 6, 7, 8]) = (CPUEAXH_ERR_OK, Some e') \<and>
     cpueaxh_reg_read (Some e') CPUEAXH_X86_REG_RAX True = (CPUEAXH_ERR_OK, Some [1, 2, 3, 4, 5, 6, 7, 8])"
proof -
  let ?w = "cpueaxh_reg_write (Some demo_engine) CPUEAXH_X86_REG_RAX (Some [1, 2, 3, 4, 5, 6, 7, 8])"
  obtain e' where w: "?w = (CPUEAXH_ERR_OK, Some e')"
    by (simp add: cpueaxh_reg_write_def with_engine_def cpueaxh_reg_write_raw_def reg_update_def reg_in_def reg_ids Let_def)
  have "cpueaxh_select_segment CPUEAXH_X86_REG_RAX = None" by (intro select_segment_range) (simp add: reg_in_def reg_ids)
  then have "reg_width CPUEAXH_X86_REG_RAX = 8" "reg_kept CPUEAXH_X86_REG_RAX bs = bs" for bs
    by (simp_all add: reg_width_def reg_kept_def reg_in_def reg_ids Let_def)
  then show ?thesis using register_reads_back [OF w] w by simp
qed

end
