(* ===== verification/Logic.thy ===== *)
theory Logic
  imports Alu
begin

text \<open>
  OR and XOR (\<^verbatim>\<open>instructions/or.hpp\<close>, \<^verbatim>\<open>xor.hpp\<close>). The two files are the same up to the operation, the
  opcodes and the group number. They access an operand by its size in 64 bits, and with a LOCK
  prefix on a memory operand they use the atomic read-modify-write of \<^verbatim>\<open>cpu/memory.hpp\<close>, whose retry
  loop may not end: \<open>None\<close> is a handler that does not return.
\<close>

unbundle bit_operations_syntax

type_synonym atomic_op =
  "callbacks \<Rightarrow> cpueaxh_engine \<Rightarrow> u64 \<Rightarrow> int \<Rightarrow> u64 \<Rightarrow> ((u64 \<times> u64) option \<times> cpueaxh_engine) option"

text \<open>The record of a logical operation: on 64-bit values, its atomic form and its flags by size.\<close>

record logic_ops =
  lop :: "u64 \<Rightarrow> u64 \<Rightarrow> u64"
  lop_atomic :: atomic_op
  lop_flags :: "int \<Rightarrow> u64 \<Rightarrow> CPU_CONTEXT \<Rightarrow> CPU_CONTEXT"

definition logic_atomic ::
  "logic_ops \<Rightarrow> callbacks \<Rightarrow> cpueaxh_engine \<Rightarrow> u64 \<Rightarrow> int \<Rightarrow> u64 \<Rightarrow> cpueaxh_engine option" where
  "logic_atomic L cb e mem_addr operand_size src =
     (case lop_atomic L cb e mem_addr operand_size src of
        None \<Rightarrow> None
      | Some (None, e1) \<Rightarrow> Some e1
      | Some (Some (old_value, new_value), e1) \<Rightarrow> Some (on_ctx (lop_flags L operand_size new_value) e1))"

definition logic_rm_src ::
  "logic_ops \<Rightarrow> callbacks \<Rightarrow> cpueaxh_engine \<Rightarrow> u8 \<Rightarrow> u64 \<Rightarrow> int \<Rightarrow> u64 \<Rightarrow> bool \<Rightarrow> cpueaxh_engine option" where
  "logic_rm_src L cb e modrm mem_addr operand_size src lock =
     (if lock \<and> modrm_mod modrm \<noteq> 3 then logic_atomic L cb e mem_addr operand_size src
      else Some (rmw (read_rm_sized cb modrm mem_addr operand_size)
                   (write_rm_sized cb modrm mem_addr operand_size)
                   (\<lambda>c dst. (lop L dst src, lop_flags L operand_size (lop L dst src) c)) e))"

definition logic_rm_r ::
  "logic_ops \<Rightarrow> callbacks \<Rightarrow> cpueaxh_engine \<Rightarrow> u8 \<Rightarrow> u64 \<Rightarrow> int \<Rightarrow> bool \<Rightarrow> cpueaxh_engine option" where
  "logic_rm_r L cb e modrm mem_addr operand_size lock =
     (case read_reg_sized (reg_index (cpu_ctx e) modrm) operand_size e of
        (src, e1) \<Rightarrow> logic_rm_src L cb e1 modrm mem_addr operand_size src lock)"

definition logic_r_rm ::
  "logic_ops \<Rightarrow> callbacks \<Rightarrow> cpueaxh_engine \<Rightarrow> u8 \<Rightarrow> u64 \<Rightarrow> int \<Rightarrow> cpueaxh_engine" where
  "logic_r_rm L cb e modrm mem_addr operand_size =
     (case read_reg_sized (reg_index (cpu_ctx e) modrm) operand_size e of
        (dst, e1) \<Rightarrow>
          rmw (read_rm_sized cb modrm mem_addr operand_size)
            (\<lambda>r e. write_reg_sized (reg_index (cpu_ctx e) modrm) operand_size r e)
            (\<lambda>c src. (lop L dst src, lop_flags L operand_size (lop L dst src) c)) e1)"

text \<open>The decoder records the LOCK prefix in the instruction; the rest is that of ADD.\<close>

definition decode_logic_instruction ::
  "u8 \<Rightarrow> u8 \<Rightarrow> CPU_CONTEXT \<Rightarrow> u8 list \<Rightarrow> DecodedInstruction \<times> CPU_CONTEXT" where
  "decode_logic_instruction b g ctx code =
     (case decode_opening apply_rex_byte id ctx code of
        (lock, r) \<Rightarrow>
          decode_finish (decode_then (decode_then r (with_inst (\<lambda>i. i\<lparr>di_has_lock_prefix := lock\<rparr>)))
            (decode_alu_opcode b g lock code)))"

definition execute_logic_with_decoded ::
  "logic_ops \<Rightarrow> alu_ops \<Rightarrow> u8 \<Rightarrow> callbacks \<Rightarrow> cpueaxh_engine \<Rightarrow> DecodedInstruction \<Rightarrow> cpueaxh_engine option"
where
  "execute_logic_with_decoded L A b cb e inst =
     (let opc = di_opcode inst; m = di_modrm inst; a = di_mem_address inst; i = di_immediate inst;
          lock = di_has_lock_prefix inst;
          w64 = rex_w (cpu_ctx e); w16 = operand_size_override (cpu_ctx e);
          imm = (\<lambda>sz v. logic_rm_src L cb e m a sz v lock)
      in if opc = b + 4 then Some (on_ctx (\<lambda>c. alu_al_imm8 A c (ucast i)) e)
         else if opc = b + 5
         then Some (by_size w64 w16 (on_ctx (\<lambda>c. alu_rax_imm32 A c (ucast i)) e)
                      (on_ctx (\<lambda>c. alu_ax_imm16 A c (ucast i)) e) (on_ctx (\<lambda>c. alu_eax_imm32 A c (ucast i)) e))
         else if opc = 0x80 then imm 8 (ucast (ucast i :: u8))
         else if opc = 0x81
         then by_size w64 w16 (imm 64 (scast (ucast i :: u32))) (imm 16 (ucast (ucast i :: u16)))
                (imm 32 (ucast (ucast i :: u32)))
         else if opc = 0x83
         then by_size w64 w16 (imm 64 (scast (ucast i :: u8))) (imm 16 (ucast (scast (ucast i :: u8) :: u16)))
                (imm 32 (ucast (scast (ucast i :: u8) :: u32)))
         else if opc = b then logic_rm_r L cb e m a 8 lock
         else if opc = b + 1
         then by_size w64 w16 (logic_rm_r L cb e m a 64 lock) (logic_rm_r L cb e m a 16 lock)
                (logic_rm_r L cb e m a 32 lock)
         else if opc = b + 2 then Some (logic_r_rm L cb e m a 8)
         else if opc = b + 3
         then Some (by_size w64 w16 (logic_r_rm L cb e m a 64) (logic_r_rm L cb e m a 16)
                      (logic_r_rm L cb e m a 32))
         else Some e)"

subsection \<open>OR\<close>

definition update_or_logic_flags :: "int \<Rightarrow> u64 \<Rightarrow> CPU_CONTEXT \<Rightarrow> CPU_CONTEXT" where
  "update_or_logic_flags operand_size result c =
     (if operand_size = 8 then update_flags_or8 c (ucast result)
      else if operand_size = 16 then update_flags_or16 c (ucast result)
      else if operand_size = 32 then update_flags_or32 c (ucast result)
      else if operand_size = 64 then update_flags_or64 c result else raise_ud_ctx c)"
definition or_logic :: logic_ops where
  "or_logic = \<lparr>lop = (OR), lop_atomic = cpu_atomic_or_memory, lop_flags = update_or_logic_flags\<rparr>"
definition or_ops :: alu_ops where
  "or_ops =
     \<lparr>op8 = (\<lambda>c d s. (d OR s, update_flags_or8 c (d OR s))),
      op16 = (\<lambda>c d s. (d OR s, update_flags_or16 c (d OR s))),
      op32 = (\<lambda>c d s. (d OR s, update_flags_or32 c (d OR s))),
      op64 = (\<lambda>c d s. (d OR s, update_flags_or64 c (d OR s)))\<rparr>"

definition decode_or_rm_index :: "CPU_CONTEXT \<Rightarrow> u8 \<Rightarrow> nat" where "decode_or_rm_index = rm_index"
definition decode_or_reg_index :: "CPU_CONTEXT \<Rightarrow> u8 \<Rightarrow> nat" where "decode_or_reg_index = reg_index"
definition read_or_rm_operand :: "callbacks \<Rightarrow> u8 \<Rightarrow> u64 \<Rightarrow> int \<Rightarrow> cpueaxh_engine \<Rightarrow> u64 \<times> cpueaxh_engine" where
  "read_or_rm_operand = read_rm_sized"
definition write_or_rm_operand :: "callbacks \<Rightarrow> u8 \<Rightarrow> u64 \<Rightarrow> int \<Rightarrow> u64 \<Rightarrow> cpueaxh_engine \<Rightarrow> cpueaxh_engine" where
  "write_or_rm_operand = write_rm_sized"
definition read_or_reg_operand :: "u8 \<Rightarrow> int \<Rightarrow> cpueaxh_engine \<Rightarrow> u64 \<times> cpueaxh_engine" where
  "read_or_reg_operand modrm operand_size e = read_reg_sized (reg_index (cpu_ctx e) modrm) operand_size e"
definition write_or_reg_operand :: "u8 \<Rightarrow> int \<Rightarrow> u64 \<Rightarrow> cpueaxh_engine \<Rightarrow> cpueaxh_engine" where
  "write_or_reg_operand modrm operand_size v e =
     write_reg_sized (reg_index (cpu_ctx e) modrm) operand_size v e"
definition or_rm_imm :: "callbacks \<Rightarrow> cpueaxh_engine \<Rightarrow> u8 \<Rightarrow> u64 \<Rightarrow> int \<Rightarrow> u64 \<Rightarrow> bool \<Rightarrow> cpueaxh_engine option" where
  "or_rm_imm = logic_rm_src or_logic"
definition or_rm_r :: "callbacks \<Rightarrow> cpueaxh_engine \<Rightarrow> u8 \<Rightarrow> u64 \<Rightarrow> int \<Rightarrow> bool \<Rightarrow> cpueaxh_engine option" where
  "or_rm_r = logic_rm_r or_logic"
definition or_r_rm :: "callbacks \<Rightarrow> cpueaxh_engine \<Rightarrow> u8 \<Rightarrow> u64 \<Rightarrow> int \<Rightarrow> cpueaxh_engine" where
  "or_r_rm = logic_r_rm or_logic"

text \<open>
  The accumulator forms read and write the low part of RAX through the register helpers; register 0
  has no high-byte form, so this is the access of ADD.
\<close>

definition or_al_imm8 :: "CPU_CONTEXT \<Rightarrow> u8 \<Rightarrow> CPU_CONTEXT" where [insn_defs]: "or_al_imm8 = alu_al_imm8 or_ops"
definition or_ax_imm16 :: "CPU_CONTEXT \<Rightarrow> u16 \<Rightarrow> CPU_CONTEXT" where [insn_defs]: "or_ax_imm16 = alu_ax_imm16 or_ops"
definition or_eax_imm32 :: "CPU_CONTEXT \<Rightarrow> u32 \<Rightarrow> CPU_CONTEXT" where [insn_defs]: "or_eax_imm32 = alu_eax_imm32 or_ops"
definition or_rax_imm32 :: "CPU_CONTEXT \<Rightarrow> u32 \<Rightarrow> CPU_CONTEXT" where [insn_defs]: "or_rax_imm32 = alu_rax_imm32 or_ops"
definition or_rm8_imm8 :: "callbacks \<Rightarrow> cpueaxh_engine \<Rightarrow> u8 \<Rightarrow> u64 \<Rightarrow> u8 \<Rightarrow> bool \<Rightarrow> cpueaxh_engine option" where
  [insn_defs]: "or_rm8_imm8 cb e modrm mem_addr imm lock = or_rm_imm cb e modrm mem_addr 8 (ucast imm) lock"
definition or_rm16_imm16 :: "callbacks \<Rightarrow> cpueaxh_engine \<Rightarrow> u8 \<Rightarrow> u64 \<Rightarrow> u16 \<Rightarrow> bool \<Rightarrow> cpueaxh_engine option" where
  [insn_defs]: "or_rm16_imm16 cb e modrm mem_addr imm lock = or_rm_imm cb e modrm mem_addr 16 (ucast imm) lock"
definition or_rm32_imm32 :: "callbacks \<Rightarrow> cpueaxh_engine \<Rightarrow> u8 \<Rightarrow> u64 \<Rightarrow> u32 \<Rightarrow> bool \<Rightarrow> cpueaxh_engine option" where
  [insn_defs]: "or_rm32_imm32 cb e modrm mem_addr imm lock = or_rm_imm cb e modrm mem_addr 32 (ucast imm) lock"
definition or_rm64_imm32 :: "callbacks \<Rightarrow> cpueaxh_engine \<Rightarrow> u8 \<Rightarrow> u64 \<Rightarrow> u32 \<Rightarrow> bool \<Rightarrow> cpueaxh_engine option" where
  [insn_defs]: "or_rm64_imm32 cb e modrm mem_addr imm lock = or_rm_imm cb e modrm mem_addr 64 (scast imm) lock"
definition or_rm16_imm8 :: "callbacks \<Rightarrow> cpueaxh_engine \<Rightarrow> u8 \<Rightarrow> u64 \<Rightarrow> u8 \<Rightarrow> bool \<Rightarrow> cpueaxh_engine option" where
  [insn_defs]: "or_rm16_imm8 cb e modrm mem_addr imm lock = or_rm_imm cb e modrm mem_addr 16 (ucast (scast imm :: u16)) lock"
definition or_rm32_imm8 :: "callbacks \<Rightarrow> cpueaxh_engine \<Rightarrow> u8 \<Rightarrow> u64 \<Rightarrow> u8 \<Rightarrow> bool \<Rightarrow> cpueaxh_engine option" where
  [insn_defs]: "or_rm32_imm8 cb e modrm mem_addr imm lock = or_rm_imm cb e modrm mem_addr 32 (ucast (scast imm :: u32)) lock"
definition or_rm64_imm8 :: "callbacks \<Rightarrow> cpueaxh_engine \<Rightarrow> u8 \<Rightarrow> u64 \<Rightarrow> u8 \<Rightarrow> bool \<Rightarrow> cpueaxh_engine option" where
  [insn_defs]: "or_rm64_imm8 cb e modrm mem_addr imm lock = or_rm_imm cb e modrm mem_addr 64 (scast imm) lock"
definition or_rm8_r8 :: "callbacks \<Rightarrow> cpueaxh_engine \<Rightarrow> u8 \<Rightarrow> u64 \<Rightarrow> bool \<Rightarrow> cpueaxh_engine option" where
  [insn_defs]: "or_rm8_r8 cb e modrm mem_addr lock = or_rm_r cb e modrm mem_addr 8 lock"
definition or_rm16_r16 :: "callbacks \<Rightarrow> cpueaxh_engine \<Rightarrow> u8 \<Rightarrow> u64 \<Rightarrow> bool \<Rightarrow> cpueaxh_engine option" where
  [insn_defs]: "or_rm16_r16 cb e modrm mem_addr lock = or_rm_r cb e modrm mem_addr 16 lock"
definition or_rm32_r32 :: "callbacks \<Rightarrow> cpueaxh_engine \<Rightarrow> u8 \<Rightarrow> u64 \<Rightarrow> bool \<Rightarrow> cpueaxh_engine option" where
  [insn_defs]: "or_rm32_r32 cb e modrm mem_addr lock = or_rm_r cb e modrm mem_addr 32 lock"
definition or_rm64_r64 :: "callbacks \<Rightarrow> cpueaxh_engine \<Rightarrow> u8 \<Rightarrow> u64 \<Rightarrow> bool \<Rightarrow> cpueaxh_engine option" where
  [insn_defs]: "or_rm64_r64 cb e modrm mem_addr lock = or_rm_r cb e modrm mem_addr 64 lock"
definition or_r8_rm8 :: "callbacks \<Rightarrow> cpueaxh_engine \<Rightarrow> u8 \<Rightarrow> u64 \<Rightarrow> cpueaxh_engine" where
  [insn_defs]: "or_r8_rm8 cb e modrm mem_addr = or_r_rm cb e modrm mem_addr 8"
definition or_r16_rm16 :: "callbacks \<Rightarrow> cpueaxh_engine \<Rightarrow> u8 \<Rightarrow> u64 \<Rightarrow> cpueaxh_engine" where
  [insn_defs]: "or_r16_rm16 cb e modrm mem_addr = or_r_rm cb e modrm mem_addr 16"
definition or_r32_rm32 :: "callbacks \<Rightarrow> cpueaxh_engine \<Rightarrow> u8 \<Rightarrow> u64 \<Rightarrow> cpueaxh_engine" where
  [insn_defs]: "or_r32_rm32 cb e modrm mem_addr = or_r_rm cb e modrm mem_addr 32"
definition or_r64_rm64 :: "callbacks \<Rightarrow> cpueaxh_engine \<Rightarrow> u8 \<Rightarrow> u64 \<Rightarrow> cpueaxh_engine" where
  [insn_defs]: "or_r64_rm64 cb e modrm mem_addr = or_r_rm cb e modrm mem_addr 64"

definition decode_modrm_or :: "bool \<Rightarrow> u8 list \<Rightarrow> dstate \<Rightarrow> dresult" where
  "decode_modrm_or = decode_modrm_lockable"
definition decode_or_instruction :: "CPU_CONTEXT \<Rightarrow> u8 list \<Rightarrow> DecodedInstruction \<times> CPU_CONTEXT" where
  "decode_or_instruction = decode_logic_instruction 0x08 1"

definition execute_or_with_decoded ::
  "callbacks \<Rightarrow> cpueaxh_engine \<Rightarrow> DecodedInstruction \<Rightarrow> cpueaxh_engine option" where
  "execute_or_with_decoded = execute_logic_with_decoded or_logic or_ops 0x08"
definition execute_or :: "callbacks \<Rightarrow> cpueaxh_engine \<Rightarrow> u8 list \<Rightarrow> cpueaxh_engine option" where
  "execute_or = execute_decoding_opt decode_or_instruction execute_or_with_decoded"
definition execute_or_fast :: "callbacks \<Rightarrow> cpueaxh_engine \<Rightarrow> DecodedInst \<Rightarrow> cpueaxh_engine option" where
  "execute_or_fast = execute_cached_recompute execute_or_with_decoded"

subsection \<open>XOR\<close>

definition update_xor_logic_flags :: "int \<Rightarrow> u64 \<Rightarrow> CPU_CONTEXT \<Rightarrow> CPU_CONTEXT" where
  "update_xor_logic_flags operand_size result c =
     (if operand_size = 8 then update_flags_xor8 c (ucast result)
      else if operand_size = 16 then update_flags_xor16 c (ucast result)
      else if operand_size = 32 then update_flags_xor32 c (ucast result)
      else if operand_size = 64 then update_flags_xor64 c result else raise_ud_ctx c)"
definition xor_logic :: logic_ops where
  "xor_logic = \<lparr>lop = (XOR), lop_atomic = cpu_atomic_xor_memory, lop_flags = update_xor_logic_flags\<rparr>"
definition xor_ops :: alu_ops where
  "xor_ops =
     \<lparr>op8 = (\<lambda>c d s. (d XOR s, update_flags_xor8 c (d XOR s))),
      op16 = (\<lambda>c d s. (d XOR s, update_flags_xor16 c (d XOR s))),
      op32 = (\<lambda>c d s. (d XOR s, update_flags_xor32 c (d XOR s))),
      op64 = (\<lambda>c d s. (d XOR s, update_flags_xor64 c (d XOR s)))\<rparr>"

definition decode_xor_rm_index :: "CPU_CONTEXT \<Rightarrow> u8 \<Rightarrow> nat" where "decode_xor_rm_index = rm_index"
definition decode_xor_reg_index :: "CPU_CONTEXT \<Rightarrow> u8 \<Rightarrow> nat" where "decode_xor_reg_index = reg_index"
definition read_xor_rm_operand :: "callbacks \<Rightarrow> u8 \<Rightarrow> u64 \<Rightarrow> int \<Rightarrow> cpueaxh_engine \<Rightarrow> u64 \<times> cpueaxh_engine" where
  "read_xor_rm_operand = read_rm_sized"
definition write_xor_rm_operand :: "callbacks \<Rightarrow> u8 \<Rightarrow> u64 \<Rightarrow> int \<Rightarrow> u64 \<Rightarrow> cpueaxh_engine \<Rightarrow> cpueaxh_engine" where
  "write_xor_rm_operand = write_rm_sized"
definition read_xor_reg_operand :: "u8 \<Rightarrow> int \<Rightarrow> cpueaxh_engine \<Rightarrow> u64 \<times> cpueaxh_engine" where
  "read_xor_reg_operand modrm operand_size e = read_reg_sized (reg_index (cpu_ctx e) modrm) operand_size e"
definition write_xor_reg_operand :: "u8 \<Rightarrow> int \<Rightarrow> u64 \<Rightarrow> cpueaxh_engine \<Rightarrow> cpueaxh_engine" where
  "write_xor_reg_operand modrm operand_size v e =
     write_reg_sized (reg_index (cpu_ctx e) modrm) operand_size v e"
definition xor_rm_imm :: "callbacks \<Rightarrow> cpueaxh_engine \<Rightarrow> u8 \<Rightarrow> u64 \<Rightarrow> int \<Rightarrow> u64 \<Rightarrow> bool \<Rightarrow> cpueaxh_engine option" where
  "xor_rm_imm = logic_rm_src xor_logic"
definition xor_rm_r :: "callbacks \<Rightarrow> cpueaxh_engine \<Rightarrow> u8 \<Rightarrow> u64 \<Rightarrow> int \<Rightarrow> bool \<Rightarrow> cpueaxh_engine option" where
  "xor_rm_r = logic_rm_r xor_logic"
definition xor_r_rm :: "callbacks \<Rightarrow> cpueaxh_engine \<Rightarrow> u8 \<Rightarrow> u64 \<Rightarrow> int \<Rightarrow> cpueaxh_engine" where
  "xor_r_rm = logic_r_rm xor_logic"

text \<open>
  The accumulator forms read and write the low part of RAX through the register helpers; register 0
  has no high-byte form, so this is the access of ADD.
\<close>

definition xor_al_imm8 :: "CPU_CONTEXT \<Rightarrow> u8 \<Rightarrow> CPU_CONTEXT" where [insn_defs]: "xor_al_imm8 = alu_al_imm8 xor_ops"
definition xor_ax_imm16 :: "CPU_CONTEXT \<Rightarrow> u16 \<Rightarrow> CPU_CONTEXT" where [insn_defs]: "xor_ax_imm16 = alu_ax_imm16 xor_ops"
definition xor_eax_imm32 :: "CPU_CONTEXT \<Rightarrow> u32 \<Rightarrow> CPU_CONTEXT" where [insn_defs]: "xor_eax_imm32 = alu_eax_imm32 xor_ops"
definition xor_rax_imm32 :: "CPU_CONTEXT \<Rightarrow> u32 \<Rightarrow> CPU_CONTEXT" where [insn_defs]: "xor_rax_imm32 = alu_rax_imm32 xor_ops"
definition xor_rm8_imm8 :: "callbacks \<Rightarrow> cpueaxh_engine \<Rightarrow> u8 \<Rightarrow> u64 \<Rightarrow> u8 \<Rightarrow> bool \<Rightarrow> cpueaxh_engine option" where
  [insn_defs]: "xor_rm8_imm8 cb e modrm mem_addr imm lock = xor_rm_imm cb e modrm mem_addr 8 (ucast imm) lock"
definition xor_rm16_imm16 :: "callbacks \<Rightarrow> cpueaxh_engine \<Rightarrow> u8 \<Rightarrow> u64 \<Rightarrow> u16 \<Rightarrow> bool \<Rightarrow> cpueaxh_engine option" where
  [insn_defs]: "xor_rm16_imm16 cb e modrm mem_addr imm lock = xor_rm_imm cb e modrm mem_addr 16 (ucast imm) lock"
definition xor_rm32_imm32 :: "callbacks \<Rightarrow> cpueaxh_engine \<Rightarrow> u8 \<Rightarrow> u64 \<Rightarrow> u32 \<Rightarrow> bool \<Rightarrow> cpueaxh_engine option" where
  [insn_defs]: "xor_rm32_imm32 cb e modrm mem_addr imm lock = xor_rm_imm cb e modrm mem_addr 32 (ucast imm) lock"
definition xor_rm64_imm32 :: "callbacks \<Rightarrow> cpueaxh_engine \<Rightarrow> u8 \<Rightarrow> u64 \<Rightarrow> u32 \<Rightarrow> bool \<Rightarrow> cpueaxh_engine option" where
  [insn_defs]: "xor_rm64_imm32 cb e modrm mem_addr imm lock = xor_rm_imm cb e modrm mem_addr 64 (scast imm) lock"
definition xor_rm16_imm8 :: "callbacks \<Rightarrow> cpueaxh_engine \<Rightarrow> u8 \<Rightarrow> u64 \<Rightarrow> u8 \<Rightarrow> bool \<Rightarrow> cpueaxh_engine option" where
  [insn_defs]: "xor_rm16_imm8 cb e modrm mem_addr imm lock = xor_rm_imm cb e modrm mem_addr 16 (ucast (scast imm :: u16)) lock"
definition xor_rm32_imm8 :: "callbacks \<Rightarrow> cpueaxh_engine \<Rightarrow> u8 \<Rightarrow> u64 \<Rightarrow> u8 \<Rightarrow> bool \<Rightarrow> cpueaxh_engine option" where
  [insn_defs]: "xor_rm32_imm8 cb e modrm mem_addr imm lock = xor_rm_imm cb e modrm mem_addr 32 (ucast (scast imm :: u32)) lock"
definition xor_rm64_imm8 :: "callbacks \<Rightarrow> cpueaxh_engine \<Rightarrow> u8 \<Rightarrow> u64 \<Rightarrow> u8 \<Rightarrow> bool \<Rightarrow> cpueaxh_engine option" where
  [insn_defs]: "xor_rm64_imm8 cb e modrm mem_addr imm lock = xor_rm_imm cb e modrm mem_addr 64 (scast imm) lock"
definition xor_rm8_r8 :: "callbacks \<Rightarrow> cpueaxh_engine \<Rightarrow> u8 \<Rightarrow> u64 \<Rightarrow> bool \<Rightarrow> cpueaxh_engine option" where
  [insn_defs]: "xor_rm8_r8 cb e modrm mem_addr lock = xor_rm_r cb e modrm mem_addr 8 lock"
definition xor_rm16_r16 :: "callbacks \<Rightarrow> cpueaxh_engine \<Rightarrow> u8 \<Rightarrow> u64 \<Rightarrow> bool \<Rightarrow> cpueaxh_engine option" where
  [insn_defs]: "xor_rm16_r16 cb e modrm mem_addr lock = xor_rm_r cb e modrm mem_addr 16 lock"
definition xor_rm32_r32 :: "callbacks \<Rightarrow> cpueaxh_engine \<Rightarrow> u8 \<Rightarrow> u64 \<Rightarrow> bool \<Rightarrow> cpueaxh_engine option" where
  [insn_defs]: "xor_rm32_r32 cb e modrm mem_addr lock = xor_rm_r cb e modrm mem_addr 32 lock"
definition xor_rm64_r64 :: "callbacks \<Rightarrow> cpueaxh_engine \<Rightarrow> u8 \<Rightarrow> u64 \<Rightarrow> bool \<Rightarrow> cpueaxh_engine option" where
  [insn_defs]: "xor_rm64_r64 cb e modrm mem_addr lock = xor_rm_r cb e modrm mem_addr 64 lock"
definition xor_r8_rm8 :: "callbacks \<Rightarrow> cpueaxh_engine \<Rightarrow> u8 \<Rightarrow> u64 \<Rightarrow> cpueaxh_engine" where
  [insn_defs]: "xor_r8_rm8 cb e modrm mem_addr = xor_r_rm cb e modrm mem_addr 8"
definition xor_r16_rm16 :: "callbacks \<Rightarrow> cpueaxh_engine \<Rightarrow> u8 \<Rightarrow> u64 \<Rightarrow> cpueaxh_engine" where
  [insn_defs]: "xor_r16_rm16 cb e modrm mem_addr = xor_r_rm cb e modrm mem_addr 16"
definition xor_r32_rm32 :: "callbacks \<Rightarrow> cpueaxh_engine \<Rightarrow> u8 \<Rightarrow> u64 \<Rightarrow> cpueaxh_engine" where
  [insn_defs]: "xor_r32_rm32 cb e modrm mem_addr = xor_r_rm cb e modrm mem_addr 32"
definition xor_r64_rm64 :: "callbacks \<Rightarrow> cpueaxh_engine \<Rightarrow> u8 \<Rightarrow> u64 \<Rightarrow> cpueaxh_engine" where
  [insn_defs]: "xor_r64_rm64 cb e modrm mem_addr = xor_r_rm cb e modrm mem_addr 64"

definition decode_modrm_xor :: "bool \<Rightarrow> u8 list \<Rightarrow> dstate \<Rightarrow> dresult" where
  "decode_modrm_xor = decode_modrm_lockable"
definition decode_xor_instruction :: "CPU_CONTEXT \<Rightarrow> u8 list \<Rightarrow> DecodedInstruction \<times> CPU_CONTEXT" where
  "decode_xor_instruction = decode_logic_instruction 0x30 6"

definition execute_xor_with_decoded ::
  "callbacks \<Rightarrow> cpueaxh_engine \<Rightarrow> DecodedInstruction \<Rightarrow> cpueaxh_engine option" where
  "execute_xor_with_decoded = execute_logic_with_decoded xor_logic xor_ops 0x30"
definition execute_xor :: "callbacks \<Rightarrow> cpueaxh_engine \<Rightarrow> u8 list \<Rightarrow> cpueaxh_engine option" where
  "execute_xor = execute_decoding_opt decode_xor_instruction execute_xor_with_decoded"
definition execute_xor_fast :: "callbacks \<Rightarrow> cpueaxh_engine \<Rightarrow> DecodedInst \<Rightarrow> cpueaxh_engine option" where
  "execute_xor_fast = execute_cached_recompute execute_xor_with_decoded"

subsection \<open>Replaying\<close>

definition decode_logic_part :: "u8 \<Rightarrow> u8 \<Rightarrow> bool \<Rightarrow> u8 list \<Rightarrow> dstate \<Rightarrow> dresult" where
  "decode_logic_part b g lock code s =
     decode_then (with_inst (\<lambda>i. i\<lparr>di_has_lock_prefix := lock\<rparr>) s) (decode_alu_opcode b g lock code)"

lemma decode_logic_opened:
  "opened_decoder apply_rex_byte id (decode_logic_part b g) True (decode_logic_instruction b g)"
proof (intro opened_decoder.intro raw_prefixes.prefix_reader_axioms opened_decoder_axioms.intro)
  have "decode_step (decode_logic_part b g lock code) (False \<or> True)" for lock code
    unfolding decode_logic_part_def
    by (rule decode_step_then [OF decode_step_with_inst decode_alu_opcode_step]) simp_all
  then show "decode_step (decode_logic_part b g lock code) True" for lock code by simp
next
  show "decode_logic_instruction b g c code = (case decode_opening apply_rex_byte id c code of
      (lock, r) \<Rightarrow> decode_finish (decode_then r (decode_logic_part b g lock code)))" for c code
    by (auto simp: decode_logic_instruction_def decode_logic_part_def decode_then_def split: prod.splits sum.splits)
qed

interpretation or_decoder: opened_decoder apply_rex_byte id "decode_logic_part 0x08 1" True decode_or_instruction
  unfolding decode_or_instruction_def by (rule decode_logic_opened)
interpretation xor_decoder: opened_decoder apply_rex_byte id "decode_logic_part 0x30 6" True decode_xor_instruction
  unfolding decode_xor_instruction_def by (rule decode_logic_opened)

end
