(* ===== verification/Unary.thy ===== *)
theory Unary
  imports Logic
begin

text \<open>
  INC, DEC, NEG and NOT (\<^verbatim>\<open>instructions/inc.hpp\<close>, \<^verbatim>\<open>dec.hpp\<close>, \<^verbatim>\<open>neg.hpp\<close>, \<^verbatim>\<open>not.hpp\<close>). The four files have the same
  functions; they differ in the operation, in the group number, and INC and DEC have the one-byte
  forms too. With a LOCK prefix on a memory operand they retry a compare-and-exchange, so a handler
  may not return.
\<close>

unbundle bit_operations_syntax

text \<open>The record of an operation: at each width, and its atomic form, which tells whether it applied.\<close>

type_synonym atomic_rm = "callbacks \<Rightarrow> cpueaxh_engine \<Rightarrow> u8 \<Rightarrow> u64 \<Rightarrow> int \<Rightarrow> (bool \<times> cpueaxh_engine) option"

record unary_ops =
  un8 :: "CPU_CONTEXT \<Rightarrow> u8 \<Rightarrow> u8 \<times> CPU_CONTEXT"
  un16 :: "CPU_CONTEXT \<Rightarrow> u16 \<Rightarrow> u16 \<times> CPU_CONTEXT"
  un32 :: "CPU_CONTEXT \<Rightarrow> u32 \<Rightarrow> u32 \<times> CPU_CONTEXT"
  un64 :: "CPU_CONTEXT \<Rightarrow> u64 \<Rightarrow> u64 \<times> CPU_CONTEXT"
  un_atomic :: atomic_rm

definition unary_rm :: "unary_ops \<Rightarrow> int \<Rightarrow> (CPU_CONTEXT \<Rightarrow> u64 \<Rightarrow> u64 \<times> CPU_CONTEXT) \<Rightarrow>
  callbacks \<Rightarrow> cpueaxh_engine \<Rightarrow> u8 \<Rightarrow> u64 \<Rightarrow> bool \<Rightarrow> cpueaxh_engine option" where
  [insn_defs]: "unary_rm U operand_size f cb e modrm mem_addr has_lock_prefix =
     (case if has_lock_prefix then un_atomic U cb e modrm mem_addr operand_size else Some (False, e) of
        None \<Rightarrow> None
      | Some (True, e1) \<Rightarrow> Some e1
      | Some (False, e1) \<Rightarrow>
          Some (rmw (read_rm_sized cb modrm mem_addr operand_size) (write_rm_sized cb modrm mem_addr operand_size) f e1))"

text \<open>The forms by width: the casts are those of the source.\<close>

definition unary_rm8 ::
  "unary_ops \<Rightarrow> callbacks \<Rightarrow> cpueaxh_engine \<Rightarrow> u8 \<Rightarrow> u64 \<Rightarrow> bool \<Rightarrow> cpueaxh_engine option" where
  [insn_defs]: "unary_rm8 U = unary_rm U 8 (\<lambda>c src. map_prod ucast id (un8 U c (ucast src)))"
definition unary_rm16 ::
  "unary_ops \<Rightarrow> callbacks \<Rightarrow> cpueaxh_engine \<Rightarrow> u8 \<Rightarrow> u64 \<Rightarrow> bool \<Rightarrow> cpueaxh_engine option" where
  [insn_defs]: "unary_rm16 U = unary_rm U 16 (\<lambda>c src. map_prod ucast id (un16 U c (ucast src)))"
definition unary_rm32 ::
  "unary_ops \<Rightarrow> callbacks \<Rightarrow> cpueaxh_engine \<Rightarrow> u8 \<Rightarrow> u64 \<Rightarrow> bool \<Rightarrow> cpueaxh_engine option" where
  [insn_defs]: "unary_rm32 U = unary_rm U 32 (\<lambda>c src. map_prod ucast id (un32 U c (ucast src)))"
definition unary_rm64 ::
  "unary_ops \<Rightarrow> callbacks \<Rightarrow> cpueaxh_engine \<Rightarrow> u8 \<Rightarrow> u64 \<Rightarrow> bool \<Rightarrow> cpueaxh_engine option" where
  [insn_defs]: "unary_rm64 U = unary_rm U 64 (un64 U)"

text \<open>
  The atomic forms. INC and DEC use those of \<^verbatim>\<open>cpu/memory.hpp\<close>; NEG and NOT have a loop of their own, of
  the same shape.
\<close>

definition atomic_with_flags ::
  "atomic_op \<Rightarrow> (int \<Rightarrow> u64 \<Rightarrow> u64 \<Rightarrow> CPU_CONTEXT \<Rightarrow> CPU_CONTEXT) \<Rightarrow> u64 \<Rightarrow> atomic_rm" where
  [insn_defs]: "atomic_with_flags atomic flags operand cb e modrm mem_addr operand_size =
     (if modrm_mod modrm = 3 then Some (False, e)
      else case atomic cb e mem_addr operand_size operand of
             None \<Rightarrow> None
           | Some (None, e1) \<Rightarrow> Some (True, e1)
           | Some (Some (old_value, new_value), e1) \<Rightarrow> Some (True, on_ctx (flags operand_size old_value new_value) e1))"

definition atomic_retry ::
  "(u64 \<Rightarrow> u64) \<Rightarrow> (int \<Rightarrow> u64 \<Rightarrow> u64 \<Rightarrow> CPU_CONTEXT \<Rightarrow> CPU_CONTEXT) \<Rightarrow>
   callbacks \<Rightarrow> cpueaxh_engine \<Rightarrow> u64 \<Rightarrow> int \<Rightarrow> (bool \<times> cpueaxh_engine) option" where
  [insn_defs]: "atomic_retry f flags cb e mem_addr operand_size =
     (case read_memory_operand_checked cb e mem_addr operand_size of
        (ok, v, e1) \<Rightarrow>
          if \<not> ok then Some (True, e1)
          else case cpu_memory_operand_mask e1 operand_size of
                 (omask, e2) \<Rightarrow>
                   case cpu_atomic_rmw_loop cb mem_addr operand_size f omask (v AND omask) e2 of
                     None \<Rightarrow> None
                   | Some (None, e3) \<Rightarrow> Some (True, e3)
                   | Some (Some (old_value, new_value), e3) \<Rightarrow>
                       Some (True, on_ctx (flags operand_size old_value new_value) e3))"

text \<open>The interlocked exclusive or of \<open>n\<close> bytes at a host address.\<close>

definition interlocked_xor :: "cpueaxh_engine \<Rightarrow> u64 \<Rightarrow> nat \<Rightarrow> u64 \<Rightarrow> cpueaxh_engine" where
  "interlocked_xor e ptr n v =
     store_at e (map (\<lambda>i. ptr + of_nat i) [0..<n]) (le_store n (le_load (host_bytes e ptr n) XOR v))"

subsection \<open>Decoding and dispatch\<close>

definition override_address_size :: "CPU_CONTEXT \<Rightarrow> int" where
  "override_address_size ctx =
     (if address_size_override ctx then (if cpu_default_address_size ctx = 64 then 32 else 16)
      else cpu_default_address_size ctx)"

text \<open>INC and DEC: \<open>b\<close> is the first of the eight one-byte opcodes, \<open>g\<close> the group number.\<close>

definition decode_incdec_body :: "u8 \<Rightarrow> u8 \<Rightarrow> bool \<Rightarrow> u8 list \<Rightarrow> dstate \<Rightarrow> dresult" where
  "decode_incdec_body b g lock code =
     decode_seq
       [next_opcode code, set_sizes default_operand_size override_address_size,
        with_inst (\<lambda>i. i\<lparr>di_has_lock_prefix := lock\<rparr>),
        by_opcode (\<lambda>opc. b \<le> opc \<and> opc \<le> b + 7) (ud_when (\<lambda>_. cpu_is_64bit_code))
          (by_opcode (\<lambda>opc. opc = 0xFE)
             (decode_seq [with_inst (\<lambda>i. i\<lparr>di_operand_size := 8\<rparr>), decode_modrm_lockable lock code, ud_unless_group g])
             (by_opcode (\<lambda>opc. opc = 0xFF)
                (decode_seq [decode_modrm_lockable lock code, ud_unless_group g])
                (ud_if True)))]"

definition execute_incdec_with_decoded ::
  "unary_ops \<Rightarrow> u8 \<Rightarrow> callbacks \<Rightarrow> cpueaxh_engine \<Rightarrow> DecodedInstruction \<Rightarrow> cpueaxh_engine option" where
  "execute_incdec_with_decoded U b cb e inst =
     (let opc = di_opcode inst; m = di_modrm inst; a = di_mem_address inst; lock = di_has_lock_prefix inst;
          w64 = rex_w (cpu_ctx e); w16 = operand_size_override (cpu_ctx e)
      in if b \<le> opc \<and> opc \<le> b + 7
         then let reg_modrm = 0xC0 OR (opc - b)
              in if w16 then unary_rm16 U cb e reg_modrm 0 False else unary_rm32 U cb e reg_modrm 0 False
         else if opc = 0xFE then unary_rm8 U cb e m a lock
         else if opc = 0xFF
         then by_size w64 w16 (unary_rm64 U cb e m a lock) (unary_rm16 U cb e m a lock) (unary_rm32 U cb e m a lock)
         else Some e)"

text \<open>The group of 0xF6 and 0xF7, to which NEG and NOT belong.\<close>

definition decode_group3 :: "(bool \<Rightarrow> u8 list \<Rightarrow> dstate \<Rightarrow> dresult) \<Rightarrow> u8 \<Rightarrow> bool \<Rightarrow> u8 list \<Rightarrow> dstate \<Rightarrow> dresult" where
  "decode_group3 decode_modrm g lock code =
     by_opcode (\<lambda>opc. opc = 0xF6)
       (decode_seq [with_inst (\<lambda>i. i\<lparr>di_operand_size := 8\<rparr>), decode_modrm lock code, ud_unless_group g])
       (by_opcode (\<lambda>opc. opc = 0xF7) (decode_seq [decode_modrm lock code, ud_unless_group g]) (ud_if True))"

definition decode_negnot_body :: "u8 \<Rightarrow> bool \<Rightarrow> u8 list \<Rightarrow> dstate \<Rightarrow> dresult" where
  "decode_negnot_body g lock code =
     decode_seq
       [next_opcode code, set_sizes default_operand_size default_address_size,
        with_inst (\<lambda>i. i\<lparr>di_has_lock_prefix := lock\<rparr>), decode_group3 decode_modrm_lockable g lock code]"

definition execute_negnot_with_decoded ::
  "unary_ops \<Rightarrow> callbacks \<Rightarrow> cpueaxh_engine \<Rightarrow> DecodedInstruction \<Rightarrow> cpueaxh_engine option" where
  "execute_negnot_with_decoded U cb e inst =
     (let opc = di_opcode inst; m = di_modrm inst; a = di_mem_address inst; lock = di_has_lock_prefix inst
      in if opc = 0xF6 then unary_rm8 U cb e m a lock
         else if opc = 0xF7
         then by_size (rex_w (cpu_ctx e)) (operand_size_override (cpu_ctx e))
                (unary_rm64 U cb e m a lock) (unary_rm16 U cb e m a lock) (unary_rm32 U cb e m a lock)
         else Some e)"


subsection \<open>INC\<close>

definition decode_inc_rm_index :: "CPU_CONTEXT \<Rightarrow> u8 \<Rightarrow> nat" where
  "decode_inc_rm_index = rm_index"
definition read_inc_rm_operand ::
  "callbacks \<Rightarrow> u8 \<Rightarrow> u64 \<Rightarrow> int \<Rightarrow> cpueaxh_engine \<Rightarrow> u64 \<times> cpueaxh_engine" where
  [insn_defs]: "read_inc_rm_operand = read_rm_sized"
definition write_inc_rm_operand ::
  "callbacks \<Rightarrow> u8 \<Rightarrow> u64 \<Rightarrow> int \<Rightarrow> u64 \<Rightarrow> cpueaxh_engine \<Rightarrow> cpueaxh_engine" where
  [insn_defs]: "write_inc_rm_operand = write_rm_sized"
definition inc_atomic_flags :: "int \<Rightarrow> u64 \<Rightarrow> u64 \<Rightarrow> CPU_CONTEXT \<Rightarrow> CPU_CONTEXT" where
  "inc_atomic_flags operand_size old_value new_value c =
     (if operand_size = 8 then update_flags_inc8 c (ucast old_value) (ucast new_value)
      else if operand_size = 16 then update_flags_inc16 c (ucast old_value) (ucast new_value)
      else if operand_size = 32 then update_flags_inc32 c (ucast old_value) (ucast new_value)
      else if operand_size = 64 then update_flags_inc64 c old_value new_value else raise_ud_ctx c)"
definition inc_rm_atomic :: "atomic_rm" where
  [insn_defs]: "inc_rm_atomic = atomic_with_flags cpu_atomic_add_memory inc_atomic_flags 1"
definition inc_ops :: unary_ops where
  "inc_ops =
     \<lparr>un8 = (\<lambda>c src. (src + 1, update_flags_inc8 c src (src + 1))),
      un16 = (\<lambda>c src. (src + 1, update_flags_inc16 c src (src + 1))),
      un32 = (\<lambda>c src. (src + 1, update_flags_inc32 c src (src + 1))),
      un64 = (\<lambda>c src. (src + 1, update_flags_inc64 c src (src + 1))),
      un_atomic = inc_rm_atomic\<rparr>"
definition inc_rm8 ::
  "callbacks \<Rightarrow> cpueaxh_engine \<Rightarrow> u8 \<Rightarrow> u64 \<Rightarrow> bool \<Rightarrow> cpueaxh_engine option" where
  [insn_defs]: "inc_rm8 = unary_rm8 inc_ops"
definition inc_rm16 ::
  "callbacks \<Rightarrow> cpueaxh_engine \<Rightarrow> u8 \<Rightarrow> u64 \<Rightarrow> bool \<Rightarrow> cpueaxh_engine option" where
  [insn_defs]: "inc_rm16 = unary_rm16 inc_ops"
definition inc_rm32 ::
  "callbacks \<Rightarrow> cpueaxh_engine \<Rightarrow> u8 \<Rightarrow> u64 \<Rightarrow> bool \<Rightarrow> cpueaxh_engine option" where
  [insn_defs]: "inc_rm32 = unary_rm32 inc_ops"
definition inc_rm64 ::
  "callbacks \<Rightarrow> cpueaxh_engine \<Rightarrow> u8 \<Rightarrow> u64 \<Rightarrow> bool \<Rightarrow> cpueaxh_engine option" where
  [insn_defs]: "inc_rm64 = unary_rm64 inc_ops"
definition decode_modrm_inc :: "bool \<Rightarrow> u8 list \<Rightarrow> dstate \<Rightarrow> dresult" where
  "decode_modrm_inc = decode_modrm_lockable"
definition decode_inc_instruction ::
  "CPU_CONTEXT \<Rightarrow> u8 list \<Rightarrow> DecodedInstruction \<times> CPU_CONTEXT" where
  "decode_inc_instruction = decode_with cpu_try_apply_rex_prefix id (decode_incdec_body 0x40 0)"
definition execute_inc_with_decoded ::
  "callbacks \<Rightarrow> cpueaxh_engine \<Rightarrow> DecodedInstruction \<Rightarrow> cpueaxh_engine option" where
  "execute_inc_with_decoded = execute_incdec_with_decoded inc_ops 0x40"
definition execute_inc ::
  "callbacks \<Rightarrow> cpueaxh_engine \<Rightarrow> u8 list \<Rightarrow> cpueaxh_engine option" where
  "execute_inc = execute_decoding_opt decode_inc_instruction execute_inc_with_decoded"
definition execute_inc_fast ::
  "callbacks \<Rightarrow> cpueaxh_engine \<Rightarrow> DecodedInst \<Rightarrow> cpueaxh_engine option" where
  "execute_inc_fast = execute_cached execute_inc_with_decoded"

subsection \<open>DEC\<close>

definition decode_dec_rm_index :: "CPU_CONTEXT \<Rightarrow> u8 \<Rightarrow> nat" where
  "decode_dec_rm_index = rm_index"
definition read_dec_rm_operand ::
  "callbacks \<Rightarrow> u8 \<Rightarrow> u64 \<Rightarrow> int \<Rightarrow> cpueaxh_engine \<Rightarrow> u64 \<times> cpueaxh_engine" where
  [insn_defs]: "read_dec_rm_operand = read_rm_sized"
definition write_dec_rm_operand ::
  "callbacks \<Rightarrow> u8 \<Rightarrow> u64 \<Rightarrow> int \<Rightarrow> u64 \<Rightarrow> cpueaxh_engine \<Rightarrow> cpueaxh_engine" where
  [insn_defs]: "write_dec_rm_operand = write_rm_sized"
definition dec_atomic_flags :: "int \<Rightarrow> u64 \<Rightarrow> u64 \<Rightarrow> CPU_CONTEXT \<Rightarrow> CPU_CONTEXT" where
  "dec_atomic_flags operand_size old_value new_value c =
     (if operand_size = 8 then update_flags_dec8 c (ucast old_value) (ucast new_value)
      else if operand_size = 16 then update_flags_dec16 c (ucast old_value) (ucast new_value)
      else if operand_size = 32 then update_flags_dec32 c (ucast old_value) (ucast new_value)
      else if operand_size = 64 then update_flags_dec64 c old_value new_value else raise_ud_ctx c)"
definition dec_rm_atomic :: "atomic_rm" where
  [insn_defs]: "dec_rm_atomic = atomic_with_flags cpu_atomic_sub_memory dec_atomic_flags 1"
definition dec_ops :: unary_ops where
  "dec_ops =
     \<lparr>un8 = (\<lambda>c src. (src - 1, update_flags_dec8 c src (src - 1))),
      un16 = (\<lambda>c src. (src - 1, update_flags_dec16 c src (src - 1))),
      un32 = (\<lambda>c src. (src - 1, update_flags_dec32 c src (src - 1))),
      un64 = (\<lambda>c src. (src - 1, update_flags_dec64 c src (src - 1))),
      un_atomic = dec_rm_atomic\<rparr>"
definition dec_rm8 ::
  "callbacks \<Rightarrow> cpueaxh_engine \<Rightarrow> u8 \<Rightarrow> u64 \<Rightarrow> bool \<Rightarrow> cpueaxh_engine option" where
  [insn_defs]: "dec_rm8 = unary_rm8 dec_ops"
definition dec_rm16 ::
  "callbacks \<Rightarrow> cpueaxh_engine \<Rightarrow> u8 \<Rightarrow> u64 \<Rightarrow> bool \<Rightarrow> cpueaxh_engine option" where
  [insn_defs]: "dec_rm16 = unary_rm16 dec_ops"
definition dec_rm32 ::
  "callbacks \<Rightarrow> cpueaxh_engine \<Rightarrow> u8 \<Rightarrow> u64 \<Rightarrow> bool \<Rightarrow> cpueaxh_engine option" where
  [insn_defs]: "dec_rm32 = unary_rm32 dec_ops"
definition dec_rm64 ::
  "callbacks \<Rightarrow> cpueaxh_engine \<Rightarrow> u8 \<Rightarrow> u64 \<Rightarrow> bool \<Rightarrow> cpueaxh_engine option" where
  [insn_defs]: "dec_rm64 = unary_rm64 dec_ops"
definition decode_modrm_dec :: "bool \<Rightarrow> u8 list \<Rightarrow> dstate \<Rightarrow> dresult" where
  "decode_modrm_dec = decode_modrm_lockable"
definition decode_dec_instruction ::
  "CPU_CONTEXT \<Rightarrow> u8 list \<Rightarrow> DecodedInstruction \<times> CPU_CONTEXT" where
  "decode_dec_instruction = decode_with cpu_try_apply_rex_prefix id (decode_incdec_body 0x48 1)"
definition execute_dec_with_decoded ::
  "callbacks \<Rightarrow> cpueaxh_engine \<Rightarrow> DecodedInstruction \<Rightarrow> cpueaxh_engine option" where
  "execute_dec_with_decoded = execute_incdec_with_decoded dec_ops 0x48"
definition execute_dec ::
  "callbacks \<Rightarrow> cpueaxh_engine \<Rightarrow> u8 list \<Rightarrow> cpueaxh_engine option" where
  "execute_dec = execute_decoding_opt decode_dec_instruction execute_dec_with_decoded"
definition execute_dec_fast ::
  "callbacks \<Rightarrow> cpueaxh_engine \<Rightarrow> DecodedInst \<Rightarrow> cpueaxh_engine option" where
  "execute_dec_fast = execute_cached execute_dec_with_decoded"

subsection \<open>NEG\<close>

definition decode_neg_rm_index :: "CPU_CONTEXT \<Rightarrow> u8 \<Rightarrow> nat" where
  "decode_neg_rm_index = rm_index"
definition read_neg_rm_operand ::
  "callbacks \<Rightarrow> u8 \<Rightarrow> u64 \<Rightarrow> int \<Rightarrow> cpueaxh_engine \<Rightarrow> u64 \<times> cpueaxh_engine" where
  [insn_defs]: "read_neg_rm_operand = read_rm_sized"
definition write_neg_rm_operand ::
  "callbacks \<Rightarrow> u8 \<Rightarrow> u64 \<Rightarrow> int \<Rightarrow> u64 \<Rightarrow> cpueaxh_engine \<Rightarrow> cpueaxh_engine" where
  [insn_defs]: "write_neg_rm_operand = write_rm_sized"
definition neg_atomic_flags :: "int \<Rightarrow> u64 \<Rightarrow> u64 \<Rightarrow> CPU_CONTEXT \<Rightarrow> CPU_CONTEXT" where
  "neg_atomic_flags operand_size old_value new_value c =
     (if operand_size = 8 then update_flags_sub8 c 0 (ucast old_value) (ucast new_value)
      else if operand_size = 16 then update_flags_sub16 c 0 (ucast old_value) (ucast new_value)
      else if operand_size = 32 then update_flags_sub32 c 0 (ucast old_value) new_value
      else if operand_size = 64 then update_flags_sub64 c 0 old_value new_value else raise_ud_ctx c)"
definition neg_rm_atomic :: atomic_rm where
  [insn_defs]: "neg_rm_atomic cb e modrm mem_addr operand_size =
     (if modrm_mod modrm = 3 then Some (False, e)
      else atomic_retry (\<lambda>v. 0 - v) neg_atomic_flags cb e mem_addr operand_size)"
text \<open>
  The wide result of NEG is \<open>0 - src\<close> in the promoted type: an \<^verbatim>\<open>int\<close> for the 8- and 16-bit forms, \<^verbatim>\<open>uint32_t\<close>
  for the 32-bit form, where the conversion to 64 bits is of the already wrapped value.
\<close>

definition neg_ops :: unary_ops where
  "neg_ops =
     \<lparr>un8 = (\<lambda>c src. let r = 0 - ucast src :: u16 in (ucast r, update_flags_sub8 c 0 src r)),
      un16 = (\<lambda>c src. let r = 0 - ucast src :: u32 in (ucast r, update_flags_sub16 c 0 src r)),
      un32 = (\<lambda>c src. let r = ucast (0 - src) :: u64 in (ucast r, update_flags_sub32 c 0 src r)),
      un64 = (\<lambda>c src. (0 - src, update_flags_sub64 c 0 src (0 - src))),
      un_atomic = neg_rm_atomic\<rparr>"
definition neg_rm8 ::
  "callbacks \<Rightarrow> cpueaxh_engine \<Rightarrow> u8 \<Rightarrow> u64 \<Rightarrow> bool \<Rightarrow> cpueaxh_engine option" where
  [insn_defs]: "neg_rm8 = unary_rm8 neg_ops"
definition neg_rm16 ::
  "callbacks \<Rightarrow> cpueaxh_engine \<Rightarrow> u8 \<Rightarrow> u64 \<Rightarrow> bool \<Rightarrow> cpueaxh_engine option" where
  [insn_defs]: "neg_rm16 = unary_rm16 neg_ops"
definition neg_rm32 ::
  "callbacks \<Rightarrow> cpueaxh_engine \<Rightarrow> u8 \<Rightarrow> u64 \<Rightarrow> bool \<Rightarrow> cpueaxh_engine option" where
  [insn_defs]: "neg_rm32 = unary_rm32 neg_ops"
definition neg_rm64 ::
  "callbacks \<Rightarrow> cpueaxh_engine \<Rightarrow> u8 \<Rightarrow> u64 \<Rightarrow> bool \<Rightarrow> cpueaxh_engine option" where
  [insn_defs]: "neg_rm64 = unary_rm64 neg_ops"
definition decode_modrm_neg :: "bool \<Rightarrow> u8 list \<Rightarrow> dstate \<Rightarrow> dresult" where
  "decode_modrm_neg = decode_modrm_lockable"
definition decode_neg_instruction ::
  "CPU_CONTEXT \<Rightarrow> u8 list \<Rightarrow> DecodedInstruction \<times> CPU_CONTEXT" where
  "decode_neg_instruction = decode_with apply_rex_byte id (decode_negnot_body 3)"
definition execute_neg_with_decoded ::
  "callbacks \<Rightarrow> cpueaxh_engine \<Rightarrow> DecodedInstruction \<Rightarrow> cpueaxh_engine option" where
  "execute_neg_with_decoded = execute_negnot_with_decoded neg_ops"
definition execute_neg ::
  "callbacks \<Rightarrow> cpueaxh_engine \<Rightarrow> u8 list \<Rightarrow> cpueaxh_engine option" where
  "execute_neg = execute_decoding_opt decode_neg_instruction execute_neg_with_decoded"
definition execute_neg_fast ::
  "callbacks \<Rightarrow> cpueaxh_engine \<Rightarrow> DecodedInst \<Rightarrow> cpueaxh_engine option" where
  "execute_neg_fast = execute_cached execute_neg_with_decoded"

subsection \<open>NOT\<close>

definition decode_not_rm_index :: "CPU_CONTEXT \<Rightarrow> u8 \<Rightarrow> nat" where
  "decode_not_rm_index = rm_index"
definition read_not_rm_operand ::
  "callbacks \<Rightarrow> u8 \<Rightarrow> u64 \<Rightarrow> int \<Rightarrow> cpueaxh_engine \<Rightarrow> u64 \<times> cpueaxh_engine" where
  [insn_defs]: "read_not_rm_operand = read_rm_sized"
definition write_not_rm_operand ::
  "callbacks \<Rightarrow> u8 \<Rightarrow> u64 \<Rightarrow> int \<Rightarrow> u64 \<Rightarrow> cpueaxh_engine \<Rightarrow> cpueaxh_engine" where
  [insn_defs]: "write_not_rm_operand = write_rm_sized"
definition not_rm_atomic :: atomic_rm where
  [insn_defs]: "not_rm_atomic cb e modrm mem_addr operand_size =
     (if modrm_mod modrm = 3 then Some (False, e)
      else if cpu_is_host_write_passthrough e
      then case get_memory_write_ptr cb e mem_addr (nat (operand_size div 8)) of
             None \<Rightarrow> None
           | Some (ptr, e1) \<Rightarrow>
               Some (True, if ptr = 0 then e1
                           else if operand_size \<in> {8, 16, 32, 64}
                           then interlocked_xor e1 ptr (nat (operand_size div 8)) (NOT 0)
                           else on_ctx raise_ud_ctx e1)
      else atomic_retry (\<lambda>v. NOT v) (\<lambda>_ _ _. id) cb e mem_addr operand_size)"
definition not_ops :: unary_ops where
  "not_ops =
     \<lparr>un8 = (\<lambda>c src. (NOT src, c)), un16 = (\<lambda>c src. (NOT src, c)), un32 = (\<lambda>c src. (NOT src, c)),
      un64 = (\<lambda>c src. (NOT src, c)), un_atomic = not_rm_atomic\<rparr>"
definition not_rm8 ::
  "callbacks \<Rightarrow> cpueaxh_engine \<Rightarrow> u8 \<Rightarrow> u64 \<Rightarrow> bool \<Rightarrow> cpueaxh_engine option" where
  [insn_defs]: "not_rm8 = unary_rm8 not_ops"
definition not_rm16 ::
  "callbacks \<Rightarrow> cpueaxh_engine \<Rightarrow> u8 \<Rightarrow> u64 \<Rightarrow> bool \<Rightarrow> cpueaxh_engine option" where
  [insn_defs]: "not_rm16 = unary_rm16 not_ops"
definition not_rm32 ::
  "callbacks \<Rightarrow> cpueaxh_engine \<Rightarrow> u8 \<Rightarrow> u64 \<Rightarrow> bool \<Rightarrow> cpueaxh_engine option" where
  [insn_defs]: "not_rm32 = unary_rm32 not_ops"
definition not_rm64 ::
  "callbacks \<Rightarrow> cpueaxh_engine \<Rightarrow> u8 \<Rightarrow> u64 \<Rightarrow> bool \<Rightarrow> cpueaxh_engine option" where
  [insn_defs]: "not_rm64 = unary_rm64 not_ops"
definition decode_modrm_not :: "bool \<Rightarrow> u8 list \<Rightarrow> dstate \<Rightarrow> dresult" where
  "decode_modrm_not = decode_modrm_lockable"
definition decode_not_instruction ::
  "CPU_CONTEXT \<Rightarrow> u8 list \<Rightarrow> DecodedInstruction \<times> CPU_CONTEXT" where
  "decode_not_instruction = decode_with apply_rex_byte id (decode_negnot_body 2)"
definition execute_not_with_decoded ::
  "callbacks \<Rightarrow> cpueaxh_engine \<Rightarrow> DecodedInstruction \<Rightarrow> cpueaxh_engine option" where
  "execute_not_with_decoded = execute_negnot_with_decoded not_ops"
definition execute_not ::
  "callbacks \<Rightarrow> cpueaxh_engine \<Rightarrow> u8 list \<Rightarrow> cpueaxh_engine option" where
  "execute_not = execute_decoding_opt decode_not_instruction execute_not_with_decoded"
definition execute_not_fast ::
  "callbacks \<Rightarrow> cpueaxh_engine \<Rightarrow> DecodedInst \<Rightarrow> cpueaxh_engine option" where
  "execute_not_fast = execute_cached execute_not_with_decoded"

subsection \<open>Replaying\<close>

lemma override_address_size_agrees: "agrees c d \<Longrightarrow> override_address_size c = override_address_size d"
  by (simp add: override_address_size_def cpu_default_address_size_def agrees_modes(2)) (simp add: agrees_def)

lemmas override_sizes_head =
  decode_head_set_sizes [of default_operand_size override_address_size, OF agrees_modes(3) override_address_size_agrees]

lemma decode_step_ud_64bit [decode_steps]: "decode_step (ud_when (\<lambda>_. cpu_is_64bit_code)) False"
  by (rule decode_step_ud_when) (auto dest: agrees_modes(2))

lemma decode_incdec_step: "decode_step (decode_incdec_body b g lock code) True"
  unfolding decode_incdec_body_def
  by (rule decode_step_weaken, (rule override_sizes_head decode_steps static_updates | (simp; fail))+)

lemma decode_group3_step [decode_steps]:
  "decode_step (decode_modrm lock code) True \<Longrightarrow> decode_step (decode_group3 decode_modrm g lock code) True"
  unfolding decode_group3_def
  by (rule decode_step_weaken, (assumption | rule decode_steps static_updates | (simp; fail))+)

lemma decode_negnot_step: "decode_step (decode_negnot_body g lock code) True"
  unfolding decode_negnot_body_def
  by (rule decode_step_weaken, (rule default_sizes_head decode_steps static_updates | (simp; fail))+)

interpretation inc_decoder: prefix_decoder cpu_try_apply_rex_prefix id "decode_incdec_body 0x40 0" True decode_inc_instruction
  by (intro prefix_decoder.intro checked_prefixes.prefix_reader_axioms prefix_decoder_axioms.intro decode_incdec_step)
     (simp add: decode_inc_instruction_def)
interpretation dec_decoder: prefix_decoder cpu_try_apply_rex_prefix id "decode_incdec_body 0x48 1" True decode_dec_instruction
  by (intro prefix_decoder.intro checked_prefixes.prefix_reader_axioms prefix_decoder_axioms.intro decode_incdec_step)
     (simp add: decode_dec_instruction_def)
interpretation neg_decoder: prefix_decoder apply_rex_byte id "decode_negnot_body 3" True decode_neg_instruction
  by (intro prefix_decoder.intro raw_prefixes.prefix_reader_axioms prefix_decoder_axioms.intro decode_negnot_step)
     (simp add: decode_neg_instruction_def)
interpretation not_decoder: prefix_decoder apply_rex_byte id "decode_negnot_body 2" True decode_not_instruction
  by (intro prefix_decoder.intro raw_prefixes.prefix_reader_axioms prefix_decoder_axioms.intro decode_negnot_step)
     (simp add: decode_not_instruction_def)

end
