(* ===== verification/MulDiv.thy ===== *)
theory MulDiv
  imports Unary
begin

text \<open>
  MUL, IMUL, DIV and IDIV (\<^verbatim>\<open>instructions/mul.hpp\<close>, \<^verbatim>\<open>imul.hpp\<close>, \<^verbatim>\<open>div.hpp\<close>, \<^verbatim>\<open>idiv.hpp\<close>), with the division of 128 by 64
  bits of \<^verbatim>\<open>cpueaxh_platform.hpp\<close>. The handlers read their operand and return at once when that raised an
  exception, so nothing is written then.
\<close>

unbundle bit_operations_syntax

type_synonym u128 = "128 word"

definition after_read ::
  "callbacks \<Rightarrow> u8 \<Rightarrow> u64 \<Rightarrow> int \<Rightarrow> (u64 \<Rightarrow> CPU_CONTEXT \<Rightarrow> CPU_CONTEXT) \<Rightarrow> cpueaxh_engine \<Rightarrow> cpueaxh_engine" where
  [insn_defs]: "after_read cb modrm mem_addr operand_size k e =
     (case read_rm_sized cb modrm mem_addr operand_size e of
        (v, e1) \<Rightarrow> if cpu_has_exception (cpu_ctx e1) then e1 else on_ctx (k v) e1)"

text \<open>The register operand of the two- and three-operand forms, which have no 8-bit width.\<close>

definition read_reg_wide :: "u8 \<Rightarrow> int \<Rightarrow> cpueaxh_engine \<Rightarrow> u64 \<times> cpueaxh_engine" where
  [operand_defs]: "read_reg_wide modrm operand_size e =
     (if operand_size \<in> {16, 32, 64} then read_reg_sized (reg_index (cpu_ctx e) modrm) operand_size e
      else (0, on_ctx raise_ud_ctx e))"

definition write_reg_wide :: "u8 \<Rightarrow> int \<Rightarrow> u64 \<Rightarrow> CPU_CONTEXT \<Rightarrow> CPU_CONTEXT" where
  [operand_defs]: "write_reg_wide modrm operand_size v c =
     (let r = reg_index c modrm
      in if operand_size = 16 then set_reg16 c r (ucast v)
         else if operand_size = 32 then set_reg32 c r (ucast v)
         else if operand_size = 64 then set_reg64 c r v else raise_ud_ctx c)"

subsection \<open>MUL\<close>

definition umul128 :: "u64 \<Rightarrow> u64 \<Rightarrow> u64 \<times> u64" where
  "umul128 a b = (let p = ucast a * ucast b :: u128 in (ucast p, ucast (drop_bit 64 p)))"

definition decode_mul_rm_index :: "CPU_CONTEXT \<Rightarrow> u8 \<Rightarrow> nat" where
  "decode_mul_rm_index = rm_index"
definition read_mul_rm_operand ::
  "callbacks \<Rightarrow> u8 \<Rightarrow> u64 \<Rightarrow> int \<Rightarrow> cpueaxh_engine \<Rightarrow> u64 \<times> cpueaxh_engine" where
  [insn_defs]: "read_mul_rm_operand = read_rm_sized"
definition update_flags_mul :: "CPU_CONTEXT \<Rightarrow> bool \<Rightarrow> CPU_CONTEXT" where
  "update_flags_mul ctx overflow = set_flag (set_flag ctx RFLAGS_CF overflow) RFLAGS_OF overflow"

definition mul_rm8 :: "callbacks \<Rightarrow> cpueaxh_engine \<Rightarrow> u8 \<Rightarrow> u64 \<Rightarrow> cpueaxh_engine" where
  [insn_defs]: "mul_rm8 cb e modrm mem_addr =
     (let lhs = get_reg8 (cpu_ctx e) REG_RAX
      in after_read cb modrm mem_addr 8
           (\<lambda>v c. let rhs = ucast v :: u8; r = ucast lhs * ucast rhs :: u16
                  in update_flags_mul (set_reg16 c REG_RAX r) (drop_bit 8 r \<noteq> 0)) e)"

definition mul_rm16 :: "callbacks \<Rightarrow> cpueaxh_engine \<Rightarrow> u8 \<Rightarrow> u64 \<Rightarrow> cpueaxh_engine" where
  [insn_defs]: "mul_rm16 cb e modrm mem_addr =
     (let lhs = get_reg16 (cpu_ctx e) REG_RAX
      in after_read cb modrm mem_addr 16
           (\<lambda>v c. let rhs = ucast v :: u16; r = ucast lhs * ucast rhs :: u32
                  in update_flags_mul (set_reg16 (set_reg16 c REG_RAX (ucast r)) REG_RDX (ucast (drop_bit 16 r)))
                       (drop_bit 16 r \<noteq> 0)) e)"

definition mul_rm32 :: "callbacks \<Rightarrow> cpueaxh_engine \<Rightarrow> u8 \<Rightarrow> u64 \<Rightarrow> cpueaxh_engine" where
  [insn_defs]: "mul_rm32 cb e modrm mem_addr =
     (let lhs = get_reg32 (cpu_ctx e) REG_RAX
      in after_read cb modrm mem_addr 32
           (\<lambda>v c. let rhs = ucast v :: u32; r = ucast lhs * ucast rhs :: u64
                  in update_flags_mul (set_reg32 (set_reg32 c REG_RAX (ucast r)) REG_RDX (ucast (drop_bit 32 r)))
                       (drop_bit 32 r \<noteq> 0)) e)"

definition mul_rm64 :: "callbacks \<Rightarrow> cpueaxh_engine \<Rightarrow> u8 \<Rightarrow> u64 \<Rightarrow> cpueaxh_engine" where
  [insn_defs]: "mul_rm64 cb e modrm mem_addr =
     (let lhs = get_reg64 (cpu_ctx e) REG_RAX
      in after_read cb modrm mem_addr 64
           (\<lambda>rhs c. case umul128 lhs rhs of
              (low, high) \<Rightarrow> update_flags_mul (set_reg64 (set_reg64 c REG_RAX low) REG_RDX high) (high \<noteq> 0)) e)"

text \<open>The decoder of the four instructions; MUL, DIV and IDIV have nothing else.\<close>

definition decode_group3_body :: "u8 \<Rightarrow> bool \<Rightarrow> u8 list \<Rightarrow> dstate \<Rightarrow> dresult" where
  "decode_group3_body g lock code =
     decode_seq
       [next_opcode code, set_sizes default_operand_size default_address_size,
        decode_group3 decode_modrm_unlocked g lock code]"

definition execute_group3_with_decoded ::
  "(callbacks \<Rightarrow> cpueaxh_engine \<Rightarrow> u8 \<Rightarrow> u64 \<Rightarrow> cpueaxh_engine) \<Rightarrow> (callbacks \<Rightarrow> cpueaxh_engine \<Rightarrow> u8 \<Rightarrow> u64 \<Rightarrow> cpueaxh_engine) \<Rightarrow>
   (callbacks \<Rightarrow> cpueaxh_engine \<Rightarrow> u8 \<Rightarrow> u64 \<Rightarrow> cpueaxh_engine) \<Rightarrow> (callbacks \<Rightarrow> cpueaxh_engine \<Rightarrow> u8 \<Rightarrow> u64 \<Rightarrow> cpueaxh_engine) \<Rightarrow>
   callbacks \<Rightarrow> cpueaxh_engine \<Rightarrow> DecodedInstruction \<Rightarrow> cpueaxh_engine" where
  "execute_group3_with_decoded f8 f16 f32 f64 cb e inst =
     (let m = di_modrm inst; a = di_mem_address inst
      in if di_opcode inst = 0xF6 then f8 cb e m a
         else if di_opcode inst = 0xF7
         then by_size (rex_w (cpu_ctx e)) (operand_size_override (cpu_ctx e)) (f64 cb e m a) (f16 cb e m a) (f32 cb e m a)
         else e)"

definition decode_modrm_mul :: "bool \<Rightarrow> u8 list \<Rightarrow> dstate \<Rightarrow> dresult" where
  "decode_modrm_mul = decode_modrm_unlocked"
definition decode_mul_instruction ::
  "CPU_CONTEXT \<Rightarrow> u8 list \<Rightarrow> DecodedInstruction \<times> CPU_CONTEXT" where
  "decode_mul_instruction = decode_with apply_rex_byte id (decode_group3_body 4)"
definition execute_mul_with_decoded ::
  "callbacks \<Rightarrow> cpueaxh_engine \<Rightarrow> DecodedInstruction \<Rightarrow> cpueaxh_engine" where
  "execute_mul_with_decoded = execute_group3_with_decoded mul_rm8 mul_rm16 mul_rm32 mul_rm64"
definition execute_mul ::
  "callbacks \<Rightarrow> cpueaxh_engine \<Rightarrow> u8 list \<Rightarrow> cpueaxh_engine" where
  "execute_mul = execute_decoding decode_mul_instruction execute_mul_with_decoded"
definition execute_mul_fast ::
  "callbacks \<Rightarrow> cpueaxh_engine \<Rightarrow> DecodedInst \<Rightarrow> cpueaxh_engine" where
  "execute_mul_fast = execute_cached execute_mul_with_decoded"

subsection \<open>IMUL\<close>

definition mul128 :: "u64 \<Rightarrow> u64 \<Rightarrow> u64 \<times> u64" where
  "mul128 a b = (let p = scast a * scast b :: u128 in (ucast p, ucast (drop_bit 64 p)))"

definition decode_imul_rm_index :: "CPU_CONTEXT \<Rightarrow> u8 \<Rightarrow> nat" where
  "decode_imul_rm_index = rm_index"
definition decode_imul_reg_index :: "CPU_CONTEXT \<Rightarrow> u8 \<Rightarrow> nat" where
  "decode_imul_reg_index = reg_index"
definition read_imul_rm_operand ::
  "callbacks \<Rightarrow> u8 \<Rightarrow> u64 \<Rightarrow> int \<Rightarrow> cpueaxh_engine \<Rightarrow> u64 \<times> cpueaxh_engine" where
  [insn_defs]: "read_imul_rm_operand = read_rm_sized"
definition read_imul_reg_operand ::
  "u8 \<Rightarrow> int \<Rightarrow> cpueaxh_engine \<Rightarrow> u64 \<times> cpueaxh_engine" where
  [insn_defs]: "read_imul_reg_operand = read_reg_wide"
definition write_imul_reg_operand ::
  "u8 \<Rightarrow> int \<Rightarrow> u64 \<Rightarrow> CPU_CONTEXT \<Rightarrow> CPU_CONTEXT" where
  [insn_defs]: "write_imul_reg_operand = write_reg_wide"
definition update_flags_imul :: "CPU_CONTEXT \<Rightarrow> bool \<Rightarrow> CPU_CONTEXT" where
  "update_flags_imul ctx overflow = set_flag (set_flag ctx RFLAGS_CF overflow) RFLAGS_OF overflow"

text \<open>The product of each width, in twice the width, and whether the low half alone tells it.\<close>

definition imul8 :: "u8 \<Rightarrow> u8 \<Rightarrow> u16 \<times> bool" where
  "imul8 a b = (let r = scast a * scast b :: u16 in (r, r \<noteq> scast (ucast r :: u8)))"
definition imul16 :: "u16 \<Rightarrow> u16 \<Rightarrow> u32 \<times> bool" where
  "imul16 a b = (let r = scast a * scast b :: u32 in (r, r \<noteq> scast (ucast r :: u16)))"
definition imul32 :: "u32 \<Rightarrow> u32 \<Rightarrow> u64 \<times> bool" where
  "imul32 a b = (let r = scast a * scast b :: u64 in (r, r \<noteq> scast (ucast r :: u32)))"
definition imul64 :: "u64 \<Rightarrow> u64 \<Rightarrow> u64 \<times> u64 \<times> bool" where
  "imul64 a b = (case mul128 a b of (low, high) \<Rightarrow> (low, high, high \<noteq> (if low <s 0 then - 1 else 0)))"

definition imul_rm8 :: "callbacks \<Rightarrow> cpueaxh_engine \<Rightarrow> u8 \<Rightarrow> u64 \<Rightarrow> cpueaxh_engine" where
  [insn_defs]: "imul_rm8 cb e modrm mem_addr =
     (let lhs = get_reg8 (cpu_ctx e) REG_RAX
      in after_read cb modrm mem_addr 8
           (\<lambda>v c. case imul8 lhs (ucast v) of (r, overflow) \<Rightarrow> update_flags_imul (set_reg16 c REG_RAX r) overflow) e)"

definition imul_rm16 :: "callbacks \<Rightarrow> cpueaxh_engine \<Rightarrow> u8 \<Rightarrow> u64 \<Rightarrow> cpueaxh_engine" where
  [insn_defs]: "imul_rm16 cb e modrm mem_addr =
     (let lhs = get_reg16 (cpu_ctx e) REG_RAX
      in after_read cb modrm mem_addr 16
           (\<lambda>v c. case imul16 lhs (ucast v) of
              (r, overflow) \<Rightarrow>
                update_flags_imul (set_reg16 (set_reg16 c REG_RAX (ucast r)) REG_RDX (ucast (drop_bit 16 r))) overflow) e)"

definition imul_rm32 :: "callbacks \<Rightarrow> cpueaxh_engine \<Rightarrow> u8 \<Rightarrow> u64 \<Rightarrow> cpueaxh_engine" where
  [insn_defs]: "imul_rm32 cb e modrm mem_addr =
     (let lhs = get_reg32 (cpu_ctx e) REG_RAX
      in after_read cb modrm mem_addr 32
           (\<lambda>v c. case imul32 lhs (ucast v) of
              (r, overflow) \<Rightarrow>
                update_flags_imul (set_reg32 (set_reg32 c REG_RAX (ucast r)) REG_RDX (ucast (drop_bit 32 r))) overflow) e)"

definition imul_rm64 :: "callbacks \<Rightarrow> cpueaxh_engine \<Rightarrow> u8 \<Rightarrow> u64 \<Rightarrow> cpueaxh_engine" where
  [insn_defs]: "imul_rm64 cb e modrm mem_addr =
     (let lhs = get_reg64 (cpu_ctx e) REG_RAX
      in after_read cb modrm mem_addr 64
           (\<lambda>rhs c. case imul64 lhs rhs of
              (low, high, overflow) \<Rightarrow> update_flags_imul (set_reg64 (set_reg64 c REG_RAX low) REG_RDX high) overflow) e)"

text \<open>The forms with a register destination: the product is truncated to the width.\<close>

definition imul_to_reg16 :: "u8 \<Rightarrow> u16 \<Rightarrow> u16 \<Rightarrow> CPU_CONTEXT \<Rightarrow> CPU_CONTEXT" where
  [insn_defs]: "imul_to_reg16 modrm a b c =
     (case imul16 a b of
        (r, overflow) \<Rightarrow> update_flags_imul (write_imul_reg_operand modrm 16 (ucast (ucast r :: u16)) c) overflow)"
definition imul_to_reg32 :: "u8 \<Rightarrow> u32 \<Rightarrow> u32 \<Rightarrow> CPU_CONTEXT \<Rightarrow> CPU_CONTEXT" where
  [insn_defs]: "imul_to_reg32 modrm a b c =
     (case imul32 a b of
        (r, overflow) \<Rightarrow> update_flags_imul (write_imul_reg_operand modrm 32 (ucast (ucast r :: u32)) c) overflow)"
definition imul_to_reg64 :: "u8 \<Rightarrow> u64 \<Rightarrow> u64 \<Rightarrow> CPU_CONTEXT \<Rightarrow> CPU_CONTEXT" where
  [insn_defs]: "imul_to_reg64 modrm a b c =
     (case imul64 a b of
        (low, high, overflow) \<Rightarrow> update_flags_imul (write_imul_reg_operand modrm 64 low c) overflow)"

definition imul_r16_rm16 :: "callbacks \<Rightarrow> cpueaxh_engine \<Rightarrow> u8 \<Rightarrow> u64 \<Rightarrow> cpueaxh_engine" where
  [insn_defs]: "imul_r16_rm16 cb e modrm mem_addr =
     (case read_imul_reg_operand modrm 16 e of
        (lhs, e1) \<Rightarrow> after_read cb modrm mem_addr 16 (\<lambda>rhs. imul_to_reg16 modrm (ucast lhs) (ucast rhs)) e1)"
definition imul_r32_rm32 :: "callbacks \<Rightarrow> cpueaxh_engine \<Rightarrow> u8 \<Rightarrow> u64 \<Rightarrow> cpueaxh_engine" where
  [insn_defs]: "imul_r32_rm32 cb e modrm mem_addr =
     (case read_imul_reg_operand modrm 32 e of
        (lhs, e1) \<Rightarrow> after_read cb modrm mem_addr 32 (\<lambda>rhs. imul_to_reg32 modrm (ucast lhs) (ucast rhs)) e1)"
definition imul_r64_rm64 :: "callbacks \<Rightarrow> cpueaxh_engine \<Rightarrow> u8 \<Rightarrow> u64 \<Rightarrow> cpueaxh_engine" where
  [insn_defs]: "imul_r64_rm64 cb e modrm mem_addr =
     (case read_imul_reg_operand modrm 64 e of
        (lhs, e1) \<Rightarrow> after_read cb modrm mem_addr 64 (\<lambda>rhs. imul_to_reg64 modrm lhs rhs) e1)"
definition imul_r16_rm16_imm8 :: "callbacks \<Rightarrow> cpueaxh_engine \<Rightarrow> u8 \<Rightarrow> u64 \<Rightarrow> u8 \<Rightarrow> cpueaxh_engine" where
  [insn_defs]: "imul_r16_rm16_imm8 cb e modrm mem_addr imm =
     after_read cb modrm mem_addr 16 (\<lambda>src. imul_to_reg16 modrm (ucast src) (scast imm)) e"
definition imul_r32_rm32_imm8 :: "callbacks \<Rightarrow> cpueaxh_engine \<Rightarrow> u8 \<Rightarrow> u64 \<Rightarrow> u8 \<Rightarrow> cpueaxh_engine" where
  [insn_defs]: "imul_r32_rm32_imm8 cb e modrm mem_addr imm =
     after_read cb modrm mem_addr 32 (\<lambda>src. imul_to_reg32 modrm (ucast src) (scast imm)) e"
definition imul_r64_rm64_imm8 :: "callbacks \<Rightarrow> cpueaxh_engine \<Rightarrow> u8 \<Rightarrow> u64 \<Rightarrow> u8 \<Rightarrow> cpueaxh_engine" where
  [insn_defs]: "imul_r64_rm64_imm8 cb e modrm mem_addr imm =
     after_read cb modrm mem_addr 64 (\<lambda>src. imul_to_reg64 modrm src (scast imm)) e"
definition imul_r16_rm16_imm16 :: "callbacks \<Rightarrow> cpueaxh_engine \<Rightarrow> u8 \<Rightarrow> u64 \<Rightarrow> u16 \<Rightarrow> cpueaxh_engine" where
  [insn_defs]: "imul_r16_rm16_imm16 cb e modrm mem_addr imm =
     after_read cb modrm mem_addr 16 (\<lambda>src. imul_to_reg16 modrm (ucast src) imm) e"
definition imul_r32_rm32_imm32 :: "callbacks \<Rightarrow> cpueaxh_engine \<Rightarrow> u8 \<Rightarrow> u64 \<Rightarrow> u32 \<Rightarrow> cpueaxh_engine" where
  [insn_defs]: "imul_r32_rm32_imm32 cb e modrm mem_addr imm =
     after_read cb modrm mem_addr 32 (\<lambda>src. imul_to_reg32 modrm (ucast src) imm) e"
definition imul_r64_rm64_imm32 :: "callbacks \<Rightarrow> cpueaxh_engine \<Rightarrow> u8 \<Rightarrow> u64 \<Rightarrow> u32 \<Rightarrow> cpueaxh_engine" where
  [insn_defs]: "imul_r64_rm64_imm32 cb e modrm mem_addr imm =
     after_read cb modrm mem_addr 64 (\<lambda>src. imul_to_reg64 modrm src (scast imm)) e"

definition decode_modrm_imul :: "bool \<Rightarrow> u8 list \<Rightarrow> dstate \<Rightarrow> dresult" where
  "decode_modrm_imul = decode_modrm_unlocked"

definition decode_imul_body :: "bool \<Rightarrow> u8 list \<Rightarrow> dstate \<Rightarrow> dresult" where
  "decode_imul_body lock code =
     decode_seq
       [next_opcode code, set_sizes default_operand_size default_address_size,
        by_opcode (\<lambda>opc. opc = 0x0F)
          (decode_seq [next_opcode code, by_opcode (\<lambda>opc. opc = 0xAF) Inr (ud_if True), decode_modrm_imul lock code])
          (by_opcode (\<lambda>opc. opc = 0x6B) (decode_seq [decode_modrm_imul lock code, decode_imm 1 code])
             (by_opcode (\<lambda>opc. opc = 0x69) (decode_seq [decode_modrm_imul lock code, decode_full_imm code])
                (decode_group3 decode_modrm_imul 5 lock code)))]"

definition decode_imul_instruction :: "CPU_CONTEXT \<Rightarrow> u8 list \<Rightarrow> DecodedInstruction \<times> CPU_CONTEXT" where
  "decode_imul_instruction = decode_with apply_rex_byte id decode_imul_body"

definition execute_imul_with_decoded ::
  "callbacks \<Rightarrow> cpueaxh_engine \<Rightarrow> DecodedInstruction \<Rightarrow> cpueaxh_engine" where
  "execute_imul_with_decoded cb e inst =
     (let opc = di_opcode inst; m = di_modrm inst; a = di_mem_address inst; i = di_immediate inst;
          sized = by_size (rex_w (cpu_ctx e)) (operand_size_override (cpu_ctx e))
      in if opc = 0xF6 then imul_rm8 cb e m a
         else if opc = 0xF7 then sized (imul_rm64 cb e m a) (imul_rm16 cb e m a) (imul_rm32 cb e m a)
         else if opc = 0xAF then sized (imul_r64_rm64 cb e m a) (imul_r16_rm16 cb e m a) (imul_r32_rm32 cb e m a)
         else if opc = 0x6B
         then sized (imul_r64_rm64_imm8 cb e m a (ucast i)) (imul_r16_rm16_imm8 cb e m a (ucast i))
                (imul_r32_rm32_imm8 cb e m a (ucast i))
         else if opc = 0x69
         then sized (imul_r64_rm64_imm32 cb e m a (ucast i)) (imul_r16_rm16_imm16 cb e m a (ucast i))
                (imul_r32_rm32_imm32 cb e m a (ucast i))
         else e)"

definition execute_imul ::
  "callbacks \<Rightarrow> cpueaxh_engine \<Rightarrow> u8 list \<Rightarrow> cpueaxh_engine" where
  "execute_imul = execute_decoding decode_imul_instruction execute_imul_with_decoded"
definition execute_imul_fast ::
  "callbacks \<Rightarrow> cpueaxh_engine \<Rightarrow> DecodedInst \<Rightarrow> cpueaxh_engine" where
  "execute_imul_fast = execute_cached execute_imul_with_decoded"

subsection \<open>Division of 128 by 64 bits\<close>

text \<open>
  The code has two versions. User-mode builds for x64 use the compiler intrinsic \<^verbatim>\<open>_udiv128\<close>, the division of
  the processor, which divides exactly where the quotient fits; the callers make sure of that. The kernel build
  and the builds for other processors use the bitwise loop. Which one is compiled in is an argument of
  everything that divides 128 bits.
\<close>

datatype udiv128_build = Intrinsic_Division | Bitwise_Division

definition udiv128_intrinsic :: "u64 \<Rightarrow> u64 \<Rightarrow> u64 \<Rightarrow> u64 \<times> u64" where
  "udiv128_intrinsic high low divisor =
     (let n = push_bit 64 (ucast high) OR ucast low :: u128
      in (ucast (n div ucast divisor), ucast (n mod ucast divisor)))"

fun udiv128_loop :: "nat list \<Rightarrow> u64 \<Rightarrow> u64 \<Rightarrow> u64 \<Rightarrow> u64 \<Rightarrow> u64 \<times> u64" where
  "udiv128_loop [] low divisor q rem = (q, rem)"
| "udiv128_loop (bit_index # rest) low divisor q rem =
     (let rem1 = push_bit 1 rem OR (drop_bit bit_index low AND 1)
      in if rem1 \<ge> divisor
         then udiv128_loop rest low divisor (q OR push_bit bit_index 1) (rem1 - divisor)
         else udiv128_loop rest low divisor q rem1)"

definition cpueaxh_udiv128_fallback :: "u64 \<Rightarrow> u64 \<Rightarrow> u64 \<Rightarrow> u64 \<times> u64" where
  "cpueaxh_udiv128_fallback high low divisor = udiv128_loop (rev [0..<64]) low divisor 0 high"

definition cpueaxh_udiv128 :: "udiv128_build \<Rightarrow> u64 \<Rightarrow> u64 \<Rightarrow> u64 \<Rightarrow> u64 \<times> u64" where
  "cpueaxh_udiv128 build high low divisor =
     (case build of
        Intrinsic_Division \<Rightarrow> udiv128_intrinsic high low divisor
      | Bitwise_Division \<Rightarrow> cpueaxh_udiv128_fallback high low divisor)"

subsection \<open>DIV\<close>

definition decode_div_rm_index :: "CPU_CONTEXT \<Rightarrow> u8 \<Rightarrow> nat" where
  "decode_div_rm_index = rm_index"
definition read_div_rm_operand ::
  "callbacks \<Rightarrow> u8 \<Rightarrow> u64 \<Rightarrow> int \<Rightarrow> cpueaxh_engine \<Rightarrow> u64 \<times> cpueaxh_engine" where
  [insn_defs]: "read_div_rm_operand = read_rm_sized"
definition div_quotient_overflows :: "u64 \<Rightarrow> nat \<Rightarrow> bool" where
  "div_quotient_overflows q bits \<longleftrightarrow> bits \<noteq> 64 \<and> q > push_bit bits 1 - 1"

definition div_rm8 :: "callbacks \<Rightarrow> cpueaxh_engine \<Rightarrow> u8 \<Rightarrow> u64 \<Rightarrow> cpueaxh_engine" where
  [insn_defs]: "div_rm8 cb e modrm mem_addr =
     after_read cb modrm mem_addr 8
       (\<lambda>v c. let divisor = ucast v :: u8
              in if divisor = 0 then raise_de_ctx c
                 else let dividend = get_reg16 c REG_RAX; quotient = dividend div ucast divisor;
                          remainder = ucast (dividend mod ucast divisor) :: u8
                      in if div_quotient_overflows (ucast quotient) 8 then raise_de_ctx c
                         else set_reg16 c REG_RAX (push_bit 8 (ucast remainder) OR ucast (ucast quotient :: u8))) e"

definition div_rm16 :: "callbacks \<Rightarrow> cpueaxh_engine \<Rightarrow> u8 \<Rightarrow> u64 \<Rightarrow> cpueaxh_engine" where
  [insn_defs]: "div_rm16 cb e modrm mem_addr =
     after_read cb modrm mem_addr 16
       (\<lambda>v c. let divisor = ucast v :: u16
              in if divisor = 0 then raise_de_ctx c
                 else let dividend = push_bit 16 (ucast (get_reg16 c REG_RDX)) OR ucast (get_reg16 c REG_RAX) :: u32;
                          quotient = dividend div ucast divisor; remainder = ucast (dividend mod ucast divisor) :: u16
                      in if div_quotient_overflows (ucast quotient) 16 then raise_de_ctx c
                         else set_reg16 (set_reg16 c REG_RAX (ucast quotient)) REG_RDX remainder) e"

definition div_rm32 :: "callbacks \<Rightarrow> cpueaxh_engine \<Rightarrow> u8 \<Rightarrow> u64 \<Rightarrow> cpueaxh_engine" where
  [insn_defs]: "div_rm32 cb e modrm mem_addr =
     after_read cb modrm mem_addr 32
       (\<lambda>v c. let divisor = ucast v :: u32
              in if divisor = 0 then raise_de_ctx c
                 else let dividend = push_bit 32 (ucast (get_reg32 c REG_RDX)) OR ucast (get_reg32 c REG_RAX) :: u64;
                          quotient = dividend div ucast divisor; remainder = ucast (dividend mod ucast divisor) :: u32
                      in if div_quotient_overflows quotient 32 then raise_de_ctx c
                         else set_reg32 (set_reg32 c REG_RAX (ucast quotient)) REG_RDX remainder) e"

definition div_rm64 :: "udiv128_build \<Rightarrow> callbacks \<Rightarrow> cpueaxh_engine \<Rightarrow> u8 \<Rightarrow> u64 \<Rightarrow> cpueaxh_engine" where
  [insn_defs]: "div_rm64 build cb e modrm mem_addr =
     after_read cb modrm mem_addr 64
       (\<lambda>divisor c. if divisor = 0 then raise_de_ctx c
                 else let dividend_low = get_reg64 c REG_RAX; dividend_high = get_reg64 c REG_RDX
                      in if dividend_high \<ge> divisor then raise_de_ctx c
                         else case cpueaxh_udiv128 build dividend_high dividend_low divisor of
                                (q, r) \<Rightarrow> set_reg64 (set_reg64 c REG_RAX q) REG_RDX r) e"

definition decode_modrm_div :: "bool \<Rightarrow> u8 list \<Rightarrow> dstate \<Rightarrow> dresult" where
  "decode_modrm_div = decode_modrm_unlocked"
definition decode_div_instruction ::
  "CPU_CONTEXT \<Rightarrow> u8 list \<Rightarrow> DecodedInstruction \<times> CPU_CONTEXT" where
  "decode_div_instruction = decode_with apply_rex_byte id (decode_group3_body 6)"
definition execute_div_with_decoded ::
  "udiv128_build \<Rightarrow> callbacks \<Rightarrow> cpueaxh_engine \<Rightarrow> DecodedInstruction \<Rightarrow> cpueaxh_engine" where
  "execute_div_with_decoded build = execute_group3_with_decoded div_rm8 div_rm16 div_rm32 (div_rm64 build)"
definition execute_div ::
  "udiv128_build \<Rightarrow> callbacks \<Rightarrow> cpueaxh_engine \<Rightarrow> u8 list \<Rightarrow> cpueaxh_engine" where
  "execute_div build = execute_decoding decode_div_instruction (execute_div_with_decoded build)"
definition execute_div_fast ::
  "udiv128_build \<Rightarrow> callbacks \<Rightarrow> cpueaxh_engine \<Rightarrow> DecodedInst \<Rightarrow> cpueaxh_engine" where
  "execute_div_fast build = execute_cached (execute_div_with_decoded build)"

subsection \<open>IDIV\<close>

definition decode_idiv_rm_index :: "CPU_CONTEXT \<Rightarrow> u8 \<Rightarrow> nat" where
  "decode_idiv_rm_index = rm_index"
definition read_idiv_rm_operand ::
  "callbacks \<Rightarrow> u8 \<Rightarrow> u64 \<Rightarrow> int \<Rightarrow> cpueaxh_engine \<Rightarrow> u64 \<times> cpueaxh_engine" where
  [insn_defs]: "read_idiv_rm_operand = read_rm_sized"
definition idiv_quotient_overflows :: "u64 \<Rightarrow> bool \<Rightarrow> nat \<Rightarrow> bool" where
  "idiv_quotient_overflows abs_quotient negative bits =
     (let max_negative = (if bits = 64 then 0x8000000000000000 else push_bit (bits - 1) 1);
          max_positive = max_negative - 1
      in if negative then abs_quotient > max_negative else abs_quotient > max_positive)"

definition pack_signed_value :: "u64 \<Rightarrow> bool \<Rightarrow> nat \<Rightarrow> u64" where
  "pack_signed_value abs_value negative bits =
     (let vmask = (if bits = 64 then 0xFFFFFFFFFFFFFFFF else push_bit bits 1 - 1)
      in if \<not> negative \<or> abs_value = 0 then abs_value AND vmask else (NOT abs_value + 1) AND vmask)"

definition negate_u128 :: "u64 \<Rightarrow> u64 \<Rightarrow> u64 \<times> u64" where
  "negate_u128 high low =
     (let neg_low = NOT low + 1 in (NOT high + (if neg_low = 0 then 1 else 0), neg_low))"

definition idiv_rm8 :: "callbacks \<Rightarrow> cpueaxh_engine \<Rightarrow> u8 \<Rightarrow> u64 \<Rightarrow> cpueaxh_engine" where
  [insn_defs]: "idiv_rm8 cb e modrm mem_addr =
     after_read cb modrm mem_addr 8
       (\<lambda>v c. let divisor_bits = ucast v :: u8
              in if divisor_bits = 0 then raise_de_ctx c
                 else let dividend_bits = get_reg16 c REG_RAX;
                          dividend_negative = (dividend_bits <s 0); divisor_negative = (divisor_bits <s 0);
                          abs_dividend = (if dividend_negative then NOT dividend_bits + 1 else dividend_bits);
                          abs_divisor = (if divisor_negative then NOT divisor_bits + 1 else divisor_bits);
                          abs_quotient = abs_dividend div ucast abs_divisor;
                          abs_remainder = ucast (abs_dividend mod ucast abs_divisor) :: u8;
                          quotient_negative = (dividend_negative \<noteq> divisor_negative)
                      in if idiv_quotient_overflows (ucast abs_quotient) quotient_negative 8 then raise_de_ctx c
                         else let quotient_bits = ucast (pack_signed_value (ucast abs_quotient) quotient_negative 8) :: u8;
                                  remainder_bits = ucast (pack_signed_value (ucast abs_remainder) dividend_negative 8) :: u8
                              in set_reg16 c REG_RAX (push_bit 8 (ucast remainder_bits) OR ucast quotient_bits)) e"

definition idiv_rm16 :: "callbacks \<Rightarrow> cpueaxh_engine \<Rightarrow> u8 \<Rightarrow> u64 \<Rightarrow> cpueaxh_engine" where
  [insn_defs]: "idiv_rm16 cb e modrm mem_addr =
     after_read cb modrm mem_addr 16
       (\<lambda>v c. let divisor_bits = ucast v :: u16
              in if divisor_bits = 0 then raise_de_ctx c
                 else let dividend_bits =
                            push_bit 16 (ucast (get_reg16 c REG_RDX)) OR ucast (get_reg16 c REG_RAX) :: u32;
                          dividend_negative = (dividend_bits <s 0); divisor_negative = (divisor_bits <s 0);
                          abs_dividend = (if dividend_negative then NOT dividend_bits + 1 else dividend_bits);
                          abs_divisor = (if divisor_negative then NOT divisor_bits + 1 else divisor_bits);
                          abs_quotient = abs_dividend div ucast abs_divisor;
                          abs_remainder = ucast (abs_dividend mod ucast abs_divisor) :: u16;
                          quotient_negative = (dividend_negative \<noteq> divisor_negative)
                      in if idiv_quotient_overflows (ucast abs_quotient) quotient_negative 16 then raise_de_ctx c
                         else set_reg16
                                (set_reg16 c REG_RAX (ucast (pack_signed_value (ucast abs_quotient) quotient_negative 16)))
                                REG_RDX (ucast (pack_signed_value (ucast abs_remainder) dividend_negative 16))) e"

definition idiv_rm32 :: "callbacks \<Rightarrow> cpueaxh_engine \<Rightarrow> u8 \<Rightarrow> u64 \<Rightarrow> cpueaxh_engine" where
  [insn_defs]: "idiv_rm32 cb e modrm mem_addr =
     after_read cb modrm mem_addr 32
       (\<lambda>v c. let divisor_bits = ucast v :: u32
              in if divisor_bits = 0 then raise_de_ctx c
                 else let dividend_bits =
                            push_bit 32 (ucast (get_reg32 c REG_RDX)) OR ucast (get_reg32 c REG_RAX) :: u64;
                          dividend_negative = (dividend_bits <s 0); divisor_negative = (divisor_bits <s 0);
                          abs_dividend = (if dividend_negative then NOT dividend_bits + 1 else dividend_bits);
                          abs_divisor = (if divisor_negative then NOT divisor_bits + 1 else divisor_bits);
                          abs_quotient = abs_dividend div ucast abs_divisor;
                          abs_remainder = ucast (abs_dividend mod ucast abs_divisor) :: u32;
                          quotient_negative = (dividend_negative \<noteq> divisor_negative)
                      in if idiv_quotient_overflows abs_quotient quotient_negative 32 then raise_de_ctx c
                         else set_reg32
                                (set_reg32 c REG_RAX (ucast (pack_signed_value abs_quotient quotient_negative 32)))
                                REG_RDX (ucast (pack_signed_value (ucast abs_remainder) dividend_negative 32))) e"

definition idiv_rm64 :: "udiv128_build \<Rightarrow> callbacks \<Rightarrow> cpueaxh_engine \<Rightarrow> u8 \<Rightarrow> u64 \<Rightarrow> cpueaxh_engine" where
  [insn_defs]: "idiv_rm64 build cb e modrm mem_addr =
     after_read cb modrm mem_addr 64
       (\<lambda>divisor_bits c.
          if divisor_bits = 0 then raise_de_ctx c
          else let dividend_low = get_reg64 c REG_RAX; dividend_high = get_reg64 c REG_RDX;
                   dividend_negative = (dividend_high <s 0); divisor_negative = (divisor_bits <s 0);
                   abs_dividend = (if dividend_negative then negate_u128 dividend_high dividend_low
                                   else (dividend_high, dividend_low));
                   abs_divisor = (if divisor_negative then NOT divisor_bits + 1 else divisor_bits)
               in if fst abs_dividend \<ge> abs_divisor then raise_de_ctx c
                  else case cpueaxh_udiv128 build (fst abs_dividend) (snd abs_dividend) abs_divisor of
                         (abs_quotient, abs_remainder) \<Rightarrow>
                           let quotient_negative = (dividend_negative \<noteq> divisor_negative)
                           in if idiv_quotient_overflows abs_quotient quotient_negative 64 then raise_de_ctx c
                              else set_reg64
                                     (set_reg64 c REG_RAX (pack_signed_value abs_quotient quotient_negative 64))
                                     REG_RDX (pack_signed_value abs_remainder dividend_negative 64)) e"

definition decode_modrm_idiv :: "bool \<Rightarrow> u8 list \<Rightarrow> dstate \<Rightarrow> dresult" where
  "decode_modrm_idiv = decode_modrm_unlocked"
definition decode_idiv_instruction ::
  "CPU_CONTEXT \<Rightarrow> u8 list \<Rightarrow> DecodedInstruction \<times> CPU_CONTEXT" where
  "decode_idiv_instruction = decode_with apply_rex_byte id (decode_group3_body 7)"
definition execute_idiv_with_decoded ::
  "udiv128_build \<Rightarrow> callbacks \<Rightarrow> cpueaxh_engine \<Rightarrow> DecodedInstruction \<Rightarrow> cpueaxh_engine" where
  "execute_idiv_with_decoded build = execute_group3_with_decoded idiv_rm8 idiv_rm16 idiv_rm32 (idiv_rm64 build)"
definition execute_idiv ::
  "udiv128_build \<Rightarrow> callbacks \<Rightarrow> cpueaxh_engine \<Rightarrow> u8 list \<Rightarrow> cpueaxh_engine" where
  "execute_idiv build = execute_decoding decode_idiv_instruction (execute_idiv_with_decoded build)"
definition execute_idiv_fast ::
  "udiv128_build \<Rightarrow> callbacks \<Rightarrow> cpueaxh_engine \<Rightarrow> DecodedInst \<Rightarrow> cpueaxh_engine" where
  "execute_idiv_fast build = execute_cached (execute_idiv_with_decoded build)"

subsection \<open>Replaying\<close>

lemma decode_group3_body_step: "decode_step (decode_group3_body g lock code) True"
  unfolding decode_group3_body_def
  by (rule decode_step_weaken, (rule default_sizes_head decode_steps static_updates | (simp; fail))+)

lemma decode_imul_step: "decode_step (decode_imul_body lock code) True"
  unfolding decode_imul_body_def decode_modrm_imul_def
  by (rule decode_step_weaken, (rule default_sizes_head decode_steps static_updates | (simp; fail))+)

interpretation mul_decoder: prefix_decoder apply_rex_byte id "decode_group3_body 4" True decode_mul_instruction
  by (intro prefix_decoder.intro raw_prefixes.prefix_reader_axioms prefix_decoder_axioms.intro decode_group3_body_step)
     (simp add: decode_mul_instruction_def)
interpretation imul_decoder: prefix_decoder apply_rex_byte id decode_imul_body True decode_imul_instruction
  by (intro prefix_decoder.intro raw_prefixes.prefix_reader_axioms prefix_decoder_axioms.intro decode_imul_step)
     (simp add: decode_imul_instruction_def)
interpretation div_decoder: prefix_decoder apply_rex_byte id "decode_group3_body 6" True decode_div_instruction
  by (intro prefix_decoder.intro raw_prefixes.prefix_reader_axioms prefix_decoder_axioms.intro decode_group3_body_step)
     (simp add: decode_div_instruction_def)
interpretation idiv_decoder: prefix_decoder apply_rex_byte id "decode_group3_body 7" True decode_idiv_instruction
  by (intro prefix_decoder.intro raw_prefixes.prefix_reader_axioms prefix_decoder_axioms.intro decode_group3_body_step)
     (simp add: decode_idiv_instruction_def)

end
