(* ===== verification/Shift.thy ===== *)
theory Shift
  imports MulDiv
begin

text \<open>
  Shifts and rotations (\<^verbatim>\<open>instructions/shl.hpp\<close>, \<^verbatim>\<open>shr.hpp\<close>, \<^verbatim>\<open>sar.hpp\<close>, \<^verbatim>\<open>rol.hpp\<close>, \<^verbatim>\<open>ror.hpp\<close>, \<^verbatim>\<open>rcl.hpp\<close>, \<^verbatim>\<open>rcr.hpp\<close>,
  \<^verbatim>\<open>shld.hpp\<close>). The single-operand forms shift one bit at a time in a loop; the last section shows what
  the loops compute.
\<close>

unbundle bit_operations_syntax

text \<open>The masks of an operand size; the files have a copy each.\<close>

definition shift_operand_mask :: "CPU_CONTEXT \<Rightarrow> int \<Rightarrow> u64 \<times> CPU_CONTEXT" where
  "shift_operand_mask c operand_size =
     (if operand_size = 8 then (0xFF, c) else if operand_size = 16 then (0xFFFF, c)
      else if operand_size = 32 then (0xFFFFFFFF, c) else if operand_size = 64 then (0xFFFFFFFFFFFFFFFF, c)
      else (0, raise_ud_ctx c))"

definition shift_sign_mask :: "CPU_CONTEXT \<Rightarrow> int \<Rightarrow> u64 \<times> CPU_CONTEXT" where
  "shift_sign_mask c operand_size =
     (if operand_size = 8 then (0x80, c) else if operand_size = 16 then (0x8000, c)
      else if operand_size = 32 then (0x80000000, c) else if operand_size = 64 then (0x8000000000000000, c)
      else (0, raise_ud_ctx c))"

definition shift_count_mask :: "int \<Rightarrow> u8" where
  "shift_count_mask operand_size = (if operand_size = 64 then 0x3F else 0x1F)"

definition shift_count :: "CPU_CONTEXT \<Rightarrow> DecodedInstruction \<Rightarrow> u8 \<times> CPU_CONTEXT" where
  "shift_count c inst =
     (if di_opcode inst = 0xD0 \<or> di_opcode inst = 0xD1 then (1, c)
      else if di_opcode inst = 0xD2 \<or> di_opcode inst = 0xD3 then (get_reg8 c REG_RCX, c)
      else if di_opcode inst = 0xC0 \<or> di_opcode inst = 0xC1 then (ucast (di_immediate inst), c)
      else (0, raise_ud_ctx c))"

text \<open>
  The frame of the seven handlers: the masks, the count, the operand, which ends the instruction if
  reading it raises or if the count is zero, the loop, the write and the flags.
\<close>

definition shift_frame ::
  "(CPU_CONTEXT \<Rightarrow> int \<Rightarrow> u64 \<times> u64 \<times> CPU_CONTEXT) \<Rightarrow> (CPU_CONTEXT \<Rightarrow> int \<Rightarrow> u8 \<Rightarrow> nat \<times> CPU_CONTEXT) \<Rightarrow>
   (nat \<Rightarrow> u64 \<Rightarrow> u64 \<Rightarrow> u64 \<Rightarrow> CPU_CONTEXT \<Rightarrow> u64 \<times> bool \<times> CPU_CONTEXT) \<Rightarrow>
   (CPU_CONTEXT \<Rightarrow> u64 \<Rightarrow> u64 \<Rightarrow> int \<Rightarrow> nat \<Rightarrow> bool \<Rightarrow> CPU_CONTEXT) \<Rightarrow>
   callbacks \<Rightarrow> cpueaxh_engine \<Rightarrow> u8 \<Rightarrow> u64 \<Rightarrow> int \<Rightarrow> u8 \<Rightarrow> cpueaxh_engine" where
  "shift_frame masks count_of loop flags cb e modrm mem_addr operand_size raw_count =
     (case masks (cpu_ctx e) operand_size of
        (omask, smask, c1) \<Rightarrow>
          case count_of c1 operand_size raw_count of
            (count, c2) \<Rightarrow>
              case read_rm_sized cb modrm mem_addr operand_size (e\<lparr>cpu_ctx := c2\<rparr>) of
                (v, e1) \<Rightarrow>
                  if cpu_has_exception (cpu_ctx e1) \<or> count = 0 then e1
                  else let original = v AND omask
                       in case loop count omask smask original (cpu_ctx e1) of
                            (r, carry_out, c3) \<Rightarrow>
                              on_ctx (\<lambda>c. flags c original r operand_size count carry_out)
                                (write_rm_sized cb modrm mem_addr operand_size r (e1\<lparr>cpu_ctx := c3\<rparr>)))"

definition one_mask :: "CPU_CONTEXT \<Rightarrow> int \<Rightarrow> u64 \<times> u64 \<times> CPU_CONTEXT" where
  "one_mask c operand_size = (case shift_operand_mask c operand_size of (omask, c1) \<Rightarrow> (omask, 0, c1))"

definition two_masks :: "CPU_CONTEXT \<Rightarrow> int \<Rightarrow> u64 \<times> u64 \<times> CPU_CONTEXT" where
  "two_masks c operand_size =
     (case shift_operand_mask c operand_size of
        (omask, c1) \<Rightarrow> case shift_sign_mask c1 operand_size of (smask, c2) \<Rightarrow> (omask, smask, c2))"

definition masked_count :: "CPU_CONTEXT \<Rightarrow> int \<Rightarrow> u8 \<Rightarrow> nat \<times> CPU_CONTEXT" where
  "masked_count c operand_size raw_count = (unat (raw_count AND shift_count_mask operand_size), c)"

text \<open>Decoding: \<open>g\<close> is the group number.\<close>

definition decode_imm_after :: "nat \<Rightarrow> u8 list \<Rightarrow> dstate \<Rightarrow> dresult" where
  "decode_imm_after n code s =
     (case s of (inst, offset, ctx) \<Rightarrow>
        if length code < offset + n then Inl (inst, raise_gp_ctx ctx 0)
        else Inr (inst\<lparr>di_imm_size := int n, di_immediate := le_load (take n (drop offset code))\<rparr>, offset + n, ctx))"

definition decode_shift_body :: "u8 \<Rightarrow> bool \<Rightarrow> u8 list \<Rightarrow> dstate \<Rightarrow> dresult" where
  "decode_shift_body g lock code =
     decode_seq
       [next_opcode code, set_sizes default_operand_size default_address_size,
        by_opcode (\<lambda>opc. opc = 0xD0 \<or> opc = 0xD2 \<or> opc = 0xC0)
          (decode_seq
             [with_inst (\<lambda>i. i\<lparr>di_operand_size := 8\<rparr>), decode_modrm_lockable lock code, ud_unless_group g,
              by_opcode (\<lambda>opc. opc = 0xC0) (decode_imm_after 1 code) Inr])
          (by_opcode (\<lambda>opc. opc = 0xD1 \<or> opc = 0xD3 \<or> opc = 0xC1)
             (decode_seq
                [decode_modrm_lockable lock code, ud_unless_group g,
                 by_opcode (\<lambda>opc. opc = 0xC1) (decode_imm_after 1 code) Inr])
             (ud_if True))]"

definition execute_shift_with_decoded ::
  "(callbacks \<Rightarrow> cpueaxh_engine \<Rightarrow> u8 \<Rightarrow> u64 \<Rightarrow> int \<Rightarrow> u8 \<Rightarrow> cpueaxh_engine) \<Rightarrow>
   callbacks \<Rightarrow> cpueaxh_engine \<Rightarrow> DecodedInstruction \<Rightarrow> cpueaxh_engine" where
  "execute_shift_with_decoded shift cb e inst =
     (case shift_count (cpu_ctx e) inst of
        (count, c) \<Rightarrow> shift cb (e\<lparr>cpu_ctx := c\<rparr>) (di_modrm inst) (di_mem_address inst) (di_operand_size inst) count)"

text \<open>The flags that the shifts set from the result.\<close>

definition result_flags :: "CPU_CONTEXT \<Rightarrow> u64 \<Rightarrow> int \<Rightarrow> CPU_CONTEXT" where
  "result_flags c r operand_size =
     (case shift_sign_mask c operand_size of
        (smask, c1) \<Rightarrow>
          set_flag (set_flag (set_flag c1 RFLAGS_SF (r AND smask \<noteq> 0)) RFLAGS_ZF (r = 0))
            RFLAGS_PF (calc_parity (ucast r)))"


subsection \<open>SHL\<close>

definition decode_shl_rm_index :: "CPU_CONTEXT \<Rightarrow> u8 \<Rightarrow> nat" where
  "decode_shl_rm_index = rm_index"
definition read_shl_rm_operand ::
  "callbacks \<Rightarrow> u8 \<Rightarrow> u64 \<Rightarrow> int \<Rightarrow> cpueaxh_engine \<Rightarrow> u64 \<times> cpueaxh_engine" where
  [insn_defs]: "read_shl_rm_operand = read_rm_sized"
definition write_shl_rm_operand ::
  "callbacks \<Rightarrow> u8 \<Rightarrow> u64 \<Rightarrow> int \<Rightarrow> u64 \<Rightarrow> cpueaxh_engine \<Rightarrow> cpueaxh_engine" where
  [insn_defs]: "write_shl_rm_operand = write_rm_sized"
definition get_shl_operand_mask :: "CPU_CONTEXT \<Rightarrow> int \<Rightarrow> u64 \<times> CPU_CONTEXT" where
  "get_shl_operand_mask = shift_operand_mask"
definition get_shl_sign_mask :: "CPU_CONTEXT \<Rightarrow> int \<Rightarrow> u64 \<times> CPU_CONTEXT" where
  "get_shl_sign_mask = shift_sign_mask"
definition get_shl_count_mask :: "int \<Rightarrow> u8" where "get_shl_count_mask = shift_count_mask"
definition decode_shl_count ::
  "CPU_CONTEXT \<Rightarrow> DecodedInstruction \<Rightarrow> u8 \<times> CPU_CONTEXT" where
  "decode_shl_count = shift_count"
fun shl_loop :: "nat \<Rightarrow> u64 \<Rightarrow> u64 \<Rightarrow> u64 \<Rightarrow> bool \<Rightarrow> u64 \<times> bool" where
  "shl_loop 0 omask smask r carry_out = (r, carry_out)"
| "shl_loop (Suc n) omask smask r carry_out = shl_loop n omask smask (push_bit 1 r AND omask) (r AND smask \<noteq> 0)"

definition update_flags_shl :: "CPU_CONTEXT \<Rightarrow> u64 \<Rightarrow> u64 \<Rightarrow> int \<Rightarrow> nat \<Rightarrow> bool \<Rightarrow> CPU_CONTEXT" where
  "update_flags_shl c original r operand_size count carry_out =
     (if count = 0 then c
      else case shift_sign_mask c operand_size of
             (smask, c1) \<Rightarrow>
               let c2 = set_flag c1 RFLAGS_CF carry_out;
                   c3 = (if count = 1 then set_flag c2 RFLAGS_OF ((r AND smask \<noteq> 0) \<noteq> carry_out) else c2)
               in result_flags c3 r operand_size)"

text \<open>Loops without an effect on the context.\<close>

definition pure_loop ::
  "(nat \<Rightarrow> u64 \<Rightarrow> u64 \<Rightarrow> u64 \<Rightarrow> bool \<Rightarrow> u64 \<times> bool) \<Rightarrow>
   nat \<Rightarrow> u64 \<Rightarrow> u64 \<Rightarrow> u64 \<Rightarrow> CPU_CONTEXT \<Rightarrow> u64 \<times> bool \<times> CPU_CONTEXT" where
  "pure_loop loop count omask smask v c = (case loop count omask smask v False of (r, carry_out) \<Rightarrow> (r, carry_out, c))"

definition shl_rm ::
  "callbacks \<Rightarrow> cpueaxh_engine \<Rightarrow> u8 \<Rightarrow> u64 \<Rightarrow> int \<Rightarrow> u8 \<Rightarrow> cpueaxh_engine" where
  "shl_rm = shift_frame two_masks masked_count (pure_loop shl_loop) update_flags_shl"
definition decode_modrm_shl :: "bool \<Rightarrow> u8 list \<Rightarrow> dstate \<Rightarrow> dresult" where
  "decode_modrm_shl = decode_modrm_lockable"
definition decode_shl_instruction ::
  "CPU_CONTEXT \<Rightarrow> u8 list \<Rightarrow> DecodedInstruction \<times> CPU_CONTEXT" where
  "decode_shl_instruction = decode_with apply_rex_byte id (decode_shift_body 4)"
definition execute_shl_with_decoded ::
  "callbacks \<Rightarrow> cpueaxh_engine \<Rightarrow> DecodedInstruction \<Rightarrow> cpueaxh_engine" where
  "execute_shl_with_decoded = execute_shift_with_decoded shl_rm"
definition execute_shl ::
  "callbacks \<Rightarrow> cpueaxh_engine \<Rightarrow> u8 list \<Rightarrow> cpueaxh_engine" where
  "execute_shl = execute_decoding decode_shl_instruction execute_shl_with_decoded"
definition execute_shl_fast ::
  "callbacks \<Rightarrow> cpueaxh_engine \<Rightarrow> DecodedInst \<Rightarrow> cpueaxh_engine" where
  "execute_shl_fast = execute_cached execute_shl_with_decoded"

subsection \<open>SHR\<close>

definition decode_shr_rm_index :: "CPU_CONTEXT \<Rightarrow> u8 \<Rightarrow> nat" where
  "decode_shr_rm_index = rm_index"
definition read_shr_rm_operand ::
  "callbacks \<Rightarrow> u8 \<Rightarrow> u64 \<Rightarrow> int \<Rightarrow> cpueaxh_engine \<Rightarrow> u64 \<times> cpueaxh_engine" where
  [insn_defs]: "read_shr_rm_operand = read_rm_sized"
definition write_shr_rm_operand ::
  "callbacks \<Rightarrow> u8 \<Rightarrow> u64 \<Rightarrow> int \<Rightarrow> u64 \<Rightarrow> cpueaxh_engine \<Rightarrow> cpueaxh_engine" where
  [insn_defs]: "write_shr_rm_operand = write_rm_sized"
definition get_shr_operand_mask :: "CPU_CONTEXT \<Rightarrow> int \<Rightarrow> u64 \<times> CPU_CONTEXT" where
  "get_shr_operand_mask = shift_operand_mask"
definition get_shr_sign_mask :: "CPU_CONTEXT \<Rightarrow> int \<Rightarrow> u64 \<times> CPU_CONTEXT" where
  "get_shr_sign_mask = shift_sign_mask"
definition get_shr_count_mask :: "int \<Rightarrow> u8" where "get_shr_count_mask = shift_count_mask"
definition decode_shr_count ::
  "CPU_CONTEXT \<Rightarrow> DecodedInstruction \<Rightarrow> u8 \<times> CPU_CONTEXT" where
  "decode_shr_count = shift_count"
fun shr_loop :: "nat \<Rightarrow> u64 \<Rightarrow> u64 \<Rightarrow> u64 \<Rightarrow> bool \<Rightarrow> u64 \<times> bool" where
  "shr_loop 0 omask smask r carry_out = (r AND omask, carry_out)"
| "shr_loop (Suc n) omask smask r carry_out = shr_loop n omask smask (drop_bit 1 r) (r AND 1 \<noteq> 0)"

definition update_flags_shr :: "CPU_CONTEXT \<Rightarrow> u64 \<Rightarrow> u64 \<Rightarrow> int \<Rightarrow> nat \<Rightarrow> bool \<Rightarrow> CPU_CONTEXT" where
  "update_flags_shr c original r operand_size count carry_out =
     (if count = 0 then c
      else let c1 = set_flag c RFLAGS_CF carry_out;
               c2 = (if count = 1
                     then case shift_sign_mask c1 operand_size of
                            (smask, c2) \<Rightarrow> set_flag c2 RFLAGS_OF (original AND smask \<noteq> 0)
                     else c1)
           in result_flags c2 r operand_size)"

definition shr_rm ::
  "callbacks \<Rightarrow> cpueaxh_engine \<Rightarrow> u8 \<Rightarrow> u64 \<Rightarrow> int \<Rightarrow> u8 \<Rightarrow> cpueaxh_engine" where
  "shr_rm = shift_frame one_mask masked_count (pure_loop shr_loop) update_flags_shr"
definition decode_modrm_shr :: "bool \<Rightarrow> u8 list \<Rightarrow> dstate \<Rightarrow> dresult" where
  "decode_modrm_shr = decode_modrm_lockable"
definition decode_shr_instruction ::
  "CPU_CONTEXT \<Rightarrow> u8 list \<Rightarrow> DecodedInstruction \<times> CPU_CONTEXT" where
  "decode_shr_instruction = decode_with apply_rex_byte id (decode_shift_body 5)"
definition execute_shr_with_decoded ::
  "callbacks \<Rightarrow> cpueaxh_engine \<Rightarrow> DecodedInstruction \<Rightarrow> cpueaxh_engine" where
  "execute_shr_with_decoded = execute_shift_with_decoded shr_rm"
definition execute_shr ::
  "callbacks \<Rightarrow> cpueaxh_engine \<Rightarrow> u8 list \<Rightarrow> cpueaxh_engine" where
  "execute_shr = execute_decoding decode_shr_instruction execute_shr_with_decoded"
definition execute_shr_fast ::
  "callbacks \<Rightarrow> cpueaxh_engine \<Rightarrow> DecodedInst \<Rightarrow> cpueaxh_engine" where
  "execute_shr_fast = execute_cached execute_shr_with_decoded"

subsection \<open>SAR\<close>

definition decode_sar_rm_index :: "CPU_CONTEXT \<Rightarrow> u8 \<Rightarrow> nat" where
  "decode_sar_rm_index = rm_index"
definition read_sar_rm_operand ::
  "callbacks \<Rightarrow> u8 \<Rightarrow> u64 \<Rightarrow> int \<Rightarrow> cpueaxh_engine \<Rightarrow> u64 \<times> cpueaxh_engine" where
  [insn_defs]: "read_sar_rm_operand = read_rm_sized"
definition write_sar_rm_operand ::
  "callbacks \<Rightarrow> u8 \<Rightarrow> u64 \<Rightarrow> int \<Rightarrow> u64 \<Rightarrow> cpueaxh_engine \<Rightarrow> cpueaxh_engine" where
  [insn_defs]: "write_sar_rm_operand = write_rm_sized"
definition get_sar_operand_mask :: "CPU_CONTEXT \<Rightarrow> int \<Rightarrow> u64 \<times> CPU_CONTEXT" where
  "get_sar_operand_mask = shift_operand_mask"
definition get_sar_sign_mask :: "CPU_CONTEXT \<Rightarrow> int \<Rightarrow> u64 \<times> CPU_CONTEXT" where
  "get_sar_sign_mask = shift_sign_mask"
definition get_sar_count_mask :: "int \<Rightarrow> u8" where "get_sar_count_mask = shift_count_mask"
definition decode_sar_count ::
  "CPU_CONTEXT \<Rightarrow> DecodedInstruction \<Rightarrow> u8 \<times> CPU_CONTEXT" where
  "decode_sar_count = shift_count"
fun sar_loop :: "nat \<Rightarrow> u64 \<Rightarrow> u64 \<Rightarrow> u64 \<Rightarrow> bool \<Rightarrow> u64 \<times> bool" where
  "sar_loop 0 omask smask r carry_out = (r, carry_out)"
| "sar_loop (Suc n) omask smask r carry_out =
     sar_loop n omask smask ((if r AND smask \<noteq> 0 then drop_bit 1 r OR smask else drop_bit 1 r) AND omask) (r AND 1 \<noteq> 0)"

definition update_flags_sar :: "CPU_CONTEXT \<Rightarrow> u64 \<Rightarrow> u64 \<Rightarrow> int \<Rightarrow> nat \<Rightarrow> bool \<Rightarrow> CPU_CONTEXT" where
  "update_flags_sar c original r operand_size count carry_out =
     (if count = 0 then c
      else let c1 = set_flag c RFLAGS_CF carry_out;
               c2 = (if count = 1 then set_flag c1 RFLAGS_OF False else c1)
           in result_flags c2 r operand_size)"

definition sar_rm ::
  "callbacks \<Rightarrow> cpueaxh_engine \<Rightarrow> u8 \<Rightarrow> u64 \<Rightarrow> int \<Rightarrow> u8 \<Rightarrow> cpueaxh_engine" where
  "sar_rm = shift_frame two_masks masked_count (pure_loop sar_loop) update_flags_sar"
definition decode_modrm_sar :: "bool \<Rightarrow> u8 list \<Rightarrow> dstate \<Rightarrow> dresult" where
  "decode_modrm_sar = decode_modrm_lockable"
definition decode_sar_instruction ::
  "CPU_CONTEXT \<Rightarrow> u8 list \<Rightarrow> DecodedInstruction \<times> CPU_CONTEXT" where
  "decode_sar_instruction = decode_with apply_rex_byte id (decode_shift_body 7)"
definition execute_sar_with_decoded ::
  "callbacks \<Rightarrow> cpueaxh_engine \<Rightarrow> DecodedInstruction \<Rightarrow> cpueaxh_engine" where
  "execute_sar_with_decoded = execute_shift_with_decoded sar_rm"
definition execute_sar ::
  "callbacks \<Rightarrow> cpueaxh_engine \<Rightarrow> u8 list \<Rightarrow> cpueaxh_engine" where
  "execute_sar = execute_decoding decode_sar_instruction execute_sar_with_decoded"
definition execute_sar_fast ::
  "callbacks \<Rightarrow> cpueaxh_engine \<Rightarrow> DecodedInst \<Rightarrow> cpueaxh_engine" where
  "execute_sar_fast = execute_cached execute_sar_with_decoded"

subsection \<open>ROL\<close>

definition decode_rol_rm_index :: "CPU_CONTEXT \<Rightarrow> u8 \<Rightarrow> nat" where
  "decode_rol_rm_index = rm_index"
definition read_rol_rm_operand ::
  "callbacks \<Rightarrow> u8 \<Rightarrow> u64 \<Rightarrow> int \<Rightarrow> cpueaxh_engine \<Rightarrow> u64 \<times> cpueaxh_engine" where
  [insn_defs]: "read_rol_rm_operand = read_rm_sized"
definition write_rol_rm_operand ::
  "callbacks \<Rightarrow> u8 \<Rightarrow> u64 \<Rightarrow> int \<Rightarrow> u64 \<Rightarrow> cpueaxh_engine \<Rightarrow> cpueaxh_engine" where
  [insn_defs]: "write_rol_rm_operand = write_rm_sized"
definition get_rol_operand_mask :: "CPU_CONTEXT \<Rightarrow> int \<Rightarrow> u64 \<times> CPU_CONTEXT" where
  "get_rol_operand_mask = shift_operand_mask"
definition get_rol_sign_mask :: "CPU_CONTEXT \<Rightarrow> int \<Rightarrow> u64 \<times> CPU_CONTEXT" where
  "get_rol_sign_mask = shift_sign_mask"
definition get_rol_count_mask :: "int \<Rightarrow> u8" where "get_rol_count_mask = shift_count_mask"
definition decode_rol_count ::
  "CPU_CONTEXT \<Rightarrow> DecodedInstruction \<Rightarrow> u8 \<times> CPU_CONTEXT" where
  "decode_rol_count = shift_count"
definition rotate_count :: "CPU_CONTEXT \<Rightarrow> int \<Rightarrow> u8 \<Rightarrow> nat \<times> CPU_CONTEXT" where
  "rotate_count c operand_size raw_count =
     (let count = unat (raw_count AND shift_count_mask operand_size)
      in (if operand_size \<noteq> 0 then count mod nat operand_size else count, c))"

text \<open>The source asks for the sign mask in each round of the loop; that has an effect for no other size than the four.\<close>

fun rol_loop :: "nat \<Rightarrow> u64 \<Rightarrow> u64 \<Rightarrow> u64 \<Rightarrow> bool \<Rightarrow> u64 \<times> bool" where
  "rol_loop 0 omask smask r carry_out = (r, carry_out)"
| "rol_loop (Suc n) omask smask r carry_out =
     rol_loop n omask smask ((push_bit 1 r OR (if r AND smask \<noteq> 0 then 1 else 0)) AND omask) (r AND smask \<noteq> 0)"

definition update_flags_rol :: "CPU_CONTEXT \<Rightarrow> u64 \<Rightarrow> u64 \<Rightarrow> int \<Rightarrow> nat \<Rightarrow> bool \<Rightarrow> CPU_CONTEXT" where
  "update_flags_rol c original r operand_size count carry_out =
     (if count = 0 then c
      else let c1 = set_flag c RFLAGS_CF carry_out
           in if count = 1
              then case shift_sign_mask c1 operand_size of
                     (smask, c2) \<Rightarrow> set_flag c2 RFLAGS_OF ((r AND smask \<noteq> 0) \<noteq> carry_out)
              else c1)"

definition get_rcl_count :: "CPU_CONTEXT \<Rightarrow> int \<Rightarrow> u8 \<Rightarrow> nat \<times> CPU_CONTEXT" where
  "get_rcl_count c operand_size raw_count =
     (let count = unat (raw_count AND shift_count_mask operand_size)
      in if operand_size = 8 then (count mod 9, c) else if operand_size = 16 then (count mod 17, c)
         else if operand_size = 32 \<or> operand_size = 64 then (count, c) else (0, raise_ud_ctx c))"

definition rol_rm ::
  "callbacks \<Rightarrow> cpueaxh_engine \<Rightarrow> u8 \<Rightarrow> u64 \<Rightarrow> int \<Rightarrow> u8 \<Rightarrow> cpueaxh_engine" where
  "rol_rm = shift_frame two_masks rotate_count (pure_loop rol_loop) update_flags_rol"
definition decode_modrm_rol :: "bool \<Rightarrow> u8 list \<Rightarrow> dstate \<Rightarrow> dresult" where
  "decode_modrm_rol = decode_modrm_lockable"
definition decode_rol_instruction ::
  "CPU_CONTEXT \<Rightarrow> u8 list \<Rightarrow> DecodedInstruction \<times> CPU_CONTEXT" where
  "decode_rol_instruction = decode_with apply_rex_byte id (decode_shift_body 0)"
definition execute_rol_with_decoded ::
  "callbacks \<Rightarrow> cpueaxh_engine \<Rightarrow> DecodedInstruction \<Rightarrow> cpueaxh_engine" where
  "execute_rol_with_decoded = execute_shift_with_decoded rol_rm"
definition execute_rol ::
  "callbacks \<Rightarrow> cpueaxh_engine \<Rightarrow> u8 list \<Rightarrow> cpueaxh_engine" where
  "execute_rol = execute_decoding decode_rol_instruction execute_rol_with_decoded"
definition execute_rol_fast ::
  "callbacks \<Rightarrow> cpueaxh_engine \<Rightarrow> DecodedInst \<Rightarrow> cpueaxh_engine" where
  "execute_rol_fast = execute_cached execute_rol_with_decoded"

subsection \<open>ROR\<close>

definition decode_ror_rm_index :: "CPU_CONTEXT \<Rightarrow> u8 \<Rightarrow> nat" where
  "decode_ror_rm_index = rm_index"
definition read_ror_rm_operand ::
  "callbacks \<Rightarrow> u8 \<Rightarrow> u64 \<Rightarrow> int \<Rightarrow> cpueaxh_engine \<Rightarrow> u64 \<times> cpueaxh_engine" where
  [insn_defs]: "read_ror_rm_operand = read_rm_sized"
definition write_ror_rm_operand ::
  "callbacks \<Rightarrow> u8 \<Rightarrow> u64 \<Rightarrow> int \<Rightarrow> u64 \<Rightarrow> cpueaxh_engine \<Rightarrow> cpueaxh_engine" where
  [insn_defs]: "write_ror_rm_operand = write_rm_sized"
definition get_ror_operand_mask :: "CPU_CONTEXT \<Rightarrow> int \<Rightarrow> u64 \<times> CPU_CONTEXT" where
  "get_ror_operand_mask = shift_operand_mask"
definition get_ror_sign_mask :: "CPU_CONTEXT \<Rightarrow> int \<Rightarrow> u64 \<times> CPU_CONTEXT" where
  "get_ror_sign_mask = shift_sign_mask"
definition get_ror_count_mask :: "int \<Rightarrow> u8" where "get_ror_count_mask = shift_count_mask"
definition decode_ror_count ::
  "CPU_CONTEXT \<Rightarrow> DecodedInstruction \<Rightarrow> u8 \<times> CPU_CONTEXT" where
  "decode_ror_count = shift_count"
fun ror_loop :: "nat \<Rightarrow> u64 \<Rightarrow> u64 \<Rightarrow> u64 \<Rightarrow> bool \<Rightarrow> u64 \<times> bool" where
  "ror_loop 0 omask smask r carry_out = (r, carry_out)"
| "ror_loop (Suc n) omask smask r carry_out =
     ror_loop n omask smask ((drop_bit 1 r OR (if r AND 1 \<noteq> 0 then smask else 0)) AND omask) (r AND 1 \<noteq> 0)"

definition update_flags_ror :: "CPU_CONTEXT \<Rightarrow> u64 \<Rightarrow> u64 \<Rightarrow> int \<Rightarrow> nat \<Rightarrow> bool \<Rightarrow> CPU_CONTEXT" where
  "update_flags_ror c original r operand_size count carry_out =
     (if count = 0 then c
      else let c1 = set_flag c RFLAGS_CF carry_out
           in if count = 1
              then case shift_sign_mask c1 operand_size of
                     (smask, c2) \<Rightarrow> set_flag c2 RFLAGS_OF ((r AND smask \<noteq> 0) \<noteq> (r AND drop_bit 1 smask \<noteq> 0))
              else c1)"

definition ror_rm ::
  "callbacks \<Rightarrow> cpueaxh_engine \<Rightarrow> u8 \<Rightarrow> u64 \<Rightarrow> int \<Rightarrow> u8 \<Rightarrow> cpueaxh_engine" where
  "ror_rm = shift_frame two_masks rotate_count (pure_loop ror_loop) update_flags_ror"
definition decode_modrm_ror :: "bool \<Rightarrow> u8 list \<Rightarrow> dstate \<Rightarrow> dresult" where
  "decode_modrm_ror = decode_modrm_lockable"
definition decode_ror_instruction ::
  "CPU_CONTEXT \<Rightarrow> u8 list \<Rightarrow> DecodedInstruction \<times> CPU_CONTEXT" where
  "decode_ror_instruction = decode_with apply_rex_byte id (decode_shift_body 1)"
definition execute_ror_with_decoded ::
  "callbacks \<Rightarrow> cpueaxh_engine \<Rightarrow> DecodedInstruction \<Rightarrow> cpueaxh_engine" where
  "execute_ror_with_decoded = execute_shift_with_decoded ror_rm"
definition execute_ror ::
  "callbacks \<Rightarrow> cpueaxh_engine \<Rightarrow> u8 list \<Rightarrow> cpueaxh_engine" where
  "execute_ror = execute_decoding decode_ror_instruction execute_ror_with_decoded"
definition execute_ror_fast ::
  "callbacks \<Rightarrow> cpueaxh_engine \<Rightarrow> DecodedInst \<Rightarrow> cpueaxh_engine" where
  "execute_ror_fast = execute_cached execute_ror_with_decoded"

subsection \<open>RCL and RCR\<close>

text \<open>The rotations through the carry flag update it in each round of the loop.\<close>

fun rcl_loop :: "nat \<Rightarrow> u64 \<Rightarrow> u64 \<Rightarrow> u64 \<Rightarrow> bool \<Rightarrow> CPU_CONTEXT \<Rightarrow> u64 \<times> bool \<times> CPU_CONTEXT" where
  "rcl_loop 0 omask smask r carry_out c = (r, carry_out, c)"
| "rcl_loop (Suc n) omask smask r carry_out c =
     (let carry_in = (rflags c AND RFLAGS_CF \<noteq> 0); out = (r AND smask \<noteq> 0)
      in rcl_loop n omask smask ((push_bit 1 r OR (if carry_in then 1 else 0)) AND omask) out (set_flag c RFLAGS_CF out))"

definition update_flags_rcl :: "CPU_CONTEXT \<Rightarrow> u64 \<Rightarrow> u64 \<Rightarrow> int \<Rightarrow> nat \<Rightarrow> bool \<Rightarrow> CPU_CONTEXT" where
  "update_flags_rcl c original r operand_size count carry_out =
     (if count = 0 then c
      else let c1 = set_flag c RFLAGS_CF carry_out
           in if count = 1
              then case shift_sign_mask c1 operand_size of
                     (smask, c2) \<Rightarrow> set_flag c2 RFLAGS_OF ((r AND smask \<noteq> 0) \<noteq> carry_out)
              else c1)"

fun rcr_loop :: "nat \<Rightarrow> u64 \<Rightarrow> u64 \<Rightarrow> u64 \<Rightarrow> bool \<Rightarrow> CPU_CONTEXT \<Rightarrow> u64 \<times> bool \<times> CPU_CONTEXT" where
  "rcr_loop 0 omask smask r carry_out c = (r, carry_out, c)"
| "rcr_loop (Suc n) omask smask r carry_out c =
     (let carry_in = (rflags c AND RFLAGS_CF \<noteq> 0); out = (r AND 1 \<noteq> 0)
      in rcr_loop n omask smask ((drop_bit 1 r OR (if carry_in then smask else 0)) AND omask) out (set_flag c RFLAGS_CF out))"

definition update_flags_rcr :: "CPU_CONTEXT \<Rightarrow> u64 \<Rightarrow> u64 \<Rightarrow> int \<Rightarrow> nat \<Rightarrow> bool \<Rightarrow> CPU_CONTEXT" where
  "update_flags_rcr c original r operand_size count carry_out =
     (if count = 0 then c
      else let c1 = set_flag c RFLAGS_CF carry_out
           in if count = 1
              then case shift_sign_mask c1 operand_size of
                     (smask, c2) \<Rightarrow> set_flag c2 RFLAGS_OF ((r AND smask \<noteq> 0) \<noteq> (r AND drop_bit 1 smask \<noteq> 0))
              else c1)"

text \<open>They return before reading the operand when the size is not one of the four.\<close>

definition rcl_rm :: "callbacks \<Rightarrow> cpueaxh_engine \<Rightarrow> u8 \<Rightarrow> u64 \<Rightarrow> int \<Rightarrow> u8 \<Rightarrow> cpueaxh_engine" where
  "rcl_rm cb e modrm mem_addr operand_size raw_count =
     (case two_masks (cpu_ctx e) operand_size of
        (omask, smask, c1) \<Rightarrow>
          case get_rcl_count c1 operand_size raw_count of
            (count, c2) \<Rightarrow>
              if cpu_has_exception c2 then e\<lparr>cpu_ctx := c2\<rparr>
              else shift_frame two_masks get_rcl_count (\<lambda>n om sm v. rcl_loop n om sm v False) update_flags_rcl
                     cb e modrm mem_addr operand_size raw_count)"
definition decode_rcl_instruction ::
  "CPU_CONTEXT \<Rightarrow> u8 list \<Rightarrow> DecodedInstruction \<times> CPU_CONTEXT" where
  "decode_rcl_instruction = decode_with apply_rex_byte id (decode_shift_body 2)"
definition execute_rcl_with_decoded ::
  "callbacks \<Rightarrow> cpueaxh_engine \<Rightarrow> DecodedInstruction \<Rightarrow> cpueaxh_engine" where
  "execute_rcl_with_decoded = execute_shift_with_decoded rcl_rm"
definition execute_rcl ::
  "callbacks \<Rightarrow> cpueaxh_engine \<Rightarrow> u8 list \<Rightarrow> cpueaxh_engine" where
  "execute_rcl = execute_decoding decode_rcl_instruction execute_rcl_with_decoded"
definition execute_rcl_fast ::
  "callbacks \<Rightarrow> cpueaxh_engine \<Rightarrow> DecodedInst \<Rightarrow> cpueaxh_engine" where
  "execute_rcl_fast = execute_cached execute_rcl_with_decoded"
definition rcr_rm :: "callbacks \<Rightarrow> cpueaxh_engine \<Rightarrow> u8 \<Rightarrow> u64 \<Rightarrow> int \<Rightarrow> u8 \<Rightarrow> cpueaxh_engine" where
  "rcr_rm cb e modrm mem_addr operand_size raw_count =
     (case two_masks (cpu_ctx e) operand_size of
        (omask, smask, c1) \<Rightarrow>
          case get_rcl_count c1 operand_size raw_count of
            (count, c2) \<Rightarrow>
              if cpu_has_exception c2 then e\<lparr>cpu_ctx := c2\<rparr>
              else shift_frame two_masks get_rcl_count (\<lambda>n om sm v. rcr_loop n om sm v False) update_flags_rcr
                     cb e modrm mem_addr operand_size raw_count)"
definition decode_rcr_instruction ::
  "CPU_CONTEXT \<Rightarrow> u8 list \<Rightarrow> DecodedInstruction \<times> CPU_CONTEXT" where
  "decode_rcr_instruction = decode_with apply_rex_byte id (decode_shift_body 3)"
definition execute_rcr_with_decoded ::
  "callbacks \<Rightarrow> cpueaxh_engine \<Rightarrow> DecodedInstruction \<Rightarrow> cpueaxh_engine" where
  "execute_rcr_with_decoded = execute_shift_with_decoded rcr_rm"
definition execute_rcr ::
  "callbacks \<Rightarrow> cpueaxh_engine \<Rightarrow> u8 list \<Rightarrow> cpueaxh_engine" where
  "execute_rcr = execute_decoding decode_rcr_instruction execute_rcr_with_decoded"
definition execute_rcr_fast ::
  "callbacks \<Rightarrow> cpueaxh_engine \<Rightarrow> DecodedInst \<Rightarrow> cpueaxh_engine" where
  "execute_rcr_fast = execute_cached execute_rcr_with_decoded"

subsection \<open>SHLD and SHRD\<close>

definition decode_shld_reg_index :: "CPU_CONTEXT \<Rightarrow> u8 \<Rightarrow> nat" where
  "decode_shld_reg_index = reg_index"
definition read_shld_reg_operand ::
  "u8 \<Rightarrow> int \<Rightarrow> cpueaxh_engine \<Rightarrow> u64 \<times> cpueaxh_engine" where
  [insn_defs]: "read_shld_reg_operand = read_reg_wide"
definition decode_shld_count :: "CPU_CONTEXT \<Rightarrow> DecodedInstruction \<Rightarrow> u8 \<times> CPU_CONTEXT" where
  "decode_shld_count c inst =
     (if di_opcode inst = 0xA4 \<or> di_opcode inst = 0xAC then (ucast (di_immediate inst), c)
      else if di_opcode inst = 0xA5 \<or> di_opcode inst = 0xAD then (get_reg8 c REG_RCX, c)
      else (0, raise_ud_ctx c))"

definition update_flags_shld_shrd :: "CPU_CONTEXT \<Rightarrow> u64 \<Rightarrow> u64 \<Rightarrow> int \<Rightarrow> nat \<Rightarrow> bool \<Rightarrow> CPU_CONTEXT" where
  "update_flags_shld_shrd c old_value r operand_size count is_shrd =
     (if count = 0 then c
      else case shift_sign_mask c operand_size of
             (smask, c1) \<Rightarrow>
               let carry_bit = (if is_shrd then drop_bit (count - 1) old_value AND 1
                                else drop_bit (nat (operand_size - int count)) old_value AND 1);
                   c2 = set_flag c1 RFLAGS_CF (carry_bit \<noteq> 0);
                   c3 = (if count = 1
                         then set_flag c2 RFLAGS_OF ((old_value AND smask \<noteq> 0) \<noteq> (r AND smask \<noteq> 0)) else c2)
               in result_flags c3 r operand_size)"

text \<open>The count after the reduction to the operand size, which is not to zero.\<close>

definition double_shift_count :: "int \<Rightarrow> nat \<Rightarrow> nat" where
  "double_shift_count operand_size count =
     (if count > nat operand_size
      then if count mod nat operand_size = 0 then nat operand_size else count mod nat operand_size
      else count)"

definition double_shift :: "bool \<Rightarrow> int \<Rightarrow> nat \<Rightarrow> u64 \<Rightarrow> u64 \<Rightarrow> u64" where
  "double_shift is_shrd operand_size count old_value source =
     (if count = nat operand_size then source
      else if is_shrd then drop_bit count old_value OR push_bit (nat (operand_size - int count)) source
      else push_bit count old_value OR drop_bit (nat (operand_size - int count)) source)"

definition shld_shrd_rm ::
  "callbacks \<Rightarrow> cpueaxh_engine \<Rightarrow> u8 \<Rightarrow> u64 \<Rightarrow> int \<Rightarrow> u8 \<Rightarrow> bool \<Rightarrow> cpueaxh_engine" where
  "shld_shrd_rm cb e modrm mem_addr operand_size raw_count is_shrd =
     (case shift_operand_mask (cpu_ctx e) operand_size of
        (omask, c1) \<Rightarrow>
          let count = unat (raw_count AND shift_count_mask operand_size)
          in case read_rm_sized cb modrm mem_addr operand_size (e\<lparr>cpu_ctx := c1\<rparr>) of
               (v, e1) \<Rightarrow>
                 if cpu_has_exception (cpu_ctx e1) \<or> count = 0 then e1
                 else case read_reg_wide modrm operand_size e1 of
                        (s, e2) \<Rightarrow>
                          if cpu_has_exception (cpu_ctx e2) then e2
                          else let old_value = v AND omask; n = double_shift_count operand_size count;
                                   r = double_shift is_shrd operand_size n old_value (s AND omask) AND omask;
                                   e3 = write_rm_sized cb modrm mem_addr operand_size r e2
                               in if cpu_has_exception (cpu_ctx e3) then e3
                                  else on_ctx (\<lambda>c. update_flags_shld_shrd c old_value r operand_size n is_shrd) e3)"

text \<open>The opcode bytes: 0x0F and another one must be there, and another first byte is an early return.\<close>

definition next_opcode_0f :: "u8 list \<Rightarrow> dstate \<Rightarrow> dresult" where
  "next_opcode_0f code s =
     (case s of (inst, offset, ctx) \<Rightarrow>
        if length code \<le> offset + 1 then Inl (inst, raise_gp_ctx ctx 0)
        else if code ! offset \<noteq> 0x0F then Inl (inst, raise_ud_ctx ctx)
        else Inr (inst\<lparr>di_opcode := code ! (offset + 1)\<rparr>, offset + 2, ctx))"

definition decode_shld_shrd_body :: "bool \<Rightarrow> u8 list \<Rightarrow> dstate \<Rightarrow> dresult" where
  "decode_shld_shrd_body lock code =
     decode_seq
       [next_opcode_0f code, set_sizes default_operand_size default_address_size,
        by_opcode (\<lambda>opc. opc = 0xA4 \<or> opc = 0xA5 \<or> opc = 0xAC \<or> opc = 0xAD)
          (decode_seq
             [decode_modrm_lockable lock code, ud_if lock,
              by_opcode (\<lambda>opc. opc = 0xA4 \<or> opc = 0xAC) (decode_imm_after 1 code) Inr])
          (ud_if True)]"

definition decode_shld_shrd_instruction :: "CPU_CONTEXT \<Rightarrow> u8 list \<Rightarrow> DecodedInstruction \<times> CPU_CONTEXT" where
  "decode_shld_shrd_instruction = decode_with apply_rex_byte id decode_shld_shrd_body"

definition decode_shld_instruction ::
  "CPU_CONTEXT \<Rightarrow> u8 list \<Rightarrow> DecodedInstruction \<times> CPU_CONTEXT" where
  "decode_shld_instruction = decode_shld_shrd_instruction"
definition execute_shld_with_decoded :: "callbacks \<Rightarrow> cpueaxh_engine \<Rightarrow> DecodedInstruction \<Rightarrow> cpueaxh_engine" where
  "execute_shld_with_decoded cb e inst =
     (case decode_shld_count (cpu_ctx e) inst of
        (count, c) \<Rightarrow>
          shld_shrd_rm cb (e\<lparr>cpu_ctx := c\<rparr>) (di_modrm inst) (di_mem_address inst) (di_operand_size inst) count False)"
definition execute_shld ::
  "callbacks \<Rightarrow> cpueaxh_engine \<Rightarrow> u8 list \<Rightarrow> cpueaxh_engine" where
  "execute_shld = execute_decoding decode_shld_instruction execute_shld_with_decoded"
definition execute_shld_fast ::
  "callbacks \<Rightarrow> cpueaxh_engine \<Rightarrow> DecodedInst \<Rightarrow> cpueaxh_engine" where
  "execute_shld_fast = execute_cached_recompute execute_shld_with_decoded"
definition decode_shrd_instruction ::
  "CPU_CONTEXT \<Rightarrow> u8 list \<Rightarrow> DecodedInstruction \<times> CPU_CONTEXT" where
  "decode_shrd_instruction = decode_shld_shrd_instruction"
definition execute_shrd_with_decoded :: "callbacks \<Rightarrow> cpueaxh_engine \<Rightarrow> DecodedInstruction \<Rightarrow> cpueaxh_engine" where
  "execute_shrd_with_decoded cb e inst =
     (case decode_shld_count (cpu_ctx e) inst of
        (count, c) \<Rightarrow>
          shld_shrd_rm cb (e\<lparr>cpu_ctx := c\<rparr>) (di_modrm inst) (di_mem_address inst) (di_operand_size inst) count True)"
definition execute_shrd ::
  "callbacks \<Rightarrow> cpueaxh_engine \<Rightarrow> u8 list \<Rightarrow> cpueaxh_engine" where
  "execute_shrd = execute_decoding decode_shrd_instruction execute_shrd_with_decoded"
definition execute_shrd_fast ::
  "callbacks \<Rightarrow> cpueaxh_engine \<Rightarrow> DecodedInst \<Rightarrow> cpueaxh_engine" where
  "execute_shrd_fast = execute_cached_recompute execute_shrd_with_decoded"

subsection \<open>Replaying\<close>

lemma decode_step_imm_after [decode_steps]: "decode_step (decode_imm_after k code) False"
proof -
  have s: "static_update (\<lambda>i. i\<lparr>di_imm_size := int k, di_immediate := v\<rparr>)" for v :: u64 by simp
  show ?thesis
    by unfold_locales
       (auto simp: decode_imm_after_def static_update_addressed [OF s] static_update_modrm [OF s]
         static_update_same [OF s] split: if_splits)
qed

lemma decode_step_next_opcode_0f [decode_steps]: "decode_step (next_opcode_0f code) False"
proof -
  have s: "static_update (\<lambda>i. i\<lparr>di_opcode := v\<rparr>)" for v :: u8 by (simp add: static_update_def)
  show ?thesis
    by unfold_locales
       (auto simp: next_opcode_0f_def static_update_addressed [OF s] static_update_modrm [OF s]
         static_update_same [OF s] split: if_splits)
qed

lemma decode_shift_step: "decode_step (decode_shift_body g lock code) True"
  unfolding decode_shift_body_def
  by (rule decode_step_weaken, (rule default_sizes_head decode_steps static_updates | (simp; fail))+)

lemma decode_shld_shrd_step: "decode_step (decode_shld_shrd_body lock code) True"
  unfolding decode_shld_shrd_body_def
  by (rule decode_step_weaken, (rule default_sizes_head decode_steps static_updates | (simp; fail))+)

interpretation shl_decoder: prefix_decoder apply_rex_byte id "decode_shift_body 4" True decode_shl_instruction
  by (intro prefix_decoder.intro raw_prefixes.prefix_reader_axioms prefix_decoder_axioms.intro decode_shift_step)
     (simp add: decode_shl_instruction_def)
interpretation shr_decoder: prefix_decoder apply_rex_byte id "decode_shift_body 5" True decode_shr_instruction
  by (intro prefix_decoder.intro raw_prefixes.prefix_reader_axioms prefix_decoder_axioms.intro decode_shift_step)
     (simp add: decode_shr_instruction_def)
interpretation sar_decoder: prefix_decoder apply_rex_byte id "decode_shift_body 7" True decode_sar_instruction
  by (intro prefix_decoder.intro raw_prefixes.prefix_reader_axioms prefix_decoder_axioms.intro decode_shift_step)
     (simp add: decode_sar_instruction_def)
interpretation rol_decoder: prefix_decoder apply_rex_byte id "decode_shift_body 0" True decode_rol_instruction
  by (intro prefix_decoder.intro raw_prefixes.prefix_reader_axioms prefix_decoder_axioms.intro decode_shift_step)
     (simp add: decode_rol_instruction_def)
interpretation ror_decoder: prefix_decoder apply_rex_byte id "decode_shift_body 1" True decode_ror_instruction
  by (intro prefix_decoder.intro raw_prefixes.prefix_reader_axioms prefix_decoder_axioms.intro decode_shift_step)
     (simp add: decode_ror_instruction_def)
interpretation rcl_decoder: prefix_decoder apply_rex_byte id "decode_shift_body 2" True decode_rcl_instruction
  by (intro prefix_decoder.intro raw_prefixes.prefix_reader_axioms prefix_decoder_axioms.intro decode_shift_step)
     (simp add: decode_rcl_instruction_def)
interpretation rcr_decoder: prefix_decoder apply_rex_byte id "decode_shift_body 3" True decode_rcr_instruction
  by (intro prefix_decoder.intro raw_prefixes.prefix_reader_axioms prefix_decoder_axioms.intro decode_shift_step)
     (simp add: decode_rcr_instruction_def)
interpretation shld_decoder: prefix_decoder apply_rex_byte id decode_shld_shrd_body True decode_shld_instruction
  by (intro prefix_decoder.intro raw_prefixes.prefix_reader_axioms prefix_decoder_axioms.intro decode_shld_shrd_step)
     (simp add: decode_shld_instruction_def decode_shld_shrd_instruction_def)
interpretation shrd_decoder: prefix_decoder apply_rex_byte id decode_shld_shrd_body True decode_shrd_instruction
  by (intro prefix_decoder.intro raw_prefixes.prefix_reader_axioms prefix_decoder_axioms.intro decode_shld_shrd_step)
     (simp add: decode_shrd_instruction_def decode_shld_shrd_instruction_def)

end
