(* ===== verification/Condition.thy ===== *)
theory Condition
  imports Shift
begin

text \<open>
  Conditional jumps and loops (\<^verbatim>\<open>instructions/jcc.hpp\<close>), SETcc (\<^verbatim>\<open>setcc.hpp\<close>) and CMOVcc (\<^verbatim>\<open>cmovcc.hpp\<close>).
  \<^verbatim>\<open>execute_jcc\<close> decodes its bytes itself, without resetting the prefix bits of the context; the operand-size
  and address-size prefixes stay local to it.
\<close>

unbundle bit_operations_syntax

subsection \<open>Conditions\<close>

definition jcc_cf :: "CPU_CONTEXT \<Rightarrow> bool" where [insn_defs]: "jcc_cf c \<longleftrightarrow> rflags c AND RFLAGS_CF \<noteq> 0"
definition jcc_zf :: "CPU_CONTEXT \<Rightarrow> bool" where [insn_defs]: "jcc_zf c \<longleftrightarrow> rflags c AND RFLAGS_ZF \<noteq> 0"
definition jcc_sf :: "CPU_CONTEXT \<Rightarrow> bool" where [insn_defs]: "jcc_sf c \<longleftrightarrow> rflags c AND RFLAGS_SF \<noteq> 0"
definition jcc_of :: "CPU_CONTEXT \<Rightarrow> bool" where [insn_defs]: "jcc_of c \<longleftrightarrow> rflags c AND RFLAGS_OF \<noteq> 0"
definition jcc_pf :: "CPU_CONTEXT \<Rightarrow> bool" where [insn_defs]: "jcc_pf c \<longleftrightarrow> rflags c AND RFLAGS_PF \<noteq> 0"

definition eval_condition :: "CPU_CONTEXT \<Rightarrow> u8 \<Rightarrow> bool" where
  "eval_condition ctx cond =
     (let cf = jcc_cf ctx; zf = jcc_zf ctx; sf = jcc_sf ctx; ov = jcc_of ctx; pf = jcc_pf ctx; n = cond AND 0x0F
      in if n = 0x0 then ov else if n = 0x1 then \<not> ov else if n = 0x2 then cf else if n = 0x3 then \<not> cf
         else if n = 0x4 then zf else if n = 0x5 then \<not> zf else if n = 0x6 then cf \<or> zf
         else if n = 0x7 then \<not> cf \<and> \<not> zf else if n = 0x8 then sf else if n = 0x9 then \<not> sf
         else if n = 0xA then pf else if n = 0xB then \<not> pf else if n = 0xC then sf \<noteq> ov
         else if n = 0xD then sf = ov else if n = 0xE then zf \<or> sf \<noteq> ov else \<not> zf \<and> sf = ov)"

subsection \<open>Jumps\<close>

definition jcc_branch :: "CPU_CONTEXT \<Rightarrow> u64 \<Rightarrow> u64 \<Rightarrow> int \<Rightarrow> CPU_CONTEXT" where
  "jcc_branch ctx base_rip disp operand_size = snd (cpu_assign_rip_checked ctx (base_rip + disp) operand_size)"

definition execute_jcc_short :: "CPU_CONTEXT \<Rightarrow> u8 \<Rightarrow> u8 \<Rightarrow> u64 \<Rightarrow> int \<Rightarrow> CPU_CONTEXT" where
  "execute_jcc_short ctx cond rel8 next_rip operand_size =
     (if eval_condition ctx cond then jcc_branch ctx next_rip (scast rel8) operand_size
      else snd (cpu_assign_rip_checked ctx next_rip operand_size))"

definition execute_jcc_near :: "CPU_CONTEXT \<Rightarrow> u8 \<Rightarrow> u32 \<Rightarrow> u64 \<Rightarrow> int \<Rightarrow> CPU_CONTEXT" where
  "execute_jcc_near ctx cond rel next_rip operand_size =
     (if eval_condition ctx cond then jcc_branch ctx next_rip (scast rel) operand_size
      else snd (cpu_assign_rip_checked ctx next_rip operand_size))"

definition execute_jcxz :: "CPU_CONTEXT \<Rightarrow> u8 \<Rightarrow> u64 \<Rightarrow> int \<Rightarrow> int \<Rightarrow> CPU_CONTEXT" where
  "execute_jcxz ctx rel8 next_rip addr_size operand_size =
     (let is_zero = (if addr_size = 64 then regs ctx REG_RCX = 0
                     else if addr_size = 32 then regs ctx REG_RCX AND 0xFFFFFFFF = 0
                     else regs ctx REG_RCX AND 0xFFFF = 0)
      in if is_zero then jcc_branch ctx next_rip (scast rel8) operand_size
         else snd (cpu_assign_rip_checked ctx next_rip operand_size))"

definition decrement_loop_count :: "CPU_CONTEXT \<Rightarrow> int \<Rightarrow> u64 \<times> CPU_CONTEXT" where
  "decrement_loop_count ctx addr_size =
     (let rcx = regs ctx REG_RCX; upd = (\<lambda>v. ctx\<lparr>regs := (regs ctx)(REG_RCX := v)\<rparr>)
      in if addr_size = 64 then (rcx - 1, upd (rcx - 1))
         else if addr_size = 32
         then let ecx = (ucast rcx :: u32) - 1 in (ucast ecx, upd ((rcx AND NOT 0xFFFFFFFF) OR ucast ecx))
         else let cx = (ucast rcx :: u16) - 1 in (ucast cx, upd ((rcx AND NOT 0xFFFF) OR ucast cx)))"

definition execute_loopcc :: "CPU_CONTEXT \<Rightarrow> u8 \<Rightarrow> u8 \<Rightarrow> u64 \<Rightarrow> int \<Rightarrow> int \<Rightarrow> CPU_CONTEXT" where
  "execute_loopcc ctx opc rel8 next_rip addr_size operand_size =
     (case decrement_loop_count ctx addr_size of
        (count, c) \<Rightarrow>
          let branch = (count \<noteq> 0 \<and> (if opc = 0xE0 then \<not> jcc_zf c else if opc = 0xE1 then jcc_zf c else True))
          in if branch then jcc_branch c next_rip (scast rel8) operand_size
             else snd (cpu_assign_rip_checked c next_rip operand_size))"

text \<open>The prefixes: \<open>rex_w\<close>, the two size overrides and the number of bytes are local.\<close>

record jcc_prefixes =
  jp_rex_w :: bool
  jp_operand_size_override :: bool
  jp_address_size_override :: bool
  jp_offset :: nat

fun jcc_prefix_loop :: "u8 list \<Rightarrow> jcc_prefixes \<Rightarrow> CPU_CONTEXT \<Rightarrow> jcc_prefixes \<times> CPU_CONTEXT" where
  "jcc_prefix_loop [] p ctx = (p, ctx)"
| "jcc_prefix_loop (prefix # rest) p ctx =
     (let p1 = p\<lparr>jp_offset := jp_offset p + 1\<rparr>
      in if prefix = 0x66 then jcc_prefix_loop rest (p1\<lparr>jp_operand_size_override := True\<rparr>) ctx
         else if prefix = 0x67 then jcc_prefix_loop rest (p1\<lparr>jp_address_size_override := True\<rparr>) ctx
         else if 0x40 \<le> prefix \<and> prefix \<le> 0x4F
         then jcc_prefix_loop rest (p1\<lparr>jp_rex_w := (drop_bit 3 prefix AND 1 \<noteq> 0)\<rparr>)
                (ctx\<lparr>rex_present := True, rex_w := (drop_bit 3 prefix AND 1 \<noteq> 0),
                     rex_r := (drop_bit 2 prefix AND 1 \<noteq> 0), rex_x := (drop_bit 1 prefix AND 1 \<noteq> 0),
                     rex_b := (prefix AND 1 \<noteq> 0)\<rparr>)
         else if prefix = 0xF0 then jcc_prefix_loop rest p1 (raise_ud_ctx ctx)
         else if prefix \<in> {0x26, 0x2E, 0x36, 0x3E, 0x64, 0x65, 0xF2, 0xF3} then jcc_prefix_loop rest p1 ctx
         else (p, ctx))"

definition jcc_operand_size :: "CPU_CONTEXT \<Rightarrow> jcc_prefixes \<Rightarrow> int" where
  "jcc_operand_size ctx p =
     (if sd_long_mode (sr_descriptor (cs ctx)) then 64
      else if jp_rex_w p then 64 else if jp_operand_size_override p then 16 else 32)"

definition jcc_address_size :: "CPU_CONTEXT \<Rightarrow> jcc_prefixes \<Rightarrow> int" where
  "jcc_address_size ctx p =
     (if sd_long_mode (sr_descriptor (cs ctx)) then (if jp_address_size_override p then 32 else 64)
      else if jp_address_size_override p then 16 else 32)"

text \<open>The near form: its displacement has 4 bytes, or 2 with an operand-size prefix outside long mode.\<close>

definition execute_jcc_0f :: "CPU_CONTEXT \<Rightarrow> u8 list \<Rightarrow> jcc_prefixes \<Rightarrow> nat \<Rightarrow> CPU_CONTEXT" where
  "execute_jcc_0f ctx code p offset =
     (if length code \<le> offset then raise_gp_ctx ctx 0
      else let opcode2 = code ! offset;
               c1 = (if opcode2 < 0x80 \<or> opcode2 > 0x8F then raise_ud_ctx ctx else ctx);
               long = sd_long_mode (sr_descriptor (cs ctx));
               c2 = (if long \<and> jp_operand_size_override p then raise_ud_ctx c1 else c1);
               imm_size = (if long then 4 else if jp_operand_size_override p then 2 else 4);
               bytes = take imm_size (drop (offset + 1) code);
               rel = (if imm_size = 2 then scast (ucast (le_load bytes) :: u16) else ucast (le_load bytes)) :: u32;
               size = offset + 1 + imm_size
           in if length code < size then raise_gp_ctx c2 0
              else execute_jcc_near (c2\<lparr>last_inst_size := int size\<rparr>) (opcode2 AND 0x0F) rel
                     (rip ctx + of_nat size) (jcc_operand_size ctx p))"

definition execute_jcc :: "CPU_CONTEXT \<Rightarrow> u8 list \<Rightarrow> CPU_CONTEXT" where
  "execute_jcc ctx code =
     (case jcc_prefix_loop code \<lparr>jp_rex_w = False, jp_operand_size_override = False,
                                jp_address_size_override = False, jp_offset = 0\<rparr> ctx of
        (p, c) \<Rightarrow>
          let n = jp_offset p; operand_size = jcc_operand_size c p; opc = code ! n;
              short = (\<lambda>k. if length code \<le> n + 1 then raise_gp_ctx c 0
                          else k (c\<lparr>last_inst_size := int (n + 2)\<rparr>) (code ! (n + 1)) (rip c + of_nat (n + 2)))
          in if length code \<le> n then raise_gp_ctx c 0
             else if cpu_has_exception c then c
             else if 0xE0 \<le> opc \<and> opc \<le> 0xE3
             then short (\<lambda>c1 rel8 next_rip.
                    if opc = 0xE3 then execute_jcxz c1 rel8 next_rip (jcc_address_size c p) operand_size
                    else execute_loopcc c1 opc rel8 next_rip (jcc_address_size c p) operand_size)
             else if 0x70 \<le> opc \<and> opc \<le> 0x7F
             then short (\<lambda>c1 rel8 next_rip. execute_jcc_short c1 (opc AND 0x0F) rel8 next_rip operand_size)
             else if opc = 0x0F then execute_jcc_0f c code p (n + 1)
             else raise_ud_ctx c)"

subsection \<open>SETcc\<close>

definition decode_setcc_rm_index :: "CPU_CONTEXT \<Rightarrow> u8 \<Rightarrow> nat" where
  "decode_setcc_rm_index = rm_index"
definition write_setcc_rm_operand :: "callbacks \<Rightarrow> u8 \<Rightarrow> u64 \<Rightarrow> u8 \<Rightarrow> cpueaxh_engine \<Rightarrow> cpueaxh_engine" where
  [insn_defs]: "write_setcc_rm_operand cb modrm mem_addr v e = write_rm8 cb modrm (rm_index (cpu_ctx e) modrm) mem_addr v e"

definition decode_modrm_setcc :: "bool \<Rightarrow> u8 list \<Rightarrow> dstate \<Rightarrow> dresult" where
  "decode_modrm_setcc = decode_modrm_unlocked"

text \<open>
  The opcode bytes of the instructions with two: another first byte, or a second one that does not
  satisfy \<open>P\<close>, raises #UD and decoding goes on.
\<close>

definition second_opcode :: "(u8 \<Rightarrow> bool) \<Rightarrow> u8 list \<Rightarrow> dstate \<Rightarrow> dresult" where
  "second_opcode P code =
     decode_seq [next_opcode code, by_opcode (\<lambda>opc. opc = 0x0F) Inr (ud_if True),
                 next_opcode code, by_opcode P Inr (ud_if True)]"

definition decode_setcc_body :: "bool \<Rightarrow> u8 list \<Rightarrow> dstate \<Rightarrow> dresult" where
  "decode_setcc_body lock code =
     decode_seq
       [second_opcode (\<lambda>opc. 0x90 \<le> opc \<and> opc \<le> 0x9F) code, set_sizes (\<lambda>_. 8) default_address_size,
        decode_modrm_setcc lock code, note_inst_size]"

definition decode_setcc_instruction ::
  "CPU_CONTEXT \<Rightarrow> u8 list \<Rightarrow> DecodedInstruction \<times> CPU_CONTEXT" where
  "decode_setcc_instruction = decode_with apply_rex_byte id decode_setcc_body"
definition execute_setcc_with_decoded :: "callbacks \<Rightarrow> cpueaxh_engine \<Rightarrow> DecodedInstruction \<Rightarrow> cpueaxh_engine" where
  "execute_setcc_with_decoded cb e inst =
     write_setcc_rm_operand cb (di_modrm inst) (di_mem_address inst)
       (if eval_condition (cpu_ctx e) (di_opcode inst AND 0x0F) then 1 else 0) e"
definition execute_setcc ::
  "callbacks \<Rightarrow> cpueaxh_engine \<Rightarrow> u8 list \<Rightarrow> cpueaxh_engine" where
  "execute_setcc = execute_decoding decode_setcc_instruction execute_setcc_with_decoded"
definition execute_setcc_fast ::
  "callbacks \<Rightarrow> cpueaxh_engine \<Rightarrow> DecodedInst \<Rightarrow> cpueaxh_engine" where
  "execute_setcc_fast = execute_cached execute_setcc_with_decoded"

subsection \<open>CMOVcc\<close>

definition decode_cmovcc_rm_index :: "CPU_CONTEXT \<Rightarrow> u8 \<Rightarrow> nat" where
  "decode_cmovcc_rm_index = rm_index"
definition decode_cmovcc_reg_index :: "CPU_CONTEXT \<Rightarrow> u8 \<Rightarrow> nat" where
  "decode_cmovcc_reg_index = reg_index"
definition read_cmovcc_rm_operand :: "callbacks \<Rightarrow> u8 \<Rightarrow> u64 \<Rightarrow> int \<Rightarrow> cpueaxh_engine \<Rightarrow> u64 \<times> cpueaxh_engine" where
  [insn_defs]: "read_cmovcc_rm_operand cb modrm mem_addr operand_size e =
     (if operand_size \<in> {16, 32, 64} then read_rm_sized cb modrm mem_addr operand_size e
      else (0, on_ctx raise_ud_ctx e))"
definition write_cmovcc_reg_operand ::
  "u8 \<Rightarrow> int \<Rightarrow> u64 \<Rightarrow> CPU_CONTEXT \<Rightarrow> CPU_CONTEXT" where
  [insn_defs]: "write_cmovcc_reg_operand = write_reg_wide"
definition decode_modrm_cmovcc :: "bool \<Rightarrow> u8 list \<Rightarrow> dstate \<Rightarrow> dresult" where
  "decode_modrm_cmovcc = decode_modrm_unlocked"

definition decode_cmovcc_body :: "bool \<Rightarrow> u8 list \<Rightarrow> dstate \<Rightarrow> dresult" where
  "decode_cmovcc_body lock code =
     decode_seq
       [second_opcode (\<lambda>opc. 0x40 \<le> opc \<and> opc \<le> 0x4F) code, set_sizes default_operand_size default_address_size,
        decode_modrm_cmovcc lock code, note_inst_size]"

definition decode_cmovcc_instruction ::
  "CPU_CONTEXT \<Rightarrow> u8 list \<Rightarrow> DecodedInstruction \<times> CPU_CONTEXT" where
  "decode_cmovcc_instruction = decode_with apply_rex_byte id decode_cmovcc_body"
definition execute_cmovcc_with_decoded :: "callbacks \<Rightarrow> cpueaxh_engine \<Rightarrow> DecodedInstruction \<Rightarrow> cpueaxh_engine" where
  "execute_cmovcc_with_decoded cb e inst =
     (case read_cmovcc_rm_operand cb (di_modrm inst) (di_mem_address inst) (di_operand_size inst) e of
        (source, e1) \<Rightarrow>
          if cpu_has_exception (cpu_ctx e1) then e1
          else if eval_condition (cpu_ctx e1) (di_opcode inst AND 0x0F)
          then on_ctx (write_cmovcc_reg_operand (di_modrm inst) (di_operand_size inst) source) e1
          else e1)"
definition execute_cmovcc ::
  "callbacks \<Rightarrow> cpueaxh_engine \<Rightarrow> u8 list \<Rightarrow> cpueaxh_engine" where
  "execute_cmovcc = execute_decoding decode_cmovcc_instruction execute_cmovcc_with_decoded"
definition execute_cmovcc_fast ::
  "callbacks \<Rightarrow> cpueaxh_engine \<Rightarrow> DecodedInst \<Rightarrow> cpueaxh_engine" where
  "execute_cmovcc_fast = execute_cached_recompute execute_cmovcc_with_decoded"

subsection \<open>Replaying\<close>

lemma decode_step_second_opcode [decode_steps]: "decode_step (second_opcode P code) False"
proof -
  have "decode_step (second_opcode P code) (False \<or> (False \<or> False) \<or> False \<or> (False \<or> False) \<or> False)"
    unfolding second_opcode_def by (rule decode_steps | (simp; fail))+
  then show ?thesis by simp
qed

lemmas setcc_sizes_head =
  decode_head_set_sizes [of "\<lambda>_. 8" default_address_size, OF refl agrees_modes(4)]

lemma decode_setcc_step: "decode_step (decode_setcc_body lock code) True"
  unfolding decode_setcc_body_def decode_modrm_setcc_def
  by (rule decode_step_weaken, (rule setcc_sizes_head decode_steps static_updates | (simp; fail))+)

lemma decode_cmovcc_step: "decode_step (decode_cmovcc_body lock code) True"
  unfolding decode_cmovcc_body_def decode_modrm_cmovcc_def
  by (rule decode_step_weaken, (rule default_sizes_head decode_steps static_updates | (simp; fail))+)

interpretation setcc_decoder: prefix_decoder apply_rex_byte id decode_setcc_body True decode_setcc_instruction
  by (intro prefix_decoder.intro raw_prefixes.prefix_reader_axioms prefix_decoder_axioms.intro decode_setcc_step)
     (simp add: decode_setcc_instruction_def)
interpretation cmovcc_decoder: prefix_decoder apply_rex_byte id decode_cmovcc_body True decode_cmovcc_instruction
  by (intro prefix_decoder.intro raw_prefixes.prefix_reader_axioms prefix_decoder_axioms.intro decode_cmovcc_step)
     (simp add: decode_cmovcc_instruction_def)

end
