(* ===== verification/Move.thy ===== *)
theory Move
  imports Condition
begin

text \<open>
  Data movement: MOV (\<^verbatim>\<open>instructions/mov.hpp\<close>), MOVSX, MOVZX, MOVSXD (\<^verbatim>\<open>movsx.hpp\<close>, \<^verbatim>\<open>movzx.hpp\<close>, \<^verbatim>\<open>movsxd.hpp\<close>)
  and LEA (\<^verbatim>\<open>lea.hpp\<close>). The register numbers of MOV are taken before its operand is read.
\<close>

unbundle bit_operations_syntax

subsection \<open>Control registers\<close>

text \<open>The two register numbers, or #UD or #GP; the general register is below 16.\<close>

definition mov_decode_control_register_operands :: "CPU_CONTEXT \<Rightarrow> u8 \<Rightarrow> (u8 \<times> nat) option \<times> CPU_CONTEXT" where
  "mov_decode_control_register_operands ctx modrm =
     (let control_register = (drop_bit 3 modrm AND 0x07) OR (if rex_r ctx then 0x08 else 0);
          general_register = (modrm AND 0x07) OR (if rex_b ctx then 0x08 else 0)
      in if rex_r ctx \<and> unat control_register \<noteq> REG_CR8 then (None, raise_ud_ctx ctx)
         else if \<not> is_valid_control_register control_register then (None, raise_ud_ctx ctx)
         else if unat control_register = REG_CR8 \<and> \<not> cpu_is_64bit_code ctx then (None, raise_ud_ctx ctx)
         else if cpl ctx \<noteq> 0 then (None, raise_gp_ctx ctx 0)
         else (Some (control_register, unat general_register), ctx))"

definition mov_validate_control_register_write :: "CPU_CONTEXT \<Rightarrow> u8 \<Rightarrow> u64 \<Rightarrow> bool \<times> CPU_CONTEXT" where
  "mov_validate_control_register_write ctx control_register v =
     (let cr = unat control_register; set = (\<lambda>n. v AND push_bit n 1 \<noteq> 0)
      in if cr = REG_CR0 \<and> (cpu_long_mode_active ctx \<and> \<not> set 31 \<or> \<not> set 0 \<and> set 31 \<or> set 29 \<and> \<not> set 30)
         then (False, raise_gp_ctx ctx 0)
         else if cr = REG_CR4 \<and> cpu_long_mode_active ctx \<and> \<not> set 5 then (False, raise_gp_ctx ctx 0)
         else if cr = REG_CR8 \<and> v AND NOT 0xF \<noteq> 0 then (False, raise_gp_ctx ctx 0)
         else (True, ctx))"

definition mov_r64_cr :: "CPU_CONTEXT \<Rightarrow> u8 \<Rightarrow> CPU_CONTEXT" where
  "mov_r64_cr ctx modrm =
     (case mov_decode_control_register_operands ctx modrm of
        (None, c) \<Rightarrow> c
      | (Some (cr, r), c) \<Rightarrow> case get_control_register c cr of (v, c1) \<Rightarrow> set_reg64 c1 r v)"

definition mov_cr_r64 :: "CPU_CONTEXT \<Rightarrow> u8 \<Rightarrow> CPU_CONTEXT" where
  "mov_cr_r64 ctx modrm =
     (case mov_decode_control_register_operands ctx modrm of
        (None, c) \<Rightarrow> c
      | (Some (cr, r), c) \<Rightarrow>
          let v = get_reg64 c r
          in case mov_validate_control_register_write c cr v of
               (False, c1) \<Rightarrow> c1
             | (True, c1) \<Rightarrow> set_control_register c1 cr v)"

subsection \<open>Registers and memory\<close>

definition mov_r8_rm8 ::
  "callbacks \<Rightarrow> cpueaxh_engine \<Rightarrow> u8 \<Rightarrow> u64 \<Rightarrow> cpueaxh_engine" where
  [insn_defs]: "mov_r8_rm8 cb e modrm mem_addr =
     (let r = reg_index (cpu_ctx e) modrm
      in case read_rm8 cb modrm (rm_index (cpu_ctx e) modrm) mem_addr e of
           (v, e1) \<Rightarrow> on_ctx (\<lambda>c. set_reg8 c r v) e1)"
definition mov_rm8_r8 ::
  "callbacks \<Rightarrow> cpueaxh_engine \<Rightarrow> u8 \<Rightarrow> u64 \<Rightarrow> cpueaxh_engine" where
  [insn_defs]: "mov_rm8_r8 cb e modrm mem_addr =
     (let c = cpu_ctx e in write_rm8 cb modrm (rm_index c modrm) mem_addr (get_reg8 c (reg_index c modrm)) e)"
definition mov_r16_rm16 ::
  "callbacks \<Rightarrow> cpueaxh_engine \<Rightarrow> u8 \<Rightarrow> u64 \<Rightarrow> cpueaxh_engine" where
  [insn_defs]: "mov_r16_rm16 cb e modrm mem_addr =
     (let r = reg_index (cpu_ctx e) modrm
      in case read_rm16 cb modrm (rm_index (cpu_ctx e) modrm) mem_addr e of
           (v, e1) \<Rightarrow> on_ctx (\<lambda>c. set_reg16 c r v) e1)"
definition mov_rm16_r16 ::
  "callbacks \<Rightarrow> cpueaxh_engine \<Rightarrow> u8 \<Rightarrow> u64 \<Rightarrow> cpueaxh_engine" where
  [insn_defs]: "mov_rm16_r16 cb e modrm mem_addr =
     (let c = cpu_ctx e in write_rm16 cb modrm (rm_index c modrm) mem_addr (get_reg16 c (reg_index c modrm)) e)"
definition mov_r32_rm32 ::
  "callbacks \<Rightarrow> cpueaxh_engine \<Rightarrow> u8 \<Rightarrow> u64 \<Rightarrow> cpueaxh_engine" where
  [insn_defs]: "mov_r32_rm32 cb e modrm mem_addr =
     (let r = reg_index (cpu_ctx e) modrm
      in case read_rm32 cb modrm (rm_index (cpu_ctx e) modrm) mem_addr e of
           (v, e1) \<Rightarrow> on_ctx (\<lambda>c. set_reg32 c r v) e1)"
definition mov_rm32_r32 ::
  "callbacks \<Rightarrow> cpueaxh_engine \<Rightarrow> u8 \<Rightarrow> u64 \<Rightarrow> cpueaxh_engine" where
  [insn_defs]: "mov_rm32_r32 cb e modrm mem_addr =
     (let c = cpu_ctx e in write_rm32 cb modrm (rm_index c modrm) mem_addr (get_reg32 c (reg_index c modrm)) e)"
definition mov_r64_rm64 ::
  "callbacks \<Rightarrow> cpueaxh_engine \<Rightarrow> u8 \<Rightarrow> u64 \<Rightarrow> cpueaxh_engine" where
  [insn_defs]: "mov_r64_rm64 cb e modrm mem_addr =
     (let r = reg_index (cpu_ctx e) modrm
      in case read_rm64 cb modrm (rm_index (cpu_ctx e) modrm) mem_addr e of
           (v, e1) \<Rightarrow> on_ctx (\<lambda>c. set_reg64 c r v) e1)"
definition mov_rm64_r64 ::
  "callbacks \<Rightarrow> cpueaxh_engine \<Rightarrow> u8 \<Rightarrow> u64 \<Rightarrow> cpueaxh_engine" where
  [insn_defs]: "mov_rm64_r64 cb e modrm mem_addr =
     (let c = cpu_ctx e in write_rm64 cb modrm (rm_index c modrm) mem_addr (get_reg64 c (reg_index c modrm)) e)"

text \<open>
  Segment registers. The number of the segment has no REX bit; 6 and 7 name none, raise #GP and store
  the selector of a dummy, which is zero.
\<close>

definition mov_rm16_sreg ::
  "callbacks \<Rightarrow> cpueaxh_engine \<Rightarrow> u8 \<Rightarrow> u64 \<Rightarrow> cpueaxh_engine" where
  [insn_defs]: "mov_rm16_sreg cb e modrm mem_addr =
     (let rm = rm_index (cpu_ctx e) modrm
      in case get_segment_register (cpu_ctx e) (uint (modrm_reg modrm)) of
           (sreg, c) \<Rightarrow>
             let v = sr_selector sreg; e1 = e\<lparr>cpu_ctx := c\<rparr>
             in if modrm_mod modrm = 3 then on_ctx (\<lambda>c. set_reg16 c rm (v)) e1
                else write_memory_word cb e1 mem_addr v)"
definition mov_r32_sreg ::
  "callbacks \<Rightarrow> cpueaxh_engine \<Rightarrow> u8 \<Rightarrow> u64 \<Rightarrow> cpueaxh_engine" where
  [insn_defs]: "mov_r32_sreg cb e modrm mem_addr =
     (let rm = rm_index (cpu_ctx e) modrm
      in case get_segment_register (cpu_ctx e) (uint (modrm_reg modrm)) of
           (sreg, c) \<Rightarrow>
             let v = sr_selector sreg; e1 = e\<lparr>cpu_ctx := c\<rparr>
             in if modrm_mod modrm = 3 then on_ctx (\<lambda>c. set_reg32 c rm (ucast v)) e1
                else write_memory_word cb e1 mem_addr v)"
definition mov_r64_sreg ::
  "callbacks \<Rightarrow> cpueaxh_engine \<Rightarrow> u8 \<Rightarrow> u64 \<Rightarrow> cpueaxh_engine" where
  [insn_defs]: "mov_r64_sreg cb e modrm mem_addr =
     (let rm = rm_index (cpu_ctx e) modrm
      in case get_segment_register (cpu_ctx e) (uint (modrm_reg modrm)) of
           (sreg, c) \<Rightarrow>
             let v = sr_selector sreg; e1 = e\<lparr>cpu_ctx := c\<rparr>
             in if modrm_mod modrm = 3 then on_ctx (\<lambda>c. set_reg64 c rm (ucast v)) e1
                else write_memory_word cb e1 mem_addr v)"
definition mov_sreg_rm16 ::
  "callbacks \<Rightarrow> cpueaxh_engine \<Rightarrow> u8 \<Rightarrow> u64 \<Rightarrow> cpueaxh_engine" where
  [insn_defs]: "mov_sreg_rm16 cb e modrm mem_addr =
     (let c = cpu_ctx e; rm = rm_index c modrm; r = uint (modrm_reg modrm);
          e1 = (if r = SEG_CS then on_ctx raise_ud_ctx e else e)
      in if modrm_mod modrm = 3 then load_segment_register cb e1 r (get_reg16 c rm)
         else case read_memory_word cb e1 mem_addr of (selector, e2) \<Rightarrow> load_segment_register cb e2 r selector)"
definition mov_sreg_rm64 ::
  "callbacks \<Rightarrow> cpueaxh_engine \<Rightarrow> u8 \<Rightarrow> u64 \<Rightarrow> cpueaxh_engine" where
  [insn_defs]: "mov_sreg_rm64 cb e modrm mem_addr =
     (let c = cpu_ctx e; rm = rm_index c modrm; r = uint (modrm_reg modrm);
          e1 = (if r = SEG_CS then on_ctx raise_ud_ctx e else e)
      in if modrm_mod modrm = 3 then load_segment_register cb e1 r (ucast (get_reg64 c rm AND 0xFFFF))
         else case read_memory_word cb e1 mem_addr of (selector, e2) \<Rightarrow> load_segment_register cb e2 r selector)"

subsection \<open>Absolute offsets and immediates\<close>

definition set_rax :: "u64 \<Rightarrow> CPU_CONTEXT \<Rightarrow> CPU_CONTEXT" where
  "set_rax v c = c\<lparr>regs := (regs c)(REG_RAX := v)\<rparr>"

definition mov_al_moffs8 ::
  "callbacks \<Rightarrow> cpueaxh_engine \<Rightarrow> u64 \<Rightarrow> cpueaxh_engine" where
  [insn_defs]: "mov_al_moffs8 cb e moffs =
     (case read_memory_byte cb e moffs of (v, e1) \<Rightarrow> on_ctx (\<lambda>c. set_rax ((regs c REG_RAX AND NOT 0xFF) OR ucast v) c) e1)"
definition mov_ax_moffs16 ::
  "callbacks \<Rightarrow> cpueaxh_engine \<Rightarrow> u64 \<Rightarrow> cpueaxh_engine" where
  [insn_defs]: "mov_ax_moffs16 cb e moffs =
     (case read_memory_word cb e moffs of (v, e1) \<Rightarrow> on_ctx (\<lambda>c. set_rax ((regs c REG_RAX AND NOT 0xFFFF) OR ucast v) c) e1)"
definition mov_eax_moffs32 ::
  "callbacks \<Rightarrow> cpueaxh_engine \<Rightarrow> u64 \<Rightarrow> cpueaxh_engine" where
  [insn_defs]: "mov_eax_moffs32 cb e moffs =
     (case read_memory_dword cb e moffs of (v, e1) \<Rightarrow> on_ctx (\<lambda>c. set_rax (ucast v) c) e1)"
definition mov_rax_moffs64 ::
  "callbacks \<Rightarrow> cpueaxh_engine \<Rightarrow> u64 \<Rightarrow> cpueaxh_engine" where
  [insn_defs]: "mov_rax_moffs64 cb e moffs =
     (case read_memory_qword cb e moffs of (v, e1) \<Rightarrow> on_ctx (\<lambda>c. set_rax (v) c) e1)"
definition mov_moffs8_al ::
  "callbacks \<Rightarrow> cpueaxh_engine \<Rightarrow> u64 \<Rightarrow> cpueaxh_engine" where
  [insn_defs]: "mov_moffs8_al cb e moffs = write_memory_byte cb e moffs (ucast (regs (cpu_ctx e) REG_RAX AND 0xFF))"
definition mov_moffs16_ax ::
  "callbacks \<Rightarrow> cpueaxh_engine \<Rightarrow> u64 \<Rightarrow> cpueaxh_engine" where
  [insn_defs]: "mov_moffs16_ax cb e moffs = write_memory_word cb e moffs (ucast (regs (cpu_ctx e) REG_RAX AND 0xFFFF))"
definition mov_moffs32_eax ::
  "callbacks \<Rightarrow> cpueaxh_engine \<Rightarrow> u64 \<Rightarrow> cpueaxh_engine" where
  [insn_defs]: "mov_moffs32_eax cb e moffs = write_memory_dword cb e moffs (ucast (regs (cpu_ctx e) REG_RAX AND 0xFFFFFFFF))"
definition mov_moffs64_rax ::
  "callbacks \<Rightarrow> cpueaxh_engine \<Rightarrow> u64 \<Rightarrow> cpueaxh_engine" where
  [insn_defs]: "mov_moffs64_rax cb e moffs = write_memory_qword cb e moffs (regs (cpu_ctx e) REG_RAX)"
definition mov_r8_imm8 :: "CPU_CONTEXT \<Rightarrow> nat \<Rightarrow> u8 \<Rightarrow> CPU_CONTEXT" where
  [insn_defs]: "mov_r8_imm8 c r imm = set_reg8 c r imm"
definition mov_r16_imm16 :: "CPU_CONTEXT \<Rightarrow> nat \<Rightarrow> u16 \<Rightarrow> CPU_CONTEXT" where
  [insn_defs]: "mov_r16_imm16 c r imm = set_reg16 c r imm"
definition mov_r32_imm32 :: "CPU_CONTEXT \<Rightarrow> nat \<Rightarrow> u32 \<Rightarrow> CPU_CONTEXT" where
  [insn_defs]: "mov_r32_imm32 c r imm = set_reg32 c r imm"
definition mov_r64_imm64 :: "CPU_CONTEXT \<Rightarrow> nat \<Rightarrow> u64 \<Rightarrow> CPU_CONTEXT" where
  [insn_defs]: "mov_r64_imm64 c r imm = set_reg64 c r imm"
definition mov_rm8_imm8 ::
  "callbacks \<Rightarrow> cpueaxh_engine \<Rightarrow> u8 \<Rightarrow> u64 \<Rightarrow> u8 \<Rightarrow> cpueaxh_engine" where
  [insn_defs]: "mov_rm8_imm8 cb e modrm mem_addr imm =
     write_rm8 cb modrm (rm_index (cpu_ctx e) modrm) mem_addr imm e"
definition mov_rm16_imm16 ::
  "callbacks \<Rightarrow> cpueaxh_engine \<Rightarrow> u8 \<Rightarrow> u64 \<Rightarrow> u16 \<Rightarrow> cpueaxh_engine" where
  [insn_defs]: "mov_rm16_imm16 cb e modrm mem_addr imm =
     write_rm16 cb modrm (rm_index (cpu_ctx e) modrm) mem_addr imm e"
definition mov_rm32_imm32 ::
  "callbacks \<Rightarrow> cpueaxh_engine \<Rightarrow> u8 \<Rightarrow> u64 \<Rightarrow> u32 \<Rightarrow> cpueaxh_engine" where
  [insn_defs]: "mov_rm32_imm32 cb e modrm mem_addr imm =
     write_rm32 cb modrm (rm_index (cpu_ctx e) modrm) mem_addr imm e"
definition mov_rm64_imm32 ::
  "callbacks \<Rightarrow> cpueaxh_engine \<Rightarrow> u8 \<Rightarrow> u64 \<Rightarrow> u32 \<Rightarrow> cpueaxh_engine" where
  [insn_defs]: "mov_rm64_imm32 cb e modrm mem_addr imm =
     write_rm64 cb modrm (rm_index (cpu_ctx e) modrm) mem_addr (scast imm) e"

subsection \<open>Decoding and dispatch of MOV\<close>

definition mov_segment_base :: "CPU_CONTEXT \<Rightarrow> int \<Rightarrow> u64" where
  "mov_segment_base = cpu_segment_base_for_addressing"

definition decode_modrm_mov :: "u8 list \<Rightarrow> dstate \<Rightarrow> dresult" where
  "decode_modrm_mov = decode_modrm_plain"

definition decode_modrm_mov_cr :: "u8 list \<Rightarrow> dstate \<Rightarrow> dresult" where
  "decode_modrm_mov_cr code s =
     (case s of (inst, offset, ctx) \<Rightarrow>
        if length code \<le> offset then Inr (inst, offset, raise_gp_ctx ctx 0)
        else Inr (inst\<lparr>di_has_modrm := True, di_modrm := code ! offset\<rparr>, offset + 1, ctx))"

text \<open>The forms with an absolute offset: the address has the address size.\<close>

definition decode_moffs :: "u8 list \<Rightarrow> dstate \<Rightarrow> dresult" where
  "decode_moffs code s =
     decode_then (decode_imm (nat (di_address_size (fst s)) div 8) code s)
       (with_inst (\<lambda>i. i\<lparr>di_mem_address := di_immediate i\<rparr>))"

definition mov_imm_size :: "CPU_CONTEXT \<Rightarrow> nat" where
  "mov_imm_size ctx = (if rex_w ctx then 8 else if operand_size_override ctx then 2 else 4)"

definition decode_mov_imm :: "u8 list \<Rightarrow> dstate \<Rightarrow> dresult" where
  "decode_mov_imm code s = decode_imm (mov_imm_size (snd (snd s))) code s"

text \<open>The forms whose address does not come from a ModRM operand, and the others.\<close>

definition mov_special :: "u8 \<Rightarrow> bool" where
  "mov_special opc \<longleftrightarrow> opc = 0x20 \<or> opc = 0x22 \<or> 0xA0 \<le> opc \<and> opc \<le> 0xA3"

definition decode_mov_special :: "u8 list \<Rightarrow> dstate \<Rightarrow> dresult" where
  "decode_mov_special code =
     by_opcode (\<lambda>opc. opc = 0x20 \<or> opc = 0x22) (decode_modrm_mov_cr code)
    (by_opcode (\<lambda>opc. opc = 0xA0 \<or> opc = 0xA2)
       (decode_seq [with_inst (\<lambda>i. i\<lparr>di_operand_size := 8\<rparr>), decode_moffs code])
       (decode_moffs code))"

definition decode_mov_regular :: "u8 list \<Rightarrow> dstate \<Rightarrow> dresult" where
  "decode_mov_regular code =
     by_opcode (\<lambda>opc. opc = 0x88 \<or> opc = 0x8A)
       (decode_seq [with_inst (\<lambda>i. i\<lparr>di_operand_size := 8\<rparr>), decode_modrm_mov code])
    (by_opcode (\<lambda>opc. opc = 0x89 \<or> opc = 0x8B \<or> opc = 0x8C \<or> opc = 0x8E) (decode_modrm_mov code)
    (by_opcode (\<lambda>opc. 0xB0 \<le> opc \<and> opc \<le> 0xB7)
       (decode_seq [with_inst (\<lambda>i. i\<lparr>di_operand_size := 8\<rparr>), decode_imm 1 code])
    (by_opcode (\<lambda>opc. 0xB8 \<le> opc \<and> opc \<le> 0xBF) (decode_mov_imm code)
    (by_opcode (\<lambda>opc. opc = 0xC6)
       (decode_seq [with_inst (\<lambda>i. i\<lparr>di_operand_size := 8\<rparr>), decode_modrm_mov code, ud_unless_group 0, decode_imm 1 code])
    (by_opcode (\<lambda>opc. opc = 0xC7)
       (decode_seq [decode_modrm_mov code, ud_unless_group 0, decode_full_imm code])
       (ud_if True))))))"

definition decode_mov_opcode :: "u8 list \<Rightarrow> dstate \<Rightarrow> dresult" where
  "decode_mov_opcode code = by_opcode mov_special (decode_mov_special code) (decode_mov_regular code)"

definition decode_mov_body :: "bool \<Rightarrow> u8 list \<Rightarrow> dstate \<Rightarrow> dresult" where
  "decode_mov_body lock code =
     decode_seq
       [next_opcode code, by_opcode (\<lambda>opc. opc = 0x0F) (next_opcode code) Inr,
        set_sizes default_operand_size default_address_size, decode_mov_opcode code]"

definition decode_mov_finish :: "dresult \<Rightarrow> DecodedInstruction \<times> CPU_CONTEXT" where
  "decode_mov_finish r =
     (case r of
        Inl x \<Rightarrow> x
      | Inr (inst, offset, ctx) \<Rightarrow>
          case finalize_rip_relative_address ctx inst (int offset) of
            (ctx1, inst1) \<Rightarrow>
              let moffs = (0xA0 \<le> di_opcode inst1 \<and> di_opcode inst1 \<le> 0xA3);
                  segment_index = cpu_effective_segment_override_or_default ctx1 SEG_DS;
                  a = di_mem_address inst1 + mov_segment_base ctx1 segment_index;
                  inst2 = (if moffs then inst1\<lparr>di_mem_address := a\<rparr> else inst1);
                  ctx2 = (if moffs then snd (cpu_validate_linear_address ctx1 a segment_index) else ctx1)
              in (inst2, ctx2\<lparr>last_inst_size := int offset\<rparr>))"

definition decode_mov_instruction :: "CPU_CONTEXT \<Rightarrow> u8 list \<Rightarrow> DecodedInstruction \<times> CPU_CONTEXT" where
  "decode_mov_instruction ctx code =
     (case decode_prefixes apply_rex_byte raise_ud_ctx ctx code of
        (lock, offset, ctx1) \<Rightarrow> decode_mov_finish (decode_mov_body lock code (zero_decoded_instruction, offset, ctx1)))"

definition opcode_reg_index :: "CPU_CONTEXT \<Rightarrow> u8 \<Rightarrow> nat" where
  "opcode_reg_index c n = unat (if rex_b c then n OR 0x08 else n)"

definition execute_mov_with_decoded :: "callbacks \<Rightarrow> cpueaxh_engine \<Rightarrow> DecodedInstruction \<Rightarrow> cpueaxh_engine" where
  "execute_mov_with_decoded cb e inst =
     (let opc = di_opcode inst; m = di_modrm inst; a = di_mem_address inst; imm = di_immediate inst; c = cpu_ctx e;
          sized = by_size (rex_w c) (operand_size_override c)
      in if opc = 0x88 then mov_rm8_r8 cb e m a
         else if opc = 0x89 then sized (mov_rm64_r64 cb e m a) (mov_rm16_r16 cb e m a) (mov_rm32_r32 cb e m a)
         else if opc = 0x8A then mov_r8_rm8 cb e m a
         else if opc = 0x8B then sized (mov_r64_rm64 cb e m a) (mov_r16_rm16 cb e m a) (mov_r32_rm32 cb e m a)
         else if opc = 0x8C then sized (mov_r64_sreg cb e m a) (mov_rm16_sreg cb e m a) (mov_r32_sreg cb e m a)
         else if opc = 0x8E then (if rex_w c then mov_sreg_rm64 cb e m a else mov_sreg_rm16 cb e m a)
         else if opc = 0x20 then on_ctx (\<lambda>c. mov_r64_cr c m) e
         else if opc = 0x22 then on_ctx (\<lambda>c. mov_cr_r64 c m) e
         else if opc = 0xA0 then mov_al_moffs8 cb e a
         else if opc = 0xA1 then sized (mov_rax_moffs64 cb e a) (mov_ax_moffs16 cb e a) (mov_eax_moffs32 cb e a)
         else if opc = 0xA2 then mov_moffs8_al cb e a
         else if opc = 0xA3 then sized (mov_moffs64_rax cb e a) (mov_moffs16_ax cb e a) (mov_moffs32_eax cb e a)
         else if 0xB0 \<le> opc \<and> opc \<le> 0xB7
         then on_ctx (\<lambda>c. mov_r8_imm8 c (opcode_reg_index c (opc - 0xB0)) (ucast imm)) e
         else if 0xB8 \<le> opc \<and> opc \<le> 0xBF
         then let r = opcode_reg_index c (opc - 0xB8)
              in sized (on_ctx (\<lambda>c. mov_r64_imm64 c r imm) e) (on_ctx (\<lambda>c. mov_r16_imm16 c r (ucast imm)) e)
                   (on_ctx (\<lambda>c. mov_r32_imm32 c r (ucast imm)) e)
         else if opc = 0xC6 then mov_rm8_imm8 cb e m a (ucast imm)
         else if opc = 0xC7
         then sized (mov_rm64_imm32 cb e m a (ucast imm)) (mov_rm16_imm16 cb e m a (ucast imm))
                (mov_rm32_imm32 cb e m a (ucast imm))
         else e)"

definition execute_mov ::
  "callbacks \<Rightarrow> cpueaxh_engine \<Rightarrow> u8 list \<Rightarrow> cpueaxh_engine" where
  "execute_mov = execute_decoding decode_mov_instruction execute_mov_with_decoded"
definition execute_mov_fast ::
  "callbacks \<Rightarrow> cpueaxh_engine \<Rightarrow> DecodedInst \<Rightarrow> cpueaxh_engine" where
  "execute_mov_fast = execute_cached_recompute execute_mov_with_decoded"

subsection \<open>MOVSX\<close>

definition decode_movsx_rm_index :: "CPU_CONTEXT \<Rightarrow> u8 \<Rightarrow> nat" where
  "decode_movsx_rm_index = rm_index"
definition decode_movsx_reg_index :: "CPU_CONTEXT \<Rightarrow> u8 \<Rightarrow> nat" where
  "decode_movsx_reg_index = reg_index"
definition read_movsx_rm_operand ::
  "callbacks \<Rightarrow> u8 \<Rightarrow> u64 \<Rightarrow> int \<Rightarrow> cpueaxh_engine \<Rightarrow> u64 \<times> cpueaxh_engine" where
  [insn_defs]: "read_movsx_rm_operand cb modrm mem_addr operand_size e =
     (if operand_size = 8 \<or> operand_size = 16 then read_rm_sized cb modrm mem_addr operand_size e
      else (0, on_ctx raise_ud_ctx e))"
definition write_movsx_reg_operand ::
  "u8 \<Rightarrow> int \<Rightarrow> u64 \<Rightarrow> CPU_CONTEXT \<Rightarrow> CPU_CONTEXT" where
  [insn_defs]: "write_movsx_reg_operand = write_reg_wide"
definition movsx_r16_rm8 ::
  "callbacks \<Rightarrow> cpueaxh_engine \<Rightarrow> u8 \<Rightarrow> u64 \<Rightarrow> cpueaxh_engine" where
  [insn_defs]: "movsx_r16_rm8 cb e modrm mem_addr =
     (case read_movsx_rm_operand cb modrm mem_addr 8 e of
        (v, e1) \<Rightarrow> on_ctx (write_movsx_reg_operand modrm 16 (scast (ucast v :: u8))) e1)"
definition movsx_r32_rm8 ::
  "callbacks \<Rightarrow> cpueaxh_engine \<Rightarrow> u8 \<Rightarrow> u64 \<Rightarrow> cpueaxh_engine" where
  [insn_defs]: "movsx_r32_rm8 cb e modrm mem_addr =
     (case read_movsx_rm_operand cb modrm mem_addr 8 e of
        (v, e1) \<Rightarrow> on_ctx (write_movsx_reg_operand modrm 32 (scast (ucast v :: u8))) e1)"
definition movsx_r64_rm8 ::
  "callbacks \<Rightarrow> cpueaxh_engine \<Rightarrow> u8 \<Rightarrow> u64 \<Rightarrow> cpueaxh_engine" where
  [insn_defs]: "movsx_r64_rm8 cb e modrm mem_addr =
     (case read_movsx_rm_operand cb modrm mem_addr 8 e of
        (v, e1) \<Rightarrow> on_ctx (write_movsx_reg_operand modrm 64 (scast (ucast v :: u8))) e1)"
definition movsx_r32_rm16 ::
  "callbacks \<Rightarrow> cpueaxh_engine \<Rightarrow> u8 \<Rightarrow> u64 \<Rightarrow> cpueaxh_engine" where
  [insn_defs]: "movsx_r32_rm16 cb e modrm mem_addr =
     (case read_movsx_rm_operand cb modrm mem_addr 16 e of
        (v, e1) \<Rightarrow> on_ctx (write_movsx_reg_operand modrm 32 (scast (ucast v :: u16))) e1)"
definition movsx_r64_rm16 ::
  "callbacks \<Rightarrow> cpueaxh_engine \<Rightarrow> u8 \<Rightarrow> u64 \<Rightarrow> cpueaxh_engine" where
  [insn_defs]: "movsx_r64_rm16 cb e modrm mem_addr =
     (case read_movsx_rm_operand cb modrm mem_addr 16 e of
        (v, e1) \<Rightarrow> on_ctx (write_movsx_reg_operand modrm 64 (scast (ucast v :: u16))) e1)"
definition decode_modrm_movsx :: "bool \<Rightarrow> u8 list \<Rightarrow> dstate \<Rightarrow> dresult" where
  "decode_modrm_movsx = decode_modrm_unlocked"
definition decode_movsx_body :: "bool \<Rightarrow> u8 list \<Rightarrow> dstate \<Rightarrow> dresult" where
  "decode_movsx_body lock code =
     decode_seq
       [second_opcode (\<lambda>opc. opc = 0xBE \<or> opc = 0xBF) code, set_sizes default_operand_size default_address_size,
        ud_when (\<lambda>i c. di_opcode i = 0xBF \<and> di_operand_size i = 16), decode_modrm_movsx lock code]"
definition decode_movsx_instruction ::
  "CPU_CONTEXT \<Rightarrow> u8 list \<Rightarrow> DecodedInstruction \<times> CPU_CONTEXT" where
  "decode_movsx_instruction = decode_with apply_rex_byte id decode_movsx_body"
definition execute_movsx_with_decoded ::
  "callbacks \<Rightarrow> cpueaxh_engine \<Rightarrow> DecodedInstruction \<Rightarrow> cpueaxh_engine" where
  "execute_movsx_with_decoded cb e inst =
     (let m = di_modrm inst; a = di_mem_address inst
      in if di_opcode inst = 0xBE
         then by_size (rex_w (cpu_ctx e)) (operand_size_override (cpu_ctx e))
                (movsx_r64_rm8 cb e m a) (movsx_r16_rm8 cb e m a) (movsx_r32_rm8 cb e m a)
         else if di_opcode inst = 0xBF then (if rex_w (cpu_ctx e) then movsx_r64_rm16 cb e m a else movsx_r32_rm16 cb e m a)
         else e)"
definition execute_movsx ::
  "callbacks \<Rightarrow> cpueaxh_engine \<Rightarrow> u8 list \<Rightarrow> cpueaxh_engine" where
  "execute_movsx = execute_decoding decode_movsx_instruction execute_movsx_with_decoded"
definition execute_movsx_fast ::
  "callbacks \<Rightarrow> cpueaxh_engine \<Rightarrow> DecodedInst \<Rightarrow> cpueaxh_engine" where
  "execute_movsx_fast = execute_cached_recompute execute_movsx_with_decoded"

subsection \<open>MOVZX\<close>

definition movzx_segment_base :: "CPU_CONTEXT \<Rightarrow> int \<Rightarrow> u64" where
  "movzx_segment_base = cpu_segment_base_for_addressing"
definition decode_movzx_rm_index :: "CPU_CONTEXT \<Rightarrow> u8 \<Rightarrow> nat" where
  "decode_movzx_rm_index = rm_index"
definition decode_movzx_reg_index :: "CPU_CONTEXT \<Rightarrow> u8 \<Rightarrow> nat" where
  "decode_movzx_reg_index = reg_index"
definition read_movzx_rm_operand ::
  "callbacks \<Rightarrow> u8 \<Rightarrow> u64 \<Rightarrow> int \<Rightarrow> cpueaxh_engine \<Rightarrow> u64 \<times> cpueaxh_engine" where
  [insn_defs]: "read_movzx_rm_operand cb modrm mem_addr operand_size e =
     (if operand_size = 8 \<or> operand_size = 16 then read_rm_sized cb modrm mem_addr operand_size e
      else (0, on_ctx raise_ud_ctx e))"
definition write_movzx_reg_operand ::
  "u8 \<Rightarrow> int \<Rightarrow> u64 \<Rightarrow> CPU_CONTEXT \<Rightarrow> CPU_CONTEXT" where
  [insn_defs]: "write_movzx_reg_operand = write_reg_wide"
definition movzx_r16_rm8 ::
  "callbacks \<Rightarrow> cpueaxh_engine \<Rightarrow> u8 \<Rightarrow> u64 \<Rightarrow> cpueaxh_engine" where
  [insn_defs]: "movzx_r16_rm8 cb e modrm mem_addr =
     (case read_movzx_rm_operand cb modrm mem_addr 8 e of
        (v, e1) \<Rightarrow> on_ctx (write_movzx_reg_operand modrm 16 (ucast (ucast v :: u8))) e1)"
definition movzx_r32_rm8 ::
  "callbacks \<Rightarrow> cpueaxh_engine \<Rightarrow> u8 \<Rightarrow> u64 \<Rightarrow> cpueaxh_engine" where
  [insn_defs]: "movzx_r32_rm8 cb e modrm mem_addr =
     (case read_movzx_rm_operand cb modrm mem_addr 8 e of
        (v, e1) \<Rightarrow> on_ctx (write_movzx_reg_operand modrm 32 (ucast (ucast v :: u8))) e1)"
definition movzx_r64_rm8 ::
  "callbacks \<Rightarrow> cpueaxh_engine \<Rightarrow> u8 \<Rightarrow> u64 \<Rightarrow> cpueaxh_engine" where
  [insn_defs]: "movzx_r64_rm8 cb e modrm mem_addr =
     (case read_movzx_rm_operand cb modrm mem_addr 8 e of
        (v, e1) \<Rightarrow> on_ctx (write_movzx_reg_operand modrm 64 (ucast (ucast v :: u8))) e1)"
definition movzx_r32_rm16 ::
  "callbacks \<Rightarrow> cpueaxh_engine \<Rightarrow> u8 \<Rightarrow> u64 \<Rightarrow> cpueaxh_engine" where
  [insn_defs]: "movzx_r32_rm16 cb e modrm mem_addr =
     (case read_movzx_rm_operand cb modrm mem_addr 16 e of
        (v, e1) \<Rightarrow> on_ctx (write_movzx_reg_operand modrm 32 (ucast (ucast v :: u16))) e1)"
definition movzx_r64_rm16 ::
  "callbacks \<Rightarrow> cpueaxh_engine \<Rightarrow> u8 \<Rightarrow> u64 \<Rightarrow> cpueaxh_engine" where
  [insn_defs]: "movzx_r64_rm16 cb e modrm mem_addr =
     (case read_movzx_rm_operand cb modrm mem_addr 16 e of
        (v, e1) \<Rightarrow> on_ctx (write_movzx_reg_operand modrm 64 (ucast (ucast v :: u16))) e1)"
definition decode_modrm_movzx :: "bool \<Rightarrow> u8 list \<Rightarrow> dstate \<Rightarrow> dresult" where
  "decode_modrm_movzx = decode_modrm_unlocked"
definition decode_movzx_body :: "bool \<Rightarrow> u8 list \<Rightarrow> dstate \<Rightarrow> dresult" where
  "decode_movzx_body lock code =
     decode_seq
       [second_opcode (\<lambda>opc. opc = 0xB6 \<or> opc = 0xB7) code, set_sizes default_operand_size default_address_size,
        ud_when (\<lambda>i c. di_opcode i = 0xB7 \<and> di_operand_size i = 16), decode_modrm_movzx lock code]"
definition decode_movzx_instruction ::
  "CPU_CONTEXT \<Rightarrow> u8 list \<Rightarrow> DecodedInstruction \<times> CPU_CONTEXT" where
  "decode_movzx_instruction = decode_with apply_rex_byte id decode_movzx_body"
definition execute_movzx_with_decoded ::
  "callbacks \<Rightarrow> cpueaxh_engine \<Rightarrow> DecodedInstruction \<Rightarrow> cpueaxh_engine" where
  "execute_movzx_with_decoded cb e inst =
     (let m = di_modrm inst; a = di_mem_address inst
      in if di_opcode inst = 0xB6
         then by_size (rex_w (cpu_ctx e)) (operand_size_override (cpu_ctx e))
                (movzx_r64_rm8 cb e m a) (movzx_r16_rm8 cb e m a) (movzx_r32_rm8 cb e m a)
         else if di_opcode inst = 0xB7 then (if rex_w (cpu_ctx e) then movzx_r64_rm16 cb e m a else movzx_r32_rm16 cb e m a)
         else e)"
definition execute_movzx ::
  "callbacks \<Rightarrow> cpueaxh_engine \<Rightarrow> u8 list \<Rightarrow> cpueaxh_engine" where
  "execute_movzx = execute_decoding decode_movzx_instruction execute_movzx_with_decoded"
definition execute_movzx_fast ::
  "callbacks \<Rightarrow> cpueaxh_engine \<Rightarrow> DecodedInst \<Rightarrow> cpueaxh_engine" where
  "execute_movzx_fast = execute_cached_recompute execute_movzx_with_decoded"

subsection \<open>MOVSXD\<close>

definition decode_movsxd_rm_index :: "CPU_CONTEXT \<Rightarrow> u8 \<Rightarrow> nat" where
  "decode_movsxd_rm_index = rm_index"
definition decode_movsxd_reg_index :: "CPU_CONTEXT \<Rightarrow> u8 \<Rightarrow> nat" where
  "decode_movsxd_reg_index = reg_index"
definition read_movsxd_rm_operand ::
  "callbacks \<Rightarrow> u8 \<Rightarrow> u64 \<Rightarrow> cpueaxh_engine \<Rightarrow> u32 \<times> cpueaxh_engine" where
  [insn_defs]: "read_movsxd_rm_operand cb modrm mem_addr e = read_rm32 cb modrm (rm_index (cpu_ctx e) modrm) mem_addr e"
definition write_movsxd_reg_operand ::
  "u8 \<Rightarrow> u64 \<Rightarrow> CPU_CONTEXT \<Rightarrow> CPU_CONTEXT" where
  [insn_defs]: "write_movsxd_reg_operand modrm v c = set_reg64 c (reg_index c modrm) v"
definition movsxd_r64_rm32 ::
  "callbacks \<Rightarrow> cpueaxh_engine \<Rightarrow> u8 \<Rightarrow> u64 \<Rightarrow> cpueaxh_engine" where
  [insn_defs]: "movsxd_r64_rm32 cb e modrm mem_addr =
     (case read_movsxd_rm_operand cb modrm mem_addr e of (v, e1) \<Rightarrow> on_ctx (write_movsxd_reg_operand modrm (scast v)) e1)"
definition decode_modrm_movsxd :: "bool \<Rightarrow> u8 list \<Rightarrow> dstate \<Rightarrow> dresult" where
  "decode_modrm_movsxd = decode_modrm_unlocked"
definition movsxd_address_size :: "CPU_CONTEXT \<Rightarrow> int" where
  "movsxd_address_size c = (if address_size_override c then 32 else 64)"

definition decode_movsxd_body :: "bool \<Rightarrow> u8 list \<Rightarrow> dstate \<Rightarrow> dresult" where
  "decode_movsxd_body lock code =
     decode_seq
       [next_opcode code, by_opcode (\<lambda>opc. opc = 0x63) Inr (ud_if True),
        ud_when (\<lambda>i c. \<not> sd_long_mode (sr_descriptor (cs c))), ud_when (\<lambda>i c. \<not> rex_w c \<or> operand_size_override c),
        set_sizes (\<lambda>_. 64) movsxd_address_size, decode_modrm_movsxd lock code]"

definition decode_movsxd_instruction ::
  "CPU_CONTEXT \<Rightarrow> u8 list \<Rightarrow> DecodedInstruction \<times> CPU_CONTEXT" where
  "decode_movsxd_instruction = decode_with apply_rex_byte id decode_movsxd_body"
definition execute_movsxd_with_decoded ::
  "callbacks \<Rightarrow> cpueaxh_engine \<Rightarrow> DecodedInstruction \<Rightarrow> cpueaxh_engine" where
  "execute_movsxd_with_decoded cb e inst = movsxd_r64_rm32 cb e (di_modrm inst) (di_mem_address inst)"
definition execute_movsxd ::
  "callbacks \<Rightarrow> cpueaxh_engine \<Rightarrow> u8 list \<Rightarrow> cpueaxh_engine" where
  "execute_movsxd = execute_decoding decode_movsxd_instruction execute_movsxd_with_decoded"
definition execute_movsxd_fast ::
  "callbacks \<Rightarrow> cpueaxh_engine \<Rightarrow> DecodedInst \<Rightarrow> cpueaxh_engine" where
  "execute_movsxd_fast = execute_cached_recompute execute_movsxd_with_decoded"

subsection \<open>LEA\<close>

definition decode_lea_reg_index :: "CPU_CONTEXT \<Rightarrow> u8 \<Rightarrow> nat" where
  "decode_lea_reg_index = reg_index"
definition read_lea_address_reg :: "CPU_CONTEXT \<Rightarrow> nat \<Rightarrow> int \<Rightarrow> u64" where
  "read_lea_address_reg c r address_size =
     (if address_size = 64 then get_reg64 c r
      else if address_size = 32 then ucast (get_reg32 c r) else ucast (get_reg16 c r))"

definition lea_base :: "CPU_CONTEXT \<Rightarrow> u8 \<Rightarrow> bool \<Rightarrow> u8 \<Rightarrow> int \<Rightarrow> int \<Rightarrow> u64 \<Rightarrow> u64" where
  "lea_base ctx modrm has_sib sib disp address_size next_rip =
     (let long_mode_addr = sd_long_mode (sr_descriptor (cs ctx)); md = modrm_mod modrm; raw_rm = modrm AND 0x07;
          raw_index = drop_bit 3 sib AND 0x07; raw_base = sib AND 0x07;
          index = unat (if long_mode_addr \<and> rex_x ctx then raw_index OR 0x08 else raw_index);
          base = unat (if long_mode_addr \<and> rex_b ctx then raw_base OR 0x08 else raw_base);
          absolute = (if address_size = 64 then of_int disp else ucast (of_int disp :: u32))
      in if has_sib
         then (if md = 0 \<and> raw_base = 5 then absolute else read_lea_address_reg ctx base address_size) +
              (if raw_index = 4 \<and> \<not> (long_mode_addr \<and> rex_x ctx) then 0
               else push_bit (unat (drop_bit 6 sib AND 0x03)) (read_lea_address_reg ctx index address_size))
         else if md = 0 \<and> raw_rm = 5
         then (if address_size = 64 then next_rip + of_int disp else absolute)
         else read_lea_address_reg ctx
                (unat (if long_mode_addr \<and> rex_b ctx then raw_rm OR 0x08 else raw_rm)) address_size)"

definition calculate_lea_address :: "CPU_CONTEXT \<Rightarrow> u8 \<Rightarrow> bool \<Rightarrow> u8 \<Rightarrow> int \<Rightarrow> int \<Rightarrow> u64 \<Rightarrow> u64 \<times> CPU_CONTEXT" where
  "calculate_lea_address ctx modrm has_sib sib disp address_size next_rip =
     (let md = modrm_mod modrm; c = (if md = 3 then raise_ud_ctx ctx else ctx)
      in if address_size = 64 \<or> address_size = 32
         then let addr = lea_base ctx modrm has_sib sib disp address_size next_rip +
                         (if md = 1 then sext8 disp else if md = 2 then of_int disp else 0)
              in (if address_size = 32 then addr AND 0xFFFFFFFF else addr, c)
         else (get_effective_offset c modrm (Some sib) disp address_size 0, c))"

definition write_lea_reg_operand :: "u8 \<Rightarrow> int \<Rightarrow> u64 \<Rightarrow> CPU_CONTEXT \<Rightarrow> CPU_CONTEXT" where
  [insn_defs]: "write_lea_reg_operand = write_reg_wide"

text \<open>#UD for a register operand is raised before the rest of the bytes are read.\<close>

definition decode_modrm_lea :: "bool \<Rightarrow> u8 list \<Rightarrow> dstate \<Rightarrow> dresult" where
  "decode_modrm_lea lock code s =
     (case s of (inst, offset, ctx) \<Rightarrow>
        case modrm_parse code inst offset of
          (inst1, offset1, done) \<Rightarrow>
            let ctx1 = (if offset < length code \<and> modrm_mod (code ! offset) = 3 then raise_ud_ctx ctx else ctx)
            in if \<not> done then Inr (inst1, offset1, raise_gp_ctx ctx1 0)
               else case calculate_lea_address ctx1 (di_modrm inst1) (di_has_sib inst1) (di_sib inst1)
                           (di_displacement inst1) (di_address_size inst1) (rip ctx1 + of_nat offset1) of
                      (a, ctx2) \<Rightarrow>
                        Inr (inst1\<lparr>di_mem_address := a\<rparr>, offset1, if lock then raise_ud_ctx ctx2 else ctx2))"

definition decode_lea_body :: "bool \<Rightarrow> u8 list \<Rightarrow> dstate \<Rightarrow> dresult" where
  "decode_lea_body lock code =
     decode_seq
       [next_opcode code, by_opcode (\<lambda>opc. opc = 0x8D) Inr (ud_if True),
        set_sizes default_operand_size default_address_size, decode_modrm_lea lock code]"

definition decode_lea_instruction :: "CPU_CONTEXT \<Rightarrow> u8 list \<Rightarrow> DecodedInstruction \<times> CPU_CONTEXT" where
  "decode_lea_instruction = decode_with apply_rex_byte id decode_lea_body"

definition execute_lea :: "callbacks \<Rightarrow> cpueaxh_engine \<Rightarrow> u8 list \<Rightarrow> cpueaxh_engine" where
  "execute_lea =
     execute_decoding decode_lea_instruction
       (\<lambda>cb e inst. on_ctx (write_lea_reg_operand (di_modrm inst) (di_operand_size inst) (di_mem_address inst)) e)"

subsection \<open>Replaying\<close>

lemma agrees_bits:
  "agrees c d \<Longrightarrow> rex_w c = rex_w d" "agrees c d \<Longrightarrow> operand_size_override c = operand_size_override d"
  "agrees c d \<Longrightarrow> address_size_override c = address_size_override d" "agrees c d \<Longrightarrow> rex_b c = rex_b d"
  by (simp_all add: agrees_def)

lemma movsxd_sizes_head: "decode_head (set_sizes (\<lambda>_. 64) movsxd_address_size)"
  by (rule decode_head_set_sizes) (simp_all add: movsxd_address_size_def agrees_bits)

lemma same_static_size: "same_static i j \<Longrightarrow> di_operand_size i = di_operand_size j"
  by (drule same_staticD(8), erule ssubst) simp

lemma ud_when_narrow: "decode_step (ud_when (\<lambda>i c. di_opcode i = v \<and> di_operand_size i = 16)) False"
  by (rule decode_step_ud_when) (metis same_staticD(1) same_static_size)

lemma ud_when_compatibility: "decode_step (ud_when (\<lambda>i c. \<not> sd_long_mode (sr_descriptor (cs c)))) False"
  by (rule decode_step_ud_when) (auto simp: agrees_def)

lemma ud_when_not_64: "decode_step (ud_when (\<lambda>i c. \<not> rex_w c \<or> operand_size_override c)) False"
  by (rule decode_step_ud_when) (auto simp: agrees_def)

lemma decode_movsx_step: "decode_step (decode_movsx_body lock code) True"
  unfolding decode_movsx_body_def decode_modrm_movsx_def
  by (rule decode_step_weaken, (rule ud_when_narrow default_sizes_head decode_steps static_updates | (simp; fail))+)

lemma decode_movzx_step: "decode_step (decode_movzx_body lock code) True"
  unfolding decode_movzx_body_def decode_modrm_movzx_def
  by (rule decode_step_weaken, (rule ud_when_narrow default_sizes_head decode_steps static_updates | (simp; fail))+)

lemma decode_movsxd_step: "decode_step (decode_movsxd_body lock code) True"
  unfolding decode_movsxd_body_def decode_modrm_movsxd_def
  by (rule decode_step_weaken, (rule movsxd_sizes_head ud_when_compatibility ud_when_not_64 decode_steps static_updates | (simp; fail))+)

interpretation movsx_decoder: prefix_decoder apply_rex_byte id decode_movsx_body True decode_movsx_instruction
  by (intro prefix_decoder.intro raw_prefixes.prefix_reader_axioms prefix_decoder_axioms.intro decode_movsx_step)
     (simp add: decode_movsx_instruction_def)
interpretation movzx_decoder: prefix_decoder apply_rex_byte id decode_movzx_body True decode_movzx_instruction
  by (intro prefix_decoder.intro raw_prefixes.prefix_reader_axioms prefix_decoder_axioms.intro decode_movzx_step)
     (simp add: decode_movzx_instruction_def)
interpretation movsxd_decoder: prefix_decoder apply_rex_byte id decode_movsxd_body True decode_movsxd_instruction
  by (intro prefix_decoder.intro raw_prefixes.prefix_reader_axioms prefix_decoder_axioms.intro decode_movsxd_step)
     (simp add: decode_movsxd_instruction_def)


text \<open>
  MOV: the opcode a byte sequence has, and the decoder without the special forms, which meets the
  contract and agrees with the one of MOV on every other opcode.
\<close>

definition is_mov_prefix :: "u8 \<Rightarrow> bool" where
  "is_mov_prefix b \<longleftrightarrow> 0x40 \<le> b \<and> b \<le> 0x4F \<or> b \<in> {0x66, 0x67, 0xF0, 0x26, 0x2E, 0x36, 0x3E, 0x64, 0x65, 0xF2, 0xF3}"

definition mov_opcode :: "u8 list \<Rightarrow> u8" where
  "mov_opcode code =
     (case dropWhile is_mov_prefix code of [] \<Rightarrow> 0 | [b] \<Rightarrow> b | b # b' # _ \<Rightarrow> if b = 0x0F then b' else b)"

lemma prefix_loop_offset:
  "fst (snd (prefix_loop apply_rex_byte h code n lock c)) = n + length (takeWhile is_mov_prefix code)"
proof (induction code arbitrary: n lock c)
  case (Cons b code)
  obtain r d where rex: "apply_rex_byte c b = (r, d)" by force
  have "r \<longleftrightarrow> 0x40 \<le> b \<and> b \<le> 0x4F" using rex by (auto simp: apply_rex_byte_def not_le split: if_splits)
  then show ?case using is_mov_prefix_def [of b] unfolding prefix_loop.simps rex by (cases r) (auto simp: Cons.IH)
qed simp

definition decode_mov_plain_body :: "bool \<Rightarrow> u8 list \<Rightarrow> dstate \<Rightarrow> dresult" where
  "decode_mov_plain_body lock code =
     decode_seq
       [next_opcode code, by_opcode (\<lambda>opc. opc = 0x0F) (next_opcode code) Inr,
        set_sizes default_operand_size default_address_size, by_opcode mov_special quit_ud (decode_mov_regular code)]"

definition decode_mov_plain :: "CPU_CONTEXT \<Rightarrow> u8 list \<Rightarrow> DecodedInstruction \<times> CPU_CONTEXT" where
  "decode_mov_plain = decode_with apply_rex_byte raise_ud_ctx decode_mov_plain_body"

lemma decode_step_mov_imm: "decode_step (decode_mov_imm code) False"
proof -
  have 1: "decode_step (when_ctx rex_w (decode_imm 8 code) (when_ctx operand_size_override (decode_imm 2 code) (decode_imm 4 code)))
      (False \<or> (False \<or> False))"
    by (rule decode_step_when_ctx decode_step_imm agrees_bits | assumption)+
  have "decode_mov_imm code = when_ctx rex_w (decode_imm 8 code) (when_ctx operand_size_override (decode_imm 2 code) (decode_imm 4 code))"
    by (simp add: fun_eq_iff decode_mov_imm_def mov_imm_size_def when_ctx_def)
  then show ?thesis using 1 by simp
qed

lemma decode_mov_regular_step: "decode_step (decode_mov_regular code) True"
  unfolding decode_mov_regular_def decode_modrm_mov_def
  by (rule decode_step_weaken, (rule decode_step_mov_imm decode_steps static_updates | (simp; fail))+)

lemma decode_mov_plain_step: "decode_step (decode_mov_plain_body lock code) True"
  unfolding decode_mov_plain_body_def
  by (rule decode_step_weaken, (rule default_sizes_head decode_mov_regular_step decode_steps | (simp; fail))+)

interpretation mov_decoder: prefix_decoder apply_rex_byte raise_ud_ctx decode_mov_plain_body True decode_mov_plain
  by (intro prefix_decoder.intro raw_prefixes_ud.prefix_reader_axioms prefix_decoder_axioms.intro decode_mov_plain_step)
     (simp add: decode_mov_plain_def)

text \<open>Parts that leave the opcode alone.\<close>

definition keeps_opcode :: "(dstate \<Rightarrow> dresult) \<Rightarrow> bool" where
  "keeps_opcode f \<longleftrightarrow> (\<forall>s t. f s = Inr t \<longrightarrow> di_opcode (fst t) = di_opcode (fst s))"

lemma modrm_parse_opcode: "modrm_parse code i n = (j, m, ok) \<Longrightarrow> di_opcode j = di_opcode i"
  by (auto simp: modrm_parse_def Let_def split: if_splits)

lemma keeps_opcode_parts:
  "keeps_opcode (decode_modrm_plain code)" "keeps_opcode (decode_imm k code)" "keeps_opcode (decode_full_imm code)"
  "keeps_opcode (ud_if b)" "keeps_opcode (ud_unless_group g)" "keeps_opcode (decode_mov_imm code)"
  "keeps_opcode (with_inst (\<lambda>i. i\<lparr>di_operand_size := k'\<rparr>))" "keeps_opcode (set_sizes os as)"
  "keeps_opcode (decode_seq [])"
  using modrm_parse_opcode
  by (auto simp: keeps_opcode_def decode_modrm_plain_def decode_modrm_operand_parse decode_imm_def decode_full_imm_def
      decode_mov_imm_def ud_if_def ud_unless_group_def with_inst_def set_sizes_def Let_def
      split: if_splits prod.splits)

lemma keeps_opcode_Cons: "keeps_opcode f \<Longrightarrow> keeps_opcode (decode_seq parts) \<Longrightarrow> keeps_opcode (decode_seq (f # parts))"
  by (simp only: keeps_opcode_def decode_seq.simps decode_then_def split: sum.splits) metis

lemma keeps_opcode_by: "keeps_opcode f \<Longrightarrow> keeps_opcode g \<Longrightarrow> keeps_opcode (by_opcode P f g)"
  by (simp add: keeps_opcode_def by_opcode_def)

lemma keeps_opcode_regular: "keeps_opcode (decode_mov_regular code)"
  unfolding decode_mov_regular_def decode_modrm_mov_def
  by (intro keeps_opcode_by keeps_opcode_Cons keeps_opcode_parts)

lemma finalize_opcode: "di_opcode (snd (finalize_rip_relative_address c i n)) = di_opcode i"
  by (simp add: finalize_rip_relative_address_def Let_def split: prod.splits)

lemma decode_mov_finish_regular:
  assumes "\<And>i n c. r = Inr (i, n, c) \<Longrightarrow> \<not> mov_special (di_opcode i)"
  shows "decode_mov_finish r = decode_finish r"
proof (cases r)
  case (Inr t)
  obtain i n c where t: "t = (i, n, c)" by (cases t)
  have "\<not> mov_special (di_opcode i)" using assms Inr t by simp
  moreover obtain d j where f: "finalize_rip_relative_address c i (int n) = (d, j)" by force
  ultimately have "\<not> mov_special (di_opcode j)" using finalize_opcode [of c i "int n"] by simp
  then have "\<not> (0xA0 \<le> di_opcode j \<and> di_opcode j \<le> 0xA3)" by (simp only: mov_special_def) blast
  then show ?thesis unfolding Inr t decode_mov_finish_def decode_finish_def by (simp only: f Let_def if_False sum.case prod.case)
qed (simp add: decode_mov_finish_def decode_finish_def)

lemma mov_opcode_at:
  assumes n: "n = length (takeWhile is_mov_prefix code)" and l: "n < length code"
    and x: "x = (if code ! n = 0x0F \<and> Suc n < length code then code ! Suc n else code ! n)"
  shows "x = mov_opcode code"
proof -
  have d: "dropWhile is_mov_prefix code = drop n code" by (simp add: n dropWhile_eq_drop)
  show ?thesis
  proof (cases "Suc n < length code")
    case True
    then have "drop n code = code ! n # code ! Suc n # drop (n + 2) code" by (simp add: Cons_nth_drop_Suc)
    then show ?thesis using x True by (simp add: mov_opcode_def d)
  next
    case False
    then have "drop n code = [code ! n]" using l by (simp add: Cons_nth_drop_Suc [symmetric])
    then show ?thesis using x False by (simp add: mov_opcode_def d)
  qed
qed

lemma decode_mov_is_plain:
  assumes "\<not> mov_special (mov_opcode code)"
  shows "decode_mov_instruction c code = decode_mov_plain c code"
proof -
  obtain lock n d where p: "decode_prefixes apply_rex_byte raise_ud_ctx c code = (lock, n, d)" by (metis prod_cases3)
  have n: "n = length (takeWhile is_mov_prefix code)"
    using prefix_loop_offset [of raise_ud_ctx code 0 False] p by (metis add_0 decode_prefixes_def fst_conv snd_conv)
  define h where "h = decode_seq [next_opcode code, by_opcode (\<lambda>opc. opc = 0x0F) (next_opcode code) Inr,
    set_sizes default_operand_size default_address_size] (zero_decoded_instruction, n, d)"
  have op: "di_opcode i = mov_opcode code" if "h = Inr (i, m, c')" for i m c'
  proof -
    have l: "n < length code" and "di_opcode i = (if code ! n = 0x0F \<and> Suc n < length code then code ! Suc n else code ! n)"
      using that by (auto simp: h_def next_opcode_def by_opcode_def set_sizes_def decode_then_def split: if_splits)
    then show ?thesis using mov_opcode_at [OF n l] by simp
  qed
  have body: "decode_mov_body lock code (zero_decoded_instruction, n, d) = decode_then h (decode_mov_opcode code)"
    "decode_mov_plain_body lock code (zero_decoded_instruction, n, d) =
       decode_then h (by_opcode mov_special quit_ud (decode_mov_regular code))"
    by (auto simp: decode_mov_body_def decode_mov_plain_body_def h_def decode_then_def split: sum.splits)
  have same: "decode_then h (decode_mov_opcode code) = decode_then h (decode_mov_regular code)"
    "decode_then h (by_opcode mov_special quit_ud (decode_mov_regular code)) = decode_then h (decode_mov_regular code)"
    using op assms by (cases h; force simp: decode_then_def decode_mov_opcode_def by_opcode_def)+
  have "decode_mov_finish (decode_then h (decode_mov_regular code)) = decode_finish (decode_then h (decode_mov_regular code))"
  proof (rule decode_mov_finish_regular)
    fix i m c' assume "decode_then h (decode_mov_regular code) = Inr (i, m, c')"
    then obtain t where t: "h = Inr t" "decode_mov_regular code t = Inr (i, m, c')" by (cases h) (auto simp: decode_then_def)
    then have "di_opcode i = di_opcode (fst t)" using keeps_opcode_regular unfolding keeps_opcode_def by (metis fst_conv)
    then show "\<not> mov_special (di_opcode i)" using op t(1) assms by (cases t) simp
  qed
  then show ?thesis by (simp add: decode_mov_instruction_def decode_mov_plain_def decode_with_def p body same)
qed

end
