(* ===== verification/Exchange.thy ===== *)
theory Exchange
  imports Move
begin

text \<open>
  Exchanges: XCHG (\<^verbatim>\<open>instructions/xchg.hpp\<close>), XADD (\<^verbatim>\<open>xadd.hpp\<close>), CMPXCHG (\<^verbatim>\<open>cmpxchg.hpp\<close>), CMPXCHG8B and
  CMPXCHG16B (\<^verbatim>\<open>cmpxchg8b16b.hpp\<close>). XCHG with memory and the LOCK forms of XADD and CMPXCHG go through
  the atomic helpers, so these handlers may not return.
\<close>

unbundle bit_operations_syntax

text \<open>What CPUID of the host returns for a leaf and a subleaf: EAX, EBX, ECX, EDX. It is a parameter.\<close>

type_synonym host_cpuid = "u32 \<Rightarrow> u32 \<Rightarrow> u32 \<times> u32 \<times> u32 \<times> u32"

text \<open>Two opcode bytes, read together: another first byte than 0x0F raises #UD and decoding goes on.\<close>

definition opcode_pair :: "u8 list \<Rightarrow> dstate \<Rightarrow> dresult" where
  "opcode_pair code s =
     (case s of (inst, offset, ctx) \<Rightarrow>
        if length code < offset + 2 then Inl (inst, raise_gp_ctx ctx 0)
        else Inr (inst\<lparr>di_opcode := code ! (offset + 1)\<rparr>, offset + 2,
                  if code ! offset \<noteq> 0x0F then raise_ud_ctx ctx else ctx))"

subsection \<open>XCHG\<close>

definition decode_xchg_reg_index :: "CPU_CONTEXT \<Rightarrow> u8 \<Rightarrow> nat" where
  "decode_xchg_reg_index = reg_index"
definition decode_xchg_rm_index :: "CPU_CONTEXT \<Rightarrow> u8 \<Rightarrow> nat" where
  "decode_xchg_rm_index = rm_index"
definition read_xchg_reg_operand ::
  "nat \<Rightarrow> int \<Rightarrow> cpueaxh_engine \<Rightarrow> u64 \<times> cpueaxh_engine" where
  [insn_defs]: "read_xchg_reg_operand = read_reg_sized"
definition write_xchg_reg_operand ::
  "nat \<Rightarrow> int \<Rightarrow> u64 \<Rightarrow> cpueaxh_engine \<Rightarrow> cpueaxh_engine" where
  [insn_defs]: "write_xchg_reg_operand = write_reg_sized"
definition read_xchg_rm_operand ::
  "callbacks \<Rightarrow> u8 \<Rightarrow> u64 \<Rightarrow> int \<Rightarrow> cpueaxh_engine \<Rightarrow> u64 \<times> cpueaxh_engine" where
  [insn_defs]: "read_xchg_rm_operand = read_rm_sized"
definition write_xchg_rm_operand ::
  "callbacks \<Rightarrow> u8 \<Rightarrow> u64 \<Rightarrow> int \<Rightarrow> u64 \<Rightarrow> cpueaxh_engine \<Rightarrow> cpueaxh_engine" where
  [insn_defs]: "write_xchg_rm_operand = write_rm_sized"
definition decode_xchg_short_reg_index :: "CPU_CONTEXT \<Rightarrow> u8 \<Rightarrow> nat" where
  "decode_xchg_short_reg_index c opc = opcode_reg_index c (opc AND 0x07)"

definition xchg_rm_reg :: "callbacks \<Rightarrow> cpueaxh_engine \<Rightarrow> u8 \<Rightarrow> u64 \<Rightarrow> int \<Rightarrow> cpueaxh_engine option" where
  "xchg_rm_reg cb e modrm mem_addr operand_size =
     (let r = reg_index (cpu_ctx e) modrm
      in case read_reg_sized r operand_size e of
           (reg_value, e1) \<Rightarrow>
             if modrm_mod modrm \<noteq> 3
             then case cpu_atomic_exchange_memory cb e1 mem_addr operand_size reg_value of
                    None \<Rightarrow> None
                  | Some (None, e2) \<Rightarrow> Some e2
                  | Some (Some (rm_value, _), e2) \<Rightarrow> Some (write_reg_sized r operand_size rm_value e2)
             else case read_rm_sized cb modrm mem_addr operand_size e1 of
                    (rm_value, e2) \<Rightarrow>
                      Some (write_rm_sized cb modrm mem_addr operand_size reg_value
                              (write_reg_sized r operand_size rm_value e2)))"

definition xchg_acc_reg :: "cpueaxh_engine \<Rightarrow> u8 \<Rightarrow> int \<Rightarrow> cpueaxh_engine" where
  "xchg_acc_reg e opc operand_size =
     (let r = decode_xchg_short_reg_index (cpu_ctx e) opc
      in if r = REG_RAX then e
         else case read_reg_sized REG_RAX operand_size e of
                (accumulator_value, e1) \<Rightarrow>
                  case read_reg_sized r operand_size e1 of
                    (register_value, e2) \<Rightarrow>
                      write_reg_sized r operand_size accumulator_value
                        (write_reg_sized REG_RAX operand_size register_value e2))"

definition decode_modrm_xchg :: "bool \<Rightarrow> u8 list \<Rightarrow> dstate \<Rightarrow> dresult" where
  "decode_modrm_xchg = decode_modrm_lockable"

definition decode_xchg_body :: "bool \<Rightarrow> u8 list \<Rightarrow> dstate \<Rightarrow> dresult" where
  "decode_xchg_body lock code =
     decode_seq
       [next_opcode code, set_sizes default_operand_size default_address_size,
        with_inst (\<lambda>i. i\<lparr>di_has_lock_prefix := lock\<rparr>),
        by_opcode (\<lambda>opc. opc = 0x86)
          (decode_seq [with_inst (\<lambda>i. i\<lparr>di_operand_size := 8\<rparr>), decode_modrm_xchg lock code])
          (by_opcode (\<lambda>opc. opc = 0x87) (decode_modrm_xchg lock code)
             (by_opcode (\<lambda>opc. 0x90 \<le> opc \<and> opc \<le> 0x97) (ud_if lock) (ud_if True))),
        note_inst_size]"

definition decode_xchg_instruction ::
  "CPU_CONTEXT \<Rightarrow> u8 list \<Rightarrow> DecodedInstruction \<times> CPU_CONTEXT" where
  "decode_xchg_instruction = decode_with apply_rex_byte id decode_xchg_body"
definition execute_xchg_with_decoded ::
  "callbacks \<Rightarrow> cpueaxh_engine \<Rightarrow> DecodedInstruction \<Rightarrow> cpueaxh_engine option" where
  "execute_xchg_with_decoded cb e inst =
     (if di_opcode inst = 0x86 \<or> di_opcode inst = 0x87
      then xchg_rm_reg cb e (di_modrm inst) (di_mem_address inst) (di_operand_size inst)
      else if 0x90 \<le> di_opcode inst \<and> di_opcode inst \<le> 0x97
      then Some (xchg_acc_reg e (di_opcode inst) (di_operand_size inst))
      else Some (on_ctx raise_ud_ctx e))"

definition execute_xchg ::
  "callbacks \<Rightarrow> cpueaxh_engine \<Rightarrow> u8 list \<Rightarrow> cpueaxh_engine option" where
  "execute_xchg = execute_decoding_opt decode_xchg_instruction execute_xchg_with_decoded"
definition execute_xchg_fast ::
  "callbacks \<Rightarrow> cpueaxh_engine \<Rightarrow> DecodedInst \<Rightarrow> cpueaxh_engine option" where
  "execute_xchg_fast = execute_cached_recompute execute_xchg_with_decoded"

subsection \<open>XADD\<close>

definition decode_xadd_reg_index :: "CPU_CONTEXT \<Rightarrow> u8 \<Rightarrow> nat" where
  "decode_xadd_reg_index = reg_index"
definition decode_xadd_rm_index :: "CPU_CONTEXT \<Rightarrow> u8 \<Rightarrow> nat" where
  "decode_xadd_rm_index = rm_index"
definition read_xadd_reg_operand ::
  "nat \<Rightarrow> int \<Rightarrow> cpueaxh_engine \<Rightarrow> u64 \<times> cpueaxh_engine" where
  [insn_defs]: "read_xadd_reg_operand = read_reg_sized"
definition write_xadd_reg_operand ::
  "nat \<Rightarrow> int \<Rightarrow> u64 \<Rightarrow> cpueaxh_engine \<Rightarrow> cpueaxh_engine" where
  [insn_defs]: "write_xadd_reg_operand = write_reg_sized"
definition read_xadd_rm_operand ::
  "callbacks \<Rightarrow> u8 \<Rightarrow> u64 \<Rightarrow> int \<Rightarrow> cpueaxh_engine \<Rightarrow> u64 \<times> cpueaxh_engine" where
  [insn_defs]: "read_xadd_rm_operand = read_rm_sized"
definition write_xadd_rm_operand ::
  "callbacks \<Rightarrow> u8 \<Rightarrow> u64 \<Rightarrow> int \<Rightarrow> u64 \<Rightarrow> cpueaxh_engine \<Rightarrow> cpueaxh_engine" where
  [insn_defs]: "write_xadd_rm_operand = write_rm_sized"
definition xadd_compute_result :: "CPU_CONTEXT \<Rightarrow> int \<Rightarrow> u64 \<Rightarrow> u64 \<Rightarrow> u64 \<times> CPU_CONTEXT" where
  "xadd_compute_result c operand_size dst_value src_value =
     (if operand_size = 8
      then let dst = ucast dst_value :: u8; src = ucast src_value; r = ucast dst + ucast src :: u16
           in (ucast (ucast r :: u8), update_flags_add8 c dst src r)
      else if operand_size = 16
      then let dst = ucast dst_value :: u16; src = ucast src_value; r = ucast dst + ucast src :: u32
           in (ucast (ucast r :: u16), update_flags_add16 c dst src r)
      else if operand_size = 32
      then let dst = ucast dst_value :: u32; src = ucast src_value; r = ucast dst + ucast src :: u64
           in (ucast (ucast r :: u32), update_flags_add32 c dst src r)
      else if operand_size = 64
      then (dst_value + src_value, update_flags_add64 c dst_value src_value (dst_value + src_value))
      else (0, raise_ud_ctx c))"

definition xadd_rm_reg :: "callbacks \<Rightarrow> cpueaxh_engine \<Rightarrow> u8 \<Rightarrow> u64 \<Rightarrow> int \<Rightarrow> bool \<Rightarrow> cpueaxh_engine option" where
  "xadd_rm_reg cb e modrm mem_addr operand_size has_lock_prefix =
     (let r = reg_index (cpu_ctx e) modrm
      in case read_reg_sized r operand_size e of
           (src_value, e1) \<Rightarrow>
             if has_lock_prefix \<and> modrm_mod modrm \<noteq> 3
             then case cpu_atomic_add_memory cb e1 mem_addr operand_size src_value of
                    None \<Rightarrow> None
                  | Some (None, e2) \<Rightarrow> Some e2
                  | Some (Some (dst_value, _), e2) \<Rightarrow>
                      Some (write_reg_sized r operand_size dst_value
                              (on_ctx (\<lambda>c. snd (xadd_compute_result c operand_size dst_value src_value)) e2))
             else case read_rm_sized cb modrm mem_addr operand_size e1 of
                    (dst_value, e2) \<Rightarrow>
                      if cpu_has_exception (cpu_ctx e2) then Some e2
                      else case xadd_compute_result (cpu_ctx e2) operand_size dst_value src_value of
                             (result, c) \<Rightarrow>
                               Some (write_rm_sized cb modrm mem_addr operand_size result
                                       (write_reg_sized r operand_size dst_value (e2\<lparr>cpu_ctx := c\<rparr>))))"

text \<open>The decoder that XADD and CMPXCHG share: \<open>b\<close> is the opcode of the byte form.\<close>

definition decode_locked_body :: "u8 \<Rightarrow> bool \<Rightarrow> u8 list \<Rightarrow> dstate \<Rightarrow> dresult" where
  "decode_locked_body b lock code =
     decode_seq
       [opcode_pair code, set_sizes default_operand_size default_address_size,
        with_inst (\<lambda>i. i\<lparr>di_has_lock_prefix := lock\<rparr>),
        by_opcode (\<lambda>opc. opc = b)
          (decode_seq [with_inst (\<lambda>i. i\<lparr>di_operand_size := 8\<rparr>), decode_modrm_lockable lock code])
          (by_opcode (\<lambda>opc. opc = b + 1) (decode_modrm_lockable lock code) (ud_if True)),
        note_inst_size]"

definition decode_modrm_xadd :: "bool \<Rightarrow> u8 list \<Rightarrow> dstate \<Rightarrow> dresult" where
  "decode_modrm_xadd = decode_modrm_lockable"
definition decode_xadd_instruction ::
  "CPU_CONTEXT \<Rightarrow> u8 list \<Rightarrow> DecodedInstruction \<times> CPU_CONTEXT" where
  "decode_xadd_instruction = decode_with apply_rex_byte id (decode_locked_body 0xC0)"
definition execute_xadd_with_decoded ::
  "callbacks \<Rightarrow> cpueaxh_engine \<Rightarrow> DecodedInstruction \<Rightarrow> cpueaxh_engine option" where
  "execute_xadd_with_decoded cb e inst =
     xadd_rm_reg cb e (di_modrm inst) (di_mem_address inst) (di_operand_size inst) (di_has_lock_prefix inst)"
definition execute_xadd ::
  "callbacks \<Rightarrow> cpueaxh_engine \<Rightarrow> u8 list \<Rightarrow> cpueaxh_engine option" where
  "execute_xadd = execute_decoding_opt decode_xadd_instruction execute_xadd_with_decoded"
definition execute_xadd_fast ::
  "callbacks \<Rightarrow> cpueaxh_engine \<Rightarrow> DecodedInst \<Rightarrow> cpueaxh_engine option" where
  "execute_xadd_fast = execute_cached_recompute execute_xadd_with_decoded"

subsection \<open>CMPXCHG\<close>

definition decode_cmpxchg_reg_index :: "CPU_CONTEXT \<Rightarrow> u8 \<Rightarrow> nat" where
  "decode_cmpxchg_reg_index = reg_index"
definition decode_cmpxchg_rm_index :: "CPU_CONTEXT \<Rightarrow> u8 \<Rightarrow> nat" where
  "decode_cmpxchg_rm_index = rm_index"
definition read_cmpxchg_reg_operand ::
  "nat \<Rightarrow> int \<Rightarrow> cpueaxh_engine \<Rightarrow> u64 \<times> cpueaxh_engine" where
  [insn_defs]: "read_cmpxchg_reg_operand = read_reg_sized"
definition write_cmpxchg_reg_operand ::
  "nat \<Rightarrow> int \<Rightarrow> u64 \<Rightarrow> cpueaxh_engine \<Rightarrow> cpueaxh_engine" where
  [insn_defs]: "write_cmpxchg_reg_operand = write_reg_sized"
definition read_cmpxchg_rm_operand ::
  "callbacks \<Rightarrow> u8 \<Rightarrow> u64 \<Rightarrow> int \<Rightarrow> cpueaxh_engine \<Rightarrow> u64 \<times> cpueaxh_engine" where
  [insn_defs]: "read_cmpxchg_rm_operand = read_rm_sized"
definition write_cmpxchg_rm_operand ::
  "callbacks \<Rightarrow> u8 \<Rightarrow> u64 \<Rightarrow> int \<Rightarrow> u64 \<Rightarrow> cpueaxh_engine \<Rightarrow> cpueaxh_engine" where
  [insn_defs]: "write_cmpxchg_rm_operand = write_rm_sized"
definition read_cmpxchg_accumulator :: "int \<Rightarrow> cpueaxh_engine \<Rightarrow> u64 \<times> cpueaxh_engine" where
  [insn_defs]: "read_cmpxchg_accumulator = read_reg_sized REG_RAX"
definition write_cmpxchg_accumulator :: "int \<Rightarrow> u64 \<Rightarrow> cpueaxh_engine \<Rightarrow> cpueaxh_engine" where
  [insn_defs]: "write_cmpxchg_accumulator = write_reg_sized REG_RAX"

definition cmpxchg_update_flags :: "CPU_CONTEXT \<Rightarrow> int \<Rightarrow> u64 \<Rightarrow> u64 \<Rightarrow> CPU_CONTEXT" where
  "cmpxchg_update_flags c operand_size accumulator_value dst_value =
     (if operand_size = 8
      then let lhs = ucast accumulator_value :: u8; rhs = ucast dst_value :: u8
           in update_flags_sub8 c lhs rhs (ucast lhs - ucast rhs)
      else if operand_size = 16
      then let lhs = ucast accumulator_value :: u16; rhs = ucast dst_value :: u16
           in update_flags_sub16 c lhs rhs (ucast lhs - ucast rhs)
      else if operand_size = 32
      then let lhs = ucast accumulator_value :: u32; rhs = ucast dst_value :: u32
           in update_flags_sub32 c lhs rhs (ucast lhs - ucast rhs)
      else if operand_size = 64
      then update_flags_sub64 c accumulator_value dst_value (accumulator_value - dst_value)
      else raise_ud_ctx c)"

definition cmpxchg_rm_reg :: "callbacks \<Rightarrow> cpueaxh_engine \<Rightarrow> u8 \<Rightarrow> u64 \<Rightarrow> int \<Rightarrow> bool \<Rightarrow> cpueaxh_engine option" where
  "cmpxchg_rm_reg cb e modrm mem_addr operand_size has_lock_prefix =
     (case read_reg_sized (reg_index (cpu_ctx e) modrm) operand_size e of
        (src_value, e1) \<Rightarrow>
          case read_cmpxchg_accumulator operand_size e1 of
            (accumulator_value, e2) \<Rightarrow>
              let flags = (\<lambda>dst_value. on_ctx (\<lambda>c. cmpxchg_update_flags c operand_size accumulator_value dst_value))
              in if has_lock_prefix \<and> modrm_mod modrm \<noteq> 3
                 then case cpu_atomic_compare_exchange_memory cb e2 mem_addr operand_size accumulator_value src_value of
                        None \<Rightarrow> None
                      | Some (_, previous, e3) \<Rightarrow>
                          let dst_value = (case previous of None \<Rightarrow> 0 | Some v \<Rightarrow> v)
                          in Some (if cpu_has_exception (cpu_ctx e3) then e3
                                   else if accumulator_value \<noteq> dst_value
                                   then write_cmpxchg_accumulator operand_size dst_value (flags dst_value e3)
                                   else flags dst_value e3)
                 else case read_rm_sized cb modrm mem_addr operand_size e2 of
                        (dst_value, e3) \<Rightarrow>
                          Some (if cpu_has_exception (cpu_ctx e3) then e3
                                else if accumulator_value = dst_value
                                then write_rm_sized cb modrm mem_addr operand_size src_value (flags dst_value e3)
                                else write_cmpxchg_accumulator operand_size dst_value (flags dst_value e3)))"

definition decode_modrm_cmpxchg :: "bool \<Rightarrow> u8 list \<Rightarrow> dstate \<Rightarrow> dresult" where
  "decode_modrm_cmpxchg = decode_modrm_lockable"
definition decode_cmpxchg_instruction ::
  "CPU_CONTEXT \<Rightarrow> u8 list \<Rightarrow> DecodedInstruction \<times> CPU_CONTEXT" where
  "decode_cmpxchg_instruction = decode_with apply_rex_byte id (decode_locked_body 0xB0)"
definition execute_cmpxchg_with_decoded ::
  "callbacks \<Rightarrow> cpueaxh_engine \<Rightarrow> DecodedInstruction \<Rightarrow> cpueaxh_engine option" where
  "execute_cmpxchg_with_decoded cb e inst =
     cmpxchg_rm_reg cb e (di_modrm inst) (di_mem_address inst) (di_operand_size inst) (di_has_lock_prefix inst)"
definition execute_cmpxchg ::
  "callbacks \<Rightarrow> cpueaxh_engine \<Rightarrow> u8 list \<Rightarrow> cpueaxh_engine option" where
  "execute_cmpxchg = execute_decoding_opt decode_cmpxchg_instruction execute_cmpxchg_with_decoded"
definition execute_cmpxchg_fast ::
  "callbacks \<Rightarrow> cpueaxh_engine \<Rightarrow> DecodedInst \<Rightarrow> cpueaxh_engine option" where
  "execute_cmpxchg_fast = execute_cached_recompute execute_cmpxchg_with_decoded"

subsection \<open>CMPXCHG8B and CMPXCHG16B\<close>

definition decode_cmpxchg8b16b_group :: "u8 \<Rightarrow> u8" where "decode_cmpxchg8b16b_group = modrm_reg"

definition cpu_has_cmpxchg16b_feature :: "host_cpuid \<Rightarrow> bool" where
  "cpu_has_cmpxchg16b_feature cpuid = (case cpuid 1 0 of (eax, ebx, ecx, edx) \<Rightarrow> ecx AND push_bit 13 1 \<noteq> 0)"

text \<open>
  Another group or a register operand raises #UD, and the rest of the operand is read all the same; a
  register operand with the number 4 reads a SIB byte too.
\<close>

definition decode_modrm_cmpxchg8b16b :: "u8 list \<Rightarrow> dstate \<Rightarrow> dresult" where
  "decode_modrm_cmpxchg8b16b code s =
     (case s of (inst, offset, ctx) \<Rightarrow>
        if length code \<le> offset then Inr (inst, offset, raise_gp_ctx ctx 0)
        else
          let modrm = code ! offset; md = modrm_mod modrm; rm = modrm_rm modrm;
              ctx1 = (if decode_cmpxchg8b16b_group modrm \<noteq> 1 then raise_ud_ctx ctx else ctx);
              ctx2 = (if md = 3 then raise_ud_ctx ctx1 else ctx1);
              inst1 = inst\<lparr>di_has_modrm := True, di_modrm := modrm\<rparr>;
              has_sib = (rm = 4 \<and> di_address_size inst \<noteq> 16)
          in if has_sib \<and> length code \<le> offset + 1 then Inr (inst1, offset + 1, raise_gp_ctx ctx2 0)
             else
               let inst2 = (if has_sib then inst1\<lparr>di_has_sib := True, di_sib := code ! (offset + 1)\<rparr> else inst1);
                   n = (if has_sib then offset + 2 else offset + 1);
                   k = modrm_disp_size modrm (di_address_size inst) has_sib (di_sib inst2);
                   inst3 = inst2\<lparr>di_disp_size := int k\<rparr>
               in if length code < n + k then Inr (inst3, n, raise_gp_ctx ctx2 0)
                  else
                    let inst4 = (if k > 0 then inst3\<lparr>di_displacement := modrm_displacement (take k (drop n code))\<rparr> else inst3)
                    in case get_effective_address ctx2 modrm (Some (di_sib inst4)) (di_displacement inst4) (di_address_size inst4) 0 of
                         (a, ctx3) \<Rightarrow> Inr (inst4\<lparr>di_mem_address := a\<rparr>, n + k, ctx3))"

text \<open>The alignment is tested, and the feature asked for, before the address of a RIP-relative operand is final.\<close>

definition check_cmpxchg16b :: "host_cpuid \<Rightarrow> dstate \<Rightarrow> dresult" where
  "check_cmpxchg16b cpuid s =
     (case s of (inst, offset, ctx) \<Rightarrow>
        if di_operand_size inst = 128 \<and> (di_mem_address inst AND 0x0F \<noteq> 0 \<or> \<not> cpu_has_cmpxchg16b_feature cpuid)
        then Inl (inst, raise_gp_ctx ctx 0) else Inr s)"

definition decode_cmpxchg8b16b_instruction :: "host_cpuid \<Rightarrow> CPU_CONTEXT \<Rightarrow> u8 list \<Rightarrow> DecodedInstruction \<times> CPU_CONTEXT" where
  "decode_cmpxchg8b16b_instruction cpuid =
     decode_with apply_rex_byte id
       (\<lambda>lock code. decode_seq
          [opcode_pair code, by_opcode (\<lambda>opc. opc = 0xC7) Inr (ud_if True),
           set_sizes (\<lambda>c. if rex_w c then 128 else 64) default_address_size,
           decode_modrm_cmpxchg8b16b code, check_cmpxchg16b cpuid, note_inst_size])"

definition execute_cmpxchg8b_memory :: "callbacks \<Rightarrow> cpueaxh_engine \<Rightarrow> u64 \<Rightarrow> cpueaxh_engine" where
  "execute_cmpxchg8b_memory cb e mem_address =
     (case read_memory_qword cb e mem_address of
        (destination, e1) \<Rightarrow>
          let c = cpu_ctx e1; pair = (\<lambda>hi lo. push_bit 32 (ucast (get_reg32 c hi)) OR ucast (get_reg32 c lo) :: u64)
          in if destination = pair REG_RDX REG_RAX
             then on_ctx (\<lambda>c. set_flag c RFLAGS_ZF True) (write_memory_qword cb e1 mem_address (pair REG_RCX REG_RBX))
             else on_ctx (\<lambda>c. set_flag (set_reg32 (set_reg32 c REG_RAX (ucast destination)) REG_RDX
                                (ucast (drop_bit 32 destination))) RFLAGS_ZF False) e1)"

definition execute_cmpxchg16b_memory :: "callbacks \<Rightarrow> cpueaxh_engine \<Rightarrow> u64 \<Rightarrow> cpueaxh_engine" where
  "execute_cmpxchg16b_memory cb e mem_address =
     (case read_xmm_memory cb e mem_address of
        (destination, e1) \<Rightarrow>
          let c = cpu_ctx e1
          in if xmm_low destination = get_reg64 c REG_RAX \<and> xmm_high destination = get_reg64 c REG_RDX
             then on_ctx (\<lambda>c. set_flag c RFLAGS_ZF True)
                    (write_xmm_memory cb e1 mem_address \<lparr>xmm_low = get_reg64 c REG_RBX, xmm_high = get_reg64 c REG_RCX\<rparr>)
             else on_ctx (\<lambda>c. set_flag (set_reg64 (set_reg64 c REG_RAX (xmm_low destination)) REG_RDX
                                (xmm_high destination)) RFLAGS_ZF False) e1)"

definition execute_cmpxchg8b16b :: "host_cpuid \<Rightarrow> callbacks \<Rightarrow> cpueaxh_engine \<Rightarrow> u8 list \<Rightarrow> cpueaxh_engine" where
  "execute_cmpxchg8b16b cpuid =
     execute_decoding (decode_cmpxchg8b16b_instruction cpuid)
       (\<lambda>cb e inst. if di_operand_size inst = 128 then execute_cmpxchg16b_memory cb e (di_mem_address inst)
                    else if di_operand_size inst = 64 then execute_cmpxchg8b_memory cb e (di_mem_address inst)
                    else on_ctx raise_ud_ctx e)"

subsection \<open>Replaying\<close>

lemma decode_step_opcode_pair [decode_steps]: "decode_step (opcode_pair code) False"
proof -
  have s: "static_update (\<lambda>i. i\<lparr>di_opcode := v\<rparr>)" for v :: u8 by (simp add: static_update_def)
  show ?thesis
    by unfold_locales
       (auto simp: opcode_pair_def static_update_addressed [OF s] static_update_modrm [OF s]
         static_update_same [OF s] split: if_splits)
qed

lemma decode_xchg_step: "decode_step (decode_xchg_body lock code) True"
  unfolding decode_xchg_body_def decode_modrm_xchg_def
  by (rule decode_step_weaken, (rule default_sizes_head decode_steps static_updates | (simp; fail))+)

lemma decode_locked_step: "decode_step (decode_locked_body b lock code) True"
  unfolding decode_locked_body_def
  by (rule decode_step_weaken, (rule default_sizes_head decode_steps static_updates | (simp; fail))+)

interpretation xchg_decoder: prefix_decoder apply_rex_byte id decode_xchg_body True decode_xchg_instruction
  by (intro prefix_decoder.intro raw_prefixes.prefix_reader_axioms prefix_decoder_axioms.intro decode_xchg_step)
     (simp add: decode_xchg_instruction_def)
interpretation xadd_decoder: prefix_decoder apply_rex_byte id "decode_locked_body 0xC0" True decode_xadd_instruction
  by (intro prefix_decoder.intro raw_prefixes.prefix_reader_axioms prefix_decoder_axioms.intro decode_locked_step)
     (simp add: decode_xadd_instruction_def)
interpretation cmpxchg_decoder: prefix_decoder apply_rex_byte id "decode_locked_body 0xB0" True decode_cmpxchg_instruction
  by (intro prefix_decoder.intro raw_prefixes.prefix_reader_axioms prefix_decoder_axioms.intro decode_locked_step)
     (simp add: decode_cmpxchg_instruction_def)

end
