(* ===== verification/Stack.thy ===== *)
theory Stack
  imports Exchange
begin

text \<open>
  Stack instructions: PUSH (\<^verbatim>\<open>instructions/push.hpp\<close>), POP (\<^verbatim>\<open>pop.hpp\<close>), PUSHF and POPF (\<^verbatim>\<open>pushf.hpp\<close>), ENTER
  (\<^verbatim>\<open>enter.hpp\<close>) and LEAVE (\<^verbatim>\<open>leave.hpp\<close>). POP reads the stack first and moves the stack pointer last, so that
  a fault on the destination leaves it where it was.
\<close>

unbundle bit_operations_syntax

subsection \<open>Decoders that refuse LOCK at once\<close>

text \<open>The prefix loop of PUSH and POP: 0xF0 raises #UD and ends the decoding.\<close>

fun prefix_loop_stop ::
  "(CPU_CONTEXT \<Rightarrow> u8 \<Rightarrow> bool \<times> CPU_CONTEXT) \<Rightarrow> u8 list \<Rightarrow> nat \<Rightarrow> CPU_CONTEXT \<Rightarrow> CPU_CONTEXT + (nat \<times> CPU_CONTEXT)"
where
  "prefix_loop_stop rex [] offset ctx = Inr (offset, ctx)"
| "prefix_loop_stop rex (prefix # rest) offset ctx =
     (if prefix = 0x66 then prefix_loop_stop rex rest (offset + 1) (ctx\<lparr>operand_size_override := True\<rparr>)
      else if prefix = 0x67 then prefix_loop_stop rex rest (offset + 1) (ctx\<lparr>address_size_override := True\<rparr>)
      else
        case rex ctx prefix of
          (True, ctx1) \<Rightarrow> prefix_loop_stop rex rest (offset + 1) ctx1
        | (False, ctx1) \<Rightarrow>
            if prefix = 0xF0 then Inl (raise_ud_ctx ctx1)
            else if prefix \<in> {0x26, 0x2E, 0x36, 0x3E, 0x64, 0x65, 0xF2, 0xF3}
            then prefix_loop_stop rex rest (offset + 1) ctx1
            else Inr (offset, ctx1))"

definition decode_no_lock ::
  "(u8 list \<Rightarrow> dstate \<Rightarrow> dresult) \<Rightarrow> CPU_CONTEXT \<Rightarrow> u8 list \<Rightarrow> DecodedInstruction \<times> CPU_CONTEXT" where
  "decode_no_lock f ctx code =
     (case prefix_loop_stop cpu_try_apply_rex_prefix code 0 (cpu_reset_prefix_state ctx) of
        Inl c \<Rightarrow> (zero_decoded_instruction, c)
      | Inr (offset, c) \<Rightarrow> decode_finish (f code (zero_decoded_instruction, offset, c)))"

text \<open>The operand size of stack and branch instructions: 64 bits in 64-bit code unless 0x66 makes it 16.\<close>

definition stack_operand_size :: "CPU_CONTEXT \<Rightarrow> int" where
  "stack_operand_size c =
     (if cpu_is_64bit_code c then (if operand_size_override c then 16 else 64) else default_operand_size c)"

text \<open>A change of the instruction that depends on the context.\<close>

definition with_inst_ctx :: "(CPU_CONTEXT \<Rightarrow> DecodedInstruction \<Rightarrow> DecodedInstruction) \<Rightarrow> dstate \<Rightarrow> dresult" where
  "with_inst_ctx g s = (case s of (inst, offset, ctx) \<Rightarrow> Inr (g ctx inst, offset, ctx))"

definition widen_64 :: "CPU_CONTEXT \<Rightarrow> DecodedInstruction \<Rightarrow> DecodedInstruction" where
  "widen_64 c i = (if cpu_is_64bit_code c \<and> di_operand_size i = 32 then i\<lparr>di_operand_size := 64\<rparr> else i)"

definition by_width :: "int \<Rightarrow> 'a \<Rightarrow> 'a \<Rightarrow> 'a \<Rightarrow> 'a" where
  "by_width operand_size x64 x16 x32 = (if operand_size = 64 then x64 else if operand_size = 16 then x16 else x32)"

subsection \<open>PUSH\<close>

definition push_rm16 ::
  "callbacks \<Rightarrow> cpueaxh_engine \<Rightarrow> u8 \<Rightarrow> u64 \<Rightarrow> cpueaxh_engine" where
  [insn_defs]: "push_rm16 cb e modrm mem_addr =
     (if modrm_mod modrm = 3 then push_value16 cb e (get_reg16 (cpu_ctx e) (rm_index (cpu_ctx e) modrm))
      else case read_memory_word cb e mem_addr of
             (v, e1) \<Rightarrow> if cpu_has_exception (cpu_ctx e1) then e1 else push_value16 cb e1 v)"
definition push_rm32 ::
  "callbacks \<Rightarrow> cpueaxh_engine \<Rightarrow> u8 \<Rightarrow> u64 \<Rightarrow> cpueaxh_engine" where
  [insn_defs]: "push_rm32 cb e modrm mem_addr =
     (if modrm_mod modrm = 3 then push_value32 cb e (get_reg32 (cpu_ctx e) (rm_index (cpu_ctx e) modrm))
      else case read_memory_dword cb e mem_addr of
             (v, e1) \<Rightarrow> if cpu_has_exception (cpu_ctx e1) then e1 else push_value32 cb e1 v)"
definition push_rm64 ::
  "callbacks \<Rightarrow> cpueaxh_engine \<Rightarrow> u8 \<Rightarrow> u64 \<Rightarrow> cpueaxh_engine" where
  [insn_defs]: "push_rm64 cb e modrm mem_addr =
     (if modrm_mod modrm = 3 then push_value64 cb e (get_reg64 (cpu_ctx e) (rm_index (cpu_ctx e) modrm))
      else case read_memory_qword cb e mem_addr of
             (v, e1) \<Rightarrow> if cpu_has_exception (cpu_ctx e1) then e1 else push_value64 cb e1 v)"
definition push_r16 :: "callbacks \<Rightarrow> cpueaxh_engine \<Rightarrow> nat \<Rightarrow> cpueaxh_engine" where
  [insn_defs]: "push_r16 cb e r = push_value16 cb e (get_reg16 (cpu_ctx e) r)"
definition push_r32 :: "callbacks \<Rightarrow> cpueaxh_engine \<Rightarrow> nat \<Rightarrow> cpueaxh_engine" where
  [insn_defs]: "push_r32 cb e r = push_value32 cb e (get_reg32 (cpu_ctx e) r)"
definition push_r64 :: "callbacks \<Rightarrow> cpueaxh_engine \<Rightarrow> nat \<Rightarrow> cpueaxh_engine" where
  [insn_defs]: "push_r64 cb e r = push_value64 cb e (get_reg64 (cpu_ctx e) r)"
definition push_imm8_16 ::
  "callbacks \<Rightarrow> cpueaxh_engine \<Rightarrow> u8 \<Rightarrow> cpueaxh_engine" where
  [insn_defs]: "push_imm8_16 cb e imm = push_value16 cb e (scast imm)"
definition push_imm8_32 ::
  "callbacks \<Rightarrow> cpueaxh_engine \<Rightarrow> u8 \<Rightarrow> cpueaxh_engine" where
  [insn_defs]: "push_imm8_32 cb e imm = push_value32 cb e (scast imm)"
definition push_imm8_64 ::
  "callbacks \<Rightarrow> cpueaxh_engine \<Rightarrow> u8 \<Rightarrow> cpueaxh_engine" where
  [insn_defs]: "push_imm8_64 cb e imm = push_value64 cb e (scast imm)"
definition push_imm16 :: "callbacks \<Rightarrow> cpueaxh_engine \<Rightarrow> u16 \<Rightarrow> cpueaxh_engine" where
  [insn_defs]: "push_imm16 cb e imm = push_value16 cb e imm"
definition push_imm32_32 ::
  "callbacks \<Rightarrow> cpueaxh_engine \<Rightarrow> u32 \<Rightarrow> cpueaxh_engine" where
  [insn_defs]: "push_imm32_32 cb e imm = push_value32 cb e imm"
definition push_imm32_64 ::
  "callbacks \<Rightarrow> cpueaxh_engine \<Rightarrow> u32 \<Rightarrow> cpueaxh_engine" where
  [insn_defs]: "push_imm32_64 cb e imm = push_value64 cb e (scast imm)"
definition push_sreg16 ::
  "callbacks \<Rightarrow> cpueaxh_engine \<Rightarrow> int \<Rightarrow> cpueaxh_engine" where
  [insn_defs]: "push_sreg16 cb e seg_index =
     (case get_segment_register (cpu_ctx e) seg_index of (sreg, c) \<Rightarrow> push_value16 cb (e\<lparr>cpu_ctx := c\<rparr>) (sr_selector sreg))"
definition push_sreg32 ::
  "callbacks \<Rightarrow> cpueaxh_engine \<Rightarrow> int \<Rightarrow> cpueaxh_engine" where
  [insn_defs]: "push_sreg32 cb e seg_index =
     (case get_segment_register (cpu_ctx e) seg_index of (sreg, c) \<Rightarrow> push_value32 cb (e\<lparr>cpu_ctx := c\<rparr>) (ucast (sr_selector sreg)))"
definition push_sreg64 ::
  "callbacks \<Rightarrow> cpueaxh_engine \<Rightarrow> int \<Rightarrow> cpueaxh_engine" where
  [insn_defs]: "push_sreg64 cb e seg_index =
     (case get_segment_register (cpu_ctx e) seg_index of (sreg, c) \<Rightarrow> push_value64 cb (e\<lparr>cpu_ctx := c\<rparr>) (ucast (sr_selector sreg)))"

definition decode_modrm_push :: "u8 list \<Rightarrow> dstate \<Rightarrow> dresult" where
  "decode_modrm_push = decode_modrm_plain"

definition decode_push_imm :: "u8 list \<Rightarrow> dstate \<Rightarrow> dresult" where
  "decode_push_imm code = when_ctx operand_size_override (decode_imm 2 code) (decode_imm 4 code)"

text \<open>
  The two-byte opcodes of FS and GS: they are recognised later by the immediate size 15; \<open>has_modrm\<close>,
  which the source clears there, is clear already.
\<close>

definition decode_two_byte_sreg :: "u8 \<Rightarrow> u8 \<Rightarrow> u8 list \<Rightarrow> dstate \<Rightarrow> dresult" where
  "decode_two_byte_sreg f g code =
     decode_seq [next_opcode code, by_opcode (\<lambda>opc. opc = f \<or> opc = g) Inr (ud_if True),
                 with_inst (\<lambda>i. i\<lparr>di_imm_size := 0x0F\<rparr>)]"

definition decode_push_body :: "u8 list \<Rightarrow> dstate \<Rightarrow> dresult" where
  "decode_push_body code =
     decode_seq
       [next_opcode code, set_sizes stack_operand_size override_address_size,
        by_opcode (\<lambda>opc. opc = 0xFF) (decode_seq [decode_modrm_push code, ud_unless_group 6, with_inst_ctx widen_64])
       (by_opcode (\<lambda>opc. 0x50 \<le> opc \<and> opc \<le> 0x57) (with_inst_ctx widen_64)
       (by_opcode (\<lambda>opc. opc = 0x6A) (decode_imm 1 code)
       (by_opcode (\<lambda>opc. opc = 0x68) (decode_push_imm code)
       (by_opcode (\<lambda>opc. opc = 0x0E \<or> opc = 0x16 \<or> opc = 0x1E \<or> opc = 0x06) (ud_when (\<lambda>_. cpu_is_64bit_code))
       (by_opcode (\<lambda>opc. opc = 0x0F) (decode_two_byte_sreg 0xA0 0xA8 code)
          (ud_if True))))))]"

definition decode_push_instruction ::
  "CPU_CONTEXT \<Rightarrow> u8 list \<Rightarrow> DecodedInstruction \<times> CPU_CONTEXT" where
  "decode_push_instruction = decode_no_lock decode_push_body"
definition sreg_by_mode ::
  "(callbacks \<Rightarrow> cpueaxh_engine \<Rightarrow> int \<Rightarrow> cpueaxh_engine) \<Rightarrow> (callbacks \<Rightarrow> cpueaxh_engine \<Rightarrow> int \<Rightarrow> cpueaxh_engine) \<Rightarrow>
   (callbacks \<Rightarrow> cpueaxh_engine \<Rightarrow> int \<Rightarrow> cpueaxh_engine) \<Rightarrow> callbacks \<Rightarrow> cpueaxh_engine \<Rightarrow> int \<Rightarrow> cpueaxh_engine" where
  "sreg_by_mode f16 f32 f64 cb e seg =
     (if operand_size_override (cpu_ctx e) then f16 cb e seg
      else if cpu_is_64bit_code (cpu_ctx e) then f64 cb e seg else f32 cb e seg)"

definition execute_push_with_decoded :: "callbacks \<Rightarrow> cpueaxh_engine \<Rightarrow> DecodedInstruction \<Rightarrow> cpueaxh_engine" where
  "execute_push_with_decoded cb e inst =
     (let opc = di_opcode inst; m = di_modrm inst; a = di_mem_address inst; imm = di_immediate inst;
          sized = by_width (di_operand_size inst);
          sreg = (\<lambda>seg. if di_operand_size inst = 16 then push_sreg16 cb e seg else push_sreg32 cb e seg)
      in if di_imm_size inst = 0x0F
         then sreg_by_mode push_sreg16 push_sreg32 push_sreg64 cb e (if opc = 0xA0 then SEG_FS else SEG_GS)
         else if opc = 0xFF then sized (push_rm64 cb e m a) (push_rm16 cb e m a) (push_rm32 cb e m a)
         else if 0x50 \<le> opc \<and> opc \<le> 0x57
         then let r = opcode_reg_index (cpu_ctx e) (opc - 0x50)
              in sized (push_r64 cb e r) (push_r16 cb e r) (push_r32 cb e r)
         else if opc = 0x6A
         then sized (push_imm8_64 cb e (ucast imm)) (push_imm8_16 cb e (ucast imm)) (push_imm8_32 cb e (ucast imm))
         else if opc = 0x68
         then sized (push_imm32_64 cb e (ucast imm)) (push_imm16 cb e (ucast imm)) (push_imm32_32 cb e (ucast imm))
         else if opc = 0x0E then sreg SEG_CS else if opc = 0x16 then sreg SEG_SS
         else if opc = 0x1E then sreg SEG_DS else if opc = 0x06 then sreg SEG_ES
         else e)"

definition execute_push ::
  "callbacks \<Rightarrow> cpueaxh_engine \<Rightarrow> u8 list \<Rightarrow> cpueaxh_engine" where
  "execute_push = execute_decoding decode_push_instruction execute_push_with_decoded"
definition execute_push_fast ::
  "callbacks \<Rightarrow> cpueaxh_engine \<Rightarrow> DecodedInst \<Rightarrow> cpueaxh_engine" where
  "execute_push_fast = execute_cached execute_push_with_decoded"

subsection \<open>POP\<close>

definition stack_value_bytes :: "int \<Rightarrow> nat" where
  "stack_value_bytes operand_size = (if operand_size = 16 then 2 else if operand_size = 32 then 4 else 8)"

definition pop_peek_stack_value ::
  "callbacks \<Rightarrow> cpueaxh_engine \<Rightarrow> int \<Rightarrow> (u64 \<times> u64) option \<times> cpueaxh_engine" where
  "pop_peek_stack_value cb e operand_size =
     (case peek_stack_values cb e (stack_value_bytes operand_size) 1 of
        (None, e1) \<Rightarrow> (None, e1)
      | (Some (vs, final_sp), e1) \<Rightarrow> (Some (hd vs, final_sp), e1))"

definition pop_commit_stack_pointer :: "u64 \<Rightarrow> CPU_CONTEXT \<Rightarrow> CPU_CONTEXT" where
  "pop_commit_stack_pointer final_sp c = cpu_set_stack_pointer_value c (get_stack_addr_size c) final_sp"

definition pop_write_memory_value ::
  "callbacks \<Rightarrow> cpueaxh_engine \<Rightarrow> u64 \<Rightarrow> int \<Rightarrow> u64 \<Rightarrow> bool \<times> cpueaxh_engine" where
  "pop_write_memory_value cb e mem_addr operand_size v =
     (let n = stack_value_bytes operand_size
      in case cpu_resolve_stack_slot_write cb e mem_addr n v of
           (None, e1) \<Rightarrow> (False, e1)
         | (Some ptrs, e1) \<Rightarrow>
             (True, cpu_commit_stack_slot_write cb e1 mem_addr (cpu_store_stack_value_le n v) n v ptrs))"

text \<open>
  The destination is addressed with the stack pointer already moved. The length of the instruction is
  not passed, so the address of a RIP-relative destination misses it.
\<close>

definition pop_compute_memory_destination_after_stack_advance ::
  "CPU_CONTEXT \<Rightarrow> u8 \<Rightarrow> u8 \<Rightarrow> int \<Rightarrow> int \<Rightarrow> u64 \<Rightarrow> u64 \<times> CPU_CONTEXT" where
  "pop_compute_memory_destination_after_stack_advance ctx modrm sib disp address_size final_sp =
     (let saved_rsp = regs ctx REG_RSP
      in case get_effective_address (cpu_set_stack_pointer_value ctx (get_stack_addr_size ctx) final_sp)
                modrm (Some sib) disp address_size 0 of
           (a, c) \<Rightarrow> (a, c\<lparr>regs := (regs c)(REG_RSP := saved_rsp)\<rparr>))"

definition pop_rm ::
  "int \<Rightarrow> (CPU_CONTEXT \<Rightarrow> nat \<Rightarrow> u64 \<Rightarrow> CPU_CONTEXT) \<Rightarrow>
   callbacks \<Rightarrow> cpueaxh_engine \<Rightarrow> u8 \<Rightarrow> u8 \<Rightarrow> int \<Rightarrow> int \<Rightarrow> cpueaxh_engine" where
  "pop_rm operand_size set_reg cb e modrm sib disp address_size =
     (let rm = rm_index (cpu_ctx e) modrm
      in case pop_peek_stack_value cb e operand_size of
           (None, e1) \<Rightarrow> e1
         | (Some (v, final_sp), e1) \<Rightarrow>
             if modrm_mod modrm = 3 then on_ctx (\<lambda>c. set_reg (pop_commit_stack_pointer final_sp c) rm v) e1
             else case pop_compute_memory_destination_after_stack_advance (cpu_ctx e1) modrm sib disp address_size final_sp of
                    (mem_addr, c) \<Rightarrow>
                      let e2 = e1\<lparr>cpu_ctx := c\<rparr>
                      in if cpu_has_exception c then e2
                         else case pop_write_memory_value cb e2 mem_addr operand_size v of
                                (False, e3) \<Rightarrow> e3
                              | (True, e3) \<Rightarrow> on_ctx (pop_commit_stack_pointer final_sp) e3)"

definition pop_rm16 ::
  "callbacks \<Rightarrow> cpueaxh_engine \<Rightarrow> u8 \<Rightarrow> u8 \<Rightarrow> int \<Rightarrow> int \<Rightarrow> cpueaxh_engine" where
  [insn_defs]: "pop_rm16 = pop_rm 16 (\<lambda>c r v. set_reg16 c r (ucast v))"
definition pop_rm32 ::
  "callbacks \<Rightarrow> cpueaxh_engine \<Rightarrow> u8 \<Rightarrow> u8 \<Rightarrow> int \<Rightarrow> int \<Rightarrow> cpueaxh_engine" where
  [insn_defs]: "pop_rm32 = pop_rm 32 (\<lambda>c r v. set_reg32 c r (ucast v))"
definition pop_rm64 ::
  "callbacks \<Rightarrow> cpueaxh_engine \<Rightarrow> u8 \<Rightarrow> u8 \<Rightarrow> int \<Rightarrow> int \<Rightarrow> cpueaxh_engine" where
  [insn_defs]: "pop_rm64 = pop_rm 64 set_reg64"

definition pop_r ::
  "int \<Rightarrow> (CPU_CONTEXT \<Rightarrow> nat \<Rightarrow> u64 \<Rightarrow> CPU_CONTEXT) \<Rightarrow> callbacks \<Rightarrow> cpueaxh_engine \<Rightarrow> nat \<Rightarrow> cpueaxh_engine" where
  "pop_r operand_size set_reg cb e r =
     (case pop_peek_stack_value cb e operand_size of
        (None, e1) \<Rightarrow> e1
      | (Some (v, final_sp), e1) \<Rightarrow> on_ctx (\<lambda>c. set_reg (pop_commit_stack_pointer final_sp c) r v) e1)"

definition pop_r16 :: "callbacks \<Rightarrow> cpueaxh_engine \<Rightarrow> nat \<Rightarrow> cpueaxh_engine" where
  [insn_defs]: "pop_r16 = pop_r 16 (\<lambda>c r v. set_reg16 c r (ucast v))"
definition pop_r32 :: "callbacks \<Rightarrow> cpueaxh_engine \<Rightarrow> nat \<Rightarrow> cpueaxh_engine" where
  [insn_defs]: "pop_r32 = pop_r 32 (\<lambda>c r v. set_reg32 c r (ucast v))"
definition pop_r64 :: "callbacks \<Rightarrow> cpueaxh_engine \<Rightarrow> nat \<Rightarrow> cpueaxh_engine" where
  [insn_defs]: "pop_r64 = pop_r 64 set_reg64"

definition pop_sreg :: "int \<Rightarrow> callbacks \<Rightarrow> cpueaxh_engine \<Rightarrow> int \<Rightarrow> cpueaxh_engine" where
  "pop_sreg operand_size cb e seg_index =
     (case pop_peek_stack_value cb e operand_size of
        (None, e1) \<Rightarrow> e1
      | (Some (v, final_sp), e1) \<Rightarrow>
          let e2 = load_segment_register cb e1 seg_index (ucast v)
          in if cpu_has_exception (cpu_ctx e2) then e2 else on_ctx (pop_commit_stack_pointer final_sp) e2)"

definition pop_sreg16 :: "callbacks \<Rightarrow> cpueaxh_engine \<Rightarrow> int \<Rightarrow> cpueaxh_engine" where
  [insn_defs]: "pop_sreg16 = pop_sreg 16"
definition pop_sreg32 :: "callbacks \<Rightarrow> cpueaxh_engine \<Rightarrow> int \<Rightarrow> cpueaxh_engine" where
  [insn_defs]: "pop_sreg32 = pop_sreg 32"
definition pop_sreg64 :: "callbacks \<Rightarrow> cpueaxh_engine \<Rightarrow> int \<Rightarrow> cpueaxh_engine" where
  [insn_defs]: "pop_sreg64 = pop_sreg 64"

text \<open>The operand of POP is parsed only; its address is computed when it runs.\<close>

definition decode_modrm_pop :: "u8 list \<Rightarrow> dstate \<Rightarrow> dresult" where
  "decode_modrm_pop code s =
     (case s of (inst, offset, ctx) \<Rightarrow>
        case modrm_parse code inst offset of
          (inst1, offset1, done) \<Rightarrow> Inr (inst1, offset1, if done then ctx else raise_gp_ctx ctx 0))"

definition decode_pop_body :: "u8 list \<Rightarrow> dstate \<Rightarrow> dresult" where
  "decode_pop_body code =
     decode_seq
       [next_opcode code, set_sizes stack_operand_size override_address_size,
        by_opcode (\<lambda>opc. opc = 0x8F) (decode_seq [decode_modrm_pop code, ud_unless_group 0, with_inst_ctx widen_64])
       (by_opcode (\<lambda>opc. 0x58 \<le> opc \<and> opc \<le> 0x5F) (with_inst_ctx widen_64)
       (by_opcode (\<lambda>opc. opc = 0x1F \<or> opc = 0x07 \<or> opc = 0x17) (ud_when (\<lambda>_. cpu_is_64bit_code))
       (by_opcode (\<lambda>opc. opc = 0x0F) (decode_two_byte_sreg 0xA1 0xA9 code)
          (ud_if True))))]"

definition decode_pop_instruction ::
  "CPU_CONTEXT \<Rightarrow> u8 list \<Rightarrow> DecodedInstruction \<times> CPU_CONTEXT" where
  "decode_pop_instruction = decode_no_lock decode_pop_body"
definition execute_pop_with_decoded :: "callbacks \<Rightarrow> cpueaxh_engine \<Rightarrow> DecodedInstruction \<Rightarrow> cpueaxh_engine" where
  "execute_pop_with_decoded cb e inst =
     (let opc = di_opcode inst; m = di_modrm inst; sib = di_sib inst; disp = di_displacement inst; az = di_address_size inst;
          sized = by_width (di_operand_size inst);
          sreg = (\<lambda>seg. if di_operand_size inst = 16 then pop_sreg16 cb e seg else pop_sreg32 cb e seg)
      in if di_imm_size inst = 0x0F
         then sreg_by_mode pop_sreg16 pop_sreg32 pop_sreg64 cb e (if opc = 0xA1 then SEG_FS else SEG_GS)
         else if opc = 0x8F
         then sized (pop_rm64 cb e m sib disp az) (pop_rm16 cb e m sib disp az) (pop_rm32 cb e m sib disp az)
         else if 0x58 \<le> opc \<and> opc \<le> 0x5F
         then let r = opcode_reg_index (cpu_ctx e) (opc - 0x58)
              in sized (pop_r64 cb e r) (pop_r16 cb e r) (pop_r32 cb e r)
         else if opc = 0x1F then sreg SEG_DS else if opc = 0x07 then sreg SEG_ES else if opc = 0x17 then sreg SEG_SS
         else e)"

definition execute_pop ::
  "callbacks \<Rightarrow> cpueaxh_engine \<Rightarrow> u8 list \<Rightarrow> cpueaxh_engine" where
  "execute_pop = execute_decoding decode_pop_instruction execute_pop_with_decoded"
definition execute_pop_fast ::
  "callbacks \<Rightarrow> cpueaxh_engine \<Rightarrow> DecodedInst \<Rightarrow> cpueaxh_engine" where
  "execute_pop_fast = execute_cached execute_pop_with_decoded"

subsection \<open>PUSHF and POPF\<close>

definition PUSHF_RF_BIT :: u64 where "PUSHF_RF_BIT = push_bit 16 1"
definition PUSHF_VM_BIT :: u64 where "PUSHF_VM_BIT = push_bit 17 1"
definition PUSHF_IF_BIT :: u64 where "PUSHF_IF_BIT = push_bit 9 1"
definition PUSHF_IOPL_MASK :: u64 where "PUSHF_IOPL_MASK = push_bit 12 3"
definition PUSHF_VIF_BIT :: u64 where "PUSHF_VIF_BIT = push_bit 19 1"
definition PUSHF_VIP_BIT :: u64 where "PUSHF_VIP_BIT = push_bit 20 1"
definition PUSHF_LOW16_WRITABLE_MASK :: u64 where "PUSHF_LOW16_WRITABLE_MASK = 0x7FD5"
definition PUSHF_EXTENDED_WRITABLE_MASK :: u64 where "PUSHF_EXTENDED_WRITABLE_MASK = 0x247FD5"

definition narrow_stack_size :: "CPU_CONTEXT \<Rightarrow> int" where
  "narrow_stack_size c =
     (if cpu_is_64bit_code c then (if operand_size_override c then 16 else 64) else if operand_size_override c then 16 else 32)"

definition decode_pushf_operand_size :: "CPU_CONTEXT \<Rightarrow> int" where "decode_pushf_operand_size = narrow_stack_size"

definition get_pushf_image :: "CPU_CONTEXT \<Rightarrow> int \<Rightarrow> u64 \<times> CPU_CONTEXT" where
  "get_pushf_image c operand_size =
     (let flags = rflags c AND NOT (PUSHF_RF_BIT OR PUSHF_VM_BIT)
      in if operand_size = 16 then (ucast (ucast flags :: u16), c)
         else if operand_size = 32 then (ucast (ucast flags :: u32), c)
         else if operand_size = 64 then (flags, c) else (0, raise_ud_ctx c))"

definition pushf_value :: "callbacks \<Rightarrow> cpueaxh_engine \<Rightarrow> int \<Rightarrow> u64 \<Rightarrow> cpueaxh_engine" where
  "pushf_value cb e operand_size v =
     (if operand_size = 16 then push_value16 cb e (ucast v) else if operand_size = 32 then push_value32 cb e (ucast v)
      else if operand_size = 64 then push_value64 cb e v else on_ctx raise_ud_ctx e)"

definition popf_value :: "callbacks \<Rightarrow> cpueaxh_engine \<Rightarrow> int \<Rightarrow> u64 \<times> cpueaxh_engine" where
  "popf_value cb e operand_size =
     (if operand_size = 16 then map_prod ucast id (pop_value16 cb e)
      else if operand_size = 32 then map_prod ucast id (pop_value32 cb e)
      else if operand_size = 64 then pop_value64 cb e else (0, on_ctx raise_ud_ctx e))"

definition popf_writable :: "CPU_CONTEXT \<Rightarrow> int \<Rightarrow> u64" where
  "popf_writable c operand_size =
     (let m = (if operand_size = 16 then PUSHF_LOW16_WRITABLE_MASK else PUSHF_EXTENDED_WRITABLE_MASK);
          iopl = drop_bit 12 (rflags c) AND 3;
          m1 = (if control_regs c 0 AND 1 \<noteq> 0 \<and> cpl c \<noteq> 0
                then let m1 = m AND NOT PUSHF_IOPL_MASK in if ucast (cpl c) > iopl then m1 AND NOT PUSHF_IF_BIT else m1
                else m)
      in m1 AND NOT (PUSHF_RF_BIT OR PUSHF_VM_BIT OR PUSHF_VIF_BIT OR PUSHF_VIP_BIT))"

definition write_popf_flags :: "CPU_CONTEXT \<Rightarrow> int \<Rightarrow> u64 \<Rightarrow> CPU_CONTEXT" where
  "write_popf_flags c operand_size v =
     (let m = popf_writable c operand_size;
          c1 = (if operand_size \<in> {16, 32, 64} then c\<lparr>rflags := (rflags c AND NOT m) OR (v AND m)\<rparr> else raise_ud_ctx c)
      in c1\<lparr>rflags := rflags c1 AND NOT PUSHF_RF_BIT\<rparr>)"

definition decode_pushf_body :: "bool \<Rightarrow> u8 list \<Rightarrow> dstate \<Rightarrow> dresult" where
  "decode_pushf_body lock code =
     decode_seq [next_opcode code, by_opcode (\<lambda>opc. opc = 0x9C \<or> opc = 0x9D) Inr (ud_if True), ud_if lock,
                 set_sizes decode_pushf_operand_size get_stack_addr_size, note_inst_size]"

definition decode_pushf_instruction ::
  "CPU_CONTEXT \<Rightarrow> u8 list \<Rightarrow> DecodedInstruction \<times> CPU_CONTEXT" where
  "decode_pushf_instruction = decode_with cpu_try_apply_rex_prefix id decode_pushf_body"
definition execute_pushf_with_decoded :: "callbacks \<Rightarrow> cpueaxh_engine \<Rightarrow> DecodedInstruction \<Rightarrow> cpueaxh_engine" where
  "execute_pushf_with_decoded cb e inst =
     (let n = di_operand_size inst
      in if di_opcode inst = 0x9C
         then case get_pushf_image (cpu_ctx e) n of (v, c) \<Rightarrow> pushf_value cb (e\<lparr>cpu_ctx := c\<rparr>) n v
         else case popf_value cb e n of
                (v, e1) \<Rightarrow> if cpu_has_exception (cpu_ctx e1) then e1 else on_ctx (\<lambda>c. write_popf_flags c n v) e1)"

definition execute_pushf ::
  "callbacks \<Rightarrow> cpueaxh_engine \<Rightarrow> u8 list \<Rightarrow> cpueaxh_engine" where
  "execute_pushf = execute_decoding decode_pushf_instruction execute_pushf_with_decoded"
definition execute_pushf_fast ::
  "callbacks \<Rightarrow> cpueaxh_engine \<Rightarrow> DecodedInst \<Rightarrow> cpueaxh_engine" where
  "execute_pushf_fast = execute_cached execute_pushf_with_decoded"

subsection \<open>LEAVE\<close>

definition frame_stack_size :: "CPU_CONTEXT \<Rightarrow> int" where
  "frame_stack_size c =
     (if cpu_is_64bit_code c then (if address_size_override c then 32 else 64)
      else let default_size = (if sd_db (sr_descriptor (ss c)) then 32 else 16)
           in if address_size_override c then (if default_size = 32 then 16 else 32) else default_size)"

definition decode_leave_operand_size :: "CPU_CONTEXT \<Rightarrow> int" where "decode_leave_operand_size = narrow_stack_size"
definition decode_leave_stack_addr_size :: "CPU_CONTEXT \<Rightarrow> int" where "decode_leave_stack_addr_size = frame_stack_size"

definition frame_pointer :: "u64 \<Rightarrow> int \<Rightarrow> u64" where
  "frame_pointer v n = (if n = 64 then v else if n = 32 then ucast (ucast (v AND 0xFFFFFFFF) :: u32)
                        else ucast (ucast (v AND 0xFFFF) :: u16))"

definition leave_get_frame_pointer_value :: "CPU_CONTEXT \<Rightarrow> int \<Rightarrow> u64" where
  "leave_get_frame_pointer_value c n = frame_pointer (regs c REG_RBP) n"

definition decode_leave_body :: "bool \<Rightarrow> u8 list \<Rightarrow> dstate \<Rightarrow> dresult" where
  "decode_leave_body lock code =
     decode_seq [next_opcode code, by_opcode (\<lambda>opc. opc = 0xC9) Inr (ud_if True), ud_if lock,
                 set_sizes decode_leave_operand_size decode_leave_stack_addr_size, note_inst_size]"

definition decode_leave_instruction ::
  "CPU_CONTEXT \<Rightarrow> u8 list \<Rightarrow> DecodedInstruction \<times> CPU_CONTEXT" where
  "decode_leave_instruction = decode_with cpu_try_apply_rex_prefix id decode_leave_body"
definition set_rbp :: "int \<Rightarrow> u64 \<Rightarrow> CPU_CONTEXT \<Rightarrow> CPU_CONTEXT" where
  "set_rbp operand_size v c =
     (if operand_size = 16 then set_reg16 c REG_RBP (ucast v) else if operand_size = 32 then set_reg32 c REG_RBP (ucast v)
      else set_reg64 c REG_RBP v)"

definition execute_leave_with_decoded :: "callbacks \<Rightarrow> cpueaxh_engine \<Rightarrow> DecodedInstruction \<Rightarrow> cpueaxh_engine" where
  "execute_leave_with_decoded cb e inst =
     (let n = di_operand_size inst; az = di_address_size inst;
          frame_sp = leave_get_frame_pointer_value (cpu_ctx e) az
      in if stack_value_bytes n = 8 \<and> az = 16 then on_ctx (\<lambda>c. raise_gp_ctx c 0) e
         else case read_stack_value cb e frame_sp (stack_value_bytes n) of
                (v, e1) \<Rightarrow>
                  if cpu_has_exception (cpu_ctx e1) then e1
                  else on_ctx (\<lambda>c. set_rbp n v (cpu_set_stack_pointer_value c az
                                (cpu_stack_pointer_add az frame_sp (of_nat (stack_value_bytes n))))) e1)"

definition execute_leave ::
  "callbacks \<Rightarrow> cpueaxh_engine \<Rightarrow> u8 list \<Rightarrow> cpueaxh_engine" where
  "execute_leave = execute_decoding decode_leave_instruction execute_leave_with_decoded"
definition execute_leave_fast ::
  "callbacks \<Rightarrow> cpueaxh_engine \<Rightarrow> DecodedInst \<Rightarrow> cpueaxh_engine" where
  "execute_leave_fast = execute_cached execute_leave_with_decoded"

subsection \<open>ENTER\<close>

definition decode_enter_operand_size :: "CPU_CONTEXT \<Rightarrow> int" where "decode_enter_operand_size = narrow_stack_size"
definition decode_enter_stack_addr_size :: "CPU_CONTEXT \<Rightarrow> int" where "decode_enter_stack_addr_size = frame_stack_size"
definition enter_get_stack_pointer_value :: "CPU_CONTEXT \<Rightarrow> int \<Rightarrow> u64" where
  "enter_get_stack_pointer_value = cpu_get_stack_pointer_value"
definition enter_set_stack_pointer_value :: "CPU_CONTEXT \<Rightarrow> int \<Rightarrow> u64 \<Rightarrow> CPU_CONTEXT" where
  "enter_set_stack_pointer_value = cpu_set_stack_pointer_value"
definition enter_get_frame_pointer_address_from_value :: "u64 \<Rightarrow> int \<Rightarrow> u64" where
  "enter_get_frame_pointer_address_from_value = frame_pointer"
definition enter_sub_stack_pointer_value :: "int \<Rightarrow> u64 \<Rightarrow> u64 \<Rightarrow> u64" where
  "enter_sub_stack_pointer_value = cpu_stack_pointer_sub"

definition enter_sub_frame_pointer_value :: "u64 \<Rightarrow> int \<Rightarrow> u64" where
  "enter_sub_frame_pointer_value rbp operand_size =
     (if operand_size = 16 then (rbp AND NOT 0xFFFF) OR ucast ((ucast (rbp AND 0xFFFF) :: u16) - 2)
      else if operand_size = 32 then (rbp AND NOT 0xFFFFFFFF) OR ucast ((ucast (rbp AND 0xFFFFFFFF) :: u32) - 4)
      else rbp - 8)"

definition enter_read_frame_value :: "callbacks \<Rightarrow> cpueaxh_engine \<Rightarrow> int \<Rightarrow> int \<Rightarrow> u64 \<Rightarrow> u64 \<times> cpueaxh_engine" where
  "enter_read_frame_value cb e operand_size stack_addr_size rbp =
     (if stack_value_bytes operand_size = 8 \<and> stack_addr_size = 16 then (0, on_ctx (\<lambda>c. raise_gp_ctx c 0) e)
      else read_stack_value cb e (enter_get_frame_pointer_address_from_value rbp stack_addr_size) (stack_value_bytes operand_size))"

text \<open>Size and nesting level in one immediate.\<close>

definition decode_enter_imm :: "u8 list \<Rightarrow> dstate \<Rightarrow> dresult" where
  "decode_enter_imm code s =
     (case s of (inst, offset, ctx) \<Rightarrow>
        if length code < offset + 3 then Inl (inst, raise_gp_ctx ctx 0)
        else Inr (inst\<lparr>di_immediate := le_load (take 3 (drop offset code)), di_imm_size := 3\<rparr>, offset + 3, ctx))"

definition decode_enter_body :: "bool \<Rightarrow> u8 list \<Rightarrow> dstate \<Rightarrow> dresult" where
  "decode_enter_body lock code =
     decode_seq [next_opcode code, by_opcode (\<lambda>opc. opc = 0xC8) Inr (ud_if True), ud_if lock, decode_enter_imm code,
                 set_sizes decode_enter_operand_size decode_enter_stack_addr_size, note_inst_size]"

definition decode_enter_instruction ::
  "CPU_CONTEXT \<Rightarrow> u8 list \<Rightarrow> DecodedInstruction \<times> CPU_CONTEXT" where
  "decode_enter_instruction = decode_with cpu_try_apply_rex_prefix id decode_enter_body"

text \<open>
  The frames of the outer levels: \<open>n\<close> more are read, from the slots below the frame pointer. The result
  is the pushes so far, as pairs of address and value, and the stack pointer.
\<close>

fun enter_levels ::
  "callbacks \<Rightarrow> int \<Rightarrow> int \<Rightarrow> nat \<Rightarrow> u64 \<Rightarrow> u64 \<Rightarrow> (u64 \<times> u64) list \<Rightarrow> cpueaxh_engine \<Rightarrow>
   ((u64 \<times> u64) list \<times> u64) option \<times> cpueaxh_engine" where
  "enter_levels cb n az 0 rbp sp pushes e = (Some (pushes, sp), e)"
| "enter_levels cb n az (Suc k) rbp sp pushes e =
     (let rbp1 = enter_sub_frame_pointer_value rbp n
      in case enter_read_frame_value cb e n az rbp1 of
           (v, e1) \<Rightarrow>
             if cpu_has_exception (cpu_ctx e1) then (None, e1)
             else let sp1 = enter_sub_stack_pointer_value az sp (of_nat (stack_value_bytes n))
                  in enter_levels cb n az k rbp1 sp1 (pushes @ [(sp1, v)]) e1)"

fun enter_resolve ::
  "callbacks \<Rightarrow> nat \<Rightarrow> (u64 \<times> u64) list \<Rightarrow> cpueaxh_engine \<Rightarrow> u64 list list option \<times> cpueaxh_engine" where
  "enter_resolve cb sz [] e = (Some [], e)"
| "enter_resolve cb sz ((a, v) # rest) e =
     (case cpu_resolve_stack_slot_write cb e a sz v of
        (None, e1) \<Rightarrow> (None, e1)
      | (Some ptrs, e1) \<Rightarrow>
          case enter_resolve cb sz rest e1 of
            (None, e2) \<Rightarrow> (None, e2)
          | (Some all_ptrs, e2) \<Rightarrow> (Some (ptrs # all_ptrs), e2))"

fun enter_commit :: "callbacks \<Rightarrow> nat \<Rightarrow> ((u64 \<times> u64) \<times> u64 list) list \<Rightarrow> cpueaxh_engine \<Rightarrow> cpueaxh_engine" where
  "enter_commit cb sz [] e = e"
| "enter_commit cb sz (((a, v), ptrs) # rest) e =
     enter_commit cb sz rest (cpu_commit_stack_slot_write cb e a (cpu_store_stack_value_le sz v) sz v ptrs)"

definition execute_enter_with_decoded :: "callbacks \<Rightarrow> cpueaxh_engine \<Rightarrow> DecodedInstruction \<Rightarrow> cpueaxh_engine" where
  "execute_enter_with_decoded cb e inst =
     (let n = di_operand_size inst; az = di_address_size inst; sz = stack_value_bytes n; c = cpu_ctx e;
          alloc_size = di_immediate inst AND 0xFFFF; level = unat (drop_bit 16 (di_immediate inst) AND 0x1F);
          rbp_value = (if n = 16 then ucast (get_reg16 c REG_RBP) else if n = 32 then ucast (get_reg32 c REG_RBP)
                       else get_reg64 c REG_RBP);
          frame_temp = enter_sub_stack_pointer_value az (enter_get_stack_pointer_value c az) (of_nat sz)
      in if az = 16 \<and> sz = 8 then on_ctx (\<lambda>c. raise_gp_ctx c 0) e
         else case enter_levels cb n az (level - 1) (regs c REG_RBP) frame_temp [(frame_temp, rbp_value)] e of
                (None, e1) \<Rightarrow> e1
              | (Some (pushes, sp), e1) \<Rightarrow>
                  let sp1 = (if level > 0 then enter_sub_stack_pointer_value az sp (of_nat sz) else sp);
                      pushes1 = (if level > 0 then pushes @ [(sp1, frame_temp)] else pushes)
                  in case enter_resolve cb sz pushes1 e1 of
                       (None, e2) \<Rightarrow> e2
                     | (Some ptrs, e2) \<Rightarrow>
                         on_ctx (\<lambda>c. enter_set_stack_pointer_value (set_rbp n frame_temp c) az
                                       (enter_sub_stack_pointer_value az sp1 alloc_size))
                           (enter_commit cb sz (zip pushes1 ptrs) e2))"

definition execute_enter ::
  "callbacks \<Rightarrow> cpueaxh_engine \<Rightarrow> u8 list \<Rightarrow> cpueaxh_engine" where
  "execute_enter = execute_decoding decode_enter_instruction execute_enter_with_decoded"
definition execute_enter_fast ::
  "callbacks \<Rightarrow> cpueaxh_engine \<Rightarrow> DecodedInst \<Rightarrow> cpueaxh_engine" where
  "execute_enter_fast = execute_cached execute_enter_with_decoded"
subsection \<open>Replaying\<close>

text \<open>
  A decoder that refuses LOCK at once differs from one that reads all prefixes and refuses then only in
  what it leaves behind with the exception.
\<close>

lemma prefix_loop_locked: "fst (prefix_loop rex h code n True c)"
  by (induction code arbitrary: n c) (auto split: prod.splits bool.splits)

lemma prefix_loop_stop_free:
  "\<not> fst (prefix_loop rex id code n False c) \<Longrightarrow>
     prefix_loop_stop rex code n c = Inr (snd (prefix_loop rex id code n False c))"
  using prefix_loop_locked by (induction code arbitrary: n c) (auto split: prod.splits bool.splits)

lemma prefix_loop_stop_locked:
  assumes "fst (prefix_loop cpu_try_apply_rex_prefix id code n False c)"
  obtains d where "prefix_loop_stop cpu_try_apply_rex_prefix code n c = Inl d" "cpu_has_exception d" "scratch_only c d"
  using assms
proof (induction code arbitrary: n c thesis)
  case (Cons p code)
  obtain t e where r: "cpu_try_apply_rex_prefix c p = (t, e)" by force
  have e: "scratch_only c e" using checked_prefixes.rex_scratch [OF r] by simp
  have step: thesis if "prefix_loop_stop cpu_try_apply_rex_prefix (p # code) n c =
      prefix_loop_stop cpu_try_apply_rex_prefix code (n + 1) c'"
      "fst (prefix_loop cpu_try_apply_rex_prefix id code (n + 1) False c')" "scratch_only c c'" for c'
    using Cons.IH [OF _ that(2)] Cons.prems(1) that(1,3) scratch_only_trans by metis
  consider "p = 0x66" | "p = 0x67" | "p \<noteq> 0x66" "p \<noteq> 0x67" t
    | "p \<noteq> 0x66" "p \<noteq> 0x67" "\<not> t" "p = 0xF0" | "p \<noteq> 0x66" "p \<noteq> 0x67" "\<not> t" "p \<noteq> 0xF0"
    by blast
  then show ?case
  proof cases
    case 1 then show ?thesis using step [of "c\<lparr>operand_size_override := True\<rparr>"] Cons.prems(2) scratch_only_updates(2) by (simp add: id_def)
  next
    case 2 then show ?thesis using step [of "c\<lparr>address_size_override := True\<rparr>"] Cons.prems(2) scratch_only_updates(3) by (simp add: id_def)
  next
    case 3 then show ?thesis using step [of e] Cons.prems(2) e by (simp add: r id_def)
  next
    case 4
    then have "prefix_loop_stop cpu_try_apply_rex_prefix (p # code) n c = Inl (raise_ud_ctx e)" using r by simp
    then show ?thesis
      using Cons.prems(1) e scratch_only_trans scratch_only_fault [OF raise_fault_only(2)] raise_has_exception by metis
  next
    case 5 then show ?thesis using step [of e] Cons.prems(2) e by (simp add: r id_def split: if_splits)
  qed
qed simp

locale no_lock_decoder =
  fixes f :: "u8 list \<Rightarrow> dstate \<Rightarrow> dresult"
    and decode :: "CPU_CONTEXT \<Rightarrow> u8 list \<Rightarrow> DecodedInstruction \<times> CPU_CONTEXT"
  assumes body: "decode_step (f code) True"
    and decode_no_lock: "decode c code = decode_no_lock f c code"

sublocale no_lock_decoder \<subseteq> refusing: prefix_decoder cpu_try_apply_rex_prefix id
  "\<lambda>lock code. if lock then quit_ud else f code" True
  "decode_with cpu_try_apply_rex_prefix id (\<lambda>lock code. if lock then quit_ud else f code)"
proof (intro prefix_decoder.intro prefix_decoder_axioms.intro checked_prefixes.prefix_reader_axioms)
  show "decode_step (if lock then quit_ud else f code) True" for lock code
    using body decode_step_weaken [OF decode_step_quit_ud] by (cases lock) simp_all
qed simp

context no_lock_decoder
begin

lemma decode_cases:
  obtains "decode c code = decode_with cpu_try_apply_rex_prefix id (\<lambda>lock code. if lock then quit_ud else f code) c code"
  | "cpu_has_exception (snd (decode c code))" "scratch_only c (snd (decode c code))"
proof -
  obtain l m d where p: "prefix_loop cpu_try_apply_rex_prefix id code 0 False (cpu_reset_prefix_state c) = (l, m, d)"
    by (metis prod_cases3)
  show thesis
  proof (cases l)
    case True
    then obtain x where "prefix_loop_stop cpu_try_apply_rex_prefix code 0 (cpu_reset_prefix_state c) = Inl x"
        "cpu_has_exception x" "scratch_only (cpu_reset_prefix_state c) x"
      using prefix_loop_stop_locked p by (metis fst_conv)
    then show ?thesis
      using that(2) scratch_only_trans [OF scratch_only_updates(4)] by (simp add: decode_no_lock decode_no_lock_def)
  next
    case False
    then have "prefix_loop_stop cpu_try_apply_rex_prefix code 0 (cpu_reset_prefix_state c) = Inr (m, d)"
      using prefix_loop_stop_free p by (metis fst_conv snd_conv)
    then show ?thesis
      using that(1) False p by (simp add: decode_no_lock decode_no_lock_def decode_with_def decode_prefixes_def)
  qed
qed

end

sublocale no_lock_decoder \<subseteq> replayable decode
proof
  show "scratch_only c d" if "decode c code = (i, d)" for c code i d
    using that by (cases rule: decode_cases [of c code]) (metis refusing.scratch snd_conv)+
next
  fix c code i d c' i' d'
  assume r: "decode c code = (i, d)" "decode c' code = (i', d')" and m: "same_mode c c'"
    and q: "\<not> cpu_has_exception d" "\<not> cpu_has_exception d'"
  have "decode_with cpu_try_apply_rex_prefix id (\<lambda>lock code. if lock then quit_ud else f code) c code = (i, d)"
    using r(1) q(1) by (cases rule: decode_cases [of c code]) simp_all
  moreover have "decode_with cpu_try_apply_rex_prefix id (\<lambda>lock code. if lock then quit_ud else f code) c' code = (i', d')"
    using r(2) q(2) by (cases rule: decode_cases [of c' code]) simp_all
  ultimately show "same_static i i' \<and> agrees d d' \<and> last_inst_size d = last_inst_size d'"
    using refusing.stable m q by blast
next
  show "addressed d i (last_inst_size d)" if "decode c code = (i, d)" "\<not> cpu_has_exception d" for c code i d
    using that refusing.address by (cases rule: decode_cases [of c code]) (metis snd_conv)+
qed

text \<open>PUSH is such a decoder.\<close>

lemma stack_sizes_head: "decode_head (set_sizes stack_operand_size override_address_size)"
  by (rule decode_head_set_sizes)
     (auto simp: stack_operand_size_def override_address_size_def cpu_default_address_size_def agrees_modes agrees_def
        cpu_is_64bit_code_def cpu_long_mode_active_def default_operand_size_def)

lemma decode_step_with_inst_ctx:
  assumes "\<And>c. static_update (g c)" "\<And>c d. agrees c d \<Longrightarrow> g c = g d"
  shows "decode_step (with_inst_ctx g) False"
proof -
  note s = static_update_addressed [OF assms(1)] static_update_modrm [OF assms(1)] static_update_same [OF assms(1)]
  show ?thesis by unfold_locales (auto simp: with_inst_ctx_def s dest: assms(2))
qed

lemma widen_64_step [decode_steps]: "decode_step (with_inst_ctx widen_64) False"
proof (rule decode_step_with_inst_ctx)
  show "static_update (widen_64 c)" for c by (auto simp: static_update_def widen_64_def)
  show "widen_64 c = widen_64 d" if "agrees c d" for c d using agrees_modes(2) [OF that] by (simp add: widen_64_def fun_eq_iff)
qed

lemma decode_push_imm_step [decode_steps]: "decode_step (decode_push_imm code) False"
  unfolding decode_push_imm_def
  using decode_step_when_ctx [OF decode_step_imm decode_step_imm, of operand_size_override] agrees_bits(2) by simp

lemma decode_two_byte_sreg_step [decode_steps]: "decode_step (decode_two_byte_sreg x y code) True"
  unfolding decode_two_byte_sreg_def
  by (rule decode_step_weaken, (rule decode_steps static_updates | (simp add: static_update_def; fail))+)

lemma ud_in_64bit: "decode_step (ud_when (\<lambda>_. cpu_is_64bit_code)) False"
  by (rule decode_step_ud_when) (use agrees_modes(2) in blast)

lemma decode_push_step: "decode_step (decode_push_body code) True"
  unfolding decode_push_body_def decode_modrm_push_def
  by (rule decode_step_weaken, (rule stack_sizes_head ud_in_64bit decode_steps | (simp; fail))+)

interpretation push_decoder: no_lock_decoder decode_push_body decode_push_instruction
  by (intro no_lock_decoder.intro decode_push_step) (simp add: decode_push_instruction_def)

end
