(* ===== verification/Control.thy ===== *)
theory Control
  imports Stack
begin

text \<open>
  Control transfers: JMP (\<^verbatim>\<open>instructions/jmp.hpp\<close>), CALL (\<^verbatim>\<open>call.hpp\<close>), far RET and IRET (\<^verbatim>\<open>ret.hpp\<close>), and the
  small instructions on flags and the accumulator: LAHF and SAHF (\<^verbatim>\<open>lahf.hpp\<close>), CMC, CLC, STC, CLD and STD
  (\<^verbatim>\<open>flags.hpp\<close>), CBW and its wider forms (\<^verbatim>\<open>cbw.hpp\<close>), CWD and its wider forms (\<^verbatim>\<open>cdq.hpp\<close>). The executor has its
  own near RET.
\<close>

unbundle bit_operations_syntax

subsection \<open>Code segments\<close>

text \<open>
  The checks of a far transfer to a code segment. \<open>strict\<close> says whether a descriptor with both the L and
  the D bit is refused in long mode; \<open>privilege\<close> is the test on the descriptor and the requested level.
\<close>

definition check_code_segment ::
  "bool \<Rightarrow> (CPU_CONTEXT \<Rightarrow> SegmentDescriptor \<Rightarrow> u8 \<Rightarrow> bool) \<Rightarrow> callbacks \<Rightarrow> cpueaxh_engine \<Rightarrow> u16 \<Rightarrow>
   SegmentDescriptor option \<times> cpueaxh_engine" where
  "check_code_segment strict privilege cb e selector =
     (if is_null_selector selector then (None, on_ctx (\<lambda>c. raise_gp_ctx c 0) e)
      else case load_descriptor_from_table cb e selector of
             (desc, e1) \<Rightarrow>
               let gp = (None, on_ctx (\<lambda>c. raise_gp_ctx c (selector_error selector)) e1); c1 = cpu_ctx e1
               in if cpu_has_exception c1 then (None, e1)
                  else if \<not> is_code_segment (sd_type desc) then gp
                  else if strict \<and> cpu_long_mode_active c1 \<and> sd_long_mode desc \<and> sd_db desc then gp
                  else if \<not> privilege c1 desc (ucast (selector AND 3)) then gp
                  else if \<not> sd_present desc then (None, on_ctx (\<lambda>c. raise_np_ctx c (selector_error selector)) e1)
                  else (Some desc, e1))"

definition call_privilege :: "CPU_CONTEXT \<Rightarrow> SegmentDescriptor \<Rightarrow> u8 \<Rightarrow> bool" where
  "call_privilege c desc rpl =
     (if is_conforming_code_segment (sd_type desc) then sd_dpl desc \<le> cpl c else sd_dpl desc = cpl c \<and> rpl \<le> cpl c)"

definition ret_privilege :: "CPU_CONTEXT \<Rightarrow> SegmentDescriptor \<Rightarrow> u8 \<Rightarrow> bool" where
  "ret_privilege c desc rpl \<longleftrightarrow>
     rpl = cpl c \<and> (if is_conforming_code_segment (sd_type desc) then sd_dpl desc \<le> cpl c else sd_dpl desc = cpl c)"

definition enter_code_segment :: "u16 \<Rightarrow> SegmentDescriptor \<Rightarrow> CPU_CONTEXT \<Rightarrow> CPU_CONTEXT" where
  "enter_code_segment selector desc c =
     c\<lparr>cs := \<lparr>sr_selector = (selector AND 0xFFFC) OR ucast (cpl c), sr_descriptor = desc\<rparr>, cached_mode_key_valid := False\<rparr>"

subsection \<open>JMP\<close>

definition jmp_rel8 ::
  "CPU_CONTEXT \<Rightarrow> u8 \<Rightarrow> u64 \<Rightarrow> int \<Rightarrow> CPU_CONTEXT" where
  "jmp_rel8 c rel next_rip operand_size = snd (cpu_assign_rip_checked c (next_rip + scast rel) operand_size)"
definition jmp_rel32 ::
  "CPU_CONTEXT \<Rightarrow> u32 \<Rightarrow> u64 \<Rightarrow> int \<Rightarrow> CPU_CONTEXT" where
  "jmp_rel32 c rel next_rip operand_size = snd (cpu_assign_rip_checked c (next_rip + scast rel) operand_size)"
definition jmp_rel16 :: "CPU_CONTEXT \<Rightarrow> u16 \<Rightarrow> u64 \<Rightarrow> CPU_CONTEXT" where
  "jmp_rel16 c rel next_rip = snd (cpu_assign_rip_checked c (next_rip + scast rel) 16)"
definition jmp_abs64 :: "CPU_CONTEXT \<Rightarrow> u64 \<Rightarrow> CPU_CONTEXT" where
  "jmp_abs64 c target = snd (cpu_assign_rip_checked c target 64)"
definition jmp_abs32 :: "CPU_CONTEXT \<Rightarrow> u32 \<Rightarrow> CPU_CONTEXT" where
  "jmp_abs32 c target = snd (cpu_assign_rip_checked c (ucast target) 32)"
definition jmp_abs16 :: "CPU_CONTEXT \<Rightarrow> u16 \<Rightarrow> CPU_CONTEXT" where
  "jmp_abs16 c target = snd (cpu_assign_rip_checked c (ucast target) 16)"

definition jmp_far :: "callbacks \<Rightarrow> cpueaxh_engine \<Rightarrow> u16 \<Rightarrow> u64 \<Rightarrow> int \<Rightarrow> cpueaxh_engine" where
  "jmp_far cb e selector new_offset operand_size =
     (case check_code_segment True call_privilege cb e selector of
        (None, e1) \<Rightarrow> e1
      | (Some desc, e1) \<Rightarrow>
          let target_rip = cpu_mask_code_offset new_offset operand_size
          in case cpu_validate_code_offset (cpu_ctx e1) target_rip (if sd_long_mode desc then 64 else operand_size) of
               (False, c) \<Rightarrow> e1\<lparr>cpu_ctx := c\<rparr>
             | (True, c) \<Rightarrow> e1\<lparr>cpu_ctx := (enter_code_segment selector desc c)\<lparr>rip := target_rip\<rparr>\<rparr>)"

definition decode_modrm_jmp :: "u8 list \<Rightarrow> dstate \<Rightarrow> dresult" where "decode_modrm_jmp = decode_modrm_plain"

text \<open>A far pointer in the instruction: the selector is stored as the address.\<close>

definition decode_far_ptr :: "u8 list \<Rightarrow> dstate \<Rightarrow> dresult" where
  "decode_far_ptr code s =
     (case s of (inst, offset, ctx) \<Rightarrow>
        let k = (if di_operand_size inst = 32 then 4 else 2)
        in if length code < offset + k + 2 then Inl (inst, raise_gp_ctx ctx 0)
           else Inr (inst\<lparr>di_immediate := le_load (take k (drop offset code)),
                          di_mem_address := le_load (take 2 (drop (offset + k) code)), di_imm_size := int (k + 2)\<rparr>,
                     offset + k + 2, ctx))"

definition near_64 :: "CPU_CONTEXT \<Rightarrow> DecodedInstruction \<Rightarrow> DecodedInstruction" where
  "near_64 c i = (if cpu_is_64bit_code c then i\<lparr>di_operand_size := 64\<rparr> else i)"

definition far_64 :: "CPU_CONTEXT \<Rightarrow> DecodedInstruction \<Rightarrow> DecodedInstruction" where
  "far_64 c i = (if cpu_is_64bit_code c then i\<lparr>di_operand_size := default_operand_size c\<rparr> else i)"

text \<open>The indirect forms: \<open>near\<close> and \<open>near + 1\<close> are the group numbers of the near and the far one.\<close>

definition decode_indirect :: "u8 \<Rightarrow> u8 list \<Rightarrow> dstate \<Rightarrow> dresult" where
  "decode_indirect near code =
     decode_seq
       [decode_modrm_plain code,
        \<lambda>s. if modrm_reg (di_modrm (fst s)) = near then with_inst_ctx near_64 s
            else if modrm_reg (di_modrm (fst s)) = near + 1
            then decode_seq [ud_when (\<lambda>i c. modrm_mod (di_modrm i) = 3), with_inst_ctx far_64] s
            else ud_if True s]"

definition decode_jmp_body :: "bool \<Rightarrow> u8 list \<Rightarrow> dstate \<Rightarrow> dresult" where
  "decode_jmp_body lock code =
     decode_seq
       [next_opcode code, set_sizes stack_operand_size override_address_size,
        by_opcode (\<lambda>opc. opc = 0xEB) (decode_imm 1 code)
       (by_opcode (\<lambda>opc. opc = 0xE9)
          (when_ctx cpu_is_64bit_code (decode_seq [ud_when (\<lambda>_. operand_size_override), decode_imm 4 code])
             (when_ctx operand_size_override (decode_imm 2 code) (decode_imm 4 code)))
       (by_opcode (\<lambda>opc. opc = 0xFF) (decode_indirect 4 code)
       (by_opcode (\<lambda>opc. opc = 0xEA) (decode_seq [ud_when (\<lambda>_. cpu_is_64bit_code), decode_far_ptr code])
          (ud_if True)))),
        note_inst_size]"

definition decode_jmp_instruction ::
  "CPU_CONTEXT \<Rightarrow> u8 list \<Rightarrow> DecodedInstruction \<times> CPU_CONTEXT" where
  "decode_jmp_instruction = decode_with cpu_try_apply_rex_prefix raise_ud_ctx decode_jmp_body"

text \<open>The target of an indirect near transfer, in the width of the operand; \<open>None\<close> when reading it raised.\<close>

definition indirect_target :: "callbacks \<Rightarrow> cpueaxh_engine \<Rightarrow> u8 \<Rightarrow> u64 \<Rightarrow> int \<Rightarrow> u64 option \<times> cpueaxh_engine" where
  "indirect_target cb e modrm mem_addr operand_size =
     (let rm = rm_index (cpu_ctx e) modrm; n = (if operand_size = 64 \<or> operand_size = 32 then operand_size else 16)
      in if modrm_mod modrm = 3 then map_prod Some id (read_reg_sized rm n e)
         else case read_mem_sized cb mem_addr n e of
                (v, e1) \<Rightarrow> (if cpu_has_exception (cpu_ctx e1) then None else Some v, e1))"

text \<open>The far pointer in memory: offset and selector.\<close>

definition read_far_ptr :: "callbacks \<Rightarrow> cpueaxh_engine \<Rightarrow> u64 \<Rightarrow> int \<Rightarrow> (u64 \<times> u16) \<times> cpueaxh_engine" where
  "read_far_ptr cb e mem_addr operand_size =
     (case read_stack_value cb e mem_addr (if operand_size = 64 then 8 else if operand_size = 32 then 4 else 2) of
        (new_offset, e1) \<Rightarrow>
          case read_memory_word cb e1 (mem_addr + (if operand_size = 64 then 8 else if operand_size = 32 then 4 else 2)) of
            (selector, e2) \<Rightarrow> ((new_offset, selector), e2))"

definition execute_jmp_with_decoded :: "callbacks \<Rightarrow> cpueaxh_engine \<Rightarrow> DecodedInstruction \<Rightarrow> cpueaxh_engine" where
  "execute_jmp_with_decoded cb e inst =
     (let opc = di_opcode inst; n = di_operand_size inst; imm = di_immediate inst;
          next_rip = rip (cpu_ctx e) + word_of_int (di_inst_size inst)
      in if opc = 0xEB then on_ctx (\<lambda>c. jmp_rel8 c (ucast imm) next_rip n) e
         else if opc = 0xE9
         then on_ctx (\<lambda>c. if di_imm_size inst = 2 then jmp_rel16 c (ucast imm) next_rip
                          else jmp_rel32 c (ucast imm) next_rip n) e
         else if opc = 0xFF
         then if modrm_reg (di_modrm inst) = 4
              then case indirect_target cb e (di_modrm inst) (di_mem_address inst) n of
                     (None, e1) \<Rightarrow> e1
                   | (Some target, e1) \<Rightarrow>
                       on_ctx (\<lambda>c. if n = 64 then jmp_abs64 c target else if n = 32 then jmp_abs32 c (ucast target)
                                     else jmp_abs16 c (ucast target)) e1
              else case read_far_ptr cb e (di_mem_address inst) n of
                     ((new_offset, selector), e1) \<Rightarrow>
                       if cpu_has_exception (cpu_ctx e1) then e1 else jmp_far cb e1 selector new_offset n
         else if opc = 0xEA then jmp_far cb e (ucast (di_mem_address inst)) imm n
         else e)"

definition execute_jmp ::
  "callbacks \<Rightarrow> cpueaxh_engine \<Rightarrow> u8 list \<Rightarrow> cpueaxh_engine" where
  "execute_jmp = execute_decoding decode_jmp_instruction execute_jmp_with_decoded"
definition execute_jmp_fast ::
  "callbacks \<Rightarrow> cpueaxh_engine \<Rightarrow> DecodedInst \<Rightarrow> cpueaxh_engine" where
  "execute_jmp_fast = execute_cached execute_jmp_with_decoded"

subsection \<open>CALL\<close>

text \<open>A near call: the target is checked before the return address is pushed.\<close>

definition call_near ::
  "int \<Rightarrow> (callbacks \<Rightarrow> cpueaxh_engine \<Rightarrow> u64 \<Rightarrow> cpueaxh_engine) \<Rightarrow> callbacks \<Rightarrow> cpueaxh_engine \<Rightarrow> u64 \<Rightarrow> u64 \<Rightarrow> cpueaxh_engine"
where
  "call_near operand_size push cb e target return_rip =
     (case cpu_validate_code_offset (cpu_ctx e) target operand_size of
        (False, c) \<Rightarrow> e\<lparr>cpu_ctx := c\<rparr>
      | (True, c) \<Rightarrow>
          let e1 = push cb (e\<lparr>cpu_ctx := c\<rparr>) return_rip
          in if cpu_has_exception (cpu_ctx e1) then e1 else on_ctx (\<lambda>c. c\<lparr>rip := target\<rparr>) e1)"

definition call_near_rel64 ::
  "callbacks \<Rightarrow> cpueaxh_engine \<Rightarrow> u32 \<Rightarrow> u64 \<Rightarrow> cpueaxh_engine" where
  [insn_defs]: "call_near_rel64 cb e rel return_rip = call_near 64 push_value64 cb e (return_rip + scast rel) return_rip"
definition call_near_rel32 ::
  "callbacks \<Rightarrow> cpueaxh_engine \<Rightarrow> u32 \<Rightarrow> u64 \<Rightarrow> cpueaxh_engine" where
  [insn_defs]: "call_near_rel32 cb e rel return_rip =
     call_near 32 (\<lambda>cb e v. push_value32 cb e (ucast v)) cb e (ucast ((ucast return_rip :: u32) + rel)) return_rip"
definition call_near_rel16 ::
  "callbacks \<Rightarrow> cpueaxh_engine \<Rightarrow> u16 \<Rightarrow> u64 \<Rightarrow> cpueaxh_engine" where
  [insn_defs]: "call_near_rel16 cb e rel return_rip =
     call_near 16 (\<lambda>cb e v. push_value16 cb e (ucast v)) cb e (ucast ((ucast return_rip :: u16) + rel)) return_rip"
definition call_near_abs64 ::
  "callbacks \<Rightarrow> cpueaxh_engine \<Rightarrow> u64 \<Rightarrow> u64 \<Rightarrow> cpueaxh_engine" where
  [insn_defs]: "call_near_abs64 = call_near 64 push_value64"
definition call_near_abs32 ::
  "callbacks \<Rightarrow> cpueaxh_engine \<Rightarrow> u32 \<Rightarrow> u64 \<Rightarrow> cpueaxh_engine" where
  [insn_defs]: "call_near_abs32 cb e target = call_near 32 (\<lambda>cb e v. push_value32 cb e (ucast v)) cb e (ucast target)"
definition call_near_abs16 ::
  "callbacks \<Rightarrow> cpueaxh_engine \<Rightarrow> u16 \<Rightarrow> u64 \<Rightarrow> cpueaxh_engine" where
  [insn_defs]: "call_near_abs16 cb e target = call_near 16 (\<lambda>cb e v. push_value16 cb e (ucast v)) cb e (ucast target)"

text \<open>A far call: the selector and the return address are pushed together.\<close>

definition push_far_return :: "callbacks \<Rightarrow> cpueaxh_engine \<Rightarrow> int \<Rightarrow> u64 \<Rightarrow> cpueaxh_engine" where
  "push_far_return cb e operand_size return_rip =
     (let selector = ucast (sr_selector (cs (cpu_ctx e))) :: u64
      in if operand_size = 64 then push_two_stack_values cb e selector return_rip 8
         else if operand_size = 32 then push_two_stack_values cb e selector (ucast (ucast return_rip :: u32)) 4
         else push_two_stack_values cb e selector (ucast (ucast return_rip :: u16)) 2)"

definition call_far_mem :: "callbacks \<Rightarrow> cpueaxh_engine \<Rightarrow> u64 \<Rightarrow> int \<Rightarrow> u64 \<Rightarrow> cpueaxh_engine" where
  "call_far_mem cb e mem_addr operand_size return_rip =
     (case read_far_ptr cb e mem_addr operand_size of
        ((offset0, selector), e1) \<Rightarrow>
          if cpu_has_exception (cpu_ctx e1) then e1
          else case check_code_segment True call_privilege cb e1 selector of
                 (None, e2) \<Rightarrow> e2
               | (Some desc, e2) \<Rightarrow>
                   let new_offset = (if sd_long_mode desc then offset0
                                     else if operand_size = 16 then offset0 AND 0xFFFF else offset0 AND 0xFFFFFFFF)
                   in case cpu_validate_code_offset (cpu_ctx e2) new_offset (if sd_long_mode desc then 64 else operand_size) of
                        (False, c) \<Rightarrow> e2\<lparr>cpu_ctx := c\<rparr>
                      | (True, c) \<Rightarrow>
                          let e3 = push_far_return cb (e2\<lparr>cpu_ctx := c\<rparr>) (if cpu_is_64bit_code c then 64 else operand_size) return_rip
                          in if cpu_has_exception (cpu_ctx e3) then e3
                             else on_ctx (\<lambda>c. (enter_code_segment selector desc c)\<lparr>rip := new_offset\<rparr>) e3)"

definition call_far_ptr :: "callbacks \<Rightarrow> cpueaxh_engine \<Rightarrow> u16 \<Rightarrow> u32 \<Rightarrow> int \<Rightarrow> u64 \<Rightarrow> cpueaxh_engine" where
  "call_far_ptr cb e selector new_offset operand_size return_rip =
     (case check_code_segment False call_privilege cb e selector of
        (None, e1) \<Rightarrow> e1
      | (Some desc, e1) \<Rightarrow>
          let target_eip = ucast (if operand_size = 16 then new_offset AND 0xFFFF else new_offset) :: u64
          in case cpu_validate_code_offset (cpu_ctx e1) target_eip operand_size of
               (False, c) \<Rightarrow> e1\<lparr>cpu_ctx := c\<rparr>
             | (True, c) \<Rightarrow>
                 let e2 = push_far_return cb (e1\<lparr>cpu_ctx := c\<rparr>) (if operand_size = 32 then 32 else 16) return_rip
                 in if cpu_has_exception (cpu_ctx e2) then e2
                    else on_ctx (\<lambda>c. (enter_code_segment selector desc c)\<lparr>rip := target_eip\<rparr>) e2)"

definition decode_modrm_call :: "u8 list \<Rightarrow> dstate \<Rightarrow> dresult" where "decode_modrm_call = decode_modrm_plain"

definition call_size :: "CPU_CONTEXT \<Rightarrow> int" where
  "call_size c = (if operand_size_override c then 16 else if cpu_is_64bit_code c then 64 else 32)"

definition decode_call_body :: "bool \<Rightarrow> u8 list \<Rightarrow> dstate \<Rightarrow> dresult" where
  "decode_call_body lock code =
     decode_seq
       [next_opcode code, set_sizes stack_operand_size override_address_size,
        by_opcode (\<lambda>opc. opc = 0xE8)
          (decode_seq [with_inst_ctx (\<lambda>c i. i\<lparr>di_operand_size := call_size c\<rparr>),
                       when_ctx operand_size_override (decode_imm 2 code) (decode_imm 4 code)])
       (by_opcode (\<lambda>opc. opc = 0xFF) (decode_indirect 2 code)
       (by_opcode (\<lambda>opc. opc = 0x9A) (decode_seq [ud_when (\<lambda>_. cpu_is_64bit_code), decode_far_ptr code])
          (ud_if True))),
        note_inst_size]"

definition decode_call_instruction ::
  "CPU_CONTEXT \<Rightarrow> u8 list \<Rightarrow> DecodedInstruction \<times> CPU_CONTEXT" where
  "decode_call_instruction = decode_with cpu_try_apply_rex_prefix raise_ud_ctx decode_call_body"
definition execute_call_with_decoded :: "callbacks \<Rightarrow> cpueaxh_engine \<Rightarrow> DecodedInstruction \<Rightarrow> cpueaxh_engine" where
  "execute_call_with_decoded cb e inst =
     (let opc = di_opcode inst; n = di_operand_size inst; imm = di_immediate inst; a = di_mem_address inst;
          return_rip = rip (cpu_ctx e) + word_of_int (di_inst_size inst)
      in if opc = 0xE8
         then if n = 64 then call_near_rel64 cb e (ucast imm) return_rip
              else if n = 32 then call_near_rel32 cb e (ucast imm) return_rip
              else call_near_rel16 cb e (ucast imm) return_rip
         else if opc = 0xFF
         then if modrm_reg (di_modrm inst) = 2
              then case indirect_target cb e (di_modrm inst) a n of
                     (None, e1) \<Rightarrow> e1
                   | (Some target, e1) \<Rightarrow>
                       if n = 64 then call_near_abs64 cb e1 target return_rip
                       else if n = 32 then call_near_abs32 cb e1 (ucast target) return_rip
                       else call_near_abs16 cb e1 (ucast target) return_rip
              else call_far_mem cb e a n return_rip
         else if opc = 0x9A then call_far_ptr cb e (ucast a) (ucast imm) n return_rip
         else e)"

definition execute_call ::
  "callbacks \<Rightarrow> cpueaxh_engine \<Rightarrow> u8 list \<Rightarrow> cpueaxh_engine" where
  "execute_call = execute_decoding decode_call_instruction execute_call_with_decoded"
definition execute_call_fast ::
  "callbacks \<Rightarrow> cpueaxh_engine \<Rightarrow> DecodedInst \<Rightarrow> cpueaxh_engine" where
  "execute_call_fast = execute_cached execute_call_with_decoded"

subsection \<open>Far RET and IRET\<close>

definition decode_ret_far_operand_size :: "CPU_CONTEXT \<Rightarrow> int" where "decode_ret_far_operand_size = narrow_stack_size"

definition ret_far_adjust_stack :: "u16 \<Rightarrow> CPU_CONTEXT \<Rightarrow> CPU_CONTEXT" where
  "ret_far_adjust_stack adjustment c =
     (let n = get_stack_addr_size c
      in cpu_set_stack_pointer_value c n (cpu_stack_pointer_add n (cpu_get_stack_pointer_value c n) (ucast adjustment)))"

definition validate_ret_far_selector ::
  "callbacks \<Rightarrow> cpueaxh_engine \<Rightarrow> u16 \<Rightarrow> SegmentDescriptor option \<times> cpueaxh_engine" where
  "validate_ret_far_selector = check_code_segment True ret_privilege"

definition decode_ret_imm :: "u8 list \<Rightarrow> dstate \<Rightarrow> dresult" where
  "decode_ret_imm code s =
     (case s of (inst, offset, ctx) \<Rightarrow>
        if length code < offset + 2 then Inl (inst, raise_gp_ctx ctx 0)
        else Inr (inst\<lparr>di_immediate := le_load (take 2 (drop offset code)), di_imm_size := 2\<rparr>, offset + 2, ctx))"

definition decode_ret_body :: "bool \<Rightarrow> u8 list \<Rightarrow> dstate \<Rightarrow> dresult" where
  "decode_ret_body lock code =
     decode_seq [next_opcode code, by_opcode (\<lambda>opc. opc = 0xCA \<or> opc = 0xCB) Inr (ud_if True), ud_if lock,
                 set_sizes decode_ret_far_operand_size get_stack_addr_size,
                 by_opcode (\<lambda>opc. opc = 0xCA) (decode_ret_imm code) Inr, note_inst_size]"

definition decode_ret_instruction ::
  "CPU_CONTEXT \<Rightarrow> u8 list \<Rightarrow> DecodedInstruction \<times> CPU_CONTEXT" where
  "decode_ret_instruction = decode_with cpu_try_apply_rex_prefix id decode_ret_body"

definition execute_ret_with_decoded :: "callbacks \<Rightarrow> cpueaxh_engine \<Rightarrow> DecodedInstruction \<Rightarrow> cpueaxh_engine" where
  "execute_ret_with_decoded cb e inst =
     (let n = di_operand_size inst
      in case peek_stack_values cb e (if n = 64 then 8 else if n = 32 then 4 else 2) 2 of
           (None, e1) \<Rightarrow> e1
         | (Some (vs, stack_after_pops), e1) \<Rightarrow>
             let new_rip = vs ! 0; selector = ucast (vs ! 1) :: u16
             in case validate_ret_far_selector cb e1 selector of
                  (None, e2) \<Rightarrow> e2
                | (Some desc, e2) \<Rightarrow>
                    case cpu_validate_code_offset (cpu_ctx e2) new_rip (if sd_long_mode desc then 64 else n) of
                      (False, c) \<Rightarrow> e2\<lparr>cpu_ctx := c\<rparr>
                    | (True, c) \<Rightarrow>
                        let c1 = cpu_set_stack_pointer_value c (di_address_size inst) stack_after_pops;
                            c2 = ret_far_adjust_stack (ucast (di_immediate inst)) c1
                        in e2\<lparr>cpu_ctx := (enter_code_segment selector desc c2)\<lparr>rip := cpu_mask_code_offset new_rip n\<rparr>\<rparr>)"

definition execute_ret :: "callbacks \<Rightarrow> cpueaxh_engine \<Rightarrow> u8 list \<Rightarrow> cpueaxh_engine" where
  "execute_ret = execute_decoding decode_ret_instruction execute_ret_with_decoded"

text \<open>IRET does not finalize an address.\<close>

definition decode_iret_instruction :: "CPU_CONTEXT \<Rightarrow> u8 list \<Rightarrow> DecodedInstruction \<times> CPU_CONTEXT" where
  "decode_iret_instruction ctx code =
     (case decode_prefixes cpu_try_apply_rex_prefix id ctx code of
        (lock, offset, ctx1) \<Rightarrow>
          case decode_seq [next_opcode code, by_opcode (\<lambda>opc. opc = 0xCF) Inr (ud_if True), ud_if lock,
                           set_sizes decode_ret_far_operand_size get_stack_addr_size, note_inst_size]
                 (zero_decoded_instruction, offset, ctx1) of
            Inl x \<Rightarrow> x
          | Inr (inst, n, c) \<Rightarrow> (inst, c\<lparr>last_inst_size := int n\<rparr>))"

text \<open>
  Five values are popped with a 64-bit operand and three otherwise; the new stack pointer and stack
  segment are zero then, and are used all the same when the target is a 64-bit segment.
\<close>

definition execute_iret_with_decoded :: "callbacks \<Rightarrow> cpueaxh_engine \<Rightarrow> DecodedInstruction \<Rightarrow> cpueaxh_engine" where
  "execute_iret_with_decoded cb e inst =
     (let n = di_operand_size inst
      in case (if n = 64 then peek_stack_values cb e 8 5 else if n = 32 then peek_stack_values cb e 4 3
               else peek_stack_values cb e 2 3) of
           (None, e1) \<Rightarrow> e1
         | (Some (vs, stack_after_pops), e1) \<Rightarrow>
             let new_rip = vs ! 0; selector = ucast (vs ! 1) :: u16; new_rflags = vs ! 2;
                 new_rsp = (if n = 64 then vs ! 3 else 0); new_ss = (if n = 64 then ucast (vs ! 4) else 0) :: u16
             in case validate_ret_far_selector cb e1 selector of
                  (None, e2) \<Rightarrow> e2
                | (Some desc, e2) \<Rightarrow>
                    let target = (if sd_long_mode desc then 64 else n)
                    in case cpu_validate_code_offset (cpu_ctx e2) new_rip target of
                         (False, c) \<Rightarrow> e2\<lparr>cpu_ctx := c\<rparr>
                       | (True, c) \<Rightarrow>
                           let c1 = (enter_code_segment selector desc c)\<lparr>rflags := new_rflags\<rparr>
                           in e2\<lparr>cpu_ctx :=
                                if target = 16 \<or> target = 32
                                then (cpu_set_stack_pointer_value c1 (di_address_size inst) stack_after_pops)
                                       \<lparr>rip := cpu_mask_code_offset new_rip target\<rparr>
                                else c1\<lparr>rip := new_rip, regs := (regs c1)(REG_RSP := new_rsp),
                                        ss := (ss c1)\<lparr>sr_selector := new_ss\<rparr>\<rparr>\<rparr>)"

definition execute_iret :: "callbacks \<Rightarrow> cpueaxh_engine \<Rightarrow> u8 list \<Rightarrow> cpueaxh_engine" where
  "execute_iret = execute_decoding decode_iret_instruction execute_iret_with_decoded"

subsection \<open>Flags\<close>

definition get_ah :: "CPU_CONTEXT \<Rightarrow> u8" where "get_ah c = ucast (drop_bit 8 (regs c REG_RAX) AND 0xFF)"

definition set_ah :: "CPU_CONTEXT \<Rightarrow> u8 \<Rightarrow> CPU_CONTEXT" where
  "set_ah c v = c\<lparr>regs := (regs c)(REG_RAX := (regs c REG_RAX AND NOT 0xFF00) OR push_bit 8 (ucast v))\<rparr>"

definition make_lahf_value :: "CPU_CONTEXT \<Rightarrow> u8" where
  "make_lahf_value c =
     (let on = (\<lambda>flag v. if rflags c AND flag \<noteq> 0 then v else 0)
      in 0x02 OR on RFLAGS_CF 0x01 OR on RFLAGS_PF 0x04 OR on RFLAGS_AF 0x10 OR on RFLAGS_ZF 0x40 OR on RFLAGS_SF 0x80)"

definition apply_sahf_value :: "CPU_CONTEXT \<Rightarrow> u8 \<Rightarrow> CPU_CONTEXT" where
  "apply_sahf_value c v =
     set_flag (set_flag (set_flag (set_flag (set_flag c RFLAGS_CF (v AND 0x01 \<noteq> 0)) RFLAGS_PF (v AND 0x04 \<noteq> 0))
       RFLAGS_AF (v AND 0x10 \<noteq> 0)) RFLAGS_ZF (v AND 0x40 \<noteq> 0)) RFLAGS_SF (v AND 0x80 \<noteq> 0)"

definition cpu_has_lahf_sahf_feature :: "host_cpuid \<Rightarrow> bool" where
  "cpu_has_lahf_sahf_feature cpuid = (case cpuid 0x80000001 0 of (eax, ebx, ecx, edx) \<Rightarrow> ecx AND 1 \<noteq> 0)"

definition decode_lahf_body :: "host_cpuid \<Rightarrow> bool \<Rightarrow> u8 list \<Rightarrow> dstate \<Rightarrow> dresult" where
  "decode_lahf_body cpuid lock code =
     decode_seq [next_opcode code, by_opcode (\<lambda>opc. opc = 0x9E \<or> opc = 0x9F) Inr (ud_if True), ud_if lock,
                 ud_when (\<lambda>i c. cpu_is_64bit_code c \<and> \<not> cpu_has_lahf_sahf_feature cpuid), note_inst_size]"

definition decode_lahf_instruction ::
  "host_cpuid \<Rightarrow> CPU_CONTEXT \<Rightarrow> u8 list \<Rightarrow> DecodedInstruction \<times> CPU_CONTEXT" where
  "decode_lahf_instruction cpuid = decode_with apply_rex_byte id (decode_lahf_body cpuid)"
definition execute_lahf_with_decoded ::
  "callbacks \<Rightarrow> cpueaxh_engine \<Rightarrow> DecodedInstruction \<Rightarrow> cpueaxh_engine" where
  "execute_lahf_with_decoded cb e inst =
     on_ctx (\<lambda>c. if di_opcode inst = 0x9F then set_ah c (make_lahf_value c) else apply_sahf_value c (get_ah c)) e"
definition execute_lahf ::
  "host_cpuid \<Rightarrow> callbacks \<Rightarrow> cpueaxh_engine \<Rightarrow> u8 list \<Rightarrow> cpueaxh_engine" where
  "execute_lahf cpuid = execute_decoding (decode_lahf_instruction cpuid) execute_lahf_with_decoded"
definition execute_lahf_fast ::
  "callbacks \<Rightarrow> cpueaxh_engine \<Rightarrow> DecodedInst \<Rightarrow> cpueaxh_engine" where
  "execute_lahf_fast = execute_cached execute_lahf_with_decoded"

definition decode_flags_body :: "bool \<Rightarrow> u8 list \<Rightarrow> dstate \<Rightarrow> dresult" where
  "decode_flags_body lock code =
     decode_seq [next_opcode code,
                 by_opcode (\<lambda>opc. opc = 0xF5 \<or> opc = 0xF8 \<or> opc = 0xF9 \<or> opc = 0xFC \<or> opc = 0xFD) Inr (ud_if True),
                 ud_if lock, note_inst_size]"

definition decode_flags_instruction ::
  "CPU_CONTEXT \<Rightarrow> u8 list \<Rightarrow> DecodedInstruction \<times> CPU_CONTEXT" where
  "decode_flags_instruction = decode_with apply_rex_byte id decode_flags_body"
definition execute_flags_with_decoded ::
  "callbacks \<Rightarrow> cpueaxh_engine \<Rightarrow> DecodedInstruction \<Rightarrow> cpueaxh_engine" where
  "execute_flags_with_decoded cb e inst =
     (let opc = di_opcode inst
      in on_ctx (\<lambda>c. if opc = 0xF5 then set_flag c RFLAGS_CF (rflags c AND RFLAGS_CF = 0)
                     else if opc = 0xF8 then set_flag c RFLAGS_CF False else if opc = 0xF9 then set_flag c RFLAGS_CF True
                     else if opc = 0xFC then set_flag c RFLAGS_DF False else if opc = 0xFD then set_flag c RFLAGS_DF True
                     else raise_ud_ctx c) e)"
definition execute_flags ::
  "callbacks \<Rightarrow> cpueaxh_engine \<Rightarrow> u8 list \<Rightarrow> cpueaxh_engine" where
  "execute_flags = execute_decoding decode_flags_instruction execute_flags_with_decoded"
definition execute_flags_fast ::
  "callbacks \<Rightarrow> cpueaxh_engine \<Rightarrow> DecodedInst \<Rightarrow> cpueaxh_engine" where
  "execute_flags_fast = execute_cached execute_flags_with_decoded"

subsection \<open>Sign extension of the accumulator\<close>

definition accumulator_size :: "CPU_CONTEXT \<Rightarrow> int" where
  "accumulator_size c =
     (if sd_long_mode (sr_descriptor (cs c)) \<and> rex_w c then 64 else if operand_size_override c then 16 else 32)"

definition decode_cbw_operand_size :: "CPU_CONTEXT \<Rightarrow> int" where
  "decode_cbw_operand_size = accumulator_size"
definition decode_cdq_operand_size :: "CPU_CONTEXT \<Rightarrow> int" where
  "decode_cdq_operand_size = accumulator_size"

text \<open>The two decoders differ in the opcode; they set no address size.\<close>

definition decode_accumulator_body :: "u8 \<Rightarrow> bool \<Rightarrow> u8 list \<Rightarrow> dstate \<Rightarrow> dresult" where
  "decode_accumulator_body b lock code =
     decode_seq [next_opcode code, by_opcode (\<lambda>opc. opc = b) Inr (ud_if True), ud_if lock,
                 with_inst_ctx (\<lambda>c i. i\<lparr>di_operand_size := accumulator_size c\<rparr>), note_inst_size]"

definition decode_cbw_instruction ::
  "CPU_CONTEXT \<Rightarrow> u8 list \<Rightarrow> DecodedInstruction \<times> CPU_CONTEXT" where
  "decode_cbw_instruction = decode_with apply_rex_byte id (decode_accumulator_body 0x98)"
definition decode_cdq_instruction ::
  "CPU_CONTEXT \<Rightarrow> u8 list \<Rightarrow> DecodedInstruction \<times> CPU_CONTEXT" where
  "decode_cdq_instruction = decode_with apply_rex_byte id (decode_accumulator_body 0x99)"
definition execute_cbw_with_decoded ::
  "callbacks \<Rightarrow> cpueaxh_engine \<Rightarrow> DecodedInstruction \<Rightarrow> cpueaxh_engine" where
  "execute_cbw_with_decoded cb e inst =
     (let n = di_operand_size inst
      in on_ctx (\<lambda>c. if n = 16 then set_reg16 c REG_RAX (scast (get_reg8 c REG_RAX))
                     else if n = 32 then set_reg32 c REG_RAX (scast (get_reg16 c REG_RAX))
                     else set_reg64 c REG_RAX (scast (get_reg32 c REG_RAX))) e)"
definition execute_cdq_with_decoded ::
  "callbacks \<Rightarrow> cpueaxh_engine \<Rightarrow> DecodedInstruction \<Rightarrow> cpueaxh_engine" where
  "execute_cdq_with_decoded cb e inst =
     (let n = di_operand_size inst
      in on_ctx (\<lambda>c. if n = 16 then set_reg16 c REG_RDX (if get_reg16 c REG_RAX AND 0x8000 \<noteq> 0 then 0xFFFF else 0)
                     else if n = 32 then set_reg32 c REG_RDX (if get_reg32 c REG_RAX <s 0 then 0xFFFFFFFF else 0)
                     else set_reg64 c REG_RDX (if get_reg64 c REG_RAX <s 0 then 0xFFFFFFFFFFFFFFFF else 0)) e)"
definition execute_cbw ::
  "callbacks \<Rightarrow> cpueaxh_engine \<Rightarrow> u8 list \<Rightarrow> cpueaxh_engine" where
  "execute_cbw = execute_decoding decode_cbw_instruction execute_cbw_with_decoded"
definition execute_cbw_fast ::
  "callbacks \<Rightarrow> cpueaxh_engine \<Rightarrow> DecodedInst \<Rightarrow> cpueaxh_engine" where
  "execute_cbw_fast = execute_cached execute_cbw_with_decoded"
definition execute_cdq ::
  "callbacks \<Rightarrow> cpueaxh_engine \<Rightarrow> u8 list \<Rightarrow> cpueaxh_engine" where
  "execute_cdq = execute_decoding decode_cdq_instruction execute_cdq_with_decoded"
definition execute_cdq_fast ::
  "callbacks \<Rightarrow> cpueaxh_engine \<Rightarrow> DecodedInst \<Rightarrow> cpueaxh_engine" where
  "execute_cdq_fast = execute_cached execute_cdq_with_decoded"

subsection \<open>Replaying\<close>

lemma decode_accumulator_step: "decode_step (decode_accumulator_body b lock code) True"
proof -
  have part: "decode_step (with_inst_ctx (\<lambda>c i. i\<lparr>di_operand_size := accumulator_size c\<rparr>)) False"
    by (rule decode_step_with_inst_ctx) (auto simp: static_update_def accumulator_size_def agrees_def)
  show ?thesis unfolding decode_accumulator_body_def
    by (rule decode_step_weaken, (rule part decode_steps | (simp; fail))+)
qed

lemma decode_flags_step: "decode_step (decode_flags_body lock code) True"
  unfolding decode_flags_body_def by (rule decode_step_weaken, (rule decode_steps | (simp; fail))+)

lemma decode_lahf_step: "decode_step (decode_lahf_body cpuid lock code) True"
proof -
  have part: "decode_step (ud_when (\<lambda>i c. cpu_is_64bit_code c \<and> \<not> cpu_has_lahf_sahf_feature cpuid)) False"
    by (rule decode_step_ud_when) (use agrees_modes(2) in blast)
  show ?thesis unfolding decode_lahf_body_def
    by (rule decode_step_weaken, (rule part decode_steps | (simp; fail))+)
qed

interpretation cbw_decoder: prefix_decoder apply_rex_byte id "decode_accumulator_body 0x98" True decode_cbw_instruction
  by (intro prefix_decoder.intro raw_prefixes.prefix_reader_axioms prefix_decoder_axioms.intro decode_accumulator_step)
     (simp add: decode_cbw_instruction_def)
interpretation cdq_decoder: prefix_decoder apply_rex_byte id "decode_accumulator_body 0x99" True decode_cdq_instruction
  by (intro prefix_decoder.intro raw_prefixes.prefix_reader_axioms prefix_decoder_axioms.intro decode_accumulator_step)
     (simp add: decode_cdq_instruction_def)
interpretation flags_decoder: prefix_decoder apply_rex_byte id decode_flags_body True decode_flags_instruction
  by (intro prefix_decoder.intro raw_prefixes.prefix_reader_axioms prefix_decoder_axioms.intro decode_flags_step)
     (simp add: decode_flags_instruction_def)
interpretation lahf_decoder: prefix_decoder apply_rex_byte id "decode_lahf_body cpuid" True "decode_lahf_instruction cpuid" for cpuid
  by (intro prefix_decoder.intro raw_prefixes.prefix_reader_axioms prefix_decoder_axioms.intro decode_lahf_step)
     (simp add: decode_lahf_instruction_def)

end
