(* ===== verification/Carry.thy ===== *)
theory Carry
  imports Alu
begin

text \<open>
  ADC and SBB (\<^verbatim>\<open>instructions/adc.hpp\<close>, \<^verbatim>\<open>sbb.hpp\<close>). The decoder is that of ADD. The operand forms
  read the register number again when they write, and the register operand after the memory
  operand; the dispatch is on the operand size of the decoded instruction.
\<close>

unbundle bit_operations_syntax

definition carry_read_rm8 :: "callbacks \<Rightarrow> u8 \<Rightarrow> u64 \<Rightarrow> cpueaxh_engine \<Rightarrow> u8 \<times> cpueaxh_engine" where
  [insn_defs]: "carry_read_rm8 cb modrm mem_addr e = read_rm8 cb modrm (rm_index (cpu_ctx e) modrm) mem_addr e"
definition carry_write_rm8 :: "callbacks \<Rightarrow> u8 \<Rightarrow> u64 \<Rightarrow> u8 \<Rightarrow> cpueaxh_engine \<Rightarrow> cpueaxh_engine" where
  [insn_defs]: "carry_write_rm8 cb modrm mem_addr v e =
     write_rm8 cb modrm (rm_index (cpu_ctx e) modrm) mem_addr v e"
definition carry_read_reg8 :: "CPU_CONTEXT \<Rightarrow> u8 \<Rightarrow> u8" where
  [insn_defs]: "carry_read_reg8 c modrm = get_reg8 c (reg_index c modrm)"
definition carry_write_reg8 :: "CPU_CONTEXT \<Rightarrow> u8 \<Rightarrow> u8 \<Rightarrow> CPU_CONTEXT" where
  [insn_defs]: "carry_write_reg8 c modrm v = set_reg8 c (reg_index c modrm) v"
definition carry_read_rm16 :: "callbacks \<Rightarrow> u8 \<Rightarrow> u64 \<Rightarrow> cpueaxh_engine \<Rightarrow> u16 \<times> cpueaxh_engine" where
  [insn_defs]: "carry_read_rm16 cb modrm mem_addr e = read_rm16 cb modrm (rm_index (cpu_ctx e) modrm) mem_addr e"
definition carry_write_rm16 :: "callbacks \<Rightarrow> u8 \<Rightarrow> u64 \<Rightarrow> u16 \<Rightarrow> cpueaxh_engine \<Rightarrow> cpueaxh_engine" where
  [insn_defs]: "carry_write_rm16 cb modrm mem_addr v e =
     write_rm16 cb modrm (rm_index (cpu_ctx e) modrm) mem_addr v e"
definition carry_read_reg16 :: "CPU_CONTEXT \<Rightarrow> u8 \<Rightarrow> u16" where
  [insn_defs]: "carry_read_reg16 c modrm = get_reg16 c (reg_index c modrm)"
definition carry_write_reg16 :: "CPU_CONTEXT \<Rightarrow> u8 \<Rightarrow> u16 \<Rightarrow> CPU_CONTEXT" where
  [insn_defs]: "carry_write_reg16 c modrm v = set_reg16 c (reg_index c modrm) v"
definition carry_read_rm32 :: "callbacks \<Rightarrow> u8 \<Rightarrow> u64 \<Rightarrow> cpueaxh_engine \<Rightarrow> u32 \<times> cpueaxh_engine" where
  [insn_defs]: "carry_read_rm32 cb modrm mem_addr e = read_rm32 cb modrm (rm_index (cpu_ctx e) modrm) mem_addr e"
definition carry_write_rm32 :: "callbacks \<Rightarrow> u8 \<Rightarrow> u64 \<Rightarrow> u32 \<Rightarrow> cpueaxh_engine \<Rightarrow> cpueaxh_engine" where
  [insn_defs]: "carry_write_rm32 cb modrm mem_addr v e =
     write_rm32 cb modrm (rm_index (cpu_ctx e) modrm) mem_addr v e"
definition carry_read_reg32 :: "CPU_CONTEXT \<Rightarrow> u8 \<Rightarrow> u32" where
  [insn_defs]: "carry_read_reg32 c modrm = get_reg32 c (reg_index c modrm)"
definition carry_write_reg32 :: "CPU_CONTEXT \<Rightarrow> u8 \<Rightarrow> u32 \<Rightarrow> CPU_CONTEXT" where
  [insn_defs]: "carry_write_reg32 c modrm v = set_reg32 c (reg_index c modrm) v"
definition carry_read_rm64 :: "callbacks \<Rightarrow> u8 \<Rightarrow> u64 \<Rightarrow> cpueaxh_engine \<Rightarrow> u64 \<times> cpueaxh_engine" where
  [insn_defs]: "carry_read_rm64 cb modrm mem_addr e = read_rm64 cb modrm (rm_index (cpu_ctx e) modrm) mem_addr e"
definition carry_write_rm64 :: "callbacks \<Rightarrow> u8 \<Rightarrow> u64 \<Rightarrow> u64 \<Rightarrow> cpueaxh_engine \<Rightarrow> cpueaxh_engine" where
  [insn_defs]: "carry_write_rm64 cb modrm mem_addr v e =
     write_rm64 cb modrm (rm_index (cpu_ctx e) modrm) mem_addr v e"
definition carry_read_reg64 :: "CPU_CONTEXT \<Rightarrow> u8 \<Rightarrow> u64" where
  [insn_defs]: "carry_read_reg64 c modrm = get_reg64 c (reg_index c modrm)"
definition carry_write_reg64 :: "CPU_CONTEXT \<Rightarrow> u8 \<Rightarrow> u64 \<Rightarrow> CPU_CONTEXT" where
  [insn_defs]: "carry_write_reg64 c modrm v = set_reg64 c (reg_index c modrm) v"

definition carry_rm8_imm8 :: "alu_ops \<Rightarrow> callbacks \<Rightarrow> cpueaxh_engine \<Rightarrow> u8 \<Rightarrow> u64 \<Rightarrow> u8 \<Rightarrow> cpueaxh_engine" where
  [insn_defs]: "carry_rm8_imm8 A cb e modrm mem_addr imm =
     rmw (carry_read_rm8 cb modrm mem_addr) (carry_write_rm8 cb modrm mem_addr)
       (\<lambda>c dst. op8 A c dst imm) e"
definition carry_rm16_imm16 :: "alu_ops \<Rightarrow> callbacks \<Rightarrow> cpueaxh_engine \<Rightarrow> u8 \<Rightarrow> u64 \<Rightarrow> u16 \<Rightarrow> cpueaxh_engine" where
  [insn_defs]: "carry_rm16_imm16 A cb e modrm mem_addr imm =
     rmw (carry_read_rm16 cb modrm mem_addr) (carry_write_rm16 cb modrm mem_addr)
       (\<lambda>c dst. op16 A c dst imm) e"
definition carry_rm32_imm32 :: "alu_ops \<Rightarrow> callbacks \<Rightarrow> cpueaxh_engine \<Rightarrow> u8 \<Rightarrow> u64 \<Rightarrow> u32 \<Rightarrow> cpueaxh_engine" where
  [insn_defs]: "carry_rm32_imm32 A cb e modrm mem_addr imm =
     rmw (carry_read_rm32 cb modrm mem_addr) (carry_write_rm32 cb modrm mem_addr)
       (\<lambda>c dst. op32 A c dst imm) e"
definition carry_rm64_imm32 :: "alu_ops \<Rightarrow> callbacks \<Rightarrow> cpueaxh_engine \<Rightarrow> u8 \<Rightarrow> u64 \<Rightarrow> u32 \<Rightarrow> cpueaxh_engine" where
  [insn_defs]: "carry_rm64_imm32 A cb e modrm mem_addr imm =
     rmw (carry_read_rm64 cb modrm mem_addr) (carry_write_rm64 cb modrm mem_addr)
       (\<lambda>c dst. op64 A c dst (scast imm)) e"
definition carry_rm16_imm8 :: "alu_ops \<Rightarrow> callbacks \<Rightarrow> cpueaxh_engine \<Rightarrow> u8 \<Rightarrow> u64 \<Rightarrow> u8 \<Rightarrow> cpueaxh_engine" where
  [insn_defs]: "carry_rm16_imm8 A cb e modrm mem_addr imm =
     rmw (carry_read_rm16 cb modrm mem_addr) (carry_write_rm16 cb modrm mem_addr)
       (\<lambda>c dst. op16 A c dst (scast imm)) e"
definition carry_rm32_imm8 :: "alu_ops \<Rightarrow> callbacks \<Rightarrow> cpueaxh_engine \<Rightarrow> u8 \<Rightarrow> u64 \<Rightarrow> u8 \<Rightarrow> cpueaxh_engine" where
  [insn_defs]: "carry_rm32_imm8 A cb e modrm mem_addr imm =
     rmw (carry_read_rm32 cb modrm mem_addr) (carry_write_rm32 cb modrm mem_addr)
       (\<lambda>c dst. op32 A c dst (scast imm)) e"
definition carry_rm64_imm8 :: "alu_ops \<Rightarrow> callbacks \<Rightarrow> cpueaxh_engine \<Rightarrow> u8 \<Rightarrow> u64 \<Rightarrow> u8 \<Rightarrow> cpueaxh_engine" where
  [insn_defs]: "carry_rm64_imm8 A cb e modrm mem_addr imm =
     rmw (carry_read_rm64 cb modrm mem_addr) (carry_write_rm64 cb modrm mem_addr)
       (\<lambda>c dst. op64 A c dst (scast imm)) e"
definition carry_rm8_r8 :: "alu_ops \<Rightarrow> callbacks \<Rightarrow> cpueaxh_engine \<Rightarrow> u8 \<Rightarrow> u64 \<Rightarrow> cpueaxh_engine" where
  [insn_defs]: "carry_rm8_r8 A cb e modrm mem_addr =
     rmw (carry_read_rm8 cb modrm mem_addr) (carry_write_rm8 cb modrm mem_addr)
       (\<lambda>c dst. op8 A c dst (carry_read_reg8 c modrm)) e"
definition carry_r8_rm8 :: "alu_ops \<Rightarrow> callbacks \<Rightarrow> cpueaxh_engine \<Rightarrow> u8 \<Rightarrow> u64 \<Rightarrow> cpueaxh_engine" where
  [insn_defs]: "carry_r8_rm8 A cb e modrm mem_addr =
     (let dst = carry_read_reg8 (cpu_ctx e) modrm
      in rmw (carry_read_rm8 cb modrm mem_addr) (\<lambda>r. on_ctx (\<lambda>c. carry_write_reg8 c modrm r))
           (\<lambda>c src. op8 A c dst src) e)"
definition carry_rm16_r16 :: "alu_ops \<Rightarrow> callbacks \<Rightarrow> cpueaxh_engine \<Rightarrow> u8 \<Rightarrow> u64 \<Rightarrow> cpueaxh_engine" where
  [insn_defs]: "carry_rm16_r16 A cb e modrm mem_addr =
     rmw (carry_read_rm16 cb modrm mem_addr) (carry_write_rm16 cb modrm mem_addr)
       (\<lambda>c dst. op16 A c dst (carry_read_reg16 c modrm)) e"
definition carry_r16_rm16 :: "alu_ops \<Rightarrow> callbacks \<Rightarrow> cpueaxh_engine \<Rightarrow> u8 \<Rightarrow> u64 \<Rightarrow> cpueaxh_engine" where
  [insn_defs]: "carry_r16_rm16 A cb e modrm mem_addr =
     (let dst = carry_read_reg16 (cpu_ctx e) modrm
      in rmw (carry_read_rm16 cb modrm mem_addr) (\<lambda>r. on_ctx (\<lambda>c. carry_write_reg16 c modrm r))
           (\<lambda>c src. op16 A c dst src) e)"
definition carry_rm32_r32 :: "alu_ops \<Rightarrow> callbacks \<Rightarrow> cpueaxh_engine \<Rightarrow> u8 \<Rightarrow> u64 \<Rightarrow> cpueaxh_engine" where
  [insn_defs]: "carry_rm32_r32 A cb e modrm mem_addr =
     rmw (carry_read_rm32 cb modrm mem_addr) (carry_write_rm32 cb modrm mem_addr)
       (\<lambda>c dst. op32 A c dst (carry_read_reg32 c modrm)) e"
definition carry_r32_rm32 :: "alu_ops \<Rightarrow> callbacks \<Rightarrow> cpueaxh_engine \<Rightarrow> u8 \<Rightarrow> u64 \<Rightarrow> cpueaxh_engine" where
  [insn_defs]: "carry_r32_rm32 A cb e modrm mem_addr =
     (let dst = carry_read_reg32 (cpu_ctx e) modrm
      in rmw (carry_read_rm32 cb modrm mem_addr) (\<lambda>r. on_ctx (\<lambda>c. carry_write_reg32 c modrm r))
           (\<lambda>c src. op32 A c dst src) e)"
definition carry_rm64_r64 :: "alu_ops \<Rightarrow> callbacks \<Rightarrow> cpueaxh_engine \<Rightarrow> u8 \<Rightarrow> u64 \<Rightarrow> cpueaxh_engine" where
  [insn_defs]: "carry_rm64_r64 A cb e modrm mem_addr =
     rmw (carry_read_rm64 cb modrm mem_addr) (carry_write_rm64 cb modrm mem_addr)
       (\<lambda>c dst. op64 A c dst (carry_read_reg64 c modrm)) e"
definition carry_r64_rm64 :: "alu_ops \<Rightarrow> callbacks \<Rightarrow> cpueaxh_engine \<Rightarrow> u8 \<Rightarrow> u64 \<Rightarrow> cpueaxh_engine" where
  [insn_defs]: "carry_r64_rm64 A cb e modrm mem_addr =
     (let dst = carry_read_reg64 (cpu_ctx e) modrm
      in rmw (carry_read_rm64 cb modrm mem_addr) (\<lambda>r. on_ctx (\<lambda>c. carry_write_reg64 c modrm r))
           (\<lambda>c src. op64 A c dst src) e)"

definition execute_carry_with_decoded ::
  "alu_ops \<Rightarrow> u8 \<Rightarrow> callbacks \<Rightarrow> cpueaxh_engine \<Rightarrow> DecodedInstruction \<Rightarrow> cpueaxh_engine" where
  "execute_carry_with_decoded A b cb e inst =
     (let opc = di_opcode inst; m = di_modrm inst; a = di_mem_address inst; i = di_immediate inst;
          sized = by_size (di_operand_size inst = 64) (di_operand_size inst = 16)
      in if opc = b + 4 then on_ctx (\<lambda>c. alu_al_imm8 A c (ucast i)) e
         else if opc = b + 5
         then sized (on_ctx (\<lambda>c. alu_rax_imm32 A c (ucast i)) e) (on_ctx (\<lambda>c. alu_ax_imm16 A c (ucast i)) e)
                (on_ctx (\<lambda>c. alu_eax_imm32 A c (ucast i)) e)
         else if opc = 0x80 then carry_rm8_imm8 A cb e m a (ucast i)
         else if opc = 0x81
         then sized (carry_rm64_imm32 A cb e m a (ucast i)) (carry_rm16_imm16 A cb e m a (ucast i))
                (carry_rm32_imm32 A cb e m a (ucast i))
         else if opc = 0x83
         then sized (carry_rm64_imm8 A cb e m a (ucast i)) (carry_rm16_imm8 A cb e m a (ucast i))
                (carry_rm32_imm8 A cb e m a (ucast i))
         else if opc = b then carry_rm8_r8 A cb e m a
         else if opc = b + 1
         then sized (carry_rm64_r64 A cb e m a) (carry_rm16_r16 A cb e m a) (carry_rm32_r32 A cb e m a)
         else if opc = b + 2 then carry_r8_rm8 A cb e m a
         else if opc = b + 3
         then sized (carry_r64_rm64 A cb e m a) (carry_r16_rm16 A cb e m a) (carry_r32_rm32 A cb e m a)
         else on_ctx raise_ud_ctx e)"

subsection \<open>ADC\<close>

definition adc_value8 :: "CPU_CONTEXT \<Rightarrow> u8 \<Rightarrow> u8 \<Rightarrow> u8 \<times> CPU_CONTEXT" where
  "adc_value8 ctx dst src =
     (let carry = (if rflags ctx AND RFLAGS_CF \<noteq> 0 then 1 else 0 :: u8);
          r = ucast dst + ucast src + ucast carry :: u16
      in (ucast r, update_flags_adc8 ctx dst src carry r))"
definition adc_value16 :: "CPU_CONTEXT \<Rightarrow> u16 \<Rightarrow> u16 \<Rightarrow> u16 \<times> CPU_CONTEXT" where
  "adc_value16 ctx dst src =
     (let carry = (if rflags ctx AND RFLAGS_CF \<noteq> 0 then 1 else 0 :: u8);
          r = ucast dst + ucast src + ucast carry :: u32
      in (ucast r, update_flags_adc16 ctx dst src carry r))"
definition adc_value32 :: "CPU_CONTEXT \<Rightarrow> u32 \<Rightarrow> u32 \<Rightarrow> u32 \<times> CPU_CONTEXT" where
  "adc_value32 ctx dst src =
     (let carry = (if rflags ctx AND RFLAGS_CF \<noteq> 0 then 1 else 0 :: u8);
          r = ucast dst + ucast src + ucast carry :: u64
      in (ucast r, update_flags_adc32 ctx dst src carry r))"
definition adc_value64 :: "CPU_CONTEXT \<Rightarrow> u64 \<Rightarrow> u64 \<Rightarrow> u64 \<times> CPU_CONTEXT" where
  "adc_value64 ctx dst src =
     (let carry = (if rflags ctx AND RFLAGS_CF \<noteq> 0 then 1 else 0 :: u8);
          r = dst + src + ucast carry :: u64
      in (r, update_flags_adc64 ctx dst src carry r))"
definition adc_ops :: alu_ops where
  "adc_ops = \<lparr>op8 = adc_value8, op16 = adc_value16, op32 = adc_value32, op64 = adc_value64\<rparr>"

definition adc_rm_index :: "CPU_CONTEXT \<Rightarrow> u8 \<Rightarrow> nat" where "adc_rm_index = rm_index"
definition adc_reg_index :: "CPU_CONTEXT \<Rightarrow> u8 \<Rightarrow> nat" where "adc_reg_index = reg_index"
definition adc_read_rm8 :: "callbacks \<Rightarrow> u8 \<Rightarrow> u64 \<Rightarrow> cpueaxh_engine \<Rightarrow> u8 \<times> cpueaxh_engine" where
  "adc_read_rm8 = carry_read_rm8"
definition adc_write_rm8 :: "callbacks \<Rightarrow> u8 \<Rightarrow> u64 \<Rightarrow> u8 \<Rightarrow> cpueaxh_engine \<Rightarrow> cpueaxh_engine" where
  "adc_write_rm8 = carry_write_rm8"
definition adc_read_reg8 :: "CPU_CONTEXT \<Rightarrow> u8 \<Rightarrow> u8" where "adc_read_reg8 = carry_read_reg8"
definition adc_write_reg8 :: "CPU_CONTEXT \<Rightarrow> u8 \<Rightarrow> u8 \<Rightarrow> CPU_CONTEXT" where
  "adc_write_reg8 = carry_write_reg8"
definition adc_read_rm16 :: "callbacks \<Rightarrow> u8 \<Rightarrow> u64 \<Rightarrow> cpueaxh_engine \<Rightarrow> u16 \<times> cpueaxh_engine" where
  "adc_read_rm16 = carry_read_rm16"
definition adc_write_rm16 :: "callbacks \<Rightarrow> u8 \<Rightarrow> u64 \<Rightarrow> u16 \<Rightarrow> cpueaxh_engine \<Rightarrow> cpueaxh_engine" where
  "adc_write_rm16 = carry_write_rm16"
definition adc_read_reg16 :: "CPU_CONTEXT \<Rightarrow> u8 \<Rightarrow> u16" where "adc_read_reg16 = carry_read_reg16"
definition adc_write_reg16 :: "CPU_CONTEXT \<Rightarrow> u8 \<Rightarrow> u16 \<Rightarrow> CPU_CONTEXT" where
  "adc_write_reg16 = carry_write_reg16"
definition adc_read_rm32 :: "callbacks \<Rightarrow> u8 \<Rightarrow> u64 \<Rightarrow> cpueaxh_engine \<Rightarrow> u32 \<times> cpueaxh_engine" where
  "adc_read_rm32 = carry_read_rm32"
definition adc_write_rm32 :: "callbacks \<Rightarrow> u8 \<Rightarrow> u64 \<Rightarrow> u32 \<Rightarrow> cpueaxh_engine \<Rightarrow> cpueaxh_engine" where
  "adc_write_rm32 = carry_write_rm32"
definition adc_read_reg32 :: "CPU_CONTEXT \<Rightarrow> u8 \<Rightarrow> u32" where "adc_read_reg32 = carry_read_reg32"
definition adc_write_reg32 :: "CPU_CONTEXT \<Rightarrow> u8 \<Rightarrow> u32 \<Rightarrow> CPU_CONTEXT" where
  "adc_write_reg32 = carry_write_reg32"
definition adc_read_rm64 :: "callbacks \<Rightarrow> u8 \<Rightarrow> u64 \<Rightarrow> cpueaxh_engine \<Rightarrow> u64 \<times> cpueaxh_engine" where
  "adc_read_rm64 = carry_read_rm64"
definition adc_write_rm64 :: "callbacks \<Rightarrow> u8 \<Rightarrow> u64 \<Rightarrow> u64 \<Rightarrow> cpueaxh_engine \<Rightarrow> cpueaxh_engine" where
  "adc_write_rm64 = carry_write_rm64"
definition adc_read_reg64 :: "CPU_CONTEXT \<Rightarrow> u8 \<Rightarrow> u64" where "adc_read_reg64 = carry_read_reg64"
definition adc_write_reg64 :: "CPU_CONTEXT \<Rightarrow> u8 \<Rightarrow> u64 \<Rightarrow> CPU_CONTEXT" where
  "adc_write_reg64 = carry_write_reg64"
definition adc_al_imm8 :: "CPU_CONTEXT \<Rightarrow> u8 \<Rightarrow> CPU_CONTEXT" where [insn_defs]: "adc_al_imm8 = alu_al_imm8 adc_ops"
definition adc_ax_imm16 :: "CPU_CONTEXT \<Rightarrow> u16 \<Rightarrow> CPU_CONTEXT" where [insn_defs]: "adc_ax_imm16 = alu_ax_imm16 adc_ops"
definition adc_eax_imm32 :: "CPU_CONTEXT \<Rightarrow> u32 \<Rightarrow> CPU_CONTEXT" where [insn_defs]: "adc_eax_imm32 = alu_eax_imm32 adc_ops"
definition adc_rax_imm32 :: "CPU_CONTEXT \<Rightarrow> u32 \<Rightarrow> CPU_CONTEXT" where [insn_defs]: "adc_rax_imm32 = alu_rax_imm32 adc_ops"
definition adc_rm8_imm8 :: "callbacks \<Rightarrow> cpueaxh_engine \<Rightarrow> u8 \<Rightarrow> u64 \<Rightarrow> u8 \<Rightarrow> cpueaxh_engine" where
  [insn_defs]: "adc_rm8_imm8 = carry_rm8_imm8 adc_ops"
definition adc_rm16_imm16 :: "callbacks \<Rightarrow> cpueaxh_engine \<Rightarrow> u8 \<Rightarrow> u64 \<Rightarrow> u16 \<Rightarrow> cpueaxh_engine" where
  [insn_defs]: "adc_rm16_imm16 = carry_rm16_imm16 adc_ops"
definition adc_rm32_imm32 :: "callbacks \<Rightarrow> cpueaxh_engine \<Rightarrow> u8 \<Rightarrow> u64 \<Rightarrow> u32 \<Rightarrow> cpueaxh_engine" where
  [insn_defs]: "adc_rm32_imm32 = carry_rm32_imm32 adc_ops"
definition adc_rm64_imm32 :: "callbacks \<Rightarrow> cpueaxh_engine \<Rightarrow> u8 \<Rightarrow> u64 \<Rightarrow> u32 \<Rightarrow> cpueaxh_engine" where
  [insn_defs]: "adc_rm64_imm32 = carry_rm64_imm32 adc_ops"
definition adc_rm16_imm8 :: "callbacks \<Rightarrow> cpueaxh_engine \<Rightarrow> u8 \<Rightarrow> u64 \<Rightarrow> u8 \<Rightarrow> cpueaxh_engine" where
  [insn_defs]: "adc_rm16_imm8 = carry_rm16_imm8 adc_ops"
definition adc_rm32_imm8 :: "callbacks \<Rightarrow> cpueaxh_engine \<Rightarrow> u8 \<Rightarrow> u64 \<Rightarrow> u8 \<Rightarrow> cpueaxh_engine" where
  [insn_defs]: "adc_rm32_imm8 = carry_rm32_imm8 adc_ops"
definition adc_rm64_imm8 :: "callbacks \<Rightarrow> cpueaxh_engine \<Rightarrow> u8 \<Rightarrow> u64 \<Rightarrow> u8 \<Rightarrow> cpueaxh_engine" where
  [insn_defs]: "adc_rm64_imm8 = carry_rm64_imm8 adc_ops"
definition adc_rm8_r8 :: "callbacks \<Rightarrow> cpueaxh_engine \<Rightarrow> u8 \<Rightarrow> u64 \<Rightarrow> cpueaxh_engine" where
  [insn_defs]: "adc_rm8_r8 = carry_rm8_r8 adc_ops"
definition adc_r8_rm8 :: "callbacks \<Rightarrow> cpueaxh_engine \<Rightarrow> u8 \<Rightarrow> u64 \<Rightarrow> cpueaxh_engine" where
  [insn_defs]: "adc_r8_rm8 = carry_r8_rm8 adc_ops"
definition adc_rm16_r16 :: "callbacks \<Rightarrow> cpueaxh_engine \<Rightarrow> u8 \<Rightarrow> u64 \<Rightarrow> cpueaxh_engine" where
  [insn_defs]: "adc_rm16_r16 = carry_rm16_r16 adc_ops"
definition adc_r16_rm16 :: "callbacks \<Rightarrow> cpueaxh_engine \<Rightarrow> u8 \<Rightarrow> u64 \<Rightarrow> cpueaxh_engine" where
  [insn_defs]: "adc_r16_rm16 = carry_r16_rm16 adc_ops"
definition adc_rm32_r32 :: "callbacks \<Rightarrow> cpueaxh_engine \<Rightarrow> u8 \<Rightarrow> u64 \<Rightarrow> cpueaxh_engine" where
  [insn_defs]: "adc_rm32_r32 = carry_rm32_r32 adc_ops"
definition adc_r32_rm32 :: "callbacks \<Rightarrow> cpueaxh_engine \<Rightarrow> u8 \<Rightarrow> u64 \<Rightarrow> cpueaxh_engine" where
  [insn_defs]: "adc_r32_rm32 = carry_r32_rm32 adc_ops"
definition adc_rm64_r64 :: "callbacks \<Rightarrow> cpueaxh_engine \<Rightarrow> u8 \<Rightarrow> u64 \<Rightarrow> cpueaxh_engine" where
  [insn_defs]: "adc_rm64_r64 = carry_rm64_r64 adc_ops"
definition adc_r64_rm64 :: "callbacks \<Rightarrow> cpueaxh_engine \<Rightarrow> u8 \<Rightarrow> u64 \<Rightarrow> cpueaxh_engine" where
  [insn_defs]: "adc_r64_rm64 = carry_r64_rm64 adc_ops"

definition decode_modrm_adc :: "bool \<Rightarrow> u8 list \<Rightarrow> dstate \<Rightarrow> dresult" where
  "decode_modrm_adc = decode_modrm_lockable"
definition decode_adc_instruction :: "CPU_CONTEXT \<Rightarrow> u8 list \<Rightarrow> DecodedInstruction \<times> CPU_CONTEXT" where
  "decode_adc_instruction = decode_alu_instruction 0x10 2"

definition execute_adc_with_decoded ::
  "callbacks \<Rightarrow> cpueaxh_engine \<Rightarrow> DecodedInstruction \<Rightarrow> cpueaxh_engine" where
  "execute_adc_with_decoded = execute_carry_with_decoded adc_ops 0x10"
definition execute_adc :: "callbacks \<Rightarrow> cpueaxh_engine \<Rightarrow> u8 list \<Rightarrow> cpueaxh_engine" where
  "execute_adc = execute_decoding decode_adc_instruction execute_adc_with_decoded"
definition execute_adc_fast :: "callbacks \<Rightarrow> cpueaxh_engine \<Rightarrow> DecodedInst \<Rightarrow> cpueaxh_engine" where
  "execute_adc_fast = execute_cached execute_adc_with_decoded"

subsection \<open>SBB\<close>

definition sbb_value8 :: "CPU_CONTEXT \<Rightarrow> u8 \<Rightarrow> u8 \<Rightarrow> u8 \<times> CPU_CONTEXT" where
  "sbb_value8 ctx dst src =
     (let carry = (if rflags ctx AND RFLAGS_CF \<noteq> 0 then 1 else 0 :: u8);
          r = ucast dst - ucast src - ucast carry :: u16
      in (ucast r, update_flags_sbb8 ctx dst src carry r))"
definition sbb_value16 :: "CPU_CONTEXT \<Rightarrow> u16 \<Rightarrow> u16 \<Rightarrow> u16 \<times> CPU_CONTEXT" where
  "sbb_value16 ctx dst src =
     (let carry = (if rflags ctx AND RFLAGS_CF \<noteq> 0 then 1 else 0 :: u8);
          r = ucast dst - ucast src - ucast carry :: u32
      in (ucast r, update_flags_sbb16 ctx dst src carry r))"
definition sbb_value32 :: "CPU_CONTEXT \<Rightarrow> u32 \<Rightarrow> u32 \<Rightarrow> u32 \<times> CPU_CONTEXT" where
  "sbb_value32 ctx dst src =
     (let carry = (if rflags ctx AND RFLAGS_CF \<noteq> 0 then 1 else 0 :: u8);
          r = ucast dst - ucast src - ucast carry :: u64
      in (ucast r, update_flags_sbb32 ctx dst src carry r))"
definition sbb_value64 :: "CPU_CONTEXT \<Rightarrow> u64 \<Rightarrow> u64 \<Rightarrow> u64 \<times> CPU_CONTEXT" where
  "sbb_value64 ctx dst src =
     (let carry = (if rflags ctx AND RFLAGS_CF \<noteq> 0 then 1 else 0 :: u8);
          r = dst - src - ucast carry :: u64
      in (r, update_flags_sbb64 ctx dst src carry r))"
definition sbb_ops :: alu_ops where
  "sbb_ops = \<lparr>op8 = sbb_value8, op16 = sbb_value16, op32 = sbb_value32, op64 = sbb_value64\<rparr>"

definition sbb_rm_index :: "CPU_CONTEXT \<Rightarrow> u8 \<Rightarrow> nat" where "sbb_rm_index = rm_index"
definition sbb_reg_index :: "CPU_CONTEXT \<Rightarrow> u8 \<Rightarrow> nat" where "sbb_reg_index = reg_index"
definition sbb_read_rm8 :: "callbacks \<Rightarrow> u8 \<Rightarrow> u64 \<Rightarrow> cpueaxh_engine \<Rightarrow> u8 \<times> cpueaxh_engine" where
  "sbb_read_rm8 = carry_read_rm8"
definition sbb_write_rm8 :: "callbacks \<Rightarrow> u8 \<Rightarrow> u64 \<Rightarrow> u8 \<Rightarrow> cpueaxh_engine \<Rightarrow> cpueaxh_engine" where
  "sbb_write_rm8 = carry_write_rm8"
definition sbb_read_reg8 :: "CPU_CONTEXT \<Rightarrow> u8 \<Rightarrow> u8" where "sbb_read_reg8 = carry_read_reg8"
definition sbb_write_reg8 :: "CPU_CONTEXT \<Rightarrow> u8 \<Rightarrow> u8 \<Rightarrow> CPU_CONTEXT" where
  "sbb_write_reg8 = carry_write_reg8"
definition sbb_read_rm16 :: "callbacks \<Rightarrow> u8 \<Rightarrow> u64 \<Rightarrow> cpueaxh_engine \<Rightarrow> u16 \<times> cpueaxh_engine" where
  "sbb_read_rm16 = carry_read_rm16"
definition sbb_write_rm16 :: "callbacks \<Rightarrow> u8 \<Rightarrow> u64 \<Rightarrow> u16 \<Rightarrow> cpueaxh_engine \<Rightarrow> cpueaxh_engine" where
  "sbb_write_rm16 = carry_write_rm16"
definition sbb_read_reg16 :: "CPU_CONTEXT \<Rightarrow> u8 \<Rightarrow> u16" where "sbb_read_reg16 = carry_read_reg16"
definition sbb_write_reg16 :: "CPU_CONTEXT \<Rightarrow> u8 \<Rightarrow> u16 \<Rightarrow> CPU_CONTEXT" where
  "sbb_write_reg16 = carry_write_reg16"
definition sbb_read_rm32 :: "callbacks \<Rightarrow> u8 \<Rightarrow> u64 \<Rightarrow> cpueaxh_engine \<Rightarrow> u32 \<times> cpueaxh_engine" where
  "sbb_read_rm32 = carry_read_rm32"
definition sbb_write_rm32 :: "callbacks \<Rightarrow> u8 \<Rightarrow> u64 \<Rightarrow> u32 \<Rightarrow> cpueaxh_engine \<Rightarrow> cpueaxh_engine" where
  "sbb_write_rm32 = carry_write_rm32"
definition sbb_read_reg32 :: "CPU_CONTEXT \<Rightarrow> u8 \<Rightarrow> u32" where "sbb_read_reg32 = carry_read_reg32"
definition sbb_write_reg32 :: "CPU_CONTEXT \<Rightarrow> u8 \<Rightarrow> u32 \<Rightarrow> CPU_CONTEXT" where
  "sbb_write_reg32 = carry_write_reg32"
definition sbb_read_rm64 :: "callbacks \<Rightarrow> u8 \<Rightarrow> u64 \<Rightarrow> cpueaxh_engine \<Rightarrow> u64 \<times> cpueaxh_engine" where
  "sbb_read_rm64 = carry_read_rm64"
definition sbb_write_rm64 :: "callbacks \<Rightarrow> u8 \<Rightarrow> u64 \<Rightarrow> u64 \<Rightarrow> cpueaxh_engine \<Rightarrow> cpueaxh_engine" where
  "sbb_write_rm64 = carry_write_rm64"
definition sbb_read_reg64 :: "CPU_CONTEXT \<Rightarrow> u8 \<Rightarrow> u64" where "sbb_read_reg64 = carry_read_reg64"
definition sbb_write_reg64 :: "CPU_CONTEXT \<Rightarrow> u8 \<Rightarrow> u64 \<Rightarrow> CPU_CONTEXT" where
  "sbb_write_reg64 = carry_write_reg64"
definition sbb_al_imm8 :: "CPU_CONTEXT \<Rightarrow> u8 \<Rightarrow> CPU_CONTEXT" where [insn_defs]: "sbb_al_imm8 = alu_al_imm8 sbb_ops"
definition sbb_ax_imm16 :: "CPU_CONTEXT \<Rightarrow> u16 \<Rightarrow> CPU_CONTEXT" where [insn_defs]: "sbb_ax_imm16 = alu_ax_imm16 sbb_ops"
definition sbb_eax_imm32 :: "CPU_CONTEXT \<Rightarrow> u32 \<Rightarrow> CPU_CONTEXT" where [insn_defs]: "sbb_eax_imm32 = alu_eax_imm32 sbb_ops"
definition sbb_rax_imm32 :: "CPU_CONTEXT \<Rightarrow> u32 \<Rightarrow> CPU_CONTEXT" where [insn_defs]: "sbb_rax_imm32 = alu_rax_imm32 sbb_ops"
definition sbb_rm8_imm8 :: "callbacks \<Rightarrow> cpueaxh_engine \<Rightarrow> u8 \<Rightarrow> u64 \<Rightarrow> u8 \<Rightarrow> cpueaxh_engine" where
  [insn_defs]: "sbb_rm8_imm8 = carry_rm8_imm8 sbb_ops"
definition sbb_rm16_imm16 :: "callbacks \<Rightarrow> cpueaxh_engine \<Rightarrow> u8 \<Rightarrow> u64 \<Rightarrow> u16 \<Rightarrow> cpueaxh_engine" where
  [insn_defs]: "sbb_rm16_imm16 = carry_rm16_imm16 sbb_ops"
definition sbb_rm32_imm32 :: "callbacks \<Rightarrow> cpueaxh_engine \<Rightarrow> u8 \<Rightarrow> u64 \<Rightarrow> u32 \<Rightarrow> cpueaxh_engine" where
  [insn_defs]: "sbb_rm32_imm32 = carry_rm32_imm32 sbb_ops"
definition sbb_rm64_imm32 :: "callbacks \<Rightarrow> cpueaxh_engine \<Rightarrow> u8 \<Rightarrow> u64 \<Rightarrow> u32 \<Rightarrow> cpueaxh_engine" where
  [insn_defs]: "sbb_rm64_imm32 = carry_rm64_imm32 sbb_ops"
definition sbb_rm16_imm8 :: "callbacks \<Rightarrow> cpueaxh_engine \<Rightarrow> u8 \<Rightarrow> u64 \<Rightarrow> u8 \<Rightarrow> cpueaxh_engine" where
  [insn_defs]: "sbb_rm16_imm8 = carry_rm16_imm8 sbb_ops"
definition sbb_rm32_imm8 :: "callbacks \<Rightarrow> cpueaxh_engine \<Rightarrow> u8 \<Rightarrow> u64 \<Rightarrow> u8 \<Rightarrow> cpueaxh_engine" where
  [insn_defs]: "sbb_rm32_imm8 = carry_rm32_imm8 sbb_ops"
definition sbb_rm64_imm8 :: "callbacks \<Rightarrow> cpueaxh_engine \<Rightarrow> u8 \<Rightarrow> u64 \<Rightarrow> u8 \<Rightarrow> cpueaxh_engine" where
  [insn_defs]: "sbb_rm64_imm8 = carry_rm64_imm8 sbb_ops"
definition sbb_rm8_r8 :: "callbacks \<Rightarrow> cpueaxh_engine \<Rightarrow> u8 \<Rightarrow> u64 \<Rightarrow> cpueaxh_engine" where
  [insn_defs]: "sbb_rm8_r8 = carry_rm8_r8 sbb_ops"
definition sbb_r8_rm8 :: "callbacks \<Rightarrow> cpueaxh_engine \<Rightarrow> u8 \<Rightarrow> u64 \<Rightarrow> cpueaxh_engine" where
  [insn_defs]: "sbb_r8_rm8 = carry_r8_rm8 sbb_ops"
definition sbb_rm16_r16 :: "callbacks \<Rightarrow> cpueaxh_engine \<Rightarrow> u8 \<Rightarrow> u64 \<Rightarrow> cpueaxh_engine" where
  [insn_defs]: "sbb_rm16_r16 = carry_rm16_r16 sbb_ops"
definition sbb_r16_rm16 :: "callbacks \<Rightarrow> cpueaxh_engine \<Rightarrow> u8 \<Rightarrow> u64 \<Rightarrow> cpueaxh_engine" where
  [insn_defs]: "sbb_r16_rm16 = carry_r16_rm16 sbb_ops"
definition sbb_rm32_r32 :: "callbacks \<Rightarrow> cpueaxh_engine \<Rightarrow> u8 \<Rightarrow> u64 \<Rightarrow> cpueaxh_engine" where
  [insn_defs]: "sbb_rm32_r32 = carry_rm32_r32 sbb_ops"
definition sbb_r32_rm32 :: "callbacks \<Rightarrow> cpueaxh_engine \<Rightarrow> u8 \<Rightarrow> u64 \<Rightarrow> cpueaxh_engine" where
  [insn_defs]: "sbb_r32_rm32 = carry_r32_rm32 sbb_ops"
definition sbb_rm64_r64 :: "callbacks \<Rightarrow> cpueaxh_engine \<Rightarrow> u8 \<Rightarrow> u64 \<Rightarrow> cpueaxh_engine" where
  [insn_defs]: "sbb_rm64_r64 = carry_rm64_r64 sbb_ops"
definition sbb_r64_rm64 :: "callbacks \<Rightarrow> cpueaxh_engine \<Rightarrow> u8 \<Rightarrow> u64 \<Rightarrow> cpueaxh_engine" where
  [insn_defs]: "sbb_r64_rm64 = carry_r64_rm64 sbb_ops"

definition decode_modrm_sbb :: "bool \<Rightarrow> u8 list \<Rightarrow> dstate \<Rightarrow> dresult" where
  "decode_modrm_sbb = decode_modrm_lockable"
definition decode_sbb_instruction :: "CPU_CONTEXT \<Rightarrow> u8 list \<Rightarrow> DecodedInstruction \<times> CPU_CONTEXT" where
  "decode_sbb_instruction = decode_alu_instruction 0x18 3"

definition execute_sbb_with_decoded ::
  "callbacks \<Rightarrow> cpueaxh_engine \<Rightarrow> DecodedInstruction \<Rightarrow> cpueaxh_engine" where
  "execute_sbb_with_decoded = execute_carry_with_decoded sbb_ops 0x18"
definition execute_sbb :: "callbacks \<Rightarrow> cpueaxh_engine \<Rightarrow> u8 list \<Rightarrow> cpueaxh_engine" where
  "execute_sbb = execute_decoding decode_sbb_instruction execute_sbb_with_decoded"
definition execute_sbb_fast :: "callbacks \<Rightarrow> cpueaxh_engine \<Rightarrow> DecodedInst \<Rightarrow> cpueaxh_engine" where
  "execute_sbb_fast = execute_cached execute_sbb_with_decoded"

subsection \<open>Replaying\<close>

interpretation adc_decoder: opened_decoder apply_rex_byte id "decode_alu_opcode 0x10 2" True decode_adc_instruction
  unfolding decode_adc_instruction_def by (rule decode_alu_opened)
interpretation sbb_decoder: opened_decoder apply_rex_byte id "decode_alu_opcode 0x18 3" True decode_sbb_instruction
  unfolding decode_sbb_instruction_def by (rule decode_alu_opened)

end
