(* ===== verification/Compare.thy ===== *)
theory Compare
  imports Alu
begin

text \<open>
  CMP and TEST (\<^verbatim>\<open>instructions/cmp.hpp\<close>, \<^verbatim>\<open>test.hpp\<close>): the operand forms of ADD without the write. A LOCK
  prefix raises an exception in the prefix loop, and the ModRM decoding does not look at it.
\<close>

unbundle bit_operations_syntax

definition compare :: "(cpueaxh_engine \<Rightarrow> 'v \<times> cpueaxh_engine) \<Rightarrow> (CPU_CONTEXT \<Rightarrow> 'v \<Rightarrow> CPU_CONTEXT) \<Rightarrow>
  cpueaxh_engine \<Rightarrow> cpueaxh_engine" where
  [insn_defs]: "compare rd f e = (case rd e of (v, e1) \<Rightarrow> on_ctx (\<lambda>c. f c v) e1)"

record compare_ops =
  cmp8 :: "CPU_CONTEXT \<Rightarrow> u8 \<Rightarrow> u8 \<Rightarrow> CPU_CONTEXT"
  cmp16 :: "CPU_CONTEXT \<Rightarrow> u16 \<Rightarrow> u16 \<Rightarrow> CPU_CONTEXT"
  cmp32 :: "CPU_CONTEXT \<Rightarrow> u32 \<Rightarrow> u32 \<Rightarrow> CPU_CONTEXT"
  cmp64 :: "CPU_CONTEXT \<Rightarrow> u64 \<Rightarrow> u64 \<Rightarrow> CPU_CONTEXT"

definition compare_al_imm8 :: "compare_ops \<Rightarrow> CPU_CONTEXT \<Rightarrow> u8 \<Rightarrow> CPU_CONTEXT" where
  [insn_defs]: "compare_al_imm8 C ctx imm = cmp8 C ctx (ucast (regs ctx REG_RAX AND 0xFF)) imm"
definition compare_ax_imm16 :: "compare_ops \<Rightarrow> CPU_CONTEXT \<Rightarrow> u16 \<Rightarrow> CPU_CONTEXT" where
  [insn_defs]: "compare_ax_imm16 C ctx imm = cmp16 C ctx (ucast (regs ctx REG_RAX AND 0xFFFF)) imm"
definition compare_eax_imm32 :: "compare_ops \<Rightarrow> CPU_CONTEXT \<Rightarrow> u32 \<Rightarrow> CPU_CONTEXT" where
  [insn_defs]: "compare_eax_imm32 C ctx imm = cmp32 C ctx (ucast (regs ctx REG_RAX AND 0xFFFFFFFF)) imm"
definition compare_rax_imm32 :: "compare_ops \<Rightarrow> CPU_CONTEXT \<Rightarrow> u32 \<Rightarrow> CPU_CONTEXT" where
  [insn_defs]: "compare_rax_imm32 C ctx imm = cmp64 C ctx (regs ctx REG_RAX) (scast imm)"

definition compare_rm8_imm8 :: "compare_ops \<Rightarrow> callbacks \<Rightarrow> cpueaxh_engine \<Rightarrow> u8 \<Rightarrow> u64 \<Rightarrow> u8 \<Rightarrow> cpueaxh_engine" where
  [insn_defs]: "compare_rm8_imm8 C cb e modrm mem_addr imm =
     compare (read_rm8 cb modrm (rm_index (cpu_ctx e) modrm) mem_addr) (\<lambda>c v. cmp8 C c v imm) e"
definition compare_rm16_imm16 :: "compare_ops \<Rightarrow> callbacks \<Rightarrow> cpueaxh_engine \<Rightarrow> u8 \<Rightarrow> u64 \<Rightarrow> u16 \<Rightarrow> cpueaxh_engine" where
  [insn_defs]: "compare_rm16_imm16 C cb e modrm mem_addr imm =
     compare (read_rm16 cb modrm (rm_index (cpu_ctx e) modrm) mem_addr) (\<lambda>c v. cmp16 C c v imm) e"
definition compare_rm32_imm32 :: "compare_ops \<Rightarrow> callbacks \<Rightarrow> cpueaxh_engine \<Rightarrow> u8 \<Rightarrow> u64 \<Rightarrow> u32 \<Rightarrow> cpueaxh_engine" where
  [insn_defs]: "compare_rm32_imm32 C cb e modrm mem_addr imm =
     compare (read_rm32 cb modrm (rm_index (cpu_ctx e) modrm) mem_addr) (\<lambda>c v. cmp32 C c v imm) e"
definition compare_rm64_imm32 :: "compare_ops \<Rightarrow> callbacks \<Rightarrow> cpueaxh_engine \<Rightarrow> u8 \<Rightarrow> u64 \<Rightarrow> u32 \<Rightarrow> cpueaxh_engine" where
  [insn_defs]: "compare_rm64_imm32 C cb e modrm mem_addr imm =
     compare (read_rm64 cb modrm (rm_index (cpu_ctx e) modrm) mem_addr) (\<lambda>c v. cmp64 C c v (scast imm)) e"
definition compare_rm16_imm8 :: "compare_ops \<Rightarrow> callbacks \<Rightarrow> cpueaxh_engine \<Rightarrow> u8 \<Rightarrow> u64 \<Rightarrow> u8 \<Rightarrow> cpueaxh_engine" where
  [insn_defs]: "compare_rm16_imm8 C cb e modrm mem_addr imm =
     compare (read_rm16 cb modrm (rm_index (cpu_ctx e) modrm) mem_addr) (\<lambda>c v. cmp16 C c v (scast imm)) e"
definition compare_rm32_imm8 :: "compare_ops \<Rightarrow> callbacks \<Rightarrow> cpueaxh_engine \<Rightarrow> u8 \<Rightarrow> u64 \<Rightarrow> u8 \<Rightarrow> cpueaxh_engine" where
  [insn_defs]: "compare_rm32_imm8 C cb e modrm mem_addr imm =
     compare (read_rm32 cb modrm (rm_index (cpu_ctx e) modrm) mem_addr) (\<lambda>c v. cmp32 C c v (scast imm)) e"
definition compare_rm64_imm8 :: "compare_ops \<Rightarrow> callbacks \<Rightarrow> cpueaxh_engine \<Rightarrow> u8 \<Rightarrow> u64 \<Rightarrow> u8 \<Rightarrow> cpueaxh_engine" where
  [insn_defs]: "compare_rm64_imm8 C cb e modrm mem_addr imm =
     compare (read_rm64 cb modrm (rm_index (cpu_ctx e) modrm) mem_addr) (\<lambda>c v. cmp64 C c v (scast imm)) e"
definition compare_rm8_r8 :: "compare_ops \<Rightarrow> callbacks \<Rightarrow> cpueaxh_engine \<Rightarrow> u8 \<Rightarrow> u64 \<Rightarrow> cpueaxh_engine" where
  [insn_defs]: "compare_rm8_r8 C cb e modrm mem_addr =
     (let src = get_reg8 (cpu_ctx e) (reg_index (cpu_ctx e) modrm)
      in compare (read_rm8 cb modrm (rm_index (cpu_ctx e) modrm) mem_addr) (\<lambda>c dst. cmp8 C c dst src) e)"
definition compare_r8_rm8 :: "compare_ops \<Rightarrow> callbacks \<Rightarrow> cpueaxh_engine \<Rightarrow> u8 \<Rightarrow> u64 \<Rightarrow> cpueaxh_engine" where
  [insn_defs]: "compare_r8_rm8 C cb e modrm mem_addr =
     (let dst = get_reg8 (cpu_ctx e) (reg_index (cpu_ctx e) modrm)
      in compare (read_rm8 cb modrm (rm_index (cpu_ctx e) modrm) mem_addr) (\<lambda>c src. cmp8 C c dst src) e)"
definition compare_rm16_r16 :: "compare_ops \<Rightarrow> callbacks \<Rightarrow> cpueaxh_engine \<Rightarrow> u8 \<Rightarrow> u64 \<Rightarrow> cpueaxh_engine" where
  [insn_defs]: "compare_rm16_r16 C cb e modrm mem_addr =
     (let src = get_reg16 (cpu_ctx e) (reg_index (cpu_ctx e) modrm)
      in compare (read_rm16 cb modrm (rm_index (cpu_ctx e) modrm) mem_addr) (\<lambda>c dst. cmp16 C c dst src) e)"
definition compare_r16_rm16 :: "compare_ops \<Rightarrow> callbacks \<Rightarrow> cpueaxh_engine \<Rightarrow> u8 \<Rightarrow> u64 \<Rightarrow> cpueaxh_engine" where
  [insn_defs]: "compare_r16_rm16 C cb e modrm mem_addr =
     (let dst = get_reg16 (cpu_ctx e) (reg_index (cpu_ctx e) modrm)
      in compare (read_rm16 cb modrm (rm_index (cpu_ctx e) modrm) mem_addr) (\<lambda>c src. cmp16 C c dst src) e)"
definition compare_rm32_r32 :: "compare_ops \<Rightarrow> callbacks \<Rightarrow> cpueaxh_engine \<Rightarrow> u8 \<Rightarrow> u64 \<Rightarrow> cpueaxh_engine" where
  [insn_defs]: "compare_rm32_r32 C cb e modrm mem_addr =
     (let src = get_reg32 (cpu_ctx e) (reg_index (cpu_ctx e) modrm)
      in compare (read_rm32 cb modrm (rm_index (cpu_ctx e) modrm) mem_addr) (\<lambda>c dst. cmp32 C c dst src) e)"
definition compare_r32_rm32 :: "compare_ops \<Rightarrow> callbacks \<Rightarrow> cpueaxh_engine \<Rightarrow> u8 \<Rightarrow> u64 \<Rightarrow> cpueaxh_engine" where
  [insn_defs]: "compare_r32_rm32 C cb e modrm mem_addr =
     (let dst = get_reg32 (cpu_ctx e) (reg_index (cpu_ctx e) modrm)
      in compare (read_rm32 cb modrm (rm_index (cpu_ctx e) modrm) mem_addr) (\<lambda>c src. cmp32 C c dst src) e)"
definition compare_rm64_r64 :: "compare_ops \<Rightarrow> callbacks \<Rightarrow> cpueaxh_engine \<Rightarrow> u8 \<Rightarrow> u64 \<Rightarrow> cpueaxh_engine" where
  [insn_defs]: "compare_rm64_r64 C cb e modrm mem_addr =
     (let src = get_reg64 (cpu_ctx e) (reg_index (cpu_ctx e) modrm)
      in compare (read_rm64 cb modrm (rm_index (cpu_ctx e) modrm) mem_addr) (\<lambda>c dst. cmp64 C c dst src) e)"
definition compare_r64_rm64 :: "compare_ops \<Rightarrow> callbacks \<Rightarrow> cpueaxh_engine \<Rightarrow> u8 \<Rightarrow> u64 \<Rightarrow> cpueaxh_engine" where
  [insn_defs]: "compare_r64_rm64 C cb e modrm mem_addr =
     (let dst = get_reg64 (cpu_ctx e) (reg_index (cpu_ctx e) modrm)
      in compare (read_rm64 cb modrm (rm_index (cpu_ctx e) modrm) mem_addr) (\<lambda>c src. cmp64 C c dst src) e)"

subsection \<open>CMP\<close>

definition cmp_ops :: compare_ops where
  "cmp_ops =
     \<lparr>cmp8 = (\<lambda>c d s. update_flags_sub8 c d s (ucast d - ucast s)),
      cmp16 = (\<lambda>c d s. update_flags_sub16 c d s (ucast d - ucast s)),
      cmp32 = (\<lambda>c d s. update_flags_sub32 c d s (ucast d - ucast s)),
      cmp64 = (\<lambda>c d s. update_flags_sub64 c d s (d - s))\<rparr>"

definition cmp_al_imm8 :: "CPU_CONTEXT \<Rightarrow> u8 \<Rightarrow> CPU_CONTEXT" where [insn_defs]: "cmp_al_imm8 = compare_al_imm8 cmp_ops"
definition cmp_ax_imm16 :: "CPU_CONTEXT \<Rightarrow> u16 \<Rightarrow> CPU_CONTEXT" where [insn_defs]: "cmp_ax_imm16 = compare_ax_imm16 cmp_ops"
definition cmp_eax_imm32 :: "CPU_CONTEXT \<Rightarrow> u32 \<Rightarrow> CPU_CONTEXT" where [insn_defs]: "cmp_eax_imm32 = compare_eax_imm32 cmp_ops"
definition cmp_rax_imm32 :: "CPU_CONTEXT \<Rightarrow> u32 \<Rightarrow> CPU_CONTEXT" where [insn_defs]: "cmp_rax_imm32 = compare_rax_imm32 cmp_ops"
definition cmp_rm8_imm8 :: "callbacks \<Rightarrow> cpueaxh_engine \<Rightarrow> u8 \<Rightarrow> u64 \<Rightarrow> u8 \<Rightarrow> cpueaxh_engine" where
  [insn_defs]: "cmp_rm8_imm8 = compare_rm8_imm8 cmp_ops"
definition cmp_rm16_imm16 :: "callbacks \<Rightarrow> cpueaxh_engine \<Rightarrow> u8 \<Rightarrow> u64 \<Rightarrow> u16 \<Rightarrow> cpueaxh_engine" where
  [insn_defs]: "cmp_rm16_imm16 = compare_rm16_imm16 cmp_ops"
definition cmp_rm32_imm32 :: "callbacks \<Rightarrow> cpueaxh_engine \<Rightarrow> u8 \<Rightarrow> u64 \<Rightarrow> u32 \<Rightarrow> cpueaxh_engine" where
  [insn_defs]: "cmp_rm32_imm32 = compare_rm32_imm32 cmp_ops"
definition cmp_rm64_imm32 :: "callbacks \<Rightarrow> cpueaxh_engine \<Rightarrow> u8 \<Rightarrow> u64 \<Rightarrow> u32 \<Rightarrow> cpueaxh_engine" where
  [insn_defs]: "cmp_rm64_imm32 = compare_rm64_imm32 cmp_ops"
definition cmp_rm16_imm8 :: "callbacks \<Rightarrow> cpueaxh_engine \<Rightarrow> u8 \<Rightarrow> u64 \<Rightarrow> u8 \<Rightarrow> cpueaxh_engine" where
  [insn_defs]: "cmp_rm16_imm8 = compare_rm16_imm8 cmp_ops"
definition cmp_rm32_imm8 :: "callbacks \<Rightarrow> cpueaxh_engine \<Rightarrow> u8 \<Rightarrow> u64 \<Rightarrow> u8 \<Rightarrow> cpueaxh_engine" where
  [insn_defs]: "cmp_rm32_imm8 = compare_rm32_imm8 cmp_ops"
definition cmp_rm64_imm8 :: "callbacks \<Rightarrow> cpueaxh_engine \<Rightarrow> u8 \<Rightarrow> u64 \<Rightarrow> u8 \<Rightarrow> cpueaxh_engine" where
  [insn_defs]: "cmp_rm64_imm8 = compare_rm64_imm8 cmp_ops"
definition cmp_rm8_r8 :: "callbacks \<Rightarrow> cpueaxh_engine \<Rightarrow> u8 \<Rightarrow> u64 \<Rightarrow> cpueaxh_engine" where
  [insn_defs]: "cmp_rm8_r8 = compare_rm8_r8 cmp_ops"
definition cmp_r8_rm8 :: "callbacks \<Rightarrow> cpueaxh_engine \<Rightarrow> u8 \<Rightarrow> u64 \<Rightarrow> cpueaxh_engine" where
  [insn_defs]: "cmp_r8_rm8 = compare_r8_rm8 cmp_ops"
definition cmp_rm16_r16 :: "callbacks \<Rightarrow> cpueaxh_engine \<Rightarrow> u8 \<Rightarrow> u64 \<Rightarrow> cpueaxh_engine" where
  [insn_defs]: "cmp_rm16_r16 = compare_rm16_r16 cmp_ops"
definition cmp_r16_rm16 :: "callbacks \<Rightarrow> cpueaxh_engine \<Rightarrow> u8 \<Rightarrow> u64 \<Rightarrow> cpueaxh_engine" where
  [insn_defs]: "cmp_r16_rm16 = compare_r16_rm16 cmp_ops"
definition cmp_rm32_r32 :: "callbacks \<Rightarrow> cpueaxh_engine \<Rightarrow> u8 \<Rightarrow> u64 \<Rightarrow> cpueaxh_engine" where
  [insn_defs]: "cmp_rm32_r32 = compare_rm32_r32 cmp_ops"
definition cmp_r32_rm32 :: "callbacks \<Rightarrow> cpueaxh_engine \<Rightarrow> u8 \<Rightarrow> u64 \<Rightarrow> cpueaxh_engine" where
  [insn_defs]: "cmp_r32_rm32 = compare_r32_rm32 cmp_ops"
definition cmp_rm64_r64 :: "callbacks \<Rightarrow> cpueaxh_engine \<Rightarrow> u8 \<Rightarrow> u64 \<Rightarrow> cpueaxh_engine" where
  [insn_defs]: "cmp_rm64_r64 = compare_rm64_r64 cmp_ops"
definition cmp_r64_rm64 :: "callbacks \<Rightarrow> cpueaxh_engine \<Rightarrow> u8 \<Rightarrow> u64 \<Rightarrow> cpueaxh_engine" where
  [insn_defs]: "cmp_r64_rm64 = compare_r64_rm64 cmp_ops"

text \<open>Two helpers of the file that nothing calls.\<close>

definition decode_cmp_segment_override :: "u8 \<Rightarrow> int" where
  "decode_cmp_segment_override prefix =
     (if prefix = 0x26 then SEG_ES else if prefix = 0x2E then SEG_CS else if prefix = 0x36 then SEG_SS
      else if prefix = 0x3E then SEG_DS else if prefix = 0x64 then SEG_FS else if prefix = 0x65 then SEG_GS
      else - 1)"
definition cmp_segment_base :: "CPU_CONTEXT \<Rightarrow> int \<Rightarrow> u64" where
  "cmp_segment_base ctx segment_index = cpu_segment_base_for_addressing ctx segment_index"

definition decode_modrm_cmp :: "u8 list \<Rightarrow> dstate \<Rightarrow> dresult" where
  "decode_modrm_cmp = decode_modrm_plain"

text \<open>
  The opcode switch is that of ADD with base 0x38 and group 7; without a recorded LOCK prefix the
  ModRM decoding of ADD is the plain one.
\<close>

definition decode_cmp_instruction :: "CPU_CONTEXT \<Rightarrow> u8 list \<Rightarrow> DecodedInstruction \<times> CPU_CONTEXT" where
  "decode_cmp_instruction ctx code =
     (case decode_opening apply_rex_byte raise_ud_ctx ctx code of
        (lock, r) \<Rightarrow> decode_finish (decode_then r (decode_alu_opcode 0x38 7 False code)))"

definition execute_cmp_with_decoded ::
  "callbacks \<Rightarrow> cpueaxh_engine \<Rightarrow> DecodedInstruction \<Rightarrow> cpueaxh_engine" where
  "execute_cmp_with_decoded cb e inst =
     (let opc = di_opcode inst; m = di_modrm inst; a = di_mem_address inst; i = di_immediate inst;
          sized = by_size (rex_w (cpu_ctx e)) (operand_size_override (cpu_ctx e))
      in if opc = 0x3C then on_ctx (\<lambda>c. cmp_al_imm8 c (ucast i)) e
         else if opc = 0x3D
         then sized (on_ctx (\<lambda>c. cmp_rax_imm32 c (ucast i)) e) (on_ctx (\<lambda>c. cmp_ax_imm16 c (ucast i)) e)
                (on_ctx (\<lambda>c. cmp_eax_imm32 c (ucast i)) e)
         else if opc = 0x80 then cmp_rm8_imm8 cb e m a (ucast i)
         else if opc = 0x81
         then sized (cmp_rm64_imm32 cb e m a (ucast i)) (cmp_rm16_imm16 cb e m a (ucast i))
                (cmp_rm32_imm32 cb e m a (ucast i))
         else if opc = 0x83
         then sized (cmp_rm64_imm8 cb e m a (ucast i)) (cmp_rm16_imm8 cb e m a (ucast i))
                (cmp_rm32_imm8 cb e m a (ucast i))
         else if opc = 0x38 then cmp_rm8_r8 cb e m a
         else if opc = 0x39
         then sized (cmp_rm64_r64 cb e m a) (cmp_rm16_r16 cb e m a) (cmp_rm32_r32 cb e m a)
         else if opc = 0x3A then cmp_r8_rm8 cb e m a
         else if opc = 0x3B
         then sized (cmp_r64_rm64 cb e m a) (cmp_r16_rm16 cb e m a) (cmp_r32_rm32 cb e m a)
         else e)"
definition execute_cmp :: "callbacks \<Rightarrow> cpueaxh_engine \<Rightarrow> u8 list \<Rightarrow> cpueaxh_engine" where
  "execute_cmp = execute_decoding decode_cmp_instruction execute_cmp_with_decoded"
definition execute_cmp_fast :: "callbacks \<Rightarrow> cpueaxh_engine \<Rightarrow> DecodedInst \<Rightarrow> cpueaxh_engine" where
  "execute_cmp_fast = execute_cached_recompute execute_cmp_with_decoded"

subsection \<open>TEST\<close>

definition test_ops :: compare_ops where
  "test_ops =
     \<lparr>cmp8 = (\<lambda>c d s. update_flags_test8 c (d AND s)),
      cmp16 = (\<lambda>c d s. update_flags_test16 c (d AND s)),
      cmp32 = (\<lambda>c d s. update_flags_test32 c (d AND s)),
      cmp64 = (\<lambda>c d s. update_flags_test64 c (d AND s))\<rparr>"

definition test_al_imm8 :: "CPU_CONTEXT \<Rightarrow> u8 \<Rightarrow> CPU_CONTEXT" where [insn_defs]: "test_al_imm8 = compare_al_imm8 test_ops"
definition test_ax_imm16 :: "CPU_CONTEXT \<Rightarrow> u16 \<Rightarrow> CPU_CONTEXT" where [insn_defs]: "test_ax_imm16 = compare_ax_imm16 test_ops"
definition test_eax_imm32 :: "CPU_CONTEXT \<Rightarrow> u32 \<Rightarrow> CPU_CONTEXT" where [insn_defs]: "test_eax_imm32 = compare_eax_imm32 test_ops"
definition test_rax_imm32 :: "CPU_CONTEXT \<Rightarrow> u32 \<Rightarrow> CPU_CONTEXT" where [insn_defs]: "test_rax_imm32 = compare_rax_imm32 test_ops"
definition test_rm8_imm8 :: "callbacks \<Rightarrow> cpueaxh_engine \<Rightarrow> u8 \<Rightarrow> u64 \<Rightarrow> u8 \<Rightarrow> cpueaxh_engine" where
  [insn_defs]: "test_rm8_imm8 = compare_rm8_imm8 test_ops"
definition test_rm16_imm16 :: "callbacks \<Rightarrow> cpueaxh_engine \<Rightarrow> u8 \<Rightarrow> u64 \<Rightarrow> u16 \<Rightarrow> cpueaxh_engine" where
  [insn_defs]: "test_rm16_imm16 = compare_rm16_imm16 test_ops"
definition test_rm32_imm32 :: "callbacks \<Rightarrow> cpueaxh_engine \<Rightarrow> u8 \<Rightarrow> u64 \<Rightarrow> u32 \<Rightarrow> cpueaxh_engine" where
  [insn_defs]: "test_rm32_imm32 = compare_rm32_imm32 test_ops"
definition test_rm64_imm32 :: "callbacks \<Rightarrow> cpueaxh_engine \<Rightarrow> u8 \<Rightarrow> u64 \<Rightarrow> u32 \<Rightarrow> cpueaxh_engine" where
  [insn_defs]: "test_rm64_imm32 = compare_rm64_imm32 test_ops"
definition test_rm8_r8 :: "callbacks \<Rightarrow> cpueaxh_engine \<Rightarrow> u8 \<Rightarrow> u64 \<Rightarrow> cpueaxh_engine" where
  [insn_defs]: "test_rm8_r8 = compare_rm8_r8 test_ops"
definition test_rm16_r16 :: "callbacks \<Rightarrow> cpueaxh_engine \<Rightarrow> u8 \<Rightarrow> u64 \<Rightarrow> cpueaxh_engine" where
  [insn_defs]: "test_rm16_r16 = compare_rm16_r16 test_ops"
definition test_rm32_r32 :: "callbacks \<Rightarrow> cpueaxh_engine \<Rightarrow> u8 \<Rightarrow> u64 \<Rightarrow> cpueaxh_engine" where
  [insn_defs]: "test_rm32_r32 = compare_rm32_r32 test_ops"
definition test_rm64_r64 :: "callbacks \<Rightarrow> cpueaxh_engine \<Rightarrow> u8 \<Rightarrow> u64 \<Rightarrow> cpueaxh_engine" where
  [insn_defs]: "test_rm64_r64 = compare_rm64_r64 test_ops"

definition decode_modrm_test :: "u8 list \<Rightarrow> dstate \<Rightarrow> dresult" where
  "decode_modrm_test = decode_modrm_plain"

definition decode_test_opcode :: "u8 list \<Rightarrow> dstate \<Rightarrow> dresult" where
  "decode_test_opcode code s =
     (let opc = di_opcode (fst s); size8 = with_inst (\<lambda>i. i\<lparr>di_operand_size := 8\<rparr>) s;
          modrm = (\<lambda>r. decode_then r (decode_modrm_plain code));
          group = (\<lambda>r. decode_then (modrm r) (ud_unless_group 0))
      in if opc = 0xA8 then decode_then size8 (decode_imm 1 code)
         else if opc = 0xA9 then decode_full_imm code s
         else if opc = 0xF6 then decode_then (group size8) (decode_imm 1 code)
         else if opc = 0xF7 then decode_then (group (Inr s)) (decode_full_imm code)
         else if opc = 0x84 then modrm size8
         else if opc = 0x85 then modrm (Inr s)
         else ud_if True s)"

definition decode_test_instruction :: "CPU_CONTEXT \<Rightarrow> u8 list \<Rightarrow> DecodedInstruction \<times> CPU_CONTEXT" where
  "decode_test_instruction ctx code =
     (case decode_opening apply_rex_byte raise_ud_ctx ctx code of
        (lock, r) \<Rightarrow> decode_finish (decode_then r (decode_test_opcode code)))"

definition execute_test_with_decoded ::
  "callbacks \<Rightarrow> cpueaxh_engine \<Rightarrow> DecodedInstruction \<Rightarrow> cpueaxh_engine" where
  "execute_test_with_decoded cb e inst =
     (let opc = di_opcode inst; m = di_modrm inst; a = di_mem_address inst; i = di_immediate inst;
          sized = by_size (rex_w (cpu_ctx e)) (operand_size_override (cpu_ctx e))
      in if opc = 0xA8 then on_ctx (\<lambda>c. test_al_imm8 c (ucast i)) e
         else if opc = 0xA9
         then sized (on_ctx (\<lambda>c. test_rax_imm32 c (ucast i)) e) (on_ctx (\<lambda>c. test_ax_imm16 c (ucast i)) e)
                (on_ctx (\<lambda>c. test_eax_imm32 c (ucast i)) e)
         else if opc = 0xF6 then test_rm8_imm8 cb e m a (ucast i)
         else if opc = 0xF7
         then sized (test_rm64_imm32 cb e m a (ucast i)) (test_rm16_imm16 cb e m a (ucast i))
                (test_rm32_imm32 cb e m a (ucast i))
         else if opc = 0x84 then test_rm8_r8 cb e m a
         else if opc = 0x85
         then sized (test_rm64_r64 cb e m a) (test_rm16_r16 cb e m a) (test_rm32_r32 cb e m a)
         else e)"
definition execute_test :: "callbacks \<Rightarrow> cpueaxh_engine \<Rightarrow> u8 list \<Rightarrow> cpueaxh_engine" where
  "execute_test = execute_decoding decode_test_instruction execute_test_with_decoded"
definition execute_test_fast :: "callbacks \<Rightarrow> cpueaxh_engine \<Rightarrow> DecodedInst \<Rightarrow> cpueaxh_engine" where
  "execute_test_fast = execute_cached_recompute execute_test_with_decoded"

subsection \<open>Replaying\<close>

interpretation cmp_decoder: opened_decoder apply_rex_byte raise_ud_ctx
    "\<lambda>lock. decode_alu_opcode 0x38 7 False" True decode_cmp_instruction
  by (intro opened_decoder.intro raw_prefixes_ud.prefix_reader_axioms opened_decoder_axioms.intro)
     (simp_all add: decode_alu_opcode_step decode_cmp_instruction_def)

lemma decode_test_opcode_step: "decode_step (decode_test_opcode code) True"
  unfolding decode_test_opcode_def Let_def
  by (rule decode_step_weaken, (rule decode_steps static_updates | (simp; fail))+)

interpretation test_decoder: opened_decoder apply_rex_byte raise_ud_ctx
    "\<lambda>lock. decode_test_opcode" True decode_test_instruction
  by (intro opened_decoder.intro raw_prefixes_ud.prefix_reader_axioms opened_decoder_axioms.intro)
     (simp_all add: decode_test_opcode_step decode_test_instruction_def)

end
