(* ===== verification/MulDivSpec.thy ===== *)
theory MulDivSpec
  imports MulDiv "HOL-Library.Signed_Division"
begin

text \<open>
  What MUL, IMUL, DIV and IDIV compute, against integer arithmetic, and the bitwise 128-bit division.
\<close>

unbundle bit_operations_syntax

subsection \<open>Double words\<close>

lemma take_bit_uint [simp]: "LENGTH('a) \<le> m \<Longrightarrow> take_bit m (uint (x :: 'a :: len word)) = uint x"
  by (rule take_bit_int_eq_self) (auto intro: less_le_trans [OF uint_lt2p])

lemma uint_double:
  fixes hi lo :: "'a :: len word"
  assumes "LENGTH('b :: len) = 2 * LENGTH('a)"
  shows "uint (push_bit LENGTH('a) (ucast hi) OR ucast lo :: 'b word) = uint hi * 2 ^ LENGTH('a) + uint lo"
proof -
  let ?n = "LENGTH('a)"
  have "uint (push_bit ?n (ucast hi) OR ucast lo :: 'b word) = take_bit LENGTH('b) (push_bit ?n (uint hi)) OR uint lo"
    using assms by (simp add: unsigned_or_eq unsigned_push_bit_eq unsigned_ucast_eq)
  also have "take_bit LENGTH('b) (push_bit ?n (uint hi)) = push_bit ?n (uint hi)"
    using assms by (simp add: take_bit_push_bit mult_2)
  also have "push_bit ?n (uint hi) OR uint lo = push_bit ?n (uint hi) + uint lo"
    by (rule disjunctive_add_eq_or [symmetric]) (auto simp: bit_eq_iff bit_simps dest: bit_imp_le_length)
  finally show ?thesis by (simp add: push_bit_eq_mult)
qed

lemma uint_narrow_div_mod:
  fixes n :: "'b :: len word" and d :: "'a :: len word"
  assumes "LENGTH('a) \<le> LENGTH('b)"
  shows "uint (n div ucast d) = uint n div uint d" "uint (n mod ucast d) = uint n mod uint d"
  using assms by (simp_all add: uint_div_distrib uint_mod_distrib unsigned_ucast_eq)

subsection \<open>DIV\<close>

text \<open>The quotient and the remainder of a division with \<open>w\<close>-bit results, nothing where the quotient does not fit.\<close>

definition div_outcome :: "nat \<Rightarrow> int \<Rightarrow> int \<Rightarrow> (int \<times> int) option" where
  "div_outcome w n d = (if d = 0 \<or> 2 ^ w \<le> n div d then None else Some (n div d, n mod d))"

definition idiv_outcome :: "nat \<Rightarrow> int \<Rightarrow> int \<Rightarrow> (int \<times> int) option" where
  "idiv_outcome w n d = (if d = 0 \<or> \<not> fits_signed w (n sdiv d) then None else Some (n sdiv d, n smod d))"

lemma overflows_iff:
  "w \<in> {8, 16, 32} \<Longrightarrow> div_quotient_overflows q w \<longleftrightarrow> 2 ^ w \<le> uint q"
proof -
  assume w: "w \<in> {8, 16, 32}"
  have "(push_bit 8 1 - 1 :: u64) = 0xFF" "(push_bit 16 1 - 1 :: u64) = 0xFFFF" "(push_bit 32 1 - 1 :: u64) = 0xFFFFFFFF"
    by code_simp+
  then have "uint (push_bit w 1 - 1 :: u64) = 2 ^ w - 1" using w by auto
  then show ?thesis using w unfolding div_quotient_overflows_def word_less_def by auto
qed

lemma ucast_of_uint: "ucast (x :: 'a :: len word) = (of_int (uint x) :: 'b :: len word)"
  by (fact ucast_eq)

lemma of_int_small: "0 \<le> k \<Longrightarrow> k < 2 ^ LENGTH('a) \<Longrightarrow> uint (of_int k :: 'a :: len word) = k"
  by (simp add: uint_word_of_int take_bit_int_eq_self flip: take_bit_eq_mod)

lemma uint_widen: "LENGTH('a) \<le> LENGTH('b) \<Longrightarrow> uint (ucast (x :: 'a :: len word) :: 'b :: len word) = uint x"
  by (simp add: unsigned_ucast_eq)

lemma narrow_overflows:
  fixes n :: "'b :: len word" and d :: "'a :: len word"
  assumes "LENGTH('a) \<le> LENGTH('b)" "LENGTH('b) \<le> 64" "w \<in> {8, 16, 32}"
  shows "div_quotient_overflows (ucast (n div ucast d)) w \<longleftrightarrow> 2 ^ w \<le> uint n div uint d"
  using assms by (simp add: overflows_iff uint_widen uint_narrow_div_mod del: insert_iff)

lemma narrow_results:
  fixes n :: "'b :: len word" and d :: "'a :: len word"
  assumes "LENGTH('a) \<le> LENGTH('b)"
  shows "ucast (n div ucast d) = (of_int (uint n div uint d) :: 'a word)"
    "ucast (n mod ucast d) = (of_int (uint n mod uint d) :: 'a word)"
  using assms by (simp_all only: ucast_of_uint [of "n div ucast d"] ucast_of_uint [of "n mod ucast d"] uint_narrow_div_mod)

lemma lengths:
  "LENGTH(8) \<le> LENGTH(16)" "LENGTH(16) \<le> LENGTH(32)" "LENGTH(32) \<le> LENGTH(64)" "LENGTH(64) \<le> LENGTH(128)"
  "LENGTH(16) \<le> 64" "LENGTH(32) \<le> 64" "LENGTH(64) \<le> 64" "(8 :: nat) \<in> {8, 16, 32}" "(16 :: nat) \<in> {8, 16, 32}"
  "(32 :: nat) \<in> {8, 16, 32}"
  by simp_all

lemma uint_double16: "uint (push_bit 16 (ucast hi) OR ucast lo :: u32) = uint (hi :: u16) * 2 ^ 16 + uint (lo :: u16)"
  using uint_double [where ?'b = 32, of hi lo] by simp
lemma uint_double32: "uint (push_bit 32 (ucast hi) OR ucast lo :: u64) = uint (hi :: u32) * 2 ^ 32 + uint (lo :: u32)"
  using uint_double [where ?'b = 64, of hi lo] by simp
lemma uint_double64: "uint (push_bit 64 (ucast hi) OR ucast lo :: u128) = uint (hi :: u64) * 2 ^ 64 + uint (lo :: u64)"
  using uint_double [where ?'b = 128, of hi lo] by simp

lemma after_read_cong: "(\<And>v c. k v c = k' v c) \<Longrightarrow> after_read cb m a n k e = after_read cb m a n k' e"
  by (metis ext)

lemma div_rm8_spec:
  "div_rm8 cb e m a = after_read cb m a 8
     (\<lambda>v c. case div_outcome 8 (uint (get_reg16 c REG_RAX)) (uint (ucast v :: u8)) of
        None \<Rightarrow> raise_de_ctx c | Some (q, r) \<Rightarrow> set_reg16 c REG_RAX (of_int (r * 2 ^ 8 + q))) e"
proof -
  have pair: "push_bit 8 (ucast (ucast (n mod ucast d) :: u8)) OR ucast (ucast (n div ucast d) :: u8) =
      (of_int (uint n mod uint d * 2 ^ 8 + uint n div uint d) :: u16)"
    if "d \<noteq> 0" "\<not> 2 ^ 8 \<le> uint n div uint d" for n :: u16 and d :: u8
  proof -
    let ?q = "ucast (n div ucast d) :: u8" and ?r = "ucast (n mod ucast d) :: u8"
    have d: "0 < uint d" "uint d < 2 ^ 8" using that(1) uint_lt2p [of d] by (simp_all add: word_neq_0_conv word_less_def)
    have "uint ?r = uint n mod uint d"
      using d less_trans [OF pos_mod_bound [OF d(1), of "uint n"] d(2)]
      by (subst ucast_of_uint) (subst of_int_small; simp add: uint_narrow_div_mod)
    moreover have "uint ?q = uint n div uint d"
      using that(2) d by (subst ucast_of_uint) (subst of_int_small; simp add: uint_narrow_div_mod pos_imp_zdiv_nonneg_iff)
    ultimately have "uint (push_bit 8 (ucast ?r) OR ucast ?q :: u16) = uint n mod uint d * 2 ^ 8 + uint n div uint d"
      using uint_double [where ?'b = 16, of ?r ?q] by simp
    from arg_cong [OF this, of "of_int :: int \<Rightarrow> u16"] show ?thesis by (simp only: word_of_int_uint)
  qed
  show ?thesis
    unfolding div_rm8_def Let_def
    by (rule after_read_cong)
       (auto simp only: lengths div_outcome_def narrow_overflows uint_0_iff pair option.case prod.case split: if_split)
qed

lemma div_rm16_spec:
  "div_rm16 cb e m a = after_read cb m a 16
     (\<lambda>v c. case div_outcome 16 (uint (get_reg16 c REG_RDX) * 2 ^ 16 + uint (get_reg16 c REG_RAX)) (uint (ucast v :: u16)) of
        None \<Rightarrow> raise_de_ctx c
      | Some (q, r) \<Rightarrow> set_reg16 (set_reg16 c REG_RAX (of_int q)) REG_RDX (of_int r)) e"
  unfolding div_rm16_def Let_def
  by (rule after_read_cong) (auto simp only: lengths div_outcome_def narrow_overflows narrow_results uint_double16 uint_0_iff
      option.case prod.case split: if_split)

lemma div_rm32_spec:
  "div_rm32 cb e m a = after_read cb m a 32
     (\<lambda>v c. case div_outcome 32 (uint (get_reg32 c REG_RDX) * 2 ^ 32 + uint (get_reg32 c REG_RAX)) (uint (ucast v :: u32)) of
        None \<Rightarrow> raise_de_ctx c
      | Some (q, r) \<Rightarrow> set_reg32 (set_reg32 c REG_RAX (of_int q)) REG_RDX (of_int r)) e"
  unfolding div_rm32_def Let_def
  by (rule after_read_cong) (auto simp only: lengths div_outcome_def overflows_iff uint_narrow_div_mod narrow_results uint_double32 uint_0_iff
      option.case prod.case split: if_split)

lemma udiv128_exact:
  "udiv128_intrinsic hi lo d =
     (of_int ((uint hi * 2 ^ 64 + uint lo) div uint d), of_int ((uint hi * 2 ^ 64 + uint lo) mod uint d))"
  unfolding udiv128_intrinsic_def Let_def by (simp only: lengths narrow_results uint_double64)

text \<open>The bitwise division.\<close>

lemma udiv128_step:
  fixes rem low d :: u64
  assumes "uint rem < uint d" "uint d \<le> 2 ^ 63"
  shows "uint (push_bit 1 rem OR (drop_bit k low AND 1)) = 2 * uint rem + of_bool (bit low k)"
proof -
  have "drop_bit k low AND 1 = of_bool (bit low k)" by (simp add: and_one_eq mod_2_eq_odd bit_iff_odd_drop_bit)
  then have b: "uint (drop_bit k low AND 1) = of_bool (bit low k)" by simp
  have p: "uint (push_bit 1 rem) = 2 * uint rem"
    using assms by (simp add: uint_word_ariths mod_pos_pos_trivial)
  show ?thesis unfolding unsigned_or_eq b p
    by (cases "bit low k") (simp_all add: or_one_eq)
qed

lemma take_bit_Suc_top: "take_bit (Suc k) (x :: int) = of_bool (bit x k) * 2 ^ k + take_bit k x"
  by (simp add: take_bit_Suc_from_most)

lemma udiv128_loop_exact:
  fixes low d q rem :: u64
  assumes "uint rem < uint d" "uint d \<le> 2 ^ 63" "k \<le> 64" "take_bit k q = 0"
  defines "n \<equiv> uint rem * 2 ^ k + take_bit k (uint low)"
  shows "udiv128_loop (rev [0..<k]) low d q rem = (q + of_int (n div uint d), of_int (n mod uint d))"
  using assms(1,3,4) unfolding n_def
proof (induction k arbitrary: q rem)
  case 0
  then show ?case by (simp add: div_pos_pos_trivial mod_pos_pos_trivial)
next
  case (Suc k)
  let ?b = "of_bool (bit low k) :: int"
  define r1 where "r1 = push_bit 1 rem OR (drop_bit k low AND 1)"
  have r1: "uint r1 = 2 * uint rem + ?b" unfolding r1_def by (rule udiv128_step [OF Suc.prems(1) assms(2)])
  have bu: "bit (uint low) k = bit low k" using Suc.prems(2) by (simp add: bit_uint_iff)
  have n: "uint rem * 2 ^ Suc k + take_bit (Suc k) (uint low) = uint r1 * 2 ^ k + take_bit k (uint low)"
    unfolding r1 take_bit_Suc_top bu by (simp add: algebra_simps)
  have tk: "take_bit k q = 0" using arg_cong [OF Suc.prems(3), of "take_bit k"] by simp
  have loop: "udiv128_loop (rev [0..<Suc k]) low d q rem =
      (if d \<le> r1 then udiv128_loop (rev [0..<k]) low d (q OR push_bit k 1) (r1 - d)
       else udiv128_loop (rev [0..<k]) low d q r1)"
    by (simp add: r1_def Let_def)
  show ?case
  proof (cases "d \<le> r1")
    case True
    have sub: "uint (r1 - d) = uint r1 - uint d" using True by (simp add: uint_minus_simple_iff word_le_def uint_sub_if')
    have lt: "uint (r1 - d) < uint d" using Suc.prems(1) r1 by (auto simp: sub)
    have low: "\<not> bit q i" if "i \<le> k" for i
      using arg_cong [OF Suc.prems(3), of "\<lambda>x. bit x i"] that by (simp add: bit_take_bit_iff)
    then have "q AND push_bit k 1 = 0" by (intro bit_word_eqI) (auto simp: bit_simps)
    then have q: "q OR push_bit k 1 = q + push_bit k 1" by (simp add: disjunctive_add_eq_or)
    have "take_bit k (q OR push_bit k 1) = 0" using low by (intro bit_word_eqI) (auto simp: bit_simps)
    then have "take_bit k (q + push_bit k 1) = 0" by (simp only: q)
    note IH = Suc.IH [OF lt _ this]
    define m where "m = uint (r1 - d) * 2 ^ k + take_bit k (uint low)"
    have m: "uint r1 * 2 ^ k + take_bit k (uint low) = m + 2 ^ k * uint d" unfolding sub m_def by (simp add: algebra_simps)
    have "uint d \<noteq> 0" using Suc.prems(1) uint_ge_0 [of rem] by linarith
    then have "(m + 2 ^ k * uint d) div uint d = 2 ^ k + m div uint d" "(m + 2 ^ k * uint d) mod uint d = m mod uint d" by simp_all
    then show ?thesis
      using True IH Suc.prems(2) unfolding loop n m m_def [symmetric] q by (simp add: push_bit_eq_mult add.assoc)
  next
    case False
    then have "uint r1 < uint d" by (simp add: word_le_def)
    then show ?thesis using False Suc.IH [of r1 q] Suc.prems(2) tk unfolding n loop by simp
  qed
qed

text \<open>The loop divides exactly for the divisors up to $2^{63}$; above, the shifted remainder loses its top bit.\<close>

lemma udiv128_fallback_exact:
  assumes "hi < d" "d \<le> 0x8000000000000000"
  shows "cpueaxh_udiv128_fallback hi lo d = udiv128_intrinsic hi lo d"
proof -
  have "uint hi < uint d" "uint d \<le> 2 ^ 63" using assms by (simp_all add: word_less_def word_le_def)
  from udiv128_loop_exact [OF this order_refl take_bit_of_0, of lo] show ?thesis
    unfolding cpueaxh_udiv128_fallback_def udiv128_exact take_bit_uint [OF lengths(7)] add_0 .
qed

lemma udiv128_fallback_inexact:
  "cpueaxh_udiv128_fallback 0x8000000000000000 0 0xC000000000000000 \<noteq> udiv128_intrinsic 0x8000000000000000 0 0xC000000000000000"
  by code_simp

lemma udiv128_build_exact:
  assumes "hi < d" "build = Intrinsic_Division \<or> d \<le> 0x8000000000000000"
  shows "cpueaxh_udiv128 build hi lo d =
    (of_int ((uint hi * 2 ^ 64 + uint lo) div uint d), of_int ((uint hi * 2 ^ 64 + uint lo) mod uint d))"
  using assms udiv128_fallback_exact [of hi d lo]
  by (cases build) (auto simp: cpueaxh_udiv128_def udiv128_exact)

lemma scaled_le:
  fixes p :: int
  assumes "0 \<le> lo" "lo < p"
  shows "x * p \<le> y * p + lo \<longleftrightarrow> x \<le> y"
proof
  assume "x * p \<le> y * p + lo"
  then have "(x - y) * p < 1 * p" using assms(2) unfolding left_diff_distrib mult_1 by linarith
  then show "x \<le> y" using assms by (simp only: mult_less_cancel_right) simp
next
  assume "x \<le> y"
  then have "x * p \<le> y * p" using assms by (simp add: mult_right_mono)
  then show "x * p \<le> y * p + lo" using assms(1) by linarith
qed

lemma high_half_overflow:
  assumes "0 < d" "0 \<le> lo" "lo < 2 ^ w"
  shows "(2 :: int) ^ w \<le> (hi * 2 ^ w + lo) div d \<longleftrightarrow> d \<le> hi"
proof -
  let ?x = "hi * 2 ^ w + lo"
  have "2 ^ w \<le> ?x div d \<longleftrightarrow> 2 ^ w * d \<le> ?x"
  proof
    assume "2 ^ w \<le> ?x div d"
    then have "2 ^ w * d \<le> ?x div d * d" using assms(1) by (simp add: mult_right_mono)
    then show "2 ^ w * d \<le> ?x" using div_mult_mod_eq [of ?x d] pos_mod_sign [OF assms(1), of ?x] by linarith
  next
    assume "2 ^ w * d \<le> ?x"
    then show "2 ^ w \<le> ?x div d" using zdiv_mono1 [of "2 ^ w * d" ?x d] assms(1) by simp
  qed
  also have "\<dots> \<longleftrightarrow> d \<le> hi" using scaled_le [OF assms(2,3), of d hi] by (simp only: mult.commute [of _ d])
  finally show ?thesis .
qed

text \<open>With the bitwise loop the results for divisors above \<open>2 ^ 63\<close> are those of the loop.\<close>

lemma div_rm64_spec:
  "div_rm64 build cb e m a = after_read cb m a 64
     (\<lambda>v c. case div_outcome 64 (uint (get_reg64 c REG_RDX) * 2 ^ 64 + uint (get_reg64 c REG_RAX)) (uint v) of
        None \<Rightarrow> raise_de_ctx c
      | Some (q, r) \<Rightarrow>
          let (q', r') = (if build = Intrinsic_Division \<or> v \<le> 0x8000000000000000 then (of_int q, of_int r)
                          else cpueaxh_udiv128_fallback (get_reg64 c REG_RDX) (get_reg64 c REG_RAX) v)
          in set_reg64 (set_reg64 c REG_RAX q') REG_RDX r') e"
  unfolding div_rm64_def Let_def
proof (rule after_read_cong, goal_cases)
  case (1 d c)
  let ?hi = "get_reg64 c REG_RDX" and ?lo = "get_reg64 c REG_RAX"
  have o: "2 ^ 64 \<le> (uint ?hi * 2 ^ 64 + uint ?lo) div uint d \<longleftrightarrow> d \<le> ?hi" if "d \<noteq> 0"
    using high_half_overflow [of "uint d" "uint ?lo" 64 "uint ?hi"] that uint_lt2p [of ?lo]
    by (simp add: word_neq_0_conv word_less_def word_le_def)
  have u: "cpueaxh_udiv128 build ?hi ?lo d =
      (if build = Intrinsic_Division \<or> d \<le> 0x8000000000000000
       then (of_int ((uint ?hi * 2 ^ 64 + uint ?lo) div uint d), of_int ((uint ?hi * 2 ^ 64 + uint ?lo) mod uint d))
       else cpueaxh_udiv128_fallback ?hi ?lo d)" if "\<not> d \<le> ?hi"
    using udiv128_build_exact [of ?hi d build ?lo] that
    by (cases build) (auto simp: cpueaxh_udiv128_def not_le)
  show ?case
  proof (cases "d = 0 \<or> d \<le> ?hi")
    case True
    then show ?thesis using o by (auto simp: div_outcome_def uint_0_iff)
  next
    case False
    then show ?thesis using o u by (simp add: div_outcome_def uint_0_iff)
  qed
qed

subsection \<open>IDIV\<close>

lemma uint_abs:
  fixes x :: "'a :: len word"
  shows "uint (if x <s 0 then NOT x + 1 else x) = \<bar>sint x\<bar>"
proof -
  have neg: "NOT x + 1 = - x" by (simp add: minus_eq_not_plus_1)
  have b: "- (2 ^ (LENGTH('a) - Suc 0)) \<le> sint x" "sint x < 2 ^ (LENGTH('a) - Suc 0)"
    using sint_greater_eq [of x] sint_less [of x] by simp_all
  have two: "(2 :: int) ^ LENGTH('a) = 2 * 2 ^ (LENGTH('a) - Suc 0)" by (cases "LENGTH('a)") auto
  show ?thesis
  proof (cases "x <s 0")
    case True
    then have "sint x < 0" by (simp add: word_sless_alt)
    moreover have "uint (- x) = - sint x mod 2 ^ LENGTH('a)"
    proof -
      have "- x = of_int (- sint x)" by simp
      then show ?thesis by (simp only: uint_word_of_int)
    qed
    ultimately show ?thesis using True b two by (simp add: neg mod_pos_pos_trivial)
  next
    case False
    then have "0 \<le> sint x" by (simp add: word_sless_alt)
    moreover have "uint x = sint x mod 2 ^ LENGTH('a)" by (simp add: uint_sint take_bit_eq_mod)
    ultimately show ?thesis using False b two by (simp add: mod_pos_pos_trivial)
  qed
qed

lemma magnitude_fits:
  "0 \<le> k \<Longrightarrow> 0 < p \<Longrightarrow>
     \<not> (- p \<le> (if negative then - k else k) \<and> (if negative then - k else k) < p) \<longleftrightarrow> (if negative then p < k else p \<le> (k :: int))"
  by auto

lemma idiv_overflows_iff:
  assumes "w \<in> {8, 16, 32, 64}"
  shows "idiv_quotient_overflows q negative w \<longleftrightarrow> \<not> fits_signed w (if negative then - uint q else uint q)"
proof -
  have "(push_bit 7 1 :: u64) = 0x80" "(push_bit 15 1 :: u64) = 0x8000" "(push_bit 31 1 :: u64) = 0x80000000" by code_simp+
  then have "idiv_quotient_overflows q negative w \<longleftrightarrow> (if negative then 2 ^ (w - Suc 0) < uint q else 2 ^ (w - Suc 0) \<le> uint q)"
    using assms by (auto simp: idiv_quotient_overflows_def word_less_def)
  then show ?thesis unfolding fits_signed_def by (simp add: magnitude_fits del: de_Morgan_conj)
qed

lemma pack_signed:
  assumes "LENGTH('a :: len) \<in> {8, 16, 32, 64}"
  shows "ucast (pack_signed_value x negative LENGTH('a)) = (of_int (if negative then - uint x else uint x) :: 'a word)"
proof -
  let ?n = "LENGTH('a)"
  have m: "(if ?n = 64 then 0xFFFFFFFFFFFFFFFF else push_bit ?n 1 - 1 :: u64) = mask ?n"
    using assms by (auto simp: mask_eq_exp_minus_1 push_bit_eq_mult)
  have "ucast (y AND mask ?n) = (ucast y :: 'a word)" for y :: u64
    by (rule bit_word_eqI) (auto simp: bit_simps dest: bit_imp_le_length)
  moreover have "ucast (NOT x + 1) = (of_int (- uint x) :: 'a word)"
  proof -
    have "uint (NOT x + 1) = take_bit 64 (- uint x)" by (simp add: minus_eq_not_plus_1 [symmetric] uint_word_ariths take_bit_eq_mod)
    moreover have "of_int (take_bit 64 k) = (of_int k :: 'a word)" for k
      using assms by (auto simp: word_of_int_eq_iff)
    ultimately show ?thesis by (simp only: ucast_of_uint)
  qed
  ultimately show ?thesis
    unfolding pack_signed_value_def Let_def m by (cases "negative \<and> x \<noteq> 0") (auto simp only: ucast_of_uint unsigned_0 minus_zero split: if_splits)
qed

text \<open>The magnitudes of the operands give the truncated quotient and its remainder.\<close>

lemma abs_quotient:
  fixes n :: "'b :: len word" and d :: "'a :: len word"
  assumes "LENGTH('a) \<le> LENGTH('b)"
  defines "an \<equiv> (if n <s 0 then NOT n + 1 else n)" and "ad \<equiv> (if d <s 0 then NOT d + 1 else d)"
  shows "(if (n <s 0) \<noteq> (d <s 0) then - uint (an div ucast ad) else uint (an div ucast ad)) = sint n sdiv sint d"
    and "(if n <s 0 then - uint (an mod ucast ad) else uint (an mod ucast ad)) = sint n smod sint d"
proof -
  have s: "n <s 0 \<longleftrightarrow> sint n < 0" "d <s 0 \<longleftrightarrow> sint d < 0" by (simp_all add: word_sless_alt)
  have u: "uint (an div ucast ad) = \<bar>sint n\<bar> div \<bar>sint d\<bar>" "uint (an mod ucast ad) = \<bar>sint n\<bar> mod \<bar>sint d\<bar>"
    using assms(1) by (simp_all only: uint_narrow_div_mod an_def ad_def uint_abs)
  show "(if (n <s 0) \<noteq> (d <s 0) then - uint (an div ucast ad) else uint (an div ucast ad)) = sint n sdiv sint d"
    unfolding u s signed_divide_int_def by (auto simp: sgn_if)
  show "(if n <s 0 then - uint (an mod ucast ad) else uint (an mod ucast ad)) = sint n smod sint d"
    unfolding u s signed_modulo_int_def by (auto simp: sgn_if)
qed

lemma word_lengths: "LENGTH(8) = 8" "LENGTH(16) = 16" "LENGTH(32) = 32" "LENGTH(64) = 64" "LENGTH(128) = 128"
  by simp_all

lemma idiv_body:
  fixes n :: "'b :: len word" and d :: "'a :: len word" and K :: "'a word \<Rightarrow> 'a word \<Rightarrow> 'r"
  assumes w: "LENGTH('a) \<in> {8, 16, 32, 64}" and len: "LENGTH('a) \<le> LENGTH('b)" "LENGTH('b) \<le> 64"
  defines "an \<equiv> (if n <s 0 then NOT n + 1 else n)" and "ad \<equiv> (if d <s 0 then NOT d + 1 else d)"
  shows "(if d = 0 then E
      else if idiv_quotient_overflows (ucast (an div ucast ad)) ((n <s 0) \<noteq> (d <s 0)) LENGTH('a) then E
      else K (ucast (pack_signed_value (ucast (an div ucast ad)) ((n <s 0) \<noteq> (d <s 0)) LENGTH('a)))
             (ucast (pack_signed_value (ucast (ucast (an mod ucast ad) :: 'a word)) (n <s 0) LENGTH('a)))) =
    (case idiv_outcome LENGTH('a) (sint n) (sint d) of None \<Rightarrow> E | Some (q, r) \<Rightarrow> K (of_int q) (of_int r))"
proof (cases "d = 0")
  case False
  note q = abs_quotient [OF len(1), of n d, folded an_def ad_def]
  have "uint (an mod ucast ad) < 2 ^ LENGTH('a)"
  proof -
    have "0 < uint ad" using False uint_abs [of d] by (simp add: ad_def signed_eq_0_iff)
    from less_trans [OF pos_mod_bound [OF this] uint_lt2p] show ?thesis using len(1) by (simp only: uint_narrow_div_mod)
  qed
  then have r: "uint (ucast (an mod ucast ad) :: 'a word) = uint (an mod ucast ad)"
    by (subst ucast_of_uint) (rule of_int_small; simp)
  have u: "uint (ucast x :: u64) = uint x" for x :: "'b word" using len(2) by (simp add: uint_widen)
  have u': "uint (ucast x :: u64) = uint x" for x :: "'a word" using len by (simp add: uint_widen)
  show ?thesis
    unfolding idiv_outcome_def idiv_overflows_iff [OF w] pack_signed [OF w] u u' r q using False
    by (simp add: signed_eq_0_iff)
qed (simp add: idiv_outcome_def)

lemma idiv_rm8_spec:
  "idiv_rm8 cb e m a = after_read cb m a 8
     (\<lambda>v c. case idiv_outcome 8 (sint (get_reg16 c REG_RAX)) (sint (ucast v :: u8)) of
        None \<Rightarrow> raise_de_ctx c
      | Some (q, r) \<Rightarrow> set_reg16 c REG_RAX (push_bit 8 (ucast (of_int r :: u8)) OR ucast (of_int q :: u8))) e"
  unfolding idiv_rm8_def Let_def
proof (rule after_read_cong, goal_cases)
  case (1 v c)
  show ?case
    using idiv_body [where ?'a = 8 and ?'b = 16 and E = "raise_de_ctx c" and n = "get_reg16 c REG_RAX" and d = "ucast v" and
        K = "\<lambda>q r. set_reg16 c REG_RAX (push_bit 8 (ucast r) OR ucast q)"]
    unfolding word_lengths by (simp only: insert_iff refl simp_thms numeral_le_iff semiring_norm)
qed

lemma sint_double:
  fixes hi lo :: "'a :: len word"
  assumes "LENGTH('b :: len) = 2 * LENGTH('a)"
  shows "sint (push_bit LENGTH('a) (ucast hi) OR ucast lo :: 'b word) = sint hi * 2 ^ LENGTH('a) + uint lo"
proof -
  let ?n = "LENGTH('a)" and ?h = "2 ^ (LENGTH('a) - Suc 0) :: int"
  have "LENGTH('b) - Suc 0 = (?n - Suc 0) + ?n" using assms len_gt_0 [where ?'a = 'a] by linarith
  then have top: "(2 :: int) ^ (LENGTH('b) - Suc 0) = ?h * 2 ^ ?n" by (simp only: power_add)
  have "?h * 2 ^ ?n \<le> uint hi * 2 ^ ?n + uint lo \<longleftrightarrow> ?h \<le> uint hi" by (rule scaled_le) simp_all
  then show ?thesis
    unfolding sint_uint_top [of "push_bit ?n (ucast hi) OR ucast lo :: 'b word"] sint_uint_top [of hi] uint_double [OF assms] top
    by (simp add: algebra_simps)
qed

lemma sint_double16: "sint (push_bit 16 (ucast hi) OR ucast lo :: u32) = sint (hi :: u16) * 2 ^ 16 + uint (lo :: u16)"
  using sint_double [where ?'b = 32, of hi lo] by simp
lemma sint_double32: "sint (push_bit 32 (ucast hi) OR ucast lo :: u64) = sint (hi :: u32) * 2 ^ 32 + uint (lo :: u32)"
  using sint_double [where ?'b = 64, of hi lo] by simp

lemma idiv_rm16_spec:
  "idiv_rm16 cb e m a = after_read cb m a 16
     (\<lambda>v c. case idiv_outcome 16 (sint (get_reg16 c REG_RDX) * 2 ^ 16 + uint (get_reg16 c REG_RAX)) (sint (ucast v :: u16)) of
        None \<Rightarrow> raise_de_ctx c
      | Some (q, r) \<Rightarrow> set_reg16 (set_reg16 c REG_RAX (of_int q)) REG_RDX (of_int r)) e"
  unfolding idiv_rm16_def Let_def
proof (rule after_read_cong, goal_cases)
  case (1 v c)
  show ?case
    using idiv_body [where ?'a = 16 and ?'b = 32 and E = "raise_de_ctx c" and d = "ucast v" and
        n = "push_bit 16 (ucast (get_reg16 c REG_RDX)) OR ucast (get_reg16 c REG_RAX)" and
        K = "\<lambda>q r. set_reg16 (set_reg16 c REG_RAX q) REG_RDX r"]
    unfolding word_lengths sint_double16 by (simp only: insert_iff refl simp_thms numeral_le_iff semiring_norm)
qed

lemma idiv_rm32_spec:
  "idiv_rm32 cb e m a = after_read cb m a 32
     (\<lambda>v c. case idiv_outcome 32 (sint (get_reg32 c REG_RDX) * 2 ^ 32 + uint (get_reg32 c REG_RAX)) (sint (ucast v :: u32)) of
        None \<Rightarrow> raise_de_ctx c
      | Some (q, r) \<Rightarrow> set_reg32 (set_reg32 c REG_RAX (of_int q)) REG_RDX (of_int r)) e"
  unfolding idiv_rm32_def Let_def
proof (rule after_read_cong, goal_cases)
  case (1 v c)
  show ?case
    using idiv_body [where ?'a = 32 and ?'b = 64 and E = "raise_de_ctx c" and d = "ucast v" and
        n = "push_bit 32 (ucast (get_reg32 c REG_RDX)) OR ucast (get_reg32 c REG_RAX)" and
        K = "\<lambda>q r. set_reg32 (set_reg32 c REG_RAX q) REG_RDX r"]
    unfolding word_lengths sint_double32 by (simp only: insert_iff refl simp_thms numeral_le_iff semiring_norm ucast_id)
qed

text \<open>The magnitude of a 128-bit dividend.\<close>

lemma abs_u128:
  fixes hi lo :: u64
  defines "p \<equiv> (if hi <s 0 then negate_u128 hi lo else (hi, lo))"
  shows "uint (fst p) * 2 ^ 64 + uint (snd p) = \<bar>sint hi * 2 ^ 64 + uint lo\<bar>"
proof (cases "hi <s 0")
  case True
  then have neg: "sint hi < 0" by (simp add: word_sless_alt)
  then have h: "sint hi = uint hi - 2 ^ 64" "2 ^ 63 \<le> uint hi" by (auto simp: sint_uint_top split: if_splits)
  have "- sint hi * 2 ^ 64 > 0" using neg by simp
  have lo: "uint lo < 2 ^ 64" "uint hi < 2 ^ 64" using uint_lt2p [of lo] uint_lt2p [of hi] by simp_all
  have nl: "NOT lo + 1 = - lo" by (simp add: minus_eq_not_plus_1)
  have "uint (- lo) = (if lo = 0 then 0 else 2 ^ 64 - uint lo)"
    using lo(1) by (auto simp: uint_word_ariths zmod_zminus1_eq_if mod_pos_pos_trivial uint_0_iff)
  moreover have "uint (NOT hi + (if - lo = 0 then 1 else 0)) = 2 ^ 64 - 1 - uint hi + (if lo = 0 then 1 else 0)"
  proof -
    have n: "uint (NOT hi) = 2 ^ 64 - 1 - uint hi"
      by (simp add: unsigned_not_eq take_bit_not_eq_mask_diff mask_eq_exp_minus_1)
    have "uint (- hi) = 2 ^ 64 - uint hi"
      using h(2) lo(2) by (simp add: uint_word_ariths zmod_zminus1_eq_if mod_pos_pos_trivial)
    with n show ?thesis by (cases "lo = 0") (simp_all add: minus_eq_not_plus_1 [symmetric])
  qed
  ultimately show ?thesis using True neg h lo uint_0_iff [of lo]
    by (simp add: p_def negate_u128_def Let_def nl split: if_splits)
next
  case False
  then have "0 \<le> sint hi" by (simp add: word_sless_alt)
  then have "sint hi = uint hi" using uint_lt2p [of hi] by (auto simp: sint_uint_top split: if_splits)
  then show ?thesis using False by (simp add: p_def)
qed

lemma idiv_rm64_spec:
  "idiv_rm64 build cb e m a = after_read cb m a 64
     (\<lambda>v c. case idiv_outcome 64 (sint (get_reg64 c REG_RDX) * 2 ^ 64 + uint (get_reg64 c REG_RAX)) (sint v) of
        None \<Rightarrow> raise_de_ctx c
      | Some (q, r) \<Rightarrow> set_reg64 (set_reg64 c REG_RAX (of_int q)) REG_RDX (of_int r)) e"
  unfolding idiv_rm64_def Let_def
proof (rule after_read_cong, goal_cases)
  case (1 d c)
  let ?hi = "get_reg64 c REG_RDX" and ?lo = "get_reg64 c REG_RAX"
  define p where "p = (if ?hi <s 0 then negate_u128 ?hi ?lo else (?hi, ?lo))"
  define ad where "ad = (if d <s 0 then NOT d + 1 else d)"
  define n where "n = sint ?hi * 2 ^ 64 + uint ?lo"
  have p: "uint (fst p) * 2 ^ 64 + uint (snd p) = \<bar>n\<bar>" unfolding p_def n_def by (rule abs_u128)
  have ad: "uint ad = \<bar>sint d\<bar>" unfolding ad_def by (rule uint_abs)
  have neg: "?hi <s 0 \<longleftrightarrow> n < 0" "d <s 0 \<longleftrightarrow> sint d < 0"
    using uint_lt2p [of ?lo] scaled_le [of "uint ?lo" "2 ^ 64" 0 "sint ?hi"] by (simp_all add: word_sless_alt n_def, linarith)
  have fits: "fits_signed 64 k \<longrightarrow> \<bar>k\<bar> < 2 ^ 64" for k by (auto simp: fits_signed_def)
  show ?case
  proof (cases "d = 0 \<or> ad \<le> fst p")
    case True
    have "2 ^ 64 \<le> \<bar>n\<bar> div \<bar>sint d\<bar>" if "d \<noteq> 0"
      using high_half_overflow [of "uint ad" "uint (snd p)" 64 "uint (fst p)", unfolded p ad] that True uint_lt2p [of "snd p"]
      by (simp add: ad word_le_def signed_eq_0_iff)
    then have "\<not> fits_signed 64 (n sdiv sint d)" if "d \<noteq> 0" using fits [of "n sdiv sint d"] that
      by (cases "n = 0") (auto simp: signed_divide_int_def abs_mult abs_sgn_eq signed_eq_0_iff)
    then show ?thesis using True unfolding p_def [symmetric] ad_def [symmetric] n_def [symmetric]
      by (auto simp: idiv_outcome_def)
  next
    case False
    then have d: "d \<noteq> 0" "0 < \<bar>sint d\<bar>" by (simp_all add: signed_eq_0_iff)
    have "\<bar>n\<bar> div \<bar>sint d\<bar> < 2 ^ 64"
      using high_half_overflow [of "uint ad" "uint (snd p)" 64 "uint (fst p)", unfolded p ad] False d(2) uint_lt2p [of "snd p"]
      by (simp add: ad word_le_def)
    then have q: "uint (of_int (\<bar>n\<bar> div \<bar>sint d\<bar>) :: u64) = \<bar>n\<bar> div \<bar>sint d\<bar>"
      using d(2) by (intro of_int_small) (simp_all add: pos_imp_zdiv_nonneg_iff)
    have "\<bar>n\<bar> mod \<bar>sint d\<bar> < 2 ^ 64"
      using less_trans [OF pos_mod_bound [OF d(2), of "\<bar>n\<bar>"]] uint_lt2p [of ad] by (simp add: ad)
    then have r: "uint (of_int (\<bar>n\<bar> mod \<bar>sint d\<bar>) :: u64) = \<bar>n\<bar> mod \<bar>sint d\<bar>"
      using d(2) by (intro of_int_small) simp_all
    have sq: "(if (n < 0) \<noteq> (sint d < 0) then - (\<bar>n\<bar> div \<bar>sint d\<bar>) else \<bar>n\<bar> div \<bar>sint d\<bar>) = n sdiv sint d"
      unfolding signed_divide_int_def by (auto simp: sgn_if)
    have sr: "(if n < 0 then - (\<bar>n\<bar> mod \<bar>sint d\<bar>) else \<bar>n\<bar> mod \<bar>sint d\<bar>) = n smod sint d"
      unfolding signed_modulo_int_def by (auto simp: sgn_if)
    have w: "(64 :: nat) \<in> {8, 16, 32, 64}" by simp
    note pack = pack_signed [where ?'a = 64, unfolded word_lengths ucast_id, OF w]
    have "sint d < 2 ^ 63" "- (2 ^ 63) \<le> sint d" using sint_less [of d] sint_greater_eq [of d] by simp_all
    then have "uint ad \<le> 2 ^ 63" unfolding ad by linarith
    then have "ad \<le> 0x8000000000000000" by (simp add: word_le_def)
    then have dv: "cpueaxh_udiv128 build (fst p) (snd p) ad = (of_int (\<bar>n\<bar> div \<bar>sint d\<bar>), of_int (\<bar>n\<bar> mod \<bar>sint d\<bar>))"
      using udiv128_build_exact [of "fst p" ad build "snd p", unfolded p ad] False by (simp add: not_le)
    show ?thesis
      unfolding p_def [symmetric] ad_def [symmetric] n_def [symmetric]
      unfolding dv p ad prod.case
        idiv_overflows_iff [OF w] pack neg q r sq sr idiv_outcome_def
      using False d(1) by (simp add: signed_eq_0_iff)
  qed
qed

subsection \<open>MUL and IMUL\<close>

lemma uint_product:
  fixes x y :: "'a :: len word"
  assumes "LENGTH('b :: len) = 2 * LENGTH('a)"
  shows "uint (ucast x * ucast y :: 'b word) = uint x * uint y"
proof -
  have "uint x * uint y < 2 ^ LENGTH('a) * 2 ^ LENGTH('a)" by (rule mult_strict_mono') simp_all
  also have "\<dots> = 2 ^ LENGTH('b)" unfolding assms mult_2 power_add ..
  finally show ?thesis using assms by (simp add: uint_word_ariths uint_widen mod_pos_pos_trivial)
qed

lemma high_half:
  fixes r :: "'b :: len word"
  shows "ucast (drop_bit n r) = (of_int (uint r div 2 ^ n) :: 'a :: len word)"
    and "drop_bit n r \<noteq> 0 \<longleftrightarrow> 2 ^ n \<le> uint r"
proof -
  have u: "uint (drop_bit n r) = uint r div 2 ^ n" unfolding unsigned_drop_bit_eq take_bit_uint [OF order_refl] by (rule drop_bit_eq_div)
  then show "ucast (drop_bit n r) = (of_int (uint r div 2 ^ n) :: 'a word)" by (simp only: ucast_of_uint)
  have "drop_bit n r = 0 \<longleftrightarrow> uint r div 2 ^ n = 0" using u by (metis uint_0_iff)
  then show "drop_bit n r \<noteq> 0 \<longleftrightarrow> 2 ^ n \<le> uint r" by (auto simp: div_eq_0_iff zdiv_eq_0_iff not_less)
qed

lemma sint_product:
  fixes x y :: "'a :: len word"
  assumes "LENGTH('b :: len) = 2 * LENGTH('a)"
  shows "sint (scast x * scast y :: 'b word) = sint x * sint y"
proof -
  let ?h = "2 ^ (LENGTH('a) - Suc 0) :: int"
  have b: "\<bar>sint z\<bar> \<le> ?h" for z :: "'a word" using sint_greater_eq [of z] sint_less [of z] by (auto simp: abs_le_iff)
  have "\<bar>sint x * sint y\<bar> \<le> ?h * ?h" unfolding abs_mult by (rule mult_mono [OF b b]) simp_all
  also have "?h * ?h < 2 ^ (LENGTH('b) - Suc 0)"
  proof -
    have "(LENGTH('a) - Suc 0) + (LENGTH('a) - Suc 0) < LENGTH('b) - Suc 0" using assms len_gt_0 [where ?'a = 'a] by linarith
    then show ?thesis unfolding power_add [symmetric] by (intro power_strict_increasing) simp_all
  qed
  finally have fits: "- (2 ^ (LENGTH('b) - Suc 0)) \<le> sint x * sint y" "sint x * sint y < 2 ^ (LENGTH('b) - Suc 0)" by linarith+
  have "scast x * scast y = (of_int (sint x * sint y) :: 'b word)" unfolding scast_eq of_int_mult ..
  then have "sint (scast x * scast y :: 'b word) = signed_take_bit (LENGTH('b) - Suc 0) (sint x * sint y)"
    by (simp only: sint_sbintrunc' One_nat_def)
  also have "\<dots> = sint x * sint y" using fits by (rule signed_take_bit_int_eq_self)
  finally show ?thesis .
qed

lemma sint_narrow:
  fixes r :: "'b :: len word"
  assumes "LENGTH('a :: len) \<le> LENGTH('b)"
  shows "r \<noteq> scast (ucast r :: 'a word) \<longleftrightarrow> \<not> fits_signed LENGTH('a) (sint r)"
proof -
  have len: "LENGTH('a) - Suc 0 \<le> LENGTH('b) - Suc 0" using assms by simp
  have "sint (ucast r :: 'a word) = signed_take_bit (LENGTH('a) - Suc 0) (uint r)" by (fact signed_ucast_eq)
  also have "\<dots> = signed_take_bit (LENGTH('a) - Suc 0) (signed_take_bit (LENGTH('b) - Suc 0) (uint r))"
    using len by (simp add: signed_take_bit_signed_take_bit min_absorb1)
  also have "signed_take_bit (LENGTH('b) - Suc 0) (uint r) = sint r" by (simp add: sint_uint)
  finally have u: "sint (ucast r :: 'a word) = signed_take_bit (LENGTH('a) - Suc 0) (sint r)" .
  have "sint (scast (ucast r :: 'a word) :: 'b word) = sint (ucast r :: 'a word)"
    unfolding signed_scast_eq u using len by (simp add: signed_take_bit_signed_take_bit min_absorb2)
  then have "r = scast (ucast r :: 'a word) \<longleftrightarrow> signed_take_bit (LENGTH('a) - Suc 0) (sint r) = sint r"
    unfolding u [symmetric] by (metis signed_word_eqI)
  then show ?thesis by (simp add: fits_signed_def signed_take_bit_int_eq_self_iff)
qed

lemma signed_product:
  fixes a b :: "'a :: len word"
  assumes "LENGTH('b :: len) = 2 * LENGTH('a)"
  shows "scast a * scast b = (of_int (sint a * sint b) :: 'b word)"
    and "(scast a * scast b :: 'b word) \<noteq> scast (ucast (scast a * scast b :: 'b word) :: 'a word) \<longleftrightarrow>
           \<not> fits_signed LENGTH('a) (sint a * sint b)"
proof -
  show "scast a * scast b = (of_int (sint a * sint b) :: 'b word)" unfolding scast_eq of_int_mult ..
  have "LENGTH('a) \<le> LENGTH('b)" using assms by simp
  from sint_narrow [OF this, of "scast a * scast b"]
  show "(scast a * scast b :: 'b word) \<noteq> scast (ucast (scast a * scast b :: 'b word) :: 'a word) \<longleftrightarrow>
      \<not> fits_signed LENGTH('a) (sint a * sint b)" unfolding sint_product [OF assms] .
qed

lemma imul_spec:
  "imul8 a8 b8 = (of_int (sint a8 * sint b8), \<not> fits_signed 8 (sint a8 * sint b8))"
  "imul16 a16 b16 = (of_int (sint a16 * sint b16), \<not> fits_signed 16 (sint a16 * sint b16))"
  "imul32 a32 b32 = (of_int (sint a32 * sint b32), \<not> fits_signed 32 (sint a32 * sint b32))"
  using signed_product [where ?'b = 16, of a8 b8] signed_product [where ?'b = 32, of a16 b16]
    signed_product [where ?'b = 64, of a32 b32]
  unfolding imul8_def imul16_def imul32_def Let_def word_lengths by simp_all

lemma high_half_sign:
  fixes p :: u128
  shows "(ucast (drop_bit 64 p) :: u64) = (if (ucast p :: u64) <s 0 then - 1 else 0) \<longleftrightarrow> p = scast (ucast p :: u64)"
proof -
  have neg: "(ucast p :: u64) <s 0 \<longleftrightarrow> bit p 63" by (simp add: word_sless_alt sint_negative bit_simps)
  have high: "bit (ucast (drop_bit 64 p) :: u64) i = bit p (64 + i)" if "i < 64" for i
    using that by (simp add: bit_simps)
  have ext: "bit (scast (ucast p :: u64) :: u128) n = bit p (min n 63)" if "n < 128" for n
    using that by (auto simp: bit_simps min_def)
  show ?thesis
  proof
    assume a: "(ucast (drop_bit 64 p) :: u64) = (if (ucast p :: u64) <s 0 then - 1 else 0)"
    have "bit p n = bit p 63" if "64 \<le> n" "n < 128" for n
      using high [of "n - 64"] that unfolding a neg by (cases "bit p 63") auto
    then show "p = scast (ucast p :: u64)" by (intro bit_word_eqI) (auto simp: ext min_def not_le)
  next
    assume b: "p = scast (ucast p :: u64)"
    have "bit p (64 + i) = bit p 63" if "i < 64" for i using ext [of "64 + i"] that b by simp
    then show "(ucast (drop_bit 64 p) :: u64) = (if (ucast p :: u64) <s 0 then - 1 else 0)"
      unfolding neg by (intro bit_word_eqI) (simp add: high)
  qed
qed

lemma imul64_spec:
  "imul64 a b = (of_int (sint a * sint b), of_int (sint a * sint b div 2 ^ 64), \<not> fits_signed 64 (sint a * sint b))"
proof -
  let ?p = "scast a * scast b :: u128" and ?P = "sint a * sint b"
  have p: "?p = of_int ?P" "?p = scast (ucast ?p :: u64) \<longleftrightarrow> fits_signed 64 ?P"
    using signed_product [where ?'b = 128, of a b] by simp_all
  have halves: "ucast (of_int k :: u128) = (of_int k :: u64)" "ucast (drop_bit 64 (of_int k :: u128)) = (of_int (drop_bit 64 k) :: u64)"
    for k by (rule bit_word_eqI, simp add: bit_simps)+
  have low: "ucast ?p = (of_int ?P :: u64)" and high: "ucast (drop_bit 64 ?p) = (of_int (?P div 2 ^ 64) :: u64)"
    unfolding p(1) halves drop_bit_eq_div [of 64 ?P] by (rule refl)+
  show ?thesis
    unfolding imul64_def mul128_def Let_def prod.case high_half_sign p(2) unfolding low high ..
qed

lemma mul_spec:
  "mul_rm8 cb e m a = after_read cb m a 8
     (\<lambda>v c. let p = uint (get_reg8 (cpu_ctx e) REG_RAX) * uint (ucast v :: u8)
            in update_flags_mul (set_reg16 c REG_RAX (of_int p)) (2 ^ 8 \<le> p)) e"
  "mul_rm16 cb e m a = after_read cb m a 16
     (\<lambda>v c. let p = uint (get_reg16 (cpu_ctx e) REG_RAX) * uint (ucast v :: u16)
            in update_flags_mul (set_reg16 (set_reg16 c REG_RAX (of_int p)) REG_RDX (of_int (p div 2 ^ 16))) (2 ^ 16 \<le> p)) e"
  "mul_rm32 cb e m a = after_read cb m a 32
     (\<lambda>v c. let p = uint (get_reg32 (cpu_ctx e) REG_RAX) * uint (ucast v :: u32)
            in update_flags_mul (set_reg32 (set_reg32 c REG_RAX (of_int p)) REG_RDX (of_int (p div 2 ^ 32))) (2 ^ 32 \<le> p)) e"
  "mul_rm64 cb e m a = after_read cb m a 64
     (\<lambda>v c. let p = uint (get_reg64 (cpu_ctx e) REG_RAX) * uint v
            in update_flags_mul (set_reg64 (set_reg64 c REG_RAX (of_int p)) REG_RDX (of_int (p div 2 ^ 64))) (2 ^ 64 \<le> p)) e"
proof -
  have 8: "uint (ucast x * ucast y :: u16) = uint x * uint y" for x y :: u8 by (rule uint_product) simp
  have 16: "uint (ucast x * ucast y :: u32) = uint x * uint y" for x y :: u16 by (rule uint_product) simp
  have 32: "uint (ucast x * ucast y :: u64) = uint x * uint y" for x y :: u32 by (rule uint_product) simp
  have 64: "uint (ucast x * ucast y :: u128) = uint x * uint y" for x y :: u64 by (rule uint_product) simp
  have low8: "ucast x * ucast y = (of_int (uint x * uint y) :: u16)" for x y :: u8 unfolding ucast_of_uint of_int_mult ..
  have low16: "ucast (ucast x * ucast y :: u32) = (of_int (uint x * uint y) :: u16)" for x y :: u16
    unfolding ucast_of_uint [of "ucast x * ucast y"] 16 ..
  have low32: "ucast (ucast x * ucast y :: u64) = (of_int (uint x * uint y) :: u32)" for x y :: u32
    unfolding ucast_of_uint [of "ucast x * ucast y"] 32 ..
  have low64: "ucast (ucast x * ucast y :: u128) = (of_int (uint x * uint y) :: u64)" for x y :: u64
    unfolding ucast_of_uint [of "ucast x * ucast y"] 64 ..
  have top: "(of_int (uint x * uint y div 2 ^ 64) :: u64) \<noteq> 0 \<longleftrightarrow> 2 ^ 64 \<le> uint x * uint y" for x y :: u64
  proof -
    have b: "0 \<le> uint x * uint y" "uint x * uint y < 2 ^ 64 * 2 ^ 64"
      using mult_strict_mono' [of "uint x" "2 ^ 64" "uint y" "2 ^ 64"] uint_lt2p [of x] uint_lt2p [of y] by simp_all
    have small: "P div 2 ^ 64 < 2 ^ 64" if "P < 2 ^ 64 * 2 ^ 64" for P :: int using that by simp
    have "uint (of_int (uint x * uint y div 2 ^ 64) :: u64) = uint x * uint y div 2 ^ 64"
      using small [OF b(2)] b(1) by (intro of_int_small) (simp_all add: pos_imp_zdiv_nonneg_iff)
    then have "of_int (uint x * uint y div 2 ^ 64) = (0 :: u64) \<longleftrightarrow> uint x * uint y div 2 ^ 64 = 0" by (metis uint_0_iff)
    then show ?thesis using b(1) by (auto simp: zdiv_eq_0_iff)
  qed
  show "mul_rm8 cb e m a = after_read cb m a 8
     (\<lambda>v c. let p = uint (get_reg8 (cpu_ctx e) REG_RAX) * uint (ucast v :: u8)
            in update_flags_mul (set_reg16 c REG_RAX (of_int p)) (2 ^ 8 \<le> p)) e"
    unfolding mul_rm8_def Let_def high_half 8 unfolding low8 ..
  show "mul_rm16 cb e m a = after_read cb m a 16
     (\<lambda>v c. let p = uint (get_reg16 (cpu_ctx e) REG_RAX) * uint (ucast v :: u16)
            in update_flags_mul (set_reg16 (set_reg16 c REG_RAX (of_int p)) REG_RDX (of_int (p div 2 ^ 16))) (2 ^ 16 \<le> p)) e"
    unfolding mul_rm16_def Let_def high_half 16 low16 ..
  show "mul_rm32 cb e m a = after_read cb m a 32
     (\<lambda>v c. let p = uint (get_reg32 (cpu_ctx e) REG_RAX) * uint (ucast v :: u32)
            in update_flags_mul (set_reg32 (set_reg32 c REG_RAX (of_int p)) REG_RDX (of_int (p div 2 ^ 32))) (2 ^ 32 \<le> p)) e"
    unfolding mul_rm32_def Let_def high_half 32 low32 ..
  show "mul_rm64 cb e m a = after_read cb m a 64
     (\<lambda>v c. let p = uint (get_reg64 (cpu_ctx e) REG_RAX) * uint v
            in update_flags_mul (set_reg64 (set_reg64 c REG_RAX (of_int p)) REG_RDX (of_int (p div 2 ^ 64))) (2 ^ 64 \<le> p)) e"
    unfolding mul_rm64_def umul128_def Let_def prod.case high_half 64 low64 top ..
qed

end
