(* ===== verification/ShiftSpec.thy ===== *)
theory ShiftSpec
  imports Shift
begin

text \<open>
  What the shift and rotate loops compute: one step of the loop at a time, against the shifts and the
  rotations of a word of the operand's width.
\<close>

unbundle bit_operations_syntax

subsection \<open>One step of each loop\<close>

text \<open>The mask and the sign bit of an operand of the width of \<open>'a\<close>.\<close>

lemma and_top_iff:
  fixes v :: "'a :: len word"
  assumes "LENGTH('a) \<le> 64"
  shows "(ucast v :: u64) AND push_bit (LENGTH('a) - Suc 0) 1 \<noteq> 0 \<longleftrightarrow> bit v (LENGTH('a) - Suc 0)"
proof -
  have "LENGTH('a) - Suc 0 < 64" using assms len_gt_0 [where ?'a = 'a] by linarith
  then show ?thesis by (simp only: and_bit_nonzero) (simp add: bit_simps)
qed

lemma and_one_iff:
  fixes v :: "'a :: len word"
  shows "(ucast v :: u64) AND 1 \<noteq> 0 \<longleftrightarrow> bit v 0"
  using and_bit_nonzero [of 0 "ucast v"] by (simp add: bit_simps)

lemmas step_bits = bit_and_iff bit_or_iff bit_push_bit_iff bit_drop_bit_eq bit_unsigned_iff bit_mask_iff bit_signed_drop_bit_iff
  bit_word_rotl_iff bit_word_rotr_iff o_def

lemma shl_step:
  fixes v :: "'a :: len word"
  assumes "LENGTH('a) \<le> 64"
  shows "push_bit 1 (ucast v :: u64) AND mask LENGTH('a) = ucast (push_bit 1 v)"
  by (rule bit_word_eqI, unfold step_bits) (use assms in \<open>auto simp: possible_bit_def\<close>)

lemma shr_step:
  fixes v :: "'a :: len word"
  assumes "LENGTH('a) \<le> 64"
  shows "drop_bit 1 (ucast v :: u64) = ucast (drop_bit 1 v)"
  by (rule bit_word_eqI, unfold step_bits) (use assms in \<open>auto dest: bit_imp_le_length\<close>)

lemma sar_step:
  fixes v :: "'a :: len word"
  assumes "LENGTH('a) \<le> 64"
  shows "(if bit v (LENGTH('a) - Suc 0) then drop_bit 1 (ucast v :: u64) OR push_bit (LENGTH('a) - Suc 0) 1
          else drop_bit 1 (ucast v)) AND mask LENGTH('a) = ucast (signed_drop_bit 1 v)"
  using assms by (intro bit_word_eqI) (auto simp: bit_simps dest: bit_imp_le_length)

lemma rot_index:
  assumes "n < (w :: nat)"
  shows "Suc n mod w = (if Suc n = w then 0 else Suc n)" "(n + (w - 1 mod w)) mod w = (if n = 0 then w - 1 else n - 1)"
  using assms by (auto simp: mod_Suc le_Suc_eq mod_if)

lemma rol_step:
  fixes v :: "'a :: len word"
  assumes "LENGTH('a) \<le> 64"
  shows "(push_bit 1 (ucast v :: u64) OR (if bit v (LENGTH('a) - Suc 0) then 1 else 0)) AND mask LENGTH('a) =
         ucast (word_rotl 1 v)"
proof (rule bit_word_eqI)
  fix n assume "n < LENGTH(64)"
  have "bit (word_rotl 1 v) n \<longleftrightarrow> n < LENGTH('a) \<and> bit v (if n = 0 then LENGTH('a) - 1 else n - 1)"
    unfolding bit_word_rotl_iff using rot_index(2) [of n "LENGTH('a)"] by auto
  then show "bit ((push_bit 1 (ucast v :: u64) OR (if bit v (LENGTH('a) - Suc 0) then 1 else 0)) AND mask LENGTH('a)) n =
      bit (ucast (word_rotl 1 v) :: u64) n"
    using assms unfolding step_bits by (auto simp: bit_1_iff)
qed

lemma ror_step:
  fixes v :: "'a :: len word"
  assumes "LENGTH('a) \<le> 64"
  shows "(drop_bit 1 (ucast v :: u64) OR (if bit v 0 then push_bit (LENGTH('a) - Suc 0) 1 else 0)) AND mask LENGTH('a) =
         ucast (word_rotr 1 v)"
proof (rule bit_word_eqI)
  fix n assume "n < LENGTH(64)"
  then show "bit ((drop_bit 1 (ucast v :: u64) OR (if bit v 0 then push_bit (LENGTH('a) - Suc 0) 1 else 0)) AND mask LENGTH('a)) n =
      bit (ucast (word_rotr 1 v) :: u64) n"
    using assms rot_index(1) [of n "LENGTH('a)"] by (auto simp: bit_simps dest: bit_imp_le_length split: if_splits)
qed

subsection \<open>The loops\<close>

text \<open>After \<open>n\<close> rounds the operand is shifted by \<open>n\<close>, and the carry is the bit the last round pushed out.\<close>

lemma shl_loop_word:
  fixes v :: "'a :: len word"
  assumes "LENGTH('a) \<le> 64"
  shows "shl_loop n (mask LENGTH('a)) (push_bit (LENGTH('a) - Suc 0) 1) (ucast v) cy =
    (ucast (push_bit n v), if n = 0 then cy else bit (push_bit (n - 1) v) (LENGTH('a) - Suc 0))"
proof (induction n arbitrary: v cy)
  case (Suc n)
  show ?case unfolding shl_loop.simps shl_step [OF assms] and_top_iff [OF assms] Suc.IH
    by (cases n) (simp_all add: push_bit_push_bit)
qed simp

lemma shr_loop_word:
  fixes v :: "'a :: len word"
  assumes "LENGTH('a) \<le> 64"
  shows "shr_loop n (mask LENGTH('a)) sm (ucast v) cy = (ucast (drop_bit n v), if n = 0 then cy else bit (drop_bit (n - 1) v) 0)"
proof (induction n arbitrary: v cy)
  case 0
  show ?case using assms by (auto simp: take_bit_eq_mask [symmetric] intro!: bit_word_eqI simp: bit_simps dest: bit_imp_le_length)
next
  case (Suc n)
  show ?case unfolding shr_loop.simps shr_step [OF assms] and_one_iff Suc.IH by (cases n) simp_all
qed

lemma sar_loop_word:
  fixes v :: "'a :: len word"
  assumes "LENGTH('a) \<le> 64"
  shows "sar_loop n (mask LENGTH('a)) (push_bit (LENGTH('a) - Suc 0) 1) (ucast v) cy =
    (ucast (signed_drop_bit n v), if n = 0 then cy else bit (signed_drop_bit (n - 1) v) 0)"
proof (induction n arbitrary: v cy)
  case (Suc n)
  show ?case unfolding sar_loop.simps and_top_iff [OF assms] sar_step [OF assms] and_one_iff Suc.IH
    by (cases n) (simp_all add: signed_drop_bit_signed_drop_bit)
qed simp

lemma word_rotl_add: "word_rotl m (word_rotl n (v :: 'a :: len word)) = word_rotl (m + n) v"
proof -
  have "word_rotr (n + m) (word_rotl m (word_rotl n v)) = v" by (simp flip: word_rotr_word_rotr_eq)
  then show ?thesis by (simp add: word_rot_gal add.commute)
qed

lemma word_rot_0 [simp]: "word_rotl 0 (v :: 'a :: len word) = v" "word_rotr 0 v = v"
  by (rule bit_word_eqI; simp add: bit_simps)+

lemma rol_loop_word:
  fixes v :: "'a :: len word"
  assumes "LENGTH('a) \<le> 64"
  shows "rol_loop n (mask LENGTH('a)) (push_bit (LENGTH('a) - Suc 0) 1) (ucast v) cy =
    (ucast (word_rotl n v), if n = 0 then cy else bit (word_rotl n v) 0)"
proof (induction n arbitrary: v cy)
  case (Suc n)
  have "bit (word_rotl 1 v) 0 = bit v (LENGTH('a) - Suc 0)" using rot_index(2) [of 0 "LENGTH('a)"] by (simp add: bit_word_rotl_iff)
  then show ?case unfolding rol_loop.simps and_top_iff [OF assms] rol_step [OF assms] Suc.IH word_rotl_add
    by (cases n) simp_all
qed simp

lemma ror_loop_word:
  fixes v :: "'a :: len word"
  assumes "LENGTH('a) \<le> 64"
  shows "ror_loop n (mask LENGTH('a)) (push_bit (LENGTH('a) - Suc 0) 1) (ucast v) cy =
    (ucast (word_rotr n v), if n = 0 then cy else bit (word_rotr n v) (LENGTH('a) - Suc 0))"
proof (induction n arbitrary: v cy)
  case (Suc n)
  have "bit (word_rotr 1 v) (LENGTH('a) - Suc 0) = bit v 0" by (simp add: bit_word_rotr_iff)
  then show ?case unfolding ror_loop.simps and_one_iff ror_step [OF assms] Suc.IH word_rotr_word_rotr_eq
    by (cases n) simp_all
qed simp

subsection \<open>Rotations through the carry\<close>

text \<open>The operand with the carry flag above it, a value of one bit more.\<close>

definition with_carry :: "'a :: len word \<Rightarrow> bool \<Rightarrow> nat \<Rightarrow> bool" where
  "with_carry v cf i = (if i = LENGTH('a) then cf else bit v i)"

lemma rcl_step:
  fixes v :: "'a :: len word" and cf :: bool
  assumes "LENGTH('a) \<le> 64"
  defines "v' \<equiv> (push_bit 1 v OR (if cf then 1 else 0))"
  shows "(push_bit 1 (ucast v :: u64) OR (if cf then 1 else 0)) AND mask LENGTH('a) = ucast v'"
    and "i \<le> LENGTH('a) \<Longrightarrow>
      with_carry v' (bit v (LENGTH('a) - Suc 0)) i = with_carry v cf ((i + LENGTH('a)) mod Suc LENGTH('a))"
proof -
  show "(push_bit 1 (ucast v :: u64) OR (if cf then 1 else 0)) AND mask LENGTH('a) = ucast v'"
    unfolding v'_def by (rule bit_word_eqI, unfold step_bits) (use assms in \<open>auto simp: bit_1_iff possible_bit_def\<close>)
  show "with_carry v' (bit v (LENGTH('a) - Suc 0)) i = with_carry v cf ((i + LENGTH('a)) mod Suc LENGTH('a))"
    if "i \<le> LENGTH('a)"
  proof (cases i)
    case (Suc j)
    have "(i + LENGTH('a)) mod Suc LENGTH('a) = (j + Suc LENGTH('a)) mod Suc LENGTH('a)" by (simp add: Suc)
    also have "\<dots> = j" using that by (simp add: Suc mod_add_self2 del: add_Suc_right)
    finally have "(i + LENGTH('a)) mod Suc LENGTH('a) = j" .
    moreover have "LENGTH('a) - Suc 0 = j" if "i = LENGTH('a)" using that Suc by simp
    ultimately show ?thesis using Suc that unfolding with_carry_def v'_def step_bits by (auto simp: bit_1_iff possible_bit_def)
  qed (simp add: with_carry_def v'_def bit_simps bit_0 even_or_iff)
qed

lemma rcr_step:
  fixes v :: "'a :: len word" and cf :: bool
  assumes "LENGTH('a) \<le> 64"
  defines "v' \<equiv> (drop_bit 1 v OR (if cf then push_bit (LENGTH('a) - Suc 0) 1 else 0))"
  shows "(drop_bit 1 (ucast v :: u64) OR (if cf then push_bit (LENGTH('a) - Suc 0) 1 else 0)) AND mask LENGTH('a) = ucast v'"
    and "i \<le> LENGTH('a) \<Longrightarrow> with_carry v' (bit v 0) i = with_carry v cf (Suc i mod Suc LENGTH('a))"
proof -
  show "(drop_bit 1 (ucast v :: u64) OR (if cf then push_bit (LENGTH('a) - Suc 0) 1 else 0)) AND mask LENGTH('a) = ucast v'"
    unfolding v'_def using assms by (intro bit_word_eqI) (auto simp: bit_simps dest: bit_imp_le_length)
  show "with_carry v' (bit v 0) i = with_carry v cf (Suc i mod Suc LENGTH('a))" if "i \<le> LENGTH('a)"
    using that by (cases "i = LENGTH('a)") (auto simp: with_carry_def v'_def bit_simps dest: bit_imp_le_length)
qed

lemma carry_flag: "\<not> cpu_has_exception c \<Longrightarrow> flag_set (set_flag c RFLAGS_CF b) RFLAGS_CF = b"
  using set_flag_bit [of c 0 b 0] unfolding flag_set_bit by (simp add: RFLAGS_CF_def)

text \<open>\<open>n\<close> rounds rotate operand and carry together by \<open>n\<close> places, to the left for RCL and to the right for RCR.\<close>

lemma rcl_loop_word:
  fixes v :: "'a :: len word"
  assumes len: "LENGTH('a) \<le> 64" and ok: "\<not> cpu_has_exception c"
    and run: "rcl_loop n (mask LENGTH('a)) (push_bit (LENGTH('a) - Suc 0) 1) (ucast v) cy c = (r, co, c')"
  shows "\<exists>v' :: 'a word. r = ucast v' \<and> (0 < n \<longrightarrow> co = flag_set c' RFLAGS_CF) \<and>
    (\<forall>i \<le> LENGTH('a). with_carry v' (flag_set c' RFLAGS_CF) i =
       with_carry v (flag_set c RFLAGS_CF) ((i + n * LENGTH('a)) mod Suc LENGTH('a)))"
  using ok run
proof (induction n arbitrary: v cy c)
  case (Suc n)
  let ?w = "LENGTH('a)"
  define cf where "cf = flag_set c RFLAGS_CF"
  define v1 where "v1 = push_bit 1 v OR (if cf then 1 else 0)"
  let ?c1 = "set_flag c RFLAGS_CF (bit v (?w - Suc 0))"
  have step: "(push_bit 1 (ucast v :: u64) OR (if cf then 1 else 0)) AND mask ?w = ucast v1"
    unfolding v1_def by (rule rcl_step(1) [OF len])
  have "rcl_loop n (mask ?w) (push_bit (?w - Suc 0) 1) (ucast v1) (bit v (?w - Suc 0)) ?c1 = (r, co, c')"
    using Suc.prems(2) unfolding rcl_loop.simps Let_def and_top_iff [OF len] flag_set_def [symmetric] cf_def [symmetric] step .
  then obtain v' :: "'a word" where v': "r = ucast v'" "0 < n \<longrightarrow> co = flag_set c' RFLAGS_CF"
    "\<And>i. i \<le> ?w \<Longrightarrow> with_carry v' (flag_set c' RFLAGS_CF) i = with_carry v1 (bit v (?w - Suc 0)) ((i + n * ?w) mod Suc ?w)"
    using Suc.IH [of ?c1 v1] Suc.prems(1) by (auto simp: carry_flag)
  have "with_carry v' (flag_set c' RFLAGS_CF) i = with_carry v cf ((i + Suc n * ?w) mod Suc ?w)" if "i \<le> ?w" for i
    unfolding v'(3) [OF that] v1_def by (subst rcl_step(2) [OF len]) (simp_all add: mod_add_left_eq less_Suc_eq_le [symmetric] ac_simps mod_add_right_eq)
  moreover have "co = flag_set c' RFLAGS_CF"
    using v'(2) Suc.prems unfolding rcl_loop.simps Let_def and_top_iff [OF len] by (cases n) (auto simp: carry_flag)
  ultimately show ?case using v'(1) by (auto simp: cf_def)
qed auto

lemma rcr_loop_word:
  fixes v :: "'a :: len word"
  assumes len: "LENGTH('a) \<le> 64" and ok: "\<not> cpu_has_exception c"
    and run: "rcr_loop n (mask LENGTH('a)) (push_bit (LENGTH('a) - Suc 0) 1) (ucast v) cy c = (r, co, c')"
  shows "\<exists>v' :: 'a word. r = ucast v' \<and> (0 < n \<longrightarrow> co = flag_set c' RFLAGS_CF) \<and>
    (\<forall>i \<le> LENGTH('a). with_carry v' (flag_set c' RFLAGS_CF) i =
       with_carry v (flag_set c RFLAGS_CF) ((i + n) mod Suc LENGTH('a)))"
  using ok run
proof (induction n arbitrary: v cy c)
  case (Suc n)
  let ?w = "LENGTH('a)"
  define cf where "cf = flag_set c RFLAGS_CF"
  define v1 where "v1 = drop_bit 1 v OR (if cf then push_bit (?w - Suc 0) 1 else 0)"
  let ?c1 = "set_flag c RFLAGS_CF (bit v 0)"
  have step: "(drop_bit 1 (ucast v :: u64) OR (if cf then push_bit (?w - Suc 0) 1 else 0)) AND mask ?w = ucast v1"
    unfolding v1_def by (rule rcr_step(1) [OF len])
  have "rcr_loop n (mask ?w) (push_bit (?w - Suc 0) 1) (ucast v1) (bit v 0) ?c1 = (r, co, c')"
    using Suc.prems(2) unfolding rcr_loop.simps Let_def and_one_iff flag_set_def [symmetric] cf_def [symmetric] step .
  then obtain v' :: "'a word" where v': "r = ucast v'" "0 < n \<longrightarrow> co = flag_set c' RFLAGS_CF"
    "\<And>i. i \<le> ?w \<Longrightarrow> with_carry v' (flag_set c' RFLAGS_CF) i = with_carry v1 (bit v 0) ((i + n) mod Suc ?w)"
    using Suc.IH [of ?c1 v1] Suc.prems(1) by (auto simp: carry_flag)
  have "with_carry v' (flag_set c' RFLAGS_CF) i = with_carry v cf ((i + Suc n) mod Suc ?w)" if "i \<le> ?w" for i
    unfolding v'(3) [OF that] v1_def by (subst rcr_step(2) [OF len]) (simp_all add: mod_Suc_eq less_Suc_eq_le [symmetric])
  moreover have "co = flag_set c' RFLAGS_CF"
    using v'(2) Suc.prems unfolding rcr_loop.simps Let_def and_one_iff by (cases n) (auto simp: carry_flag)
  ultimately show ?case using v'(1) by (auto simp: cf_def)
qed auto

subsection \<open>The handlers\<close>

text \<open>The masks the handlers ask for.\<close>

lemma shift_masks:
  assumes "LENGTH('a :: len) \<in> {8, 16, 32, 64}"
  shows "shift_operand_mask c (int LENGTH('a)) = (mask LENGTH('a), c)"
    and "shift_sign_mask c (int LENGTH('a)) = (push_bit (LENGTH('a) - Suc 0) 1, c)"
  using assms by (auto simp: shift_operand_mask_def shift_sign_mask_def mask_eq_exp_minus_1)

text \<open>
  A shift of an operand of the width of \<open>'a\<close>: \<open>f\<close> gives the shifted word and the carry for a count and an
  operand, \<open>flags\<close> the context after the operand has been written.
\<close>

definition shift_handler ::
  "(nat \<Rightarrow> nat) \<Rightarrow> (nat \<Rightarrow> 'a :: len word \<Rightarrow> 'a word \<times> bool) \<Rightarrow>
   (CPU_CONTEXT \<Rightarrow> u64 \<Rightarrow> u64 \<Rightarrow> int \<Rightarrow> nat \<Rightarrow> bool \<Rightarrow> CPU_CONTEXT) \<Rightarrow>
   callbacks \<Rightarrow> cpueaxh_engine \<Rightarrow> u8 \<Rightarrow> u64 \<Rightarrow> u8 \<Rightarrow> cpueaxh_engine" where
  "shift_handler reduce f flags cb e m a raw =
     (let w = int LENGTH('a); n = reduce (unat raw mod (if w = 64 then 64 else 32))
      in case read_rm_sized cb m a w e of
           (x, e1) \<Rightarrow>
             if cpu_has_exception (cpu_ctx e1) \<or> n = 0 then e1
             else case f n (ucast x) of
                    (r, cy) \<Rightarrow> on_ctx (\<lambda>c. flags c (ucast (ucast x :: 'a word)) (ucast r) w n cy)
                                (write_rm_sized cb m a w (ucast r) e1))"

lemma count_masks: "unat (raw AND shift_count_mask w) = unat raw mod (if w = 64 then 64 else 32)"
proof -
  have "raw AND 0x3F = take_bit 6 raw" "raw AND 0x1F = take_bit 5 raw" for raw :: u8
    by (simp_all add: take_bit_eq_mask mask_eq_exp_minus_1)
  then show ?thesis by (simp add: shift_count_mask_def unsigned_take_bit_eq take_bit_eq_mod unat_mod)
qed

lemma and_mask_word: "LENGTH('a :: len) \<le> 64 \<Longrightarrow> (x :: u64) AND mask LENGTH('a) = ucast (ucast x :: 'a word)"
  by (rule bit_word_eqI) (auto simp: bit_simps)

lemma frame_is_handler:
  assumes "LENGTH('a :: len) \<in> {8, 16, 32, 64}"
    and "\<And>c. masks c (int LENGTH('a)) = (mask LENGTH('a), sm, c)"
    and "\<And>c. count_of c (int LENGTH('a)) raw = (reduce (unat raw mod (if int LENGTH('a) = 64 then 64 else 32)), c)"
    and "\<And>n v. 0 < n \<Longrightarrow> loop n (mask LENGTH('a)) sm (ucast v) False = map_prod ucast id (f n (v :: 'a word))"
  shows "shift_frame masks count_of (pure_loop loop) flags cb e m a (int LENGTH('a)) raw =
    shift_handler reduce f flags cb e m a raw"
proof -
  have len: "LENGTH('a) \<le> 64" using assms(1) by auto
  show ?thesis
    unfolding shift_frame_def shift_handler_def assms(2,3) prod.case Let_def pure_loop_def and_mask_word [OF len]
    by (cases "reduce (unat raw mod (if int LENGTH('a) = 64 then 64 else 32)) = 0")
       (simp_all add: assms(4) case_prod_unfold)
qed

text \<open>The result and the carry of a shift by \<open>n > 0\<close> places.\<close>

definition shl_result :: "nat \<Rightarrow> 'a :: len word \<Rightarrow> 'a word \<times> bool" where
  "shl_result n v = (push_bit n v, bit (push_bit (n - 1) v) (LENGTH('a) - 1))"
definition shr_result :: "nat \<Rightarrow> 'a :: len word \<Rightarrow> 'a word \<times> bool" where
  "shr_result n v = (drop_bit n v, bit v (n - 1))"
definition sar_result :: "nat \<Rightarrow> 'a :: len word \<Rightarrow> 'a word \<times> bool" where
  "sar_result n v = (signed_drop_bit n v, bit (signed_drop_bit (n - 1) v) 0)"
definition rol_result :: "nat \<Rightarrow> 'a :: len word \<Rightarrow> 'a word \<times> bool" where
  "rol_result n v = (word_rotl n v, bit (word_rotl n v) 0)"
definition ror_result :: "nat \<Rightarrow> 'a :: len word \<Rightarrow> 'a word \<times> bool" where
  "ror_result n v = (word_rotr n v, bit (word_rotr n v) (LENGTH('a) - 1))"

lemmas shift_results = shl_result_def shr_result_def sar_result_def rol_result_def ror_result_def

lemma shift_handlers:
  assumes w: "LENGTH('a :: len) \<in> {8, 16, 32, 64}"
  shows "shl_rm cb e m a (int LENGTH('a)) raw = shift_handler id (shl_result :: nat \<Rightarrow> 'a word \<Rightarrow> _) update_flags_shl cb e m a raw"
    and "shr_rm cb e m a (int LENGTH('a)) raw = shift_handler id (shr_result :: nat \<Rightarrow> 'a word \<Rightarrow> _) update_flags_shr cb e m a raw"
    and "sar_rm cb e m a (int LENGTH('a)) raw = shift_handler id (sar_result :: nat \<Rightarrow> 'a word \<Rightarrow> _) update_flags_sar cb e m a raw"
    and "rol_rm cb e m a (int LENGTH('a)) raw =
      shift_handler (\<lambda>n. n mod LENGTH('a)) (rol_result :: nat \<Rightarrow> 'a word \<Rightarrow> _) update_flags_rol cb e m a raw"
    and "ror_rm cb e m a (int LENGTH('a)) raw =
      shift_handler (\<lambda>n. n mod LENGTH('a)) (ror_result :: nat \<Rightarrow> 'a word \<Rightarrow> _) update_flags_ror cb e m a raw"
proof -
  have len: "LENGTH('a) \<le> 64" using w by auto
  have bit_shr: "bit (drop_bit k v) 0 = bit v k" for k and v :: "'a word" by (simp add: bit_drop_bit_eq)
  have loops:
    "0 < n \<Longrightarrow> shl_loop n (mask LENGTH('a)) (push_bit (LENGTH('a) - Suc 0) 1) (ucast v) False = map_prod ucast id (shl_result n v)"
    "0 < n \<Longrightarrow> shr_loop n (mask LENGTH('a)) sm (ucast v) False = map_prod ucast id (shr_result n v)"
    "0 < n \<Longrightarrow> sar_loop n (mask LENGTH('a)) (push_bit (LENGTH('a) - Suc 0) 1) (ucast v) False = map_prod ucast id (sar_result n v)"
    "0 < n \<Longrightarrow> rol_loop n (mask LENGTH('a)) (push_bit (LENGTH('a) - Suc 0) 1) (ucast v) False = map_prod ucast id (rol_result n v)"
    "0 < n \<Longrightarrow> ror_loop n (mask LENGTH('a)) (push_bit (LENGTH('a) - Suc 0) 1) (ucast v) False = map_prod ucast id (ror_result n v)"
    for n sm and v :: "'a word"
    unfolding shl_loop_word [OF len] shr_loop_word [OF len] sar_loop_word [OF len] rol_loop_word [OF len] ror_loop_word [OF len]
    by (simp_all add: shift_results bit_shr)
  let ?sm = "push_bit (LENGTH('a) - Suc 0) 1 :: u64"
  note masks = two_masks_def one_mask_def shift_masks [OF w]
  note counts = masked_count_def rotate_count_def count_masks Let_def
  show "shl_rm cb e m a (int LENGTH('a)) raw = shift_handler id (shl_result :: nat \<Rightarrow> 'a word \<Rightarrow> _) update_flags_shl cb e m a raw"
    unfolding shl_rm_def by (rule frame_is_handler [OF w, where sm = ?sm]) (simp_all add: masks counts loops del: push_bit_of_1)
  show "shr_rm cb e m a (int LENGTH('a)) raw = shift_handler id (shr_result :: nat \<Rightarrow> 'a word \<Rightarrow> _) update_flags_shr cb e m a raw"
    unfolding shr_rm_def by (rule frame_is_handler [OF w, where sm = 0]) (simp_all add: masks counts loops del: push_bit_of_1)
  show "sar_rm cb e m a (int LENGTH('a)) raw = shift_handler id (sar_result :: nat \<Rightarrow> 'a word \<Rightarrow> _) update_flags_sar cb e m a raw"
    unfolding sar_rm_def by (rule frame_is_handler [OF w, where sm = ?sm]) (simp_all add: masks counts loops del: push_bit_of_1)
  show "rol_rm cb e m a (int LENGTH('a)) raw =
      shift_handler (\<lambda>n. n mod LENGTH('a)) (rol_result :: nat \<Rightarrow> 'a word \<Rightarrow> _) update_flags_rol cb e m a raw"
    unfolding rol_rm_def by (rule frame_is_handler [OF w, where sm = ?sm]) (simp_all add: masks counts loops del: push_bit_of_1)
  show "ror_rm cb e m a (int LENGTH('a)) raw =
      shift_handler (\<lambda>n. n mod LENGTH('a)) (ror_result :: nat \<Rightarrow> 'a word \<Rightarrow> _) update_flags_ror cb e m a raw"
    unfolding ror_rm_def by (rule frame_is_handler [OF w, where sm = ?sm]) (simp_all add: masks counts loops del: push_bit_of_1)
qed

end
