(* ===== verification/ConditionSpec.thy ===== *)
theory ConditionSpec
  imports Condition Compare
begin

text \<open>
  What the sixteen conditions mean after a comparison, and the conditional jumps against the inline
  form the executor uses.
\<close>

unbundle bit_operations_syntax

text \<open>The condition of a code after \<^verbatim>\<open>CMP a, b\<close>.\<close>

definition compare_condition :: "u8 \<Rightarrow> 'a :: len word \<Rightarrow> 'a word \<Rightarrow> bool" where
  "compare_condition cond a b =
     (let n = cond AND 0x0F; d = sint a - sint b
      in if n = 0x0 then \<not> fits_signed LENGTH('a) d else if n = 0x1 then fits_signed LENGTH('a) d
         else if n = 0x2 then a < b else if n = 0x3 then b \<le> a else if n = 0x4 then a = b else if n = 0x5 then a \<noteq> b
         else if n = 0x6 then a \<le> b else if n = 0x7 then b < a
         else if n = 0x8 then sint (a - b) < 0 else if n = 0x9 then 0 \<le> sint (a - b)
         else if n = 0xA then low_parity (a - b) else if n = 0xB then \<not> low_parity (a - b)
         else if n = 0xC then a <s b else if n = 0xD then b \<le>s a else if n = 0xE then a \<le>s b else b <s a)"

lemma sign_differs_from_overflow:
  fixes a b :: "'a :: len word"
  shows "(sint (a - b) < 0) \<noteq> (\<not> fits_signed LENGTH('a) (sint a - sint b)) \<longleftrightarrow> sint a < sint b"
proof -
  let ?h = "2 ^ (LENGTH('a) - Suc 0) :: int"
  have two: "(2 :: int) ^ LENGTH('a) = 2 * ?h" by (cases "LENGTH('a)") auto
  have b: "- ?h \<le> sint x" "sint x < ?h" for x :: "'a word" using sint_greater_eq [of x] sint_less [of x] by simp_all
  have "a - b = of_int (sint a - sint b)" by simp
  then have "sint (a - b) = signed_take_bit (LENGTH('a) - Suc 0) (sint a - sint b)" by (simp only: sint_sbintrunc' One_nat_def)
  also have "\<dots> = (sint a - sint b + ?h) mod (2 * ?h) - ?h"
    using signed_take_bit_eq_take_bit_shift [of "LENGTH('a) - Suc 0" "sint a - sint b"] two by (simp add: take_bit_eq_mod)
  finally have s: "sint (a - b) = (sint a - sint b + ?h) mod (2 * ?h) - ?h" .
  obtain x y where xy: "x = sint a" "y = sint b" by simp
  have m: "(x - y + ?h) mod (2 * ?h) = x - y + ?h + (if x - y < - ?h then 2 * ?h else if ?h \<le> x - y then - (2 * ?h) else 0)"
  proof -
    have p: "(z + 2 * ?h) mod (2 * ?h) = z mod (2 * ?h)" "(z - 2 * ?h) mod (2 * ?h) = z mod (2 * ?h)" for z by simp_all
    show ?thesis
      using b [of a] b [of b] p(1) [of "x - y + ?h"] p(2) [of "x - y + ?h"]
        mod_pos_pos_trivial [of "x - y + ?h" "2 * ?h"] mod_pos_pos_trivial [of "x - y + ?h + 2 * ?h" "2 * ?h"]
        mod_pos_pos_trivial [of "x - y + ?h - 2 * ?h" "2 * ?h"]
      unfolding xy by (auto split: if_splits)
  qed
  show ?thesis unfolding s fits_signed_def xy [symmetric] m using b [of a] b [of b] by (auto simp: xy)
qed

lemma condition_after_compare:
  assumes "sub_flags ctx ctx' (a :: 'a :: len word) b 0"
  shows "eval_condition ctx' cond = compare_condition cond a b"
proof -
  have f: "jcc_cf ctx' \<longleftrightarrow> a < b" "jcc_of ctx' \<longleftrightarrow> \<not> fits_signed LENGTH('a) (sint a - sint b)"
    "jcc_sf ctx' \<longleftrightarrow> sint (a - b) < 0" "jcc_zf ctx' \<longleftrightarrow> a = b" "jcc_pf ctx' \<longleftrightarrow> low_parity (a - b)"
    using assms by (auto simp: sub_flags_def flags_are_def flag_set_def jcc_cf_def jcc_of_def jcc_sf_def jcc_zf_def jcc_pf_def
        word_less_nat_alt)
  note s = sign_differs_from_overflow [of a b]
  have eq: "a = b \<longleftrightarrow> sint a = sint b" by (metis signed_word_eqI)
  have le: "sint a \<le> sint b \<longleftrightarrow> sint a < sint b \<or> a = b" "sint b \<le> sint a \<longleftrightarrow> \<not> sint a < sint b"
    "sint b < sint a \<longleftrightarrow> \<not> sint a < sint b \<and> a \<noteq> b"
    unfolding eq by auto
  have ule: "a \<le> b \<longleftrightarrow> a < b \<or> a = b" "b \<le> a \<longleftrightarrow> \<not> a < b" "b < a \<longleftrightarrow> \<not> a < b \<and> a \<noteq> b" by auto
  show ?thesis
    unfolding eval_condition_def compare_condition_def f Let_def word_sless_alt word_sle_eq le ule s [symmetric]
    by (simp add: not_less) blast
qed

subsection \<open>Inline jumps\<close>

text \<open>The conditional jumps the executor runs inline, against the handler they stand in for.\<close>

lemma assign_rip_size:
  "snd (cpu_assign_rip_checked (c\<lparr>last_inst_size := k\<rparr>) v s) = (snd (cpu_assign_rip_checked c v s))\<lparr>last_inst_size := k\<rparr>"
proof -
  have m: "cpu_uses_canonical_addresses (c\<lparr>last_inst_size := k\<rparr>) = cpu_uses_canonical_addresses c"
    by (simp add: cpu_uses_canonical_addresses_def cpu_is_64bit_code_def cpu_long_mode_active_def)
  have "raise_gp_ctx (c\<lparr>last_inst_size := k\<rparr>) 0 = (raise_gp_ctx c 0)\<lparr>last_inst_size := k\<rparr>"
    by (simp add: raise_gp_ctx_def cpu_raise_exception_def cpu_has_exception_def)
  then show ?thesis unfolding cpu_assign_rip_checked_def cpu_validate_code_offset_def m Let_def by simp
qed

lemma nibble_cases: "(x :: u8) AND 0x0F \<in> {0, 1, 2, 3, 4, 5, 6, 7, 8, 9, 10, 11, 12, 13, 14, 15}"
proof -
  have "unat (x AND 0x0F) < 16" unfolding nibble_unat by simp
  then have "unat (x AND 0x0F) \<in> {0, 1, 2, 3, 4, 5, 6, 7, 8, 9, 10, 11, 12, 13, 14, 15}" by (simp add: atLeast0LessThan) presburger
  then have "word_of_nat (unat (x AND 0x0F)) \<in> {0 :: u8, 1, 2, 3, 4, 5, 6, 7, 8, 9, 10, 11, 12, 13, 14, 15}" by fastforce
  then show ?thesis by simp
qed

lemma inline_condition: "cpu_executor_eval_jcc_condition (rflags c) (cond AND 0x0F) = eval_condition c cond"
  unfolding cpu_executor_eval_jcc_condition_def eval_condition_def jcc_cf_def jcc_zf_def jcc_sf_def jcc_of_def jcc_pf_def Let_def
  using nibble_cases [of cond] by (elim insertE emptyE) simp_all


lemma jcc_no_prefix:
  assumes "0x70 \<le> opc \<and> opc \<le> 0x7F \<or> opc = (0x0F :: u8)"
  shows "jcc_prefix_loop (opc # rest) p c = (p, c)"
proof -
  have "\<not> (0x40 \<le> opc \<and> opc \<le> 0x4F)" using assms order_trans [of "0x70" opc "0x4F"] by auto
  moreover have "opc \<notin> {0x66, 0x67, 0xF0, 0x26, 0x2E, 0x36, 0x3E, 0x64, 0x65, 0xF2, 0xF3}" using assms by auto
  ultimately show ?thesis by (auto simp: Let_def)
qed

lemma jcc_short_inline:
  assumes "sd_long_mode (sr_descriptor (cs c))" "\<not> cpu_has_exception c" "0x70 \<le> opc" "opc \<le> 0x7F"
  shows "execute_jcc c (opc # rel8 # rest) = inline_jcc 2 (scast rel8) (opc AND 0x0F) c"
proof -
  have range: "\<not> 0xE0 \<le> opc" "opc \<noteq> 0xE3" using assms(4) order_trans [of "0xE0" opc "0x7F"] by auto
  have size: "jcc_operand_size c p = 64" for p using assms(1) by (simp add: jcc_operand_size_def)
  have cond: "eval_condition (c\<lparr>last_inst_size := 2\<rparr>) (opc AND 0x0F) = cpu_executor_eval_jcc_condition (rflags c) (opc AND 0x0F)"
    using inline_condition [of "c\<lparr>last_inst_size := 2\<rparr>" "opc AND 0x0F"] by (simp add: and.assoc)
  show ?thesis
    unfolding execute_jcc_def jcc_no_prefix [OF disjI1, OF conjI, OF assms(3,4)] Let_def prod.case
    using assms range
    by (simp add: execute_jcc_short_def jcc_branch_def inline_jcc_def size cond assign_rip_size Let_def)
qed

lemma jcc_near_inline:
  assumes "sd_long_mode (sr_descriptor (cs c))" "\<not> cpu_has_exception c" "0x80 \<le> opc" "opc \<le> 0x8F" "length disp = 4"
  shows "execute_jcc c (0x0F # opc # disp @ rest) = inline_jcc 6 (scast (ucast (le_load disp) :: u32)) (opc AND 0x0F) c"
proof -
  have size: "jcc_operand_size c p = 64" for p using assms(1) by (simp add: jcc_operand_size_def)
  have cond: "eval_condition (c\<lparr>last_inst_size := 6\<rparr>) (opc AND 0x0F) = cpu_executor_eval_jcc_condition (rflags c) (opc AND 0x0F)"
    using inline_condition [of "c\<lparr>last_inst_size := 6\<rparr>" "opc AND 0x0F"] by (simp add: and.assoc)
  show ?thesis
    unfolding execute_jcc_def jcc_no_prefix [OF disjI2, OF refl] Let_def prod.case
    using assms
    by (simp add: execute_jcc_0f_def execute_jcc_near_def jcc_branch_def inline_jcc_def size cond assign_rip_size Let_def not_less [symmetric])
qed

end
