(* ===== verification/PropsInsns.thy ===== *)
theory PropsInsns
  imports PropsExecutor Control Carry Compare MulDivSpec ShiftSpec ConditionSpec
begin

text \<open>
  The properties of the instruction handlers.
\<close>

unbundle bit_operations_syntax

text \<open>
  The fast handlers of the arithmetic and logic instructions replay the cached instruction
  faithfully. Attaching one leaves the CPU context as it was, and running it later in the same mode
  does exactly what decoding the bytes again and running them does, also when the registers of the
  memory operand have changed in between, as long as decoding raises no exception.
\<close>

theorem cached_handlers_replay:
  "replays attach_one_recompute_addr decode_add_instruction execute_add execute_add_fast \<and>
   replays attach_one_recompute_addr decode_sub_instruction execute_sub execute_sub_fast \<and>
   replays attach_one_recompute_addr decode_and_instruction execute_and execute_and_fast \<and>
   replays attach_one_recompute_addr decode_or_instruction execute_or execute_or_fast \<and>
   replays attach_one_recompute_addr decode_xor_instruction execute_xor execute_xor_fast \<and>
   replays attach_one_recompute_addr decode_cmp_instruction execute_cmp execute_cmp_fast \<and>
   replays attach_one_recompute_addr decode_test_instruction execute_test execute_test_fast \<and>
   replays attach_one_recompute_addr decode_shld_instruction execute_shld execute_shld_fast \<and>
   replays attach_one_recompute_addr decode_shrd_instruction execute_shrd execute_shrd_fast \<and>
   replays attach_one_recompute_addr decode_cmovcc_instruction execute_cmovcc execute_cmovcc_fast \<and>
   replays attach_one_recompute_addr decode_movsx_instruction execute_movsx execute_movsx_fast \<and>
   replays attach_one_recompute_addr decode_movzx_instruction execute_movzx execute_movzx_fast \<and>
   replays attach_one_recompute_addr decode_movsxd_instruction execute_movsxd execute_movsxd_fast \<and>
   replays attach_one_recompute_addr decode_xchg_instruction execute_xchg execute_xchg_fast \<and>
   replays attach_one_recompute_addr decode_xadd_instruction execute_xadd execute_xadd_fast \<and>
   replays attach_one_recompute_addr decode_cmpxchg_instruction execute_cmpxchg execute_cmpxchg_fast"
  unfolding
    execute_add_def execute_add_fast_def execute_sub_def execute_sub_fast_def execute_and_def
    execute_and_fast_def execute_or_def execute_or_fast_def execute_xor_def execute_xor_fast_def execute_cmp_def
    execute_cmp_fast_def execute_test_def execute_test_fast_def execute_shld_def execute_shld_fast_def
    execute_shrd_def execute_shrd_fast_def execute_cmovcc_def execute_cmovcc_fast_def execute_movsx_def
    execute_movsx_fast_def execute_movzx_def execute_movzx_fast_def execute_movsxd_def execute_movsxd_fast_def
    execute_xchg_def execute_xchg_fast_def execute_xadd_def execute_xadd_fast_def execute_cmpxchg_def
    execute_cmpxchg_fast_def
  by (intro conjI
      add_decoder.replays_recompute sub_decoder.replays_recompute and_decoder.replays_recompute
      or_decoder.replays_recompute xor_decoder.replays_recompute cmp_decoder.replays_recompute
      test_decoder.replays_recompute shld_decoder.replays_recompute shrd_decoder.replays_recompute
      cmovcc_decoder.replays_recompute movsx_decoder.replays_recompute movzx_decoder.replays_recompute
      movsxd_decoder.replays_recompute xchg_decoder.replays_recompute xadd_decoder.replays_recompute
      cmpxchg_decoder.replays_recompute)

text \<open>\<^verbatim>\<open>ADD [RCX], EAX\<close>, decoded with \<^verbatim>\<open>RCX\<close> 0x2000 and replayed with \<^verbatim>\<open>RCX\<close> 0x3000.\<close>

definition add_mem_bytes :: DecodedInst where
  "add_mem_bytes = decoded_inst_clear\<lparr>dc_bytes := (\<lambda>_. 0)(0 := 0x01, 1 := 0x01), dc_byte_count := 2\<rparr>"

definition rcx_engine :: "u64 \<Rightarrow> cpueaxh_engine" where
  "rcx_engine v = demo_engine\<lparr>cpu_ctx := demo_ctx\<lparr>regs := (regs demo_ctx)(REG_RCX := v)\<rparr>\<rparr>"

theorem cached_handlers_replay_witness:
  "let dec' = fst (attach_one_recompute_addr (cpu_ctx (rcx_engine 0x2000)) add_mem_bytes decode_add_instruction 7)
   in di_mem_address (dc_cached dec') = 0x2000 \<and>
      execute_add_fast demo_callbacks (rcx_engine 0x3000) dec' = execute_add demo_callbacks (rcx_engine 0x3000) [0x01, 0x01]"
proof -
  let ?c = "cpu_ctx (rcx_engine 0x2000)" and ?e = "rcx_engine 0x3000"
  let ?a = "attach_one_recompute_addr ?c add_mem_bytes decode_add_instruction 7"
  have code: "decoded_code add_mem_bytes = [0x01, 0x01]" by code_simp
  have att: "dc_fast_handler (fst ?a) \<noteq> 0" "di_mem_address (dc_cached (fst ?a)) = 0x2000" by code_simp+
  have new: "dc_fast_handler add_mem_bytes = 0" by code_simp
  have mode: "same_mode ?c (cpu_ctx ?e)" by (simp add: rcx_engine_def same_mode_iff)
  have ok: "\<not> cpu_has_exception (snd (decode_add_instruction (cpu_ctx ?e) [0x01, 0x01]))" by code_simp
  have "execute_add_fast demo_callbacks ?e (fst ?a) = execute_add demo_callbacks ?e [0x01, 0x01]"
    using cached_handlers_replay att(1) new mode ok code unfolding replays_def by (metis prod.collapse)
  then show ?thesis using att(2) by simp
qed

text \<open>
  The fast handlers that keep no memory address replay the cached instruction too. An instruction
  with a memory operand gets no such handler, and one that works on registers and immediates does what
  decoding it again does.
\<close>

theorem register_handlers_replay:
  "replays attach_one decode_adc_instruction execute_adc execute_adc_fast \<and>
   replays attach_one decode_sbb_instruction execute_sbb execute_sbb_fast \<and>
   replays attach_one decode_inc_instruction execute_inc execute_inc_fast \<and>
   replays attach_one decode_dec_instruction execute_dec execute_dec_fast \<and>
   replays attach_one decode_neg_instruction execute_neg execute_neg_fast \<and>
   replays attach_one decode_not_instruction execute_not execute_not_fast \<and>
   replays attach_one decode_mul_instruction execute_mul execute_mul_fast \<and>
   replays attach_one decode_imul_instruction execute_imul execute_imul_fast \<and>
   replays attach_one decode_div_instruction (execute_div build) (execute_div_fast build) \<and>
   replays attach_one decode_idiv_instruction (execute_idiv build) (execute_idiv_fast build) \<and>
   replays attach_one decode_shl_instruction execute_shl execute_shl_fast \<and>
   replays attach_one decode_shr_instruction execute_shr execute_shr_fast \<and>
   replays attach_one decode_sar_instruction execute_sar execute_sar_fast \<and>
   replays attach_one decode_rol_instruction execute_rol execute_rol_fast \<and>
   replays attach_one decode_ror_instruction execute_ror execute_ror_fast \<and>
   replays attach_one decode_rcl_instruction execute_rcl execute_rcl_fast \<and>
   replays attach_one decode_rcr_instruction execute_rcr execute_rcr_fast \<and>
   replays attach_one decode_setcc_instruction execute_setcc execute_setcc_fast \<and>
   replays attach_one decode_push_instruction execute_push execute_push_fast \<and>
   replays attach_one decode_cbw_instruction execute_cbw execute_cbw_fast \<and>
   replays attach_one decode_cdq_instruction execute_cdq execute_cdq_fast \<and>
   replays attach_one decode_flags_instruction execute_flags execute_flags_fast \<and>
   replays attach_one (decode_lahf_instruction cpuid) (execute_lahf cpuid) execute_lahf_fast"
  unfolding
    execute_adc_def execute_adc_fast_def execute_sbb_def execute_sbb_fast_def execute_inc_def
    execute_inc_fast_def execute_dec_def execute_dec_fast_def execute_neg_def execute_neg_fast_def
    execute_not_def execute_not_fast_def execute_mul_def execute_mul_fast_def execute_imul_def
    execute_imul_fast_def execute_div_def execute_div_fast_def execute_idiv_def execute_idiv_fast_def
    execute_shl_def execute_shl_fast_def execute_shr_def execute_shr_fast_def execute_sar_def
    execute_sar_fast_def execute_rol_def execute_rol_fast_def execute_ror_def execute_ror_fast_def
    execute_rcl_def execute_rcl_fast_def execute_rcr_def execute_rcr_fast_def execute_setcc_def
    execute_setcc_fast_def execute_push_def execute_push_fast_def execute_cbw_def execute_cbw_fast_def
    execute_cdq_def execute_cdq_fast_def execute_flags_def execute_flags_fast_def execute_lahf_def
    execute_lahf_fast_def
  by (intro conjI
      adc_decoder.replays_plain sbb_decoder.replays_plain inc_decoder.replays_plain dec_decoder.replays_plain
      neg_decoder.replays_plain not_decoder.replays_plain mul_decoder.replays_plain imul_decoder.replays_plain
      div_decoder.replays_plain idiv_decoder.replays_plain shl_decoder.replays_plain shr_decoder.replays_plain
      sar_decoder.replays_plain rol_decoder.replays_plain ror_decoder.replays_plain rcl_decoder.replays_plain
      rcr_decoder.replays_plain setcc_decoder.replays_plain push_decoder.replays_plain cbw_decoder.replays_plain
      cdq_decoder.replays_plain flags_decoder.replays_plain lahf_decoder.replays_plain)

text \<open>
  C30: DIV at every width divides the double-width dividend exactly, in builds with the compiler's 128-bit division
  and, except for 64-bit divisors above \<open>2 ^ 63\<close>, in the kernel build and the builds for other processors, which
  use a bitwise loop instead. Where the divisor is zero or the quotient does not fit the width it raises
  the divide error and changes nothing else; otherwise quotient and remainder are those of integer division, or
  those of the bitwise loop (C33) in the excepted case.
\<close>

theorem div_is_integer_division:
  "div_rm8 cb e m a = after_read cb m a 8
     (\<lambda>v c. case div_outcome 8 (uint (get_reg16 c REG_RAX)) (uint (ucast v :: u8)) of
        None \<Rightarrow> raise_de_ctx c | Some (q, r) \<Rightarrow> set_reg16 c REG_RAX (of_int (r * 2 ^ 8 + q))) e \<and>
   div_rm16 cb e m a = after_read cb m a 16
     (\<lambda>v c. case div_outcome 16 (uint (get_reg16 c REG_RDX) * 2 ^ 16 + uint (get_reg16 c REG_RAX)) (uint (ucast v :: u16)) of
        None \<Rightarrow> raise_de_ctx c
      | Some (q, r) \<Rightarrow> set_reg16 (set_reg16 c REG_RAX (of_int q)) REG_RDX (of_int r)) e \<and>
   div_rm32 cb e m a = after_read cb m a 32
     (\<lambda>v c. case div_outcome 32 (uint (get_reg32 c REG_RDX) * 2 ^ 32 + uint (get_reg32 c REG_RAX)) (uint (ucast v :: u32)) of
        None \<Rightarrow> raise_de_ctx c
      | Some (q, r) \<Rightarrow> set_reg32 (set_reg32 c REG_RAX (of_int q)) REG_RDX (of_int r)) e \<and>
   div_rm64 build cb e m a = after_read cb m a 64
     (\<lambda>v c. case div_outcome 64 (uint (get_reg64 c REG_RDX) * 2 ^ 64 + uint (get_reg64 c REG_RAX)) (uint v) of
        None \<Rightarrow> raise_de_ctx c
      | Some (q, r) \<Rightarrow>
          let (q', r') = (if build = Intrinsic_Division \<or> v \<le> 0x8000000000000000 then (of_int q, of_int r)
                          else cpueaxh_udiv128_fallback (get_reg64 c REG_RDX) (get_reg64 c REG_RAX) v)
          in set_reg64 (set_reg64 c REG_RAX q') REG_RDX r') e"
  by (intro conjI div_rm8_spec div_rm16_spec div_rm32_spec div_rm64_spec)

text \<open>
  C31: IDIV at every width, which divides magnitudes and packs the signs afterwards, is signed division that
  truncates towards zero, with the divide error exactly where the divisor is zero or the quotient does
  not fit the signed width, the quotient of the most negative dividend and minus one included.
\<close>

theorem idiv_is_truncating_division:
  "idiv_rm8 cb e m a = after_read cb m a 8
     (\<lambda>v c. case idiv_outcome 8 (sint (get_reg16 c REG_RAX)) (sint (ucast v :: u8)) of
        None \<Rightarrow> raise_de_ctx c
      | Some (q, r) \<Rightarrow> set_reg16 c REG_RAX (push_bit 8 (ucast (of_int r :: u8)) OR ucast (of_int q :: u8))) e \<and>
   idiv_rm16 cb e m a = after_read cb m a 16
     (\<lambda>v c. case idiv_outcome 16 (sint (get_reg16 c REG_RDX) * 2 ^ 16 + uint (get_reg16 c REG_RAX)) (sint (ucast v :: u16)) of
        None \<Rightarrow> raise_de_ctx c
      | Some (q, r) \<Rightarrow> set_reg16 (set_reg16 c REG_RAX (of_int q)) REG_RDX (of_int r)) e \<and>
   idiv_rm32 cb e m a = after_read cb m a 32
     (\<lambda>v c. case idiv_outcome 32 (sint (get_reg32 c REG_RDX) * 2 ^ 32 + uint (get_reg32 c REG_RAX)) (sint (ucast v :: u32)) of
        None \<Rightarrow> raise_de_ctx c
      | Some (q, r) \<Rightarrow> set_reg32 (set_reg32 c REG_RAX (of_int q)) REG_RDX (of_int r)) e \<and>
   idiv_rm64 build cb e m a = after_read cb m a 64
     (\<lambda>v c. case idiv_outcome 64 (sint (get_reg64 c REG_RDX) * 2 ^ 64 + uint (get_reg64 c REG_RAX)) (sint v) of
        None \<Rightarrow> raise_de_ctx c
      | Some (q, r) \<Rightarrow> set_reg64 (set_reg64 c REG_RAX (of_int q)) REG_RDX (of_int r)) e"
  by (intro conjI idiv_rm8_spec idiv_rm16_spec idiv_rm32_spec idiv_rm64_spec)

text \<open>
  C32: MUL stores both halves of the exact product and sets carry and overflow exactly where the upper half
  is not zero; the products of IMUL are the exact signed products, with overflow exactly where they do
  not fit the width.
\<close>

theorem products_are_exact:
  "mul_rm8 cb e m a = after_read cb m a 8
     (\<lambda>v c. let p = uint (get_reg8 (cpu_ctx e) REG_RAX) * uint (ucast v :: u8)
            in update_flags_mul (set_reg16 c REG_RAX (of_int p)) (2 ^ 8 \<le> p)) e \<and>
   mul_rm16 cb e m a = after_read cb m a 16
     (\<lambda>v c. let p = uint (get_reg16 (cpu_ctx e) REG_RAX) * uint (ucast v :: u16)
            in update_flags_mul (set_reg16 (set_reg16 c REG_RAX (of_int p)) REG_RDX (of_int (p div 2 ^ 16))) (2 ^ 16 \<le> p)) e \<and>
   mul_rm32 cb e m a = after_read cb m a 32
     (\<lambda>v c. let p = uint (get_reg32 (cpu_ctx e) REG_RAX) * uint (ucast v :: u32)
            in update_flags_mul (set_reg32 (set_reg32 c REG_RAX (of_int p)) REG_RDX (of_int (p div 2 ^ 32))) (2 ^ 32 \<le> p)) e \<and>
   mul_rm64 cb e m a = after_read cb m a 64
     (\<lambda>v c. let p = uint (get_reg64 (cpu_ctx e) REG_RAX) * uint v
            in update_flags_mul (set_reg64 (set_reg64 c REG_RAX (of_int p)) REG_RDX (of_int (p div 2 ^ 64))) (2 ^ 64 \<le> p)) e \<and>
   imul8 a8 b8 = (of_int (sint a8 * sint b8), \<not> fits_signed 8 (sint a8 * sint b8)) \<and>
   imul16 a16 b16 = (of_int (sint a16 * sint b16), \<not> fits_signed 16 (sint a16 * sint b16)) \<and>
   imul32 a32 b32 = (of_int (sint a32 * sint b32), \<not> fits_signed 32 (sint a32 * sint b32)) \<and>
   imul64 a64 b64 = (of_int (sint a64 * sint b64), of_int (sint a64 * sint b64 div 2 ^ 64), \<not> fits_signed 64 (sint a64 * sint b64))"
  by (intro conjI mul_spec imul_spec imul64_spec)



text \<open>
  C34: the bit-by-bit loops of SHL, SHR, SAR, ROL and ROR shift and rotate a word of the operand's width,
  by the masked count, and their carry is the last bit moved out. A masked count of zero, and a
  rotation by a multiple of the width, changes neither the operand nor the flags.
\<close>

theorem shifts_are_word_shifts:
  fixes raw :: u8
  assumes "LENGTH('a :: len) \<in> {8, 16, 32, 64}"
  shows "shl_rm cb e m a (int LENGTH('a)) raw = shift_handler id (shl_result :: nat \<Rightarrow> 'a word \<Rightarrow> _) update_flags_shl cb e m a raw \<and>
    shr_rm cb e m a (int LENGTH('a)) raw = shift_handler id (shr_result :: nat \<Rightarrow> 'a word \<Rightarrow> _) update_flags_shr cb e m a raw \<and>
    sar_rm cb e m a (int LENGTH('a)) raw = shift_handler id (sar_result :: nat \<Rightarrow> 'a word \<Rightarrow> _) update_flags_sar cb e m a raw \<and>
    rol_rm cb e m a (int LENGTH('a)) raw =
      shift_handler (\<lambda>n. n mod LENGTH('a)) (rol_result :: nat \<Rightarrow> 'a word \<Rightarrow> _) update_flags_rol cb e m a raw \<and>
    ror_rm cb e m a (int LENGTH('a)) raw =
      shift_handler (\<lambda>n. n mod LENGTH('a)) (ror_result :: nat \<Rightarrow> 'a word \<Rightarrow> _) update_flags_ror cb e m a raw"
  by (intro conjI shift_handlers [OF assms])

theorem shifts_are_word_shifts_witness:
  "shl_rm demo_callbacks demo_engine 0xC4 0 16 3 =
     shift_handler id (shl_result :: nat \<Rightarrow> 16 word \<Rightarrow> _) update_flags_shl demo_callbacks demo_engine 0xC4 0 3"
  using shifts_are_word_shifts [where ?'a = 16, of demo_callbacks demo_engine "0xC4" 0 3] by simp

text \<open>
  \<open>n\<close> rounds of RCL rotate the operand and the carry flag above it, \<open>w + 1\<close> bits together, by \<open>n\<close> places to the
  left, and those of RCR to the right; the carry they return is the carry flag they leave.
\<close>

theorem carry_rotations_rotate:
  fixes v :: "'a :: len word"
  assumes "LENGTH('a) \<le> 64" "\<not> cpu_has_exception c"
  shows "(case rcl_loop n (mask LENGTH('a)) (push_bit (LENGTH('a) - Suc 0) 1) (ucast v) cy c of
       (r, co, c') \<Rightarrow> \<exists>v' :: 'a word. r = ucast v' \<and> (0 < n \<longrightarrow> co = flag_set c' RFLAGS_CF) \<and>
         (\<forall>i \<le> LENGTH('a). with_carry v' (flag_set c' RFLAGS_CF) i =
            with_carry v (flag_set c RFLAGS_CF) ((i + n * LENGTH('a)) mod Suc LENGTH('a)))) \<and>
    (case rcr_loop n (mask LENGTH('a)) (push_bit (LENGTH('a) - Suc 0) 1) (ucast v) cy c of
       (r, co, c') \<Rightarrow> \<exists>v' :: 'a word. r = ucast v' \<and> (0 < n \<longrightarrow> co = flag_set c' RFLAGS_CF) \<and>
         (\<forall>i \<le> LENGTH('a). with_carry v' (flag_set c' RFLAGS_CF) i =
            with_carry v (flag_set c RFLAGS_CF) ((i + n) mod Suc LENGTH('a))))"
  using rcl_loop_word [OF assms] rcr_loop_word [OF assms] by (auto split: prod.splits)

theorem carry_rotations_rotate_witness:
  "case rcr_loop 3 (mask 16) (push_bit 15 1) (ucast (0x1234 :: u16)) False demo_ctx of
     (r, co, c') \<Rightarrow> \<exists>v' :: u16. r = ucast v' \<and> co = flag_set c' RFLAGS_CF \<and>
       (\<forall>i \<le> 16. with_carry v' (flag_set c' RFLAGS_CF) i = with_carry (0x1234 :: u16) (flag_set demo_ctx RFLAGS_CF) ((i + 3) mod 17))"
  using carry_rotations_rotate [where ?'a = 16, of demo_ctx 3 "0x1234" False] by (auto split: prod.splits)

text \<open>
  C35: after the flags of a comparison of \<open>a\<close> with \<open>b\<close>, at any width, the sixteen conditions of Jcc, SETcc and
  CMOVcc are the relations they are named for: above and below on unsigned values, greater and less
  on signed ones, overflow where the exact difference does not fit.
\<close>

theorem conditions_after_compare:
  assumes "\<not> cpu_has_exception c"
  shows "eval_condition (update_flags_sub8 c a8 b8 (ucast a8 - ucast b8)) cond = compare_condition cond a8 b8 \<and>
    eval_condition (update_flags_sub16 c a16 b16 (ucast a16 - ucast b16)) cond = compare_condition cond a16 b16 \<and>
    eval_condition (update_flags_sub32 c a32 b32 (ucast a32 - ucast b32)) cond = compare_condition cond a32 b32 \<and>
    eval_condition (update_flags_sub64 c a64 b64 (a64 - b64)) cond = compare_condition cond a64 b64"
  using assms by (intro conjI condition_after_compare [where ctx = c]
      update_flags_sub8_spec update_flags_sub16_spec update_flags_sub32_spec update_flags_sub64_spec)

theorem conditions_after_compare_witness:
  "eval_condition (update_flags_sub8 demo_ctx 0x80 1 (ucast (0x80 :: u8) - ucast (1 :: u8))) 0xC \<longleftrightarrow> (0x80 :: u8) <s 1"
  using conditions_after_compare [of demo_ctx "0x80" 1 "0xC"] by (simp add: compare_condition_def)

text \<open>
  C36: the conditional jumps that the executor runs inline in long mode do exactly what the handler of
  Jcc does with the same bytes, whatever bytes follow in the fetch buffer.
\<close>

theorem inline_jumps_are_jcc:
  assumes "sd_long_mode (sr_descriptor (cs c))" "\<not> cpu_has_exception c"
  shows "(0x70 \<le> opc \<and> opc \<le> 0x7F \<longrightarrow>
      inline_jcc 2 (scast rel8) (opc AND 0x0F) c = execute_jcc c (opc # rel8 # rest)) \<and>
    (0x80 \<le> opc \<and> opc \<le> 0x8F \<and> length disp = 4 \<longrightarrow>
      inline_jcc 6 (scast (ucast (le_load disp) :: u32)) (opc AND 0x0F) c = execute_jcc c (0x0F # opc # disp @ rest))"
  using jcc_short_inline [OF assms] jcc_near_inline [OF assms] by simp

theorem inline_jumps_are_jcc_witness:
  "inline_jcc 2 (scast (0xFE :: u8)) 5 demo_ctx = execute_jcc demo_ctx [0x75, 0xFE, 0x90]"
proof -
  have "sd_long_mode (sr_descriptor (cs demo_ctx))" by code_simp
  then show ?thesis using inline_jumps_are_jcc [of demo_ctx "0x75" "0xFE" "[0x90]"] by simp
qed

end
