(* ===== verification/Strings.thy ===== *)
theory Strings
  imports Control
begin

text \<open>
  The string instructions (\<^verbatim>\<open>instructions/movs.hpp\<close>, \<^verbatim>\<open>cmps.hpp\<close>, \<^verbatim>\<open>stos.hpp\<close>, \<^verbatim>\<open>lods.hpp\<close>, \<^verbatim>\<open>scas.hpp\<close>) and their
  repetition (\<^verbatim>\<open>rep.hpp\<close>). The five files have the same helpers under their own names; the shared ones
  come first. The source segment of MOVS, CMPS and LODS is kept in the immediate of the decoded
  instruction.
\<close>

unbundle bit_operations_syntax

subsection \<open>Sizes, indices and values\<close>

definition string_wide_size :: "CPU_CONTEXT \<Rightarrow> int" where
  "string_wide_size c =
     (if cpu_is_64bit_code c then (if rex_w c then 64 else if operand_size_override c then 16 else 32)
      else if operand_size_override c then 16 else 32)"

definition string_operand_size :: "u8 \<Rightarrow> CPU_CONTEXT \<Rightarrow> u8 \<Rightarrow> int" where
  "string_operand_size byte_opcode c opc = (if opc = byte_opcode then 8 else string_wide_size c)"

definition string_address_size :: "CPU_CONTEXT \<Rightarrow> int" where
  "string_address_size c =
     (if cpu_is_64bit_code c then (if address_size_override c then 32 else 64)
      else if address_size_override c then 16 else 32)"

text \<open>An index or count register at the address size.\<close>

definition get_index_reg :: "nat \<Rightarrow> int \<Rightarrow> cpueaxh_engine \<Rightarrow> u64 \<times> cpueaxh_engine" where
  "get_index_reg r address_size e =
     (let c = cpu_ctx e
      in if address_size = 16 then (ucast (get_reg16 c r), e) else if address_size = 32 then (ucast (get_reg32 c r), e)
         else if address_size = 64 then (get_reg64 c r, e) else (0, on_ctx raise_ud_ctx e))"

definition set_index_reg :: "nat \<Rightarrow> int \<Rightarrow> u64 \<Rightarrow> cpueaxh_engine \<Rightarrow> cpueaxh_engine" where
  "set_index_reg r address_size v e =
     on_ctx (\<lambda>c. if address_size = 16 then set_reg16 c r (ucast v) else if address_size = 32 then set_reg32 c r (ucast v)
                 else if address_size = 64 then set_reg64 c r v else raise_ud_ctx c) e"

text \<open>The direction flag selects the sign of the step.\<close>

definition next_index :: "CPU_CONTEXT \<Rightarrow> u64 \<Rightarrow> int \<Rightarrow> u64" where
  "next_index c i operand_size =
     (let step = word_of_int (operand_size div 8) in if rflags c AND RFLAGS_DF \<noteq> 0 then i - step else i + step)"

definition string_flags :: "int \<Rightarrow> u64 \<Rightarrow> u64 \<Rightarrow> cpueaxh_engine \<Rightarrow> cpueaxh_engine" where
  "string_flags operand_size a b e =
     on_ctx (\<lambda>c. if operand_size = 8
                 then let l = ucast a :: u8; r = ucast b :: u8 in update_flags_sub8 c l r (ucast l - ucast r)
                 else if operand_size = 16
                 then let l = ucast a :: u16; r = ucast b :: u16 in update_flags_sub16 c l r (ucast l - ucast r)
                 else if operand_size = 32
                 then let l = ucast a :: u32; r = ucast b :: u32 in update_flags_sub32 c l r (ucast (l - r))
                 else if operand_size = 64 then update_flags_sub64 c a b (a - b) else raise_ud_ctx c) e"

text \<open>The decoders differ in the opcodes and in whether they record a source segment.\<close>

definition source_segment :: "CPU_CONTEXT \<Rightarrow> u64" where
  "source_segment c = word_of_int (cpu_effective_segment_override_or_default c SEG_DS)"

definition decode_string_body :: "u8 \<Rightarrow> (CPU_CONTEXT \<Rightarrow> u64) option \<Rightarrow> bool \<Rightarrow> u8 list \<Rightarrow> dstate \<Rightarrow> dresult" where
  "decode_string_body byte_opcode seg lock code =
     decode_seq
       [next_opcode code, by_opcode (\<lambda>opc. opc = byte_opcode \<or> opc = byte_opcode + 1) Inr (ud_if True), ud_if lock,
        by_opcode (\<lambda>opc. opc = byte_opcode) (set_sizes (\<lambda>_. 8) string_address_size)
          (set_sizes string_wide_size string_address_size),
        with_inst_ctx (\<lambda>c i. case seg of None \<Rightarrow> i | Some f \<Rightarrow> i\<lparr>di_immediate := f c\<rparr>), note_inst_size]"

definition immediate_segment :: "DecodedInstruction \<Rightarrow> int" where
  "immediate_segment inst = sint (ucast (di_immediate inst) :: u32)"

subsection \<open>MOVS\<close>

definition decode_movs_operand_size :: "CPU_CONTEXT \<Rightarrow> u8 \<Rightarrow> int" where
  "decode_movs_operand_size = string_operand_size 0xA4"
definition decode_movs_address_size :: "CPU_CONTEXT \<Rightarrow> int" where
  "decode_movs_address_size = string_address_size"
definition get_movs_index ::
  "nat \<Rightarrow> int \<Rightarrow> cpueaxh_engine \<Rightarrow> u64 \<times> cpueaxh_engine" where
  [insn_defs]: "get_movs_index = get_index_reg"
definition set_movs_index ::
  "nat \<Rightarrow> int \<Rightarrow> u64 \<Rightarrow> cpueaxh_engine \<Rightarrow> cpueaxh_engine" where
  [insn_defs]: "set_movs_index = set_index_reg"
definition movs_segment_base :: "CPU_CONTEXT \<Rightarrow> int \<Rightarrow> u64" where
  [insn_defs]: "movs_segment_base = cpu_segment_base_for_addressing"
definition decode_movs_segment_override :: "u8 \<Rightarrow> int" where
  [insn_defs]: "decode_movs_segment_override = cpu_decode_segment_override"
definition read_movs_value ::
  "callbacks \<Rightarrow> u64 \<Rightarrow> int \<Rightarrow> cpueaxh_engine \<Rightarrow> u64 \<times> cpueaxh_engine" where
  [insn_defs]: "read_movs_value = read_mem_sized"
definition write_movs_value ::
  "callbacks \<Rightarrow> u64 \<Rightarrow> int \<Rightarrow> u64 \<Rightarrow> cpueaxh_engine \<Rightarrow> cpueaxh_engine" where
  [insn_defs]: "write_movs_value = write_mem_sized"
definition decode_movs_instruction ::
  "CPU_CONTEXT \<Rightarrow> u8 list \<Rightarrow> DecodedInstruction \<times> CPU_CONTEXT" where
  "decode_movs_instruction =
     decode_with cpu_try_apply_rex_prefix id (decode_string_body 0xA4 (Some source_segment))"
definition execute_movs_with_decoded ::
  "callbacks \<Rightarrow> cpueaxh_engine \<Rightarrow> DecodedInstruction \<Rightarrow> cpueaxh_engine" where
  "execute_movs_with_decoded cb e inst =
     (let seg = immediate_segment inst; n = di_operand_size inst; z = di_address_size inst
      in case get_movs_index REG_RSI z e of (source_index, e1) \<Rightarrow>
         case get_movs_index REG_RDI z e1 of (dest_index, e2) \<Rightarrow>
         let source_addr = movs_segment_base (cpu_ctx e2) seg + source_index;
             dest_addr = movs_segment_base (cpu_ctx e2) SEG_ES + dest_index
         in case cpu_validate_linear_address (cpu_ctx e2) source_addr seg of (ok, c) \<Rightarrow>
            if \<not> ok then e2\<lparr>cpu_ctx := c\<rparr>
            else case cpu_validate_linear_address c dest_addr SEG_ES of (ok, c) \<Rightarrow>
            if \<not> ok then e2\<lparr>cpu_ctx := c\<rparr>
            else case read_movs_value cb source_addr n (e2\<lparr>cpu_ctx := c\<rparr>) of (v, e3) \<Rightarrow>
            if cpu_has_exception (cpu_ctx e3) then e3
            else let e4 = write_movs_value cb dest_addr n v e3
                 in if cpu_has_exception (cpu_ctx e4) then e4
                    else set_movs_index REG_RDI z (next_index (cpu_ctx e4) dest_index n)
                           (set_movs_index REG_RSI z (next_index (cpu_ctx e4) source_index n) e4))"
definition execute_movs ::
  "callbacks \<Rightarrow> cpueaxh_engine \<Rightarrow> u8 list \<Rightarrow> cpueaxh_engine" where
  "execute_movs = execute_decoding decode_movs_instruction execute_movs_with_decoded"
definition execute_movs_fast ::
  "callbacks \<Rightarrow> cpueaxh_engine \<Rightarrow> DecodedInst \<Rightarrow> cpueaxh_engine" where
  "execute_movs_fast = execute_cached execute_movs_with_decoded"

subsection \<open>CMPS\<close>

definition decode_cmps_operand_size :: "CPU_CONTEXT \<Rightarrow> u8 \<Rightarrow> int" where
  "decode_cmps_operand_size = string_operand_size 0xA6"
definition decode_cmps_address_size :: "CPU_CONTEXT \<Rightarrow> int" where
  "decode_cmps_address_size = string_address_size"
definition get_cmps_index ::
  "nat \<Rightarrow> int \<Rightarrow> cpueaxh_engine \<Rightarrow> u64 \<times> cpueaxh_engine" where
  [insn_defs]: "get_cmps_index = get_index_reg"
definition set_cmps_index ::
  "nat \<Rightarrow> int \<Rightarrow> u64 \<Rightarrow> cpueaxh_engine \<Rightarrow> cpueaxh_engine" where
  [insn_defs]: "set_cmps_index = set_index_reg"
definition cmps_segment_base :: "CPU_CONTEXT \<Rightarrow> int \<Rightarrow> u64" where
  [insn_defs]: "cmps_segment_base = cpu_segment_base_for_addressing"
definition decode_cmps_segment_override :: "u8 \<Rightarrow> int" where
  [insn_defs]: "decode_cmps_segment_override = cpu_decode_segment_override"
definition read_cmps_value ::
  "callbacks \<Rightarrow> u64 \<Rightarrow> int \<Rightarrow> cpueaxh_engine \<Rightarrow> u64 \<times> cpueaxh_engine" where
  [insn_defs]: "read_cmps_value = read_mem_sized"
definition update_cmps_flags ::
  "int \<Rightarrow> u64 \<Rightarrow> u64 \<Rightarrow> cpueaxh_engine \<Rightarrow> cpueaxh_engine" where
  [insn_defs]: "update_cmps_flags = string_flags"
definition decode_cmps_instruction ::
  "CPU_CONTEXT \<Rightarrow> u8 list \<Rightarrow> DecodedInstruction \<times> CPU_CONTEXT" where
  "decode_cmps_instruction =
     decode_with cpu_try_apply_rex_prefix id (decode_string_body 0xA6 (Some source_segment))"
definition execute_cmps_with_decoded ::
  "callbacks \<Rightarrow> cpueaxh_engine \<Rightarrow> DecodedInstruction \<Rightarrow> cpueaxh_engine" where
  "execute_cmps_with_decoded cb e inst =
     (let seg = immediate_segment inst; n = di_operand_size inst; z = di_address_size inst
      in case get_cmps_index REG_RSI z e of (source_index, e1) \<Rightarrow>
         case get_cmps_index REG_RDI z e1 of (dest_index, e2) \<Rightarrow>
         let source_addr = cmps_segment_base (cpu_ctx e2) seg + source_index;
             dest_addr = cmps_segment_base (cpu_ctx e2) SEG_ES + dest_index
         in case cpu_validate_linear_address (cpu_ctx e2) source_addr seg of (ok, c) \<Rightarrow>
            if \<not> ok then e2\<lparr>cpu_ctx := c\<rparr>
            else case cpu_validate_linear_address c dest_addr SEG_ES of (ok, c) \<Rightarrow>
            if \<not> ok then e2\<lparr>cpu_ctx := c\<rparr>
            else case read_cmps_value cb source_addr n (e2\<lparr>cpu_ctx := c\<rparr>) of (source_value, e3) \<Rightarrow>
            if cpu_has_exception (cpu_ctx e3) then e3
            else case read_cmps_value cb dest_addr n e3 of (dest_value, e4) \<Rightarrow>
            if cpu_has_exception (cpu_ctx e4) then e4
            else let e5 = update_cmps_flags n source_value dest_value e4
                 in set_cmps_index REG_RDI z (next_index (cpu_ctx e5) dest_index n)
                      (set_cmps_index REG_RSI z (next_index (cpu_ctx e5) source_index n) e5))"
definition execute_cmps ::
  "callbacks \<Rightarrow> cpueaxh_engine \<Rightarrow> u8 list \<Rightarrow> cpueaxh_engine" where
  "execute_cmps = execute_decoding decode_cmps_instruction execute_cmps_with_decoded"
definition execute_cmps_fast ::
  "callbacks \<Rightarrow> cpueaxh_engine \<Rightarrow> DecodedInst \<Rightarrow> cpueaxh_engine" where
  "execute_cmps_fast = execute_cached execute_cmps_with_decoded"

subsection \<open>STOS\<close>

definition decode_stos_operand_size :: "CPU_CONTEXT \<Rightarrow> u8 \<Rightarrow> int" where
  "decode_stos_operand_size = string_operand_size 0xAA"
definition decode_stos_address_size :: "CPU_CONTEXT \<Rightarrow> int" where
  "decode_stos_address_size = string_address_size"
definition get_stos_index :: "int \<Rightarrow> cpueaxh_engine \<Rightarrow> u64 \<times> cpueaxh_engine" where
  [insn_defs]: "get_stos_index = get_index_reg REG_RDI"
definition set_stos_index :: "int \<Rightarrow> u64 \<Rightarrow> cpueaxh_engine \<Rightarrow> cpueaxh_engine" where
  [insn_defs]: "set_stos_index = set_index_reg REG_RDI"
definition stos_segment_base :: "CPU_CONTEXT \<Rightarrow> u64" where
  [insn_defs]: "stos_segment_base c = cpu_segment_base_for_addressing c SEG_ES"
definition read_stos_accumulator :: "int \<Rightarrow> cpueaxh_engine \<Rightarrow> u64 \<times> cpueaxh_engine" where
  [insn_defs]: "read_stos_accumulator = read_reg_sized REG_RAX"
definition write_stos_value ::
  "callbacks \<Rightarrow> u64 \<Rightarrow> int \<Rightarrow> u64 \<Rightarrow> cpueaxh_engine \<Rightarrow> cpueaxh_engine" where
  [insn_defs]: "write_stos_value = write_mem_sized"
definition decode_stos_instruction ::
  "CPU_CONTEXT \<Rightarrow> u8 list \<Rightarrow> DecodedInstruction \<times> CPU_CONTEXT" where
  "decode_stos_instruction =
     decode_with cpu_try_apply_rex_prefix id (decode_string_body 0xAA None)"
definition execute_stos_with_decoded ::
  "callbacks \<Rightarrow> cpueaxh_engine \<Rightarrow> DecodedInstruction \<Rightarrow> cpueaxh_engine" where
  "execute_stos_with_decoded cb e inst =
     (let n = di_operand_size inst; z = di_address_size inst
      in case get_stos_index z e of (dest_index, e1) \<Rightarrow>
         let dest_addr = stos_segment_base (cpu_ctx e1) + dest_index
         in case read_stos_accumulator n e1 of (v, e2) \<Rightarrow>
            let e3 = write_stos_value cb dest_addr n v e2
            in if cpu_has_exception (cpu_ctx e3) then e3
               else set_stos_index z (next_index (cpu_ctx e3) dest_index n) e3)"
definition execute_stos ::
  "callbacks \<Rightarrow> cpueaxh_engine \<Rightarrow> u8 list \<Rightarrow> cpueaxh_engine" where
  "execute_stos = execute_decoding decode_stos_instruction execute_stos_with_decoded"
definition execute_stos_fast ::
  "callbacks \<Rightarrow> cpueaxh_engine \<Rightarrow> DecodedInst \<Rightarrow> cpueaxh_engine" where
  "execute_stos_fast = execute_cached execute_stos_with_decoded"

subsection \<open>LODS\<close>

definition decode_lods_operand_size :: "CPU_CONTEXT \<Rightarrow> u8 \<Rightarrow> int" where
  "decode_lods_operand_size = string_operand_size 0xAC"
definition decode_lods_address_size :: "CPU_CONTEXT \<Rightarrow> int" where
  "decode_lods_address_size = string_address_size"
definition get_lods_index :: "int \<Rightarrow> cpueaxh_engine \<Rightarrow> u64 \<times> cpueaxh_engine" where
  [insn_defs]: "get_lods_index = get_index_reg REG_RSI"
definition set_lods_index :: "int \<Rightarrow> u64 \<Rightarrow> cpueaxh_engine \<Rightarrow> cpueaxh_engine" where
  [insn_defs]: "set_lods_index = set_index_reg REG_RSI"
definition lods_segment_base :: "CPU_CONTEXT \<Rightarrow> int \<Rightarrow> u64" where
  [insn_defs]: "lods_segment_base = cpu_segment_base_for_addressing"
definition decode_lods_segment_override :: "u8 \<Rightarrow> int" where
  [insn_defs]: "decode_lods_segment_override = cpu_decode_segment_override"
definition read_lods_value ::
  "callbacks \<Rightarrow> u64 \<Rightarrow> int \<Rightarrow> cpueaxh_engine \<Rightarrow> u64 \<times> cpueaxh_engine" where
  [insn_defs]: "read_lods_value = read_mem_sized"
definition write_lods_accumulator ::
  "int \<Rightarrow> u64 \<Rightarrow> cpueaxh_engine \<Rightarrow> cpueaxh_engine" where
  [insn_defs]: "write_lods_accumulator = write_reg_sized REG_RAX"
definition decode_lods_instruction ::
  "CPU_CONTEXT \<Rightarrow> u8 list \<Rightarrow> DecodedInstruction \<times> CPU_CONTEXT" where
  "decode_lods_instruction =
     decode_with cpu_try_apply_rex_prefix id (decode_string_body 0xAC (Some source_segment))"
definition execute_lods_with_decoded ::
  "callbacks \<Rightarrow> cpueaxh_engine \<Rightarrow> DecodedInstruction \<Rightarrow> cpueaxh_engine" where
  "execute_lods_with_decoded cb e inst =
     (let seg = immediate_segment inst; n = di_operand_size inst; z = di_address_size inst
      in case get_lods_index z e of (source_index, e1) \<Rightarrow>
         let source_addr = lods_segment_base (cpu_ctx e1) seg + source_index
         in case cpu_validate_linear_address (cpu_ctx e1) source_addr seg of (ok, c) \<Rightarrow>
            if \<not> ok then e1\<lparr>cpu_ctx := c\<rparr>
            else case read_lods_value cb source_addr n (e1\<lparr>cpu_ctx := c\<rparr>) of (v, e2) \<Rightarrow>
            if cpu_has_exception (cpu_ctx e2) then e2
            else let e3 = write_lods_accumulator n v e2
                 in set_lods_index z (next_index (cpu_ctx e3) source_index n) e3)"
definition execute_lods ::
  "callbacks \<Rightarrow> cpueaxh_engine \<Rightarrow> u8 list \<Rightarrow> cpueaxh_engine" where
  "execute_lods = execute_decoding decode_lods_instruction execute_lods_with_decoded"
definition execute_lods_fast ::
  "callbacks \<Rightarrow> cpueaxh_engine \<Rightarrow> DecodedInst \<Rightarrow> cpueaxh_engine" where
  "execute_lods_fast = execute_cached execute_lods_with_decoded"

subsection \<open>SCAS\<close>

definition decode_scas_operand_size :: "CPU_CONTEXT \<Rightarrow> u8 \<Rightarrow> int" where
  "decode_scas_operand_size = string_operand_size 0xAE"
definition decode_scas_address_size :: "CPU_CONTEXT \<Rightarrow> int" where
  "decode_scas_address_size = string_address_size"
definition get_scas_index :: "int \<Rightarrow> cpueaxh_engine \<Rightarrow> u64 \<times> cpueaxh_engine" where
  [insn_defs]: "get_scas_index = get_index_reg REG_RDI"
definition set_scas_index :: "int \<Rightarrow> u64 \<Rightarrow> cpueaxh_engine \<Rightarrow> cpueaxh_engine" where
  [insn_defs]: "set_scas_index = set_index_reg REG_RDI"
definition scas_segment_base :: "CPU_CONTEXT \<Rightarrow> u64" where
  [insn_defs]: "scas_segment_base c = cpu_segment_base_for_addressing c SEG_ES"
definition read_scas_value ::
  "callbacks \<Rightarrow> u64 \<Rightarrow> int \<Rightarrow> cpueaxh_engine \<Rightarrow> u64 \<times> cpueaxh_engine" where
  [insn_defs]: "read_scas_value = read_mem_sized"
definition read_scas_accumulator :: "int \<Rightarrow> cpueaxh_engine \<Rightarrow> u64 \<times> cpueaxh_engine" where
  [insn_defs]: "read_scas_accumulator = read_reg_sized REG_RAX"
definition update_scas_flags ::
  "int \<Rightarrow> u64 \<Rightarrow> u64 \<Rightarrow> cpueaxh_engine \<Rightarrow> cpueaxh_engine" where
  [insn_defs]: "update_scas_flags = string_flags"
definition decode_scas_instruction ::
  "CPU_CONTEXT \<Rightarrow> u8 list \<Rightarrow> DecodedInstruction \<times> CPU_CONTEXT" where
  "decode_scas_instruction =
     decode_with cpu_try_apply_rex_prefix id (decode_string_body 0xAE None)"
definition execute_scas_with_decoded ::
  "callbacks \<Rightarrow> cpueaxh_engine \<Rightarrow> DecodedInstruction \<Rightarrow> cpueaxh_engine" where
  "execute_scas_with_decoded cb e inst =
     (let n = di_operand_size inst; z = di_address_size inst
      in case get_scas_index z e of (dest_index, e1) \<Rightarrow>
         let dest_addr = scas_segment_base (cpu_ctx e1) + dest_index
         in case read_scas_accumulator n e1 of (acc, e2) \<Rightarrow>
            case read_scas_value cb dest_addr n e2 of (v, e3) \<Rightarrow>
            if cpu_has_exception (cpu_ctx e3) then e3
            else let e4 = update_scas_flags n acc v e3
                 in set_scas_index z (next_index (cpu_ctx e4) dest_index n) e4)"
definition execute_scas ::
  "callbacks \<Rightarrow> cpueaxh_engine \<Rightarrow> u8 list \<Rightarrow> cpueaxh_engine" where
  "execute_scas = execute_decoding decode_scas_instruction execute_scas_with_decoded"
definition execute_scas_fast ::
  "callbacks \<Rightarrow> cpueaxh_engine \<Rightarrow> DecodedInst \<Rightarrow> cpueaxh_engine" where
  "execute_scas_fast = execute_cached execute_scas_with_decoded"

subsection \<open>Repetition\<close>

text \<open>The prefixes before the opcode: the last repeat prefix, their number and the context.\<close>

fun rep_prefix_loop :: "u8 list \<Rightarrow> nat \<Rightarrow> u8 \<Rightarrow> CPU_CONTEXT \<Rightarrow> u8 \<times> nat \<times> CPU_CONTEXT" where
  "rep_prefix_loop [] offset rep c = (rep, offset, c)"
| "rep_prefix_loop (prefix # rest) offset rep c =
     (if prefix \<in> {0x26, 0x2E, 0x36, 0x3E, 0x64, 0x65, 0x66, 0x67, 0xF0} then rep_prefix_loop rest (offset + 1) rep c
      else case cpu_try_apply_rex_prefix c prefix of
             (True, c1) \<Rightarrow> rep_prefix_loop rest (offset + 1) rep c1
           | (False, c1) \<Rightarrow>
               if prefix = 0xF2 \<or> prefix = 0xF3 then rep_prefix_loop rest (offset + 1) prefix c1 else (rep, offset, c1))"

definition decode_rep_prefix :: "CPU_CONTEXT \<Rightarrow> u8 list \<Rightarrow> u8 \<times> nat \<times> CPU_CONTEXT" where
  "decode_rep_prefix c code = rep_prefix_loop code 0 0 c"

definition is_rep_string_opcode :: "u8 \<Rightarrow> bool" where
  "is_rep_string_opcode opc \<longleftrightarrow> opc \<in> {0xA4, 0xA5, 0xA6, 0xA7, 0xAA, 0xAB, 0xAC, 0xAD, 0xAE, 0xAF}"

definition get_rep_count :: "int \<Rightarrow> cpueaxh_engine \<Rightarrow> u64 \<times> cpueaxh_engine" where
  "get_rep_count = get_index_reg REG_RCX"
definition set_rep_count :: "int \<Rightarrow> u64 \<Rightarrow> cpueaxh_engine \<Rightarrow> cpueaxh_engine" where
  "set_rep_count = set_index_reg REG_RCX"

definition decode_rep_target :: "CPU_CONTEXT \<Rightarrow> u8 \<Rightarrow> u8 list \<Rightarrow> DecodedInstruction \<times> CPU_CONTEXT" where
  "decode_rep_target c opc code =
     (if opc = 0xA4 \<or> opc = 0xA5 then decode_movs_instruction c code
      else if opc = 0xA6 \<or> opc = 0xA7 then decode_cmps_instruction c code
      else if opc = 0xAA \<or> opc = 0xAB then decode_stos_instruction c code
      else if opc = 0xAC \<or> opc = 0xAD then decode_lods_instruction c code
      else if opc = 0xAE \<or> opc = 0xAF then decode_scas_instruction c code
      else (zero_decoded_instruction, raise_ud_ctx c))"

definition execute_rep_iteration :: "callbacks \<Rightarrow> cpueaxh_engine \<Rightarrow> u8 \<Rightarrow> u8 list \<Rightarrow> cpueaxh_engine" where
  "execute_rep_iteration cb e opc code =
     (if opc = 0xA4 \<or> opc = 0xA5 then execute_movs cb e code
      else if opc = 0xA6 \<or> opc = 0xA7 then execute_cmps cb e code
      else if opc = 0xAA \<or> opc = 0xAB then execute_stos cb e code
      else if opc = 0xAC \<or> opc = 0xAD then execute_lods cb e code
      else if opc = 0xAE \<or> opc = 0xAF then execute_scas cb e code
      else on_ctx raise_ud_ctx e)"

definition decode_rep_for_fast :: "CPU_CONTEXT \<Rightarrow> u8 list \<Rightarrow> DecodedInstruction \<times> CPU_CONTEXT" where
  "decode_rep_for_fast c code =
     (case decode_rep_prefix (cpu_reset_prefix_state c) code of
        (rep_prefix, prefix_len, c1) \<Rightarrow>
          if rep_prefix \<noteq> 0xF2 \<and> rep_prefix \<noteq> 0xF3 then (zero_decoded_instruction, raise_ud_ctx c1)
          else if length code \<le> prefix_len then (zero_decoded_instruction, raise_gp_ctx c1 0)
          else if \<not> is_rep_string_opcode (code ! prefix_len) then (zero_decoded_instruction, raise_ud_ctx c1)
          else case decode_rep_target c1 (code ! prefix_len) code of
                 (inst, c2) \<Rightarrow> (inst\<lparr>di_opcode := code ! prefix_len, di_mandatory_prefix := rep_prefix\<rparr>, c2))"

definition execute_rep_iteration_with_decoded :: "callbacks \<Rightarrow> cpueaxh_engine \<Rightarrow> u8 \<Rightarrow> DecodedInstruction \<Rightarrow> cpueaxh_engine" where
  "execute_rep_iteration_with_decoded cb e opc inst =
     (if opc = 0xA4 \<or> opc = 0xA5 then execute_movs_with_decoded cb e inst
      else if opc = 0xA6 \<or> opc = 0xA7 then execute_cmps_with_decoded cb e inst
      else if opc = 0xAA \<or> opc = 0xAB then execute_stos_with_decoded cb e inst
      else if opc = 0xAC \<or> opc = 0xAD then execute_lods_with_decoded cb e inst
      else if opc = 0xAE \<or> opc = 0xAF then execute_scas_with_decoded cb e inst
      else on_ctx raise_ud_ctx e)"

text \<open>
  The loop of \<^verbatim>\<open>execute_rep\<close> and \<^verbatim>\<open>execute_rep_fast\<close>, on the number of iterations left. CMPS and SCAS also stop
  when the zero flag does not fit the prefix.
\<close>

definition rep_scan_stops :: "u8 \<Rightarrow> u8 \<Rightarrow> CPU_CONTEXT \<Rightarrow> bool" where
  "rep_scan_stops opc rep_prefix c \<longleftrightarrow>
     opc \<in> {0xA6, 0xA7, 0xAE, 0xAF} \<and> (if rep_prefix = 0xF3 then rflags c AND RFLAGS_ZF = 0 else rflags c AND RFLAGS_ZF \<noteq> 0)"

fun rep_loop :: "callbacks \<Rightarrow> u8 \<Rightarrow> u8 \<Rightarrow> DecodedInstruction \<Rightarrow> nat \<Rightarrow> cpueaxh_engine \<Rightarrow> cpueaxh_engine" where
  "rep_loop cb opc rep_prefix inst 0 e = e"
| "rep_loop cb opc rep_prefix inst (Suc n) e =
     (let e1 = execute_rep_iteration_with_decoded cb e opc inst
      in if cpu_has_exception (cpu_ctx e1) then e1
         else let e2 = set_rep_count (di_address_size inst) (word_of_nat n) e1
              in if n = 0 \<or> rep_scan_stops opc rep_prefix (cpu_ctx e2) then e2 else rep_loop cb opc rep_prefix inst n e2)"

definition execute_rep :: "callbacks \<Rightarrow> cpueaxh_engine \<Rightarrow> u8 list \<Rightarrow> cpueaxh_engine" where
  "execute_rep cb e code =
     (case decode_rep_prefix (cpu_reset_prefix_state (cpu_ctx e)) code of
        (rep_prefix, prefix_len, c1) \<Rightarrow>
          let c2 = (if rep_prefix \<noteq> 0xF2 \<and> rep_prefix \<noteq> 0xF3 then raise_ud_ctx c1 else c1); opc = code ! prefix_len
          in if length code \<le> prefix_len then e\<lparr>cpu_ctx := raise_gp_ctx c2 0\<rparr>
             else case decode_rep_target (if is_rep_string_opcode opc then c2 else raise_ud_ctx c2) opc code of
                    (inst, c3) \<Rightarrow>
                      case get_rep_count (di_address_size inst) (e\<lparr>cpu_ctx := c3\<rparr>) of
                        (count, e1) \<Rightarrow> rep_loop cb opc rep_prefix inst (unat count) e1)"

definition execute_rep_fast :: "callbacks \<Rightarrow> cpueaxh_engine \<Rightarrow> DecodedInst \<Rightarrow> cpueaxh_engine" where
  "execute_rep_fast =
     execute_cached (\<lambda>cb e inst.
       if di_mandatory_prefix inst \<noteq> 0xF2 \<and> di_mandatory_prefix inst \<noteq> 0xF3 then on_ctx raise_ud_ctx e
       else case get_rep_count (di_address_size inst) e of
              (count, e1) \<Rightarrow> rep_loop cb (di_opcode inst) (di_mandatory_prefix inst) inst (unat count) e1)"


end
