(* ===== verification/StringSpec.thy ===== *)
theory StringSpec
  imports Strings
begin

text \<open>
  Replaying the string instructions, and what repetition does: one iteration after the other, with the
  count register always holding the number of iterations left.
\<close>

unbundle bit_operations_syntax

subsection \<open>Decoding\<close>

lemma decode_head_by_opcode:
  assumes "decode_head f" "decode_head g"
  shows "decode_head (by_opcode P f g)"
proof (intro decode_head.intro decode_head_axioms.intro)
  show "decode_step (by_opcode P f g) True"
    using decode_step_by_opcode [OF decode_head.axioms(1) [OF assms(1)] decode_head.axioms(1) [OF assms(2)]] by simp
  show "by_opcode P f g (i, n, c) = Inr (j, m, d) \<Longrightarrow> di_has_modrm j = di_has_modrm i" for i n c j m d
    using decode_head.head_modrm [OF assms(1)] decode_head.head_modrm [OF assms(2)]
    by (auto simp: by_opcode_def split: if_splits)
qed

lemma string_sizes_agree: "agrees c d \<Longrightarrow> string_wide_size c = string_wide_size d"
  "agrees c d \<Longrightarrow> string_address_size c = string_address_size d"
  using agrees_modes(2) [of c d] by (auto simp: string_wide_size_def string_address_size_def agrees_def)

lemma decode_string_step:
  assumes "seg = None \<or> (\<exists>s. seg = Some (\<lambda>_. s))"
  shows "decode_step (decode_string_body b seg lock code) True"
proof -
  have "decode_head (by_opcode (\<lambda>opc. opc = b) (set_sizes (\<lambda>_. 8) string_address_size)
      (set_sizes string_wide_size string_address_size))"
    by (intro decode_head_by_opcode decode_head_set_sizes) (auto simp: string_sizes_agree)
  moreover have "static_update (\<lambda>i. case seg of None \<Rightarrow> i | Some f \<Rightarrow> i\<lparr>di_immediate := f c\<rparr>)" for c
    by (cases seg) (simp_all add: static_update_def)
  then have "decode_step (with_inst_ctx (\<lambda>c i. case seg of None \<Rightarrow> i | Some f \<Rightarrow> i\<lparr>di_immediate := f c\<rparr>)) False"
    by (intro decode_step_with_inst_ctx) (use assms in auto)
  ultimately show ?thesis unfolding decode_string_body_def
    by - (rule decode_step_weaken, (assumption | rule decode_steps | (simp; fail))+)
qed

text \<open>With the source segment fixed in advance, the decoder depends on the bytes and the mode only.\<close>

definition decode_string_in :: "u8 \<Rightarrow> u64 \<Rightarrow> CPU_CONTEXT \<Rightarrow> u8 list \<Rightarrow> DecodedInstruction \<times> CPU_CONTEXT" where
  "decode_string_in b s = decode_with cpu_try_apply_rex_prefix id (decode_string_body b (Some (\<lambda>_. s)))"

interpretation string_decoder: prefix_decoder cpu_try_apply_rex_prefix id "decode_string_body b (Some (\<lambda>_. s))" True
  "decode_string_in b s" for b s
  by (intro prefix_decoder.intro checked_prefixes.prefix_reader_axioms prefix_decoder_axioms.intro decode_string_step)
     (auto simp: decode_string_in_def)

interpretation stos_decoder: prefix_decoder cpu_try_apply_rex_prefix id "decode_string_body 0xAA None" True decode_stos_instruction
  by (intro prefix_decoder.intro checked_prefixes.prefix_reader_axioms prefix_decoder_axioms.intro decode_string_step)
     (auto simp: decode_stos_instruction_def)

interpretation scas_decoder: prefix_decoder cpu_try_apply_rex_prefix id "decode_string_body 0xAE None" True decode_scas_instruction
  by (intro prefix_decoder.intro checked_prefixes.prefix_reader_axioms prefix_decoder_axioms.intro decode_string_step)
     (auto simp: decode_scas_instruction_def)

lemma scratch_segment: "scratch_only c d \<Longrightarrow> source_segment d = source_segment c"
proof -
  assume "scratch_only c d"
  then have "segment_override (strip_scratch d) = segment_override (strip_scratch c)" by (simp add: scratch_only_def)
  then have "segment_override d = segment_override c" by (simp add: strip_scratch_def)
  then show ?thesis by (simp add: source_segment_def cpu_effective_segment_override_or_default_def)
qed

lemma decode_string_segment:
  "decode_with cpu_try_apply_rex_prefix id (decode_string_body b (Some source_segment)) c code =
     decode_string_in b (source_segment c) c code"
proof -
  obtain lock n c1 where p: "prefix_loop cpu_try_apply_rex_prefix id code 0 False (cpu_reset_prefix_state c) = (lock, n, c1)"
    by (metis prod_cases3)
  have "scratch_only c c1"
    using checked_prefixes.loop_scratch [of "cpu_reset_prefix_state c" code 0 False] scratch_only_trans [OF scratch_only_updates(4)] p
    by simp
  then have s: "source_segment c1 = source_segment c" "source_segment (raise_ud_ctx c1) = source_segment c"
      "source_segment (raise_ud_ctx (raise_ud_ctx c1)) = source_segment c"
    by (blast intro: scratch_segment scratch_only_trans scratch_only_fault raise_fault_only)+
  show ?thesis
    unfolding decode_string_in_def decode_with_def decode_prefixes_def p prod.case decode_string_body_def
    by (simp add: decode_then_def next_opcode_def by_opcode_def ud_if_def set_sizes_def with_inst_ctx_def note_inst_size_def s)
qed


subsection \<open>Replaying\<close>

text \<open>
  The contract of a decoder that keeps the source segment: its fast handler does what decoding again
  does, if the segment in force is still the one at the time of the probe.
\<close>

definition replays_in_segment ::
  "(CPU_CONTEXT \<Rightarrow> u8 list \<Rightarrow> DecodedInstruction \<times> CPU_CONTEXT) \<Rightarrow>
   (callbacks \<Rightarrow> cpueaxh_engine \<Rightarrow> u8 list \<Rightarrow> cpueaxh_engine) \<Rightarrow>
   (callbacks \<Rightarrow> cpueaxh_engine \<Rightarrow> DecodedInst \<Rightarrow> cpueaxh_engine) \<Rightarrow> bool" where
  "replays_in_segment decode slow fast \<longleftrightarrow>
     (\<forall>c dec fn dec' c'. attach_one c dec decode fn = (dec', c') \<longrightarrow> c' = c \<and>
        (dc_fast_handler dec = 0 \<and> dc_fast_handler dec' \<noteq> 0 \<longrightarrow>
          (\<forall>cb e. same_mode c (cpu_ctx e) \<and> source_segment c = source_segment (cpu_ctx e) \<and>
             \<not> cpu_has_exception (snd (decode (cpu_ctx e) (decoded_code dec))) \<longrightarrow>
             fast cb e dec' = slow cb e (decoded_code dec))))"

lemma replays_in_segmentI:
  assumes "\<And>s. replayable (d s)" "\<And>c code. decode c code = d (source_segment c) c code"
  shows "replays_in_segment decode (execute_decoding decode run) (execute_cached run)"
  unfolding replays_in_segment_def
proof (intro allI impI)
  fix c dec fn dec' c'
  let ?d = "d (source_segment c)"
  assume "attach_one c dec decode fn = (dec', c')"
  then have a: "attach_one c dec ?d fn = (dec', c')"
    by (simp add: attach_one_def attach_probed_def cpu_decoder_probe_with_helper_def assms(2))
  have r: "replays attach_one ?d (execute_decoding ?d run) (execute_cached run)"
    by (rule replayable.replays_plain [OF assms(1)])
  show "c' = c \<and> (dc_fast_handler dec = 0 \<and> dc_fast_handler dec' \<noteq> 0 \<longrightarrow>
      (\<forall>cb e. same_mode c (cpu_ctx e) \<and> source_segment c = source_segment (cpu_ctx e) \<and>
         \<not> cpu_has_exception (snd (decode (cpu_ctx e) (decoded_code dec))) \<longrightarrow>
         execute_cached run cb e dec' = execute_decoding decode run cb e (decoded_code dec)))"
    using r [unfolded replays_def, rule_format, OF a] by (auto simp: assms(2) execute_decoding_def)
qed

lemma string_replays_in_segment:
  "replays_in_segment decode_movs_instruction execute_movs execute_movs_fast"
  "replays_in_segment decode_cmps_instruction execute_cmps execute_cmps_fast"
  "replays_in_segment decode_lods_instruction execute_lods execute_lods_fast"
  unfolding execute_movs_def execute_movs_fast_def execute_cmps_def execute_cmps_fast_def execute_lods_def execute_lods_fast_def
  by (rule replays_in_segmentI [where d = "decode_string_in _"], rule string_decoder.replayable_axioms,
      simp add: decode_movs_instruction_def decode_cmps_instruction_def decode_lods_instruction_def decode_string_segment)+

subsection \<open>Repetition\<close>

text \<open>The state after \<open>k\<close> of \<open>n\<close> iterations: each runs the instruction and stores how many are left.\<close>

fun rep_state :: "callbacks \<Rightarrow> u8 \<Rightarrow> DecodedInstruction \<Rightarrow> nat \<Rightarrow> nat \<Rightarrow> cpueaxh_engine \<Rightarrow> cpueaxh_engine" where
  "rep_state cb opc inst n 0 e = e"
| "rep_state cb opc inst n (Suc k) e =
     set_rep_count (di_address_size inst) (word_of_nat (n - Suc k))
       (execute_rep_iteration_with_decoded cb (rep_state cb opc inst n k e) opc inst)"

text \<open>Iteration \<open>k\<close> faults, and the loop goes on after it.\<close>

definition rep_faults :: "callbacks \<Rightarrow> u8 \<Rightarrow> DecodedInstruction \<Rightarrow> nat \<Rightarrow> nat \<Rightarrow> cpueaxh_engine \<Rightarrow> bool" where
  "rep_faults cb opc inst n k e \<longleftrightarrow>
     cpu_has_exception (cpu_ctx (execute_rep_iteration_with_decoded cb (rep_state cb opc inst n k e) opc inst))"

definition rep_goes_on :: "callbacks \<Rightarrow> u8 \<Rightarrow> u8 \<Rightarrow> DecodedInstruction \<Rightarrow> nat \<Rightarrow> nat \<Rightarrow> cpueaxh_engine \<Rightarrow> bool" where
  "rep_goes_on cb opc rep_prefix inst n k e \<longleftrightarrow> \<not> rep_faults cb opc inst n k e \<and> Suc k < n \<and>
     \<not> rep_scan_stops opc rep_prefix (cpu_ctx (rep_state cb opc inst n (Suc k) e))"

lemma rep_state_shift: "rep_state cb opc inst n k (rep_state cb opc inst (Suc n) (Suc 0) e) = rep_state cb opc inst (Suc n) (Suc k) e"
  by (induction k) simp_all

text \<open>The loop runs to the first iteration after which it does not go on.\<close>

lemma rep_loop_runs:
  assumes "0 < n"
  shows "\<exists>k < n. (\<forall>j < k. rep_goes_on cb opc rep_prefix inst n j e) \<and> \<not> rep_goes_on cb opc rep_prefix inst n k e \<and>
    rep_loop cb opc rep_prefix inst n e =
      (if rep_faults cb opc inst n k e then execute_rep_iteration_with_decoded cb (rep_state cb opc inst n k e) opc inst
       else rep_state cb opc inst n (Suc k) e)"
  using assms
proof (induction n arbitrary: e)
  case (Suc n)
  let ?e1 = "rep_state cb opc inst (Suc n) (Suc 0) e"
  have shift: "rep_faults cb opc inst n k ?e1 = rep_faults cb opc inst (Suc n) (Suc k) e"
    "rep_goes_on cb opc rep_prefix inst n k ?e1 = rep_goes_on cb opc rep_prefix inst (Suc n) (Suc k) e" for k
    using rep_state_shift [of cb opc inst n "Suc k" e] rep_state_shift [of cb opc inst n k e]
    by (simp_all add: rep_faults_def rep_goes_on_def del: rep_state.simps)
  show ?case
  proof (cases "rep_goes_on cb opc rep_prefix inst (Suc n) 0 e")
    case True
    then have n: "0 < n" and l: "rep_loop cb opc rep_prefix inst (Suc n) e = rep_loop cb opc rep_prefix inst n ?e1"
      by (auto simp: rep_goes_on_def rep_faults_def Let_def)
    obtain k where k: "k < n" "\<forall>j < k. rep_goes_on cb opc rep_prefix inst n j ?e1" "\<not> rep_goes_on cb opc rep_prefix inst n k ?e1"
      "rep_loop cb opc rep_prefix inst n ?e1 =
        (if rep_faults cb opc inst n k ?e1 then execute_rep_iteration_with_decoded cb (rep_state cb opc inst n k ?e1) opc inst
         else rep_state cb opc inst n (Suc k) ?e1)"
      using Suc.IH [OF n] by blast
    have "\<forall>j < Suc k. rep_goes_on cb opc rep_prefix inst (Suc n) j e"
      using True k(2) unfolding shift by (metis less_Suc_eq_0_disj)
    then show ?thesis
      using k l unfolding shift rep_state_shift by (intro exI [of _ "Suc k"]) (simp del: rep_loop.simps rep_state.simps)
  next
    case False
    then show ?thesis by (intro exI [of _ 0]) (auto simp: rep_goes_on_def rep_faults_def Let_def)
  qed
qed simp

text \<open>After any number of iterations it could have been interrupted there and started again.\<close>

lemma rep_loop_resumes:
  assumes "\<forall>j < k. rep_goes_on cb opc rep_prefix inst n j e"
  shows "rep_loop cb opc rep_prefix inst n e = rep_loop cb opc rep_prefix inst (n - k) (rep_state cb opc inst n k e)"
  using assms
proof (induction k)
  case (Suc k)
  then have g: "rep_goes_on cb opc rep_prefix inst n k e" by simp
  then obtain m where m: "n - k = Suc m" "n - Suc k = m" "0 < m" by (metis Suc_diff_Suc Suc_lessD diff_is_0_eq' linorder_not_less rep_goes_on_def zero_less_diff)
  show ?case using Suc g m by (simp add: rep_goes_on_def rep_faults_def Let_def)
qed simp

lemma narrow_count:
  assumes "LENGTH('a :: len) \<le> 64" "k < 2 ^ LENGTH('a)"
  shows "ucast (ucast (word_of_nat k :: u64) :: 'a word) = (word_of_nat k :: u64)"
proof -
  have "k < 2 ^ 64" using assms power_increasing [of "LENGTH('a)" 64 "2 :: nat"] by simp
  then show ?thesis using assms by (simp add: unsigned_of_nat take_bit_nat_eq_self)
qed

lemma index_reg_back:
  assumes "z \<in> {16, 32, 64}" "k < 2 ^ nat z"
  shows "get_index_reg r z (set_index_reg r z (word_of_nat k) e) = (word_of_nat k, set_index_reg r z (word_of_nat k) e)"
  using assms narrow_count [where 'a = 16, of k] narrow_count [where 'a = 32, of k]
  by (auto simp: get_index_reg_def set_index_reg_def Let_def set_reg16_spec(1) set_reg32_spec(1) get_reg64_def set_reg64_def)

subsection \<open>Replaying a repeated instruction\<close>

text \<open>The decoder of the fast handler with the source segment fixed in advance.\<close>

definition decode_target_in :: "u64 \<Rightarrow> u8 \<Rightarrow> CPU_CONTEXT \<Rightarrow> u8 list \<Rightarrow> DecodedInstruction \<times> CPU_CONTEXT" where
  "decode_target_in s opc =
     (if opc = 0xA4 \<or> opc = 0xA5 then decode_string_in 0xA4 s else if opc = 0xA6 \<or> opc = 0xA7 then decode_string_in 0xA6 s
      else if opc = 0xAA \<or> opc = 0xAB then decode_stos_instruction
      else if opc = 0xAC \<or> opc = 0xAD then decode_string_in 0xAC s
      else if opc = 0xAE \<or> opc = 0xAF then decode_scas_instruction
      else (\<lambda>c code. (zero_decoded_instruction, raise_ud_ctx c)))"

definition decode_rep_in :: "u64 \<Rightarrow> CPU_CONTEXT \<Rightarrow> u8 list \<Rightarrow> DecodedInstruction \<times> CPU_CONTEXT" where
  "decode_rep_in s c code =
     (case decode_rep_prefix (cpu_reset_prefix_state c) code of
        (rep_prefix, n, c1) \<Rightarrow>
          if rep_prefix \<noteq> 0xF2 \<and> rep_prefix \<noteq> 0xF3 then (zero_decoded_instruction, raise_ud_ctx c1)
          else if length code \<le> n then (zero_decoded_instruction, raise_gp_ctx c1 0)
          else if \<not> is_rep_string_opcode (code ! n) then (zero_decoded_instruction, raise_ud_ctx c1)
          else case decode_target_in s (code ! n) c1 code of
                 (inst, c2) \<Rightarrow> (inst\<lparr>di_opcode := code ! n, di_mandatory_prefix := rep_prefix\<rparr>, c2))"

lemma target_replayable: "replayable (decode_target_in s opc)"
proof -
  have "replayable (\<lambda>c code. (zero_decoded_instruction, raise_ud_ctx c))"
    by unfold_locales (auto intro: scratch_only_fault)
  then show ?thesis
    unfolding decode_target_in_def
    using string_decoder.replayable_axioms stos_decoder.replayable_axioms scas_decoder.replayable_axioms by simp
qed

lemma rep_prefix_scratch:
  "rep_prefix_loop code n r c = (r', n', d) \<Longrightarrow> scratch_only c d"
proof (induction code arbitrary: n r c)
  case (Cons p code)
  obtain t x where t: "cpu_try_apply_rex_prefix c p = (t, x)" by force
  have "scratch_only c x" using checked_prefixes.rex_scratch [OF t] by simp
  then show ?case using Cons by (auto simp: t split: if_splits bool.splits intro: scratch_only_trans)
qed simp

lemma rep_prefix_stable:
  assumes "agrees c c'" "rep_prefix_loop code n r c = (r1, n1, d)" "rep_prefix_loop code n r c' = (r2, n2, d')"
  shows "r1 = r2 \<and> n1 = n2"
  using assms
proof (induction code arbitrary: n r c c')
  case (Cons p code)
  obtain t x t' x' where t: "cpu_try_apply_rex_prefix c p = (t, x)" "cpu_try_apply_rex_prefix c' p = (t', x')" by force
  have "t' = t" "agrees x x'" using checked_prefixes.rex_stable [OF Cons.prems(1) t] by simp_all
  then show ?case using Cons by (auto simp: t split: if_splits bool.splits)
qed simp

lemma reset_agrees: "same_mode c c' \<Longrightarrow> agrees (cpu_reset_prefix_state c) (cpu_reset_prefix_state c')"
  by (simp add: same_mode_iff agrees_def cpu_reset_prefix_state_def)

lemma scratch_same_mode: "scratch_only c d \<Longrightarrow> scratch_only c' d' \<Longrightarrow> same_mode c c' \<Longrightarrow> same_mode d d'"
  unfolding scratch_only_def same_mode_iff using strip_scratch_mode by metis

lemma rep_opened:
  assumes "decode_rep_in s c code = (i, d)" "\<not> cpu_has_exception d"
  obtains r n c1 j where "rep_prefix_loop code 0 0 (cpu_reset_prefix_state c) = (r, n, c1)" "scratch_only c c1"
    "decode_target_in s (code ! n) c1 code = (j, d)" "i = j\<lparr>di_opcode := code ! n, di_mandatory_prefix := r\<rparr>"
    "r = 0xF2 \<or> r = 0xF3" "n < length code" "is_rep_string_opcode (code ! n)"
proof -
  obtain r n c1 where p: "rep_prefix_loop code 0 0 (cpu_reset_prefix_state c) = (r, n, c1)" by (metis prod_cases3)
  have "scratch_only c c1" using rep_prefix_scratch [OF p] scratch_only_trans [OF scratch_only_updates(4)] by blast
  then show thesis using that p assms
    by (auto simp: decode_rep_in_def decode_rep_prefix_def split: prod.splits if_splits)
qed

lemma rep_replayable: "replayable (decode_rep_in s)"
proof
  fix c code i d
  assume a: "decode_rep_in s c code = (i, d)"
  obtain r n c1 where p: "rep_prefix_loop code 0 0 (cpu_reset_prefix_state c) = (r, n, c1)" by (metis prod_cases3)
  have c1: "scratch_only c c1" using rep_prefix_scratch [OF p] scratch_only_trans [OF scratch_only_updates(4)] by blast
  have "scratch_only c (raise_ud_ctx c1)" "scratch_only c (raise_gp_ctx c1 0)"
    by (rule scratch_only_trans [OF c1 scratch_only_fault], rule raise_fault_only)+
  then show "scratch_only c d"
    using a p scratch_only_trans [OF c1 replayable.scratch [OF target_replayable]]
    by (auto simp: decode_rep_in_def decode_rep_prefix_def split: prod.splits if_splits)
next
  fix c code i d c' i' d'
  assume a: "decode_rep_in s c code = (i, d)" "decode_rep_in s c' code = (i', d')" "same_mode c c'"
    "\<not> cpu_has_exception d" "\<not> cpu_has_exception d'"
  obtain r n c1 j where 1: "rep_prefix_loop code 0 0 (cpu_reset_prefix_state c) = (r, n, c1)" "scratch_only c c1"
    "decode_target_in s (code ! n) c1 code = (j, d)" "i = j\<lparr>di_opcode := code ! n, di_mandatory_prefix := r\<rparr>"
    using rep_opened [OF a(1,4)] by metis
  obtain r' n' c1' j' where 2: "rep_prefix_loop code 0 0 (cpu_reset_prefix_state c') = (r', n', c1')" "scratch_only c' c1'"
    "decode_target_in s (code ! n') c1' code = (j', d')" "i' = j'\<lparr>di_opcode := code ! n', di_mandatory_prefix := r'\<rparr>"
    using rep_opened [OF a(2,5)] by metis
  have e: "r = r'" "n = n'" using rep_prefix_stable [OF reset_agrees [OF a(3)] 1(1) 2(1)] by simp_all
  have "same_static j j' \<and> agrees d d' \<and> last_inst_size d = last_inst_size d'"
    using replayable.stable [OF target_replayable 1(3) 2(3) [folded e] scratch_same_mode [OF 1(2) 2(2) a(3)] a(4,5)] .
  then show "same_static i i' \<and> agrees d d' \<and> last_inst_size d = last_inst_size d'"
    unfolding 1(4) 2(4) e by (cases j; cases j') (simp add: same_static_def)
next
  fix c code i d
  assume a: "decode_rep_in s c code = (i, d)" "\<not> cpu_has_exception d"
  obtain r n c1 j where 1: "decode_target_in s (code ! n) c1 code = (j, d)" "i = j\<lparr>di_opcode := code ! n, di_mandatory_prefix := r\<rparr>"
    using rep_opened [OF a] by metis
  show "addressed d i (last_inst_size d)"
    using replayable.address [OF target_replayable 1(1) a(2)]
    by (simp add: 1(2) addressed_def memory_form_def effective_address_def)
qed

lemma decode_rep_segment: "decode_rep_for_fast c code = decode_rep_in (source_segment c) c code"
proof -
  obtain r n c1 where p: "rep_prefix_loop code 0 0 (cpu_reset_prefix_state c) = (r, n, c1)" by (metis prod_cases3)
  have s: "source_segment c1 = source_segment c"
    using rep_prefix_scratch [OF p] scratch_only_trans [OF scratch_only_updates(4)] scratch_segment by blast
  show ?thesis
    unfolding decode_rep_for_fast_def decode_rep_in_def decode_rep_prefix_def p prod.case
    by (simp add: decode_rep_target_def decode_target_in_def decode_movs_instruction_def decode_cmps_instruction_def
        decode_lods_instruction_def decode_string_segment s)
qed

definition rep_run :: "callbacks \<Rightarrow> cpueaxh_engine \<Rightarrow> DecodedInstruction \<Rightarrow> cpueaxh_engine" where
  "rep_run cb e inst =
     (if di_mandatory_prefix inst \<noteq> 0xF2 \<and> di_mandatory_prefix inst \<noteq> 0xF3 then on_ctx raise_ud_ctx e
      else case get_rep_count (di_address_size inst) e of
             (count, e1) \<Rightarrow> rep_loop cb (di_opcode inst) (di_mandatory_prefix inst) inst (unat count) e1)"

lemma rep_iteration_inst:
  "execute_rep_iteration_with_decoded cb e opc (i\<lparr>di_opcode := x, di_mandatory_prefix := y\<rparr>) =
     execute_rep_iteration_with_decoded cb e opc i"
  by (simp add: execute_rep_iteration_with_decoded_def execute_movs_with_decoded_def execute_cmps_with_decoded_def
      execute_stos_with_decoded_def execute_lods_with_decoded_def execute_scas_with_decoded_def immediate_segment_def)

lemma rep_loop_inst:
  "rep_loop cb opc p (i\<lparr>di_opcode := x, di_mandatory_prefix := y\<rparr>) n e = rep_loop cb opc p i n e"
  by (induction n arbitrary: e) (simp_all add: rep_iteration_inst Let_def)

lemma rep_decoding:
  assumes "\<not> cpu_has_exception (snd (decode_rep_for_fast (cpu_ctx e) code))"
  shows "execute_decoding decode_rep_for_fast rep_run cb e code = execute_rep cb e code"
proof -
  obtain i d where a: "decode_rep_for_fast (cpu_ctx e) code = (i, d)" by force
  obtain r n c1 j where 1: "rep_prefix_loop code 0 0 (cpu_reset_prefix_state (cpu_ctx e)) = (r, n, c1)"
    "r = 0xF2 \<or> r = 0xF3" "n < length code" "is_rep_string_opcode (code ! n)"
    using rep_opened [OF a [unfolded decode_rep_segment]] a assms by (metis snd_conv)
  obtain j d where t: "decode_rep_target c1 (code ! n) code = (j, d)" by force
  have "decode_rep_for_fast (cpu_ctx e) code = (j\<lparr>di_opcode := code ! n, di_mandatory_prefix := r\<rparr>, d)"
    using 1 t by (auto simp: decode_rep_for_fast_def decode_rep_prefix_def)
  then show ?thesis using assms 1 t
    by (auto simp: execute_decoding_def execute_rep_def decode_rep_prefix_def rep_run_def rep_loop_inst split: prod.splits)
qed

lemma rep_replays_in_segment: "replays_in_segment decode_rep_for_fast execute_rep execute_rep_fast"
proof -
  have "replays_in_segment decode_rep_for_fast (execute_decoding decode_rep_for_fast rep_run) (execute_cached rep_run)"
    by (rule replays_in_segmentI [where d = decode_rep_in, OF rep_replayable decode_rep_segment])
  moreover have "execute_rep_fast = execute_cached rep_run"
    by (simp add: execute_rep_fast_def rep_run_def [abs_def])
  ultimately show ?thesis by (auto simp: replays_in_segment_def rep_decoding)
qed

end
