(* ===== verification/Bits.thy ===== *)
theory Bits
  imports StringSpec
begin

text \<open>
  Bit and byte operations: BSWAP (\<^verbatim>\<open>instructions/bswap.hpp\<close>), BSF, BSR, TZCNT and LZCNT (\<^verbatim>\<open>bsf.hpp\<close>), POPCNT
  (\<^verbatim>\<open>popcnt.hpp\<close>), BT, BTS, BTR and BTC (\<^verbatim>\<open>bt.hpp\<close>), MOVBE (\<^verbatim>\<open>movbe.hpp\<close>), CRC32 (\<^verbatim>\<open>crc32.hpp\<close>) and XLAT
  (\<^verbatim>\<open>xlat.hpp\<close>), and the instructions without an effect: NOP (\<^verbatim>\<open>nop.hpp\<close>), PAUSE (\<^verbatim>\<open>pause.hpp\<close>) and ENDBR
  (\<^verbatim>\<open>endbr.hpp\<close>). The features the host reports by CPUID are a parameter.
\<close>

unbundle bit_operations_syntax

text \<open>
  Some prefix loops remember a repeat prefix. The bytes before the opcode are all prefixes, so a part
  at the beginning of a body can look for it there.
\<close>

definition with_prefixes :: "(u8 list \<Rightarrow> dstate \<Rightarrow> dresult) \<Rightarrow> u8 list \<Rightarrow> dstate \<Rightarrow> dresult" where
  "with_prefixes f code s = f (take (fst (snd s)) code) s"

text \<open>A bit of a register that CPUID returns.\<close>

definition cpuid_bit :: "u32 \<Rightarrow> nat \<Rightarrow> bool" where "cpuid_bit r n \<longleftrightarrow> r AND push_bit n 1 \<noteq> 0"

definition cpuid_ecx :: "host_cpuid \<Rightarrow> u32 \<Rightarrow> u32" where
  "cpuid_ecx cpuid leaf = (case cpuid leaf 0 of (eax, ebx, ecx, edx) \<Rightarrow> ecx)"

text \<open>A register or memory operand without an 8-bit width.\<close>

definition read_rm_wide :: "callbacks \<Rightarrow> u8 \<Rightarrow> u64 \<Rightarrow> int \<Rightarrow> cpueaxh_engine \<Rightarrow> u64 \<times> cpueaxh_engine" where
  [operand_defs]: "read_rm_wide cb modrm mem_addr operand_size e =
     (if operand_size \<in> {16, 32, 64} then read_rm_sized cb modrm mem_addr operand_size e else (0, on_ctx raise_ud_ctx e))"

definition read_mem_wide :: "callbacks \<Rightarrow> u64 \<Rightarrow> int \<Rightarrow> cpueaxh_engine \<Rightarrow> u64 \<times> cpueaxh_engine" where
  [operand_defs]: "read_mem_wide cb mem_addr operand_size e =
     (if operand_size \<in> {16, 32, 64} then read_mem_sized cb mem_addr operand_size e else (0, on_ctx raise_ud_ctx e))"

definition write_mem_wide :: "callbacks \<Rightarrow> u64 \<Rightarrow> int \<Rightarrow> u64 \<Rightarrow> cpueaxh_engine \<Rightarrow> cpueaxh_engine" where
  [operand_defs]: "write_mem_wide cb mem_addr operand_size v e =
     (if operand_size \<in> {16, 32, 64} then write_mem_sized cb mem_addr operand_size v e else on_ctx raise_ud_ctx e)"

definition wide_mask :: "int \<Rightarrow> cpueaxh_engine \<Rightarrow> u64 \<times> cpueaxh_engine" where
  "wide_mask operand_size e =
     (if operand_size = 16 then (0xFFFF, e) else if operand_size = 32 then (0xFFFFFFFF, e)
      else if operand_size = 64 then (0xFFFFFFFFFFFFFFFF, e) else (0, on_ctx raise_ud_ctx e))"

subsection \<open>BSWAP\<close>

definition decode_bswap_reg_index :: "CPU_CONTEXT \<Rightarrow> u8 \<Rightarrow> nat" where
  "decode_bswap_reg_index c opc = (let r = opc - 0xC8 in unat (if rex_b c then r OR 0x08 else r))"

definition byteswap32_bswap :: "u32 \<Rightarrow> u32" where
  "byteswap32_bswap v =
     push_bit 24 (v AND 0x000000FF) OR push_bit 8 (v AND 0x0000FF00) OR drop_bit 8 (v AND 0x00FF0000) OR
     drop_bit 24 (v AND 0xFF000000)"

definition byteswap64_bswap :: "u64 \<Rightarrow> u64" where
  "byteswap64_bswap v =
     push_bit 56 (v AND 0x00000000000000FF) OR push_bit 40 (v AND 0x000000000000FF00) OR
     push_bit 24 (v AND 0x0000000000FF0000) OR push_bit 8 (v AND 0x00000000FF000000) OR
     drop_bit 8 (v AND 0x000000FF00000000) OR drop_bit 24 (v AND 0x0000FF0000000000) OR
     drop_bit 40 (v AND 0x00FF000000000000) OR drop_bit 56 (v AND 0xFF00000000000000)"

definition bswap_size :: "CPU_CONTEXT \<Rightarrow> int" where "bswap_size c = (if rex_w c then 64 else 32)"

definition decode_bswap_body :: "bool \<Rightarrow> u8 list \<Rightarrow> dstate \<Rightarrow> dresult" where
  "decode_bswap_body lock code =
     decode_seq [second_opcode (\<lambda>opc. 0xC8 \<le> opc \<and> opc \<le> 0xCF) code, ud_if lock,
                 with_inst_ctx (\<lambda>c i. i\<lparr>di_operand_size := bswap_size c\<rparr>), note_inst_size]"

definition decode_bswap_instruction ::
  "CPU_CONTEXT \<Rightarrow> u8 list \<Rightarrow> DecodedInstruction \<times> CPU_CONTEXT" where
  "decode_bswap_instruction = decode_with apply_rex_byte id decode_bswap_body"
definition execute_bswap_with_decoded ::
  "callbacks \<Rightarrow> cpueaxh_engine \<Rightarrow> DecodedInstruction \<Rightarrow> cpueaxh_engine" where
  "execute_bswap_with_decoded cb e inst =
     on_ctx (\<lambda>c. let r = decode_bswap_reg_index c (di_opcode inst)
                 in if di_operand_size inst = 64 then set_reg64 c r (byteswap64_bswap (get_reg64 c r))
                    else set_reg32 c r (byteswap32_bswap (get_reg32 c r))) e"
definition execute_bswap ::
  "callbacks \<Rightarrow> cpueaxh_engine \<Rightarrow> u8 list \<Rightarrow> cpueaxh_engine" where
  "execute_bswap = execute_decoding decode_bswap_instruction execute_bswap_with_decoded"
definition execute_bswap_fast ::
  "callbacks \<Rightarrow> cpueaxh_engine \<Rightarrow> DecodedInst \<Rightarrow> cpueaxh_engine" where
  "execute_bswap_fast = execute_cached execute_bswap_with_decoded"

subsection \<open>BSF, BSR, TZCNT and LZCNT\<close>

definition decode_bsf_rm_index :: "CPU_CONTEXT \<Rightarrow> u8 \<Rightarrow> nat" where
  "decode_bsf_rm_index = rm_index"
definition decode_bsf_reg_index :: "CPU_CONTEXT \<Rightarrow> u8 \<Rightarrow> nat" where
  "decode_bsf_reg_index = reg_index"
definition read_bsf_rm_operand ::
  "callbacks \<Rightarrow> u8 \<Rightarrow> u64 \<Rightarrow> int \<Rightarrow> cpueaxh_engine \<Rightarrow> u64 \<times> cpueaxh_engine" where
  [insn_defs]: "read_bsf_rm_operand = read_rm_wide"
definition write_bsf_reg_operand ::
  "u8 \<Rightarrow> int \<Rightarrow> u64 \<Rightarrow> CPU_CONTEXT \<Rightarrow> CPU_CONTEXT" where
  [insn_defs]: "write_bsf_reg_operand = write_reg_wide"
definition get_bsf_operand_mask :: "int \<Rightarrow> cpueaxh_engine \<Rightarrow> u64 \<times> cpueaxh_engine" where
  [insn_defs]: "get_bsf_operand_mask = wide_mask"

definition cpu_has_bmi1_feature :: "host_cpuid \<Rightarrow> bool" where
  "cpu_has_bmi1_feature cpuid =
     (case cpuid 0 0 of (eax, _) \<Rightarrow> if eax <s 7 then False else case cpuid 7 0 of (_, ebx, _) \<Rightarrow> cpuid_bit ebx 3)"

definition cpu_has_lzcnt_feature :: "host_cpuid \<Rightarrow> bool" where
  "cpu_has_lzcnt_feature cpuid =
     (case cpuid 0x80000000 0 of (eax, _) \<Rightarrow>
        if eax < 0x80000001 then False else cpuid_bit (cpuid_ecx cpuid 0x80000001) 5)"

text \<open>The loops over the bits stop at the first one that is set.\<close>

definition first_set :: "u64 \<Rightarrow> nat list \<Rightarrow> nat option" where
  "first_set v bits = List.find (\<lambda>i. drop_bit i v AND 1 \<noteq> 0) bits"

definition scan_forward_bsf :: "u64 \<Rightarrow> int \<Rightarrow> u64" where
  "scan_forward_bsf v operand_size = (case first_set v [0..<nat operand_size] of Some i \<Rightarrow> of_nat i | None \<Rightarrow> 0)"
definition scan_reverse_bsf :: "u64 \<Rightarrow> int \<Rightarrow> u64" where
  "scan_reverse_bsf v operand_size = (case first_set v (rev [0..<nat operand_size]) of Some i \<Rightarrow> of_nat i | None \<Rightarrow> 0)"
definition count_trailing_zeros_bsf :: "u64 \<Rightarrow> int \<Rightarrow> u64" where
  "count_trailing_zeros_bsf v operand_size =
     (case first_set v [0..<nat operand_size] of Some i \<Rightarrow> of_nat i | None \<Rightarrow> word_of_int operand_size)"
definition count_leading_zeros_bsf :: "u64 \<Rightarrow> int \<Rightarrow> u64" where
  "count_leading_zeros_bsf v operand_size =
     (case first_set v (rev [0..<nat operand_size]) of
        Some i \<Rightarrow> word_of_int (operand_size - 1 - int i) | None \<Rightarrow> word_of_int operand_size)"

definition decode_modrm_bsf :: "bool \<Rightarrow> u8 list \<Rightarrow> dstate \<Rightarrow> dresult" where
  "decode_modrm_bsf = decode_modrm_unlocked"

definition decode_bsf_body :: "bool \<Rightarrow> u8 list \<Rightarrow> dstate \<Rightarrow> dresult" where
  "decode_bsf_body lock code =
     with_prefixes (\<lambda>prefixes. decode_seq
       [with_inst (\<lambda>i. if 0xF3 \<in> set prefixes then i\<lparr>di_mandatory_prefix := 0xF3\<rparr> else i),
        second_opcode (\<lambda>opc. opc = 0xBC \<or> opc = 0xBD) code, set_sizes default_operand_size default_address_size,
        decode_modrm_bsf lock code, note_inst_size]) code"

definition decode_bsf_instruction ::
  "CPU_CONTEXT \<Rightarrow> u8 list \<Rightarrow> DecodedInstruction \<times> CPU_CONTEXT" where
  "decode_bsf_instruction = decode_with apply_rex_byte id decode_bsf_body"

definition execute_bsf_with_decoded :: "host_cpuid \<Rightarrow> callbacks \<Rightarrow> cpueaxh_engine \<Rightarrow> DecodedInstruction \<Rightarrow> cpueaxh_engine" where
  "execute_bsf_with_decoded cpuid cb e inst =
     (let n = di_operand_size inst; opc = di_opcode inst
      in case read_bsf_rm_operand cb (di_modrm inst) (di_mem_address inst) n e of (v, e1) \<Rightarrow>
         case get_bsf_operand_mask n e1 of (omask, e2) \<Rightarrow>
         let source = v AND omask; write = write_bsf_reg_operand (di_modrm inst) n
         in if cpu_has_exception (cpu_ctx e2) then e2
            else if di_mandatory_prefix inst = 0xF3 \<and>
                    (opc = 0xBC \<and> cpu_has_bmi1_feature cpuid \<or> opc = 0xBD \<and> cpu_has_lzcnt_feature cpuid)
            then let result = (if opc = 0xBC then count_trailing_zeros_bsf source n else count_leading_zeros_bsf source n)
                 in on_ctx (\<lambda>c. set_flag (set_flag (write result c) RFLAGS_CF (source = 0)) RFLAGS_ZF (result = 0)) e2
            else if source = 0 then on_ctx (\<lambda>c. set_flag c RFLAGS_ZF True) e2
            else let result = (if opc = 0xBC then scan_forward_bsf source n else scan_reverse_bsf source n)
                 in on_ctx (\<lambda>c. set_flag (write result c) RFLAGS_ZF False) e2)"

definition execute_bsf :: "host_cpuid \<Rightarrow> callbacks \<Rightarrow> cpueaxh_engine \<Rightarrow> u8 list \<Rightarrow> cpueaxh_engine" where
  "execute_bsf cpuid = execute_decoding decode_bsf_instruction (execute_bsf_with_decoded cpuid)"
definition execute_bsf_fast :: "host_cpuid \<Rightarrow> callbacks \<Rightarrow> cpueaxh_engine \<Rightarrow> DecodedInst \<Rightarrow> cpueaxh_engine" where
  "execute_bsf_fast cpuid = execute_cached (execute_bsf_with_decoded cpuid)"

subsection \<open>POPCNT\<close>

definition cpu_has_popcnt_feature :: "host_cpuid \<Rightarrow> bool" where
  "cpu_has_popcnt_feature cpuid = cpuid_bit (cpuid_ecx cpuid 1) 23"

definition decode_popcnt_rm_index :: "CPU_CONTEXT \<Rightarrow> u8 \<Rightarrow> nat" where
  "decode_popcnt_rm_index = rm_index"
definition decode_popcnt_reg_index :: "CPU_CONTEXT \<Rightarrow> u8 \<Rightarrow> nat" where
  "decode_popcnt_reg_index = reg_index"
definition read_popcnt_rm_operand ::
  "callbacks \<Rightarrow> u8 \<Rightarrow> u64 \<Rightarrow> int \<Rightarrow> cpueaxh_engine \<Rightarrow> u64 \<times> cpueaxh_engine" where
  [insn_defs]: "read_popcnt_rm_operand = read_rm_wide"
definition write_popcnt_reg_operand ::
  "u8 \<Rightarrow> int \<Rightarrow> u64 \<Rightarrow> CPU_CONTEXT \<Rightarrow> CPU_CONTEXT" where
  [insn_defs]: "write_popcnt_reg_operand = write_reg_wide"

definition decode_modrm_popcnt :: "bool \<Rightarrow> u8 list \<Rightarrow> dstate \<Rightarrow> dresult" where
  "decode_modrm_popcnt = decode_modrm_unlocked"

definition decode_popcnt_body :: "bool \<Rightarrow> u8 list \<Rightarrow> dstate \<Rightarrow> dresult" where
  "decode_popcnt_body lock code =
     with_prefixes (\<lambda>prefixes. decode_seq
       [ud_if (0xF2 \<in> set prefixes \<or> 0xF3 \<notin> set prefixes), opcode_pair code,
        by_opcode (\<lambda>opc. opc = 0xB8) Inr (ud_if True), set_sizes default_operand_size default_address_size,
        decode_modrm_popcnt lock code, note_inst_size]) code"

definition decode_popcnt_instruction ::
  "CPU_CONTEXT \<Rightarrow> u8 list \<Rightarrow> DecodedInstruction \<times> CPU_CONTEXT" where
  "decode_popcnt_instruction = decode_with apply_rex_byte id decode_popcnt_body"

definition popcnt_count_bits :: "u64 \<Rightarrow> int \<Rightarrow> u64" where
  "popcnt_count_bits v operand_size = foldl (\<lambda>count i. count + (drop_bit i v AND 1)) 0 [0..<nat operand_size]"

definition execute_popcnt_with_decoded :: "host_cpuid \<Rightarrow> callbacks \<Rightarrow> cpueaxh_engine \<Rightarrow> DecodedInstruction \<Rightarrow> cpueaxh_engine" where
  "execute_popcnt_with_decoded cpuid cb e inst =
     (if \<not> cpu_has_popcnt_feature cpuid then on_ctx raise_ud_ctx e
      else let n = di_operand_size inst
           in case read_popcnt_rm_operand cb (di_modrm inst) (di_mem_address inst) n e of (source, e1) \<Rightarrow>
              if cpu_has_exception (cpu_ctx e1) then e1
              else on_ctx (\<lambda>c. let c1 = write_popcnt_reg_operand (di_modrm inst) n (popcnt_count_bits source n) c
                               in set_flag (set_flag (set_flag (set_flag (set_flag (set_flag c1
                                    RFLAGS_CF False) RFLAGS_PF False) RFLAGS_AF False) RFLAGS_ZF (source = 0))
                                    RFLAGS_SF False) RFLAGS_OF False) e1)"

definition execute_popcnt :: "host_cpuid \<Rightarrow> callbacks \<Rightarrow> cpueaxh_engine \<Rightarrow> u8 list \<Rightarrow> cpueaxh_engine" where
  "execute_popcnt cpuid = execute_decoding decode_popcnt_instruction (execute_popcnt_with_decoded cpuid)"
definition execute_popcnt_fast :: "host_cpuid \<Rightarrow> callbacks \<Rightarrow> cpueaxh_engine \<Rightarrow> DecodedInst \<Rightarrow> cpueaxh_engine" where
  "execute_popcnt_fast cpuid = execute_cached (execute_popcnt_with_decoded cpuid)"

subsection \<open>BT, BTS, BTR and BTC\<close>

datatype BitTestOperation = BIT_TEST_OP_BT | BIT_TEST_OP_BTS | BIT_TEST_OP_BTR | BIT_TEST_OP_BTC

definition decode_bt_rm_index :: "CPU_CONTEXT \<Rightarrow> u8 \<Rightarrow> nat" where
  "decode_bt_rm_index = rm_index"
definition decode_bt_reg_index :: "CPU_CONTEXT \<Rightarrow> u8 \<Rightarrow> nat" where
  "decode_bt_reg_index = reg_index"
definition get_bt_operand_mask :: "int \<Rightarrow> cpueaxh_engine \<Rightarrow> u64 \<times> cpueaxh_engine" where
  [insn_defs]: "get_bt_operand_mask = wide_mask"
definition read_bt_memory_value ::
  "callbacks \<Rightarrow> u64 \<Rightarrow> int \<Rightarrow> cpueaxh_engine \<Rightarrow> u64 \<times> cpueaxh_engine" where
  [insn_defs]: "read_bt_memory_value = read_mem_wide"
definition write_bt_memory_value ::
  "callbacks \<Rightarrow> u64 \<Rightarrow> int \<Rightarrow> u64 \<Rightarrow> cpueaxh_engine \<Rightarrow> cpueaxh_engine" where
  [insn_defs]: "write_bt_memory_value = write_mem_wide"
definition read_bt_rm_value ::
  "callbacks \<Rightarrow> u8 \<Rightarrow> u64 \<Rightarrow> int \<Rightarrow> cpueaxh_engine \<Rightarrow> u64 \<times> cpueaxh_engine" where
  [insn_defs]: "read_bt_rm_value = read_rm_wide"
definition write_bt_rm_value ::
  "callbacks \<Rightarrow> u8 \<Rightarrow> u64 \<Rightarrow> int \<Rightarrow> u64 \<Rightarrow> cpueaxh_engine \<Rightarrow> cpueaxh_engine" where
  [insn_defs]: "write_bt_rm_value cb modrm mem_addr operand_size v e =
     (if operand_size \<in> {16, 32, 64} then write_rm_sized cb modrm mem_addr operand_size v e else on_ctx raise_ud_ctx e)"
definition read_bt_source_register ::
  "u8 \<Rightarrow> int \<Rightarrow> cpueaxh_engine \<Rightarrow> u64 \<times> cpueaxh_engine" where
  [insn_defs]: "read_bt_source_register = read_reg_wide"

definition sign_extend_bt_source :: "u64 \<Rightarrow> int \<Rightarrow> cpueaxh_engine \<Rightarrow> int \<times> cpueaxh_engine" where
  "sign_extend_bt_source v operand_size e =
     (if operand_size = 16 then (sint (ucast v :: u16), e) else if operand_size = 32 then (sint (ucast v :: u32), e)
      else if operand_size = 64 then (sint v, e) else (0, on_ctx raise_ud_ctx e))"

text \<open>The magnitude of a negative index is computed without overflow, for the least one too.\<close>

definition floor_div_bt_index :: "int \<Rightarrow> int \<Rightarrow> int" where
  "floor_div_bt_index v divisor =
     (if 0 \<le> v then v div divisor else let magnitude = - (v + 1) + 1 in - ((magnitude + divisor - 1) div divisor))"

definition add_bt_signed_offset :: "u64 \<Rightarrow> int \<Rightarrow> u64" where
  "add_bt_signed_offset base byte_offset =
     (if 0 \<le> byte_offset then base + word_of_int byte_offset else base - word_of_int (- byte_offset))"

definition bt_group_operation :: "u8 \<Rightarrow> BitTestOperation option" where
  "bt_group_operation ext =
     (if ext = 4 then Some BIT_TEST_OP_BT else if ext = 5 then Some BIT_TEST_OP_BTS
      else if ext = 6 then Some BIT_TEST_OP_BTR else if ext = 7 then Some BIT_TEST_OP_BTC else None)"

definition bt_operation_of :: "u8 \<Rightarrow> u8 \<Rightarrow> BitTestOperation option" where
  "bt_operation_of opc modrm =
     (if opc = 0xA3 then Some BIT_TEST_OP_BT else if opc = 0xAB then Some BIT_TEST_OP_BTS
      else if opc = 0xB3 then Some BIT_TEST_OP_BTR else if opc = 0xBB then Some BIT_TEST_OP_BTC
      else if opc = 0xBA then bt_group_operation (modrm_reg modrm) else None)"

definition decode_bt_operation :: "CPU_CONTEXT \<Rightarrow> u8 \<Rightarrow> u8 \<Rightarrow> BitTestOperation \<times> CPU_CONTEXT" where
  "decode_bt_operation c opc modrm =
     (case bt_operation_of opc modrm of Some operation \<Rightarrow> (operation, c) | None \<Rightarrow> (BIT_TEST_OP_BT, raise_ud_ctx c))"

definition bt_operation_allows_lock :: "BitTestOperation \<Rightarrow> u8 \<Rightarrow> bool" where
  "bt_operation_allows_lock operation modrm \<longleftrightarrow> operation \<noteq> BIT_TEST_OP_BT \<and> modrm_mod modrm \<noteq> 3"

definition bt_apply :: "BitTestOperation \<Rightarrow> nat \<Rightarrow> u64 \<Rightarrow> u64" where
  "bt_apply operation i v =
     (case operation of BIT_TEST_OP_BT \<Rightarrow> v | BIT_TEST_OP_BTS \<Rightarrow> v OR push_bit i 1
      | BIT_TEST_OP_BTR \<Rightarrow> v AND NOT (push_bit i 1) | BIT_TEST_OP_BTC \<Rightarrow> v XOR push_bit i 1)"

text \<open>
  The LOCK forms. On host memory they are one interlocked operation, at 32 and 64 bits; otherwise they go
  through the compare-exchange loop, whose masks change nothing here because the bit lies in the operand.
\<close>

definition execute_locked_bt_memory ::
  "callbacks \<Rightarrow> BitTestOperation \<Rightarrow> u64 \<Rightarrow> int \<Rightarrow> nat \<Rightarrow> cpueaxh_engine \<Rightarrow> cpueaxh_engine option" where
  "execute_locked_bt_memory cb operation address operand_size bit_index e =
     (let checked = (\<lambda>e. if operation = BIT_TEST_OP_BT
            then case read_memory_operand_checked cb e address operand_size of
                   (ok, v, e1) \<Rightarrow> Some (if ok then on_ctx raise_ud_ctx e1 else e1)
            else case cpu_atomic_rmw_memory cb e address operand_size (bt_apply operation bit_index) of
                   None \<Rightarrow> None
                 | Some (None, e1) \<Rightarrow> Some e1
                 | Some (Some (old, new), e1) \<Rightarrow>
                     Some (on_ctx (\<lambda>c. set_flag c RFLAGS_CF (drop_bit bit_index old AND 1 \<noteq> 0)) e1))
      in if \<not> cpu_is_host_write_passthrough e then checked e
         else case get_memory_write_ptr cb e address (nat (operand_size div 8)) of
                None \<Rightarrow> None
              | Some (ptr, e1) \<Rightarrow>
                  if ptr = 0 then Some e1
                  else if operand_size \<noteq> 32 \<and> operand_size \<noteq> 64 then checked e1
                  else if operation = BIT_TEST_OP_BT then Some (on_ctx raise_ud_ctx e1)
                  else let n = nat (operand_size div 8); old = le_load (host_bytes e1 ptr n)
                       in Some (on_ctx (\<lambda>c. set_flag c RFLAGS_CF (drop_bit bit_index old AND 1 \<noteq> 0))
                            (store_at e1 (map (\<lambda>i. ptr + of_nat i) [0..<n]) (le_store n (bt_apply operation bit_index old)))))"

text \<open>The bit an instruction addresses: the bit index, the address of the element and its value.\<close>

definition bt_target ::
  "callbacks \<Rightarrow> DecodedInstruction \<Rightarrow> cpueaxh_engine \<Rightarrow> u64 \<times> u64 \<times> u64 \<times> cpueaxh_engine" where
  "bt_target cb inst e =
     (let n = di_operand_size inst; low = (\<lambda>v. v AND (word_of_int n - 1)); a = di_mem_address inst; m = di_modrm inst
      in if modrm_mod m = 3
         then case (if di_opcode inst = 0xBA then (di_immediate inst AND 0xFF, e) else read_bt_source_register m n e) of
                (raw, e1) \<Rightarrow> case read_bt_rm_value cb m a n e1 of (v, e2) \<Rightarrow> (low raw, a, v, e2)
         else case (if di_opcode inst = 0xBA then (low (di_immediate inst AND 0xFF), a, e)
                    else case read_bt_source_register m n e of (raw, e1) \<Rightarrow>
                         case sign_extend_bt_source raw n e1 of (source_index, e2) \<Rightarrow>
                           (low (word_of_int source_index),
                            add_bt_signed_offset a (floor_div_bt_index source_index n * (n div 8)), e2)) of
                (i, target, e1) \<Rightarrow> case read_bt_memory_value cb target n e1 of (v, e2) \<Rightarrow> (i, target, v, e2))"

definition execute_bt_operation :: "callbacks \<Rightarrow> cpueaxh_engine \<Rightarrow> DecodedInstruction \<Rightarrow> cpueaxh_engine option" where
  "execute_bt_operation cb e inst =
     (let n = di_operand_size inst; m = di_modrm inst
      in case decode_bt_operation (cpu_ctx e) (di_opcode inst) m of (operation, c) \<Rightarrow>
         case get_bt_operand_mask n (e\<lparr>cpu_ctx := c\<rparr>) of (omask, e1) \<Rightarrow>
         case bt_target cb inst e1 of (i, target, v, e2) \<Rightarrow>
         let v = v AND omask; bit_index = unat i
         in if cpu_has_exception (cpu_ctx e2) then Some e2
            else let e3 = on_ctx (\<lambda>c. set_flag c RFLAGS_CF (drop_bit bit_index v AND 1 \<noteq> 0)) e2
                 in if di_has_lock_prefix inst \<and> modrm_mod m \<noteq> 3
                    then execute_locked_bt_memory cb operation target n bit_index e3
                    else if operation = BIT_TEST_OP_BT then Some e3
                    else let result = bt_apply operation bit_index v AND omask
                         in Some (if modrm_mod m = 3 then write_bt_rm_value cb m (di_mem_address inst) n result e3
                                  else write_bt_memory_value cb target n result e3))"

definition decode_modrm_bt :: "u8 list \<Rightarrow> dstate \<Rightarrow> dresult" where "decode_modrm_bt = decode_modrm_plain"

text \<open>The check of the operation after the immediate, and the LOCK prefix.\<close>

definition bt_check :: "bool \<Rightarrow> DecodedInstruction \<Rightarrow> CPU_CONTEXT \<Rightarrow> CPU_CONTEXT" where
  "bt_check lock inst c =
     (case decode_bt_operation c (di_opcode inst) (di_modrm inst) of (operation, c1) \<Rightarrow>
        if lock \<and> \<not> bt_operation_allows_lock operation (di_modrm inst) then raise_ud_ctx c1 else c1)"

definition decode_bt_body :: "bool \<Rightarrow> u8 list \<Rightarrow> dstate \<Rightarrow> dresult" where
  "decode_bt_body lock code =
     decode_seq
       [second_opcode (\<lambda>opc. opc = 0xA3 \<or> opc = 0xAB \<or> opc = 0xB3 \<or> opc = 0xBB \<or> opc = 0xBA) code,
        set_sizes default_operand_size default_address_size, decode_modrm_bt code,
        by_opcode (\<lambda>opc. opc = 0xBA) (decode_seq [ud_when (\<lambda>i _. modrm_reg (di_modrm i) < 4), decode_imm 1 code]) Inr,
        (\<lambda>s. case s of (inst, offset, c) \<Rightarrow> Inr (inst, offset, bt_check lock inst c)),
        with_inst (\<lambda>i. i\<lparr>di_has_lock_prefix := lock\<rparr>), note_inst_size]"

definition decode_bt_instruction ::
  "CPU_CONTEXT \<Rightarrow> u8 list \<Rightarrow> DecodedInstruction \<times> CPU_CONTEXT" where
  "decode_bt_instruction = decode_with apply_rex_byte id decode_bt_body"
definition execute_bt_with_decoded ::
  "callbacks \<Rightarrow> cpueaxh_engine \<Rightarrow> DecodedInstruction \<Rightarrow> cpueaxh_engine option" where
  "execute_bt_with_decoded = execute_bt_operation"
definition execute_bt ::
  "callbacks \<Rightarrow> cpueaxh_engine \<Rightarrow> u8 list \<Rightarrow> cpueaxh_engine option" where
  "execute_bt = execute_decoding_opt decode_bt_instruction execute_bt_with_decoded"
definition execute_bt_fast ::
  "callbacks \<Rightarrow> cpueaxh_engine \<Rightarrow> DecodedInst \<Rightarrow> cpueaxh_engine option" where
  "execute_bt_fast = execute_cached execute_bt_with_decoded"

subsection \<open>The three-byte opcodes: CRC32 and MOVBE\<close>

definition is_0f38_f0_f1 :: "u8 list \<Rightarrow> nat \<Rightarrow> bool" where
  "is_0f38_f0_f1 code prefix_len \<longleftrightarrow>
     prefix_len + 3 < length code \<and> code ! prefix_len = 0x0F \<and> code ! (prefix_len + 1) = 0x38 \<and>
     (code ! (prefix_len + 2) = 0xF0 \<or> code ! (prefix_len + 2) = 0xF1)"

definition is_crc32_instruction :: "u8 list \<Rightarrow> nat \<Rightarrow> bool" where "is_crc32_instruction = is_0f38_f0_f1"
definition is_movbe_instruction :: "u8 list \<Rightarrow> nat \<Rightarrow> bool" where "is_movbe_instruction = is_0f38_f0_f1"

definition cpu_has_sse42_feature :: "host_cpuid \<Rightarrow> bool" where
  "cpu_has_sse42_feature cpuid = cpuid_bit (cpuid_ecx cpuid 1) 20"
definition cpu_has_movbe_feature :: "host_cpuid \<Rightarrow> bool" where
  "cpu_has_movbe_feature cpuid = cpuid_bit (cpuid_ecx cpuid 1) 22"

text \<open>The two decoders return at the first check that fails.\<close>

definition decode_0f38 ::
  "bool \<Rightarrow> (LegacyPrefixState \<Rightarrow> bool) \<Rightarrow> (CPU_CONTEXT \<Rightarrow> u8 \<Rightarrow> int) \<Rightarrow> bool \<Rightarrow> CPU_CONTEXT \<Rightarrow> u8 list \<Rightarrow>
   DecodedInstruction \<times> CPU_CONTEXT" where
  "decode_0f38 feature accepts osize register_form c code =
     (case decode_legacy_prefixes c code 0 of
        (prefixes, n, c1) \<Rightarrow>
          let opc = code ! (n + 2); inst = zero_decoded_instruction\<lparr>di_opcode := opc\<rparr>
          in if \<not> accepts prefixes \<or> \<not> feature then (zero_decoded_instruction, raise_ud_ctx c1)
             else if length code < n + 4 then (zero_decoded_instruction, raise_gp_ctx c1 0)
             else if code ! n \<noteq> 0x0F \<or> code ! (n + 1) \<noteq> 0x38 then (zero_decoded_instruction, raise_ud_ctx c1)
             else if opc \<noteq> 0xF0 \<and> opc \<noteq> 0xF1 then (inst, raise_ud_ctx c1)
             else case decode_modrm_common c1
                         (inst\<lparr>di_address_size := default_address_size c1, di_operand_size := osize c1 opc\<rparr>)
                         code (n + 3) register_form of
                    (inst1, m, c2) \<Rightarrow>
                      if cpu_has_exception c2 then (inst1, c2)
                      else case finalize_rip_relative_address c2 (inst1\<lparr>di_inst_size := int m\<rparr>) (int m) of
                             (c3, inst2) \<Rightarrow> (inst2, c3\<lparr>last_inst_size := int m\<rparr>))"

definition crc32_size :: "CPU_CONTEXT \<Rightarrow> u8 \<Rightarrow> int" where
  "crc32_size c opc = (if opc = 0xF0 then 8 else default_operand_size c)"

definition decode_crc32_instruction :: "host_cpuid \<Rightarrow> CPU_CONTEXT \<Rightarrow> u8 list \<Rightarrow> DecodedInstruction \<times> CPU_CONTEXT" where
  "decode_crc32_instruction cpuid =
     decode_0f38 (cpu_has_sse42_feature cpuid) (\<lambda>p. \<not> (lp_has_lock p \<or> lp_has_f3 p \<or> \<not> lp_has_f2 p)) crc32_size True"

definition decode_movbe_instruction :: "host_cpuid \<Rightarrow> CPU_CONTEXT \<Rightarrow> u8 list \<Rightarrow> DecodedInstruction \<times> CPU_CONTEXT" where
  "decode_movbe_instruction cpuid =
     decode_0f38 (cpu_has_movbe_feature cpuid) (\<lambda>p. \<not> (lp_has_lock p \<or> lp_has_f2 p \<or> lp_has_f3 p))
       (\<lambda>c _. default_operand_size c) False"

definition decode_crc32_reg_index :: "CPU_CONTEXT \<Rightarrow> u8 \<Rightarrow> nat" where
  "decode_crc32_reg_index = reg_index"
definition decode_crc32_rm_index :: "CPU_CONTEXT \<Rightarrow> u8 \<Rightarrow> nat" where
  "decode_crc32_rm_index = rm_index"
definition decode_movbe_reg_index :: "CPU_CONTEXT \<Rightarrow> u8 \<Rightarrow> nat" where
  "decode_movbe_reg_index = reg_index"
definition decode_movbe_rm_index :: "CPU_CONTEXT \<Rightarrow> u8 \<Rightarrow> nat" where
  "decode_movbe_rm_index = rm_index"

definition read_crc32_source :: "callbacks \<Rightarrow> DecodedInstruction \<Rightarrow> cpueaxh_engine \<Rightarrow> u64 \<times> cpueaxh_engine" where
  "read_crc32_source cb inst = read_rm_sized cb (di_modrm inst) (di_mem_address inst) (di_operand_size inst)"

definition crc32c_accumulate_byte :: "u32 \<Rightarrow> u8 \<Rightarrow> u32" where
  "crc32c_accumulate_byte crc b =
     ((\<lambda>crc. drop_bit 1 crc XOR (if crc AND 1 \<noteq> 0 then 0x82F63B78 else 0)) ^^ 8) (crc XOR ucast b)"

definition crc32c_accumulate_value :: "u32 \<Rightarrow> u64 \<Rightarrow> int \<Rightarrow> u32" where
  "crc32c_accumulate_value crc v operand_size =
     foldl (\<lambda>crc i. crc32c_accumulate_byte crc (ucast (drop_bit (i * 8) v AND 0xFF))) crc [0..<nat (operand_size div 8)]"

definition execute_crc32_with_decoded :: "callbacks \<Rightarrow> cpueaxh_engine \<Rightarrow> DecodedInstruction \<Rightarrow> cpueaxh_engine" where
  "execute_crc32_with_decoded cb e inst =
     (case read_crc32_source cb inst e of (source, e1) \<Rightarrow>
        if cpu_has_exception (cpu_ctx e1) then e1
        else on_ctx (\<lambda>c. let dest = decode_crc32_reg_index c (di_modrm inst);
                             crc = (if rex_w c then ucast (get_reg64 c dest) else get_reg32 c dest);
                             result = crc32c_accumulate_value crc source (di_operand_size inst)
                         in if rex_w c then set_reg64 c dest (ucast result) else set_reg32 c dest result) e1)"

definition execute_crc32 :: "host_cpuid \<Rightarrow> callbacks \<Rightarrow> cpueaxh_engine \<Rightarrow> u8 list \<Rightarrow> cpueaxh_engine" where
  "execute_crc32 cpuid = execute_decoding (decode_crc32_instruction cpuid) execute_crc32_with_decoded"

definition movbe_swap16 :: "u16 \<Rightarrow> u16" where "movbe_swap16 v = drop_bit 8 v OR push_bit 8 v"

definition movbe_swap32 :: "u32 \<Rightarrow> u32" where
  "movbe_swap32 v =
     push_bit 24 (v AND 0x000000FF) OR push_bit 8 (v AND 0x0000FF00) OR drop_bit 8 (v AND 0x00FF0000) OR
     drop_bit 24 (v AND 0xFF000000)"

definition movbe_swap64 :: "u64 \<Rightarrow> u64" where
  "movbe_swap64 v = push_bit 32 (ucast (movbe_swap32 (ucast v))) OR ucast (movbe_swap32 (ucast (drop_bit 32 v)))"

definition movbe_swap :: "int \<Rightarrow> u64 \<Rightarrow> u64" where
  "movbe_swap operand_size v =
     (if operand_size = 16 then ucast (movbe_swap16 (ucast v)) else if operand_size = 32 then ucast (movbe_swap32 (ucast v))
      else movbe_swap64 v)"

definition read_movbe_memory :: "callbacks \<Rightarrow> DecodedInstruction \<Rightarrow> cpueaxh_engine \<Rightarrow> u64 \<times> cpueaxh_engine" where
  "read_movbe_memory cb inst e =
     (let n = di_operand_size inst
      in if n \<in> {16, 32, 64} then map_prod (movbe_swap n) id (read_mem_sized cb (di_mem_address inst) n e)
         else (0, on_ctx raise_ud_ctx e))"
definition read_movbe_reg :: "DecodedInstruction \<Rightarrow> cpueaxh_engine \<Rightarrow> u64 \<times> cpueaxh_engine" where
  "read_movbe_reg inst = read_reg_wide (di_modrm inst) (di_operand_size inst)"
definition write_movbe_reg :: "DecodedInstruction \<Rightarrow> u64 \<Rightarrow> cpueaxh_engine \<Rightarrow> cpueaxh_engine" where
  "write_movbe_reg inst v = on_ctx (write_reg_wide (di_modrm inst) (di_operand_size inst) v)"
definition write_movbe_memory :: "callbacks \<Rightarrow> DecodedInstruction \<Rightarrow> u64 \<Rightarrow> cpueaxh_engine \<Rightarrow> cpueaxh_engine" where
  "write_movbe_memory cb inst v e =
     (let n = di_operand_size inst
      in if n \<in> {16, 32, 64} then write_mem_sized cb (di_mem_address inst) n (movbe_swap n v) e else on_ctx raise_ud_ctx e)"

definition execute_movbe_with_decoded :: "callbacks \<Rightarrow> cpueaxh_engine \<Rightarrow> DecodedInstruction \<Rightarrow> cpueaxh_engine" where
  "execute_movbe_with_decoded cb e inst =
     (if di_opcode inst = 0xF0
      then case read_movbe_memory cb inst e of (v, e1) \<Rightarrow>
             if cpu_has_exception (cpu_ctx e1) then e1 else write_movbe_reg inst v e1
      else case read_movbe_reg inst e of (v, e1) \<Rightarrow>
             if cpu_has_exception (cpu_ctx e1) then e1 else write_movbe_memory cb inst v e1)"

definition execute_movbe :: "host_cpuid \<Rightarrow> callbacks \<Rightarrow> cpueaxh_engine \<Rightarrow> u8 list \<Rightarrow> cpueaxh_engine" where
  "execute_movbe cpuid = execute_decoding (decode_movbe_instruction cpuid) execute_movbe_with_decoded"

subsection \<open>XLAT\<close>

definition decode_xlat_address_size :: "CPU_CONTEXT \<Rightarrow> int" where "decode_xlat_address_size = default_address_size"
definition decode_xlat_segment_override :: "u8 \<Rightarrow> int" where "decode_xlat_segment_override = cpu_decode_segment_override"
definition get_xlat_base_offset :: "int \<Rightarrow> cpueaxh_engine \<Rightarrow> u64 \<times> cpueaxh_engine" where
  "get_xlat_base_offset = get_index_reg REG_RBX"

definition get_xlat_linear_address :: "int \<Rightarrow> int \<Rightarrow> cpueaxh_engine \<Rightarrow> u64 \<times> cpueaxh_engine" where
  "get_xlat_linear_address address_size segment_index e =
     (case get_xlat_base_offset address_size e of (base, e1) \<Rightarrow>
        let offset = base + ucast (get_reg8 (cpu_ctx e1) REG_RAX);
            offset = (if address_size = 16 then ucast (ucast offset :: u16)
                      else if address_size = 32 then ucast (ucast offset :: u32) else offset)
        in (cpu_segment_base_for_addressing (cpu_ctx e) segment_index + offset, e1))"

definition decode_xlat_body :: "(CPU_CONTEXT \<Rightarrow> u64) \<Rightarrow> bool \<Rightarrow> u8 list \<Rightarrow> dstate \<Rightarrow> dresult" where
  "decode_xlat_body seg lock code =
     decode_seq [next_opcode code, by_opcode (\<lambda>opc. opc = 0xD7) Inr (ud_if True), ud_if lock,
                 set_sizes (\<lambda>_. 0) default_address_size, with_inst_ctx (\<lambda>c i. i\<lparr>di_immediate := seg c\<rparr>), note_inst_size]"

definition decode_xlat_instruction ::
  "CPU_CONTEXT \<Rightarrow> u8 list \<Rightarrow> DecodedInstruction \<times> CPU_CONTEXT" where
  "decode_xlat_instruction = decode_with apply_rex_byte id (decode_xlat_body source_segment)"
definition execute_xlat_with_decoded ::
  "callbacks \<Rightarrow> cpueaxh_engine \<Rightarrow> DecodedInstruction \<Rightarrow> cpueaxh_engine" where
  "execute_xlat_with_decoded cb e inst =
     (case get_xlat_linear_address (di_address_size inst) (immediate_segment inst) e of (address, e1) \<Rightarrow>
      case cpu_validate_linear_address (cpu_ctx e1) address (immediate_segment inst) of (ok, c) \<Rightarrow>
        if \<not> ok then e1\<lparr>cpu_ctx := c\<rparr>
        else case read_memory_byte cb (e1\<lparr>cpu_ctx := c\<rparr>) address of
               (v, e2) \<Rightarrow> on_ctx (\<lambda>c. set_reg8 c REG_RAX v) e2)"
definition execute_xlat ::
  "callbacks \<Rightarrow> cpueaxh_engine \<Rightarrow> u8 list \<Rightarrow> cpueaxh_engine" where
  "execute_xlat = execute_decoding decode_xlat_instruction execute_xlat_with_decoded"
definition execute_xlat_fast ::
  "callbacks \<Rightarrow> cpueaxh_engine \<Rightarrow> DecodedInst \<Rightarrow> cpueaxh_engine" where
  "execute_xlat_fast = execute_cached execute_xlat_with_decoded"

subsection \<open>NOP, PAUSE and ENDBR\<close>

text \<open>
  NOP has a ModRM decoding of its own: it takes the group 0 only and records the offset of the operand,
  not its linear address.
\<close>

definition decode_nop_modrm :: "u8 list \<Rightarrow> dstate \<Rightarrow> dstate" where
  "decode_nop_modrm code s =
     (case s of (inst, offset, c) \<Rightarrow>
        let gp = raise_gp_ctx c 0
        in if length code \<le> offset then (inst, offset, gp)
           else
             let modrm = code ! offset; inst = inst\<lparr>di_has_modrm := True, di_modrm := modrm\<rparr>; offset = offset + 1;
                 md = modrm_mod modrm; wants_sib = (md \<noteq> 3 \<and> modrm_rm modrm = 4 \<and> di_address_size inst \<noteq> 16)
             in if modrm_reg modrm \<noteq> 0 then (inst, offset, raise_ud_ctx c)
                else if wants_sib \<and> length code \<le> offset then (inst, offset, gp)
                else
                  let inst = (if wants_sib then inst\<lparr>di_has_sib := True, di_sib := code ! offset\<rparr> else inst);
                      offset = (if wants_sib then offset + 1 else offset);
                      disp = modrm_disp_size modrm (di_address_size inst) (di_has_sib inst) (di_sib inst);
                      inst = (if disp > 0 then inst\<lparr>di_disp_size := int disp\<rparr> else inst)
                  in if disp > 0 \<and> length code < offset + disp then (inst, offset, gp)
                     else
                       let inst = (if disp > 0
                                   then inst\<lparr>di_displacement := modrm_displacement (take disp (drop offset code))\<rparr> else inst);
                           inst = (if md \<noteq> 3
                                   then inst\<lparr>di_mem_address := get_effective_offset c modrm (Some (di_sib inst))
                                               (di_displacement inst) (di_address_size inst) 0\<rparr> else inst)
                       in (inst, offset + disp, c))"

definition decode_nop_instruction :: "CPU_CONTEXT \<Rightarrow> u8 list \<Rightarrow> DecodedInstruction \<times> CPU_CONTEXT" where
  "decode_nop_instruction c code =
     (case decode_prefixes apply_rex_byte id c code of
        (lock, n, c1) \<Rightarrow>
          let pause = (0xF3 \<in> set (take n code)); opc = code ! n;
              inst = zero_decoded_instruction\<lparr>di_address_size := (if address_size_override c1 then 32 else 64)\<rparr>;
              inst1 = inst\<lparr>di_opcode := opc\<rparr>;
              finish = (\<lambda>(i, m, c2). (i\<lparr>di_inst_size := int m\<rparr>, c2\<lparr>last_inst_size := int m\<rparr>))
          in if length code \<le> n then (zero_decoded_instruction, raise_gp_ctx c1 0)
             else if opc = 0x90
             then finish (inst1, n + 1, if lock \<or> pause \<or> rex_b c1 then raise_ud_ctx c1 else c1)
             else if opc = 0x0F
             then if length code \<le> n + 1 then (inst1, raise_gp_ctx c1 0)
                  else if code ! (n + 1) \<noteq> 0x1F \<or> lock \<or> pause then finish (inst1, n + 2, raise_ud_ctx c1)
                  else finish (decode_nop_modrm code (inst1\<lparr>di_opcode := code ! (n + 1)\<rparr>, n + 2, c1))
             else finish (inst1, n + 1, raise_ud_ctx c1))"

definition execute_nop_with_decoded ::
  "callbacks \<Rightarrow> cpueaxh_engine \<Rightarrow> DecodedInstruction \<Rightarrow> cpueaxh_engine" where
  "execute_nop_with_decoded cb e inst = e"
definition execute_nop ::
  "callbacks \<Rightarrow> cpueaxh_engine \<Rightarrow> u8 list \<Rightarrow> cpueaxh_engine" where
  "execute_nop cb e code = on_ctx (\<lambda>c. snd (decode_nop_instruction c code)) e"
definition execute_nop_fast ::
  "callbacks \<Rightarrow> cpueaxh_engine \<Rightarrow> DecodedInst \<Rightarrow> cpueaxh_engine" where
  "execute_nop_fast = execute_cached execute_nop_with_decoded"

definition decode_pause_body :: "bool \<Rightarrow> u8 list \<Rightarrow> dstate \<Rightarrow> dresult" where
  "decode_pause_body lock code =
     with_prefixes (\<lambda>prefixes. decode_seq
       [next_opcode code, by_opcode (\<lambda>opc. opc = 0x90) Inr (ud_if True),
        ud_when (\<lambda>i c. lock \<or> 0xF3 \<notin> set prefixes \<or> rex_b c), note_inst_size]) code"

definition decode_pause_instruction ::
  "CPU_CONTEXT \<Rightarrow> u8 list \<Rightarrow> DecodedInstruction \<times> CPU_CONTEXT" where
  "decode_pause_instruction = decode_with apply_rex_byte id decode_pause_body"
definition execute_pause_with_decoded ::
  "callbacks \<Rightarrow> cpueaxh_engine \<Rightarrow> DecodedInstruction \<Rightarrow> cpueaxh_engine" where
  "execute_pause_with_decoded cb e inst = e"
definition execute_pause ::
  "callbacks \<Rightarrow> cpueaxh_engine \<Rightarrow> u8 list \<Rightarrow> cpueaxh_engine" where
  "execute_pause cb e code = on_ctx (\<lambda>c. snd (decode_pause_instruction c code)) e"
definition execute_pause_fast ::
  "callbacks \<Rightarrow> cpueaxh_engine \<Rightarrow> DecodedInst \<Rightarrow> cpueaxh_engine" where
  "execute_pause_fast = execute_cached execute_pause_with_decoded"

text \<open>The bytes of ENDBR: prefixes with 0xF3 and without LOCK, and the opcode.\<close>

definition probe_endbr_instruction :: "u8 list \<Rightarrow> bool" where
  "probe_endbr_instruction code =
     (let prefixes = takeWhile (\<lambda>b. is_legacy_prefix b \<or> is_rex_byte b) code; n = length prefixes
      in n + 3 \<le> length code \<and> 0xF0 \<notin> set prefixes \<and> 0xF3 \<in> set prefixes \<and> code ! n = 0x0F \<and> code ! (n + 1) = 0x1E \<and>
         (code ! (n + 2) = 0xFA \<or> code ! (n + 2) = 0xFB))"

definition is_endbr_instruction :: "u8 list \<Rightarrow> bool" where "is_endbr_instruction = probe_endbr_instruction"

definition decode_endbr_common :: "CPU_CONTEXT \<Rightarrow> u8 list \<Rightarrow> DecodedInstruction option \<times> CPU_CONTEXT" where
  "decode_endbr_common c code =
     (case decode_prefixes apply_rex_byte id c code of
        (lock, n, c1) \<Rightarrow>
          if length code < n + 3 then (None, raise_gp_ctx c1 0)
          else if code ! n \<noteq> 0x0F \<or> code ! (n + 1) \<noteq> 0x1E then (None, raise_ud_ctx c1)
          else if lock \<or> 0xF3 \<notin> set (take n code) \<or> code ! (n + 2) \<noteq> 0xFA \<and> code ! (n + 2) \<noteq> 0xFB
          then (None, raise_ud_ctx c1)
          else let c2 = c1\<lparr>last_inst_size := int (n + 3)\<rparr>
               in (if cpu_has_exception c2 then None else Some (zero_decoded_instruction\<lparr>di_inst_size := int (n + 3)\<rparr>), c2))"

definition decode_endbr_instruction :: "CPU_CONTEXT \<Rightarrow> u8 list \<Rightarrow> DecodedInstruction \<times> CPU_CONTEXT" where
  "decode_endbr_instruction c code =
     (case decode_endbr_common c code of
        (None, c1) \<Rightarrow> (zero_decoded_instruction, c1)
      | (Some inst, c1) \<Rightarrow>
          case finalize_rip_relative_address c1 inst (di_inst_size inst) of
            (c2, inst1) \<Rightarrow> (inst1, c2\<lparr>last_inst_size := di_inst_size inst1\<rparr>))"

definition execute_endbr :: "callbacks \<Rightarrow> cpueaxh_engine \<Rightarrow> u8 list \<Rightarrow> cpueaxh_engine" where
  "execute_endbr cb e code =
     on_ctx (\<lambda>c. if \<not> probe_endbr_instruction code then raise_ud_ctx c
                 else let n = length (takeWhile (\<lambda>b. is_legacy_prefix b \<and> b \<noteq> 0xF0 \<or> is_rex_byte b) code)
                      in c\<lparr>last_inst_size := int (n + 3)\<rparr>) e"
definition execute_endbr_fast :: "callbacks \<Rightarrow> cpueaxh_engine \<Rightarrow> DecodedInst \<Rightarrow> cpueaxh_engine" where
  "execute_endbr_fast cb e dec = on_ctx (fast_prefix dec) e"

end
