(* ===== verification/BitsSpec.thy ===== *)
theory BitsSpec
  imports Bits
begin

text \<open>
  Replaying the bit instructions, and what they compute: the scans find the lowest and the highest bit,
  the bit tests address a bit string, the byte swaps reverse the bytes.
\<close>

unbundle bit_operations_syntax

subsection \<open>Replaying\<close>

lemma decode_step_with_prefixes:
  assumes "\<And>p. decode_step (f p) b"
  shows "decode_step (with_prefixes f code) b"
  using assms unfolding decode_step_def with_prefixes_def by simp

lemma decode_bswap_step: "decode_step (decode_bswap_body lock code) True"
proof -
  have part: "decode_step (with_inst_ctx (\<lambda>c i. i\<lparr>di_operand_size := bswap_size c\<rparr>)) False"
    by (rule decode_step_with_inst_ctx) (auto simp: static_update_def bswap_size_def agrees_def)
  show ?thesis unfolding decode_bswap_body_def
    by (rule decode_step_weaken, (rule part decode_steps | (simp; fail))+)
qed

lemma decode_bsf_step: "decode_step (decode_bsf_body lock code) True"
proof -
  have part: "decode_step (with_inst (\<lambda>i. if b then i\<lparr>di_mandatory_prefix := v\<rparr> else i)) False" for b v
    by (rule decode_step_with_inst) (simp add: static_update_def)
  show ?thesis unfolding decode_bsf_body_def decode_modrm_bsf_def
    by (rule decode_step_with_prefixes, rule decode_step_weaken, (rule part default_sizes_head decode_steps | (simp; fail))+)
qed

lemma decode_popcnt_step: "decode_step (decode_popcnt_body lock code) True"
  unfolding decode_popcnt_body_def decode_modrm_popcnt_def
  by (rule decode_step_with_prefixes, rule decode_step_weaken, (rule default_sizes_head decode_steps | (simp; fail))+)

lemma decode_pause_step: "decode_step (decode_pause_body lock code) True"
proof -
  have part: "decode_step (ud_when (\<lambda>i c. lock \<or> x \<or> rex_b c)) False" for x
    by (rule decode_step_ud_when) (auto simp: agrees_def)
  show ?thesis unfolding decode_pause_body_def
    by (rule decode_step_with_prefixes, rule decode_step_weaken, (rule part decode_steps | (simp; fail))+)
qed

lemma decode_bt_step: "decode_step (decode_bt_body lock code) True"
proof -
  have faults: "fault_only c (bt_check lock i c)" for i c
    using fault_only_trans [OF raise_fault_only(2) raise_fault_only(2), of c]
    by (auto simp: bt_check_def decode_bt_operation_def split: option.splits)
  have check: "decode_step (\<lambda>s. case s of (inst, offset, c) \<Rightarrow> Inr (inst, offset, bt_check lock inst c)) False"
    by unfold_locales (use faults in auto)
  have group: "decode_step (ud_when (\<lambda>i _. modrm_reg (di_modrm i) < 4)) False"
    by (rule decode_step_ud_when) (auto dest: same_staticD)
  show ?thesis unfolding decode_bt_body_def decode_modrm_bt_def
    by (rule decode_step_weaken, (rule check group default_sizes_head decode_steps | (simp; fail))+)
qed

lemma decode_xlat_step: "decode_step (decode_xlat_body (\<lambda>_. s) lock code) True"
proof -
  have head: "decode_head (set_sizes (\<lambda>_. 0) default_address_size)"
    by (rule decode_head_set_sizes) (simp_all add: agrees_modes)
  have part: "decode_step (with_inst_ctx (\<lambda>c i. i\<lparr>di_immediate := s\<rparr>)) False"
    by (rule decode_step_with_inst_ctx) (auto simp: static_update_def)
  show ?thesis unfolding decode_xlat_body_def
    by (rule decode_step_weaken, (rule head part decode_steps | (simp; fail))+)
qed

interpretation bswap_decoder: prefix_decoder apply_rex_byte id decode_bswap_body True decode_bswap_instruction
  by (intro prefix_decoder.intro raw_prefixes.prefix_reader_axioms prefix_decoder_axioms.intro decode_bswap_step)
     (simp add: decode_bswap_instruction_def)
interpretation bsf_decoder: prefix_decoder apply_rex_byte id decode_bsf_body True decode_bsf_instruction
  by (intro prefix_decoder.intro raw_prefixes.prefix_reader_axioms prefix_decoder_axioms.intro decode_bsf_step)
     (simp add: decode_bsf_instruction_def)
interpretation popcnt_decoder: prefix_decoder apply_rex_byte id decode_popcnt_body True decode_popcnt_instruction
  by (intro prefix_decoder.intro raw_prefixes.prefix_reader_axioms prefix_decoder_axioms.intro decode_popcnt_step)
     (simp add: decode_popcnt_instruction_def)
interpretation pause_decoder: prefix_decoder apply_rex_byte id decode_pause_body True decode_pause_instruction
  by (intro prefix_decoder.intro raw_prefixes.prefix_reader_axioms prefix_decoder_axioms.intro decode_pause_step)
     (simp add: decode_pause_instruction_def)
interpretation bt_decoder: prefix_decoder apply_rex_byte id decode_bt_body True decode_bt_instruction
  by (intro prefix_decoder.intro raw_prefixes.prefix_reader_axioms prefix_decoder_axioms.intro decode_bt_step)
     (simp add: decode_bt_instruction_def)

text \<open>XLAT with the source segment fixed in advance.\<close>

definition decode_xlat_in :: "u64 \<Rightarrow> CPU_CONTEXT \<Rightarrow> u8 list \<Rightarrow> DecodedInstruction \<times> CPU_CONTEXT" where
  "decode_xlat_in s = decode_with apply_rex_byte id (decode_xlat_body (\<lambda>_. s))"

interpretation xlat_decoder: prefix_decoder apply_rex_byte id "decode_xlat_body (\<lambda>_. s)" True "decode_xlat_in s" for s
  by (intro prefix_decoder.intro raw_prefixes.prefix_reader_axioms prefix_decoder_axioms.intro decode_xlat_step)
     (simp add: decode_xlat_in_def)

lemma decode_xlat_segment: "decode_xlat_instruction c code = decode_xlat_in (source_segment c) c code"
proof -
  obtain lock n c1 where p: "prefix_loop apply_rex_byte id code 0 False (cpu_reset_prefix_state c) = (lock, n, c1)"
    by (metis prod_cases3)
  have "scratch_only c c1"
    using raw_prefixes.loop_scratch [of "cpu_reset_prefix_state c" code 0 False] scratch_only_trans [OF scratch_only_updates(4)] p
    by simp
  then have s: "source_segment c1 = source_segment c" "source_segment (raise_ud_ctx c1) = source_segment c"
      "source_segment (raise_ud_ctx (raise_ud_ctx c1)) = source_segment c"
    by (blast intro: scratch_segment scratch_only_trans scratch_only_fault raise_fault_only)+
  show ?thesis
    unfolding decode_xlat_instruction_def decode_xlat_in_def decode_with_def decode_prefixes_def p prod.case decode_xlat_body_def
    by (simp add: decode_then_def next_opcode_def by_opcode_def ud_if_def set_sizes_def with_inst_ctx_def note_inst_size_def s)
qed

lemma xlat_replays_in_segment: "replays_in_segment decode_xlat_instruction execute_xlat execute_xlat_fast"
  unfolding execute_xlat_def execute_xlat_fast_def
  by (rule replays_in_segmentI [where d = decode_xlat_in, OF xlat_decoder.replayable_axioms decode_xlat_segment])

subsection \<open>Scans and counts\<close>

lemma low_bit_iff: "drop_bit i (v :: 'a :: len word) AND 1 \<noteq> 0 \<longleftrightarrow> bit v i"
  by (simp add: and_one_eq bit_iff_odd_drop_bit odd_iff_mod_2_eq_one)

lemma find_upt: "List.find P [0..<n] = (if \<exists>i<n. P i then Some (LEAST i. P i) else None)"
proof (induction n)
  case (Suc n)
  have "List.find P [0..<Suc n] = (case List.find P [0..<n] of None \<Rightarrow> if P n then Some n else None | Some i \<Rightarrow> Some i)"
    by (simp add: find_append split: option.split)
  moreover have "(LEAST i. P i) = n" if "P n" "\<not> (\<exists>i<n. P i)" using that by (intro Least_equality) (auto simp: not_less)
  ultimately show ?case using Suc by (auto simp: less_Suc_eq)
qed simp

lemma find_downto: "List.find P (rev [0..<n]) = (if \<exists>i<n. P i then Some (Max {i. i < n \<and> P i}) else None)"
proof (induction n)
  case (Suc n)
  have "Max {i. i < Suc n \<and> P i} = n" if "P n" using that by (intro Max_eqI) auto
  moreover have "{i. i < Suc n \<and> P i} = {i. i < n \<and> P i}" if "\<not> P n" using that by (auto simp: less_Suc_eq)
  ultimately show ?case using Suc by (auto simp: less_Suc_eq)
qed simp

definition set_bits_of :: "'a :: len word \<Rightarrow> nat set" where "set_bits_of v = {i. bit v i}"

lemma set_bits: 
  fixes v :: "'a :: len word"
  shows "finite (set_bits_of v)" "set_bits_of v = {i. i < LENGTH('a) \<and> bit v i}" "set_bits_of v = {} \<longleftrightarrow> v = 0"
proof -
  show s: "set_bits_of v = {i. i < LENGTH('a) \<and> bit v i}" by (auto simp: set_bits_of_def dest: bit_imp_le_length)
  show "finite (set_bits_of v)" unfolding s by simp
  show "set_bits_of v = {} \<longleftrightarrow> v = 0" by (auto simp: set_bits_of_def intro: bit_word_eqI)
qed

lemma wide_bit: "LENGTH('a) \<le> 64 \<Longrightarrow> bit (ucast (v :: 'a :: len word) :: u64) i \<longleftrightarrow> bit v i"
  by (auto simp: bit_simps dest: bit_imp_le_length)

lemma first_set_word:
  fixes v :: "'a :: len word"
  assumes "LENGTH('a) \<le> 64"
  shows "first_set (ucast v) [0..<LENGTH('a)] = (if v = 0 then None else Some (Min (set_bits_of v)))"
    and "first_set (ucast v) (rev [0..<LENGTH('a)]) = (if v = 0 then None else Some (Max (set_bits_of v)))"
proof -
  have e: "(\<exists>i<LENGTH('a). bit v i) \<longleftrightarrow> v \<noteq> 0" using set_bits(2,3) [of v] by auto
  have l: "(LEAST i. bit v i) = Min (set_bits_of v)" if "v \<noteq> 0"
    using that set_bits(1,3) [of v] by (simp add: Least_Min set_bits_of_def)
  show "first_set (ucast v) [0..<LENGTH('a)] = (if v = 0 then None else Some (Min (set_bits_of v)))"
    "first_set (ucast v) (rev [0..<LENGTH('a)]) = (if v = 0 then None else Some (Max (set_bits_of v)))"
    unfolding first_set_def low_bit_iff find_upt find_downto wide_bit [OF assms] using e l set_bits(2) [of v] by auto
qed

lemma scans_word:
  fixes v :: "'a :: len word"
  assumes "LENGTH('a) \<le> 64"
  defines "w \<equiv> int LENGTH('a)"
  shows "v \<noteq> 0 \<Longrightarrow> scan_forward_bsf (ucast v) w = of_nat (Min (set_bits_of v))"
    and "v \<noteq> 0 \<Longrightarrow> scan_reverse_bsf (ucast v) w = of_nat (Max (set_bits_of v))"
    and "count_trailing_zeros_bsf (ucast v) w = of_nat (if v = 0 then LENGTH('a) else Min (set_bits_of v))"
    and "count_leading_zeros_bsf (ucast v) w = of_nat (if v = 0 then LENGTH('a) else LENGTH('a) - 1 - Max (set_bits_of v))"
    and "popcnt_count_bits (ucast v) w = of_nat (card (set_bits_of v))"
proof -
  note f = first_set_word [OF assms(1), of v]
  show "v \<noteq> 0 \<Longrightarrow> scan_forward_bsf (ucast v) w = of_nat (Min (set_bits_of v))"
    "v \<noteq> 0 \<Longrightarrow> scan_reverse_bsf (ucast v) w = of_nat (Max (set_bits_of v))"
    "count_trailing_zeros_bsf (ucast v) w = of_nat (if v = 0 then LENGTH('a) else Min (set_bits_of v))"
    by (auto simp: scan_forward_bsf_def scan_reverse_bsf_def count_trailing_zeros_bsf_def w_def f)
  have "Max (set_bits_of v) < LENGTH('a)" if "v \<noteq> 0"
    using that set_bits [of v] Max_in [of "set_bits_of v"] by auto
  then show "count_leading_zeros_bsf (ucast v) w = of_nat (if v = 0 then LENGTH('a) else LENGTH('a) - 1 - Max (set_bits_of v))"
    by (auto simp: count_leading_zeros_bsf_def w_def f of_nat_diff)
  have count: "foldl (\<lambda>c i. c + (drop_bit i (x :: u64) AND 1)) 0 [0..<n] = of_nat (card {i. i < n \<and> bit x i})" for x n
  proof (induction n)
    case (Suc n)
    have "{i. i < Suc n \<and> bit x i} = (if bit x n then insert n else id) {i. i < n \<and> bit x i}" by (auto simp: less_Suc_eq)
    moreover have "drop_bit n x AND 1 = (if bit x n then 1 else 0)" by (simp add: and_one_eq bit_iff_odd_drop_bit odd_iff_mod_2_eq_one)
    ultimately show ?case using Suc by simp
  qed simp
  show "popcnt_count_bits (ucast v) w = of_nat (card (set_bits_of v))"
    unfolding popcnt_count_bits_def w_def nat_int count wide_bit [OF assms(1)] set_bits(2) [of v] ..
qed

subsection \<open>Bit strings\<close>

lemma floor_div_bt: "0 < d \<Longrightarrow> floor_div_bt_index v d = v div d"
proof -
  assume d: "0 < d"
  have "- ((- v + d - 1) div d) = v div d" if "v < 0"
  proof -
    have "- v + d - 1 = (- (v mod d) + d - 1) + (- (v div d)) * d" using div_mult_mod_eq [of v d] by (simp add: algebra_simps)
    moreover have "0 \<le> - (v mod d) + d - 1" "- (v mod d) + d - 1 < d"
      using pos_mod_sign [OF d, of v] pos_mod_bound [OF d, of v] by linarith+
    then have "(- (v mod d) + d - 1) div d = 0" by (rule div_pos_pos_trivial)
    ultimately show ?thesis using d by (simp only: div_mult_self1)
  qed
  then show ?thesis by (auto simp: floor_div_bt_index_def Let_def)
qed

lemma bt_offset: "add_bt_signed_offset a k = a + word_of_int k"
  by (simp add: add_bt_signed_offset_def)

lemma bt_low_index:
  assumes "n \<in> {16, 32, 64 :: int}"
  shows "uint ((word_of_int v :: u64) AND (word_of_int n - 1)) = v mod n"
proof -
  obtain k where k: "n = 2 ^ k" "k \<le> 6" "0 < k"
    using assms by (auto intro: that [of 4] that [of 5] that [of 6])
  have "word_of_int n - 1 = (mask k :: u64)" using k(1) by (simp add: mask_eq_exp_minus_1)
  then have "(word_of_int v :: u64) AND (word_of_int n - 1) = take_bit k (word_of_int v)" by (simp only: take_bit_eq_mask)
  then have "uint ((word_of_int v :: u64) AND (word_of_int n - 1)) = take_bit k (take_bit LENGTH(64) v)"
    by (simp only: unsigned_take_bit_eq uint_word_of_int_eq)
  then have "uint ((word_of_int v :: u64) AND (word_of_int n - 1)) = take_bit k v" using k(2) by (simp only: take_bit_take_bit) simp
  then show ?thesis using k by (simp add: take_bit_eq_mod)
qed


subsection \<open>Byte swaps\<close>

text \<open>The bytes of a value in the other order.\<close>

definition swapped_bytes :: "nat \<Rightarrow> u64 \<Rightarrow> u64" where "swapped_bytes n v = le_load (rev (le_store n v))"

lemma masks_at:
  "0xFF = push_bit 0 (mask 8 :: 'a :: len word)" "0xFF00 = push_bit 8 (mask 8 :: 'a word)"
  "0xFF0000 = push_bit 16 (mask 8 :: 'a word)" "0xFF000000 = push_bit 24 (mask 8 :: 'a word)"
  "0xFF00000000 = push_bit 32 (mask 8 :: 'a word)" "0xFF0000000000 = push_bit 40 (mask 8 :: 'a word)"
  "0xFF000000000000 = push_bit 48 (mask 8 :: 'a word)" "0xFF00000000000000 = push_bit 56 (mask 8 :: 'a word)"
  by (simp_all add: mask_eq_exp_minus_1 push_bit_eq_mult)

lemma move_byte_up: "push_bit a (v AND push_bit k (mask 8)) = push_bit (a + k) (drop_bit k v AND (mask 8 :: 'a :: len word))"
  by (rule bit_word_eqI) (auto simp: bit_simps)

lemma move_byte_down: "a \<le> k \<Longrightarrow> drop_bit a (v AND push_bit k (mask 8)) = push_bit (k - a) (drop_bit k v AND (mask 8 :: 'a :: len word))"
  by (rule bit_word_eqI) (auto simp: bit_simps add.commute dest: bit_imp_le_length)

lemma byte_value: "ucast (ucast (x AND mask 8) :: u8) = (x AND mask 8 :: u64)"
  by (rule bit_word_eqI) (auto simp: bit_simps)

lemma push_bit_or_word: "push_bit n (x OR y) = push_bit n x OR push_bit n (y :: 'a :: len word)"
  by (rule bit_word_eqI) (auto simp: bit_simps)

lemma byteswap64_swaps: "byteswap64_bswap v = swapped_bytes 8 v"
proof -
  have l: "le_store 8 v = [ucast (v AND mask 8), ucast (drop_bit 8 v AND mask 8), ucast (drop_bit 16 v AND mask 8),
    ucast (drop_bit 24 v AND mask 8), ucast (drop_bit 32 v AND mask 8), ucast (drop_bit 40 v AND mask 8),
    ucast (drop_bit 48 v AND mask 8), ucast (drop_bit 56 v AND mask 8)]"
    by (simp add: eval_nat_numeral drop_bit_drop_bit mask_eq_exp_minus_1)
  show ?thesis
    unfolding byteswap64_bswap_def swapped_bytes_def l masks_at move_byte_up
    by (simp only: move_byte_down rev.simps append.simps le_load.simps byte_value push_bit_or_word push_bit_push_bit) (simp add: ac_simps)

qed


lemma swapped_bytes_twice:
  assumes "n \<le> 8"
  shows "swapped_bytes n (swapped_bytes n v) = take_bit (8 * n) v"
proof -
  have "length bs \<le> 8 \<Longrightarrow> le_store (length bs) (le_load bs) = bs" for bs
  proof (induction bs)
    case (Cons b bs)
    have "(ucast b OR push_bit 8 x) AND 0xFF = (ucast b :: u64)" for x
      unfolding masks_at by (rule bit_word_eqI) (auto simp: bit_simps dest: bit_imp_le_length)
    moreover have "drop_bit 8 (ucast b OR push_bit 8 x :: u64) = take_bit 56 x" for x
      by (rule bit_word_eqI) (auto simp: bit_simps add.commute dest: bit_imp_le_length)
    moreover have "take_bit 56 (le_load bs) = le_load bs"
    proof -
      have "take_bit 56 (take_bit (8 * length bs) (le_load bs)) = take_bit (8 * length bs) (le_load bs)"
        using Cons.prems by (simp only: take_bit_take_bit) (simp add: min_def)
      then show ?thesis by (simp only: take_bit_le_load)
    qed
    ultimately show ?case using Cons by simp
  qed simp
  from this [of "rev (le_store n v)"] assms show ?thesis by (simp add: swapped_bytes_def le_load_store)
qed

lemma swap32: "movbe_swap32 v = byteswap32_bswap v" by (simp add: movbe_swap32_def byteswap32_bswap_def)

lemma byteswap32_swaps: "ucast (byteswap32_bswap v) = swapped_bytes 4 (ucast v)"
proof -
  have l: "le_store 4 x = [ucast (x AND mask 8), ucast (drop_bit 8 x AND mask 8), ucast (drop_bit 16 x AND mask 8),
    ucast (drop_bit 24 x AND mask 8)]" for x
    by (simp add: eval_nat_numeral drop_bit_drop_bit mask_eq_exp_minus_1)
  have b: "ucast (push_bit m (drop_bit k v AND mask 8 :: u32)) = (push_bit m (drop_bit k (ucast v) AND mask 8) :: u64)"
    if "m \<le> 24" for k m
    using that by (auto intro!: bit_word_eqI simp: bit_simps dest: bit_imp_le_length) (auto dest: bit_imp_le_length)
  show ?thesis
    unfolding byteswap32_bswap_def swapped_bytes_def l masks_at move_byte_up
    by (simp only: move_byte_down rev.simps append.simps le_load.simps byte_value push_bit_or_word push_bit_push_bit unsigned_or_eq)
       (simp add: b [of 24 0, simplified] b [of 16 8, simplified] b [of 8 16, simplified] b [of 0 24, simplified] or.commute or.left_commute or.assoc)
qed

lemma swap16: "ucast (movbe_swap16 v) = swapped_bytes 2 (ucast v)"
proof -
  have l: "le_store 2 x = [ucast (x AND mask 8), ucast (drop_bit 8 x AND mask 8)]" for x
    by (simp add: eval_nat_numeral mask_eq_exp_minus_1)
  have "ucast (drop_bit 8 v) = (drop_bit 8 (ucast v) AND mask 8 :: u64)"
    "ucast (push_bit 8 v) = (push_bit 8 (ucast v AND mask 8) :: u64)"
    by (auto intro!: bit_word_eqI simp: bit_simps dest: bit_imp_le_length) (auto dest: bit_imp_le_length)
  then show ?thesis
    unfolding movbe_swap16_def swapped_bytes_def l
    by (simp only: rev.simps append.simps le_load.simps byte_value unsigned_or_eq) simp
qed

lemma narrow_word: "LENGTH('a :: len) \<le> 64 \<Longrightarrow> ucast (ucast v :: 'a word) = (take_bit LENGTH('a) v :: u64)"
  by (auto intro!: bit_word_eqI simp: bit_simps)

lemma movbe_swaps:
  assumes "n \<in> {16, 32, 64}"
  shows "movbe_swap n v = swapped_bytes (nat n div 8) (take_bit (nat n) v)"
proof -
  have h: "movbe_swap64 v = swapped_bytes 8 v"
  proof -
    have l: "le_store 8 x = le_store 4 x @ le_store 4 (drop_bit 32 x)" for x by (simp add: eval_nat_numeral drop_bit_drop_bit)
    have app: "le_load (xs @ ys) = le_load xs OR push_bit (8 * length xs) (le_load ys)" for xs ys
      by (induction xs) (simp_all add: push_bit_or_word push_bit_push_bit ac_simps)
    have "le_store n (take_bit (8 * n) x) = le_store n x" for n x
    proof (induction n arbitrary: x)
      case (Suc n)
      have "take_bit (8 * Suc n) x AND 0xFF = x AND 0xFF" unfolding masks_at by (rule bit_word_eqI) (auto simp: bit_simps)
      moreover have "drop_bit 8 (take_bit (8 * Suc n) x) = take_bit (8 * n) (drop_bit 8 x)" by (simp add: drop_bit_take_bit)
      ultimately show ?case using Suc by simp
    qed simp
    from this [of 4] have t: "le_store 4 (take_bit 32 x) = le_store 4 x" for x by simp
    have "ucast (ucast x :: u32) = (take_bit 32 x :: u64)" for x using narrow_word [where 'a = 32, of x] by simp
    then show ?thesis
      unfolding movbe_swap64_def swap32 byteswap32_swaps swapped_bytes_def l rev_append app length_rev length_le_store
      by (simp only: t) (simp add: or.commute)
  qed
  have "take_bit 64 v = v" by (simp add: take_bit_word_eq_self)
  then show ?thesis using assms
    by (auto simp: movbe_swap_def swap16 swap32 byteswap32_swaps h narrow_word [where 'a = 16] narrow_word [where 'a = 32])
qed

subsection \<open>CRC32\<close>

lemma crc_step_linear:
  fixes P :: u32
  defines "f \<equiv> \<lambda>crc :: u32. drop_bit 1 crc XOR (if crc AND 1 \<noteq> 0 then P else 0)"
  shows "f (a XOR b) = f a XOR f b" "(f ^^ k) (a XOR b) = (f ^^ k) a XOR (f ^^ k) b"
proof -
  have 1: "f (a XOR b) = f a XOR f b" for a b
    by (rule bit_word_eqI) (auto simp: f_def bit_simps and_one_eq odd_iff_mod_2_eq_one [symmetric] bit_0 [symmetric] even_xor_iff)
  show "f (a XOR b) = f a XOR f b" by (rule 1)
  show "(f ^^ k) (a XOR b) = (f ^^ k) a XOR (f ^^ k) b" by (induction k) (simp_all add: 1)
qed

lemma crc_byte_linear: "crc32c_accumulate_byte (a XOR b) (x XOR y) = crc32c_accumulate_byte a x XOR crc32c_accumulate_byte b y"
proof -
  have "(a XOR b) XOR ucast (x XOR y) = (a XOR ucast x) XOR (b XOR ucast y)" by (simp add: unsigned_xor_eq ac_simps)
  then show ?thesis unfolding crc32c_accumulate_byte_def by (simp only: crc_step_linear)
qed

lemma crc_value_linear:
  "crc32c_accumulate_value (a XOR b) (v XOR w) n = crc32c_accumulate_value a v n XOR crc32c_accumulate_value b w n"
proof -
  have "ucast (drop_bit k (v XOR w) AND 0xFF) = (ucast (drop_bit k v AND 0xFF) XOR ucast (drop_bit k w AND 0xFF) :: u8)" for k
    by (simp add: drop_bit_xor unsigned_xor_eq bit.conj_xor_distrib2)
  then have "foldl (\<lambda>c i. crc32c_accumulate_byte c (ucast (drop_bit (i * 8) (v XOR w) AND 0xFF))) (a XOR b) is =
      foldl (\<lambda>c i. crc32c_accumulate_byte c (ucast (drop_bit (i * 8) v AND 0xFF))) a is XOR
      foldl (\<lambda>c i. crc32c_accumulate_byte c (ucast (drop_bit (i * 8) w AND 0xFF))) b is" for "is"
    by (induction "is" arbitrary: a b) (simp_all add: crc_byte_linear)
  then show ?thesis unfolding crc32c_accumulate_value_def .
qed

lemma crc_check: "crc32c_accumulate_byte 0 0x80 = 0x82F63B78"
proof -
  have "(f ^^ 8) x = f (f (f (f (f (f (f (f x)))))))" for f and x :: u32 by (simp add: numeral_eq_Suc)
  then show ?thesis unfolding crc32c_accumulate_byte_def by simp
qed

subsection \<open>The bit a memory operand addresses\<close>

lemma bt_target_memory:
  assumes "modrm_mod (di_modrm inst) \<noteq> 3" "di_opcode inst \<noteq> 0xBA" "di_operand_size inst = n" "n \<in> {16, 32, 64}"
  shows "\<exists>src byte. bt_target cb inst e = (case read_bt_memory_value cb (di_mem_address inst + word_of_int byte) n e of
      (v, e1) \<Rightarrow> (word_of_int src AND (word_of_int n - 1), di_mem_address inst + word_of_int byte, v, e1)) \<and>
    src = (let r = fst (read_bt_source_register (di_modrm inst) n e)
           in if n = 16 then sint (ucast r :: u16) else if n = 32 then sint (ucast r :: u32) else sint r) \<and>
    8 * byte + uint ((word_of_int src :: u64) AND (word_of_int n - 1)) = src \<and> n div 8 dvd byte"
proof -
  define r where "r = fst (read_bt_source_register (di_modrm inst) n e)"
  define src where "src = (if n = 16 then sint (ucast r :: u16) else if n = 32 then sint (ucast r :: u32) else sint r)"
  have rd: "read_bt_source_register (di_modrm inst) n e = (r, e)"
    using assms(4) by (auto simp: r_def insn_defs operand_defs Let_def)
  have ext: "sign_extend_bt_source r n e = (src, e)" using assms(4) by (auto simp: sign_extend_bt_source_def src_def)
  have n: "0 < n" "8 * (n div 8) = n" using assms(4) by auto
  have "8 * (src div n * (n div 8)) + src mod n = src"
  proof -
    have "8 * (src div n * (n div 8)) = src div n * (8 * (n div 8))" by (simp only: ac_simps)
    also have "\<dots> = src div n * n" by (simp only: n(2))
    finally have q: "8 * (src div n * (n div 8)) = src div n * n" .
    show ?thesis unfolding q by (rule div_mult_mod_eq)
  qed
  moreover have "bt_target cb inst e = (case read_bt_memory_value cb (di_mem_address inst + word_of_int (src div n * (n div 8))) n e of
      (v, e1) \<Rightarrow> (word_of_int src AND (word_of_int n - 1), di_mem_address inst + word_of_int (src div n * (n div 8)), v, e1))"
    using assms(1-3) by (simp add: bt_target_def Let_def rd ext floor_div_bt [OF n(1)] bt_offset)
  ultimately show ?thesis
    using bt_low_index [OF assms(4), of src] by (intro exI [of _ src] exI [of _ "src div n * (n div 8)"]) (simp add: src_def r_def Let_def)
qed

lemma bt_target_immediate:
  assumes "modrm_mod (di_modrm inst) \<noteq> 3" "di_operand_size inst = n" "n \<in> {16, 32, 64}"
  shows "di_opcode inst = 0xBA \<Longrightarrow> bt_target cb inst e = (case read_bt_memory_value cb (di_mem_address inst) n e of
      (v, e1) \<Rightarrow> (word_of_int (uint (di_immediate inst AND 0xFF) mod n), di_mem_address inst, v, e1))"
  using assms(1,2) arg_cong [OF bt_low_index [OF assms(3), of "uint (di_immediate inst AND 0xFF)"], of "word_of_int :: int \<Rightarrow> u64"]
  by (simp add: bt_target_def Let_def)

end
