(* ===== verification/Decoder.thy ===== *)
theory Decoder
  imports Executor Control Carry Compare MulDivSpec ShiftSpec ConditionSpec BitsSpec
begin

text \<open>
  The decoder (\<^verbatim>\<open>cpu/decoder.hpp\<close>): the ladder that selects the handler of an instruction, its flags and
  inline forms, and the fast handler that is attached to it. A handler is a value of \<open>handler_fn\<close>;
  the address the linker gives it, and the decoders of the handlers that are not modelled, are the record
  \<open>image\<close>, a parameter.
\<close>

unbundle bit_operations_syntax

subsection \<open>Handlers\<close>

datatype alu_fn =
  H_add | H_sub | H_cmp | H_test | H_and | H_or | H_xor | H_inc | H_dec | H_adc | H_sbb | H_neg | H_not |
  H_mul | H_imul | H_div | H_idiv | H_shl | H_shr | H_shld | H_shrd | H_sar | H_rol | H_ror | H_rcl | H_rcr

datatype data_fn =
  H_mov | H_xchg | H_movsx | H_movzx | H_movsxd | H_cmovcc | H_setcc | H_lea | H_xadd | H_cmpxchg |
  H_cmpxchg8b16b | H_cbw | H_cdq | H_bswap | H_bt | H_bsf | H_popcnt | H_crc32 | H_movbe | H_xlat | H_movs |
  H_cmps | H_stos | H_lods | H_scas | H_rep

datatype control_fn =
  H_push | H_pop | H_pushf | H_enter | H_leave | H_jmp | H_call | H_ret | H_iret | H_jcc | H_lahf | H_flags |
  H_nop | H_pause | H_endbr | H_cpuid | H_rdtsc | H_rdtscp | H_rdpmc | H_rdseed | H_xgetbv | H_rdpid |
  H_fsgsbase | H_serialize | H_rdssp

datatype sse_fn =
  H_xorps | H_movaps | H_movups | H_movdq | H_movss | H_sse_shuffle | H_sse_logic | H_sse_arith | H_sse_cmp |
  H_sse_math | H_sse_convert | H_sse_mov_misc | H_sse_misc | H_sse_state | H_sse2_int_logic | H_sse2_mov_int |
  H_sse2_mov_pd | H_sse2_int_arith | H_sse2_int_cmp | H_sse2_shuffle | H_sse2_arith_pd | H_sse2_logic_pd |
  H_sse2_cmp_pd | H_sse2_pack | H_sse2_shift | H_sse2_math_pd | H_sse2_convert | H_sse2_scalar_convert |
  H_sse2_misc | H_sse2_store_misc

datatype ext_fn =
  H_evex_palignr | H_evex_pinsrw | H_evex_pinsr | H_evex_pextr | H_avx_vex | H_pshufb | H_sha256rnds2 |
  H_sha256msg1 | H_sha256msg2 | H_aesimc | H_aesenc | H_aesenclast | H_aesdec | H_aesdeclast |
  H_aeskeygenassist | H_pinsrw | H_pinsr | H_pextr | H_pblendw | H_roundss | H_roundsd | H_pcmpestrm |
  H_pcmpestri | H_pcmpistrm | H_pcmpistri | H_palignr | H_emms | H_x87_env | H_x87_control | H_x87_init |
  H_x87_status

datatype handler_fn = Alu alu_fn | Data data_fn | Control control_fn | Sse sse_fn | Ext ext_fn

record image =
  im_address :: "handler_fn \<Rightarrow> u64"
  im_fast_address :: "handler_fn \<Rightarrow> u64"
  im_cpuid :: host_cpuid
  im_decode :: "handler_fn \<Rightarrow> CPU_CONTEXT \<Rightarrow> u8 list \<Rightarrow> DecodedInstruction \<times> CPU_CONTEXT"

subsection \<open>Byte tests\<close>

text \<open>The three-byte opcodes, with the number of bytes that must follow the prefixes.\<close>

definition is_three_byte :: "nat \<Rightarrow> u8 \<Rightarrow> u8 \<Rightarrow> u8 list \<Rightarrow> nat \<Rightarrow> bool" where
  "is_three_byte n second third code prefix_len \<longleftrightarrow>
     prefix_len + n < length code \<and> code ! prefix_len = 0x0F \<and> code ! (prefix_len + 1) = second \<and>
     code ! (prefix_len + 2) = third"

definition is_pshufb_instruction :: "u8 list \<Rightarrow> nat \<Rightarrow> bool" where
  [cpu_defs]: "is_pshufb_instruction = is_three_byte 3 0x38 0x00"
definition is_sha256rnds2_instruction :: "u8 list \<Rightarrow> nat \<Rightarrow> bool" where
  [cpu_defs]: "is_sha256rnds2_instruction = is_three_byte 3 0x38 0xCB"
definition is_sha256msg1_instruction :: "u8 list \<Rightarrow> nat \<Rightarrow> bool" where
  [cpu_defs]: "is_sha256msg1_instruction = is_three_byte 3 0x38 0xCC"
definition is_sha256msg2_instruction :: "u8 list \<Rightarrow> nat \<Rightarrow> bool" where
  [cpu_defs]: "is_sha256msg2_instruction = is_three_byte 3 0x38 0xCD"
definition is_aesimc_instruction :: "u8 list \<Rightarrow> nat \<Rightarrow> bool" where
  [cpu_defs]: "is_aesimc_instruction = is_three_byte 3 0x38 0xDB"
definition is_aesenc_instruction :: "u8 list \<Rightarrow> nat \<Rightarrow> bool" where
  [cpu_defs]: "is_aesenc_instruction = is_three_byte 3 0x38 0xDC"
definition is_aesenclast_instruction :: "u8 list \<Rightarrow> nat \<Rightarrow> bool" where
  [cpu_defs]: "is_aesenclast_instruction = is_three_byte 3 0x38 0xDD"
definition is_aesdec_instruction :: "u8 list \<Rightarrow> nat \<Rightarrow> bool" where
  [cpu_defs]: "is_aesdec_instruction = is_three_byte 3 0x38 0xDE"
definition is_aesdeclast_instruction :: "u8 list \<Rightarrow> nat \<Rightarrow> bool" where
  [cpu_defs]: "is_aesdeclast_instruction = is_three_byte 3 0x38 0xDF"
definition is_palignr_instruction :: "u8 list \<Rightarrow> nat \<Rightarrow> bool" where
  [cpu_defs]: "is_palignr_instruction = is_three_byte 4 0x3A 0x0F"
definition is_pblendw_instruction :: "u8 list \<Rightarrow> nat \<Rightarrow> bool" where
  [cpu_defs]: "is_pblendw_instruction = is_three_byte 4 0x3A 0x0E"
definition is_aeskeygenassist_instruction :: "u8 list \<Rightarrow> nat \<Rightarrow> bool" where
  [cpu_defs]: "is_aeskeygenassist_instruction = is_three_byte 4 0x3A 0xDF"
definition is_roundss_instruction :: "u8 list \<Rightarrow> nat \<Rightarrow> bool" where
  [cpu_defs]: "is_roundss_instruction = is_three_byte 4 0x3A 0x0A"
definition is_roundsd_instruction :: "u8 list \<Rightarrow> nat \<Rightarrow> bool" where
  [cpu_defs]: "is_roundsd_instruction = is_three_byte 4 0x3A 0x0B"
definition is_pcmpestrm_instruction :: "u8 list \<Rightarrow> nat \<Rightarrow> bool" where
  [cpu_defs]: "is_pcmpestrm_instruction = is_three_byte 3 0x3A 0x60"
definition is_pcmpestri_instruction :: "u8 list \<Rightarrow> nat \<Rightarrow> bool" where
  [cpu_defs]: "is_pcmpestri_instruction = is_three_byte 3 0x3A 0x61"
definition is_pcmpistrm_instruction :: "u8 list \<Rightarrow> nat \<Rightarrow> bool" where
  [cpu_defs]: "is_pcmpistrm_instruction = is_three_byte 3 0x3A 0x62"
definition is_pcmpistri_instruction :: "u8 list \<Rightarrow> nat \<Rightarrow> bool" where
  [cpu_defs]: "is_pcmpistri_instruction = is_three_byte 3 0x3A 0x63"
definition is_pinsr_instruction :: "u8 list \<Rightarrow> nat \<Rightarrow> bool" where
  [cpu_defs]: "is_pinsr_instruction code n \<longleftrightarrow> is_three_byte 4 0x3A 0x20 code n \<or> is_three_byte 4 0x3A 0x22 code n"
definition is_pextr_instruction :: "u8 list \<Rightarrow> nat \<Rightarrow> bool" where
  [cpu_defs]: "is_pextr_instruction code n \<longleftrightarrow> is_three_byte 4 0x3A 0x14 code n \<or> is_three_byte 4 0x3A 0x16 code n"

definition is_serialize_instruction :: "u8 list \<Rightarrow> nat \<Rightarrow> bool" where
  [cpu_defs]: "is_serialize_instruction = is_three_byte 2 0x01 0xE8"

definition is_evex :: "u8 set \<Rightarrow> u8 list \<Rightarrow> bool" where
  "is_evex opcodes code \<longleftrightarrow> 7 \<le> length code \<and> code ! 0 = 0x62 \<and> code ! 4 \<in> opcodes"

definition is_evex_palignr_instruction :: "u8 list \<Rightarrow> bool" where "is_evex_palignr_instruction = is_evex {0x0F}"
definition is_evex_pinsrw_instruction :: "u8 list \<Rightarrow> bool" where "is_evex_pinsrw_instruction = is_evex {0xC4}"
definition is_evex_pinsr_instruction :: "u8 list \<Rightarrow> bool" where "is_evex_pinsr_instruction = is_evex {0x20, 0x22}"
definition is_evex_pextr_instruction :: "u8 list \<Rightarrow> bool" where "is_evex_pextr_instruction = is_evex {0x14, 0x16}"

text \<open>A register form of group 9 with extension 7.\<close>

definition is_register_form_7 :: "u8 \<Rightarrow> bool" where
  "is_register_form_7 modrm \<longleftrightarrow> drop_bit 3 modrm AND 0x07 = 7 \<and> drop_bit 6 modrm AND 0x03 = 3"

definition is_rdpid_instruction :: "u8 list \<Rightarrow> nat \<Rightarrow> bool" where
  "is_rdpid_instruction code prefix_len \<longleftrightarrow>
     prefix_len + 3 \<le> length code \<and> 0xF3 \<in> set (take prefix_len code) \<and> code ! prefix_len = 0x0F \<and>
     code ! (prefix_len + 1) = 0xC7 \<and> is_register_form_7 (code ! (prefix_len + 2))"

definition is_rdseed_instruction :: "u8 list \<Rightarrow> bool" where
  "is_rdseed_instruction code \<longleftrightarrow>
     (let offset = length (takeWhile (\<lambda>b. is_legacy_prefix b \<or> is_rex_byte b) code)
      in offset + 3 \<le> length code \<and> code ! offset = 0x0F \<and> code ! (offset + 1) = 0xC7 \<and>
         is_register_form_7 (code ! (offset + 2)))"

subsection \<open>The ladder\<close>

text \<open>What the ladder finds: an undefined instruction, or a handler, which may be null.\<close>

datatype dispatch = Dispatch_UD | Dispatch "handler_fn option"

definition cpu_decoder_resolve_two_byte_misc :: "u8 list \<Rightarrow> nat \<Rightarrow> u16 \<Rightarrow> u8 \<Rightarrow> dispatch" where
  "cpu_decoder_resolve_two_byte_misc buf prefix_len opc mandatory_prefix =
     (let modrm = buf ! (prefix_len + 2); has_modrm = prefix_len + 2 < length buf; use = (\<lambda>h. Dispatch (Some h))
      in if 0x0F80 \<le> opc \<and> opc \<le> 0x0F8F then use (Control H_jcc)
         else if 0x0F90 \<le> opc \<and> opc \<le> 0x0F9F then use (Data H_setcc)
         else if opc = 0x0FA0 \<or> opc = 0x0FA8 then use (Control H_push)
         else if opc = 0x0FA1 \<or> opc = 0x0FA9 then use (Control H_pop)
         else if opc = 0x0F77 then use (Ext H_emms)
         else if opc = 0x0F01 \<and> is_serialize_instruction buf prefix_len then use (Control H_serialize)
         else if opc = 0x0F0D \<or> opc = 0x0F18 \<or> opc = 0x0F2B \<and> mandatory_prefix = 0 then use (Sse H_sse_misc)
         else if (opc = 0x0F2B \<or> opc = 0x0FE7) \<and> mandatory_prefix = 0x66 \<or> opc = 0x0FC3 then use (Sse H_sse2_store_misc)
         else if opc = 0x0FAE \<and> mandatory_prefix = 0xF3 \<and> has_modrm
         then (if drop_bit 6 modrm AND 0x03 = 3 \<and> drop_bit 3 modrm AND 0x07 \<le> 1 then use (Control H_fsgsbase) else Dispatch_UD)
         else if opc = 0x0FAE then use (Sse H_sse_state)
         else if opc = 0x0FAF then use (Alu H_imul)
         else if opc = 0x0FA4 \<or> opc = 0x0FA5 then use (Alu H_shld)
         else if opc = 0x0FAC \<or> opc = 0x0FAD then use (Alu H_shrd)
         else if opc = 0x0FBE \<or> opc = 0x0FBF then use (Data H_movsx)
         else if opc = 0x0FB6 \<or> opc = 0x0FB7 then use (Data H_movzx)
         else if opc \<in> {0x0FA3, 0x0FAB, 0x0FB3, 0x0FBB, 0x0FBA} then use (Data H_bt)
         else if opc = 0x0FBC \<or> opc = 0x0FBD then use (Data H_bsf)
         else if opc = 0x0FB8 then use (Data H_popcnt)
         else if 0x0FC8 \<le> opc \<and> opc \<le> 0x0FCF then use (Data H_bswap)
         else if opc = 0x0F31 then Dispatch_UD
         else if opc = 0x0FC0 \<or> opc = 0x0FC1 then use (Data H_xadd)
         else if opc = 0x0FB0 \<or> opc = 0x0FB1 then use (Data H_cmpxchg)
         else if opc = 0x0F33 then use (Control H_rdpmc)
         else if opc = 0x0FC7 \<and> is_rdpid_instruction buf prefix_len then use (Control H_rdpid)
         else if opc = 0x0FC7 \<and> is_rdseed_instruction buf then use (Control H_rdseed)
         else if opc = 0x0FC7 \<and> has_modrm \<and> is_register_form_7 modrm then Dispatch_UD
         else if opc = 0x0FC7 then (if is_rdrand_instruction buf then Dispatch_UD else use (Data H_cmpxchg8b16b))
         else Dispatch None)"

definition cpu_decoder_resolve_0f3a_66 :: "u8 list \<Rightarrow> nat \<Rightarrow> dispatch" where
  "cpu_decoder_resolve_0f3a_66 buf prefix_len =
     (if is_pinsr_instruction buf prefix_len then Dispatch (Some (Ext H_pinsr))
      else if is_pextr_instruction buf prefix_len then Dispatch (Some (Ext H_pextr))
      else if is_pblendw_instruction buf prefix_len then Dispatch (Some (Ext H_pblendw))
      else if is_aeskeygenassist_instruction buf prefix_len then Dispatch (Some (Ext H_aeskeygenassist))
      else if is_roundss_instruction buf prefix_len then Dispatch (Some (Ext H_roundss))
      else if is_roundsd_instruction buf prefix_len then Dispatch (Some (Ext H_roundsd))
      else if is_pcmpestrm_instruction buf prefix_len then Dispatch (Some (Ext H_pcmpestrm))
      else if is_pcmpestri_instruction buf prefix_len then Dispatch (Some (Ext H_pcmpestri))
      else if is_pcmpistrm_instruction buf prefix_len then Dispatch (Some (Ext H_pcmpistrm))
      else if is_pcmpistri_instruction buf prefix_len then Dispatch (Some (Ext H_pcmpistri))
      else Dispatch_UD)"

definition cpu_decoder_resolve_x87 :: "u8 list \<Rightarrow> u8 \<Rightarrow> nat \<Rightarrow> handler_fn option" where
  "cpu_decoder_resolve_x87 buf raw_opc prefix_len =
     (let after_wait = (\<lambda>b. raw_opc = 0x9B \<and> prefix_len + 1 < length buf \<and> buf ! (prefix_len + 1) = b)
      in if buf = [] then None
         else if raw_opc = 0xD9 \<or> after_wait 0xD9
         then let at = prefix_len + (if raw_opc = 0x9B then 1 else 0) + 1;
                  d9_modrm = (if at < length buf then buf ! at else 0xFF); d9_reg = drop_bit 3 d9_modrm AND 0x07
              in Some (if d9_reg = 4 \<or> d9_reg = 6 then (Ext H_x87_env) else (Ext H_x87_control))
         else if raw_opc = 0xDB \<or> after_wait 0xDB then Some (Ext H_x87_init)
         else if raw_opc = 0xDD \<or> raw_opc = 0xDF \<or> after_wait 0xDD \<or> after_wait 0xDF then Some (Ext H_x87_status)
         else None)"

text \<open>The vector part of the ladder, before \<^verbatim>\<open>cpu_decoder_resolve_two_byte_misc\<close>; \<open>None\<close> where no test applies.\<close>

definition dispatch_vector :: "u8 list \<Rightarrow> nat \<Rightarrow> u16 \<Rightarrow> u8 \<Rightarrow> dispatch option" where
  "dispatch_vector buf prefix_len opc mandatory_prefix =
     (let pp = peek_instruction_prefix_presence buf prefix_len; m = mandatory_prefix; use = (\<lambda>h. Some (Dispatch (Some h)))
      in if opc = 0xCB \<or> opc = 0xCA then use (Control H_ret)
         else if opc = 0xCF then use (Control H_iret)
         else if 0x0F40 \<le> opc \<and> opc \<le> 0x0F4F then use (Data H_cmovcc)
         else if (opc = 0x0F10 \<or> opc = 0x0F11) \<and> m = 0xF3 then use (Sse H_movss)
         else if (opc = 0x0F10 \<or> opc = 0x0F11) \<and> (m = 0x66 \<or> m = 0xF2) then use (Sse H_sse2_mov_pd)
         else if opc = 0x0F10 \<or> opc = 0x0F11 then use (Sse H_movups)
         else if (opc = 0x0F28 \<or> opc = 0x0F29) \<and> m = 0x66 then use (Sse H_sse2_mov_pd)
         else if opc = 0x0F28 \<or> opc = 0x0F29 then use (Sse H_movaps)
         else if opc \<in> {0x0F60, 0x0F61, 0x0F62, 0x0F63, 0x0F67, 0x0F68, 0x0F69, 0x0F6A, 0x0F6B, 0x0F6C, 0x0F6D} \<and> m = 0x66
         then use (Sse H_sse2_pack)
         else if opc \<in> {0x0F64, 0x0F65, 0x0F66, 0x0F74, 0x0F75, 0x0F76} \<and> m = 0x66 then use (Sse H_sse2_int_cmp)
         else if opc \<in> {0x0FDB, 0x0FDF, 0x0FEB, 0x0FEF} \<and> m = 0x66 then use (Sse H_sse2_int_logic)
         else if opc = 0x0F38 \<and> is_pshufb_instruction buf prefix_len then use (Ext H_pshufb)
         else if opc = 0x0F38 \<and> pp_has_f2 pp \<and> \<not> pp_has_f3 pp \<and> is_crc32_instruction buf prefix_len then use (Data H_crc32)
         else if opc = 0x0F38 \<and> \<not> pp_has_f2 pp \<and> \<not> pp_has_f3 pp \<and> is_movbe_instruction buf prefix_len then use (Data H_movbe)
         else if opc = 0x0F38 \<and> m = 0
         then (if is_sha256rnds2_instruction buf prefix_len then use (Ext H_sha256rnds2)
               else if is_sha256msg1_instruction buf prefix_len then use (Ext H_sha256msg1)
               else if is_sha256msg2_instruction buf prefix_len then use (Ext H_sha256msg2)
               else Some Dispatch_UD)
         else if opc = 0x0F38 \<and> m = 0x66 \<and> is_aesimc_instruction buf prefix_len then use (Ext H_aesimc)
         else if opc = 0x0F38 \<and> m = 0x66 \<and> is_aesenc_instruction buf prefix_len then use (Ext H_aesenc)
         else if opc = 0x0F38 \<and> m = 0x66 \<and> is_aesenclast_instruction buf prefix_len then use (Ext H_aesenclast)
         else if opc = 0x0F38 \<and> m = 0x66 \<and> is_aesdec_instruction buf prefix_len then use (Ext H_aesdec)
         else if opc = 0x0F38 \<and> m = 0x66 \<and> is_aesdeclast_instruction buf prefix_len then use (Ext H_aesdeclast)
         else if opc \<in> {0x0F71, 0x0F72, 0x0F73, 0x0FD1, 0x0FD2, 0x0FD3, 0x0FE1, 0x0FE2, 0x0FF1, 0x0FF2, 0x0FF3} \<and> m = 0x66
         then use (Sse H_sse2_shift)
         else if opc \<in> {0x0FD4, 0x0FD5, 0x0FD8, 0x0FD9, 0x0FDA, 0x0FDC, 0x0FDD, 0x0FDE, 0x0FE0, 0x0FE3, 0x0FE4, 0x0FE5,
                         0x0FE8, 0x0FE9, 0x0FEA, 0x0FEC, 0x0FED, 0x0FEE, 0x0FF4, 0x0FF5, 0x0FF6, 0x0FF8, 0x0FF9, 0x0FFA,
                         0x0FFB, 0x0FFC, 0x0FFD, 0x0FFE} \<and> m = 0x66
         then use (Sse H_sse2_int_arith)
         else if opc = 0x0F6E \<or> opc = 0x0F7E \<or> opc = 0x0FD6 then use (Sse H_movdq)
         else if (opc = 0x0F6F \<or> opc = 0x0F7F \<or> opc = 0x0FD7) \<and> (m = 0x66 \<or> m = 0xF3) then use (Sse H_sse2_mov_int)
         else if opc = 0x0FF0 \<or> opc = 0x0FF7 then use (Sse H_sse2_misc)
         else if opc \<in> {0x0F12, 0x0F13, 0x0F16, 0x0F17, 0x0F50} \<and> m = 0x66 then use (Sse H_sse2_mov_pd)
         else if opc \<in> {0x0F12, 0x0F13, 0x0F16, 0x0F17, 0x0F50} then use (Sse H_sse_mov_misc)
         else if opc \<in> {0x0F14, 0x0F15, 0x0FC5, 0x0FC6} \<and> m = 0x66 \<or> opc = 0x0F70 \<and> (m = 0x66 \<or> m = 0xF2 \<or> m = 0xF3)
         then use (Sse H_sse2_shuffle)
         else if opc = 0x0FC4 then use (Ext H_pinsrw)
         else if opc = 0x0F14 \<or> opc = 0x0F15 \<or> opc = 0x0FC6 then use (Sse H_sse_shuffle)
         else if opc \<in> {0x0F54, 0x0F55, 0x0F56} \<and> m = 0x66 then use (Sse H_sse2_logic_pd)
         else if opc \<in> {0x0F54, 0x0F55, 0x0F56, 0x0F57} then use (Sse H_sse_logic)
         else if opc \<in> {0x0F58, 0x0F59, 0x0F5C, 0x0F5E} \<and> (m = 0x66 \<or> m = 0xF2) then use (Sse H_sse2_arith_pd)
         else if opc \<in> {0x0F58, 0x0F59, 0x0F5C, 0x0F5E} then use (Sse H_sse_arith)
         else if opc \<in> {0x0F51, 0x0F5D, 0x0F5F} \<and> (m = 0x66 \<or> m = 0xF2) then use (Sse H_sse2_math_pd)
         else if opc \<in> {0x0F51, 0x0F52, 0x0F53, 0x0F5D, 0x0F5F} then use (Sse H_sse_math)
         else if opc = 0x0F5A \<and> (m = 0xF2 \<or> m = 0xF3) then use (Sse H_sse2_scalar_convert)
         else if opc = 0x0F5A \<or> opc = 0x0F5B \<or> opc = 0x0FE6 then use (Sse H_sse2_convert)
         else if opc \<in> {0x0F2A, 0x0F2C, 0x0F2D} \<and> (m = 0xF2 \<or> m = 0x66) then use (Sse H_sse2_scalar_convert)
         else if opc \<in> {0x0F2A, 0x0F2C, 0x0F2D} then use (Sse H_sse_convert)
         else if opc = 0x0FC2 \<and> (m = 0x66 \<or> m = 0xF2) \<or> (opc = 0x0F2E \<or> opc = 0x0F2F) \<and> m = 0x66 then use (Sse H_sse2_cmp_pd)
         else if opc = 0x0FC2 \<or> opc = 0x0F2E \<or> opc = 0x0F2F then use (Sse H_sse_cmp)
         else None)"

text \<open>The tests on the low byte of the opcode; they see two-byte opcodes that no earlier test has taken, too.\<close>

definition dispatch_group1 :: "u8 \<Rightarrow> dispatch" where
  "dispatch_group1 reg =
     (if reg = 0 then Dispatch (Some (Alu H_add)) else if reg = 1 then Dispatch (Some (Alu H_or))
      else if reg = 2 then Dispatch (Some (Alu H_adc)) else if reg = 3 then Dispatch (Some (Alu H_sbb))
      else if reg = 4 then Dispatch (Some (Alu H_and)) else if reg = 5 then Dispatch (Some (Alu H_sub))
      else if reg = 6 then Dispatch (Some (Alu H_xor)) else if reg = 7 then Dispatch (Some (Alu H_cmp)) else Dispatch_UD)"

definition dispatch_group5 :: "u8 \<Rightarrow> dispatch" where
  "dispatch_group5 reg =
     (if reg = 0 then Dispatch (Some (Alu H_inc)) else if reg = 1 then Dispatch (Some (Alu H_dec))
      else if reg = 2 \<or> reg = 3 then Dispatch (Some (Control H_call)) else if reg = 4 \<or> reg = 5 then Dispatch (Some (Control H_jmp))
      else if reg = 6 then Dispatch (Some (Control H_push)) else Dispatch_UD)"

text \<open>The \<^verbatim>\<open>reg\<close> field of the ModRM byte of a group opcode, 0xFF for the other opcodes.\<close>

definition group_field :: "u8 set \<Rightarrow> u8 list \<Rightarrow> nat \<Rightarrow> u8 \<Rightarrow> u8" where
  "group_field opcodes buf prefix_len raw_opc =
     (if raw_opc \<in> opcodes then peek_modrm_reg_field buf prefix_len 1 else 0xFF)"

abbreviation "group1_opcodes \<equiv> {0x80, 0x81, 0x83 :: u8}"
abbreviation "group2_opcodes \<equiv> {0xD0, 0xD1, 0xD2, 0xD3, 0xC0, 0xC1 :: u8}"
abbreviation "group3_opcodes \<equiv> {0xF6, 0xF7 :: u8}"

definition dispatch_low_byte :: "CPU_CONTEXT \<Rightarrow> u8 list \<Rightarrow> nat \<Rightarrow> u16 \<Rightarrow> dispatch" where
  "dispatch_low_byte ctx buf prefix_len opc =
     (let raw = ucast opc :: u8; repeat_prefix = peek_repeat_prefix buf prefix_len;
          last_rex = foldl (\<lambda>r b. if cpu_allows_rex_prefix ctx \<and> is_rex_byte b then b else r) 0 (take prefix_len buf);
          rex_b_prefix = (last_rex AND 0x01 \<noteq> 0); within = (\<lambda>a b. a \<le> raw \<and> raw \<le> b);
          group_reg = group_field group1_opcodes buf prefix_len raw; group2_reg = group_field group2_opcodes buf prefix_len raw;
          group3_reg = group_field group3_opcodes buf prefix_len raw; fe_reg = group_field {0xFE} buf prefix_len raw;
          ff_reg = group_field {0xFF} buf prefix_len raw; use = (\<lambda>h. Dispatch (Some h))
      in if raw = 0x99 then use (Data H_cdq)
         else if raw = 0x98 then use (Data H_cbw)
         else if raw = 0xC8 then use (Control H_enter)
         else if raw = 0xC9 then use (Control H_leave)
         else if raw = 0x90 \<and> repeat_prefix = 0xF3 \<and> \<not> rex_b_prefix then use (Control H_pause)
         else if opc = 0x0F1F then use (Control H_nop)
         else if raw = 0x90 \<and> repeat_prefix = 0 \<and> \<not> rex_b_prefix then use (Control H_nop)
         else if within 0x90 0x97 \<or> raw = 0x86 \<or> raw = 0x87 then use (Data H_xchg)
         else if raw = 0x63 then use (Data H_movsxd)
         else if raw = 0x8D then use (Data H_lea)
         else if within 0x88 0x8C \<or> raw = 0x8E \<or> within 0xA0 0xA3 \<or> within 0xB0 0xBF \<or> raw = 0xC6 \<or> raw = 0xC7
         then use (Data H_mov)
         else if repeat_prefix \<noteq> 0 \<and> is_rep_string_opcode raw then use (Data H_rep)
         else if raw = 0xA4 \<or> raw = 0xA5 then use (Data H_movs)
         else if raw = 0xA6 \<or> raw = 0xA7 then use (Data H_cmps)
         else if raw = 0xAA \<or> raw = 0xAB then use (Data H_stos)
         else if raw = 0xAC \<or> raw = 0xAD then use (Data H_lods)
         else if raw = 0xAE \<or> raw = 0xAF then use (Data H_scas)
         else if raw = 0xD7 then use (Data H_xlat)
         else if cpu_decoder_resolve_x87 buf raw prefix_len \<noteq> None
         then Dispatch (cpu_decoder_resolve_x87 buf raw prefix_len)
         else if raw = 0xF5 \<or> raw = 0xF8 \<or> raw = 0xF9 \<or> raw = 0xFC \<or> raw = 0xFD then use (Control H_flags)
         else if raw = 0x9C \<or> raw = 0x9D then use (Control H_pushf)
         else if raw = 0x9E \<or> raw = 0x9F then use (Control H_lahf)
         else if within 0x50 0x57 then use (Control H_push)
         else if within 0x58 0x5F then use (Control H_pop)
         else if within 0x00 0x05 then use (Alu H_add)
         else if within 0x08 0x0D then use (Alu H_or)
         else if within 0x10 0x15 then use (Alu H_adc)
         else if raw = 0x06 \<or> raw = 0x0E \<or> raw = 0x16 \<or> raw = 0x1E then use (Control H_push)
         else if raw = 0x07 \<or> raw = 0x17 \<or> raw = 0x1F then use (Control H_pop)
         else if within 0x20 0x25 then use (Alu H_and)
         else if within 0x18 0x1D then use (Alu H_sbb)
         else if within 0x28 0x2D then use (Alu H_sub)
         else if within 0x30 0x35 then use (Alu H_xor)
         else if within 0x38 0x3D then use (Alu H_cmp)
         else if within 0x70 0x7F then use (Control H_jcc)
         else if raw \<in> group1_opcodes \<and> group_reg \<noteq> 0xFF then dispatch_group1 group_reg
         else if raw \<in> group2_opcodes \<and> group2_reg = 1 then use (Alu H_ror)
         else if raw \<in> group2_opcodes \<and> group2_reg = 2 then use (Alu H_rcl)
         else if raw \<in> group2_opcodes \<and> group2_reg = 3 then use (Alu H_rcr)
         else if raw \<in> group2_opcodes \<and> group2_reg = 0 then use (Alu H_rol)
         else if raw \<in> group2_opcodes \<and> group2_reg = 4 then use (Alu H_shl)
         else if raw \<in> group2_opcodes \<and> group2_reg = 5 then use (Alu H_shr)
         else if raw \<in> group2_opcodes \<and> group2_reg = 7 then use (Alu H_sar)
         else if raw = 0xA8 \<or> raw = 0xA9 \<or> raw = 0x84 \<or> raw = 0x85 \<or> raw \<in> group3_opcodes \<and> group3_reg = 0
         then use (Alu H_test)
         else if raw \<in> group3_opcodes \<and> group3_reg = 2 then use (Alu H_not)
         else if raw \<in> group3_opcodes \<and> group3_reg = 3 then use (Alu H_neg)
         else if raw \<in> group3_opcodes \<and> group3_reg = 4 then use (Alu H_mul)
         else if raw \<in> group3_opcodes \<and> group3_reg = 5 then use (Alu H_imul)
         else if raw \<in> group3_opcodes \<and> group3_reg = 6 then use (Alu H_div)
         else if raw \<in> group3_opcodes \<and> group3_reg = 7 then use (Alu H_idiv)
         else if \<not> cpu_is_64bit_code ctx \<and> within 0x40 0x47 then use (Alu H_inc)
         else if \<not> cpu_is_64bit_code ctx \<and> within 0x48 0x4F then use (Alu H_dec)
         else if raw = 0xFE \<and> fe_reg = 0 then use (Alu H_inc)
         else if raw = 0xFE \<and> fe_reg = 1 then use (Alu H_dec)
         else if raw = 0x24 \<or> raw = 0x25 then use (Alu H_and)
         else if raw = 0x68 \<or> raw = 0x6A then use (Control H_push)
         else if raw = 0x69 \<or> raw = 0x6B then use (Alu H_imul)
         else if raw = 0xE8 \<or> raw = 0x9A then use (Control H_call)
         else if within 0xE0 0xE3 then use (Control H_jcc)
         else if raw = 0xEB \<or> raw = 0xE9 \<or> raw = 0xEA then use (Control H_jmp)
         else if raw = 0x8F then use (Control H_pop)
         else if raw = 0xFF \<and> ff_reg \<noteq> 0xFF then dispatch_group5 ff_reg
         else Dispatch_UD)"

text \<open>The whole ladder.\<close>

definition dispatch_opcode :: "CPU_CONTEXT \<Rightarrow> u8 list \<Rightarrow> nat \<Rightarrow> u16 \<Rightarrow> dispatch" where
  "dispatch_opcode ctx buf prefix_len opc =
     (let mandatory_prefix = peek_mandatory_prefix buf prefix_len; opcode3 = buf ! (prefix_len + 2)
      in case dispatch_vector buf prefix_len opc mandatory_prefix of
           Some d \<Rightarrow> d
         | None \<Rightarrow>
             (case cpu_decoder_resolve_two_byte_misc buf prefix_len opc mandatory_prefix of
                Dispatch (Some h) \<Rightarrow> Dispatch (Some h)
              | Dispatch_UD \<Rightarrow> Dispatch_UD
              | Dispatch None \<Rightarrow>
                  (case cpu_decoder_classify_xgetbv_rdtscp buf prefix_len opc of
                     (_, is_xgetbv, is_rdtscp) \<Rightarrow>
                       if opc = 0x0F3A \<and> is_palignr_instruction buf prefix_len then Dispatch (Some (Ext H_palignr))
                       else if opc = 0x0F3A \<and> mandatory_prefix = 0x66 then cpu_decoder_resolve_0f3a_66 buf prefix_len
                       else if is_xgetbv then Dispatch_UD
                       else if is_rdtscp then Dispatch_UD
                       else if is_endbr_instruction buf then Dispatch (Some (Control H_endbr))
                       else if probe_rdssp_instruction buf \<noteq> None then Dispatch (Some (Control H_rdssp))
                       else if opc = 0x0F1E \<and> prefix_len + 2 < length buf
                       then (if opcode3 = 0xFA \<or> opcode3 = 0xFB \<or> drop_bit 3 opcode3 AND 0x07 = 1 then Dispatch_UD
                             else Dispatch None)
                       else dispatch_low_byte ctx buf prefix_len opc)))"

subsection \<open>Decoding an instruction\<close>

definition flag_if :: "bool \<Rightarrow> u16 \<Rightarrow> DecodedInst \<Rightarrow> DecodedInst" where
  "flag_if b f dec = (if b then dec\<lparr>dc_flags := dc_flags dec OR f\<rparr> else dec)"

text \<open>The EVEX and VEX forms, tested before the prefixes are read.\<close>

definition intercept_vex :: "u8 list \<Rightarrow> handler_fn option" where
  "intercept_vex buf =
     (if buf ! 0 = 0x62 \<and> is_evex_palignr_instruction buf then Some (Ext H_evex_palignr)
      else if buf ! 0 = 0x62 \<and> is_evex_pinsrw_instruction buf then Some (Ext H_evex_pinsrw)
      else if buf ! 0 = 0x62 \<and> is_evex_pinsr_instruction buf then Some (Ext H_evex_pinsr)
      else if buf ! 0 = 0x62 \<and> is_evex_pextr_instruction buf then Some (Ext H_evex_pextr)
      else if buf ! 0 = 0xC5 \<or> buf ! 0 = 0xC4 then Some (Ext H_avx_vex)
      else None)"

text \<open>The instructions that need no handler: faults, near returns and the inline conditional jumps.\<close>

definition decode_inline :: "CPU_CONTEXT \<Rightarrow> u8 list \<Rightarrow> nat \<Rightarrow> u16 \<Rightarrow> DecodedInst \<Rightarrow> DecodedInst option" where
  "decode_inline ctx buf prefix_len opc dec =
     (let (operand_size, ret_prefix_len) = decode_near_ret_operand_size ctx buf
      in if opc = 0xF4 then Some (flag_if True DECODED_FLAG_UD dec)
         else if opc = 0xCC then Some (flag_if True DECODED_FLAG_BP dec)
         else if opc = 0xF1 then Some (flag_if True DECODED_FLAG_DB dec)
         else if opc = 0x0F0B then Some (flag_if True DECODED_FLAG_UD dec)
         else if cpu_decoder_is_escape_owned_ud opc then Some (flag_if True DECODED_FLAG_UD dec)
         else if opc = 0xC3
         then Some (cpu_decoder_set_inline_ret dec (of_nat ret_prefix_len) operand_size 0 False)
         else if opc = 0xC2
         then Some (if length buf < ret_prefix_len + 3 then flag_if True DECODED_FLAG_UD dec
                    else cpu_decoder_set_inline_ret dec (of_nat ret_prefix_len) operand_size
                           (ucast (buf ! (ret_prefix_len + 1)) OR push_bit 8 (ucast (buf ! (ret_prefix_len + 2)))) True)
         else if prefix_len = 0 \<and> 0x70 \<le> opc \<and> opc \<le> 0x7F \<and> sd_long_mode (sr_descriptor (cs ctx)) \<and> 2 \<le> length buf
         then Some (flag_if True DECODED_FLAG_BRANCH
                (dec\<lparr>dc_inline_kind := DECODED_INLINE_JCC_SHORT_LONGMODE, dc_inline_jcc_cond := ucast (opc AND 0x0F),
                     dc_inline_jcc_disp := buf ! 1, dc_length := 2\<rparr>))
         else if prefix_len = 0 \<and> 0x0F80 \<le> opc \<and> opc \<le> 0x0F8F \<and> sd_long_mode (sr_descriptor (cs ctx)) \<and> 6 \<le> length buf
         then Some (flag_if True DECODED_FLAG_BRANCH
                (dec\<lparr>dc_inline_kind := DECODED_INLINE_JCC_NEAR_LONGMODE, dc_inline_jcc_cond := ucast (opc AND 0x0F),
                     dc_inline_jcc_disp32 := ucast (buf ! 2) OR push_bit 8 (ucast (buf ! 3)) OR
                       push_bit 16 (ucast (buf ! 4)) OR push_bit 24 (ucast (buf ! 5)), dc_length := 6\<rparr>))
         else None)"

text \<open>The table behind \<^verbatim>\<open>cpu_decoder_try_attach_fast_handler\<close>: the handler, whether its address is recomputed on
  every replay, and the decoder that is probed.\<close>

definition attach_table ::
  "image \<Rightarrow> (handler_fn \<times> bool \<times> (CPU_CONTEXT \<Rightarrow> u8 list \<Rightarrow> DecodedInstruction \<times> CPU_CONTEXT)) list" where
  "attach_table img =
     [((Data H_mov), True, decode_mov_instruction), ((Alu H_add), True, decode_add_instruction), ((Alu H_sub), True, decode_sub_instruction),
      ((Alu H_cmp), True, decode_cmp_instruction), ((Alu H_test), True, decode_test_instruction), ((Alu H_and), True, decode_and_instruction),
      ((Alu H_or), True, decode_or_instruction), ((Alu H_xor), True, decode_xor_instruction), ((Alu H_inc), False, decode_inc_instruction),
      ((Alu H_dec), False, decode_dec_instruction), ((Control H_push), False, decode_push_instruction), ((Control H_pop), False, decode_pop_instruction),
      ((Control H_jmp), False, decode_jmp_instruction), ((Control H_call), False, decode_call_instruction), ((Alu H_shl), False, decode_shl_instruction),
      ((Alu H_shr), False, decode_shr_instruction), ((Alu H_shld), True, decode_shld_instruction), ((Alu H_shrd), True, decode_shrd_instruction),
      ((Alu H_sar), False, decode_sar_instruction), ((Alu H_rol), False, decode_rol_instruction), ((Alu H_ror), False, decode_ror_instruction),
      ((Alu H_rcl), False, decode_rcl_instruction), ((Alu H_rcr), False, decode_rcr_instruction), ((Alu H_adc), False, decode_adc_instruction),
      ((Alu H_sbb), False, decode_sbb_instruction), ((Alu H_neg), False, decode_neg_instruction), ((Alu H_not), False, decode_not_instruction),
      ((Data H_xchg), True, decode_xchg_instruction), ((Data H_movsx), True, decode_movsx_instruction), ((Data H_movzx), True, decode_movzx_instruction),
      ((Data H_movsxd), True, decode_movsxd_instruction), ((Data H_cmovcc), True, decode_cmovcc_instruction), ((Control H_nop), False, decode_nop_instruction),
      ((Alu H_mul), False, decode_mul_instruction), ((Alu H_imul), False, decode_imul_instruction), ((Alu H_div), False, decode_div_instruction),
      ((Alu H_idiv), False, decode_idiv_instruction), ((Data H_setcc), False, decode_setcc_instruction), ((Data H_cdq), False, decode_cdq_instruction),
      ((Data H_cbw), False, decode_cbw_instruction), ((Control H_leave), False, decode_leave_instruction), ((Control H_lahf), False, decode_lahf_instruction (im_cpuid img)),
      ((Control H_flags), False, decode_flags_instruction), ((Data H_bswap), False, decode_bswap_instruction), ((Control H_pushf), False, decode_pushf_instruction),
      ((Data H_movs), False, decode_movs_instruction), ((Data H_cmps), False, decode_cmps_instruction), ((Data H_stos), False, decode_stos_instruction),
      ((Data H_lods), False, decode_lods_instruction), ((Data H_scas), False, decode_scas_instruction), ((Data H_xlat), False, decode_xlat_instruction),
      ((Control H_pause), False, decode_pause_instruction), ((Data H_bt), False, decode_bt_instruction), ((Data H_bsf), False, decode_bsf_instruction),
      ((Data H_xadd), True, decode_xadd_instruction), ((Data H_cmpxchg), True, decode_cmpxchg_instruction), ((Control H_cpuid), False, im_decode img (Control H_cpuid)),
      ((Control H_rdtsc), False, im_decode img (Control H_rdtsc)), ((Control H_rdtscp), False, im_decode img (Control H_rdtscp)), ((Control H_rdpmc), False, im_decode img (Control H_rdpmc)),
      ((Control H_rdseed), False, im_decode img (Control H_rdseed)), ((Control H_xgetbv), False, im_decode img (Control H_xgetbv)), ((Control H_rdpid), False, im_decode img (Control H_rdpid)),
      ((Control H_fsgsbase), False, im_decode img (Control H_fsgsbase)), ((Control H_serialize), False, im_decode img (Control H_serialize)), ((Data H_popcnt), False, decode_popcnt_instruction),
      ((Control H_endbr), False, decode_endbr_instruction), ((Sse H_xorps), False, im_decode img (Sse H_xorps)), ((Sse H_movaps), False, im_decode img (Sse H_movaps)),
      ((Sse H_movups), False, im_decode img (Sse H_movups)), ((Sse H_movdq), False, im_decode img (Sse H_movdq)), ((Sse H_movss), False, im_decode img (Sse H_movss)),
      ((Control H_enter), False, decode_enter_instruction), ((Data H_rep), False, decode_rep_for_fast), ((Sse H_sse2_int_logic), False, im_decode img (Sse H_sse2_int_logic)),
      ((Sse H_sse2_mov_int), False, im_decode img (Sse H_sse2_mov_int)), ((Sse H_sse2_mov_pd), False, im_decode img (Sse H_sse2_mov_pd)), ((Sse H_sse2_int_arith), False, im_decode img (Sse H_sse2_int_arith)),
      ((Sse H_sse2_int_cmp), False, im_decode img (Sse H_sse2_int_cmp)), ((Ext H_pshufb), False, im_decode img (Ext H_pshufb)), ((Sse H_sse2_shuffle), False, im_decode img (Sse H_sse2_shuffle)),
      ((Sse H_sse_shuffle), False, im_decode img (Sse H_sse_shuffle)), ((Sse H_sse_logic), False, im_decode img (Sse H_sse_logic)), ((Sse H_sse_arith), False, im_decode img (Sse H_sse_arith)),
      ((Sse H_sse2_arith_pd), False, im_decode img (Sse H_sse2_arith_pd)), ((Sse H_sse2_logic_pd), False, im_decode img (Sse H_sse2_logic_pd)), ((Sse H_sse_cmp), False, im_decode img (Sse H_sse_cmp)),
      ((Sse H_sse2_cmp_pd), False, im_decode img (Sse H_sse2_cmp_pd)), ((Sse H_sse2_pack), False, im_decode img (Sse H_sse2_pack)), ((Sse H_sse2_shift), False, im_decode img (Sse H_sse2_shift)),
      ((Sse H_sse_math), False, im_decode img (Sse H_sse_math)), ((Sse H_sse2_math_pd), False, im_decode img (Sse H_sse2_math_pd)), ((Sse H_sse_convert), False, im_decode img (Sse H_sse_convert)),
      ((Sse H_sse2_convert), False, im_decode img (Sse H_sse2_convert)), ((Sse H_sse2_scalar_convert), False, im_decode img (Sse H_sse2_scalar_convert)), ((Sse H_sse_mov_misc), False, im_decode img (Sse H_sse_mov_misc))]"

definition cpu_decoder_try_attach_fast_handler ::
  "image \<Rightarrow> CPU_CONTEXT \<Rightarrow> DecodedInst \<Rightarrow> DecodedInst \<times> CPU_CONTEXT" where
  "cpu_decoder_try_attach_fast_handler img ctx dec =
     (if dc_inline_kind dec \<noteq> DECODED_INLINE_NONE then (dec, ctx)
      else if dc_flags dec AND (DECODED_FLAG_UD OR DECODED_FLAG_BP OR DECODED_FLAG_DB OR DECODED_FLAG_INLINE_RET) \<noteq> 0
      then (dec, ctx)
      else if dc_handler dec = 0 then (dec, ctx)
      else if dc_byte_count dec = 0 then (dec, ctx)
      else case List.find (\<lambda>(h, _). dc_handler dec = im_address img h) (attach_table img) of
             None \<Rightarrow> (dec, ctx)
           | Some (h, recompute, decode_fn) \<Rightarrow>
               (if recompute then attach_one_recompute_addr else attach_one) ctx dec decode_fn (im_fast_address img h))"

text \<open>The entry before the ladder: the bytes and the flags that depend on the opcode only.\<close>

definition decoded_bytes :: "u8 list \<Rightarrow> DecodedInst" where
  "decoded_bytes buf =
     (let copy_len = min (length buf) DECODED_INST_MAX_BYTES
      in decoded_inst_clear\<lparr>dc_bytes := (\<lambda>i. if i < copy_len then buf ! i else 0),
           dc_byte_count := of_nat copy_len, dc_segment_override := - 1\<rparr>)"

definition decoded_opening :: "u8 list \<Rightarrow> nat \<Rightarrow> u16 \<Rightarrow> DecodedInst" where
  "decoded_opening buf prefix_len opc =
     flag_if (\<not> cpu_decoder_is_escape_candidate_opc opc) DECODED_FLAG_KNOWN_NOT_ESCAPE
       (flag_if (is_branch_opcode opc) DECODED_FLAG_BRANCH
         (flag_if (cpu_step_may_touch_vector_state buf opc (peek_mandatory_prefix buf prefix_len)) DECODED_FLAG_TOUCHES_VECTOR
           ((decoded_bytes buf)\<lparr>dc_segment_override := word_of_int (peek_segment_override buf prefix_len)\<rparr>)))"

text \<open>The branch flag of group 5 follows the ModRM byte.\<close>

definition group5_branch :: "u8 \<Rightarrow> u8 \<Rightarrow> DecodedInst \<Rightarrow> DecodedInst" where
  "group5_branch raw_opc ff_reg dec =
     (if raw_opc \<noteq> 0xFF then dec
      else if ff_reg = 2 \<or> ff_reg = 3 \<or> ff_reg = 4 \<or> ff_reg = 5 then flag_if True DECODED_FLAG_BRANCH dec
      else dec\<lparr>dc_flags := dc_flags dec AND NOT DECODED_FLAG_BRANCH\<rparr>)"

definition mark_no_fault :: "u8 list \<Rightarrow> nat \<Rightarrow> u16 \<Rightarrow> DecodedInst \<Rightarrow> DecodedInst" where
  "mark_no_fault buf prefix_len opc dec =
     (let raw = ucast opc :: u8; field = (\<lambda>opcodes. group_field opcodes buf prefix_len raw)
      in flag_if
           (dc_flags dec AND (DECODED_FLAG_UD OR DECODED_FLAG_BP OR DECODED_FLAG_DB OR DECODED_FLAG_TOUCHES_VECTOR OR
              DECODED_FLAG_INLINE_RET) = 0 \<and>
            cpu_decoder_classify_no_fault buf prefix_len opc (field group1_opcodes) (field group3_opcodes) (field {0xFE})
              (field {0xFF}) (field group2_opcodes))
           DECODED_FLAG_NO_FAULT dec)"

definition handler_address :: "image \<Rightarrow> handler_fn option \<Rightarrow> u64" where
  "handler_address img h = (case h of None \<Rightarrow> 0 | Some h \<Rightarrow> im_address img h)"

definition cpu_decode_instruction :: "image \<Rightarrow> CPU_CONTEXT \<Rightarrow> u8 list \<Rightarrow> DecodedInst \<times> CPU_CONTEXT" where
  "cpu_decode_instruction img ctx buf =
     (if buf = [] then (decoded_inst_clear, ctx)
      else case intercept_vex buf of
        Some h \<Rightarrow> (flag_if True DECODED_FLAG_TOUCHES_VECTOR ((decoded_bytes buf)\<lparr>dc_handler := im_address img h\<rparr>), ctx)
      | None \<Rightarrow>
          (case peek_opcode ctx buf of
             (opc, prefix_len) \<Rightarrow>
               if opc = 0xFFFF then ((decoded_bytes buf)\<lparr>dc_byte_count := 0\<rparr>, ctx)
               else let dec = decoded_opening buf prefix_len opc
                    in case decode_inline ctx buf prefix_len opc dec of
                         Some dec1 \<Rightarrow> (dec1, ctx)
                       | None \<Rightarrow>
                           let raw = ucast opc :: u8;
                               dec1 = group5_branch raw (group_field {0xFF} buf prefix_len raw) dec
                           in case dispatch_opcode ctx buf prefix_len opc of
                                Dispatch_UD \<Rightarrow> (flag_if True DECODED_FLAG_UD dec1, ctx)
                              | Dispatch h \<Rightarrow>
                                  cpu_decoder_try_attach_fast_handler img ctx
                                    (mark_no_fault buf prefix_len opc
                                      ((flag_if (h = Some (Data H_rep)) DECODED_FLAG_PARTIAL_PROGRESS dec1)
                                         \<lparr>dc_handler := handler_address img h\<rparr>))))"

end
