(* ===== verification/DecoderSpec.thy ===== *)
theory DecoderSpec
  imports Decoder
begin

text \<open>
  The decoder as a whole: what an entry looks like, which flags go with which handler, and the
  handlers it attaches.
\<close>

unbundle bit_operations_syntax

subsection \<open>Flags\<close>

lemmas flag_numbers = DECODED_FLAG_BRANCH_def DECODED_FLAG_TOUCHES_VECTOR_def DECODED_FLAG_INLINE_RET_def DECODED_FLAG_UD_def
  DECODED_FLAG_BP_def DECODED_FLAG_NO_FAULT_def DECODED_FLAG_KNOWN_NOT_ESCAPE_def DECODED_FLAG_PARTIAL_PROGRESS_def
  DECODED_FLAG_DB_def

text \<open>Every test of a single flag is a test of one bit, and setting a flag sets that bit.\<close>

lemma decoded_has_bit: "decoded_has dec (push_bit n 1) \<longleftrightarrow> bit (dc_flags dec) n"
  by (simp add: decoded_has_def bit_iff_and_push_bit_not_eq_0)

lemma decoded_has_or: "decoded_has dec (f OR g) \<longleftrightarrow> decoded_has dec f \<or> decoded_has dec g"
  by (auto simp: decoded_has_def bit.conj_disj_distrib) (simp_all add: or_eq_0_iff)

lemma flag_if_simps [simp]:
  "dc_handler (flag_if b f dec) = dc_handler dec" "dc_fast_handler (flag_if b f dec) = dc_fast_handler dec"
  "dc_inline_kind (flag_if b f dec) = dc_inline_kind dec" "dc_byte_count (flag_if b f dec) = dc_byte_count dec"
  "dc_bytes (flag_if b f dec) = dc_bytes dec" "dc_length (flag_if b f dec) = dc_length dec"
  by (simp_all add: flag_if_def)

lemma flag_if_has:
  "decoded_has (flag_if b (push_bit n 1) dec) (push_bit k 1) \<longleftrightarrow> decoded_has dec (push_bit k 1) \<or> b \<and> n = k \<and> k < 16"
  unfolding decoded_has_bit by (auto simp: flag_if_def bit_simps)

lemma flag_push: "(1 :: u16) = push_bit 0 1" by simp

lemma decoded_code_flag [simp]: "decoded_code (flag_if b f dec) = decoded_code dec"
  by (simp add: decoded_code_def)

lemma decoded_code_bytes: "decoded_code (decoded_bytes buf) = take 15 buf"
proof -
  have "unat (of_nat (min (length buf) 15) :: u8) = min (length buf) 15" by (simp add: unsigned_of_nat take_bit_nat_eq_self)
  then show ?thesis
    by (auto simp: decoded_code_def decoded_bytes_def Let_def DECODED_INST_MAX_BYTES_def intro!: nth_equalityI)
qed

lemma entry_fields [simp]:
  "dc_fast_handler (decoded_bytes buf) = 0" "dc_handler (decoded_bytes buf) = 0" "dc_length (decoded_bytes buf) = 0"
  "dc_inline_kind (decoded_bytes buf) = DECODED_INLINE_NONE" "dc_flags (decoded_bytes buf) = 0"
  "dc_fast_handler (decoded_opening buf n opc) = 0" "dc_handler (decoded_opening buf n opc) = 0"
  "dc_length (decoded_opening buf n opc) = 0" "dc_inline_kind (decoded_opening buf n opc) = DECODED_INLINE_NONE"
  "dc_bytes (decoded_opening buf n opc) = dc_bytes (decoded_bytes buf)"
  "dc_byte_count (decoded_opening buf n opc) = dc_byte_count (decoded_bytes buf)"
  "dc_fast_handler (group5_branch r g d) = dc_fast_handler d" "dc_handler (group5_branch r g d) = dc_handler d"
  "dc_length (group5_branch r g d) = dc_length d" "dc_inline_kind (group5_branch r g d) = dc_inline_kind d"
  "dc_bytes (group5_branch r g d) = dc_bytes d" "dc_byte_count (group5_branch r g d) = dc_byte_count d"
  "dc_fast_handler (mark_no_fault buf n opc d) = dc_fast_handler d" "dc_handler (mark_no_fault buf n opc d) = dc_handler d"
  "dc_length (mark_no_fault buf n opc d) = dc_length d" "dc_inline_kind (mark_no_fault buf n opc d) = dc_inline_kind d"
  "dc_bytes (mark_no_fault buf n opc d) = dc_bytes d" "dc_byte_count (mark_no_fault buf n opc d) = dc_byte_count d"
  by (simp_all add: decoded_bytes_def decoded_inst_clear_def decoded_opening_def group5_branch_def mark_no_fault_def Let_def)

subsection \<open>Attaching\<close>

lemma attach_probed_changes:
  assumes "attach_probed safe c dec d f = (dec', c')"
  shows "dc_handler dec' = dc_handler dec \<and> dc_flags dec' = dc_flags dec \<and> dc_inline_kind dec' = dc_inline_kind dec \<and>
    dc_bytes dec' = dc_bytes dec \<and> dc_byte_count dec' = dc_byte_count dec \<and>
    (dec' = dec \<or> dc_fast_handler dec' = f \<and> 0 < dc_length dec' \<and> dc_length dec' \<le> 15)"
proof -
  have len: "word_of_int n \<le> (15 :: u8)" if "0 < n" "n \<le> 15" for n :: int
    using that by (simp add: word_le_def take_bit_int_eq_self unsigned_of_int)
  define r where "r = cpu_decoder_probe_with_helper c (decoded_code dec) d"
  show ?thesis
  proof (cases "fst r")
    case None
    then have "dec' = dec" using assms by (cases r) (simp add: attach_probed_def r_def [symmetric])
    then show ?thesis by simp
  next
    case (Some a)
    obtain probe probed l where a: "a = (probe, probed, l)" by (cases a)
    have "l \<le> 15"
      using Some a len by (auto simp: r_def cpu_decoder_probe_with_helper_def Let_def DECODED_INST_MAX_BYTES_def split: prod.splits if_splits)
    moreover have "dec' = (if 0 < l \<and> safe probe
        then (decoded_inst_capture_prefix_from_ctx dec probed)\<lparr>dc_cached := probe, dc_length := l, dc_fast_handler := f\<rparr> else dec)"
      using assms Some a by (cases r) (simp add: attach_probed_def r_def [symmetric])
    ultimately show ?thesis by (simp add: decoded_inst_capture_prefix_from_ctx_def)
  qed
qed

lemma attach_changes:
  assumes "cpu_decoder_try_attach_fast_handler img c dec = (dec', c')"
  shows "dc_handler dec' = dc_handler dec \<and> dc_flags dec' = dc_flags dec \<and> dc_inline_kind dec' = dc_inline_kind dec \<and>
    dc_bytes dec' = dc_bytes dec \<and> dc_byte_count dec' = dc_byte_count dec \<and>
    (dec' = dec \<or> dc_handler dec \<noteq> 0 \<and>
       (\<exists>h. dc_handler dec = im_address img h \<and> dc_fast_handler dec' = im_fast_address img h) \<and>
       0 < dc_length dec' \<and> dc_length dec' \<le> 15)"
  using assms
  by (auto simp: cpu_decoder_try_attach_fast_handler_def attach_one_def attach_one_recompute_addr_def find_Some_iff
      split: if_splits option.splits dest!: attach_probed_changes)

subsection \<open>Where the entry comes from\<close>

text \<open>The four ways through the decoder.\<close>

lemma dispatch_cases:
  assumes "cpu_decode_instruction img c buf = (dec, c')" "buf \<noteq> []"
  obtains
    (vex) h where "intercept_vex buf = Some h" "c' = c"
      "dec = flag_if True DECODED_FLAG_TOUCHES_VECTOR ((decoded_bytes buf)\<lparr>dc_handler := im_address img h\<rparr>)"
  | (short) "c' = c" "dec = (decoded_bytes buf)\<lparr>dc_byte_count := 0\<rparr>" "peek_opcode c buf = (0xFFFF, peek_prefix_len c buf)"
  | (inlined) opc n where "intercept_vex buf = None" "peek_opcode c buf = (opc, n)" "opc \<noteq> 0xFFFF" "c' = c"
      "decode_inline c buf n opc (decoded_opening buf n opc) = Some dec"
  | (undefined) opc n where "intercept_vex buf = None" "peek_opcode c buf = (opc, n)" "opc \<noteq> 0xFFFF" "c' = c"
      "decode_inline c buf n opc (decoded_opening buf n opc) = None" "dispatch_opcode c buf n opc = Dispatch_UD"
      "dec = flag_if True DECODED_FLAG_UD (group5_branch (ucast opc) (group_field {0xFF} buf n (ucast opc)) (decoded_opening buf n opc))"
  | (handled) opc n h where "intercept_vex buf = None" "peek_opcode c buf = (opc, n)" "opc \<noteq> 0xFFFF"
      "decode_inline c buf n opc (decoded_opening buf n opc) = None" "dispatch_opcode c buf n opc = Dispatch h"
      "cpu_decoder_try_attach_fast_handler img c
         (mark_no_fault buf n opc ((flag_if (h = Some (Data H_rep)) DECODED_FLAG_PARTIAL_PROGRESS
            (group5_branch (ucast opc) (group_field {0xFF} buf n (ucast opc)) (decoded_opening buf n opc)))
            \<lparr>dc_handler := handler_address img h\<rparr>)) = (dec, c')"
proof (cases "intercept_vex buf")
  case (Some h)
  then show ?thesis using assms by (intro vex) (auto simp: cpu_decode_instruction_def)
next
  case None
  obtain opc n where p: "peek_opcode c buf = (opc, n)" by force
  show ?thesis
  proof (cases "opc = 0xFFFF")
    case True
    then show ?thesis using assms None p by (intro short) (auto simp: cpu_decode_instruction_def peek_opcode_def Let_def)
  next
    case False
    show ?thesis
    proof (cases "decode_inline c buf n opc (decoded_opening buf n opc)")
      case (Some d)
      then have "(d, c) = (dec, c')"
        using assms by (simp only: cpu_decode_instruction_def None p False Some Let_def if_False prod.case option.case)
      then show ?thesis using Some None p False by (intro inlined) auto
    next
      case inl: None
      show ?thesis
      proof (cases "dispatch_opcode c buf n opc")
        case Dispatch_UD
        then show ?thesis
          using assms None p False inl
          by (intro undefined [OF None p False _ inl Dispatch_UD])
             (simp_all only: cpu_decode_instruction_def None p False inl Dispatch_UD Let_def if_False prod.case option.case
               dispatch.case prod.inject)
      next
        case (Dispatch h)
        then show ?thesis
          using assms
          by (intro handled [OF None p False inl Dispatch])
             (simp only: cpu_decode_instruction_def None p False inl Dispatch Let_def if_False prod.case option.case dispatch.case)
      qed
    qed
  qed
qed

subsection \<open>The table\<close>

lemma table_distinct: "distinct (map fst (attach_table img))"
  by (simp add: attach_table_def)

lemma find_key:
  assumes "inj addr" "distinct (map fst xs)" "(h, v) \<in> set xs"
  shows "List.find (\<lambda>(k, _). addr h = addr k) xs = Some (h, v)"
  using assms(2,3)
proof (induction xs)
  case (Cons x xs)
  then show ?case using injD [OF assms(1)] by (cases x) (auto simp: rev_image_eqI)
qed simp

text \<open>A handler with an entry in the table, attached: the probe that did it.\<close>

lemma attached_from_table:
  assumes "inj (im_address img)" "(h, recompute, d) \<in> set (attach_table img)"
    and "cpu_decode_instruction img c buf = (dec, c')" "dc_handler dec = im_address img h" "dc_fast_handler dec \<noteq> 0"
  shows "\<exists>dec0. dc_fast_handler dec0 = 0 \<and> decoded_code dec0 = take 15 buf \<and>
    (if recompute then attach_one_recompute_addr else attach_one) c dec0 d (im_fast_address img h) = (dec, c')"
proof -
  have "buf \<noteq> []" using assms(3,5) by (auto simp: cpu_decode_instruction_def decoded_inst_clear_def)
  with assms(3) show ?thesis
  proof (cases rule: dispatch_cases)
    case (vex h)
    then show ?thesis using assms(5) by simp
  next
    case short
    then show ?thesis using assms(5) by simp
  next
    case (inlined opc n)
    then show ?thesis using assms(5)
      by (auto simp: decode_inline_def Let_def cpu_decoder_set_inline_ret_def split: if_splits prod.splits)
  next
    case (undefined opc n)
    then show ?thesis using assms(5) by simp
  next
    case (handled opc n k)
    define dec0 where "dec0 = mark_no_fault buf n opc ((flag_if (k = Some (Data H_rep)) DECODED_FLAG_PARTIAL_PROGRESS
      (group5_branch (ucast opc) (group_field {0xFF} buf n (ucast opc)) (decoded_opening buf n opc)))\<lparr>dc_handler := handler_address img k\<rparr>)"
    have f: "dc_fast_handler dec0 = 0" by (simp add: dec0_def)
    have code: "decoded_code dec0 = take 15 buf"
      using decoded_code_bytes [of buf]
      by (simp add: dec0_def decoded_code_def)
    have att: "cpu_decoder_try_attach_fast_handler img c dec0 = (dec, c')" using handled(6) by (simp add: dec0_def)
    then have "dc_handler dec0 = im_address img h" using attach_changes [OF att] assms(4) by simp
    then have "(if recompute then attach_one_recompute_addr else attach_one) c dec0 d (im_fast_address img h) = (dec, c')"
      using att assms(5) f find_key [OF assms(1) table_distinct assms(2)]
      by (auto simp: cpu_decoder_try_attach_fast_handler_def split: if_splits)
    then show ?thesis using f code by blast
  qed
qed

subsection \<open>Selection\<close>

text \<open>The handlers that may write vector registers, and those that set the instruction pointer themselves.\<close>

definition vector_handler :: "handler_fn \<Rightarrow> bool" where
  "vector_handler h \<longleftrightarrow> (case h of Sse f \<Rightarrow> f \<noteq> H_sse_misc
     | Ext f \<Rightarrow> f \<notin> {H_x87_env, H_x87_control, H_x87_init, H_x87_status} | _ \<Rightarrow> False)"

definition branch_handler :: "handler_fn \<Rightarrow> bool" where
  "branch_handler h \<longleftrightarrow> h \<in> {Control H_jcc, Control H_jmp, Control H_call, Control H_ret, Control H_iret}"

definition dispatches :: "(handler_fn \<Rightarrow> bool) \<Rightarrow> dispatch \<Rightarrow> bool" where
  "dispatches P d \<longleftrightarrow> (case d of Dispatch (Some h) \<Rightarrow> P h | _ \<Rightarrow> True)"

lemma dispatches_simps [simp]: "dispatches P Dispatch_UD" "dispatches P (Dispatch None)" "dispatches P (Dispatch (Some h)) \<longleftrightarrow> P h"
  by (simp_all add: dispatches_def)

definition dispatches_opt :: "(handler_fn \<Rightarrow> bool) \<Rightarrow> dispatch option \<Rightarrow> bool" where
  "dispatches_opt P d \<longleftrightarrow> (case d of Some x \<Rightarrow> dispatches P x | None \<Rightarrow> True)"

lemma dispatches_opt_simps [simp]: "dispatches_opt P None" "dispatches_opt P (Some d) \<longleftrightarrow> dispatches P d"
  by (simp_all add: dispatches_opt_def)

text \<open>A property of a chain of tests holds when it holds of every outcome, under its own test alone.\<close>

lemma dispatches_if:
  "(b \<Longrightarrow> dispatches P x) \<Longrightarrow> dispatches P y \<Longrightarrow> dispatches P (if b then x else y)"
  "(b \<Longrightarrow> dispatches_opt P u) \<Longrightarrow> dispatches_opt P v \<Longrightarrow> dispatches_opt P (if b then u else v)"
  by simp_all

lemma vector_handler_simps [simp]:
  "\<not> vector_handler (Alu a)" "\<not> vector_handler (Data d)" "\<not> vector_handler (Control c)"
  "vector_handler (Sse s) \<longleftrightarrow> s \<noteq> H_sse_misc"
  "vector_handler (Ext x) \<longleftrightarrow> x \<notin> {H_x87_env, H_x87_control, H_x87_init, H_x87_status}"
  by (simp_all add: vector_handler_def)

lemma low_byte_scalar: "dispatches (\<lambda>h. \<not> vector_handler h) (dispatch_low_byte c buf n opc)"
proof -
  have x87: "dispatches (\<lambda>h. \<not> vector_handler h) (Dispatch (cpu_decoder_resolve_x87 buf r n))" for r
    by (simp add: cpu_decoder_resolve_x87_def Let_def)
  have groups: "dispatches (\<lambda>h. \<not> vector_handler h) (dispatch_group1 r)" "dispatches (\<lambda>h. \<not> vector_handler h) (dispatch_group5 r)" for r
    by (simp_all add: dispatch_group1_def dispatch_group5_def)
  show ?thesis
    unfolding dispatch_low_byte_def Let_def
    by (intro dispatches_if x87 groups) simp_all
qed

definition touches :: "u16 \<Rightarrow> u8 \<Rightarrow> bool" where
  "touches opc m \<longleftrightarrow> (\<forall>buf. buf \<noteq> [] \<longrightarrow> cpu_step_may_touch_vector_state buf opc m)"

lemma touches_in:
  assumes "0x0FD0 \<le> opc \<or> 0x0F50 \<le> opc \<and> opc \<le> 0x0F7F \<or> 0x0FC2 \<le> opc \<and> opc \<le> 0x0FC6 \<or> 0x0F10 \<le> opc \<and> opc \<le> 0x0F17 \<or>
    0x0F28 \<le> opc \<and> opc \<le> 0x0F2F \<and> opc \<noteq> 0x0F2B \<or> 0x0F35 \<le> opc \<and> opc \<le> 0x0F3F \<or> opc = 0x0FAE \<or> opc = 0x0F2B \<and> m = 0x66"
  shows "touches opc m"
proof -
  have r: "0x0FD0 \<le> unat opc \<or> 0x0F50 \<le> unat opc \<and> unat opc \<le> 0x0F7F \<or> 0x0FC2 \<le> unat opc \<and> unat opc \<le> 0x0FC6 \<or>
      0x0F10 \<le> unat opc \<and> unat opc \<le> 0x0F17 \<or> 0x0F28 \<le> unat opc \<and> unat opc \<le> 0x0F2F \<or> 0x0F35 \<le> unat opc \<and> unat opc \<le> 0x0F3F \<or>
      unat opc = 0x0FAE"
    using assms by (simp only: word_le_nat_alt word_unat_eq_iff) (auto simp del: One_nat_def)
  have "\<not> opc \<le> 0xFF" using r by (simp add: word_le_nat_alt) arith
  moreover have "\<not> (0x0F40 \<le> opc \<and> opc \<le> 0x0F4F \<or> 0x0F80 \<le> opc \<and> opc \<le> 0x0F8F \<or> 0x0F90 \<le> opc \<and> opc \<le> 0x0F9F)"
    "\<not> (0x0FC8 \<le> opc \<and> opc \<le> 0x0FCF)"
    using r by (simp_all add: word_le_nat_alt) arith+
  moreover have "opc \<notin> {0x0FA0, 0x0FA1, 0x0FA2, 0x0FA8, 0x0FA9, 0x0FAF, 0x0FB0, 0x0FB1, 0x0FB6, 0x0FB7,
      0x0FBC, 0x0FBD, 0x0FBE, 0x0FBF, 0x0FA3, 0x0FAB, 0x0FB3, 0x0FBB, 0x0FBA, 0x0FC0, 0x0FC1}"
    "opc \<notin> {0x0F00, 0x0F01, 0x0F05, 0x0F20, 0x0F22, 0x0F31, 0x0F33, 0x0F34, 0x0F1F}" "opc \<noteq> 0x0FC7" "opc \<noteq> 0x0F1E"
    "opc \<noteq> 0x0F0D" "opc \<noteq> 0x0F18"
    using r by (simp_all only: insert_iff empty_iff word_unat_eq_iff) auto
  moreover have "opc = 0x0F2B \<Longrightarrow> m = 0x66" using assms by auto
  ultimately show ?thesis by (auto simp: touches_def cpu_step_may_touch_vector_state_def)
qed

lemma two_byte_vector:
  "dispatches (\<lambda>h. vector_handler h \<longrightarrow> touches opc m) (cpu_decoder_resolve_two_byte_misc buf n opc m)"
  unfolding cpu_decoder_resolve_two_byte_misc_def Let_def
  by (intro dispatches_if) (auto simp: touches_in)

lemma vector_touches: "dispatches_opt (\<lambda>h. vector_handler h \<longrightarrow> touches opc m) (dispatch_vector buf n opc m)"
  unfolding dispatch_vector_def Let_def
  by (intro dispatches_if) (auto simp: touches_in)

subsection \<open>Branches\<close>

text \<open>What the branch flag of a one-byte opcode says, as a range of the opcode.\<close>

definition branch_byte :: "u8 \<Rightarrow> bool" where
  "branch_byte b \<longleftrightarrow> 0x70 \<le> b \<and> b \<le> 0x7F \<or> 0xE0 \<le> b \<and> b \<le> 0xE3 \<or> 0xE8 \<le> b \<and> b \<le> 0xEB \<or>
     b \<in> {0x9A, 0xC2, 0xC3, 0xCA, 0xCB, 0xCF, 0xFF}"

lemma low_opcode:
  assumes "opc \<le> (0xFF :: u16)"
  obtains b :: u8 where "opc = ucast b" "ucast opc = b"
proof
  show "opc = ucast (ucast opc :: u8)" using assms by (simp add: word_unat_eq_iff word_le_nat_alt unsigned_ucast_eq unsigned_take_bit_eq take_bit_nat_eq_self)
  show "ucast opc = (ucast opc :: u8)" ..
qed

lemma branch_opcode_byte: "is_branch_opcode (ucast (b :: u8)) \<longleftrightarrow> branch_byte b"
proof -
  define k where "k = unat b"
  have k: "k < 256" using unsigned_less [of b, where 'a = nat] by (simp add: k_def)
  then have u: "unat (ucast b :: u16) = k" by (simp add: k_def unsigned_ucast_eq take_bit_nat_eq_self)
  have ranges: "0x70 \<le> k \<and> k \<le> 0x7F \<longleftrightarrow> k \<in> set [0x70..<0x80]" "0xE0 \<le> k \<and> k \<le> 0xE3 \<longleftrightarrow> k \<in> set [0xE0..<0xE4]"
    "0xE8 \<le> k \<and> k \<le> 0xEB \<longleftrightarrow> k \<in> set [0xE8..<0xEC]"
    by (simp_all only: set_upt atLeastLessThan_iff) linarith+
  have bb: "branch_byte b \<longleftrightarrow> 0x70 \<le> k \<and> k \<le> 0x7F \<or> 0xE0 \<le> k \<and> k \<le> 0xE3 \<or> 0xE8 \<le> k \<and> k \<le> 0xEB \<or>
      k \<in> {0x9A, 0xC2, 0xC3, 0xCA, 0xCB, 0xCF, 0xFF}"
    by (simp add: branch_byte_def word_le_nat_alt word_unat_eq_iff k_def)
  have "is_branch_opcode (ucast b) \<longleftrightarrow> k \<in> set [0x70..<0x80] \<union> set [0xE0..<0xE4] \<union> set [0xE8..<0xEC] \<union>
      {0x9A, 0xC2, 0xC3, 0xCA, 0xCB, 0xCF, 0xFF}"
  proof -
    have ub: "(ucast b :: u16) = w \<longleftrightarrow> k = unat w" "(ucast b :: u16) \<le> w \<longleftrightarrow> k \<le> unat w" "w \<le> (ucast b :: u16) \<longleftrightarrow> unat w \<le> k" for w
      by (simp_all add: word_unat_eq_iff word_le_nat_alt u)
    show ?thesis using k unfolding is_branch_opcode_def insert_iff empty_iff Un_iff ub by simp blast
  qed
  also have "\<dots> \<longleftrightarrow> branch_byte b"
    unfolding bb ranges by (simp only: Un_iff insert_iff empty_iff disj_assoc simp_thms)
  finally show ?thesis .
qed

lemma if_equal: "(b \<Longrightarrow> x = z) \<Longrightarrow> y = z \<Longrightarrow> (if b then x else y) = z" by simp

lemma low_not_two_byte: "opc \<le> 0xFF \<Longrightarrow> cpu_decoder_resolve_two_byte_misc buf n opc m = Dispatch None"
  unfolding cpu_decoder_resolve_two_byte_misc_def Let_def
  by (intro if_equal refl) (auto simp: word_le_nat_alt word_unat_eq_iff)

lemma low_vector:
  "opc \<le> 0xFF \<Longrightarrow> dispatches_opt (\<lambda>h. branch_handler h \<and> is_branch_opcode opc) (dispatch_vector buf n opc m)"
  unfolding dispatch_vector_def Let_def
  by (intro dispatches_if) (auto simp: word_le_nat_alt word_unat_eq_iff branch_handler_def is_branch_opcode_def)

text \<open>The branch flag that the decoder leaves on a one-byte opcode, with group 5 told apart by its ModRM byte.\<close>

definition branch_flag :: "u8 list \<Rightarrow> nat \<Rightarrow> u8 \<Rightarrow> bool" where
  "branch_flag buf n b \<longleftrightarrow>
     (if b = 0xFF then group_field {0xFF} buf n b \<in> {2, 3, 4, 5} else branch_byte b)"

lemma byte_range: "a \<le> b \<and> b \<le> c \<longleftrightarrow> unat a \<le> unat b \<and> unat b \<le> unat c" for a b c :: u8
  by (simp add: word_le_nat_alt)

lemma low_byte_branch:
  "dispatches (\<lambda>h. branch_handler h \<longleftrightarrow> branch_flag buf n (ucast opc)) (dispatch_low_byte c buf n opc)"
proof -
  define b :: u8 where "b = ucast opc"
  define k where "k = unat b"
  define g where "g = (group_field {0xFF} buf n b \<in> {2, 3, 4, 5})"
  let ?P = "\<lambda>h. branch_handler h \<longleftrightarrow> branch_flag buf n b"
  have nats: "b = w \<longleftrightarrow> k = unat w" "b \<le> w \<longleftrightarrow> k \<le> unat w" "w \<le> b \<longleftrightarrow> unat w \<le> k" for w
    by (simp_all add: k_def word_unat_eq_iff word_le_nat_alt)
  have flag: "branch_flag buf n b \<longleftrightarrow> (if k = 0xFF then g else 0x70 \<le> k \<and> k \<le> 0x7F \<or> 0xE0 \<le> k \<and> k \<le> 0xE3 \<or>
      0xE8 \<le> k \<and> k \<le> 0xEB \<or> k = 0x9A \<or> k = 0xC2 \<or> k = 0xC3 \<or> k = 0xCA \<or> k = 0xCB \<or> k = 0xCF)"
    unfolding branch_flag_def branch_byte_def nats by (simp add: g_def nats)
  have x87: "dispatches ?P (Dispatch (cpu_decoder_resolve_x87 buf b n))" if "cpu_decoder_resolve_x87 buf b n \<noteq> None"
    unfolding flag using that by (auto simp: cpu_decoder_resolve_x87_def Let_def branch_handler_def nats split: if_splits)
  have g1: "dispatches ?P (dispatch_group1 r)" if "b \<in> group1_opcodes" for r
    unfolding flag using that by (auto simp: dispatch_group1_def branch_handler_def nats)
  have g5: "dispatches ?P (dispatch_group5 (group_field {0xFF} buf n b))" if "b = 0xFF"
    unfolding flag using that by (auto simp: dispatch_group5_def branch_handler_def g_def nats)
  have nop: "dispatches ?P (Dispatch (Some (Control H_nop)))" if "opc = 0x0F1F \<or> b = 0x90"
  proof -
    have "k = 0x1F \<or> k = 0x90" using that by (auto simp: k_def b_def)
    then show ?thesis unfolding flag by (auto simp: branch_handler_def)
  qed
  show ?thesis
    unfolding dispatch_low_byte_def Let_def b_def [symmetric]
    by (intro dispatches_if x87 g1 g5 nop)
       (simp_all add: branch_handler_def flag nats is_rep_string_opcode_def, (presburger | (elim disjE conjE; simp))+)
qed

subsection \<open>The flags of an entry\<close>

definition is_flag :: "u16 \<Rightarrow> bool" where "is_flag f \<longleftrightarrow> (\<exists>k<16. f = push_bit k 1)"

lemma is_flags [simp]:
  "is_flag DECODED_FLAG_BRANCH" "is_flag DECODED_FLAG_TOUCHES_VECTOR" "is_flag DECODED_FLAG_INLINE_RET" "is_flag DECODED_FLAG_UD"
  "is_flag DECODED_FLAG_BP" "is_flag DECODED_FLAG_NO_FAULT" "is_flag DECODED_FLAG_KNOWN_NOT_ESCAPE"
  "is_flag DECODED_FLAG_PARTIAL_PROGRESS" "is_flag DECODED_FLAG_DB"
  unfolding is_flag_def flag_numbers by (rule exI, rule conjI [OF _ refl], simp)+

lemma flags_distinct:
  "distinct [DECODED_FLAG_BRANCH, DECODED_FLAG_TOUCHES_VECTOR, DECODED_FLAG_INLINE_RET, DECODED_FLAG_UD, DECODED_FLAG_BP,
     DECODED_FLAG_NO_FAULT, DECODED_FLAG_KNOWN_NOT_ESCAPE, DECODED_FLAG_PARTIAL_PROGRESS, DECODED_FLAG_DB]"
  by (simp add: flag_numbers)

lemmas flag_neq [simp] = flags_distinct [simplified]

lemma flags_distinct_rev:
  "distinct [DECODED_FLAG_DB, DECODED_FLAG_PARTIAL_PROGRESS, DECODED_FLAG_KNOWN_NOT_ESCAPE, DECODED_FLAG_NO_FAULT,
     DECODED_FLAG_BP, DECODED_FLAG_UD, DECODED_FLAG_INLINE_RET, DECODED_FLAG_TOUCHES_VECTOR, DECODED_FLAG_BRANCH]"
  by (simp add: flag_numbers)

lemmas flag_neq_rev [simp] = flags_distinct_rev [simplified]

lemma push_bit_one_eq: "k < 16 \<Longrightarrow> push_bit k (1 :: u16) = push_bit l 1 \<longleftrightarrow> k = l"
proof
  assume k: "k < 16" and e: "push_bit k (1 :: u16) = push_bit l 1"
  have "bit (push_bit l (1 :: u16)) k" using k by (simp add: e [symmetric] bit_simps del: push_bit_of_1)
  then show "k = l" by (auto simp: bit_simps simp del: push_bit_of_1)
qed simp

lemma has_flag_if:
  assumes "is_flag f" "is_flag g"
  shows "decoded_has (flag_if b f d) g \<longleftrightarrow> decoded_has d g \<or> b \<and> f = g"
  using assms flag_if_has [of b _ d] by (auto simp: is_flag_def push_bit_one_eq)

lemma has_flag_simps [simp]:
  "decoded_has (d\<lparr>dc_handler := h\<rparr>) f = decoded_has d f" "decoded_has (d\<lparr>dc_segment_override := x\<rparr>) f = decoded_has d f"
  "\<not> decoded_has (decoded_bytes buf) f"
  by (simp_all add: decoded_has_def)

lemma has_opening:
  "is_flag f \<Longrightarrow> decoded_has (decoded_opening buf n opc) f \<longleftrightarrow>
     f = DECODED_FLAG_TOUCHES_VECTOR \<and> cpu_step_may_touch_vector_state buf opc (peek_mandatory_prefix buf n) \<or>
     f = DECODED_FLAG_BRANCH \<and> is_branch_opcode opc \<or>
     f = DECODED_FLAG_KNOWN_NOT_ESCAPE \<and> \<not> cpu_decoder_is_escape_candidate_opc opc"
  unfolding decoded_opening_def by (auto simp: has_flag_if)

lemma has_group5:
  assumes "is_flag f"
  shows "decoded_has (group5_branch r g d) f \<longleftrightarrow>
    (if f = DECODED_FLAG_BRANCH \<and> r = 0xFF then g \<in> {2, 3, 4, 5} else decoded_has d f)"
proof -
  obtain k where k: "f = push_bit k 1" "k < 16" using assms by (auto simp: is_flag_def)
  have b: "bit (push_bit 0 (1 :: u16)) k \<longleftrightarrow> k = 0" by (simp add: bit_1_iff)
  have "f = DECODED_FLAG_BRANCH \<longleftrightarrow> k = 0"
    using k push_bit_one_eq [of k 0] by (simp only: DECODED_FLAG_BRANCH_def)
  then have "decoded_has (d\<lparr>dc_flags := dc_flags d AND NOT DECODED_FLAG_BRANCH\<rparr>) f \<longleftrightarrow> decoded_has d f \<and> f \<noteq> DECODED_FLAG_BRANCH"
    using k(2) b unfolding k(1) decoded_has_bit by (auto simp: DECODED_FLAG_BRANCH_def bit_and_iff bit_not_iff simp del: push_bit_of_1)
  then show ?thesis using assms by (auto simp: group5_branch_def has_flag_if)
qed

lemma has_no_fault:
  "is_flag f \<Longrightarrow> f \<noteq> DECODED_FLAG_NO_FAULT \<Longrightarrow> decoded_has (mark_no_fault buf n opc d) f = decoded_has d f"
  "decoded_has (mark_no_fault buf n opc d) DECODED_FLAG_NO_FAULT \<Longrightarrow> decoded_has d DECODED_FLAG_NO_FAULT \<or>
     \<not> decoded_has d DECODED_FLAG_UD \<and> \<not> decoded_has d DECODED_FLAG_BP \<and> \<not> decoded_has d DECODED_FLAG_DB \<and>
     \<not> decoded_has d DECODED_FLAG_TOUCHES_VECTOR \<and> \<not> decoded_has d DECODED_FLAG_INLINE_RET"
  unfolding mark_no_fault_def Let_def
  by (auto simp: has_flag_if) (simp_all add: decoded_has_def bit.conj_disj_distrib or_eq_0_iff)


subsection \<open>The ladder as a whole\<close>

lemma opcode_vector:
  assumes "dispatch_opcode c buf n opc = Dispatch (Some h)" "vector_handler h"
  shows "touches opc (peek_mandatory_prefix buf n)"
proof -
  define m where "m = peek_mandatory_prefix buf n"
  have "touches opc m"
  proof (cases "dispatch_vector buf n opc m")
    case (Some d)
    then show ?thesis using assms vector_touches [of opc m buf n] by (simp add: dispatch_opcode_def Let_def m_def)
  next
    case v: None
    show ?thesis
    proof (cases "cpu_decoder_resolve_two_byte_misc buf n opc m = Dispatch None")
      case False
      then have "cpu_decoder_resolve_two_byte_misc buf n opc m = Dispatch (Some h)"
        using assms(1) v by (cases "cpu_decoder_resolve_two_byte_misc buf n opc m") (auto simp: dispatch_opcode_def Let_def m_def split: option.splits)
      then show ?thesis using two_byte_vector [of opc m buf n] assms(2) by simp
    next
      case True
      have "\<not> vector_handler h" if "opc \<noteq> 0x0F3A"
        using assms(1) v True that low_byte_scalar [of c buf n opc]
        by (cases "cpu_decoder_classify_xgetbv_rdtscp buf n opc")
           (simp add: dispatch_opcode_def Let_def m_def split: if_split_asm; force)
      then show ?thesis using assms(2) by (cases "opc = 0x0F3A") (simp_all add: touches_in)
    qed
  qed
  then show ?thesis by (simp add: m_def)
qed

lemma opcode_branch:
  assumes "dispatch_opcode c buf n opc = Dispatch (Some h)" "opc \<le> 0xFF" "h \<noteq> Control H_endbr" "h \<noteq> Control H_rdssp"
  shows "branch_handler h \<longleftrightarrow> branch_flag buf n (ucast opc)"
proof -
  have ne: "opc \<noteq> 0x0F3A" "opc \<noteq> 0x0F01" "opc \<noteq> 0x0F1E" using assms(2) by auto
  show ?thesis
  proof (cases "dispatch_vector buf n opc (peek_mandatory_prefix buf n)")
    case None
    then have "dispatch_low_byte c buf n opc = Dispatch (Some h)"
      using assms ne
      by (auto simp: dispatch_opcode_def Let_def low_not_two_byte cpu_decoder_classify_xgetbv_rdtscp_def split: if_splits)
    then show ?thesis using low_byte_branch [of buf n opc c] by simp
  next
    case (Some d)
    obtain b :: u8 where b: "opc = ucast b" "ucast opc = b" using low_opcode [OF assms(2)] .
    have d: "d = Dispatch (Some h)" using assms(1) Some by (simp add: dispatch_opcode_def Let_def)
    then have "branch_handler h" "is_branch_opcode opc"
      using low_vector [OF assms(2), of buf n "peek_mandatory_prefix buf n"] Some by simp_all
    moreover have "dispatch_vector buf n 0xFF m = None" for m
      unfolding dispatch_vector_def Let_def by simp
    then have "b \<noteq> 0xFF" using Some b by auto
    ultimately show ?thesis using branch_opcode_byte [of b] b by (simp add: branch_flag_def)
  qed
qed


subsection \<open>Well-formed entries\<close>

text \<open>
  What the executor relies on. A handler is the address of one of the functions, and goes with no inline
  form and no fault; a fast handler belongs to the handler and comes with a length; an inline form has a
  length and counts as a branch; only a repeated string instruction keeps partial progress; and an entry
  that needs no snapshot neither faults nor touches vector registers.
\<close>

definition faults_at_once :: "DecodedInst \<Rightarrow> bool" where
  "faults_at_once dec \<longleftrightarrow>
     decoded_has dec DECODED_FLAG_UD \<or> decoded_has dec DECODED_FLAG_BP \<or> decoded_has dec DECODED_FLAG_DB"

definition entry_ok :: "image \<Rightarrow> DecodedInst \<Rightarrow> bool" where
  "entry_ok img dec \<longleftrightarrow>
     (dc_handler dec \<noteq> 0 \<longrightarrow> (\<exists>h. dc_handler dec = im_address img h) \<and>
        dc_inline_kind dec = DECODED_INLINE_NONE \<and> \<not> faults_at_once dec) \<and>
     (dc_fast_handler dec \<noteq> 0 \<longrightarrow> dc_handler dec \<noteq> 0 \<and> 0 < dc_length dec \<and> dc_length dec \<le> 15 \<and>
        (\<exists>h. dc_handler dec = im_address img h \<and> dc_fast_handler dec = im_fast_address img h)) \<and>
     (dc_inline_kind dec \<noteq> DECODED_INLINE_NONE \<longrightarrow> 0 < dc_length dec \<and> dc_length dec \<le> 15 \<and>
        decoded_has dec DECODED_FLAG_BRANCH \<and> \<not> faults_at_once dec) \<and>
     (decoded_has dec DECODED_FLAG_INLINE_RET \<longleftrightarrow>
        dc_inline_kind dec = DECODED_INLINE_RET_NEAR_NO_IMM \<or> dc_inline_kind dec = DECODED_INLINE_RET_NEAR_IMM16) \<and>
     (decoded_has dec DECODED_FLAG_PARTIAL_PROGRESS \<longrightarrow> dc_handler dec = im_address img (Data H_rep)) \<and>
     (decoded_has dec DECODED_FLAG_NO_FAULT \<longrightarrow> \<not> decoded_has dec DECODED_FLAG_TOUCHES_VECTOR \<and> \<not> faults_at_once dec \<and>
        dc_inline_kind dec = DECODED_INLINE_NONE)"

lemma entry_ok_only:
  "entry_ok img dec \<longleftrightarrow> entry_ok img (dec\<lparr>dc_segment_override := s\<rparr>)"
  by (simp add: entry_ok_def faults_at_once_def)

lemma has_fields [simp]:
  "decoded_has (d\<lparr>dc_inline_kind := k\<rparr>) f = decoded_has d f" "decoded_has (d\<lparr>dc_inline_jcc_cond := cc\<rparr>) f = decoded_has d f"
  "decoded_has (d\<lparr>dc_inline_jcc_disp := i\<rparr>) f = decoded_has d f" "decoded_has (d\<lparr>dc_inline_jcc_disp32 := j\<rparr>) f = decoded_has d f"
  "decoded_has (d\<lparr>dc_length := l\<rparr>) f = decoded_has d f" "decoded_has (d\<lparr>dc_byte_count := b\<rparr>) f = decoded_has d f"
  by (simp_all add: decoded_has_def)

lemma has_inline_ret:
  "is_flag f \<Longrightarrow> decoded_has (cpu_decoder_set_inline_ret d p z i b) f \<longleftrightarrow>
     decoded_has d f \<or> f = DECODED_FLAG_BRANCH \<or> f = DECODED_FLAG_INLINE_RET"
proof -
  assume f: "is_flag f"
  have "decoded_has (cpu_decoder_set_inline_ret d p z i b) f =
      decoded_has (flag_if True DECODED_FLAG_BRANCH (flag_if True DECODED_FLAG_INLINE_RET d)) f"
    by (simp add: decoded_has_def cpu_decoder_set_inline_ret_def flag_if_def ac_simps)
  then show ?thesis using f by (auto simp: has_flag_if)
qed

lemma prefix_len_short: "peek_opcode c buf = (opc, n) \<Longrightarrow> opc \<noteq> 0xFFFF \<Longrightarrow> n < length buf \<and> n = peek_prefix_len c buf"
  by (auto simp: peek_opcode_def Let_def split: if_splits)

lemma pred_if: "(b \<Longrightarrow> pred_option P x) \<Longrightarrow> pred_option P y \<Longrightarrow> pred_option P (if b then x else y)"
  by simp

lemma inline_ok:
  assumes "peek_opcode c buf = (opc, n)" "opc \<noteq> 0xFFFF" "length buf \<le> 15"
    and "decode_inline c buf n opc (decoded_opening buf n opc) = Some dec"
  shows "entry_ok img dec"
proof -
  define r where "r = decode_near_ret_operand_size c buf"
  have n: "n < length buf" "snd r = n" using prefix_len_short [OF assms(1,2)]
    by (simp_all add: r_def decode_near_ret_operand_size_def Let_def)
  have l: "0 < (of_nat n + k :: u8) \<and> of_nat n + k \<le> (15 :: u8)" if "n + unat k \<le> 15" "0 < k" for k
  proof -
    have "unat (of_nat n + k) = n + unat k" using that by (simp add: unat_word_ariths unsigned_of_nat take_bit_nat_eq_self)
    then show ?thesis using that by (simp add: word_le_nat_alt word_less_nat_alt)
  qed
  let ?o = "decoded_opening buf n"
  have fault: "entry_ok img (flag_if True f (?o x))" if "f = DECODED_FLAG_UD \<or> f = DECODED_FLAG_BP \<or> f = DECODED_FLAG_DB" for f x
    using that by (auto simp: entry_ok_def has_flag_if has_opening)
  have ret: "entry_ok img (cpu_decoder_set_inline_ret (?o x) (of_nat n) z i b)" if "n + (if b then 3 else 1) \<le> 15" for z i b x
    using that l [of 1] l [of 3]
    by (cases b) (simp_all add: entry_ok_def faults_at_once_def has_inline_ret has_opening,
      simp_all add: cpu_decoder_set_inline_ret_def)
  have jcc: "entry_ok img (flag_if True DECODED_FLAG_BRANCH d)"
    if "dc_inline_kind d = DECODED_INLINE_JCC_SHORT_LONGMODE \<or> dc_inline_kind d = DECODED_INLINE_JCC_NEAR_LONGMODE"
      "dc_handler d = 0" "dc_fast_handler d = 0" "0 < dc_length d" "dc_length d \<le> 15" "\<And>f. decoded_has d f = decoded_has (?o x) f" for d x
    using that by (auto simp: entry_ok_def faults_at_once_def has_flag_if has_opening)
  have "pred_option (entry_ok img) (decode_inline c buf n opc (?o opc))"
    unfolding decode_inline_def Let_def r_def [symmetric] prod.case_eq_if n(2)
    by (intro pred_if) (use n(1) assms(3) in \<open>simp_all add: fault ret jcc\<close>)
  then show ?thesis using assms(4) by simp
qed

lemma attached_ok:
  assumes "cpu_decoder_try_attach_fast_handler img c dec = (dec', c')" "entry_ok img dec" "dc_fast_handler dec = 0"
  shows "entry_ok img dec'"
proof -
  note a = attach_changes [OF assms(1)]
  have h: "decoded_has dec' f = decoded_has dec f" for f using a by (simp add: decoded_has_def)
  show ?thesis using a assms(2,3) by (auto simp: entry_ok_def faults_at_once_def h)
qed

lemma decoded_entry_ok:
  assumes "cpu_decode_instruction img c buf = (dec, c')" "buf \<noteq> []" "length buf \<le> 15"
  shows "entry_ok img dec" "dc_byte_count dec = 0 \<or> decoded_code dec = buf"
proof -
  have "entry_ok img dec \<and> (dc_byte_count dec = 0 \<or> decoded_code dec = buf)" using assms(1,2)
  proof (cases rule: dispatch_cases)
    case (vex h)
    then show ?thesis using assms(3) decoded_code_bytes [of buf]
      by (auto simp: entry_ok_def faults_at_once_def has_flag_if decoded_code_def)
  next
    case short
    then show ?thesis by (simp add: entry_ok_def faults_at_once_def)
  next
    case (inlined opc n)
    have "pred_option (\<lambda>d. decoded_code d = decoded_code (decoded_bytes buf)) (decode_inline c buf n opc (decoded_opening buf n opc))"
      unfolding decode_inline_def Let_def prod.case_eq_if
      by (intro pred_if) (simp_all add: decoded_code_def cpu_decoder_set_inline_ret_def)
    then show ?thesis
      using inlined inline_ok [OF inlined(2,3) assms(3) inlined(5)] assms(3) by (simp add: decoded_code_bytes)
  next
    case (undefined opc n)
    then show ?thesis using assms(3) decoded_code_bytes [of buf]
      by (simp add: entry_ok_def faults_at_once_def has_flag_if has_group5 has_opening decoded_code_def)
  next
    case (handled opc n h)
    define d0 where "d0 = group5_branch (ucast opc) (group_field {0xFF} buf n (ucast opc)) (decoded_opening buf n opc)"
    define d where "d = (flag_if (h = Some (Data H_rep)) DECODED_FLAG_PARTIAL_PROGRESS d0)\<lparr>dc_handler := handler_address img h\<rparr>"
    have has0: "\<not> decoded_has d0 f" if "f \<in> {DECODED_FLAG_UD, DECODED_FLAG_BP, DECODED_FLAG_DB, DECODED_FLAG_INLINE_RET,
        DECODED_FLAG_NO_FAULT, DECODED_FLAG_PARTIAL_PROGRESS}" for f
      using that unfolding d0_def by (elim insertE emptyE) (simp_all only: has_group5 has_opening is_flags, simp_all)
    have has: "\<not> decoded_has d f" if "f \<in> {DECODED_FLAG_UD, DECODED_FLAG_BP, DECODED_FLAG_DB, DECODED_FLAG_INLINE_RET,
        DECODED_FLAG_NO_FAULT}" for f
      using that has0 [of f] unfolding d_def by (elim insertE emptyE) (simp_all add: has_flag_if)
    have rep: "decoded_has d DECODED_FLAG_PARTIAL_PROGRESS \<longleftrightarrow> h = Some (Data H_rep)" using has0 by (simp add: d_def has_flag_if)
    have fields: "dc_handler d = handler_address img h" "dc_fast_handler d = 0" "dc_inline_kind d = DECODED_INLINE_NONE"
      by (simp_all add: d_def d0_def)
    have att: "cpu_decoder_try_attach_fast_handler img c (mark_no_fault buf n opc d) = (dec, c')"
      using handled(6) by (simp add: d_def d0_def)
    have nf: "\<not> decoded_has d DECODED_FLAG_TOUCHES_VECTOR" if "decoded_has (mark_no_fault buf n opc d) DECODED_FLAG_NO_FAULT"
      using has_no_fault(2) [OF that] has by simp
    have "entry_ok img (mark_no_fault buf n opc d)"
      using nf by (auto simp: entry_ok_def faults_at_once_def has_no_fault(1) has rep fields handler_address_def split: option.splits)
    then have "entry_ok img dec" using attached_ok [OF att] by (simp add: fields)
    moreover have "decoded_code dec = buf"
      using attach_changes [OF att] assms(3) decoded_code_bytes [of buf] by (simp add: decoded_code_def d_def d0_def)
    ultimately show ?thesis by simp
  qed
  then show "entry_ok img dec" "dc_byte_count dec = 0 \<or> decoded_code dec = buf" by simp_all
qed

subsection \<open>Replaying what the decoder attached\<close>

text \<open>
  The contract of a handler with a fast version: where the decoder selects it and attaches the fast one,
  the context is as before, and running the entry later in the same mode does what running the bytes does.
\<close>

definition attached_replays ::
  "image \<Rightarrow> handler_fn \<Rightarrow> (CPU_CONTEXT \<Rightarrow> u8 list \<Rightarrow> DecodedInstruction \<times> CPU_CONTEXT) \<Rightarrow>
   (callbacks \<Rightarrow> cpueaxh_engine \<Rightarrow> u8 list \<Rightarrow> 'r) \<Rightarrow> (callbacks \<Rightarrow> cpueaxh_engine \<Rightarrow> DecodedInst \<Rightarrow> 'r) \<Rightarrow> bool" where
  "attached_replays img h decode slow fast \<longleftrightarrow>
     (\<forall>c buf dec c'. cpu_decode_instruction img c buf = (dec, c') \<and> dc_handler dec = im_address img h \<and>
        dc_fast_handler dec \<noteq> 0 \<longrightarrow>
        c' = c \<and> dc_fast_handler dec = im_fast_address img h \<and>
        (\<forall>cb e. same_mode c (cpu_ctx e) \<and> \<not> cpu_has_exception (snd (decode (cpu_ctx e) (take 15 buf))) \<longrightarrow>
           fast cb e dec = slow cb e (take 15 buf)))"

lemma attached_replaysI:
  assumes "inj (im_address img)" "(h, recompute, decode) \<in> set (attach_table img)"
    and "replays (if recompute then attach_one_recompute_addr else attach_one) decode slow fast"
  shows "attached_replays img h decode slow fast"
  unfolding attached_replays_def
proof (intro allI impI, elim conjE)
  fix c buf dec c'
  assume d: "cpu_decode_instruction img c buf = (dec, c')" "dc_handler dec = im_address img h" "dc_fast_handler dec \<noteq> 0"
  obtain dec0 where e: "dc_fast_handler dec0 = 0" "decoded_code dec0 = take 15 buf"
      "(if recompute then attach_one_recompute_addr else attach_one) c dec0 decode (im_fast_address img h) = (dec, c')"
    using attached_from_table [OF assms(1,2) d] by blast
  have "dc_fast_handler dec = im_fast_address img h"
    using e(1,3) d(3) attach_probed_changes [of _ c dec0 decode "im_fast_address img h" dec c']
    by (cases recompute) (auto simp: attach_one_def attach_one_recompute_addr_def)
  then show "c' = c \<and> dc_fast_handler dec = im_fast_address img h \<and>
      (\<forall>cb e. same_mode c (cpu_ctx e) \<and> \<not> cpu_has_exception (snd (decode (cpu_ctx e) (take 15 buf))) \<longrightarrow>
         fast cb e dec = slow cb e (take 15 buf))"
    using assms(3) [unfolded replays_def, rule_format, OF e(3)] e(1,2) d(3) by simp
qed

subsection \<open>Dependence on the mode\<close>

text \<open>What the decoder selects: the entry without the payload of the fast handler.\<close>

definition selected :: "DecodedInst \<Rightarrow> DecodedInst" where
  "selected dec = dec\<lparr>dc_fast_handler := 0, dc_length := 0, dc_cached := zero_decoded_instruction, dc_prefix := zero_prefix_state\<rparr>"

lemma attach_selected:
  "cpu_decoder_try_attach_fast_handler img c dec = (dec', c') \<Longrightarrow> selected dec' = selected dec"
proof -
  have "attach_probed safe c dec d f = (dec', c') \<Longrightarrow> selected dec' = selected dec" for safe d f
    by (auto simp: attach_probed_def selected_def decoded_inst_capture_prefix_from_ctx_def split: prod.splits option.splits)
  then show "cpu_decoder_try_attach_fast_handler img c dec = (dec', c') \<Longrightarrow> selected dec' = selected dec"
    by (auto simp: cpu_decoder_try_attach_fast_handler_def attach_one_def attach_one_recompute_addr_def
        split: if_splits option.splits)
qed

lemma selection_by_mode:
  assumes "same_mode c d"
  shows "selected (fst (cpu_decode_instruction img c buf)) = selected (fst (cpu_decode_instruction img d buf))"
proof -
  have m: "cpu_allows_rex_prefix c = cpu_allows_rex_prefix d" "cpu_is_64bit_code c = cpu_is_64bit_code d"
    "sd_long_mode (sr_descriptor (cs c)) = sd_long_mode (sr_descriptor (cs d))"
    using assms by (simp_all add: same_mode_iff cpu_allows_rex_prefix_def cpu_is_64bit_code_def cpu_long_mode_active_def)
  have peek: "peek_prefix_len c = peek_prefix_len d" "peek_opcode c = peek_opcode d"
    by (simp_all add: fun_eq_iff peek_prefix_len_def peek_opcode_def m)
  have inl: "decode_inline c = decode_inline d"
    by (simp only: fun_eq_iff decode_inline_def decode_near_ret_operand_size_def m peek simp_thms)
  have disp: "dispatch_opcode c = dispatch_opcode d"
    by (simp only: fun_eq_iff dispatch_opcode_def dispatch_low_byte_def m simp_thms)
  have att: "selected (fst (cpu_decoder_try_attach_fast_handler img x dec)) = selected dec" for x dec
    using attach_selected [of img x dec] by (cases "cpu_decoder_try_attach_fast_handler img x dec") simp
  show ?thesis
    unfolding cpu_decode_instruction_def peek inl disp Let_def
    by (simp add: att split: option.split prod.split dispatch.split)
qed

end
