(* ===== verification/PropsDecoder.thy ===== *)
theory PropsDecoder
  imports PropsInsns DecoderSpec
begin

text \<open>
  The properties of the decoder: the entries it makes, the handlers it selects, and the decoder together
  with the instruction handlers and with the executor.
\<close>

unbundle bit_operations_syntax

subsection \<open>A concrete image\<close>

definition position :: "'a list \<Rightarrow> 'a \<Rightarrow> nat" where "position xs x = length (takeWhile (\<lambda>y. y \<noteq> x) xs)"

lemma position_inj: "x \<in> set xs \<Longrightarrow> y \<in> set xs \<Longrightarrow> position xs x = position xs y \<Longrightarrow> x = y"
  by (induction xs) (auto simp: position_def split: if_splits)

lemma position_less: "x \<in> set xs \<Longrightarrow> position xs x < length xs"
  by (induction xs) (auto simp: position_def)

definition alu_fns :: "alu_fn list" where
  "alu_fns =
     [H_add, H_sub, H_cmp, H_test, H_and, H_or, H_xor, H_inc, H_dec, H_adc, H_sbb, H_neg, H_not, H_mul, H_imul,
      H_div, H_idiv, H_shl, H_shr, H_shld, H_shrd, H_sar, H_rol, H_ror, H_rcl, H_rcr]"
definition data_fns :: "data_fn list" where
  "data_fns =
     [H_mov, H_xchg, H_movsx, H_movzx, H_movsxd, H_cmovcc, H_setcc, H_lea, H_xadd, H_cmpxchg, H_cmpxchg8b16b,
      H_cbw, H_cdq, H_bswap, H_bt, H_bsf, H_popcnt, H_crc32, H_movbe, H_xlat, H_movs, H_cmps, H_stos, H_lods,
      H_scas, H_rep]"
definition control_fns :: "control_fn list" where
  "control_fns =
     [H_push, H_pop, H_pushf, H_enter, H_leave, H_jmp, H_call, H_ret, H_iret, H_jcc, H_lahf, H_flags, H_nop,
      H_pause, H_endbr, H_cpuid, H_rdtsc, H_rdtscp, H_rdpmc, H_rdseed, H_xgetbv, H_rdpid, H_fsgsbase,
      H_serialize, H_rdssp]"
definition sse_fns :: "sse_fn list" where
  "sse_fns =
     [H_xorps, H_movaps, H_movups, H_movdq, H_movss, H_sse_shuffle, H_sse_logic, H_sse_arith, H_sse_cmp,
      H_sse_math, H_sse_convert, H_sse_mov_misc, H_sse_misc, H_sse_state, H_sse2_int_logic, H_sse2_mov_int,
      H_sse2_mov_pd, H_sse2_int_arith, H_sse2_int_cmp, H_sse2_shuffle, H_sse2_arith_pd, H_sse2_logic_pd,
      H_sse2_cmp_pd, H_sse2_pack, H_sse2_shift, H_sse2_math_pd, H_sse2_convert, H_sse2_scalar_convert,
      H_sse2_misc, H_sse2_store_misc]"
definition ext_fns :: "ext_fn list" where
  "ext_fns =
     [H_evex_palignr, H_evex_pinsrw, H_evex_pinsr, H_evex_pextr, H_avx_vex, H_pshufb, H_sha256rnds2,
      H_sha256msg1, H_sha256msg2, H_aesimc, H_aesenc, H_aesenclast, H_aesdec, H_aesdeclast, H_aeskeygenassist,
      H_pinsrw, H_pinsr, H_pextr, H_pblendw, H_roundss, H_roundsd, H_pcmpestrm, H_pcmpestri, H_pcmpistrm,
      H_pcmpistri, H_palignr, H_emms, H_x87_env, H_x87_control, H_x87_init, H_x87_status]"

lemma fns_complete: "set alu_fns = UNIV" "set data_fns = UNIV" "set control_fns = UNIV" "set sse_fns = UNIV" "set ext_fns = UNIV"
proof -
  have "a \<in> set alu_fns" for a by (cases a) (simp_all add: alu_fns_def)
  then show "set alu_fns = UNIV" by auto
  have "a \<in> set data_fns" for a by (cases a) (simp_all add: data_fns_def)
  then show "set data_fns = UNIV" by auto
  have "a \<in> set control_fns" for a by (cases a) (simp_all add: control_fns_def)
  then show "set control_fns = UNIV" by auto
  have "a \<in> set sse_fns" for a by (cases a) (simp_all add: sse_fns_def)
  then show "set sse_fns = UNIV" by auto
  have "a \<in> set ext_fns" for a by (cases a) (simp_all add: ext_fns_def)
  then show "set ext_fns = UNIV" by auto
qed

fun fn_family :: "handler_fn \<Rightarrow> nat" where
  "fn_family (Alu a) = 0" | "fn_family (Data d) = 1" | "fn_family (Control c) = 2" | "fn_family (Sse s) = 3" | "fn_family (Ext x) = 4"

fun fn_position :: "handler_fn \<Rightarrow> nat" where
  "fn_position (Alu a) = position alu_fns a"
| "fn_position (Data d) = position data_fns d"
| "fn_position (Control c) = position control_fns c"
| "fn_position (Sse s) = position sse_fns s"
| "fn_position (Ext x) = position ext_fns x"

definition fn_number :: "handler_fn \<Rightarrow> nat" where "fn_number h = 50 * fn_family h + fn_position h"

lemma fn_position_less: "fn_position h < 50"
proof -
  have "length alu_fns < 50" "length data_fns < 50" "length control_fns < 50" "length sse_fns < 50" "length ext_fns < 50"
    by (simp_all add: alu_fns_def data_fns_def control_fns_def sse_fns_def ext_fns_def)
  moreover have "position alu_fns a < length alu_fns" "position data_fns d < length data_fns"
    "position control_fns c < length control_fns" "position sse_fns s < length sse_fns" "position ext_fns x < length ext_fns" for a d c s x
    by (rule position_less, simp add: fns_complete)+
  ultimately have "position alu_fns a < 50" "position data_fns d < 50" "position control_fns c < 50" "position sse_fns s < 50"
    "position ext_fns x < 50" for a d c s x
    by (meson less_trans)+
  then show ?thesis by (cases h) simp_all
qed

lemma fn_number_inj: "fn_number h = fn_number k \<Longrightarrow> h = k"
proof -
  assume e: "fn_number h = fn_number k"
  have "fn_number g div 50 = fn_family g" "fn_number g mod 50 = fn_position g" for g
    using fn_position_less [of g] by (simp_all add: fn_number_def)
  then have "fn_family h = fn_family k" "fn_position h = fn_position k" using e by metis+
  moreover note inj = position_inj [where xs = alu_fns, unfolded fns_complete, OF UNIV_I UNIV_I]
    position_inj [where xs = data_fns, unfolded fns_complete, OF UNIV_I UNIV_I]
    position_inj [where xs = control_fns, unfolded fns_complete, OF UNIV_I UNIV_I]
    position_inj [where xs = sse_fns, unfolded fns_complete, OF UNIV_I UNIV_I]
    position_inj [where xs = ext_fns, unfolded fns_complete, OF UNIV_I UNIV_I]
  ultimately show ?thesis by (cases h; cases k) (auto dest: inj)
qed

lemma fn_number_less: "fn_number h < 250"
  using fn_position_less [of h] by (cases h) (simp_all add: fn_number_def)

text \<open>The slow handlers stand from 0x1000, the fast ones from 0x2000; the unmodelled decoders find nothing.\<close>

definition demo_image :: image where
  "demo_image = \<lparr>im_address = (\<lambda>h. 0x1000 + of_nat (fn_number h)), im_fast_address = (\<lambda>h. 0x2000 + of_nat (fn_number h)),
     im_cpuid = (\<lambda>_ _. (0, 0, 0, 0)), im_decode = (\<lambda>_ c _. (zero_decoded_instruction, raise_ud_ctx c))\<rparr>"

lemma demo_image_inj: "inj (im_address demo_image)"
proof (rule injI)
  fix h k
  assume "im_address demo_image h = im_address demo_image k"
  then have "unat (of_nat (fn_number h) :: u64) = unat (of_nat (fn_number k) :: u64)" by (simp add: demo_image_def)
  then show "h = k" using fn_number_less [of h] fn_number_less [of k]
    by (intro fn_number_inj) (simp add: unsigned_of_nat take_bit_nat_eq_self)
qed

lemma demo_image_nonzero: "im_address demo_image h \<noteq> 0"
proof -
  have "unat (0x1000 + of_nat (fn_number h) :: u64) = 0x1000 + fn_number h"
    using fn_number_less [of h] by (simp add: unat_word_ariths unsigned_of_nat take_bit_nat_eq_self)
  then show ?thesis by (auto simp: demo_image_def word_unat_eq_iff)
qed

subsection \<open>The decoder and the handlers\<close>

lemmas attached_recompute = attached_replaysI [where recompute = True, simplified]
lemmas attached_plain = attached_replaysI [where recompute = False, simplified]

lemma recompute_entries:
  "(Alu H_add, True, decode_add_instruction) \<in> set (attach_table img)"
  "(Alu H_sub, True, decode_sub_instruction) \<in> set (attach_table img)"
  "(Alu H_and, True, decode_and_instruction) \<in> set (attach_table img)"
  "(Alu H_or, True, decode_or_instruction) \<in> set (attach_table img)"
  "(Alu H_xor, True, decode_xor_instruction) \<in> set (attach_table img)"
  "(Alu H_cmp, True, decode_cmp_instruction) \<in> set (attach_table img)"
  "(Alu H_test, True, decode_test_instruction) \<in> set (attach_table img)"
  "(Alu H_shld, True, decode_shld_instruction) \<in> set (attach_table img)"
  "(Alu H_shrd, True, decode_shrd_instruction) \<in> set (attach_table img)"
  "(Data H_cmovcc, True, decode_cmovcc_instruction) \<in> set (attach_table img)"
  "(Data H_movsx, True, decode_movsx_instruction) \<in> set (attach_table img)"
  "(Data H_movzx, True, decode_movzx_instruction) \<in> set (attach_table img)"
  "(Data H_movsxd, True, decode_movsxd_instruction) \<in> set (attach_table img)"
  "(Data H_xchg, True, decode_xchg_instruction) \<in> set (attach_table img)"
  "(Data H_xadd, True, decode_xadd_instruction) \<in> set (attach_table img)"
  "(Data H_cmpxchg, True, decode_cmpxchg_instruction) \<in> set (attach_table img)"
  by (simp_all add: attach_table_def)

lemma plain_entries:
  "(Alu H_adc, False, decode_adc_instruction) \<in> set (attach_table img)"
  "(Alu H_sbb, False, decode_sbb_instruction) \<in> set (attach_table img)"
  "(Alu H_inc, False, decode_inc_instruction) \<in> set (attach_table img)"
  "(Alu H_dec, False, decode_dec_instruction) \<in> set (attach_table img)"
  "(Alu H_neg, False, decode_neg_instruction) \<in> set (attach_table img)"
  "(Alu H_not, False, decode_not_instruction) \<in> set (attach_table img)"
  "(Alu H_mul, False, decode_mul_instruction) \<in> set (attach_table img)"
  "(Alu H_imul, False, decode_imul_instruction) \<in> set (attach_table img)"
  "(Alu H_div, False, decode_div_instruction) \<in> set (attach_table img)"
  "(Alu H_idiv, False, decode_idiv_instruction) \<in> set (attach_table img)"
  "(Alu H_shl, False, decode_shl_instruction) \<in> set (attach_table img)"
  "(Alu H_shr, False, decode_shr_instruction) \<in> set (attach_table img)"
  "(Alu H_sar, False, decode_sar_instruction) \<in> set (attach_table img)"
  "(Alu H_rol, False, decode_rol_instruction) \<in> set (attach_table img)"
  "(Alu H_ror, False, decode_ror_instruction) \<in> set (attach_table img)"
  "(Alu H_rcl, False, decode_rcl_instruction) \<in> set (attach_table img)"
  "(Alu H_rcr, False, decode_rcr_instruction) \<in> set (attach_table img)"
  "(Data H_setcc, False, decode_setcc_instruction) \<in> set (attach_table img)"
  "(Control H_push, False, decode_push_instruction) \<in> set (attach_table img)"
  "(Data H_cbw, False, decode_cbw_instruction) \<in> set (attach_table img)"
  "(Data H_cdq, False, decode_cdq_instruction) \<in> set (attach_table img)"
  "(Control H_flags, False, decode_flags_instruction) \<in> set (attach_table img)"
  "(Control H_lahf, False, decode_lahf_instruction (im_cpuid img)) \<in> set (attach_table img)"
  "(Data H_stos, False, decode_stos_instruction) \<in> set (attach_table img)"
  "(Data H_scas, False, decode_scas_instruction) \<in> set (attach_table img)"
  "(Data H_bswap, False, decode_bswap_instruction) \<in> set (attach_table img)"
  "(Data H_bsf, False, decode_bsf_instruction) \<in> set (attach_table img)"
  "(Data H_popcnt, False, decode_popcnt_instruction) \<in> set (attach_table img)"
  "(Data H_bt, False, decode_bt_instruction) \<in> set (attach_table img)"
  by (simp_all add: attach_table_def)

lemma other_handlers_replay:
  "replays attach_one decode_stos_instruction execute_stos execute_stos_fast"
  "replays attach_one decode_scas_instruction execute_scas execute_scas_fast"
  "replays attach_one decode_bswap_instruction execute_bswap execute_bswap_fast"
  "replays attach_one decode_bsf_instruction (execute_bsf cpuid) (execute_bsf_fast cpuid)"
  "replays attach_one decode_popcnt_instruction (execute_popcnt cpuid) (execute_popcnt_fast cpuid)"
  "replays attach_one decode_bt_instruction execute_bt execute_bt_fast"
  unfolding execute_stos_def execute_stos_fast_def execute_scas_def execute_scas_fast_def execute_bswap_def
    execute_bswap_fast_def execute_bsf_def execute_bsf_fast_def execute_popcnt_def execute_popcnt_fast_def
    execute_bt_def execute_bt_fast_def
  by (rule stos_decoder.replays_plain scas_decoder.replays_plain bswap_decoder.replays_plain bsf_decoder.replays_plain
        popcnt_decoder.replays_plain bt_decoder.replays_plain)+

text \<open>
  C1: the decoder and the handlers together. Where the decoder selects one of these handlers and attaches
  its fast version, decoding has left the CPU context as it was, and running the cached entry later in
  the same mode does exactly what running the bytes does, unless decoding them raises an exception.
\<close>

theorem dispatched_handlers_replay:
  assumes "inj (im_address img)"
  shows
    "attached_replays img (Alu H_add) decode_add_instruction execute_add execute_add_fast \<and>
     attached_replays img (Alu H_sub) decode_sub_instruction execute_sub execute_sub_fast \<and>
     attached_replays img (Alu H_and) decode_and_instruction execute_and execute_and_fast \<and>
     attached_replays img (Alu H_or) decode_or_instruction execute_or execute_or_fast \<and>
     attached_replays img (Alu H_xor) decode_xor_instruction execute_xor execute_xor_fast \<and>
     attached_replays img (Alu H_cmp) decode_cmp_instruction execute_cmp execute_cmp_fast \<and>
     attached_replays img (Alu H_test) decode_test_instruction execute_test execute_test_fast \<and>
     attached_replays img (Alu H_shld) decode_shld_instruction execute_shld execute_shld_fast \<and>
     attached_replays img (Alu H_shrd) decode_shrd_instruction execute_shrd execute_shrd_fast \<and>
     attached_replays img (Data H_cmovcc) decode_cmovcc_instruction execute_cmovcc execute_cmovcc_fast \<and>
     attached_replays img (Data H_movsx) decode_movsx_instruction execute_movsx execute_movsx_fast \<and>
     attached_replays img (Data H_movzx) decode_movzx_instruction execute_movzx execute_movzx_fast \<and>
     attached_replays img (Data H_movsxd) decode_movsxd_instruction execute_movsxd execute_movsxd_fast \<and>
     attached_replays img (Data H_xchg) decode_xchg_instruction execute_xchg execute_xchg_fast \<and>
     attached_replays img (Data H_xadd) decode_xadd_instruction execute_xadd execute_xadd_fast \<and>
     attached_replays img (Data H_cmpxchg) decode_cmpxchg_instruction execute_cmpxchg execute_cmpxchg_fast \<and>
     attached_replays img (Alu H_adc) decode_adc_instruction execute_adc execute_adc_fast \<and>
     attached_replays img (Alu H_sbb) decode_sbb_instruction execute_sbb execute_sbb_fast \<and>
     attached_replays img (Alu H_inc) decode_inc_instruction execute_inc execute_inc_fast \<and>
     attached_replays img (Alu H_dec) decode_dec_instruction execute_dec execute_dec_fast \<and>
     attached_replays img (Alu H_neg) decode_neg_instruction execute_neg execute_neg_fast \<and>
     attached_replays img (Alu H_not) decode_not_instruction execute_not execute_not_fast \<and>
     attached_replays img (Alu H_mul) decode_mul_instruction execute_mul execute_mul_fast \<and>
     attached_replays img (Alu H_imul) decode_imul_instruction execute_imul execute_imul_fast \<and>
     attached_replays img (Alu H_div) decode_div_instruction (execute_div build) (execute_div_fast build) \<and>
     attached_replays img (Alu H_idiv) decode_idiv_instruction (execute_idiv build) (execute_idiv_fast build) \<and>
     attached_replays img (Alu H_shl) decode_shl_instruction execute_shl execute_shl_fast \<and>
     attached_replays img (Alu H_shr) decode_shr_instruction execute_shr execute_shr_fast \<and>
     attached_replays img (Alu H_sar) decode_sar_instruction execute_sar execute_sar_fast \<and>
     attached_replays img (Alu H_rol) decode_rol_instruction execute_rol execute_rol_fast \<and>
     attached_replays img (Alu H_ror) decode_ror_instruction execute_ror execute_ror_fast \<and>
     attached_replays img (Alu H_rcl) decode_rcl_instruction execute_rcl execute_rcl_fast \<and>
     attached_replays img (Alu H_rcr) decode_rcr_instruction execute_rcr execute_rcr_fast \<and>
     attached_replays img (Data H_setcc) decode_setcc_instruction execute_setcc execute_setcc_fast \<and>
     attached_replays img (Control H_push) decode_push_instruction execute_push execute_push_fast \<and>
     attached_replays img (Data H_cbw) decode_cbw_instruction execute_cbw execute_cbw_fast \<and>
     attached_replays img (Data H_cdq) decode_cdq_instruction execute_cdq execute_cdq_fast \<and>
     attached_replays img (Control H_flags) decode_flags_instruction execute_flags execute_flags_fast \<and>
     attached_replays img (Control H_lahf) (decode_lahf_instruction (im_cpuid img)) (execute_lahf (im_cpuid img)) execute_lahf_fast \<and>
     attached_replays img (Data H_stos) decode_stos_instruction execute_stos execute_stos_fast \<and>
     attached_replays img (Data H_scas) decode_scas_instruction execute_scas execute_scas_fast \<and>
     attached_replays img (Data H_bswap) decode_bswap_instruction execute_bswap execute_bswap_fast \<and>
     attached_replays img (Data H_bsf) decode_bsf_instruction (execute_bsf cpuid) (execute_bsf_fast cpuid) \<and>
     attached_replays img (Data H_popcnt) decode_popcnt_instruction (execute_popcnt cpuid) (execute_popcnt_fast cpuid) \<and>
     attached_replays img (Data H_bt) decode_bt_instruction execute_bt execute_bt_fast"
  by (intro conjI;
      ((rule attached_recompute [OF assms], rule recompute_entries, simp only: cached_handlers_replay) |
       (rule attached_plain [OF assms], rule plain_entries, simp only: register_handlers_replay other_handlers_replay)))
text \<open>\<^verbatim>\<open>ADD [RCX], EAX\<close>, decoded and attached with \<^verbatim>\<open>RCX\<close> 0x2000 and replayed with \<^verbatim>\<open>RCX\<close> 0x3000.\<close>

theorem dispatched_handlers_replay_witness:
  "let dec = fst (cpu_decode_instruction demo_image (cpu_ctx (rcx_engine 0x2000)) [0x01, 0x01])
   in dc_fast_handler dec = im_fast_address demo_image (Alu H_add) \<and>
      execute_add_fast demo_callbacks (rcx_engine 0x3000) dec = execute_add demo_callbacks (rcx_engine 0x3000) [0x01, 0x01]"
proof -
  let ?c = "cpu_ctx (rcx_engine 0x2000)" and ?e = "rcx_engine 0x3000"
  let ?d = "cpu_decode_instruction demo_image ?c [0x01, 0x01]"
  have h: "dc_handler (fst ?d) = im_address demo_image (Alu H_add)" "dc_fast_handler (fst ?d) \<noteq> 0" by code_simp+
  have mode: "same_mode ?c (cpu_ctx ?e)" by (simp add: rcx_engine_def same_mode_iff)
  have ok: "\<not> cpu_has_exception (snd (decode_add_instruction (cpu_ctx ?e) [0x01, 0x01]))" by code_simp
  have "attached_replays demo_image (Alu H_add) decode_add_instruction execute_add execute_add_fast"
    using dispatched_handlers_replay [OF demo_image_inj] by blast
  then show ?thesis
    using h mode ok unfolding attached_replays_def Let_def by (cases ?d) auto
qed

text \<open>
  C2: every entry that the decoder makes is well formed. A handler is the address of a function and goes
  with no inline form and no fault, a fast handler belongs to the handler and comes with a length of 1 to 15
  bytes, an inline form has such a length and counts as a branch, partial progress is kept by repeated string
  instructions only, and an entry without a snapshot neither faults by its flags nor touches vector
  registers. Unless it reports a failed fetch, it holds the bytes it was made from.
\<close>

theorem decoded_entries_well_formed:
  assumes "buf \<noteq> []" "length buf \<le> 15"
  shows "entry_ok img (fst (cpu_decode_instruction img c buf)) \<and>
    (dc_byte_count (fst (cpu_decode_instruction img c buf)) = 0 \<or> decoded_code (fst (cpu_decode_instruction img c buf)) = buf)"
  using decoded_entry_ok [of img c buf, OF _ assms] by (metis prod.collapse)

theorem decoded_entries_well_formed_witness:
  "entry_ok demo_image (fst (cpu_decode_instruction demo_image demo_ctx [0x01, 0x01]))"
  using decoded_entries_well_formed [of "[0x01, 0x01]" demo_image demo_ctx] by simp

text \<open>
  C3: the entry of a handler that may write vector registers always carries the flag that makes the executor
  take a snapshot of them, so that a fault in the handler can be undone.
\<close>

theorem vector_handlers_are_snapshotted:
  assumes "inj (im_address img)" "\<forall>h. im_address img h \<noteq> 0"
    and "dc_handler (fst (cpu_decode_instruction img c buf)) = im_address img h" "vector_handler h"
  shows "decoded_has (fst (cpu_decode_instruction img c buf)) DECODED_FLAG_TOUCHES_VECTOR"
proof -
  obtain dec c' where d: "cpu_decode_instruction img c buf = (dec, c')" by force
  have n: "dc_handler dec \<noteq> 0" using assms d by simp
  then have "buf \<noteq> []" using d by (auto simp: cpu_decode_instruction_def decoded_inst_clear_def)
  with d have "decoded_has dec DECODED_FLAG_TOUCHES_VECTOR"
  proof (cases rule: dispatch_cases)
    case (inlined opc n)
    then show ?thesis using n by (auto simp: decode_inline_def Let_def cpu_decoder_set_inline_ret_def split: if_splits prod.splits)
  next
    case (handled opc n k)
    have "handler_address img k = im_address img h" using attach_changes [OF handled(6)] assms(3) d by simp
    then have "k = Some h" using injD [OF assms(1)] assms(2) by (auto simp: handler_address_def split: option.splits)
    then have "cpu_step_may_touch_vector_state buf opc (peek_mandatory_prefix buf n)"
      using opcode_vector handled(5) assms(4) \<open>buf \<noteq> []\<close> by (auto simp: touches_def)
    then show ?thesis
      using attach_changes [OF handled(6)] by (simp add: decoded_has_def [of dec] decoded_has_def [symmetric] has_no_fault(1) has_flag_if has_group5 has_opening)
  qed (use n in \<open>simp_all add: has_flag_if\<close>)
  then show ?thesis using d by simp
qed

theorem vector_handlers_are_snapshotted_witness:
  "decoded_has (fst (cpu_decode_instruction demo_image demo_ctx [0x0F, 0x28, 0xC1])) DECODED_FLAG_TOUCHES_VECTOR"
proof (rule vector_handlers_are_snapshotted [OF demo_image_inj])
  show "\<forall>h. im_address demo_image h \<noteq> 0" by (simp add: demo_image_nonzero)
  show "dc_handler (fst (cpu_decode_instruction demo_image demo_ctx [0x0F, 0x28, 0xC1])) = im_address demo_image (Sse H_movaps)"
    by code_simp
qed simp

text \<open>
  C4: for the one-byte opcodes the branch flag is right: an entry with a handler carries it exactly when the
  handler sets the instruction pointer itself, also in group 5, where the ModRM byte decides. So the
  executor advances the instruction pointer after the other handlers, and only after them.
\<close>

theorem branch_flag_is_exact:
  assumes "inj (im_address img)" "\<forall>h. im_address img h \<noteq> 0"
    and "dc_handler (fst (cpu_decode_instruction img c buf)) = im_address img h"
    and "fst (peek_opcode c buf) \<le> 0xFF" "h \<noteq> Control H_endbr" "h \<noteq> Control H_rdssp"
  shows "decoded_has (fst (cpu_decode_instruction img c buf)) DECODED_FLAG_BRANCH \<longleftrightarrow> branch_handler h"
proof -
  obtain dec c' where d: "cpu_decode_instruction img c buf = (dec, c')" by force
  have n: "dc_handler dec \<noteq> 0" using assms d by simp
  then have "buf \<noteq> []" using d by (auto simp: cpu_decode_instruction_def decoded_inst_clear_def)
  with d have "decoded_has dec DECODED_FLAG_BRANCH \<longleftrightarrow> branch_handler h"
  proof (cases rule: dispatch_cases)
    case (vex k)
    then have "h = k" using injD [OF assms(1)] assms(3) d by simp
    then show ?thesis using vex by (auto simp: has_flag_if intercept_vex_def branch_handler_def split: if_splits)
  next
    case (inlined opc n)
    then show ?thesis using n by (auto simp: decode_inline_def Let_def cpu_decoder_set_inline_ret_def split: if_splits prod.splits)
  next
    case (handled opc n k)
    have "handler_address img k = im_address img h" using attach_changes [OF handled(6)] assms(3) d by simp
    then have k: "k = Some h" using injD [OF assms(1)] assms(2) by (auto simp: handler_address_def split: option.splits)
    have low: "opc \<le> 0xFF" using assms(4) handled(2) by simp
    obtain b :: u8 where b: "opc = ucast b" "ucast opc = b" using low_opcode [OF low] .
    have bb: "ucast (ucast b :: u16) = b" using b by simp
    have "branch_handler h \<longleftrightarrow> branch_flag buf n b" using opcode_branch [OF _ low assms(5,6)] handled(5) k b by simp
    moreover have "decoded_has dec DECODED_FLAG_BRANCH \<longleftrightarrow> branch_flag buf n b"
      using attach_changes [OF handled(6)] branch_opcode_byte [of b]
      by (simp add: decoded_has_def [of dec] decoded_has_def [symmetric] has_no_fault(1) has_flag_if has_group5 has_opening b(1) bb branch_flag_def)
    ultimately show ?thesis by simp
  qed (use n in simp_all)
  then show ?thesis using d by simp
qed

theorem branch_flag_is_exact_witness:
  "decoded_has (fst (cpu_decode_instruction demo_image demo_ctx [0xFF, 0xE0])) DECODED_FLAG_BRANCH"
proof -
  have "dc_handler (fst (cpu_decode_instruction demo_image demo_ctx [0xFF, 0xE0])) = im_address demo_image (Control H_jmp)"
    by code_simp
  moreover have "fst (peek_opcode demo_ctx [0xFF, 0xE0]) \<le> 0xFF" by code_simp
  ultimately show ?thesis
    using branch_flag_is_exact [of demo_image demo_ctx "[0xFF, 0xE0]" "Control H_jmp"] demo_image_inj demo_image_nonzero
    by (simp add: branch_handler_def)
qed

text \<open>
  C5: what the decoder selects, that is everything in the entry but the payload of a fast handler, depends on
  the bytes and on the mode key only, so an entry cached under a mode key selects the same handler and
  flags whenever it is used.
\<close>

theorem selection_depends_on_mode_key:
  assumes "cpu_inst_cache_compute_mode_key_bits c = cpu_inst_cache_compute_mode_key_bits d"
  shows "selected (fst (cpu_decode_instruction img c buf)) = selected (fst (cpu_decode_instruction img d buf))"
  using assms by (intro selection_by_mode) (simp add: same_mode_def)

theorem selection_depends_on_mode_key_witness:
  "selected (fst (cpu_decode_instruction demo_image (cpu_ctx (rcx_engine 0x2000)) [0x01, 0x01])) =
   selected (fst (cpu_decode_instruction demo_image (cpu_ctx (rcx_engine 0x3000)) [0x01, 0x01]))"
  by (rule selection_depends_on_mode_key) (simp add: rcx_engine_def cpu_inst_cache_compute_mode_key_bits_def)

subsection \<open>The decoder and the executor\<close>

text \<open>What the decoder makes of \<^verbatim>\<open>0F 1E\<close> with a ModRM byte, apart from ENDBR and RDSSP.\<close>

definition reserved_1e :: "u8 \<Rightarrow> bool" where
  "reserved_1e m \<longleftrightarrow> m = 0xFA \<or> m = 0xFB \<or> drop_bit 3 m AND 0x07 = 1"

lemma nop_1e_entry:
  assumes p: "peek_opcode c buf = (0x0F1E, n)" and len: "n + 2 < length buf"
    and other: "\<not> is_endbr_instruction buf" "probe_rdssp_instruction buf = None"
  shows "let dec = fst (cpu_decode_instruction img c buf) in
    dc_handler dec = 0 \<and> dc_fast_handler dec = 0 \<and> dc_inline_kind dec = DECODED_INLINE_NONE \<and> dc_length dec = 0 \<and>
    (decoded_has dec DECODED_FLAG_UD \<longleftrightarrow> reserved_1e (buf ! (n + 2))) \<and> \<not> decoded_has dec DECODED_FLAG_BP \<and>
    \<not> decoded_has dec DECODED_FLAG_DB \<and> \<not> decoded_has dec DECODED_FLAG_INLINE_RET \<and> \<not> decoded_has dec DECODED_FLAG_BRANCH"
proof -
  let ?d = "group5_branch (ucast (0x0F1E :: u16)) (group_field {0xFF} buf n (ucast (0x0F1E :: u16))) (decoded_opening buf n 0x0F1E)"
  have h: "dispatch_opcode c buf n 0x0F1E = (if reserved_1e (buf ! (n + 2)) then Dispatch_UD else Dispatch None)"
    using len other
    by (simp add: dispatch_opcode_def dispatch_vector_def cpu_decoder_resolve_two_byte_misc_def Let_def
        cpu_decoder_classify_xgetbv_rdtscp_def reserved_1e_def)
  have i: "decode_inline c buf n 0x0F1E d = None" for d
    by (simp add: decode_inline_def cpu_decoder_is_escape_owned_ud_def split: prod.split)
  have "intercept_vex buf = None"
  proof (rule ccontr)
    assume "intercept_vex buf \<noteq> None"
    then have "buf ! 0 \<in> {0x62, 0xC4, 0xC5}" by (auto simp: intercept_vex_def split: if_splits)
    moreover from this len have "peek_prefix_len c buf = 0"
      by (cases buf) (auto simp: peek_prefix_len_def is_legacy_prefix_def is_segment_prefix_def is_rex_byte_def)
    moreover have "buf \<noteq> []" using len by auto
    ultimately show False using p by (auto simp: peek_opcode_def Let_def)
  qed
  then have "fst (cpu_decode_instruction img c buf) =
      (if reserved_1e (buf ! (n + 2)) then flag_if True DECODED_FLAG_UD ?d else mark_no_fault buf n 0x0F1E (?d\<lparr>dc_handler := 0\<rparr>))"
    using len unfolding cpu_decode_instruction_def p
    by (auto simp: Let_def i h cpu_decoder_try_attach_fast_handler_def flag_if_def handler_address_def)
  then show ?thesis
    by (simp add: Let_def has_flag_if has_no_fault(1) has_group5 has_opening is_branch_opcode_def)
qed

text \<open>
  C6: an instruction \<^verbatim>\<open>0F 1E m\<close>, with or without prefixes, that is neither ENDBR nor RDSSP. If \<^verbatim>\<open>m\<close> is FA or
  FB or has 1 in its register field, the step raises #UD. For the other \<^verbatim>\<open>m\<close>, the reserved no-operations, the
  decoder makes an entry without a handler and without a length: executing it does nothing but advance the
  instruction pointer, by the length that the previous instruction has left in the context and not by its
  own; and as soon as a fetch hook is installed, the missing length makes the step raise #UD instead. No
  exception is pending when the step starts.
\<close>

theorem nop_1e_advances_by_previous_length:
  assumes "peek_opcode (cpu_ctx e) buf = (0x0F1E, n)" "n + 2 < length buf"
    and "\<not> is_endbr_instruction buf" "probe_rdssp_instruction buf = None" "\<not> cpu_has_exception (cpu_ctx e)"
  shows "let step = cpu_step_dispatch_decoded insns cb e (fst (cpu_decode_instruction img (cpu_ctx e) buf)) p; m = buf ! (n + 2)
    in if m = 0xFA \<or> m = 0xFB \<or> drop_bit 3 m AND 0x07 = 1 \<or> cpu_has_hook_type e CPUEAXH_HOOK_MEM_FETCH
       then fst step = CPU_STEP_EXCEPTION \<and> ex_code (exception_state (cpu_ctx (snd step))) = CPU_EXCEPTION_UD
       else step = (CPU_STEP_OK,
         e\<lparr>cpu_ctx := (cpu_ctx e)\<lparr>rip := p + word_of_int (last_inst_size (cpu_ctx e)), segment_override := - 1\<rparr>\<rparr>)"
proof -
  define dec where "dec = fst (cpu_decode_instruction img (cpu_ctx e) buf)"
  note entry = nop_1e_entry [OF assms(1-4), of img, folded dec_def, unfolded Let_def]
  have clean: "\<not> cpu_has_exception ((cpu_ctx e)\<lparr>segment_override := s\<rparr>)" for s
    using assms(5) by (simp add: cpu_has_exception_def)
  have notify: "cpu_executor_notify_fetched_bytes cb e p dec =
      (if cpu_has_hook_type e CPUEAXH_HOOK_MEM_FETCH then on_ctx raise_ud_ctx e else e)"
    using entry by (simp add: cpu_executor_notify_fetched_bytes_def)
  show ?thesis
    unfolding dec_def [symmetric]
    using entry assms(5) clean
    by (auto simp: cpu_step_dispatch_decoded_def notify run_decoded_def on_ctx_def cpu_step_finish_def Let_def reserved_1e_def
        raise_ud_ctx_def cpu_raise_exception_def cpu_has_exception_def CPU_EXCEPTION_UD_def CPU_EXCEPTION_NONE_def)
qed

text \<open>After a six-byte instruction the three bytes \<^verbatim>\<open>0F 1E 00\<close> advance the instruction pointer by 6.\<close>

theorem nop_1e_advances_by_previous_length_witness:
  "let e = demo_engine\<lparr>cpu_ctx := demo_ctx\<lparr>last_inst_size := 6\<rparr>\<rparr>;
       dec = fst (cpu_decode_instruction demo_image (cpu_ctx e) [0x0F, 0x1E, 0x00])
   in rip (cpu_ctx (snd (cpu_step_dispatch_decoded add_insns demo_callbacks e dec 0x1000))) = 0x1006"
proof -
  let ?e = "demo_engine\<lparr>cpu_ctx := demo_ctx\<lparr>last_inst_size := 6\<rparr>\<rparr>"
  have "peek_opcode (cpu_ctx ?e) [0x0F, 0x1E, 0x00] = (0x0F1E, 0)" "\<not> is_endbr_instruction [0x0F, 0x1E, 0x00]"
      "probe_rdssp_instruction [0x0F, 0x1E, 0x00] = None" "\<not> cpu_has_exception (cpu_ctx ?e)"
      "\<not> cpu_has_hook_type ?e CPUEAXH_HOOK_MEM_FETCH" "last_inst_size (cpu_ctx ?e) = 6"
    by code_simp+
  then show ?thesis
    using nop_1e_advances_by_previous_length [where n = 0 and e = ?e and buf = "[0x0F, 0x1E, 0x00]" and img = demo_image
        and cb = demo_callbacks and p = "0x1000" and insns = add_insns]
    by (simp add: Let_def)
qed

text \<open>
  Two more encodings that are not decoded as the architecture has it. In 32-bit code \<^verbatim>\<open>INC EAX\<close> before an
  ENDBR32 is taken for a prefix of it, and a VEX instruction with a segment prefix is undefined, because
  the VEX byte is looked for at the start of the instruction only.
\<close>

lemma inc_before_endbr_is_skipped:
  assumes "\<not> cpu_allows_rex_prefix c"
  shows "peek_opcode c [0x40, 0xF3, 0x0F, 0x1E, 0xFB] = (0x40, 0) \<and>
    dispatch_opcode c [0x40, 0xF3, 0x0F, 0x1E, 0xFB] 0 0x40 = Dispatch (Some (Control H_endbr))"
  using assms
  by (simp add: peek_opcode_def peek_prefix_len_def is_legacy_prefix_def is_segment_prefix_def is_rex_byte_def
      dispatch_opcode_def dispatch_vector_def cpu_decoder_resolve_two_byte_misc_def Let_def
      cpu_decoder_classify_xgetbv_rdtscp_def is_endbr_instruction_def probe_endbr_instruction_def)

lemma prefixed_vex_is_undefined:
  "decoded_has (fst (cpu_decode_instruction img c [0x64, 0xC5, b1, b2, b3])) DECODED_FLAG_UD"
proof -
  have p: "peek_opcode c [0x64, 0xC5, b1, b2, b3] = (0xC5, 1)"
    by (simp add: peek_opcode_def peek_prefix_len_def is_legacy_prefix_def is_segment_prefix_def is_rex_byte_def)
  have "dispatch_opcode c [0x64, 0xC5, b1, b2, b3] 1 0xC5 = Dispatch_UD"
    by (simp add: dispatch_opcode_def dispatch_vector_def cpu_decoder_resolve_two_byte_misc_def Let_def
      cpu_decoder_classify_xgetbv_rdtscp_def is_endbr_instruction_def probe_endbr_instruction_def probe_rdssp_instruction_def
      is_legacy_prefix_def is_segment_prefix_def is_rex_byte_def dispatch_low_byte_def is_rep_string_opcode_def
      cpu_decoder_resolve_x87_def)
  moreover have "decode_inline c [0x64, 0xC5, b1, b2, b3] 1 0xC5 d = None" for d
    by (simp add: decode_inline_def cpu_decoder_is_escape_owned_ud_def split: prod.split)
  ultimately show ?thesis
    by (simp add: cpu_decode_instruction_def intercept_vex_def p has_flag_if)
qed

end
