(* ===== verification/PropsStrings.thy ===== *)
theory PropsStrings
  imports PropsExecutor BitsSpec
begin

text \<open>
  The properties of the string instructions and of the bit, byte and checksum instructions.
\<close>

unbundle bit_operations_syntax

text \<open>\<^verbatim>\<open>FS MOVSB\<close>, and an engine whose \<^verbatim>\<open>FS\<close> segment is not mapped, with the segment override of the context given.\<close>

definition fs_engine :: "int \<Rightarrow> cpueaxh_engine" where
  "fs_engine seg =
     demo_engine\<lparr>cpu_ctx := demo_ctx\<lparr>regs := (regs demo_ctx)(REG_RSI := 0x2000, REG_RDI := 0x2800),
       fs := (fs demo_ctx)\<lparr>sr_descriptor := (sr_descriptor (fs demo_ctx))\<lparr>sd_base := 0x100000\<rparr>\<rparr>,
       segment_override := seg\<rparr>\<rparr>"

definition fs_movs_bytes :: DecodedInst where
  "fs_movs_bytes = decoded_inst_clear\<lparr>dc_bytes := (\<lambda>_. 0)(0 := 0x64, 1 := 0xA4), dc_byte_count := 2\<rparr>"

lemma fs_movs_differs: "\<not> replays attach_one decode_movs_instruction execute_movs execute_movs_fast"
proof
  let ?a = "attach_one (cpu_ctx (fs_engine (-1))) fs_movs_bytes decode_movs_instruction 7" and ?e = "fs_engine 4"
  assume r: "replays attach_one decode_movs_instruction execute_movs execute_movs_fast"
  have code: "decoded_code fs_movs_bytes = [0x64, 0xA4]" by code_simp
  have att: "dc_fast_handler fs_movs_bytes = 0" "dc_fast_handler (fst ?a) \<noteq> 0" by code_simp+
  have mode: "same_mode (cpu_ctx (fs_engine (-1))) (cpu_ctx ?e)" by (simp add: fs_engine_def same_mode_iff)
  have dec: "\<not> cpu_has_exception (snd (decode_movs_instruction (cpu_ctx ?e) [0x64, 0xA4]))" by code_simp
  have "execute_movs_fast demo_callbacks ?e (fst ?a) = execute_movs demo_callbacks ?e [0x64, 0xA4]"
    using r att mode dec code unfolding replays_def by (metis prod.collapse)
  moreover have "cpu_has_exception (cpu_ctx (execute_movs demo_callbacks ?e [0x64, 0xA4]))" by code_simp
  moreover have "\<not> cpu_has_exception (cpu_ctx (execute_movs_fast demo_callbacks ?e (fst ?a)))" by code_simp
  ultimately show False by simp
qed

text \<open>
  C37: the instructions that read through a source segment keep the segment in the decoded instruction.
  Their fast handlers replay the instruction faithfully when the segment in force while the handler is
  attached is the one in force when it runs, and not otherwise: \<^verbatim>\<open>FS MOVSB\<close>, attached before the override
  is set, reads through \<^verbatim>\<open>DS\<close>. The string instructions without a source segment and the register forms
  of the bit instructions always replay faithfully.
\<close>

theorem segment_handlers_replay:
  "replays_in_segment decode_movs_instruction execute_movs execute_movs_fast \<and>
   replays_in_segment decode_cmps_instruction execute_cmps execute_cmps_fast \<and>
   replays_in_segment decode_lods_instruction execute_lods execute_lods_fast \<and>
   replays_in_segment decode_rep_for_fast execute_rep execute_rep_fast \<and>
   replays_in_segment decode_xlat_instruction execute_xlat execute_xlat_fast \<and>
   \<not> replays attach_one decode_movs_instruction execute_movs execute_movs_fast \<and>
   replays attach_one decode_stos_instruction execute_stos execute_stos_fast \<and>
   replays attach_one decode_scas_instruction execute_scas execute_scas_fast \<and>
   replays attach_one decode_bswap_instruction execute_bswap execute_bswap_fast \<and>
   replays attach_one decode_bsf_instruction (execute_bsf cpuid) (execute_bsf_fast cpuid) \<and>
   replays attach_one decode_popcnt_instruction (execute_popcnt cpuid) (execute_popcnt_fast cpuid) \<and>
   replays attach_one decode_bt_instruction execute_bt execute_bt_fast"
  by (intro conjI string_replays_in_segment rep_replays_in_segment xlat_replays_in_segment fs_movs_differs,
      unfold execute_stos_def execute_stos_fast_def execute_scas_def execute_scas_fast_def execute_bswap_def
        execute_bswap_fast_def execute_bsf_def execute_bsf_fast_def execute_popcnt_def execute_popcnt_fast_def
        execute_bt_def execute_bt_fast_def)
     (rule stos_decoder.replays_plain scas_decoder.replays_plain bswap_decoder.replays_plain bsf_decoder.replays_plain
        popcnt_decoder.replays_plain bt_decoder.replays_plain)+

lemma rep_count:
  assumes "z \<in> {16, 32, 64}"
  shows "snd (get_rep_count z e) = e" "unat (fst (get_rep_count z e)) < 2 ^ nat z"
  using assms unsigned_less [of "get_reg16 (cpu_ctx e) REG_RCX", where 'a = nat] unsigned_less [of "get_reg32 (cpu_ctx e) REG_RCX", where 'a = nat]
    unsigned_less [of "get_reg64 (cpu_ctx e) REG_RCX", where 'a = nat]
  by (auto simp: get_rep_count_def get_index_reg_def Let_def unsigned_ucast_eq take_bit_nat_eq_self)

lemma rep_count_back:
  assumes "z \<in> {16, 32, 64}" "k < 2 ^ nat z"
  shows "get_rep_count z (set_rep_count z (word_of_nat k) e) = (word_of_nat k, set_rep_count z (word_of_nat k) e)"
  unfolding get_rep_count_def set_rep_count_def by (rule index_reg_back [OF assms])

text \<open>
  C38: a repeated string instruction is restartable. With a count of zero it does nothing. Otherwise it runs
  the instruction once for each unit of the count, the count register always holding the iterations left,
  up to the first iteration that faults, uses the count up or ends a comparison; after any number of
  iterations before that, starting the instruction again from the state reached gives the same result.
\<close>

theorem repetition_is_restartable:
  fixes cb :: callbacks
  assumes "di_mandatory_prefix inst = 0xF2 \<or> di_mandatory_prefix inst = 0xF3" "di_address_size inst \<in> {16, 32, 64}"
    and n: "n = unat (fst (get_rep_count (di_address_size inst) e))"
  defines "goes_on k \<equiv> rep_goes_on cb (di_opcode inst) (di_mandatory_prefix inst) inst n k e"
    and "after k \<equiv> rep_state cb (di_opcode inst) inst n k e"
  shows "(n = 0 \<longrightarrow> rep_run cb e inst = e) \<and>
    (0 < n \<longrightarrow> (\<exists>k < n. (\<forall>j < k. goes_on j) \<and> \<not> goes_on k \<and>
       rep_run cb e inst = (if rep_faults cb (di_opcode inst) inst n k e
         then execute_rep_iteration_with_decoded cb (after k) (di_opcode inst) inst else after (Suc k)))) \<and>
    (\<forall>k \<le> n. unat (fst (get_rep_count (di_address_size inst) (after k))) = n - k \<and>
       ((\<forall>j < k. goes_on j) \<longrightarrow> rep_run cb (after k) inst = rep_run cb e inst))"
proof -
  note z = rep_count [OF assms(2)]
  have run: "rep_run cb s inst = rep_loop cb (di_opcode inst) (di_mandatory_prefix inst) inst (unat (fst (get_rep_count (di_address_size inst) s))) s" for s
    using assms(1) z(1) [of s] by (auto simp: rep_run_def split: prod.splits)
  have left: "unat (fst (get_rep_count (di_address_size inst) (after k))) = n - k" if "k \<le> n" for k
  proof (cases k)
    case (Suc j)
    have "n - k < 2 ^ nat (di_address_size inst)" "n - k < 2 ^ 64"
      using z(2) [of e] unsigned_less [of "fst (get_rep_count (di_address_size inst) e)", where 'a = nat] by (simp_all add: n)
    then show ?thesis using Suc by (simp add: after_def rep_count_back [OF assms(2)] unsigned_of_nat take_bit_nat_eq_self)
  qed (simp add: after_def n)
  have again: "rep_run cb (after k) inst = rep_run cb e inst" if "k \<le> n" "\<forall>j < k. goes_on j" for k
    using rep_loop_resumes [OF that(2) [unfolded goes_on_def]] left [OF that(1)] by (simp add: run after_def n)
  show ?thesis
    using left again rep_loop_runs [of n cb "di_opcode inst" "di_mandatory_prefix inst" inst e]
    unfolding run n [symmetric] goes_on_def after_def by auto
qed

definition rep_stosb :: DecodedInstruction where
  "rep_stosb = zero_decoded_instruction\<lparr>di_opcode := 0xAA, di_mandatory_prefix := 0xF3, di_address_size := 64, di_operand_size := 8\<rparr>"

definition rep_engine :: cpueaxh_engine where
  "rep_engine = demo_engine\<lparr>cpu_ctx := demo_ctx\<lparr>regs := (regs demo_ctx)(REG_RCX := 3, REG_RDI := 0x2000, REG_RAX := 0x41)\<rparr>\<rparr>"

theorem repetition_is_restartable_witness:
  "rep_run demo_callbacks (rep_state demo_callbacks 0xAA rep_stosb 3 2 rep_engine) rep_stosb = rep_run demo_callbacks rep_engine rep_stosb"
proof -
  have i: "di_opcode rep_stosb = 0xAA" "di_mandatory_prefix rep_stosb = 0xF3" "di_address_size rep_stosb = 64"
    by (simp_all add: rep_stosb_def)
  have c: "unat (fst (get_rep_count 64 rep_engine)) = 3" by code_simp
  have "rep_goes_on demo_callbacks 0xAA 0xF3 rep_stosb 3 0 rep_engine" by code_simp
  moreover have "rep_goes_on demo_callbacks 0xAA 0xF3 rep_stosb 3 1 rep_engine" by code_simp
  ultimately have g: "\<forall>j < 2. rep_goes_on demo_callbacks 0xAA 0xF3 rep_stosb 3 j rep_engine" by (simp add: less_2_cases_iff)
  show ?thesis
    using repetition_is_restartable [of rep_stosb 3 rep_engine demo_callbacks, unfolded i c] g by simp
qed

text \<open>
  C39: on every operand width the scans find the lowest and the highest set bit, the counts of zeros the zeros
  below and above them, and the population count the number of set bits.
\<close>

theorem bit_scans_are_exact:
  fixes v :: "'a :: len word"
  assumes "LENGTH('a) \<le> 64"
  shows "(v \<noteq> 0 \<longrightarrow> scan_forward_bsf (ucast v) (int LENGTH('a)) = of_nat (Min {i. bit v i}) \<and>
       scan_reverse_bsf (ucast v) (int LENGTH('a)) = of_nat (Max {i. bit v i})) \<and>
    count_trailing_zeros_bsf (ucast v) (int LENGTH('a)) = of_nat (if v = 0 then LENGTH('a) else Min {i. bit v i}) \<and>
    count_leading_zeros_bsf (ucast v) (int LENGTH('a)) =
      of_nat (if v = 0 then LENGTH('a) else LENGTH('a) - 1 - Max {i. bit v i}) \<and>
    popcnt_count_bits (ucast v) (int LENGTH('a)) = of_nat (card {i. bit v i})"
  using scans_word [OF assms, of v] by (simp only: set_bits_of_def) simp

theorem bit_scans_are_exact_witness:
  "scan_forward_bsf 0x50 16 = of_nat (Min {i. bit (0x50 :: u16) i}) \<and> popcnt_count_bits 0x50 16 = of_nat (card {i. bit (0x50 :: u16) i})"
  using bit_scans_are_exact [where v = "0x50 :: u16"] by simp

text \<open>
  C40: the bit of a memory operand that BT, BTS, BTR and BTC test, at each operand size. With a register as
  the bit offset they address a bit string: the operand stands at the address of the instruction plus \<open>byte\<close>,
  a multiple of the operand size, and bit \<open>src\<close> of the string is bit \<open>src mod n\<close> of it, for every signed bit
  offset \<open>src\<close>. With an immediate (opcode 0F BA) the operand stands at the address of the instruction itself, and the bit is
  the immediate modulo the operand size.
\<close>

theorem bit_tests_address_bit_string:
  assumes "modrm_mod (di_modrm inst) \<noteq> 3" "di_operand_size inst = n" "n \<in> {16, 32, 64}"
  shows "(di_opcode inst \<noteq> 0xBA \<longrightarrow> (\<exists>src byte. bt_target cb inst e = (case read_bt_memory_value cb (di_mem_address inst + word_of_int byte) n e of
      (v, e1) \<Rightarrow> (word_of_int src AND (word_of_int n - 1), di_mem_address inst + word_of_int byte, v, e1)) \<and>
    src = (let r = fst (read_bt_source_register (di_modrm inst) n e)
           in if n = 16 then sint (ucast r :: u16) else if n = 32 then sint (ucast r :: u32) else sint r) \<and>
    8 * byte + uint ((word_of_int src :: u64) AND (word_of_int n - 1)) = src \<and> n div 8 dvd byte)) \<and>
    (di_opcode inst = 0xBA \<longrightarrow> bt_target cb inst e = (case read_bt_memory_value cb (di_mem_address inst) n e of
      (v, e1) \<Rightarrow> (word_of_int (uint (di_immediate inst AND 0xFF) mod n), di_mem_address inst, v, e1)))"
  using bt_target_memory [OF assms(1) _ assms(2,3), of cb e] bt_target_immediate [OF assms, of cb e] by simp

text \<open>
  \<^verbatim>\<open>BT WORD [0x2000], AX\<close> with \<^verbatim>\<open>AX\<close> = -3 tests bit 13 of the word at 0x1FFE, \<^verbatim>\<open>BT WORD [0x2000], 20\<close> bit 4 of
  the word at 0x2000.
\<close>

theorem bit_tests_address_bit_string_witness:
  "(\<exists>byte. - 3 = 8 * byte + 13 \<and> fst (snd (bt_target demo_callbacks
     (zero_decoded_instruction\<lparr>di_opcode := 0xA3, di_modrm := 0, di_operand_size := 16, di_mem_address := 0x2000\<rparr>)
     (rep_engine\<lparr>cpu_ctx := set_reg64 demo_ctx REG_RAX 0xFFFD\<rparr>))) = 0x2000 + word_of_int byte) \<and>
   fst (bt_target demo_callbacks
     (zero_decoded_instruction\<lparr>di_opcode := 0xBA, di_modrm := 0x20, di_operand_size := 16, di_mem_address := 0x2000, di_immediate := 20\<rparr>)
     rep_engine) = 4"
proof -
  let ?i = "zero_decoded_instruction\<lparr>di_opcode := 0xA3, di_modrm := 0, di_operand_size := 16, di_mem_address := 0x2000\<rparr>"
  let ?j = "zero_decoded_instruction\<lparr>di_opcode := 0xBA, di_modrm := 0x20, di_operand_size := 16, di_mem_address := 0x2000, di_immediate := 20\<rparr>"
  let ?e = "rep_engine\<lparr>cpu_ctx := set_reg64 demo_ctx REG_RAX 0xFFFD\<rparr>"
  have r: "fst (read_bt_source_register 0 16 ?e) = 0xFFFD" by code_simp
  have s: "sint (0xFFFD :: u16) = - 3" by code_simp
  obtain src byte where b: "bt_target demo_callbacks ?i ?e = (case read_bt_memory_value demo_callbacks (0x2000 + word_of_int byte) 16 ?e of
      (v, e1) \<Rightarrow> (word_of_int src AND (word_of_int 16 - 1), 0x2000 + word_of_int byte, v, e1))" "src = - 3"
    "8 * byte + uint ((word_of_int src :: u64) AND (word_of_int 16 - 1)) = src"
    using bit_tests_address_bit_string [of ?i 16 demo_callbacks ?e] by (auto simp: r s modrm_mod_def Let_def)
  have "uint ((word_of_int (- 3) :: u64) AND (word_of_int 16 - 1)) = 13" by code_simp
  moreover have "fst (bt_target demo_callbacks ?j rep_engine) = 4"
    using bit_tests_address_bit_string [of ?j 16 demo_callbacks rep_engine] by (simp add: modrm_mod_def split: prod.splits)
  ultimately show ?thesis using b by (intro conjI exI [of _ byte]) (simp_all split: prod.splits)
qed

lemma narrow_inj: "(ucast (x :: u32) :: u64) = ucast y \<longleftrightarrow> x = y" "(ucast (h :: u16) :: u64) = ucast k \<longleftrightarrow> h = k"
proof -
  have "ucast (ucast x :: u64) = x" "ucast (ucast h :: u64) = h" for x :: u32 and h :: u16
    by (rule bit_word_eqI, auto simp: bit_simps dest: bit_imp_le_length)+
  then show "(ucast x :: u64) = ucast y \<longleftrightarrow> x = y" "(ucast h :: u64) = ucast k \<longleftrightarrow> h = k" by metis+
qed

text \<open>
  BSWAP and MOVBE reverse the bytes of the operand, so swapping twice gives the operand back.
\<close>

theorem byte_swaps_reverse:
  "byteswap64_bswap v = swapped_bytes 8 v \<and> byteswap64_bswap (byteswap64_bswap v) = v \<and>
   ucast (byteswap32_bswap w) = swapped_bytes 4 (ucast w) \<and> byteswap32_bswap (byteswap32_bswap w) = w \<and>
   ucast (movbe_swap16 h) = swapped_bytes 2 (ucast h) \<and> movbe_swap16 (movbe_swap16 h) = h \<and>
   movbe_swap 16 v = swapped_bytes 2 (take_bit 16 v) \<and> movbe_swap 32 v = swapped_bytes 4 (take_bit 32 v) \<and>
   movbe_swap 64 v = swapped_bytes 8 v"
proof -
  have t: "take_bit 32 (ucast w :: u64) = ucast w" "take_bit 16 (ucast h :: u64) = ucast h" "take_bit 64 v = v"
    by (rule bit_word_eqI, auto simp: bit_simps dest: bit_imp_le_length)+
  have "ucast (byteswap32_bswap (byteswap32_bswap w)) = (ucast w :: u64)"
    using swapped_bytes_twice [of 4 "ucast w"] by (simp add: byteswap32_swaps t)
  moreover have "ucast (movbe_swap16 (movbe_swap16 h)) = (ucast h :: u64)"
    using swapped_bytes_twice [of 2 "ucast h"] by (simp add: swap16 t)
  moreover have "byteswap64_bswap (byteswap64_bswap v) = v"
    using swapped_bytes_twice [of 8 v] by (simp add: byteswap64_swaps t)
  ultimately show ?thesis
    using movbe_swaps [of 16 v] movbe_swaps [of 32 v] movbe_swaps [of 64 v]
    unfolding narrow_inj by (simp add: byteswap64_swaps byteswap32_swaps swap16 t)
qed

text \<open>
  The checksum of CRC32 is linear over exclusive or, at every operand width, and one byte with its top
  bit set gives the reflected Castagnoli polynomial.
\<close>

theorem crc_is_linear:
  "crc32c_accumulate_value (a XOR b) (v XOR w) n = crc32c_accumulate_value a v n XOR crc32c_accumulate_value b w n \<and>
   crc32c_accumulate_byte 0 0x80 = 0x82F63B78"
  using crc_value_linear crc_check by simp

end
