(* ===== verification/Spec2Isabelle.thy ===== *)
theory Spec2Isabelle
  imports PropsDecoder PropsStrings
begin

text \<open>
  \<^bold>\<open>A model of the cpueaxh x86-64 emulator\<close>

  The program is an engine that runs x86-64 machine code from guest memory. A caller opens an engine,
  maps memory, writes registers and calls \<^verbatim>\<open>cpueaxh_emu_start\<close>. The engine then fetches, decodes and
  executes one instruction after another, calls the caller's hooks and escapes, and stops at an
  address, after a number of steps, on request or at a CPU exception. The paths below are relative to
  \<^verbatim>\<open>src/cpueaxh/\<close>.

  \<^bold>\<open>Theories and code\<close>

  \<^item> \<open>Prelude\<close>: shared collections of facts, little-endian bytes, word and list lemmas.
  \<^item> \<open>Host\<close> (\<^verbatim>\<open>cpueaxh_platform.hpp\<close>): the host heap as an explicit store with live blocks; allocation may
    fail, pointers are 64-bit addresses, address 0 is null.
  \<^item> \<open>Regions\<close>, \<open>Patches\<close>, \<open>PageCache\<close> (\<^verbatim>\<open>memory/manager.hpp\<close>): the table of mapped regions with its binary
    search, mapping, unmapping, protection and attributes; byte patches laid over memory; the page
    cache and the checked accesses. \<open>RegionSpec\<close> gives the abstract page map and the locale
    \<open>region_rewrite\<close> of the three operations that rewrite a range, and \<open>MemInvariant\<close> the step relation of
    a manager, where every call is a step with whatever arguments, and the invariant of its reachable states.
    Addresses are compared as the code compares them, in words: the end of a region up to \<open>2 ^ 64\<close> is 0, and
    such a region contains no address.
  \<^item> \<open>Cpu\<close> (\<^verbatim>\<open>cpu/def.h\<close>, \<^verbatim>\<open>cpu/init.hpp\<close>): the CPU context as a record, exceptions, snapshots, modes and
    canonical addresses. \<open>Calc\<close> (\<^verbatim>\<open>cpu/calc.hpp\<close>): the flag updates at each width and their arithmetic
    meaning.
  \<^item> \<open>InstCache\<close> (\<^verbatim>\<open>cpu/decoded.hpp\<close>, \<^verbatim>\<open>cpu/inst_cache.hpp\<close>): decoded instructions, the direct-mapped cache
    keyed by address, code version and mode key.
  \<^item> \<open>Engine\<close> (\<^verbatim>\<open>cpueaxh.cpp\<close>): the engine record, the hook table with its counts and dispatch, the escape
    table with its index. Callbacks of the caller are the record \<open>callbacks\<close>, a parameter: each may
    change the whole engine.
  \<^item> \<open>CpuMemory\<close> (\<^verbatim>\<open>cpu/memory.hpp\<close>): resolving a guest access with page faults and invalid-access hooks,
    contiguous pointers, reads and writes, atomic read-modify-write. \<open>CpuMemorySpec\<close> gives the byte-wise
    specification \<open>grant\<close> and the behaviour of every access against it.
  \<^item> \<open>Helper\<close> (\<^verbatim>\<open>cpu/helper.hpp\<close>): segment loading, control registers, effective addresses, partial and
    vector registers, the stack. \<open>HelperSpec\<close> has their lemmas.
  \<^item> \<open>Dispatch\<close> (\<^verbatim>\<open>cpu/dispatch_helpers.hpp\<close>, \<^verbatim>\<open>cpu/decoder.hpp\<close>, \<^verbatim>\<open>cpueaxh.cpp\<close>): opcode peeking, ModRM decoding,
    escape classification, the instructions the decoder marks as unable to fault.
  \<^item> \<open>Executor\<close> (\<^verbatim>\<open>cpu/executor.hpp\<close>): fetch, inline returns and jumps, snapshots and their restoration, a
    step with and without a cache hit, the run loop. What calling a function pointer does is the record
    \<open>instruction_set\<close>, a parameter. \<open>ExecutorSpec\<close> has its lemmas.
  \<^item> \<open>ApiRegs\<close>, \<open>Api\<close> (\<^verbatim>\<open>cpueaxh.cpp\<close>, \<^verbatim>\<open>cpueaxh.hpp\<close>): register and context transfer, memory calls, exceptions,
    and the two run loops of \<^verbatim>\<open>cpueaxh_emu_start\<close>.
  \<^item> \<open>Operand\<close> (\<^verbatim>\<open>instructions/\<close>): what the instruction files share: the prefix loop, the parts of a decoder,
    register and memory operands, and the entry points of a handler. \<open>Replay\<close> (\<^verbatim>\<open>cpu/decoder.hpp\<close>): probing
    a decoder and attaching a fast handler, with the locales \<open>decode_step\<close>, \<open>prefix_reader\<close>,
    \<open>opened_decoder\<close> and \<open>replayable\<close>, the contracts of the parts of a decoder and of the whole.
  \<^item> \<open>Alu\<close> (ADD, SUB, AND), \<open>Logic\<close> (OR, XOR), \<open>Carry\<close> (ADC, SBB), \<open>Compare\<close> (CMP, TEST), \<open>Unary\<close> (INC, DEC,
    NEG, NOT), \<open>MulDiv\<close> (MUL, IMUL, DIV, IDIV and the 128-bit divisions of \<^verbatim>\<open>cpueaxh_platform.hpp\<close>; which of the
    two a build uses, the intrinsic or the bitwise loop, is the argument \<open>udiv128_build\<close>), \<open>Shift\<close>
    (shifts, rotations, SHLD, SHRD), \<open>Condition\<close> (Jcc, SETcc, CMOVcc), \<open>Move\<close> (MOV, MOVSX, MOVZX, MOVSXD, LEA),
    \<open>Exchange\<close> (XCHG, XADD, CMPXCHG, CMPXCHG8B/16B), \<open>Stack\<close> (PUSH, POP, PUSHF, POPF, ENTER, LEAVE), \<open>Control\<close>
    (JMP, CALL, RET, IRET, LAHF, SAHF, flag instructions, CBW, CDQ), \<open>Strings\<close> (MOVS, CMPS, STOS, LODS, SCAS
    and REP), \<open>Bits\<close> (scans, bit tests, BSWAP, POPCNT, CRC32, MOVBE, XLAT, NOP, PAUSE, ENDBR): one file of
    \<^verbatim>\<open>instructions/\<close> after the other, with decoder, every operand form and width, LOCK forms and entry
    points; each decoder interprets the locales of \<open>Replay\<close>. \<open>MulDivSpec\<close>, \<open>ShiftSpec\<close>, \<open>ConditionSpec\<close>,
    \<open>StringSpec\<close> and \<open>BitsSpec\<close> hold the arithmetic meaning of their instructions.
  \<^item> \<open>Decoder\<close> (\<^verbatim>\<open>cpu/decoder.hpp\<close>): \<^verbatim>\<open>cpu_decode_instruction\<close> as a whole: the dispatch ladder over one, two and
    three opcode bytes, the VEX interception, the inline forms, attaching a fast handler from the table,
    the branch, no-fault and vector-snapshot flags. A handler is a value of \<open>handler_fn\<close>, one constructor
    per family of instruction files. The record \<open>image\<close> gives the address at which each handler lies in
    the binary, and the decoders of the instructions that are not modelled; both are parameters.
    \<open>DecoderSpec\<close> has its lemmas: the flags, what is attached, and that an attached handler replays.

  \<^bold>\<open>What is shown\<close>

  \<open>PropsDecoder\<close> (C1--C6): the decoder composed with the handlers and with the executor. For 45 of the
  handlers, those whose fast version is faithful in every state of the same mode, an entry with that handler
  and its fast version replays what decoding and executing the bytes does. The flags of an entry tell the
  executor the truth about faults and vector state, and for one-byte opcodes about branches; the one family that gets
  no handler at all is \<^verbatim>\<open>0F 1E\<close>. The choice of
  a handler depends on the bytes and the mode key only.
  \<open>PropsMemory\<close> (C7--C13): the region table is a correct implementation of a page map, for every range the
  code accepts; ranges up to the end of the address space are mapped without effect, and the theorems say so.
  Its invariant holds in every reachable state, the page cache never changes an answer.
  \<open>PropsCpu\<close> (C14--C23): flags, faults, all-or-nothing writes, reading back, atomic operations, the stack,
  segment loads and effective addresses.
  \<open>PropsEngine\<close> (C24--C25): hook dispatch and the instruction cache.
  \<open>PropsExecutor\<close> (C26--C29): exceptions are precise, what a fetch before a refused page does, limited
  runs return within their number of steps, registers read back.
  \<open>PropsInsns\<close> (C30--C36): division, multiplication and shifts are those of arithmetic; conditions after
  a comparison decide the order of the operands; the inline jumps of the executor are those of the
  handler. Its lemmas on fast handlers are the cases of C1.
  \<open>PropsStrings\<close> (C37--C40): which handlers with a source segment replay faithfully, repetition is
  restartable, scans and bit strings.

  \<^bold>\<open>Errors, loops and bounds\<close>

  Every failing return of the code is a value: an error number, \<open>None\<close>, or a pending exception in the
  context. Loops with a bound are structural or have a measure. Three may run forever and are
  \<^verbatim>\<open>partial_function (option)\<close>: the unlimited runs, the retry of a split access with a hook, and the
  compare-exchange loop of an atomic operation; that they return is proved where it is so. Machine
  integers are words of their width; \<^verbatim>\<open>int\<close> values of the code that stay small are \<open>int\<close>.

  \<^bold>\<open>Not modelled\<close>

  The handlers of the instructions not named above: the system instructions, BMI, x87, SSE, AVX and the
  cryptographic extensions (the decoder selects them, what they do is a parameter);
  the host bridge (assembly), compiler intrinsics and operating-system services; statistics that
  exist in instrumented builds only; concurrent threads on one engine; a callback that runs the
  engine recursively while a cache slot is in use. Tests, examples, the kernel build and tools hold no
  logic of the emulator.
\<close>

end
